(* ===== verification/Prelude.thy ===== *)
theory Prelude
  imports Main "HOL-Library.Word" "HOL-Library.Monad_Syntax"
begin

unbundle bit_operations_syntax

text \<open>
  Shared vocabulary of the development: the machine integers of the C code, little-endian
  encoding of 16 and 32 bit values, bounds-checked access to byte arrays, and the calculus
  of total correctness (\<open>ok\<close>) in which the operations are verified.

  Operations of the stack are functions in the option monad with the state passed
  explicitly; \<open>None\<close> stands for an execution that does not return normally, because a
  wait loop never ends or because an array or pointer is accessed out of range.
\<close>

section \<open>Machine integers\<close>

type_synonym u8 = "8 word"
type_synonym u16 = "16 word"
type_synonym u32 = "32 word"
type_synonym u64 = "64 word"
type_synonym bytes = "u8 list"

text \<open>Conversions to a narrower or wider unsigned type, as the C casts make them.\<close>

abbreviation (input) to_u8 :: "'a::len word \<Rightarrow> u8" where "to_u8 \<equiv> ucast"
abbreviation (input) to_u16 :: "'a::len word \<Rightarrow> u16" where "to_u16 \<equiv> ucast"
abbreviation (input) to_u32 :: "'a::len word \<Rightarrow> u32" where "to_u32 \<equiv> ucast"
abbreviation (input) to_u64 :: "'a::len word \<Rightarrow> u64" where "to_u64 \<equiv> ucast"

lemma unat_bound: "unat w < 2 ^ LENGTH('a)" for w :: "'a::len word"
  by (rule unsigned_less)

lemma unat_widen [simp]:
  "unat (to_u16 (x :: u8)) = unat x" "unat (to_u32 (x :: u8)) = unat x"
  "unat (to_u32 (y :: u16)) = unat y" "unat (to_u64 (z :: u32)) = unat z"
  using unsigned_less [of x] unsigned_less [of y] unsigned_less [of z]
  by (simp_all add: unsigned_ucast_eq take_bit_nat_eq_self_iff order_less_le_trans [OF unsigned_less])

lemma unat_narrow [simp]:
  "unat (to_u8 (y :: u16)) = unat y mod 256" "unat (to_u8 (z :: u32)) = unat z mod 256"
  "unat (to_u16 (z :: u32)) = unat z mod 65536"
  by (simp_all add: unsigned_ucast_eq take_bit_eq_mod)

lemma narrow_widen [simp]:
  "to_u8 (to_u16 (x :: u8)) = x" "to_u8 (to_u32 (x :: u8)) = x" "to_u16 (to_u32 (y :: u16)) = y"
  using unat_bound [of x] unat_bound [of y] by (simp_all add: word_unat_eq_iff)

lemma unat_add_one: "unat w + 1 < 2 ^ LENGTH('a) \<Longrightarrow> unat (w + 1) = unat w + 1" for w :: "'a::len word"
  by (simp add: unat_word_ariths)

text \<open>\<open>htoes\<close>, \<open>htoel\<close> and the packed structs: values travel little-endian.\<close>

definition le16 :: "u16 \<Rightarrow> bytes" where
  "le16 w = [to_u8 w, to_u8 (drop_bit 8 w)]"

definition le32 :: "u32 \<Rightarrow> bytes" where
  "le32 w = [to_u8 w, to_u8 (drop_bit 8 w), to_u8 (drop_bit 16 w), to_u8 (drop_bit 24 w)]"

fun rd16 :: "bytes \<Rightarrow> u16" where
  "rd16 (a # b # _) = to_u16 a OR push_bit 8 (to_u16 b)"
| "rd16 _ = 0"

fun rd32 :: "bytes \<Rightarrow> u32" where
  "rd32 (a # b # c # d # _) =
     to_u32 a OR push_bit 8 (to_u32 b) OR push_bit 16 (to_u32 c) OR push_bit 24 (to_u32 d)"
| "rd32 _ = 0"

lemma length_le16 [simp]: "length (le16 w) = 2"
  by (simp add: le16_def)

lemma length_le32 [simp]: "length (le32 w) = 4"
  by (simp add: le32_def)

lemma rd16_le16 [simp]: "rd16 (le16 w @ r) = w"
  by (simp add: le16_def) (rule bit_word_eqI, auto simp: bit_simps)

lemma rd16_le16' [simp]: "rd16 (le16 w) = w"
  using rd16_le16 [of w "[]"] by simp

lemma rd32_le32 [simp]: "rd32 (le32 w @ r) = w"
proof -
  have "bit w n \<Longrightarrow> \<not> n < 8 \<Longrightarrow> \<not> n - 8 < 8 \<Longrightarrow> \<not> bit w (24 + (n - 24)) \<Longrightarrow> n - 16 < 8" for n
    by (cases "n < 24") auto
  then show ?thesis
    by (simp add: le32_def) (rule bit_word_eqI, auto simp: bit_simps)
qed

lemma rd32_le32' [simp]: "rd32 (le32 w) = w"
  using rd32_le32 [of w "[]"] by simp

section \<open>Total correctness of partial operations\<close>

text \<open>
  \<open>ok P m\<close>: the operation returns, and its result satisfies \<open>P\<close>. The rules that verify an
  operation of the model are collected in \<open>wp\<close>; each concludes \<open>ok Q (f \<dots>)\<close> for an
  arbitrary postcondition \<open>Q\<close>, so that \<open>auto intro!: wp\<close> executes a body symbolically.
\<close>

definition ok :: "('a \<Rightarrow> bool) \<Rightarrow> 'a option \<Rightarrow> bool" where
  "ok P m = (case m of None \<Rightarrow> False | Some x \<Rightarrow> P x)"

named_theorems wp \<open>verification rules: ok Q (operation)\<close>
named_theorems frame \<open>facts that say which fields an operation leaves unchanged\<close>

lemma ok_Some [simp]: "ok P (Some x) \<longleftrightarrow> P x"
  by (simp add: ok_def)

lemma ok_None [simp]: "\<not> ok P None"
  by (simp add: ok_def)

lemma ok_bind [simp]: "ok P (Option.bind m f) \<longleftrightarrow> ok (\<lambda>x. ok P (f x)) m"
  by (cases m) auto

lemma ok_map_option [simp]: "ok P (map_option f m) \<longleftrightarrow> ok (\<lambda>x. P (f x)) m"
  by (cases m) auto

lemma ok_mono: "ok P m \<Longrightarrow> (\<And>x. P x \<Longrightarrow> Q x) \<Longrightarrow> ok Q m"
  by (cases m) auto

lemma ok_bindI: "ok R m \<Longrightarrow> (\<And>x. R x \<Longrightarrow> ok Q (f x)) \<Longrightarrow> ok Q (Option.bind m f)"
  by (cases m) auto

lemma ok_ifI: "(b \<Longrightarrow> ok P m) \<Longrightarrow> (\<not> b \<Longrightarrow> ok P n) \<Longrightarrow> ok P (if b then m else n)"
  by simp

lemma ok_conj: "ok P m \<Longrightarrow> ok Q m \<Longrightarrow> ok (\<lambda>x. P x \<and> Q x) m"
  by (cases m) auto

lemma ok_ex: "ok P m \<longleftrightarrow> (\<exists>x. m = Some x \<and> P x)"
  by (cases m) auto

lemma okE: "ok P m \<Longrightarrow> (\<And>x. m = Some x \<Longrightarrow> P x \<Longrightarrow> thesis) \<Longrightarrow> thesis"
  by (auto simp: ok_ex)

lemma ok_SomeD: "ok P m \<Longrightarrow> m = Some x \<Longrightarrow> P x"
  by simp

lemma ok_if [simp]: "ok P (if b then m else n) \<longleftrightarrow> (if b then ok P m else ok P n)"
  by simp

lemma ok_prod [simp]: "ok P (case x of (a, b) \<Rightarrow> f a b) \<longleftrightarrow> (case x of (a, b) \<Rightarrow> ok P (f a b))"
  by (simp add: case_prod_beta)

lemma ok_Let [simp]: "ok P (Let x f) \<longleftrightarrow> (let y = x in ok P (f y))"
  by simp

text \<open>A \<open>let\<close> of a body names an updated state; proofs see through it.\<close>

declare Let_def [simp]

section \<open>Byte arrays\<close>

text \<open>
  Bounds-checked reads and writes of a byte array: outside the array the access is
  \<open>None\<close>, as the C access would be undefined.
\<close>

definition get_bytes :: "nat \<Rightarrow> nat \<Rightarrow> bytes \<Rightarrow> bytes option" where
  "get_bytes off n m = (if off + n \<le> length m then Some (take n (drop off m)) else None)"

definition put_bytes :: "nat \<Rightarrow> bytes \<Rightarrow> bytes \<Rightarrow> bytes option" where
  "put_bytes off bs m =
     (if off + length bs \<le> length m then Some (take off m @ bs @ drop (off + length bs) m)
      else None)"

lemma put_bytes_length: "put_bytes off bs m = Some m' \<Longrightarrow> length m' = length m"
  by (auto simp: put_bytes_def split: if_splits)

lemma get_bytes_length: "get_bytes off n m = Some bs \<Longrightarrow> length bs = n"
  by (auto simp: get_bytes_def split: if_splits)

lemma get_put_same: "put_bytes off bs m = Some m' \<Longrightarrow> get_bytes off (length bs) m' = Some bs"
  by (auto simp: put_bytes_def get_bytes_def split: if_splits)

lemma put_bytes_nth:
  "put_bytes off bs m = Some m' \<Longrightarrow> i < length m \<Longrightarrow>
     m' ! i = (if off \<le> i \<and> i < off + length bs then bs ! (i - off) else m ! i)"
  by (auto simp: put_bytes_def nth_append split: if_splits)

lemma get_bytes_nth:
  "get_bytes off n m = Some bs \<Longrightarrow> i < n \<Longrightarrow> bs ! i = m ! (off + i)"
  by (auto simp: get_bytes_def split: if_splits)

lemma get_put_disjoint:
  assumes put: "put_bytes off bs m = Some m'" and dis: "o2 + n \<le> off \<or> off + length bs \<le> o2"
  shows "get_bytes o2 n m' = get_bytes o2 n m"
proof (cases "o2 + n \<le> length m")
  case False
  with put_bytes_length [OF put] show ?thesis by (simp add: get_bytes_def)
next
  case True
  have "take n (drop o2 m') = take n (drop o2 m)"
    by (rule nth_equalityI) (use True put dis put_bytes_length [OF put] in \<open>auto simp: put_bytes_nth\<close>)
  with True put_bytes_length [OF put] show ?thesis by (simp add: get_bytes_def)
qed

lemma put_put_same:
  "put_bytes off bs m = Some m' \<Longrightarrow> length bs' = length bs \<Longrightarrow>
     put_bytes off bs' m' = put_bytes off bs' m"
  by (auto simp: put_bytes_def split: if_splits)

text \<open>
  The contract of a byte store, as a client sees it: what is written is read back, what
  lies elsewhere is untouched, and a write does not change where later accesses are valid.
\<close>

locale byte_store =
  fixes rd :: "nat \<Rightarrow> nat \<Rightarrow> 'm \<Rightarrow> bytes option"
    and wr :: "nat \<Rightarrow> bytes \<Rightarrow> 'm \<Rightarrow> 'm option"
    and size_of :: "'m \<Rightarrow> nat"
  assumes rd_bounds: "(rd off n m \<noteq> None) = (off + n \<le> size_of m)"
    and wr_bounds: "(wr off bs m \<noteq> None) = (off + length bs \<le> size_of m)"
    and rd_wr_same: "wr off bs m = Some m' \<Longrightarrow> rd off (length bs) m' = Some bs"
    and rd_wr_other: "wr off bs m = Some m' \<Longrightarrow> o2 + n \<le> off \<or> off + length bs \<le> o2 \<Longrightarrow>
           rd o2 n m' = rd o2 n m"
    and wr_size: "wr off bs m = Some m' \<Longrightarrow> size_of m' = size_of m"
begin

lemma wr_ok: "off + length bs \<le> size_of m \<Longrightarrow>
    ok (\<lambda>m'. size_of m' = size_of m \<and> rd off (length bs) m' = Some bs) (wr off bs m)"
  using wr_bounds [of off bs m] by (cases "wr off bs m") (auto simp: rd_wr_same wr_size)

text \<open>Two writes to disjoint areas can both be read back, whatever their order.\<close>

lemma two_writes:
  assumes "wr o1 b1 m = Some m1" and "wr o2 b2 m1 = Some m2"
    and "o1 + length b1 \<le> o2 \<or> o2 + length b2 \<le> o1"
  shows "rd o1 (length b1) m2 = Some b1" and "rd o2 (length b2) m2 = Some b2"
proof -
  have "rd o1 (length b1) m2 = rd o1 (length b1) m1"
    using assms(2,3) by (auto intro: rd_wr_other)
  with assms(1) show "rd o1 (length b1) m2 = Some b1"
    by (simp add: rd_wr_same)
  from assms(2) show "rd o2 (length b2) m2 = Some b2"
    by (rule rd_wr_same)
qed

end

interpretation bs: byte_store get_bytes put_bytes length
proof
  show "(get_bytes off n m \<noteq> None) = (off + n \<le> length m)" for off n m
    by (simp add: get_bytes_def)
  show "(put_bytes off bs m \<noteq> None) = (off + length bs \<le> length m)" for off bs m
    by (simp add: put_bytes_def)
qed (fact get_put_same get_put_disjoint put_bytes_length)+

lemma wp_put_bytes [wp]:
  "off + length bs \<le> length m \<Longrightarrow>
     (\<And>m'. put_bytes off bs m = Some m' \<Longrightarrow> length m' = length m \<Longrightarrow> Q m') \<Longrightarrow>
     ok Q (put_bytes off bs m)"
  using bs.wr_bounds [of off bs m] by (cases "put_bytes off bs m") (auto dest: put_bytes_length)

lemma wp_get_bytes [wp]:
  "off + n \<le> length m \<Longrightarrow>
     (\<And>bs. get_bytes off n m = Some bs \<Longrightarrow> length bs = n \<Longrightarrow> Q bs) \<Longrightarrow>
     ok Q (get_bytes off n m)"
  using bs.rd_bounds [of off n m] by (cases "get_bytes off n m") (auto simp: get_bytes_length)

end
