(* ===== verification/Esc_State.thy ===== *)
theory Esc_State
  imports Prelude
begin

text \<open>
  The data of the slave stack: the compile-time options (\<open>options.h\<close>), the register and
  code constants of \<open>esc.h\<close>, the object dictionary types of \<open>esc_coe.h\<close>, the global
  variables of the stack (\<open>_ESCvar ESCvar\<close> and the file-level statics) as one record, and
  the interface to code outside the stack: the hardware layer \<open>ESC_read\<close>/\<open>ESC_write\<close> and
  the application's callbacks, collected in the record \<open>env\<close>.
\<close>

section \<open>Compile-time options\<close>

record options =
  USE_FOE :: bool
  FOE_READ_SUPPORTED :: bool
  USE_EOE :: bool
  MBXSIZE :: nat
  MBXSIZEBOOT :: nat
  MBXBUFFERS :: nat
  PREALLOC_FACTOR :: nat
  MBX0_sma :: nat
  MBX0_sml :: nat
  MBX0_sme :: nat
  MBX0_smc :: nat
  MBX1_sma :: nat
  MBX1_sml :: nat
  MBX1_sme :: nat
  MBX1_smc :: nat
  MBX0_sma_b :: nat
  MBX0_sml_b :: nat
  MBX0_sme_b :: nat
  MBX0_smc_b :: nat
  MBX1_sma_b :: nat
  MBX1_sml_b :: nat
  MBX1_sme_b :: nat
  MBX1_smc_b :: nat
  SM2_sma :: nat
  SM2_smc :: u8
  SM2_act :: u8
  SM3_sma :: nat
  SM3_smc :: u8
  SM3_act :: u8
  DLSTATUS_WAIT_RETRIES :: nat
  MAX_MAPPINGS_SM2 :: nat
  MAX_MAPPINGS_SM3 :: nat
  MAX_RXPDO_SIZE :: nat
  MAX_TXPDO_SIZE :: nat

text \<open>
  The defaults that \<open>options.h\<close> gives when \<open>ecat_options.h\<close> overrides nothing, and
  \<open>FOE_READ_SUPPORTED\<close> as \<open>esc_foe.c\<close> leaves it, undefined.
\<close>

definition default_options :: options where
  "default_options = \<lparr>
     USE_FOE = True, FOE_READ_SUPPORTED = False, USE_EOE = True,
     MBXSIZE = 128, MBXSIZEBOOT = 128, MBXBUFFERS = 3, PREALLOC_FACTOR = 3,
     MBX0_sma = 0x1000, MBX0_sml = 128, MBX0_sme = 0x1000 + 128 - 1, MBX0_smc = 0x26,
     MBX1_sma = 0x1000 + 128, MBX1_sml = 128, MBX1_sme = 0x1000 + 128 + 128 - 1, MBX1_smc = 0x22,
     MBX0_sma_b = 0x1000, MBX0_sml_b = 128, MBX0_sme_b = 0x1000 + 128 - 1, MBX0_smc_b = 0x26,
     MBX1_sma_b = 0x1000 + 128, MBX1_sml_b = 128, MBX1_sme_b = 0x1000 + 128 + 128 - 1,
     MBX1_smc_b = 0x22,
     SM2_sma = 0x1100, SM2_smc = 0x24, SM2_act = 1,
     SM3_sma = 0x1180, SM3_smc = 0x20, SM3_act = 1,
     DLSTATUS_WAIT_RETRIES = 100000,
     MAX_MAPPINGS_SM2 = 16, MAX_MAPPINGS_SM3 = 16,
     MAX_RXPDO_SIZE = 128, MAX_TXPDO_SIZE = 128 \<rparr>"

section \<open>Constants of \<open>esc.h\<close>\<close>

subsection \<open>Registers\<close>

abbreviation (input) ESCREG_ADDRESS :: u16 where "ESCREG_ADDRESS \<equiv> 0x0010"
abbreviation (input) ESCREG_CONF_STATION_ALIAS :: u16 where "ESCREG_CONF_STATION_ALIAS \<equiv> 0x0012"
abbreviation (input) ESCREG_DLSTATUS :: u16 where "ESCREG_DLSTATUS \<equiv> 0x0110"
abbreviation (input) ESCREG_ALCONTROL :: u16 where "ESCREG_ALCONTROL \<equiv> 0x0120"
abbreviation (input) ESCREG_ALSTATUS :: u16 where "ESCREG_ALSTATUS \<equiv> 0x0130"
abbreviation (input) ESCREG_ALERROR :: u16 where "ESCREG_ALERROR \<equiv> 0x0134"
abbreviation (input) ESCREG_ALEVENTMASK :: u16 where "ESCREG_ALEVENTMASK \<equiv> 0x0204"
abbreviation (input) ESCREG_ALEVENT :: u16 where "ESCREG_ALEVENT \<equiv> 0x0220"
abbreviation (input) ESCREG_WDDIVIDER :: u16 where "ESCREG_WDDIVIDER \<equiv> 0x0400"
abbreviation (input) ESCREG_WDTIMEPDATA :: u16 where "ESCREG_WDTIMEPDATA \<equiv> 0x0420"
abbreviation (input) ESCREG_WDSTATUS :: u16 where "ESCREG_WDSTATUS \<equiv> 0x0440"
abbreviation (input) ESCREG_EECONTSTAT :: u16 where "ESCREG_EECONTSTAT \<equiv> 0x0502"
abbreviation (input) ESCREG_EEDATA :: u16 where "ESCREG_EEDATA \<equiv> 0x0508"
abbreviation (input) ESCREG_SM0 :: u16 where "ESCREG_SM0 \<equiv> 0x0800"
abbreviation (input) ESCREG_SM0STATUS :: u16 where "ESCREG_SM0STATUS \<equiv> 0x0805"
abbreviation (input) ESCREG_SM0ACTIVATE :: u16 where "ESCREG_SM0ACTIVATE \<equiv> 0x0806"
abbreviation (input) ESCREG_SM0PDI :: u16 where "ESCREG_SM0PDI \<equiv> 0x0807"
abbreviation (input) ESCREG_SM1 :: u16 where "ESCREG_SM1 \<equiv> 0x0808"
abbreviation (input) ESCREG_SM2 :: u16 where "ESCREG_SM2 \<equiv> 0x0810"
abbreviation (input) ESCREG_SM3 :: u16 where "ESCREG_SM3 \<equiv> 0x0818"
abbreviation (input) ESCREG_SYNC_ACT :: u16 where "ESCREG_SYNC_ACT \<equiv> 0x0981"
abbreviation (input) ESCREG_SYNC0_STATUS :: u16 where "ESCREG_SYNC0_STATUS \<equiv> 0x098E"
abbreviation (input) ESCREG_SYNC0_CYCLE_TIME :: u16 where "ESCREG_SYNC0_CYCLE_TIME \<equiv> 0x09A0"
abbreviation (input) ESCREG_SYNC1_CYCLE_TIME :: u16 where "ESCREG_SYNC1_CYCLE_TIME \<equiv> 0x09A4"

subsection \<open>Register bits and masks\<close>

abbreviation (input) ESCREG_ALEVENT_CONTROL :: u32 where "ESCREG_ALEVENT_CONTROL \<equiv> 0x0001"
abbreviation (input) ESCREG_ALEVENT_DC_SYNC0 :: u32 where "ESCREG_ALEVENT_DC_SYNC0 \<equiv> 0x0004"
abbreviation (input) ESCREG_ALEVENT_SMCHANGE :: u32 where "ESCREG_ALEVENT_SMCHANGE \<equiv> 0x0010"
abbreviation (input) ESCREG_ALEVENT_EEP :: u32 where "ESCREG_ALEVENT_EEP \<equiv> 0x0020"
abbreviation (input) ESCREG_ALEVENT_SM0 :: u32 where "ESCREG_ALEVENT_SM0 \<equiv> 0x0100"
abbreviation (input) ESCREG_ALEVENT_SM1 :: u32 where "ESCREG_ALEVENT_SM1 \<equiv> 0x0200"
abbreviation (input) ESCREG_ALEVENT_SM2 :: u32 where "ESCREG_ALEVENT_SM2 \<equiv> 0x0400"
abbreviation (input) ESCREG_ALEVENT_SM3 :: u32 where "ESCREG_ALEVENT_SM3 \<equiv> 0x0800"
abbreviation (input) ESCREG_WDSTATUS_OK :: u8 where "ESCREG_WDSTATUS_OK \<equiv> 0x01"
abbreviation (input) ESCREG_SYNC_ACT_ACTIVATED :: u8 where "ESCREG_SYNC_ACT_ACTIVATED \<equiv> 0x01"
abbreviation (input) ESCREG_SYNC_AUTO_ACTIVATED :: u8 where "ESCREG_SYNC_AUTO_ACTIVATED \<equiv> 0x08"
abbreviation (input) ESCREG_SMENABLE_BIT :: u8 where "ESCREG_SMENABLE_BIT \<equiv> 0x01"
abbreviation (input) ESCREG_AL_STATEMASK :: u8 where "ESCREG_AL_STATEMASK \<equiv> 0x1f"
abbreviation (input) ESCREG_AL_ALLBUTINITMASK :: u8 where "ESCREG_AL_ALLBUTINITMASK \<equiv> 0x0e"
abbreviation (input) ESCREG_AL_ERRACKMASK :: u8 where "ESCREG_AL_ERRACKMASK \<equiv> 0x0f"
abbreviation (input) ESCREG_AL_ID_REQUEST :: u8 where "ESCREG_AL_ID_REQUEST \<equiv> 0x20"

subsection \<open>AL states, transitions and status codes\<close>

abbreviation (input) ESCinit :: u8 where "ESCinit \<equiv> 0x01"
abbreviation (input) ESCpreop :: u8 where "ESCpreop \<equiv> 0x02"
abbreviation (input) ESCboot :: u8 where "ESCboot \<equiv> 0x03"
abbreviation (input) ESCsafeop :: u8 where "ESCsafeop \<equiv> 0x04"
abbreviation (input) ESCop :: u8 where "ESCop \<equiv> 0x08"
abbreviation (input) ESCerror :: u8 where "ESCerror \<equiv> 0x10"

abbreviation (input) INIT_TO_INIT :: u8 where "INIT_TO_INIT \<equiv> 0x11"
abbreviation (input) INIT_TO_PREOP :: u8 where "INIT_TO_PREOP \<equiv> 0x21"
abbreviation (input) INIT_TO_BOOT :: u8 where "INIT_TO_BOOT \<equiv> 0x31"
abbreviation (input) INIT_TO_SAFEOP :: u8 where "INIT_TO_SAFEOP \<equiv> 0x41"
abbreviation (input) INIT_TO_OP :: u8 where "INIT_TO_OP \<equiv> 0x81"
abbreviation (input) PREOP_TO_INIT :: u8 where "PREOP_TO_INIT \<equiv> 0x12"
abbreviation (input) PREOP_TO_PREOP :: u8 where "PREOP_TO_PREOP \<equiv> 0x22"
abbreviation (input) PREOP_TO_BOOT :: u8 where "PREOP_TO_BOOT \<equiv> 0x32"
abbreviation (input) PREOP_TO_SAFEOP :: u8 where "PREOP_TO_SAFEOP \<equiv> 0x42"
abbreviation (input) PREOP_TO_OP :: u8 where "PREOP_TO_OP \<equiv> 0x82"
abbreviation (input) BOOT_TO_INIT :: u8 where "BOOT_TO_INIT \<equiv> 0x13"
abbreviation (input) BOOT_TO_PREOP :: u8 where "BOOT_TO_PREOP \<equiv> 0x23"
abbreviation (input) BOOT_TO_BOOT :: u8 where "BOOT_TO_BOOT \<equiv> 0x33"
abbreviation (input) BOOT_TO_SAFEOP :: u8 where "BOOT_TO_SAFEOP \<equiv> 0x43"
abbreviation (input) BOOT_TO_OP :: u8 where "BOOT_TO_OP \<equiv> 0x83"
abbreviation (input) SAFEOP_TO_INIT :: u8 where "SAFEOP_TO_INIT \<equiv> 0x14"
abbreviation (input) SAFEOP_TO_PREOP :: u8 where "SAFEOP_TO_PREOP \<equiv> 0x24"
abbreviation (input) SAFEOP_TO_BOOT :: u8 where "SAFEOP_TO_BOOT \<equiv> 0x34"
abbreviation (input) SAFEOP_TO_SAFEOP :: u8 where "SAFEOP_TO_SAFEOP \<equiv> 0x44"
abbreviation (input) SAFEOP_TO_OP :: u8 where "SAFEOP_TO_OP \<equiv> 0x84"
abbreviation (input) OP_TO_INIT :: u8 where "OP_TO_INIT \<equiv> 0x18"
abbreviation (input) OP_TO_PREOP :: u8 where "OP_TO_PREOP \<equiv> 0x28"
abbreviation (input) OP_TO_BOOT :: u8 where "OP_TO_BOOT \<equiv> 0x38"
abbreviation (input) OP_TO_SAFEOP :: u8 where "OP_TO_SAFEOP \<equiv> 0x48"
abbreviation (input) OP_TO_OP :: u8 where "OP_TO_OP \<equiv> 0x88"

abbreviation (input) ALERR_NONE :: u16 where "ALERR_NONE \<equiv> 0x0000"
abbreviation (input) ALERR_INVALIDSTATECHANGE :: u16 where "ALERR_INVALIDSTATECHANGE \<equiv> 0x0011"
abbreviation (input) ALERR_UNKNOWNSTATE :: u16 where "ALERR_UNKNOWNSTATE \<equiv> 0x0012"
abbreviation (input) ALERR_INVALIDBOOTMBXCONFIG :: u16 where "ALERR_INVALIDBOOTMBXCONFIG \<equiv> 0x0015"
abbreviation (input) ALERR_INVALIDMBXCONFIG :: u16 where "ALERR_INVALIDMBXCONFIG \<equiv> 0x0016"
abbreviation (input) ALERR_SYNCERROR :: u16 where "ALERR_SYNCERROR \<equiv> 0x001A"
abbreviation (input) ALERR_WATCHDOG :: u16 where "ALERR_WATCHDOG \<equiv> 0x001B"
abbreviation (input) ALERR_INVALIDOUTPUTSM :: u16 where "ALERR_INVALIDOUTPUTSM \<equiv> 0x001D"
abbreviation (input) ALERR_INVALIDINPUTSM :: u16 where "ALERR_INVALIDINPUTSM \<equiv> 0x001E"
abbreviation (input) ALERR_FATALSYNCERROR :: u16 where "ALERR_FATALSYNCERROR \<equiv> 0x002C"
abbreviation (input) ALERR_NOSYNCERROR :: u16 where "ALERR_NOSYNCERROR \<equiv> 0x002D"
abbreviation (input) ALERR_DCINVALIDSYNCCFG :: u16 where "ALERR_DCINVALIDSYNCCFG \<equiv> 0x0030"
abbreviation (input) ALERR_DCSYNC0CYCLETIME :: u16 where "ALERR_DCSYNC0CYCLETIME \<equiv> 0x0036"

abbreviation (input) APPSTATE_IDLE :: u8 where "APPSTATE_IDLE \<equiv> 0x00"
abbreviation (input) APPSTATE_INPUT :: u8 where "APPSTATE_INPUT \<equiv> 0x01"
abbreviation (input) APPSTATE_OUTPUT :: u8 where "APPSTATE_OUTPUT \<equiv> 0x02"

abbreviation (input) SMRESULT_ERRSM0 :: u8 where "SMRESULT_ERRSM0 \<equiv> 0x01"
abbreviation (input) SMRESULT_ERRSM1 :: u8 where "SMRESULT_ERRSM1 \<equiv> 0x02"
abbreviation (input) SMRESULT_ERRSM2 :: u8 where "SMRESULT_ERRSM2 \<equiv> 0x04"
abbreviation (input) SMRESULT_ERRSM3 :: u8 where "SMRESULT_ERRSM3 \<equiv> 0x08"

abbreviation (input) ESC_OP_SYNC_VALID_NS :: u64 where "ESC_OP_SYNC_VALID_NS \<equiv> 200000000"
abbreviation (input) ESC_OP_PENDING_TIMEOUT_NS :: u64 where "ESC_OP_PENDING_TIMEOUT_NS \<equiv> 8100000000"

subsection \<open>Mailboxes\<close>

abbreviation (input) MBXERR_INVALIDHEADER :: u16 where "MBXERR_INVALIDHEADER \<equiv> 0x0005"
abbreviation (input) MBXERR_UNSUPPORTEDPROTOCOL :: u16 where "MBXERR_UNSUPPORTEDPROTOCOL \<equiv> 0x0002"
abbreviation (input) MBXERR_SIZETOOSHORT :: u16 where "MBXERR_SIZETOOSHORT \<equiv> 0x0006"
abbreviation (input) MBXERR_INVALIDSIZE :: u16 where "MBXERR_INVALIDSIZE \<equiv> 0x0008"
abbreviation (input) MBXERR_SERVICEINWORK :: u16 where "MBXERR_SERVICEINWORK \<equiv> 0x0009"

abbreviation (input) MBXstate_idle :: u8 where "MBXstate_idle \<equiv> 0x00"
abbreviation (input) MBXstate_inclaim :: u8 where "MBXstate_inclaim \<equiv> 0x01"
abbreviation (input) MBXstate_outclaim :: u8 where "MBXstate_outclaim \<equiv> 0x02"
abbreviation (input) MBXstate_outreq :: u8 where "MBXstate_outreq \<equiv> 0x03"
abbreviation (input) MBXstate_outpost :: u8 where "MBXstate_outpost \<equiv> 0x04"
abbreviation (input) MBXstate_backup :: u8 where "MBXstate_backup \<equiv> 0x05"
abbreviation (input) MBXstate_again :: u8 where "MBXstate_again \<equiv> 0x06"

abbreviation (input) MBXERR :: u8 where "MBXERR \<equiv> 0x00"
abbreviation (input) MBXEOE :: u8 where "MBXEOE \<equiv> 0x02"
abbreviation (input) MBXCOE :: u8 where "MBXCOE \<equiv> 0x03"
abbreviation (input) MBXFOE :: u8 where "MBXFOE \<equiv> 0x04"
abbreviation (input) MBXODL :: u8 where "MBXODL \<equiv> 0x10"
abbreviation (input) MBXSEU :: u8 where "MBXSEU \<equiv> 0x40"
abbreviation (input) MBXSED :: u8 where "MBXSED \<equiv> 0x50"

text \<open>\<open>sizeof (_MBXh)\<close>: the mailbox header of six bytes.\<close>

abbreviation (input) ESC_MBXHSIZE :: nat where "ESC_MBXHSIZE \<equiv> 6"

section \<open>SyncManager registers\<close>

text \<open>
  The eight bytes of a SyncManager channel (\<open>_ESCsm2\<close>); \<open>_ESCsm\<close> is the same memory
  seen as bit fields, which the accessors below give for a little-endian host.
\<close>

record esc_sm =
  PSA :: u16
  SM_Length :: u16
  Command :: u8
  Status :: u8
  ActESC :: u8
  ActPDI :: u8

definition esc_sm_zero :: esc_sm where
  "esc_sm_zero = \<lparr>PSA = 0, SM_Length = 0, Command = 0, Status = 0, ActESC = 0, ActPDI = 0\<rparr>"

definition sm_of_bytes :: "(nat \<Rightarrow> u8) \<Rightarrow> esc_sm" where
  "sm_of_bytes f = \<lparr>PSA = rd16 [f 0, f 1], SM_Length = rd16 [f 2, f 3],
     Command = f 4, Status = f 5, ActESC = f 6, ActPDI = f 7\<rparr>"

definition ECsm :: "esc_sm \<Rightarrow> u8" where "ECsm sm = ActESC sm AND 1"
definition ECrep :: "esc_sm \<Rightarrow> u8" where "ECrep sm = drop_bit 1 (ActESC sm) AND 1"
definition MBXstat :: "esc_sm \<Rightarrow> u8" where "MBXstat sm = drop_bit 3 (Status sm) AND 1"

definition clear_MBXstat :: "esc_sm \<Rightarrow> esc_sm" where
  "clear_MBXstat sm = sm\<lparr>Status := Status sm AND 0xF7\<rparr>"

definition set_PDIrep :: "u8 \<Rightarrow> esc_sm \<Rightarrow> esc_sm" where
  "set_PDIrep r sm = sm\<lparr>ActPDI := (ActPDI sm AND 0xFD) OR push_bit 1 (r AND 1)\<rparr>"

record sm_cfg =
  cfg_sma :: u16
  cfg_sml :: u16
  cfg_sme :: u16
  cfg_smc :: u8

definition sm_cfg_zero :: sm_cfg where
  "sm_cfg_zero = \<lparr>cfg_sma = 0, cfg_sml = 0, cfg_sme = 0, cfg_smc = 0\<rparr>"

section \<open>The object dictionary\<close>

text \<open>
  Memory the dictionary points into. A pointer is a block and an offset; \<open>Obj b\<close> is the
  application variable number \<open>b\<close>, \<open>Mbxdata\<close> the preallocated buffer \<open>ESCvar.mbxdata\<close>,
  \<open>Mbx\<close> the array \<open>MBX\<close>, and \<open>Konst v\<close> the four bytes of a read-only \<open>value\<close> field.
\<close>

datatype block = Obj nat | Mbxdata | Mbx | Konst u32

type_synonym ptr = "block \<times> nat"

record objd =
  od_subindex :: u16
  od_datatype :: u16
  od_bitlength :: u32
  od_flags :: u16
  od_name :: bytes
  od_value :: u32
  od_data :: "ptr option"

record objectlist =
  ol_index :: u16
  ol_objtype :: u16
  ol_maxsub :: u8
  ol_name :: bytes
  ol_objdesc :: "objd list"

text \<open>
  An entry of an SM mapping. The object pointers \<open>obj\<close> and \<open>objectlistitem\<close> are kept as
  the positions in the dictionary they point to; padding has neither.
\<close>

record smmap =
  map_obj :: "(nat \<times> nat) option"
  map_offset :: u32

definition smmap_zero :: smmap where
  "smmap_zero = \<lparr>map_obj = None, map_offset = 0\<rparr>"

abbreviation (input) OTYPE_VAR :: u16 where "OTYPE_VAR \<equiv> 0x0007"
abbreviation (input) OTYPE_ARRAY :: u16 where "OTYPE_ARRAY \<equiv> 0x0008"

abbreviation (input) TX_PDO_OBJIDX :: u16 where "TX_PDO_OBJIDX \<equiv> 0x1c13"
abbreviation (input) RX_PDO_OBJIDX :: u16 where "RX_PDO_OBJIDX \<equiv> 0x1c12"

abbreviation (input) COMPLETE_ACCESS_FLAG :: u16 where "COMPLETE_ACCESS_FLAG \<equiv> 0x8000"

section \<open>The state of the stack\<close>

subsection \<open>State machine and synchronisation (part of \<open>_ESCvar\<close>)\<close>

record esc_al =
  use_interrupt :: int
  watchdogcnt :: int
  use_hw_watchdog :: u8
  skip_default_initialization :: bool
  ESC_SM2_sml :: u16
  ESC_SM3_sml :: u16
  dcsync :: u8
  synccounterlimit :: u16
  ALstatus :: u16
  ALcontrol :: u16
  ALerror :: u16
  DLstatus :: u16
  address_v :: u16
  sm2mappings :: int
  sm3mappings :: int
  SMtestresult :: u8
  SM :: "nat \<Rightarrow> esc_sm"
  ALevent :: u32
  synccounter :: int
  smeventmissed :: u16
  syncerror :: u8
  sm_event_seen :: u8
  op_pending :: u8
  op_seen_sync0 :: u8
  op_seen_sm :: u8
  op_pending_ns :: u64
  op_valid_ns :: u64
  App_state :: u8

subsection \<open>Mailbox layer and SDO transfers (part of \<open>_ESCvar\<close>, \<open>MBX\<close>, \<open>MBXcontrol\<close>)\<close>

text \<open>The configuration pointers \<open>activemb0\<close>, \<open>activemb1\<close> are NULL (\<open>None\<close>) until a mailbox starts.\<close>

record esc_mbx = esc_al +
  mb :: "sm_cfg \<times> sm_cfg"
  mbboot :: "sm_cfg \<times> sm_cfg"
  MBXrun :: u8
  activembxsize :: nat
  activemb0 :: "sm_cfg option"
  activemb1 :: "sm_cfg option"
  mbxcnt :: u8
  mbxincnt :: u8
  mbxoutpost :: u8
  mbxbackup :: u8
  xoe :: u8
  txcue :: u8
  mbxfree :: u8
  segmented :: u8
  data_v :: "ptr option"
  entries :: u16
  frags :: u32
  fragsleft :: u32
  index_v :: u16
  subindex_v :: u8
  flags_v :: u16
  toggle :: u8
  mbxdata :: bytes
  MBX :: bytes
  MBXcontrol :: "nat \<Rightarrow> u8"
  sdo_held_active :: u8
  sdo_held_index :: u16
  sdo_held_subindex :: u8

subsection \<open>Process data, watchdogs and event counters (\<open>ecat_slv.c\<close>)\<close>

datatype hw_wd = HW_WD_UNCHECKED | HW_WD_WAITING | HW_WD_RUNNING | HW_WD_DISABLED

record esc_slv = esc_mbx +
  SMmap2 :: "smmap list"
  SMmap3 :: "smmap list"
  watchdog :: int
  rxpdo :: bytes
  txpdo :: bytes
  hw_wd_state :: hw_wd
  hw_wd_quiet :: u16
  dc_evt_wake :: u32
  dc_evt_sm :: u32
  dc_evt_sync0 :: u32
  dc_evt_mbx :: u32
  dc_evt_idle :: u32

subsection \<open>File over EtherCAT (\<open>esc_foe.c\<close>)\<close>

record foe_file_cfg =
  ff_name :: bytes
  ff_max_data :: u32
  ff_dest_start_address :: u32
  ff_address_offset :: u32
  ff_total_size :: u32
  ff_filepass :: u32
  ff_write_only_in_boot :: u8

record esc_foe = esc_slv +
  foe_file_name :: bytes
  foe_files :: "foe_file_cfg list"
  foe_buffer_size :: u32
  foe_fbuffer :: bytes
  foe_file :: "nat option"
  foestate :: u8
  fbufposition :: u16
  foepacket :: u32
  fposition :: u32
  fprevposition :: u32
  fend :: u32

subsection \<open>EEPROM emulation (\<open>esc_eep.c\<close>)\<close>

record esc_eep = esc_foe +
  eep_buf :: bytes
  eep_read_size :: u16

subsection \<open>Ethernet over EtherCAT (\<open>esc_eoe.c\<close>)\<close>

text \<open>
  A frame buffer \<open>eoe_pbuf_t\<close>: the handle of the TCP/IP stack, the payload it points to
  (\<open>None\<close> for NULL; an access outside it is out of range) and the length of the data.
  \<open>EOE_NUMBER_OF_PORTS\<close> is 1, so the cached settings are one \<open>eoe_param\<close>.
\<close>

record eoe_pbuf =
  pb_pbuf :: nat
  pb_payload :: "bytes option"
  pb_len :: u32

record eoe_var =
  rxebuf :: eoe_pbuf
  txebuf :: eoe_pbuf
  rxfragmentno :: u8
  rxframesize :: u32
  rxframeoffset :: u32
  rxframeno :: u16
  txfragmentno :: u8
  txframesize :: u32
  txframeoffset :: u32

record eoe_param =
  mac_set :: u8
  ip_set :: u8
  subnet_set :: u8
  default_gateway_set :: u8
  dns_ip_set :: u8
  dns_name_set :: u8
  mac_addr :: bytes
  ip_addr :: u32
  subnet_addr :: u32
  default_gateway_addr :: u32
  dns_ip_addr :: u32
  dns_name :: bytes

record esc_eoe = esc_eep +
  EOEvar :: eoe_var
  nic_port :: eoe_param
  eoe_frameno :: u8

subsection \<open>The whole system\<close>

text \<open>
  The variables the dictionary points to, and everything outside the stack: the chip and
  the application's own state, of an arbitrary type.
\<close>

record 'w sys = esc_eoe +
  omem :: "nat \<Rightarrow> bytes"
  world :: 'w

section \<open>The code outside the stack\<close>

text \<open>
  \<open>hal_read a n w\<close>: the bytes that a read of \<open>n\<close> bytes at \<open>a\<close> returns, the value the
  hardware layer publishes to \<open>ESCvar.ALevent\<close> after the access (if it does), and the chip
  afterwards (reads have side effects). \<open>hal_write\<close> likewise. The remaining fields are the
  callbacks of \<open>esc_cfg_t\<close> (\<open>None\<close> for a NULL pointer) and of \<open>ecat_slv.h\<close>; each may
  change any part of the system.
\<close>

record 'w env =
  opt :: options
  SDOobjects :: "objectlist list"
  hal_read :: "u16 \<Rightarrow> nat \<Rightarrow> 'w \<Rightarrow> (nat \<Rightarrow> u8) \<times> u32 option \<times> 'w"
  hal_write :: "u16 \<Rightarrow> bytes \<Rightarrow> 'w \<Rightarrow> u32 option \<times> 'w"
  hal_init :: "'w sys \<Rightarrow> int \<times> 'w sys"
  set_defaults_hook :: "('w sys \<Rightarrow> 'w sys) option"
  pre_state_change_hook :: "(u8 \<times> u8 \<Rightarrow> 'w sys \<Rightarrow> (u8 \<times> u8) \<times> 'w sys) option"
  post_state_change_hook :: "(u8 \<times> u8 \<Rightarrow> 'w sys \<Rightarrow> (u8 \<times> u8) \<times> 'w sys) option"
  application_hook :: "('w sys \<Rightarrow> 'w sys) option"
  safe_state_override :: "('w sys \<Rightarrow> 'w sys) option"
  pre_object_download_hook :: "(u16 \<Rightarrow> u8 \<Rightarrow> ptr option \<Rightarrow> nat \<Rightarrow> u16 \<Rightarrow> 'w sys \<Rightarrow> u32 \<times> 'w sys) option"
  post_object_download_hook :: "(u16 \<Rightarrow> u8 \<Rightarrow> u16 \<Rightarrow> 'w sys \<Rightarrow> u32 \<times> 'w sys) option"
  pre_object_upload_hook :: "(u16 \<Rightarrow> u8 \<Rightarrow> ptr option \<Rightarrow> nat \<Rightarrow> u16 \<Rightarrow> 'w sys \<Rightarrow> u32 \<times> nat \<times> 'w sys) option"
  post_object_upload_hook :: "(u16 \<Rightarrow> u8 \<Rightarrow> u16 \<Rightarrow> 'w sys \<Rightarrow> u32 \<times> 'w sys) option"
  rxpdo_override :: "('w sys \<Rightarrow> 'w sys) option"
  txpdo_override :: "('w sys \<Rightarrow> 'w sys) option"
  esc_hw_interrupt_enable :: "(u32 \<Rightarrow> 'w sys \<Rightarrow> 'w sys) option"
  esc_hw_interrupt_disable :: "(u32 \<Rightarrow> 'w sys \<Rightarrow> 'w sys) option"
  esc_hw_eep_handler :: "('w sys \<Rightarrow> 'w sys option) option"
  esc_check_dc_handler :: "('w sys \<Rightarrow> u16 \<times> 'w sys) option"
  get_device_id :: "('w sys \<Rightarrow> int \<times> u16 \<times> 'w sys) option"
  esc_hw_wait :: "(u64 \<Rightarrow> 'w sys \<Rightarrow> int \<times> 'w sys) option"
  cb_update_txpdo :: "'w sys \<Rightarrow> 'w sys"
  cb_apply_rxpdo :: "'w sys \<Rightarrow> 'w sys"
  EEP_read :: "u32 \<Rightarrow> nat \<Rightarrow> 'w sys \<Rightarrow> int \<times> bytes \<times> 'w sys"
  EEP_write :: "u32 \<Rightarrow> bytes \<Rightarrow> 'w sys \<Rightarrow> int \<times> 'w sys"
  eep_reload_ptr :: "(u16 \<times> u32 \<Rightarrow> 'w sys \<Rightarrow> (u16 \<times> u32) \<times> 'w sys) option"
  eoe_get_buffer :: "(eoe_pbuf \<Rightarrow> 'w sys \<Rightarrow> eoe_pbuf \<times> 'w sys) option"
  eoe_free_buffer :: "(eoe_pbuf \<Rightarrow> 'w sys \<Rightarrow> eoe_pbuf \<times> 'w sys) option"
  load_eth_settings :: "('w sys \<Rightarrow> int \<times> 'w sys) option"
  store_ethernet_settings :: "('w sys \<Rightarrow> int \<times> 'w sys) option"
  handle_recv_buffer :: "u8 \<Rightarrow> eoe_pbuf \<Rightarrow> 'w sys \<Rightarrow> 'w sys"
  fetch_send_buffer :: "u8 \<Rightarrow> eoe_pbuf \<Rightarrow> 'w sys \<Rightarrow> int \<times> eoe_pbuf \<times> 'w sys"
  fragment_sent_event :: "('w sys \<Rightarrow> 'w sys) option"
  foe_write_function :: "nat \<Rightarrow> bytes \<Rightarrow> nat \<Rightarrow> 'w sys \<Rightarrow> u32 \<times> 'w sys"

subsection \<open>The variables at program start\<close>

text \<open>
  C clears static storage. The fields are those of \<open>ESCvar\<close>, \<open>MBX\<close>, \<open>MBXcontrol\<close>,
  \<open>SMmap2\<close>, \<open>SMmap3\<close>, \<open>rxpdo\<close>, \<open>txpdo\<close>, \<open>FOEvar\<close>, \<open>EOEvar\<close> and the other file-level
  variables; \<open>eep_read_size\<close> starts at 8.
\<close>

definition init_sys :: "options \<Rightarrow> (nat \<Rightarrow> bytes) \<Rightarrow> 'w \<Rightarrow> 'w sys" where
  "init_sys opts m w = \<lparr>
     use_interrupt = 0, watchdogcnt = 0, use_hw_watchdog = 0, skip_default_initialization = False,
     ESC_SM2_sml = 0, ESC_SM3_sml = 0, dcsync = 0, synccounterlimit = 0, ALstatus = 0, ALcontrol = 0,
     ALerror = 0, DLstatus = 0, address_v = 0, sm2mappings = 0, sm3mappings = 0, SMtestresult = 0,
     SM = (\<lambda>_. esc_sm_zero), ALevent = 0, synccounter = 0, smeventmissed = 0, syncerror = 0,
     sm_event_seen = 0, op_pending = 0, op_seen_sync0 = 0, op_seen_sm = 0, op_pending_ns = 0,
     op_valid_ns = 0, App_state = APPSTATE_IDLE,
     mb = (sm_cfg_zero, sm_cfg_zero), mbboot = (sm_cfg_zero, sm_cfg_zero), MBXrun = 0,
     activembxsize = 0, activemb0 = None, activemb1 = None, mbxcnt = 0, mbxincnt = 0, mbxoutpost = 0,
     mbxbackup = 0, xoe = 0, txcue = 0, mbxfree = 0, segmented = 0, data_v = None, entries = 0,
     frags = 0, fragsleft = 0, index_v = 0, subindex_v = 0, flags_v = 0, toggle = 0,
     mbxdata = replicate (PREALLOC_FACTOR opts * MBXSIZE opts) 0,
     MBX = replicate (MBXBUFFERS opts * max (MBXSIZE opts) (MBXSIZEBOOT opts)) 0,
     MBXcontrol = (\<lambda>_. 0), sdo_held_active = 0, sdo_held_index = 0, sdo_held_subindex = 0,
     SMmap2 = replicate (MAX_MAPPINGS_SM2 opts) smmap_zero,
     SMmap3 = replicate (MAX_MAPPINGS_SM3 opts) smmap_zero, watchdog = 0,
     rxpdo = replicate (MAX_RXPDO_SIZE opts) 0, txpdo = replicate (MAX_TXPDO_SIZE opts) 0,
     hw_wd_state = HW_WD_UNCHECKED, hw_wd_quiet = 0, dc_evt_wake = 0, dc_evt_sm = 0,
     dc_evt_sync0 = 0, dc_evt_mbx = 0, dc_evt_idle = 0,
     foe_file_name = [], foe_files = [], foe_buffer_size = 0, foe_fbuffer = [], foe_file = None,
     foestate = 0, fbufposition = 0, foepacket = 0, fposition = 0, fprevposition = 0, fend = 0,
     eep_buf = replicate 8 0, eep_read_size = 8,
     EOEvar = \<lparr>rxebuf = \<lparr>pb_pbuf = 0, pb_payload = None, pb_len = 0\<rparr>,
       txebuf = \<lparr>pb_pbuf = 0, pb_payload = None, pb_len = 0\<rparr>, rxfragmentno = 0, rxframesize = 0,
       rxframeoffset = 0, rxframeno = 0, txfragmentno = 0, txframesize = 0, txframeoffset = 0\<rparr>,
     nic_port = \<lparr>mac_set = 0, ip_set = 0, subnet_set = 0, default_gateway_set = 0, dns_ip_set = 0,
       dns_name_set = 0, mac_addr = replicate 6 0, ip_addr = 0, subnet_addr = 0,
       default_gateway_addr = 0, dns_ip_addr = 0, dns_name = replicate 32 0\<rparr>,
     eoe_frameno = 0,
     omem = m, world = w \<rparr>"

end
