(* ===== verification/Esc_Reg.thy ===== *)
theory Esc_Reg
  imports Esc_State
begin

text \<open>
  Access to the ESC registers (\<open>esc.c\<close>, first part): the hardware layer as the stack sees
  it, the AL status and event registers, and the SyncManager activation handshake, whose
  wait loops end exactly when the chip follows the PDI control bit.
\<close>

section \<open>The hardware layer as the stack calls it\<close>

text \<open>
  An access changes the chip and, on ports that mimic the ET1x00, refreshes
  \<open>ESCvar.ALevent\<close>; nothing else of the stack's state.
\<close>

definition published :: "u32 option \<Rightarrow> 'w sys \<Rightarrow> u32" where
  "published ev s = (case ev of None \<Rightarrow> ALevent s | Some e \<Rightarrow> e)"

definition ESC_read :: "'w env \<Rightarrow> u16 \<Rightarrow> nat \<Rightarrow> 'w sys \<Rightarrow> ((nat \<Rightarrow> u8) \<times> 'w sys) option" where
  "ESC_read E a n s =
     (case hal_read E a n (world s) of (f, ev, w) \<Rightarrow>
        Some (f, s\<lparr>world := w, ALevent := published ev s\<rparr>))"

definition ESC_write :: "'w env \<Rightarrow> u16 \<Rightarrow> bytes \<Rightarrow> 'w sys \<Rightarrow> 'w sys option" where
  "ESC_write E a bs s =
     (case hal_write E a bs (world s) of (ev, w) \<Rightarrow>
        Some (s\<lparr>world := w, ALevent := published ev s\<rparr>))"

lemma wp_ESC_read [wp]:
  "(\<And>f w e. Q (f, s\<lparr>world := w, ALevent := e\<rparr>)) \<Longrightarrow> ok Q (ESC_read E a n s)"
  by (simp add: ESC_read_def case_prod_beta)

lemma wp_ESC_write [wp]:
  "(\<And>w e. Q (s\<lparr>world := w, ALevent := e\<rparr>)) \<Longrightarrow> ok Q (ESC_write E a bs s)"
  by (simp add: ESC_write_def case_prod_beta)

section \<open>AL status, error and event registers\<close>

definition ESC_ALerror :: "'w env \<Rightarrow> u16 \<Rightarrow> 'w sys \<Rightarrow> 'w sys option" where
  "ESC_ALerror E errornumber s = do {
     let s = s\<lparr>ALerror := errornumber\<rparr>;
     ESC_write E ESCREG_ALERROR (le16 errornumber) s
   }"

definition ESC_ALstatus :: "'w env \<Rightarrow> u8 \<Rightarrow> 'w sys \<Rightarrow> 'w sys option" where
  "ESC_ALstatus E status s = do {
     let s = s\<lparr>ALstatus := to_u16 status\<rparr>;
     ESC_write E ESCREG_ALSTATUS (le16 (to_u16 status)) s
   }"

definition ESC_ALeventmaskwrite :: "'w env \<Rightarrow> u32 \<Rightarrow> 'w sys \<Rightarrow> 'w sys option" where
  "ESC_ALeventmaskwrite E aleventmask s = ESC_write E ESCREG_ALEVENTMASK (le32 aleventmask) s"

definition ESC_ALeventmaskread :: "'w env \<Rightarrow> 'w sys \<Rightarrow> (u32 \<times> 'w sys) option" where
  "ESC_ALeventmaskread E s = do {
     (f, s) \<leftarrow> ESC_read E ESCREG_ALEVENTMASK 4 s;
     Some (rd32 [f 0, f 1, f 2, f 3], s)
   }"

definition ESC_ALeventwrite :: "'w env \<Rightarrow> u32 \<Rightarrow> 'w sys \<Rightarrow> 'w sys option" where
  "ESC_ALeventwrite E event s = ESC_write E ESCREG_ALEVENT (le32 event) s"

definition ESC_ALeventread :: "'w env \<Rightarrow> 'w sys \<Rightarrow> (u32 \<times> 'w sys) option" where
  "ESC_ALeventread E s = do {
     (f, s) \<leftarrow> ESC_read E ESCREG_ALEVENT 4 s;
     Some (rd32 [f 0, f 1, f 2, f 3], s)
   }"

lemma wp_ESC_ALerror [wp]:
  "(\<And>w e. Q (s\<lparr>ALerror := err, world := w, ALevent := e\<rparr>)) \<Longrightarrow> ok Q (ESC_ALerror E err s)"
  by (auto simp: ESC_ALerror_def intro!: wp)

lemma wp_ESC_ALstatus [wp]:
  "(\<And>w e. Q (s\<lparr>ALstatus := to_u16 st, world := w, ALevent := e\<rparr>)) \<Longrightarrow> ok Q (ESC_ALstatus E st s)"
  by (auto simp: ESC_ALstatus_def intro!: wp)

lemma wp_ESC_ALeventread [wp]:
  "(\<And>x w e. Q (x, s\<lparr>world := w, ALevent := e\<rparr>)) \<Longrightarrow> ok Q (ESC_ALeventread E s)"
  by (auto simp: ESC_ALeventread_def intro!: wp)

lemma wp_ESC_ALeventmaskread [wp]:
  "(\<And>x w e. Q (x, s\<lparr>world := w, ALevent := e\<rparr>)) \<Longrightarrow> ok Q (ESC_ALeventmaskread E s)"
  by (auto simp: ESC_ALeventmaskread_def intro!: wp)

lemma wp_ESC_ALeventmaskwrite [wp]:
  "(\<And>w e. Q (s\<lparr>world := w, ALevent := e\<rparr>)) \<Longrightarrow> ok Q (ESC_ALeventmaskwrite E m s)"
  by (auto simp: ESC_ALeventmaskwrite_def intro!: wp)

section \<open>SyncManager registers\<close>

definition sm_reg :: "u16 \<Rightarrow> nat \<Rightarrow> u16" where
  "sm_reg base n = base + push_bit 3 (of_nat n)"

definition ESC_SMack :: "'w env \<Rightarrow> nat \<Rightarrow> 'w sys \<Rightarrow> 'w sys option" where
  "ESC_SMack E n s = do {
     (dummy, s) \<leftarrow> ESC_read E (sm_reg ESCREG_SM0ACTIVATE n) 1 s;
     Some s
   }"

definition ESC_SMstatus :: "'w env \<Rightarrow> nat \<Rightarrow> 'w sys \<Rightarrow> 'w sys option" where
  "ESC_SMstatus E n s = do {
     (f, s) \<leftarrow> ESC_read E (sm_reg ESCREG_SM0STATUS n) 1 s;
     Some (s\<lparr>SM := (SM s)(n := (SM s n)\<lparr>Status := f 0\<rparr>)\<rparr>)
   }"

definition ESC_SMwritepdi :: "'w env \<Rightarrow> nat \<Rightarrow> 'w sys \<Rightarrow> 'w sys option" where
  "ESC_SMwritepdi E n s = ESC_write E (sm_reg ESCREG_SM0PDI n) [ActPDI (SM s n)] s"

definition ESC_SMreadpdi :: "'w env \<Rightarrow> nat \<Rightarrow> 'w sys \<Rightarrow> 'w sys option" where
  "ESC_SMreadpdi E n s = do {
     (f, s) \<leftarrow> ESC_read E (sm_reg ESCREG_SM0PDI n) 1 s;
     Some (s\<lparr>SM := (SM s)(n := (SM s n)\<lparr>ActPDI := f 0\<rparr>)\<rparr>)
   }"

text \<open>
  The \<open>do \<dots> while\<close> of \<open>ESC_SMenable\<close> and \<open>ESC_SMdisable\<close>: read the PDI control
  register back as long as its enable bit still has the value \<open>busy\<close>. The loop has no
  bound in the source; when the chip never follows, the result is \<open>None\<close>.
\<close>

partial_function (option) SM_wait :: "'w env \<Rightarrow> u8 \<Rightarrow> nat \<Rightarrow> 'w sys \<Rightarrow> 'w sys option" where
  "SM_wait E busy n s = do {
     s \<leftarrow> ESC_SMreadpdi E n s;
     if ActPDI (SM s n) AND ESCREG_SMENABLE_BIT = busy then SM_wait E busy n s else Some s
   }"

declare SM_wait.simps [code]

definition ESC_SMenable :: "'w env \<Rightarrow> nat \<Rightarrow> 'w sys \<Rightarrow> 'w sys option" where
  "ESC_SMenable E n s = do {
     let s = s\<lparr>SM := (SM s)(n := (SM s n)\<lparr>ActPDI := ActPDI (SM s n) AND NOT ESCREG_SMENABLE_BIT\<rparr>)\<rparr>;
     s \<leftarrow> ESC_SMwritepdi E n s;
     SM_wait E 1 n s
   }"

definition ESC_SMdisable :: "'w env \<Rightarrow> nat \<Rightarrow> 'w sys \<Rightarrow> 'w sys option" where
  "ESC_SMdisable E n s = do {
     let s = s\<lparr>SM := (SM s)(n := (SM s n)\<lparr>ActPDI := ActPDI (SM s n) OR ESCREG_SMENABLE_BIT\<rparr>)\<rparr>;
     s \<leftarrow> ESC_SMwritepdi E n s;
     SM_wait E 0 n s
   }"

lemma wp_ESC_SMack [wp]:
  "(\<And>w e. Q (s\<lparr>world := w, ALevent := e\<rparr>)) \<Longrightarrow> ok Q (ESC_SMack E n s)"
  by (auto simp: ESC_SMack_def intro!: wp)

lemma wp_ESC_SMstatus [wp]:
  "(\<And>w e v. Q (s\<lparr>world := w, ALevent := e, SM := (SM s)(n := (SM s n)\<lparr>Status := v\<rparr>)\<rparr>)) \<Longrightarrow>
     ok Q (ESC_SMstatus E n s)"
  by (auto simp: ESC_SMstatus_def intro!: wp)

lemma wp_ESC_SMwritepdi [wp]:
  "(\<And>w e. Q (s\<lparr>world := w, ALevent := e\<rparr>)) \<Longrightarrow> ok Q (ESC_SMwritepdi E n s)"
  by (auto simp: ESC_SMwritepdi_def intro!: wp)

subsection \<open>Termination of the activation handshake\<close>

text \<open>
  What the loops rely on, as the ESC data sheets document it: after a write to the PDI
  control register of a SyncManager, reading it back sooner or later shows the enable bit
  that was written. \<open>pdi_polls E a k w\<close> is the chip after \<open>k\<close> reads.
\<close>

fun pdi_polls :: "'w env \<Rightarrow> u16 \<Rightarrow> nat \<Rightarrow> 'w \<Rightarrow> 'w" where
  "pdi_polls E a 0 w = w"
| "pdi_polls E a (Suc k) w = pdi_polls E a k (snd (snd (hal_read E a 1 w)))"

definition sm_follows :: "'w env \<Rightarrow> bool" where
  "sm_follows E \<longleftrightarrow>
     (\<forall>n w v. n < 4 \<longrightarrow>
        (\<exists>k. fst (hal_read E (sm_reg ESCREG_SM0PDI n) 1
               (pdi_polls E (sm_reg ESCREG_SM0PDI n) k
                 (snd (hal_write E (sm_reg ESCREG_SM0PDI n) [v] w)))) 0 AND ESCREG_SMENABLE_BIT
             = v AND ESCREG_SMENABLE_BIT))"

lemma ESC_SMreadpdi_eq:
  "ESC_SMreadpdi E n s =
     (let r = hal_read E (sm_reg ESCREG_SM0PDI n) 1 (world s)
      in Some (s\<lparr>world := snd (snd r), ALevent := published (fst (snd r)) s,
           SM := (SM s)(n := (SM s n)\<lparr>ActPDI := fst r 0\<rparr>)\<rparr>))"
  by (simp add: ESC_SMreadpdi_def ESC_read_def case_prod_beta)

lemma SM_wait_terminates:
  assumes "fst (hal_read E (sm_reg ESCREG_SM0PDI n) 1
             (pdi_polls E (sm_reg ESCREG_SM0PDI n) k (world s))) 0 AND ESCREG_SMENABLE_BIT \<noteq> busy"
    and "\<And>w e v. v AND ESCREG_SMENABLE_BIT \<noteq> busy \<Longrightarrow>
           Q (s\<lparr>world := w, ALevent := e, SM := (SM s)(n := (SM s n)\<lparr>ActPDI := v\<rparr>)\<rparr>)"
  shows "ok Q (SM_wait E busy n s)"
  using assms
proof (induction k arbitrary: s)
  case 0
  from "0.prems"(1) show ?case
    by (subst SM_wait.simps) (simp add: ESC_SMreadpdi_eq "0.prems"(2))
next
  case (Suc k)
  let ?r = "hal_read E (sm_reg ESCREG_SM0PDI n) 1 (world s)"
  let ?s = "s\<lparr>world := snd (snd ?r), ALevent := published (fst (snd ?r)) s,
              SM := (SM s)(n := (SM s n)\<lparr>ActPDI := fst ?r 0\<rparr>)\<rparr>"
  have "ok Q (SM_wait E busy n ?s)"
  proof (rule Suc.IH)
    show "fst (hal_read E (sm_reg ESCREG_SM0PDI n) 1
            (pdi_polls E (sm_reg ESCREG_SM0PDI n) k (world ?s))) 0 AND ESCREG_SMENABLE_BIT \<noteq> busy"
      using Suc.prems(1) by simp
    show "Q (?s\<lparr>world := w, ALevent := e, SM := (SM ?s)(n := (SM ?s n)\<lparr>ActPDI := v\<rparr>)\<rparr>)"
      if "v AND ESCREG_SMENABLE_BIT \<noteq> busy" for w e v
      by simp (rule Suc.prems(2) [OF that])
  qed
  moreover have "Q ?s" if "fst ?r 0 AND ESCREG_SMENABLE_BIT \<noteq> busy"
    using Suc.prems(2) that by blast
  ultimately show ?case
    by (subst SM_wait.simps) (simp add: ESC_SMreadpdi_eq)
qed

lemma wp_ESC_SMenable [wp]:
  assumes "sm_follows E" and "n < 4"
    and "\<And>w e v. v AND ESCREG_SMENABLE_BIT = 0 \<Longrightarrow>
           Q (s\<lparr>world := w, ALevent := e, SM := (SM s)(n := (SM s n)\<lparr>ActPDI := v\<rparr>)\<rparr>)"
  shows "ok Q (ESC_SMenable E n s)"
proof -
  have bit0: "v AND ESCREG_SMENABLE_BIT \<noteq> 1 \<longleftrightarrow> v AND ESCREG_SMENABLE_BIT = 0" for v :: u8
    by (simp add: and_one_eq odd_iff_mod_2_eq_one)
  have cleared: "(v AND NOT ESCREG_SMENABLE_BIT) AND ESCREG_SMENABLE_BIT = 0" for v :: u8
    by (simp add: and.assoc)
  from assms(1,2) obtain k where k:
    "fst (hal_read E (sm_reg ESCREG_SM0PDI n) 1
       (pdi_polls E (sm_reg ESCREG_SM0PDI n) k
         (snd (hal_write E (sm_reg ESCREG_SM0PDI n)
            [ActPDI (SM s n) AND NOT ESCREG_SMENABLE_BIT] (world s))))) 0 AND ESCREG_SMENABLE_BIT = 0"
    using cleared unfolding sm_follows_def by metis
  show ?thesis
    unfolding ESC_SMenable_def
    by (simp add: ESC_SMwritepdi_def ESC_write_def case_prod_beta,
        rule SM_wait_terminates [where k = k])
      (use k assms(3) bit0 in simp_all)
qed

lemma wp_ESC_SMdisable [wp]:
  assumes "sm_follows E" and "n < 4"
    and "\<And>w e v. v AND ESCREG_SMENABLE_BIT = 1 \<Longrightarrow>
           Q (s\<lparr>world := w, ALevent := e, SM := (SM s)(n := (SM s n)\<lparr>ActPDI := v\<rparr>)\<rparr>)"
  shows "ok Q (ESC_SMdisable E n s)"
proof -
  have bit1: "v AND ESCREG_SMENABLE_BIT \<noteq> 0 \<longleftrightarrow> v AND ESCREG_SMENABLE_BIT = 1" for v :: u8
    by (simp add: and_one_eq odd_iff_mod_2_eq_one)
  have set: "(v OR ESCREG_SMENABLE_BIT) AND ESCREG_SMENABLE_BIT = 1" for v :: u8
    by (rule bit_word_eqI) (auto simp: bit_simps)
  from assms(1,2) obtain k where k:
    "fst (hal_read E (sm_reg ESCREG_SM0PDI n) 1
       (pdi_polls E (sm_reg ESCREG_SM0PDI n) k
         (snd (hal_write E (sm_reg ESCREG_SM0PDI n)
            [ActPDI (SM s n) OR ESCREG_SMENABLE_BIT] (world s))))) 0 AND ESCREG_SMENABLE_BIT = 1"
    using set unfolding sm_follows_def by metis
  show ?thesis
    unfolding ESC_SMdisable_def
    by (simp add: ESC_SMwritepdi_def ESC_write_def case_prod_beta,
        rule SM_wait_terminates [where k = k])
      (use k assms(3) bit1 in simp_all)
qed

section \<open>Station address, watchdog and SYNC unit\<close>

definition ESC_address :: "'w env \<Rightarrow> 'w sys \<Rightarrow> 'w sys option" where
  "ESC_address E s = do {
     (f, s) \<leftarrow> ESC_read E ESCREG_ADDRESS 2 s;
     Some (s\<lparr>address_v := rd16 [f 0, f 1]\<rparr>)
   }"

definition ESC_WDstatus :: "'w env \<Rightarrow> 'w sys \<Rightarrow> (u8 \<times> 'w sys) option" where
  "ESC_WDstatus E s = do {
     (f, s) \<leftarrow> ESC_read E ESCREG_WDSTATUS 2 s;
     Some (to_u8 (rd16 [f 0, f 1]), s)
   }"

definition ESC_SYNCactivation :: "'w env \<Rightarrow> 'w sys \<Rightarrow> (u8 \<times> 'w sys) option" where
  "ESC_SYNCactivation E s = do {
     (f, s) \<leftarrow> ESC_read E ESCREG_SYNC_ACT 1 s;
     Some (f 0, s)
   }"

definition ESC_SYNC0cycletime :: "'w env \<Rightarrow> 'w sys \<Rightarrow> (u32 \<times> 'w sys) option" where
  "ESC_SYNC0cycletime E s = do {
     (f, s) \<leftarrow> ESC_read E ESCREG_SYNC0_CYCLE_TIME 4 s;
     Some (rd32 [f 0, f 1, f 2, f 3], s)
   }"

definition ESC_SYNC1cycletime :: "'w env \<Rightarrow> 'w sys \<Rightarrow> (u32 \<times> 'w sys) option" where
  "ESC_SYNC1cycletime E s = do {
     (f, s) \<leftarrow> ESC_read E ESCREG_SYNC1_CYCLE_TIME 4 s;
     Some (rd32 [f 0, f 1, f 2, f 3], s)
   }"

definition ESC_checkDC :: "'w env \<Rightarrow> 'w sys \<Rightarrow> (u16 \<times> 'w sys) option" where
  "ESC_checkDC E s = do {
     (sync_act, s) \<leftarrow> ESC_SYNCactivation E s;
     if sync_act AND (ESCREG_SYNC_ACT_ACTIVATED OR ESCREG_SYNC_AUTO_ACTIVATED) > 0 then
       (case esc_check_dc_handler E of
          None \<Rightarrow> Some (ALERR_DCINVALIDSYNCCFG, s)
        | Some h \<Rightarrow> Some (h s))
     else
       Some (0, s\<lparr>dcsync := 0, op_pending := 0, synccounter := 0, smeventmissed := 0,
                  syncerror := 0, sm_event_seen := 0\<rparr>)
   }"

lemma wp_ESC_address [wp]:
  "(\<And>w e v. Q (s\<lparr>world := w, ALevent := e, address_v := v\<rparr>)) \<Longrightarrow> ok Q (ESC_address E s)"
  by (auto simp: ESC_address_def intro!: wp)

lemma wp_ESC_WDstatus [wp]:
  "(\<And>x w e. Q (x, s\<lparr>world := w, ALevent := e\<rparr>)) \<Longrightarrow> ok Q (ESC_WDstatus E s)"
  by (auto simp: ESC_WDstatus_def intro!: wp)

lemma wp_ESC_SYNCactivation [wp]:
  "(\<And>x w e. Q (x, s\<lparr>world := w, ALevent := e\<rparr>)) \<Longrightarrow> ok Q (ESC_SYNCactivation E s)"
  by (auto simp: ESC_SYNCactivation_def intro!: wp)

end
