(* ===== verification/Esc_Mbx.thy ===== *)
theory Esc_Mbx
  imports Esc_Reg
begin

text \<open>
  The mailbox layer of \<open>esc.c\<close>: the mailbox buffers \<open>MBX\<close> and their states
  \<open>MBXcontrol\<close>, starting and stopping the mailbox SyncManagers, reading and writing the
  mailbox, the buffer pool (\<open>ESC_claimbuffer\<close>, \<open>ESC_outreqbuffer\<close>), and the protocol
  step \<open>ESC_mbxprocess\<close> with its repeat and duplicate handling.
\<close>

section \<open>Access to the mailbox buffers\<close>

text \<open>
  \<open>&MBX[n * ESC_MBXSIZE]\<close> seen as a packed struct: fields are read and written at their
  byte offset within buffer \<open>n\<close>, and an access outside the array \<open>MBX\<close> is \<open>None\<close>.
\<close>

definition mbx_put :: "nat \<Rightarrow> nat \<Rightarrow> bytes \<Rightarrow> 'w sys \<Rightarrow> 'w sys option" where
  "mbx_put n off bs s = do {
     m \<leftarrow> put_bytes (n * activembxsize s + off) bs (MBX s);
     Some (s\<lparr>MBX := m\<rparr>)
   }"

definition mbx_get :: "nat \<Rightarrow> nat \<Rightarrow> nat \<Rightarrow> 'w sys \<Rightarrow> bytes option" where
  "mbx_get n off len s = get_bytes (n * activembxsize s + off) len (MBX s)"

definition mbx_u8 :: "nat \<Rightarrow> nat \<Rightarrow> 'w sys \<Rightarrow> u8 option" where
  "mbx_u8 n off s = map_option hd (mbx_get n off 1 s)"

definition mbx_u16 :: "nat \<Rightarrow> nat \<Rightarrow> 'w sys \<Rightarrow> u16 option" where
  "mbx_u16 n off s = map_option rd16 (mbx_get n off 2 s)"

definition mbx_u32 :: "nat \<Rightarrow> nat \<Rightarrow> 'w sys \<Rightarrow> u32 option" where
  "mbx_u32 n off s = map_option rd32 (mbx_get n off 4 s)"

text \<open>
  The header \<open>_MBXh\<close>: length at 0, address at 2, channel and priority in byte 4, and in
  byte 5 the type (low nibble) and the counter (high nibble).
\<close>

definition mbx_length :: "nat \<Rightarrow> 'w sys \<Rightarrow> u16 option" where
  "mbx_length n s = mbx_u16 n 0 s"

definition mbx_type :: "nat \<Rightarrow> 'w sys \<Rightarrow> u8 option" where
  "mbx_type n s = map_option (\<lambda>b. b AND 0x0F) (mbx_u8 n 5 s)"

definition mbx_cnt :: "nat \<Rightarrow> 'w sys \<Rightarrow> u8 option" where
  "mbx_cnt n s = map_option (\<lambda>b. drop_bit 4 b) (mbx_u8 n 5 s)"

definition mbx_set_length :: "nat \<Rightarrow> u16 \<Rightarrow> 'w sys \<Rightarrow> 'w sys option" where
  "mbx_set_length n len s = mbx_put n 0 (le16 len) s"

definition mbx_set_type :: "nat \<Rightarrow> u8 \<Rightarrow> 'w sys \<Rightarrow> 'w sys option" where
  "mbx_set_type n t s = do {
     b \<leftarrow> mbx_u8 n 5 s;
     mbx_put n 5 [(b AND 0xF0) OR (t AND 0x0F)] s
   }"

definition mbx_set_cnt :: "nat \<Rightarrow> u8 \<Rightarrow> 'w sys \<Rightarrow> 'w sys option" where
  "mbx_set_cnt n c s = do {
     b \<leftarrow> mbx_u8 n 5 s;
     mbx_put n 5 [(b AND 0x0F) OR push_bit 4 (c AND 0x0F)] s
   }"

definition set_mbxstate :: "nat \<Rightarrow> u8 \<Rightarrow> 'w sys \<Rightarrow> 'w sys" where
  "set_mbxstate n v s = s\<lparr>MBXcontrol := (MBXcontrol s)(n := v)\<rparr>"

text \<open>\<open>ESC_MBXDSIZE\<close>: room for the service data of a mailbox, an unsigned 32 bit value.\<close>

definition ESC_MBXDSIZE :: "'w sys \<Rightarrow> u32" where
  "ESC_MBXDSIZE s = of_nat (activembxsize s) - 6"

subsection \<open>Room in a buffer\<close>

text \<open>Buffer \<open>n\<close> of the active size lies inside \<open>MBX\<close>.\<close>

definition has_room :: "nat \<Rightarrow> 'w sys \<Rightarrow> bool" where
  "has_room n s \<longleftrightarrow> n * activembxsize s + activembxsize s \<le> length (MBX s)"

lemma wp_mbx_put [wp]:
  assumes "has_room n s" and "off + length bs \<le> activembxsize s"
    and "\<And>m. length m = length (MBX s) \<Longrightarrow>
           put_bytes (n * activembxsize s + off) bs (MBX s) = Some m \<Longrightarrow> Q (s\<lparr>MBX := m\<rparr>)"
  shows "ok Q (mbx_put n off bs s)"
  using assms by (auto simp: mbx_put_def has_room_def intro!: wp)

lemma wp_mbx_get [wp]:
  assumes "has_room n s" and "off + len \<le> activembxsize s"
    and "\<And>bs. length bs = len \<Longrightarrow> mbx_get n off len s = Some bs \<Longrightarrow> Q bs"
  shows "ok Q (mbx_get n off len s)"
  using assms unfolding mbx_get_def has_room_def by (auto intro!: wp)

lemma wp_mbx_u8 [wp]:
  "has_room n s \<Longrightarrow> off + 1 \<le> activembxsize s \<Longrightarrow> (\<And>b. mbx_u8 n off s = Some b \<Longrightarrow> Q b) \<Longrightarrow>
     ok Q (mbx_u8 n off s)"
  by (auto simp: mbx_u8_def intro!: wp)

lemma wp_mbx_u16 [wp]:
  "has_room n s \<Longrightarrow> off + 2 \<le> activembxsize s \<Longrightarrow> (\<And>b. mbx_u16 n off s = Some b \<Longrightarrow> Q b) \<Longrightarrow>
     ok Q (mbx_u16 n off s)"
  by (auto simp: mbx_u16_def intro!: wp)

lemma wp_mbx_u32 [wp]:
  "has_room n s \<Longrightarrow> off + 4 \<le> activembxsize s \<Longrightarrow> (\<And>b. mbx_u32 n off s = Some b \<Longrightarrow> Q b) \<Longrightarrow>
     ok Q (mbx_u32 n off s)"
  by (auto simp: mbx_u32_def intro!: wp)

lemma wp_mbx_length [wp]:
  "has_room n s \<Longrightarrow> ESC_MBXHSIZE \<le> activembxsize s \<Longrightarrow>
     (\<And>b. mbx_length n s = Some b \<Longrightarrow> Q b) \<Longrightarrow> ok Q (mbx_length n s)"
  by (auto simp: mbx_length_def intro!: wp)

lemma wp_mbx_type [wp]:
  "has_room n s \<Longrightarrow> ESC_MBXHSIZE \<le> activembxsize s \<Longrightarrow>
     (\<And>b. mbx_type n s = Some b \<Longrightarrow> Q b) \<Longrightarrow> ok Q (mbx_type n s)"
  by (auto simp: mbx_type_def intro!: wp)

lemma wp_mbx_cnt [wp]:
  "has_room n s \<Longrightarrow> ESC_MBXHSIZE \<le> activembxsize s \<Longrightarrow>
     (\<And>b. mbx_cnt n s = Some b \<Longrightarrow> Q b) \<Longrightarrow> ok Q (mbx_cnt n s)"
  by (auto simp: mbx_cnt_def intro!: wp)

lemma wp_mbx_set_length [wp]:
  "has_room n s \<Longrightarrow> ESC_MBXHSIZE \<le> activembxsize s \<Longrightarrow>
     (\<And>m. length m = length (MBX s) \<Longrightarrow> Q (s\<lparr>MBX := m\<rparr>)) \<Longrightarrow> ok Q (mbx_set_length n len s)"
  by (auto simp: mbx_set_length_def intro!: wp)

lemma wp_mbx_set_type [wp]:
  "has_room n s \<Longrightarrow> ESC_MBXHSIZE \<le> activembxsize s \<Longrightarrow>
     (\<And>m. length m = length (MBX s) \<Longrightarrow> Q (s\<lparr>MBX := m\<rparr>)) \<Longrightarrow> ok Q (mbx_set_type n t s)"
  by (auto simp: mbx_set_type_def intro!: wp)

lemma wp_mbx_set_cnt [wp]:
  "has_room n s \<Longrightarrow> ESC_MBXHSIZE \<le> activembxsize s \<Longrightarrow>
     (\<And>m. length m = length (MBX s) \<Longrightarrow> Q (s\<lparr>MBX := m\<rparr>)) \<Longrightarrow> ok Q (mbx_set_cnt n t s)"
  by (auto simp: mbx_set_cnt_def intro!: wp)

section \<open>Starting and stopping the mailboxes\<close>

definition ESC_checkmbx :: "'w env \<Rightarrow> u8 \<Rightarrow> 'w sys \<Rightarrow> (u8 \<times> 'w sys) option" where
  "ESC_checkmbx E state s = do {
     (f, s) \<leftarrow> ESC_read E ESCREG_SM0 8 s;
     let s = s\<lparr>SM := (SM s)(0 := sm_of_bytes f)\<rparr>;
     (f, s) \<leftarrow> ESC_read E ESCREG_SM1 8 s;
     let s = s\<lparr>SM := (SM s)(1 := sm_of_bytes f)\<rparr>;
     m0 \<leftarrow> activemb0 s;
     if PSA (SM s 0) \<noteq> cfg_sma m0 \<or> SM_Length (SM s 0) \<noteq> cfg_sml m0 \<or>
        Command (SM s 0) \<noteq> cfg_smc m0 \<or> ECsm (SM s 0) = 0
     then do {
       let s = s\<lparr>SMtestresult := SMRESULT_ERRSM0\<rparr>;
       s \<leftarrow> ESC_SMdisable E 0 s;
       s \<leftarrow> ESC_SMdisable E 1 s;
       Some (ESCinit OR ESCerror, s)
     }
     else do {
       m1 \<leftarrow> activemb1 s;
       if PSA (SM s 1) \<noteq> cfg_sma m1 \<or> SM_Length (SM s 1) \<noteq> cfg_sml m1 \<or>
          Command (SM s 1) \<noteq> cfg_smc m1 \<or> ECsm (SM s 1) = 0
       then do {
         let s = s\<lparr>SMtestresult := SMRESULT_ERRSM1\<rparr>;
         s \<leftarrow> ESC_SMdisable E 0 s;
         s \<leftarrow> ESC_SMdisable E 1 s;
         Some (ESCinit OR ESCerror, s)
       }
       else Some (state, s)
     }
   }"

definition ESC_startmbx :: "'w env \<Rightarrow> u8 \<Rightarrow> 'w sys \<Rightarrow> (u8 \<times> 'w sys) option" where
  "ESC_startmbx E state s = do {
     let s = s\<lparr>activembxsize := MBXSIZE (opt E), activemb0 := Some (fst (mb s)),
               activemb1 := Some (snd (mb s))\<rparr>;
     s \<leftarrow> ESC_SMenable E 0 s;
     s \<leftarrow> ESC_SMenable E 1 s;
     s \<leftarrow> ESC_SMstatus E 0 s;
     s \<leftarrow> ESC_SMstatus E 1 s;
     (state, s) \<leftarrow> ESC_checkmbx E state s;
     if state AND ESCerror \<noteq> 0 then do {
       s \<leftarrow> ESC_ALerror E ALERR_INVALIDMBXCONFIG s;
       Some (state, s\<lparr>MBXrun := 0\<rparr>)
     }
     else do {
       let s = s\<lparr>toggle := ECrep (SM s 1)\<rparr>;
       let s = s\<lparr>SM := (SM s)(1 := set_PDIrep (toggle s) (SM s 1))\<rparr>;
       s \<leftarrow> ESC_SMwritepdi E 1 s;
       Some (state, s\<lparr>MBXrun := 1\<rparr>)
     }
   }"

definition ESC_startmbxboot :: "'w env \<Rightarrow> u8 \<Rightarrow> 'w sys \<Rightarrow> (u8 \<times> 'w sys) option" where
  "ESC_startmbxboot E state s = do {
     let s = s\<lparr>activembxsize := MBXSIZEBOOT (opt E), activemb0 := Some (fst (mbboot s)),
               activemb1 := Some (snd (mbboot s))\<rparr>;
     s \<leftarrow> ESC_SMenable E 0 s;
     s \<leftarrow> ESC_SMenable E 1 s;
     s \<leftarrow> ESC_SMstatus E 0 s;
     s \<leftarrow> ESC_SMstatus E 1 s;
     (state, s) \<leftarrow> ESC_checkmbx E state s;
     if state AND ESCerror \<noteq> 0 then do {
       s \<leftarrow> ESC_ALerror E ALERR_INVALIDBOOTMBXCONFIG s;
       Some (state, s\<lparr>MBXrun := 0\<rparr>)
     }
     else do {
       let s = s\<lparr>toggle := ECrep (SM s 1)\<rparr>;
       let s = s\<lparr>SM := (SM s)(1 := set_PDIrep (toggle s) (SM s 1))\<rparr>;
       s \<leftarrow> ESC_SMwritepdi E 1 s;
       Some (state, s\<lparr>MBXrun := 1\<rparr>)
     }
   }"

definition ESC_SDO_cancel :: "'w sys \<Rightarrow> 'w sys" where
  "ESC_SDO_cancel s = s\<lparr>sdo_held_active := 0\<rparr>"

definition ESC_stopmbx :: "'w env \<Rightarrow> 'w sys \<Rightarrow> 'w sys option" where
  "ESC_stopmbx E s = do {
     let s = s\<lparr>MBXrun := 0\<rparr>;
     s \<leftarrow> ESC_SMdisable E 0 s;
     s \<leftarrow> ESC_SMdisable E 1 s;
     let s = s\<lparr>MBXcontrol := (\<lambda>n. if n < MBXBUFFERS (opt E) then MBXstate_idle else MBXcontrol s n)\<rparr>;
     let s = s\<lparr>mbxoutpost := 0, mbxbackup := 0, xoe := 0, mbxfree := 1, toggle := 0,
               mbxincnt := 0, segmented := 0, frags := 0, fragsleft := 0, txcue := 0,
               index_v := 0, subindex_v := 0, flags_v := 0\<rparr>;
     Some (ESC_SDO_cancel s)
   }"

section \<open>Reading and writing the mailbox\<close>

text \<open>
  The sizes are compared as unsigned 32 bit values: \<open>ESC_MBX0_sml - ESC_MBXHSIZE\<close> wraps
  when the configured mailbox is shorter than its header.
\<close>

definition clamp_len :: "u16 \<Rightarrow> u16 \<Rightarrow> u16" where
  "clamp_len sml len =
     (if to_u32 len > to_u32 sml - 6 then to_u16 (to_u32 sml - 6) else len)"

definition ESC_readmbx :: "'w env \<Rightarrow> 'w sys \<Rightarrow> 'w sys option" where
  "ESC_readmbx E s = do {
     m0 \<leftarrow> activemb0 s;
     (f, s) \<leftarrow> ESC_read E (cfg_sma m0) ESC_MBXHSIZE s;
     s \<leftarrow> mbx_put 0 0 (map f [0..<ESC_MBXHSIZE]) s;
     len \<leftarrow> mbx_length 0 s;
     let len = clamp_len (cfg_sml m0) len;
     (f, s) \<leftarrow> ESC_read E (cfg_sma m0 + 6) (unat len) s;
     s \<leftarrow> mbx_put 0 ESC_MBXHSIZE (map f [0..<unat len]) s;
     s \<leftarrow> (if to_u32 len + 6 < to_u32 (cfg_sml m0)
          then do { (dummy, s) \<leftarrow> ESC_read E (cfg_sme m0) 1 s; Some s }
          else Some s);
     Some (set_mbxstate 0 MBXstate_inclaim s)
   }"

definition ESC_writembx :: "'w env \<Rightarrow> nat \<Rightarrow> 'w sys \<Rightarrow> 'w sys option" where
  "ESC_writembx E n s = do {
     m1 \<leftarrow> activemb1 s;
     len \<leftarrow> mbx_length n s;
     let len = clamp_len (cfg_sml m1) len;
     bs \<leftarrow> mbx_get n 0 (unat (to_u16 (6 + to_u32 len))) s;
     s \<leftarrow> ESC_write E (cfg_sma m1) bs s;
     s \<leftarrow> (if to_u32 len + 6 < to_u32 (cfg_sml m1) then ESC_write E (cfg_sme m1) [0] s else Some s);
     Some (s\<lparr>mbxfree := 0\<rparr>)
   }"

definition ESC_ackmbxread :: "'w env \<Rightarrow> 'w sys \<Rightarrow> 'w sys option" where
  "ESC_ackmbxread E s = do {
     m1 \<leftarrow> activemb1 s;
     s \<leftarrow> ESC_write E (cfg_sma m1) [0] s;
     Some (s\<lparr>mbxfree := 1\<rparr>)
   }"

section \<open>The buffer pool\<close>

text \<open>The loops \<open>while ((n > 0) && \<dots>) n--\<close>: the highest buffer above 0 that satisfies \<open>p\<close>, or 0.\<close>

fun scan_down :: "(nat \<Rightarrow> bool) \<Rightarrow> nat \<Rightarrow> nat" where
  "scan_down p 0 = 0"
| "scan_down p (Suc n) = (if p (Suc n) then Suc n else scan_down p n)"

text \<open>\<open>uint8_t n = ESC_MBXBUFFERS - 1\<close>.\<close>

definition last_buffer :: "'w env \<Rightarrow> nat" where
  "last_buffer E = unat (of_nat (MBXBUFFERS (opt E)) - 1 :: u8)"

text \<open>The mailbox counter of the next message: 1 to 7, then 1 again.\<close>

definition next_mbxcnt :: "u8 \<Rightarrow> u8" where
  "next_mbxcnt c = (let c = (c + 1) AND 0x07 in if c = 0 then 1 else c)"

definition ESC_claimbuffer :: "'w env \<Rightarrow> 'w sys \<Rightarrow> (nat \<times> 'w sys) option" where
  "ESC_claimbuffer E s = do {
     let n = scan_down (\<lambda>n. MBXcontrol s n = MBXstate_idle) (last_buffer E);
     if n \<noteq> 0 then do {
       let s = set_mbxstate n MBXstate_outclaim s;
       let s = s\<lparr>mbxcnt := next_mbxcnt (mbxcnt s)\<rparr>;
       s \<leftarrow> mbx_put n 2 (le16 0) s;
       s \<leftarrow> mbx_put n 4 [0] s;
       s \<leftarrow> mbx_set_cnt n (mbxcnt s) s;
       Some (n, s\<lparr>txcue := txcue s + 1\<rparr>)
     }
     else Some (n, s)
   }"

definition ESC_outreqbuffer :: "'w env \<Rightarrow> 'w sys \<Rightarrow> nat" where
  "ESC_outreqbuffer E s = scan_down (\<lambda>n. MBXcontrol s n = MBXstate_outreq) (last_buffer E)"

definition MBX_error :: "'w env \<Rightarrow> u16 \<Rightarrow> 'w sys \<Rightarrow> 'w sys option" where
  "MBX_error E error s = do {
     (MBXout, s) \<leftarrow> ESC_claimbuffer E s;
     if MBXout \<noteq> 0 then do {
       s \<leftarrow> mbx_set_length MBXout 0x04 s;
       s \<leftarrow> mbx_set_type MBXout MBXERR s;
       s \<leftarrow> mbx_put MBXout 6 (le16 0x01) s;
       s \<leftarrow> mbx_put MBXout 8 (le16 error) s;
       Some (set_mbxstate MBXout MBXstate_outreq s)
     }
     else Some s
   }"

section \<open>The mailbox protocol\<close>

text \<open>The four parts of \<open>ESC_mbxprocess\<close>, in its order; each part that returns ends the step.\<close>

definition mbx_outread :: "'w env \<Rightarrow> 'w sys \<Rightarrow> (u8 \<times> 'w sys) option" where
  "mbx_outread E s = do {
     s \<leftarrow> ESC_ackmbxread E s;
     let s = (if mbxbackup s \<noteq> 0 then set_mbxstate (unat (mbxbackup s)) MBXstate_idle s else s);
     s \<leftarrow> (if MBXcontrol s (unat (mbxoutpost s)) = MBXstate_again
          then ESC_writembx E (unat (mbxoutpost s)) s else Some s);
     let s = set_mbxstate (unat (mbxoutpost s)) MBXstate_backup s;
     let s = s\<lparr>mbxbackup := mbxoutpost s\<rparr>;
     let s = s\<lparr>mbxoutpost := 0\<rparr>;
     if xoe s > 0 then Some (1, s) else Some (0, s)
   }"

definition mbx_repeat :: "'w env \<Rightarrow> 'w sys \<Rightarrow> (u8 \<times> 'w sys) option" where
  "mbx_repeat E s =
     (if mbxoutpost s \<noteq> 0 \<or> mbxbackup s \<noteq> 0 then do {
        s \<leftarrow> (if mbxoutpost s = 0 then ESC_writembx E (unat (mbxbackup s)) s
             else do {
               s \<leftarrow> ESC_SMdisable E 1 s;
               let s = set_mbxstate (unat (mbxoutpost s)) MBXstate_again s;
               s \<leftarrow> ESC_SMenable E 1 s;
               ESC_writembx E (unat (mbxbackup s)) s
             });
        let s = s\<lparr>toggle := ECrep (SM s 1)\<rparr>;
        let s = s\<lparr>SM := (SM s)(1 := set_PDIrep (toggle s) (SM s 1))\<rparr>;
        s \<leftarrow> ESC_SMwritepdi E 1 s;
        Some (0, s)
      }
      else Some (0, s))"

definition mbx_post :: "'w env \<Rightarrow> 'w sys \<Rightarrow> 'w sys option" where
  "mbx_post E s =
     (if txcue s \<noteq> 0 \<and> (mbxfree s \<noteq> 0 \<or> MBXstat (SM s 1) = 0) then do {
        let mbxhandle = ESC_outreqbuffer E s;
        if mbxhandle \<noteq> 0 then do {
          s \<leftarrow> ESC_writembx E mbxhandle s;
          s \<leftarrow> ESC_SMstatus E 1 s;
          let s = set_mbxstate mbxhandle MBXstate_outpost s;
          let s = s\<lparr>mbxoutpost := of_nat mbxhandle\<rparr>;
          if txcue s \<noteq> 0 then Some (s\<lparr>txcue := txcue s - 1\<rparr>) else Some s
        }
        else Some s
      }
      else Some s)"

definition mbx_receive :: "'w env \<Rightarrow> 'w sys \<Rightarrow> (u8 \<times> 'w sys) option" where
  "mbx_receive E s =
     (if MBXstat (SM s 0) \<noteq> 0 \<and> MBXcontrol s 0 = 0 \<and> mbxoutpost s = 0 \<and> xoe s = 0 then do {
        s \<leftarrow> ESC_readmbx E s;
        let s = s\<lparr>SM := (SM s)(0 := clear_MBXstat (SM s 0))\<rparr>;
        m0 \<leftarrow> activemb0 s;
        len \<leftarrow> mbx_length 0 s;
        s \<leftarrow> (if len = 0 \<or> to_u32 len > to_u32 (cfg_sml m0) - 6 then do {
               s \<leftarrow> MBX_error E MBXERR_INVALIDHEADER s;
               Some (set_mbxstate 0 MBXstate_idle s)
             }
             else Some s);
        cnt \<leftarrow> mbx_cnt 0 s;
        let s = (if cnt \<noteq> 0 \<and> cnt = mbxincnt s then set_mbxstate 0 MBXstate_idle s else s);
        Some (1, s\<lparr>mbxincnt := cnt\<rparr>)
      }
      else Some (0, s))"

definition ESC_mbxprocess :: "'w env \<Rightarrow> 'w sys \<Rightarrow> (u8 \<times> 'w sys) option" where
  "ESC_mbxprocess E s =
     (if MBXrun s = 0 then Some (0, s)
      else do {
        s \<leftarrow> (if ALevent s AND (ESCREG_ALEVENT_SM0 OR ESCREG_ALEVENT_SM1) \<noteq> 0
             then do { s \<leftarrow> ESC_SMstatus E 0 s; ESC_SMstatus E 1 s }
             else Some s);
        if mbxoutpost s \<noteq> 0 \<and> ALevent s AND ESCREG_ALEVENT_SM1 \<noteq> 0 then mbx_outread E s
        else if ECrep (SM s 1) \<noteq> toggle s then mbx_repeat E s
        else do {
          s \<leftarrow> mbx_post E s;
          mbx_receive E s
        }
      })"

definition ESC_xoeprocess :: "'w env \<Rightarrow> 'w sys \<Rightarrow> 'w sys option" where
  "ESC_xoeprocess E s =
     (if MBXrun s = 0 then Some s
      else if xoe s = 0 \<and> MBXcontrol s 0 = MBXstate_inclaim then do {
        t \<leftarrow> mbx_type 0 s;
        len \<leftarrow> mbx_length 0 s;
        s \<leftarrow> (if t = 0 \<or> len = 0 then MBX_error E MBXERR_INVALIDHEADER s
             else MBX_error E MBXERR_UNSUPPORTEDPROTOCOL s);
        Some (set_mbxstate 0 MBXstate_idle s)
      }
      else Some s)"

end
