(* ===== verification/Object_Dict.thy ===== *)
theory Object_Dict
  imports Esc_Reg
begin

text \<open>
  The object dictionary (\<open>esc_coe.c\<close>, first part): access to the memory the dictionary
  points into, the searches \<open>SDO_findobject\<close> and \<open>SDO_findsubindex\<close>, the value of a
  read-only or memory-backed entry, and \<open>sizeOfPDO\<close>, which walks the PDO assignment of a
  SyncManager and builds its list of mapped objects.
\<close>

section \<open>Memory behind the dictionary\<close>

text \<open>\<open>at xs n\<close>: the entry of a C array, or no result outside it.\<close>

definition at :: "'a list \<Rightarrow> nat \<Rightarrow> 'a option" where
  "at xs n = (if n < length xs then Some (xs ! n) else None)"

lemma at_simps [simp]: "at [] n = None" "at (x # xs) 0 = Some x" "at (x # xs) (Suc n) = at xs n"
  by (simp_all add: at_def)

lemma wp_at [wp]: "n < length xs \<Longrightarrow> Q (xs ! n) \<Longrightarrow> ok Q (at xs n)"
  by (simp add: at_def)

fun block_bytes :: "block \<Rightarrow> 'w sys \<Rightarrow> bytes" where
  "block_bytes (Obj b) s = omem s b"
| "block_bytes Mbxdata s = mbxdata s"
| "block_bytes Mbx s = MBX s"
| "block_bytes (Konst v) s = le32 v"

definition mem_get :: "ptr \<Rightarrow> nat \<Rightarrow> 'w sys \<Rightarrow> bytes option" where
  "mem_get p n s = get_bytes (snd p) n (block_bytes (fst p) s)"

text \<open>A store to a constant \<open>value\<close> field has no result: the dictionary is read-only.\<close>

definition mem_put :: "ptr \<Rightarrow> bytes \<Rightarrow> 'w sys \<Rightarrow> 'w sys option" where
  "mem_put p bs s = (case fst p of
       Obj b \<Rightarrow> map_option (\<lambda>m. s\<lparr>omem := (omem s)(b := m)\<rparr>) (put_bytes (snd p) bs (omem s b))
     | Mbxdata \<Rightarrow> map_option (\<lambda>m. s\<lparr>mbxdata := m\<rparr>) (put_bytes (snd p) bs (mbxdata s))
     | Mbx \<Rightarrow> map_option (\<lambda>m. s\<lparr>MBX := m\<rparr>) (put_bytes (snd p) bs (MBX s))
     | Konst v \<Rightarrow> None)"

section \<open>Searching\<close>

text \<open>
  \<open>while (SDOobjects[n].index < index) n++\<close> over the array; the position is counted up from
  \<open>n\<close>. Running past the last entry has no result.
\<close>

fun find_index :: "objectlist list \<Rightarrow> u16 \<Rightarrow> int \<Rightarrow> int option" where
  "find_index [] index n = None"
| "find_index (ob # obs) index n =
     (if ol_index ob < index then find_index obs index (n + 1)
      else if ol_index ob \<noteq> index then Some (-1) else Some n)"

definition SDO_findobject :: "'w env \<Rightarrow> u16 \<Rightarrow> int option" where
  "SDO_findobject E index = find_index (SDOobjects E) index 0"

text \<open>\<open>&SDOobjects[nidx]\<close>.\<close>

definition obj_at :: "'w env \<Rightarrow> int \<Rightarrow> objectlist option" where
  "obj_at E nidx = (if nidx < 0 then None else at (SDOobjects E) (nat nidx))"

text \<open>
  \<open>while ((objd + n)->subindex < subindex && n < maxsub) n++\<close>: \<open>k\<close> is \<open>maxsub - n\<close>, so
  the loop tests the entry first and then whether another one is left.
\<close>

fun scan_sub :: "objd list \<Rightarrow> u16 \<Rightarrow> nat \<Rightarrow> nat \<Rightarrow> nat option" where
  "scan_sub od subindex 0 n = do { d \<leftarrow> at od n; Some n }"
| "scan_sub od subindex (Suc k) n = do {
     d \<leftarrow> at od n;
     if od_subindex d < subindex then scan_sub od subindex k (n + 1) else Some n
   }"

definition search_sub :: "objd list \<Rightarrow> u8 \<Rightarrow> u8 \<Rightarrow> int option" where
  "search_sub objdesc maxsub subindex = do {
     direct \<leftarrow> (if subindex \<le> maxsub
                then do { d \<leftarrow> at objdesc (unat subindex); Some (od_subindex d = to_u16 subindex) }
                else Some False);
     if direct then Some (int (unat subindex))
     else do {
       n \<leftarrow> scan_sub objdesc (to_u16 subindex) (unat maxsub) 0;
       d \<leftarrow> at objdesc n;
       if od_subindex d \<noteq> to_u16 subindex then Some (-1) else Some (int n)
     }
   }"

definition SDO_findsubindex :: "'w env \<Rightarrow> int \<Rightarrow> u8 \<Rightarrow> int option" where
  "SDO_findsubindex E nidx subindex = do {
     ob \<leftarrow> obj_at E nidx;
     search_sub (ol_objdesc ob) (ol_maxsub ob) subindex
   }"

subsection \<open>What the searches need of a dictionary\<close>

text \<open>
  The search by index needs the objects in ascending order of their index and a sentinel
  \<open>0xFFFF\<close> at the end.
\<close>

definition sorted_dict :: "objectlist list \<Rightarrow> bool" where
  "sorted_dict obs \<longleftrightarrow> obs \<noteq> [] \<and> ol_index (last obs) = 0xFFFF \<and>
     sorted_wrt (\<lambda>x y. ol_index x < ol_index y) obs"

text \<open>
  The search by subindex sees the entries up to position \<open>maxsub\<close>. It stays inside the table when
  there are so many, or when the subindex is below the number of those that there are.
\<close>

definition declared :: "objectlist \<Rightarrow> objd list" where
  "declared ob = take (Suc (unat (ol_maxsub ob))) (ol_objdesc ob)"

definition in_table :: "objectlist \<Rightarrow> u8 \<Rightarrow> bool" where
  "in_table ob sub \<longleftrightarrow> sorted_wrt (\<lambda>x y. od_subindex x < od_subindex y) (ol_objdesc ob) \<and>
     (unat (ol_maxsub ob) < length (ol_objdesc ob) \<or> unat sub < length (ol_objdesc ob))"

text \<open>A request that the dictionary can take: not for the sentinel, and inside the table of its object.\<close>

definition in_tables :: "objectlist list \<Rightarrow> u16 \<Rightarrow> u8 \<Rightarrow> bool" where
  "in_tables obs index sub \<longleftrightarrow> index \<noteq> 0xFFFF \<and> (\<forall>ob \<in> set obs. ol_index ob = index \<longrightarrow> in_table ob sub)"

text \<open>
  A complete dictionary: sorted, and every object with exactly \<open>maxsub + 1\<close> entries in ascending
  order of their subindex, so that every request but those for the sentinel is inside the
  tables. The dictionary of \<open>rtl_xmc4_dynpdo\<close> is complete. That of the drive is sorted but not
  complete: \<open>0x1C12\<close> and \<open>0x1C13\<close> have entries beyond \<open>maxsub\<close>, \<open>0x1C32\<close> and \<open>0x1C33\<close> have gaps.
\<close>

definition wf_object :: "objectlist \<Rightarrow> bool" where
  "wf_object ob \<longleftrightarrow> length (ol_objdesc ob) = unat (ol_maxsub ob) + 1 \<and>
     sorted_wrt (\<lambda>x y. od_subindex x < od_subindex y) (ol_objdesc ob)"

definition wf_dict :: "objectlist list \<Rightarrow> bool" where
  "wf_dict obs \<longleftrightarrow> (\<exists>body s. obs = body @ [s] \<and> ol_index s = 0xFFFF \<and>
     sorted_wrt (\<lambda>x y. ol_index x < ol_index y) obs \<and> (\<forall>ob \<in> set body. wf_object ob))"

text \<open>
  A table with a search that answers with a position or \<open>-1\<close>, as the stack's callers see
  it: on a good table a present key is found where it is, an absent key gives \<open>-1\<close>.
\<close>

locale table_search =
  fixes key :: "'o \<Rightarrow> u16"
    and good :: "'o list \<Rightarrow> u16 \<Rightarrow> bool"
    and search :: "'o list \<Rightarrow> u16 \<Rightarrow> int option"
  assumes hit: "good xs k \<Longrightarrow> n < length xs \<Longrightarrow> key (xs ! n) = k \<Longrightarrow> search xs k = Some (int n)"
    and miss: "good xs k \<Longrightarrow> k \<notin> key ` set xs \<Longrightarrow> search xs k = Some (-1)"
begin

lemma result:
  assumes "good xs k" and "search xs k = Some n"
  shows "if k \<in> key ` set xs then 0 \<le> n \<and> nat n < length xs \<and> key (xs ! nat n) = k else n = -1"
proof (cases "k \<in> key ` set xs")
  case True
  then obtain i where i: "i < length xs" "key (xs ! i) = k"
    by (auto simp: in_set_conv_nth)
  with hit [OF assms(1) i] assms(2) True show ?thesis by auto
next
  case False
  with miss [OF assms(1) False] assms(2) show ?thesis by simp
qed

lemma total: "good xs k \<Longrightarrow> \<exists>n. search xs k = Some n"
  by (cases "k \<in> key ` set xs") (use hit miss in \<open>fastforce simp: in_set_conv_nth\<close>)+

text \<open>Keys of a good table are looked up at one position only.\<close>

lemma unique:
  assumes "good xs k" "i < length xs" "j < length xs" "key (xs ! i) = k" "key (xs ! j) = k"
  shows "i = j"
  using hit [OF assms(1,2,4)] hit [OF assms(1,3,5)] by simp

lemma wp_search:
  assumes "good xs k"
    and "k \<notin> key ` set xs \<Longrightarrow> Q (-1)"
    and "\<And>n. n < length xs \<Longrightarrow> key (xs ! n) = k \<Longrightarrow> Q (int n)"
  shows "ok Q (search xs k)"
  using total [OF assms(1)] result [OF assms(1)] assms(2,3)
  by (auto split: if_splits) (metis (no_types, lifting) int_nat_eq)

end

lemma find_index_hit:
  assumes "sorted_wrt (\<lambda>x y. ol_index x < ol_index y) obs" "n < length obs" "ol_index (obs ! n) = k"
  shows "find_index obs k m = Some (m + int n)"
  using assms
proof (induction obs arbitrary: n m)
  case (Cons ob obs)
  show ?case
  proof (cases n)
    case 0
    with Cons.prems show ?thesis by simp
  next
    case (Suc i)
    with Cons.prems have "ol_index ob < k" by auto
    with Cons.IH [of i "m + 1"] Cons.prems Suc show ?thesis by simp
  qed
qed simp

lemma find_index_miss:
  assumes "k \<notin> ol_index ` set obs" "\<exists>x \<in> set obs. k < ol_index x"
  shows "find_index obs k m = Some (-1)"
  using assms by (induction obs arbitrary: m) auto

interpretation objects: table_search ol_index "\<lambda>obs k. sorted_dict obs" "\<lambda>obs k. find_index obs k 0"
proof
  show "find_index obs k 0 = Some (int n)"
    if "sorted_dict obs" "n < length obs" "ol_index (obs ! n) = k" for obs k n
    using that find_index_hit [of obs n k 0] by (auto simp: sorted_dict_def)
  show "find_index obs k 0 = Some (-1)"
    if "sorted_dict obs" "k \<notin> ol_index ` set obs" for obs k
  proof (rule find_index_miss [OF that(2)])
    have x: "last obs \<in> set obs" "ol_index (last obs) = 0xFFFF"
      using that(1) by (simp_all add: sorted_dict_def)
    have "k \<le> 0xFFFF" using unat_bound [of k] by (simp add: word_le_nat_alt)
    moreover have "k \<noteq> 0xFFFF" using that(2) x by (metis image_eqI)
    ultimately show "\<exists>x \<in> set obs. k < ol_index x"
      using x by (intro bexI [of _ "last obs"]) auto
  qed
qed

lemma scan_sub_result:
  assumes "n + k < length od"
  shows "\<exists>m. scan_sub od sub k n = Some m \<and> n \<le> m \<and> m \<le> n + k \<and>
           (\<forall>i. n \<le> i \<and> i < m \<longrightarrow> od_subindex (od ! i) < sub) \<and>
           (m < n + k \<longrightarrow> \<not> od_subindex (od ! m) < sub)"
  using assms
proof (induction k arbitrary: n)
  case 0
  then show ?case by (auto simp: at_def)
next
  case (Suc k)
  show ?case
  proof (cases "od_subindex (od ! n) < sub")
    case False
    with Suc.prems show ?thesis by (auto simp: at_def)
  next
    case True
    from Suc.IH [of "Suc n"] Suc.prems obtain m where m: "scan_sub od sub k (Suc n) = Some m"
      "Suc n \<le> m" "m \<le> Suc n + k" "\<forall>i. Suc n \<le> i \<and> i < m \<longrightarrow> od_subindex (od ! i) < sub"
      "m < Suc n + k \<longrightarrow> \<not> od_subindex (od ! m) < sub" by auto
    have "i = n \<or> Suc n \<le> i" if "n \<le> i" for i using that by auto
    with m True Suc.prems show ?thesis by (intro exI [of _ m]) (auto simp: at_def)
  qed
qed

text \<open>The direct probe and the scan agree on a well-formed object.\<close>

lemma search_sub_correct:
  assumes len: "length od = unat maxsub + 1"
    and sorted: "sorted_wrt (\<lambda>x y. od_subindex x < od_subindex y) od"
  shows "n < length od \<Longrightarrow> od_subindex (od ! n) = to_u16 sub \<Longrightarrow>
           search_sub od maxsub sub = Some (int n)"
    and "to_u16 sub \<notin> od_subindex ` set od \<Longrightarrow> search_sub od maxsub sub = Some (-1)"
proof -
  let ?k = "to_u16 sub"
  have lt: "od_subindex (od ! i) < od_subindex (od ! j)" if "i < j" "j < length od" for i j
    using sorted that by (auto simp: sorted_wrt_iff_nth_less)
  obtain m where m: "scan_sub od ?k (unat maxsub) 0 = Some m" "m \<le> unat maxsub"
    "\<forall>i < m. od_subindex (od ! i) < ?k"
    "m < unat maxsub \<longrightarrow> \<not> od_subindex (od ! m) < ?k"
    using scan_sub_result [of 0 "unat maxsub" od ?k] len by auto
  show "search_sub od maxsub sub = Some (int n)" if n: "n < length od" "od_subindex (od ! n) = ?k"
  proof -
    have uniq: "i = n" if "i < length od" "od_subindex (od ! i) = ?k" for i
      using lt [of i n] lt [of n i] that n by (cases i n rule: linorder_cases) auto
    have "\<not> n < m" using m(3) n by auto
    moreover have "\<not> m < n" using lt [of m n] m(2,4) n len by auto
    ultimately have "m = n" by simp
    with m(1) n uniq [of "unat sub"] len show ?thesis
      by (auto simp: search_sub_def at_def word_le_nat_alt)
  qed
  show "search_sub od maxsub sub = Some (-1)" if "?k \<notin> od_subindex ` set od"
  proof -
    have ne: "od_subindex (od ! i) \<noteq> ?k" if "i < length od" for i
      using \<open>?k \<notin> od_subindex ` set od\<close> that by (metis image_eqI nth_mem)
    show ?thesis
      using m(1,2) ne [of m] ne [of "unat sub"] len
      by (simp add: search_sub_def at_def word_le_nat_alt)
  qed
qed

interpretation subs: table_search od_subindex
  "\<lambda>od k. k < 0x100 \<and> 0 < length od \<and> length od \<le> 256 \<and>
          sorted_wrt (\<lambda>x y. od_subindex x < od_subindex y) od"
  "\<lambda>od k. search_sub od (of_nat (length od - 1)) (to_u8 k)"
proof
  fix od :: "objd list" and k :: u16 and n :: nat
  assume good: "k < 0x100 \<and> 0 < length od \<and> length od \<le> 256 \<and>
          sorted_wrt (\<lambda>x y. od_subindex x < od_subindex y) od"
  have "unat (of_nat (length od - 1) :: u8) = length od - 1"
    using good by (subst unat_of_nat) (auto simp: take_bit_nat_eq_self)
  with good have len: "length od = unat (of_nat (length od - 1) :: u8) + 1" by simp
  have k: "to_u16 (to_u8 k) = k"
    using good by (auto simp: word_unat_eq_iff word_less_nat_alt)
  note c = search_sub_correct [OF len, where sub = "to_u8 k", unfolded k]
  show "search_sub od (of_nat (length od - 1)) (to_u8 k) = Some (int n)"
    if "n < length od" "od_subindex (od ! n) = k"
    using c(1) good that by blast
  show "search_sub od (of_nat (length od - 1)) (to_u8 k) = Some (-1)"
    if "k \<notin> od_subindex ` set od"
    using c(2) good that by blast
qed

lemma SDO_findobject_result:
  assumes "sorted_dict (SDOobjects E)"
  obtains (found) n where "SDO_findobject E index = Some (int n)" "n < length (SDOobjects E)"
      "ol_index (SDOobjects E ! n) = index"
  | (missing) "SDO_findobject E index = Some (-1)" "index \<notin> ol_index ` set (SDOobjects E)"
proof (cases "index \<in> ol_index ` set (SDOobjects E)")
  case True
  then obtain n where "n < length (SDOobjects E)" "ol_index (SDOobjects E ! n) = index"
    by (auto simp: in_set_conv_nth)
  with objects.hit [of "SDOobjects E" n index] assms show ?thesis
    by (intro found) (simp_all add: SDO_findobject_def)
next
  case False
  with objects.miss [of "SDOobjects E" index] assms show ?thesis
    by (intro missing) (simp_all add: SDO_findobject_def)
qed

lemma wf_dict_sorted: "wf_dict obs \<Longrightarrow> sorted_dict obs"
  by (auto simp: wf_dict_def sorted_dict_def)

lemma wf_dict_in_tables:
  assumes "wf_dict obs" "index \<noteq> 0xFFFF"
  shows "in_tables obs index sub"
proof -
  from assms(1) obtain body s where b: "obs = body @ [s]" "ol_index s = 0xFFFF"
    "\<forall>ob \<in> set body. wf_object ob" by (auto simp: wf_dict_def)
  have "in_table ob sub" if "wf_object ob" for ob
    using that by (simp add: in_table_def wf_object_def)
  with b assms(2) show ?thesis by (auto simp: in_tables_def)
qed

text \<open>The search by subindex looks at the declared entries only.\<close>

lemma scan_sub_take:
  "n + k < N \<Longrightarrow> scan_sub (take N od) sub k n = scan_sub od sub k n"
  by (induction k arbitrary: n) (auto simp: at_def intro!: arg_cong2 [where f = Option.bind])

lemma search_sub_take:
  "search_sub (take (Suc (unat maxsub)) od) maxsub sub = search_sub od maxsub sub"
proof -
  let ?N = "Suc (unat maxsub)"
  have at: "at (take ?N od) n = at od n" if "n < ?N" for n using that by (simp add: at_def)
  have scan: "scan_sub (take ?N od) s (unat maxsub) 0 = scan_sub od s (unat maxsub) 0" for s
    by (rule scan_sub_take) simp
  have small: "m \<le> n + k" if "scan_sub xs s k n = Some m" for xs s k n m
    using that by (induction k arbitrary: n) (auto simp: bind_eq_Some_conv split: if_splits, fastforce)
  have d: "at (take ?N od) (unat sub) = at od (unat sub)" if "sub \<le> maxsub"
    using that by (intro at) (simp add: word_le_nat_alt less_Suc_eq_le)
  show ?thesis
    unfolding search_sub_def scan
    using d at small [of od _ "unat maxsub" 0]
    by (auto intro!: arg_cong2 [where f = Option.bind] simp: fun_eq_iff less_Suc_eq_le split: bind_splits)
qed

section \<open>Values of entries\<close>

text \<open>
  \<open>OBJ_VALUE_FETCH (v, o)\<close> for \<open>v\<close> of 8, 16 and 32 bits: through \<open>data\<close> when it is set,
  otherwise the constant \<open>value\<close> narrowed to the type of \<open>v\<close>.
\<close>

definition obj_u8 :: "objd \<Rightarrow> 'w sys \<Rightarrow> u8 option" where
  "obj_u8 d s = (case od_data d of
       Some p \<Rightarrow> map_option hd (mem_get p 1 s) | None \<Rightarrow> Some (to_u8 (od_value d)))"

definition obj_u16 :: "objd \<Rightarrow> 'w sys \<Rightarrow> u16 option" where
  "obj_u16 d s = (case od_data d of
       Some p \<Rightarrow> map_option rd16 (mem_get p 2 s) | None \<Rightarrow> Some (to_u16 (od_value d)))"

definition obj_u32 :: "objd \<Rightarrow> 'w sys \<Rightarrow> u32 option" where
  "obj_u32 d s = (case od_data d of
       Some p \<Rightarrow> map_option rd32 (mem_get p 4 s) | None \<Rightarrow> Some (od_value d))"

definition COE_maxSub :: "'w env \<Rightarrow> u16 \<Rightarrow> 'w sys \<Rightarrow> u8 option" where
  "COE_maxSub E index s = do {
     nidx \<leftarrow> SDO_findobject E index;
     if nidx = -1 then Some 0
     else do { ob \<leftarrow> obj_at E nidx; d \<leftarrow> at (ol_objdesc ob) 0; obj_u8 d s }
   }"

section \<open>Counting loops with a byte counter\<close>

text \<open>
  \<open>for (c = first; c <= hi; c++)\<close> with \<open>uint8_t c\<close> and a body that may return from the
  function (\<open>Inl\<close>) or go on (\<open>Inr\<close>). The counter wraps, so with \<open>hi = 255\<close> the loop only
  ends through a return.
\<close>

partial_function (option) u8_for ::
  "u8 \<Rightarrow> u8 \<Rightarrow> (u8 \<Rightarrow> 's \<Rightarrow> ('r + 's) option) \<Rightarrow> 's \<Rightarrow> ('r + 's) option" where
  "u8_for c hi body st =
     (if c \<le> hi then do {
        r \<leftarrow> body c st;
        case r of Inl e \<Rightarrow> Some (Inl e) | Inr st \<Rightarrow> u8_for (c + 1) hi body st
      }
      else Some (Inr st))"

declare u8_for.simps [code]

section \<open>The size and mapping of a PDO\<close>

text \<open>
  The walk of \<open>sizeOfPDO\<close>: the running bit offset, the mapping array and its fill level
  \<open>mapIx\<close>. A body that finds the mapping invalid returns 0 after setting \<open>*nmappings\<close>.
\<close>

type_synonym pdo_walk = "u32 \<times> smmap list \<times> nat"

text \<open>The mapped object of a mapping value: padding (\<open>None\<close>), an entry, or invalid.\<close>

definition map_target :: "'w env \<Rightarrow> u32 \<Rightarrow> (nat \<times> nat) option option option" where
  "map_target E val = do {
     let index = to_u16 (drop_bit 16 val);
     let subindex = to_u8 (drop_bit 8 val) AND 0xFF;
     if index = 0 \<and> subindex = 0 then Some (Some None)
     else do {
       nidx \<leftarrow> SDO_findobject E index;
       if nidx \<ge> 0 then do {
         nsub \<leftarrow> SDO_findsubindex E nidx subindex;
         if nsub < 0 then Some None
         else Some (Some (Some (nat nidx, nat nsub)))
       }
       else Some None
     }
   }"

definition pdo_entry :: "'w env \<Rightarrow> nat \<Rightarrow> u32 \<Rightarrow> pdo_walk \<Rightarrow> (smmap list + pdo_walk) option" where
  "pdo_entry E max_mappings val st = (case st of (offset, maps, mapIx) \<Rightarrow> do {
     let bitlength = to_u8 (val AND 0xFF);
     if max_mappings > 0 then
       (if mapIx = max_mappings then Some (Inl maps)
        else do {
          target \<leftarrow> map_target E val;
          case target of
            None \<Rightarrow> Some (Inl maps)
          | Some m \<Rightarrow>
              (if mapIx < length maps
               then Some (Inr (offset + to_u32 bitlength,
                      maps[mapIx := \<lparr>map_obj = m, map_offset = offset\<rparr>], mapIx + 1))
               else None)
        })
     else Some (Inr (offset + to_u32 bitlength, maps, mapIx))
   })"

definition pdo_object :: "'w env \<Rightarrow> nat \<Rightarrow> 'w sys \<Rightarrow> u16 \<Rightarrow> pdo_walk \<Rightarrow> (smmap list + pdo_walk) option" where
  "pdo_object E max_mappings s hobj st = do {
     nidx \<leftarrow> SDO_findobject E hobj;
     if nidx \<ge> 0 then do {
       ob \<leftarrow> obj_at E nidx;
       d0 \<leftarrow> at (ol_objdesc ob) 0;
       maxsub \<leftarrow> obj_u8 d0 s;
       u8_for 1 maxsub (\<lambda>c st. do {
         d \<leftarrow> at (ol_objdesc ob) (unat c);
         val \<leftarrow> obj_u32 d s;
         pdo_entry E max_mappings val st
       }) st
     }
     else Some (Inr st)
   }"

text \<open>The result: the size in bytes, \<open>*nmappings\<close> and the mapping array afterwards.\<close>

definition sizeOfPDO ::
  "'w env \<Rightarrow> u16 \<Rightarrow> int \<Rightarrow> smmap list \<Rightarrow> nat \<Rightarrow> 'w sys \<Rightarrow> (u16 \<times> int \<times> smmap list) option" where
  "sizeOfPDO E index nmappings maps max_mappings s =
     (if index \<noteq> RX_PDO_OBJIDX \<and> index \<noteq> TX_PDO_OBJIDX then Some (0, nmappings, maps)
      else do {
        nidx \<leftarrow> SDO_findobject E index;
        if nidx < 0 then Some (0, nmappings, maps)
        else do {
          ob1c1x \<leftarrow> obj_at E nidx;
          d0 \<leftarrow> at (ol_objdesc ob1c1x) 0;
          si \<leftarrow> obj_u8 d0 s;
          r \<leftarrow> (if si \<noteq> 0
               then u8_for 1 si (\<lambda>sic st. do {
                      d \<leftarrow> at (ol_objdesc ob1c1x) (unat sic);
                      hobj \<leftarrow> obj_u16 d s;
                      pdo_object E max_mappings s hobj st
                    }) (0, maps, 0)
               else Some (Inr (0, maps, 0)));
          case r of
            Inl maps \<Rightarrow> Some (0, -1, maps)
          | Inr (offset, maps, mapIx) \<Rightarrow>
              Some (to_u16 (drop_bit 3 (offset + 7) AND 0xFFFF),
                    (if max_mappings > 0 then int mapIx else 0), maps)
        }
      })"

section \<open>What the walk computes\<close>

text \<open>A counting loop whose bound leaves room for the counter is a fold over the counter values.\<close>

fun seq_walk :: "('a \<Rightarrow> 's \<Rightarrow> ('r + 's) option) \<Rightarrow> 'a list \<Rightarrow> 's \<Rightarrow> ('r + 's) option" where
  "seq_walk body [] st = Some (Inr st)"
| "seq_walk body (x # xs) st = do {
     r \<leftarrow> body x st;
     case r of Inl e \<Rightarrow> Some (Inl e) | Inr st \<Rightarrow> seq_walk body xs st
   }"

lemma seq_walk_append:
  "seq_walk body (xs @ ys) st = do {
     r \<leftarrow> seq_walk body xs st;
     case r of Inl e \<Rightarrow> Some (Inl e) | Inr st \<Rightarrow> seq_walk body ys st }"
  by (induction xs arbitrary: st)
    (auto split: sum.splits intro!: arg_cong2 [where f = Option.bind])

lemma u8_less_255: "x \<noteq> 255 \<Longrightarrow> x < 255" for x :: u8
  using unat_bound [of x] by (simp add: word_less_nat_alt word_unat_eq_iff)

lemma u8_for_walk:
  assumes "hi < 255"
  shows "u8_for c hi body st = seq_walk body (map of_nat [unat c..<unat hi + 1]) st"
proof (induction "unat hi + 1 - unat c" arbitrary: c st)
  case 0
  then have "\<not> c \<le> hi" by (simp add: word_le_nat_alt)
  with 0 show ?case by (subst u8_for.simps) simp
next
  case (Suc k)
  then have le: "c \<le> hi" "unat c \<le> unat hi" by (simp_all add: word_le_nat_alt)
  with assms have u: "unat (c + 1) = unat c + 1"
    by (intro unat_add_one) (simp add: word_less_nat_alt)
  have "u8_for (c + 1) hi body st = seq_walk body (map of_nat [Suc (unat c)..<unat hi + 1]) st" for st
    using Suc.hyps(1) [of "c + 1" st] Suc.hyps(2) u by simp
  moreover have "map of_nat [unat c..<unat hi + 1] = c # map of_nat [Suc (unat c)..<unat hi + 1]"
    using le by (auto simp: upt_conv_Cons word_unat_eq_iff)
  ultimately show ?case
    using le by (subst u8_for.simps) (auto split: sum.splits intro!: arg_cong2 [where f = Option.bind])
qed

lemma seq_walk_cong [fundef_cong]:
  "xs = ys \<Longrightarrow> st = st' \<Longrightarrow> (\<And>x st. x \<in> set ys \<Longrightarrow> f x st = g x st) \<Longrightarrow> seq_walk f xs st = seq_walk g ys st'"
  by (induction ys arbitrary: xs st st') (auto split: sum.splits intro!: arg_cong2 [where f = Option.bind])

lemma seq_walk_map: "seq_walk f (map h xs) st = seq_walk (\<lambda>x. f (h x)) xs st"
  by (induction xs arbitrary: st) (auto split: sum.splits intro!: arg_cong2 [where f = Option.bind])

lemma those_Cons_Some: "those (x # xs) = Some ys \<longleftrightarrow> (\<exists>z zs. x = Some z \<and> those xs = Some zs \<and> ys = z # zs)"
  by (auto split: option.splits)

lemma seq_walk_those:
  "those (map f xs) = Some ys \<Longrightarrow> seq_walk (\<lambda>x st. Option.bind (f x) (\<lambda>v. g v st)) xs st = seq_walk g ys st"
proof (induction xs arbitrary: ys st)
  case (Cons x xs)
  from Cons.prems obtain z zs where "f x = Some z" "those (map f xs) = Some zs" "ys = z # zs"
    by (auto simp: those_Cons_Some simp del: those.simps)
  with Cons.IH [of zs] show ?case by (auto split: sum.splits intro!: arg_cong2 [where f = Option.bind])
qed simp

lemma seq_walk_concat:
  assumes "those (map f xs) = Some yss"
    and body: "\<And>x y st. f x = Some y \<Longrightarrow> body x st = seq_walk g y st"
  shows "seq_walk body xs st = seq_walk g (concat yss) st"
  using assms(1)
proof (induction xs arbitrary: yss st)
  case (Cons x xs)
  from Cons.prems obtain z zs where "f x = Some z" "those (map f xs) = Some zs" "yss = z # zs"
    by (auto simp: those_Cons_Some simp del: those.simps)
  with Cons.IH [of zs] body [of x z] show ?case
    by (auto simp: seq_walk_append split: sum.splits intro!: arg_cong2 [where f = Option.bind])
qed simp

text \<open>A counting loop that fetches a value per step and processes it.\<close>

lemma u8_for_those:
  assumes "hi < 255" and "those (map f [1..<unat hi + 1]) = Some ys"
  shows "u8_for 1 hi (\<lambda>c st. Option.bind (f (unat c)) (\<lambda>v. g v st)) st = seq_walk g ys st"
proof -
  have "unat (of_nat c :: u8) = c" if "c \<in> set [1..<unat hi + 1]" for c
    using that assms(1) by (subst unat_of_nat) (auto simp: take_bit_nat_eq_self word_less_nat_alt)
  then have "u8_for 1 hi (\<lambda>c st. Option.bind (f (unat c)) (\<lambda>v. g v st)) st =
      seq_walk (\<lambda>c st. Option.bind (f c) (\<lambda>v. g v st)) [1..<unat hi + 1] st"
    by (simp only: u8_for_walk [OF assms(1)] seq_walk_map unat_1) (rule seq_walk_cong, simp_all)
  with seq_walk_those [OF assms(2)] show ?thesis by (simp only:)
qed

text \<open>
  The values of the mapping entries of one PDO object, and of all PDO objects assigned at
  \<open>index\<close>, in order. PDO objects that do not exist contribute nothing. A count of 255, for
  which the byte counters of the code never pass the bound, has no value here.
\<close>

definition object_values :: "'w env \<Rightarrow> 'w sys \<Rightarrow> u16 \<Rightarrow> u32 list option" where
  "object_values E s hobj = do {
     nidx \<leftarrow> SDO_findobject E hobj;
     if nidx \<ge> 0 then do {
       ob \<leftarrow> obj_at E nidx;
       d0 \<leftarrow> at (ol_objdesc ob) 0;
       maxsub \<leftarrow> obj_u8 d0 s;
       if maxsub = 255 then None
       else those (map (\<lambda>c. do { d \<leftarrow> at (ol_objdesc ob) c; obj_u32 d s }) [1..<unat maxsub + 1])
     }
     else Some []
   }"

definition pdo_values :: "'w env \<Rightarrow> 'w sys \<Rightarrow> u16 \<Rightarrow> u32 list option" where
  "pdo_values E s index = do {
     nidx \<leftarrow> SDO_findobject E index;
     ob \<leftarrow> obj_at E nidx;
     d0 \<leftarrow> at (ol_objdesc ob) 0;
     si \<leftarrow> obj_u8 d0 s;
     if si = 255 then None
     else do {
       hobjs \<leftarrow> those (map (\<lambda>c. do { d \<leftarrow> at (ol_objdesc ob) c; obj_u16 d s }) [1..<unat si + 1]);
       vss \<leftarrow> those (map (object_values E s) hobjs);
       Some (concat vss)
     }
   }"

definition entry_bits :: "u32 \<Rightarrow> nat" where
  "entry_bits v = unat (v AND 0xFF)"

text \<open>The mapping of a list of values: the entries follow each other without gaps.\<close>

fun layout :: "'w env \<Rightarrow> nat \<Rightarrow> u32 list \<Rightarrow> smmap list" where
  "layout E off [] = []"
| "layout E off (v # vs) =
     \<lparr>map_obj = the (the (map_target E v)), map_offset = of_nat off\<rparr> # layout E (off + entry_bits v) vs"

lemma length_layout [simp]: "length (layout E off vs) = length vs"
  by (induction vs arbitrary: off) auto

lemma layout_nth:
  "i < length vs \<Longrightarrow> layout E off vs ! i =
     \<lparr>map_obj = the (the (map_target E (vs ! i))),
      map_offset = of_nat (off + sum_list (map entry_bits (take i vs)))\<rparr>"
  by (induction vs arbitrary: off i) (auto simp: nth_Cons take_Cons ac_simps split: nat.splits)

lemma entry_bits_narrow: "to_u32 (to_u8 (v AND 0xFF)) = of_nat (entry_bits v)"
proof -
  have "unat (v AND 0xFF) \<le> 255"
    using word_and_le1 [of v "0xFF"] by (simp add: word_le_nat_alt)
  then show ?thesis by (simp add: entry_bits_def word_unat_eq_iff del: unat_of_nat)
qed

lemma pdo_object_walk:
  assumes "object_values E s hobj = Some vs"
  shows "pdo_object E m s hobj st = seq_walk (pdo_entry E m) vs st"
proof -
  obtain nidx where n: "SDO_findobject E hobj = Some nidx"
    using assms by (auto simp: object_values_def bind_eq_Some_conv)
  show ?thesis
  proof (cases "nidx \<ge> 0")
    case False
    with n assms show ?thesis by (simp add: object_values_def pdo_object_def)
  next
    case True
    with n assms obtain ob d0 maxsub where o: "obj_at E nidx = Some ob"
      "at (ol_objdesc ob) 0 = Some d0" "obj_u8 d0 s = Some maxsub" "maxsub \<noteq> 255"
      "those (map (\<lambda>c. do { d \<leftarrow> at (ol_objdesc ob) c; obj_u32 d s }) [1..<unat maxsub + 1]) = Some vs"
      by (auto simp: object_values_def bind_eq_Some_conv split: if_splits)
    have "maxsub < 255" using o(4) by (rule u8_less_255)
    from u8_for_those [OF this o(5), of "pdo_entry E m" st] o n True show ?thesis
      by (simp add: pdo_object_def)
  qed
qed

text \<open>A walk over valid values fills the mapping in order.\<close>

lemma walk_entries:
  assumes "\<forall>v \<in> set vs. \<exists>m. map_target E v = Some (Some m)"
    and "ix + length vs \<le> mx" and "0 < mx" and "mx \<le> length maps"
  shows "seq_walk (pdo_entry E mx) vs (of_nat off, maps, ix) =
    Some (Inr (of_nat (off + sum_list (map entry_bits vs)),
               take ix maps @ layout E off vs @ drop (ix + length vs) maps, ix + length vs))"
  using assms
proof (induction vs arbitrary: off maps ix)
  case (Cons v vs)
  then obtain m where m: "map_target E v = Some (Some m)" by auto
  let ?maps = "maps[ix := \<lparr>map_obj = m, map_offset = of_nat off\<rparr>]"
  have step: "pdo_entry E mx v (of_nat off, maps, ix) =
      Some (Inr (of_nat (off + entry_bits v), ?maps, ix + 1))"
    using Cons.prems m by (simp add: pdo_entry_def entry_bits_narrow)
  have "take (Suc ix) ?maps = take ix maps @ [\<lparr>map_obj = m, map_offset = of_nat off\<rparr>]"
    using Cons.prems by (simp add: take_Suc_conv_app_nth)
  with Cons.IH [of "Suc ix" ?maps "off + entry_bits v"] Cons.prems step m show ?case
    by (simp add: ac_simps)
qed simp

text \<open>A walk with too many values, or with one whose object does not exist, is abandoned.\<close>

lemma walk_rejects:
  assumes "\<forall>v \<in> set vs. map_target E v \<noteq> None"
    and "mx < ix + length vs \<or> (\<exists>v \<in> set vs. map_target E v = Some None)"
    and "ix \<le> mx" "0 < mx" "mx \<le> length maps"
  shows "\<exists>maps'. seq_walk (pdo_entry E mx) vs (off, maps, ix) = Some (Inl maps') \<and>
           length maps' = length maps"
  using assms
proof (induction vs arbitrary: off maps ix)
  case (Cons v vs)
  from Cons.prems(1) obtain t where t: "map_target E v = Some t" by auto
  show ?case
  proof (cases "ix = mx \<or> t = None")
    case True
    with t Cons.prems show ?thesis by (auto simp: pdo_entry_def)
  next
    case False
    then obtain m where m: "t = Some m" by auto
    let ?maps = "maps[ix := \<lparr>map_obj = m, map_offset = off\<rparr>]"
    have "pdo_entry E mx v (off, maps, ix) =
        Some (Inr (off + to_u32 (to_u8 (v AND 0xFF)), ?maps, ix + 1))"
      using Cons.prems t m False by (simp add: pdo_entry_def)
    moreover have "\<exists>maps'. seq_walk (pdo_entry E mx) vs (off', ?maps, ix + 1) = Some (Inl maps') \<and>
           length maps' = length ?maps" for off'
      using Cons.prems t m False by (intro Cons.IH) auto
    ultimately show ?thesis by simp
  qed
qed simp

text \<open>The walk of \<open>sizeOfPDO\<close> is one pass over the values.\<close>

lemma sizeOfPDO_walk:
  assumes vals: "pdo_values E s index = Some vs"
    and index: "index = RX_PDO_OBJIDX \<or> index = TX_PDO_OBJIDX"
  shows "sizeOfPDO E index nm maps mx s = do {
     r \<leftarrow> seq_walk (pdo_entry E mx) vs (0, maps, 0);
     case r of
       Inl maps \<Rightarrow> Some (0, -1, maps)
     | Inr (offset, maps, mapIx) \<Rightarrow>
         Some (to_u16 (drop_bit 3 (offset + 7) AND 0xFFFF), (if mx > 0 then int mapIx else 0), maps) }"
proof -
  obtain nidx ob d0 si hobjs vss where o: "SDO_findobject E index = Some nidx"
    "obj_at E nidx = Some ob" "at (ol_objdesc ob) 0 = Some d0" "obj_u8 d0 s = Some si" "si \<noteq> 255"
    "those (map (\<lambda>c. do { d \<leftarrow> at (ol_objdesc ob) c; obj_u16 d s }) [1..<unat si + 1]) = Some hobjs"
    "those (map (object_values E s) hobjs) = Some vss" "vs = concat vss"
    using vals by (auto simp: pdo_values_def bind_eq_Some_conv split: if_splits)
  have si: "si < 255" using o(5) by (rule u8_less_255)
  have pos: "\<not> nidx < 0" using o(2) by (auto simp: obj_at_def split: if_splits)
  have walk: "u8_for 1 si (\<lambda>sic st. do { d \<leftarrow> at (ol_objdesc ob) (unat sic); hobj \<leftarrow> obj_u16 d s;
          pdo_object E mx s hobj st }) (0, maps, 0) = seq_walk (pdo_object E mx s) hobjs (0, maps, 0)"
    using u8_for_those [OF si o(6), of "pdo_object E mx s"] by simp
  have walk2: "seq_walk (pdo_object E mx s) hobjs (0, maps, 0) = seq_walk (pdo_entry E mx) vs (0, maps, 0)"
    unfolding o(8) by (rule seq_walk_concat [OF o(7) pdo_object_walk])
  have "si = 0 \<Longrightarrow> vs = []" using o(6-8) by auto
  with walk walk2 o pos index show ?thesis
    by (auto simp: sizeOfPDO_def)
qed

lemma sizeOfPDO_layout:
  assumes vals: "pdo_values E s index = Some vs"
    and index: "index = RX_PDO_OBJIDX \<or> index = TX_PDO_OBJIDX"
    and valid: "\<forall>v \<in> set vs. \<exists>m. map_target E v = Some (Some m)"
    and room: "length vs \<le> mx" "0 < mx" "mx \<le> length maps"
    and small: "sum_list (map entry_bits vs) \<le> 524272"
  shows "sizeOfPDO E index nm maps mx s =
    Some (of_nat ((sum_list (map entry_bits vs) + 7) div 8), int (length vs),
          layout E 0 vs @ drop (length vs) maps)"
proof -
  let ?n = "sum_list (map entry_bits vs)"
  have n: "unat (of_nat ?n + 7 :: u32) = ?n + 7"
    using small by (simp add: unat_word_ariths unat_of_nat take_bit_nat_eq_self)
  have "unat (drop_bit 3 (of_nat ?n + 7 :: u32)) = (?n + 7) div 8"
    by (simp only: unat_drop_bit_eq n) (simp add: drop_bit_eq_div)
  moreover have "unat (x AND 0xFFFF) = unat x mod 65536" for x :: u32
  proof -
    have eq: "x AND 0xFFFF = take_bit 16 x" by (simp add: take_bit_eq_mask mask_eq_decr_exp)
    show ?thesis unfolding eq take_bit_eq_mod by (simp add: unat_mod_distrib)
  qed
  ultimately have "to_u16 (drop_bit 3 (of_nat ?n + 7 :: u32) AND 0xFFFF) = of_nat ((?n + 7) div 8)"
    using small by (simp add: word_unat_eq_iff unat_of_nat take_bit_eq_mod)
  with walk_entries [OF valid, of 0 mx maps 0] room show ?thesis
    by (simp add: sizeOfPDO_walk [OF vals index])
qed

lemma sizeOfPDO_rejects:
  assumes vals: "pdo_values E s index = Some vs"
    and index: "index = RX_PDO_OBJIDX \<or> index = TX_PDO_OBJIDX"
    and "\<forall>v \<in> set vs. map_target E v \<noteq> None"
    and "mx < length vs \<or> (\<exists>v \<in> set vs. map_target E v = Some None)"
    and "0 < mx" "mx \<le> length maps"
  shows "\<exists>maps'. sizeOfPDO E index nm maps mx s = Some (0, -1, maps')"
  using walk_rejects [OF assms(3), of mx 0 maps 0] assms(4-6)
  by (auto simp: sizeOfPDO_walk [OF vals index])

text \<open>The first value that is not an entry of the dictionary decides.\<close>

lemma sizeOfPDO_first_bad:
  assumes vals: "pdo_values E s index = Some (good @ v # rest)"
    and index: "index = RX_PDO_OBJIDX \<or> index = TX_PDO_OBJIDX"
    and valid: "\<forall>u \<in> set good. \<exists>m. map_target E u = Some (Some m)"
    and room: "length good < mx" "mx \<le> length maps"
  shows "map_target E v = Some None \<Longrightarrow> \<exists>maps'. sizeOfPDO E index nm maps mx s = Some (0, -1, maps')"
    and "map_target E v = None \<Longrightarrow> sizeOfPDO E index nm maps mx s = None"
  using walk_entries [OF valid, of 0 mx maps 0] room
  by (simp_all add: sizeOfPDO_walk [OF vals index] seq_walk_append pdo_entry_def)

end
