(* ===== verification/Esc_SM.thy ===== *)
theory Esc_SM
  imports Esc_Mbx Object_Dict
begin

text \<open>
  The process data SyncManagers (\<open>esc.c\<close>): the check of SM2 and SM3 against the configured
  and calculated values, starting and stopping inputs and outputs, the forced transition to
  an error state, and the handler of SyncManager activation events.
\<close>

section \<open>Checking SM2 and SM3\<close>

definition SM_activated :: "u8 \<Rightarrow> bool" where
  "SM_activated act \<longleftrightarrow> act AND ESCREG_SYNC_ACT_ACTIVATED \<noteq> 0"

text \<open>
  The tests that \<open>ESC_checkSM23\<close> makes of one SyncManager, in its order: start address and
  control byte, length, and the activation flag against the configured activation.
\<close>

definition sm_mismatch :: "nat \<Rightarrow> u8 \<Rightarrow> u8 \<Rightarrow> u16 \<Rightarrow> esc_sm \<Rightarrow> bool" where
  "sm_mismatch sma smc act sml sm \<longleftrightarrow>
     unat (PSA sm) \<noteq> sma \<or> Command sm \<noteq> smc \<or>
     SM_Length sm \<noteq> sml \<or>
     (\<not> SM_activated act \<and> (SM_activated (ActESC sm) \<or> sml > 0)) \<or>
     (SM_activated act \<and> \<not> SM_activated (ActESC sm) \<and> sml > 0)"

definition ESC_checkSM23 :: "'w env \<Rightarrow> u8 \<Rightarrow> 'w sys \<Rightarrow> (u8 \<times> 'w sys) option" where
  "ESC_checkSM23 E state s = do {
     (f, s) \<leftarrow> ESC_read E ESCREG_SM2 8 s;
     let s = s\<lparr>SM := (SM s)(2 := sm_of_bytes f)\<rparr>;
     if sm_mismatch (SM2_sma (opt E)) (SM2_smc (opt E)) (SM2_act (opt E)) (ESC_SM2_sml s) (SM s 2)
     then Some (ESCpreop OR ESCerror, s\<lparr>SMtestresult := SMRESULT_ERRSM2\<rparr>)
     else if SM2_sma (opt E) + unat (SM_Length (SM s 2)) * 3 > SM3_sma (opt E)
     then Some (ESCpreop OR ESCerror, s\<lparr>SMtestresult := SMRESULT_ERRSM2\<rparr>)
     else do {
       (f, s) \<leftarrow> ESC_read E ESCREG_SM3 8 s;
       let s = s\<lparr>SM := (SM s)(3 := sm_of_bytes f)\<rparr>;
       if sm_mismatch (SM3_sma (opt E)) (SM3_smc (opt E)) (SM3_act (opt E)) (ESC_SM3_sml s) (SM s 3)
       then Some (ESCpreop OR ESCerror, s\<lparr>SMtestresult := SMRESULT_ERRSM3\<rparr>)
       else Some (state, s)
     }
   }"

section \<open>Inputs and outputs\<close>

text \<open>Whether the application has its outputs active: \<open>ESCvar.App.state & APPSTATE_OUTPUT\<close>.\<close>

definition outputs_on :: "'w sys \<Rightarrow> bool" where
  "outputs_on s \<longleftrightarrow> App_state s AND APPSTATE_OUTPUT \<noteq> 0"

definition APP_safe_state :: "'w env \<Rightarrow> 'w sys \<Rightarrow> 'w sys" where
  "APP_safe_state E s = (case safe_state_override E of None \<Rightarrow> s | Some h \<Rightarrow> h s)"

definition sm_alerror :: "'w env \<Rightarrow> 'w sys \<Rightarrow> 'w sys option" where
  "sm_alerror E s =
     (if SMtestresult s AND SMRESULT_ERRSM3 \<noteq> 0 then ESC_ALerror E ALERR_INVALIDINPUTSM s
      else ESC_ALerror E ALERR_INVALIDOUTPUTSM s)"

text \<open>The two halves of \<open>ESC_startinput\<close>: the SyncManagers, and with interrupts the DC check.\<close>

definition startinput_sm :: "'w env \<Rightarrow> u8 \<Rightarrow> 'w sys \<Rightarrow> (u8 \<times> 'w sys) option" where
  "startinput_sm E state s = do {
     (state, s) \<leftarrow> ESC_checkSM23 E state s;
     if state \<noteq> ESCpreop OR ESCerror then do {
       s \<leftarrow> (if ESC_SM3_sml s > 0 then ESC_SMenable E 3 s else Some s);
       Some (state, s\<lparr>App_state := APPSTATE_INPUT\<rparr>)
     }
     else do {
       s \<leftarrow> ESC_SMdisable E 2 s;
       s \<leftarrow> ESC_SMdisable E 3 s;
       s \<leftarrow> sm_alerror E s;
       Some (state, s)
     }
   }"

definition startinput_dc :: "'w env \<Rightarrow> u8 \<Rightarrow> 'w sys \<Rightarrow> (u8 \<times> 'w sys) option" where
  "startinput_dc E state s = do {
     (dc_check_result, s) \<leftarrow> ESC_checkDC E s;
     if dc_check_result > 0 then do {
       s \<leftarrow> ESC_ALerror E dc_check_result s;
       let state = ESCpreop OR ESCerror;
       s \<leftarrow> ESC_SMdisable E 2 s;
       s \<leftarrow> ESC_SMdisable E 3 s;
       Some (state, s\<lparr>App_state := APPSTATE_IDLE\<rparr>)
     }
     else
       (case esc_hw_interrupt_enable E of
          None \<Rightarrow> Some (state, s)
        | Some h \<Rightarrow> do {
            let int_mask = (if ESC_SM2_sml s = 0 then ESCREG_ALEVENT_SM3 else ESCREG_ALEVENT_SM2);
            let int_mask = (if dcsync s > 0 then int_mask OR ESCREG_ALEVENT_DC_SYNC0 else int_mask);
            Some (state, h int_mask s)
          })
   }"

definition ESC_startinput :: "'w env \<Rightarrow> u8 \<Rightarrow> 'w sys \<Rightarrow> (u8 \<times> 'w sys) option" where
  "ESC_startinput E state s = do {
     (state, s) \<leftarrow> startinput_sm E state s;
     if use_interrupt s = 0 then Some (state, s)
     else if state \<noteq> ESCpreop OR ESCerror then startinput_dc E state s
     else Some (state, s)
   }"

definition ESC_stopinput :: "'w env \<Rightarrow> 'w sys \<Rightarrow> 'w sys option" where
  "ESC_stopinput E s = do {
     let s = s\<lparr>App_state := APPSTATE_IDLE\<rparr>;
     s \<leftarrow> ESC_SMdisable E 3 s;
     s \<leftarrow> ESC_SMdisable E 2 s;
     if use_interrupt s \<noteq> 0 then
       (case esc_hw_interrupt_disable E of
          None \<Rightarrow> Some s
        | Some h \<Rightarrow> Some (h (ESCREG_ALEVENT_DC_SYNC0 OR ESCREG_ALEVENT_SM2 OR ESCREG_ALEVENT_SM3) s))
     else Some s
   }"

definition ESC_startoutput :: "'w env \<Rightarrow> u8 \<Rightarrow> 'w sys \<Rightarrow> (u8 \<times> 'w sys) option" where
  "ESC_startoutput E state s = do {
     s \<leftarrow> (if ESC_SM2_sml s > 0 then ESC_SMenable E 2 s else Some s);
     Some (state, s\<lparr>App_state := App_state s OR APPSTATE_OUTPUT\<rparr>)
   }"

definition ESC_stopoutput :: "'w env \<Rightarrow> 'w sys \<Rightarrow> 'w sys option" where
  "ESC_stopoutput E s = do {
     let s = s\<lparr>App_state := App_state s AND APPSTATE_INPUT\<rparr>;
     s \<leftarrow> ESC_SMdisable E 2 s;
     Some (APP_safe_state E s)
   }"

section \<open>Errors raised by the slave\<close>

definition run_hook :: "(u8 \<times> u8 \<Rightarrow> 'w sys \<Rightarrow> (u8 \<times> u8) \<times> 'w sys) option \<Rightarrow>
    u8 \<Rightarrow> u8 \<Rightarrow> 'w sys \<Rightarrow> u8 \<times> u8 \<times> 'w sys" where
  "run_hook h as an s = (case h of
       None \<Rightarrow> (as, an, s)
     | Some h \<Rightarrow> (case h (as, an) s of ((as, an), s) \<Rightarrow> (as, an, s)))"

definition ESC_ALstatusgotoerror :: "'w env \<Rightarrow> u8 \<Rightarrow> u16 \<Rightarrow> 'w sys \<Rightarrow> 'w sys option" where
  "ESC_ALstatusgotoerror E status errornumber s =
     (if status AND ESCop \<noteq> 0 then Some s
      else do {
        let as = to_u8 (ALstatus s AND 0x0f);
        let an = as;
        let as = push_bit 4 (status AND ESCREG_AL_ERRACKMASK) OR (as AND 0x0f);
        (as, an, s) \<leftarrow> Some (run_hook (pre_state_change_hook E) as an s);
        s \<leftarrow> (if App_state s AND APPSTATE_OUTPUT > 0 then ESC_stopoutput E s else Some s);
        let s = s\<lparr>op_pending := 0\<rparr>;
        s \<leftarrow> ESC_ALerror E errornumber s;
        s \<leftarrow> ESC_ALstatus E status s;
        let an = status;
        (as, an, s) \<leftarrow> Some (run_hook (post_state_change_hook E) as an s);
        Some s
      })"

section \<open>SyncManager activation events\<close>

definition ack_all :: "'w env \<Rightarrow> 'w sys \<Rightarrow> 'w sys option" where
  "ack_all E s = do {
     s \<leftarrow> ESC_SMack E 0 s; s \<leftarrow> ESC_SMack E 1 s; s \<leftarrow> ESC_SMack E 2 s; s \<leftarrow> ESC_SMack E 3 s;
     s \<leftarrow> ESC_SMack E 4 s; s \<leftarrow> ESC_SMack E 5 s; s \<leftarrow> ESC_SMack E 6 s; ESC_SMack E 7 s
   }"

text \<open>
  The requested state \<open>ac\<close> and the current state \<open>an\<close>: an acknowledged error, or a request
  for INIT, clears the error flags of both.
\<close>

definition mask_ack :: "u8 \<Rightarrow> u8 \<Rightarrow> u8 \<times> u8" where
  "mask_ack ac an =
     (if ac AND ESCerror \<noteq> 0 \<or> ac = ESCinit
      then (ac AND ESCREG_AL_ERRACKMASK, an AND ESCREG_AL_ERRACKMASK) else (ac, an))"

text \<open>What the two checks lead to: nothing, a fall back to INIT, or a fall back to PREOP.\<close>

definition sm_act_checked :: "'w env \<Rightarrow> u8 \<Rightarrow> u8 \<Rightarrow> u8 \<Rightarrow> u8 \<Rightarrow> 'w sys \<Rightarrow> 'w sys option" where
  "sm_act_checked E ac an ax ax23 s =
     (if an AND ESCerror \<noteq> 0 \<and> ac AND ESCerror = 0 then Some s
      else if ax = ESCinit OR ESCerror then do {
        s \<leftarrow> (if App_state s \<noteq> 0 then do { s \<leftarrow> ESC_stopoutput E s; ESC_stopinput E s }
             else Some s);
        s \<leftarrow> ESC_stopmbx E s;
        s \<leftarrow> ESC_ALerror E ALERR_INVALIDMBXCONFIG s;
        let s = s\<lparr>MBXrun := 0\<rparr>;
        ESC_ALstatus E ax s
      }
      else if App_state s \<noteq> 0 \<and> ax23 = ESCpreop OR ESCerror then do {
        s \<leftarrow> ESC_stopoutput E s;
        s \<leftarrow> ESC_stopinput E s;
        s \<leftarrow> sm_alerror E s;
        ESC_ALstatus E ax23 s
      }
      else Some s)"

definition ESC_sm_act_event :: "'w env \<Rightarrow> 'w sys \<Rightarrow> 'w sys option" where
  "ESC_sm_act_event E s =
     (if ALevent s AND ESCREG_ALEVENT_SMCHANGE = 0 then Some s
      else do {
        let ac = to_u8 (ALcontrol s) AND ESCREG_AL_STATEMASK;
        let as = to_u8 (ALstatus s) AND ESCREG_AL_STATEMASK;
        let an = as;
        (ac, an) \<leftarrow> Some (mask_ack ac an);
        if as AND ESCREG_AL_ALLBUTINITMASK \<noteq> 0 \<and> as \<noteq> ESCboot \<and> MBXrun s \<noteq> 0 then do {
          (ax, s) \<leftarrow> ESC_checkmbx E as s;
          (ax23, s) \<leftarrow> ESC_checkSM23 E as s;
          sm_act_checked E ac an ax ax23 s
        }
        else ack_all E s
      })"

end
