(* ===== verification/Esc_FSM.thy ===== *)
theory Esc_FSM
  imports Esc_SM
begin

text \<open>
  The EtherCAT state machine (\<open>esc.c\<close>, last part): the AL control handler \<open>ESC_state\<close> with
  its table of transitions, the explicit device identification, the request for OP that is
  held until the slave is synchronised, and the configuration of the stack.
\<close>

section \<open>Explicit device identification\<close>

definition ESC_check_id_request :: "'w env \<Rightarrow> u16 \<Rightarrow> u8 \<Rightarrow> 'w sys \<Rightarrow> (bool \<times> 'w sys) option" where
  "ESC_check_id_request E control an s =
     (if control AND 0x0020 \<noteq> 0 then do {
        let state = to_u8 (control AND 0x000f);
        if state \<noteq> ESCboot \<and> (state < ESCsafeop \<or> an = ESCsafeop \<or> an = ESCop) then do {
          (f, s) \<leftarrow> ESC_read E ESCREG_ALERROR 2 s;
          Some (rd16 [f 0, f 1] = ALERR_NONE, s)
        }
        else Some (False, s)
      }
      else Some (False, s))"

definition ESC_load_device_id :: "'w env \<Rightarrow> 'w sys \<Rightarrow> (u8 \<times> 'w sys) option" where
  "ESC_load_device_id E s = do {
     (device_id, s) \<leftarrow> (case get_device_id E of
         Some h \<Rightarrow> (case h s of (rc, dev, s) \<Rightarrow> Some (if rc \<noteq> 0 then 0 else dev, s))
       | None \<Rightarrow> do { (f, s) \<leftarrow> ESC_read E ESCREG_CONF_STATION_ALIAS 2 s; Some (rd16 [f 0, f 1], s) });
     if device_id \<noteq> 0 then do {
       s \<leftarrow> ESC_ALerror E device_id s;
       Some (ESCREG_AL_ID_REQUEST, s)
     }
     else Some (0, s)
   }"

section \<open>The table of transitions\<close>

text \<open>The case \<open>PREOP_TO_SAFEOP\<close>, \<open>SAFEOP_TO_SAFEOP\<close>: the mapping is computed and checked.\<close>

definition to_safeop :: "'w env \<Rightarrow> u8 \<Rightarrow> 'w sys \<Rightarrow> (u8 \<times> 'w sys) option" where
  "to_safeop E ac s = do {
     (sml, nm, maps) \<leftarrow> sizeOfPDO E RX_PDO_OBJIDX (sm2mappings s) (SMmap2 s) (MAX_MAPPINGS_SM2 (opt E)) s;
     let s = s\<lparr>sm2mappings := nm, SMmap2 := maps, ESC_SM2_sml := sml\<rparr>;
     if sm2mappings s < 0 then do {
       s \<leftarrow> ESC_ALerror E ALERR_INVALIDOUTPUTSM s;
       Some (ESCpreop OR ESCerror, s)
     }
     else do {
       (sml, nm, maps) \<leftarrow> sizeOfPDO E TX_PDO_OBJIDX (sm3mappings s) (SMmap3 s) (MAX_MAPPINGS_SM3 (opt E)) s;
       let s = s\<lparr>sm3mappings := nm, SMmap3 := maps, ESC_SM3_sml := sml\<rparr>;
       if sm3mappings s < 0 then do {
         s \<leftarrow> ESC_ALerror E ALERR_INVALIDINPUTSM s;
         Some (ESCpreop OR ESCerror, s)
       }
       else do {
         (an, s) \<leftarrow> ESC_startinput E ac s;
         if an = ac then do { s \<leftarrow> ESC_SMenable E 2 s; Some (an, s) } else Some (an, s)
       }
     }
   }"

text \<open>\<open>OP_TO_BOOT\<close> and the unknown requests: leave OP with the error flagged on a SyncManager.\<close>

definition leave_op :: "'w env \<Rightarrow> 'w sys \<Rightarrow> 'w sys option" where
  "leave_op E s = do {
     s \<leftarrow> ESC_stopoutput E s;
     if ESC_SM2_sml s = 0 \<and> ESC_SM3_sml s > 0 then ESC_SMdisable E 3 s else Some s
   }"

definition al_switch :: "'w env \<Rightarrow> u8 \<Rightarrow> u8 \<Rightarrow> u8 \<Rightarrow> 'w sys \<Rightarrow> (u8 \<times> 'w sys) option" where
  "al_switch E as ac an s =
     (if as = INIT_TO_INIT \<or> as = PREOP_TO_PREOP \<or> as = OP_TO_OP then Some (an, s)
      else if as = INIT_TO_PREOP then do { s \<leftarrow> ESC_address E s; ESC_startmbx E ac s }
      else if as = INIT_TO_BOOT \<or> as = BOOT_TO_BOOT then do { s \<leftarrow> ESC_address E s; ESC_startmbxboot E ac s }
      else if as = INIT_TO_SAFEOP \<or> as = INIT_TO_OP then do {
        s \<leftarrow> ESC_ALerror E ALERR_INVALIDSTATECHANGE s;
        Some (ESCinit OR ESCerror, s)
      }
      else if as = OP_TO_INIT then do {
        s \<leftarrow> ESC_stopoutput E s; s \<leftarrow> ESC_stopinput E s; s \<leftarrow> ESC_stopmbx E s; Some (ESCinit, s)
      }
      else if as = SAFEOP_TO_INIT then do {
        s \<leftarrow> ESC_stopinput E s; s \<leftarrow> ESC_stopmbx E s; Some (ESCinit, s)
      }
      else if as = PREOP_TO_INIT \<or> as = BOOT_TO_INIT then do {
        s \<leftarrow> ESC_stopmbx E s; Some (ESCinit, s)
      }
      else if as = PREOP_TO_BOOT \<or> as = BOOT_TO_PREOP \<or> as = BOOT_TO_SAFEOP \<or> as = BOOT_TO_OP then do {
        s \<leftarrow> ESC_ALerror E ALERR_INVALIDSTATECHANGE s;
        Some (ESCpreop OR ESCerror, s)
      }
      else if as = PREOP_TO_SAFEOP \<or> as = SAFEOP_TO_SAFEOP then to_safeop E ac s
      else if as = PREOP_TO_OP then do {
        s \<leftarrow> ESC_ALerror E ALERR_INVALIDSTATECHANGE s;
        Some (ESCpreop OR ESCerror, s)
      }
      else if as = OP_TO_PREOP then do {
        s \<leftarrow> ESC_stopoutput E s; s \<leftarrow> ESC_stopinput E s; Some (ESCpreop, s)
      }
      else if as = SAFEOP_TO_PREOP then do { s \<leftarrow> ESC_stopinput E s; Some (ESCpreop, s) }
      else if as = SAFEOP_TO_BOOT then do {
        s \<leftarrow> ESC_ALerror E ALERR_INVALIDSTATECHANGE s;
        Some (ESCsafeop OR ESCerror, s)
      }
      else if as = SAFEOP_TO_OP then
        (if dcsync s > 0 then
           Some (ESCsafeop, s\<lparr>op_pending := 1, op_seen_sync0 := 0, op_seen_sm := 0,
                              op_pending_ns := 0, op_valid_ns := 0\<rparr>)
         else ESC_startoutput E ac s)
      else if as = OP_TO_BOOT then do {
        s \<leftarrow> ESC_ALerror E ALERR_INVALIDSTATECHANGE s;
        s \<leftarrow> leave_op E s;
        Some (ESCsafeop OR ESCerror, s)
      }
      else if as = OP_TO_SAFEOP then do { s \<leftarrow> ESC_stopoutput E s; Some (ESCsafeop, s) }
      else do {
        (an, s) \<leftarrow> (if an = ESCop then do { s \<leftarrow> leave_op E s; Some (ESCsafeop, s) } else Some (an, s));
        s \<leftarrow> (if as = ESCsafeop then ESC_stopinput E s else Some s);
        s \<leftarrow> ESC_ALerror E ALERR_UNKNOWNSTATE s;
        Some (an OR ESCerror, s)
      })"

text \<open>What follows the switch: the hook, clearing the error, and the device identification.\<close>

definition al_finish :: "'w env \<Rightarrow> u8 \<Rightarrow> u8 \<Rightarrow> 'w sys \<Rightarrow> 'w sys option" where
  "al_finish E as an s = do {
     (as, an, s) \<leftarrow> Some (run_hook (post_state_change_hook E) as an s);
     s \<leftarrow> (if an AND ESCerror = 0 \<and> ALerror s \<noteq> 0 then ESC_ALerror E ALERR_NONE s else Some s);
     (requested, s) \<leftarrow> ESC_check_id_request E (ALcontrol s) an s;
     (an, s) \<leftarrow> (if requested then do { (b, s) \<leftarrow> ESC_load_device_id E s; Some (an OR b, s) }
                else Some (an, s));
     ESC_ALstatus E an s
   }"

text \<open>The request in \<open>ESCvar.ALcontrol\<close>, once read.\<close>

definition al_request :: "'w env \<Rightarrow> 'w sys \<Rightarrow> 'w sys option" where
  "al_request E s = do {
     let ac = to_u8 (ALcontrol s) AND ESCREG_AL_STATEMASK;
     let as = to_u8 (ALstatus s) AND ESCREG_AL_STATEMASK;
     let an = as;
     (ac, an) \<leftarrow> Some (mask_ack ac an);
     if an AND ESCerror \<noteq> 0 \<and> ac AND ESCerror = 0 then Some s
     else do {
       let as = push_bit 4 ac OR (as AND 0x0f);
       if op_pending s \<noteq> 0 \<and> as = SAFEOP_TO_OP then Some s
       else do {
         let s = (if op_pending s \<noteq> 0 then s\<lparr>op_pending := 0\<rparr> else s);
         (as, an, s) \<leftarrow> Some (run_hook (pre_state_change_hook E) as an s);
         (an, s) \<leftarrow> al_switch E as ac an s;
         al_finish E as an s
       }
     }
   }"

definition ESC_state :: "'w env \<Rightarrow> 'w sys \<Rightarrow> 'w sys option" where
  "ESC_state E s =
     (if ALevent s AND ESCREG_ALEVENT_CONTROL = 0 then Some s
      else do {
        (f, s) \<leftarrow> ESC_read E ESCREG_ALCONTROL 2 s;
        let s = s\<lparr>ALcontrol := rd16 [f 0, f 1]\<rparr>;
        al_request E s
      })"

section \<open>A request for OP that waits for synchronisation\<close>

text \<open>Good sync in this period, as the comment in the source defines it.\<close>

definition good_sync :: "int \<Rightarrow> int \<Rightarrow> 'w sys \<Rightarrow> bool" where
  "good_sync sync0 sm_event s \<longleftrightarrow>
     sync0 \<noteq> 0 \<and> (if synccounterlimit s > 0 then synccounter s < int (unat (synccounterlimit s))
                  else sm_event \<noteq> 0 \<or> ESC_SM2_sml s = 0)"

text \<open>The accounting of one period, and the decision taken after it.\<close>

definition op_account :: "int \<Rightarrow> int \<Rightarrow> u64 \<Rightarrow> 'w sys \<Rightarrow> 'w sys" where
  "op_account sync0 sm_event elapsed_ns s =
     s\<lparr>op_pending_ns := op_pending_ns s + elapsed_ns,
       op_seen_sync0 := (if sync0 \<noteq> 0 then 1 else op_seen_sync0 s),
       op_seen_sm := (if sm_event \<noteq> 0 then 1 else op_seen_sm s),
       op_valid_ns := (if good_sync sync0 sm_event s then op_valid_ns s + elapsed_ns else 0)\<rparr>"

definition op_decide :: "'w env \<Rightarrow> 'w sys \<Rightarrow> 'w sys option" where
  "op_decide E s =
     (if op_valid_ns s \<ge> ESC_OP_SYNC_VALID_NS \<and> (op_seen_sm s \<noteq> 0 \<or> ESC_SM2_sml s = 0) then do {
        let s = s\<lparr>op_pending := 0\<rparr>;
        (r, s) \<leftarrow> ESC_startoutput E ESCop s;
        (as, an, s) \<leftarrow> Some (run_hook (post_state_change_hook E) SAFEOP_TO_OP ESCop s);
        s \<leftarrow> (if an AND ESCerror = 0 \<and> ALerror s \<noteq> 0 then ESC_ALerror E ALERR_NONE s else Some s);
        ESC_ALstatus E an s
      }
      else if op_pending_ns s \<ge> ESC_OP_PENDING_TIMEOUT_NS then do {
        let s = s\<lparr>op_pending := 0\<rparr>;
        s \<leftarrow> ESC_ALerror E (if op_seen_sync0 s = 0 then ALERR_NOSYNCERROR
              else if op_seen_sm s = 0 \<and> ESC_SM2_sml s > 0 then ALERR_WATCHDOG
              else ALERR_SYNCERROR) s;
        ESC_ALstatus E (ESCsafeop OR ESCerror) s
      }
      else Some s)"

definition ESC_op_pending_step :: "'w env \<Rightarrow> int \<Rightarrow> int \<Rightarrow> u64 \<Rightarrow> 'w sys \<Rightarrow> 'w sys option" where
  "ESC_op_pending_step E sync0 sm_event elapsed_ns s =
     (if op_pending s = 0 then Some s
      else op_decide E (op_account sync0 sm_event elapsed_ns s))"

section \<open>Configuration\<close>

text \<open>
  The scalar part of \<open>esc_cfg_t\<close>; the callbacks it also carries are the fields of \<open>env\<close>, which
  \<open>ESC_config\<close> only copies.
\<close>

record esc_cfg =
  cfg_use_interrupt :: int
  cfg_watchdog_cnt :: int
  cfg_use_hw_watchdog :: int
  cfg_skip_default_initialization :: bool

definition ESC_config :: "'w env \<Rightarrow> esc_cfg \<Rightarrow> 'w sys \<Rightarrow> 'w sys" where
  "ESC_config E cfg s = (let opts = opt E in
     s\<lparr>use_interrupt := cfg_use_interrupt cfg, watchdogcnt := cfg_watchdog_cnt cfg,
       use_hw_watchdog := (if cfg_use_hw_watchdog cfg \<noteq> 0 then 1 else 0),
       mb := (\<lparr>cfg_sma = of_nat (MBX0_sma opts), cfg_sml = of_nat (MBX0_sml opts),
               cfg_sme = of_nat (MBX0_sme opts), cfg_smc = of_nat (MBX0_smc opts)\<rparr>,
              \<lparr>cfg_sma = of_nat (MBX1_sma opts), cfg_sml = of_nat (MBX1_sml opts),
               cfg_sme = of_nat (MBX1_sme opts), cfg_smc = of_nat (MBX1_smc opts)\<rparr>),
       mbboot := (\<lparr>cfg_sma = of_nat (MBX0_sma_b opts), cfg_sml = of_nat (MBX0_sml_b opts),
               cfg_sme = of_nat (MBX0_sme_b opts), cfg_smc = of_nat (MBX0_smc_b opts)\<rparr>,
              \<lparr>cfg_sma = of_nat (MBX1_sma_b opts), cfg_sml = of_nat (MBX1_sml_b opts),
               cfg_sme = of_nat (MBX1_sme_b opts), cfg_smc = of_nat (MBX1_smc_b opts)\<rparr>),
       skip_default_initialization := cfg_skip_default_initialization cfg\<rparr>)"

end
