(* ===== verification/Al_Spec.thy ===== *)
theory Al_Spec
  imports Esc_FSM
begin

text \<open>
  Correctness of the EtherCAT state machine: the abstract machine over the five AL states and
  the refinement of \<open>ESC_state\<close> to it, the safety invariant that outputs are only active in
  OP, as an invariant of every handler that changes the AL state, and the timing of a
  held request for OP.
\<close>

section \<open>What the state machine depends on\<close>

text \<open>
  The fields of the AL state machine that a callback has to leave alone: the application
  state, the AL registers and the mailbox configuration.
\<close>

definition al_view :: "'w sys \<Rightarrow> u8 \<times> u16 \<times> u8 \<times> u8 \<times> u16 \<times> (sm_cfg option) \<times> (sm_cfg option) \<times> nat \<times> nat" where
  "al_view s = (App_state s, ALstatus s, op_pending s, MBXrun s, ALcontrol s, activemb0 s, activemb1 s,
     length (SMmap2 s), length (SMmap3 s))"

lemma al_view_upd [simp]:
  "al_view (s\<lparr>world := w\<rparr>) = al_view s" "al_view (s\<lparr>ALevent := e\<rparr>) = al_view s"
  "al_view (s\<lparr>SM := sm\<rparr>) = al_view s" "al_view (s\<lparr>ALerror := u16\<rparr>) = al_view s"
  "al_view (s\<lparr>SMtestresult := b\<rparr>) = al_view s"
  "al_view (s\<lparr>address_v := u16\<rparr>) = al_view s"
  by (simp_all add: al_view_def)

lemma al_view_app [simp]: "al_view (s\<lparr>App_state := a\<rparr>) = (a, snd (al_view s))"
  by (simp add: al_view_def)

lemma al_view_run [simp]:
  "al_view (s\<lparr>MBXrun := v\<rparr>) = (fst (al_view s), fst (snd (al_view s)), fst (snd (snd (al_view s))), v,
     snd (snd (snd (snd (al_view s)))))"
  by (simp add: al_view_def)

lemma al_view_pend [simp]:
  "al_view (s\<lparr>op_pending := v\<rparr>) = (fst (al_view s), fst (snd (al_view s)), v, snd (snd (snd (al_view s))))"
  by (simp add: al_view_def)

lemma al_view_wait [simp]:
  "al_view (s\<lparr>op_seen_sync0 := b\<rparr>) = al_view s" "al_view (s\<lparr>op_seen_sm := b\<rparr>) = al_view s"
  "al_view (s\<lparr>op_pending_ns := n\<rparr>) = al_view s" "al_view (s\<lparr>op_valid_ns := n\<rparr>) = al_view s"
  by (simp_all add: al_view_def)

definition keeps_view :: "('w sys \<Rightarrow> 'w sys) \<Rightarrow> bool" where
  "keeps_view h \<longleftrightarrow> (\<forall>s. al_view (h s) = al_view s)"

definition keeps_opt :: "('w sys \<Rightarrow> 'w sys) option \<Rightarrow> bool" where
  "keeps_opt h \<longleftrightarrow> (case h of None \<Rightarrow> True | Some h \<Rightarrow> keeps_view h)"

text \<open>State change hooks that observe the transition without redirecting it.\<close>

definition observes :: "(u8 \<times> u8 \<Rightarrow> 'w sys \<Rightarrow> (u8 \<times> u8) \<times> 'w sys) option \<Rightarrow> bool" where
  "observes h \<longleftrightarrow> (case h of None \<Rightarrow> True
     | Some h \<Rightarrow> \<forall>p s. fst (h p s) = p \<and> al_view (snd (h p s)) = al_view s)"

text \<open>The size of both PDO assignments can be computed, whatever the variables hold.\<close>

definition pdo_total :: "'w env \<Rightarrow> bool" where
  "pdo_total E \<longleftrightarrow> (\<forall>s nm maps.
     (length maps = MAX_MAPPINGS_SM2 (opt E) \<longrightarrow>
       ok (\<lambda>(sz, nm, maps'). length maps' = length maps)
         (sizeOfPDO E RX_PDO_OBJIDX nm maps (MAX_MAPPINGS_SM2 (opt E)) s)) \<and>
     (length maps = MAX_MAPPINGS_SM3 (opt E) \<longrightarrow>
       ok (\<lambda>(sz, nm, maps'). length maps' = length maps)
         (sizeOfPDO E TX_PDO_OBJIDX nm maps (MAX_MAPPINGS_SM3 (opt E)) s)))"

definition al_env :: "'w env \<Rightarrow> bool" where
  "al_env E \<longleftrightarrow> sm_follows E \<and> pdo_total E \<and>
     observes (pre_state_change_hook E) \<and> observes (post_state_change_hook E) \<and>
     keeps_opt (safe_state_override E) \<and>
     (\<forall>h. esc_check_dc_handler E = Some h \<longrightarrow>
        (\<forall>s. al_view (snd (h s)) = al_view (s\<lparr>op_pending := op_pending (snd (h s))\<rparr>))) \<and>
     keeps_opt (map_option (\<lambda>h s. snd (snd (h s))) (get_device_id E)) \<and>
     (\<forall>m. keeps_opt (map_option (\<lambda>h. h m) (esc_hw_interrupt_enable E))) \<and>
     (\<forall>m. keeps_opt (map_option (\<lambda>h. h m) (esc_hw_interrupt_disable E)))"

section \<open>Verification rules of the handlers\<close>

abbreviation (input) INIT_ERROR :: u8 where "INIT_ERROR \<equiv> 0x11"
abbreviation (input) PREOP_ERROR :: u8 where "PREOP_ERROR \<equiv> 0x12"
abbreviation (input) SAFEOP_ERROR :: u8 where "SAFEOP_ERROR \<equiv> 0x14"

lemma wp_ESC_checkmbx [wp]:
  assumes "sm_follows E" "activemb0 s \<noteq> None" "activemb1 s \<noteq> None"
    and "\<And>r s'. r = st \<or> r = INIT_ERROR \<Longrightarrow> al_view s' = al_view s \<Longrightarrow> Q (r, s')"
  shows "ok Q (ESC_checkmbx E st s)"
  using assms by (auto simp: ESC_checkmbx_def al_view_def intro!: wp)

lemma wp_ESC_checkSM23 [wp]:
  assumes "\<And>r s'. r = st \<or> r = PREOP_ERROR \<Longrightarrow> al_view s' = al_view s \<Longrightarrow> Q (r, s')"
  shows "ok Q (ESC_checkSM23 E st s)"
  using assms by (auto simp: ESC_checkSM23_def al_view_def intro!: wp)

lemma wp_ESC_startmbx [wp]:
  assumes "sm_follows E"
    and "\<And>r s'. r = st \<or> r = INIT_ERROR \<Longrightarrow>
          activemb0 s' \<noteq> None \<Longrightarrow> activemb1 s' \<noteq> None \<Longrightarrow> App_state s' = App_state s \<Longrightarrow>
          ALstatus s' = ALstatus s \<Longrightarrow> ALcontrol s' = ALcontrol s \<Longrightarrow>
          length (SMmap2 s') = length (SMmap2 s) \<Longrightarrow> length (SMmap3 s') = length (SMmap3 s) \<Longrightarrow> Q (r, s')"
  shows "ok Q (ESC_startmbx E st s)"
  using assms by (auto simp: ESC_startmbx_def al_view_def intro!: wp)

lemma wp_ESC_startmbxboot [wp]:
  assumes "sm_follows E"
    and "\<And>r s'. r = st \<or> r = INIT_ERROR \<Longrightarrow>
          activemb0 s' \<noteq> None \<Longrightarrow> activemb1 s' \<noteq> None \<Longrightarrow> App_state s' = App_state s \<Longrightarrow>
          ALstatus s' = ALstatus s \<Longrightarrow> ALcontrol s' = ALcontrol s \<Longrightarrow>
          length (SMmap2 s') = length (SMmap2 s) \<Longrightarrow> length (SMmap3 s') = length (SMmap3 s) \<Longrightarrow> Q (r, s')"
  shows "ok Q (ESC_startmbxboot E st s)"
  using assms by (auto simp: ESC_startmbxboot_def al_view_def intro!: wp)

lemma wp_ESC_stopmbx [wp]:
  assumes "sm_follows E"
    and "\<And>s'. al_view s' = al_view (s\<lparr>MBXrun := 0\<rparr>) \<Longrightarrow> Q s'"
  shows "ok Q (ESC_stopmbx E s)"
  by (simp add: ESC_stopmbx_def ESC_SDO_cancel_def, intro wp assms(1))
    (simp, simp, rule assms(2), unfold al_view_def, simp)

lemma wp_sm_alerror [wp]:
  "(\<And>s'. al_view s' = al_view s \<Longrightarrow> Q s') \<Longrightarrow> ok Q (sm_alerror E s)"
  by (auto simp: sm_alerror_def al_view_def intro!: wp)

lemma wp_ack_all [wp]: "(\<And>s'. al_view s' = al_view s \<Longrightarrow> Q s') \<Longrightarrow> ok Q (ack_all E s)"
  by (auto simp: ack_all_def al_view_def intro!: wp)

lemma wp_ESC_checkDC [wp]:
  assumes "al_env E" and "\<And>r s' p. al_view s' = al_view (s\<lparr>op_pending := p\<rparr>) \<Longrightarrow> Q (r, s')"
  shows "ok Q (ESC_checkDC E s)"
proof -
  have h: "al_view (snd (h s)) = al_view (s\<lparr>op_pending := op_pending (snd (h s))\<rparr>)"
    if "esc_check_dc_handler E = Some h" for h s
    using assms(1) that by (simp add: al_env_def)
  have Qh: "Q (h s')" if "esc_check_dc_handler E = Some h" "al_view s' = al_view s" for h s'
    using assms(2) [of "snd (h s')" "op_pending (snd (h s'))" "fst (h s')"] h [OF that(1), of s'] that(2) by simp
  have same: "Q (r, s')" if "al_view s' = al_view s" for r s'
    by (rule assms(2) [of _ "op_pending s"]) (use that in \<open>simp add: al_view_def\<close>)
  have off: "Q (r, s\<lparr>world := w, ALevent := ev, dcsync := 0, op_pending := 0, synccounter := 0,
      smeventmissed := 0, syncerror := 0, sm_event_seen := 0\<rparr>)" for r w ev
    by (rule assms(2) [of _ 0]) (simp add: al_view_def)
  show ?thesis
    by (simp add: ESC_checkDC_def split: option.splits, intro wp) (simp add: Qh same off)
qed

lemma keeps_optD: "keeps_opt h \<Longrightarrow> h = Some f \<Longrightarrow> al_view (f s) = al_view s"
  by (simp add: keeps_opt_def keeps_view_def)

lemma wp_ESC_stopinput [wp]:
  assumes "al_env E" and Q: "\<And>s'. al_view s' = al_view (s\<lparr>App_state := APPSTATE_IDLE\<rparr>) \<Longrightarrow> Q s'"
  shows "ok Q (ESC_stopinput E s)"
proof -
  have sm: "sm_follows E" using assms(1) by (simp add: al_env_def)
  have h: "al_view (h m s') = al_view s'" if "esc_hw_interrupt_disable E = Some h" for h s' m
    using assms(1) that by (simp add: al_env_def keeps_opt_def keeps_view_def)
  have Qh: "Q (h m s')" if "esc_hw_interrupt_disable E = Some h"
      "al_view s' = al_view (s\<lparr>App_state := APPSTATE_IDLE\<rparr>)" for h s' m
    using Q h that by simp
  show ?thesis
    by (simp add: ESC_stopinput_def split: option.splits, intro wp sm)
      (simp, simp, intro conjI impI allI, (rule Q Qh, assumption?, simp add: al_view_def)+)
qed

lemma wp_ESC_startoutput [wp]:
  assumes "sm_follows E" and "\<And>s'. al_view s' = al_view (s\<lparr>App_state := App_state s OR APPSTATE_OUTPUT\<rparr>) \<Longrightarrow> Q (st, s')"
  shows "ok Q (ESC_startoutput E st s)"
  by (auto simp: ESC_startoutput_def al_view_def intro!: wp assms)

lemma wp_ESC_stopoutput [wp]:
  assumes "al_env E" and Q: "\<And>s'. al_view s' = al_view (s\<lparr>App_state := App_state s AND APPSTATE_INPUT\<rparr>) \<Longrightarrow> Q s'"
  shows "ok Q (ESC_stopoutput E s)"
proof -
  have sm: "sm_follows E" using assms(1) by (simp add: al_env_def)
  have h: "al_view (APP_safe_state E s') = al_view s'" for s'
    using assms(1) by (auto simp: al_env_def APP_safe_state_def keeps_opt_def keeps_view_def split: option.splits)
  show ?thesis
    by (simp add: ESC_stopoutput_def, intro wp sm) (simp_all add: Q h)
qed

lemma wp_startinput_dc [wp]:
  assumes E: "al_env E"
    and Q: "\<And>s' p. al_view s' = al_view (s\<lparr>op_pending := p\<rparr>) \<Longrightarrow> Q (st, s')"
      "\<And>s' p. al_view s' = al_view (s\<lparr>App_state := APPSTATE_IDLE, op_pending := p\<rparr>) \<Longrightarrow> Q (PREOP_ERROR, s')"
  shows "ok Q (startinput_dc E st s)"
proof -
  have sm: "sm_follows E" using E by (simp add: al_env_def)
  have h: "al_view (h m s') = al_view s'" if "esc_hw_interrupt_enable E = Some h" for h s' m
    using E that by (simp add: al_env_def keeps_opt_def keeps_view_def)
  have Qh: "Q (st, h m s')" if "esc_hw_interrupt_enable E = Some h" "al_view s' = al_view (s\<lparr>op_pending := p\<rparr>)" for h s' m p
    using Q(1) [of "h m s'" p] h [OF that(1), of m s'] that by simp
  show ?thesis
    unfolding startinput_dc_def
    by (simp, rule wp_ESC_checkDC [OF E])
      (auto split: option.splits intro!: wp sm Q(2) intro: Q(1) Qh)
qed

lemma wp_ESC_startinput [wp]:
  fixes s :: "'w sys"
  assumes E: "al_env E"
    and Q: "\<And>r s' a p. r = st \<or> r = PREOP_ERROR \<Longrightarrow>
        (r = st \<and> st \<noteq> PREOP_ERROR \<Longrightarrow> a = APPSTATE_INPUT) \<Longrightarrow>
        a = APPSTATE_INPUT \<or> a = APPSTATE_IDLE \<or> a = App_state s \<Longrightarrow>
        al_view s' = al_view (s\<lparr>App_state := a, op_pending := p\<rparr>) \<Longrightarrow> Q (r, s')"
  shows "ok Q (ESC_startinput E st s)"
proof -
  have sm: "sm_follows E" using E by (simp add: al_env_def)
  let ?PE = "PREOP_ERROR"
  have sm23: "ok (\<lambda>(r, s'). (r = st \<or> r = ?PE) \<and>
      al_view s' = al_view (s\<lparr>App_state := if r = ?PE then App_state s else APPSTATE_INPUT\<rparr>))
      (startinput_sm E st s)"
    unfolding startinput_sm_def by (simp, rule wp) (auto intro!: wp sm simp: al_view_def)
  have rest: "ok Q (case x of (r, s1) \<Rightarrow> if use_interrupt s1 = 0 then Some (r, s1)
       else if r \<noteq> ESCpreop OR ESCerror then startinput_dc E r s1 else Some (r, s1))"
    if "case x of (r, s') \<Rightarrow> (r = st \<or> r = ?PE) \<and>
      al_view s' = al_view (s\<lparr>App_state := if r = ?PE then App_state s else APPSTATE_INPUT\<rparr>)" for x
  proof -
    obtain r s1 where x: "x = (r, s1)" by (cases x)
    with that have r: "r = st \<or> r = ?PE"
      and v: "al_view s1 = al_view (s\<lparr>App_state := if r = ?PE then App_state s else APPSTATE_INPUT\<rparr>)"
      by auto
    let ?a = "if r = ?PE then App_state s else APPSTATE_INPUT"
    have "Q (r, s1)"
      by (rule Q [of r ?a _ "op_pending s"]) (use r v in \<open>auto simp: al_view_def\<close>)
    moreover have "ok Q (startinput_dc E r s1)" if "r \<noteq> ?PE"
    proof (rule wp_startinput_dc [OF E])
      show "Q (r, s')" if "al_view s' = al_view (s1\<lparr>op_pending := p\<rparr>)" for s' p
        by (rule Q [of r ?a _ p]) (use r v that in \<open>auto simp: al_view_def\<close>)
      show "Q (?PE, s')" if "al_view s' = al_view (s1\<lparr>App_state := APPSTATE_IDLE, op_pending := p\<rparr>)" for s' p
        by (rule Q [of ?PE APPSTATE_IDLE _ p]) (use r v that in \<open>auto simp: al_view_def\<close>)
    qed
    ultimately show ?thesis using x by (cases "r = ?PE") simp_all
  qed
  show ?thesis
    unfolding ESC_startinput_def by (rule ok_bindI [OF sm23 rest])
qed

definition maps_sized :: "'w env \<Rightarrow> 'w sys \<Rightarrow> bool" where
  "maps_sized E s \<longleftrightarrow> length (SMmap2 s) = MAX_MAPPINGS_SM2 (opt E) \<and>
     length (SMmap3 s) = MAX_MAPPINGS_SM3 (opt E)"

lemma maps_sized_view: "al_view s' = al_view s \<Longrightarrow> maps_sized E s' = maps_sized E s"
  by (simp add: al_view_def maps_sized_def)

lemma wp_to_safeop [wp]:
  fixes s :: "'w sys"
  assumes E: "al_env E" and maps: "maps_sized E s"
    and Q: "\<And>r s' a p. r = st \<or> r = PREOP_ERROR \<Longrightarrow>
        (r = st \<and> st \<noteq> PREOP_ERROR \<Longrightarrow> a = APPSTATE_INPUT) \<Longrightarrow>
        a = APPSTATE_INPUT \<or> a = APPSTATE_IDLE \<or> a = App_state s \<Longrightarrow>
        al_view s' = al_view (s\<lparr>App_state := a, op_pending := p\<rparr>) \<Longrightarrow> Q (r, s')"
  shows "ok Q (to_safeop E st s)"
proof -
  have sm: "sm_follows E" and pt: "pdo_total E" using E by (simp_all add: al_env_def)
  obtain z2 n2 m2 where 2: "sizeOfPDO E RX_PDO_OBJIDX (sm2mappings s) (SMmap2 s) (MAX_MAPPINGS_SM2 (opt E)) s
      = Some (z2, n2, m2)" "length m2 = length (SMmap2 s)"
    using pt maps by (fastforce simp: pdo_total_def maps_sized_def ok_ex)
  let ?s2 = "s\<lparr>sm2mappings := n2, SMmap2 := m2, ESC_SM2_sml := z2\<rparr>"
  obtain z3 n3 m3 where 3: "sizeOfPDO E TX_PDO_OBJIDX (sm3mappings s) (SMmap3 s) (MAX_MAPPINGS_SM3 (opt E)) ?s2
      = Some (z3, n3, m3)" "length m3 = length (SMmap3 s)"
    using pt maps by (fastforce simp: pdo_total_def maps_sized_def ok_ex)
  let ?s3 = "?s2\<lparr>sm3mappings := n3, SMmap3 := m3, ESC_SM3_sml := z3\<rparr>"
  have v: "al_view ?s2 = al_view s" "al_view ?s3 = al_view s" "App_state ?s3 = App_state s"
    using 2(2) 3(2) by (simp_all add: al_view_def)
  have err: "Q (PREOP_ERROR, s')" if "al_view s' = al_view s" for s'
    by (rule Q [of _ "App_state s" _ "op_pending s"]) (use that in \<open>auto simp: al_view_def\<close>)
  have same: "s\<lparr>App_state := App_state s\<rparr> = s" by simp
  have start: "ok Q (do { (an, s) \<leftarrow> ESC_startinput E st ?s3;
      if an = st then do { s \<leftarrow> ESC_SMenable E 2 s; Some (an, s) } else Some (an, s) })"
  proof (rule ok_bindI)
    show "ok (\<lambda>x. \<forall>s''. al_view s'' = al_view (snd x) \<longrightarrow> Q (fst x, s'')) (ESC_startinput E st ?s3)"
    proof (rule wp_ESC_startinput [OF E], intro allI impI)
      fix r a p and s' s'' :: "'w sys"
      assume r: "r = st \<or> r = PREOP_ERROR" "r = st \<and> st \<noteq> PREOP_ERROR \<Longrightarrow> a = APPSTATE_INPUT"
        "a = APPSTATE_INPUT \<or> a = APPSTATE_IDLE \<or> a = App_state ?s3"
        "al_view s' = al_view (?s3\<lparr>App_state := a, op_pending := p\<rparr>)" "al_view s'' = al_view (snd (r, s'))"
      then have "Q (r, s'')" by (intro Q [of r a _ p]) (use v in simp_all)
      then show "Q (fst (r, s'), s'')" by simp
    qed
  qed (auto intro!: wp sm)
  show ?thesis
    using 2 3 start v by (auto simp: to_safeop_def intro!: wp err)
qed

lemma wp_leave_op [wp]:
  assumes E: "al_env E" and Q: "\<And>s'. al_view s' = al_view (s\<lparr>App_state := App_state s AND APPSTATE_INPUT\<rparr>) \<Longrightarrow> Q s'"
  shows "ok Q (leave_op E s)"
proof -
  have sm: "sm_follows E" using E by (simp add: al_env_def)
  show ?thesis by (auto simp: leave_op_def intro!: wp sm E Q)
qed

section \<open>The abstract state machine\<close>

datatype al_state = Init | Preop | Boot | Safeop | Op

fun al_code :: "al_state \<Rightarrow> u8" where
  "al_code Init = ESCinit"
| "al_code Preop = ESCpreop"
| "al_code Boot = ESCboot"
| "al_code Safeop = ESCsafeop"
| "al_code Op = ESCop"

lemma al_code_inject: "al_code x = al_code y \<longleftrightarrow> x = y"
  by (cases x; cases y) simp_all

text \<open>The states are ordered by their code; \<open>Boot\<close> stands beside the others.\<close>

instantiation al_state :: linorder
begin

definition less_eq_al_state :: "al_state \<Rightarrow> al_state \<Rightarrow> bool" where
  "less_eq_al_state x y \<longleftrightarrow> al_code x \<le> al_code y"

definition less_al_state :: "al_state \<Rightarrow> al_state \<Rightarrow> bool" where
  "less_al_state x y \<longleftrightarrow> al_code x < al_code y"

instance
  by standard (auto simp: less_eq_al_state_def less_al_state_def order_less_le al_code_inject)

end

text \<open>Upward transitions that the master may request.\<close>

definition adjacent :: "al_state \<Rightarrow> al_state \<Rightarrow> bool" where
  "adjacent c r \<longleftrightarrow> (c, r) \<in> {(Init, Preop), (Init, Boot), (Preop, Safeop), (Safeop, Op)}"

text \<open>
  \<open>al_step c r n e\<close>: in state \<open>c\<close> the request \<open>r\<close> may lead to state \<open>n\<close>, with the error flag
  \<open>e\<close>. A request for OP under distributed clocks may leave the slave waiting in SAFEOP.
\<close>

inductive al_step :: "al_state \<Rightarrow> al_state \<Rightarrow> al_state \<Rightarrow> bool \<Rightarrow> bool" where
  stay: "al_step c c c False"
| down: "r < c \<Longrightarrow> c \<noteq> Boot \<Longrightarrow> r \<noteq> Boot \<Longrightarrow> al_step c r r False"
| unboot: "al_step Boot Init Init False"
| up: "adjacent c r \<Longrightarrow> al_step c r r False"
| fail: "adjacent c r \<Longrightarrow> r \<noteq> Op \<Longrightarrow> al_step c r c True"
| wait: "al_step Safeop Op Safeop False"
| refuse: "c < r \<Longrightarrow> \<not> adjacent c r \<Longrightarrow> c \<noteq> Boot \<Longrightarrow> al_step c r c True"
| refuse_boot: "al_step Safeop Boot Safeop True"
| drop: "al_step Op Boot Safeop True"
| boot_up: "r \<noteq> Init \<Longrightarrow> r \<noteq> Boot \<Longrightarrow> al_step Boot r Preop True"
| reenter: "al_step Safeop Safeop Preop True"
| reboot: "al_step Boot Boot Init True"

inductive_cases al_stepE: "al_step c r n e"

lemma al_step_noerror: "al_step c r n False \<Longrightarrow> n = r \<or> (c = Safeop \<and> r = Op \<and> n = Safeop)"
  by (auto elim: al_stepE)

lemma al_step_op: "al_step c r Op e \<Longrightarrow> r = Op \<and> \<not> e \<and> (c = Safeop \<or> c = Op)"
  by (cases c; cases r) (simp_all add: al_step.simps adjacent_def less_al_state_def)

text \<open>The AL status that stands for a state and an error flag.\<close>

definition al_status :: "al_state \<Rightarrow> bool \<Rightarrow> u8" where
  "al_status n e = al_code n OR (if e then ESCerror else 0)"

definition al_result :: "al_state \<Rightarrow> al_state \<Rightarrow> u8 \<Rightarrow> bool" where
  "al_result c r a \<longleftrightarrow> (\<exists>n e. al_step c r n e \<and> a = al_status n e)"

lemma al_resultI: "al_step c r n e \<Longrightarrow> al_status n e = a \<Longrightarrow> al_result c r a"
  by (auto simp: al_result_def)

lemma al_result_simps:
  "al_result c r a \<longleftrightarrow> (\<exists>n. al_step c r n False \<and> a = al_code n \<or> al_step c r n True \<and> a = al_code n OR ESCerror)"
  by (auto simp: al_result_def al_status_def)

lemma ex_al_state: "(\<exists>n. P n) \<longleftrightarrow> P Init \<or> P Preop \<or> P Boot \<or> P Safeop \<or> P Op"
  by (metis al_state.exhaust)

lemmas al_eval = al_result_simps ex_al_state al_step.simps adjacent_def less_al_state_def

lemma al_switch_refines:
  assumes E: "al_env E" and maps: "maps_sized E s"
  shows "ok (\<lambda>(a, s'). al_result c r a)
    (al_switch E (push_bit 4 (al_code r) OR (al_code c AND 0x0f)) (al_code r) (al_code c) s)"
proof -
  have sm: "sm_follows E" using E by (simp add: al_env_def)
  note rules = wp sm E maps
  show ?thesis
  proof (cases c)
    case Init
    then show ?thesis
      by (cases r) (auto simp: al_switch_def al_eval intro!: rules)
  next
    case Preop
    then show ?thesis
      by (cases r) (auto simp: al_switch_def al_eval intro!: rules)
  next
    case Boot
    then show ?thesis
      by (cases r) (auto simp: al_switch_def al_eval intro!: rules)
  next
    case Safeop
    then show ?thesis
      by (cases r) (auto simp: al_switch_def al_eval intro!: rules)
  next
    case Op
    then show ?thesis
      by (cases r) (auto simp: al_switch_def al_eval intro!: rules)
  qed
qed

definition mb_set :: "'w sys \<Rightarrow> bool" where
  "mb_set s \<longleftrightarrow> (MBXrun s \<noteq> 0 \<longrightarrow> activemb0 s \<noteq> None \<and> activemb1 s \<noteq> None)"

definition al_inv :: "'w env \<Rightarrow> 'w sys \<Rightarrow> bool" where
  "al_inv E s \<longleftrightarrow> maps_sized E s \<and> mb_set s \<and>
     (outputs_on s \<longrightarrow> to_u8 (ALstatus s) AND ESCREG_AL_STATEMASK = ESCop \<and> op_pending s = 0)"

lemmas view_defs = al_view_def maps_sized_def mb_set_def outputs_on_def

section \<open>The AL control handler refines the abstract machine\<close>

lemma observes_run:
  assumes "observes h"
  obtains s' where "run_hook h as an s = (as, an, s')" "al_view s' = al_view s"
proof (cases h)
  case None
  then show ?thesis by (intro that [of s]) (simp_all add: run_hook_def)
next
  case (Some f)
  with assms have "fst (f (as, an) s) = (as, an)" "al_view (snd (f (as, an) s)) = al_view s"
    by (auto simp: observes_def)
  with Some show ?thesis
    by (intro that [of "snd (f (as, an) s)"]) (auto simp: run_hook_def split: prod.splits)
qed

lemma wp_ESC_check_id_request [wp]:
  "(\<And>r s'. al_view s' = al_view s \<Longrightarrow> Q (r, s')) \<Longrightarrow> ok Q (ESC_check_id_request E ac an s)"
  by (auto simp: ESC_check_id_request_def intro!: wp)

lemma wp_ESC_load_device_id [wp]:
  assumes "al_env E" and Q: "\<And>b s'. b = 0 \<or> b = 0x20 \<Longrightarrow> al_view s' = al_view s \<Longrightarrow> Q (b, s')"
  shows "ok Q (ESC_load_device_id E s)"
proof -
  have h: "al_view (snd (snd (h s'))) = al_view s'" if "get_device_id E = Some h" for h s'
    using assms(1) that by (simp add: al_env_def keeps_opt_def keeps_view_def)
  show ?thesis
  proof (cases "get_device_id E")
    case None
    then show ?thesis by (auto simp: ESC_load_device_id_def intro!: wp Q)
  next
    case (Some f)
    with h [OF Some, of s] show ?thesis
      by (auto simp: ESC_load_device_id_def split: prod.splits intro!: wp Q)
  qed
qed

lemma al_view_status [simp]: "al_view (s\<lparr>ALstatus := a\<rparr>) = (fst (al_view s), a, snd (snd (al_view s)))"
  by (simp add: al_view_def)

lemma al_view_appstate: "al_view s' = al_view s \<Longrightarrow> App_state s' = App_state s"
  by (simp add: al_view_def)

lemma wp_al_finish:
  fixes s :: "'w sys"
  assumes E: "al_env E"
    and Q: "\<And>s' b. b = 0 \<or> b = 0x20 \<Longrightarrow> al_view s' = al_view (s\<lparr>ALstatus := to_u16 (an OR b)\<rparr>) \<Longrightarrow> Q s'"
  shows "ok Q (al_finish E as an s)"
proof -
  have post: "observes (post_state_change_hook E)" using E by (simp add: al_env_def)
  have fin: "ok Q (ESC_ALstatus E (an OR b) s')" if "al_view s' = al_view s" "b = 0 \<or> b = 0x20" for s' b
    by (rule wp_ESC_ALstatus, rule Q [OF that(2)]) (simp add: that(1))
  have fin0: "ok Q (ESC_ALstatus E an s')" if "al_view s' = al_view s" for s'
    using fin [of s' 0] that by simp
  have run: "ok Q (do {
     s \<leftarrow> (if an AND ESCerror = 0 \<and> ALerror s' \<noteq> 0 then ESC_ALerror E ALERR_NONE s' else Some s');
     (requested, s) \<leftarrow> ESC_check_id_request E (ALcontrol s) an s;
     (an, s) \<leftarrow> (if requested then do { (b, s) \<leftarrow> ESC_load_device_id E s; Some (an OR b, s) }
                else Some (an, s));
     ESC_ALstatus E an s })" if v: "al_view s' = al_view s" for s'
  proof (rule ok_bindI)
    show "ok (\<lambda>x. al_view x = al_view s)
        (if an AND ESCerror = 0 \<and> ALerror s' \<noteq> 0 then ESC_ALerror E ALERR_NONE s' else Some s')"
      using v by (auto intro!: wp)
    fix x :: "'w sys"
    assume x: "al_view x = al_view s"
    show "ok Q (do { (requested, s) \<leftarrow> ESC_check_id_request E (ALcontrol x) an x;
       (an, s) \<leftarrow> (if requested then do { (b, s) \<leftarrow> ESC_load_device_id E s; Some (an OR b, s) }
                  else Some (an, s));
       ESC_ALstatus E an s })"
    proof (rule ok_bindI)
      show "ok (\<lambda>y. al_view (snd y) = al_view s) (ESC_check_id_request E (ALcontrol x) an x)"
        using x by (intro wp) simp
      fix y :: "bool \<times> 'w sys"
      assume y: "al_view (snd y) = al_view s"
      have load: "ok (\<lambda>z. (fst z = 0 \<or> fst z = 0x20) \<and> al_view (snd z) = al_view s) (ESC_load_device_id E (snd y))"
        using y by (intro wp E) simp
      show "ok Q (case y of (requested, s) \<Rightarrow> do {
         (an, s) \<leftarrow> (if requested then do { (b, s) \<leftarrow> ESC_load_device_id E s; Some (an OR b, s) }
                    else Some (an, s));
         ESC_ALstatus E an s })"
        using y fin0 ok_mono [OF load, of "\<lambda>z. ok Q (ESC_ALstatus E (an OR fst z) (snd z))"] fin
        by (cases y) (auto simp: case_prod_beta)
    qed
  qed
  obtain s1 where h: "run_hook (post_state_change_hook E) as an s = (as, an, s1)" "al_view s1 = al_view s"
    using post by (rule observes_run)
  show ?thesis
    unfolding al_finish_def using run [OF h(2)] by (simp add: h(1) del: ok_bind ok_if)
qed

text \<open>What the handler computes from the two registers.\<close>

lemma al_code_mask [simp]: "al_code c AND 0x0f = al_code c" "al_code c AND 0x1f = al_code c"
    "al_code c AND 0x10 = 0" "al_code c \<noteq> 0"
  by (cases c; simp)+

lemma al_status_mask [simp]: "al_status c e AND 0x0f = al_code c" "al_status c e AND 0x10 \<noteq> 0 \<longleftrightarrow> e"
    "(al_status c e OR 0x20) AND 0x1f = al_status c e" "al_status c e AND 0x1f = al_status c e"
    "al_status c e = 1 \<longleftrightarrow> c = Init \<and> \<not> e" "al_status c False = al_code c"
  by (cases c; cases e; simp add: al_status_def)+

lemma narrow_mask: "to_u8 (to_u16 (a :: u8)) AND m = a AND m"
  by simp

lemma mask_ack_status:
  assumes "e \<Longrightarrow> ack \<or> r = Init"
  shows "mask_ack (al_status r ack) (al_status c e) = (al_code r, al_code c)"
  using assms by (cases e; cases ack) (auto simp: mask_ack_def)

lemma al_request_refines:
  fixes s :: "'w sys"
  assumes E: "al_env E" and maps: "maps_sized E s"
    and cur: "to_u8 (ALstatus s) AND 0x1f = al_status c e"
    and req: "to_u8 (ALcontrol s) AND 0x1f = al_status r ack"
    and acked: "e \<Longrightarrow> ack \<or> r = Init" and pend: "op_pending s = 0 \<or> \<not> e"
  shows "ok (\<lambda>s'. al_result c r (to_u8 (ALstatus s') AND 0x1f)) (al_request E s)"
proof -
  have pre: "observes (pre_state_change_hook E)" using E by (simp add: al_env_def)
  let ?as = "push_bit 4 (al_code r) OR al_code c"
  have switch: "ok (\<lambda>s'. al_result c r (to_u8 (ALstatus s') AND 0x1f))
     (do { (an, s) \<leftarrow> al_switch E ?as (al_code r) (al_code c) s2; al_finish E ?as an s })"
    if "al_view s2 = al_view (s\<lparr>op_pending := 0\<rparr>)" for s2
  proof (rule ok_bindI)
    have "maps_sized E s2" using maps that by (simp add: view_defs)
    from al_switch_refines [OF E this, of c r]
    show "ok (\<lambda>x. al_result c r (fst x)) (al_switch E ?as (al_code r) (al_code c) s2)"
      by (simp add: case_prod_unfold)
    fix x :: "u8 \<times> 'w sys"
    assume x: "al_result c r (fst x)"
    then obtain n e' where a: "fst x = al_status n e'" by (auto simp: al_result_def)
    show "ok (\<lambda>s'. al_result c r (to_u8 (ALstatus s') AND 0x1f)) (case x of (an, s) \<Rightarrow> al_finish E ?as an s)"
    proof (simp add: case_prod_beta, rule wp_al_finish [OF E])
      fix s' b
      assume b: "b = 0 \<or> b = 0x20" and v: "al_view s' = al_view (snd x\<lparr>ALstatus := to_u16 (fst x OR b)\<rparr>)"
      from v have "ALstatus s' = to_u16 (fst x OR b)" by (simp add: al_view_def)
      with b a have "to_u8 (ALstatus s') AND 0x1f = fst x" by (elim disjE) simp_all
      with x show "al_result c r (to_u8 (ALstatus s') AND 0x1f)" by simp
    qed
  qed
  let ?s2 = "if op_pending s \<noteq> 0 then s\<lparr>op_pending := 0\<rparr> else s"
  obtain s3 where h: "run_hook (pre_state_change_hook E) ?as (al_code c) ?s2 = (?as, al_code c, s3)"
    "al_view s3 = al_view ?s2" using pre by (rule observes_run)
  then have v3: "al_view s3 = al_view (s\<lparr>op_pending := 0\<rparr>)"
    by (cases "op_pending s = 0") (simp_all add: al_view_def)
  have "al_request E s =
     (if op_pending s \<noteq> 0 \<and> ?as = SAFEOP_TO_OP then Some s
      else do { (an, s) \<leftarrow> al_switch E ?as (al_code r) (al_code c) s3; al_finish E ?as an s })"
    using h(1) by (simp add: al_request_def cur req mask_ack_status [OF acked] split del: if_split cong: if_cong)
  moreover have "al_result c r (al_status c e)" if "op_pending s \<noteq> 0" "?as = SAFEOP_TO_OP"
  proof -
    have "c = Safeop \<and> r = Op" using that(2) by (cases c; cases r) simp_all
    with that(1) pend show ?thesis by (auto intro!: al_resultI [OF al_step.wait])
  qed
  ultimately show ?thesis
    using switch [OF v3] cur by simp
qed

lemma ESC_state_refines:
  fixes s :: "'w sys"
  assumes E: "al_env E" and maps: "maps_sized E s"
    and event: "ALevent s AND ESCREG_ALEVENT_CONTROL \<noteq> 0"
    and cur: "to_u8 (ALstatus s) AND 0x1f = al_status c e"
    and req: "f = fst (hal_read E ESCREG_ALCONTROL 2 (world s))"
      "to_u8 (rd16 [f 0, f 1]) AND 0x1f = al_status r ack"
    and acked: "e \<Longrightarrow> ack \<or> r = Init" and pend: "op_pending s = 0 \<or> \<not> e"
  shows "ok (\<lambda>s'. al_result c r (to_u8 (ALstatus s') AND 0x1f)) (ESC_state E s)"
proof -
  have "ok (\<lambda>s'. al_result c r (to_u8 (ALstatus s') AND 0x1f))
    (al_request E (s\<lparr>world := w, ALevent := ev, ALcontrol := rd16 [f 0, f 1]\<rparr>))" for w ev
    by (rule al_request_refines [OF E]) (use assms in \<open>simp_all add: maps_sized_def del: rd16.simps\<close>)
  then show ?thesis
    using event req by (simp add: ESC_state_def ESC_read_def case_prod_beta del: rd16.simps)
qed

section \<open>Outputs are active in OP only\<close>

definition al_post :: "'w env \<Rightarrow> u8 \<times> 'w sys \<Rightarrow> bool" where
  "al_post E x \<longleftrightarrow> maps_sized E (snd x) \<and> mb_set (snd x) \<and> (outputs_on (snd x) \<longrightarrow> fst x = ESCop \<and> op_pending (snd x) = 0)"

lemma and_1_2 [simp]: "(x AND 1) AND 2 = (0 :: u8)"
  by (simp add: and.assoc)

lemma al_switch_inv:
  fixes s :: "'w sys"
  assumes E: "al_env E" and maps: "maps_sized E s" and mb: "mb_set s"
    and out: "outputs_on s \<Longrightarrow> an = ESCop \<and> as AND 0x0f = ESCop"
    and op: "as = SAFEOP_TO_OP \<Longrightarrow> ac = ESCop" and idle: "op_pending s = 0"
  shows "ok (al_post E) (al_switch E as ac an s)"
proof -
  have sm: "sm_follows E" using E by (simp add: al_env_def)
  have same: "al_post E (a, s')" if "al_view s' = al_view s" "\<not> outputs_on s \<or> a = ESCop" for a and s' :: "'w sys"
    using that maps mb idle by (auto simp: view_defs al_post_def)
  have off: "al_post E (a, s')" if "al_view s' = al_view (s\<lparr>App_state := x\<rparr>)" "x AND 2 = 0 \<or> a = ESCop" for a x and s' :: "'w sys"
    using that maps mb idle by (auto simp: view_defs al_post_def)
  have safe: "al_post E (a, s')" if "al_view s' = al_view (s\<lparr>App_state := x, op_pending := p\<rparr>)" "x AND 2 = 0"
    for a x p and s' :: "'w sys"
    using that maps mb by (auto simp: view_defs al_post_def)
  have stopped: "al_post E (a, s')" if "al_view s' = al_view (s\<lparr>App_state := x, MBXrun := 0\<rparr>)" "x AND 2 = 0" for a x and s' :: "'w sys"
    using that maps mb by (auto simp: view_defs al_post_def)
  have quiet: "App_state s AND 2 = 0" "\<not> outputs_on s" "fst (al_view s) AND 2 = 0"
    if "as AND 0x0f \<noteq> ESCop"
    using out that by (auto simp: view_defs)
  have op': "as = SAFEOP_TO_OP \<longrightarrow> ac = ESCop" using op by blast
  show ?thesis
    unfolding al_switch_def
    apply (intro ok_ifI)
    subgoal using out by (auto intro!: same)
    subgoal using quiet maps by (auto intro!: wp sm) (auto simp: al_post_def view_defs)
    subgoal using quiet maps by (auto intro!: wp sm) (auto simp: al_post_def view_defs)
    subgoal using quiet by (auto intro!: wp sm E maps same)
    subgoal using quiet by (auto intro!: wp sm E maps stopped)
    subgoal using quiet by (auto intro!: wp sm E maps stopped)
    subgoal using quiet by (auto intro!: wp sm E maps stopped)
    subgoal using quiet by (auto intro!: wp sm E maps same)
    subgoal using quiet by (auto intro!: wp sm E maps safe)
    subgoal using quiet by (auto intro!: wp sm E maps same)
    subgoal using quiet by (auto intro!: wp sm E maps off)
    subgoal using quiet by (auto intro!: wp sm E maps off)
    subgoal using quiet by (auto intro!: wp sm E maps same)
    subgoal using quiet maps mb by (simp add: al_post_def view_defs)
    subgoal using quiet op' by (auto intro!: wp sm E off)
    subgoal using quiet by (auto intro!: wp sm E maps off)
    subgoal using quiet by (auto intro!: wp sm E maps off)
    subgoal
    proof -
      have unknown: "ok (al_post E) (do { s \<leftarrow> (if as = ESCsafeop then ESC_stopinput E s1 else Some s1);
          s \<leftarrow> ESC_ALerror E ALERR_UNKNOWNSTATE s; Some (a OR ESCerror, s) })"
        if "al_view s1 = al_view (s\<lparr>App_state := x\<rparr>)" "x AND 2 = 0" for a x s1
        using that by (auto intro!: wp E off)
      show ?thesis
      proof (cases "an = ESCop")
        case True
        have leave: "ok (\<lambda>s1. al_view s1 = al_view (s\<lparr>App_state := App_state s AND APPSTATE_INPUT\<rparr>)) (leave_op E s)"
          by (rule wp_leave_op [OF E])
        have off1: "(App_state s AND APPSTATE_INPUT) AND 2 = 0" by simp
        show ?thesis
          using True unknown [OF _ off1, where a = ESCsafeop]
          by (cases "as = ESCsafeop"; simp; intro ok_mono [OF leave]; simp)
      next
        case False
        then have "\<not> outputs_on s" using out by blast
        then have "App_state s AND 2 = 0" by (simp add: outputs_on_def)
        with False unknown [of s "App_state s" an] show ?thesis by simp
      qed
    qed
    done
qed

text \<open>The request code packs both states; each can be read back.\<close>

lemma bit_low_nibble: "bit (0x0f :: u8) n \<longleftrightarrow> n < 4" "bit (0x0f :: int) n \<longleftrightarrow> n < 4"
proof -
  have "(0x0f :: u8) = Bit_Operations.mask 4" "(0x0f :: int) = Bit_Operations.mask 4"
    by (simp_all add: mask_eq_exp_minus_1)
  then show "bit (0x0f :: u8) n \<longleftrightarrow> n < 4" "bit (0x0f :: int) n \<longleftrightarrow> n < 4"
    by (simp_all only: bit_mask_iff) (auto dest: bit_imp_le_length)
qed

lemma request_low: "(push_bit 4 a OR b) AND 0x0f = b AND 0x0f" for a b :: u8
  by (rule bit_word_eqI) (auto simp: bit_simps bit_low_nibble)

lemma request_high:
  fixes a b c d :: u8
  assumes "push_bit 4 a OR (b AND 0x0f) = push_bit 4 c OR (d AND 0x0f)" and "a AND 0xF0 = c AND 0xF0"
  shows "a = c"
proof (rule bit_word_eqI)
  fix n :: nat
  assume n: "n < LENGTH(8)"
  have m: "bit (0xF0 :: u8) n \<longleftrightarrow> \<not> n < 4"
  proof -
    have "(0xF0 :: u8) = NOT 0x0f" by simp
    then show ?thesis using n by (simp only: bit_not_iff bit_low_nibble) simp
  qed
  show "bit a n = bit c n"
  proof (cases "n < 4")
    case True
    have "bit (push_bit 4 a OR (b AND 0x0f)) (n + 4) = bit (push_bit 4 c OR (d AND 0x0f)) (n + 4)"
      by (simp only: assms(1))
    with True show ?thesis by (simp add: bit_simps bit_low_nibble)
  next
    case False
    have "bit (a AND 0xF0) n = bit (c AND 0xF0) n" by (simp only: assms(2))
    with False m show ?thesis by (simp add: bit_simps)
  qed
qed

lemma al_request_inv:
  fixes s :: "'w sys"
  assumes E: "al_env E" and inv: "al_inv E s"
  shows "ok (al_inv E) (al_request E s)"
proof -
  have pre: "observes (pre_state_change_hook E)" using E by (simp add: al_env_def)
  let ?req = "to_u8 (ALcontrol s) AND ESCREG_AL_STATEMASK" let ?cur = "to_u8 (ALstatus s) AND ESCREG_AL_STATEMASK"
  obtain ac an where m: "mask_ack ?req ?cur = (ac, an)" by (cases "mask_ack ?req ?cur")
  let ?as = "push_bit 4 ac OR (?cur AND 0x0f)"
  let ?s2 = "if op_pending s \<noteq> 0 then s\<lparr>op_pending := 0\<rparr> else s"
  obtain s3 where h: "run_hook (pre_state_change_hook E) ?as an ?s2 = (?as, an, s3)"
    "al_view s3 = al_view ?s2" using pre by (rule observes_run)
  then have v3: "al_view s3 = al_view (s\<lparr>op_pending := 0\<rparr>)"
    by (cases "op_pending s = 0") (simp_all add: al_view_def)
  have out: "an = ESCop \<and> ?as AND 0x0f = ESCop" if "outputs_on s3"
  proof -
    have "outputs_on s" using that v3 by (simp add: view_defs)
    with inv have s0: "?cur = ESCop" by (simp add: al_inv_def)
    moreover have "an = ?cur AND 0x0f \<or> an = ?cur" using m by (auto simp: mask_ack_def split: if_splits)
    ultimately have an: "an = ESCop" by auto
    have "?as AND 0x0f = (?cur AND 0x0f) AND 0x0f" by (rule request_low)
    also have "\<dots> = ESCop" using s0 by simp
    finally show ?thesis using an by blast
  qed
  have noerr: "ac AND 0xF0 = 0"
  proof (cases "?req AND ESCerror \<noteq> 0 \<or> ?req = ESCinit")
    case True
    with m have "ac = ?req AND 0x0f" by (simp add: mask_ack_def)
    then show ?thesis by (simp add: and.assoc)
  next
    case False
    with m have "ac = ?req" by (simp add: mask_ack_def)
    with False show ?thesis by (simp add: and.assoc)
  qed
  have code: "ac = ESCop" if "?as = SAFEOP_TO_OP"
    by (rule request_high [of ac ?cur ESCop ESCsafeop]) (use that noerr in simp_all)
  have ready: "maps_sized E s3" "mb_set s3" "op_pending s3 = 0" using inv v3 by (simp_all add: al_inv_def view_defs)
  have switch: "ok (al_inv E) (do { (an, s) \<leftarrow> al_switch E ?as ac an s3; al_finish E ?as an s })"
  proof (rule ok_bindI)
    show "ok (al_post E) (al_switch E ?as ac an s3)"
      by (rule al_switch_inv [OF E ready(1,2) out code ready(3)])
    fix x :: "u8 \<times> 'w sys"
    assume x: "al_post E x"
    show "ok (al_inv E) (case x of (an, s) \<Rightarrow> al_finish E ?as an s)"
    proof (simp add: case_prod_beta, rule wp_al_finish [OF E])
      fix s' :: "'w sys" and b
      assume b: "b = 0 \<or> b = 0x20" and v: "al_view s' = al_view (snd x\<lparr>ALstatus := to_u16 (fst x OR b)\<rparr>)"
      then show "al_inv E s'"
        using x by (auto simp: al_inv_def al_post_def view_defs)
    qed
  qed
  have "al_request E s =
     (if an AND ESCerror \<noteq> 0 \<and> ac AND ESCerror = 0 then Some s
      else if op_pending s \<noteq> 0 \<and> ?as = SAFEOP_TO_OP then Some s
      else do { (an, s) \<leftarrow> al_switch E ?as ac an s3; al_finish E ?as an s })"
    using h(1) m by (simp add: al_request_def split del: if_split cong: if_cong)
  then show ?thesis using switch inv by simp
qed

lemma ESC_state_inv:
  assumes E: "al_env E" and inv: "al_inv E s"
  shows "ok (al_inv E) (ESC_state E s)"
proof -
  have "ok (al_inv E) (al_request E (s\<lparr>world := w, ALevent := ev, ALcontrol := c\<rparr>))" for w ev c
    by (rule al_request_inv [OF E]) (use inv in \<open>simp add: al_inv_def view_defs\<close>)
  then show ?thesis
    using inv by (simp add: ESC_state_def ESC_read_def case_prod_beta del: rd16.simps)
qed

lemma ESC_ALstatusgotoerror_inv:
  fixes s :: "'w sys"
  assumes E: "al_env E" and inv: "al_inv E s"
  shows "ok (al_inv E) (ESC_ALstatusgotoerror E st err s)"
proof (cases "st AND ESCop = 0")
  case False
  with inv show ?thesis by (simp add: ESC_ALstatusgotoerror_def)
next
  case True
  let ?as = "push_bit 4 (st AND 0x0f) OR (to_u8 (ALstatus s AND 0x0f) AND 0x0f)"
  have hooks: "observes (pre_state_change_hook E)" "observes (post_state_change_hook E)"
    using E by (simp_all add: al_env_def)
  obtain s1 where 1: "run_hook (pre_state_change_hook E) ?as (to_u8 (ALstatus s AND 0x0f)) s =
      (?as, to_u8 (ALstatus s AND 0x0f), s1)" "al_view s1 = al_view s"
    using hooks(1) by (rule observes_run)
  have inv1: "maps_sized E s1" "mb_set s1" using inv 1(2) by (simp_all add: al_inv_def view_defs)
  have stop: "ok (\<lambda>s2. maps_sized E s2 \<and> mb_set s2 \<and> \<not> outputs_on s2)
      (if App_state s1 AND APPSTATE_OUTPUT > 0 then ESC_stopoutput E s1 else Some s1)"
    using inv1 by (auto intro!: wp E simp: word_gt_0 view_defs)
  have fin: "ok (al_inv E) (do { s \<leftarrow> ESC_ALerror E err (s2\<lparr>op_pending := 0\<rparr>); s \<leftarrow> ESC_ALstatus E st s;
      (as, an, s) \<leftarrow> Some (run_hook (post_state_change_hook E) ?as st s); Some s })"
    if "maps_sized E s2 \<and> mb_set s2 \<and> \<not> outputs_on s2" for s2
  proof (rule ok_bindI)
    show "ok (\<lambda>x. maps_sized E x \<and> mb_set x \<and> \<not> outputs_on x) (ESC_ALerror E err (s2\<lparr>op_pending := 0\<rparr>))"
      using that by (auto intro!: wp simp: view_defs)
    fix x :: "'w sys"
    assume x: "maps_sized E x \<and> mb_set x \<and> \<not> outputs_on x"
    show "ok (al_inv E) (do { s \<leftarrow> ESC_ALstatus E st x;
        (as, an, s) \<leftarrow> Some (run_hook (post_state_change_hook E) ?as st s); Some s })"
    proof (rule ok_bindI)
      show "ok (\<lambda>y. maps_sized E y \<and> mb_set y \<and> \<not> outputs_on y) (ESC_ALstatus E st x)"
        using x by (auto intro!: wp simp: view_defs)
      fix y :: "'w sys"
      assume y: "maps_sized E y \<and> mb_set y \<and> \<not> outputs_on y"
      obtain s4 where "run_hook (post_state_change_hook E) ?as st y = (?as, st, s4)" "al_view s4 = al_view y"
        using hooks(2) by (rule observes_run)
      with y show "ok (al_inv E) (do { (as, an, s) \<leftarrow> Some (run_hook (post_state_change_hook E) ?as st y); Some s })"
        by (simp add: al_inv_def view_defs)
    qed
  qed
  show ?thesis
    unfolding ESC_ALstatusgotoerror_def Let_def
    using True 1 ok_bindI [OF stop fin] by (simp del: ok_bind ok_if)
qed

lemma ESC_sm_act_event_inv:
  fixes s :: "'w sys"
  assumes E: "al_env E" and inv: "al_inv E s"
  shows "ok (al_inv E) (ESC_sm_act_event E s)"
proof -
  have sm: "sm_follows E" using E by (simp add: al_env_def)
  have keep: "al_inv E s'" if "al_view s' = al_view s" for s' :: "'w sys"
    using inv that by (simp add: al_inv_def view_defs)
  have off: "al_inv E s'" if "al_view s' = al_view (s\<lparr>App_state := a, MBXrun := m, ALstatus := st\<rparr>)"
      "a AND 2 = 0" "m \<noteq> 0 \<Longrightarrow> MBXrun s \<noteq> 0" for s' :: "'w sys" and a m st
    using inv that by (auto simp: al_inv_def view_defs)
  have off0: "al_inv E s'" if "al_view s' = al_view (s\<lparr>App_state := 0, ALstatus := st\<rparr>)" for s' :: "'w sys" and st
    using inv that by (simp add: al_inv_def view_defs)
  let ?cur = "to_u8 (ALstatus s) AND ESCREG_AL_STATEMASK"
  obtain ac an where m: "mask_ack (to_u8 (ALcontrol s) AND ESCREG_AL_STATEMASK) ?cur = (ac, an)"
    by (cases "mask_ack (to_u8 (ALcontrol s) AND ESCREG_AL_STATEMASK) ?cur")
  have stop: "ok (\<lambda>s2. \<exists>a. al_view s2 = al_view (s\<lparr>App_state := a\<rparr>) \<and> a AND 2 = 0)
     (if App_state s1 \<noteq> 0 then do { s \<leftarrow> ESC_stopoutput E s1; ESC_stopinput E s } else Some s1)"
    if "al_view s1 = al_view s" for s1
    using that by (auto intro!: wp E exI [of _ 0]) (simp add: al_view_def)
  have down_init: "ok (al_inv E) (do {
       s \<leftarrow> (if App_state s1 \<noteq> 0 then do { s \<leftarrow> ESC_stopoutput E s1; ESC_stopinput E s } else Some s1);
       s \<leftarrow> ESC_stopmbx E s; s \<leftarrow> ESC_ALerror E ALERR_INVALIDMBXCONFIG s;
       let s = s\<lparr>MBXrun := 0\<rparr>; ESC_ALstatus E ax s })" if "al_view s1 = al_view s" for s1 ax
    by (rule ok_bindI [OF stop [OF that]]) (auto intro!: wp sm off [of _ _ 0])
  have down_preop: "ok (al_inv E) (do { s \<leftarrow> ESC_stopoutput E s1; s \<leftarrow> ESC_stopinput E s; s \<leftarrow> sm_alerror E s;
       ESC_ALstatus E ax s })" if "al_view s1 = al_view s" for s1 ax
    using that by (auto intro!: wp E off0)
  have checked: "ok (al_inv E) (sm_act_checked E ac an ax ax23 s1)" if "al_view s1 = al_view s" for s1 ax ax23
    unfolding sm_act_checked_def using that by (intro ok_ifI down_init down_preop) (simp_all add: keep)
  have checks: "ok (al_inv E) (do { (ax, s) \<leftarrow> ESC_checkmbx E ?cur s; (ax23, s) \<leftarrow> ESC_checkSM23 E ?cur s;
       sm_act_checked E ac an ax ax23 s })" if run: "MBXrun s \<noteq> 0"
  proof (rule ok_bindI)
    show "ok (\<lambda>x. al_view (snd x) = al_view s) (ESC_checkmbx E ?cur s)"
      by (rule wp_ESC_checkmbx [OF sm]) (use inv run in \<open>simp_all add: al_inv_def mb_set_def\<close>)
    fix x :: "u8 \<times> 'w sys"
    assume x: "al_view (snd x) = al_view s"
    show "ok (al_inv E) (case x of (ax, s) \<Rightarrow> do { (ax23, s) \<leftarrow> ESC_checkSM23 E ?cur s;
        sm_act_checked E ac an ax ax23 s })"
    proof (simp only: case_prod_beta, rule ok_bindI)
      show "ok (\<lambda>y. al_view (snd y) = al_view s) (ESC_checkSM23 E ?cur (snd x))"
        using x by (intro wp) simp
    qed (simp add: checked case_prod_beta)
  qed
  show ?thesis
    unfolding ESC_sm_act_event_def
    using inv m checks by (auto simp: Let_def simp del: ok_bind intro!: ok_ifI wp keep)
qed

lemma ESC_op_pending_step_inv:
  fixes s :: "'w sys"
  assumes E: "al_env E" and inv: "al_inv E s"
  shows "ok (al_inv E) (ESC_op_pending_step E sync0 ev ns s)"
proof (cases "op_pending s = 0")
  case True
  with inv show ?thesis by (simp add: ESC_op_pending_step_def)
next
  case False
  have sm: "sm_follows E" and hook: "observes (post_state_change_hook E)"
    using E by (simp_all add: al_env_def)
  have quiet: "\<not> outputs_on s" using inv False by (auto simp: al_inv_def)
  have keep: "al_inv E s'" if "al_view s' = al_view s" for s' :: "'w sys"
    using inv that by (simp add: al_inv_def view_defs)
  have refuse: "al_inv E s'" if "al_view s' = al_view (s\<lparr>op_pending := 0, ALstatus := st\<rparr>)" for s' :: "'w sys" and st
    using inv quiet that by (simp add: al_inv_def view_defs)
  have accept: "al_inv E s'" if "al_view s' = al_view (s\<lparr>App_state := a, op_pending := 0, ALstatus := 8\<rparr>)"
    for s' :: "'w sys" and a
    using inv that by (simp add: al_inv_def view_defs)
  have fin: "ok (al_inv E) (do { (r, s) \<leftarrow> ESC_startoutput E ESCop s1;
          (as, an, s) \<leftarrow> Some (run_hook (post_state_change_hook E) SAFEOP_TO_OP ESCop s);
          s \<leftarrow> (if an AND ESCerror = 0 \<and> ALerror s \<noteq> 0 then ESC_ALerror E ALERR_NONE s else Some s);
          ESC_ALstatus E an s })"
    if "al_view s1 = al_view (s\<lparr>op_pending := 0\<rparr>)" for s1
  proof (rule ok_bindI)
    show "ok (\<lambda>x. al_view (snd x) = al_view (s1\<lparr>App_state := App_state s1 OR APPSTATE_OUTPUT\<rparr>)) (ESC_startoutput E ESCop s1)"
      by (intro wp sm) simp
    fix x :: "u8 \<times> 'w sys"
    assume x: "al_view (snd x) = al_view (s1\<lparr>App_state := App_state s1 OR APPSTATE_OUTPUT\<rparr>)"
    obtain s4 where h: "run_hook (post_state_change_hook E) SAFEOP_TO_OP ESCop (snd x) = (SAFEOP_TO_OP, ESCop, s4)"
      "al_view s4 = al_view (snd x)" using hook by (rule observes_run)
    show "ok (al_inv E) (case x of (r, s) \<Rightarrow> do {
          (as, an, s) \<leftarrow> Some (run_hook (post_state_change_hook E) SAFEOP_TO_OP ESCop s);
          s \<leftarrow> (if an AND ESCerror = 0 \<and> ALerror s \<noteq> 0 then ESC_ALerror E ALERR_NONE s else Some s);
          ESC_ALstatus E an s })"
      using h x that by (auto simp: case_prod_beta intro!: wp accept [of _ "App_state s1 OR APPSTATE_OUTPUT"])
  qed
  have "al_view (op_account sync0 ev ns s) = al_view s" by (simp add: op_account_def)
  then have "ok (al_inv E) (op_decide E (op_account sync0 ev ns s))"
    unfolding op_decide_def Let_def
    by (intro ok_ifI fin) (auto intro!: wp intro: refuse keep)
  then show ?thesis using False by (simp add: ESC_op_pending_step_def)
qed

text \<open>
  Everything that happens to the AL state machine: its four handlers, and any other activity
  of the stack, the application and the master, which leaves the state machine's fields alone.
\<close>

inductive al_activity :: "'w env \<Rightarrow> 'w sys \<Rightarrow> 'w sys \<Rightarrow> bool" for E where
  control: "ESC_state E s = Some s' \<Longrightarrow> al_activity E s s'"
| sm_change: "ESC_sm_act_event E s = Some s' \<Longrightarrow> al_activity E s s'"
| slave_error: "ESC_ALstatusgotoerror E st err s = Some s' \<Longrightarrow> al_activity E s s'"
| sync_period: "ESC_op_pending_step E sync0 ev ns s = Some s' \<Longrightarrow> al_activity E s s'"
| elsewhere: "al_view s' = al_view s \<Longrightarrow> al_activity E s s'"

lemma al_activity_inv:
  assumes "al_activity E s s'" and "al_env E" and "al_inv E s"
  shows "al_inv E s'"
  using assms
proof (cases rule: al_activity.cases)
  case elsewhere
  with assms(3) show ?thesis by (simp add: al_inv_def view_defs)
next
  case control
  with ok_SomeD [OF ESC_state_inv] assms(2,3) show ?thesis by blast
next
  case sm_change
  with ok_SomeD [OF ESC_sm_act_event_inv] assms(2,3) show ?thesis by blast
next
  case slave_error
  with ok_SomeD [OF ESC_ALstatusgotoerror_inv] assms(2,3) show ?thesis by blast
next
  case sync_period
  with ok_SomeD [OF ESC_op_pending_step_inv] assms(2,3) show ?thesis by blast
qed

lemma al_run_inv:
  assumes "(al_activity E)\<^sup>*\<^sup>* s s'" and "al_env E" and "al_inv E s"
  shows "al_inv E s'"
  using assms by (induction rule: rtranclp_induct) (auto intro: al_activity_inv)

section \<open>How long the slave waits for synchronisation\<close>

text \<open>
  The history of a held request: per period whether synchronisation was good, and its
  length in nanoseconds. \<open>good_tail\<close> is the time since the last bad period.
\<close>

fun good_time :: "(bool \<times> u64) list \<Rightarrow> nat" where
  "good_time [] = 0"
| "good_time ((g, ns) # h) = (if g then unat ns + good_time h else 0)"

definition good_tail :: "(bool \<times> u64) list \<Rightarrow> nat" where
  "good_tail h = good_time (rev h)"

definition total_time :: "(bool \<times> u64) list \<Rightarrow> nat" where
  "total_time h = sum_list (map (\<lambda>(g, ns). unat ns) h)"

text \<open>
  A request being held: started, then any number of periods that decided nothing, with other
  activity in between that leaves the four variables of the wait alone.
\<close>

inductive waiting :: "'w env \<Rightarrow> (bool \<times> u64) list \<Rightarrow> 'w sys \<Rightarrow> bool" for E where
  start: "op_valid_ns s = 0 \<Longrightarrow> op_pending_ns s = 0 \<Longrightarrow> waiting E [] s"
| period: "waiting E h s \<Longrightarrow> s' = op_account sync0 ev ns s \<Longrightarrow> unat ns \<le> 2 ^ 32 \<Longrightarrow>
    op_pending_ns s' < ESC_OP_PENDING_TIMEOUT_NS \<Longrightarrow>
    waiting E (h @ [(good_sync sync0 ev s, ns)]) s'"
| other: "waiting E h s \<Longrightarrow> op_valid_ns s' = op_valid_ns s \<Longrightarrow> op_pending_ns s' = op_pending_ns s \<Longrightarrow>
    waiting E h s'"

lemma good_tail_le: "good_tail h \<le> total_time h"
proof -
  have "good_time h \<le> sum_list (map (\<lambda>(g, ns). unat ns) h)" for h
    by (induction h) auto
  from this [of "rev h"] show ?thesis
    by (simp add: good_tail_def total_time_def rev_map [symmetric])
qed

lemma account_times:
  assumes "unat (op_valid_ns s) = good_tail h" "unat (op_pending_ns s) = total_time h"
    and "total_time h < 8100000000" and "unat ns \<le> 2 ^ 32"
  shows "unat (op_valid_ns (op_account sync0 ev ns s)) = good_tail (h @ [(good_sync sync0 ev s, ns)])"
    and "unat (op_pending_ns (op_account sync0 ev ns s)) = total_time (h @ [(good_sync sync0 ev s, ns)])"
proof -
  let ?g = "good_sync sync0 ev s"
  have t: "total_time (h @ [(?g, ns)]) = total_time h + unat ns"
    "good_tail (h @ [(?g, ns)]) = (if ?g then good_tail h + unat ns else 0)"
    by (simp_all add: total_time_def good_tail_def)
  have b: "total_time h + unat ns < 2 ^ 64" "good_tail h + unat ns < 2 ^ 64"
    using assms(3,4) good_tail_le [of h] by simp_all
  have "unat (op_pending_ns s + ns) = total_time h + unat ns"
    using assms(2) b(1) by (subst unat_add_lem [THEN iffD1]) simp_all
  moreover have "unat (op_valid_ns s + ns) = good_tail h + unat ns"
    using assms(1) b(2) by (subst unat_add_lem [THEN iffD1]) simp_all
  ultimately show
    "unat (op_valid_ns (op_account sync0 ev ns s)) = good_tail (h @ [(?g, ns)])"
    "unat (op_pending_ns (op_account sync0 ev ns s)) = total_time (h @ [(?g, ns)])"
    using t by (simp_all add: op_account_def)
qed

lemma waiting_times:
  assumes "waiting E h s"
  shows "unat (op_valid_ns s) = good_tail h \<and> unat (op_pending_ns s) = total_time h \<and>
         total_time h < 8100000000"
  using assms
proof (induction rule: waiting.induct)
  case (period h s s' sync0 ev ns)
  then show ?case
    using account_times [of s h ns sync0 ev] by (simp add: word_less_nat_alt)
qed (simp_all add: good_tail_def total_time_def)

text \<open>The two decisions that end the wait.\<close>

lemma op_decide_grants:
  fixes s :: "'w sys"
  assumes E: "al_env E" and "ESC_OP_SYNC_VALID_NS \<le> op_valid_ns s"
    and "op_seen_sm s \<noteq> 0 \<or> ESC_SM2_sml s = 0"
  shows "ok (\<lambda>s'. op_pending s' = 0 \<and> ALstatus s' = 8 \<and> App_state s' = App_state s OR APPSTATE_OUTPUT)
    (op_decide E s)"
proof -
  have sm: "sm_follows E" and hook: "observes (post_state_change_hook E)"
    using E by (simp_all add: al_env_def)
  have start: "ok (\<lambda>x. al_view (snd x) = al_view (s\<lparr>op_pending := 0, App_state := App_state s OR APPSTATE_OUTPUT\<rparr>))
      (ESC_startoutput E ESCop (s\<lparr>op_pending := 0\<rparr>))"
    by (intro wp sm) simp
  have rest: "ok (\<lambda>s'. op_pending s' = 0 \<and> ALstatus s' = 8 \<and> App_state s' = App_state s OR APPSTATE_OUTPUT)
      (case x of (r, s) \<Rightarrow> do {
          (as, an, s) \<leftarrow> Some (run_hook (post_state_change_hook E) SAFEOP_TO_OP ESCop s);
          s \<leftarrow> (if an AND ESCerror = 0 \<and> ALerror s \<noteq> 0 then ESC_ALerror E ALERR_NONE s else Some s);
          ESC_ALstatus E an s })"
    if x: "al_view (snd x) = al_view (s\<lparr>op_pending := 0, App_state := App_state s OR APPSTATE_OUTPUT\<rparr>)" for x
  proof -
    obtain s4 where h: "run_hook (post_state_change_hook E) SAFEOP_TO_OP ESCop (snd x) = (SAFEOP_TO_OP, ESCop, s4)"
      "al_view s4 = al_view (snd x)" using hook by (rule observes_run)
    with x have "op_pending s4 = 0" "App_state s4 = App_state s OR APPSTATE_OUTPUT" by (simp_all add: al_view_def)
    with h(1) show ?thesis by (auto simp: case_prod_beta intro!: wp)
  qed
  show ?thesis
    unfolding op_decide_def Let_def using assms(2,3) ok_bindI [OF start rest] by (simp del: ok_bind)
qed

lemma op_decide_refuses:
  assumes "\<not> (ESC_OP_SYNC_VALID_NS \<le> op_valid_ns s \<and> (op_seen_sm s \<noteq> 0 \<or> ESC_SM2_sml s = 0))"
    and "ESC_OP_PENDING_TIMEOUT_NS \<le> op_pending_ns s"
  shows "ok (\<lambda>s'. op_pending s' = 0 \<and> ALstatus s' = 0x14 \<and> App_state s' = App_state s \<and>
      ALerror s' = (if op_seen_sync0 s = 0 then ALERR_NOSYNCERROR
                    else if op_seen_sm s = 0 \<and> ESC_SM2_sml s > 0 then ALERR_WATCHDOG
                    else ALERR_SYNCERROR)) (op_decide E s)"
  unfolding op_decide_def Let_def using assms by (auto intro!: wp)

end
