(* ===== verification/Esc_Pool.thy ===== *)
theory Esc_Pool
  imports Esc_Mbx
begin

text \<open>
  Correctness of the mailbox layer: the buffer pool invariant (which buffers are claimed,
  queued, posted and kept as backup, and that \<open>txcue\<close> counts the queued ones), memory
  safety of every access to \<open>MBX\<close>, and that every operation returns.
\<close>

section \<open>Valid configurations\<close>

text \<open>
  What the operations rely on beyond the static assertion at the top of \<open>esc.c\<close>: the
  SyncManager lengths are the buffer sizes (the defaults of \<open>options.h\<close>), and a buffer holds
  the header and the ten bytes of the shortest CoE service.
\<close>

definition valid_opts :: "options \<Rightarrow> bool" where
  "valid_opts opts \<longleftrightarrow>
     1 \<le> MBXBUFFERS opts \<and> MBXBUFFERS opts \<le> 255 \<and>
     16 \<le> MBXSIZE opts \<and> MBXSIZE opts < 65536 \<and> 16 \<le> MBXSIZEBOOT opts \<and> MBXSIZEBOOT opts < 65536 \<and>
     MBX0_sml opts = MBXSIZE opts \<and> MBX1_sml opts = MBXSIZE opts \<and>
     MBX0_sml_b opts = MBXSIZEBOOT opts \<and> MBX1_sml_b opts = MBXSIZEBOOT opts"

text \<open>The mailboxes are configured: set by \<open>ESC_startmbx\<close> and never undone.\<close>

definition mbx_ready :: "'w env \<Rightarrow> 'w sys \<Rightarrow> bool" where
  "mbx_ready E s \<longleftrightarrow>
     valid_opts (opt E) \<and>
     length (MBX s) = MBXBUFFERS (opt E) * max (MBXSIZE (opt E)) (MBXSIZEBOOT (opt E)) \<and>
     16 \<le> activembxsize s \<and> activembxsize s \<le> max (MBXSIZE (opt E)) (MBXSIZEBOOT (opt E)) \<and>
     (\<exists>m0 m1. activemb0 s = Some m0 \<and> activemb1 s = Some m1 \<and>
        unat (cfg_sml m0) = activembxsize s \<and> unat (cfg_sml m1) = activembxsize s)"

lemma mbx_ready_room: "mbx_ready E s \<Longrightarrow> n < MBXBUFFERS (opt E) \<Longrightarrow> has_room n s"
proof -
  assume r: "mbx_ready E s" and n: "n < MBXBUFFERS (opt E)"
  let ?m = "max (MBXSIZE (opt E)) (MBXSIZEBOOT (opt E))"
  have "n * activembxsize s + activembxsize s = Suc n * activembxsize s" by simp
  also have "\<dots> \<le> MBXBUFFERS (opt E) * ?m"
    by (rule mult_le_mono) (use r n in \<open>simp_all add: mbx_ready_def\<close>)
  finally show ?thesis using r by (simp add: has_room_def mbx_ready_def)
qed

lemma mbx_ready_size: "mbx_ready E s \<Longrightarrow> 16 \<le> activembxsize s"
  by (simp add: mbx_ready_def)

lemma mbx_ready_buffers: "mbx_ready E s \<Longrightarrow> 0 < MBXBUFFERS (opt E)"
  by (simp add: mbx_ready_def valid_opts_def)

lemma last_buffer_eq: "valid_opts (opt E) \<Longrightarrow> last_buffer E = MBXBUFFERS (opt E) - 1"
proof -
  assume v: "valid_opts (opt E)"
  then obtain k where k: "MBXBUFFERS (opt E) = Suc k"
    by (cases "MBXBUFFERS (opt E)") (auto simp: valid_opts_def)
  with v have "k < 255" by (simp add: valid_opts_def)
  then have "unat (of_nat k :: u8) = k"
    by (simp add: unat_of_nat take_bit_nat_eq_self)
  with k show ?thesis by (simp add: last_buffer_def)
qed

section \<open>Scanning the pool\<close>

lemma scan_down_le: "scan_down p n \<le> n"
  by (induction n) auto

lemma scan_down_sat: "scan_down p n \<noteq> 0 \<Longrightarrow> p (scan_down p n)"
  by (induction n) (auto split: if_splits)

lemma scan_down_max: "scan_down p n < i \<Longrightarrow> i \<le> n \<Longrightarrow> \<not> p i"
  by (induction n) (auto simp: le_Suc_eq split: if_splits)

lemma scan_down_0: "scan_down p n = 0 \<longleftrightarrow> (\<forall>i. 0 < i \<and> i \<le> n \<longrightarrow> \<not> p i)"
  using scan_down_sat [of p n] scan_down_max [of p n] scan_down_le [of p n] by fastforce

section \<open>The pool invariant\<close>

text \<open>The buffers above 0 that are claimed for a reply or queued.\<close>

definition queued :: "nat \<Rightarrow> (nat \<Rightarrow> u8) \<Rightarrow> nat" where
  "queued B c = card {n \<in> {1..<B}. c n = MBXstate_outclaim \<or> c n = MBXstate_outreq}"

definition pool_ok :: "nat \<Rightarrow> (nat \<Rightarrow> u8) \<Rightarrow> u8 \<Rightarrow> u8 \<Rightarrow> u8 \<Rightarrow> bool" where
  "pool_ok B c outpost backup cue \<longleftrightarrow>
     0 < B \<and> B \<le> 255 \<and>
     (c 0 = MBXstate_idle \<or> c 0 = MBXstate_inclaim) \<and>
     (\<forall>n. 0 < n \<and> n < B \<longrightarrow> c n \<noteq> MBXstate_inclaim \<and> c n \<le> MBXstate_again) \<and>
     unat outpost < B \<and> unat backup < B \<and>
     (outpost \<noteq> 0 \<longrightarrow> c (unat outpost) = MBXstate_outpost \<or> c (unat outpost) = MBXstate_again) \<and>
     (backup \<noteq> 0 \<longrightarrow> c (unat backup) = MBXstate_backup) \<and>
     unat cue = queued B c"

definition pool_inv :: "'w env \<Rightarrow> 'w sys \<Rightarrow> bool" where
  "pool_inv E s \<longleftrightarrow>
     pool_ok (MBXBUFFERS (opt E)) (MBXcontrol s) (mbxoutpost s) (mbxbackup s) (txcue s)"

lemma queued_upd:
  assumes "0 < n" "n < B"
  shows "queued B (c(n := v)) + of_bool (c n = 2 \<or> c n = 3) = queued B c + of_bool (v = 2 \<or> v = 3)"
proof -
  let ?Q = "\<lambda>c. {i \<in> {1..<B}. c i = (2::u8) \<or> c i = 3}"
  have fin: "finite (?Q c - {n})" by simp
  have 1: "card (?Q c') = card (?Q c' - {n}) + of_bool (c' n = 2 \<or> c' n = 3)" for c'
  proof (cases "c' n = 2 \<or> c' n = 3")
    case True
    with assms have "n \<in> ?Q c'" by auto
    then have "card (?Q c') = Suc (card (?Q c' - {n}))"
      by (subst card.remove [of _ n]) auto
    with True show ?thesis by simp
  next
    case False
    then have "?Q c' - {n} = ?Q c'" by auto
    with False show ?thesis by simp
  qed
  have "?Q (c(n := v)) - {n} = ?Q c - {n}" by auto
  with 1 [of c] 1 [of "c(n := v)"] show ?thesis by (simp add: queued_def)
qed

lemma queued_upd_0: "queued B (c(0 := v)) = queued B c"
  unfolding queued_def by (rule arg_cong [where f = card]) auto

lemma queued_less: "0 < B \<Longrightarrow> queued B c < B"
proof -
  assume "0 < B"
  have "queued B c \<le> card {1..<B}"
    unfolding queued_def by (rule card_mono) auto
  with \<open>0 < B\<close> show ?thesis by simp
qed

lemma queued_less_idle:
  assumes "0 < n" "n < B" "c n \<noteq> MBXstate_outclaim" "c n \<noteq> MBXstate_outreq"
  shows "queued B c + 1 < B"
proof -
  have "queued B c \<le> card ({1..<B} - {n})"
    unfolding queued_def by (rule card_mono) (use assms in auto)
  with assms show ?thesis by simp
qed

text \<open>The transitions of a buffer.\<close>

lemma pool_in: "pool_ok B c p b t \<Longrightarrow> v = MBXstate_idle \<or> v = MBXstate_inclaim \<Longrightarrow>
    pool_ok B (c(0 := v)) p b t"
  by (auto simp: pool_ok_def queued_upd_0 unat_eq_0)

lemma pool_claim:
  assumes pool: "pool_ok B c p b t" and n: "0 < n" "n < B" "c n = MBXstate_idle"
    and v: "v = MBXstate_outclaim \<or> v = MBXstate_outreq"
  shows "pool_ok B (c(n := v)) p b (t + 1)"
proof -
  have q: "queued B (c(n := v)) = queued B c + 1"
    using queued_upd [of n B c v] n v by auto
  have t: "unat t = queued B c" "B \<le> 255"
    using pool by (auto simp: pool_ok_def)
  have u: "unat (t + 1) = queued B c + 1"
    using queued_less_idle [of n B c] n t by (simp add: unat_add_one)
  have "v \<le> MBXstate_again" "v \<noteq> MBXstate_inclaim"
    using v by auto
  then show ?thesis
    using pool n(1,3) unfolding pool_ok_def q u by auto
qed

lemma pool_request:
  assumes "pool_ok B c p b t" "0 < n" "n < B" "c n = MBXstate_outclaim"
  shows "pool_ok B (c(n := MBXstate_outreq)) p b t"
  using queued_upd [of n B c 3] assms by (auto simp: pool_ok_def)

lemma pool_post:
  assumes "pool_ok B c p b t" "0 < n" "n < B" "c n = MBXstate_outreq"
  shows "pool_ok B (c(n := MBXstate_outpost)) (of_nat n) b (t - 1)"
proof -
  have q: "queued B (c(n := 4)) + 1 = queued B c"
    using queued_upd [of n B c 4] assms by auto
  then have "unat t \<noteq> 0" using assms by (simp add: pool_ok_def)
  then have "unat (t - 1) = unat t - 1"
    by (simp add: unat_minus_one unat_eq_0)
  moreover have "unat (of_nat n :: u8) = n"
    using assms by (simp add: unat_of_nat take_bit_nat_eq_self pool_ok_def)
  ultimately show ?thesis using q assms by (auto simp: pool_ok_def)
qed

lemma pool_again:
  assumes "pool_ok B c p b t" "p \<noteq> 0"
  shows "pool_ok B (c(unat p := MBXstate_again)) p b t"
proof -
  have "0 < unat p" using assms by (simp add: unat_gt_0)
  with queued_upd [of "unat p" B c 6] assms show ?thesis by (auto simp: pool_ok_def)
qed

lemma pool_release:
  assumes "pool_ok B c p b t" "b \<noteq> 0"
  shows "pool_ok B (c(unat b := MBXstate_idle)) p 0 t"
proof -
  have "0 < unat b" using assms by (simp add: unat_gt_0)
  with queued_upd [of "unat b" B c 0] assms show ?thesis by (auto simp: pool_ok_def)
qed

lemma pool_to_backup:
  assumes "pool_ok B c p 0 t" "p \<noteq> 0"
  shows "pool_ok B (c(unat p := MBXstate_backup)) 0 p t"
proof -
  have "0 < unat p" using assms by (simp add: unat_gt_0)
  with queued_upd [of "unat p" B c 5] assms show ?thesis by (auto simp: pool_ok_def)
qed

section \<open>The mailbox invariant and the operations\<close>

definition mbx_inv :: "'w env \<Rightarrow> 'w sys \<Rightarrow> bool" where
  "mbx_inv E s \<longleftrightarrow> mbx_ready E s \<and> pool_inv E s"

lemma mbx_invD:
  assumes "mbx_inv E s"
  shows "mbx_ready E s" "pool_inv E s" "16 \<le> activembxsize s" "has_room 0 s"
    "valid_opts (opt E)" "0 < MBXBUFFERS (opt E)"
proof -
  have r: "mbx_ready E s" and p: "pool_inv E s"
    using assms by (simp_all add: mbx_inv_def)
  show "mbx_ready E s" "pool_inv E s" by fact+
  show "16 \<le> activembxsize s" "0 < MBXBUFFERS (opt E)" "valid_opts (opt E)"
    using r by (auto simp: mbx_ready_def valid_opts_def)
  with r show "has_room 0 s" by (auto intro: mbx_ready_room)
qed

lemma mbx_inv_room: "mbx_inv E s \<Longrightarrow> n < MBXBUFFERS (opt E) \<Longrightarrow> has_room n s"
  by (auto simp: mbx_inv_def intro: mbx_ready_room)

text \<open>The invariant looks at a few fields only.\<close>

lemma has_room_upd [simp]:
  "length m = length (MBX s) \<Longrightarrow> has_room n (s\<lparr>MBX := m\<rparr>) = has_room n s"
  "has_room n (s\<lparr>MBXcontrol := c\<rparr>) = has_room n s"
  "has_room n (s\<lparr>mbxcnt := k\<rparr>) = has_room n s"
  "has_room n (s\<lparr>txcue := t\<rparr>) = has_room n s"
  "has_room n (s\<lparr>world := w\<rparr>) = has_room n s"
  "has_room n (s\<lparr>ALevent := e\<rparr>) = has_room n s"
  "has_room n (s\<lparr>SM := sm\<rparr>) = has_room n s"
  "has_room n (s\<lparr>mbxfree := v\<rparr>) = has_room n s"
  "has_room n (s\<lparr>mbxbackup := v\<rparr>) = has_room n s"
  "has_room n (s\<lparr>mbxoutpost := v\<rparr>) = has_room n s"
  by (simp_all add: has_room_def)

lemma mbx_inv_cong:
  assumes "mbx_inv E s"
    and "length (MBX s') = length (MBX s)" "activembxsize s' = activembxsize s"
      "activemb0 s' = activemb0 s" "activemb1 s' = activemb1 s"
    and "pool_ok (MBXBUFFERS (opt E)) (MBXcontrol s') (mbxoutpost s') (mbxbackup s') (txcue s')"
  shows "mbx_inv E s'"
  using assms by (simp add: mbx_inv_def mbx_ready_def pool_inv_def)

lemma wp_ESC_claimbuffer [wp]:
  assumes inv: "mbx_inv E s"
    and none: "(\<And>i. 0 < i \<Longrightarrow> i < MBXBUFFERS (opt E) \<Longrightarrow> MBXcontrol s i \<noteq> MBXstate_idle) \<Longrightarrow> Q (0, s)"
    and some: "\<And>n m. 0 < n \<Longrightarrow> n < MBXBUFFERS (opt E) \<Longrightarrow> MBXcontrol s n = MBXstate_idle \<Longrightarrow>
           length m = length (MBX s) \<Longrightarrow> has_room n s \<Longrightarrow>
           Q (n, s\<lparr>MBXcontrol := (MBXcontrol s)(n := MBXstate_outclaim),
                  mbxcnt := next_mbxcnt (mbxcnt s), MBX := m, txcue := txcue s + 1\<rparr>)"
  shows "ok Q (ESC_claimbuffer E s)"
proof -
  let ?p = "\<lambda>n. MBXcontrol s n = MBXstate_idle"
  let ?n = "scan_down ?p (last_buffer E)"
  have lb: "last_buffer E = MBXBUFFERS (opt E) - 1"
    using mbx_invD(5) [OF inv] by (rule last_buffer_eq)
  show ?thesis
  proof (cases "?n = 0")
    case True
    then have "\<And>i. 0 < i \<Longrightarrow> i < MBXBUFFERS (opt E) \<Longrightarrow> MBXcontrol s i \<noteq> MBXstate_idle"
      by (auto simp: scan_down_0 lb)
    with none True show ?thesis by (simp add: ESC_claimbuffer_def)
  next
    case False
    then have idle: "MBXcontrol s ?n = MBXstate_idle" by (rule scan_down_sat)
    have n: "?n < MBXBUFFERS (opt E)"
      using scan_down_le [of ?p "last_buffer E"] mbx_invD(6) [OF inv] lb by simp
    with inv have room: "has_room ?n s" by (simp add: mbx_inv_room)
    show ?thesis
      using False some [OF _ n idle _ room] room mbx_invD(3) [OF inv]
      by (auto simp: ESC_claimbuffer_def set_mbxstate_def intro!: wp)
  qed
qed

text \<open>
  Every reply of the stack has one shape: at most one buffer goes from idle to requested,
  \<open>txcue\<close> with it, and the buffer's bytes are filled. \<open>replied E s s'\<close> says so.
\<close>

definition replied :: "'w env \<Rightarrow> 'w sys \<Rightarrow> 'w sys \<Rightarrow> bool" where
  "replied E s s' \<longleftrightarrow>
     s' = s\<lparr>MBX := MBX s', MBXcontrol := MBXcontrol s', mbxcnt := mbxcnt s', txcue := txcue s'\<rparr> \<and>
     length (MBX s') = length (MBX s) \<and> MBXcontrol s' 0 = MBXcontrol s 0 \<and>
     pool_ok (MBXBUFFERS (opt E)) (MBXcontrol s') (mbxoutpost s) (mbxbackup s) (txcue s')"

lemma mbx_inv_pool: "mbx_inv E s \<Longrightarrow>
    pool_ok (MBXBUFFERS (opt E)) (MBXcontrol s) (mbxoutpost s) (mbxbackup s) (txcue s)"
  by (simp add: mbx_inv_def pool_inv_def)

lemma replied_none: "mbx_inv E s \<Longrightarrow> replied E s s"
  by (simp add: replied_def mbx_inv_pool)

lemma repliedE:
  assumes "replied E s s'"
  obtains m c k t where "s' = s\<lparr>MBX := m, MBXcontrol := c, mbxcnt := k, txcue := t\<rparr>"
    "length m = length (MBX s)" "c 0 = MBXcontrol s 0"
    "pool_ok (MBXBUFFERS (opt E)) c (mbxoutpost s) (mbxbackup s) t"
  using assms unfolding replied_def by blast

lemma replied_inv: "replied E s s' \<Longrightarrow> mbx_inv E s \<Longrightarrow> mbx_inv E s'"
  by (erule repliedE) (auto intro!: mbx_inv_cong [of E s])

lemma wp_MBX_error [wp]:
  assumes "mbx_inv E s" and "\<And>s'. replied E s s' \<Longrightarrow> Q s'"
  shows "ok Q (MBX_error E err s)"
  using assms(1) mbx_invD(3) [OF assms(1)] mbx_inv_pool [OF assms(1)]
  by (auto simp: MBX_error_def set_mbxstate_def replied_def replied_none
      intro!: wp assms(2) pool_claim)

text \<open>With a mailbox at least as long as its header, the clamped length fits behind it.\<close>

lemma clamp_len_fits:
  assumes "6 \<le> unat sml"
  shows "unat (clamp_len sml len) + 6 \<le> unat sml"
    and "unat (to_u16 (6 + to_u32 (clamp_len sml len))) = unat (clamp_len sml len) + 6"
    and "unat (clamp_len sml len) = min (unat len) (unat sml - 6)"
proof -
  have r: "unat (to_u32 sml - 6) = unat sml - 6"
    using assms by (subst unat_sub) (auto simp: word_le_nat_alt)
  have lt: "unat sml < 65536"
    using unat_bound [of sml] by simp
  show m: "unat (clamp_len sml len) = min (unat len) (unat sml - 6)"
    using assms r lt by (auto simp: clamp_len_def word_less_nat_alt)
  then show f: "unat (clamp_len sml len) + 6 \<le> unat sml"
    using assms by simp
  have "unat (6 + to_u32 (clamp_len sml len)) = 6 + unat (clamp_len sml len)"
    using f lt by (subst unat_add_lem [THEN iffD1]) simp_all
  then show "unat (to_u16 (6 + to_u32 (clamp_len sml len))) = unat (clamp_len sml len) + 6"
    using f lt by simp
qed

lemma mbx_ready_mb:
  assumes "mbx_ready E s"
  obtains m0 m1 where "activemb0 s = Some m0" "activemb1 s = Some m1"
    "unat (cfg_sml m0) = activembxsize s" "unat (cfg_sml m1) = activembxsize s"
    "6 \<le> unat (cfg_sml m0)" "6 \<le> unat (cfg_sml m1)"
  using assms by (auto simp: mbx_ready_def)

lemma wp_ESC_readmbx [wp]:
  assumes ready: "mbx_ready E s"
    and Q: "\<And>w e m. length m = length (MBX s) \<Longrightarrow>
           Q (s\<lparr>world := w, ALevent := e, MBX := m,
               MBXcontrol := (MBXcontrol s)(0 := MBXstate_inclaim)\<rparr>)"
  shows "ok Q (ESC_readmbx E s)"
proof -
  obtain m0 where m0: "activemb0 s = Some m0" "unat (cfg_sml m0) = activembxsize s"
      "6 \<le> unat (cfg_sml m0)"
    using ready by (rule mbx_ready_mb)
  note fits = clamp_len_fits(1) [OF m0(3), unfolded m0(2)]
  have Q': "Q (s\<lparr>MBX := m, world := w, ALevent := e,
               MBXcontrol := (MBXcontrol s)(0 := MBXstate_inclaim)\<rparr>)"
    if "length m = length (MBX s)" for m w e
  proof -
    have "s\<lparr>MBX := m, world := w, ALevent := e, MBXcontrol := c\<rparr> =
          s\<lparr>world := w, ALevent := e, MBX := m, MBXcontrol := c\<rparr>" for c by simp
    then show ?thesis by (simp only: Q that)
  qed
  show ?thesis
    using mbx_ready_size [OF ready] mbx_ready_room [OF ready mbx_ready_buffers [OF ready]] fits
    by (auto simp: ESC_readmbx_def m0(1) set_mbxstate_def add.commute
             simp del: fun_upd_apply intro!: wp Q Q')
qed

lemma wp_ESC_writembx [wp]:
  assumes ready: "mbx_ready E s" and n: "n < MBXBUFFERS (opt E)"
    and Q: "\<And>w e. Q (s\<lparr>world := w, ALevent := e, mbxfree := 0\<rparr>)"
  shows "ok Q (ESC_writembx E n s)"
proof -
  obtain m1 where m1: "activemb1 s = Some m1" "unat (cfg_sml m1) = activembxsize s"
      "6 \<le> unat (cfg_sml m1)"
    using ready by (rule mbx_ready_mb)
  note fits = clamp_len_fits(1,2) [OF m1(3), unfolded m1(2)]
  have room: "has_room n s" using ready n by (rule mbx_ready_room)
  show ?thesis
    using room mbx_ready_size [OF ready] fits
    by (auto simp: ESC_writembx_def m1(1) simp del: unat_narrow intro!: wp Q)
qed

lemma wp_ESC_ackmbxread [wp]:
  assumes "mbx_ready E s" and "\<And>w e. Q (s\<lparr>world := w, ALevent := e, mbxfree := 1\<rparr>)"
  shows "ok Q (ESC_ackmbxread E s)"
proof -
  obtain m1 where "activemb1 s = Some m1"
    using assms(1) by (rule mbx_ready_mb)
  then show ?thesis
    by (auto simp: ESC_ackmbxread_def intro!: wp assms(2))
qed

lemma mbx_ready_upd [simp]:
  "length m = length (MBX s) \<Longrightarrow> mbx_ready E (s\<lparr>MBX := m\<rparr>) = mbx_ready E s"
  "mbx_ready E (s\<lparr>MBXcontrol := c\<rparr>) = mbx_ready E s"
  "mbx_ready E (s\<lparr>mbxcnt := k\<rparr>) = mbx_ready E s"
  "mbx_ready E (s\<lparr>txcue := t\<rparr>) = mbx_ready E s"
  "mbx_ready E (s\<lparr>world := w\<rparr>) = mbx_ready E s"
  "mbx_ready E (s\<lparr>ALevent := e\<rparr>) = mbx_ready E s"
  "mbx_ready E (s\<lparr>SM := sm\<rparr>) = mbx_ready E s"
  "mbx_ready E (s\<lparr>mbxfree := v\<rparr>) = mbx_ready E s"
  "mbx_ready E (s\<lparr>mbxbackup := v\<rparr>) = mbx_ready E s"
  "mbx_ready E (s\<lparr>mbxoutpost := v\<rparr>) = mbx_ready E s"
  "mbx_ready E (s\<lparr>toggle := v\<rparr>) = mbx_ready E s"
  "mbx_ready E (s\<lparr>mbxincnt := v\<rparr>) = mbx_ready E s"
  by (simp_all add: mbx_ready_def)

section \<open>The protocol step\<close>

text \<open>
  What a step of the mailbox layer leaves alone: everything but the chip, the buffers and
  their bookkeeping.
\<close>

definition mbx_rest :: "'w sys \<Rightarrow> 'w sys" where
  "mbx_rest s = s\<lparr>world := undefined, ALevent := 0, SM := (\<lambda>_. esc_sm_zero), MBX := [],
     MBXcontrol := (\<lambda>_. 0), mbxcnt := 0, txcue := 0, mbxfree := 0, mbxbackup := 0,
     mbxoutpost := 0, toggle := 0, mbxincnt := 0\<rparr>"

definition mbx_frame :: "'w sys \<Rightarrow> 'w sys \<Rightarrow> bool" where
  "mbx_frame s s' \<longleftrightarrow> mbx_rest s' = mbx_rest s"

lemma mbx_frame_refl [simp]: "mbx_frame s s"
  by (simp add: mbx_frame_def)

lemma mbx_frame_trans: "mbx_frame s s' \<Longrightarrow> mbx_frame s' s'' \<Longrightarrow> mbx_frame s s''"
  by (simp add: mbx_frame_def)

lemma mbx_frame_upd [simp]:
  "mbx_frame s (s'\<lparr>world := w\<rparr>) = mbx_frame s s'" "mbx_frame s (s'\<lparr>ALevent := e\<rparr>) = mbx_frame s s'"
  "mbx_frame s (s'\<lparr>SM := sm\<rparr>) = mbx_frame s s'" "mbx_frame s (s'\<lparr>MBX := m\<rparr>) = mbx_frame s s'"
  "mbx_frame s (s'\<lparr>MBXcontrol := c\<rparr>) = mbx_frame s s'" "mbx_frame s (s'\<lparr>mbxcnt := v\<rparr>) = mbx_frame s s'"
  "mbx_frame s (s'\<lparr>txcue := v\<rparr>) = mbx_frame s s'" "mbx_frame s (s'\<lparr>mbxfree := v\<rparr>) = mbx_frame s s'"
  "mbx_frame s (s'\<lparr>mbxbackup := v\<rparr>) = mbx_frame s s'" "mbx_frame s (s'\<lparr>mbxoutpost := v\<rparr>) = mbx_frame s s'"
  "mbx_frame s (s'\<lparr>toggle := v\<rparr>) = mbx_frame s s'" "mbx_frame s (s'\<lparr>mbxincnt := v\<rparr>) = mbx_frame s s'"
  by (simp_all add: mbx_frame_def mbx_rest_def)

lemma mbx_frameD:
  assumes "mbx_frame s s'"
  shows "activembxsize s' = activembxsize s" "activemb0 s' = activemb0 s"
    "activemb1 s' = activemb1 s" "xoe s' = xoe s" "MBXrun s' = MBXrun s" "App_state s' = App_state s"
    "ALstatus s' = ALstatus s" "segmented s' = segmented s" "omem s' = omem s"
proof -
  have e: "mbx_rest s' = mbx_rest s" using assms by (simp add: mbx_frame_def)
  show "activembxsize s' = activembxsize s" using arg_cong [OF e, of activembxsize] by (simp add: mbx_rest_def)
  show "activemb0 s' = activemb0 s" using arg_cong [OF e, of activemb0] by (simp add: mbx_rest_def)
  show "activemb1 s' = activemb1 s" using arg_cong [OF e, of activemb1] by (simp add: mbx_rest_def)
  show "xoe s' = xoe s" using arg_cong [OF e, of xoe] by (simp add: mbx_rest_def)
  show "MBXrun s' = MBXrun s" using arg_cong [OF e, of MBXrun] by (simp add: mbx_rest_def)
  show "App_state s' = App_state s" using arg_cong [OF e, of App_state] by (simp add: mbx_rest_def)
  show "ALstatus s' = ALstatus s" using arg_cong [OF e, of ALstatus] by (simp add: mbx_rest_def)
  show "segmented s' = segmented s" using arg_cong [OF e, of segmented] by (simp add: mbx_rest_def)
  show "omem s' = omem s" using arg_cong [OF e, of omem] by (simp add: mbx_rest_def)
qed

lemma replied_frame: "replied E s s' \<Longrightarrow> mbx_frame s s'"
  by (erule repliedE) simp

lemma mbx_inv_upd [simp]:
  "mbx_inv E (s\<lparr>world := w\<rparr>) = mbx_inv E s" "mbx_inv E (s\<lparr>ALevent := e\<rparr>) = mbx_inv E s"
  "mbx_inv E (s\<lparr>SM := sm\<rparr>) = mbx_inv E s" "mbx_inv E (s\<lparr>mbxfree := v\<rparr>) = mbx_inv E s"
  "mbx_inv E (s\<lparr>toggle := v\<rparr>) = mbx_inv E s" "mbx_inv E (s\<lparr>mbxincnt := v\<rparr>) = mbx_inv E s"
  "length m = length (MBX s) \<Longrightarrow> mbx_inv E (s\<lparr>MBX := m\<rparr>) = mbx_inv E s"
  by (simp_all add: mbx_inv_def pool_inv_def)

lemma mbx_inv_request:
  assumes "mbx_inv E s" "v = MBXstate_idle \<or> v = MBXstate_inclaim"
  shows "mbx_inv E (set_mbxstate 0 v s)"
  using assms pool_in [OF mbx_inv_pool [OF assms(1)] assms(2)]
  by (simp add: mbx_inv_def pool_inv_def set_mbxstate_def)

lemma mbx_frame_state [simp]: "mbx_frame s (set_mbxstate n v s') = mbx_frame s s'"
  by (simp add: set_mbxstate_def)

lemma mbx_outread_inv:
  assumes inv: "mbx_inv E s" and out: "mbxoutpost s \<noteq> 0"
  shows "ok (\<lambda>(r, s'). mbx_inv E s' \<and> mbx_frame s s') (mbx_outread E s)"
proof -
  note pool = mbx_inv_pool [OF inv] and ready = mbx_invD(1) [OF inv]
  have lt: "unat (mbxoutpost s) < MBXBUFFERS (opt E)"
    using pool by (simp add: pool_ok_def)
  show ?thesis
  proof (cases "mbxbackup s = 0")
    case True
    with pool have "pool_ok (MBXBUFFERS (opt E)) (MBXcontrol s) (mbxoutpost s) 0 (txcue s)" by simp
    note fin = pool_to_backup [OF this out]
    show ?thesis
      using ready lt fin True
      by (auto simp: mbx_outread_def set_mbxstate_def mbx_inv_def pool_inv_def intro!: wp)
  next
    case False
    note fin = pool_to_backup [OF pool_release [OF pool False] out]
    show ?thesis
      using ready lt fin False
      by (auto simp: mbx_outread_def set_mbxstate_def mbx_inv_def pool_inv_def intro!: wp)
  qed
qed

lemma mbx_repeat_inv:
  assumes inv: "mbx_inv E s" and sm: "sm_follows E"
  shows "ok (\<lambda>(r, s'). mbx_inv E s' \<and> mbx_frame s s') (mbx_repeat E s)"
proof -
  note pool = mbx_inv_pool [OF inv] and ready = mbx_invD(1) [OF inv]
  have "unat (mbxbackup s) < MBXBUFFERS (opt E)"
    using pool by (simp add: pool_ok_def)
  with ready pool pool_again [OF pool] sm inv show ?thesis
    by (auto simp: mbx_repeat_def set_mbxstate_def mbx_inv_def pool_inv_def intro!: wp)
qed

lemma mbx_post_inv:
  assumes inv: "mbx_inv E s"
  shows "ok (\<lambda>s'. mbx_inv E s' \<and> mbx_frame s s') (mbx_post E s)"
proof -
  note pool = mbx_inv_pool [OF inv] and ready = mbx_invD(1) [OF inv]
  let ?p = "\<lambda>n. MBXcontrol s n = MBXstate_outreq" let ?n = "ESC_outreqbuffer E s"
  have lb: "last_buffer E = MBXBUFFERS (opt E) - 1"
    using mbx_invD(5) [OF inv] by (rule last_buffer_eq)
  have lt: "?n < MBXBUFFERS (opt E)"
    using scan_down_le [of ?p "last_buffer E"] mbx_invD(6) [OF inv] lb by (simp add: ESC_outreqbuffer_def)
  have req: "?n \<noteq> 0 \<Longrightarrow> MBXcontrol s ?n = MBXstate_outreq"
    using scan_down_sat [of ?p "last_buffer E"] by (simp add: ESC_outreqbuffer_def)
  from ready lt req pool_post [OF pool _ lt] inv show ?thesis
    by (auto simp: mbx_post_def set_mbxstate_def mbx_inv_def pool_inv_def intro!: wp)
qed

lemma mbx_receive_inv:
  assumes inv: "mbx_inv E s"
  shows "ok (\<lambda>(r, s'). mbx_inv E s' \<and> mbx_frame s s') (mbx_receive E s)"
proof (cases "MBXstat (SM s 0) \<noteq> 0 \<and> MBXcontrol s 0 = 0 \<and> mbxoutpost s = 0 \<and> xoe s = 0")
  case False
  with inv show ?thesis by (auto simp: mbx_receive_def)
next
  case True
  obtain m0 where m0: "activemb0 s = Some m0"
    using mbx_invD(1) [OF inv] by (rule mbx_ready_mb)
  let ?I = "\<lambda>s'. mbx_inv E s' \<and> mbx_frame s s'"
  have read: "ok ?I (ESC_readmbx E s)"
    using mbx_invD(1) [OF inv] pool_in [OF mbx_inv_pool [OF inv]]
    by (auto simp: mbx_inv_def pool_inv_def simp del: fun_upd_apply intro!: wp)
  have reply: "ok ?I (do { s2 \<leftarrow> MBX_error E err s1; Some (set_mbxstate 0 MBXstate_idle s2) })"
    if s1: "?I s1" for s1 err
    using s1 by (auto intro!: wp_MBX_error
      intro: mbx_frame_trans replied_frame replied_inv mbx_inv_request)
  have mid: "ok ?I (if len = 0 \<or> to_u32 len > to_u32 (cfg_sml m0) - 6 then do {
               s \<leftarrow> MBX_error E MBXERR_INVALIDHEADER s1;
               Some (set_mbxstate 0 MBXstate_idle s)
             } else Some s1)" if "?I s1" for s1 len
    using that reply [OF that] by simp
  have last: "ok (\<lambda>(r, s'). ?I s') (do {
       cnt \<leftarrow> mbx_cnt 0 s1;
       let s1 = (if cnt \<noteq> 0 \<and> cnt = mbxincnt s1 then set_mbxstate 0 MBXstate_idle s1 else s1);
       Some (1, s1\<lparr>mbxincnt := cnt\<rparr>)
     })" if "?I s1" for s1
    using that mbx_invD(3,4) [of E s1] by (auto intro!: wp mbx_inv_request)
  have rest: "ok (\<lambda>(r, s'). ?I s') (do {
       len \<leftarrow> mbx_length 0 s1;
       s2 \<leftarrow> (if len = 0 \<or> to_u32 len > to_u32 (cfg_sml m0) - 6 then do {
               s \<leftarrow> MBX_error E MBXERR_INVALIDHEADER s1;
               Some (set_mbxstate 0 MBXstate_idle s)
             } else Some s1);
       cnt \<leftarrow> mbx_cnt 0 s2;
       let s2 = (if cnt \<noteq> 0 \<and> cnt = mbxincnt s2 then set_mbxstate 0 MBXstate_idle s2 else s2);
       Some (1, s2\<lparr>mbxincnt := cnt\<rparr>)
     })" if I: "?I s1" for s1
  proof (rule ok_bindI)
    show "ok (\<lambda>_. True) (mbx_length 0 s1)"
      using I mbx_invD(3,4) [of E s1] by (auto intro!: wp)
  qed (rule ok_bindI [OF mid [OF I] last])
  have mb0: "?I s1 \<Longrightarrow> activemb0 s1 = Some m0" for s1
    using m0 mbx_frameD(2) [of s s1] by simp
  have cont: "ok (\<lambda>(r, s'). ?I s') (do {
       let s2 = s1\<lparr>SM := (SM s1)(0 := clear_MBXstat (SM s1 0))\<rparr>;
       m0 \<leftarrow> activemb0 s2;
       len \<leftarrow> mbx_length 0 s2;
       s2 \<leftarrow> (if len = 0 \<or> to_u32 len > to_u32 (cfg_sml m0) - 6 then do {
               s \<leftarrow> MBX_error E MBXERR_INVALIDHEADER s2;
               Some (set_mbxstate 0 MBXstate_idle s)
             } else Some s2);
       cnt \<leftarrow> mbx_cnt 0 s2;
       let s2 = (if cnt \<noteq> 0 \<and> cnt = mbxincnt s2 then set_mbxstate 0 MBXstate_idle s2 else s2);
       Some (1, s2\<lparr>mbxincnt := cnt\<rparr>)
     })" if "?I s1" for s1
  proof -
    have I': "?I (s1\<lparr>SM := (SM s1)(0 := clear_MBXstat (SM s1 0))\<rparr>)" using that by simp
    show ?thesis
      using rest [OF I'] mb0 [OF I'] by (simp del: ok_bind ok_if)
  qed
  show ?thesis
    unfolding mbx_receive_def using True
    by (simp only: if_True simp_thms) (rule ok_bindI [OF read cont])
qed

theorem ESC_mbxprocess_inv:
  fixes s :: "'a sys"
  assumes inv: "mbx_inv E s" and sm: "sm_follows E"
  shows "ok (\<lambda>(r, s'). mbx_inv E s' \<and> mbx_frame s s') (ESC_mbxprocess E s)"
proof (cases "MBXrun s = 0")
  case True
  with inv show ?thesis by (simp add: ESC_mbxprocess_def)
next
  case False
  let ?I = "\<lambda>s'. mbx_inv E s' \<and> mbx_frame s s'"
  have events: "ok ?I (if ALevent s AND (ESCREG_ALEVENT_SM0 OR ESCREG_ALEVENT_SM1) \<noteq> 0
             then do { s \<leftarrow> ESC_SMstatus E 0 s; ESC_SMstatus E 1 s } else Some s)"
    using inv by (auto intro!: wp)
  have step: "ok (\<lambda>(r, s'). ?I s') (do {
        if mbxoutpost s1 \<noteq> 0 \<and> ALevent s1 AND ESCREG_ALEVENT_SM1 \<noteq> 0 then mbx_outread E s1
        else if ECrep (SM s1 1) \<noteq> toggle s1 then mbx_repeat E s1
        else do { s \<leftarrow> mbx_post E s1; mbx_receive E s } })" if I: "?I s1" for s1
  proof -
    have lift: "ok (\<lambda>(r, s'). ?I s') m"
      if "?I s0" "ok (\<lambda>(r, s'). mbx_inv E s' \<and> mbx_frame s0 s') m" for s0 and m :: "(u8 \<times> 'a sys) option"
      using that(2) by (rule ok_mono) (use that(1) in \<open>auto intro: mbx_frame_trans\<close>)
    have post: "ok (\<lambda>(r, s'). ?I s') (do { s \<leftarrow> mbx_post E s1; mbx_receive E s })"
    proof (rule ok_bindI)
      show "ok ?I (mbx_post E s1)"
        by (rule ok_mono [OF mbx_post_inv]) (use I in \<open>auto intro: mbx_frame_trans\<close>)
    qed (auto intro: lift mbx_receive_inv)
    show ?thesis
      using I lift [OF I mbx_outread_inv] lift [OF I mbx_repeat_inv [OF _ sm]] post by simp
  qed
  show ?thesis
    unfolding ESC_mbxprocess_def using False
    by (simp only: if_False) (rule ok_bindI [OF events step])
qed

theorem ESC_xoeprocess_inv:
  assumes inv: "mbx_inv E s"
  shows "ok (\<lambda>s'. mbx_inv E s' \<and> mbx_frame s s' \<and> MBXcontrol s' 0 =
     (if MBXrun s \<noteq> 0 \<and> xoe s = 0 then MBXstate_idle else MBXcontrol s 0)) (ESC_xoeprocess E s)"
proof (cases "MBXrun s = 0 \<or> \<not> (xoe s = 0 \<and> MBXcontrol s 0 = MBXstate_inclaim)")
  case True
  with inv mbx_inv_pool [OF inv] show ?thesis by (auto simp: ESC_xoeprocess_def pool_ok_def)
next
  case False
  have err: "ok (\<lambda>s2. mbx_inv E s2 \<and> mbx_frame s s2 \<and> MBXcontrol s2 0 = MBXstate_idle)
      (do { s2 \<leftarrow> MBX_error E c s; Some (set_mbxstate 0 MBXstate_idle s2) })" for c
    using inv by (auto intro!: wp_MBX_error intro: replied_frame replied_inv mbx_inv_request)
      (simp add: set_mbxstate_def)
  show ?thesis
    using False err inv mbx_invD(3,4) [OF inv] by (auto simp: ESC_xoeprocess_def intro!: wp)
qed

end
