(* ===== verification/Ram_Port.thy ===== *)
theory Ram_Port
  imports Esc_Pool
begin

text \<open>
  A concrete port of the hardware layer: the register file of the chip as plain memory. It
  is the instance on which the hypotheses about the hardware (\<open>sm_follows\<close>) are shown to be
  satisfiable, and the environment in which the witnesses evaluate.
\<close>

type_synonym ram = "u16 \<Rightarrow> u8"

definition ram_read :: "u16 \<Rightarrow> nat \<Rightarrow> ram \<Rightarrow> (nat \<Rightarrow> u8) \<times> u32 option \<times> ram" where
  "ram_read a n w = ((\<lambda>i. w (a + of_nat i)), None, w)"

fun ram_store :: "u16 \<Rightarrow> bytes \<Rightarrow> ram \<Rightarrow> ram" where
  "ram_store a [] w = w"
| "ram_store a (b # bs) w = ram_store (a + 1) bs (w(a := b))"

definition ram_write :: "u16 \<Rightarrow> bytes \<Rightarrow> ram \<Rightarrow> u32 option \<times> ram" where
  "ram_write a bs w = (None, ram_store a bs w)"

text \<open>An environment with default options, this port and this dictionary, and no callbacks.\<close>

definition quiet_env ::
  "(u16 \<Rightarrow> nat \<Rightarrow> 'w \<Rightarrow> (nat \<Rightarrow> u8) \<times> u32 option \<times> 'w) \<Rightarrow> (u16 \<Rightarrow> bytes \<Rightarrow> 'w \<Rightarrow> u32 option \<times> 'w) \<Rightarrow>
   objectlist list \<Rightarrow> 'w env" where
  "quiet_env rd wr ol = \<lparr> opt = default_options, SDOobjects = ol,
     hal_read = rd, hal_write = wr, hal_init = (\<lambda>s. (0, s)),
     set_defaults_hook = None, pre_state_change_hook = None, post_state_change_hook = None,
     application_hook = None, safe_state_override = None, pre_object_download_hook = None,
     post_object_download_hook = None, pre_object_upload_hook = None,
     post_object_upload_hook = None, rxpdo_override = None, txpdo_override = None,
     esc_hw_interrupt_enable = None, esc_hw_interrupt_disable = None, esc_hw_eep_handler = None,
     esc_check_dc_handler = None, get_device_id = None, esc_hw_wait = None,
     cb_update_txpdo = (\<lambda>s. s), cb_apply_rxpdo = (\<lambda>s. s),
     EEP_read = (\<lambda>a n s. (-1, [], s)), EEP_write = (\<lambda>a bs s. (-1, s)), eep_reload_ptr = None,
     eoe_get_buffer = None, eoe_free_buffer = None, load_eth_settings = None,
     store_ethernet_settings = None, handle_recv_buffer = (\<lambda>p b s. s),
     fetch_send_buffer = (\<lambda>p b s. (0, b, s)), fragment_sent_event = None,
     foe_write_function = (\<lambda>f bs n s. (0, s)) \<rparr>"

definition ram_env :: "objectlist list \<Rightarrow> ram env" where
  "ram_env ol = quiet_env ram_read ram_write ol"

lemma ram_env_simps [simp]:
  "opt (ram_env ol) = default_options" "SDOobjects (ram_env ol) = ol"
  "hal_read (ram_env ol) = ram_read" "hal_write (ram_env ol) = ram_write"
  by (simp_all add: ram_env_def quiet_env_def)

text \<open>The same with a second world beside the registers, for what an application keeps.\<close>

definition log_env :: "objectlist list \<Rightarrow> (ram \<times> 'l) env" where
  "log_env ol = quiet_env (\<lambda>a n (r, l). let (x, ev, r) = ram_read a n r in (x, ev, (r, l)))
     (\<lambda>a bs (r, l). let (ev, r) = ram_write a bs r in (ev, (r, l))) ol"

lemma sm_follows_ram: "hal_read E = ram_read \<Longrightarrow> hal_write E = ram_write \<Longrightarrow> sm_follows E"
  unfolding sm_follows_def
  by (intro allI impI, rule exI [of _ 0]) (simp add: ram_read_def ram_write_def)

text \<open>The stack with its mailboxes started on that port.\<close>

definition ram_sys :: "ram sys" where
  "ram_sys = (init_sys default_options (\<lambda>_. replicate 8 0) (\<lambda>_. 0))
     \<lparr>MBXrun := 1, mbxfree := 1, activembxsize := 128,
      activemb0 := Some \<lparr>cfg_sma = 0x1000, cfg_sml = 128, cfg_sme = 0x107F, cfg_smc = 0x26\<rparr>,
      activemb1 := Some \<lparr>cfg_sma = 0x1080, cfg_sml = 128, cfg_sme = 0x10FF, cfg_smc = 0x22\<rparr>\<rparr>"

lemma ram_sys_inv: "mbx_inv (ram_env ol) ram_sys"
  by (simp add: mbx_inv_def mbx_ready_def pool_inv_def pool_ok_def valid_opts_def queued_def
      default_options_def ram_sys_def init_sys_def)

end
