(* ===== verification/Al_Props.thy ===== *)
theory Al_Props
  imports Al_Spec Ram_Port
begin

text \<open>
  The properties of the EtherCAT state machine, with the sample slave on which they are
  applied: a dictionary of the sentinel alone and the register-file port.
\<close>

section \<open>A sample slave\<close>

definition no_objects :: "objectlist list" where
  "no_objects = [\<lparr>ol_index = 0xFFFF, ol_objtype = 0xFF, ol_maxsub = 0xFF, ol_name = [], ol_objdesc = []\<rparr>]"

definition plain_env :: "ram env" where
  "plain_env = ram_env no_objects"

lemma al_env_plain: "al_env plain_env"
  by (simp add: al_env_def plain_env_def sm_follows_ram pdo_total_def observes_def keeps_opt_def
      sizeOfPDO_def SDO_findobject_def no_objects_def) (simp add: ram_env_def quiet_env_def)

text \<open>The slave in PREOP with a request in the AL control register.\<close>

definition preop_slave :: "u8 \<Rightarrow> ram sys" where
  "preop_slave r = ram_sys\<lparr>ALstatus := 2, ALevent := 1, world := (\<lambda>_. 0)(0x0120 := r)\<rparr>"

lemma maps_sized_preop: "maps_sized plain_env (preop_slave r)"
  by (simp add: maps_sized_def preop_slave_def plain_env_def ram_sys_def init_sys_def default_options_def)

section \<open>Properties\<close>

text \<open>
  C3. The AL control handler implements the abstract state machine: from state \<open>c\<close> (with the
  error flag \<open>e\<close>) on the request \<open>r\<close> (with \<open>ack\<close> the acknowledge bit), \<open>ESC_state\<close> returns,
  and the AL status register then holds a state and an error flag that \<open>al_step\<close> allows.
\<close>

theorem al_control_refines:
  assumes "al_env E" and "maps_sized E s"
    and "ALevent s AND ESCREG_ALEVENT_CONTROL \<noteq> 0"
    and "to_u8 (ALstatus s) AND 0x1f = al_status c e"
    and "f = fst (hal_read E ESCREG_ALCONTROL 2 (world s))"
    and "to_u8 (rd16 [f 0, f 1]) AND 0x1f = al_status r ack"
    and "e \<Longrightarrow> ack \<or> r = Init" and "op_pending s = 0 \<or> \<not> e"
  shows "\<exists>s' n e'. ESC_state E s = Some s' \<and> al_step c r n e' \<and>
           to_u8 (ALstatus s') AND 0x1f = al_status n e'"
  using ESC_state_refines [OF assms] by (auto simp: ok_ex al_result_def)

theorem al_control_refines_witness:
  "\<exists>s' n e'. ESC_state plain_env (preop_slave 4) = Some s' \<and> al_step Preop Safeop n e' \<and>
     to_u8 (ALstatus s') AND 0x1f = al_status n e'"
  by (rule al_control_refines [where e = False and ack = False, OF al_env_plain maps_sized_preop _ _ refl])
    (simp_all add: preop_slave_def plain_env_def ram_read_def al_status_def ram_sys_def init_sys_def)

text \<open>
  Outputs are active in OP only: along any run of the handlers that change the AL state,
  interleaved with arbitrary other activity, whenever the application state has its output
  bit set the AL status register shows OP without error.
\<close>

theorem outputs_only_in_op:
  assumes "al_env E" and "al_inv E s0" and "(al_activity E)\<^sup>*\<^sup>* s0 s"
    and "App_state s AND APPSTATE_OUTPUT \<noteq> 0"
  shows "to_u8 (ALstatus s) AND ESCREG_AL_STATEMASK = ESCop"
  using al_run_inv [OF assms(3,1,2)] assms(4) by (simp add: al_inv_def outputs_on_def)

lemma al_inv_preop: "al_inv plain_env (preop_slave r)"
  using maps_sized_preop [of r]
  by (simp add: al_inv_def mb_set_def outputs_on_def preop_slave_def ram_sys_def init_sys_def)

theorem outputs_only_in_op_witness:
  "to_u8 (ALstatus ((preop_slave 8)\<lparr>App_state := 3, ALstatus := 8\<rparr>)) AND ESCREG_AL_STATEMASK = ESCop"
proof (rule outputs_only_in_op [OF al_env_plain _ rtranclp.rtrancl_refl])
  show "al_inv plain_env ((preop_slave 8)\<lparr>App_state := 3, ALstatus := 8\<rparr>)"
    by (simp add: al_inv_def maps_sized_def mb_set_def outputs_on_def preop_slave_def plain_env_def
        ram_sys_def init_sys_def default_options_def)
qed simp

text \<open>
  The state machine cannot hang: in every state reached by such a run each of the four
  handlers returns a state (the SyncManager handshakes and the walk of the PDO mapping end).
\<close>

theorem al_handlers_return:
  assumes "al_env E" and "al_inv E s0" and "(al_activity E)\<^sup>*\<^sup>* s0 s"
  shows "\<exists>a b c d. ESC_state E s = Some a \<and> ESC_sm_act_event E s = Some b \<and>
           ESC_ALstatusgotoerror E st err s = Some c \<and> ESC_op_pending_step E sync0 ev ns s = Some d"
  using ESC_state_inv [OF assms(1) al_run_inv [OF assms(3,1,2)]]
    ESC_sm_act_event_inv [OF assms(1) al_run_inv [OF assms(3,1,2)]]
    ESC_ALstatusgotoerror_inv [OF assms(1) al_run_inv [OF assms(3,1,2)], of st err]
    ESC_op_pending_step_inv [OF assms(1) al_run_inv [OF assms(3,1,2)], of sync0 ev ns]
  by (auto simp: ok_ex)

theorem al_handlers_return_witness:
  "\<exists>a b c d. ESC_state plain_env (preop_slave 4) = Some a \<and>
     ESC_sm_act_event plain_env (preop_slave 4) = Some b \<and>
     ESC_ALstatusgotoerror plain_env 0x14 0x1b (preop_slave 4) = Some c \<and>
     ESC_op_pending_step plain_env 1 1 1000000 (preop_slave 4) = Some d"
  by (rule al_handlers_return [OF al_env_plain al_inv_preop rtranclp.rtrancl_refl])

text \<open>
  C4. A held request for OP is decided by time alone. After a waiting history, the next
  period, the current one included in both sums, grants OP when the periods since the last
  bad one add up to at least 200 ms (and process data was seen, or the slave has no outputs);
  otherwise it refuses with SAFEOP and the error flag as soon as the wait adds up to 8.1 s;
  otherwise it only accounts the period.
\<close>

theorem op_wait_decided:
  assumes "al_env E" and "waiting E h s" and "op_pending s \<noteq> 0" and "unat ns \<le> 2 ^ 32"
    and "h' = h @ [(good_sync sync0 ev s, ns)]"
    and "seen = (ev \<noteq> 0 \<or> op_seen_sm s \<noteq> 0 \<or> ESC_SM2_sml s = 0)"
  shows "\<exists>s'. ESC_op_pending_step E sync0 ev ns s = Some s' \<and>
    (if 200000000 \<le> good_tail h' \<and> seen
     then op_pending s' = 0 \<and> ALstatus s' = 8 \<and> App_state s' = App_state s OR APPSTATE_OUTPUT
     else if 8100000000 \<le> total_time h'
     then op_pending s' = 0 \<and> ALstatus s' = 0x14 \<and> App_state s' = App_state s
     else s' = op_account sync0 ev ns s)"
proof -
  let ?a = "op_account sync0 ev ns s"
  have t: "unat (op_valid_ns ?a) = good_tail h'" "unat (op_pending_ns ?a) = total_time h'"
    using account_times [of s h ns sync0 ev] waiting_times [OF assms(2)] assms(4,5) by simp_all
  have eq: "ESC_op_pending_step E sync0 ev ns s = op_decide E ?a"
    using assms(3) by (simp add: ESC_op_pending_step_def)
  have seen: "(op_seen_sm ?a \<noteq> 0 \<or> ESC_SM2_sml ?a = 0) = seen" "App_state ?a = App_state s"
    using assms(6) by (auto simp: op_account_def)
  have g: "ESC_OP_SYNC_VALID_NS \<le> op_valid_ns ?a \<longleftrightarrow> 200000000 \<le> good_tail h'"
    "ESC_OP_PENDING_TIMEOUT_NS \<le> op_pending_ns ?a \<longleftrightarrow> 8100000000 \<le> total_time h'"
    by (simp_all add: word_le_nat_alt t)
  show ?thesis
    using op_decide_grants [OF assms(1), of ?a] op_decide_refuses [of ?a E] seen g eq
    by (auto simp: ok_ex op_decide_def)
qed

lemma waiting_start: "waiting plain_env [] (preop_slave 8)"
  by (rule waiting.start) (simp_all add: preop_slave_def ram_sys_def init_sys_def)

theorem op_wait_decided_witness:
  "\<exists>s'. ESC_op_pending_step plain_env 1 1 250000000 ((preop_slave 8)\<lparr>op_pending := 1\<rparr>) = Some s' \<and>
     op_pending s' = 0 \<and> ALstatus s' = 8 \<and> App_state s' = 2"
proof -
  let ?s = "(preop_slave 8)\<lparr>op_pending := 1\<rparr>"
  have w: "waiting plain_env [] ?s" by (rule waiting.other [OF waiting_start]) simp_all
  have s: "op_pending ?s \<noteq> 0" "App_state ?s = 0" "good_sync 1 1 ?s"
    by (simp_all add: good_sync_def preop_slave_def ram_sys_def init_sys_def)
  show ?thesis
    using op_wait_decided [OF al_env_plain w s(1) _ refl refl, of 250000000 1 1] s(2,3)
    by (simp add: good_tail_def)
qed

end
