(* ===== verification/Coe_Pdo.thy ===== *)
theory Coe_Pdo
  imports Object_Dict
begin

text \<open>
  Process data (\<open>esc_coe.c\<close>, last part): the bit slices of a process image seen as 64 bit
  words, typed access to the variables behind the dictionary, the default values, and packing
  and unpacking of a mapping.
\<close>

section \<open>The process image as little-endian words\<close>

fun rd_le :: "bytes \<Rightarrow> u64" where
  "rd_le [] = 0"
| "rd_le (b # bs) = to_u64 b OR push_bit 8 (rd_le bs)"

definition le_bytes :: "nat \<Rightarrow> u64 \<Rightarrow> bytes" where
  "le_bytes n v = map (\<lambda>i. to_u8 (drop_bit (8 * i) v)) [0..<n]"

definition word64_at :: "nat \<Rightarrow> bytes \<Rightarrow> u64 option" where
  "word64_at k buf = map_option rd_le (get_bytes (8 * k) 8 buf)"

definition set_word64 :: "nat \<Rightarrow> u64 \<Rightarrow> bytes \<Rightarrow> bytes option" where
  "set_word64 k w buf = put_bytes (8 * k) (le_bytes 8 w) buf"

definition slice_mask :: "u32 \<Rightarrow> u64" where
  "slice_mask len = (if len = 64 then -1 else push_bit (unat len) 1 - 1)"

definition COE_bitsliceGet :: "bytes \<Rightarrow> u32 \<Rightarrow> u32 \<Rightarrow> u64 option" where
  "COE_bitsliceGet bitmap offset len = do {
     let word_offset = unat (offset div 64);
     let bit_offset = unat (offset mod 64);
     w0 \<leftarrow> word64_at word_offset bitmap;
     let w0 = drop_bit bit_offset w0;
     w1 \<leftarrow> (if unat len + bit_offset > 64
           then map_option (\<lambda>w. push_bit (64 - bit_offset) w) (word64_at (word_offset + 1) bitmap)
           else Some 0);
     Some ((w1 OR w0) AND slice_mask len)
   }"

definition COE_bitsliceSet :: "bytes \<Rightarrow> u32 \<Rightarrow> u32 \<Rightarrow> u64 \<Rightarrow> bytes option" where
  "COE_bitsliceSet bitmap offset len val = do {
     let word_offset = unat (offset div 64);
     let bit_offset = unat (offset mod 64);
     let mask0 = push_bit bit_offset (slice_mask len);
     let v0 = push_bit bit_offset val;
     w0 \<leftarrow> word64_at word_offset bitmap;
     let w0 = (w0 AND NOT mask0) OR (v0 AND mask0);
     bitmap \<leftarrow> set_word64 word_offset w0 bitmap;
     if unat len + bit_offset > 64 then do {
       let mask1 = drop_bit (64 - bit_offset) (slice_mask len);
       let v1 = drop_bit (64 - bit_offset) val;
       w1 \<leftarrow> word64_at (word_offset + 1) bitmap;
       let w1 = (w1 AND NOT mask1) OR (v1 AND mask1);
       set_word64 (word_offset + 1) w1 bitmap
     }
     else Some bitmap
   }"

section \<open>Bits of the image\<close>

definition buf_bit :: "bytes \<Rightarrow> nat \<Rightarrow> bool" where
  "buf_bit buf j \<longleftrightarrow> j div 8 < length buf \<and> bit (buf ! (j div 8)) (j mod 8)"

lemma bit_rd_le: "bit (rd_le bs) n \<longleftrightarrow> n < 64 \<and> buf_bit bs n"
proof (induction bs arbitrary: n)
  case (Cons b bs)
  show ?case
  proof (cases "n < 8")
    case True
    then show ?thesis by (simp add: bit_simps buf_bit_def)
  next
    case False
    then obtain m where m: "n = m + 8" by (metis add.commute le_Suc_ex not_less)
    have "\<not> bit b (m + 8)" using bit_imp_le_length [of b "m + 8"] by auto
    moreover have "(m + 8) div 8 = Suc (m div 8)" by presburger
    ultimately show ?thesis using m Cons.IH [of m]
      by (auto simp: bit_simps buf_bit_def)
  qed
qed (simp add: buf_bit_def)

lemma length_le_bytes [simp]: "length (le_bytes n v) = n"
  by (simp add: le_bytes_def)

lemma le_bytes_nth: "i < n \<Longrightarrow> le_bytes n v ! i = to_u8 (drop_bit (8 * i) v)"
  by (simp add: le_bytes_def)

lemma buf_bit_le_bytes: "buf_bit (le_bytes n v) j \<longleftrightarrow> j div 8 < n \<and> bit v j"
  by (auto simp: buf_bit_def le_bytes_def bit_simps)

text \<open>Positions as word and bit, byte and bit.\<close>

lemma split64: "j div 8 = 8 * (j div 64) + j mod 64 div 8" "j mod 8 = j mod 64 mod 8" for j :: nat
proof -
  have "(64 * k + r) div 8 = 8 * k + r div 8" "(64 * k + r) mod 8 = r mod 8" for k r :: nat
    by presburger+
  from this [of "j div 64" "j mod 64"]
  show "j div 8 = 8 * (j div 64) + j mod 64 div 8" "j mod 8 = j mod 64 mod 8" by simp_all
qed

lemma window_split:
  fixes f j n :: nat
  defines "k \<equiv> f div 64" and "b \<equiv> f mod 64" and "q \<equiv> j div 64" and "r \<equiv> j mod 64"
  shows "n + b \<le> 64 \<Longrightarrow> (f \<le> j \<and> j < f + n) \<longleftrightarrow> (q = k \<and> b \<le> r \<and> r < b + n)"
    and "64 < n + b \<Longrightarrow> n \<le> 64 \<Longrightarrow> q \<noteq> k + 1 \<Longrightarrow> (f \<le> j \<and> j < f + n) \<longleftrightarrow> (q = k \<and> b \<le> r \<and> r < b + n)"
    and "64 < n + b \<Longrightarrow> q = k + 1 \<Longrightarrow> (f \<le> j \<and> j < f + n) \<longleftrightarrow> r + (64 - b) < n"
    and "q = k \<Longrightarrow> r - b = j - f" and "q = k + 1 \<Longrightarrow> r + (64 - b) = j - f"
proof -
  have f: "f = 64 * k + b" "b < 64" and j: "j = 64 * q + r" "r < 64"
    by (simp_all add: assms)
  have c: "q < k \<Longrightarrow> 64 * q + 64 \<le> 64 * k" "k < q \<Longrightarrow> 64 * k + 64 \<le> 64 * q"
    "k + 1 < q \<Longrightarrow> 64 * k + 128 \<le> 64 * q" by simp_all
  show "(f \<le> j \<and> j < f + n) \<longleftrightarrow> (q = k \<and> b \<le> r \<and> r < b + n)" if "n + b \<le> 64"
    using c f j that by (cases q k rule: linorder_cases) auto
  show "(f \<le> j \<and> j < f + n) \<longleftrightarrow> (q = k \<and> b \<le> r \<and> r < b + n)"
    if "64 < n + b" "n \<le> 64" "q \<noteq> k + 1"
    using c f j that by (cases q k rule: linorder_cases) auto
  show "(f \<le> j \<and> j < f + n) \<longleftrightarrow> r + (64 - b) < n" if "64 < n + b" "q = k + 1"
    using f j that by auto
  show "q = k \<Longrightarrow> r - b = j - f" "q = k + 1 \<Longrightarrow> r + (64 - b) = j - f"
    using f j by auto
qed

lemma word64_at_bit:
  assumes "word64_at k buf = Some w" "n < 64"
  shows "bit w n = buf_bit buf (64 * k + n)"
proof -
  from assms(1) have b: "8 * k + 8 \<le> length buf" "w = rd_le (take 8 (drop (8 * k) buf))"
    by (auto simp: word64_at_def get_bytes_def split: if_splits)
  have "(64 * k + n) div 8 = 8 * k + n div 8" "(64 * k + n) mod 8 = n mod 8"
    by presburger+
  with b assms(2) show ?thesis
    by (auto simp: bit_rd_le buf_bit_def)
qed

lemma set_word64_bit:
  assumes "set_word64 k w buf = Some buf'"
  shows "buf_bit buf' j = (if j div 64 = k then bit w (j mod 64) else buf_bit buf j)"
proof -
  from assms have b: "8 * k + 8 \<le> length buf" and len: "length buf' = length buf"
    by (auto simp: set_word64_def put_bytes_def split: if_splits)
  have d: "j div 64 = k \<longleftrightarrow> 8 * k \<le> j div 8 \<and> j div 8 < 8 * k + 8" by auto
  show ?thesis
  proof (cases "j div 8 < length buf")
    case False
    with b len d show ?thesis by (auto simp: buf_bit_def)
  next
    case True
    note n = put_bytes_nth [OF assms [unfolded set_word64_def] True]
    show ?thesis
    proof (cases "j div 64 = k")
      case False
      with n True len d show ?thesis by (auto simp: buf_bit_def)
    next
      case k: True
      have "8 * (j div 8 - 8 * k) + j mod 8 = j mod 64" using split64 [of j] k by simp
      moreover have c: "8 * k \<le> j div 8" "j div 8 < 8 * k + 8" using d k by blast+
      moreover have "j div 8 - 8 * k < 8" using c by linarith
      then have "buf' ! (j div 8) = to_u8 (drop_bit (8 * (j div 8 - 8 * k)) w)"
        using n c by (simp only: le_bytes_nth length_le_bytes conj_absorb if_True simp_thms)
      ultimately show ?thesis
        using True len k by (simp add: buf_bit_def bit_simps)
    qed
  qed
qed

lemma bit_slice_mask: "unat len \<le> 64 \<Longrightarrow> bit (slice_mask len) n \<longleftrightarrow> n < unat len"
proof -
  assume le: "unat len \<le> 64"
  show ?thesis
  proof (cases "len = 64")
    case True
    then show ?thesis by (auto simp: slice_mask_def bit_simps)
  next
    case False
    with le have "unat len < 64" by (auto simp: word_unat_eq_iff)
    then show ?thesis using False by (auto simp: slice_mask_def bit_simps simp flip: mask_eq_exp_minus_1)
  qed
qed

section \<open>A slice is a window of bits\<close>

lemma u32_split: "unat (offset div 64 :: u32) = unat offset div 64" "unat (offset mod 64 :: u32) = unat offset mod 64"
  by (simp_all add: unat_div_distrib unat_mod_distrib)

lemma COE_bitsliceGet_bit:
  assumes get: "COE_bitsliceGet buf offset len = Some v" and len: "unat len \<le> 64"
  shows "bit v i \<longleftrightarrow> i < unat len \<and> buf_bit buf (unat offset + i)"
proof -
  let ?k = "unat offset div 64" and ?b = "unat offset mod 64"
  from get obtain w0 w1 where w0: "word64_at ?k buf = Some w0"
    and w1: "if unat len + ?b > 64 then \<exists>w. word64_at (?k + 1) buf = Some w \<and> w1 = push_bit (64 - ?b) w
             else w1 = 0"
    and v: "v = (w1 OR drop_bit ?b w0) AND slice_mask len"
    by (auto simp: COE_bitsliceGet_def u32_split bind_eq_Some_conv split: if_splits)
  show ?thesis
  proof (cases "i < unat len")
    case False
    with v len show ?thesis by (simp add: bit_simps bit_slice_mask)
  next
    case i: True
    have o: "unat offset = 64 * ?k + ?b" by simp
    show ?thesis
    proof (cases "?b + i < 64")
      case True
      have lo: "bit w0 (?b + i) = buf_bit buf (64 * ?k + (?b + i))"
        by (rule word64_at_bit [OF w0 True])
      have "\<not> bit w1 i" using w1 True by (auto simp: bit_simps split: if_splits)
      moreover have "64 * ?k + (?b + i) = unat offset + i" by simp
      ultimately show ?thesis using lo v i len by (simp add: bit_simps bit_slice_mask)
    next
      case False
      with i w1 obtain w where w: "word64_at (?k + 1) buf = Some w" "w1 = push_bit (64 - ?b) w"
        by (auto split: if_splits)
      have "bit w (?b + i - 64) = buf_bit buf (64 * (?k + 1) + (?b + i - 64))"
        by (rule word64_at_bit [OF w(1)]) (use i len in auto)
      moreover have "64 * (?k + 1) + (?b + i - 64) = unat offset + i" using False by simp
      moreover have "i - (64 - ?b) = ?b + i - 64" using False by simp
      moreover have "\<not> bit w0 (?b + i)" using False bit_imp_le_length [of w0 "?b + i"] by auto
      ultimately show ?thesis using v i len False w(2) by (auto simp: bit_simps bit_slice_mask)
    qed
  qed
qed

lemma COE_bitsliceSet_bit:
  assumes set: "COE_bitsliceSet buf offset len val = Some buf'" and len: "unat len \<le> 64"
  shows "buf_bit buf' j \<longleftrightarrow>
    (if unat offset \<le> j \<and> j < unat offset + unat len then bit val (j - unat offset) else buf_bit buf j)"
proof -
  let ?k = "unat offset div 64" and ?b = "unat offset mod 64"
  let ?m = "slice_mask len"
  have o: "unat offset = 64 * ?k + ?b" by simp
  from set obtain w0 buf1 where w0: "word64_at ?k buf = Some w0"
    and b1: "set_word64 ?k ((w0 AND NOT (push_bit ?b ?m)) OR (push_bit ?b val AND push_bit ?b ?m)) buf = Some buf1"
    and b2: "if unat len + ?b > 64 then \<exists>w1. word64_at (?k + 1) buf1 = Some w1 \<and>
        set_word64 (?k + 1) ((w1 AND NOT (drop_bit (64 - ?b) ?m)) OR
           (drop_bit (64 - ?b) val AND drop_bit (64 - ?b) ?m)) buf1 = Some buf'
      else buf' = buf1"
    by (auto simp: COE_bitsliceSet_def u32_split bind_eq_Some_conv split: if_splits)
  have 1: "buf_bit buf1 j \<longleftrightarrow> (if j div 64 = ?k then
       (if ?b \<le> j mod 64 \<and> j mod 64 < ?b + unat len then bit val (j mod 64 - ?b) else buf_bit buf j)
       else buf_bit buf j)"
  proof (cases "j div 64 = ?k")
    case True
    have "bit w0 (j mod 64) = buf_bit buf (64 * ?k + j mod 64)"
      by (rule word64_at_bit [OF w0]) simp
    moreover have "64 * ?k + j mod 64 = j" by (metis True mult_div_mod_eq)
    ultimately show ?thesis
      using True len by (auto simp: set_word64_bit [OF b1] bit_simps bit_slice_mask)
  next
    case False
    then show ?thesis by (simp add: set_word64_bit [OF b1])
  qed
  show ?thesis
  proof (cases "unat len + ?b > 64")
    case False
    then have "buf' = buf1" using b2 by simp
    with False 1 window_split(1) [where f = "unat offset" and j = j and n = "unat len"]
      window_split(4) [where f = "unat offset" and j = j]
    show ?thesis by auto
  next
    case True
    with b2 obtain w1 where w1: "word64_at (?k + 1) buf1 = Some w1"
      and b3: "set_word64 (?k + 1) ((w1 AND NOT (drop_bit (64 - ?b) ?m)) OR
           (drop_bit (64 - ?b) val AND drop_bit (64 - ?b) ?m)) buf1 = Some buf'" by auto
    show ?thesis
    proof (cases "j div 64 = ?k + 1")
      case j: True
      let ?r = "j mod 64"
      have old: "bit w1 ?r = buf_bit buf1 (64 * (?k + 1) + ?r)"
        by (rule word64_at_bit [OF w1]) simp
      have pos: "64 * (?k + 1) + ?r = j" by (metis j mult_div_mod_eq)
      have mix: "bit ((w1 AND NOT (drop_bit (64 - ?b) ?m)) OR
           (drop_bit (64 - ?b) val AND drop_bit (64 - ?b) ?m)) r \<longleftrightarrow>
          (if r + (64 - ?b) < unat len then bit val (r + (64 - ?b)) else bit w1 r)" for r
        using len by (simp add: bit_simps bit_slice_mask add.commute)
          (use bit_imp_le_length [of w1 r] in auto)
      have "buf_bit buf' j \<longleftrightarrow> (if ?r + (64 - ?b) < unat len then bit val (?r + (64 - ?b)) else buf_bit buf1 j)"
        by (simp only: set_word64_bit [OF b3] j if_True simp_thms mix old pos)
      moreover have "buf_bit buf1 j = buf_bit buf j" using 1 j by simp
      ultimately show ?thesis
        using window_split(3) [where f = "unat offset" and j = j and n = "unat len", OF True j]
          window_split(5) [OF j] by simp
    next
      case j: False
      show ?thesis
        using 1 j True len window_split(2) [where f = "unat offset" and j = j and n = "unat len"]
          window_split(4) [where f = "unat offset" and j = j]
        by (auto simp: set_word64_bit [OF b3])
    qed
  qed
qed

text \<open>
  The contract of a bit image: a window that was set reads back what was stored, and a
  window disjoint from it is unaffected. Windows are pairs of offset and length.
\<close>

type_synonym window = "u32 \<times> u32"

definition disjoint_windows :: "window \<Rightarrow> window \<Rightarrow> bool" where
  "disjoint_windows x y \<longleftrightarrow> unat (fst x) + unat (snd x) \<le> unat (fst y) \<or>
     unat (fst y) + unat (snd y) \<le> unat (fst x)"

locale bit_image =
  fixes get :: "'b \<Rightarrow> u32 \<Rightarrow> u32 \<Rightarrow> u64 option"
    and put :: "'b \<Rightarrow> u32 \<Rightarrow> u32 \<Rightarrow> u64 \<Rightarrow> 'b option"
    and fits :: "'b \<Rightarrow> u32 \<Rightarrow> u32 \<Rightarrow> bool"
  assumes put_fits: "fits b f n \<Longrightarrow> unat n \<le> 64 \<Longrightarrow>
        \<exists>b'. put b f n v = Some b' \<and> (\<forall>f' n'. fits b' f' n' = fits b f' n')"
    and get_put: "put b f n v = Some b' \<Longrightarrow> unat n \<le> 64 \<Longrightarrow> fits b f n \<Longrightarrow>
        get b' f n = Some (take_bit (unat n) v)"
    and get_other: "put b f n v = Some b' \<Longrightarrow> unat n \<le> 64 \<Longrightarrow> unat n' \<le> 64 \<Longrightarrow>
        disjoint_windows (f, n) (f', n') \<Longrightarrow> fits b f' n' \<Longrightarrow> get b' f' n' = get b f' n'"
begin

text \<open>Storing a list of values in windows that do not overlap.\<close>

fun put_all :: "(u32 \<times> u32 \<times> u64) list \<Rightarrow> 'b \<Rightarrow> 'b option" where
  "put_all [] b = Some b"
| "put_all ((f, n, v) # ws) b = do { b \<leftarrow> put b f n v; put_all ws b }"

lemma put_all_other:
  assumes "\<forall>(f, n, v) \<in> set ws. fits b f n \<and> unat n \<le> 64 \<and> disjoint_windows (f, n) (f', n')"
    and "fits b f' n'" "unat n' \<le> 64"
  shows "\<exists>b'. put_all ws b = Some b' \<and> get b' f' n' = get b f' n' \<and>
           (\<forall>f n. fits b' f n = fits b f n)"
  using assms
proof (induction ws arbitrary: b)
  case (Cons w ws)
  obtain f n v where w: "w = (f, n, v)" by (cases w)
  with Cons.prems(1) have fit: "fits b f n" "unat n \<le> 64" "disjoint_windows (f, n) (f', n')" by auto
  obtain b1 where b1: "put b f n v = Some b1" "\<forall>f n. fits b1 f n = fits b f n"
    using put_fits [OF fit(1,2)] by blast
  with get_other [OF b1(1) fit(2) Cons.prems(3) fit(3) Cons.prems(2)] Cons.IH [of b1] Cons.prems w
  show ?case by auto
qed simp

lemma put_all_get:
  assumes "\<forall>(f, n, v) \<in> set ws. fits b f n \<and> unat n \<le> 64"
    and "sorted_wrt (\<lambda>x y. disjoint_windows (fst x, fst (snd x)) (fst y, fst (snd y))) ws"
  shows "\<exists>b'. put_all ws b = Some b' \<and> (\<forall>f n. fits b' f n = fits b f n) \<and>
           (\<forall>(f, n, v) \<in> set ws. get b' f n = Some (take_bit (unat n) v))"
  using assms
proof (induction ws arbitrary: b)
  case (Cons w ws)
  obtain f n v where w: "w = (f, n, v)" by (cases w)
  with Cons.prems(1) have fit: "fits b f n" "unat n \<le> 64" by auto
  obtain b1 where b1: "put b f n v = Some b1" "\<forall>f n. fits b1 f n = fits b f n"
    using put_fits [OF fit] by blast
  have g: "get b1 f n = Some (take_bit (unat n) v)" by (rule get_put [OF b1(1) fit(2,1)])
  have rest: "\<forall>(f', n', v') \<in> set ws. fits b1 f' n' \<and> unat n' \<le> 64 \<and> disjoint_windows (f', n') (f, n)"
    using Cons.prems w b1 by (auto simp: disjoint_windows_def)
  from put_all_other [OF rest] b1 fit obtain b2 where b2: "put_all ws b1 = Some b2"
    "get b2 f n = get b1 f n" "\<forall>f n. fits b2 f n = fits b1 f n" by auto
  from Cons.IH [of b1] Cons.prems w b1 b2(1) have
    "\<forall>(f, n, v) \<in> set ws. get b2 f n = Some (take_bit (unat n) v)" by auto
  with w b1 b2 g show ?case by auto
qed simp

end

text \<open>Where a slice can be accessed: its words lie inside the image.\<close>

definition slice_fits :: "bytes \<Rightarrow> u32 \<Rightarrow> u32 \<Rightarrow> bool" where
  "slice_fits buf f n \<longleftrightarrow>
     8 * (unat f div 64) + (if unat n + unat f mod 64 > 64 then 16 else 8) \<le> length buf"

lemma word64_at_some: "8 * k + 8 \<le> length buf \<Longrightarrow> \<exists>w. word64_at k buf = Some w"
  by (simp add: word64_at_def get_bytes_def)

lemma set_word64_some: "8 * k + 8 \<le> length buf \<Longrightarrow> \<exists>b. set_word64 k w buf = Some b \<and> length b = length buf"
  by (simp add: set_word64_def put_bytes_def)

lemma COE_bitsliceGet_some: "slice_fits buf f n \<Longrightarrow> \<exists>v. COE_bitsliceGet buf f n = Some v"
  using word64_at_some [of "unat f div 64" buf] word64_at_some [of "unat f div 64 + 1" buf]
  by (auto simp: COE_bitsliceGet_def slice_fits_def u32_split split: if_splits)

lemma COE_bitsliceSet_some:
  assumes "slice_fits buf f n"
  shows "\<exists>b. COE_bitsliceSet buf f n v = Some b \<and> length b = length buf"
proof -
  let ?k = "unat f div 64"
  obtain w0 where w0: "word64_at ?k buf = Some w0"
    using word64_at_some [of ?k buf] assms by (auto simp: slice_fits_def split: if_splits)
  let ?w = "(w0 AND NOT (push_bit (unat f mod 64) (slice_mask n))) OR
      (push_bit (unat f mod 64) v AND push_bit (unat f mod 64) (slice_mask n))"
  obtain b1 where b1: "set_word64 ?k ?w buf = Some b1" "length b1 = length buf"
    using set_word64_some [of ?k buf ?w] assms by (auto simp: slice_fits_def split: if_splits)
  show ?thesis
    using w0 b1 assms word64_at_some [of "?k + 1" b1] set_word64_some [of "?k + 1" b1]
    by (auto simp: COE_bitsliceSet_def slice_fits_def u32_split split: if_splits)
qed

interpretation image: bit_image COE_bitsliceGet COE_bitsliceSet slice_fits
proof
  fix b b' :: bytes and f n f' n' :: u32 and v :: u64
  show "\<exists>b'. COE_bitsliceSet b f n v = Some b' \<and> (\<forall>f' n'. slice_fits b' f' n' = slice_fits b f' n')"
    if "slice_fits b f n" using COE_bitsliceSet_some [OF that, of v] by (auto simp: slice_fits_def)
  assume set: "COE_bitsliceSet b f n v = Some b'" and n: "unat n \<le> 64"
  note bits = COE_bitsliceSet_bit [OF set n]
  have len: "length b' = length b" if "slice_fits b f n"
    using COE_bitsliceSet_some [OF that, of v] set by auto
  show "COE_bitsliceGet b' f n = Some (take_bit (unat n) v)" if fit: "slice_fits b f n"
  proof -
    obtain x where x: "COE_bitsliceGet b' f n = Some x"
      using COE_bitsliceGet_some [of b' f n] fit len [OF fit] by (auto simp: slice_fits_def)
    have "x = take_bit (unat n) v"
      by (rule bit_word_eqI) (auto simp: COE_bitsliceGet_bit [OF x n] bits bit_simps)
    with x show ?thesis by simp
  qed
  assume n': "unat n' \<le> 64" and dis: "disjoint_windows (f, n) (f', n')" and fit': "slice_fits b f' n'"
  have len': "length b' = length b"
    using set by (auto simp: COE_bitsliceSet_def set_word64_def bind_eq_Some_conv
        split: if_splits dest!: put_bytes_length)
  obtain x where x: "COE_bitsliceGet b' f' n' = Some x"
    using COE_bitsliceGet_some [of b' f' n'] fit' len' by (auto simp: slice_fits_def)
  obtain y where y: "COE_bitsliceGet b f' n' = Some y"
    using COE_bitsliceGet_some [OF fit'] by blast
  have "x = y"
    by (rule bit_word_eqI)
      (use dis in \<open>auto simp: COE_bitsliceGet_bit [OF x n'] COE_bitsliceGet_bit [OF y n'] bits
         disjoint_windows_def\<close>)
  with x y show "COE_bitsliceGet b' f' n' = COE_bitsliceGet b f' n'" by simp
qed

section \<open>Typed access to the variables\<close>

text \<open>The size of the C type that \<open>COE_getValue\<close> and \<open>COE_setValue\<close> access, by data type.\<close>

definition value_size :: "u16 \<Rightarrow> nat option" where
  "value_size datatype =
     (if datatype \<in> {0x0030, 0x0031, 0x0032, 0x0033, 0x0034, 0x0035, 0x0036, 0x0037,
                      0x0001, 0x0005, 0x0002, 0x002D} then Some 1
      else if datatype \<in> {0x0006, 0x0003, 0x002E} then Some 2
      else if datatype \<in> {0x0008, 0x0007, 0x0004, 0x002F} then Some 4
      else if datatype \<in> {0x0011, 0x001B, 0x0015} then Some 8
      else None)"

text \<open>\<open>CC_ASSERT (0)\<close> on an unknown type, like the access through a NULL pointer, has no result.\<close>

definition COE_getValue :: "objd \<Rightarrow> 'w sys \<Rightarrow> u64 option" where
  "COE_getValue obj s = do {
     n \<leftarrow> value_size (od_datatype obj);
     p \<leftarrow> od_data obj;
     bs \<leftarrow> mem_get p n s;
     Some (rd_le bs)
   }"

definition COE_setValue :: "objd \<Rightarrow> u64 \<Rightarrow> 'w sys \<Rightarrow> 'w sys option" where
  "COE_setValue obj val s =
     (case value_size (od_datatype obj) of
        Some n \<Rightarrow> do { p \<leftarrow> od_data obj; mem_put p (le_bytes n val) s }
      | None \<Rightarrow> Some s)"

text \<open>
  \<open>do \<dots> while (objd[i++].subindex < maxsub)\<close> over the entries of one object, and the loop
  over the objects up to the sentinel.
\<close>

fun init_entries :: "objd list \<Rightarrow> u8 \<Rightarrow> 'w sys \<Rightarrow> 'w sys option" where
  "init_entries [] maxsub s = None"
| "init_entries (d # ds) maxsub s = do {
     s \<leftarrow> (if od_data d \<noteq> None then COE_setValue d (to_u64 (od_value d)) s else Some s);
     if od_subindex d < to_u16 maxsub then init_entries ds maxsub s else Some s
   }"

fun init_objects :: "objectlist list \<Rightarrow> 'w sys \<Rightarrow> 'w sys option" where
  "init_objects [] s = None"
| "init_objects (ob # obs) s =
     (if ol_index ob \<noteq> 0xffff
      then do { s \<leftarrow> init_entries (ol_objdesc ob) (ol_maxsub ob) s; init_objects obs s }
      else Some s)"

definition COE_initDefaultValues :: "'w env \<Rightarrow> 'w sys \<Rightarrow> 'w sys option" where
  "COE_initDefaultValues E s =
     (if skip_default_initialization s then Some s
      else do {
        s \<leftarrow> init_objects (SDOobjects E) s;
        case set_defaults_hook E of None \<Rightarrow> Some s | Some h \<Rightarrow> Some (h s)
      })"

section \<open>Packing and unpacking\<close>

text \<open>\<open>mappings[ix].obj\<close>: \<open>None\<close> for padding.\<close>

definition map_objd :: "'w env \<Rightarrow> smmap \<Rightarrow> objd option option" where
  "map_objd E m = (case map_obj m of
       None \<Rightarrow> Some None
     | Some (n, k) \<Rightarrow> do { ob \<leftarrow> at (SDOobjects E) n; d \<leftarrow> at (ol_objdesc ob) k; Some (Some d) })"

definition bits2bytes :: "u32 \<Rightarrow> nat" where
  "bits2bytes b = unat (drop_bit 3 (b + 7))"

definition pack_entry :: "'w env \<Rightarrow> smmap \<Rightarrow> 'w sys \<Rightarrow> bytes \<Rightarrow> bytes option" where
  "pack_entry E m s buffer = do {
     obj \<leftarrow> map_objd E m;
     case obj of
       None \<Rightarrow> Some buffer
     | Some obj \<Rightarrow>
         (if od_bitlength obj > 64 then do {
            p \<leftarrow> od_data obj;
            bs \<leftarrow> mem_get p (bits2bytes (od_bitlength obj)) s;
            put_bytes (unat (drop_bit 3 (map_offset m))) bs buffer
          }
          else do {
            val \<leftarrow> COE_getValue obj s;
            COE_bitsliceSet buffer (map_offset m) (od_bitlength obj) val
          })
   }"

definition unpack_entry :: "'w env \<Rightarrow> bytes \<Rightarrow> smmap \<Rightarrow> 'w sys \<Rightarrow> 'w sys option" where
  "unpack_entry E buffer m s = do {
     obj \<leftarrow> map_objd E m;
     case obj of
       None \<Rightarrow> Some s
     | Some obj \<Rightarrow>
         (if od_bitlength obj > 64 then do {
            p \<leftarrow> od_data obj;
            bs \<leftarrow> get_bytes (unat (drop_bit 3 (map_offset m))) (bits2bytes (od_bitlength obj)) buffer;
            mem_put p bs s
          }
          else do {
            val \<leftarrow> COE_bitsliceGet buffer (map_offset m) (od_bitlength obj);
            COE_setValue obj val s
          })
   }"

text \<open>The loops over \<open>ix < nmappings\<close>; the mapping array must have that many entries.\<close>

fun pack_entries :: "'w env \<Rightarrow> smmap list \<Rightarrow> 'w sys \<Rightarrow> bytes \<Rightarrow> bytes option" where
  "pack_entries E [] s buffer = Some buffer"
| "pack_entries E (m # ms) s buffer = do { buffer \<leftarrow> pack_entry E m s buffer; pack_entries E ms s buffer }"

fun unpack_entries :: "'w env \<Rightarrow> bytes \<Rightarrow> smmap list \<Rightarrow> 'w sys \<Rightarrow> 'w sys option" where
  "unpack_entries E buffer [] s = Some s"
| "unpack_entries E buffer (m # ms) s = do { s \<leftarrow> unpack_entry E buffer m s; unpack_entries E buffer ms s }"

definition COE_pdoPack :: "'w env \<Rightarrow> bytes \<Rightarrow> int \<Rightarrow> smmap list \<Rightarrow> 'w sys \<Rightarrow> bytes option" where
  "COE_pdoPack E buffer nmappings mappings s =
     (if nmappings \<le> int (length mappings)
      then pack_entries E (take (nat nmappings) mappings) s buffer else None)"

definition COE_pdoUnpack :: "'w env \<Rightarrow> bytes \<Rightarrow> int \<Rightarrow> smmap list \<Rightarrow> 'w sys \<Rightarrow> 'w sys option" where
  "COE_pdoUnpack E buffer nmappings mappings s =
     (if nmappings \<le> int (length mappings)
      then unpack_entries E buffer (take (nat nmappings) mappings) s else None)"

section \<open>What packing means for the master\<close>

text \<open>The entries of a mapping that are packed bit by bit: offset, length and value in state \<open>s\<close>.\<close>

definition packed :: "'w env \<Rightarrow> 'w sys \<Rightarrow> smmap \<Rightarrow> (u32 \<times> u32 \<times> u64) option" where
  "packed E s m = do {
     obj \<leftarrow> map_objd E m;
     obj \<leftarrow> obj;
     val \<leftarrow> COE_getValue obj s;
     if od_bitlength obj \<le> 64 then Some (map_offset m, od_bitlength obj, val) else None
   }"

definition all_windows :: "'w env \<Rightarrow> 'w sys \<Rightarrow> smmap list \<Rightarrow> (u32 \<times> u32 \<times> u64) list" where
  "all_windows E s ms = List.map_filter (packed E s) ms"

lemma pack_entries_put_all:
  assumes "\<forall>m \<in> set ms. map_objd E m = Some None \<or> packed E s m \<noteq> None"
  shows "pack_entries E ms s buffer = image.put_all (all_windows E s ms) buffer"
  using assms
proof (induction ms arbitrary: buffer)
  case (Cons m ms)
  have ih: "pack_entries E ms s = image.put_all (all_windows E s ms)"
    using Cons by (intro ext) simp
  show ?case
  proof (cases "packed E s m")
    case None
    with Cons.prems have "map_objd E m = Some None" by auto
    with None ih show ?thesis by (simp add: pack_entry_def all_windows_def map_filter_simps)
  next
    case (Some w)
    then obtain obj val where "map_objd E m = Some (Some obj)" "COE_getValue obj s = Some val"
      "od_bitlength obj \<le> 64" "w = (map_offset m, od_bitlength obj, val)"
      by (auto simp: packed_def bind_eq_Some_conv split: if_splits)
    with Some ih show ?thesis
      by (simp add: pack_entry_def all_windows_def map_filter_simps not_less [symmetric])
  qed
qed (simp add: all_windows_def map_filter_simps)

text \<open>
  The master reads every mapped object: after packing a mapping whose windows do not
  overlap, each window of the process image holds the object's value.
\<close>

lemma COE_pdoPack_windows:
  assumes nm: "0 \<le> nmappings" "nat nmappings \<le> length mappings"
    and known: "\<forall>m \<in> set (take (nat nmappings) mappings).
        map_objd E m = Some None \<or> packed E s m \<noteq> None"
    and fits: "\<forall>(f, n, v) \<in> set (all_windows E s (take (nat nmappings) mappings)). slice_fits buffer f n"
    and dis: "sorted_wrt (\<lambda>x y. disjoint_windows (fst x, fst (snd x)) (fst y, fst (snd y)))
        (all_windows E s (take (nat nmappings) mappings))"
  shows "\<exists>buffer'. COE_pdoPack E buffer nmappings mappings s = Some buffer' \<and>
    (\<forall>(f, n, v) \<in> set (all_windows E s (take (nat nmappings) mappings)).
       COE_bitsliceGet buffer' f n = Some (take_bit (unat n) v))"
proof -
  let ?ms = "take (nat nmappings) mappings"
  have len: "\<forall>(f, n, v) \<in> set (all_windows E s ?ms). unat n \<le> 64"
    by (auto simp: all_windows_def packed_def bind_eq_Some_conv map_filter_def word_le_nat_alt split: if_splits)
  have "\<forall>(f, n, v) \<in> set (all_windows E s ?ms). slice_fits buffer f n \<and> unat n \<le> 64"
    using fits len by fastforce
  from image.put_all_get [OF this dis] obtain b where
    "image.put_all (all_windows E s ?ms) buffer = Some b"
    "\<forall>(f, n, v) \<in> set (all_windows E s ?ms). COE_bitsliceGet b f n = Some (take_bit (unat n) v)"
    by blast
  moreover have "nmappings \<le> int (length mappings)" using nm by linarith
  ultimately show ?thesis
    by (intro exI [of _ b]) (simp add: COE_pdoPack_def pack_entries_put_all [OF known])
qed

end
