(* ===== verification/Pdo_Image.thy ===== *)
theory Pdo_Image
  imports Coe_Pdo
begin

text \<open>
  Packing and unpacking over the mapping that \<open>sizeOfPDO\<close> builds: the layout gives windows
  that do not overlap and fit the image, so that every mapped object is found at its place;
  unpacking writes every mapped object, and an image that was packed is restored.
\<close>

section \<open>Windows of a layout\<close>

text \<open>
  What the application guarantees of a mapping value: its object exists, its bit length is
  the object's, between 1 and 64, and its variable can be read.
\<close>

definition mapped_objd :: "'w env \<Rightarrow> u32 \<Rightarrow> objd option" where
  "mapped_objd E v = (case map_target E v of
     Some (Some m) \<Rightarrow> Option.bind (map_objd E \<lparr>map_obj = m, map_offset = 0\<rparr>) (\<lambda>x. x) | _ \<Rightarrow> None)"

definition mapping_ok :: "'w env \<Rightarrow> 'w sys \<Rightarrow> u32 \<Rightarrow> bool" where
  "mapping_ok E s v \<longleftrightarrow> map_target E v = Some (Some None) \<or>
     (\<exists>d. mapped_objd E v = Some d \<and> unat (od_bitlength d) = entry_bits v \<and>
        0 < entry_bits v \<and> entry_bits v \<le> 64 \<and> COE_getValue d s \<noteq> None)"

lemma mapping_okE:
  assumes "mapping_ok E s v"
  obtains (padding) "map_target E v = Some (Some None)"
  | (mapped) m d val where "map_target E v = Some (Some (Some m))" "mapped_objd E v = Some d"
      "\<And>off. map_objd E \<lparr>map_obj = Some m, map_offset = off\<rparr> = Some (Some d)"
      "unat (od_bitlength d) = entry_bits v" "0 < entry_bits v" "entry_bits v \<le> 64"
      "COE_getValue d s = Some val"
proof (cases "map_target E v = Some (Some None)")
  case False
  with assms obtain d where d: "mapped_objd E v = Some d" "unat (od_bitlength d) = entry_bits v"
    "0 < entry_bits v" "entry_bits v \<le> 64" "COE_getValue d s \<noteq> None"
    by (auto simp: mapping_ok_def)
  then obtain m where "map_target E v = Some (Some (Some m))"
    "\<And>off. map_objd E \<lparr>map_obj = Some m, map_offset = off\<rparr> = Some (Some d)"
    by (auto simp: mapped_objd_def map_objd_def bind_eq_Some_conv split: option.splits)
  with d show ?thesis by (auto intro: mapped)
qed (rule padding)

text \<open>The window of the first value of a layout.\<close>

lemma packed_layout_Cons:
  assumes "mapping_ok E s v"
  shows "map_objd E (hd (layout E off (v # vs))) = Some None \<and> packed E s (hd (layout E off (v # vs))) = None \<or>
    (\<exists>d val. mapped_objd E v = Some d \<and> COE_getValue d s = Some val \<and>
       unat (od_bitlength d) = entry_bits v \<and> 0 < entry_bits v \<and> entry_bits v \<le> 64 \<and>
       packed E s (hd (layout E off (v # vs))) = Some (of_nat off, od_bitlength d, val))"
  using assms
proof (cases rule: mapping_okE)
  case padding
  then show ?thesis by (simp add: packed_def map_objd_def)
next
  case (mapped m d val)
  then show ?thesis by (simp add: packed_def word_le_nat_alt)
qed

lemma layout_known:
  "\<forall>v \<in> set vs. mapping_ok E s v \<Longrightarrow> m \<in> set (layout E off vs) \<Longrightarrow>
     map_objd E m = Some None \<or> packed E s m \<noteq> None"
proof (induction vs arbitrary: off)
  case (Cons v vs)
  then have "mapping_ok E s v" by simp
  from packed_layout_Cons [OF this, of off vs] Cons show ?case by auto
qed simp

lemma layout_window_bounds:
  assumes "\<forall>v \<in> set vs. mapping_ok E s v" and "off + sum_list (map entry_bits vs) < 2 ^ 32"
    and "(f, n, v) \<in> set (all_windows E s (layout E off vs))"
  shows "off \<le> unat f \<and> unat f + unat n \<le> off + sum_list (map entry_bits vs) \<and> 0 < unat n \<and> unat n \<le> 64"
  using assms
proof (induction vs arbitrary: off)
  case (Cons w vs)
  have ok: "mapping_ok E s w" using Cons.prems(1) by simp
  have o: "unat (of_nat off :: u32) = off"
    using Cons.prems(2) by (simp add: unat_of_nat take_bit_nat_eq_self)
  have tl: "off \<le> unat f \<and> unat f + unat n \<le> off + sum_list (map entry_bits (w # vs)) \<and> 0 < unat n \<and> unat n \<le> 64"
    if "(f, n, v) \<in> set (all_windows E s (layout E (off + entry_bits w) vs))"
    using Cons.IH [of "off + entry_bits w"] Cons.prems(1,2) that by (auto simp: add.assoc)
  from packed_layout_Cons [OF ok, of off vs] Cons.prems(3) o tl show ?case
    by (auto simp: all_windows_def map_filter_simps split: if_splits)
qed (simp add: all_windows_def map_filter_simps)

lemma layout_windows_disjoint:
  assumes "\<forall>v \<in> set vs. mapping_ok E s v" and "off + sum_list (map entry_bits vs) < 2 ^ 32"
  shows "sorted_wrt (\<lambda>x y. disjoint_windows (fst x, fst (snd x)) (fst y, fst (snd y)))
    (all_windows E s (layout E off vs))"
  using assms
proof (induction vs arbitrary: off)
  case (Cons w vs)
  have ok: "mapping_ok E s w" using Cons.prems(1) by simp
  have o: "unat (of_nat off :: u32) = off"
    using Cons.prems(2) by (simp add: unat_of_nat take_bit_nat_eq_self)
  have tl: "off + entry_bits w \<le> unat f"
    if "(f, n, v) \<in> set (all_windows E s (layout E (off + entry_bits w) vs))" for f n v
    using layout_window_bounds [OF _ _ that] Cons.prems by (simp add: add.assoc)
  have ih: "sorted_wrt (\<lambda>x y. disjoint_windows (fst x, fst (snd x)) (fst y, fst (snd y)))
    (all_windows E s (layout E (off + entry_bits w) vs))"
    by (rule Cons.IH) (use Cons.prems in \<open>auto simp: add.assoc\<close>)
  have hd: "disjoint_windows (of_nat off, d) (f, n)"
    if "unat d = entry_bits w" "(f, n, v) \<in> set (all_windows E s (layout E (off + entry_bits w) vs))"
    for d f n v
    using tl [OF that(2)] that(1) o by (simp add: disjoint_windows_def)
  from packed_layout_Cons [OF ok, of off vs] show ?case
  proof (elim disjE conjE exE)
    assume "packed E s (hd (layout E off (w # vs))) = None"
    with ih show ?thesis by (simp add: all_windows_def map_filter_simps)
  next
    fix d val assume "unat (od_bitlength d) = entry_bits w"
      "packed E s (hd (layout E off (w # vs))) = Some (of_nat off, od_bitlength d, val)"
    with ih hd [of "od_bitlength d"] show ?thesis
      by (force simp: all_windows_def map_filter_simps)
  qed
qed (simp add: all_windows_def map_filter_simps)

lemma slice_fits_inside:
  assumes "length buf = 8 * w" "unat f + unat n \<le> 64 * w" "0 < unat n"
  shows "slice_fits buf f n"
proof -
  let ?k = "unat f div 64" and ?b = "unat f mod 64"
  have f: "unat f = 64 * ?k + ?b" by simp
  have "?k + 1 \<le> w"
  proof (rule ccontr)
    assume "\<not> ?k + 1 \<le> w"
    then have "64 * w \<le> 64 * ?k" by simp
    with f assms show False by linarith
  qed
  moreover have "?k + 2 \<le> w" if "unat n + ?b > 64"
  proof (rule ccontr)
    assume "\<not> ?k + 2 \<le> w"
    then have "64 * w \<le> 64 * ?k + 64" by simp
    with f assms that show False by linarith
  qed
  ultimately show ?thesis using assms(1) by (auto simp: slice_fits_def)
qed

text \<open>Packing the mapping of a list of values.\<close>

lemma pack_layout:
  assumes vals: "\<forall>v \<in> set vs. mapping_ok E s v"
    and buf: "length buffer = 8 * w" "sum_list (map entry_bits vs) \<le> 64 * w"
      "sum_list (map entry_bits vs) < 2 ^ 32"
  shows "\<exists>buffer'. COE_pdoPack E buffer (int (length vs)) (layout E 0 vs @ rest) s = Some buffer' \<and>
    (\<forall>i < length vs. \<forall>d val. mapped_objd E (vs ! i) = Some d \<longrightarrow> COE_getValue d s = Some val \<longrightarrow>
       COE_bitsliceGet buffer' (of_nat (sum_list (map entry_bits (take i vs)))) (od_bitlength d) =
         Some (take_bit (entry_bits (vs ! i)) val))"
proof -
  let ?ms = "layout E 0 vs" and ?f = "\<lambda>i. sum_list (map entry_bits (take i vs))"
  have nm: "take (nat (int (length vs))) (?ms @ rest) = ?ms" by simp
  have bounds: "(f, n, v) \<in> set (all_windows E s ?ms) \<Longrightarrow>
      unat f + unat n \<le> sum_list (map entry_bits vs) \<and> 0 < unat n" for f n v
    using layout_window_bounds [OF vals, of 0 f n v] buf(3) by simp
  obtain b where b: "COE_pdoPack E buffer (int (length vs)) (?ms @ rest) s = Some b"
    "\<forall>(f, n, v) \<in> set (all_windows E s ?ms). COE_bitsliceGet b f n = Some (take_bit (unat n) v)"
    using COE_pdoPack_windows [of "int (length vs)" "?ms @ rest" E s buffer, unfolded nm]
      layout_known [OF vals] layout_windows_disjoint [OF vals, of 0] buf
      slice_fits_inside [OF buf(1)] bounds by fastforce
  have "COE_bitsliceGet b (of_nat (?f i)) (od_bitlength d) = Some (take_bit (entry_bits (vs ! i)) val)"
    if i: "i < length vs" "mapped_objd E (vs ! i) = Some d" "COE_getValue d s = Some val" for i d val
  proof -
    have ok: "mapping_ok E s (vs ! i)" using vals i(1) by simp
    then have w: "packed E s (?ms ! i) = Some (of_nat (?f i), od_bitlength d, val) \<and>
        unat (od_bitlength d) = entry_bits (vs ! i)"
    proof (cases rule: mapping_okE)
      case padding
      with i(2) show ?thesis by (simp add: mapped_objd_def map_objd_def)
    next
      case (mapped m d' v')
      with i show ?thesis by (simp add: packed_def layout_nth word_le_nat_alt)
    qed
    have "?ms ! i \<in> set ?ms" using i(1) by simp
    then have "(of_nat (?f i), od_bitlength d, val) \<in> set (all_windows E s ?ms)"
      using w by (force simp: all_windows_def map_filter_def)
    with b w show ?thesis by fastforce
  qed
  with b(1) show ?thesis by blast
qed

lemma pack_length:
  assumes "COE_pdoPack E buffer nm ms s = Some img"
  shows "length img = length buffer"
proof -
  have bits: "COE_bitsliceSet b f n v = Some b' \<Longrightarrow> length b' = length b" for b f n v b'
    by (auto simp: COE_bitsliceSet_def set_word64_def bind_eq_Some_conv split: if_splits
        dest!: put_bytes_length)
  have entry: "pack_entry E m s b = Some b' \<Longrightarrow> length b' = length b" for m b b'
    by (auto simp: pack_entry_def bind_eq_Some_conv split: option.splits if_splits
        dest: bits put_bytes_length)
  have "pack_entries E ms s b = Some b' \<Longrightarrow> length b' = length b" for ms b b'
    by (induction ms arbitrary: b) (auto simp: bind_eq_Some_conv dest: entry)
  with assms show ?thesis by (auto simp: COE_pdoPack_def split: if_splits)
qed

section \<open>Memory cells of a variable\<close>

definition od_cells :: "objd \<Rightarrow> (block \<times> nat) set" where
  "od_cells d = (case (od_data d, value_size (od_datatype d)) of
     (Some (b, off), Some n) \<Rightarrow> {b} \<times> {off..<off + n} | _ \<Rightarrow> {})"

definition writable :: "objd \<Rightarrow> bool" where
  "writable d \<longleftrightarrow> (case od_data d of Some (Konst v, off) \<Rightarrow> False | Some p \<Rightarrow> True | None \<Rightarrow> False)"

lemma mem_put_get_same:
  "mem_put p bs s = Some s' \<Longrightarrow> mem_get p (length bs) s' = Some bs"
  by (cases p; cases "fst p") (auto simp: mem_put_def mem_get_def intro: get_put_same)

lemma mem_put_get_other:
  assumes "mem_put p bs s = Some s'" and "fst p \<noteq> fst q \<or> snd q + n \<le> snd p \<or> snd p + length bs \<le> snd q"
  shows "mem_get q n s' = mem_get q n s"
  using assms by (cases "fst p"; cases "fst q") (auto simp: mem_put_def mem_get_def intro: get_put_disjoint)

lemma mem_put_readable:
  assumes "mem_put p bs s = Some s'" shows "mem_get q n s' \<noteq> None \<longleftrightarrow> mem_get q n s \<noteq> None"
  using assms by (cases "fst p"; cases "fst q")
    (auto simp: mem_put_def mem_get_def get_bytes_def dest: put_bytes_length split: if_splits)

lemma mem_put_some:
  assumes "mem_get p (length bs) s \<noteq> None" and "\<forall>v. fst p \<noteq> Konst v"
  shows "\<exists>s'. mem_put p bs s = Some s'"
  using assms by (cases "fst p") (auto simp: mem_put_def mem_get_def get_bytes_def put_bytes_def split: if_splits)

lemma rd_le_bytes: "rd_le (le_bytes n v) = take_bit (8 * n) v" if "n \<le> 8"
  by (rule bit_word_eqI) (use that in \<open>auto simp: bit_rd_le buf_bit_le_bytes bit_simps\<close>)

lemma value_size_le: "value_size dt = Some n \<Longrightarrow> 0 < n \<and> n \<le> 8"
  by (auto simp: value_size_def split: if_splits)

lemma COE_setValue_ok:
  assumes w: "writable d" and r: "COE_getValue d s \<noteq> None"
  obtains s' n where "COE_setValue d v s = Some s'" "value_size (od_datatype d) = Some n"
    "COE_getValue d s' = Some (take_bit (8 * n) v)"
    "\<And>e. od_cells e \<inter> od_cells d = {} \<Longrightarrow> COE_getValue e s' = COE_getValue e s"
    "\<And>e. COE_getValue e s' \<noteq> None \<longleftrightarrow> COE_getValue e s \<noteq> None"
proof -
  from r obtain n p bs where n: "value_size (od_datatype d) = Some n" and p: "od_data d = Some p"
    and bs: "mem_get p n s = Some bs"
    by (auto simp: COE_getValue_def bind_eq_Some_conv)
  note n8 = value_size_le [OF n]
  have "\<forall>v. fst p \<noteq> Konst v" using w p by (cases p) (auto simp: writable_def)
  with bs mem_put_some [of p "le_bytes n v" s] obtain s' where s': "mem_put p (le_bytes n v) s = Some s'"
    by auto
  show ?thesis
  proof (rule that [OF _ n])
    show "COE_setValue d v s = Some s'" using n p s' by (simp add: COE_setValue_def)
    show "COE_getValue d s' = Some (take_bit (8 * n) v)"
      using mem_put_get_same [OF s'] n p n8 by (simp add: COE_getValue_def rd_le_bytes)
    show "COE_getValue e s' \<noteq> None \<longleftrightarrow> COE_getValue e s \<noteq> None" for e
      using mem_put_readable [OF s'] by (auto simp: COE_getValue_def bind_eq_None_conv)
    show "COE_getValue e s' = COE_getValue e s" if dis: "od_cells e \<inter> od_cells d = {}" for e
    proof (cases "value_size (od_datatype e)")
      case (Some k)
      then show ?thesis
      proof (cases "od_data e")
        case (Some q)
        have "fst p \<noteq> fst q \<or> snd q + k \<le> snd p \<or> snd p + length (le_bytes n v) \<le> snd q"
        proof (rule ccontr)
          assume c: "\<not> ?thesis"
          then have "(fst p, max (snd p) (snd q)) \<in> od_cells e \<inter> od_cells d"
            using n p Some \<open>value_size (od_datatype e) = Some k\<close> n8 value_size_le [of _ k]
            by (auto simp: od_cells_def max_def split: prod.splits)
          with dis show False by simp
        qed
        from mem_put_get_other [OF s' this] show ?thesis by (simp add: COE_getValue_def Some \<open>value_size (od_datatype e) = Some k\<close>)
      qed (simp add: COE_getValue_def)
    qed (simp add: COE_getValue_def)
  qed
qed

section \<open>Unpacking a layout\<close>

text \<open>Each mapped variable can be written, is wide enough, and shares no cell with another.\<close>

definition target_ok :: "'w env \<Rightarrow> u32 \<Rightarrow> bool" where
  "target_ok E v \<longleftrightarrow> (\<forall>d. mapped_objd E v = Some d \<longrightarrow> writable d \<and>
     (\<exists>n. value_size (od_datatype d) = Some n \<and> entry_bits v \<le> 8 * n))"

definition apart :: "'w env \<Rightarrow> u32 \<Rightarrow> u32 \<Rightarrow> bool" where
  "apart E v w \<longleftrightarrow> (\<forall>d e. mapped_objd E v = Some d \<longrightarrow> mapped_objd E w = Some e \<longrightarrow>
     od_cells e \<inter> od_cells d = {})"

lemma slice_narrow:
  assumes "COE_bitsliceGet buf f n = Some v" "unat n \<le> 64" "unat n \<le> k"
  shows "take_bit k v = v"
  by (rule bit_word_eqI) (use assms in \<open>auto simp: bit_simps COE_bitsliceGet_bit\<close>)

lemma unpack_layout:
  assumes "\<forall>v \<in> set vs. mapping_ok E s v \<and> target_ok E v" and "sorted_wrt (apart E) vs"
    and buf: "length buffer = 8 * w" "off + sum_list (map entry_bits vs) \<le> 64 * w"
      "off + sum_list (map entry_bits vs) < 2 ^ 32"
  shows "\<exists>s'. unpack_entries E buffer (layout E off vs) s = Some s' \<and>
    (\<forall>i < length vs. \<forall>d. mapped_objd E (vs ! i) = Some d \<longrightarrow>
       COE_getValue d s' = COE_bitsliceGet buffer (of_nat (off + sum_list (map entry_bits (take i vs)))) (od_bitlength d)) \<and>
    (\<forall>e. (\<forall>v \<in> set vs. \<forall>d. mapped_objd E v = Some d \<longrightarrow> od_cells e \<inter> od_cells d = {}) \<longrightarrow>
       COE_getValue e s' = COE_getValue e s)"
  using assms
proof (induction vs arbitrary: off s)
  case (Cons v vs)
  have ok: "mapping_ok E s v" and tgt: "target_ok E v" using Cons.prems(1) by auto
  have room: "off + entry_bits v + sum_list (map entry_bits vs) \<le> 64 * w"
    "off + entry_bits v + sum_list (map entry_bits vs) < 2 ^ 32"
    using Cons.prems(4,5) by (simp_all add: add.assoc)
  show ?case using ok
  proof (cases rule: mapping_okE)
    case padding
    then have none: "mapped_objd E v = None" by (simp add: mapped_objd_def map_objd_def)
    from Cons.IH [of s "off + entry_bits v"] Cons.prems room obtain s' where
      s': "unpack_entries E buffer (layout E (off + entry_bits v) vs) s = Some s'"
      "\<forall>i < length vs. \<forall>d. mapped_objd E (vs ! i) = Some d \<longrightarrow>
         COE_getValue d s' = COE_bitsliceGet buffer (of_nat (off + entry_bits v + sum_list (map entry_bits (take i vs)))) (od_bitlength d)"
      "\<forall>e. (\<forall>v \<in> set vs. \<forall>d. mapped_objd E v = Some d \<longrightarrow> od_cells e \<inter> od_cells d = {}) \<longrightarrow>
         COE_getValue e s' = COE_getValue e s" by auto
    then show ?thesis using padding none
      by (intro exI [of _ s']) (auto simp: unpack_entry_def map_objd_def nth_Cons take_Cons add.assoc split: nat.splits)
  next
    case (mapped m d val)
    let ?f = "of_nat off :: u32"
    have o: "unat ?f = off" using room by (simp add: unat_of_nat take_bit_nat_eq_self)
    have "slice_fits buffer ?f (od_bitlength d)"
      by (rule slice_fits_inside [OF buf(1)]) (use o mapped room in simp_all)
    then obtain x where x: "COE_bitsliceGet buffer ?f (od_bitlength d) = Some x"
      using COE_bitsliceGet_some by blast
    obtain n where n: "writable d" "value_size (od_datatype d) = Some n" "entry_bits v \<le> 8 * n"
      using tgt mapped(2) by (auto simp: target_ok_def)
    have "COE_getValue d s \<noteq> None" using mapped by simp
    from COE_setValue_ok [OF n(1) this, of x] n(2) obtain s1 where
      s1: "COE_setValue d x s = Some s1" "COE_getValue d s1 = Some (take_bit (8 * n) x)"
      "\<And>e. od_cells e \<inter> od_cells d = {} \<Longrightarrow> COE_getValue e s1 = COE_getValue e s"
      "\<And>e. COE_getValue e s1 \<noteq> None \<longleftrightarrow> COE_getValue e s \<noteq> None" by (metis option.inject)
    have "take_bit (8 * n) x = x" using slice_narrow [OF x] mapped n(3) by simp
    with s1(2) x have d1: "COE_getValue d s1 = COE_bitsliceGet buffer ?f (od_bitlength d)" by simp
    have ok1: "\<forall>v \<in> set vs. mapping_ok E s1 v \<and> target_ok E v"
      using Cons.prems(1) s1(4) by (auto simp: mapping_ok_def)
    from Cons.IH [OF ok1, of "off + entry_bits v"] Cons.prems(2) buf(1) room obtain s' where
      s': "unpack_entries E buffer (layout E (off + entry_bits v) vs) s1 = Some s'"
      "\<forall>i < length vs. \<forall>d. mapped_objd E (vs ! i) = Some d \<longrightarrow>
         COE_getValue d s' = COE_bitsliceGet buffer (of_nat (off + entry_bits v + sum_list (map entry_bits (take i vs)))) (od_bitlength d)"
      "\<forall>e. (\<forall>v \<in> set vs. \<forall>d. mapped_objd E v = Some d \<longrightarrow> od_cells e \<inter> od_cells d = {}) \<longrightarrow>
         COE_getValue e s' = COE_getValue e s1" by auto
    have d': "COE_getValue d s' = COE_getValue d s1"
      using s'(3) Cons.prems(2) mapped(2) by (auto simp: apart_def)
    have step: "unpack_entry E buffer (hd (layout E off (v # vs))) s = Some s1"
      using mapped x s1(1) by (simp add: unpack_entry_def word_less_nat_alt)
    show ?thesis
      using s' d' d1 s1(3) step mapped(2)
      by (intro exI [of _ s']) (auto simp: nth_Cons take_Cons add.assoc split: nat.splits)
  qed
qed simp

end
