(* ===== verification/Sample_Slave.thy ===== *)
theory Sample_Slave
  imports Ram_Port Object_Dict
begin

text \<open>
  A small slave on the register-file port: a dictionary of the shape the generator writes
  (identity string, one output and one input PDO, a parameter), on which the properties are
  applied.
\<close>

definition entry :: "u16 \<Rightarrow> u16 \<Rightarrow> u32 \<Rightarrow> u16 \<Rightarrow> u32 \<Rightarrow> ptr option \<Rightarrow> objd" where
  "entry sub dt bits fl v d = \<lparr>od_subindex = sub, od_datatype = dt, od_bitlength = bits,
     od_flags = fl, od_name = [], od_value = v, od_data = d\<rparr>"

definition object :: "u16 \<Rightarrow> u16 \<Rightarrow> objd list \<Rightarrow> objectlist" where
  "object ix ty ds = \<lparr>ol_index = ix, ol_objtype = ty, ol_maxsub = of_nat (length ds - 1),
     ol_name = [], ol_objdesc = ds\<rparr>"

definition sample_objects :: "objectlist list" where
  "sample_objects =
    [object 0x1008 7 [entry 0 0x0009 80 0x07 0 (Some (Obj 4, 0))],
     object 0x1600 9 [entry 0 5 8 0x07 2 None, entry 1 7 32 0x07 0x70000108 None,
                      entry 2 7 32 0x07 0x70000210 None],
     object 0x1A00 9 [entry 0 5 8 0x07 2 None, entry 1 7 32 0x07 0x60000108 None,
                      entry 2 7 32 0x07 0x60000220 None],
     object 0x1C12 8 [entry 0 5 8 0x07 1 None, entry 1 6 16 0x07 0x1600 None],
     object 0x1C13 8 [entry 0 5 8 0x07 1 None, entry 1 6 16 0x07 0x1A00 None],
     object 0x6000 9 [entry 0 5 8 0x07 2 None, entry 1 5 8 0x87 0 (Some (Obj 0, 0)),
                      entry 2 7 32 0x87 0 (Some (Obj 1, 0))],
     object 0x7000 9 [entry 0 5 8 0x07 2 None, entry 1 5 8 0x7F 0 (Some (Obj 2, 0)),
                      entry 2 6 16 0x7F 0 (Some (Obj 3, 0))],
     object 0x8000 7 [entry 0 7 32 0x3F 5 (Some (Obj 5, 0))],
     \<lparr>ol_index = 0xFFFF, ol_objtype = 0xFF, ol_maxsub = 0xFF, ol_name = [], ol_objdesc = []\<rparr>]"

definition sample_env :: "ram env" where
  "sample_env = ram_env sample_objects"

lemma sample_env_simps [simp]:
  "SDOobjects sample_env = sample_objects" "opt sample_env = default_options"
  "hal_read sample_env = ram_read" "hal_write sample_env = ram_write"
  by (simp_all add: sample_env_def)

lemma sm_follows_sample: "sm_follows sample_env"
  by (rule sm_follows_ram) simp_all

lemma wf_sample: "wf_dict sample_objects"
  unfolding wf_dict_def
  by (rule exI [of _ "butlast sample_objects"], rule exI [of _ "last sample_objects"])
    (simp add: sample_objects_def wf_object_def object_def entry_def)

lemma sample_inv: "mbx_inv sample_env ram_sys"
  unfolding sample_env_def by (rule ram_sys_inv)

text \<open>The mapping of the outputs and of the inputs.\<close>

lemma sample_find:
  "SDO_findobject sample_env 0x7000 = Some 6" "SDO_findobject sample_env 0x6000 = Some 5"
  "SDO_findobject sample_env 0x1600 = Some 1" "SDO_findobject sample_env 0x1A00 = Some 2"
  "SDO_findobject sample_env 0x1C12 = Some 3" "SDO_findobject sample_env 0x1C13 = Some 4"
  "SDO_findobject sample_env 0x1008 = Some 0" "SDO_findobject sample_env 0x8000 = Some 7"
  by (simp_all add: SDO_findobject_def sample_objects_def object_def)

lemma counts: "[Suc 0..<2] = [1]" "[Suc 0..<3] = [1, 2]"
  by (simp_all add: upt_rec)

lemma sample_values:
  "pdo_values sample_env s 0x1C12 = Some [0x70000108, 0x70000210]"
  "pdo_values sample_env s 0x1C13 = Some [0x60000108, 0x60000220]"
  by (simp_all add: pdo_values_def object_values_def sample_find obj_at_def at_def sample_objects_def
      object_def entry_def obj_u8_def obj_u16_def obj_u32_def counts)

lemma sample_targets:
  "map_target sample_env 0x70000108 = Some (Some (Some (6, 1)))"
  "map_target sample_env 0x70000210 = Some (Some (Some (6, 2)))"
  "map_target sample_env 0x60000108 = Some (Some (Some (5, 1)))"
  "map_target sample_env 0x60000220 = Some (Some (Some (5, 2)))"
  by (simp_all add: map_target_def sample_find SDO_findsubindex_def search_sub_def obj_at_def at_def
      sample_objects_def object_def entry_def)

end
