(* ===== verification/Sub_Search.thy ===== *)
theory Sub_Search
  imports Object_Dict
begin

text \<open>
  The search by subindex on objects whose number of entries is not \<open>maxsub + 1\<close>: sparse ones,
  with gaps in the subindices, and ones with entries beyond \<open>maxsub\<close>. Every read of the table
  is in the model, so that a read behind its end is the result \<open>None\<close>.
\<close>

abbreviation (input) ascending :: "objd list \<Rightarrow> bool" where
  "ascending od \<equiv> sorted_wrt (\<lambda>x y. od_subindex x < od_subindex y) od"

lemma ascending_less:
  "ascending od \<Longrightarrow> i < j \<Longrightarrow> j < length od \<Longrightarrow> unat (od_subindex (od ! i)) < unat (od_subindex (od ! j))"
  by (simp add: sorted_wrt_iff_nth_less word_less_nat_alt)

text \<open>Entry \<open>i\<close> of an ascending table has a subindex of at least \<open>i\<close>.\<close>

lemma ascending_ge:
  assumes "ascending od" and "i < length od"
  shows "i \<le> unat (od_subindex (od ! i))"
  using assms(2)
proof (induction i)
  case (Suc i)
  with assms(1) have "unat (od_subindex (od ! i)) < unat (od_subindex (od ! Suc i))"
    by (simp add: sorted_wrt_iff_nth_less word_less_nat_alt)
  with Suc show ?case by simp
qed simp

lemma ascending_unique:
  assumes "ascending od" "i < length od" "j < length od" "od_subindex (od ! i) = od_subindex (od ! j)"
  shows "i = j"
  using assms ascending_less [OF assms(1), of i j] ascending_less [OF assms(1), of j i]
  by (cases i j rule: linorder_cases) auto

lemma scan_sub_past:
  "\<forall>d \<in> set od. od_subindex d < sub \<Longrightarrow> n + k \<ge> length od \<Longrightarrow> scan_sub od sub k n = None"
  by (induction k arbitrary: n) (auto simp: at_def)

text \<open>The scan stops at the first entry that is not below the subindex, if \<open>maxsub\<close> allows.\<close>

lemma scan_sub_stops:
  assumes "ascending od" and "m < length od" "\<forall>i < m. od_subindex (od ! i) < sub" "\<not> od_subindex (od ! m) < sub"
    and "n \<le> m" "m \<le> n + k"
  shows "scan_sub od sub k n = Some m"
  using assms(5,6)
proof (induction k arbitrary: n)
  case 0
  with assms(2) show ?case by (simp add: at_def)
next
  case (Suc k)
  show ?case
  proof (cases "n = m")
    case True
    with assms(2,4) show ?thesis by (simp add: at_def)
  next
    case False
    with Suc.prems have "scan_sub od sub k (Suc n) = Some m" by (intro Suc.IH) auto
    with False Suc.prems assms(2,3) show ?thesis by (simp add: at_def)
  qed
qed

text \<open>On a sparse object the search is exact below the number of entries and runs off the table above.\<close>

lemma search_sub_sparse:
  assumes asc: "ascending od" and len: "length od \<le> unat maxsub"
  shows "unat sub < length od \<Longrightarrow> n < length od \<Longrightarrow> od_subindex (od ! n) = to_u16 sub \<Longrightarrow>
           search_sub od maxsub sub = Some (int n)"
    and "unat sub < length od \<Longrightarrow> to_u16 sub \<notin> od_subindex ` set od \<Longrightarrow> search_sub od maxsub sub = Some (-1)"
    and "length od \<le> unat sub \<Longrightarrow> \<forall>d \<in> set od. od_subindex d \<le> to_u16 maxsub \<Longrightarrow> search_sub od maxsub sub = None"
proof -
  let ?k = "to_u16 sub"
  have scan: "\<exists>m. scan_sub od ?k (unat maxsub) 0 = Some m \<and> m < length od \<and>
      (\<forall>i < m. od_subindex (od ! i) < ?k) \<and> \<not> od_subindex (od ! m) < ?k" if "unat sub < length od"
  proof -
    define P where "P i \<longleftrightarrow> i < length od \<and> \<not> od_subindex (od ! i) < ?k" for i
    define m where "m = (LEAST i. P i)"
    have "P (unat sub)"
      using that ascending_ge [OF asc that] by (simp add: P_def word_less_nat_alt)
    then have p: "P m" unfolding m_def by (rule LeastI)
    moreover have "od_subindex (od ! i) < ?k" if "i < m" for i
      using not_less_Least [of i P] that p by (auto simp: m_def P_def)
    ultimately show ?thesis
      using scan_sub_stops [OF asc, of m ?k 0 "unat maxsub"] len
      by (intro exI [of _ m]) (simp add: P_def)
  qed
  show "search_sub od maxsub sub = Some (int n)"
    if "unat sub < length od" "n < length od" "od_subindex (od ! n) = ?k"
  proof -
    from scan [OF that(1)] obtain m where m: "scan_sub od ?k (unat maxsub) 0 = Some m" "m < length od"
      "\<forall>i < m. od_subindex (od ! i) < ?k" "\<not> od_subindex (od ! m) < ?k" by blast
    have "n = m"
    proof (rule linorder_cases)
      assume "n < m" with m(3) that(3) show ?thesis by auto
    next
      assume "m < n" with ascending_less [OF asc this that(2)] m(4) that(3) show ?thesis
        by (simp add: word_less_nat_alt)
    qed
    with m that ascending_unique [OF asc that(1,2)] len show ?thesis
      by (auto simp: search_sub_def at_def word_le_nat_alt)
  qed
  show "search_sub od maxsub sub = Some (-1)" if "unat sub < length od" "?k \<notin> od_subindex ` set od"
  proof -
    from scan [OF that(1)] obtain m where "scan_sub od ?k (unat maxsub) 0 = Some m" "m < length od" by blast
    moreover have "od_subindex (od ! i) \<noteq> ?k" if "i < length od" for i
      using \<open>?k \<notin> od_subindex ` set od\<close> that by (metis image_eqI nth_mem)
    ultimately show ?thesis
      using that(1) by (simp add: search_sub_def at_def)
  qed
  show "search_sub od maxsub sub = None"
    if l: "length od \<le> unat sub" and d: "\<forall>d \<in> set od. od_subindex d \<le> to_u16 maxsub"
  proof (cases "sub \<le> maxsub")
    case True
    with l show ?thesis by (simp add: search_sub_def at_def)
  next
    case False
    have "od_subindex x < ?k" if "x \<in> set od" for x
    proof -
      have "unat (od_subindex x) \<le> unat maxsub"
        using d that by (auto simp: word_le_nat_alt)
      with False show ?thesis by (simp add: word_less_nat_alt word_le_nat_alt)
    qed
    then have "scan_sub od ?k (unat maxsub) 0 = None"
      using len by (intro scan_sub_past) simp_all
    with False show ?thesis by (simp add: search_sub_def)
  qed
qed

text \<open>On an object with entries beyond \<open>maxsub\<close> those are not found.\<close>

lemma search_sub_beyond:
  assumes asc: "ascending od" and len: "unat maxsub + 1 < length od" and "maxsub < sub"
    and dense: "unat (od_subindex (od ! unat maxsub)) = unat maxsub"
  shows "search_sub od maxsub sub = Some (-1)"
proof -
  have low: "od_subindex (od ! i) < to_u16 sub" if "i \<le> unat maxsub" for i
  proof -
    have "unat (od_subindex (od ! i)) \<le> unat (od_subindex (od ! unat maxsub))"
      using ascending_less [OF asc, of i "unat maxsub"] that len by (cases "i = unat maxsub") auto
    with dense assms(3) show ?thesis by (simp add: word_less_nat_alt)
  qed
  obtain m where "scan_sub od (to_u16 sub) (unat maxsub) 0 = Some m" "m \<le> unat maxsub"
    using scan_sub_result [of 0 "unat maxsub" od "to_u16 sub"] len by auto
  with low [of m] assms(3) len show ?thesis
    by (auto simp: search_sub_def at_def)
qed

text \<open>In general: on an ascending table the search is exact over the declared entries, as long as it stays inside.\<close>

lemma search_sub_declared:
  assumes "in_table ob sub"
  shows "n < length (declared ob) \<Longrightarrow> od_subindex (declared ob ! n) = to_u16 sub \<Longrightarrow>
           search_sub (ol_objdesc ob) (ol_maxsub ob) sub = Some (int n)"
    and "to_u16 sub \<notin> od_subindex ` set (declared ob) \<Longrightarrow>
           search_sub (ol_objdesc ob) (ol_maxsub ob) sub = Some (-1)"
proof -
  let ?od = "ol_objdesc ob" and ?m = "ol_maxsub ob" and ?d = "declared ob"
  have asc: "ascending ?od" using assms by (simp add: in_table_def)
  have "search_sub ?od ?m sub = (if to_u16 sub \<in> od_subindex ` set ?d then Some (int n) else Some (-1))"
    if hit: "to_u16 sub \<in> od_subindex ` set ?d \<Longrightarrow> n < length ?d \<and> od_subindex (?d ! n) = to_u16 sub" for n
  proof (cases "unat ?m < length ?od")
    case True
    then have len: "length ?d = unat ?m + 1" by (simp add: declared_def)
    have good: "to_u16 sub < 0x100 \<and> 0 < length ?d \<and> length ?d \<le> 256 \<and> ascending ?d"
      using asc len unat_bound [of ?m] unat_bound [of sub]
      by (simp add: word_less_nat_alt) (simp add: declared_def sorted_wrt_take)
    have "search_sub ?od ?m sub = search_sub ?d (of_nat (length ?d - 1)) (to_u8 (to_u16 sub))"
      using len search_sub_take [of ?m ?od sub] by (simp add: declared_def)
    with subs.hit [OF good, of n] subs.miss [OF good] hit show ?thesis by auto
  next
    case False
    then have "?d = ?od" "length ?od \<le> unat ?m" "unat sub < length ?od"
      using assms by (simp_all add: declared_def in_table_def)
    with search_sub_sparse(1,2) [OF asc] hit show ?thesis by (metis (no_types, lifting))
  qed
  then show "n < length ?d \<Longrightarrow> od_subindex (?d ! n) = to_u16 sub \<Longrightarrow> search_sub ?od ?m sub = Some (int n)"
    and "to_u16 sub \<notin> od_subindex ` set ?d \<Longrightarrow> search_sub ?od ?m sub = Some (-1)"
    by (metis image_eqI nth_mem)+
qed

text \<open>Outside, the direct probe reads behind the end of the table, and so does the scan when it has no entry to stop at.\<close>

lemma search_sub_outside:
  assumes "ascending od" "length od \<le> unat maxsub" "length od \<le> unat sub"
    and "sub \<le> maxsub \<or> (\<forall>d \<in> set od. od_subindex d \<le> to_u16 maxsub)"
  shows "search_sub od maxsub sub = None"
  using search_sub_sparse(3) [OF assms(1,2,3)] assms(3,4) by (auto simp: search_sub_def at_def)

lemma SDO_findsubindex_result:
  assumes "obj_at E nidx = Some ob" "in_table ob sub"
  obtains (found) k where "SDO_findsubindex E nidx sub = Some (int k)" "k < length (declared ob)"
      "od_subindex (declared ob ! k) = to_u16 sub"
  | (missing) "SDO_findsubindex E nidx sub = Some (-1)" "to_u16 sub \<notin> od_subindex ` set (declared ob)"
proof (cases "to_u16 sub \<in> od_subindex ` set (declared ob)")
  case True
  then obtain k where "k < length (declared ob)" "od_subindex (declared ob ! k) = to_u16 sub"
    by (auto simp: in_set_conv_nth)
  with search_sub_declared(1) [OF assms(2)] assms(1) show ?thesis
    by (intro found) (simp_all add: SDO_findsubindex_def)
next
  case False
  with search_sub_declared(2) [OF assms(2)] assms(1) show ?thesis
    by (intro missing) (simp_all add: SDO_findsubindex_def)
qed

end
