(* ===== verification/Pdo_Props.thy ===== *)
theory Pdo_Props
  imports Pdo_Image Sample_Slave Sub_Search
begin

text \<open>
  The properties of the object dictionary and of the process data: the searches, the size
  and layout of a PDO assignment, the bit slices, and packing and unpacking over the
  mapping that the assignment gives.
\<close>

section \<open>The searches\<close>

text \<open>
  C10. The search by index is exact on every object list whose indices ascend up to the sentinel
  \<open>0xFFFF\<close>, whatever the objects look like: a present index is found at its position (that of the
  sentinel too), an absent one gives \<open>-1\<close>, and no search runs past the list.
\<close>

theorem findobject_exact:
  assumes "sorted_dict (SDOobjects E)"
  shows "\<exists>n. SDO_findobject E index = Some n \<and>
    (if index \<in> ol_index ` set (SDOobjects E)
     then 0 \<le> n \<and> nat n < length (SDOobjects E) \<and> ol_index (SDOobjects E ! nat n) = index
     else n = -1)"
  using objects.total [of "SDOobjects E" index] objects.result [of "SDOobjects E" index] assms
  by (auto simp: SDO_findobject_def)

text \<open>
  C11. The search by subindex on any object with ascending subindices, and where it goes wrong. It
  is exact over the entries that the object list declares (the first \<open>maxsub + 1\<close>), for every
  subindex when the table has at least so many entries, and for the subindices below the number
  of entries when it has fewer. A subindex from the number of entries of such a short table on is
  a read behind its end: always up to \<open>maxsub\<close>, where the direct probe reads, and for a larger one,
  where the scan does, when no entry is beyond \<open>maxsub\<close>.
\<close>

theorem findsubindex_exact:
  assumes "obj_at E nidx = Some ob" and "ascending (ol_objdesc ob)"
  shows "if unat (ol_maxsub ob) < length (ol_objdesc ob) \<or> unat sub < length (ol_objdesc ob)
    then \<exists>k. SDO_findsubindex E nidx sub = Some k \<and>
      (if to_u16 sub \<in> od_subindex ` set (declared ob)
       then 0 \<le> k \<and> nat k < length (declared ob) \<and> od_subindex (declared ob ! nat k) = to_u16 sub
       else k = -1)
    else sub \<le> ol_maxsub ob \<or> (\<forall>d \<in> set (ol_objdesc ob). od_subindex d \<le> to_u16 (ol_maxsub ob)) \<longrightarrow>
      SDO_findsubindex E nidx sub = None"
proof (cases "unat (ol_maxsub ob) < length (ol_objdesc ob) \<or> unat sub < length (ol_objdesc ob)")
  case True
  with assms(2) have "in_table ob sub" by (simp add: in_table_def)
  with assms(1) show ?thesis
    by (rule SDO_findsubindex_result) (use True in \<open>auto simp: in_set_conv_nth intro!: image_eqI [rotated, OF nth_mem]\<close>)
next
  case False
  with search_sub_outside [OF assms(2), of "ol_maxsub ob" sub] assms(1) show ?thesis
    by (auto simp: SDO_findsubindex_def)
qed

section \<open>The PDO assignment\<close>

text \<open>
  C12. A PDO assignment whose entries all name existing objects, and that fits the mapping
  array, is laid out without gaps: every mapping gets the sum of the preceding bit lengths
  as its offset, and the size is the sum of all bit lengths rounded up to bytes.
\<close>

theorem pdo_size_and_layout:
  assumes "pdo_values E s index = Some vs"
    and "index = RX_PDO_OBJIDX \<or> index = TX_PDO_OBJIDX"
    and "\<forall>v \<in> set vs. \<exists>m. map_target E v = Some (Some m)"
    and "length vs \<le> mx" "0 < mx" "mx \<le> length maps"
    and "sum_list (map entry_bits vs) \<le> 524272"
  shows "\<exists>size maps'. sizeOfPDO E index nm maps mx s = Some (size, int (length vs), maps') \<and>
    unat size = (sum_list (map entry_bits vs) + 7) div 8 \<and>
    (\<forall>i < length vs. map_target E (vs ! i) = Some (Some (map_obj (maps' ! i))) \<and>
       unat (map_offset (maps' ! i)) = sum_list (map entry_bits (take i vs)))"
proof -
  let ?n = "sum_list (map entry_bits vs)"
  have le: "sum_list (map entry_bits (take i vs)) \<le> ?n" for i
  proof -
    have "?n = sum_list (map entry_bits (take i vs)) + sum_list (map entry_bits (drop i vs))"
      by (simp flip: sum_list_append map_append)
    then show ?thesis by simp
  qed
  have "unat (of_nat ((?n + 7) div 8) :: u16) = (?n + 7) div 8"
    using assms(7) by (simp add: unat_of_nat take_bit_nat_eq_self)
  moreover have "unat (of_nat (sum_list (map entry_bits (take i vs))) :: u32) =
      sum_list (map entry_bits (take i vs))" for i
    using le [of i] assms(7) by (simp add: unat_of_nat take_bit_nat_eq_self)
  ultimately show ?thesis
    using sizeOfPDO_layout [OF assms, of nm] assms(3)
    by (auto simp: nth_append layout_nth in_set_conv_nth) (metis nth_mem option.sel)
qed

theorem pdo_size_and_layout_witness:
  "\<exists>size maps'. sizeOfPDO sample_env 0x1C12 0 (replicate 16 smmap_zero) 16 ram_sys =
       Some (size, int 2, maps') \<and> unat size = 3 \<and>
    (\<forall>i < Suc (Suc 0). map_target sample_env ([0x70000108, 0x70000210] ! i) = Some (Some (map_obj (maps' ! i))) \<and>
       unat (map_offset (maps' ! i)) = sum_list (map entry_bits (take i [0x70000108, 0x70000210])))"
  using pdo_size_and_layout [OF sample_values(1), of 16 "replicate 16 smmap_zero" 0 ram_sys]
  by (simp add: sample_targets entry_bits_def)

text \<open>
  A PDO assignment with more entries than the mapping array holds, or with an entry
  whose object or subindex does not exist, is refused: the size is 0 and the number of
  mappings \<open>-1\<close>, which makes the state machine refuse SAFEOP.
\<close>

theorem pdo_mapping_refused:
  assumes "pdo_values E s index = Some vs"
    and "index = RX_PDO_OBJIDX \<or> index = TX_PDO_OBJIDX"
    and "\<forall>v \<in> set vs. map_target E v \<noteq> None"
    and "mx < length vs \<or> (\<exists>v \<in> set vs. map_target E v = Some None)"
    and "0 < mx" "mx \<le> length maps"
  shows "\<exists>maps'. sizeOfPDO E index nm maps mx s = Some (0, -1, maps')"
  by (rule sizeOfPDO_rejects [OF assms])

theorem pdo_mapping_refused_witness:
  "\<exists>maps'. sizeOfPDO sample_env 0x1C12 0 (replicate 16 smmap_zero) 1 ram_sys = Some (0, -1, maps')"
  by (rule pdo_mapping_refused [OF sample_values(1)]) (simp_all add: sample_targets)

section \<open>Bit slices\<close>

text \<open>
  C18. Writing a slice of up to 64 bits anywhere in the process image changes exactly its own
  bits, and reading it back gives the value cut to the length; this holds also where the
  slice crosses a 64 bit word.
\<close>

theorem bitslice_write_read:
  assumes "slice_fits buf offset len" and "unat len \<le> 64"
  shows "\<exists>buf'. COE_bitsliceSet buf offset len val = Some buf' \<and> length buf' = length buf \<and>
    (\<forall>j. j < unat offset \<or> unat offset + unat len \<le> j \<longrightarrow> buf_bit buf' j = buf_bit buf j) \<and>
    COE_bitsliceGet buf' offset len = Some (take_bit (unat len) val)"
proof -
  obtain b where b: "COE_bitsliceSet buf offset len val = Some b" "length b = length buf"
    using COE_bitsliceSet_some [OF assms(1), of val] by blast
  with image.get_put [OF b(1) assms(2,1)] show ?thesis
    by (intro exI [of _ b]) (auto simp: COE_bitsliceSet_bit [OF b(1) assms(2)])
qed

theorem bitslice_write_read_witness:
  "\<exists>buf'. COE_bitsliceSet (replicate 16 0xAA) 60 9 0x155 = Some buf' \<and> length buf' = 16 \<and>
    (\<forall>j. j < 60 \<or> 69 \<le> j \<longrightarrow> buf_bit buf' j = buf_bit (replicate 16 0xAA) j) \<and>
    COE_bitsliceGet buf' 60 9 = Some 0x155"
proof -
  have v: "take_bit 9 (0x155 :: u64) = 0x155" by (simp add: take_bit_eq_mask mask_eq_decr_exp)
  show ?thesis
    using bitslice_write_read [where buf = "replicate 16 0xAA" and offset = 60 and len = 9 and val = "0x155"]
    by (simp add: slice_fits_def v)
qed

section \<open>Packing and unpacking over the assignment\<close>

lemma mapping_targets: "\<forall>v \<in> set vs. mapping_ok E s v \<Longrightarrow> \<forall>v \<in> set vs. \<exists>m. map_target E v = Some (Some m)"
  by (auto elim!: mapping_okE)

text \<open>
  The master sees every mapped input: packing over the mapping that \<open>sizeOfPDO\<close> built
  puts the value of each mapped object, cut to its bit length, at the sum of the preceding
  bit lengths, for an image of whole 64 bit words that holds them all.
\<close>

theorem mapped_inputs_sent:
  assumes "pdo_values E s index = Some vs"
    and "index = RX_PDO_OBJIDX \<or> index = TX_PDO_OBJIDX"
    and "\<forall>v \<in> set vs. mapping_ok E s v"
    and "length vs \<le> mx" "0 < mx" "mx \<le> length maps"
    and "length buffer = 8 * w" "sum_list (map entry_bits vs) \<le> 64 * w"
    and "sum_list (map entry_bits vs) \<le> 524272"
  shows "\<exists>size maps' buffer'. sizeOfPDO E index nm maps mx s = Some (size, int (length vs), maps') \<and>
    COE_pdoPack E buffer (int (length vs)) maps' s = Some buffer' \<and>
    (\<forall>i < length vs. \<forall>d val. mapped_objd E (vs ! i) = Some d \<longrightarrow> COE_getValue d s = Some val \<longrightarrow>
       COE_bitsliceGet buffer' (of_nat (sum_list (map entry_bits (take i vs)))) (od_bitlength d) =
         Some (take_bit (entry_bits (vs ! i)) val))"
  using sizeOfPDO_layout [OF assms(1,2) mapping_targets [OF assms(3)] assms(4,5,6,9), of nm]
    pack_layout [OF assms(3,7,8), of "drop (length vs) maps"] assms(9) by auto

lemma sample_mapped:
  "mapped_objd sample_env 0x70000108 = Some (entry 1 5 8 0x7F 0 (Some (Obj 2, 0)))"
  "mapped_objd sample_env 0x70000210 = Some (entry 2 6 16 0x7F 0 (Some (Obj 3, 0)))"
  "mapped_objd sample_env 0x60000108 = Some (entry 1 5 8 0x87 0 (Some (Obj 0, 0)))"
  "mapped_objd sample_env 0x60000220 = Some (entry 2 7 32 0x87 0 (Some (Obj 1, 0)))"
  by (simp_all add: mapped_objd_def sample_targets map_objd_def at_def)
    (simp_all add: sample_objects_def object_def)

lemma entry_sel [simp]:
  "od_bitlength (entry sub dt bits fl v d) = bits" "od_data (entry sub dt bits fl v d) = d"
  "od_datatype (entry sub dt bits fl v d) = dt"
  by (simp_all add: entry_def)

lemma ram_sys_omem: "omem ram_sys b = replicate 8 0"
  by (simp add: ram_sys_def init_sys_def)

lemma rd_le_zero: "rd_le (replicate n 0) = 0"
  by (induction n) simp_all

lemma sample_value:
  "COE_getValue (entry 1 5 8 fl v (Some (Obj b, 0))) ram_sys = Some 0"
  "COE_getValue (entry 2 6 16 fl v (Some (Obj b, 0))) ram_sys = Some 0"
  "COE_getValue (entry 2 7 32 fl v (Some (Obj b, 0))) ram_sys = Some 0"
  by (simp_all add: COE_getValue_def value_size_def mem_get_def get_bytes_def ram_sys_omem rd_le_zero)

lemma sample_mapping_ok:
  "v \<in> {0x70000108, 0x70000210, 0x60000108, 0x60000220} \<Longrightarrow> mapping_ok sample_env ram_sys v"
  by (auto simp: mapping_ok_def sample_mapped entry_bits_def sample_value)

theorem mapped_inputs_sent_witness:
  "\<exists>size maps' buffer'.
    sizeOfPDO sample_env 0x1C13 0 (replicate 16 smmap_zero) 16 ram_sys = Some (size, 2, maps') \<and>
    COE_pdoPack sample_env (replicate 128 7) 2 maps' ram_sys = Some buffer' \<and>
    COE_bitsliceGet buffer' 8 32 = Some 0"
  using mapped_inputs_sent [OF sample_values(2), of ram_sys 16 "replicate 16 smmap_zero" "replicate 128 7" 16 0]
  by (simp add: sample_mapping_ok sample_mapped entry_bits_def less_Suc_eq_0_disj sample_value
      all_conj_distrib) auto

text \<open>
  Unpacking writes exactly the mapped outputs: each mapped variable takes the bits of
  its window, and a variable that shares no memory cell with a mapped one keeps its value.
\<close>

theorem mapped_outputs_received:
  assumes "\<forall>v \<in> set vs. mapping_ok E s v \<and> target_ok E v" and "sorted_wrt (apart E) vs"
    and "length buffer = 8 * w" "sum_list (map entry_bits vs) \<le> 64 * w"
      "sum_list (map entry_bits vs) < 2 ^ 32"
  shows "\<exists>s'. COE_pdoUnpack E buffer (int (length vs)) (layout E 0 vs @ rest) s = Some s' \<and>
    (\<forall>i < length vs. \<forall>d. mapped_objd E (vs ! i) = Some d \<longrightarrow> COE_getValue d s' =
       COE_bitsliceGet buffer (of_nat (sum_list (map entry_bits (take i vs)))) (od_bitlength d)) \<and>
    (\<forall>e. (\<forall>v \<in> set vs. \<forall>d. mapped_objd E v = Some d \<longrightarrow> od_cells e \<inter> od_cells d = {}) \<longrightarrow>
       COE_getValue e s' = COE_getValue e s)"
  using unpack_layout [OF assms(1,2,3), of 0] assms(4,5) by (simp add: COE_pdoUnpack_def)

lemma sample_targets_ok:
  "v \<in> {0x70000108, 0x70000210, 0x60000108, 0x60000220} \<Longrightarrow> target_ok sample_env v"
  by (auto simp: target_ok_def sample_mapped writable_def value_size_def entry_bits_def)

lemma sample_apart: "sorted_wrt (apart sample_env) [0x70000108, 0x70000210]"
  by (simp add: apart_def sample_mapped od_cells_def value_size_def)

theorem mapped_outputs_received_witness:
  "\<exists>s'. COE_pdoUnpack sample_env (replicate 128 7) 2 (layout sample_env 0 [0x70000108, 0x70000210]) ram_sys = Some s' \<and>
    COE_getValue (entry 2 6 16 0x7F 0 (Some (Obj 3, 0))) s' = COE_bitsliceGet (replicate 128 7) 8 16"
  using mapped_outputs_received [of "[0x70000108, 0x70000210]" sample_env ram_sys "replicate 128 7" 16 "[]",
      OF _ sample_apart]
  by (auto simp: sample_mapping_ok sample_targets_ok sample_mapped entry_bits_def less_Suc_eq_0_disj
      simp del: layout.simps)

text \<open>
  C19. Process data survive the round trip: what one slave packs, another with the same
  mapping unpacks to the same values, cut to the mapped bit length.
\<close>

theorem pdo_roundtrip:
  assumes "\<forall>v \<in> set vs. mapping_ok E s v" and "\<forall>v \<in> set vs. mapping_ok E t v \<and> target_ok E v"
    and "sorted_wrt (apart E) vs"
    and "length buffer = 8 * w" "sum_list (map entry_bits vs) \<le> 64 * w"
      "sum_list (map entry_bits vs) < 2 ^ 32"
  shows "\<exists>img t'. COE_pdoPack E buffer (int (length vs)) (layout E 0 vs) s = Some img \<and>
    COE_pdoUnpack E img (int (length vs)) (layout E 0 vs) t = Some t' \<and>
    (\<forall>i < length vs. \<forall>d val. mapped_objd E (vs ! i) = Some d \<longrightarrow> COE_getValue d s = Some val \<longrightarrow>
       COE_getValue d t' = Some (take_bit (entry_bits (vs ! i)) val))"
proof -
  obtain img where img: "COE_pdoPack E buffer (int (length vs)) (layout E 0 vs) s = Some img"
    "\<forall>i < length vs. \<forall>d val. mapped_objd E (vs ! i) = Some d \<longrightarrow> COE_getValue d s = Some val \<longrightarrow>
       COE_bitsliceGet img (of_nat (sum_list (map entry_bits (take i vs)))) (od_bitlength d) =
         Some (take_bit (entry_bits (vs ! i)) val)"
    using pack_layout [OF assms(1,4,5,6), of "[]"] by auto
  have "length img = 8 * w" using pack_length [OF img(1)] assms(4) by simp
  from unpack_layout [OF assms(2,3) this, of 0] assms(5,6) img show ?thesis
    by (auto simp: COE_pdoUnpack_def)
qed

theorem pdo_roundtrip_witness:
  "\<exists>img t'. COE_pdoPack sample_env (replicate 128 7) 2 (layout sample_env 0 [0x70000108, 0x70000210]) ram_sys = Some img \<and>
    COE_pdoUnpack sample_env img 2 (layout sample_env 0 [0x70000108, 0x70000210]) ram_sys = Some t' \<and>
    COE_getValue (entry 2 6 16 0x7F 0 (Some (Obj 3, 0))) t' = Some 0"
  using pdo_roundtrip [of "[0x70000108, 0x70000210]" sample_env ram_sys ram_sys "replicate 128 7" 16,
      OF _ _ sample_apart]
  by (auto simp: sample_mapping_ok sample_targets_ok sample_mapped entry_bits_def less_Suc_eq_0_disj
      sample_value all_conj_distrib simp del: layout.simps)

end
