(* ===== verification/Coe_Sdo.thy ===== *)
theory Coe_Sdo
  imports Coe_Pdo Esc_Pool
begin

text \<open>
  The SDO server of \<open>esc_coe.c\<close>: abort replies, the held-back reply, upload and download
  (expedited, normal, segmented, complete access), and the object handlers of
  \<open>ecat_slv.c\<close> that it calls. A pointer dereferenced while NULL, or an access outside the
  memory a pointer belongs to, gives no result.
\<close>

section \<open>Constants\<close>

abbreviation (input) ABORT_UNSUPPORTED :: u32 where "ABORT_UNSUPPORTED \<equiv> 0x06010000"
abbreviation (input) ABORT_WRITEONLY :: u32 where "ABORT_WRITEONLY \<equiv> 0x06010001"
abbreviation (input) ABORT_READONLY :: u32 where "ABORT_READONLY \<equiv> 0x06010002"
abbreviation (input) ABORT_SUBINDEX0_NOT_ZERO :: u32 where "ABORT_SUBINDEX0_NOT_ZERO \<equiv> 0x06010003"
abbreviation (input) ABORT_CA_NOT_SUPPORTED :: u32 where "ABORT_CA_NOT_SUPPORTED \<equiv> 0x06010004"
abbreviation (input) ABORT_NOOBJECT :: u32 where "ABORT_NOOBJECT \<equiv> 0x06020000"
abbreviation (input) ABORT_TYPEMISMATCH :: u32 where "ABORT_TYPEMISMATCH \<equiv> 0x06070010"
abbreviation (input) ABORT_NOSUBINDEX :: u32 where "ABORT_NOSUBINDEX \<equiv> 0x06090011"
abbreviation (input) ABORT_GENERALERROR :: u32 where "ABORT_GENERALERROR \<equiv> 0x08000000"
abbreviation (input) ABORT_NOTINTHISSTATE :: u32 where "ABORT_NOTINTHISSTATE \<equiv> 0x08000022"
abbreviation (input) ESC_SDO_PENDING :: u32 where "ESC_SDO_PENDING \<equiv> 0xFFFFFFFF"

abbreviation (input) COE_DEFAULTLENGTH :: u16 where "COE_DEFAULTLENGTH \<equiv> 0x0A"
abbreviation (input) COE_HEADERSIZE :: u32 where "COE_HEADERSIZE \<equiv> 0x0A"
abbreviation (input) COE_SEGMENTHEADERSIZE :: u32 where "COE_SEGMENTHEADERSIZE \<equiv> 0x03"
abbreviation (input) COE_SDOREQUEST :: u16 where "COE_SDOREQUEST \<equiv> 0x02"
abbreviation (input) COE_SDORESPONSE :: u16 where "COE_SDORESPONSE \<equiv> 0x03"
abbreviation (input) COE_SDOINFORMATION :: u16 where "COE_SDOINFORMATION \<equiv> 0x08"
abbreviation (input) COE_COMMAND_SDOABORT :: u8 where "COE_COMMAND_SDOABORT \<equiv> 0x80"
abbreviation (input) COE_COMMAND_UPLOADRESPONSE :: u8 where "COE_COMMAND_UPLOADRESPONSE \<equiv> 0x40"
abbreviation (input) COE_COMMAND_UPLOADSEGMENT :: u8 where "COE_COMMAND_UPLOADSEGMENT \<equiv> 0x00"
abbreviation (input) COE_COMMAND_DOWNLOADRESPONSE :: u8 where "COE_COMMAND_DOWNLOADRESPONSE \<equiv> 0x60"
abbreviation (input) COE_COMMAND_DOWNLOADSEGRESP :: u8 where "COE_COMMAND_DOWNLOADSEGRESP \<equiv> 0x20"
abbreviation (input) COE_COMMAND_LASTSEGMENTBIT :: u8 where "COE_COMMAND_LASTSEGMENTBIT \<equiv> 0x01"
abbreviation (input) COE_SIZE_INDICATOR :: u8 where "COE_SIZE_INDICATOR \<equiv> 0x01"
abbreviation (input) COE_EXPEDITED_INDICATOR :: u8 where "COE_EXPEDITED_INDICATOR \<equiv> 0x02"
abbreviation (input) COE_COMPLETEACCESS :: u8 where "COE_COMPLETEACCESS \<equiv> 0x10"
abbreviation (input) COE_TOGGLEBIT :: u8 where "COE_TOGGLEBIT \<equiv> 0x10"

abbreviation (input) DTYPE_VISIBLE_STRING :: u16 where "DTYPE_VISIBLE_STRING \<equiv> 0x0009"
abbreviation (input) DTYPE_OCTET_STRING :: u16 where "DTYPE_OCTET_STRING \<equiv> 0x000A"
abbreviation (input) DTYPE_UNICODE_STRING :: u16 where "DTYPE_UNICODE_STRING \<equiv> 0x000B"
abbreviation (input) ATYPE_RO :: u16 where "ATYPE_RO \<equiv> 0x07"

section \<open>The object handlers of \<open>ecat_slv.c\<close>\<close>

definition IS_RXPDO :: "u16 \<Rightarrow> bool" where "IS_RXPDO index \<longleftrightarrow> 0x1600 \<le> index \<and> index < 0x1800"
definition IS_TXPDO :: "u16 \<Rightarrow> bool" where "IS_TXPDO index \<longleftrightarrow> 0x1A00 \<le> index \<and> index < 0x1C00"

definition ESC_download_pre_objecthandler ::
  "'w env \<Rightarrow> u16 \<Rightarrow> u8 \<Rightarrow> ptr option \<Rightarrow> nat \<Rightarrow> u16 \<Rightarrow> 'w sys \<Rightarrow> (u32 \<times> 'w sys) option" where
  "ESC_download_pre_objecthandler E index subindex data len flags s = do {
     denied \<leftarrow> (if IS_RXPDO index \<or> IS_TXPDO index \<or> index = RX_PDO_OBJIDX \<or> index = TX_PDO_OBJIDX
       then do {
         let minSub = (if flags AND COMPLETE_ACCESS_FLAG = 0 then 0 else 1 :: u8);
         if subindex > minSub then do { m \<leftarrow> COE_maxSub E index s; Some (m \<noteq> 0) } else Some False
       }
       else Some False);
     if denied then Some (ABORT_SUBINDEX0_NOT_ZERO, s)
     else (case pre_object_download_hook E of
         None \<Rightarrow> Some (0, s)
       | Some h \<Rightarrow> Some (h index subindex data len flags s))
   }"

definition ESC_download_post_objecthandler :: "'w env \<Rightarrow> u16 \<Rightarrow> u8 \<Rightarrow> u16 \<Rightarrow> 'w sys \<Rightarrow> u32 \<times> 'w sys" where
  "ESC_download_post_objecthandler E index subindex flags s =
     (case post_object_download_hook E of None \<Rightarrow> (0, s) | Some h \<Rightarrow> h index subindex flags s)"

text \<open>\<open>*size\<close> is part of the result.\<close>

definition ESC_upload_pre_objecthandler ::
  "'w env \<Rightarrow> u16 \<Rightarrow> u8 \<Rightarrow> ptr option \<Rightarrow> nat \<Rightarrow> u16 \<Rightarrow> 'w sys \<Rightarrow> u32 \<times> nat \<times> 'w sys" where
  "ESC_upload_pre_objecthandler E index subindex data len flags s =
     (case pre_object_upload_hook E of None \<Rightarrow> (0, len, s) | Some h \<Rightarrow> h index subindex data len flags s)"

definition ESC_upload_post_objecthandler :: "'w env \<Rightarrow> u16 \<Rightarrow> u8 \<Rightarrow> u16 \<Rightarrow> 'w sys \<Rightarrow> u32 \<times> 'w sys" where
  "ESC_upload_post_objecthandler E index subindex flags s =
     (case post_object_upload_hook E of None \<Rightarrow> (0, s) | Some h \<Rightarrow> h index subindex flags s)"

section \<open>Replies\<close>

text \<open>
  The fields of \<open>_COEsdo\<close> in a mailbox buffer: number and service at 6, command at 8, index
  at 9, sub-index at 11, size at 12, data from 16 on.
\<close>

definition ptr_add :: "ptr \<Rightarrow> nat \<Rightarrow> ptr" where
  "ptr_add p n = (fst p, snd p + n)"

definition or_command :: "nat \<Rightarrow> u8 \<Rightarrow> 'w sys \<Rightarrow> 'w sys option" where
  "or_command MBXout bits s = do { c \<leftarrow> mbx_u8 MBXout 8 s; mbx_put MBXout 8 [c OR bits] s }"

text \<open>The assignments that start every reply of one SDO service.\<close>

definition init_coesdo :: "nat \<Rightarrow> u16 \<Rightarrow> u8 \<Rightarrow> u16 \<Rightarrow> u8 \<Rightarrow> 'w sys \<Rightarrow> 'w sys option" where
  "init_coesdo MBXout sdoservice command index subindex s = do {
     s \<leftarrow> mbx_set_length MBXout COE_DEFAULTLENGTH s;
     s \<leftarrow> mbx_set_type MBXout MBXCOE s;
     s \<leftarrow> mbx_put MBXout 6 (le16 (push_bit 12 sdoservice)) s;
     s \<leftarrow> mbx_put MBXout 8 [command] s;
     s \<leftarrow> mbx_put MBXout 9 (le16 index) s;
     mbx_put MBXout 11 [subindex] s
   }"

definition sdo_fields :: "nat \<Rightarrow> u16 \<Rightarrow> u16 \<Rightarrow> u8 \<Rightarrow> u8 \<Rightarrow> u32 \<Rightarrow> 'w sys \<Rightarrow> 'w sys option" where
  "sdo_fields MBXout service index subindex command len s = do {
     s \<leftarrow> mbx_set_length MBXout COE_DEFAULTLENGTH s;
     s \<leftarrow> mbx_set_type MBXout MBXCOE s;
     s \<leftarrow> mbx_put MBXout 6 (le16 (push_bit 12 service)) s;
     s \<leftarrow> mbx_put MBXout 9 (le16 index) s;
     s \<leftarrow> mbx_put MBXout 11 [subindex] s;
     s \<leftarrow> mbx_put MBXout 8 [command] s;
     s \<leftarrow> mbx_put MBXout 12 (le32 len) s;
     Some (set_mbxstate MBXout MBXstate_outreq s)
   }"

definition SDO_abort :: "'w env \<Rightarrow> nat \<Rightarrow> u16 \<Rightarrow> u8 \<Rightarrow> u32 \<Rightarrow> 'w sys \<Rightarrow> 'w sys option" where
  "SDO_abort E reusembx index subindex abortcode s = do {
     (MBXout, s) \<leftarrow> (if reusembx \<noteq> 0 then Some (reusembx, s) else ESC_claimbuffer E s);
     if MBXout \<noteq> 0
     then sdo_fields MBXout COE_SDOREQUEST index subindex COE_COMMAND_SDOABORT abortcode s
     else Some s
   }"

definition ESC_SDO_pending :: "'w sys \<Rightarrow> u8" where
  "ESC_SDO_pending s = sdo_held_active s"

definition ESC_SDO_complete :: "'w env \<Rightarrow> u32 \<Rightarrow> 'w sys \<Rightarrow> 'w sys option" where
  "ESC_SDO_complete E abortcode s =
     (if sdo_held_active s = 0 then Some s
      else do {
        let s = s\<lparr>sdo_held_active := 0\<rparr>;
        if abortcode \<noteq> 0 then SDO_abort E 0 (sdo_held_index s) (sdo_held_subindex s) abortcode s
        else do {
          (MBXout, s) \<leftarrow> ESC_claimbuffer E s;
          if MBXout \<noteq> 0
          then sdo_fields MBXout COE_SDORESPONSE (sdo_held_index s) (sdo_held_subindex s)
                 COE_COMMAND_DOWNLOADRESPONSE 0 s
          else Some s
        }
      })"

text \<open>\<open>MBXcontrol[0].state = MBXstate_idle; ESCvar.xoe = 0\<close>: the request is done with.\<close>

definition request_done :: "'w sys \<Rightarrow> 'w sys" where
  "request_done s = (set_mbxstate 0 MBXstate_idle s)\<lparr>xoe := 0\<rparr>"

definition set_state_idle :: "'w env \<Rightarrow> nat \<Rightarrow> u16 \<Rightarrow> u8 \<Rightarrow> u32 \<Rightarrow> 'w sys \<Rightarrow> 'w sys option" where
  "set_state_idle E reusembx index subindex abortcode s = do {
     s \<leftarrow> (if abortcode \<noteq> 0 then SDO_abort E reusembx index subindex abortcode s else Some s);
     Some (request_done s)
   }"

text \<open>\<open>READ_ACCESS\<close> and \<open>WRITE_ACCESS\<close>: the access bits of an entry against the AL state.\<close>

definition READ_ACCESS :: "u16 \<Rightarrow> u8 \<Rightarrow> bool" where
  "READ_ACCESS access state \<longleftrightarrow> (access AND 0x01 \<noteq> 0 \<and> state = ESCpreop) \<or>
     (access AND 0x02 \<noteq> 0 \<and> state = ESCsafeop) \<or> (access AND 0x04 \<noteq> 0 \<and> state = ESCop)"

definition WRITE_ACCESS :: "u16 \<Rightarrow> u8 \<Rightarrow> bool" where
  "WRITE_ACCESS access state \<longleftrightarrow> (access AND 0x08 \<noteq> 0 \<and> state = ESCpreop) \<or>
     (access AND 0x10 \<noteq> 0 \<and> state = ESCsafeop) \<or> (access AND 0x20 \<noteq> 0 \<and> state = ESCop)"

definition od_access :: "objd \<Rightarrow> u16" where
  "od_access d = od_flags d AND 0x3f"

definition al_low :: "'w sys \<Rightarrow> u8" where
  "al_low s = to_u8 (ALstatus s AND 0x0f)"

text \<open>Where an entry is read: its variable, or its constant value.\<close>

definition od_source :: "objd \<Rightarrow> ptr" where
  "od_source d = (case od_data d of Some p \<Rightarrow> p | None \<Rightarrow> (Konst (od_value d), 0))"

section \<open>Upload\<close>

definition upload_dss :: "u32 \<Rightarrow> u8" where
  "upload_dss bits = (if bits > 24 then 0x00 else if bits > 16 then 0x04 else if bits > 8 then 0x08 else 0x0c)"

text \<open>The two branches of \<open>SDO_upload\<close> by size; the result is the abort code of the hook.\<close>

definition upload_expedited :: "'w env \<Rightarrow> nat \<Rightarrow> u16 \<Rightarrow> u8 \<Rightarrow> objd \<Rightarrow> u32 \<Rightarrow> 'w sys \<Rightarrow> (u32 \<times> 'w sys) option" where
  "upload_expedited E MBXout index subindex d len s = do {
     s \<leftarrow> or_command MBXout (COE_EXPEDITED_INDICATOR OR upload_dss (od_bitlength d)) s;
     let (abort, hook_size, s) =
       ESC_upload_pre_objecthandler E index subindex (Some (od_source d)) (unat len) (od_flags d) s;
     let len = (of_nat hook_size :: u32);
     if abort = 0 then
       (case od_data d of
          None \<Rightarrow> do { s \<leftarrow> mbx_put MBXout 12 (le32 (od_value d)) s; Some (0, s) }
        | Some p \<Rightarrow> do { bs \<leftarrow> mem_get p (unat len) s; s \<leftarrow> mbx_put MBXout 12 bs s; Some (0, s) })
     else Some (abort, s)
   }"

definition upload_normal :: "'w env \<Rightarrow> nat \<Rightarrow> u16 \<Rightarrow> u8 \<Rightarrow> objd \<Rightarrow> u32 \<Rightarrow> 'w sys \<Rightarrow> (u32 \<times> 'w sys) option" where
  "upload_normal E MBXout index subindex d len s = do {
     let (abort, hook_size, s) =
       ESC_upload_pre_objecthandler E index subindex (od_data d) (unat len) (od_flags d) s;
     let len = (of_nat hook_size :: u32);
     if abort = 0 then do {
       let s = s\<lparr>frags := len\<rparr>;
       s \<leftarrow> mbx_put MBXout 12 (le32 len) s;
       let (len, s) =
         (if len + COE_HEADERSIZE > ESC_MBXDSIZE s then
            let len = ESC_MBXDSIZE s - COE_HEADERSIZE
            in (len, s\<lparr>fragsleft := len, segmented := MBXSEU, data_v := od_data d, flags_v := od_flags d\<rparr>)
          else (len, s\<lparr>segmented := 0\<rparr>));
       s \<leftarrow> mbx_set_length MBXout (to_u16 (COE_HEADERSIZE + len)) s;
       p \<leftarrow> od_data d;
       bs \<leftarrow> mem_get p (unat len) s;
       s \<leftarrow> mbx_put MBXout 16 bs s;
       Some (0, s)
     }
     else Some (abort, s)
   }"

definition upload_entry :: "'w env \<Rightarrow> u16 \<Rightarrow> u8 \<Rightarrow> objd \<Rightarrow> 'w sys \<Rightarrow> 'w sys option" where
  "upload_entry E index subindex d s = do {
     (MBXout, s) \<leftarrow> ESC_claimbuffer E s;
     if MBXout \<noteq> 0 then do {
       s \<leftarrow> mbx_set_length MBXout COE_DEFAULTLENGTH s;
       s \<leftarrow> mbx_set_type MBXout MBXCOE s;
       s \<leftarrow> mbx_put MBXout 6 (le16 (push_bit 12 COE_SDORESPONSE)) s;
       s \<leftarrow> mbx_put MBXout 9 (le16 index) s;
       s \<leftarrow> mbx_put MBXout 11 [subindex] s;
       s \<leftarrow> mbx_put MBXout 8 [COE_COMMAND_UPLOADRESPONSE OR COE_SIZE_INDICATOR] s;
       let len = drop_bit 3 (od_bitlength d + 7);
       (abort, s) \<leftarrow> (if len \<le> 4 then upload_expedited E MBXout index subindex d len s
                      else upload_normal E MBXout index subindex d len s);
       if abort \<noteq> 0 then set_state_idle E MBXout index subindex abort s
       else do {
         let (abort, s) = (if segmented s = 0
           then ESC_upload_post_objecthandler E index subindex (od_flags d) s else (0, s));
         if abort \<noteq> 0 then set_state_idle E MBXout index subindex abort s
         else Some (request_done (set_mbxstate MBXout MBXstate_outreq s))
       }
     }
     else Some (request_done s)
   }"

definition SDO_upload :: "'w env \<Rightarrow> 'w sys \<Rightarrow> 'w sys option" where
  "SDO_upload E s = do {
     index \<leftarrow> mbx_u16 0 9 s;
     subindex \<leftarrow> mbx_u8 0 11 s;
     nidx \<leftarrow> SDO_findobject E index;
     if nidx \<ge> 0 then do {
       nsub \<leftarrow> SDO_findsubindex E nidx subindex;
       if nsub \<ge> 0 then do {
         ob \<leftarrow> obj_at E nidx;
         d \<leftarrow> at (ol_objdesc ob) (nat nsub);
         if \<not> READ_ACCESS (od_access d) (al_low s)
         then set_state_idle E 0 index subindex ABORT_WRITEONLY s
         else upload_entry E index subindex d s
       }
       else do { s \<leftarrow> SDO_abort E 0 index subindex ABORT_NOSUBINDEX s; Some (request_done s) }
     }
     else do { s \<leftarrow> SDO_abort E 0 index subindex ABORT_NOOBJECT s; Some (request_done s) }
   }"

definition upload_segment_reply :: "nat \<Rightarrow> u32 \<Rightarrow> 'w sys \<Rightarrow> (u32 \<times> 'w sys) option" where
  "upload_segment_reply MBXout len s =
     (if len + COE_SEGMENTHEADERSIZE > ESC_MBXDSIZE s then do {
        let len = ESC_MBXDSIZE s - COE_SEGMENTHEADERSIZE;
        let s = s\<lparr>fragsleft := fragsleft s + len\<rparr>;
        s \<leftarrow> mbx_set_length MBXout (to_u16 (COE_SEGMENTHEADERSIZE + len)) s;
        Some (len, s)
      }
      else do {
        let s = s\<lparr>segmented := 0, frags := 0, fragsleft := 0\<rparr>;
        s \<leftarrow> or_command MBXout COE_COMMAND_LASTSEGMENTBIT s;
        s \<leftarrow> (if len \<ge> 7 then mbx_set_length MBXout (to_u16 (COE_SEGMENTHEADERSIZE + len)) s
             else do {
               s \<leftarrow> or_command MBXout (to_u8 (push_bit 1 (7 - len))) s;
               mbx_set_length MBXout COE_DEFAULTLENGTH s
             });
        Some (len, s)
      })"

definition SDO_uploadsegment :: "'w env \<Rightarrow> 'w sys \<Rightarrow> 'w sys option" where
  "SDO_uploadsegment E s = do {
     (MBXout, s) \<leftarrow> ESC_claimbuffer E s;
     if MBXout \<noteq> 0 then do {
       let offset = fragsleft s;
       let len = frags s - fragsleft s;
       cmd \<leftarrow> mbx_u8 0 8 s;
       index \<leftarrow> mbx_u16 0 9 s;
       subindex \<leftarrow> mbx_u8 0 11 s;
       s \<leftarrow> init_coesdo MBXout COE_SDORESPONSE (COE_COMMAND_UPLOADSEGMENT OR (cmd AND COE_TOGGLEBIT)) index subindex s;
       (len, s) \<leftarrow> upload_segment_reply MBXout len s;
       p \<leftarrow> data_v s;
       bs \<leftarrow> mem_get (ptr_add p (unat offset)) (unat len) s;
       s \<leftarrow> mbx_put MBXout 9 bs s;
       let (abort, s) = (if segmented s = 0
         then ESC_upload_post_objecthandler E index subindex (flags_v s) s else (0, s));
       if abort \<noteq> 0 then set_state_idle E MBXout index subindex abort s
       else Some (request_done (set_mbxstate MBXout MBXstate_outreq s))
     }
     else Some (request_done s)
   }"

section \<open>Complete access\<close>

text \<open>The outcome of \<open>complete_access_get_variables\<close>: an abort code, or the object and entry.\<close>

definition complete_access_get_variables :: "'w env \<Rightarrow> u16 \<Rightarrow> u8 \<Rightarrow> (u32 + int \<times> int) option" where
  "complete_access_get_variables E index subindex =
     (if subindex > 1 then Some (Inl ABORT_UNSUPPORTED)
      else do {
        nidx \<leftarrow> SDO_findobject E index;
        if nidx < 0 then Some (Inl ABORT_NOOBJECT)
        else do {
          nsub \<leftarrow> SDO_findsubindex E nidx subindex;
          if nsub < 0 then Some (Inl ABORT_NOSUBINDEX) else Some (Inr (nidx, nsub))
        }
      })"

datatype load_t = UPLOAD | DOWNLOAD

text \<open>
  One entry of \<open>complete_access_subindex_loop\<close>: byte-sized entries start at the next byte
  boundary and are copied, entries of other sizes are merged into their byte (upload only).
  \<open>bits\<close> is the local \<open>size\<close>, the position in bits.
\<close>

definition ca_bytes :: "objd \<Rightarrow> ptr \<Rightarrow> load_t \<Rightarrow> u32 \<Rightarrow> 'w sys \<Rightarrow> 'w sys option" where
  "ca_bytes d buf load bits s = do {
     let n = bits2bytes (od_bitlength d);
     let here = ptr_add buf (bits2bytes bits);
     case load of
       UPLOAD \<Rightarrow>
         (if READ_ACCESS (od_access d) (al_low s)
          then do { bs \<leftarrow> mem_get (od_source d) n s; mem_put here bs s }
          else mem_put here (replicate n 0) s)
     | DOWNLOAD \<Rightarrow>
         (if WRITE_ACCESS (od_access d) (al_low s)
          then do { p \<leftarrow> od_data d; bs \<leftarrow> mem_get here n s; mem_put p bs s }
          else Some s)
   }"

definition ca_bits :: "objd \<Rightarrow> ptr \<Rightarrow> u32 \<Rightarrow> nat \<Rightarrow> 'w sys \<Rightarrow> 'w sys option" where
  "ca_bits d buf bits bitoffset s =
     (if unat (od_bitlength d) \<ge> 32 then None
      else do {
        let bitmask = (push_bit (unat (od_bitlength d)) 1 - 1 :: u32);
        let here = ptr_add buf (unat (drop_bit 3 bits));
        if READ_ACCESS (od_access d) (al_low s) then do {
          s \<leftarrow> (if bitoffset = 0 then mem_put here [0] s else Some s);
          v \<leftarrow> mem_get (od_source d) 1 s;
          let tempmask = push_bit bitoffset (to_u32 (hd v) AND bitmask);
          b \<leftarrow> mem_get here 1 s;
          mem_put here [hd b OR to_u8 tempmask] s
        }
        else do {
          let tempmask = NOT (push_bit bitoffset bitmask);
          b \<leftarrow> mem_get here 1 s;
          mem_put here [hd b AND to_u8 tempmask] s
        }
      })"

definition ca_entry ::
  "objectlist \<Rightarrow> ptr option \<Rightarrow> load_t \<Rightarrow> nat \<Rightarrow> objd \<Rightarrow> u32 \<Rightarrow> 'w sys \<Rightarrow> (u32 \<times> 'w sys) option" where
  "ca_entry ob buf load nsub d bits s = do {
     let bitlen = od_bitlength d;
     let bitoffset = bits mod 8;
     let bits' = (if bitlen mod 8 = 0 \<and> bitoffset \<noteq> 0 then bits + (8 - bitoffset) else bits);
     s \<leftarrow> (if bitlen mod 8 = 0 then
             (case buf of None \<Rightarrow> Some s | Some p \<Rightarrow> ca_bytes d p load bits' s)
           else (case (load, buf) of
               (UPLOAD, Some p) \<Rightarrow> ca_bits d p bits (unat bitoffset) s | _ \<Rightarrow> Some s));
     Some (bits' + (if nsub = 0 \<and> ol_objtype ob \<noteq> OTYPE_VAR then 16 else bitlen), s)
   }"

text \<open>The loop over \<open>nsub\<close>, given the sub-indices that are left.\<close>

fun ca_loop ::
  "objectlist \<Rightarrow> ptr option \<Rightarrow> load_t \<Rightarrow> u32 \<Rightarrow> nat list \<Rightarrow> u32 \<Rightarrow> 'w sys \<Rightarrow> (u32 \<times> 'w sys) option" where
  "ca_loop ob buf load max_bytes [] bits s = Some (bits, s)"
| "ca_loop ob buf load max_bytes (nsub # nsubs) bits s = do {
     d \<leftarrow> at (ol_objdesc ob) nsub;
     (bits, s) \<leftarrow> ca_entry ob buf load nsub d bits s;
     if max_bytes > 0 \<and> drop_bit 3 (bits + 7) \<ge> max_bytes then Some (bits, s)
     else ca_loop ob buf load max_bytes nsubs bits s
   }"

definition complete_access_subindex_loop ::
  "objectlist \<Rightarrow> nat \<Rightarrow> ptr option \<Rightarrow> load_t \<Rightarrow> u32 \<Rightarrow> 'w sys \<Rightarrow> (u32 \<times> 'w sys) option" where
  "complete_access_subindex_loop ob nsub buf load max_bytes s = do {
     d \<leftarrow> at (ol_objdesc ob) 0;
     if od_datatype d \<in> {DTYPE_VISIBLE_STRING, DTYPE_OCTET_STRING, DTYPE_UNICODE_STRING}
     then Some (ABORT_CA_NOT_SUPPORTED, s)
     else do {
       s \<leftarrow> (case (load, buf) of (UPLOAD, Some p) \<Rightarrow> mem_put (ptr_add p 1) [0] s | _ \<Rightarrow> Some s);
       ca_loop ob buf load max_bytes [nsub..<unat (ol_maxsub ob) + 1] 0 s
     }
   }"

definition PREALLOC_BUFFER_SIZE :: "'w env \<Rightarrow> u32" where
  "PREALLOC_BUFFER_SIZE E = of_nat (PREALLOC_FACTOR (opt E) * MBXSIZE (opt E))"

definition prealloc_fits :: "'w env \<Rightarrow> u32 \<Rightarrow> bool" where
  "prealloc_fits E n \<longleftrightarrow>
     \<not> (n + of_nat (PREALLOC_FACTOR (opt E)) * COE_HEADERSIZE > PREALLOC_BUFFER_SIZE E)"

text \<open>The reply of an upload with complete access, from the buffer \<open>mbxdata\<close>.\<close>

definition ca_upload_reply :: "nat \<Rightarrow> u8 \<Rightarrow> u32 \<Rightarrow> 'w sys \<Rightarrow> 'w sys option" where
  "ca_upload_reply MBXout dss len s = do {
     let s = s\<lparr>segmented := 0\<rparr>;
     if len \<le> 4 then do {
       s \<leftarrow> or_command MBXout (COE_EXPEDITED_INDICATOR OR dss) s;
       bs \<leftarrow> mem_get (Mbxdata, 0) (unat len) s;
       mbx_put MBXout 12 bs s
     }
     else do {
       s \<leftarrow> mbx_put MBXout 12 (le32 len) s;
       let (len, s) =
         (if len + COE_HEADERSIZE > ESC_MBXDSIZE s then
            let part = ESC_MBXDSIZE s - COE_HEADERSIZE
            in (part, s\<lparr>frags := len, fragsleft := part, segmented := MBXSEU,
                       data_v := Some (Mbxdata, 0), flags_v := COMPLETE_ACCESS_FLAG\<rparr>)
          else (len, s));
       s \<leftarrow> mbx_set_length MBXout (to_u16 (COE_HEADERSIZE + len)) s;
       bs \<leftarrow> mem_get (Mbxdata, 0) (unat len) s;
       mbx_put MBXout 16 bs s
     }
   }"

definition ca_upload_object :: "'w env \<Rightarrow> nat \<Rightarrow> u16 \<Rightarrow> u8 \<Rightarrow> objectlist \<Rightarrow> nat \<Rightarrow> 'w sys \<Rightarrow> 'w sys option" where
  "ca_upload_object E MBXout index subindex ob nsub s = do {
     d \<leftarrow> at (ol_objdesc ob) 0;
     (bits, s) \<leftarrow> complete_access_subindex_loop ob nsub None UPLOAD 0 s;
     let dss = (if bits > 24 then 0 else to_u8 (4 * (3 - drop_bit 3 (bits - 1))));
     let len = drop_bit 3 (bits + 7);
     if len > 0xffff then set_state_idle E MBXout index subindex len s
     else if \<not> prealloc_fits E len then set_state_idle E MBXout index subindex ABORT_CA_NOT_SUPPORTED s
     else do {
       let (abort, hook_size, s) = ESC_upload_pre_objecthandler E index subindex (od_data d) (unat len)
             (od_flags d OR COMPLETE_ACCESS_FLAG) s;
       let len = (of_nat hook_size :: u32);
       if abort \<noteq> 0 then set_state_idle E MBXout index subindex abort s
       else do {
         (r, s) \<leftarrow> complete_access_subindex_loop ob nsub (Some (Mbxdata, 0)) UPLOAD 0 s;
         s \<leftarrow> init_coesdo MBXout COE_SDORESPONSE
                (COE_COMMAND_UPLOADRESPONSE OR COE_COMPLETEACCESS OR COE_SIZE_INDICATOR) index subindex s;
         s \<leftarrow> ca_upload_reply MBXout dss len s;
         let (abort, s) = (if segmented s = 0
           then ESC_upload_post_objecthandler E index subindex (od_flags d OR COMPLETE_ACCESS_FLAG) s
           else (0, s));
         if abort \<noteq> 0 then set_state_idle E MBXout index subindex abort s
         else set_state_idle E MBXout index subindex 0 (set_mbxstate MBXout MBXstate_outreq s)
       }
     }
   }"

definition SDO_upload_complete_access :: "'w env \<Rightarrow> 'w sys \<Rightarrow> 'w sys option" where
  "SDO_upload_complete_access E s = do {
     index \<leftarrow> mbx_u16 0 9 s;
     subindex \<leftarrow> mbx_u8 0 11 s;
     r \<leftarrow> complete_access_get_variables E index subindex;
     case r of
       Inl abortcode \<Rightarrow> set_state_idle E 0 index subindex abortcode s
     | Inr (nidx, nsub) \<Rightarrow> do {
         (MBXout, s) \<leftarrow> ESC_claimbuffer E s;
         if MBXout = 0 then set_state_idle E 0 index subindex 0 s
         else do { ob \<leftarrow> obj_at E nidx; ca_upload_object E MBXout index subindex ob (nat nsub) s }
       }
   }"

section \<open>Download\<close>

text \<open>The number of data bytes that a download request announces, and where they start.\<close>

definition download_data :: "u8 \<Rightarrow> 'w sys \<Rightarrow> (u32 \<times> ptr) option" where
  "download_data command s =
     (if command AND COE_EXPEDITED_INDICATOR \<noteq> 0
      then Some (4 - drop_bit 2 (to_u32 (command AND 0x0C)), (Mbx, 12))
      else do { len \<leftarrow> mbx_u32 0 12 s; Some (len AND 0xffff, (Mbx, 16)) })"

text \<open>
  The length check: flexible types may differ from the entry's length, a visible string is
  padded with zeroes. \<open>False\<close> is a type mismatch.
\<close>

definition download_length_ok :: "objd \<Rightarrow> u32 \<Rightarrow> 'w sys \<Rightarrow> (bool \<times> 'w sys) option" where
  "download_length_ok d len s = do {
     let actsize = drop_bit 3 (od_bitlength d + 7);
     if actsize \<noteq> len then
       (if od_datatype d = DTYPE_VISIBLE_STRING then do {
          p \<leftarrow> od_data d;
          s \<leftarrow> mem_put (ptr_add p (unat len)) (replicate (unat (actsize - len)) 0) s;
          Some (True, s)
        }
        else Some (od_datatype d \<in> {DTYPE_OCTET_STRING, DTYPE_UNICODE_STRING,
                     0x0260, 0x0261, 0x0262, 0x0263}, s))
     else Some (True, s)
   }"

text \<open>Whether the announced data do not fit the message: \<open>mbxheader.length - COE_HEADERSIZE\<close> wraps.\<close>

definition beyond_message :: "u32 \<Rightarrow> u16 \<Rightarrow> bool" where
  "beyond_message len mlen \<longleftrightarrow> len > 4 \<and> len > to_u32 mlen - COE_HEADERSIZE"

definition download_store :: "'w env \<Rightarrow> u16 \<Rightarrow> u8 \<Rightarrow> objd \<Rightarrow> u32 \<Rightarrow> ptr \<Rightarrow> 'w sys \<Rightarrow> 'w sys option" where
  "download_store E index subindex d len from s = do {
     mlen \<leftarrow> mbx_length 0 s;
     (len, s) \<leftarrow> (if beyond_message len mlen then do {
         let len = to_u32 mlen - COE_HEADERSIZE;
         p \<leftarrow> od_data d;
         Some (len, s\<lparr>segmented := MBXSED, data_v := Some (ptr_add p (unat len)), index_v := index,
                     subindex_v := subindex, flags_v := od_flags d\<rparr>)
       }
       else Some (len, s\<lparr>segmented := 0\<rparr>));
     p \<leftarrow> od_data d;
     bs \<leftarrow> mem_get from (unat len) s;
     s \<leftarrow> mem_put p bs s;
     (MBXout, s) \<leftarrow> ESC_claimbuffer E s;
     s \<leftarrow> (if MBXout \<noteq> 0
          then sdo_fields MBXout COE_SDORESPONSE index subindex COE_COMMAND_DOWNLOADRESPONSE 0 s
          else Some s);
     if segmented s = 0 then do {
       let (abort, s) = ESC_download_post_objecthandler E index subindex (od_flags d) s;
       if abort \<noteq> 0 then SDO_abort E MBXout index subindex abort s else Some s
     }
     else Some s
   }"

definition download_entry :: "'w env \<Rightarrow> u16 \<Rightarrow> u8 \<Rightarrow> objd \<Rightarrow> 'w sys \<Rightarrow> 'w sys option" where
  "download_entry E index subindex d s = do {
     command \<leftarrow> mbx_u8 0 8 s;
     (len, from) \<leftarrow> download_data command s;
     (fits, s) \<leftarrow> download_length_ok d len s;
     if \<not> fits then SDO_abort E 0 index subindex ABORT_TYPEMISMATCH s
     else do {
       (abort, s) \<leftarrow> ESC_download_pre_objecthandler E index subindex (Some from) (unat len) (od_flags d) s;
       if abort = ESC_SDO_PENDING then do {
         mlen \<leftarrow> mbx_length 0 s;
         if beyond_message len mlen then SDO_abort E 0 index subindex ABORT_GENERALERROR s
         else Some (s\<lparr>sdo_held_active := 1, sdo_held_index := index, sdo_held_subindex := subindex\<rparr>)
       }
       else if abort = 0 then download_store E index subindex d len from s
       else SDO_abort E 0 index subindex abort s
     }
   }"

definition SDO_download :: "'w env \<Rightarrow> 'w sys \<Rightarrow> 'w sys option" where
  "SDO_download E s = do {
     index \<leftarrow> mbx_u16 0 9 s;
     subindex \<leftarrow> mbx_u8 0 11 s;
     nidx \<leftarrow> SDO_findobject E index;
     s \<leftarrow> (if nidx \<ge> 0 then do {
         nsub \<leftarrow> SDO_findsubindex E nidx subindex;
         if nsub \<ge> 0 then do {
           ob \<leftarrow> obj_at E nidx;
           d \<leftarrow> at (ol_objdesc ob) (nat nsub);
           if WRITE_ACCESS (od_access d) (al_low s) then download_entry E index subindex d s
           else if od_access d = ATYPE_RO then SDO_abort E 0 index subindex ABORT_READONLY s
           else SDO_abort E 0 index subindex ABORT_NOTINTHISSTATE s
         }
         else SDO_abort E 0 index subindex ABORT_NOSUBINDEX s
       }
       else SDO_abort E 0 index subindex ABORT_NOOBJECT s);
     Some (request_done s)
   }"

text \<open>
  Storing the data of a download with complete access: kept for the following segments, or
  distributed to the entries at once. The result is an abort code, 0 on success.
\<close>

definition ca_download_store ::
  "'w env \<Rightarrow> u16 \<Rightarrow> u8 \<Rightarrow> objectlist \<Rightarrow> nat \<Rightarrow> u16 \<Rightarrow> u32 \<Rightarrow> ptr \<Rightarrow> 'w sys \<Rightarrow> (u32 \<times> 'w sys) option" where
  "ca_download_store E index subindex ob nsub flags bytes from s =
     (if bytes + COE_HEADERSIZE > ESC_MBXDSIZE s then
        (if \<not> prealloc_fits E bytes then Some (ABORT_CA_NOT_SUPPORTED, s)
         else do {
           let len = ESC_MBXDSIZE s - COE_HEADERSIZE;
           let s = s\<lparr>frags := bytes, fragsleft := len, segmented := MBXSED,
                     data_v := Some (Mbxdata, unat len), index_v := index, subindex_v := subindex,
                     flags_v := COMPLETE_ACCESS_FLAG\<rparr>;
           bs \<leftarrow> mem_get from (unat len) s;
           s \<leftarrow> mem_put (Mbxdata, 0) bs s;
           Some (0, s)
         })
      else do {
        let s = s\<lparr>segmented := 0\<rparr>;
        (r, s) \<leftarrow> complete_access_subindex_loop ob nsub (Some from) DOWNLOAD bytes s;
        Some (ESC_download_post_objecthandler E index subindex (flags OR COMPLETE_ACCESS_FLAG) s)
      })"

definition ca_download_object ::
  "'w env \<Rightarrow> u16 \<Rightarrow> u8 \<Rightarrow> objectlist \<Rightarrow> nat \<Rightarrow> 'w sys \<Rightarrow> 'w sys option" where
  "ca_download_object E index subindex ob nsub s = do {
     command \<leftarrow> mbx_u8 0 8 s;
     (bytes, from) \<leftarrow> download_data command s;
     d \<leftarrow> at (ol_objdesc ob) 0;
     (bits, s) \<leftarrow> complete_access_subindex_loop ob nsub None DOWNLOAD 0 s;
     let len = drop_bit 3 (bits + 7);
     if len > 0xffff then set_state_idle E 0 index subindex len s
     else if bytes \<le> len then do {
       (abort, s) \<leftarrow> ESC_download_pre_objecthandler E index subindex (Some from) (unat len)
             (od_flags d OR COMPLETE_ACCESS_FLAG) s;
       let abort = (if abort = ESC_SDO_PENDING then ABORT_GENERALERROR else abort);
       if abort \<noteq> 0 then set_state_idle E 0 index subindex abort s
       else do {
         (abort, s) \<leftarrow> ca_download_store E index subindex ob nsub (od_flags d) bytes from s;
         if abort \<noteq> 0 then set_state_idle E 0 index subindex abort s
         else do {
           (MBXout, s) \<leftarrow> ESC_claimbuffer E s;
           s \<leftarrow> (if MBXout > 0 then do {
               s \<leftarrow> init_coesdo MBXout COE_SDORESPONSE
                      (COE_COMMAND_DOWNLOADRESPONSE OR COE_COMPLETEACCESS) index subindex s;
               s \<leftarrow> mbx_put MBXout 12 (le32 0) s;
               Some (set_mbxstate MBXout MBXstate_outreq s)
             }
             else Some s);
           set_state_idle E MBXout index subindex 0 s
         }
       }
     }
     else set_state_idle E 0 index subindex ABORT_TYPEMISMATCH s
   }"

definition SDO_download_complete_access :: "'w env \<Rightarrow> 'w sys \<Rightarrow> 'w sys option" where
  "SDO_download_complete_access E s = do {
     index \<leftarrow> mbx_u16 0 9 s;
     subindex \<leftarrow> mbx_u8 0 11 s;
     r \<leftarrow> complete_access_get_variables E index subindex;
     case r of
       Inl abortcode \<Rightarrow> set_state_idle E 0 index subindex abortcode s
     | Inr (nidx, nsub) \<Rightarrow> do {
         ob \<leftarrow> obj_at E nidx;
         ca_download_object E index subindex ob (nat nsub) s
       }
   }"

text \<open>
  The end of a segmented download: a complete access distributes the collected data first.
  The result is \<open>Inl\<close> an abort that leaves through \<open>set_state_idle (0, \<dots>)\<close>, or the code of
  the application's handler.
\<close>

definition download_last :: "'w env \<Rightarrow> u32 \<Rightarrow> 'w sys \<Rightarrow> ((u32 + u32) \<times> 'w sys) option" where
  "download_last E len s = do {
     (r, s) \<leftarrow> (if flags_v s = COMPLETE_ACCESS_FLAG then
         (if frags s > fragsleft s + len then Some (ABORT_TYPEMISMATCH, s)
          else do {
            nidx \<leftarrow> SDO_findobject E (index_v s);
            nsub \<leftarrow> SDO_findsubindex E nidx (subindex_v s);
            if nidx < 0 \<or> nsub < 0 then Some (ABORT_NOOBJECT, s)
            else do {
              ob \<leftarrow> obj_at E nidx;
              (r, s) \<leftarrow> complete_access_subindex_loop ob (nat nsub) (Some (Mbxdata, 0)) DOWNLOAD (frags s) s;
              Some (0, s)
            }
          })
       else Some (0, s));
     if r \<noteq> 0 then Some (Inl r, s)
     else do {
       let s = s\<lparr>segmented := 0, frags := 0, fragsleft := 0\<rparr>;
       let (abort, s) = ESC_download_post_objecthandler E (index_v s) (subindex_v s) (flags_v s) s;
       Some (Inr abort, s)
     }
   }"

definition SDO_downloadsegment :: "'w env \<Rightarrow> 'w sys \<Rightarrow> 'w sys option" where
  "SDO_downloadsegment E s = do {
     (MBXout, s) \<leftarrow> ESC_claimbuffer E s;
     if MBXout \<noteq> 0 then do {
       mlen \<leftarrow> mbx_length 0 s;
       command \<leftarrow> mbx_u8 0 8 s;
       let len = to_u32 mlen - 3;
       let len = (if len = 7 then 7 - to_u32 (drop_bit 1 command AND 7) else len);
       s \<leftarrow> init_coesdo MBXout COE_SDORESPONSE (COE_COMMAND_DOWNLOADSEGRESP OR (command AND COE_TOGGLEBIT)) 0 0 s;
       p \<leftarrow> data_v s;
       bs \<leftarrow> mem_get (Mbx, 9) (unat len) s;
       s \<leftarrow> mem_put p bs s;
       if command AND COE_COMMAND_LASTSEGMENTBIT \<noteq> 0 then do {
         (r, s) \<leftarrow> download_last E len s;
         case r of
           Inl abort \<Rightarrow> set_state_idle E 0 (index_v s) (subindex_v s) abort s
         | Inr abort \<Rightarrow>
             (if abort \<noteq> 0 then set_state_idle E MBXout (index_v s) (subindex_v s) abort s
              else set_state_idle E 0 0 0 0 (set_mbxstate MBXout MBXstate_outreq s))
       }
       else do {
         let s = s\<lparr>data_v := Some (ptr_add p (unat len)), fragsleft := fragsleft s + len\<rparr>;
         set_state_idle E 0 0 0 0 (set_mbxstate MBXout MBXstate_outreq s)
       }
     }
     else set_state_idle E 0 0 0 0 s
   }"

end
