(* ===== verification/Coe_Info.thy ===== *)
theory Coe_Info
  imports Coe_Sdo
begin

text \<open>
  The SDO information services of \<open>esc_coe.c\<close> (object list, object and entry description)
  and the dispatcher \<open>ESC_coeprocess\<close>.
\<close>

section \<open>Constants\<close>

abbreviation (input) COE_INFOERROR :: u8 where "COE_INFOERROR \<equiv> 0x07"
abbreviation (input) COE_GETODLISTRESPONSE :: u8 where "COE_GETODLISTRESPONSE \<equiv> 0x02"
abbreviation (input) COE_GETODRESPONSE :: u8 where "COE_GETODRESPONSE \<equiv> 0x04"
abbreviation (input) COE_ENTRYDESCRIPTIONRESPONSE :: u8 where "COE_ENTRYDESCRIPTIONRESPONSE \<equiv> 0x06"
abbreviation (input) COE_COMMAND_UPLOADREQUEST :: u8 where "COE_COMMAND_UPLOADREQUEST \<equiv> 0x40"
abbreviation (input) COE_COMMAND_UPLOADSEGREQ :: u8 where "COE_COMMAND_UPLOADSEGREQ \<equiv> 0x60"
abbreviation (input) COE_COMMAND_DOWNLOADREQUEST :: u8 where "COE_COMMAND_DOWNLOADREQUEST \<equiv> 0x20"
abbreviation (input) COE_COMMAND_DOWNLOADSEGREQ :: u8 where "COE_COMMAND_DOWNLOADSEGREQ \<equiv> 0x00"
abbreviation (input) COE_MINIMUM_LENGTH :: u16 where "COE_MINIMUM_LENGTH \<equiv> 8"
abbreviation (input) DTYPE_DOMAIN :: u16 where "DTYPE_DOMAIN \<equiv> 0x000F"

section \<open>The information header\<close>

text \<open>
  \<open>_COEobjdesc\<close> and \<open>_COEentdesc\<close> after the CoE header at 6: opcode (7 bits) and the
  incomplete flag (bit 7) at 8, reserved at 9, fragments left at 10, index at 12.
\<close>

definition set_opcode :: "nat \<Rightarrow> u8 \<Rightarrow> 'w sys \<Rightarrow> 'w sys option" where
  "set_opcode n v s = do { b \<leftarrow> mbx_u8 n 8 s; mbx_put n 8 [(b AND 0x80) OR (v AND 0x7F)] s }"

definition set_incomplete :: "nat \<Rightarrow> u8 \<Rightarrow> 'w sys \<Rightarrow> 'w sys option" where
  "set_incomplete n v s = do { b \<leftarrow> mbx_u8 n 8 s; mbx_put n 8 [(b AND 0x7F) OR push_bit 7 (v AND 1)] s }"

definition get_opcode :: "nat \<Rightarrow> 'w sys \<Rightarrow> u8 option" where
  "get_opcode n s = map_option (\<lambda>b. b AND 0x7F) (mbx_u8 n 8 s)"

text \<open>Type and service, which every information reply sets first.\<close>

definition info_start :: "nat \<Rightarrow> 'w sys \<Rightarrow> 'w sys option" where
  "info_start MBXout s = do {
     s \<leftarrow> mbx_set_type MBXout MBXCOE s;
     mbx_put MBXout 6 (le16 (push_bit 12 COE_SDOINFORMATION)) s
   }"

definition info_header :: "nat \<Rightarrow> u8 \<Rightarrow> u8 \<Rightarrow> u16 \<Rightarrow> 'w sys \<Rightarrow> 'w sys option" where
  "info_header MBXout opcode incomplete fragments s = do {
     s \<leftarrow> set_opcode MBXout opcode s;
     s \<leftarrow> set_incomplete MBXout incomplete s;
     s \<leftarrow> mbx_put MBXout 9 [0] s;
     mbx_put MBXout 10 (le16 fragments) s
   }"

definition SDO_infoerror :: "'w env \<Rightarrow> u32 \<Rightarrow> 'w sys \<Rightarrow> 'w sys option" where
  "SDO_infoerror E abortcode s = do {
     (MBXout, s) \<leftarrow> ESC_claimbuffer E s;
     if MBXout \<noteq> 0 then do {
       s \<leftarrow> mbx_set_length MBXout (to_u16 COE_HEADERSIZE) s;
       s \<leftarrow> info_start MBXout s;
       s \<leftarrow> info_header MBXout COE_INFOERROR 0 0 s;
       s \<leftarrow> mbx_put MBXout 12 (le16 (to_u16 abortcode)) s;
       s \<leftarrow> mbx_put MBXout 14 (le16 (to_u16 (drop_bit 16 abortcode))) s;
       Some (request_done (set_mbxstate MBXout MBXstate_outreq s))
     }
     else Some s
   }"

section \<open>The object list\<close>

text \<open>\<open>ODLISTSIZE\<close>: bytes of indices in one fragment, an even number.\<close>

definition ODLISTSIZE :: "'w sys \<Rightarrow> u32 option" where
  "ODLISTSIZE s = do { m1 \<leftarrow> activemb1 s; Some ((to_u32 (cfg_sml m1) - 6 - 2 - 4 - 2) AND 0xfffe) }"

text \<open>\<open>while (SDOobjects[entries].index != 0xffff) entries++\<close>.\<close>

fun count_objects :: "objectlist list \<Rightarrow> u16 \<Rightarrow> u16 option" where
  "count_objects [] n = None"
| "count_objects (ob # obs) n = (if ol_index ob \<noteq> 0xffff then count_objects obs (n + 1) else Some n)"

text \<open>
  The loop \<open>for (i = first; i < n; i++) *p++ = SDOobjects[i].index\<close> with 16 bit counters;
  \<open>k\<close> is the number of indices left.
\<close>

fun put_indices :: "'w env \<Rightarrow> nat \<Rightarrow> nat \<Rightarrow> u16 \<Rightarrow> nat \<Rightarrow> 'w sys \<Rightarrow> 'w sys option" where
  "put_indices E MBXout off i 0 s = Some s"
| "put_indices E MBXout off i (Suc k) s = do {
     ob \<leftarrow> at (SDOobjects E) (unat i);
     s \<leftarrow> mbx_put MBXout off (le16 (ol_index ob)) s;
     put_indices E MBXout (off + 2) (i + 1) k s
   }"

text \<open>The answer to list type 0, the number of objects.\<close>

definition odlist_counts :: "nat \<Rightarrow> u32 \<Rightarrow> u16 \<Rightarrow> 'w sys \<Rightarrow> 'w sys option" where
  "odlist_counts MBXout fragments num s = do {
     s \<leftarrow> mbx_put MBXout 12 (le16 0) s;
     s \<leftarrow> info_header MBXout COE_GETODLISTRESPONSE 0 0 s;
     let s = request_done s;
     let s = s\<lparr>frags := fragments, fragsleft := fragments - 1\<rparr>;
     s \<leftarrow> mbx_put MBXout 14 (le16 num @ [0, 0, 0, 0, 0, 0, 0, 0]) s;
     mbx_set_length MBXout (0x08 + 10) s
   }"

text \<open>The first fragment of list type 1, all objects.\<close>

definition odlist_first :: "'w env \<Rightarrow> nat \<Rightarrow> u32 \<Rightarrow> u16 \<Rightarrow> u32 \<Rightarrow> 'w sys \<Rightarrow> 'w sys option" where
  "odlist_first E MBXout fragments num listsize s = do {
     let (n, inc, s) =
       (if fragments > 1 then (to_u16 (drop_bit 1 listsize), 1, s\<lparr>xoe := MBXCOE + MBXODL\<rparr>)
        else (num, 0, request_done s));
     let s = s\<lparr>frags := fragments, fragsleft := fragments - 1\<rparr>;
     s \<leftarrow> info_header MBXout COE_GETODLISTRESPONSE inc (to_u16 (fragsleft s)) s;
     s \<leftarrow> mbx_put MBXout 12 (le16 0x01) s;
     s \<leftarrow> put_indices E MBXout 14 0 (unat n) s;
     mbx_set_length MBXout (0x08 + push_bit 1 n) s
   }"

definition SDO_getodlist :: "'w env \<Rightarrow> 'w sys \<Rightarrow> 'w sys option" where
  "SDO_getodlist E s = do {
     num \<leftarrow> count_objects (SDOobjects E) 0;
     let s = s\<lparr>entries := num\<rparr>;
     listsize \<leftarrow> ODLISTSIZE s;
     fragments \<leftarrow> (if listsize = 0 then None
                   else Some ((push_bit 1 (to_u32 num) + listsize - 1) div listsize));
     listtype \<leftarrow> mbx_u16 0 12 s;
     (MBXout, s) \<leftarrow> (if listtype > 0x01 then do { s \<leftarrow> SDO_infoerror E ABORT_UNSUPPORTED s; Some (0, s) }
                    else ESC_claimbuffer E s);
     if MBXout \<noteq> 0 then do {
       s \<leftarrow> info_start MBXout s;
       s \<leftarrow> (if listtype = 0 then odlist_counts MBXout fragments num s else Some s);
       s \<leftarrow> (if listtype = 1 then odlist_first E MBXout fragments num listsize s else Some s);
       Some (set_mbxstate MBXout MBXstate_outreq s)
     }
     else Some s
   }"

definition SDO_getodlistcont :: "'w env \<Rightarrow> 'w sys \<Rightarrow> 'w sys option" where
  "SDO_getodlistcont E s = do {
     (MBXout, s) \<leftarrow> ESC_claimbuffer E s;
     if MBXout \<noteq> 0 then do {
       s \<leftarrow> info_start MBXout s;
       listsize \<leftarrow> ODLISTSIZE s;
       let first = to_u16 ((frags s - fragsleft s) * drop_bit 1 listsize);
       let (n, inc, s) =
         (if fragsleft s > 1 then (to_u16 (to_u32 first + drop_bit 1 listsize), 1, s)
          else (entries s, 0, request_done s));
       let s = s\<lparr>fragsleft := fragsleft s - 1\<rparr>;
       s \<leftarrow> info_header MBXout COE_GETODLISTRESPONSE inc (to_u16 (fragsleft s)) s;
       s \<leftarrow> put_indices E MBXout 12 first (if first < n then unat (n - first) else 0) s;
       s \<leftarrow> mbx_set_length MBXout (0x06 + push_bit 1 (n - first)) s;
       Some (set_mbxstate MBXout MBXstate_outreq s)
     }
     else Some s
   }"

section \<open>Descriptions\<close>

text \<open>
  \<open>while (*s && n < limit) *d++ = *s++, n++; *d = *s\<close>: a name is copied up to its
  terminator or the limit, then one character more (the terminator, or the character that did
  not fit). The list is the name without its terminator; \<open>n\<close> is a byte.
\<close>

fun copy_name :: "nat \<Rightarrow> nat \<Rightarrow> u32 \<Rightarrow> bytes \<Rightarrow> u8 \<Rightarrow> 'w sys \<Rightarrow> (u8 \<times> 'w sys) option" where
  "copy_name MBXout off limit [] n s = do { s \<leftarrow> mbx_put MBXout off [0] s; Some (n, s) }"
| "copy_name MBXout off limit (c # cs) n s =
     (if c \<noteq> 0 \<and> to_u32 n < limit
      then do { s \<leftarrow> mbx_put MBXout off [c] s; copy_name MBXout (off + 1) limit cs (n + 1) s }
      else do { s \<leftarrow> mbx_put MBXout off [c] s; Some (n, s) })"

text \<open>Data type and number of sub-indices in an object description, by object type.\<close>

definition od_type_and_maxsub :: "'w env \<Rightarrow> int \<Rightarrow> objectlist \<Rightarrow> (u16 \<times> u8) option" where
  "od_type_and_maxsub E nidx ob =
     (if ol_objtype ob = OTYPE_VAR then do {
        nsub \<leftarrow> SDO_findsubindex E nidx 0;
        d \<leftarrow> (if nsub < 0 then None else at (ol_objdesc ob) (nat nsub));
        Some (od_datatype d, ol_maxsub ob)
      }
      else if ol_objtype ob = OTYPE_ARRAY then do {
        nsub \<leftarrow> SDO_findsubindex E nidx 0;
        d \<leftarrow> (if nsub < 0 then None else at (ol_objdesc ob) (nat nsub));
        d0 \<leftarrow> at (ol_objdesc ob) 0;
        Some (od_datatype d, to_u8 (od_value d0))
      }
      else do { d0 \<leftarrow> at (ol_objdesc ob) 0; Some (0, to_u8 (od_value d0)) })"

definition getod_reply :: "'w env \<Rightarrow> nat \<Rightarrow> u16 \<Rightarrow> int \<Rightarrow> objectlist \<Rightarrow> 'w sys \<Rightarrow> 'w sys option" where
  "getod_reply E MBXout index nidx ob s = do {
     s \<leftarrow> info_start MBXout s;
     s \<leftarrow> info_header MBXout COE_GETODRESPONSE 0 0 s;
     s \<leftarrow> mbx_put MBXout 12 (le16 index) s;
     (dt, maxsub) \<leftarrow> od_type_and_maxsub E nidx ob;
     s \<leftarrow> mbx_put MBXout 14 (le16 dt) s;
     s \<leftarrow> mbx_put MBXout 16 [maxsub] s;
     s \<leftarrow> mbx_put MBXout 17 [to_u8 (ol_objtype ob)] s;
     (n, s) \<leftarrow> copy_name MBXout 18 (ESC_MBXDSIZE s - 0x0c) (ol_name ob) 0 s;
     s \<leftarrow> mbx_set_length MBXout (0x0C + to_u16 n) s;
     Some (request_done (set_mbxstate MBXout MBXstate_outreq s))
   }"

definition SDO_getod :: "'w env \<Rightarrow> 'w sys \<Rightarrow> 'w sys option" where
  "SDO_getod E s = do {
     index \<leftarrow> mbx_u16 0 12 s;
     nidx \<leftarrow> SDO_findobject E index;
     if nidx \<ge> 0 then do {
       (MBXout, s) \<leftarrow> ESC_claimbuffer E s;
       if MBXout \<noteq> 0 then do { ob \<leftarrow> obj_at E nidx; getod_reply E MBXout index nidx ob s }
       else Some s
     }
     else SDO_infoerror E ABORT_NOOBJECT s
   }"

definition geted_reply :: "nat \<Rightarrow> u16 \<Rightarrow> u8 \<Rightarrow> objd \<Rightarrow> 'w sys \<Rightarrow> 'w sys option" where
  "geted_reply MBXout index subindex d s = do {
     s \<leftarrow> info_start MBXout s;
     s \<leftarrow> info_header MBXout COE_ENTRYDESCRIPTIONRESPONSE 0 0 s;
     s \<leftarrow> mbx_put MBXout 12 (le16 index) s;
     s \<leftarrow> mbx_put MBXout 14 [subindex] s;
     s \<leftarrow> mbx_put MBXout 15 [0x07] s;
     s \<leftarrow> mbx_put MBXout 16 (le16 (od_datatype d)) s;
     s \<leftarrow> mbx_put MBXout 18 (le16 (if od_datatype d = DTYPE_DOMAIN \<or> od_bitlength d > 0xFFFF
            then 0 else to_u16 (od_bitlength d))) s;
     s \<leftarrow> mbx_put MBXout 20 (le16 (od_flags d)) s;
     (n, s) \<leftarrow> copy_name MBXout 22 (ESC_MBXDSIZE s - 0x10) (od_name d) 0 s;
     s \<leftarrow> mbx_set_length MBXout (0x10 + to_u16 n) s;
     Some (request_done (set_mbxstate MBXout MBXstate_outreq s))
   }"

definition SDO_geted :: "'w env \<Rightarrow> 'w sys \<Rightarrow> 'w sys option" where
  "SDO_geted E s = do {
     index \<leftarrow> mbx_u16 0 12 s;
     subindex \<leftarrow> mbx_u8 0 14 s;
     nidx \<leftarrow> SDO_findobject E index;
     if nidx \<ge> 0 then do {
       nsub \<leftarrow> SDO_findsubindex E nidx subindex;
       if nsub \<ge> 0 then do {
         ob \<leftarrow> obj_at E nidx;
         (MBXout, s) \<leftarrow> ESC_claimbuffer E s;
         if MBXout \<noteq> 0 then do { d \<leftarrow> at (ol_objdesc ob) (nat nsub); geted_reply MBXout index subindex d s }
         else Some s
       }
       else SDO_infoerror E ABORT_NOSUBINDEX s
     }
     else SDO_infoerror E ABORT_NOOBJECT s
   }"

section \<open>The dispatcher\<close>

definition coe_sdo_request :: "'w env \<Rightarrow> u8 \<Rightarrow> 'w sys \<Rightarrow> 'w sys option" where
  "coe_sdo_request E command s = do {
     len \<leftarrow> mbx_length 0 s;
     let whole = (command AND COE_COMPLETEACCESS = COE_COMPLETEACCESS);
     if command AND 0xe0 = COE_COMMAND_UPLOADREQUEST \<and> to_u32 len = COE_HEADERSIZE then
       (if whole then SDO_upload_complete_access E s else SDO_upload E s)
     else if command AND 0xef = COE_COMMAND_UPLOADSEGREQ \<and> to_u32 len = COE_HEADERSIZE \<and>
             segmented s = MBXSEU then SDO_uploadsegment E s
     else if command AND 0xe0 = COE_COMMAND_DOWNLOADREQUEST then
       (if whole then SDO_download_complete_access E s else SDO_download E s)
     else if command AND 0xe0 = COE_COMMAND_DOWNLOADSEGREQ then SDO_downloadsegment E s
     else Some s
   }"

definition coe_other_service :: "'w env \<Rightarrow> u16 \<Rightarrow> 'w sys \<Rightarrow> 'w sys option" where
  "coe_other_service E service s = do {
     opcode \<leftarrow> get_opcode 0 s;
     if service = COE_SDOINFORMATION \<and> opcode = 0x01 then SDO_getodlist E s
     else if service = COE_SDOINFORMATION \<and> opcode = 0x03 then SDO_getod E s
     else if service = COE_SDOINFORMATION \<and> opcode = 0x05 then SDO_geted E s
     else do {
       s \<leftarrow> (if service = 0 then MBX_error E MBXERR_INVALIDHEADER s
            else do {
              index \<leftarrow> mbx_u16 0 9 s;
              subindex \<leftarrow> mbx_u8 0 11 s;
              SDO_abort E 0 index subindex ABORT_UNSUPPORTED s
            });
       Some (request_done s)
     }
   }"

text \<open>Taking over a received CoE message.\<close>

definition coe_accept :: "'w env \<Rightarrow> 'w sys \<Rightarrow> 'w sys option" where
  "coe_accept E s =
     (if xoe s = 0 \<and> MBXcontrol s 0 = MBXstate_inclaim then do {
        t \<leftarrow> mbx_type 0 s;
        if t = MBXCOE then do {
          len \<leftarrow> mbx_length 0 s;
          if len < COE_MINIMUM_LENGTH then MBX_error E MBXERR_INVALIDSIZE s
          else Some (s\<lparr>xoe := MBXCOE\<rparr>)
        }
        else Some s
      }
      else Some s)"

definition ESC_coeprocess :: "'w env \<Rightarrow> 'w sys \<Rightarrow> 'w sys option" where
  "ESC_coeprocess E s =
     (if MBXrun s = 0 then Some s
      else do {
        s \<leftarrow> coe_accept E s;
        s \<leftarrow> (if xoe s = MBXCOE + MBXODL \<and> mbxoutpost s = 0 then SDO_getodlistcont E s else Some s);
        if xoe s = MBXCOE then do {
          ns \<leftarrow> mbx_u16 0 6 s;
          let service = drop_bit 12 ns;
          command \<leftarrow> mbx_u8 0 8 s;
          if service = COE_SDOREQUEST \<and> sdo_held_active s \<noteq> 0 then do {
            s \<leftarrow> MBX_error E MBXERR_SERVICEINWORK s;
            Some (request_done s)
          }
          else if service = COE_SDOREQUEST then coe_sdo_request E command s
          else coe_other_service E service s
        }
        else Some s
      })"

end
