(* ===== verification/Foe.thy ===== *)
theory Foe
  imports Esc_Pool Object_Dict
begin

text \<open>
  File over EtherCAT (\<open>esc_foe.c\<close>): opening a file by name and password, the buffered
  write of received data through the application's write function, the acknowledgements,
  and the state machine of a transfer. The read service exists only when
  \<open>FOE_READ_SUPPORTED\<close> is set.
\<close>

section \<open>Constants\<close>

abbreviation (input) FOE_FN_MAX :: u8 where "FOE_FN_MAX \<equiv> 31"
abbreviation (input) FOE_ERR_NOTDEFINED :: u32 where "FOE_ERR_NOTDEFINED \<equiv> 0x8000"
abbreviation (input) FOE_ERR_NOTFOUND :: u32 where "FOE_ERR_NOTFOUND \<equiv> 0x8001"
abbreviation (input) FOE_ERR_DISKFULL :: u32 where "FOE_ERR_DISKFULL \<equiv> 0x8003"
abbreviation (input) FOE_ERR_ILLEGAL :: u32 where "FOE_ERR_ILLEGAL \<equiv> 0x8004"
abbreviation (input) FOE_ERR_PACKETNO :: u32 where "FOE_ERR_PACKETNO \<equiv> 0x8005"
abbreviation (input) FOE_ERR_NOTINBOOTSTRAP :: u32 where "FOE_ERR_NOTINBOOTSTRAP \<equiv> 0x8009"
abbreviation (input) FOE_ERR_NORIGHTS :: u32 where "FOE_ERR_NORIGHTS \<equiv> 0x800A"
abbreviation (input) FOE_ERR_PROGERROR :: u32 where "FOE_ERR_PROGERROR \<equiv> 0x800B"
abbreviation (input) FOE_OP_RRQ :: u8 where "FOE_OP_RRQ \<equiv> 1"
abbreviation (input) FOE_OP_WRQ :: u8 where "FOE_OP_WRQ \<equiv> 2"
abbreviation (input) FOE_OP_DATA :: u8 where "FOE_OP_DATA \<equiv> 3"
abbreviation (input) FOE_OP_ACK :: u8 where "FOE_OP_ACK \<equiv> 4"
abbreviation (input) FOE_OP_ERR :: u8 where "FOE_OP_ERR \<equiv> 5"
abbreviation (input) FOE_OP_BUSY :: u8 where "FOE_OP_BUSY \<equiv> 6"
abbreviation (input) FOE_READY :: u8 where "FOE_READY \<equiv> 0"
abbreviation (input) FOE_WAIT_FOR_ACK :: u8 where "FOE_WAIT_FOR_ACK \<equiv> 1"
abbreviation (input) FOE_WAIT_FOR_FINAL_ACK :: u8 where "FOE_WAIT_FOR_FINAL_ACK \<equiv> 2"
abbreviation (input) FOE_WAIT_FOR_DATA :: u8 where "FOE_WAIT_FOR_DATA \<equiv> 3"
abbreviation (input) ESC_FOEHSIZE :: u16 where "ESC_FOEHSIZE \<equiv> 6"

definition ESC_FOE_DATA_SIZE :: "'w sys \<Rightarrow> u32" where
  "ESC_FOE_DATA_SIZE s = of_nat (activembxsize s) - 12"

section \<open>Files\<close>

text \<open>
  \<open>strncmp (a, b, n) == 0\<close> on C strings; the list holds the characters, and the
  terminator follows its end.
\<close>

fun strncmp_eq :: "bytes \<Rightarrow> bytes \<Rightarrow> nat \<Rightarrow> bool" where
  "strncmp_eq a b 0 = True"
| "strncmp_eq a b (Suc n) =
     (let x = (case a of [] \<Rightarrow> 0 | c # _ \<Rightarrow> c); y = (case b of [] \<Rightarrow> 0 | c # _ \<Rightarrow> c)
      in if x \<noteq> y then False else if x = 0 then True else strncmp_eq (tl a) (tl b) n)"

definition upd_file :: "nat \<Rightarrow> (foe_file_cfg \<Rightarrow> foe_file_cfg) \<Rightarrow> 'w sys \<Rightarrow> 'w sys option" where
  "upd_file i f s = do { c \<leftarrow> at (foe_files s) i; Some (s\<lparr>foe_files := (foe_files s)[i := f c]\<rparr>) }"

text \<open>The loop over the configured files, from number \<open>i\<close> on.\<close>

fun foe_find :: "foe_file_cfg list \<Rightarrow> nat \<Rightarrow> bytes \<Rightarrow> u8 \<Rightarrow> u32 \<Rightarrow> u8 \<Rightarrow> 'w sys \<Rightarrow> (u32 \<times> 'w sys) option" where
  "foe_find [] i name num_chars pass opc s = Some (FOE_ERR_NOTFOUND, s)"
| "foe_find (c # cs) i name num_chars pass opc s =
     (if strncmp_eq name (ff_name c) (unat num_chars) then
        (if pass \<noteq> ff_filepass c then Some (FOE_ERR_NORIGHTS, s)
         else if opc = FOE_OP_WRQ \<and> ff_write_only_in_boot c \<noteq> 0 \<and> ALstatus s \<noteq> to_u16 ESCboot
         then Some (FOE_ERR_NOTINBOOTSTRAP, s)
         else do {
           let s = s\<lparr>foe_file := Some i\<rparr>;
           s \<leftarrow> upd_file i (\<lambda>c. c\<lparr>ff_address_offset := 0, ff_total_size := 0\<rparr>) s;
           if opc = FOE_OP_RRQ \<or> opc = FOE_OP_WRQ
           then Some (0, s\<lparr>fposition := 0, fend := ff_max_data c\<rparr>)
           else foe_find cs (i + 1) name num_chars pass opc s
         })
      else foe_find cs (i + 1) name num_chars pass opc s)"

definition FOE_fopen :: "u8 \<Rightarrow> u32 \<Rightarrow> u8 \<Rightarrow> 'w sys \<Rightarrow> (u32 \<times> 'w sys) option" where
  "FOE_fopen num_chars pass opc s = do {
     let num_chars = (if num_chars > FOE_FN_MAX then FOE_FN_MAX else num_chars);
     name \<leftarrow> mbx_get 0 12 (unat num_chars) s;
     let s = s\<lparr>foe_file_name := name @ [0]\<rparr>;
     foe_find (foe_files s) 0 (foe_file_name s) num_chars pass opc s
   }"

text \<open>\<open>foe_file->write_function (foe_file, foe_cfg->fbuffer, FOEvar.fbufposition)\<close>.\<close>

definition foe_flush :: "'w env \<Rightarrow> 'w sys \<Rightarrow> (u32 \<times> 'w sys) option" where
  "foe_flush E s = do {
     f \<leftarrow> foe_file s;
     Some (foe_write_function E f (foe_fbuffer s) (unat (fbufposition s)) s)
   }"

definition upd_current :: "(foe_file_cfg \<Rightarrow> foe_file_cfg) \<Rightarrow> 'w sys \<Rightarrow> 'w sys option" where
  "upd_current g s = do { f \<leftarrow> foe_file s; upd_file f g s }"

text \<open>The loop of \<open>FOE_fwrite\<close> over the received data.\<close>

fun fwrite_loop :: "'w env \<Rightarrow> bytes \<Rightarrow> u32 \<Rightarrow> 'w sys \<Rightarrow> (u32 \<times> 'w sys) option" where
  "fwrite_loop E [] ncopied s = Some (ncopied, s)"
| "fwrite_loop E (b # bs) ncopied s =
     (if fend s - fposition s = 0 then Some (ncopied, s)
      else do {
        fb \<leftarrow> put_bytes (unat (fbufposition s)) [b] (foe_fbuffer s);
        let s = s\<lparr>foe_fbuffer := fb, fbufposition := fbufposition s + 1\<rparr>;
        (failed, s) \<leftarrow> (if to_u32 (fbufposition s) \<ge> foe_buffer_size s then do {
            (failed, s) \<leftarrow> foe_flush E s;
            let s = s\<lparr>fbufposition := 0\<rparr>;
            let n = foe_buffer_size s;
            s \<leftarrow> upd_current (\<lambda>c. c\<lparr>ff_address_offset := ff_address_offset c + n\<rparr>) s;
            Some (failed, s)
          }
          else Some (0, s));
        let s = s\<lparr>fposition := fposition s + 1\<rparr>;
        if failed \<noteq> 0 then Some (ncopied, s) else fwrite_loop E bs (ncopied + 1) s
      })"

definition FOE_fwrite :: "'w env \<Rightarrow> bytes \<Rightarrow> 'w sys \<Rightarrow> (u32 \<times> 'w sys) option" where
  "FOE_fwrite E data s = do {
     let s = s\<lparr>fprevposition := fposition s\<rparr>;
     (ncopied, s) \<leftarrow> fwrite_loop E data 0 s;
     s \<leftarrow> upd_current (\<lambda>c. c\<lparr>ff_total_size := ff_total_size c + ncopied\<rparr>) s;
     Some (ncopied, s)
   }"

definition FOE_fclose :: "'w env \<Rightarrow> 'w sys \<Rightarrow> (u32 \<times> 'w sys) option" where
  "FOE_fclose E s = do {
     (failed, s) \<leftarrow> foe_flush E s;
     let n = to_u32 (fbufposition s);
     s \<leftarrow> upd_current (\<lambda>c. c\<lparr>ff_address_offset := ff_address_offset c + n\<rparr>) s;
     Some (failed, s\<lparr>fbufposition := 0\<rparr>)
   }"

definition FOE_init :: "'w sys \<Rightarrow> 'w sys" where
  "FOE_init s = s\<lparr>foepacket := 0, foestate := FOE_READY, fposition := 0, fprevposition := 0, fbufposition := 0\<rparr>"

section \<open>Replies\<close>

text \<open>A FoE header without data: opcode at 6, packet number or error code at 8.\<close>

definition foe_reply :: "nat \<Rightarrow> u8 \<Rightarrow> u32 \<Rightarrow> 'w sys \<Rightarrow> 'w sys option" where
  "foe_reply mbxhandle opcode v s = do {
     s \<leftarrow> mbx_set_length mbxhandle ESC_FOEHSIZE s;
     s \<leftarrow> mbx_set_type mbxhandle MBXFOE s;
     s \<leftarrow> mbx_put mbxhandle 6 [opcode] s;
     mbx_put mbxhandle 8 (le32 v) s
   }"

definition FOE_abort :: "'w env \<Rightarrow> u32 \<Rightarrow> 'w sys \<Rightarrow> 'w sys option" where
  "FOE_abort E code s = do {
     s \<leftarrow> (if code \<noteq> 0 then do {
         (mbxhandle, s) \<leftarrow> ESC_claimbuffer E s;
         if mbxhandle \<noteq> 0 then do {
           s \<leftarrow> foe_reply mbxhandle FOE_OP_ERR code s;
           Some (set_mbxstate mbxhandle MBXstate_outreq s)
         }
         else Some s
       }
       else Some s);
     Some (FOE_init s)
   }"

definition FOE_send_ack :: "'w env \<Rightarrow> 'w sys \<Rightarrow> (u32 \<times> 'w sys) option" where
  "FOE_send_ack E s = do {
     (mbxhandle, s) \<leftarrow> ESC_claimbuffer E s;
     if mbxhandle \<noteq> 0 then do {
       s \<leftarrow> foe_reply mbxhandle FOE_OP_ACK (foepacket s) s;
       let s = s\<lparr>foepacket := foepacket s + 1\<rparr>;
       Some (0, set_mbxstate mbxhandle MBXstate_outreq s)
     }
     else Some (FOE_ERR_PROGERROR, s)
   }"

section \<open>Writing a file\<close>

text \<open>\<open>etohs (length) - ESC_FOEHSIZE\<close> as an unsigned 32 bit value.\<close>

definition foe_data_len :: "'w sys \<Rightarrow> u32 option" where
  "foe_data_len s = map_option (\<lambda>len. to_u32 len - 6) (mbx_length 0 s)"

definition FOE_write :: "'w env \<Rightarrow> 'w sys \<Rightarrow> 'w sys option" where
  "FOE_write E s =
     (if foestate s \<noteq> FOE_READY then FOE_abort E FOE_ERR_ILLEGAL s
      else do {
        let s = FOE_init s;
        data_len \<leftarrow> foe_data_len s;
        password \<leftarrow> mbx_u32 0 8 s;
        (res, s) \<leftarrow> FOE_fopen (to_u8 data_len) password FOE_OP_WRQ s;
        if res = 0 then do {
          (res, s) \<leftarrow> FOE_send_ack E s;
          if res \<noteq> 0 then FOE_abort E res s else Some (s\<lparr>foestate := FOE_WAIT_FOR_DATA\<rparr>)
        }
        else FOE_abort E res s
      })"

definition foe_store :: "'w env \<Rightarrow> u32 \<Rightarrow> 'w sys \<Rightarrow> 'w sys option" where
  "foe_store E data_len s = do {
     data \<leftarrow> mbx_get 0 12 (unat data_len) s;
     (ncopied, s) \<leftarrow> FOE_fwrite E data s;
     if ncopied = 0 then FOE_abort E FOE_ERR_PROGERROR s
     else if data_len = ESC_FOE_DATA_SIZE s then do {
       s \<leftarrow> (if ncopied \<noteq> data_len then FOE_abort E FOE_ERR_PROGERROR s else Some s);
       (res, s) \<leftarrow> FOE_send_ack E s;
       if res \<noteq> 0 then FOE_abort E res s else Some s
     }
     else do {
       (bad, s) \<leftarrow> (if ncopied \<noteq> data_len then Some (True, s)
                   else do { (failed, s) \<leftarrow> FOE_fclose E s; Some (failed \<noteq> 0, s) });
       if bad then FOE_abort E FOE_ERR_PROGERROR s
       else do { (res, s) \<leftarrow> FOE_send_ack E s; Some (FOE_init s) }
     }
   }"

definition FOE_data :: "'w env \<Rightarrow> 'w sys \<Rightarrow> 'w sys option" where
  "FOE_data E s =
     (if foestate s \<noteq> FOE_WAIT_FOR_DATA then FOE_abort E FOE_ERR_ILLEGAL s
      else do {
        data_len \<leftarrow> foe_data_len s;
        packet \<leftarrow> mbx_u32 0 8 s;
        if packet \<noteq> foepacket s then FOE_abort E FOE_ERR_PACKETNO s
        else if data_len = 0 then do {
          (failed, s) \<leftarrow> FOE_fclose E s;
          (res, s) \<leftarrow> FOE_send_ack E s;
          Some (FOE_init s)
        }
        else if fposition s + data_len > fend s then FOE_abort E FOE_ERR_DISKFULL s
        else foe_store E data_len s
      })"

section \<open>Reading a file\<close>

text \<open>The bytes \<open>FOE_fread\<close> takes from the file buffer, at most \<open>maxlength\<close>.\<close>

fun FOE_fread :: "nat \<Rightarrow> 'w sys \<Rightarrow> (bytes \<times> 'w sys) option" where
  "FOE_fread 0 s = Some ([], s)"
| "FOE_fread (Suc maxlength) s =
     (if fend s - fposition s = 0 then Some ([], s)
      else do {
        b \<leftarrow> at (foe_fbuffer s) (unat (fposition s));
        (bs, s) \<leftarrow> FOE_fread maxlength (s\<lparr>fposition := fposition s + 1\<rparr>);
        Some (b # bs, s)
      })"

definition FOE_send_data_packet :: "'w env \<Rightarrow> 'w sys \<Rightarrow> (u32 \<times> 'w sys) option" where
  "FOE_send_data_packet E s = do {
     (mbxhandle, s) \<leftarrow> ESC_claimbuffer E s;
     if mbxhandle \<noteq> 0 then do {
       (bs, s) \<leftarrow> FOE_fread (unat (ESC_FOE_DATA_SIZE s)) s;
       s \<leftarrow> mbx_put mbxhandle 12 bs s;
       let data_len = (of_nat (length bs) :: u32);
       s \<leftarrow> mbx_put mbxhandle 6 [FOE_OP_DATA] s;
       s \<leftarrow> mbx_put mbxhandle 8 (le32 (foepacket s)) s;
       let s = s\<lparr>foepacket := foepacket s + 1\<rparr>;
       s \<leftarrow> mbx_set_length mbxhandle (to_u16 (data_len + 6)) s;
       s \<leftarrow> mbx_set_type mbxhandle MBXFOE s;
       Some (data_len, set_mbxstate mbxhandle MBXstate_outreq s)
     }
     else Some (FOE_ERR_PROGERROR, s)
   }"

definition FOE_read :: "'w env \<Rightarrow> 'w sys \<Rightarrow> 'w sys option" where
  "FOE_read E s =
     (if foestate s \<noteq> FOE_READY then FOE_abort E FOE_ERR_ILLEGAL s
      else do {
        let s = FOE_init s;
        data_len \<leftarrow> foe_data_len s;
        password \<leftarrow> mbx_u32 0 8 s;
        (res, s) \<leftarrow> FOE_fopen (to_u8 data_len) password FOE_OP_RRQ s;
        if res = 0 then do {
          let s = s\<lparr>foepacket := 1\<rparr>;
          (res, s) \<leftarrow> FOE_send_data_packet E s;
          if res \<le> ESC_FOE_DATA_SIZE s then Some (s\<lparr>foestate := FOE_WAIT_FOR_ACK\<rparr>)
          else FOE_abort E res s
        }
        else FOE_abort E res s
      })"

definition FOE_ack :: "'w env \<Rightarrow> 'w sys \<Rightarrow> 'w sys option" where
  "FOE_ack E s =
     (if foestate s = FOE_WAIT_FOR_FINAL_ACK then Some (FOE_init s)
      else if foestate s \<noteq> FOE_WAIT_FOR_ACK then FOE_abort E FOE_ERR_ILLEGAL s
      else do {
        (res, s) \<leftarrow> FOE_send_data_packet E s;
        if res < ESC_FOE_DATA_SIZE s then Some (s\<lparr>foestate := FOE_WAIT_FOR_FINAL_ACK\<rparr>)
        else if res \<ge> FOE_ERR_NOTDEFINED then FOE_abort E FOE_ERR_PROGERROR s
        else Some s
      })"

definition FOE_busy :: "'w env \<Rightarrow> 'w sys \<Rightarrow> 'w sys option" where
  "FOE_busy E s =
     (if foestate s \<noteq> FOE_WAIT_FOR_ACK then FOE_abort E FOE_ERR_ILLEGAL s
      else FOE_ack E (s\<lparr>fposition := fprevposition s, foepacket := foepacket s - 1\<rparr>))"

definition FOE_error :: "'w env \<Rightarrow> 'w sys \<Rightarrow> 'w sys option" where
  "FOE_error E s = FOE_abort E 0 s"

section \<open>Configuration and dispatch\<close>

record foe_cfg =
  fc_fbuffer :: bytes
  fc_buffer_size :: u32
  fc_files :: "foe_file_cfg list"

text \<open>The configuration is kept by reference; the model keeps its contents in the state.\<close>

definition FOE_config :: "foe_cfg \<Rightarrow> 'w sys \<Rightarrow> 'w sys" where
  "FOE_config cfg s = s\<lparr>foe_fbuffer := fc_fbuffer cfg, foe_buffer_size := fc_buffer_size cfg,
     foe_files := fc_files cfg\<rparr>"

definition foe_dispatch :: "'w env \<Rightarrow> u8 \<Rightarrow> 'w sys \<Rightarrow> 'w sys option" where
  "foe_dispatch E opcode s =
     (if opcode = FOE_OP_WRQ then FOE_write E s
      else if opcode = FOE_OP_DATA then FOE_data E s
      else if FOE_READ_SUPPORTED (opt E) \<and> opcode = FOE_OP_RRQ then FOE_read E s
      else if FOE_READ_SUPPORTED (opt E) \<and> opcode = FOE_OP_ACK then FOE_ack E s
      else if FOE_READ_SUPPORTED (opt E) \<and> opcode = FOE_OP_BUSY then FOE_busy E s
      else if opcode = FOE_OP_ERR then FOE_error E s
      else FOE_abort E FOE_ERR_NOTDEFINED s)"

definition ESC_foeprocess :: "'w env \<Rightarrow> 'w sys \<Rightarrow> 'w sys option" where
  "ESC_foeprocess E s =
     (if MBXrun s = 0 then Some s
      else do {
        s \<leftarrow> (if xoe s = 0 \<and> MBXcontrol s 0 = MBXstate_inclaim then do {
            t \<leftarrow> mbx_type 0 s;
            Some (if t = MBXFOE then s\<lparr>xoe := MBXFOE\<rparr> else s)
          }
          else Some s);
        if xoe s = MBXFOE then do {
          len \<leftarrow> mbx_length 0 s;
          s \<leftarrow> (if len < ESC_FOEHSIZE then FOE_abort E (to_u32 MBXERR_SIZETOOSHORT) s
               else do { opcode \<leftarrow> mbx_u8 0 6 s; foe_dispatch E opcode s });
          Some ((set_mbxstate 0 MBXstate_idle s)\<lparr>xoe := 0\<rparr>)
        }
        else Some s
      })"

end
