(* ===== verification/Eoe.thy ===== *)
theory Eoe
  imports Esc_Pool
begin

text \<open>
  Ethernet over EtherCAT (\<open>esc_eoe.c\<close>): the cached network settings and the two requests
  that read and set them, reassembly of received frames from fragments, and sending a frame
  in fragments. The TCP/IP stack behind the callbacks of \<open>eoe_cfg_t\<close> is a parameter.
\<close>

section \<open>Constants and header fields\<close>

abbreviation (input) EOE_FRAG_DATA :: u16 where "EOE_FRAG_DATA \<equiv> 0"
abbreviation (input) EOE_INIT_REQ :: u16 where "EOE_INIT_REQ \<equiv> 2"
abbreviation (input) EOE_INIT_RESP :: u16 where "EOE_INIT_RESP \<equiv> 3"
abbreviation (input) EOE_GET_IP_PARAM_REQ :: u16 where "EOE_GET_IP_PARAM_REQ \<equiv> 6"
abbreviation (input) EOE_GET_IP_PARAM_RESP :: u16 where "EOE_GET_IP_PARAM_RESP \<equiv> 7"
abbreviation (input) EOE_HDR_LAST_FRAGMENT :: u16 where "EOE_HDR_LAST_FRAGMENT \<equiv> 0x0100"
abbreviation (input) EOE_RESULT_UNSPECIFIED_ERROR :: u16 where "EOE_RESULT_UNSPECIFIED_ERROR \<equiv> 0x0001"
abbreviation (input) EOE_RESULT_UNSUPPORTED_FRAME_TYPE :: u16 where "EOE_RESULT_UNSUPPORTED_FRAME_TYPE \<equiv> 0x0002"
abbreviation (input) EOE_RESULT_NO_IP_SUPPORT :: u16 where "EOE_RESULT_NO_IP_SUPPORT \<equiv> 0x0201"
abbreviation (input) EOE_NUMBER_OF_PORTS :: u8 where "EOE_NUMBER_OF_PORTS \<equiv> 1"
abbreviation (input) EOE_PARAM_OFFSET :: u32 where "EOE_PARAM_OFFSET \<equiv> 4"
abbreviation (input) ESC_EOEHSIZE :: u32 where "ESC_EOEHSIZE \<equiv> 4"
abbreviation (input) EOE_DNS_NAME_LENGTH :: u32 where "EOE_DNS_NAME_LENGTH \<equiv> 32"

definition frame_type :: "u16 \<Rightarrow> u16" where "frame_type x = x AND 0xF"
definition frame_port :: "u16 \<Rightarrow> u8" where "frame_port x = to_u8 (drop_bit 4 x AND 0xF)"
definition frame_port_set :: "u8 \<Rightarrow> u16" where "frame_port_set p = push_bit 4 (to_u16 p AND 0xF)"
definition last_fragment :: "u16 \<Rightarrow> bool" where "last_fragment x \<longleftrightarrow> drop_bit 8 x AND 0x1 \<noteq> 0"
definition time_append :: "u16 \<Rightarrow> bool" where "time_append x \<longleftrightarrow> drop_bit 9 x AND 0x1 \<noteq> 0"
definition frag_no :: "u16 \<Rightarrow> u16" where "frag_no x = x AND 0x3F"
definition frame_offset :: "u16 \<Rightarrow> u32" where "frame_offset x = push_bit 5 (to_u32 (drop_bit 6 x AND 0x3F))"
definition frame_no :: "u16 \<Rightarrow> u16" where "frame_no x = drop_bit 12 x AND 0xF"

text \<open>Header at 6 (\<open>frameinfo1\<close>) and 8 (\<open>frameinfo2\<close> or \<open>result\<close>), data from 10 on.\<close>

section \<open>Cached settings\<close>

text \<open>
  Addresses are kept in network order: \<open>EOE_HTONL\<close> swaps the bytes on a little-endian
  host, and the message carries the four octets in the opposite order of memory.
\<close>

definition swap32 :: "u32 \<Rightarrow> u32" where
  "swap32 x = rd32 (rev (le32 x))"

definition EOE_ip_uint32_to_byte :: "u32 \<Rightarrow> bytes" where
  "EOE_ip_uint32_to_byte addr = rev (le32 addr)"

definition EOE_ip_byte_to_uint32 :: "bytes \<Rightarrow> u32" where
  "EOE_ip_byte_to_uint32 byte_ip = swap32 (rd32 byte_ip)"

text \<open>The getters give the value, or nothing where the C function returns \<open>-1\<close>.\<close>

definition EOE_ecat_get_mac :: "u8 \<Rightarrow> 'w sys \<Rightarrow> bytes option \<times> 'w sys" where
  "EOE_ecat_get_mac port s =
     (if port < EOE_NUMBER_OF_PORTS \<and> mac_set (nic_port s) \<noteq> 0
      then (Some (mac_addr (nic_port s)), s\<lparr>nic_port := (nic_port s)\<lparr>mac_set := 1\<rparr>\<rparr>)
      else (None, s))"

definition EOE_ecat_set_mac :: "u8 \<Rightarrow> bytes \<Rightarrow> 'w sys \<Rightarrow> int \<times> 'w sys" where
  "EOE_ecat_set_mac port mac s =
     (if port < EOE_NUMBER_OF_PORTS then (0, s\<lparr>nic_port := (nic_port s)\<lparr>mac_addr := mac\<rparr>\<rparr>) else (-1, s))"

definition EOE_ecat_get_ip :: "u8 \<Rightarrow> 'w sys \<Rightarrow> u32 option" where
  "EOE_ecat_get_ip port s = (if port < EOE_NUMBER_OF_PORTS \<and> ip_set (nic_port s) \<noteq> 0
     then Some (swap32 (ip_addr (nic_port s))) else None)"

definition EOE_ecat_set_ip :: "u8 \<Rightarrow> u32 \<Rightarrow> 'w sys \<Rightarrow> int \<times> 'w sys" where
  "EOE_ecat_set_ip port ip s = (if port < EOE_NUMBER_OF_PORTS
     then (0, s\<lparr>nic_port := (nic_port s)\<lparr>ip_addr := swap32 ip, ip_set := 1\<rparr>\<rparr>) else (-1, s))"

definition EOE_ecat_get_subnet :: "u8 \<Rightarrow> 'w sys \<Rightarrow> u32 option" where
  "EOE_ecat_get_subnet port s = (if port < EOE_NUMBER_OF_PORTS \<and> subnet_set (nic_port s) \<noteq> 0
     then Some (swap32 (subnet_addr (nic_port s))) else None)"

definition EOE_ecat_set_subnet :: "u8 \<Rightarrow> u32 \<Rightarrow> 'w sys \<Rightarrow> int \<times> 'w sys" where
  "EOE_ecat_set_subnet port subnet s = (if port < EOE_NUMBER_OF_PORTS
     then (0, s\<lparr>nic_port := (nic_port s)\<lparr>subnet_addr := swap32 subnet, subnet_set := 1\<rparr>\<rparr>) else (-1, s))"

definition EOE_ecat_get_gateway :: "u8 \<Rightarrow> 'w sys \<Rightarrow> u32 option" where
  "EOE_ecat_get_gateway port s = (if port < EOE_NUMBER_OF_PORTS \<and> default_gateway_set (nic_port s) \<noteq> 0
     then Some (swap32 (default_gateway_addr (nic_port s))) else None)"

definition EOE_ecat_set_gateway :: "u8 \<Rightarrow> u32 \<Rightarrow> 'w sys \<Rightarrow> int \<times> 'w sys" where
  "EOE_ecat_set_gateway port gw s = (if port < EOE_NUMBER_OF_PORTS
     then (0, s\<lparr>nic_port := (nic_port s)\<lparr>default_gateway_addr := swap32 gw, default_gateway_set := 1\<rparr>\<rparr>)
     else (-1, s))"

definition EOE_ecat_get_dns_ip :: "u8 \<Rightarrow> 'w sys \<Rightarrow> u32 option" where
  "EOE_ecat_get_dns_ip port s = (if port < EOE_NUMBER_OF_PORTS \<and> dns_ip_set (nic_port s) \<noteq> 0
     then Some (swap32 (dns_ip_addr (nic_port s))) else None)"

definition EOE_ecat_set_dns_ip :: "u8 \<Rightarrow> u32 \<Rightarrow> 'w sys \<Rightarrow> int \<times> 'w sys" where
  "EOE_ecat_set_dns_ip port dns s = (if port < EOE_NUMBER_OF_PORTS
     then (0, s\<lparr>nic_port := (nic_port s)\<lparr>dns_ip_addr := swap32 dns, dns_ip_set := 1\<rparr>\<rparr>) else (-1, s))"

definition EOE_ecat_get_dns_name :: "u8 \<Rightarrow> 'w sys \<Rightarrow> bytes option" where
  "EOE_ecat_get_dns_name port s = (if port < EOE_NUMBER_OF_PORTS \<and> dns_name_set (nic_port s) \<noteq> 0
     then Some (dns_name (nic_port s)) else None)"

definition EOE_ecat_set_dns_name :: "u8 \<Rightarrow> bytes \<Rightarrow> 'w sys \<Rightarrow> int \<times> 'w sys" where
  "EOE_ecat_set_dns_name port name s = (if port < EOE_NUMBER_OF_PORTS
     then (0, s\<lparr>nic_port := (nic_port s)\<lparr>dns_name := name, dns_name_set := 1\<rparr>\<rparr>) else (-1, s))"

section \<open>Reading and setting the settings from the master\<close>

definition EOE_no_data_response :: "'w env \<Rightarrow> u16 \<Rightarrow> u16 \<Rightarrow> 'w sys \<Rightarrow> 'w sys option" where
  "EOE_no_data_response E frameinfo1 result s = do {
     (mbxhandle, s) \<leftarrow> ESC_claimbuffer E s;
     if mbxhandle \<noteq> 0 then do {
       s \<leftarrow> mbx_set_length mbxhandle (to_u16 ESC_EOEHSIZE) s;
       s \<leftarrow> mbx_set_type mbxhandle MBXEOE s;
       s \<leftarrow> mbx_put mbxhandle 6 (le16 frameinfo1) s;
       s \<leftarrow> mbx_put mbxhandle 8 (le16 result) s;
       Some (set_mbxstate mbxhandle MBXstate_outreq s)
     }
     else Some s
   }"

text \<open>One optional parameter of the response: appended when it is set.\<close>

definition add_param ::
  "nat \<Rightarrow> u8 \<Rightarrow> u8 \<Rightarrow> bytes \<Rightarrow> u8 \<times> u32 \<times> 'w sys \<Rightarrow> (u8 \<times> u32 \<times> 'w sys) option" where
  "add_param mbxhandle present bit_flag bs st = (case st of (flags, off, s) \<Rightarrow>
     if present \<noteq> 0 then do {
       s \<leftarrow> mbx_put mbxhandle (10 + unat off) bs s;
       Some (flags OR bit_flag, off + of_nat (length bs), s)
     }
     else Some (flags, off, s))"

definition EOE_get_ip :: "'w env \<Rightarrow> 'w sys \<Rightarrow> 'w sys option" where
  "EOE_get_ip E s = do {
     frameinfo1 \<leftarrow> mbx_u16 0 6 s;
     let port = frame_port frameinfo1;
     if port > EOE_NUMBER_OF_PORTS
     then EOE_no_data_response E (frame_port_set port OR EOE_INIT_RESP OR EOE_HDR_LAST_FRAGMENT)
            EOE_RESULT_UNSPECIFIED_ERROR s
     else do {
       let s = (case load_eth_settings E of None \<Rightarrow> s | Some h \<Rightarrow> snd (h s));
       (mbxhandle, s) \<leftarrow> ESC_claimbuffer E s;
       if mbxhandle \<noteq> 0 then do {
         s \<leftarrow> mbx_set_type mbxhandle MBXEOE s;
         let s = set_mbxstate mbxhandle MBXstate_outreq s;
         s \<leftarrow> mbx_put mbxhandle 6
           (le16 (frame_port_set port OR (EOE_GET_IP_PARAM_RESP AND 0xF) OR EOE_HDR_LAST_FRAGMENT)) s;
         s \<leftarrow> mbx_put mbxhandle 8 (le16 0) s;
         let p = nic_port s;
         st \<leftarrow> add_param mbxhandle (mac_set p) 0x01 (mac_addr p) (0, EOE_PARAM_OFFSET, s);
         st \<leftarrow> add_param mbxhandle (ip_set p) 0x02 (EOE_ip_uint32_to_byte (ip_addr p)) st;
         st \<leftarrow> add_param mbxhandle (subnet_set p) 0x04 (EOE_ip_uint32_to_byte (subnet_addr p)) st;
         st \<leftarrow> add_param mbxhandle (default_gateway_set p) 0x08 (EOE_ip_uint32_to_byte (default_gateway_addr p)) st;
         st \<leftarrow> add_param mbxhandle (dns_ip_set p) 0x10 (EOE_ip_uint32_to_byte (dns_ip_addr p)) st;
         (flags, data_offset, s) \<leftarrow> add_param mbxhandle (dns_name_set p) 0x20 (dns_name p) st;
         s \<leftarrow> mbx_put mbxhandle 10 [flags] s;
         mbx_set_length mbxhandle (to_u16 (ESC_EOEHSIZE + data_offset)) s
       }
       else Some s
     }
   }"

text \<open>One optional parameter of the request, of \<open>n\<close> bytes: stored when its flag is set.\<close>

definition take_param ::
  "u8 \<Rightarrow> u8 \<Rightarrow> u32 \<Rightarrow> (bytes \<Rightarrow> eoe_param \<Rightarrow> eoe_param) \<Rightarrow> u32 \<times> 'w sys \<Rightarrow> (u32 \<times> 'w sys) option" where
  "take_param flags bit_flag n store st = (case st of (off, s) \<Rightarrow>
     if flags AND bit_flag \<noteq> 0 then do {
       bs \<leftarrow> mbx_get 0 (10 + unat off) (unat n) s;
       Some (off + n, s\<lparr>nic_port := store bs (nic_port s)\<rparr>)
     }
     else Some (off, s))"

definition dns_len :: "u32 \<Rightarrow> u32 \<Rightarrow> u32" where
  "dns_len eoedatasize off = min (eoedatasize - off) EOE_DNS_NAME_LENGTH"

definition EOE_set_ip :: "'w env \<Rightarrow> 'w sys \<Rightarrow> 'w sys option" where
  "EOE_set_ip E s = do {
     len \<leftarrow> mbx_length 0 s;
     let eoedatasize = to_u32 len - ESC_EOEHSIZE;
     frameinfo1 \<leftarrow> mbx_u16 0 6 s;
     let port = frame_port frameinfo1;
     flags \<leftarrow> mbx_u8 0 10 s;
     if port > EOE_NUMBER_OF_PORTS
     then EOE_no_data_response E (frame_port_set port OR EOE_INIT_RESP OR EOE_HDR_LAST_FRAGMENT)
            EOE_RESULT_UNSPECIFIED_ERROR s
     else do {
       st \<leftarrow> take_param flags 0x01 6 (\<lambda>bs p. p\<lparr>mac_addr := bs, mac_set := 1\<rparr>) (EOE_PARAM_OFFSET, s);
       st \<leftarrow> take_param flags 0x02 4 (\<lambda>bs p. p\<lparr>ip_addr := EOE_ip_byte_to_uint32 bs, ip_set := 1\<rparr>) st;
       st \<leftarrow> take_param flags 0x04 4 (\<lambda>bs p. p\<lparr>subnet_addr := EOE_ip_byte_to_uint32 bs, subnet_set := 1\<rparr>) st;
       st \<leftarrow> take_param flags 0x08 4
         (\<lambda>bs p. p\<lparr>default_gateway_addr := EOE_ip_byte_to_uint32 bs, default_gateway_set := 1\<rparr>) st;
       st \<leftarrow> take_param flags 0x10 4 (\<lambda>bs p. p\<lparr>dns_ip_addr := EOE_ip_byte_to_uint32 bs, dns_ip_set := 1\<rparr>) st;
       (data_offset, s) \<leftarrow> take_param flags 0x20 (dns_len eoedatasize (fst st))
         (\<lambda>bs p. p\<lparr>dns_name := bs @ drop (length bs) (dns_name p), dns_name_set := 1\<rparr>) st;
       let (result, s) =
         (if data_offset > eoedatasize then (MBXERR_SIZETOOSHORT, s)
          else (case store_ethernet_settings E of
              None \<Rightarrow> (EOE_RESULT_NO_IP_SUPPORT, s)
            | Some h \<Rightarrow> (case h s of (r, s) \<Rightarrow> (word_of_int r, s))));
       EOE_no_data_response E (frame_port_set port OR EOE_INIT_RESP OR EOE_HDR_LAST_FRAGMENT) result s
     }
   }"

section \<open>Receiving a frame\<close>

definition upd_eoe :: "(eoe_var \<Rightarrow> eoe_var) \<Rightarrow> 'w sys \<Rightarrow> 'w sys" where
  "upd_eoe f s = s\<lparr>EOEvar := f (EOEvar s)\<rparr>"

definition EOE_init_rx :: "'w env \<Rightarrow> 'w sys \<Rightarrow> 'w sys" where
  "EOE_init_rx E s =
     (let s = upd_eoe (\<lambda>v. v\<lparr>rxfragmentno := 0, rxframesize := 0, rxframeoffset := 0, rxframeno := 0\<rparr>) s
      in if pb_payload (rxebuf (EOEvar s)) = None then
           (case eoe_get_buffer E of
              None \<Rightarrow> s
            | Some h \<Rightarrow> (case h (rxebuf (EOEvar s)) s of (b, s) \<Rightarrow> upd_eoe (\<lambda>v. v\<lparr>rxebuf := b\<rparr>) s))
         else s)"

text \<open>
  The checks on a fragment, in the order of the code: fragment number, then for the first
  fragment the buffer, for a later one the frame number and the offset. \<open>False\<close> drops it.
\<close>

definition rx_accept :: "'w env \<Rightarrow> u16 \<Rightarrow> 'w sys \<Rightarrow> bool \<times> 'w sys" where
  "rx_accept E frameinfo2 s =
     (let unexpected = to_u16 (rxfragmentno (EOEvar s)) \<noteq> frag_no frameinfo2;
          s = (if unexpected \<and> rxfragmentno (EOEvar s) \<noteq> 0 then EOE_init_rx E s else s)
      in if unexpected \<and> frag_no frameinfo2 > 0 then (False, s)
         else if rxfragmentno (EOEvar s) = 0 then
           (let s = upd_eoe (\<lambda>v. v\<lparr>rxframesize := frame_offset frameinfo2\<rparr>) s
            in if pb_payload (rxebuf (EOEvar s)) \<noteq> None
               then (True, upd_eoe (\<lambda>v. v\<lparr>rxebuf := (rxebuf v)\<lparr>pb_len := rxframesize v\<rparr>,
                       rxframeoffset := 0, rxframeno := frame_no frameinfo2\<rparr>) s)
               else (False, EOE_init_rx E s))
         else if rxframeno (EOEvar s) \<noteq> frame_no frameinfo2 then (False, EOE_init_rx E s)
         else if rxframeoffset (EOEvar s) \<noteq> frame_offset frameinfo2 then (False, EOE_init_rx E s)
         else (True, s))"

text \<open>Appending the data; \<open>False\<close> when they exceed the frame size that was announced.\<close>

definition rx_store :: "'w env \<Rightarrow> u32 \<Rightarrow> 'w sys \<Rightarrow> (bool \<times> 'w sys) option" where
  "rx_store E eoedatasize s = do {
     let v = EOEvar s;
     if rxframeoffset v + eoedatasize \<le> rxframesize v then do {
       data \<leftarrow> mbx_get 0 10 (unat eoedatasize) s;
       payload \<leftarrow> pb_payload (rxebuf v);
       payload \<leftarrow> put_bytes (unat (rxframeoffset v)) data payload;
       Some (True, upd_eoe (\<lambda>v. v\<lparr>rxebuf := (rxebuf v)\<lparr>pb_payload := Some payload\<rparr>,
         rxframeoffset := rxframeoffset v + eoedatasize, rxfragmentno := rxfragmentno v + 1\<rparr>) s)
     }
     else Some (False, EOE_init_rx E s)
   }"

definition rx_last :: "'w env \<Rightarrow> u16 \<Rightarrow> 'w sys \<Rightarrow> 'w sys" where
  "rx_last E frameinfo1 s =
     (let s = (if time_append frameinfo1
               then upd_eoe (\<lambda>v. v\<lparr>rxframeoffset := rxframeoffset v - 4\<rparr>) s else s);
          s = upd_eoe (\<lambda>v. v\<lparr>rxebuf := (rxebuf v)\<lparr>pb_len := rxframeoffset v\<rparr>\<rparr>) s;
          s = handle_recv_buffer E (frame_port frameinfo1) (rxebuf (EOEvar s)) s;
          s = upd_eoe (\<lambda>v. v\<lparr>rxebuf := (rxebuf v)\<lparr>pb_payload := None\<rparr>\<rparr>) s
      in EOE_init_rx E s)"

definition EOE_receive_fragment :: "'w env \<Rightarrow> 'w sys \<Rightarrow> 'w sys option" where
  "EOE_receive_fragment E s = do {
     len \<leftarrow> mbx_length 0 s;
     let eoedatasize = to_u32 len - ESC_EOEHSIZE;
     frameinfo1 \<leftarrow> mbx_u16 0 6 s;
     frameinfo2 \<leftarrow> mbx_u16 0 8 s;
     let (go, s) = rx_accept E frameinfo2 s;
     if \<not> go then Some s
     else do {
       (go, s) \<leftarrow> rx_store E eoedatasize s;
       Some (if go \<and> last_fragment frameinfo1 then rx_last E frameinfo1 s else s)
     }
   }"

section \<open>Sending a frame\<close>

definition EOE_init_tx :: "'w env \<Rightarrow> 'w sys \<Rightarrow> 'w sys" where
  "EOE_init_tx E s =
     (let s = upd_eoe (\<lambda>v. v\<lparr>txfragmentno := 0, txframesize := 0, txframeoffset := 0\<rparr>) s
      in if pb_payload (txebuf (EOEvar s)) \<noteq> None then
           (case eoe_free_buffer E of
              None \<Rightarrow> s
            | Some h \<Rightarrow> (case h (txebuf (EOEvar s)) s of
                (b, s) \<Rightarrow> upd_eoe (\<lambda>v. v\<lparr>txebuf := \<lparr>pb_pbuf = 0, pb_payload = None, pb_len = 0\<rparr>\<rparr>) s))
         else s)"

text \<open>\<open>len_to_send\<close>: what is left, or whole blocks of 32 octets when it does not fit a mailbox.\<close>

definition tx_length :: "'w sys \<Rightarrow> u32" where
  "tx_length s =
     (let left = txframesize (EOEvar s) - txframeoffset (EOEvar s);
          mbxsize = of_nat (activembxsize s)
      in if left + ESC_EOEHSIZE + 6 > mbxsize
         then push_bit 5 (drop_bit 5 (mbxsize - ESC_EOEHSIZE - 6)) else left)"

definition tx_frameinfo2 :: "eoe_var \<Rightarrow> u8 \<Rightarrow> u16" where
  "tx_frameinfo2 v frameno =
     (to_u16 (txfragmentno v) AND 0x3F) OR
     push_bit 6 (to_u16 (if txfragmentno v > 0 then drop_bit 5 (txframeoffset v)
                         else drop_bit 5 (txframesize v + 31)) AND 0x3F) OR
     push_bit 12 (to_u16 frameno AND 0xF)"

definition tx_fragment :: "'w env \<Rightarrow> nat \<Rightarrow> 'w sys \<Rightarrow> 'w sys option" where
  "tx_fragment E mbxhandle s = do {
     let len = tx_length s;
     let complete = (len = txframesize (EOEvar s) - txframeoffset (EOEvar s));
     let frameinfo1 = (if complete then EOE_HDR_LAST_FRAGMENT else 0);
     let s = (if txfragmentno (EOEvar s) > 0 then s else s\<lparr>eoe_frameno := eoe_frameno s + 1\<rparr>);
     let frameinfo2 = tx_frameinfo2 (EOEvar s) (eoe_frameno s);
     s \<leftarrow> mbx_set_length mbxhandle (to_u16 (len + ESC_EOEHSIZE)) s;
     s \<leftarrow> mbx_set_type mbxhandle MBXEOE s;
     s \<leftarrow> mbx_put mbxhandle 6 (le16 frameinfo1) s;
     s \<leftarrow> mbx_put mbxhandle 8 (le16 frameinfo2) s;
     payload \<leftarrow> pb_payload (txebuf (EOEvar s));
     data \<leftarrow> get_bytes (unat (txframeoffset (EOEvar s))) (unat len) payload;
     s \<leftarrow> mbx_put mbxhandle 10 data s;
     let s = set_mbxstate mbxhandle MBXstate_outreq s;
     let s = (if complete then EOE_init_tx E s
              else upd_eoe (\<lambda>v. v\<lparr>txframeoffset := txframeoffset v + len, txfragmentno := txfragmentno v + 1\<rparr>) s);
     Some (case fragment_sent_event E of None \<Rightarrow> s | Some h \<Rightarrow> h s)
   }"

definition EOE_send_fragment :: "'w env \<Rightarrow> 'w sys \<Rightarrow> 'w sys option" where
  "EOE_send_fragment E s = do {
     let (go, s) =
       (if pb_payload (txebuf (EOEvar s)) = None then
          (case fetch_send_buffer E 0 (txebuf (EOEvar s)) s of
             (len, b, s) \<Rightarrow>
               let s = upd_eoe (\<lambda>v. v\<lparr>txebuf := b\<rparr>) s
               in if len > 0 then (True, upd_eoe (\<lambda>v. v\<lparr>txframesize := word_of_int len\<rparr>) s) else (False, s))
        else (True, s));
     if \<not> go then Some s
     else do {
       (mbxhandle, s) \<leftarrow> ESC_claimbuffer E s;
       if mbxhandle \<noteq> 0 then tx_fragment E mbxhandle s else Some s
     }
   }"

section \<open>Initialisation and dispatch\<close>

definition EOE_init :: "'w env \<Rightarrow> 'w sys \<Rightarrow> 'w sys" where
  "EOE_init E s = EOE_init_rx E (EOE_init_tx E s)"

definition eoe_dispatch :: "'w env \<Rightarrow> u16 \<Rightarrow> 'w sys \<Rightarrow> 'w sys option" where
  "eoe_dispatch E frameinfo1 s =
     (if frame_type frameinfo1 = EOE_FRAG_DATA then EOE_receive_fragment E s
      else if frame_type frameinfo1 = EOE_INIT_REQ then EOE_set_ip E s
      else if frame_type frameinfo1 = EOE_GET_IP_PARAM_REQ then EOE_get_ip E s
      else EOE_no_data_response E ((0x00F0 AND frameinfo1) OR (0x000F AND frameinfo1) OR EOE_HDR_LAST_FRAGMENT)
             EOE_RESULT_UNSUPPORTED_FRAME_TYPE s)"

definition ESC_eoeprocess :: "'w env \<Rightarrow> 'w sys \<Rightarrow> 'w sys option" where
  "ESC_eoeprocess E s =
     (if MBXrun s = 0 then Some s
      else do {
        s \<leftarrow> (if xoe s = 0 \<and> MBXcontrol s 0 = MBXstate_inclaim then do {
            t \<leftarrow> mbx_type 0 s;
            Some (if t = MBXEOE then s\<lparr>xoe := MBXEOE\<rparr> else s)
          }
          else Some s);
        if xoe s = MBXEOE then do {
          len \<leftarrow> mbx_length 0 s;
          s \<leftarrow> (if to_u32 len < ESC_EOEHSIZE
               then EOE_no_data_response E (EOE_INIT_RESP OR EOE_HDR_LAST_FRAGMENT) MBXERR_SIZETOOSHORT s
               else do { frameinfo1 \<leftarrow> mbx_u16 0 6 s; eoe_dispatch E frameinfo1 s });
          Some ((set_mbxstate 0 MBXstate_idle s)\<lparr>xoe := 0\<rparr>)
        }
        else Some s
      })"

definition ESC_eoeprocess_tx :: "'w env \<Rightarrow> 'w sys \<Rightarrow> 'w sys option" where
  "ESC_eoeprocess_tx E s = (if MBXrun s = 0 then Some s else EOE_send_fragment E s)"

end
