(* ===== verification/Eep.thy ===== *)
theory Eep
  imports Esc_Reg
begin

text \<open>
  EEPROM emulation (\<open>esc_eep.c\<close>): the commands the chip hands over while its control and
  status register shows busy, and the acknowledgement of each. The EEPROM itself
  (\<open>EEP_read\<close>, \<open>EEP_write\<close>) belongs to the application and is a parameter.
\<close>

section \<open>The control and status register\<close>

text \<open>
  \<open>eep_stat_t\<close>: the register as 16 bits and the word address. \<open>cmdReg\<close> is bits 8 to 10,
  then follow \<open>csumErr\<close>, \<open>eeLoading\<close>, \<open>ackErr\<close>, \<open>wrErr\<close> and \<open>busy\<close>.
\<close>

record eep_stat =
  es_reg :: u16
  es_addr :: u32

abbreviation (input) EEP_CMD_IDLE :: u16 where "EEP_CMD_IDLE \<equiv> 0"
abbreviation (input) EEP_CMD_READ :: u16 where "EEP_CMD_READ \<equiv> 1"
abbreviation (input) EEP_CMD_WRITE :: u16 where "EEP_CMD_WRITE \<equiv> 2"
abbreviation (input) EEP_CMD_RELOAD :: u16 where "EEP_CMD_RELOAD \<equiv> 4"
abbreviation (input) EEP_WRITE_SIZE :: nat where "EEP_WRITE_SIZE \<equiv> 2"
abbreviation (input) EEP_CONFIG_ALIAS_WORD_OFFSET :: u32 where "EEP_CONFIG_ALIAS_WORD_OFFSET \<equiv> 4"

definition eep_cmd :: "u16 \<Rightarrow> u16" where "eep_cmd reg = drop_bit 8 reg AND 7"
definition eep_busy :: "u16 \<Rightarrow> bool" where "eep_busy reg \<longleftrightarrow> reg AND 0x8000 \<noteq> 0"
definition clear_errors :: "u16 \<Rightarrow> u16" where "clear_errors reg = reg AND 0x87FF"
definition set_ackErr :: "eep_stat \<Rightarrow> eep_stat" where "set_ackErr st = st\<lparr>es_reg := es_reg st OR 0x2000\<rparr>"

definition eep_read_stat :: "'w env \<Rightarrow> 'w sys \<Rightarrow> (eep_stat \<times> 'w sys) option" where
  "eep_read_stat E s = do {
     (f, s) \<leftarrow> ESC_read E ESCREG_EECONTSTAT 6 s;
     Some (\<lparr>es_reg = rd16 [f 0, f 1], es_addr = rd32 [f 2, f 3, f 4, f 5]\<rparr>, s)
   }"

section \<open>The commands\<close>

text \<open>
  \<open>EEP_read (addr, eep_buf, n)\<close>, and on success the write of \<open>n\<close> bytes of \<open>eep_buf\<close> to
  the data register. The application may leave anything in the first \<open>n\<close> bytes of the buffer.
\<close>

definition eep_fetch :: "'w env \<Rightarrow> u32 \<Rightarrow> nat \<Rightarrow> eep_stat \<Rightarrow> 'w sys \<Rightarrow> (eep_stat \<times> 'w sys) option" where
  "eep_fetch E addr n st s = do {
     let (r, bs, s) = EEP_read E addr n s;
     buf \<leftarrow> put_bytes 0 (take n bs) (eep_buf s);
     let s = s\<lparr>eep_buf := buf\<rparr>;
     if r \<noteq> 0 then Some (set_ackErr st, s)
     else do {
       bs \<leftarrow> get_bytes 0 n (eep_buf s);
       s \<leftarrow> ESC_write E ESCREG_EEDATA bs s;
       Some (st, s)
     }
   }"

definition eep_reload :: "'w env \<Rightarrow> eep_stat \<Rightarrow> 'w sys \<Rightarrow> (eep_stat \<times> 'w sys) option" where
  "eep_reload E st s =
     (case eep_reload_ptr E of
        Some h \<Rightarrow> (case h (es_reg st, es_addr st) s of ((reg, addr), s) \<Rightarrow> Some (\<lparr>es_reg = reg, es_addr = addr\<rparr>, s))
      | None \<Rightarrow>
          (if eep_read_size s = 8 then eep_fetch E (es_addr st * 2) (unat (eep_read_size s)) st s
           else eep_fetch E (EEP_CONFIG_ALIAS_WORD_OFFSET * 2) 2 st s))"

definition eep_store :: "'w env \<Rightarrow> eep_stat \<Rightarrow> 'w sys \<Rightarrow> (eep_stat \<times> 'w sys) option" where
  "eep_store E st s = do {
     (f, s) \<leftarrow> ESC_read E ESCREG_EEDATA EEP_WRITE_SIZE s;
     buf \<leftarrow> put_bytes 0 [f 0, f 1] (eep_buf s);
     let s = s\<lparr>eep_buf := buf\<rparr>;
     let (r, s) = EEP_write E (es_addr st * 2) (take EEP_WRITE_SIZE (eep_buf s)) s;
     Some (if r \<noteq> 0 then set_ackErr st else st, s)
   }"

definition eep_command :: "'w env \<Rightarrow> eep_stat \<Rightarrow> 'w sys \<Rightarrow> (eep_stat \<times> 'w sys) option" where
  "eep_command E st s =
     (if eep_cmd (es_reg st) = EEP_CMD_IDLE then Some (st, s)
      else if eep_cmd (es_reg st) = EEP_CMD_READ
      then eep_fetch E (es_addr st * 2) (unat (eep_read_size s)) st s
      else if eep_cmd (es_reg st) = EEP_CMD_RELOAD then eep_reload E st s
      else if eep_cmd (es_reg st) = EEP_CMD_WRITE then eep_store E st s
      else Some (set_ackErr st, s))"

text \<open>\<open>while (1)\<close>: ends when the chip is not busy any more.\<close>

partial_function (option) eep_loop :: "'w env \<Rightarrow> 'w sys \<Rightarrow> 'w sys option" where
  "eep_loop E s = do {
     (st, s) \<leftarrow> eep_read_stat E s;
     if \<not> eep_busy (es_reg st) then Some s
     else do {
       let st = st\<lparr>es_reg := clear_errors (es_reg st)\<rparr>;
       (st, s) \<leftarrow> eep_command E st s;
       s \<leftarrow> ESC_write E ESCREG_EECONTSTAT (le16 (es_reg st)) s;
       eep_loop E s
     }
   }"

declare eep_loop.simps [code]

definition EEP_process :: "'w env \<Rightarrow> 'w sys \<Rightarrow> 'w sys option" where
  "EEP_process E s = (if ALevent s AND ESCREG_ALEVENT_EEP = 0 then Some s else eep_loop E s)"

definition EEP_set_read_size :: "u16 \<Rightarrow> 'w sys \<Rightarrow> 'w sys" where
  "EEP_set_read_size read_size s =
     (if read_size = 8 \<or> read_size = 4 then s\<lparr>eep_read_size := read_size\<rparr> else s)"

definition EEP_set_reload_function_pointer ::
  "(u16 \<times> u32 \<Rightarrow> 'w sys \<Rightarrow> (u16 \<times> u32) \<times> 'w sys) option \<Rightarrow> 'w env \<Rightarrow> 'w env" where
  "EEP_set_reload_function_pointer reload_ptr E = E\<lparr>eep_reload_ptr := reload_ptr\<rparr>"

end
