(* ===== verification/Slv.thy ===== *)
theory Slv
  imports Esc_FSM Coe_Info Foe Eoe Eep
begin

text \<open>
  The slave application loop (\<open>ecat_slv.c\<close>): process data exchange, the two watchdogs, the
  accounting of synchronisation errors, and the ways the application drives the stack: the
  interrupt worker, the polling loop, the SYNC0 driven loop, and initialisation.
\<close>

section \<open>Process data\<close>

definition txpdo_write_sm3 :: "'w env \<Rightarrow> 'w sys \<Rightarrow> 'w sys option" where
  "txpdo_write_sm3 E s =
     (case txpdo_override E of
        Some h \<Rightarrow> Some (h s)
      | None \<Rightarrow> do {
          s \<leftarrow> (if MAX_MAPPINGS_SM3 (opt E) > 0 then do {
              img \<leftarrow> COE_pdoPack E (txpdo s) (sm3mappings s) (SMmap3 s) s;
              Some (s\<lparr>txpdo := img\<rparr>)
            }
            else Some s);
          bs \<leftarrow> get_bytes 0 (unat (ESC_SM3_sml s)) (txpdo s);
          ESC_write E (of_nat (SM3_sma (opt E))) bs s
        })"

text \<open>\<open>ESC_read (ESC_SM2_sma, rxpdo, ESCvar.ESC_SM2_sml)\<close>.\<close>

definition read_rxpdo :: "'w env \<Rightarrow> 'w sys \<Rightarrow> 'w sys option" where
  "read_rxpdo E s = do {
     let n = unat (ESC_SM2_sml s);
     (f, s) \<leftarrow> ESC_read E (of_nat (SM2_sma (opt E))) n s;
     img \<leftarrow> put_bytes 0 (map f [0..<n]) (rxpdo s);
     Some (s\<lparr>rxpdo := img\<rparr>)
   }"

definition rxpdo_read_sm2 :: "'w env \<Rightarrow> 'w sys \<Rightarrow> 'w sys option" where
  "rxpdo_read_sm2 E s =
     (case rxpdo_override E of
        Some h \<Rightarrow> Some (h s)
      | None \<Rightarrow> do {
          s \<leftarrow> read_rxpdo E s;
          if MAX_MAPPINGS_SM2 (opt E) > 0 then COE_pdoUnpack E (rxpdo s) (sm2mappings s) (SMmap2 s) s
          else Some s
        })"

definition APP_setwatchdog :: "int \<Rightarrow> 'w sys \<Rightarrow> 'w sys" where
  "APP_setwatchdog cnt s = s\<lparr>watchdogcnt := cnt\<rparr>"

section \<open>Synchronisation errors\<close>

text \<open>
  The counter after one SYNC0, before it is stored: \<open>-1\<close> down to zero for a served cycle,
  \<open>+3\<close> for a missed one. It is stored as 16 bits.
\<close>

definition sync_count :: "int \<Rightarrow> int \<Rightarrow> int" where
  "sync_count sm_event counter =
     (if sm_event \<noteq> 0 then (if counter > 0 then counter - 1 else counter) else counter + 3)"

definition ecat_slv_sync0_account :: "'w env \<Rightarrow> int \<Rightarrow> 'w sys \<Rightarrow> 'w sys option" where
  "ecat_slv_sync0_account E sm_event s = do {
     let counter = sync_count sm_event (synccounter s);
     let s = (if sm_event = 0 \<and> smeventmissed s < 0xFFFF
              then s\<lparr>smeventmissed := smeventmissed s + 1\<rparr> else s);
     let s = s\<lparr>synccounter := sint (word_of_int counter :: u16)\<rparr>;
     if synccounterlimit s > 0 \<and> counter > int (unat (synccounterlimit s)) then do {
       let s = s\<lparr>syncerror := 1, synccounter := 0\<rparr>;
       ESC_ALstatusgotoerror E (ESCsafeop OR ESCerror) ALERR_SYNCERROR s
     }
     else Some s
   }"

section \<open>Watchdogs\<close>

abbreviation (input) HW_WD_QUIET_CYCLES :: u16 where "HW_WD_QUIET_CYCLES \<equiv> 16"

text \<open>Reading the configuration once per entry into an output state.\<close>

definition hw_wd_latch :: "'w env \<Rightarrow> 'w sys \<Rightarrow> 'w sys option" where
  "hw_wd_latch E s =
     (if hw_wd_state s = HW_WD_UNCHECKED then do {
        (f, s) \<leftarrow> ESC_read E ESCREG_WDDIVIDER 2 s;
        let divider = rd16 [f 0, f 1];
        (f, s) \<leftarrow> ESC_read E ESCREG_WDTIMEPDATA 2 s;
        let pdtime = rd16 [f 0, f 1];
        Some (s\<lparr>hw_wd_state := (if pdtime = 0 \<or> divider = 0 then HW_WD_DISABLED else HW_WD_WAITING)\<rparr>)
      }
      else Some s)"

definition hw_watchdog_check :: "'w env \<Rightarrow> 'w sys \<Rightarrow> (int \<times> 'w sys) option" where
  "hw_watchdog_check E s =
     (if \<not> outputs_on s \<or> ESC_SM2_sml s = 0
      then Some (1, s\<lparr>hw_wd_state := HW_WD_UNCHECKED, hw_wd_quiet := 0\<rparr>)
      else do {
        s \<leftarrow> hw_wd_latch E s;
        if hw_wd_state s = HW_WD_DISABLED then Some (0, s)
        else if ALevent s AND ESCREG_ALEVENT_SM2 \<noteq> 0 then
          Some (1, s\<lparr>hw_wd_state := (if hw_wd_state s = HW_WD_WAITING then HW_WD_RUNNING else hw_wd_state s),
                     hw_wd_quiet := 0\<rparr>)
        else if hw_wd_quiet s < HW_WD_QUIET_CYCLES then Some (1, s\<lparr>hw_wd_quiet := hw_wd_quiet s + 1\<rparr>)
        else do {
          (wd, s) \<leftarrow> ESC_WDstatus E s;
          s \<leftarrow> (if wd AND ESCREG_WDSTATUS_OK = 0 \<and> hw_wd_state s = HW_WD_RUNNING
               then ESC_ALstatusgotoerror E (ESCsafeop OR ESCerror) ALERR_WATCHDOG s else Some s);
          Some (1, s)
        }
      })"

text \<open>The software counter, used when the hardware watchdog is not in charge.\<close>

definition sw_watchdog :: "'w env \<Rightarrow> 'w sys \<Rightarrow> 'w sys option" where
  "sw_watchdog E s = do {
     let s = (if watchdog s > 0 then s\<lparr>watchdog := watchdog s - 1\<rparr> else s);
     if watchdog s \<le> 0 \<and> outputs_on s \<and> ESC_SM2_sml s > 0
     then ESC_ALstatusgotoerror E (ESCsafeop OR ESCerror) ALERR_WATCHDOG s
     else if \<not> outputs_on s then Some (s\<lparr>watchdog := watchdogcnt s\<rparr>)
     else Some s
   }"

definition dig_watchdog :: "'w env \<Rightarrow> 'w sys \<Rightarrow> 'w sys option" where
  "dig_watchdog E s =
     (if use_hw_watchdog s = 0 then sw_watchdog E s
      else do { (r, s) \<leftarrow> hw_watchdog_check E s; if r = 0 then sw_watchdog E s else Some s })"

section \<open>One process data cycle\<close>

abbreviation (input) DIG_PROCESS_TXPDO_FLAG :: u8 where "DIG_PROCESS_TXPDO_FLAG \<equiv> 0x01"
abbreviation (input) DIG_PROCESS_RXPDO_FLAG :: u8 where "DIG_PROCESS_RXPDO_FLAG \<equiv> 0x02"
abbreviation (input) DIG_PROCESS_WD_FLAG :: u8 where "DIG_PROCESS_WD_FLAG \<equiv> 0x04"
abbreviation (input) DIG_PROCESS_APP_HOOK_FLAG :: u8 where "DIG_PROCESS_APP_HOOK_FLAG \<equiv> 0x08"

definition dig_outputs :: "'w env \<Rightarrow> 'w sys \<Rightarrow> 'w sys option" where
  "dig_outputs E s =
     (if outputs_on s \<and> ALevent s AND ESCREG_ALEVENT_SM2 \<noteq> 0 then do {
        s \<leftarrow> rxpdo_read_sm2 E s;
        let s = s\<lparr>watchdog := watchdogcnt s\<rparr>;
        Some (cb_apply_rxpdo E s)
      }
      else if ALevent s AND ESCREG_ALEVENT_SM2 \<noteq> 0 then read_rxpdo E s
      else Some s)"

definition dig_inputs :: "'w env \<Rightarrow> 'w sys \<Rightarrow> 'w sys option" where
  "dig_inputs E s = (if App_state s > 0 then txpdo_write_sm3 E (cb_update_txpdo E s) else Some s)"

definition DIG_process :: "'w env \<Rightarrow> u8 \<Rightarrow> 'w sys \<Rightarrow> 'w sys option" where
  "DIG_process E flags s = do {
     s \<leftarrow> (if flags AND DIG_PROCESS_WD_FLAG > 0 then dig_watchdog E s else Some s);
     s \<leftarrow> (if flags AND DIG_PROCESS_RXPDO_FLAG > 0 then dig_outputs E s else Some s);
     let s = (if flags AND DIG_PROCESS_APP_HOOK_FLAG > 0
              then (case application_hook E of None \<Rightarrow> s | Some h \<Rightarrow> h s) else s);
     if flags AND DIG_PROCESS_TXPDO_FLAG > 0 then dig_inputs E s else Some s
   }"

section \<open>Serving the mailboxes\<close>

text \<open>The protocol handlers, as the three loops call them after a mailbox step.\<close>

definition mbx_services :: "'w env \<Rightarrow> 'w sys \<Rightarrow> 'w sys option" where
  "mbx_services E s = do {
     s \<leftarrow> ESC_coeprocess E s;
     s \<leftarrow> (if USE_FOE (opt E) then ESC_foeprocess E s else Some s);
     s \<leftarrow> (if USE_EOE (opt E) then ESC_eoeprocess E s else Some s);
     ESC_xoeprocess E s
   }"

definition eep_handler :: "'w env \<Rightarrow> 'w sys \<Rightarrow> 'w sys option" where
  "eep_handler E s = (case esc_hw_eep_handler E of None \<Rightarrow> Some s | Some h \<Rightarrow> h s)"

text \<open>\<open>while ((ESC_mbxprocess () > 0) || (ESCvar.txcue > 0))\<close>.\<close>

partial_function (option) mbx_drain :: "'w env \<Rightarrow> 'w sys \<Rightarrow> 'w sys option" where
  "mbx_drain E s = do {
     (r, s) \<leftarrow> ESC_mbxprocess E s;
     if r > 0 \<or> txcue s > 0 then do { s \<leftarrow> mbx_services E s; mbx_drain E s } else Some s
   }"

declare mbx_drain.simps [code]

text \<open>The body of the worker's loop, and the loop.\<close>

definition worker_pass :: "'w env \<Rightarrow> 'w sys \<Rightarrow> 'w sys option" where
  "worker_pass E s = do {
     s \<leftarrow> ESC_state E s;
     s \<leftarrow> ESC_sm_act_event E s;
     s \<leftarrow> mbx_drain E s;
     s \<leftarrow> (if USE_EOE (opt E) then ESC_eoeprocess_tx E s else Some s);
     s \<leftarrow> eep_handler E s;
     (ev, s) \<leftarrow> ESC_ALeventread E s;
     Some (s\<lparr>ALevent := ev\<rparr>)
   }"

partial_function (option) worker_loop :: "'w env \<Rightarrow> u32 \<Rightarrow> 'w sys \<Rightarrow> 'w sys option" where
  "worker_loop E event_mask s = do {
     s \<leftarrow> worker_pass E s;
     if ALevent s AND event_mask \<noteq> 0 then worker_loop E event_mask s else Some s
   }"

declare worker_loop.simps [code]

definition ecat_slv_worker :: "'w env \<Rightarrow> u32 \<Rightarrow> 'w sys \<Rightarrow> 'w sys option" where
  "ecat_slv_worker E event_mask s = do {
     s \<leftarrow> worker_loop E event_mask s;
     (m, s) \<leftarrow> ESC_ALeventmaskread E s;
     ESC_ALeventmaskwrite E (m OR event_mask) s
   }"

definition mbx_step :: "'w env \<Rightarrow> 'w sys \<Rightarrow> 'w sys option" where
  "mbx_step E s = do {
     (r, s) \<leftarrow> ESC_mbxprocess E s;
     if r \<noteq> 0 then mbx_services E s else Some s
   }"

definition ecat_slv_poll :: "'w env \<Rightarrow> 'w sys \<Rightarrow> 'w sys option" where
  "ecat_slv_poll E s = do {
     (ev, s) \<leftarrow> ESC_ALeventread E s;
     let s = s\<lparr>ALevent := ev\<rparr>;
     s \<leftarrow> ESC_state E s;
     s \<leftarrow> ESC_sm_act_event E s;
     s \<leftarrow> mbx_step E s;
     s \<leftarrow> (if USE_EOE (opt E) then ESC_eoeprocess_tx E s else Some s);
     eep_handler E s
   }"

definition ecat_slv :: "'w env \<Rightarrow> 'w sys \<Rightarrow> 'w sys option" where
  "ecat_slv E s = do {
     s \<leftarrow> ecat_slv_poll E s;
     DIG_process E (DIG_PROCESS_WD_FLAG OR DIG_PROCESS_RXPDO_FLAG OR DIG_PROCESS_APP_HOOK_FLAG OR
       DIG_PROCESS_TXPDO_FLAG) s
   }"

section \<open>The SYNC0 driven loop\<close>

definition ecat_slv_dc_counters :: "'w sys \<Rightarrow> u32 \<times> u32 \<times> u32 \<times> u32 \<times> u32" where
  "ecat_slv_dc_counters s = (dc_evt_wake s, dc_evt_sm s, dc_evt_sync0 s, dc_evt_mbx s, dc_evt_idle s)"

text \<open>The process data events of the captured AL event value.\<close>

definition dc_process_data :: "'w env \<Rightarrow> u32 \<Rightarrow> 'w sys \<Rightarrow> 'w sys option" where
  "dc_process_data E events s =
     (if events AND (ESCREG_ALEVENT_SM2 OR ESCREG_ALEVENT_SM3) = 0 then Some s
      else if dcsync s = 0 then
        DIG_process E (DIG_PROCESS_WD_FLAG OR DIG_PROCESS_RXPDO_FLAG OR DIG_PROCESS_APP_HOOK_FLAG OR
          DIG_PROCESS_TXPDO_FLAG) s
      else
        DIG_process E (DIG_PROCESS_WD_FLAG OR DIG_PROCESS_RXPDO_FLAG)
          (s\<lparr>sm_event_seen := 1, dc_evt_sm := dc_evt_sm s + 1\<rparr>))"

definition dc_sync0 :: "'w env \<Rightarrow> u64 \<Rightarrow> u32 \<Rightarrow> int \<Rightarrow> 'w sys \<Rightarrow> 'w sys option" where
  "dc_sync0 E timeout_ns events rc s =
     (if events AND ESCREG_ALEVENT_DC_SYNC0 \<noteq> 0 \<or> (dcsync s > 0 \<and> rc = 1) then do {
        let s = s\<lparr>dc_evt_sync0 := dc_evt_sync0 s + 1\<rparr>;
        s \<leftarrow> ecat_slv_sync0_account E (uint (sm_event_seen s)) s;
        s \<leftarrow> ESC_op_pending_step E 1 (uint (sm_event_seen s)) (timeout_ns div 2) s;
        let s = s\<lparr>sm_event_seen := 0\<rparr>;
        s \<leftarrow> DIG_process E (DIG_PROCESS_APP_HOOK_FLAG OR DIG_PROCESS_TXPDO_FLAG) s;
        (status, s) \<leftarrow> ESC_read E ESCREG_SYNC0_STATUS 1 s;
        Some s
      }
      else Some s)"

definition state_events :: u32 where
  "state_events = ESCREG_ALEVENT_CONTROL OR ESCREG_ALEVENT_SMCHANGE OR ESCREG_ALEVENT_SM0 OR
     ESCREG_ALEVENT_SM1 OR ESCREG_ALEVENT_EEP"

definition dc_acyclic :: "'w env \<Rightarrow> u32 \<Rightarrow> 'w sys \<Rightarrow> 'w sys option" where
  "dc_acyclic E events s =
     (let state_event = (events AND state_events \<noteq> 0) in
      if state_event \<or> txcue s > 0 then do {
        let s = s\<lparr>dc_evt_mbx := dc_evt_mbx s + 1\<rparr>;
        s \<leftarrow> (if state_event then do { s \<leftarrow> ESC_state E s; ESC_sm_act_event E s } else Some s);
        s \<leftarrow> mbx_step E s;
        if events AND ESCREG_ALEVENT_EEP \<noteq> 0 then eep_handler E s else Some s
      }
      else Some s)"

definition dc_cycle :: "'w env \<Rightarrow> u64 \<Rightarrow> int \<Rightarrow> 'w sys \<Rightarrow> 'w sys option" where
  "dc_cycle E timeout_ns rc s = do {
     (events, s) \<leftarrow> ESC_ALeventread E s;
     let s = s\<lparr>ALevent := events, dc_evt_wake := dc_evt_wake s + 1\<rparr>;
     let s = (if events AND (ESCREG_ALEVENT_SM2 OR ESCREG_ALEVENT_SM3 OR ESCREG_ALEVENT_DC_SYNC0 OR
                   state_events) = 0
              then s\<lparr>dc_evt_idle := dc_evt_idle s + 1\<rparr> else s);
     s \<leftarrow> dc_process_data E events s;
     s \<leftarrow> dc_sync0 E timeout_ns events rc s;
     dc_acyclic E events s
   }"

definition ecat_slv_run_dc :: "'w env \<Rightarrow> u64 \<Rightarrow> 'w sys \<Rightarrow> 'w sys option" where
  "ecat_slv_run_dc E timeout_ns s = do {
     let (rc, s) = (case esc_hw_wait E of None \<Rightarrow> (-1, s) | Some h \<Rightarrow> h timeout_ns s);
     if rc = 0 \<and> dcsync s > 0 \<and> outputs_on s then
       ESC_ALstatusgotoerror E (ESCsafeop OR ESCerror) ALERR_FATALSYNCERROR (s\<lparr>syncerror := 1\<rparr>)
     else if rc < 0 then Some s
     else do {
       s \<leftarrow> (if rc = 0 then ESC_op_pending_step E 0 0 timeout_ns s else Some s);
       dc_cycle E timeout_ns rc s
     }
   }"

section \<open>Initialisation\<close>

text \<open>The bounded wait for the link, with \<open>n\<close> retries left; \<open>False\<close> is the timeout.\<close>

fun wait_link :: "'w env \<Rightarrow> nat \<Rightarrow> 'w sys \<Rightarrow> (bool \<times> 'w sys) option" where
  "wait_link E n s =
     (if DLstatus s AND 0x0001 \<noteq> 0 then Some (True, s)
      else (case n of
          0 \<Rightarrow> Some (False, s)
        | Suc n \<Rightarrow> do {
            (f, s) \<leftarrow> ESC_read E ESCREG_DLSTATUS 2 s;
            wait_link E n (s\<lparr>DLstatus := rd16 [f 0, f 1]\<rparr>)
          }))"

declare wait_link.simps [simp del]

definition slv_reset :: "'w env \<Rightarrow> 'w sys \<Rightarrow> 'w sys option" where
  "slv_reset E s = do {
     let s = (if USE_FOE (opt E) then FOE_init s else s);
     let s = (if USE_EOE (opt E) then EOE_init E s else s);
     s \<leftarrow> ESC_ALstatus E ESCinit s;
     s \<leftarrow> ESC_ALerror E ALERR_NONE s;
     s \<leftarrow> ESC_stopmbx E s;
     s \<leftarrow> ESC_stopinput E s;
     s \<leftarrow> ESC_stopoutput E s;
     COE_initDefaultValues E s
   }"

definition ecat_slv_init :: "'w env \<Rightarrow> esc_cfg \<Rightarrow> 'w sys \<Rightarrow> (int \<times> 'w sys) option" where
  "ecat_slv_init E config s = do {
     let s = s\<lparr>watchdog := cfg_watchdog_cnt config\<rparr>;
     let s = ESC_config E config s;
     let (r, s) = hal_init E s;
     if r \<noteq> 0 then Some (-1, s)
     else do {
       (up, s) \<leftarrow> wait_link E (DLSTATUS_WAIT_RETRIES (opt E)) s;
       if \<not> up then Some (-1, s)
       else do { s \<leftarrow> slv_reset E s; Some (0, s) }
     }
   }"

end
