(* ===== verification/Mbx_Tame.thy ===== *)
theory Mbx_Tame
  imports Slv Al_Spec
begin

text \<open>
  The mailbox services keep the stack in order: whatever a message contains, a service that
  returns leaves the buffer pool consistent, and the AL state machine and the mailbox
  configuration as they were. The rules of partial correctness (\<open>okp\<close>) are collected in
  \<open>keep\<close>; a service is verified by running its body with them.
\<close>

section \<open>Partial correctness\<close>

definition okp :: "('a \<Rightarrow> bool) \<Rightarrow> 'a option \<Rightarrow> bool" where
  "okp P m = (case m of None \<Rightarrow> True | Some x \<Rightarrow> P x)"

named_theorems keep \<open>rules: okp Q (operation), for the predicate tame\<close>

lemma okp_simps [simp]: "okp P (Some x) \<longleftrightarrow> P x" "okp P None"
  by (simp_all add: okp_def)

lemma okp_bind [simp]: "okp P (Option.bind m f) \<longleftrightarrow> okp (\<lambda>x. okp P (f x)) m"
  by (cases m) auto

lemma okp_if [simp]: "okp P (if b then m else n) \<longleftrightarrow> (if b then okp P m else okp P n)"
  by simp

lemma okp_prod [simp]: "okp P (case x of (a, b) \<Rightarrow> f a b) \<longleftrightarrow> (case x of (a, b) \<Rightarrow> okp P (f a b))"
  by (simp add: case_prod_beta)

lemma okp_map_option [simp]: "okp P (map_option f m) \<longleftrightarrow> okp (\<lambda>x. P (f x)) m"
  by (cases m) auto

lemma okpI: "(\<And>x. Q x) \<Longrightarrow> okp Q m"
  by (cases m) auto

lemma okp_mono: "okp P m \<Longrightarrow> (\<And>x. P x \<Longrightarrow> Q x) \<Longrightarrow> okp Q m"
  by (cases m) auto

lemma okp_bindI: "okp R m \<Longrightarrow> (\<And>x. R x \<Longrightarrow> okp Q (f x)) \<Longrightarrow> okp Q (Option.bind m f)"
  by (cases m) auto

lemma okpD: "okp P m \<Longrightarrow> m = Some x \<Longrightarrow> P x"
  by simp

lemma okp_ok: "ok P m \<Longrightarrow> okp P m"
  by (cases m) auto

section \<open>What the services leave alone\<close>

definition cview :: "'w sys \<Rightarrow>
    (u8 \<times> u16 \<times> u8 \<times> u8 \<times> u16 \<times> (sm_cfg option) \<times> (sm_cfg option) \<times> nat \<times> nat) \<times>
    nat \<times> nat \<times> (sm_cfg \<times> sm_cfg) \<times> (sm_cfg \<times> sm_cfg)" where
  "cview s = (al_view s, length (MBX s), activembxsize s, mb s, mbboot s)"

definition kview where
  "kview s = (cview s, MBXcontrol s, mbxoutpost s, mbxbackup s, txcue s)"

lemma pool_inv_kview: "kview s' = kview s \<Longrightarrow> pool_inv E s' = pool_inv E s"
  by (simp add: kview_def pool_inv_def)

text \<open>
  Callbacks that run inside a service leave those fields alone; the hooks of the cyclic
  application may queue replies (\<open>ESC_SDO_complete\<close>), so they only keep the pool consistent.
\<close>

definition gentle :: "('w sys \<Rightarrow> 'w sys) \<Rightarrow> bool" where
  "gentle h \<longleftrightarrow> (\<forall>s. kview (h s) = kview s)"

definition polite :: "'w env \<Rightarrow> ('w sys \<Rightarrow> 'w sys) \<Rightarrow> bool" where
  "polite E h \<longleftrightarrow> (\<forall>s. cview (h s) = cview s \<and> (pool_inv E s \<longrightarrow> pool_inv E (h s)))"

definition calm_hooks :: "'w env \<Rightarrow> bool" where
  "calm_hooks E \<longleftrightarrow>
     (\<forall>h i j p n f. pre_object_download_hook E = Some h \<longrightarrow> gentle (\<lambda>s. snd (h i j p n f s))) \<and>
     (\<forall>h i j f. post_object_download_hook E = Some h \<longrightarrow> gentle (\<lambda>s. snd (h i j f s))) \<and>
     (\<forall>h i j p n f. pre_object_upload_hook E = Some h \<longrightarrow> gentle (\<lambda>s. snd (snd (h i j p n f s)))) \<and>
     (\<forall>h i j f. post_object_upload_hook E = Some h \<longrightarrow> gentle (\<lambda>s. snd (h i j f s))) \<and>
     (\<forall>h b. eoe_get_buffer E = Some h \<longrightarrow> gentle (\<lambda>s. snd (h b s))) \<and>
     (\<forall>h b. eoe_free_buffer E = Some h \<longrightarrow> gentle (\<lambda>s. snd (h b s))) \<and>
     (\<forall>h. load_eth_settings E = Some h \<longrightarrow> gentle (\<lambda>s. snd (h s))) \<and>
     (\<forall>h. store_ethernet_settings E = Some h \<longrightarrow> gentle (\<lambda>s. snd (h s))) \<and>
     (\<forall>h. fragment_sent_event E = Some h \<longrightarrow> gentle h) \<and>
     (\<forall>p b. gentle (handle_recv_buffer E p b)) \<and>
     (\<forall>p b. gentle (\<lambda>s. snd (snd (fetch_send_buffer E p b s)))) \<and>
     (\<forall>i b n. gentle (\<lambda>s. snd (foe_write_function E i b n s))) \<and>
     (\<forall>a n. gentle (\<lambda>s. snd (snd (EEP_read E a n s)))) \<and>
     (\<forall>a b. gentle (\<lambda>s. snd (EEP_write E a b s))) \<and>
     (\<forall>h p. eep_reload_ptr E = Some h \<longrightarrow> gentle (\<lambda>s. snd (h p s))) \<and>
     (\<forall>h s s'. esc_hw_eep_handler E = Some h \<longrightarrow> h s = Some s' \<longrightarrow> kview s' = kview s) \<and>
     (\<forall>h t. esc_hw_wait E = Some h \<longrightarrow> gentle (\<lambda>s. snd (h t s))) \<and>
     (\<forall>h. application_hook E = Some h \<longrightarrow> polite E h) \<and>
     (\<forall>h. rxpdo_override E = Some h \<longrightarrow> polite E h) \<and> (\<forall>h. txpdo_override E = Some h \<longrightarrow> polite E h) \<and>
     polite E (cb_update_txpdo E) \<and> polite E (cb_apply_rxpdo E)"

definition tame where
  "tame E c s \<longleftrightarrow> calm_hooks E \<and> 1 \<le> MBXBUFFERS (opt E) \<and> cview s = c \<and> pool_inv E s"

lemma tame_kview: "kview s' = kview s \<Longrightarrow> tame E c s' = tame E c s"
  by (simp add: tame_def kview_def pool_inv_def)

lemma tame_cong: "kview s' = kview s \<Longrightarrow> tame E c s \<Longrightarrow> tame E c s' \<and> MBXcontrol s' = MBXcontrol s"
  by (simp add: tame_def kview_def pool_inv_def)

lemma kview_MBXcontrol: "kview s' = kview s \<Longrightarrow> MBXcontrol s' = MBXcontrol s"
  by (simp add: kview_def)

lemma gentle_tame:
  assumes "gentle h" shows "tame E c (h s) = tame E c s" and "MBXcontrol (h s) = MBXcontrol s"
  using assms unfolding gentle_def by (rule_tac tame_kview, simp) (rule kview_MBXcontrol, use assms in \<open>simp add: gentle_def\<close>)

text \<open>Fields outside \<open>kview\<close>: their assignments do not matter.\<close>

lemma kview_upd [simp]:
  "kview (s\<lparr>world := w\<rparr>) = kview s" "kview (s\<lparr>ALevent := e\<rparr>) = kview s" "kview (s\<lparr>SM := sm\<rparr>) = kview s"
  "kview (s\<lparr>ALerror := a\<rparr>) = kview s" "kview (s\<lparr>DLstatus := a\<rparr>) = kview s"
  "kview (s\<lparr>mbxcnt := v\<rparr>) = kview s" "kview (s\<lparr>mbxfree := v\<rparr>) = kview s" "kview (s\<lparr>mbxincnt := v\<rparr>) = kview s"
  "kview (s\<lparr>toggle := v\<rparr>) = kview s" "kview (s\<lparr>xoe := v\<rparr>) = kview s" "kview (s\<lparr>segmented := v\<rparr>) = kview s"
  "kview (s\<lparr>data_v := p\<rparr>) = kview s" "kview (s\<lparr>entries := a\<rparr>) = kview s" "kview (s\<lparr>frags := f\<rparr>) = kview s"
  "kview (s\<lparr>fragsleft := f\<rparr>) = kview s" "kview (s\<lparr>index_v := a\<rparr>) = kview s" "kview (s\<lparr>subindex_v := v\<rparr>) = kview s"
  "kview (s\<lparr>flags_v := a\<rparr>) = kview s" "kview (s\<lparr>mbxdata := b\<rparr>) = kview s" "kview (s\<lparr>omem := om\<rparr>) = kview s"
  "kview (s\<lparr>sdo_held_active := v\<rparr>) = kview s" "kview (s\<lparr>sdo_held_index := a\<rparr>) = kview s"
  "kview (s\<lparr>sdo_held_subindex := v\<rparr>) = kview s"
  by (simp_all add: kview_def cview_def al_view_def)

lemma kview_upd2 [simp]:
  "kview (s\<lparr>foe_file_name := b\<rparr>) = kview s" "kview (s\<lparr>foe_files := fs\<rparr>) = kview s"
  "kview (s\<lparr>foe_buffer_size := f\<rparr>) = kview s" "kview (s\<lparr>foe_fbuffer := b\<rparr>) = kview s"
  "kview (s\<lparr>foe_file := n\<rparr>) = kview s" "kview (s\<lparr>foestate := v\<rparr>) = kview s"
  "kview (s\<lparr>fbufposition := a\<rparr>) = kview s" "kview (s\<lparr>foepacket := f\<rparr>) = kview s"
  "kview (s\<lparr>fposition := f\<rparr>) = kview s" "kview (s\<lparr>fprevposition := f\<rparr>) = kview s"
  "kview (s\<lparr>fend := f\<rparr>) = kview s" "kview (s\<lparr>eep_buf := b\<rparr>) = kview s" "kview (s\<lparr>eep_read_size := a\<rparr>) = kview s"
  "kview (s\<lparr>EOEvar := ev\<rparr>) = kview s" "kview (s\<lparr>nic_port := np\<rparr>) = kview s" "kview (s\<lparr>eoe_frameno := v\<rparr>) = kview s"
  "kview (s\<lparr>rxpdo := b\<rparr>) = kview s" "kview (s\<lparr>txpdo := b\<rparr>) = kview s" "kview (s\<lparr>watchdog := i\<rparr>) = kview s"
  "kview (s\<lparr>watchdogcnt := i\<rparr>) = kview s" "kview (s\<lparr>hw_wd_state := hw\<rparr>) = kview s" "kview (s\<lparr>hw_wd_quiet := a\<rparr>) = kview s"
  "kview (s\<lparr>dc_evt_wake := f\<rparr>) = kview s" "kview (s\<lparr>dc_evt_sm := f\<rparr>) = kview s" "kview (s\<lparr>dc_evt_sync0 := f\<rparr>) = kview s"
  "kview (s\<lparr>dc_evt_mbx := f\<rparr>) = kview s" "kview (s\<lparr>dc_evt_idle := f\<rparr>) = kview s"
  "kview (s\<lparr>synccounter := i\<rparr>) = kview s" "kview (s\<lparr>smeventmissed := a\<rparr>) = kview s"
  "kview (s\<lparr>syncerror := v\<rparr>) = kview s" "kview (s\<lparr>sm_event_seen := v\<rparr>) = kview s"
  by (simp_all add: kview_def cview_def al_view_def)

lemma kview_MBX [simp]: "length m = length (MBX s) \<Longrightarrow> kview (s\<lparr>MBX := m\<rparr>) = kview s"
  by (simp add: kview_def cview_def al_view_def)

lemmas tame_upd [simp] =
  kview_upd [THEN tame_kview] kview_upd2 [THEN tame_kview] kview_MBX [THEN tame_kview]

section \<open>Rules of the leaf operations\<close>

text \<open>An operation that only computes a value needs no rule of its own.\<close>

lemma keep_get:
  fixes s :: "'w sys" and E :: "'w env"
  shows
  "(\<And>x. Q0 x) \<Longrightarrow> okp Q0 (mbx_u8 n off s)" "(\<And>x. Q1 x) \<Longrightarrow> okp Q1 (mbx_u16 n off s)"
  "(\<And>x. Q2 x) \<Longrightarrow> okp Q2 (mbx_u32 n off s)" "(\<And>x. Q3 x) \<Longrightarrow> okp Q3 (mbx_get n off k s)"
  "(\<And>x. Q1 x) \<Longrightarrow> okp Q1 (mbx_length n s)" "(\<And>x. Q0 x) \<Longrightarrow> okp Q0 (mbx_type n s)"
  "(\<And>x. Q0 x) \<Longrightarrow> okp Q0 (mbx_cnt n s)" "(\<And>x. Q0 x) \<Longrightarrow> okp Q0 (get_opcode n s)"
  "(\<And>x. Q3 x) \<Longrightarrow> okp Q3 (mem_get p k s)" "(\<And>x. Q3 x) \<Longrightarrow> okp Q3 (get_bytes off k bs)"
  "(\<And>x. Q4 x) \<Longrightarrow> okp Q4 (SDO_findobject E index)" "(\<And>x. Q4 x) \<Longrightarrow> okp Q4 (SDO_findsubindex E i sub)"
  "(\<And>x. Q5 x) \<Longrightarrow> okp Q5 (obj_at E i)" "(\<And>x. Q6 x) \<Longrightarrow> okp Q6 (at xs j)"
  "(\<And>x. Q3 x) \<Longrightarrow> okp Q3 (put_bytes off cs bs)" "(\<And>x. Q2 x) \<Longrightarrow> okp Q2 (ODLISTSIZE s)"
  "(\<And>x. Q1 x) \<Longrightarrow> okp Q1 (count_objects obs k16)" "(\<And>x. Q7 x) \<Longrightarrow> okp Q7 (od_type_and_maxsub E i ob)"
  "(\<And>x. Q2 x) \<Longrightarrow> okp Q2 (foe_data_len s)" "(\<And>x. Q8 x) \<Longrightarrow> okp Q8 (complete_access_get_variables E index sub)"
  "(\<And>x. Q9 x) \<Longrightarrow> okp Q9 (download_data cmd s)" "(\<And>x. Q3 x) \<Longrightarrow> okp Q3 (COE_pdoPack E bs i maps s)"
  "(\<And>x. Q10 x) \<Longrightarrow> okp Q10 (od_data d)" "(\<And>x. Q10 x) \<Longrightarrow> okp Q10 (data_v s)"
  "(\<And>x. Q11 x) \<Longrightarrow> okp Q11 (foe_file s)" "(\<And>x. Q3 x) \<Longrightarrow> okp Q3 (pb_payload b)"
  by (rule okpI, assumption)+

lemma keep_ESC_read [keep]:
  "tame E c s \<Longrightarrow> (\<And>f s'. tame E c s' \<Longrightarrow> MBXcontrol s' = MBXcontrol s \<Longrightarrow> Q (f, s')) \<Longrightarrow> okp Q (ESC_read E a n s)"
  by (simp add: ESC_read_def case_prod_beta)

lemma keep_ESC_write [keep]:
  "tame E c s \<Longrightarrow> (\<And>s'. tame E c s' \<Longrightarrow> MBXcontrol s' = MBXcontrol s \<Longrightarrow> Q s') \<Longrightarrow> okp Q (ESC_write E a bs s)"
  by (simp add: ESC_write_def case_prod_beta)

lemma keep_mbx_put [keep]:
  assumes "tame E c s" and "\<And>s'. tame E c s' \<Longrightarrow> MBXcontrol s' = MBXcontrol s \<Longrightarrow> Q s'"
  shows "okp Q (mbx_put n off bs s)"
proof -
  have "okp (\<lambda>m. length m = length (MBX s)) (put_bytes i bs (MBX s))" for i
    by (cases "put_bytes i bs (MBX s)") (auto dest: put_bytes_length)
  then show ?thesis
    unfolding mbx_put_def by (rule okp_bindI) (simp add: assms)
qed

lemma keep_mem_put [keep]:
  assumes "tame E c s" and "\<And>s'. tame E c s' \<Longrightarrow> MBXcontrol s' = MBXcontrol s \<Longrightarrow> Q s'"
  shows "okp Q (mem_put p bs s)"
proof -
  have m: "okp Q (map_option (\<lambda>m. s\<lparr>MBX := m\<rparr>) (put_bytes i bs (MBX s)))" for i
    by (cases "put_bytes i bs (MBX s)") (auto dest: put_bytes_length intro!: assms)
  show ?thesis
    using m by (cases "fst p") (simp_all add: mem_put_def assms okpI)
qed

section \<open>Replies\<close>

text \<open>A buffer claimed for a reply, or a reply already queued.\<close>

definition mine :: "'w env \<Rightarrow> nat \<Rightarrow> 'w sys \<Rightarrow> bool" where
  "mine E n s \<longleftrightarrow> 0 < n \<and> n < MBXBUFFERS (opt E) \<and> MBXcontrol s n \<in> {MBXstate_outclaim, MBXstate_outreq}"

lemma mine_cong: "MBXcontrol s' = MBXcontrol s \<Longrightarrow> mine E n s' = mine E n s"
  by (simp add: mine_def)

lemma mine_upd [simp]:
  "mine E n (s\<lparr>segmented := v\<rparr>) = mine E n s" "mine E n (s\<lparr>frags := f\<rparr>) = mine E n s"
  "mine E n (s\<lparr>fragsleft := f\<rparr>) = mine E n s" "mine E n (s\<lparr>data_v := p\<rparr>) = mine E n s"
  "mine E n (s\<lparr>flags_v := a\<rparr>) = mine E n s" "mine E n (s\<lparr>foepacket := f\<rparr>) = mine E n s"
  "mine E n (s\<lparr>xoe := v\<rparr>) = mine E n s" "mine E n (s\<lparr>EOEvar := ev\<rparr>) = mine E n s"
  "mine E n (s\<lparr>eoe_frameno := v\<rparr>) = mine E n s" "mine E n (s\<lparr>MBX := m\<rparr>) = mine E n s"
  "mine E n (s\<lparr>fposition := f\<rparr>) = mine E n s"
  by (simp_all add: mine_def)

lemma tame_request:
  assumes "tame E c s" and "mine E n s"
  shows "tame E c (set_mbxstate n MBXstate_outreq s)" and "mine E n (set_mbxstate n MBXstate_outreq s)"
proof -
  have "pool_ok (MBXBUFFERS (opt E)) ((MBXcontrol s)(n := MBXstate_outreq)) (mbxoutpost s) (mbxbackup s) (txcue s)"
  proof (cases "MBXcontrol s n = MBXstate_outclaim")
    case True
    with assms show ?thesis by (intro pool_request) (auto simp: tame_def mine_def pool_inv_def)
  next
    case False
    with assms(2) have "(MBXcontrol s)(n := MBXstate_outreq) = MBXcontrol s" by (auto simp: mine_def)
    with assms(1) show ?thesis by (simp add: tame_def pool_inv_def)
  qed
  then show "tame E c (set_mbxstate n MBXstate_outreq s)"
    using assms(1) by (simp add: tame_def pool_inv_def set_mbxstate_def cview_def al_view_def)
  show "mine E n (set_mbxstate n MBXstate_outreq s)"
    using assms(2) by (simp add: mine_def set_mbxstate_def)
qed

lemma tame_idle: "tame E c s \<Longrightarrow> tame E c (set_mbxstate 0 MBXstate_idle s)"
  using pool_in [of "MBXBUFFERS (opt E)" "MBXcontrol s" "mbxoutpost s" "mbxbackup s" "txcue s" MBXstate_idle]
  by (simp add: tame_def pool_inv_def set_mbxstate_def cview_def al_view_def)

lemma tame_done: "tame E c s \<Longrightarrow> tame E c (request_done s)"
  by (simp add: request_done_def tame_idle)

lemma okp_mbx_put:
  assumes "\<And>m. length m = length (MBX s) \<Longrightarrow> Q (s\<lparr>MBX := m\<rparr>)" shows "okp Q (mbx_put n off bs s)"
  by (cases "put_bytes (n * activembxsize s + off) bs (MBX s)")
    (auto simp: mbx_put_def dest: put_bytes_length intro: assms)

lemma keep_ESC_claimbuffer [keep]:
  assumes inv: "tame E c s"
    and none: "Q (0, s)"
    and some: "\<And>n s'. tame E c s' \<Longrightarrow> mine E n s' \<Longrightarrow> Q (n, s')"
  shows "okp Q (ESC_claimbuffer E s)"
proof -
  let ?p = "\<lambda>n. MBXcontrol s n = MBXstate_idle"
  let ?n = "scan_down ?p (last_buffer E)"
  have pool: "pool_ok (MBXBUFFERS (opt E)) (MBXcontrol s) (mbxoutpost s) (mbxbackup s) (txcue s)"
    using inv by (simp add: tame_def pool_inv_def)
  have B: "0 < MBXBUFFERS (opt E)" "MBXBUFFERS (opt E) \<le> 255"
    using pool by (simp_all add: pool_ok_def)
  then obtain k where k: "MBXBUFFERS (opt E) = Suc k" "k < 255"
    by (cases "MBXBUFFERS (opt E)") auto
  then have lb: "last_buffer E = k"
    by (simp add: last_buffer_def unat_of_nat take_bit_nat_eq_self)
  show ?thesis
  proof (cases "?n = 0")
    case True
    with none show ?thesis by (simp add: ESC_claimbuffer_def)
  next
    case False
    have idle: "MBXcontrol s ?n = MBXstate_idle" using False by (rule scan_down_sat)
    have n: "0 < ?n" "?n < MBXBUFFERS (opt E)"
      using False scan_down_le [of ?p "last_buffer E"] lb k by simp_all
    let ?c = "(MBXcontrol s)(?n := MBXstate_outclaim)"
    have pool': "pool_ok (MBXBUFFERS (opt E)) ?c (mbxoutpost s) (mbxbackup s) (txcue s + 1)"
      using pool_claim [OF pool n idle] by simp
    have m: "okp (\<lambda>s''. \<exists>k m. length m = length (MBX s) \<and>
        s'' = s\<lparr>MBXcontrol := ?c, mbxcnt := k, MBX := m\<rparr>)
      (do { s1 \<leftarrow> mbx_put ?n 2 (le16 0) s0; s2 \<leftarrow> mbx_put ?n 4 [0] s1; mbx_set_cnt ?n (mbxcnt s2) s2 })"
      if "s0 = s\<lparr>MBXcontrol := ?c, mbxcnt := next_mbxcnt (mbxcnt s)\<rparr>" for s0
      using that by (auto simp: mbx_set_cnt_def intro!: okp_mbx_put keep_get exI [of _ "next_mbxcnt (mbxcnt s)"])
    have fin: "Q (?n, s''\<lparr>txcue := txcue s'' + 1\<rparr>)"
      if "\<exists>k m. length m = length (MBX s) \<and> s'' = s\<lparr>MBXcontrol := ?c, mbxcnt := k, MBX := m\<rparr>" for s''
    proof -
      from that obtain j m where s'': "s'' = s\<lparr>MBXcontrol := ?c, mbxcnt := j, MBX := m\<rparr>" "length m = length (MBX s)"
        by blast
      show ?thesis
        by (rule some) (use inv pool' n s'' in \<open>simp_all add: tame_def pool_inv_def cview_def al_view_def mine_def\<close>)
    qed
    show ?thesis
      using False okp_mono [OF m [OF refl] fin]
      by (simp add: ESC_claimbuffer_def set_mbxstate_def)
  qed
qed

section \<open>CoE\<close>

lemma keep_init_coesdo [keep]:
  "tame E c s \<Longrightarrow> (\<And>s'. tame E c s' \<Longrightarrow> MBXcontrol s' = MBXcontrol s \<Longrightarrow> Q s') \<Longrightarrow>
     okp Q (init_coesdo n svc cmd index sub s)"
  by (auto simp: init_coesdo_def mbx_set_length_def mbx_set_type_def intro!: keep keep_get)

lemma keep_mbx_set [keep]:
  "tame E c s \<Longrightarrow> (\<And>s'. tame E c s' \<Longrightarrow> MBXcontrol s' = MBXcontrol s \<Longrightarrow> Q s') \<Longrightarrow> okp Q (mbx_set_length n len s)"
  "tame E c s \<Longrightarrow> (\<And>s'. tame E c s' \<Longrightarrow> MBXcontrol s' = MBXcontrol s \<Longrightarrow> Q s') \<Longrightarrow> okp Q (mbx_set_type n t s)"
  by (auto simp: mbx_set_length_def mbx_set_type_def intro!: keep keep_get)

lemma keep_or_command [keep]:
  "tame E c s \<Longrightarrow> (\<And>s'. tame E c s' \<Longrightarrow> MBXcontrol s' = MBXcontrol s \<Longrightarrow> Q s') \<Longrightarrow> okp Q (or_command n b s)"
  by (auto simp: or_command_def intro!: keep keep_get)

text \<open>A reply that goes out: the buffer is the caller's own before and after.\<close>

lemma keep_sdo_fields [keep]:
  assumes "tame E c s" "mine E n s" and "\<And>s'. tame E c s' \<Longrightarrow> mine E n s' \<Longrightarrow> Q s'"
  shows "okp Q (sdo_fields n svc index sub cmd len s)"
  using assms(1,2)
  by (auto simp: sdo_fields_def intro!: keep keep_get assms(3) tame_request) (simp_all add: mine_def)

lemma keep_MBX_error [keep]:
  assumes "tame E c s" and "\<And>s'. tame E c s' \<Longrightarrow> Q s'"
  shows "okp Q (MBX_error E err s)"
  using assms(1)
  by (auto simp: MBX_error_def intro!: keep keep_get assms(2) tame_request) (simp_all add: mine_def)

lemma keep_SDO_abort [keep]:
  assumes "tame E c s" and "n \<noteq> 0 \<Longrightarrow> mine E n s" and "\<And>s'. tame E c s' \<Longrightarrow> Q s'"
  shows "okp Q (SDO_abort E n index sub code s)"
  using assms(1,2) by (auto simp: SDO_abort_def intro!: keep keep_get assms(3))

lemma keep_set_state_idle [keep]:
  assumes "tame E c s" and "n \<noteq> 0 \<Longrightarrow> mine E n s" and "\<And>s'. tame E c s' \<Longrightarrow> Q s'"
  shows "okp Q (set_state_idle E n index sub code s)"
  using assms(1,2) by (auto simp: set_state_idle_def intro!: keep keep_get assms(3) tame_done)

lemma keep_ESC_SDO_complete [keep]:
  assumes "tame E c s" and "\<And>s'. tame E c s' \<Longrightarrow> Q s'"
  shows "okp Q (ESC_SDO_complete E code s)"
  using assms(1) by (auto simp: ESC_SDO_complete_def intro!: keep keep_get assms(2))

text \<open>The object handlers run a hook of the application.\<close>

lemma tame_hooks: "tame E c s \<Longrightarrow> calm_hooks E"
  by (simp add: tame_def)

lemma keep_hook:
  assumes "tame E c s" and "gentle h" and "\<And>s'. tame E c s' \<Longrightarrow> MBXcontrol s' = MBXcontrol s \<Longrightarrow> Q s'"
  shows "Q (h s)"
  using assms(1) by (intro assms(3)) (simp_all add: gentle_tame [OF assms(2)])

lemma keep_upload_pre [keep]:
  assumes t: "tame E c s" and Q: "\<And>a n s'. tame E c s' \<Longrightarrow> MBXcontrol s' = MBXcontrol s \<Longrightarrow> Q a n s'"
  shows "case ESC_upload_pre_objecthandler E index sub p len f s of (a, n, s') \<Rightarrow> Q a n s'"
proof (cases "pre_object_upload_hook E")
  case (Some h)
  then have g: "gentle (\<lambda>s. snd (snd (h index sub p len f s)))"
    using tame_hooks [OF t] by (simp add: calm_hooks_def)
  show ?thesis
    using Q [of "snd (snd (h index sub p len f s))"] gentle_tame [OF g] t
    by (simp add: ESC_upload_pre_objecthandler_def Some case_prod_beta)
qed (simp add: ESC_upload_pre_objecthandler_def Q t)

lemma keep_upload_post [keep]:
  assumes t: "tame E c s" and Q: "\<And>a s'. tame E c s' \<Longrightarrow> MBXcontrol s' = MBXcontrol s \<Longrightarrow> Q a s'"
  shows "case ESC_upload_post_objecthandler E index sub f s of (a, s') \<Rightarrow> Q a s'"
proof (cases "post_object_upload_hook E")
  case (Some h)
  then have g: "gentle (\<lambda>s. snd (h index sub f s))"
    using tame_hooks [OF t] by (simp add: calm_hooks_def)
  show ?thesis
    using Q [of "snd (h index sub f s)"] gentle_tame [OF g] t
    by (simp add: ESC_upload_post_objecthandler_def Some case_prod_beta)
qed (simp add: ESC_upload_post_objecthandler_def Q t)

lemma keep_download_post [keep]:
  assumes t: "tame E c s" and Q: "\<And>a s'. tame E c s' \<Longrightarrow> MBXcontrol s' = MBXcontrol s \<Longrightarrow> Q a s'"
  shows "case ESC_download_post_objecthandler E index sub f s of (a, s') \<Rightarrow> Q a s'"
proof (cases "post_object_download_hook E")
  case (Some h)
  then have g: "gentle (\<lambda>s. snd (h index sub f s))"
    using tame_hooks [OF t] by (simp add: calm_hooks_def)
  show ?thesis
    using Q [of "snd (h index sub f s)"] gentle_tame [OF g] t
    by (simp add: ESC_download_post_objecthandler_def Some case_prod_beta)
qed (simp add: ESC_download_post_objecthandler_def Q t)

lemma keep_download_pre [keep]:
  assumes t: "tame E c s" and Q: "\<And>a s'. tame E c s' \<Longrightarrow> MBXcontrol s' = MBXcontrol s \<Longrightarrow> Q (a, s')"
  shows "okp Q (ESC_download_pre_objecthandler E index sub p len f s)"
proof (cases "pre_object_download_hook E")
  case (Some h)
  then have g: "gentle (\<lambda>s. snd (h index sub p len f s))"
    using tame_hooks [OF t] by (simp add: calm_hooks_def)
  have "Q (h index sub p len f s)"
    using Q [of "snd (h index sub p len f s)" "fst (h index sub p len f s)"] gentle_tame [OF g] t by simp
  then show ?thesis
    by (auto simp: ESC_download_pre_objecthandler_def Some Q t intro!: okpI)
qed (auto simp: ESC_download_pre_objecthandler_def Q t intro!: okpI)

lemma keep_upload_expedited [keep]:
  assumes "tame E c s" "mine E n s" and "\<And>a s'. tame E c s' \<Longrightarrow> mine E n s' \<Longrightarrow> Q (a, s')"
  shows "okp Q (upload_expedited E n index sub d len s)"
  using assms(1,2)
  by (auto del: case_prodI2 case_prodI simp: upload_expedited_def split: option.split intro!: keep keep_get assms(3)) (simp_all add: mine_def)

lemma keep_upload_normal [keep]:
  assumes "tame E c s" "mine E n s" and "\<And>a s'. tame E c s' \<Longrightarrow> mine E n s' \<Longrightarrow> Q (a, s')"
  shows "okp Q (upload_normal E n index sub d len s)"
  using assms(1,2)
  by (auto del: case_prodI2 case_prodI simp: upload_normal_def split: option.split intro!: keep keep_get assms(3)) (simp_all add: mine_def)

lemma keep_upload_entry [keep]:
  assumes "tame E c s" and "\<And>s'. tame E c s' \<Longrightarrow> Q s'"
  shows "okp Q (upload_entry E index sub d s)"
  using assms(1)
  by (auto del: case_prodI2 case_prodI simp: upload_entry_def intro!: keep keep_get assms(2) tame_request tame_done) (simp_all add: mine_def)

lemma keep_SDO_upload [keep]:
  assumes "tame E c s" and "\<And>s'. tame E c s' \<Longrightarrow> Q s'"
  shows "okp Q (SDO_upload E s)"
  using assms(1) by (auto simp: SDO_upload_def intro!: keep keep_get assms(2) tame_done)

lemma keep_upload_segment_reply [keep]:
  assumes "tame E c s" "mine E n s" and "\<And>len s'. tame E c s' \<Longrightarrow> mine E n s' \<Longrightarrow> Q (len, s')"
  shows "okp Q (upload_segment_reply n len s)"
  using assms(1,2)
  by (auto simp: upload_segment_reply_def intro!: keep keep_get assms(3)) (simp_all add: mine_def)

lemma mine_outreq [simp]: "mine E n s \<Longrightarrow> mine E n (set_mbxstate n MBXstate_outreq s)"
  by (simp add: mine_def set_mbxstate_def)

lemma keep_SDO_uploadsegment [keep]:
  assumes "tame E c s" and "\<And>s'. tame E c s' \<Longrightarrow> Q s'"
  shows "okp Q (SDO_uploadsegment E s)"
  using assms(1)
  by (auto del: case_prodI2 case_prodI simp: SDO_uploadsegment_def intro!: keep keep_get assms(2) tame_request tame_done)
    (simp_all add: mine_def)

lemma keep_ca_bytes [keep]:
  "tame E c s \<Longrightarrow> (\<And>s'. tame E c s' \<Longrightarrow> MBXcontrol s' = MBXcontrol s \<Longrightarrow> Q s') \<Longrightarrow> okp Q (ca_bytes d buf load bits s)"
  by (cases load) (auto simp: ca_bytes_def intro!: keep keep_get)

lemma keep_ca_bits [keep]:
  "tame E c s \<Longrightarrow> (\<And>s'. tame E c s' \<Longrightarrow> MBXcontrol s' = MBXcontrol s \<Longrightarrow> Q s') \<Longrightarrow> okp Q (ca_bits d buf bits off s)"
  by (auto simp: ca_bits_def intro!: keep keep_get)

lemma keep_ca_entry [keep]:
  "tame E c s \<Longrightarrow> (\<And>b s'. tame E c s' \<Longrightarrow> MBXcontrol s' = MBXcontrol s \<Longrightarrow> Q (b, s')) \<Longrightarrow>
     okp Q (ca_entry ob buf load nsub d bits s)"
  by (cases buf; cases load) (auto simp: ca_entry_def intro!: keep keep_get)

lemma keep_ca_loop [keep]:
  assumes "tame E c s" and "\<And>b s'. tame E c s' \<Longrightarrow> MBXcontrol s' = MBXcontrol s \<Longrightarrow> Q (b, s')"
  shows "okp Q (ca_loop ob buf load m subs bits s)"
  using assms
proof (induction subs arbitrary: bits s)
  case (Cons n ns)
  show ?case
    using Cons.prems by (auto intro!: keep keep_get Cons.IH)
qed simp

lemma keep_complete_access_subindex_loop [keep]:
  assumes "tame E c s" and "\<And>b s'. tame E c s' \<Longrightarrow> MBXcontrol s' = MBXcontrol s \<Longrightarrow> Q (b, s')"
  shows "okp Q (complete_access_subindex_loop ob nsub buf load m s)"
  using assms
  by (cases buf; cases load) (auto simp: complete_access_subindex_loop_def intro!: keep keep_get)

lemma keep_ca_upload_reply [keep]:
  assumes "tame E c s" "mine E n s" and "\<And>s'. tame E c s' \<Longrightarrow> mine E n s' \<Longrightarrow> Q s'"
  shows "okp Q (ca_upload_reply n dss len s)"
  using assms(1,2)
  by (auto simp: ca_upload_reply_def intro!: keep keep_get assms(3)) (simp_all add: mine_def)

lemma keep_ca_upload_object [keep]:
  assumes "tame E c s" "mine E n s" and "\<And>s'. tame E c s' \<Longrightarrow> Q s'"
  shows "okp Q (ca_upload_object E n index sub ob nsub s)"
  using assms(1,2)
  by (auto del: case_prodI2 case_prodI simp: ca_upload_object_def intro!: keep keep_get assms(3) tame_request tame_done)
    (simp_all add: mine_def)

lemma keep_SDO_upload_complete_access [keep]:
  assumes "tame E c s" and "\<And>s'. tame E c s' \<Longrightarrow> Q s'"
  shows "okp Q (SDO_upload_complete_access E s)"
  using assms(1)
  by (auto simp: SDO_upload_complete_access_def split: sum.split intro!: keep keep_get assms(2))

lemma keep_download_length_ok [keep]:
  "tame E c s \<Longrightarrow> (\<And>b s'. tame E c s' \<Longrightarrow> MBXcontrol s' = MBXcontrol s \<Longrightarrow> Q (b, s')) \<Longrightarrow>
     okp Q (download_length_ok d len s)"
  by (auto simp: download_length_ok_def intro!: keep keep_get)

lemma keep_download_store [keep]:
  assumes "tame E c s" and "\<And>s'. tame E c s' \<Longrightarrow> Q s'"
  shows "okp Q (download_store E index sub d len p s)"
  using assms(1)
  by (auto del: case_prodI2 case_prodI simp: download_store_def intro!: keep keep_get assms(2)) (simp_all add: mine_def)

lemma keep_download_entry [keep]:
  assumes "tame E c s" and "\<And>s'. tame E c s' \<Longrightarrow> Q s'"
  shows "okp Q (download_entry E index sub d s)"
  using assms(1) by (auto simp: download_entry_def intro!: keep keep_get assms(2))

lemma keep_SDO_download [keep]:
  assumes "tame E c s" and "\<And>s'. tame E c s' \<Longrightarrow> Q s'"
  shows "okp Q (SDO_download E s)"
  using assms(1) by (auto simp: SDO_download_def intro!: keep keep_get assms(2) tame_done)

lemma keep_download_post_pair:
  assumes "tame E c s" and "\<And>a s'. tame E c s' \<Longrightarrow> MBXcontrol s' = MBXcontrol s \<Longrightarrow> Q (a, s')"
  shows "Q (ESC_download_post_objecthandler E index sub f s)"
  using keep_download_post [OF assms(1), of "\<lambda>a s'. Q (a, s')" index sub f] assms(2) by (simp add: case_prod_beta)

lemma keep_ca_download_store [keep]:
  assumes "tame E c s" and "\<And>a s'. tame E c s' \<Longrightarrow> MBXcontrol s' = MBXcontrol s \<Longrightarrow> Q (a, s')"
  shows "okp Q (ca_download_store E index sub ob nsub f bytes p s)"
  using assms(1)
  by (auto del: case_prodI2 case_prodI simp: ca_download_store_def intro!: keep keep_get assms(2) keep_download_post_pair [of _ _ _ Q])

lemma keep_ca_download_object [keep]:
  assumes "tame E c s" and "\<And>s'. tame E c s' \<Longrightarrow> Q s'"
  shows "okp Q (ca_download_object E index sub ob nsub s)"
  using assms(1)
  by (auto simp: ca_download_object_def intro!: keep keep_get assms(2) tame_request) (simp_all add: mine_def)

lemma keep_SDO_download_complete_access [keep]:
  assumes "tame E c s" and "\<And>s'. tame E c s' \<Longrightarrow> Q s'"
  shows "okp Q (SDO_download_complete_access E s)"
  using assms(1)
  by (auto simp: SDO_download_complete_access_def split: sum.split intro!: keep keep_get assms(2))

lemma keep_download_last [keep]:
  assumes "tame E c s" and "\<And>r s'. tame E c s' \<Longrightarrow> MBXcontrol s' = MBXcontrol s \<Longrightarrow> Q (r, s')"
  shows "okp Q (download_last E len s)"
  using assms(1)
  by (auto del: case_prodI2 case_prodI simp: download_last_def intro!: keep keep_get assms(2))

lemma keep_SDO_downloadsegment [keep]:
  assumes "tame E c s" and "\<And>s'. tame E c s' \<Longrightarrow> Q s'"
  shows "okp Q (SDO_downloadsegment E s)"
  using assms(1)
  by (auto simp: SDO_downloadsegment_def split: sum.split intro!: keep keep_get assms(2) tame_request)
    (simp_all add: mine_def)

lemma keep_info [keep]:
  "tame E c s \<Longrightarrow> (\<And>s'. tame E c s' \<Longrightarrow> MBXcontrol s' = MBXcontrol s \<Longrightarrow> Q s') \<Longrightarrow> okp Q (info_start n s)"
  "tame E c s \<Longrightarrow> (\<And>s'. tame E c s' \<Longrightarrow> MBXcontrol s' = MBXcontrol s \<Longrightarrow> Q s') \<Longrightarrow> okp Q (info_header n opc inc fl s)"
  by (auto simp: info_start_def info_header_def set_opcode_def set_incomplete_def intro!: keep keep_get)

lemma mine_done [simp]: "0 < n \<Longrightarrow> mine E n (request_done s) = mine E n s"
  by (simp add: mine_def request_done_def set_mbxstate_def)

lemma keep_SDO_infoerror [keep]:
  assumes "tame E c s" and "\<And>s'. tame E c s' \<Longrightarrow> Q s'"
  shows "okp Q (SDO_infoerror E code s)"
  using assms(1)
  by (auto simp: SDO_infoerror_def intro!: keep keep_get assms(2) tame_request tame_done) (simp_all add: mine_def)

lemma keep_put_indices [keep]:
  assumes "tame E c s" and "\<And>s'. tame E c s' \<Longrightarrow> MBXcontrol s' = MBXcontrol s \<Longrightarrow> Q s'"
  shows "okp Q (put_indices E n off i k s)"
  using assms
proof (induction k arbitrary: off i s)
  case (Suc k)
  show ?case
    using Suc.prems by (auto intro!: keep keep_get Suc.IH)
qed simp

lemma keep_copy_name [keep]:
  assumes "tame E c s" and "\<And>k s'. tame E c s' \<Longrightarrow> MBXcontrol s' = MBXcontrol s \<Longrightarrow> Q (k, s')"
  shows "okp Q (copy_name n off limit name k s)"
  using assms
proof (induction name arbitrary: off k s)
  case Nil
  then show ?case by (auto intro!: keep)
next
  case (Cons ch name)
  show ?case
    using Cons.prems by (auto intro!: keep Cons.IH)
qed

lemma keep_odlist [keep]:
  assumes "tame E c s" "mine E n s" and "\<And>s'. tame E c s' \<Longrightarrow> mine E n s' \<Longrightarrow> Q s'"
  shows "okp Q (odlist_counts n fr num s)" and "okp Q (odlist_first E n fr num ls s)"
proof -
  have n: "0 < n" using assms(2) by (simp add: mine_def)
  show "okp Q (odlist_counts n fr num s)"
    using assms(1,2) n
    by (auto simp: odlist_counts_def intro!: keep keep_get assms(3) tame_done)
      (simp_all add: mine_def request_done_def set_mbxstate_def)
  show "okp Q (odlist_first E n fr num ls s)"
    using assms(1,2) n
    by (auto simp: odlist_first_def intro!: keep keep_get assms(3) tame_done)
      (simp_all add: mine_def request_done_def set_mbxstate_def)
qed

lemma keep_SDO_getodlist [keep]:
  assumes "tame E c s" and "\<And>s'. tame E c s' \<Longrightarrow> Q s'"
  shows "okp Q (SDO_getodlist E s)"
  using assms(1)
  by (auto simp: SDO_getodlist_def intro!: keep keep_get assms(2) tame_request) (simp_all add: mine_def)

lemma keep_SDO_getodlistcont [keep]:
  assumes "tame E c s" and "\<And>s'. tame E c s' \<Longrightarrow> Q s'"
  shows "okp Q (SDO_getodlistcont E s)"
  using assms(1)
  by (auto simp: SDO_getodlistcont_def intro!: keep keep_get assms(2) tame_request tame_done)
    (simp_all add: mine_def request_done_def set_mbxstate_def)

lemma keep_SDO_getod [keep]:
  assumes "tame E c s" and "\<And>s'. tame E c s' \<Longrightarrow> Q s'"
  shows "okp Q (SDO_getod E s)"
  using assms(1)
  by (auto simp: SDO_getod_def getod_reply_def intro!: keep keep_get assms(2) tame_request tame_done)
    (simp_all add: mine_def)

lemma keep_SDO_geted [keep]:
  assumes "tame E c s" and "\<And>s'. tame E c s' \<Longrightarrow> Q s'"
  shows "okp Q (SDO_geted E s)"
  using assms(1)
  by (auto simp: SDO_geted_def geted_reply_def intro!: keep keep_get assms(2) tame_request tame_done)
    (simp_all add: mine_def)

lemma keep_coe_accept [keep]:
  assumes "tame E c s" and "\<And>s'. tame E c s' \<Longrightarrow> Q s'"
  shows "okp Q (coe_accept E s)"
  using assms(1) by (auto simp: coe_accept_def intro!: keep keep_get assms(2))

lemma keep_coe_sdo_request [keep]:
  assumes t: "tame E c s" and "\<And>s'. tame E c s' \<Longrightarrow> Q s'"
  shows "okp Q (coe_sdo_request E cmd s)"
proof -
  note intros = keep_SDO_upload_complete_access [OF t] keep_SDO_upload [OF t] keep_SDO_uploadsegment [OF t]
    keep_SDO_download_complete_access [OF t] keep_SDO_download [OF t] keep_SDO_downloadsegment [OF t]
  show ?thesis
    unfolding coe_sdo_request_def
    by (rule okp_bindI [of "\<lambda>_. True"]) (simp_all add: okpI intros assms(2) t del: okp_bind)
qed

lemma keep_coe_other_service [keep]:
  assumes t: "tame E c s" and "\<And>s'. tame E c s' \<Longrightarrow> Q s'"
  shows "okp Q (coe_other_service E service s)"
  unfolding coe_other_service_def
  by (rule okp_bindI [of "\<lambda>_. True"])
    (auto simp: okpI t intro!: keep_SDO_getodlist [OF t] keep_SDO_getod [OF t] keep_SDO_geted [OF t]
      assms(2) keep_MBX_error [OF t] keep_SDO_abort [OF t] keep_get tame_done)

lemma keep_ESC_coeprocess [keep]:
  assumes t: "tame E c s" and "\<And>s'. tame E c s' \<Longrightarrow> Q s'"
  shows "okp Q (ESC_coeprocess E s)"
proof (cases "MBXrun s = 0")
  case False
  have cont: "okp (tame E c) (if b then SDO_getodlistcont E s1 else Some s1)" if "tame E c s1" for s1 b
    using that by (auto intro: keep_SDO_getodlistcont)
  have fin: "okp (tame E c) (do {
       ns \<leftarrow> mbx_u16 0 6 s1;
       let service = drop_bit 12 ns;
       command \<leftarrow> mbx_u8 0 8 s1;
       if service = COE_SDOREQUEST \<and> sdo_held_active s1 \<noteq> 0 then do {
         s \<leftarrow> MBX_error E MBXERR_SERVICEINWORK s1;
         Some (request_done s)
       }
       else if service = COE_SDOREQUEST then coe_sdo_request E command s1
       else coe_other_service E service s1 })" if "tame E c s1" for s1
    using that
    by (auto intro!: keep_get keep_MBX_error [OF that] keep_coe_sdo_request [OF that]
        keep_coe_other_service [OF that] tame_done)
  have fin': "okp (tame E c) (if xoe s1 = MBXCOE then do {
       ns \<leftarrow> mbx_u16 0 6 s1;
       let service = drop_bit 12 ns;
       command \<leftarrow> mbx_u8 0 8 s1;
       if service = COE_SDOREQUEST \<and> sdo_held_active s1 \<noteq> 0 then do {
         s \<leftarrow> MBX_error E MBXERR_SERVICEINWORK s1;
         Some (request_done s)
       }
       else if service = COE_SDOREQUEST then coe_sdo_request E command s1
       else coe_other_service E service s1 } else Some s1)" if "tame E c s1" for s1
    using fin [OF that] that by simp
  have "okp (tame E c) (ESC_coeprocess E s)"
    unfolding ESC_coeprocess_def using False
    by (simp only: if_False)
      (rule okp_bindI [OF keep_coe_accept [OF t]], assumption, rule okp_bindI [OF cont], assumption,
       rule fin', assumption)
  then show ?thesis by (rule okp_mono) (rule assms(2))
qed (simp add: ESC_coeprocess_def assms)

lemma keep_ESC_xoeprocess [keep]:
  assumes "tame E c s" and "\<And>s'. tame E c s' \<Longrightarrow> Q s'"
  shows "okp Q (ESC_xoeprocess E s)"
  using assms(1)
  by (auto simp: ESC_xoeprocess_def intro!: keep keep_get assms(2) tame_idle)

section \<open>FoE\<close>

lemma keep_upd_file [keep]:
  "tame E c s \<Longrightarrow> (\<And>s'. tame E c s' \<Longrightarrow> MBXcontrol s' = MBXcontrol s \<Longrightarrow> Q s') \<Longrightarrow> okp Q (upd_file i f s)"
  "tame E c s \<Longrightarrow> (\<And>s'. tame E c s' \<Longrightarrow> MBXcontrol s' = MBXcontrol s \<Longrightarrow> Q s') \<Longrightarrow> okp Q (upd_current f s)"
  by (auto simp: upd_file_def upd_current_def intro!: keep_get)

lemma keep_foe_flush [keep]:
  assumes t: "tame E c s" and "\<And>r s'. tame E c s' \<Longrightarrow> MBXcontrol s' = MBXcontrol s \<Longrightarrow> Q (r, s')"
  shows "okp Q (foe_flush E s)"
proof -
  have g: "gentle (\<lambda>s. snd (foe_write_function E i b n s))" for i b n
    using tame_hooks [OF t] by (simp add: calm_hooks_def)
  have "Q (foe_write_function E i b n s)" for i b n
    using assms(2) [of "snd (foe_write_function E i b n s)" "fst (foe_write_function E i b n s)"]
      gentle_tame [OF g] t by simp
  then show ?thesis by (auto simp: foe_flush_def intro!: keep_get)
qed

lemma keep_foe_find [keep]:
  assumes "tame E c s" and "\<And>r s'. tame E c s' \<Longrightarrow> MBXcontrol s' = MBXcontrol s \<Longrightarrow> Q (r, s')"
  shows "okp Q (foe_find fs i name k pass opc s)"
  using assms
proof (induction fs arbitrary: i s pass opc)
  case (Cons f fs)
  show ?case
    using Cons.prems by (auto intro!: keep Cons.IH)
qed simp

lemma keep_FOE_fopen [keep]:
  assumes "tame E c s" and "\<And>r s'. tame E c s' \<Longrightarrow> MBXcontrol s' = MBXcontrol s \<Longrightarrow> Q (r, s')"
  shows "okp Q (FOE_fopen k pass opc s)"
  using assms(1) by (auto simp: FOE_fopen_def intro!: keep keep_get assms(2))

lemma keep_fwrite_loop [keep]:
  assumes "tame E c s" and "\<And>r s'. tame E c s' \<Longrightarrow> MBXcontrol s' = MBXcontrol s \<Longrightarrow> Q (r, s')"
  shows "okp Q (fwrite_loop E bs k s)"
  using assms
proof (induction bs arbitrary: k s)
  case (Cons b bs)
  show ?case
    using Cons.prems by (auto intro!: keep keep_get Cons.IH)
qed simp

lemma keep_FOE_fwrite [keep]:
  assumes "tame E c s" and "\<And>r s'. tame E c s' \<Longrightarrow> MBXcontrol s' = MBXcontrol s \<Longrightarrow> Q (r, s')"
  shows "okp Q (FOE_fwrite E bs s)" and "okp Q (FOE_fclose E s)"
  using assms(1) by (auto simp: FOE_fwrite_def FOE_fclose_def intro!: keep keep_get assms(2))

lemma tame_FOE_init [simp]: "tame E c (FOE_init s) = tame E c s" "mine E n (FOE_init s) = mine E n s"
  by (simp_all add: FOE_init_def mine_def)

lemma keep_foe_reply [keep]:
  "tame E c s \<Longrightarrow> (\<And>s'. tame E c s' \<Longrightarrow> MBXcontrol s' = MBXcontrol s \<Longrightarrow> Q s') \<Longrightarrow> okp Q (foe_reply n opc v s)"
  by (auto simp: foe_reply_def intro!: keep keep_get)

lemma keep_FOE_abort [keep]:
  assumes "tame E c s" and "\<And>s'. tame E c s' \<Longrightarrow> Q s'"
  shows "okp Q (FOE_abort E code s)"
  using assms(1)
  by (auto simp: FOE_abort_def intro!: keep keep_get assms(2) tame_request) (simp_all add: mine_def)

lemma keep_FOE_send_ack [keep]:
  assumes "tame E c s" and "\<And>r s'. tame E c s' \<Longrightarrow> Q (r, s')"
  shows "okp Q (FOE_send_ack E s)"
  using assms(1)
  by (auto simp: FOE_send_ack_def intro!: keep keep_get assms(2) tame_request) (simp_all add: mine_def)

lemma keep_FOE_write [keep]:
  assumes "tame E c s" and "\<And>s'. tame E c s' \<Longrightarrow> Q s'"
  shows "okp Q (FOE_write E s)"
  using assms(1) by (auto simp: FOE_write_def intro!: keep keep_get assms(2))

lemma keep_foe_store [keep]:
  assumes "tame E c s" and "\<And>s'. tame E c s' \<Longrightarrow> Q s'"
  shows "okp Q (foe_store E len s)"
  using assms(1) by (auto simp: foe_store_def intro!: keep keep_get assms(2))

lemma keep_FOE_data [keep]:
  assumes "tame E c s" and "\<And>s'. tame E c s' \<Longrightarrow> Q s'"
  shows "okp Q (FOE_data E s)"
  using assms(1) by (auto simp: FOE_data_def intro!: keep keep_get assms(2))

lemma keep_FOE_fread [keep]:
  assumes "tame E c s" and "\<And>r s'. tame E c s' \<Longrightarrow> MBXcontrol s' = MBXcontrol s \<Longrightarrow> Q (r, s')"
  shows "okp Q (FOE_fread k s)"
  using assms
proof (induction k arbitrary: s Q)
  case (Suc k)
  show ?case
    using Suc.prems by (auto intro!: keep keep_get Suc.IH)
qed simp

lemma keep_FOE_send_data_packet [keep]:
  assumes "tame E c s" and "\<And>r s'. tame E c s' \<Longrightarrow> Q (r, s')"
  shows "okp Q (FOE_send_data_packet E s)"
  using assms(1)
  by (auto simp: FOE_send_data_packet_def intro!: keep keep_get assms(2) tame_request) (simp_all add: mine_def)

lemma keep_FOE_read [keep]:
  assumes "tame E c s" and "\<And>s'. tame E c s' \<Longrightarrow> Q s'"
  shows "okp Q (FOE_read E s)" "okp Q (FOE_ack E s)"
  using assms(1) by (auto simp: FOE_read_def FOE_ack_def intro!: keep keep_get assms(2))

lemma keep_FOE_busy [keep]:
  assumes "tame E c s" and "\<And>s'. tame E c s' \<Longrightarrow> Q s'"
  shows "okp Q (FOE_busy E s)" "okp Q (FOE_error E s)"
  using assms(1) by (auto simp: FOE_busy_def FOE_error_def intro!: keep keep_get assms(2))

lemma keep_foe_dispatch [keep]:
  assumes t: "tame E c s" and "\<And>s'. tame E c s' \<Longrightarrow> Q s'"
  shows "okp Q (foe_dispatch E opc s)"
  by (simp add: foe_dispatch_def keep_FOE_write [OF t] keep_FOE_data [OF t] keep_FOE_read [OF t]
      keep_FOE_busy [OF t] keep_FOE_abort [OF t] assms(2))

lemma keep_ESC_foeprocess [keep]:
  assumes "tame E c s" and "\<And>s'. tame E c s' \<Longrightarrow> Q s'"
  shows "okp Q (ESC_foeprocess E s)"
  using assms(1) by (auto simp: ESC_foeprocess_def intro!: keep keep_get assms(2) tame_idle)

section \<open>EoE\<close>

lemma keep_EOE_no_data_response [keep]:
  assumes "tame E c s" and "\<And>s'. tame E c s' \<Longrightarrow> Q s'"
  shows "okp Q (EOE_no_data_response E f r s)"
  using assms(1)
  by (auto simp: EOE_no_data_response_def intro!: keep keep_get assms(2) tame_request) (simp_all add: mine_def)

lemma keep_add_param [keep]:
  assumes "tame E c (snd (snd st))"
    and "\<And>f off s'. tame E c s' \<Longrightarrow> MBXcontrol s' = MBXcontrol (snd (snd st)) \<Longrightarrow> Q (f, off, s')"
  shows "okp Q (add_param n p b bs st)"
  using assms(1) by (cases st) (auto simp: add_param_def intro!: keep assms(2))

lemma gentle_load: "tame E c s \<Longrightarrow> tame E c (case load_eth_settings E of None \<Rightarrow> s | Some h \<Rightarrow> snd (h s))"
proof (cases "load_eth_settings E")
  case (Some h)
  assume t: "tame E c s"
  then have "gentle (\<lambda>s. snd (h s))" using tame_hooks [OF t] Some by (simp add: calm_hooks_def)
  from gentle_tame(1) [OF this] t Some show ?thesis by simp
qed simp

lemma keep_EOE_get_ip [keep]:
  assumes t: "tame E c s" and "\<And>s'. tame E c s' \<Longrightarrow> Q s'"
  shows "okp Q (EOE_get_ip E s)"
  using gentle_load [OF t] t
  by (auto simp: EOE_get_ip_def intro!: keep keep_get assms(2) tame_request) (simp_all add: mine_def)

lemma keep_take_param [keep]:
  assumes "tame E c (snd st)" and "\<And>off s'. tame E c s' \<Longrightarrow> Q (off, s')"
  shows "okp Q (take_param f b n store st)"
  using assms(1) by (cases st) (auto simp: take_param_def intro!: keep_get assms(2))

lemma keep_EOE_set_ip [keep]:
  assumes t: "tame E c s" and "\<And>s'. tame E c s' \<Longrightarrow> Q s'"
  shows "okp Q (EOE_set_ip E s)"
proof -
  have h: "tame E c (snd (h s'))" if "store_ethernet_settings E = Some h" "tame E c s'" for h s'
  proof -
    have "gentle (\<lambda>s. snd (h s))" using tame_hooks [OF that(2)] that(1) by (simp add: calm_hooks_def)
    from gentle_tame(1) [OF this] that(2) show ?thesis by simp
  qed
  have fin: "tame E c s' \<Longrightarrow>
    okp Q (case (if big then (MBXERR_SIZETOOSHORT, s')
       else (case store_ethernet_settings E of None \<Rightarrow> (EOE_RESULT_NO_IP_SUPPORT, s')
          | Some h \<Rightarrow> (case h s' of (r, s) \<Rightarrow> (word_of_int r, s)))) of
       (result, s) \<Rightarrow> EOE_no_data_response E fi result s)" for s' big fi
    using h [of _ s'] by (auto simp: case_prod_beta split: option.split intro!: keep_EOE_no_data_response [of E c] assms(2))
  show ?thesis
    using t fin
    by (auto simp: EOE_set_ip_def simp del: okp_prod intro!: keep keep_get assms(2))
qed

lemma tame_upd_eoe [simp]: "tame E c (upd_eoe f s) = tame E c s" "MBXcontrol (upd_eoe f s) = MBXcontrol s"
  by (simp_all add: upd_eoe_def)

lemma tame_EOE_init_rx [simp]: "tame E c s \<Longrightarrow> tame E c (EOE_init_rx E s)"
proof -
  assume t: "tame E c s"
  have "tame E c (snd (h b s'))" if "eoe_get_buffer E = Some h" "tame E c s'" for h b s'
  proof -
    have "gentle (\<lambda>s. snd (h b s))" using tame_hooks [OF that(2)] that(1) by (simp add: calm_hooks_def)
    from gentle_tame(1) [OF this] that(2) show ?thesis by simp
  qed
  with t show ?thesis by (auto simp: EOE_init_rx_def case_prod_beta split: option.split)
qed

lemma tame_EOE_init_tx [simp]: "tame E c s \<Longrightarrow> tame E c (EOE_init_tx E s)"
proof -
  assume t: "tame E c s"
  have "tame E c (snd (h b s'))" if "eoe_free_buffer E = Some h" "tame E c s'" for h b s'
  proof -
    have "gentle (\<lambda>s. snd (h b s))" using tame_hooks [OF that(2)] that(1) by (simp add: calm_hooks_def)
    from gentle_tame(1) [OF this] that(2) show ?thesis by simp
  qed
  with t show ?thesis by (auto simp: EOE_init_tx_def case_prod_beta split: option.split)
qed

lemma tame_EOE_init: "tame E c s \<Longrightarrow> tame E c (EOE_init E s)"
  by (simp add: EOE_init_def)

lemma tame_rx_accept: "tame E c s \<Longrightarrow> tame E c (snd (rx_accept E f s))"
  by (auto simp: rx_accept_def)

lemma keep_rx_store [keep]:
  assumes t: "tame E c s" and "\<And>b s'. tame E c s' \<Longrightarrow> Q (b, s')"
  shows "okp Q (rx_store E n s)"
  using t by (auto simp: rx_store_def intro!: keep_get assms(2))

lemma tame_rx_last: "tame E c s \<Longrightarrow> tame E c (rx_last E f s)"
proof -
  assume t: "tame E c s"
  have g: "gentle (handle_recv_buffer E p b)" for p b using tame_hooks [OF t] by (simp add: calm_hooks_def)
  from t show ?thesis by (simp add: rx_last_def gentle_tame [OF g])
qed

lemma keep_EOE_receive_fragment [keep]:
  assumes t: "tame E c s" and "\<And>s'. tame E c s' \<Longrightarrow> Q s'"
  shows "okp Q (EOE_receive_fragment E s)"
  using tame_rx_accept [OF t]
  by (auto simp: EOE_receive_fragment_def case_prod_beta intro!: keep keep_get assms(2) tame_rx_last)

lemma keep_tx_fragment [keep]:
  assumes t: "tame E c s" "mine E n s" and "\<And>s'. tame E c s' \<Longrightarrow> Q s'"
  shows "okp Q (tx_fragment E n s)"
proof -
  have g: "gentle h" if "fragment_sent_event E = Some h" for h
    using tame_hooks [OF t(1)] that by (simp add: calm_hooks_def)
  have q: "tame E c (set_mbxstate n MBXstate_outreq s')" if "tame E c s'" "MBXcontrol s' = MBXcontrol s" for s'
    using that t(2) by (intro tame_request(1)) (simp_all add: mine_def)
  show ?thesis
    using t(1) gentle_tame(1) [OF g, where E = E and c = c]
    by (auto simp: tx_fragment_def q split: option.split intro!: keep keep_get assms(3))
qed

lemma keep_EOE_send_fragment [keep]:
  assumes t: "tame E c s" and "\<And>s'. tame E c s' \<Longrightarrow> Q s'"
  shows "okp Q (EOE_send_fragment E s)"
proof -
  have "gentle (\<lambda>s. snd (snd (fetch_send_buffer E p b s)))" for p b
    using tame_hooks [OF t] by (simp add: calm_hooks_def)
  from gentle_tame(1) [OF this] t have "tame E c (snd (snd (fetch_send_buffer E p b s)))" for p b by simp
  with t show ?thesis
    by (auto simp: EOE_send_fragment_def case_prod_beta intro!: keep keep_get assms(2))
qed

lemma keep_eoe_dispatch [keep]:
  assumes t: "tame E c s" and "\<And>s'. tame E c s' \<Longrightarrow> Q s'"
  shows "okp Q (eoe_dispatch E f s)"
  by (simp add: eoe_dispatch_def keep_EOE_receive_fragment [OF t] keep_EOE_set_ip [OF t] keep_EOE_get_ip [OF t]
      keep_EOE_no_data_response [OF t] assms(2))

lemma keep_ESC_eoeprocess [keep]:
  assumes "tame E c s" and "\<And>s'. tame E c s' \<Longrightarrow> Q s'"
  shows "okp Q (ESC_eoeprocess E s)" "okp Q (ESC_eoeprocess_tx E s)"
  using assms(1) by (auto simp: ESC_eoeprocess_def ESC_eoeprocess_tx_def intro!: keep keep_get assms(2) tame_idle)

end
