(* ===== verification/Slv_Inv.thy ===== *)
theory Slv_Inv
  imports Mbx_Tame
begin

text \<open>
  The invariant of the whole stack. The mailbox pool is consistent and, while the mailboxes
  run, they have a valid configuration: kept by every handler of the AL state machine, by
  every mailbox service, and so by every way the application drives the stack. Together with
  the invariant of the AL state machine it holds along every run of the slave.
\<close>

section \<open>The invariant\<close>

text \<open>\<open>ESC_config\<close> was called: the mailbox configurations are those of \<open>options.h\<close>.\<close>

definition mb_configured :: "'w env \<Rightarrow> 'w sys \<Rightarrow> bool" where
  "mb_configured E s \<longleftrightarrow>
     length (MBX s) = MBXBUFFERS (opt E) * max (MBXSIZE (opt E)) (MBXSIZEBOOT (opt E)) \<and>
     unat (cfg_sml (fst (mb s))) = MBXSIZE (opt E) \<and> unat (cfg_sml (snd (mb s))) = MBXSIZE (opt E) \<and>
     unat (cfg_sml (fst (mbboot s))) = MBXSIZEBOOT (opt E) \<and>
     unat (cfg_sml (snd (mbboot s))) = MBXSIZEBOOT (opt E)"

definition stack_ok :: "'w env \<Rightarrow> 'w sys \<Rightarrow> bool" where
  "stack_ok E s \<longleftrightarrow> valid_opts (opt E) \<and> pool_inv E s \<and> mb_configured E s \<and>
     (MBXrun s \<noteq> 0 \<longrightarrow> mbx_ready E s)"

text \<open>The callbacks of the state machine keep it.\<close>

definition lawful :: "'w env \<Rightarrow> ('w sys \<Rightarrow> 'w sys) \<Rightarrow> bool" where
  "lawful E h \<longleftrightarrow> (\<forall>s. stack_ok E s \<longrightarrow> stack_ok E (h s))"

definition fsm_hooks :: "'w env \<Rightarrow> bool" where
  "fsm_hooks E \<longleftrightarrow>
     (\<forall>h p. pre_state_change_hook E = Some h \<longrightarrow> lawful E (\<lambda>s. snd (h p s))) \<and>
     (\<forall>h p. post_state_change_hook E = Some h \<longrightarrow> lawful E (\<lambda>s. snd (h p s))) \<and>
     (\<forall>h. safe_state_override E = Some h \<longrightarrow> lawful E h) \<and>
     (\<forall>h. esc_check_dc_handler E = Some h \<longrightarrow> lawful E (\<lambda>s. snd (h s))) \<and>
     (\<forall>h. get_device_id E = Some h \<longrightarrow> lawful E (\<lambda>s. snd (snd (h s)))) \<and>
     (\<forall>h m. esc_hw_interrupt_enable E = Some h \<longrightarrow> lawful E (h m)) \<and>
     (\<forall>h m. esc_hw_interrupt_disable E = Some h \<longrightarrow> lawful E (h m))"

definition slv_inv :: "'w env \<Rightarrow> 'w sys \<Rightarrow> bool" where
  "slv_inv E s \<longleftrightarrow> stack_ok E s \<and> calm_hooks E \<and> fsm_hooks E"

lemma slv_inv_running: "slv_inv E s \<Longrightarrow> MBXrun s \<noteq> 0 \<Longrightarrow> mbx_inv E s"
  by (simp add: slv_inv_def stack_ok_def mbx_inv_def)

subsection \<open>Services keep it\<close>

lemma slv_inv_tame: "slv_inv E s \<Longrightarrow> tame E (cview s) s"
  by (simp add: slv_inv_def stack_ok_def tame_def valid_opts_def)

lemma cview_eqs:
  assumes "cview s' = cview s"
  shows "MBXrun s' = MBXrun s" "length (MBX s') = length (MBX s)" "activembxsize s' = activembxsize s"
    "activemb0 s' = activemb0 s" "activemb1 s' = activemb1 s" "mb s' = mb s" "mbboot s' = mbboot s"
    "al_view s' = al_view s"
  using assms by (simp_all add: cview_def al_view_def)

lemma tame_slv_inv:
  assumes "slv_inv E s" and "tame E (cview s) s'" shows "slv_inv E s'"
proof -
  have c: "cview s' = cview s" and p: "pool_inv E s'" using assms(2) by (simp_all add: tame_def)
  show ?thesis
    using assms(1) p cview_eqs [OF c]
    by (simp add: slv_inv_def stack_ok_def mb_configured_def mbx_ready_def)
qed

subsection \<open>The state machine keeps it\<close>

named_theorems stk \<open>rules: okp Q (operation), for the invariant of the stack\<close>

lemma slv_inv_upd [simp]:
  "slv_inv E (s\<lparr>world := w\<rparr>) = slv_inv E s" "slv_inv E (s\<lparr>ALevent := e\<rparr>) = slv_inv E s"
  "slv_inv E (s\<lparr>SM := sm\<rparr>) = slv_inv E s" "slv_inv E (s\<lparr>ALerror := a\<rparr>) = slv_inv E s"
  "slv_inv E (s\<lparr>ALstatus := a\<rparr>) = slv_inv E s" "slv_inv E (s\<lparr>ALcontrol := a\<rparr>) = slv_inv E s"
  "slv_inv E (s\<lparr>App_state := v\<rparr>) = slv_inv E s" "slv_inv E (s\<lparr>op_pending := v\<rparr>) = slv_inv E s"
  "slv_inv E (s\<lparr>SMtestresult := v\<rparr>) = slv_inv E s" "slv_inv E (s\<lparr>address_v := a\<rparr>) = slv_inv E s"
  "slv_inv E (s\<lparr>sm2mappings := i\<rparr>) = slv_inv E s" "slv_inv E (s\<lparr>sm3mappings := i\<rparr>) = slv_inv E s"
  "slv_inv E (s\<lparr>SMmap2 := ms\<rparr>) = slv_inv E s" "slv_inv E (s\<lparr>SMmap3 := ms\<rparr>) = slv_inv E s"
  "slv_inv E (s\<lparr>ESC_SM2_sml := a\<rparr>) = slv_inv E s" "slv_inv E (s\<lparr>ESC_SM3_sml := a\<rparr>) = slv_inv E s"
  "slv_inv E (s\<lparr>dcsync := v\<rparr>) = slv_inv E s" "slv_inv E (s\<lparr>op_seen_sync0 := v\<rparr>) = slv_inv E s"
  "slv_inv E (s\<lparr>op_seen_sm := v\<rparr>) = slv_inv E s" "slv_inv E (s\<lparr>op_pending_ns := n\<rparr>) = slv_inv E s"
  "slv_inv E (s\<lparr>op_valid_ns := n\<rparr>) = slv_inv E s" "slv_inv E (s\<lparr>synccounter := i\<rparr>) = slv_inv E s"
  "slv_inv E (s\<lparr>smeventmissed := a\<rparr>) = slv_inv E s" "slv_inv E (s\<lparr>syncerror := v\<rparr>) = slv_inv E s"
  "slv_inv E (s\<lparr>sm_event_seen := v\<rparr>) = slv_inv E s" "slv_inv E (s\<lparr>toggle := v\<rparr>) = slv_inv E s"
  "slv_inv E (s\<lparr>DLstatus := a\<rparr>) = slv_inv E s"
  by (simp_all add: slv_inv_def stack_ok_def mb_configured_def pool_inv_def mbx_ready_def)

lemma slv_inv_off: "slv_inv E s \<Longrightarrow> slv_inv E (s\<lparr>MBXrun := 0\<rparr>)"
  by (simp add: slv_inv_def stack_ok_def mb_configured_def pool_inv_def mbx_ready_def)

lemma lawfulD: "lawful E h \<Longrightarrow> slv_inv E s \<Longrightarrow> slv_inv E (h s)"
  by (simp add: lawful_def slv_inv_def)

lemma stk_ESC_read [stk]:
  "slv_inv E s \<Longrightarrow> (\<And>f s'. slv_inv E s' \<Longrightarrow> Q (f, s')) \<Longrightarrow> okp Q (ESC_read E a n s)"
  by (simp add: ESC_read_def case_prod_beta)

lemma stk_ESC_write [stk]:
  "slv_inv E s \<Longrightarrow> (\<And>s'. slv_inv E s' \<Longrightarrow> Q s') \<Longrightarrow> okp Q (ESC_write E a bs s)"
  by (simp add: ESC_write_def case_prod_beta)

text \<open>Register accesses touch nothing that either invariant is about.\<close>

lemma keep_reg1 [keep]:
  assumes "tame E c s" and "\<And>s'. tame E c s' \<Longrightarrow> MBXcontrol s' = MBXcontrol s \<Longrightarrow> Q s'"
  shows "okp Q (ESC_ALerror E err s)" "okp Q (ESC_SMack E n s)"
    "okp Q (ESC_SMstatus E n s)" "okp Q (ESC_SMwritepdi E n s)" "okp Q (ESC_SMreadpdi E n s)"
    "okp Q (ESC_ALeventmaskwrite E m s)"
  using assms(1) by (auto simp: ESC_ALerror_def ESC_SMack_def ESC_SMstatus_def ESC_SMwritepdi_def
      ESC_SMreadpdi_def ESC_ALeventmaskwrite_def intro!: keep assms(2))

lemma keep_reg2 [keep]:
  assumes "tame E c s" and "\<And>r s'. tame E c s' \<Longrightarrow> MBXcontrol s' = MBXcontrol s \<Longrightarrow> Q (r, s')"
  shows "okp Q (ESC_ALeventread E s)" "okp Q (ESC_ALeventmaskread E s)"
  using assms(1) by (auto simp: ESC_ALeventread_def ESC_ALeventmaskread_def intro!: keep assms(2))

lemma keep_reg3 [keep]:
  assumes "tame E c s" and "\<And>r s'. tame E c s' \<Longrightarrow> MBXcontrol s' = MBXcontrol s \<Longrightarrow> Q (r, s')"
  shows "okp Q (ESC_WDstatus E s)" "okp Q (ESC_SYNCactivation E s)"
  using assms(1) by (auto simp: ESC_WDstatus_def ESC_SYNCactivation_def intro!: keep assms(2))

lemma SM_wait_tame: "SM_wait E busy n s = Some s' \<Longrightarrow> tame E c s \<Longrightarrow> tame E c s' \<and> MBXcontrol s' = MBXcontrol s"
proof (induction E busy n s s' rule: SM_wait.raw_induct [rotated 1, consumes 1, case_names step])
  case (step w E busy n s s')
  have "okp (\<lambda>s'. tame E c s' \<and> MBXcontrol s' = MBXcontrol s) (ESC_SMreadpdi E n s)"
    using step.prems by (auto intro: keep)
  with step show ?case
    by (cases "ESC_SMreadpdi E n s") (auto split: if_splits)
qed

lemma keep_SM [keep]:
  assumes "tame E c s" and "\<And>s'. tame E c s' \<Longrightarrow> MBXcontrol s' = MBXcontrol s \<Longrightarrow> Q s'"
  shows "okp Q (SM_wait E busy n s)" "okp Q (ESC_SMenable E n s)" "okp Q (ESC_SMdisable E n s)"
proof -
  have w: "okp Q (SM_wait E b n s1)" if "tame E c s1" "MBXcontrol s1 = MBXcontrol s" for b s1
    using SM_wait_tame [OF _ that(1)] assms(2) that(2) by (cases "SM_wait E b n s1") auto
  from w assms(1) show "okp Q (SM_wait E busy n s)" by blast
  show "okp Q (ESC_SMenable E n s)" "okp Q (ESC_SMdisable E n s)"
    using assms(1) by (auto simp: ESC_SMenable_def ESC_SMdisable_def intro!: keep w)
qed

lemma keep_get_mb:
  "(\<And>x. Q x) \<Longrightarrow> okp Q (activemb0 s)" "(\<And>x. Q x) \<Longrightarrow> okp Q (activemb1 s)"
  by (rule okpI, assumption)+

lemma kview_SMtest [simp]: "kview (s\<lparr>SMtestresult := v\<rparr>) = kview s" "kview (s\<lparr>address_v := a\<rparr>) = kview s"
  by (simp_all add: kview_def cview_def al_view_def)

lemmas tame_SMtest [simp] = kview_SMtest [THEN tame_kview]

lemma keep_check [keep]:
  assumes "tame E c s" and "\<And>r s'. tame E c s' \<Longrightarrow> Q (r, s')"
  shows "okp Q (ESC_checkmbx E st s)" "okp Q (ESC_checkSM23 E st s)"
  using assms(1) by (auto simp: ESC_checkmbx_def ESC_checkSM23_def intro!: keep keep_get_mb assms(2))

lemma keep_address [keep]:
  assumes "tame E c s" and "\<And>s'. tame E c s' \<Longrightarrow> Q s'"
  shows "okp Q (ESC_address E s)"
  using assms(1) by (auto simp: ESC_address_def intro!: keep assms(2))

text \<open>From there to the rules of the invariant.\<close>

lemma stk_reg [stk]:
  assumes i: "slv_inv E s" and Q: "\<And>s'. slv_inv E s' \<Longrightarrow> Q s'"
  shows "okp Q (ESC_ALerror E err s)" "okp Q (ESC_SMack E n s)"
    "okp Q (ESC_SMstatus E n s)" "okp Q (ESC_SMwritepdi E n s)"
    "okp Q (ESC_address E s)" "okp Q (ESC_ALeventmaskwrite E m s)"
    "okp Q (ESC_SMenable E n s)" "okp Q (ESC_SMdisable E n s)"
  using slv_inv_tame [OF i] by (auto intro!: keep Q tame_slv_inv [OF i])

lemma stk_reg_value [stk]:
  assumes i: "slv_inv E s" and Q: "\<And>r s'. slv_inv E s' \<Longrightarrow> Q (r, s')"
  shows "okp Q (ESC_checkmbx E st s)" "okp Q (ESC_checkSM23 E st s)"
  using slv_inv_tame [OF i] by (auto intro!: keep Q tame_slv_inv [OF i])

lemma stk_event [stk]:
  assumes i: "slv_inv E s" and Q: "\<And>r s'. slv_inv E s' \<Longrightarrow> Q (r, s')"
  shows "okp Q (ESC_ALeventread E s)" "okp Q (ESC_ALeventmaskread E s)"
  using slv_inv_tame [OF i] by (auto intro!: keep Q tame_slv_inv [OF i])

lemma stk_byte [stk]:
  assumes i: "slv_inv E s" and Q: "\<And>r s'. slv_inv E s' \<Longrightarrow> Q (r, s')"
  shows "okp Q (ESC_WDstatus E s)" "okp Q (ESC_SYNCactivation E s)"
  using slv_inv_tame [OF i] by (auto intro!: keep Q tame_slv_inv [OF i])

lemma stk_ESC_ALstatus [stk]:
  "slv_inv E s \<Longrightarrow> (\<And>s'. slv_inv E s' \<Longrightarrow> Q s') \<Longrightarrow> okp Q (ESC_ALstatus E st s)"
  by (auto simp: ESC_ALstatus_def intro!: stk)

subsection \<open>The handlers\<close>

lemma slv_inv_mb:
  assumes i: "slv_inv E s"
  shows "slv_inv E (s\<lparr>activembxsize := MBXSIZE (opt E), activemb0 := Some (fst (mb s)), activemb1 := Some (snd (mb s))\<rparr>)"
    "mbx_ready E (s\<lparr>activembxsize := MBXSIZE (opt E), activemb0 := Some (fst (mb s)), activemb1 := Some (snd (mb s))\<rparr>)"
    "slv_inv E (s\<lparr>activembxsize := MBXSIZEBOOT (opt E), activemb0 := Some (fst (mbboot s)), activemb1 := Some (snd (mbboot s))\<rparr>)"
    "mbx_ready E (s\<lparr>activembxsize := MBXSIZEBOOT (opt E), activemb0 := Some (fst (mbboot s)), activemb1 := Some (snd (mbboot s))\<rparr>)"
  using i by (auto simp: slv_inv_def stack_ok_def mb_configured_def mbx_ready_def pool_inv_def valid_opts_def)

lemma slv_inv_start:
  assumes i: "slv_inv E s" "mbx_ready E s" and t: "tame E (cview s) s'"
  shows "slv_inv E (s'\<lparr>MBXrun := v\<rparr>)"
  using tame_slv_inv [OF i(1) t] i(2) cview_eqs [of s' s] t
  by (simp add: slv_inv_def stack_ok_def mb_configured_def mbx_ready_def pool_inv_def tame_def)

lemma stk_startmbx [stk]:
  assumes i: "slv_inv E s" and Q: "\<And>r s'. slv_inv E s' \<Longrightarrow> Q (r, s')"
  shows "okp Q (ESC_startmbx E st s)" "okp Q (ESC_startmbxboot E st s)"
proof -
  note t = slv_inv_tame [OF slv_inv_mb(1) [OF i]] slv_inv_tame [OF slv_inv_mb(3) [OF i]]
  note fin = slv_inv_start [OF slv_inv_mb(1,2) [OF i]] slv_inv_start [OF slv_inv_mb(3,4) [OF i]]
  show "okp Q (ESC_startmbx E st s)"
    using t(1) by (auto simp: ESC_startmbx_def intro!: keep Q fin(1))
  show "okp Q (ESC_startmbxboot E st s)"
    using t(2) by (auto simp: ESC_startmbxboot_def intro!: keep Q fin(2))
qed

lemma stk_stopmbx [stk]:
  assumes i: "slv_inv E s" and Q: "\<And>s'. slv_inv E s' \<Longrightarrow> Q s'"
  shows "okp Q (ESC_stopmbx E s)"
proof -
  have stop: "slv_inv E (s1\<lparr>MBXcontrol := c, mbxoutpost := 0, mbxbackup := 0, xoe := 0, mbxfree := 1, toggle := 0,
               mbxincnt := 0, segmented := 0, frags := 0, fragsleft := 0, txcue := 0,
               index_v := 0, subindex_v := 0, flags_v := 0, sdo_held_active := 0\<rparr>)"
    if "slv_inv E s1" "\<And>n. n < MBXBUFFERS (opt E) \<Longrightarrow> c n = MBXstate_idle" for s1 :: "'a sys" and c
  proof -
    have "pool_ok (MBXBUFFERS (opt E)) c 0 0 0"
      using that by (auto simp: pool_ok_def queued_def slv_inv_def stack_ok_def valid_opts_def)
    with that(1) show ?thesis
      by (simp add: slv_inv_def stack_ok_def mb_configured_def mbx_ready_def pool_inv_def)
  qed
  show ?thesis
    using slv_inv_off [OF i]
    by (auto simp: ESC_stopmbx_def ESC_SDO_cancel_def simp del: fun_upd_apply intro!: stk Q stop)
qed

lemma stk_APP_safe_state: "slv_inv E s \<Longrightarrow> slv_inv E (APP_safe_state E s)"
  by (auto simp: APP_safe_state_def slv_inv_def fsm_hooks_def lawful_def split: option.split)

lemma stk_run_hook:
  assumes "slv_inv E s"
  shows "slv_inv E (snd (snd (run_hook (pre_state_change_hook E) as an s)))"
    "slv_inv E (snd (snd (run_hook (post_state_change_hook E) as an s)))"
  using assms
  by (auto simp: run_hook_def slv_inv_def fsm_hooks_def lawful_def case_prod_beta split: option.split)

lemma stk_alerror [stk]:
  "slv_inv E s \<Longrightarrow> (\<And>s'. slv_inv E s' \<Longrightarrow> Q s') \<Longrightarrow> okp Q (sm_alerror E s)"
  "slv_inv E s \<Longrightarrow> (\<And>s'. slv_inv E s' \<Longrightarrow> Q s') \<Longrightarrow> okp Q (ack_all E s)"
  by (auto simp: sm_alerror_def ack_all_def intro!: stk)

lemma stk_stop [stk]:
  assumes i: "slv_inv E s" and Q: "\<And>s'. slv_inv E s' \<Longrightarrow> Q s'"
  shows "okp Q (ESC_stopinput E s)" "okp Q (ESC_stopoutput E s)"
proof -
  show "okp Q (ESC_stopinput E s)"
  proof (cases "esc_hw_interrupt_disable E")
    case None
    with i show ?thesis by (auto simp: ESC_stopinput_def intro!: stk Q)
  next
    case (Some h)
    with i have h: "slv_inv E s1 \<Longrightarrow> slv_inv E (h m s1)" for m s1
      by (auto simp: slv_inv_def fsm_hooks_def lawful_def)
    with i Some show ?thesis by (auto simp: ESC_stopinput_def intro!: stk Q h)
  qed
  show "okp Q (ESC_stopoutput E s)"
    using i by (auto simp: ESC_stopoutput_def intro!: stk Q stk_APP_safe_state)
qed

lemma stk_checkDC [stk]:
  assumes i: "slv_inv E s" and Q: "\<And>r s'. slv_inv E s' \<Longrightarrow> Q (r, s')"
  shows "okp Q (ESC_checkDC E s)"
proof -
  show ?thesis
  proof (cases "esc_check_dc_handler E")
    case None
    with i show ?thesis by (auto simp: ESC_checkDC_def intro!: stk Q)
  next
    case (Some h)
    then have h: "Q (h s1)" if "slv_inv E s1" for s1
      using Q [of "snd (h s1)" "fst (h s1)"] that by (auto simp: slv_inv_def fsm_hooks_def lawful_def)
    with i Some show ?thesis by (auto simp: ESC_checkDC_def intro!: stk Q h)
  qed
qed

lemma stk_start [stk]:
  assumes i: "slv_inv E s" and Q: "\<And>r s'. slv_inv E s' \<Longrightarrow> Q (r, s')"
  shows "okp Q (ESC_startinput E st s)" "okp Q (ESC_startoutput E st s)"
proof -
  have dc: "okp Q (startinput_dc E st s1)" if i: "slv_inv E s1" for s1 st
  proof (cases "esc_hw_interrupt_enable E")
    case None
    with i show ?thesis by (auto simp: startinput_dc_def intro!: stk Q)
  next
    case (Some h)
    with i have h: "slv_inv E s1 \<Longrightarrow> slv_inv E (h m s1)" for m s1
      by (auto simp: slv_inv_def fsm_hooks_def lawful_def)
    with i Some show ?thesis by (auto simp: startinput_dc_def intro!: stk Q h)
  qed
  show "okp Q (ESC_startinput E st s)"
    using i by (auto simp: ESC_startinput_def startinput_sm_def intro!: stk Q dc)
  show "okp Q (ESC_startoutput E st s)"
    using i by (auto simp: ESC_startoutput_def intro!: stk Q)
qed

lemma stk_ESC_ALstatusgotoerror [stk]:
  assumes i: "slv_inv E s" and Q: "\<And>s'. slv_inv E s' \<Longrightarrow> Q s'"
  shows "okp Q (ESC_ALstatusgotoerror E st err s)"
proof -
  have gen: "okp Q (case x of (as, an, s) \<Rightarrow> do {
          s \<leftarrow> (if App_state s AND APPSTATE_OUTPUT > 0 then ESC_stopoutput E s else Some s);
          let s = s\<lparr>op_pending := 0\<rparr>;
          s \<leftarrow> ESC_ALerror E err s;
          s \<leftarrow> ESC_ALstatus E st s;
          (as, an, s) \<leftarrow> Some (run_hook (post_state_change_hook E) as st s);
          Some s })" if "slv_inv E (snd (snd x))" for x
    using that by (cases x) (auto simp: case_prod_beta intro!: stk Q stk_run_hook(2))
  show ?thesis
    using gen [OF stk_run_hook(1) [OF i]] Q [OF i] by (simp add: ESC_ALstatusgotoerror_def del: okp_bind okp_prod)
qed

lemma stk_sm_act_checked [stk]:
  assumes i: "slv_inv E s" and Q: "\<And>s'. slv_inv E s' \<Longrightarrow> Q s'"
  shows "okp Q (sm_act_checked E ac an ax ax23 s)"
  using i by (auto simp: sm_act_checked_def intro!: stk Q slv_inv_off)

lemma stk_ESC_sm_act_event [stk]:
  assumes i: "slv_inv E s" and Q: "\<And>s'. slv_inv E s' \<Longrightarrow> Q s'"
  shows "okp Q (ESC_sm_act_event E s)"
  using i by (auto simp: ESC_sm_act_event_def intro!: stk Q)

lemma stk_to_safeop [stk]:
  assumes i: "slv_inv E s" and Q: "\<And>r s'. slv_inv E s' \<Longrightarrow> Q (r, s')"
  shows "okp Q (to_safeop E ac s)"
proof -
  have step: "okp Q' (sizeOfPDO E j nm maps mx s1)" if "\<And>x. Q' x" for Q' j nm maps mx and s1 :: "'a sys"
    using that by (rule okpI)
  show ?thesis
    using i by (auto simp: to_safeop_def intro!: stk Q step)
qed

lemma stk_leave_op [stk]:
  assumes i: "slv_inv E s" and Q: "\<And>s'. slv_inv E s' \<Longrightarrow> Q s'"
  shows "okp Q (leave_op E s)"
  using i by (auto simp: leave_op_def intro!: stk Q)

lemma stk_al_switch [stk]:
  assumes i: "slv_inv E s" and Q: "\<And>r s'. slv_inv E s' \<Longrightarrow> Q (r, s')"
  shows "okp Q (al_switch E as ac an s)"
  using i by (simp add: al_switch_def) (intro conjI impI; intro stk Q; simp?; intro stk Q; simp)

lemma stk_id_request [stk]:
  assumes i: "slv_inv E s" and Q: "\<And>b s'. slv_inv E s' \<Longrightarrow> Q (b, s')"
  shows "okp Q (ESC_check_id_request E control an s)"
  using i by (auto simp: ESC_check_id_request_def intro!: stk Q)

lemma stk_device_id [stk]:
  assumes i: "slv_inv E s" and Q: "\<And>b s'. slv_inv E s' \<Longrightarrow> Q (b, s')"
  shows "okp Q (ESC_load_device_id E s)"
proof (cases "get_device_id E")
  case None
  with i show ?thesis by (auto simp: ESC_load_device_id_def intro!: stk Q)
next
  case (Some h)
  with i have "slv_inv E (snd (snd (h s)))" by (auto simp: slv_inv_def fsm_hooks_def lawful_def)
  with Some show ?thesis by (auto simp: ESC_load_device_id_def case_prod_beta intro!: stk Q)
qed

lemma stk_al_finish [stk]:
  assumes i: "slv_inv E s" and Q: "\<And>s'. slv_inv E s' \<Longrightarrow> Q s'"
  shows "okp Q (al_finish E as an s)"
proof -
  have gen: "okp Q (case x of (as, an, s) \<Rightarrow> do {
      s \<leftarrow> (if an AND ESCerror = 0 \<and> ALerror s \<noteq> 0 then ESC_ALerror E ALERR_NONE s else Some s);
      (requested, s) \<leftarrow> ESC_check_id_request E (ALcontrol s) an s;
      (an, s) \<leftarrow> (if requested then do { (b, s) \<leftarrow> ESC_load_device_id E s; Some (an OR b, s) }
                 else Some (an, s));
      ESC_ALstatus E an s })" if "slv_inv E (snd (snd x))" for x
    using that by (cases x) (auto intro!: stk Q)
  show ?thesis
    using gen [OF stk_run_hook(2) [OF i, of as an]] by (simp add: al_finish_def del: okp_bind okp_prod)
qed

lemma stk_al_request [stk]:
  assumes i: "slv_inv E s" and Q: "\<And>s'. slv_inv E s' \<Longrightarrow> Q s'"
  shows "okp Q (al_request E s)"
proof -
  have gen: "okp Q (case x of (as, an, s) \<Rightarrow> do { (an, s) \<leftarrow> al_switch E as ac an s; al_finish E as an s })"
    if "slv_inv E (snd (snd x))" for x ac
    using that by (cases x) (auto intro!: stk Q)
  have run: "okp Q (do { (as, an, s) \<leftarrow> Some (run_hook (pre_state_change_hook E) as an s1);
      (an, s) \<leftarrow> al_switch E as ac an s; al_finish E as an s })" if "slv_inv E s1" for s1 as an ac
    using gen [OF stk_run_hook(1) [OF that, of as an], of ac] by (simp del: okp_bind okp_prod)
  have "slv_inv E (if op_pending s \<noteq> 0 then s\<lparr>op_pending := 0\<rparr> else s)" using i by simp
  from run [OF this] show ?thesis
    unfolding al_request_def using Q [OF i]
    by (cases "mask_ack (to_u8 (ALcontrol s) AND ESCREG_AL_STATEMASK) (to_u8 (ALstatus s) AND ESCREG_AL_STATEMASK)")
      (simp add: Let_def del: okp_bind okp_prod)
qed

lemma stk_ESC_state [stk]:
  assumes i: "slv_inv E s" and Q: "\<And>s'. slv_inv E s' \<Longrightarrow> Q s'"
  shows "okp Q (ESC_state E s)"
  using i by (auto simp: ESC_state_def intro!: stk Q)

lemma stk_op_pending_step [stk]:
  assumes i: "slv_inv E s" and Q: "\<And>s'. slv_inv E s' \<Longrightarrow> Q s'"
  shows "okp Q (ESC_op_pending_step E sync0 ev ns s)"
proof -
  have gen: "okp Q (case x of (as, an, s) \<Rightarrow> do {
      s \<leftarrow> (if an AND ESCerror = 0 \<and> ALerror s \<noteq> 0 then ESC_ALerror E ALERR_NONE s else Some s);
      ESC_ALstatus E an s })" if "slv_inv E (snd (snd x))" for x
    using that by (cases x) (auto intro!: stk Q)
  have fin: "slv_inv E s1 \<Longrightarrow> okp Q (do {
      (as, an, s) \<leftarrow> Some (run_hook (post_state_change_hook E) SAFEOP_TO_OP ESCop s1);
      s \<leftarrow> (if an AND ESCerror = 0 \<and> ALerror s \<noteq> 0 then ESC_ALerror E ALERR_NONE s else Some s);
      ESC_ALstatus E an s })" for s1
    using gen [OF stk_run_hook(2)] by (simp del: okp_bind okp_prod)
  have start: "okp Q (do { (r, s) \<leftarrow> ESC_startoutput E ESCop s1;
      (as, an, s) \<leftarrow> Some (run_hook (post_state_change_hook E) SAFEOP_TO_OP ESCop s);
      s \<leftarrow> (if an AND ESCerror = 0 \<and> ALerror s \<noteq> 0 then ESC_ALerror E ALERR_NONE s else Some s);
      ESC_ALstatus E an s })" if "slv_inv E s1" for s1
    by (rule okp_bindI [of "\<lambda>x. slv_inv E (snd x)"])
      (use that fin in \<open>auto simp del: okp_bind okp_prod intro!: stk\<close>)
  have "slv_inv E (op_account sync0 ev ns s)" using i by (simp add: op_account_def)
  then show ?thesis
    using i start [of "(op_account sync0 ev ns s)\<lparr>op_pending := 0\<rparr>"]
    by (auto simp: ESC_op_pending_step_def op_decide_def Q simp del: okp_bind) (auto intro!: stk Q)
qed

end
