(* ===== verification/Slv_Run.thy ===== *)
theory Slv_Run
  imports Slv_Inv Al_Spec
begin

text \<open>
  The whole slave: the invariant of the AL state machine and of the mailbox pool together, kept
  by every function through which the application and the interrupt drive the stack, and so
  along every run.
\<close>

section \<open>The invariant of the slave\<close>

definition sys_inv :: "'w env \<Rightarrow> 'w sys \<Rightarrow> bool" where
  "sys_inv E s \<longleftrightarrow> al_env E \<and> slv_inv E s \<and> al_inv E s"

named_theorems run \<open>rules: okp Q (operation), for the invariant of the slave\<close>

lemma al_inv_view: "al_view s' = al_view s \<Longrightarrow> al_inv E s' = al_inv E s"
  by (simp add: al_inv_def view_defs)

lemma sys_tame: "sys_inv E s \<Longrightarrow> tame E (cview s) s' \<Longrightarrow> sys_inv E s'"
  using al_inv_view [OF cview_eqs(8), of s' s E]
  by (auto simp: sys_inv_def tame_def intro: tame_slv_inv)

lemma tame_sys: "sys_inv E s \<Longrightarrow> tame E (cview s) s"
  by (simp add: sys_inv_def slv_inv_tame)

lemma sys_kview: "kview s' = kview s \<Longrightarrow> sys_inv E s' = sys_inv E s"
proof -
  assume k: "kview s' = kview s"
  then have "cview s' = cview s" by (simp add: kview_def)
  from sys_tame [of E s s'] sys_tame [of E s' s] tame_sys [of E s] tame_sys [of E s'] tame_kview [OF k] this
  show ?thesis by auto
qed

lemmas sys_upd [simp] = kview_upd [THEN sys_kview] kview_upd2 [THEN sys_kview] kview_MBX [THEN sys_kview]

lemma sys_waiting [simp]:
  "sys_inv E (s\<lparr>dcsync := v\<rparr>) = sys_inv E s"
  by (rule sys_kview) (simp add: kview_def cview_def al_view_def)

section \<open>Mailbox services\<close>

text \<open>
  What the loops ask of a service: it may use the mailboxes and the object variables, but
  leaves the AL state and the configuration alone and keeps the pool consistent.
\<close>

locale mbx_service =
  fixes E :: "'w env" and serve :: "'w sys \<Rightarrow> 'w sys option"
  assumes serves: "tame E c s \<Longrightarrow> okp (tame E c) (serve s)"
begin

lemma served: "sys_inv E s \<Longrightarrow> (\<And>s'. sys_inv E s' \<Longrightarrow> Q s') \<Longrightarrow> okp Q (serve s)"
  using okp_mono [OF serves [OF tame_sys]] sys_tame by blast

lemma same_state: "sys_inv E s \<Longrightarrow> serve s = Some s' \<Longrightarrow> al_view s' = al_view s"
  using okpD [OF serves [OF tame_sys]] by (auto simp: tame_def dest: cview_eqs(8))

lemma optional: "tame E c s \<Longrightarrow> okp (tame E c) (if b then serve s else Some s)"
  using serves by simp

lemma before:
  assumes "mbx_service E rest"
  shows "mbx_service E (\<lambda>s. do { s \<leftarrow> (if b then serve s else Some s); rest s })"
  by standard (rule okp_bindI, erule optional, rule mbx_service.serves [OF assms])

end

interpretation coe: mbx_service E "ESC_coeprocess E" for E :: "'w env"
  by standard (auto intro: keep)
interpretation foe: mbx_service E "ESC_foeprocess E" for E :: "'w env"
  by standard (auto intro: keep)
interpretation eoe: mbx_service E "ESC_eoeprocess E" for E :: "'w env"
  by standard (auto intro: keep)
interpretation eoe_tx: mbx_service E "ESC_eoeprocess_tx E" for E :: "'w env"
  by standard (auto intro: keep)
interpretation xoe: mbx_service E "ESC_xoeprocess E" for E :: "'w env"
  by standard (auto intro: keep)

text \<open>The four of them, in the order of the loops, are one service again.\<close>

interpretation services: mbx_service E "mbx_services E" for E :: "'w env"
  using coe.before [of E _ True, OF foe.before [OF eoe.before [OF xoe.mbx_service_axioms]]]
  by (simp add: mbx_services_def [abs_def])

interpretation eep: mbx_service E "eep_handler E" for E :: "'w env"
proof
  fix c and s :: "'w sys"
  assume t: "tame E c s"
  show "okp (tame E c) (eep_handler E s)"
  proof (cases "esc_hw_eep_handler E")
    case None
    with t show ?thesis by (simp add: eep_handler_def)
  next
    case (Some h)
    then have "kview s' = kview s" if "h s = Some s'" for s'
      using tame_hooks [OF t] that by (simp add: calm_hooks_def)
    then have "tame E c s'" if "h s = Some s'" for s' using tame_cong t that by blast
    with Some show ?thesis by (cases "h s") (simp_all add: eep_handler_def)
  qed
qed

lemmas run_services [run] = services.served eoe_tx.served eep.served

lemma okp_any: "(\<And>x. okp Q (f x)) \<Longrightarrow> okp Q (Option.bind m f)"
  by (rule okp_bindI [OF okpI])

section \<open>Handlers of the AL state machine\<close>

lemma run_both:
  assumes "okp (slv_inv E) m" and "ok (al_inv E) m" and "al_env E"
    and "\<And>s'. sys_inv E s' \<Longrightarrow> Q s'"
  shows "okp Q m"
  using assms by (cases m) (auto simp: sys_inv_def)

lemma run_al [run]:
  assumes i: "sys_inv E s" and Q: "\<And>s'. sys_inv E s' \<Longrightarrow> Q s'"
  shows "okp Q (ESC_state E s)" "okp Q (ESC_sm_act_event E s)"
    "okp Q (ESC_ALstatusgotoerror E st err s)" "okp Q (ESC_op_pending_step E sync0 ev ns s)"
proof -
  have e: "al_env E" and v: "slv_inv E s" and a: "al_inv E s" using i by (simp_all add: sys_inv_def)
  show "okp Q (ESC_state E s)" "okp Q (ESC_sm_act_event E s)"
    "okp Q (ESC_ALstatusgotoerror E st err s)" "okp Q (ESC_op_pending_step E sync0 ev ns s)"
    by (rule run_both [OF _ _ e Q]; (assumption | rule v a e ESC_state_inv ESC_sm_act_event_inv
      ESC_ALstatusgotoerror_inv ESC_op_pending_step_inv stk)+)+
qed

section \<open>Registers\<close>

lemma run_reg [run]:
  assumes i: "sys_inv E s" and Q: "\<And>x s'. sys_inv E s' \<Longrightarrow> Q (x, s')"
  shows "okp Q (ESC_read E a n s)"
  by (rule keep_ESC_read [OF tame_sys [OF i]]) (intro Q sys_tame [OF i])

lemma run_reg32 [run]:
  assumes i: "sys_inv E s" and Q: "\<And>x s'. sys_inv E s' \<Longrightarrow> Q (x, s')"
  shows "okp Q (ESC_ALeventread E s)" "okp Q (ESC_ALeventmaskread E s)"
  using keep_reg2 [OF tame_sys [OF i], of Q] Q sys_tame [OF i] by blast+

lemma run_reg8 [run]:
  assumes i: "sys_inv E s" and Q: "\<And>x s'. sys_inv E s' \<Longrightarrow> Q (x, s')"
  shows "okp Q (ESC_WDstatus E s)"
  using keep_reg3 [OF tame_sys [OF i], of Q] Q sys_tame [OF i] by blast

lemma run_write [run]:
  assumes i: "sys_inv E s" and Q: "\<And>s'. sys_inv E s' \<Longrightarrow> Q s'"
  shows "okp Q (ESC_write E a bs s)" "okp Q (ESC_ALeventmaskwrite E m s)" "okp Q (mem_put p bs s)"
  using tame_sys [OF i] by (auto intro!: keep Q sys_tame [OF i])

lemma run_polite:
  assumes "sys_inv E s" and "polite E h"
  shows "sys_inv E (h s)"
  using assms tame_sys [OF assms(1)]
  by (auto intro!: sys_tame [OF assms(1)] simp: tame_def polite_def)

lemma sys_hooks: "sys_inv E s \<Longrightarrow> calm_hooks E"
  by (simp add: sys_inv_def slv_inv_def)

section \<open>Process data\<close>

lemma run_unpack [run]:
  assumes i: "sys_inv E s" and Q: "\<And>s'. sys_inv E s' \<Longrightarrow> Q s'"
  shows "okp Q (COE_pdoUnpack E buf n maps s)"
proof -
  have set: "okp (sys_inv E) (COE_setValue d v s1)" if "sys_inv E s1" for d v s1
    using that by (auto simp: COE_setValue_def intro!: run keep_get split: option.split)
  have entry: "okp (sys_inv E) (unpack_entry E buf m s1)" if "sys_inv E s1" for m s1
    using that unfolding unpack_entry_def
    by (auto simp del: okp_bind intro!: okp_any set run split: option.split)
  have "sys_inv E s1 \<Longrightarrow> okp (sys_inv E) (unpack_entries E buf ms s1)" for ms s1
    by (induction ms arbitrary: s1) (auto intro: okp_mono [OF entry])
  from okp_mono [OF this [OF i] Q] show ?thesis by (simp add: COE_pdoUnpack_def)
qed

lemma run_txpdo [run]:
  assumes i: "sys_inv E s" and Q: "\<And>s'. sys_inv E s' \<Longrightarrow> Q s'"
  shows "okp Q (txpdo_write_sm3 E s)"
proof (cases "txpdo_override E")
  case None
  with i show ?thesis by (auto simp: txpdo_write_sm3_def intro!: run keep_get Q)
next
  case (Some h)
  with sys_hooks [OF i] have "polite E h" by (simp add: calm_hooks_def)
  from run_polite [OF i this] Some Q show ?thesis by (simp add: txpdo_write_sm3_def)
qed

lemma run_read_rxpdo [run]:
  assumes i: "sys_inv E s" and Q: "\<And>s'. sys_inv E s' \<Longrightarrow> Q s'"
  shows "okp Q (read_rxpdo E s)"
  using i by (auto simp: read_rxpdo_def intro!: run keep_get Q)

lemma run_rxpdo [run]:
  assumes i: "sys_inv E s" and Q: "\<And>s'. sys_inv E s' \<Longrightarrow> Q s'"
  shows "okp Q (rxpdo_read_sm2 E s)"
proof (cases "rxpdo_override E")
  case None
  with i show ?thesis by (auto simp: rxpdo_read_sm2_def intro!: run Q)
next
  case (Some h)
  with sys_hooks [OF i] have "polite E h" by (simp add: calm_hooks_def)
  from run_polite [OF i this] Some Q show ?thesis by (simp add: rxpdo_read_sm2_def)
qed

section \<open>One cycle of process data\<close>

lemma run_latch [run]:
  assumes i: "sys_inv E s" and Q: "\<And>s'. sys_inv E s' \<Longrightarrow> Q s'"
  shows "okp Q (hw_wd_latch E s)"
  using i by (auto simp: hw_wd_latch_def Let_def intro!: run Q)

lemma run_hw_watchdog [run]:
  assumes i: "sys_inv E s" and Q: "\<And>r s'. sys_inv E s' \<Longrightarrow> Q (r, s')"
  shows "okp Q (hw_watchdog_check E s)"
  using i by (auto simp: hw_watchdog_check_def intro!: run Q)

lemma run_sw_watchdog [run]:
  assumes i: "sys_inv E s" and Q: "\<And>s'. sys_inv E s' \<Longrightarrow> Q s'"
  shows "okp Q (sw_watchdog E s)"
  using i by (auto simp: sw_watchdog_def Let_def intro!: run Q)

lemma run_watchdog [run]:
  assumes i: "sys_inv E s" and Q: "\<And>s'. sys_inv E s' \<Longrightarrow> Q s'"
  shows "okp Q (dig_watchdog E s)"
  using i by (auto simp: dig_watchdog_def intro!: run Q)

lemma run_callbacks:
  assumes i: "sys_inv E s"
  shows "sys_inv E (cb_apply_rxpdo E s)" "sys_inv E (cb_update_txpdo E s)"
    "sys_inv E (case application_hook E of None \<Rightarrow> s | Some h \<Rightarrow> h s)"
proof -
  show "sys_inv E (cb_apply_rxpdo E s)" "sys_inv E (cb_update_txpdo E s)"
    using sys_hooks [OF i] by (simp_all add: calm_hooks_def run_polite [OF i])
  show "sys_inv E (case application_hook E of None \<Rightarrow> s | Some h \<Rightarrow> h s)"
    using sys_hooks [OF i] i run_polite [OF i] by (cases "application_hook E") (simp_all add: calm_hooks_def)
qed

lemma run_dig [run]:
  assumes i: "sys_inv E s" and Q: "\<And>s'. sys_inv E s' \<Longrightarrow> Q s'"
  shows "okp Q (dig_outputs E s)" "okp Q (dig_inputs E s)"
  using i run_callbacks [OF i] by (auto simp: dig_outputs_def dig_inputs_def intro!: run Q run_callbacks)

lemma run_DIG_process [run]:
  assumes i: "sys_inv E s" and Q: "\<And>s'. sys_inv E s' \<Longrightarrow> Q s'"
  shows "okp Q (DIG_process E flags s)"
  using i by (auto simp: DIG_process_def Let_def intro!: run Q run_callbacks(3))

section \<open>Serving the mailboxes\<close>

lemma frame_cview:
  assumes "mbx_frame s s'" and "length (MBX s') = length (MBX s)" shows "cview s' = cview s"
proof -
  have e: "mbx_rest s' = mbx_rest s" using assms(1) by (simp add: mbx_frame_def)
  have "al_view (mbx_rest s) = al_view s" "mb (mbx_rest s) = mb s" "mbboot (mbx_rest s) = mbboot s"
    "activembxsize (mbx_rest s) = activembxsize s" for s :: "'a sys"
    by (simp_all add: mbx_rest_def al_view_def)
  with e assms(2) show ?thesis by (metis cview_def)
qed

lemma run_mbxprocess [run]:
  assumes i: "sys_inv E s" and Q: "\<And>r s'. sys_inv E s' \<Longrightarrow> Q (r, s')"
  shows "okp Q (ESC_mbxprocess E s)"
proof (cases "MBXrun s = 0")
  case True
  with i Q show ?thesis by (simp add: ESC_mbxprocess_def)
next
  case False
  have m: "mbx_inv E s" and sm: "sm_follows E"
    using i False slv_inv_running by (auto simp: sys_inv_def al_env_def)
  have "sys_inv E s'" if "mbx_inv E s'" "mbx_frame s s'" for s'
  proof -
    have "activembxsize s' = activembxsize s" by (rule mbx_frameD [OF that(2)])
    with m that have "length (MBX s') = length (MBX s)"
      by (simp add: mbx_inv_def mbx_ready_def)
    from frame_cview [OF that(2) this] show ?thesis
      using that(1) tame_sys [OF i] by (intro sys_tame [OF i]) (simp add: tame_def mbx_inv_def)
  qed
  then show ?thesis by (auto intro!: Q okp_mono [OF ESC_mbxprocess_inv [OF m sm, THEN okp_ok]])
qed

lemma run_step [run]:
  assumes i: "sys_inv E s" and Q: "\<And>s'. sys_inv E s' \<Longrightarrow> Q s'"
  shows "okp Q (mbx_step E s)"
  using i by (auto simp: mbx_step_def intro!: run Q)

text \<open>The loops: rule induction over their runs.\<close>

lemma drain_inv: "mbx_drain E s = Some s' \<Longrightarrow> sys_inv E s \<Longrightarrow> sys_inv E s'"
proof (induction E s s' rule: mbx_drain.raw_induct [rotated 1, consumes 1, case_names step])
  case (step rec E s s')
  have again: "okp (sys_inv E) (rec E s1)" if "sys_inv E s1" for s1
    using step.IH [of E s1] that by (cases "rec E s1") auto
  have "okp (sys_inv E) (do { (r, s) \<leftarrow> ESC_mbxprocess E s;
     if r > 0 \<or> txcue s > 0 then do { s \<leftarrow> mbx_services E s; rec E s } else Some s })"
    using step.prems by (auto intro!: run again)
  from okpD [OF this step.hyps] show ?case .
qed

lemma run_drain [run]:
  assumes "sys_inv E s" and "\<And>s'. sys_inv E s' \<Longrightarrow> Q s'" shows "okp Q (mbx_drain E s)"
  using drain_inv assms by (cases "mbx_drain E s") auto

lemma run_pass [run]:
  assumes i: "sys_inv E s" and Q: "\<And>s'. sys_inv E s' \<Longrightarrow> Q s'"
  shows "okp Q (worker_pass E s)"
  using i by (auto simp: worker_pass_def intro!: run Q)

lemma worker_inv: "worker_loop E m s = Some s' \<Longrightarrow> sys_inv E s \<Longrightarrow> sys_inv E s'"
proof (induction E m s s' rule: worker_loop.raw_induct [rotated 1, consumes 1, case_names step])
  case (step rec E m s s')
  have again: "okp (sys_inv E) (rec E m s1)" if "sys_inv E s1" for s1
    using step.IH [of E m s1] that by (cases "rec E m s1") auto
  have "okp (sys_inv E) (do { s \<leftarrow> worker_pass E s; if ALevent s AND m \<noteq> 0 then rec E m s else Some s })"
    using step.prems by (auto intro!: run again)
  from okpD [OF this step.hyps] show ?case .
qed

section \<open>The entry points\<close>

lemma run_worker [run]:
  assumes i: "sys_inv E s" and Q: "\<And>s'. sys_inv E s' \<Longrightarrow> Q s'"
  shows "okp Q (ecat_slv_worker E m s)"
proof -
  have loop: "okp R (worker_loop E m s)" if "\<And>s'. sys_inv E s' \<Longrightarrow> R s'" for R
    using worker_inv [OF _ i] that by (cases "worker_loop E m s") auto
  show ?thesis by (auto simp: ecat_slv_worker_def intro!: loop run Q)
qed

lemma run_poll [run]:
  assumes i: "sys_inv E s" and Q: "\<And>s'. sys_inv E s' \<Longrightarrow> Q s'"
  shows "okp Q (ecat_slv_poll E s)" "okp Q (ecat_slv E s)"
proof -
  have poll: "okp R (ecat_slv_poll E s)" if "\<And>s'. sys_inv E s' \<Longrightarrow> R s'" for R
    using i by (auto simp: ecat_slv_poll_def intro!: run that)
  show "okp Q (ecat_slv_poll E s)" by (rule poll) (rule Q)
  show "okp Q (ecat_slv E s)" by (auto simp: ecat_slv_def intro!: poll run Q)
qed

lemma run_account [run]:
  assumes i: "sys_inv E s" and Q: "\<And>s'. sys_inv E s' \<Longrightarrow> Q s'"
  shows "okp Q (ecat_slv_sync0_account E ev s)"
  using i by (auto simp: ecat_slv_sync0_account_def Let_def intro!: run Q)

lemma run_dc [run]:
  assumes i: "sys_inv E s" and Q: "\<And>s'. sys_inv E s' \<Longrightarrow> Q s'"
  shows "okp Q (dc_process_data E ev s)" "okp Q (dc_sync0 E t ev rc s)" "okp Q (dc_acyclic E ev s)"
  using i by (auto simp: dc_process_data_def dc_sync0_def dc_acyclic_def Let_def intro!: run Q)

lemma run_cycle [run]:
  assumes i: "sys_inv E s" and Q: "\<And>s'. sys_inv E s' \<Longrightarrow> Q s'"
  shows "okp Q (dc_cycle E t rc s)"
  using i by (auto simp: dc_cycle_def Let_def intro!: run Q)

lemma run_run_dc [run]:
  assumes i: "sys_inv E s" and Q: "\<And>s'. sys_inv E s' \<Longrightarrow> Q s'"
  shows "okp Q (ecat_slv_run_dc E t s)"
proof -
  have w: "sys_inv E (snd (h t s))" if h: "esc_hw_wait E = Some h" for h
  proof -
    have "gentle (\<lambda>s. snd (h t s))" using sys_hooks [OF i] h by (simp add: calm_hooks_def)
    then show ?thesis using sys_kview [of "snd (h t s)" s E] i by (simp add: gentle_def)
  qed
  have step: "okp Q (case x of (rc, s) \<Rightarrow>
     if rc = 0 \<and> dcsync s > 0 \<and> outputs_on s then
       ESC_ALstatusgotoerror E (ESCsafeop OR ESCerror) ALERR_FATALSYNCERROR (s\<lparr>syncerror := 1\<rparr>)
     else if rc < 0 then Some s
     else do {
       s \<leftarrow> (if rc = 0 then ESC_op_pending_step E 0 0 t s else Some s);
       dc_cycle E t rc s
     })" if "sys_inv E (snd x)" for x :: "int \<times> 'a sys"
    using that by (cases x) (auto intro!: run Q)
  show ?thesis
    using step [of "(-1, s)"] step [OF w] i
    by (cases "esc_hw_wait E") (simp_all add: ecat_slv_run_dc_def Let_def del: okp_bind)
qed

section \<open>The slave from power-on\<close>

text \<open>The hooks of the initialisation.\<close>

definition boot_env :: "'w env \<Rightarrow> bool" where
  "boot_env E \<longleftrightarrow> valid_opts (opt E) \<and> al_env E \<and> calm_hooks E \<and> fsm_hooks E \<and>
     gentle (\<lambda>s. snd (hal_init E s)) \<and> (\<forall>h. set_defaults_hook E = Some h \<longrightarrow> gentle h)"

definition idle_inv :: "'w env \<Rightarrow> 'w sys \<Rightarrow> bool" where
  "idle_inv E s \<longleftrightarrow> boot_env E \<and> slv_inv E s \<and> maps_sized E s \<and> MBXrun s = 0 \<and> App_state s = 0"

lemma idle_sys: "idle_inv E s \<Longrightarrow> sys_inv E s"
  by (simp add: idle_inv_def sys_inv_def boot_env_def al_inv_def mb_set_def outputs_on_def)

lemma idle_tame: "idle_inv E s \<Longrightarrow> tame E (cview s) s' \<Longrightarrow> idle_inv E s'"
  using maps_sized_view [OF cview_eqs(8), of s' s E] cview_eqs(1,8) [of s' s] tame_slv_inv [of E s s']
  by (auto simp: idle_inv_def tame_def al_view_def)

lemma tame_idle_inv: "idle_inv E s \<Longrightarrow> tame E (cview s) s"
  by (simp add: idle_inv_def slv_inv_tame)

lemma idle_config:
  assumes "boot_env E" and "pool_inv E s" "maps_sized E s" "MBXrun s = 0" "App_state s = 0"
    and "length (MBX s) = MBXBUFFERS (opt E) * max (MBXSIZE (opt E)) (MBXSIZEBOOT (opt E))"
  shows "idle_inv E (ESC_config E cfg (s\<lparr>watchdog := v\<rparr>))"
  using assms
  by (simp add: idle_inv_def slv_inv_def stack_ok_def mb_configured_def ESC_config_def Let_def pool_inv_def
      maps_sized_def boot_env_def valid_opts_def unat_of_nat)

lemma idle_both:
  assumes i: "idle_inv E s" and "okp (slv_inv E) m"
    and "ok (\<lambda>s'. maps_sized E s' \<and> MBXrun s' = 0 \<and> App_state s' = 0) m"
    and "\<And>s'. idle_inv E s' \<Longrightarrow> Q s'"
  shows "okp Q m"
  using assms by (cases m) (auto simp: idle_inv_def)

lemma keep_COE_setValue [keep]:
  "tame E c s \<Longrightarrow> (\<And>s'. tame E c s' \<Longrightarrow> Q s') \<Longrightarrow> okp Q (COE_setValue d v s)"
  by (auto simp: COE_setValue_def intro!: keep keep_get split: option.split)

lemma keep_initDefaultValues:
  assumes t: "tame E c s" and h: "\<forall>h. set_defaults_hook E = Some h \<longrightarrow> gentle h" and Q: "\<And>s'. tame E c s' \<Longrightarrow> Q s'"
  shows "okp Q (COE_initDefaultValues E s)"
proof -
  have e: "tame E c s1 \<Longrightarrow> okp (tame E c) (init_entries ds ms s1)" for ds ms s1
    by (induction ds arbitrary: s1) (auto intro!: keep)
  have obs: "tame E c s1 \<Longrightarrow> okp (tame E c) (init_objects obs s1)" for obs s1
    by (induction obs arbitrary: s1) (auto intro: okp_mono [OF e])
  show ?thesis
  proof (cases "set_defaults_hook E")
    case None
    with Q t okp_mono [OF obs [OF t] Q] show ?thesis by (simp add: COE_initDefaultValues_def)
  next
    case (Some f)
    with h have "tame E c (f s1)" if "tame E c s1" for s1 using gentle_tame(1) [of f] that by blast
    then have "okp (\<lambda>s1. Q (f s1)) (init_objects (SDOobjects E) s)" by (intro okp_mono [OF obs [OF t]] Q)
    with Some Q t show ?thesis by (simp add: COE_initDefaultValues_def)
  qed
qed

lemma keep_wait_link [keep]:
  "tame E c s \<Longrightarrow> (\<And>b s'. tame E c s' \<Longrightarrow> Q (b, s')) \<Longrightarrow> okp Q (wait_link E n s)"
  by (induction n arbitrary: s) (subst wait_link.simps, auto intro!: keep)+

lemma idle_ops:
  assumes i: "idle_inv E s" and Q: "\<And>s'. idle_inv E s' \<Longrightarrow> Q s'"
  shows "okp Q (ESC_ALstatus E st s)" "okp Q (ESC_ALerror E err s)" "okp Q (ESC_stopmbx E s)"
    "okp Q (ESC_stopinput E s)" "okp Q (ESC_stopoutput E s)"
proof -
  have e: "al_env E" "sm_follows E" "slv_inv E s" "maps_sized E s" "MBXrun s = 0" "App_state s = 0"
    using i by (auto simp: idle_inv_def boot_env_def al_env_def)
  show "okp Q (ESC_ALstatus E st s)"
    using e by (intro idle_both [OF i _ _ Q] stk) (auto simp: ESC_ALstatus_def maps_sized_def intro!: wp)
  show "okp Q (ESC_ALerror E err s)"
    using e by (intro idle_both [OF i _ _ Q] stk wp) (simp_all add: view_defs)
  show "okp Q (ESC_stopmbx E s)"
    using e by (intro idle_both [OF i _ _ Q] stk wp) (simp_all add: view_defs)
  show "okp Q (ESC_stopinput E s)"
    using e by (intro idle_both [OF i _ _ Q] stk wp) (simp_all add: view_defs)
  show "okp Q (ESC_stopoutput E s)"
    using e by (intro idle_both [OF i _ _ Q] stk wp) (simp_all add: view_defs)
qed

lemma run_init:
  assumes b: "boot_env E" and p: "pool_inv E s" and m: "maps_sized E s" "MBXrun s = 0" "App_state s = 0"
    and l: "length (MBX s) = MBXBUFFERS (opt E) * max (MBXSIZE (opt E)) (MBXSIZEBOOT (opt E))"
  shows "okp (\<lambda>(r, s'). idle_inv E s') (ecat_slv_init E cfg s)"
proof -
  let ?s = "ESC_config E cfg (s\<lparr>watchdog := cfg_watchdog_cnt cfg\<rparr>)"
  let ?h = "hal_init E ?s"
  have i0: "idle_inv E ?s" by (rule idle_config [OF b p m l])
  have "gentle (\<lambda>s. snd (hal_init E s))" using b by (simp add: boot_env_def)
  from idle_tame [OF i0] tame_idle_inv [OF i0] gentle_tame(1) [OF this]
  have i1: "idle_inv E (snd ?h)" by blast
  have reset: "okp (idle_inv E) (slv_reset E s1)" if i: "idle_inv E s1" for s1
  proof -
    have t: "idle_inv E (FOE_init s2)" "idle_inv E (EOE_init E s2)" if "idle_inv E s2" for s2
      using idle_tame [OF that] tame_idle_inv [OF that] tame_EOE_init [OF tame_idle_inv [OF that]]
      by (simp_all add: FOE_init_def)
    have d: "okp (idle_inv E) (COE_initDefaultValues E s2)" if "idle_inv E s2" for s2
      using b by (intro keep_initDefaultValues [OF tame_idle_inv [OF that]] idle_tame [OF that]) (simp_all add: boot_env_def)
    show ?thesis
      using i t by (auto simp: slv_reset_def Let_def intro!: idle_ops d)
  qed
  have rest: "okp (\<lambda>(r, s'). idle_inv E s') (case x of (r, s) \<Rightarrow>
     if r \<noteq> 0 then Some (-1, s)
     else do {
       (up, s) \<leftarrow> wait_link E (DLSTATUS_WAIT_RETRIES (opt E)) s;
       if \<not> up then Some (-1, s)
       else do { s \<leftarrow> slv_reset E s; Some (0, s) }
     })" if "idle_inv E (snd x)" for x :: "int \<times> 'a sys"
    using that idle_tame [OF that]
    by (cases x) (auto intro!: keep_wait_link [OF tame_idle_inv] okp_mono [OF reset])
  show ?thesis
    using rest [OF i1] by (simp add: ecat_slv_init_def Let_def del: okp_bind)
qed

section \<open>The EEPROM emulation\<close>

text \<open>With an EEPROM that leaves the stack alone, the handler of \<open>esc_eep.c\<close> does so too.\<close>

definition eep_calm :: "'w env \<Rightarrow> bool" where
  "eep_calm E \<longleftrightarrow> (\<forall>a n. gentle (\<lambda>s. snd (snd (EEP_read E a n s)))) \<and>
     (\<forall>a b. gentle (\<lambda>s. snd (EEP_write E a b s))) \<and>
     (\<forall>h p. eep_reload_ptr E = Some h \<longrightarrow> gentle (\<lambda>s. snd (h p s)))"

lemma eep_reg [keep]:
  assumes "kview s = k"
  shows "(\<And>f s'. kview s' = k \<Longrightarrow> Q (f, s')) \<Longrightarrow> okp Q (ESC_read E a n s)"
    "(\<And>s'. kview s' = k \<Longrightarrow> R s') \<Longrightarrow> okp R (ESC_write E a bs s)"
  using assms by (simp_all add: ESC_read_def ESC_write_def case_prod_beta)

lemma eep_hooks:
  assumes "eep_calm E"
  shows "kview (snd (snd (EEP_read E a n s))) = kview s" "kview (snd (EEP_write E a b s)) = kview s"
    "eep_reload_ptr E = Some h \<Longrightarrow> kview (snd (h p s)) = kview s"
  using assms by (cases p; simp add: eep_calm_def gentle_def)+

lemma eep_fetch_calm [keep]:
  assumes "eep_calm E" "kview s = k" and "\<And>st s'. kview s' = k \<Longrightarrow> Q (st, s')"
  shows "okp Q (eep_fetch E a n st s)" "okp Q (eep_store E st s)"
  using assms(2,3) eep_hooks [OF assms(1)]
  by (auto simp: eep_fetch_def eep_store_def case_prod_beta intro!: keep keep_get)

lemma eep_command_calm [keep]:
  assumes e: "eep_calm E" and k: "kview s = k" and Q: "\<And>st s'. kview s' = k \<Longrightarrow> Q (st, s')"
  shows "okp Q (eep_command E st s)"
proof -
  have r: "okp Q (eep_reload E st s)"
    using k eep_hooks(3) [OF e, where s = s]
    by (auto simp: eep_reload_def case_prod_beta split: option.split intro!: keep e Q)
  show ?thesis using k by (auto simp: eep_command_def intro!: keep r e Q)
qed

lemma eep_loop_calm: "eep_loop E s = Some s' \<Longrightarrow> eep_calm E \<Longrightarrow> kview s' = kview s"
proof (induction E s s' rule: eep_loop.raw_induct [rotated 1, consumes 1, case_names step])
  case (step rec E s s')
  have again: "okp (\<lambda>s1. kview s1 = kview s) (rec E s1)" if "kview s1 = kview s" for s1
    using step.IH [of E s1] step.prems that by (cases "rec E s1") auto
  have "okp (\<lambda>s1. kview s1 = kview s) (do {
     (st, s) \<leftarrow> eep_read_stat E s;
     if \<not> eep_busy (es_reg st) then Some s
     else do {
       let st = st\<lparr>es_reg := clear_errors (es_reg st)\<rparr>;
       (st, s) \<leftarrow> eep_command E st s;
       s \<leftarrow> ESC_write E ESCREG_EECONTSTAT (le16 (es_reg st)) s;
       rec E s
     }
   })"
    using step.prems by (auto simp: eep_read_stat_def Let_def intro!: keep again)
  from okpD [OF this step.hyps] show ?case .
qed

lemma EEP_process_calm: "eep_calm E \<Longrightarrow> EEP_process E s = Some s' \<Longrightarrow> kview s' = kview s"
  using eep_loop_calm [of E s s'] by (simp add: EEP_process_def split: if_splits)

lemma run_EEP [run]:
  assumes "sys_inv E s" and "\<And>s'. sys_inv E s' \<Longrightarrow> Q s'" shows "okp Q (EEP_process E s)"
proof -
  have "eep_calm E" using sys_hooks [OF assms(1)] by (simp add: calm_hooks_def eep_calm_def)
  then show ?thesis
    using EEP_process_calm [of E s] sys_kview [of _ s E] assms by (cases "EEP_process E s") auto
qed

section \<open>Runs of the slave\<close>

text \<open>
  What happens to a slave between two calls of the stack: the application and the master
  change the process data, the object variables, the file buffers and the registers of the
  chip, and nothing else.
\<close>

inductive slave_step :: "'w env \<Rightarrow> 'w sys \<Rightarrow> 'w sys \<Rightarrow> bool" for E where
  cyclic: "ecat_slv E s = Some s' \<Longrightarrow> slave_step E s s'"
| poll: "ecat_slv_poll E s = Some s' \<Longrightarrow> slave_step E s s'"
| data: "DIG_process E flags s = Some s' \<Longrightarrow> slave_step E s s'"
| worker: "ecat_slv_worker E mask32 s = Some s' \<Longrightarrow> slave_step E s s'"
| dc: "ecat_slv_run_dc E timeout_ns s = Some s' \<Longrightarrow> slave_step E s s'"
| account: "ecat_slv_sync0_account E ev s = Some s' \<Longrightarrow> slave_step E s s'"
| eeprom: "EEP_process E s = Some s' \<Longrightarrow> slave_step E s s'"
| completed: "ESC_SDO_complete E code s = Some s' \<Longrightarrow> slave_step E s s'"
| slave_error: "ESC_ALstatusgotoerror E st err s = Some s' \<Longrightarrow> slave_step E s s'"
| limit: "slave_step E s (APP_setwatchdog cnt s)"
| outside: "kview s' = kview s \<Longrightarrow> slave_step E s s'"

lemma slave_step_inv:
  assumes "slave_step E s s'" and i: "sys_inv E s"
  shows "sys_inv E s'"
proof -
  have sdo: "okp (sys_inv E) (ESC_SDO_complete E code s)" for code
    by (rule keep_ESC_SDO_complete [OF tame_sys [OF i]]) (rule sys_tame [OF i])
  show ?thesis
    using assms(1)
  proof (cases rule: slave_step.cases)
    case outside
    with i sys_kview [of s' s E] show ?thesis by simp
  next
    case completed
    from okpD [OF sdo this] show ?thesis .
  next
    case limit
    with i show ?thesis by (simp add: APP_setwatchdog_def)
  qed (erule okpD [rotated], rule run, rule i, assumption)+
qed

lemma slave_run_inv: "(slave_step E)\<^sup>*\<^sup>* s s' \<Longrightarrow> sys_inv E s \<Longrightarrow> sys_inv E s'"
  by (induction rule: rtranclp_induct) (auto intro: slave_step_inv)

end
