(* ===== verification/Slv_Props.thy ===== *)
theory Slv_Props
  imports Slv_Run Al_Props
begin

text \<open>
  The properties of the slave as a whole, from power-on along every run, with the sample
  slave on which they are applied.
\<close>

section \<open>The sample slave from power-on\<close>

lemma wp_wait_link [wp]: "(\<And>b s'. al_view s' = al_view s \<Longrightarrow> Q (b, s')) \<Longrightarrow> ok Q (wait_link E n s)"
  by (induction n arbitrary: s) (subst wait_link.simps, auto simp: al_view_def intro!: wp)+

lemma init_returns:
  assumes e: "al_env E" and d: "\<And>s. COE_initDefaultValues E s = Some s"
  shows "ok (\<lambda>_. True) (ecat_slv_init E cfg s)"
proof -
  have sm: "sm_follows E" using e by (simp add: al_env_def)
  have "ok (\<lambda>_. True) (slv_reset E s1)" for s1
    by (auto simp: slv_reset_def Let_def ESC_ALstatus_def d sm intro!: wp e)
  then show ?thesis
    by (auto simp: ecat_slv_init_def Let_def case_prod_beta intro!: wp)
qed

lemma boot_plain: "boot_env plain_env"
  using al_env_plain
  by (simp add: boot_env_def calm_hooks_def fsm_hooks_def plain_env_def ram_env_def quiet_env_def valid_opts_def
      default_options_def gentle_def polite_def)

definition power_on :: "ram sys" where
  "power_on = init_sys default_options (\<lambda>_. replicate 8 0) (\<lambda>_. 0)"

definition plain_cfg :: esc_cfg where
  "plain_cfg = \<lparr>cfg_use_interrupt = 0, cfg_watchdog_cnt = 100, cfg_use_hw_watchdog = 0,
     cfg_skip_default_initialization = False\<rparr>"

lemma init_plain:
  obtains r s where "ecat_slv_init plain_env cfg power_on = Some (r, s)"
proof -
  have "COE_initDefaultValues plain_env s = Some s" for s
    by (simp add: COE_initDefaultValues_def plain_env_def no_objects_def ram_env_def quiet_env_def)
  from init_returns [OF al_env_plain this, of cfg power_on] that show thesis
    by (auto simp: ok_ex)
qed

lemma fresh_inv:
  assumes "boot_env E"
  shows "pool_inv E (init_sys (opt E) m w)" "maps_sized E (init_sys (opt E) m w)"
  using assms
  by (simp_all add: boot_env_def valid_opts_def init_sys_def pool_inv_def pool_ok_def queued_def maps_sized_def)

lemma sys_inv_init:
  assumes "boot_env E" and "ecat_slv_init E cfg (init_sys (opt E) m w) = Some (r, s)"
  shows "sys_inv E s"
proof -
  have "okp (\<lambda>(r, s'). idle_inv E s') (ecat_slv_init E cfg (init_sys (opt E) m w))"
    by (rule run_init [OF assms(1) fresh_inv [OF assms(1)]]) (simp_all add: init_sys_def)
  from okpD [OF this assms(2)] show ?thesis by (simp add: idle_sys)
qed

lemma sys_inv_run:
  assumes "boot_env E" and "ecat_slv_init E cfg (init_sys (opt E) m w) = Some (r, s0)"
    and "(slave_step E)\<^sup>*\<^sup>* s0 s"
  shows "sys_inv E s"
  using slave_run_inv [OF assms(3) sys_inv_init [OF assms(1,2)]] .

lemma returns_al:
  assumes "sys_inv E s"
  shows "\<exists>x. ESC_state E s = Some x" "\<exists>x. ESC_sm_act_event E s = Some x"
    "\<exists>x. ESC_ALstatusgotoerror E st err s = Some x"
  using assms ESC_state_inv [of E s] ESC_sm_act_event_inv [of E s] ESC_ALstatusgotoerror_inv [of E s st err]
  by (auto simp: sys_inv_def ok_ex)

lemma returns_mbx:
  assumes "sys_inv E s"
  shows "\<exists>x. ESC_mbxprocess E s = Some x" "\<exists>x. ESC_xoeprocess E s = Some x"
proof -
  have sm: "sm_follows E" using assms by (simp add: sys_inv_def al_env_def)
  have m: "mbx_inv E s" if "MBXrun s \<noteq> 0" using assms that slv_inv_running by (auto simp: sys_inv_def)
  show "\<exists>x. ESC_mbxprocess E s = Some x"
    using ESC_mbxprocess_inv [OF m sm] by (cases "MBXrun s = 0") (simp add: ESC_mbxprocess_def, auto simp: ok_ex)
  show "\<exists>x. ESC_xoeprocess E s = Some x"
    using ESC_xoeprocess_inv [OF m] by (cases "MBXrun s = 0") (simp add: ESC_xoeprocess_def, auto simp: ok_ex)
qed

lemma ok_ALerr:
  assumes "sys_inv E s" shows "ok (\<lambda>_. True) (ESC_ALstatusgotoerror E st err s)"
  using returns_al(3) [OF assms] by (auto simp: ok_ex)

lemma returns_cycle:
  assumes i: "sys_inv E s"
  shows "\<exists>x. ecat_slv_sync0_account E ev s = Some x" "\<exists>x. dig_watchdog E s = Some x"
proof -
  show "\<exists>x. ecat_slv_sync0_account E ev s = Some x"
    using i by (auto simp: ecat_slv_sync0_account_def Let_def intro!: returns_al(3))
  have sw: "ok (\<lambda>_. True) (sw_watchdog E s1)" if "sys_inv E s1" for s1
    using that by (auto simp: sw_watchdog_def Let_def intro!: ok_ALerr)
  have latch: "ok (sys_inv E) (hw_wd_latch E s)"
    using i by (auto simp: hw_wd_latch_def Let_def intro!: wp)
  have err: "ok (sys_inv E) (ESC_ALstatusgotoerror E st err s1)" if "sys_inv E s1" for s1 st err
    using returns_al(3) [OF that, of st err] okpD [OF run_al(3) [OF that], of "sys_inv E" st err]
    by (auto simp: ok_ex)
  have hw: "ok (\<lambda>(r, s1). sys_inv E s1) (hw_watchdog_check E s)"
    using i by (auto simp: hw_watchdog_check_def intro!: wp err ok_mono [OF latch])
  have "ok (\<lambda>_. True) (dig_watchdog E s)"
    unfolding dig_watchdog_def using sw i
    by (auto simp del: ok_bind intro!: ok_bindI [OF hw])
  then show "\<exists>x. dig_watchdog E s = Some x" by (auto simp: ok_ex)
qed

section \<open>Properties\<close>

text \<open>
  C1. From power-on (\<open>ecat_slv_init\<close> on the cleared memory), in every state that a run of the
  slave reaches: outputs are active only while the AL status register shows OP and no request
  for OP is held; the buffer posted to the chip is in state \<open>outpost\<close> (or \<open>again\<close>), the one
  kept for a repeat in state \<open>backup\<close>, both in the pool, and \<open>txcue\<close> is the number of replies
  under construction or waiting; while the mailboxes run every buffer lies within \<open>MBX\<close>.
\<close>

theorem slave_consistent:
  assumes "boot_env E" and "ecat_slv_init E cfg (init_sys (opt E) m w) = Some (r, s0)"
    and "(slave_step E)\<^sup>*\<^sup>* s0 s"
  shows "(outputs_on s \<longrightarrow> to_u8 (ALstatus s) AND ESCREG_AL_STATEMASK = ESCop \<and> op_pending s = 0) \<and>
    (mbxoutpost s \<noteq> 0 \<longrightarrow> unat (mbxoutpost s) < MBXBUFFERS (opt E) \<and>
       MBXcontrol s (unat (mbxoutpost s)) \<in> {MBXstate_outpost, MBXstate_again}) \<and>
    (mbxbackup s \<noteq> 0 \<longrightarrow> unat (mbxbackup s) < MBXBUFFERS (opt E) \<and>
       MBXcontrol s (unat (mbxbackup s)) = MBXstate_backup) \<and>
    unat (txcue s) = card {n \<in> {1..<MBXBUFFERS (opt E)}. MBXcontrol s n \<in> {MBXstate_outclaim, MBXstate_outreq}} \<and>
    (MBXrun s \<noteq> 0 \<longrightarrow> (\<forall>n < MBXBUFFERS (opt E). has_room n s))"
proof -
  have i: "sys_inv E s" by (rule sys_inv_run [OF assms])
  have "pool_inv E s" using i by (simp add: sys_inv_def slv_inv_def stack_ok_def)
  moreover have "has_room n s" if "MBXrun s \<noteq> 0" "n < MBXBUFFERS (opt E)" for n
    using i that slv_inv_running [of E s] mbx_inv_room [of E s] by (simp add: sys_inv_def)
  ultimately show ?thesis
    using i by (simp add: sys_inv_def al_inv_def pool_inv_def pool_ok_def queued_def)
qed

theorem slave_consistent_witness:
  "\<exists>r s0. ecat_slv_init plain_env plain_cfg power_on = Some (r, s0) \<and> unat (txcue (APP_setwatchdog 5 s0)) =
     card {n \<in> {1..<3}. MBXcontrol (APP_setwatchdog 5 s0) n \<in> {MBXstate_outclaim, MBXstate_outreq}}"
proof -
  obtain r s0 where i: "ecat_slv_init plain_env plain_cfg power_on = Some (r, s0)" by (rule init_plain)
  have e: "power_on = init_sys (opt plain_env) (\<lambda>_. replicate 8 0) (\<lambda>_. 0)"
    by (simp add: power_on_def plain_env_def)
  have step: "(slave_step plain_env)\<^sup>*\<^sup>* s0 (APP_setwatchdog 5 s0)" by (intro r_into_rtranclp slave_step.limit)
  show ?thesis
    using i slave_consistent [OF boot_plain i [unfolded e] step] by (simp add: plain_env_def default_options_def)
qed

text \<open>
  C2. In every such state the calls that move the mailboxes and the AL state machine on
  return: no handshake with the chip hangs and no access to a buffer is out of bounds.
\<close>

theorem slave_steps_return:
  assumes "boot_env E" and "ecat_slv_init E cfg (init_sys (opt E) m w) = Some (r, s0)"
    and "(slave_step E)\<^sup>*\<^sup>* s0 s"
  shows "(\<exists>x. ESC_mbxprocess E s = Some x) \<and> (\<exists>x. ESC_xoeprocess E s = Some x) \<and>
    (\<exists>x. ESC_state E s = Some x) \<and> (\<exists>x. ESC_sm_act_event E s = Some x) \<and>
    (\<exists>x. ecat_slv_sync0_account E ev s = Some x) \<and> (\<exists>x. dig_watchdog E s = Some x)"
  by (intro conjI returns_al returns_mbx returns_cycle sys_inv_run [OF assms])

theorem slave_steps_return_witness:
  "\<exists>r s0 x. ecat_slv_init plain_env plain_cfg power_on = Some (r, s0) \<and> ESC_mbxprocess plain_env s0 = Some x"
proof -
  obtain r s0 where i: "ecat_slv_init plain_env plain_cfg power_on = Some (r, s0)" by (rule init_plain)
  have e: "power_on = init_sys (opt plain_env) (\<lambda>_. replicate 8 0) (\<lambda>_. 0)"
    by (simp add: power_on_def plain_env_def)
  show ?thesis
    using i slave_steps_return [OF boot_plain i [unfolded e] rtranclp.rtrancl_refl] by blast
qed

end
