(* ===== verification/Cyclic_Props.thy ===== *)
theory Cyclic_Props
  imports Slv_Run Al_Props Pdo_Props
begin

text \<open>
  The properties of the cyclic part of the slave: the accounting of missed cycles, the two
  watchdogs and the exchange of process data.
\<close>

section \<open>An error raised by the slave\<close>

definition in_error :: "u8 \<Rightarrow> 'w sys \<Rightarrow> 'w sys \<Rightarrow> bool" where
  "in_error st s s' \<longleftrightarrow> al_view s' = al_view (s\<lparr>ALstatus := to_u16 st, op_pending := 0,
     App_state := (if outputs_on s then App_state s AND APPSTATE_INPUT else App_state s)\<rparr>)"

lemma in_errorD:
  assumes "in_error st s s'"
  shows "ALstatus s' = to_u16 st" "op_pending s' = 0" "\<not> outputs_on s'" "MBXrun s' = MBXrun s"
proof -
  show "ALstatus s' = to_u16 st" "op_pending s' = 0" "MBXrun s' = MBXrun s"
    using assms by (simp_all add: in_error_def al_view_def)
  have a: "App_state s' = (if outputs_on s then App_state s AND APPSTATE_INPUT else App_state s)"
    using assms by (simp add: in_error_def al_view_def)
  show "\<not> outputs_on s'"
  proof (cases "outputs_on s")
    case True
    with a show ?thesis by (simp add: outputs_on_def)
  next
    case False
    with a show ?thesis by (simp add: outputs_on_def)
  qed
qed

lemma ok_in_error:
  fixes s :: "'w sys"
  assumes E: "al_env E" and st: "st AND ESCop = 0" and Q: "\<And>s'. in_error st s s' \<Longrightarrow> Q s'"
  shows "ok Q (ESC_ALstatusgotoerror E st err s)"
proof -
  let ?as = "push_bit 4 (st AND 0x0f) OR (to_u8 (ALstatus s AND 0x0f) AND 0x0f)"
  let ?app = "if outputs_on s then App_state s AND APPSTATE_INPUT else App_state s"
  have hooks: "observes (pre_state_change_hook E)" "observes (post_state_change_hook E)"
    using E by (simp_all add: al_env_def)
  obtain s1 where 1: "run_hook (pre_state_change_hook E) ?as (to_u8 (ALstatus s AND 0x0f)) s =
      (?as, to_u8 (ALstatus s AND 0x0f), s1)" "al_view s1 = al_view s"
    using hooks(1) by (rule observes_run)
  have app: "App_state s1 = App_state s" using 1(2) by (simp add: al_view_def)
  have stop: "ok (\<lambda>s2. al_view s2 = al_view (s\<lparr>App_state := ?app\<rparr>))
      (if App_state s1 AND APPSTATE_OUTPUT > 0 then ESC_stopoutput E s1 else Some s1)"
    using 1(2) app by (auto intro!: wp E simp: word_gt_0 outputs_on_def al_view_def)
  have hook: "Q (snd (snd (run_hook (post_state_change_hook E) as st y)))"
    if "al_view y = al_view (s\<lparr>ALstatus := to_u16 st, op_pending := 0, App_state := ?app\<rparr>)" for y as
  proof -
    obtain s4 where "run_hook (post_state_change_hook E) as st y = (as, st, s4)" "al_view s4 = al_view y"
      using hooks(2) by (rule observes_run)
    with that Q [of s4] show ?thesis by (simp add: in_error_def)
  qed
  have fin: "ok Q (do { s \<leftarrow> ESC_ALerror E err (s2\<lparr>op_pending := 0\<rparr>); s \<leftarrow> ESC_ALstatus E st s;
      (as, an, s) \<leftarrow> Some (run_hook (post_state_change_hook E) ?as st s); Some s })"
    if s2: "al_view s2 = al_view (s\<lparr>App_state := ?app\<rparr>)" for s2
    using s2 by (auto simp: case_prod_beta intro!: wp hook simp del: ok_bind)
      (auto simp: case_prod_beta al_view_def intro!: wp hook)
  show ?thesis
    unfolding ESC_ALstatusgotoerror_def Let_def
    using st 1 ok_bindI [OF stop fin] by (simp del: ok_bind ok_if)
qed

section \<open>Missed synchronisation cycles\<close>

fun sync_periods :: "'w env \<Rightarrow> int list \<Rightarrow> 'w sys \<Rightarrow> 'w sys option" where
  "sync_periods E [] s = Some s"
| "sync_periods E (ev # evs) s = do { s \<leftarrow> ecat_slv_sync0_account E ev s; sync_periods E evs s }"

text \<open>
  The count as ETG.1020 and \<open>docs/cia402-roadmap.md\<close> (3.3.1) state it: a SYNC0 without an SM2 event
  since the previous one adds 3, one with an event takes 1 off, with zero as the floor.
\<close>

definition sync_errors :: "int list \<Rightarrow> int \<Rightarrow> int" where
  "sync_errors evs c = fold (\<lambda>ev c. if ev = 0 then c + 3 else max 0 (c - 1)) evs c"

lemma sync_errors_simps [simp]:
  "sync_errors [] c = c"
  "sync_errors (ev # evs) c = sync_errors evs (if ev = 0 then c + 3 else max 0 (c - 1))"
  by (simp_all add: sync_errors_def)

definition missed :: "int list \<Rightarrow> nat" where
  "missed evs = length (filter (\<lambda>ev. ev = 0) evs)"

lemma sync_count_errors: "0 \<le> c \<Longrightarrow> sync_count ev c = sync_errors [ev] c"
  by (simp add: sync_count_def)

lemma sync_errors_pos: "0 \<le> c \<Longrightarrow> 0 \<le> sync_errors evs c"
  by (induction evs arbitrary: c) simp_all

lemma sint_store: "0 \<le> c \<Longrightarrow> c < 32768 \<Longrightarrow> sint (word_of_int c :: u16) = c"
  by (simp add: signed_of_int signed_take_bit_int_eq_self)

definition count_missed :: "nat \<Rightarrow> u16 \<Rightarrow> u16" where
  "count_missed n m = of_nat (min 0xFFFF (unat m + n))"

lemma count_missed_simps:
  "count_missed 0 m = m" "unat (count_missed n m) = min 0xFFFF (unat m + n)"
  "count_missed n (count_missed k m) = count_missed (k + n) m"
  "count_missed 1 m = (if m < 0xFFFF then m + 1 else m)"
proof -
  show u: "unat (count_missed n m) = min 0xFFFF (unat m + n)" for n m
    by (simp add: count_missed_def unat_of_nat take_bit_nat_eq_self)
  have "unat m \<le> 0xFFFF" using unat_bound [of m] by simp
  then show "count_missed 0 m = m" by (simp add: count_missed_def)
  show "count_missed n (count_missed k m) = count_missed (k + n) m"
    by (subst (1 3) count_missed_def) (simp add: u min_def)
  show "count_missed 1 m = (if m < 0xFFFF then m + 1 else m)"
  proof (rule word_unat_eq_iff [THEN iffD2])
    show "unat (count_missed 1 m) = unat (if m < 0xFFFF then m + 1 else m)"
      unfolding u using \<open>unat m \<le> 0xFFFF\<close>
      by (auto simp: word_less_nat_alt unat_word_ariths)
  qed
qed

lemma account_below:
  assumes "0 \<le> synccounter s" "synccounterlimit s \<le> 32767"
    and "sync_errors [ev] (synccounter s) \<le> int (unat (synccounterlimit s))"
  shows "ecat_slv_sync0_account E ev s =
    Some (s\<lparr>smeventmissed := count_missed (missed [ev]) (smeventmissed s), synccounter := sync_errors [ev] (synccounter s)\<rparr>)"
proof -
  have "uint (synccounterlimit s) \<le> 32767" using assms(2) by (simp add: word_le_def)
  then have "sint (word_of_int (sync_errors [ev] (synccounter s)) :: u16) = sync_errors [ev] (synccounter s)"
    using assms(1,3) sync_errors_pos [OF assms(1), of "[ev]"] by (intro sint_store) simp_all
  then show ?thesis
    using assms(3) count_missed_simps(1,4) [of "smeventmissed s"]
    by (auto simp: ecat_slv_sync0_account_def Let_def sync_count_errors [OF assms(1)] missed_def simp del: sync_errors_simps)
qed

lemma sync_periods_below:
  assumes "0 \<le> synccounter s" "synccounterlimit s \<le> 32767"
    and "\<forall>k \<le> length evs. sync_errors (take k evs) (synccounter s) \<le> int (unat (synccounterlimit s))"
  shows "sync_periods E evs s =
    Some (s\<lparr>smeventmissed := count_missed (missed evs) (smeventmissed s), synccounter := sync_errors evs (synccounter s)\<rparr>)"
  using assms
proof (induction evs arbitrary: s)
  case Nil
  then show ?case by (simp add: missed_def count_missed_simps)
next
  case (Cons ev evs)
  let ?s1 = "s\<lparr>smeventmissed := count_missed (missed [ev]) (smeventmissed s), synccounter := sync_errors [ev] (synccounter s)\<rparr>"
  have hd_first: "sync_errors (ev # es) c = sync_errors es (sync_errors [ev] c)" for es c by simp
  have le: "sync_errors [ev] (synccounter s) \<le> int (unat (synccounterlimit s))"
    using Cons.prems(3) [rule_format, of 1] by simp
  have step: "ecat_slv_sync0_account E ev s = Some ?s1"
    by (rule account_below [OF Cons.prems(1,2) le])
  have "sync_errors (take k evs) (sync_errors [ev] (synccounter s)) \<le> int (unat (synccounterlimit s))"
    if "k \<le> length evs" for k
    using Cons.prems(3) [rule_format, of "Suc k"] that by (simp add: hd_first [of "take k evs"] del: sync_errors_simps)
  with Cons.IH [of ?s1] Cons.prems(1,2) sync_errors_pos [OF Cons.prems(1), of "[ev]"]
  have "sync_periods E evs ?s1 = Some (?s1\<lparr>smeventmissed := count_missed (missed evs) (smeventmissed ?s1),
      synccounter := sync_errors evs (synccounter ?s1)\<rparr>)"
    by (simp del: sync_errors_simps)
  moreover have "missed [ev] + missed evs = missed (ev # evs)" by (simp add: missed_def)
  ultimately show ?case
    unfolding hd_first [of evs "synccounter s"]
    by (simp add: step count_missed_simps(3) del: sync_errors_simps)
qed

text \<open>
  C22. The synchronisation error counter is the one that ETG.1020 and the roadmap define:
  \<open>+3\<close> for a SYNC0 without process data, \<open>-1\<close> down to zero for one with. From a counter that is
  not negative, and with a limit from 1 to 32767: while the count stays within the limit, the AL
  state is left alone, the stored counter is the count, and the counter of missed events grows by
  the number of missed cycles up to its maximum; the period that takes the count past the
  limit puts the slave into SAFEOP with the error flag, with the outputs off.
\<close>

theorem sync_errors_counted:
  assumes "al_env E" and "0 \<le> synccounter s" "0 < synccounterlimit s" "synccounterlimit s \<le> 32767"
    and "\<forall>k \<le> length evs. sync_errors (take k evs) (synccounter s) \<le> int (unat (synccounterlimit s))"
    and "int (unat (synccounterlimit s)) < sync_errors (evs @ [ev]) (synccounter s)"
  shows "\<exists>s1 s2. sync_periods E evs s = Some s1 \<and> al_view s1 = al_view s \<and>
    synccounter s1 = sync_errors evs (synccounter s) \<and>
    unat (smeventmissed s1) = min 0xFFFF (unat (smeventmissed s) + missed evs) \<and>
    ecat_slv_sync0_account E ev s1 = Some s2 \<and> ALstatus s2 = 0x14 \<and> \<not> outputs_on s2"
proof -
  let ?s1 = "s\<lparr>smeventmissed := count_missed (missed evs) (smeventmissed s), synccounter := sync_errors evs (synccounter s)\<rparr>"
  have "0 \<le> sync_errors evs (synccounter s)" by (rule sync_errors_pos [OF assms(2)])
  then have "sync_count ev (synccounter ?s1) = sync_errors (evs @ [ev]) (synccounter s)"
    by (simp add: sync_count_errors) (simp add: sync_errors_def)
  then have "ok (\<lambda>s2. ALstatus s2 = 0x14 \<and> \<not> outputs_on s2) (ecat_slv_sync0_account E ev ?s1)"
    using assms(3,6)
    by (auto simp: ecat_slv_sync0_account_def Let_def intro!: ok_in_error [OF assms(1)] dest: in_errorD)
  with sync_periods_below [OF assms(2,4,5)] show ?thesis
    by (auto simp: ok_ex al_view_def count_missed_simps)
qed

text \<open>With a limit of 24 the drive tolerates 8 missed cycles in a row, and a served one buys less than one more.\<close>

theorem sync_errors_counted_witness:
  "\<exists>s1 s2. sync_periods plain_env [0, 0, 0, 0, 0, 1, 0, 0, 0] (ram_sys\<lparr>synccounterlimit := 24\<rparr>) = Some s1 \<and>
     synccounter s1 = 23 \<and> smeventmissed s1 = 8 \<and>
     ecat_slv_sync0_account plain_env 0 s1 = Some s2 \<and> ALstatus s2 = 0x14"
proof -
  have c: "synccounter (ram_sys\<lparr>synccounterlimit := 24\<rparr>) = 0" "smeventmissed (ram_sys\<lparr>synccounterlimit := 24\<rparr>) = 0"
    by (simp_all add: ram_sys_def init_sys_def)
  have "\<forall>k \<in> set [0..<10]. sync_errors (take k [0, 0, 0, 0, 0, 1, 0, 0, 0]) 0 \<le> (24 :: int)"
    by (simp add: upt_rec)
  then have "\<forall>k \<le> length [0, 0, 0, 0, 0, 1, 0, 0, 0 :: int]. sync_errors (take k [0, 0, 0, 0, 0, 1, 0, 0, 0]) 0 \<le> (24 :: int)"
    by auto
  with sync_errors_counted [OF al_env_plain, of "ram_sys\<lparr>synccounterlimit := 24\<rparr>" "[0, 0, 0, 0, 0, 1, 0, 0, 0]" 0]
  show ?thesis by (auto simp: c missed_def word_unat_eq_iff)
qed

section \<open>The software watchdog\<close>

fun cycles :: "('w sys \<Rightarrow> 'w sys option) \<Rightarrow> nat \<Rightarrow> 'w sys \<Rightarrow> 'w sys option" where
  "cycles f 0 s = Some s"
| "cycles f (Suc n) s = do { s \<leftarrow> f s; cycles f n s }"

lemma wd_only: "DIG_process E 0x04 s = dig_watchdog E s"
  by (simp add: DIG_process_def)

lemma sw_counts:
  assumes "use_hw_watchdog s = 0" "outputs_on s" "0 < ESC_SM2_sml s"
  shows "cycles (DIG_process E 0x04) n (s\<lparr>watchdog := int (n + k) + 1\<rparr>) = Some (s\<lparr>watchdog := int k + 1\<rparr>)"
  using assms
  by (induction n) (simp_all add: wd_only dig_watchdog_def sw_watchdog_def Let_def outputs_on_def add.commute add.left_commute)

text \<open>
  C23. The software watchdog expires after exactly \<open>watchdog\<close> cycles without process data: in
  OP with outputs configured, all but the last of them only count, the last puts the slave
  into SAFEOP with the error flag, with the outputs off.
\<close>

theorem sw_watchdog_expires:
  assumes "al_env E" and "use_hw_watchdog s = 0" "outputs_on s" "0 < ESC_SM2_sml s"
    and "watchdog s = int n + 1"
  shows "cycles (DIG_process E 0x04) n s = Some (s\<lparr>watchdog := 1\<rparr>) \<and>
    (\<exists>s'. DIG_process E 0x04 (s\<lparr>watchdog := 1\<rparr>) = Some s' \<and> ALstatus s' = 0x14 \<and> \<not> outputs_on s')"
proof
  have "s = s\<lparr>watchdog := int (n + 0) + 1\<rparr>" using assms(5) by simp
  then show "cycles (DIG_process E 0x04) n s = Some (s\<lparr>watchdog := 1\<rparr>)"
    using sw_counts [OF assms(2,3,4), of E n 0] by simp
  have "ok (\<lambda>s'. ALstatus s' = 0x14 \<and> \<not> outputs_on s') (DIG_process E 0x04 (s\<lparr>watchdog := 1\<rparr>))"
    using assms(2-4)
    by (auto simp: wd_only dig_watchdog_def sw_watchdog_def Let_def outputs_on_def
        intro!: ok_in_error [OF assms(1)] dest: in_errorD)
  then show "\<exists>s'. DIG_process E 0x04 (s\<lparr>watchdog := 1\<rparr>) = Some s' \<and> ALstatus s' = 0x14 \<and> \<not> outputs_on s'"
    by (auto simp: ok_ex)
qed

text \<open>The sample slave in OP with outputs.\<close>

definition op_slave :: "ram sys" where
  "op_slave = ram_sys\<lparr>App_state := 3, ALstatus := 8, ESC_SM2_sml := 3, ESC_SM3_sml := 5, watchdog := 3\<rparr>"

lemma op_slave_simps [simp]:
  "App_state op_slave = 3" "use_hw_watchdog op_slave = 0" "ESC_SM2_sml op_slave = 3"
  "watchdog op_slave = 3" "hw_wd_quiet op_slave = 0" "ALevent op_slave = 0" "world op_slave = (\<lambda>_. 0)"
  "rxpdo op_slave = replicate 128 0"
  by (simp_all add: op_slave_def ram_sys_def init_sys_def default_options_def)

theorem sw_watchdog_expires_witness:
  "\<exists>s'. cycles (DIG_process plain_env 0x04) 2 op_slave = Some (op_slave\<lparr>watchdog := 1\<rparr>) \<and>
     DIG_process plain_env 0x04 (op_slave\<lparr>watchdog := 1\<rparr>) = Some s' \<and> ALstatus s' = 0x14"
  using sw_watchdog_expires [OF al_env_plain, of op_slave 2] by (auto simp: outputs_on_def)

section \<open>The hardware watchdog\<close>

lemma hw_counts:
  assumes "use_hw_watchdog s \<noteq> 0" "outputs_on s" "ESC_SM2_sml s \<noteq> 0" "hw_wd_state s = HW_WD_RUNNING"
    and "ALevent s AND ESCREG_ALEVENT_SM2 = 0" and "n + k \<le> 16"
  shows "cycles (DIG_process E 0x04) n (s\<lparr>hw_wd_quiet := of_nat k\<rparr>) = Some (s\<lparr>hw_wd_quiet := of_nat (n + k)\<rparr>)"
  using assms(6)
proof (induction n arbitrary: k)
  case (Suc n)
  have "(of_nat k :: u16) < 16"
    using Suc.prems by (simp add: word_less_nat_alt unat_of_nat take_bit_nat_eq_self)
  then have "DIG_process E 0x04 (s\<lparr>hw_wd_quiet := of_nat k\<rparr>) = Some (s\<lparr>hw_wd_quiet := of_nat (Suc k)\<rparr>)"
    using assms(1-5)
    by (simp add: wd_only dig_watchdog_def hw_watchdog_check_def hw_wd_latch_def outputs_on_def add.commute)
  with Suc.IH [of "Suc k"] Suc.prems show ?case by (simp add: algebra_simps)
qed simp

text \<open>
  C24. The hardware watchdog of the chip, once it was seen running, is consulted after
  sixteen quiet cycles: until then only the quiet cycles are counted, then the slave goes to
  SAFEOP with the error flag and outputs off exactly when the status register shows that it
  expired.
\<close>

theorem hw_watchdog_expires:
  assumes "al_env E" and "use_hw_watchdog s \<noteq> 0" "outputs_on s" "ESC_SM2_sml s \<noteq> 0"
    and "hw_wd_state s = HW_WD_RUNNING" "ALevent s AND ESCREG_ALEVENT_SM2 = 0"
    and "unat (hw_wd_quiet s) + n = 16"
    and "f = fst (hal_read E ESCREG_WDSTATUS 2 (world s))" and "wd = to_u8 (rd16 [f 0, f 1])"
  shows "cycles (DIG_process E 0x04) n s = Some (s\<lparr>hw_wd_quiet := 16\<rparr>) \<and>
    (\<exists>s'. DIG_process E 0x04 (s\<lparr>hw_wd_quiet := 16\<rparr>) = Some s' \<and>
       (if wd AND 0x01 = 0 then ALstatus s' = 0x14 \<and> \<not> outputs_on s' else al_view s' = al_view s))"
proof
  have q: "n + unat (hw_wd_quiet s) = 16" using assms(7) by simp
  show "cycles (DIG_process E 0x04) n s = Some (s\<lparr>hw_wd_quiet := 16\<rparr>)"
    using hw_counts [OF assms(2-6), of n "unat (hw_wd_quiet s)" E] q by (simp del: of_nat_add)
  let ?P = "\<lambda>s'. if wd AND 0x01 = 0 then ALstatus s' = 0x14 \<and> \<not> outputs_on s' else al_view s' = al_view s"
  have "ok ?P (DIG_process E 0x04 (s\<lparr>hw_wd_quiet := 16\<rparr>))"
    using assms(2-6,8,9)
    by (auto simp: wd_only dig_watchdog_def hw_watchdog_check_def hw_wd_latch_def outputs_on_def
        ESC_WDstatus_def ESC_read_def case_prod_beta al_view_def
        intro!: ok_in_error [OF assms(1)] dest: in_errorD)
  then show "\<exists>s'. DIG_process E 0x04 (s\<lparr>hw_wd_quiet := 16\<rparr>) = Some s' \<and> ?P s'" by (auto simp: ok_ex)
qed

theorem hw_watchdog_expires_witness:
  "\<exists>s'. cycles (DIG_process plain_env 0x04) 16 (op_slave\<lparr>use_hw_watchdog := 1, hw_wd_state := HW_WD_RUNNING\<rparr>) =
       Some (op_slave\<lparr>use_hw_watchdog := 1, hw_wd_state := HW_WD_RUNNING, hw_wd_quiet := 16\<rparr>) \<and>
     DIG_process plain_env 0x04 (op_slave\<lparr>use_hw_watchdog := 1, hw_wd_state := HW_WD_RUNNING, hw_wd_quiet := 16\<rparr>) =
       Some s' \<and> ALstatus s' = 0x14"
  using hw_watchdog_expires [OF al_env_plain, of "op_slave\<lparr>use_hw_watchdog := 1, hw_wd_state := HW_WD_RUNNING\<rparr>" 16,
      OF _ _ _ _ _ _ refl refl]
  by (auto simp: outputs_on_def plain_env_def ram_read_def)

text \<open>
  The hardware watchdog never faults before it was seen running: unless the chip showed
  process data while it was enabled, a call with the watchdog leaves the AL state alone.
\<close>

theorem hw_watchdog_waits:
  assumes "hw_watchdog_check E s = Some (r, s')" and "hw_wd_state s \<noteq> HW_WD_RUNNING"
  shows "al_view s' = al_view s \<and>
    (hw_wd_state s' = HW_WD_RUNNING \<longrightarrow> outputs_on s' \<and> hw_wd_quiet s' = 0)"
proof -
  have latch: "okp (\<lambda>s1. al_view s1 = al_view s \<and> hw_wd_state s1 \<noteq> HW_WD_RUNNING) (hw_wd_latch E s)"
    using assms(2) by (auto simp: hw_wd_latch_def ESC_read_def case_prod_beta al_view_def Let_def)
  have "okp (\<lambda>(r, s'). al_view s' = al_view s \<and> (hw_wd_state s' = HW_WD_RUNNING \<longrightarrow> outputs_on s' \<and> hw_wd_quiet s' = 0))
      (hw_watchdog_check E s)"
    by (auto simp: hw_watchdog_check_def al_view_def outputs_on_def ESC_WDstatus_def ESC_read_def case_prod_beta
        intro!: okp_mono [OF latch])
  from okpD [OF this assms(1)] show ?thesis by simp
qed

theorem hw_watchdog_waits_witness:
  "al_view (op_slave\<lparr>hw_wd_state := HW_WD_WAITING, hw_wd_quiet := 1\<rparr>) = al_view op_slave"
  using hw_watchdog_waits [of plain_env "op_slave\<lparr>hw_wd_state := HW_WD_WAITING\<rparr>" 1
      "op_slave\<lparr>hw_wd_state := HW_WD_WAITING, hw_wd_quiet := 1\<rparr>"]
  by (simp add: hw_watchdog_check_def hw_wd_latch_def outputs_on_def al_view_def)

section \<open>The SYNC0 driven loop\<close>

text \<open>
  C25. A lost SYNC0 stops the outputs: when the wait for the chip runs into its timeout while
  the slave is in OP with distributed clocks, the slave goes to SAFEOP with the error flag.
\<close>

theorem sync0_lost_stops_outputs:
  assumes "al_env E" and "esc_hw_wait E = Some h" "h timeout_ns s = (0, s1)"
    and "0 < dcsync s1" "outputs_on s1"
  shows "\<exists>s'. ecat_slv_run_dc E timeout_ns s = Some s' \<and> ALstatus s' = 0x14 \<and> \<not> outputs_on s' \<and> op_pending s' = 0"
proof -
  have "ok (\<lambda>s'. ALstatus s' = 0x14 \<and> \<not> outputs_on s' \<and> op_pending s' = 0) (ecat_slv_run_dc E timeout_ns s)"
    using assms(2-5)
    by (auto simp: ecat_slv_run_dc_def Let_def outputs_on_def intro!: ok_in_error [OF assms(1)] dest: in_errorD)
  then show ?thesis by (auto simp: ok_ex)
qed

theorem sync0_lost_stops_outputs_witness:
  "\<exists>s'. ecat_slv_run_dc (plain_env\<lparr>esc_hw_wait := Some (\<lambda>t s. (0, s))\<rparr>) 2000000 (op_slave\<lparr>dcsync := 1\<rparr>) = Some s' \<and>
     ALstatus s' = 0x14"
proof -
  have "al_env (plain_env\<lparr>esc_hw_wait := Some (\<lambda>t s. (0, s))\<rparr>)"
    by (simp add: al_env_def plain_env_def sm_follows_ram pdo_total_def observes_def keeps_opt_def
        sizeOfPDO_def SDO_findobject_def no_objects_def) (simp add: ram_env_def quiet_env_def)
  from sync0_lost_stops_outputs [OF this, of "\<lambda>t s. (0, s)" 2000000 "op_slave\<lparr>dcsync := 1\<rparr>"] show ?thesis
    by (auto simp: outputs_on_def)
qed

end
