(* ===== verification/Data_Props.thy ===== *)
theory Data_Props
  imports Cyclic_Props
begin

text \<open>
  The properties of the exchange of process data between the chip and the application.
\<close>

section \<open>Reading the outputs\<close>

lemma block_upd [simp]:
  "block_bytes b (s\<lparr>rxpdo := x\<rparr>) = block_bytes b s" "block_bytes b (s\<lparr>txpdo := x\<rparr>) = block_bytes b s"
  "block_bytes b (s\<lparr>world := w\<rparr>) = block_bytes b s" "block_bytes b (s\<lparr>ALevent := e\<rparr>) = block_bytes b s"
  "block_bytes b (s\<lparr>watchdog := i\<rparr>) = block_bytes b s"
  by (cases b; simp)+

lemma getValue_cong: "(\<And>b. block_bytes b s' = block_bytes b s) \<Longrightarrow> COE_getValue d s' = COE_getValue d s"
  by (simp add: COE_getValue_def mem_get_def)

lemma mapping_ok_cong: "(\<And>b. block_bytes b s' = block_bytes b s) \<Longrightarrow> mapping_ok E s' v = mapping_ok E s v"
  by (simp add: mapping_ok_def getValue_cong [of s' s])

text \<open>Unpacking changes nothing but the memory that the dictionary points into, and no length there.\<close>

definition memory_only :: "'w sys \<Rightarrow> 'w sys \<Rightarrow> bool" where
  "memory_only s s' \<longleftrightarrow> (\<exists>m d x. s' = s\<lparr>omem := m, mbxdata := d, MBX := x\<rparr>) \<and>
     (\<forall>b. length (block_bytes b s') = length (block_bytes b s))"

lemma memory_onlyI:
  assumes "s' = s\<lparr>omem := m, mbxdata := d, MBX := x\<rparr>" and "\<And>b. length (block_bytes b s') = length (block_bytes b s)"
  shows "memory_only s s'"
  using assms by (auto simp: memory_only_def)

lemma memory_only_refl: "memory_only s s"
  by (rule memory_onlyI [where m = "omem s" and d = "mbxdata s" and x = "MBX s"]) simp_all

lemma memory_only_trans: "memory_only s t \<Longrightarrow> memory_only t u \<Longrightarrow> memory_only s u"
  by (fastforce simp: memory_only_def)

lemma memory_only_put:
  assumes p: "mem_put p bs s = Some s'" shows "memory_only s s'"
proof (rule memory_onlyI [where m = "omem s'" and d = "mbxdata s'" and x = "MBX s'"])
  show "s' = s\<lparr>omem := omem s', mbxdata := mbxdata s', MBX := MBX s'\<rparr>"
    using p by (cases "fst p") (auto simp: mem_put_def)
  show "length (block_bytes b s') = length (block_bytes b s)" for b
    using p by (cases b; cases "fst p") (auto simp: mem_put_def dest: put_bytes_length)
qed

lemma unpack_memory_only: "unpack_entries E buf ms s = Some s' \<Longrightarrow> memory_only s s'"
proof (induction ms arbitrary: s)
  case (Cons m ms)
  have val: "COE_setValue d v s1 = Some s2 \<Longrightarrow> memory_only s1 s2" for d v and s1 s2 :: "'a sys"
    by (auto simp: COE_setValue_def bind_eq_Some_conv memory_only_refl split: option.splits dest: memory_only_put)
  from Cons.prems obtain s1 where "unpack_entry E buf m s = Some s1" "unpack_entries E buf ms s1 = Some s'"
    by (auto simp: bind_eq_Some_conv)
  moreover from this(1) have "memory_only s s1"
    by (auto simp: unpack_entry_def bind_eq_Some_conv memory_only_refl split: option.splits if_splits
        dest: memory_only_put val)
  ultimately show ?case using Cons.IH memory_only_trans by blast
qed (simp add: memory_only_refl)

text \<open>The image that the chip hands over, and the state after it was read.\<close>

definition handed :: "'w env \<Rightarrow> 'w sys \<Rightarrow> bytes" where
  "handed E s = (let n = unat (ESC_SM2_sml s); r = hal_read E (of_nat (SM2_sma (opt E))) n (world s)
     in map (fst r) [0..<n] @ drop n (rxpdo s))"

lemma read_rxpdo_some:
  assumes "unat (ESC_SM2_sml s) \<le> length (rxpdo s)"
  shows "\<exists>w e. read_rxpdo E s = Some (s\<lparr>world := w, ALevent := e, rxpdo := handed E s\<rparr>)"
  using assms
  by (auto simp: read_rxpdo_def ESC_read_def case_prod_beta put_bytes_def handed_def Let_def)

text \<open>
  C21. In SAFEOP and below the outputs of the master never reach the application: without the
  output flag of the application state, a call that processes outputs changes no object
  variable, whatever the chip holds, and leaves the AL state alone.
\<close>

theorem outputs_blocked:
  assumes "\<not> outputs_on s" and "unat (ESC_SM2_sml s) \<le> length (rxpdo s)"
  shows "\<exists>s'. DIG_process E 0x02 s = Some s' \<and> omem s' = omem s \<and> al_view s' = al_view s \<and>
    watchdog s' = watchdog s"
  using assms(1) read_rxpdo_some [OF assms(2), of E]
  by (auto simp: DIG_process_def dig_outputs_def al_view_def)

theorem outputs_blocked_witness:
  "\<exists>s'. DIG_process sample_env 0x02 (op_slave\<lparr>App_state := 1, ALevent := 0x400, world := (\<lambda>_. 7)\<rparr>) = Some s' \<and>
     omem s' = omem op_slave"
  using outputs_blocked [of "op_slave\<lparr>App_state := 1, ALevent := 0x400, world := (\<lambda>_. 7)\<rparr>" sample_env]
  by (auto simp: outputs_on_def)

lemma dig_outputs_mapped:
  assumes "outputs_on s" "ALevent s AND ESCREG_ALEVENT_SM2 \<noteq> 0" "unat (ESC_SM2_sml s) \<le> length (rxpdo s)"
    and "rxpdo_override E = None" "0 < MAX_MAPPINGS_SM2 (opt E)"
    and "sm2mappings s = int (length vs)" "SMmap2 s = layout E 0 vs @ rest"
    and "\<forall>v \<in> set vs. mapping_ok E s v \<and> target_ok E v" "sorted_wrt (apart E) vs"
    and "length (rxpdo s) = 8 * w" "sum_list (map entry_bits vs) \<le> 64 * w" "sum_list (map entry_bits vs) < 2 ^ 32"
  obtains u e s1 where "memory_only (s\<lparr>world := u, ALevent := e, rxpdo := handed E s\<rparr>) s1"
    "dig_outputs E s = Some (cb_apply_rxpdo E (s1\<lparr>watchdog := watchdogcnt s\<rparr>))"
    "\<And>i d. i < length vs \<Longrightarrow> mapped_objd E (vs ! i) = Some d \<Longrightarrow> COE_getValue d s1 =
       COE_bitsliceGet (handed E s) (of_nat (sum_list (map entry_bits (take i vs)))) (od_bitlength d)"
    "\<And>x. \<forall>v \<in> set vs. \<forall>d. mapped_objd E v = Some d \<longrightarrow> od_cells x \<inter> od_cells d = {} \<Longrightarrow>
       COE_getValue x s1 = COE_getValue x s"
proof -
  obtain u e where r: "read_rxpdo E s = Some (s\<lparr>world := u, ALevent := e, rxpdo := handed E s\<rparr>)"
    using read_rxpdo_some [OF assms(3)] by blast
  let ?r = "s\<lparr>world := u, ALevent := e, rxpdo := handed E s\<rparr>"
  have g: "COE_getValue d ?r = COE_getValue d s" "mapping_ok E ?r v = mapping_ok E s v" for d v
    by (rule getValue_cong mapping_ok_cong, simp)+
  have len: "length (handed E s) = 8 * w" using assms(3,10) by (simp add: handed_def Let_def)
  from unpack_layout [OF _ assms(9) len, of ?r 0] assms(8,11,12) g
  obtain s1 where s1: "unpack_entries E (handed E s) (layout E 0 vs) ?r = Some s1"
    "\<forall>i < length vs. \<forall>d. mapped_objd E (vs ! i) = Some d \<longrightarrow> COE_getValue d s1 =
       COE_bitsliceGet (handed E s) (of_nat (sum_list (map entry_bits (take i vs)))) (od_bitlength d)"
    "\<forall>e. (\<forall>v \<in> set vs. \<forall>d. mapped_objd E v = Some d \<longrightarrow> od_cells e \<inter> od_cells d = {}) \<longrightarrow>
       COE_getValue e s1 = COE_getValue e s" by auto
  have "rxpdo_read_sm2 E s = Some s1"
    using assms(4-7) r s1(1) by (simp add: rxpdo_read_sm2_def COE_pdoUnpack_def)
  moreover have m: "memory_only ?r s1" by (rule unpack_memory_only [OF s1(1)])
  then have "watchdogcnt s1 = watchdogcnt s" by (auto simp: memory_only_def)
  ultimately show thesis
    using that [OF m] assms(1,2) s1(2,3) by (simp add: dig_outputs_def)
qed

text \<open>
  C20. In OP the outputs of the master reach the application: when the chip signals SM2,
  every mapped variable takes the bits of its window in the image that the chip handed
  over, a variable that shares no cell with a mapped one keeps its value, the watchdog is
  rewound, and then the application's callback runs.
\<close>

theorem outputs_applied:
  assumes "outputs_on s" "ALevent s AND ESCREG_ALEVENT_SM2 \<noteq> 0" "unat (ESC_SM2_sml s) \<le> length (rxpdo s)"
    and "rxpdo_override E = None" "0 < MAX_MAPPINGS_SM2 (opt E)"
    and "sm2mappings s = int (length vs)" "SMmap2 s = layout E 0 vs @ rest"
    and "\<forall>v \<in> set vs. mapping_ok E s v \<and> target_ok E v" "sorted_wrt (apart E) vs"
    and "length (rxpdo s) = 8 * w" "sum_list (map entry_bits vs) \<le> 64 * w" "sum_list (map entry_bits vs) < 2 ^ 32"
  shows "\<exists>s'. DIG_process E 0x02 s = Some (cb_apply_rxpdo E s') \<and> watchdog s' = watchdogcnt s \<and>
    (\<forall>i < length vs. \<forall>d. mapped_objd E (vs ! i) = Some d \<longrightarrow> COE_getValue d s' =
       COE_bitsliceGet (handed E s) (of_nat (sum_list (map entry_bits (take i vs)))) (od_bitlength d)) \<and>
    (\<forall>e. (\<forall>v \<in> set vs. \<forall>d. mapped_objd E v = Some d \<longrightarrow> od_cells e \<inter> od_cells d = {}) \<longrightarrow>
       COE_getValue e s' = COE_getValue e s)"
proof -
  have g: "COE_getValue d (s1\<lparr>watchdog := i\<rparr>) = COE_getValue d s1" for d i and s1 :: "'a sys"
    by (rule getValue_cong) simp
  show ?thesis
  proof (rule dig_outputs_mapped [OF assms], goal_cases)
    case (1 u e s1)
    then show ?case
      by (intro exI [of _ "s1\<lparr>watchdog := watchdogcnt s\<rparr>"]) (simp add: DIG_process_def g)
  qed
qed

theorem outputs_applied_witness:
  "\<exists>s'. DIG_process sample_env 0x02 (op_slave\<lparr>ALevent := 0x400, world := (\<lambda>_. 7), sm2mappings := 2,
       SMmap2 := layout sample_env 0 [0x70000108, 0x70000210]\<rparr>) = Some s' \<and>
     COE_getValue (entry 2 6 16 0x7F 0 (Some (Obj 3, 0))) s' =
       COE_bitsliceGet (replicate 3 7 @ replicate 125 0) 8 16"
proof -
  let ?s = "op_slave\<lparr>ALevent := 0x400, world := (\<lambda>_. 7 :: u8), sm2mappings := 2,
       SMmap2 := layout sample_env 0 [0x70000108, 0x70000210]\<rparr>"
  have m: "block_bytes b ?s = block_bytes b ram_sys" for b by (cases b) (simp_all add: op_slave_def)
  have u: "[0..<3] = [0, 1, 2 :: nat]" by code_simp
  have e: "handed sample_env ?s = replicate 3 7 @ replicate 125 0"
    by (simp add: handed_def ram_read_def Let_def u) (simp add: numeral_eq_Suc)
  have c: "cb_apply_rxpdo sample_env s = s" "rxpdo_override sample_env = None" for s
    by (simp_all add: sample_env_def ram_env_def quiet_env_def)
  have o: "outputs_on ?s" by (simp add: outputs_on_def)
  have q: "mapping_ok sample_env ?s v = mapping_ok sample_env ram_sys v" for v
    by (rule mapping_ok_cong [OF m])
  from outputs_applied [OF o, of sample_env "[0x70000108, 0x70000210]" "[]" 16, OF _ _ c(2) _ _ _ _ sample_apart]
  show ?thesis
    by (auto simp: e c q sample_mapping_ok sample_targets_ok sample_mapped entry_bits_def default_options_def
        less_Suc_eq_0_disj simp del: layout.simps)
qed

lemma dig_inputs_mapped:
  assumes "App_state s > 0" and "s0 = cb_update_txpdo E s"
    and "txpdo_override E = None" "0 < MAX_MAPPINGS_SM3 (opt E)"
    and "sm3mappings s0 = int (length vs)" "SMmap3 s0 = layout E 0 vs @ rest"
    and "\<forall>v \<in> set vs. mapping_ok E s0 v" "unat (ESC_SM3_sml s0) \<le> length (txpdo s0)"
    and "length (txpdo s0) = 8 * w" "sum_list (map entry_bits vs) \<le> 64 * w" "sum_list (map entry_bits vs) < 2 ^ 32"
  obtains s' where "dig_inputs E s = Some s'" "omem s' = omem s0" "length (txpdo s') = length (txpdo s0)"
    "world s' = snd (hal_write E (of_nat (SM3_sma (opt E))) (take (unat (ESC_SM3_sml s0)) (txpdo s')) (world s0))"
    "\<And>i d val. i < length vs \<Longrightarrow> mapped_objd E (vs ! i) = Some d \<Longrightarrow> COE_getValue d s0 = Some val \<Longrightarrow>
       COE_bitsliceGet (txpdo s') (of_nat (sum_list (map entry_bits (take i vs)))) (od_bitlength d) =
         Some (take_bit (entry_bits (vs ! i)) val)"
proof -
  obtain img where img: "COE_pdoPack E (txpdo s0) (int (length vs)) (layout E 0 vs @ rest) s0 = Some img"
    "\<forall>i < length vs. \<forall>d val. mapped_objd E (vs ! i) = Some d \<longrightarrow> COE_getValue d s0 = Some val \<longrightarrow>
       COE_bitsliceGet img (of_nat (sum_list (map entry_bits (take i vs)))) (od_bitlength d) =
         Some (take_bit (entry_bits (vs ! i)) val)"
    using pack_layout [OF assms(7,9,10,11), of rest] by blast
  have "length img = length (txpdo s0)" by (rule pack_length [OF img(1)])
  then have "\<exists>s'. dig_inputs E s = Some s' \<and> omem s' = omem s0 \<and> length (txpdo s') = length (txpdo s0) \<and> txpdo s' = img \<and>
      world s' = snd (hal_write E (of_nat (SM3_sma (opt E))) (take (unat (ESC_SM3_sml s0)) img) (world s0))"
    using assms(1,3-6,8) img
    by (simp add: dig_inputs_def txpdo_write_sm3_def ESC_write_def case_prod_beta get_bytes_def flip: assms(2))
  with that img(2) show thesis by blast
qed

text \<open>
  The inputs of the application reach the master: from SAFEOP on, after the callback of
  the application, every mapped variable stands in the image that is written to the SM3
  area, cut to its bit length, in its window.
\<close>

theorem inputs_sent:
  assumes "App_state s > 0" and "s0 = cb_update_txpdo E s"
    and "txpdo_override E = None" "0 < MAX_MAPPINGS_SM3 (opt E)"
    and "sm3mappings s0 = int (length vs)" "SMmap3 s0 = layout E 0 vs @ rest"
    and "\<forall>v \<in> set vs. mapping_ok E s0 v" "unat (ESC_SM3_sml s0) \<le> length (txpdo s0)"
    and "length (txpdo s0) = 8 * w" "sum_list (map entry_bits vs) \<le> 64 * w" "sum_list (map entry_bits vs) < 2 ^ 32"
  shows "\<exists>s' img. DIG_process E 0x01 s = Some s' \<and> txpdo s' = img \<and>
    world s' = snd (hal_write E (of_nat (SM3_sma (opt E))) (take (unat (ESC_SM3_sml s0)) img) (world s0)) \<and>
    (\<forall>i < length vs. \<forall>d val. mapped_objd E (vs ! i) = Some d \<longrightarrow> COE_getValue d s0 = Some val \<longrightarrow>
       COE_bitsliceGet img (of_nat (sum_list (map entry_bits (take i vs)))) (od_bitlength d) =
         Some (take_bit (entry_bits (vs ! i)) val))"
proof -
  from dig_inputs_mapped [OF assms] obtain s' where "dig_inputs E s = Some s'" "omem s' = omem s0"
    "length (txpdo s') = length (txpdo s0)"
    "world s' = snd (hal_write E (of_nat (SM3_sma (opt E))) (take (unat (ESC_SM3_sml s0)) (txpdo s')) (world s0))"
    "\<And>i d val. i < length vs \<Longrightarrow> mapped_objd E (vs ! i) = Some d \<Longrightarrow> COE_getValue d s0 = Some val \<Longrightarrow>
       COE_bitsliceGet (txpdo s') (of_nat (sum_list (map entry_bits (take i vs)))) (od_bitlength d) =
         Some (take_bit (entry_bits (vs ! i)) val)"
    by blast
  then show ?thesis by (simp add: DIG_process_def)
qed

theorem inputs_sent_witness:
  "\<exists>s' img. DIG_process sample_env 0x01 (op_slave\<lparr>sm3mappings := 2,
       SMmap3 := layout sample_env 0 [0x60000108, 0x60000220]\<rparr>) = Some s' \<and> txpdo s' = img \<and>
     COE_bitsliceGet img 8 32 = Some 0"
proof -
  let ?s = "op_slave\<lparr>sm3mappings := 2, SMmap3 := layout sample_env 0 [0x60000108, 0x60000220]\<rparr>"
  have m: "block_bytes b ?s = block_bytes b ram_sys" for b by (cases b) (simp_all add: op_slave_def)
  have c: "cb_update_txpdo sample_env s = s" "txpdo_override sample_env = None" for s
    by (simp_all add: sample_env_def ram_env_def quiet_env_def)
  have q: "mapping_ok sample_env ?s v = mapping_ok sample_env ram_sys v" for v by (rule mapping_ok_cong [OF m])
  have g: "COE_getValue d ?s = COE_getValue d ram_sys" for d by (rule getValue_cong [OF m])
  have t: "ESC_SM3_sml ?s = 5" "length (txpdo op_slave) = 128"
    by (simp_all add: op_slave_def ram_sys_def init_sys_def default_options_def)
  from inputs_sent [of ?s ?s sample_env "[0x60000108, 0x60000220]" "[]" 16, OF _ _ c(2)] show ?thesis
    by (auto simp: c q g t sample_mapping_ok sample_mapped entry_bits_def default_options_def sample_value
        less_Suc_eq_0_disj all_conj_distrib simp del: layout.simps)
qed

end
