(* ===== verification/Eep_Props.thy ===== *)
theory Eep_Props
  imports Eep Sample_Slave
begin

text \<open>
  The properties of the EEPROM emulation.
\<close>

section \<open>One command\<close>

definition eep_ready :: "'w env \<Rightarrow> 'w sys \<Rightarrow> bool" where
  "eep_ready E s \<longleftrightarrow> length (eep_buf s) = 8 \<and> (eep_read_size s = 8 \<or> eep_read_size s = 4) \<and>
     eep_reload_ptr E = None \<and>
     (\<forall>a n s. length (eep_buf (snd (snd (EEP_read E a n s)))) = length (eep_buf s))"

text \<open>What the application answers to the command \<open>cmd\<close> on the word address, and the acknowledgement.\<close>

lemma eep_fetch_some:
  assumes "eep_ready E s" and "n \<le> 8"
  shows "\<exists>s'. eep_fetch E a n st s = Some (if fst (EEP_read E a n s) = 0 then st else set_ackErr st, s')"
proof -
  obtain r bs s1 where e: "EEP_read E a n s = (r, bs, s1)" by (metis prod_cases3)
  have l: "length (eep_buf s1) = 8"
    using assms(1) e unfolding eep_ready_def by (metis snd_conv)
  show ?thesis
    using assms(2) e l by (auto simp: eep_fetch_def put_bytes_def get_bytes_def ESC_write_def case_prod_beta)
qed

definition eep_verdict :: "'w env \<Rightarrow> eep_stat \<Rightarrow> 'w sys \<Rightarrow> int" where
  "eep_verdict E st s =
     (if eep_cmd (es_reg st) = EEP_CMD_IDLE then 0
      else if eep_cmd (es_reg st) = EEP_CMD_READ
      then fst (EEP_read E (es_addr st * 2) (unat (eep_read_size s)) s)
      else if eep_cmd (es_reg st) = EEP_CMD_RELOAD
      then (if eep_read_size s = 8 then fst (EEP_read E (es_addr st * 2) 8 s) else fst (EEP_read E 8 2 s))
      else if eep_cmd (es_reg st) = EEP_CMD_WRITE then
        (let d = fst (hal_read E ESCREG_EEDATA 2 (world s)) in
         fst (EEP_write E (es_addr st * 2) [d 0, d 1]
           (let r = hal_read E ESCREG_EEDATA 2 (world s) in s\<lparr>world := snd (snd r), ALevent := published (fst (snd r)) s,
              eep_buf := d 0 # d 1 # drop 2 (eep_buf s)\<rparr>)))
      else -1)"

lemma eep_command_some:
  assumes "eep_ready E s"
  shows "\<exists>s'. eep_command E st s = Some (if eep_verdict E st s = 0 then st else set_ackErr st, s')"
proof -
  have n: "unat (eep_read_size s) \<le> 8" using assms by (auto simp: eep_ready_def)
  have r: "\<exists>s'. eep_reload E st s = Some (if (if eep_read_size s = 8 then fst (EEP_read E (es_addr st * 2) 8 s)
      else fst (EEP_read E 8 2 s)) = 0 then st else set_ackErr st, s')"
    using assms eep_fetch_some [OF assms, of 8] eep_fetch_some [OF assms, of 2 8] by (auto simp: eep_reload_def eep_ready_def)
  have w: "\<exists>s'. eep_store E st s = Some (if (let d = fst (hal_read E ESCREG_EEDATA 2 (world s)) in
         fst (EEP_write E (es_addr st * 2) [d 0, d 1]
           (let r = hal_read E ESCREG_EEDATA 2 (world s) in s\<lparr>world := snd (snd r), ALevent := published (fst (snd r)) s,
              eep_buf := d 0 # d 1 # drop 2 (eep_buf s)\<rparr>))) = 0 then st else set_ackErr st, s')"
    using assms by (simp add: eep_ready_def eep_store_def ESC_read_def case_prod_beta put_bytes_def Let_def numeral_2_eq_2)
  show ?thesis
    using eep_fetch_some [OF assms n] r w by (simp add: eep_command_def eep_verdict_def)
qed

section \<open>Serving the chip\<close>

text \<open>
  The chip's side: writing the control register completes the command, so the register does
  not read busy afterwards.
\<close>

definition eep_completes :: "'w env \<Rightarrow> bool" where
  "eep_completes E \<longleftrightarrow> (\<forall>w bs f. f = fst (hal_read E ESCREG_EECONTSTAT 6 (snd (hal_write E ESCREG_EECONTSTAT bs w))) \<longrightarrow>
     \<not> eep_busy (rd16 [f 0, f 1]))"

text \<open>
  C26. A pending EEPROM command is served once and acknowledged: the control word that is
  written back has the error bits of the chip cleared, and the acknowledge error set exactly
  when the application's EEPROM refused or the command is unknown; then the handler returns.
\<close>

theorem eeprom_command_served:
  assumes "eep_ready E s" and "ALevent s AND ESCREG_ALEVENT_EEP \<noteq> 0" and "eep_completes E"
    and "x = hal_read E ESCREG_EECONTSTAT 6 (world s)" and "f = fst x"
    and "eep_busy (rd16 [f 0, f 1])"
    and "s0 = s\<lparr>world := snd (snd x), ALevent := published (fst (snd x)) s\<rparr>"
    and "st = \<lparr>es_reg = clear_errors (rd16 [f 0, f 1]), es_addr = rd32 [f 2, f 3, f 4, f 5]\<rparr>"
    and "ack = (if eep_verdict E st s0 = 0 then es_reg st else es_reg st OR 0x2000)"
  shows "\<exists>st' s1 s'. eep_command E st s0 = Some (st', s1) \<and> EEP_process E s = Some s' \<and>
    world s' = snd (snd (hal_read E ESCREG_EECONTSTAT 6 (snd (hal_write E ESCREG_EECONTSTAT (le16 ack) (world s1)))))"
proof -
  have r0: "eep_ready E s0" using assms(1,7) by (simp add: eep_ready_def)
  obtain s1 where c: "eep_command E st s0 = Some (if eep_verdict E st s0 = 0 then st else set_ackErr st, s1)"
    using eep_command_some [OF r0] by blast
  have a: "es_reg (if eep_verdict E st s0 = 0 then st else set_ackErr st) = ack"
    using assms(9) by (simp add: set_ackErr_def)
  let ?w = "snd (hal_write E ESCREG_EECONTSTAT (le16 ack) (world s1))"
  let ?y = "hal_read E ESCREG_EECONTSTAT 6 ?w"
  have quiet: "\<not> eep_busy (rd16 [fst ?y 0, fst ?y 1])"
    using assms(3) by (simp only: eep_completes_def) blast
  have rd: "eep_read_stat E s = Some (\<lparr>es_reg = rd16 [f 0, f 1], es_addr = es_addr st\<rparr>, s0)"
    using assms(4,5,7,8) by (simp add: eep_read_stat_def ESC_read_def case_prod_beta del: rd16.simps rd32.simps)
  obtain s2 where s2: "ESC_write E ESCREG_EECONTSTAT (le16 ack) s1 = Some s2" "world s2 = ?w"
    by (simp add: ESC_write_def case_prod_beta)
  obtain s' where s': "eep_read_stat E s2 = Some (\<lparr>es_reg = rd16 [fst ?y 0, fst ?y 1],
      es_addr = rd32 [fst ?y 2, fst ?y 3, fst ?y 4, fst ?y 5]\<rparr>, s')" "world s' = snd (snd ?y)"
    using s2(2) by (simp add: eep_read_stat_def ESC_read_def case_prod_beta del: rd16.simps rd32.simps)
  have last: "eep_loop E s2 = Some s'"
    using s' quiet by (subst eep_loop.simps) (simp del: rd16.simps rd32.simps)
  have "\<lparr>es_reg = rd16 [f 0, f 1], es_addr = es_addr st\<rparr>\<lparr>es_reg := clear_errors (rd16 [f 0, f 1])\<rparr> = st"
    using assms(8) by simp
  with assms(2,6) rd c a s2 last have "EEP_process E s = Some s'"
    unfolding EEP_process_def by (subst eep_loop.simps) (simp add: Let_def del: rd16.simps rd32.simps)
  with c s' show ?thesis by blast
qed

text \<open>A chip that clears its registers on a write, and an EEPROM of sevens.\<close>

definition eep_env :: "ram env" where
  "eep_env = sample_env\<lparr>hal_write := \<lambda>a bs w. (None, \<lambda>_. 0), EEP_read := \<lambda>a n s. (0, replicate n 7, s)\<rparr>"

lemma eep_env_ok: "eep_completes eep_env" "eep_ready eep_env (ram_sys\<lparr>ALevent := 0x20, world := w\<rparr>)"
  by (simp_all add: eep_completes_def eep_env_def ram_read_def eep_busy_def eep_ready_def sample_env_def ram_env_def quiet_env_def
      ram_sys_def init_sys_def)

theorem eeprom_command_served_witness:
  "\<exists>s'. EEP_process eep_env (ram_sys\<lparr>ALevent := 0x20, world := (\<lambda>_. 0)(0x0503 := 0x81)\<rparr>) = Some s'"
  using eeprom_command_served [OF eep_env_ok(2) _ eep_env_ok(1) refl refl _ refl refl refl, of "(\<lambda>_. 0)(0x0503 := 0x81)"]
  by (auto simp: eep_env_def ram_read_def eep_busy_def)

end
