(* ===== verification/Mbx_Cells.thy ===== *)
theory Mbx_Cells
  imports Esc_Pool
begin

text \<open>
  The bytes of the mailbox buffers as a function of buffer and offset. The rules (\<open>wpc\<close>)
  describe every access by that function, so that what a reply contains is computed by
  rewriting.
\<close>

definition cells :: "nat \<Rightarrow> bytes \<Rightarrow> nat \<Rightarrow> nat \<Rightarrow> u8" where
  "cells z m n i = (if n * z + z \<le> length m \<and> i < z then m ! (n * z + i) else 0)"

definition put_cells :: "nat \<Rightarrow> nat \<Rightarrow> bytes \<Rightarrow> (nat \<Rightarrow> nat \<Rightarrow> u8) \<Rightarrow> nat \<Rightarrow> nat \<Rightarrow> u8" where
  "put_cells n off bs c = (\<lambda>k i. if k = n \<and> off \<le> i \<and> i < off + length bs then bs ! (i - off) else c k i)"

lemma put_cells_at [simp]:
  "put_cells n off bs c k i = (if k = n \<and> off \<le> i \<and> i < off + length bs then bs ! (i - off) else c k i)"
  by (simp add: put_cells_def)

named_theorems wpc \<open>rules: ok Q (operation), with the contents of the buffers\<close>

lemma cells_put:
  assumes "put_bytes (n * z + off) bs m = Some m'" and "n * z + z \<le> length m" "off + length bs \<le> z"
  shows "cells z m' = put_cells n off bs (cells z m)"
proof (intro ext)
  fix k i
  have len: "length m' = length m" by (rule put_bytes_length [OF assms(1)])
  have other: "\<not> (n * z + off \<le> k * z + i \<and> k * z + i < n * z + off + length bs)" if "k \<noteq> n" "i < z"
  proof (cases "k < n")
    case True
    then have "Suc k * z \<le> n * z" by (intro mult_le_mono1) simp
    with that(2) show ?thesis by simp
  next
    case False
    with that(1) have "Suc n * z \<le> k * z" by (intro mult_le_mono1) simp
    with assms(3) show ?thesis by simp
  qed
  show "cells z m' k i = put_cells n off bs (cells z m) k i"
  proof (cases "k * z + z \<le> length m \<and> i < z")
    case True
    then have l: "k * z + i < length m" by linarith
    show ?thesis
    proof (cases "k = n")
      case True
      with \<open>k * z + z \<le> length m \<and> i < z\<close> show ?thesis
        using put_bytes_nth [OF assms(1) l] len by (auto simp: cells_def)
    next
      case False
      with \<open>k * z + z \<le> length m \<and> i < z\<close> other [OF False] show ?thesis
        using put_bytes_nth [OF assms(1) l] len by (auto simp: cells_def)
    qed
  next
    case False
    with assms(2,3) len show ?thesis by (auto simp: cells_def)
  qed
qed

lemma mbx_get_cells:
  assumes "has_room n s" "off + len \<le> activembxsize s"
  shows "mbx_get n off len s = Some (map (cells (activembxsize s) (MBX s) n) [off..<off + len])"
proof -
  have "take len (drop (n * activembxsize s + off) (MBX s)) = map (cells (activembxsize s) (MBX s) n) [off..<off + len]"
    using assms by (intro nth_equalityI) (auto simp: cells_def has_room_def add.assoc)
  with assms show ?thesis by (simp add: mbx_get_def get_bytes_def has_room_def)
qed

lemma mbx_words:
  fixes s :: "'w sys"
  assumes "has_room n s"
  shows "off < activembxsize s \<Longrightarrow> mbx_u8 n off s = Some (cells (activembxsize s) (MBX s) n off)"
    "off + 1 < activembxsize s \<Longrightarrow> mbx_u16 n off s =
       Some (rd16 [cells (activembxsize s) (MBX s) n off, cells (activembxsize s) (MBX s) n (off + 1)])"
    "off + 3 < activembxsize s \<Longrightarrow> mbx_u32 n off s =
       Some (rd32 [cells (activembxsize s) (MBX s) n off, cells (activembxsize s) (MBX s) n (off + 1),
         cells (activembxsize s) (MBX s) n (off + 2), cells (activembxsize s) (MBX s) n (off + 3)])"
  using assms
  by (simp_all add: mbx_u8_def mbx_u16_def mbx_u32_def mbx_get_cells upt_conv_Cons numeral_eq_Suc
      del: rd16.simps rd32.simps)

lemma wpc_mbx_put [wpc]:
  assumes "has_room n s" and "off + length bs \<le> activembxsize s"
    and "\<And>m. length m = length (MBX s) \<Longrightarrow>
      cells (activembxsize s) m = put_cells n off bs (cells (activembxsize s) (MBX s)) \<Longrightarrow> Q (s\<lparr>MBX := m\<rparr>)"
  shows "ok Q (mbx_put n off bs s)"
  using assms cells_put [of n "activembxsize s" off bs "MBX s"]
  by (intro wp_mbx_put) (simp_all add: has_room_def)

lemma wpc_mbx_u8 [wpc]:
  assumes "has_room n s" "off < activembxsize s" "Q (cells (activembxsize s) (MBX s) n off)"
  shows "ok Q (mbx_u8 n off s)"
  using assms by (simp add: mbx_words)

lemma wpc_mbx_u16 [wpc]:
  assumes "has_room n s" "off + 1 < activembxsize s"
    "Q (rd16 [cells (activembxsize s) (MBX s) n off, cells (activembxsize s) (MBX s) n (off + 1)])"
  shows "ok Q (mbx_u16 n off s)"
  using assms by (simp add: mbx_words del: rd16.simps)

lemma wpc_set_length [wpc]:
  assumes "has_room n s" "2 \<le> activembxsize s"
    and "\<And>m. length m = length (MBX s) \<Longrightarrow>
      cells (activembxsize s) m = put_cells n 0 (le16 len) (cells (activembxsize s) (MBX s)) \<Longrightarrow> Q (s\<lparr>MBX := m\<rparr>)"
  shows "ok Q (mbx_set_length n len s)"
  using assms by (auto simp: mbx_set_length_def intro!: wpc)

lemma wpc_set_type [wpc]:
  assumes "has_room n s" "6 \<le> activembxsize s"
    and "\<And>m. length m = length (MBX s) \<Longrightarrow>
      cells (activembxsize s) m = put_cells n 5 [(cells (activembxsize s) (MBX s) n 5 AND 0xF0) OR (t AND 0x0F)]
        (cells (activembxsize s) (MBX s)) \<Longrightarrow> Q (s\<lparr>MBX := m\<rparr>)"
  shows "ok Q (mbx_set_type n t s)"
  using assms by (auto simp: mbx_set_type_def intro!: wpc)

lemma wpc_set_cnt [wpc]:
  assumes "has_room n s" "6 \<le> activembxsize s"
    and "\<And>m. length m = length (MBX s) \<Longrightarrow>
      cells (activembxsize s) m = put_cells n 5 [(cells (activembxsize s) (MBX s) n 5 AND 0x0F) OR push_bit 4 (t AND 0x0F)]
        (cells (activembxsize s) (MBX s)) \<Longrightarrow> Q (s\<lparr>MBX := m\<rparr>)"
  shows "ok Q (mbx_set_cnt n t s)"
  using assms by (auto simp: mbx_set_cnt_def intro!: wpc)

text \<open>The buffer that the next reply takes, when there is one: the highest idle buffer.\<close>

definition reply_buffer :: "'w env \<Rightarrow> 'w sys \<Rightarrow> nat" where
  "reply_buffer E s = scan_down (\<lambda>n. MBXcontrol s n = MBXstate_idle) (last_buffer E)"

definition can_reply :: "'w env \<Rightarrow> 'w sys \<Rightarrow> bool" where
  "can_reply E s \<longleftrightarrow> mbx_inv E s \<and>
     (\<exists>i. 0 < i \<and> i < MBXBUFFERS (opt E) \<and> MBXcontrol s i = MBXstate_idle)"

lemma reply_buffer_idle:
  assumes "can_reply E s"
  shows "0 < reply_buffer E s" "reply_buffer E s < MBXBUFFERS (opt E)"
    "MBXcontrol s (reply_buffer E s) = MBXstate_idle" "has_room (reply_buffer E s) s"
proof -
  let ?p = "\<lambda>n. MBXcontrol s n = MBXstate_idle"
  have inv: "mbx_inv E s" using assms by (simp add: can_reply_def)
  have lb: "last_buffer E = MBXBUFFERS (opt E) - 1"
    using mbx_invD(5) [OF inv] by (rule last_buffer_eq)
  have nz: "scan_down ?p (last_buffer E) \<noteq> 0" using assms by (auto simp: scan_down_0 lb can_reply_def)
  then show "0 < reply_buffer E s" "MBXcontrol s (reply_buffer E s) = MBXstate_idle"
    using scan_down_sat [OF nz] by (simp_all add: reply_buffer_def)
  show n: "reply_buffer E s < MBXBUFFERS (opt E)"
    using scan_down_le [of ?p "last_buffer E"] mbx_invD(6) [OF inv] lb by (simp add: reply_buffer_def)
  with inv show "has_room (reply_buffer E s) s" by (simp add: mbx_inv_room)
qed

text \<open>It gets a clean header; the other buffers are untouched.\<close>

lemma wpc_claim_at:
  fixes s :: "'w sys"
  assumes r: "can_reply E s"
    and some: "\<And>m. length m = length (MBX s) \<Longrightarrow>
        (\<forall>k i. k \<noteq> reply_buffer E s \<longrightarrow> cells (activembxsize s) m k i = cells (activembxsize s) (MBX s) k i) \<Longrightarrow>
        Q (reply_buffer E s, s\<lparr>MBXcontrol := (MBXcontrol s)(reply_buffer E s := MBXstate_outclaim),
                  mbxcnt := next_mbxcnt (mbxcnt s), MBX := m, txcue := txcue s + 1\<rparr>)"
  shows "ok Q (ESC_claimbuffer E s)"
proof -
  have "16 \<le> activembxsize s" using r mbx_invD(3) by (auto simp: can_reply_def)
  then show ?thesis
    using reply_buffer_idle [OF r] some
    by (auto simp: ESC_claimbuffer_def set_mbxstate_def simp flip: reply_buffer_def intro!: wpc)
qed

lemma wpc_ESC_claimbuffer:
  fixes s :: "'w sys"
  assumes inv: "mbx_inv E s" and free: "\<exists>i. 0 < i \<and> i < MBXBUFFERS (opt E) \<and> MBXcontrol s i = MBXstate_idle"
    and some: "\<And>n m. 0 < n \<Longrightarrow> n < MBXBUFFERS (opt E) \<Longrightarrow> MBXcontrol s n = MBXstate_idle \<Longrightarrow>
           length m = length (MBX s) \<Longrightarrow> has_room n s \<Longrightarrow>
           (\<forall>k i. k \<noteq> n \<longrightarrow> cells (activembxsize s) m k i = cells (activembxsize s) (MBX s) k i) \<Longrightarrow>
           Q (n, s\<lparr>MBXcontrol := (MBXcontrol s)(n := MBXstate_outclaim),
                  mbxcnt := next_mbxcnt (mbxcnt s), MBX := m, txcue := txcue s + 1\<rparr>)"
  shows "ok Q (ESC_claimbuffer E s)"
proof -
  have r: "can_reply E s" using inv free by (simp add: can_reply_def)
  from reply_buffer_idle [OF r] show ?thesis by (intro wpc_claim_at [OF r] some)
qed

end
