(* ===== verification/Sdo_Spec.thy ===== *)
theory Sdo_Spec
  imports Coe_Sdo Mbx_Cells Sample_Slave Sub_Search
begin

text \<open>
  What a client of the SDO server relies on: the dictionary as a lookup, the form of a reply,
  and how the services answer a request in terms of the two.
\<close>

section \<open>The dictionary as a lookup\<close>

text \<open>
  The entry of an index and subindex among those that the object list declares, or the abort code
  that says what is missing.
\<close>

definition lookup :: "objectlist list \<Rightarrow> u16 \<Rightarrow> u8 \<Rightarrow> u32 + objd" where
  "lookup obs index sub = (case List.find (\<lambda>ob. ol_index ob = index) obs of
       None \<Rightarrow> Inl ABORT_NOOBJECT
     | Some ob \<Rightarrow> (case List.find (\<lambda>d. od_subindex d = to_u16 sub) (declared ob) of
           None \<Rightarrow> Inl ABORT_NOSUBINDEX
         | Some d \<Rightarrow> Inr d))"

lemma find_nth:
  assumes "n < length xs" "P (xs ! n)" "\<And>i. i < length xs \<Longrightarrow> P (xs ! i) \<Longrightarrow> i = n"
  shows "List.find P xs = Some (xs ! n)"
proof -
  have "\<not> P (xs ! j)" if "j < n" for j using assms(1) assms(3) [of j] that by auto
  with assms(1,2) show ?thesis by (auto simp: find_Some_iff)
qed

text \<open>The two searches compute it.\<close>

lemma find_unique:
  assumes "n < length xs" "key (xs ! n) = (k :: u16)" "sorted_wrt (\<lambda>x y. key x < key y) xs"
  shows "List.find (\<lambda>x. key x = k) xs = Some (xs ! n)"
proof (rule find_nth)
  show "i = n" if "i < length xs" "key (xs ! i) = k" for i
    using that assms sorted_wrt_nth_less [OF assms(3), of i n] sorted_wrt_nth_less [OF assms(3), of n i]
    by (cases i n rule: linorder_cases) auto
qed (use assms in auto)

lemma lookup_search:
  assumes wf: "sorted_dict (SDOobjects E)" and ix: "in_tables (SDOobjects E) index sub"
  obtains (no_object) "SDO_findobject E index = Some (-1)" "lookup (SDOobjects E) index sub = Inl ABORT_NOOBJECT"
  | (no_sub) n where "SDO_findobject E index = Some (int n)" "SDO_findsubindex E (int n) sub = Some (-1)"
      "lookup (SDOobjects E) index sub = Inl ABORT_NOSUBINDEX"
  | (found) n k ob d where "SDO_findobject E index = Some (int n)" "SDO_findsubindex E (int n) sub = Some (int k)"
      "obj_at E (int n) = Some ob" "at (ol_objdesc ob) k = Some d" "lookup (SDOobjects E) index sub = Inr d"
  using wf
proof (cases rule: SDO_findobject_result [where index = index])
  case missing
  then have "List.find (\<lambda>ob. ol_index ob = index) (SDOobjects E) = None" by (auto simp: find_None_iff)
  with missing show thesis by (intro no_object) (simp_all add: lookup_def)
next
  case (found n)
  let ?obs = "SDOobjects E" let ?ob = "?obs ! n"
  have ob: "List.find (\<lambda>ob. ol_index ob = index) ?obs = Some ?ob"
    using found wf by (intro find_unique) (auto simp: sorted_dict_def)
  have at: "obj_at E (int n) = Some ?ob" using found(2) by (simp add: obj_at_def at_def)
  have inside: "in_table ?ob sub" using found(2,3) ix by (auto simp: in_tables_def)
  show thesis using at inside
  proof (cases rule: SDO_findsubindex_result)
    case missing
    then have "od_subindex x \<noteq> to_u16 sub" if "x \<in> set (declared ?ob)" for x
      using imageI [OF that, of od_subindex] by auto
    then have "List.find (\<lambda>d. od_subindex d = to_u16 sub) (declared ?ob) = None" by (simp add: find_None_iff)
    with missing ob found(1) show ?thesis by (intro no_sub) (simp_all add: lookup_def)
  next
    case (found k)
    have "sorted_wrt (\<lambda>x y. od_subindex x < od_subindex y) (declared ?ob)"
      using inside by (simp add: in_table_def declared_def sorted_wrt_take)
    with found have "List.find (\<lambda>d. od_subindex d = to_u16 sub) (declared ?ob) = Some (declared ?ob ! k)"
      by (intro find_unique)
    moreover have "at (ol_objdesc ?ob) k = Some (declared ?ob ! k)"
      using found(2) by (simp add: declared_def at_def)
    ultimately show ?thesis
      using ob at found \<open>SDO_findobject E index = Some (int n)\<close>
      by (intro that(3)) (auto simp: lookup_def)
  qed
qed

section \<open>Requests and replies\<close>

text \<open>The request in buffer 0, and a buffer for the reply.\<close>

definition sdo_request :: "'w env \<Rightarrow> 'w sys \<Rightarrow> u16 \<Rightarrow> u8 \<Rightarrow> bool" where
  "sdo_request E s index sub \<longleftrightarrow> mbx_inv E s \<and> mbx_u16 0 9 s = Some index \<and> mbx_u8 0 11 s = Some sub \<and>
     (\<exists>i. 0 < i \<and> i < MBXBUFFERS (opt E) \<and> MBXcontrol s i = MBXstate_idle)"

text \<open>A reply queued in buffer \<open>n\<close>: its header, and the request handed back.\<close>

definition sdo_reply :: "'w sys \<Rightarrow> nat \<Rightarrow> u16 \<Rightarrow> u8 \<Rightarrow> u16 \<Rightarrow> u8 \<Rightarrow> bool" where
  "sdo_reply s n service command index sub \<longleftrightarrow>
     0 < n \<and> MBXcontrol s n = MBXstate_outreq \<and> mbx_type n s = Some MBXCOE \<and>
     mbx_u16 n 6 s = Some (push_bit 12 service) \<and> mbx_u8 n 8 s = Some command \<and>
     mbx_u16 n 9 s = Some index \<and> mbx_u8 n 11 s = Some sub"

definition sdo_done :: "'w sys \<Rightarrow> bool" where
  "sdo_done s \<longleftrightarrow> MBXcontrol s 0 = MBXstate_idle \<and> xoe s = 0"

definition sdo_aborted :: "'w env \<Rightarrow> 'w sys \<Rightarrow> u16 \<Rightarrow> u8 \<Rightarrow> u32 \<Rightarrow> bool" where
  "sdo_aborted E s index sub code \<longleftrightarrow> (\<exists>n < MBXBUFFERS (opt E).
     sdo_reply s n COE_SDOREQUEST COE_COMMAND_SDOABORT index sub \<and>
     mbx_length n s = Some 10 \<and> mbx_u32 n 12 s = Some code)"

subsection \<open>Words in a buffer\<close>

lemma rd16_bytes [simp]: "rd16 [le16 w ! 0, le16 w ! Suc 0] = w" "rd16 [to_u8 w, to_u8 (drop_bit 8 w)] = w"
  using rd16_le16' [of w] by (simp_all add: le16_def del: rd16_le16')

lemma rd32_bytes [simp]: "rd32 [le32 w ! 0, le32 w ! Suc 0, le32 w ! 2, le32 w ! 3] = w"
  using rd32_le32' [of w] by (simp add: le32_def del: rd32_le32')

text \<open>The nested writes of a reply, read back: reads are literal offsets.\<close>

lemmas cell_simps = put_cells_at mbx_words mbx_length_def mbx_type_def

lemma type_nibble [simp]: "(b AND 0xF0 OR t) AND 0x0F = t AND 0x0F" for b t :: u8
  by (simp add: bit.conj_disj_distrib2 and.assoc)

lemma wpc_sdo_fields [wpc]:
  fixes s :: "'w sys"
  assumes "has_room n s" "16 \<le> activembxsize s" "0 < n"
    and Q: "\<And>s' m. s' = s\<lparr>MBX := m, MBXcontrol := (MBXcontrol s)(n := MBXstate_outreq)\<rparr> \<Longrightarrow> length m = length (MBX s) \<Longrightarrow>
      sdo_reply s' n service command index sub \<Longrightarrow> mbx_length n s' = Some 10 \<Longrightarrow>
      mbx_u32 n 12 s' = Some len \<Longrightarrow> Q s'"
  shows "ok Q (sdo_fields n service index sub command len s)"
  using assms(1-3)
  by (auto simp: sdo_fields_def set_mbxstate_def intro!: wpc Q [OF refl])
    (auto simp: sdo_reply_def cell_simps simp del: rd16.simps rd32.simps)

subsection \<open>Refusals\<close>

lemma request_inv: "sdo_request E s index sub \<Longrightarrow> mbx_inv E s"
  by (simp add: sdo_request_def)

text \<open>An abort leaves the rest of the stack alone.\<close>

lemma wpc_SDO_abort:
  fixes s :: "'w sys"
  assumes r: "sdo_request E s i j"
    and Q: "\<And>s'. sdo_aborted E s' index sub code \<Longrightarrow> mbx_frame s s' \<Longrightarrow> sdo_aborted E (request_done s') index sub code \<Longrightarrow> Q s'"
  shows "ok Q (SDO_abort E 0 index sub code s)"
proof -
  have inv: "mbx_inv E s" and free: "\<exists>i. 0 < i \<and> i < MBXBUFFERS (opt E) \<and> MBXcontrol s i = MBXstate_idle"
    using r by (simp_all add: sdo_request_def)
  have z: "16 \<le> activembxsize s" using mbx_invD(3) [OF inv] .
  have w: "mbx_u8 n off (request_done s') = mbx_u8 n off s'" "mbx_u16 n off (request_done s') = mbx_u16 n off s'"
    "mbx_u32 n off (request_done s') = mbx_u32 n off s'" for n off and s' :: "'w sys"
    by (simp_all add: mbx_u8_def mbx_u16_def mbx_u32_def mbx_get_def request_done_def set_mbxstate_def)
  have fin: "sdo_reply s' n svc cmd index sub \<Longrightarrow> mbx_length n s' = Some 10 \<Longrightarrow> mbx_u32 n 12 s' = Some code \<Longrightarrow>
      n < MBXBUFFERS (opt E) \<Longrightarrow> svc = COE_SDOREQUEST \<Longrightarrow> cmd = COE_COMMAND_SDOABORT \<Longrightarrow>
      sdo_aborted E s' index sub code \<and> sdo_aborted E (request_done s') index sub code" for n svc cmd s'
    by (auto simp: sdo_aborted_def sdo_reply_def mbx_length_def mbx_type_def w) (auto simp: request_done_def set_mbxstate_def)
  show ?thesis
    unfolding SDO_abort_def using z
    by (auto intro!: wpc_ESC_claimbuffer [OF inv free] wpc dest!: fin intro: Q)
qed

section \<open>Short values\<close>

text \<open>Entries whose value lies in the application's memory, or is a constant.\<close>

definition in_app :: "objd \<Rightarrow> bool" where
  "in_app d \<longleftrightarrow> fst (od_source d) \<noteq> Mbx \<and> fst (od_source d) \<noteq> Mbxdata"

lemma mem_get_upd [simp]:
  "fst p \<noteq> Mbx \<Longrightarrow> mem_get p n (s\<lparr>MBX := m\<rparr>) = mem_get p n s"
  "mem_get p n (s\<lparr>MBXcontrol := c\<rparr>) = mem_get p n s"
  "mem_get p n (s\<lparr>mbxcnt := k\<rparr>) = mem_get p n s"
  "mem_get p n (s\<lparr>txcue := t\<rparr>) = mem_get p n s"
  by (cases "fst p"; simp add: mem_get_def)+

text \<open>The size of a short value, as the client finds it in the command of the reply.\<close>

definition command_size :: "u8 \<Rightarrow> nat" where
  "command_size c = 4 - unat (drop_bit 2 (c AND 0x0C))"

lemma short_value:
  assumes "0 < bits" "bits \<le> 32"
  shows "bits2bytes bits = (unat bits + 7) div 8" "bits2bytes bits \<le> 4"
    "drop_bit 3 (bits + 7) \<le> 4" "bits2bytes bits = command_size (0x43 OR upload_dss bits)"
proof -
  have b: "0 < unat bits" "unat bits \<le> 32" using assms by (simp_all add: word_le_nat_alt word_less_nat_alt)
  then have "unat (bits + 7) = unat bits + 7" by (simp add: unat_word_ariths)
  then show n: "bits2bytes bits = (unat bits + 7) div 8"
    by (simp add: bits2bytes_def unat_drop_bit_eq) (simp add: drop_bit_eq_div)
  with b show le: "bits2bytes bits \<le> 4" by simp
  then show "drop_bit 3 (bits + 7) \<le> 4" by (simp add: bits2bytes_def word_le_nat_alt)
  have "24 < bits \<longleftrightarrow> 24 < unat bits" "16 < bits \<longleftrightarrow> 16 < unat bits" "8 < bits \<longleftrightarrow> 8 < unat bits"
    by (simp_all add: word_less_nat_alt)
  with n b show "bits2bytes bits = command_size (0x43 OR upload_dss bits)"
    by (auto simp: command_size_def upload_dss_def)
qed

lemma upload_command [simp]: "0x41 OR (0x02 OR x) = 0x43 OR (x :: u8)"
  by (simp flip: or.assoc)

lemma map_put_cells: "k \<le> length xs \<Longrightarrow> map (put_cells n off xs c n) [off..<off + k] = take k xs"
  by (intro nth_equalityI) auto

lemma sent_simps [simp]:
  "MBX (request_done s) = MBX s" "activembxsize (request_done s) = activembxsize s"
  "MBXcontrol (request_done s) = (MBXcontrol s)(0 := MBXstate_idle)"
  "has_room n (request_done s) = has_room n s" "omem (request_done s) = omem s" "sdo_done (request_done s)"
  "MBX (set_mbxstate n v s) = MBX s" "activembxsize (set_mbxstate n v s) = activembxsize s"
  "MBXcontrol (set_mbxstate n v s) = (MBXcontrol s)(n := v)" "omem (set_mbxstate n v s) = omem s"
  "has_room k (set_mbxstate n v s) = has_room k s"
  by (simp_all add: request_done_def set_mbxstate_def has_room_def sdo_done_def)

lemma wpc_upload_expedited:
  fixes s :: "'w sys"
  assumes r: "sdo_request E s index sub" and d: "0 < od_bitlength d" "od_bitlength d \<le> 32" "in_app d"
    and h: "pre_object_upload_hook E = None" "post_object_upload_hook E = None"
    and g: "mem_get (od_source d) (bits2bytes (od_bitlength d)) s = Some bs"
    and Q: "\<And>n s'. sdo_reply s' n COE_SDORESPONSE (0x43 OR upload_dss (od_bitlength d)) index sub \<Longrightarrow>
      mbx_length n s' = Some 10 \<Longrightarrow> mbx_get n 12 (length bs) s' = Some bs \<Longrightarrow> sdo_done s' \<Longrightarrow> omem s' = omem s \<Longrightarrow> Q s'"
  shows "ok Q (upload_entry E index sub d s)"
proof -
  have inv: "mbx_inv E s" and free: "\<exists>i. 0 < i \<and> i < MBXBUFFERS (opt E) \<and> MBXcontrol s i = MBXstate_idle"
    using r by (simp_all add: sdo_request_def)
  have z: "16 \<le> activembxsize s" using mbx_invD(3) [OF inv] .
  have g': "mem_get (od_source d) (unat (drop_bit 3 (od_bitlength d + 7))) s = Some bs" "length bs \<le> 4"
    using g short_value(2) [OF d(1,2)] by (auto simp: bits2bytes_def mem_get_def dest: get_bytes_length)
  note short = short_value(3) [OF d(1,2)]
  note defs = upload_expedited_def ESC_upload_pre_objecthandler_def ESC_upload_post_objecthandler_def or_command_def
  note cells = sdo_reply_def cell_simps mbx_get_cells map_put_cells
  show ?thesis
  proof (cases "od_data d")
    case None
    then have bs: "bs = take (length bs) (le32 (od_value d))"
      using g' by (auto simp: od_source_def mem_get_def get_bytes_def split: if_splits)
    show ?thesis
      unfolding upload_entry_def Let_def ok_bind
      by (rule wpc_ESC_claimbuffer [OF inv free])
        (use z g' h short None in \<open>auto simp: defs in_app_def intro!: wpc Q\<close>,
         auto simp: cells simp flip: bs simp del: rd16.simps rd32.simps)
  next
    case (Some p)
    then have g2: "mem_get p (unat (drop_bit 3 (od_bitlength d + 7))) s = Some bs" "fst p \<noteq> Mbx"
      using g' d(3) by (auto simp: od_source_def in_app_def)
    show ?thesis
      unfolding upload_entry_def Let_def ok_bind
      by (rule wpc_ESC_claimbuffer [OF inv free])
        (use z g' h short Some g2 in \<open>auto simp: defs in_app_def intro!: wpc Q\<close>,
         auto simp: cells simp del: rd16.simps rd32.simps)
  qed
qed

text \<open>Objects outside the PDO configuration, for which a download has no further condition.\<close>

definition plain_index :: "u16 \<Rightarrow> bool" where
  "plain_index index \<longleftrightarrow> \<not> (IS_RXPDO index \<or> IS_TXPDO index \<or> index = RX_PDO_OBJIDX \<or> index = TX_PDO_OBJIDX)"

lemma command_size_word: "4 - drop_bit 2 (to_u32 (c AND 0x0C)) = (of_nat (command_size c) :: u32)"
proof -
  have "c AND 0x0C \<le> 0x0C" by (rule word_and_le1)
  then have "unat (c AND 0x0C) \<le> 12" by (simp add: word_le_nat_alt)
  moreover have "unat (drop_bit 2 (c AND 0x0C)) = unat (c AND 0x0C) div 4"
    by (simp only: unat_drop_bit_eq) (simp add: drop_bit_eq_div)
  ultimately have le: "unat (drop_bit 2 (c AND 0x0C)) \<le> 3" by linarith
  have "drop_bit 2 (to_u32 x) = to_u32 (drop_bit 2 x)" for x :: u8
    by (rule bit_word_eqI) (auto simp: bit_simps dest: bit_imp_le_length)
  then have "drop_bit 2 (to_u32 (c AND 0x0C)) = to_u32 (drop_bit 2 (c AND 0x0C))" .
  also have "\<dots> = of_nat (unat (drop_bit 2 (c AND 0x0C)))" by simp
  finally show ?thesis using le by (simp add: command_size_def of_nat_diff)
qed

lemma pool_upd [simp]:
  "mbx_inv E (s\<lparr>segmented := v\<rparr>) = mbx_inv E s" "mbx_inv E (s\<lparr>omem := om\<rparr>) = mbx_inv E s"
  "mbx_inv E (s\<lparr>data_v := p\<rparr>) = mbx_inv E s" "mbx_inv E (s\<lparr>frags := n\<rparr>) = mbx_inv E s"
  "mbx_inv E (s\<lparr>fragsleft := n\<rparr>) = mbx_inv E s" "mbx_inv E (s\<lparr>flags_v := f\<rparr>) = mbx_inv E s"
  by (simp_all add: mbx_inv_def pool_inv_def mbx_ready_def)

lemma wpc_download_expedited:
  fixes s :: "'w sys"
  assumes r: "sdo_request E s index sub" and d: "0 < od_bitlength d" "od_bitlength d \<le> 32" "od_data d = Some (Obj b, off)"
    and h: "pre_object_download_hook E = None" "post_object_download_hook E = None" and ix: "plain_index index \<or> sub = 0"
    and c: "mbx_u8 0 8 s = Some c" "c AND 0x02 \<noteq> 0" "command_size c = bits2bytes (od_bitlength d)"
    and bs: "mbx_get 0 12 (command_size c) s = Some bs" and put: "put_bytes off bs (omem s b) = Some m"
    and Q: "\<And>n s'. sdo_reply s' n COE_SDORESPONSE COE_COMMAND_DOWNLOADRESPONSE index sub \<Longrightarrow>
      mbx_length n s' = Some 10 \<Longrightarrow> omem s' = (omem s)(b := m) \<Longrightarrow> Q s'"
  shows "ok Q (download_entry E index sub d s)"
proof -
  have inv: "mbx_inv E s" and free: "\<exists>i. 0 < i \<and> i < MBXBUFFERS (opt E) \<and> MBXcontrol s i = MBXstate_idle"
    using r by (simp_all add: sdo_request_def)
  have z: "16 \<le> activembxsize s" "has_room 0 s" using mbx_invD(3,4) [OF inv] by auto
  have len: "unat (of_nat (command_size c) :: u32) = command_size c"
    by (simp add: unat_of_nat command_size_def take_bit_nat_eq_self)
  have le4: "command_size c \<le> 4" by (simp only: command_size_def diff_le_self)
  have act: "drop_bit 3 (od_bitlength d + 7) = of_nat (command_size c)"
    using c(3) len by (simp add: word_unat_eq_iff bits2bytes_def)
  have pre: "ESC_download_pre_objecthandler E index sub p k f s = Some (0, s)" for p k f
    using h ix by (auto simp: ESC_download_pre_objecthandler_def plain_index_def)
  have data: "download_data c s = Some (of_nat (command_size c), (Mbx, 12))"
    using c(2) by (simp add: download_data_def command_size_word)
  have fits: "download_length_ok d (of_nat (command_size c)) s = Some (True, s)"
    using act by (simp add: download_length_ok_def)
  obtain mlen where mlen: "mbx_length 0 s = Some mlen"
    using z by (simp add: mbx_length_def mbx_words)
  have nb: "\<not> beyond_message (of_nat (command_size c)) mlen"
    by (simp add: beyond_message_def word_less_nat_alt len not_less le4)
  have g: "mem_get (Mbx, 12) (command_size c) (s\<lparr>segmented := 0\<rparr>) = Some bs"
    using bs by (simp add: mem_get_def mbx_get_def)
  let ?s = "s\<lparr>segmented := 0, omem := (omem s)(b := m)\<rparr>"
  have inv': "mbx_inv E ?s" using inv by simp
  have free': "\<exists>i. 0 < i \<and> i < MBXBUFFERS (opt E) \<and> MBXcontrol ?s i = MBXstate_idle" using free by simp
  have "ok Q (download_store E index sub d (of_nat (command_size c)) (Mbx, 12) s)"
    unfolding download_store_def
    apply (simp add: mlen nb d(3) g len mem_put_def put)
    apply (rule wpc_ESC_claimbuffer [OF inv' free'])
    using z h
    apply (auto simp: ESC_download_post_objecthandler_def intro!: wpc Q)
    done
  then show ?thesis
    by (simp add: download_entry_def c(1) data fits pre)
qed

end
