(* ===== verification/Sdo_Props.thy ===== *)
theory Sdo_Props
  imports Sdo_Spec
begin

text \<open>
  The properties of the SDO server: what a client gets back for each request, and what the
  request does to the object variables. They hold for a sorted dictionary (\<open>sorted_dict\<close>) and a
  request that it can take (\<open>in_tables\<close>), which on every dictionary excludes the index \<open>0xFFFF\<close>, and
  over the entries that the object list declares; \<open>sentinel_request_crashes\<close> is about the rest.
\<close>

section \<open>Refused requests\<close>

lemma frame_omem: "mbx_frame s s' \<Longrightarrow> omem s' = omem s"
  by (rule mbx_frameD)

lemma ok_abort_done:
  assumes "sdo_request E s index sub"
  shows "ok (\<lambda>s'. sdo_aborted E s' index sub code \<and> sdo_done s' \<and> omem s' = omem s)
    (do { s \<leftarrow> SDO_abort E 0 index sub code s; Some (request_done s) })"
  by (simp, rule wpc_SDO_abort [OF assms]) (simp add: frame_omem)

text \<open>
  An upload that cannot be answered is refused with the right code. The reply is an SDO
  abort for the requested index and subindex: object missing, subindex missing, or, for an
  entry that is there but not readable in the current state, write only; the request is
  done with and no object variable changes.
\<close>

theorem sdo_upload_refused:
  assumes "sorted_dict (SDOobjects E)" and "sdo_request E s index sub" and "in_tables (SDOobjects E) index sub"
    and "(case lookup (SDOobjects E) index sub of Inl c \<Rightarrow> code = c
       | Inr d \<Rightarrow> \<not> READ_ACCESS (od_access d) (al_low s) \<and> code = 0x06010001)"
  shows "\<exists>s'. SDO_upload E s = Some s' \<and> sdo_aborted E s' index sub code \<and> sdo_done s' \<and> omem s' = omem s"
proof -
  have f: "mbx_u16 0 9 s = Some index" "mbx_u8 0 11 s = Some sub" using assms(2) by (simp_all add: sdo_request_def)
  let ?abort = "\<lambda>c. do { s \<leftarrow> SDO_abort E 0 index sub c s; Some (request_done s) }"
  have "SDO_upload E s = ?abort code"
    using assms(1,3)
  proof (cases rule: lookup_search [where sub = sub])
    case no_object
    with f assms(4) show ?thesis by (simp add: SDO_upload_def)
  next
    case (no_sub n)
    with f assms(4) show ?thesis by (simp add: SDO_upload_def)
  next
    case (found n k ob d)
    with f assms(4) show ?thesis by (simp add: SDO_upload_def set_state_idle_def)
  qed
  with ok_abort_done [OF assms(2), of code] show ?thesis by (auto simp: ok_ex)
qed

text \<open>
  C28. A download that is not allowed changes nothing. For a request that the dictionary can take
  (\<open>in_tables\<close>: any index but \<open>0xFFFF\<close>, and no subindex for which the search would read behind the
  table of a short object): for a missing object or subindex, or an entry that is not writable in
  the current state (read only, or writable in another one), the client gets the abort code that
  says so, and no object variable changes. On a complete dictionary these are all requests but
  those for \<open>0xFFFF\<close>; on that of the drive, all but those and the ones from subindex 6 on of
  \<open>0x1C32\<close> and \<open>0x1C33\<close>.
\<close>

theorem sdo_download_refused:
  assumes "sorted_dict (SDOobjects E)" and "sdo_request E s index sub" and "in_tables (SDOobjects E) index sub"
    and "(case lookup (SDOobjects E) index sub of Inl c \<Rightarrow> code = c
       | Inr d \<Rightarrow> \<not> WRITE_ACCESS (od_access d) (al_low s) \<and>
           code = (if od_access d = ATYPE_RO then 0x06010002 else 0x08000022))"
  shows "\<exists>s'. SDO_download E s = Some s' \<and> sdo_aborted E s' index sub code \<and> sdo_done s' \<and> omem s' = omem s"
proof -
  have f: "mbx_u16 0 9 s = Some index" "mbx_u8 0 11 s = Some sub" using assms(2) by (simp_all add: sdo_request_def)
  let ?abort = "\<lambda>c. do { s \<leftarrow> SDO_abort E 0 index sub c s; Some (request_done s) }"
  have "SDO_download E s = ?abort code"
    using assms(1,3)
  proof (cases rule: lookup_search [where sub = sub])
    case no_object
    with f assms(4) show ?thesis by (simp add: SDO_download_def)
  next
    case (no_sub n)
    with f assms(4) show ?thesis by (simp add: SDO_download_def)
  next
    case (found n k ob d)
    with f assms(4) show ?thesis by (simp add: SDO_download_def)
  qed
  with ok_abort_done [OF assms(2), of code] show ?thesis by (auto simp: ok_ex)
qed

section \<open>A sample request\<close>

definition request_sys :: "bytes \<Rightarrow> ram sys" where
  "request_sys bs = ram_sys\<lparr>MBX := bs @ replicate (384 - length bs) 0, xoe := 3, ALstatus := 2,
     MBXcontrol := (\<lambda>_. MBXstate_idle)(0 := MBXstate_inclaim)\<rparr>"

text \<open>Length 10, address 0, CoE, SDO request, then command, index, subindex and four bytes of data.\<close>

definition sdo_message :: "u8 \<Rightarrow> u16 \<Rightarrow> u8 \<Rightarrow> bytes \<Rightarrow> bytes" where
  "sdo_message cmd index sub bs = [10, 0, 0, 0, 0, 0x13, 0, 0x20, cmd] @ le16 index @ [sub] @ bs"

lemma sample_request:
  assumes "length bs = 4"
  shows "sdo_request sample_env (request_sys (sdo_message cmd index sub bs)) index sub"
    "mbx_u8 0 8 (request_sys (sdo_message cmd index sub bs)) = Some cmd"
    "mbx_get 0 12 4 (request_sys (sdo_message cmd index sub bs)) = Some bs"
proof -
  let ?s = "request_sys (sdo_message cmd index sub bs)"
  have "mbx_inv sample_env ?s"
    using assms sample_inv
    by (simp add: mbx_inv_def mbx_ready_def pool_inv_def pool_ok_def queued_def request_sys_def sdo_message_def
        ram_sys_def init_sys_def default_options_def)
  moreover have "mbx_u16 0 9 ?s = Some index" "mbx_u8 0 11 ?s = Some sub"
    using assms
    by (simp_all add: mbx_u16_def mbx_u8_def mbx_get_def get_bytes_def request_sys_def sdo_message_def le16_def
        del: rd16.simps)
  moreover have "MBXcontrol ?s 1 = MBXstate_idle" "1 < MBXBUFFERS (opt sample_env)"
    by (simp_all add: request_sys_def default_options_def)
  ultimately show "sdo_request sample_env ?s index sub"
    unfolding sdo_request_def by (metis zero_less_one)
  show "mbx_u8 0 8 ?s = Some cmd" "mbx_get 0 12 4 ?s = Some bs"
    using assms
    by (simp_all add: mbx_u8_def mbx_get_def get_bytes_def request_sys_def sdo_message_def le16_def)
qed

lemma sample_in_tables:
  "sorted_dict sample_objects" "index \<noteq> 0xFFFF \<Longrightarrow> in_tables sample_objects index sub"
  using wf_dict_sorted [OF wf_sample] wf_dict_in_tables [OF wf_sample] by simp_all

lemma sample_lookup:
  "lookup sample_objects 0x8000 0 = Inr (entry 0 7 32 0x3F 5 (Some (Obj 5, 0)))"
  "lookup sample_objects 0x8001 0 = Inl 0x06020000"
  by (simp_all add: lookup_def declared_def sample_objects_def object_def entry_def)

lemma sample_fields [simp]:
  "al_low (request_sys m) = 2" "omem (request_sys m) b = replicate 8 0"
  "pre_object_upload_hook sample_env = None" "post_object_upload_hook sample_env = None"
  "pre_object_download_hook sample_env = None" "post_object_download_hook sample_env = None"
  by (simp_all add: al_low_def request_sys_def ram_sys_def init_sys_def sample_env_def ram_env_def quiet_env_def)

theorem sdo_upload_refused_witness:
  "\<exists>s'. SDO_upload sample_env (request_sys (sdo_message 0x40 0x8001 0 [0, 0, 0, 0])) = Some s' \<and>
     sdo_aborted sample_env s' 0x8001 0 0x06020000"
  using sdo_upload_refused [where E = sample_env and s = "request_sys (sdo_message 0x40 0x8001 0 [0, 0, 0, 0])" and index = "0x8001" and sub = 0 and code = "0x06020000"]
    sample_in_tables sample_request(1) [of "[0, 0, 0, 0]"] by (auto simp: sample_in_tables sample_lookup)

theorem sdo_download_refused_witness:
  "\<exists>s'. SDO_download sample_env (request_sys (sdo_message 0x23 0x8001 0 [1, 2, 3, 4])) = Some s' \<and>
     sdo_aborted sample_env s' 0x8001 0 0x06020000"
  using sdo_download_refused [where E = sample_env and s = "request_sys (sdo_message 0x23 0x8001 0 [1, 2, 3, 4])" and index = "0x8001" and sub = 0 and code = "0x06020000"]
    sample_in_tables sample_request(1) [of "[1, 2, 3, 4]"] by (auto simp: sample_in_tables sample_lookup)

text \<open>
  C27. A request for index \<open>0xFFFF\<close> brings the slave down. The search by index takes the sentinel
  that ends the object list for an object, and upload and download then follow its NULL
  description, whatever the subindex: neither has a result.
\<close>

theorem sentinel_request_crashes:
  assumes "SDOobjects E = body @ [z]" "ol_index z = 0xFFFF" "ol_objdesc z = []" "ol_maxsub z = 0xFF"
    and "\<forall>ob \<in> set body. ol_index ob < 0xFFFF" and "sdo_request E s 0xFFFF sub"
  shows "SDO_findobject E 0xFFFF = Some (int (length body)) \<and> SDO_upload E s = None \<and> SDO_download E s = None"
proof -
  have f: "mbx_u16 0 9 s = Some 0xFFFF" "mbx_u8 0 11 s = Some sub" using assms(6) by (simp_all add: sdo_request_def)
  have "find_index (body @ [z]) 0xFFFF n = Some (n + int (length body))" for n
    using assms(2,5) by (induction body arbitrary: n) (auto simp: find_index.simps)
  then have o: "SDO_findobject E 0xFFFF = Some (int (length body))"
    by (simp add: SDO_findobject_def assms(1))
  have "sub \<le> 0xFF" using unat_bound [of sub] by (simp add: word_le_nat_alt)
  then have "SDO_findsubindex E (int (length body)) sub = None"
    by (simp add: SDO_findsubindex_def obj_at_def at_def assms search_sub_def)
  with o f show ?thesis by (simp add: SDO_upload_def SDO_download_def)
qed

theorem sentinel_request_crashes_witness:
  "SDO_upload sample_env (request_sys (sdo_message 0x40 0xFFFF 3 [0, 0, 0, 0])) = None"
proof -
  have "SDOobjects sample_env = butlast sample_objects @ [last sample_objects]" by (simp add: sample_objects_def)
  from sentinel_request_crashes [OF this _ _ _ _ sample_request(1) [of "[0, 0, 0, 0]"], of "0x40" 3] show ?thesis
    by (simp add: sample_objects_def object_def)
qed

section \<open>Expedited transfers\<close>

lemma lookup_ok:
  assumes "sorted_dict (SDOobjects E)" "sdo_request E s index sub" "in_tables (SDOobjects E) index sub" "lookup (SDOobjects E) index sub = Inr d"
  shows "READ_ACCESS (od_access d) (al_low s) \<Longrightarrow> SDO_upload E s = upload_entry E index sub d s"
    "WRITE_ACCESS (od_access d) (al_low s) \<Longrightarrow>
       SDO_download E s = do { s \<leftarrow> download_entry E index sub d s; Some (request_done s) }"
proof -
  have f: "mbx_u16 0 9 s = Some index" "mbx_u8 0 11 s = Some sub" using assms(2) by (simp_all add: sdo_request_def)
  obtain n k ob where "SDO_findobject E index = Some (int n)" "SDO_findsubindex E (int n) sub = Some (int k)"
      "obj_at E (int n) = Some ob" "at (ol_objdesc ob) k = Some d"
    using assms(1,3) by (cases rule: lookup_search [where sub = sub]) (use assms(4) in auto)
  with f show "READ_ACCESS (od_access d) (al_low s) \<Longrightarrow> SDO_upload E s = upload_entry E index sub d s"
    "WRITE_ACCESS (od_access d) (al_low s) \<Longrightarrow>
       SDO_download E s = do { s \<leftarrow> download_entry E index sub d s; Some (request_done s) }"
    by (simp_all add: SDO_upload_def SDO_download_def)
qed

text \<open>
  C29. Reading a short value: for an entry of up to 32 bits that is readable in the current
  state, the client gets one expedited reply with the number of bytes of the entry in its
  command and the bytes of the variable (or of the constant) as data; the request is done
  with and no object variable changes.
\<close>

theorem sdo_upload_value:
  assumes "sorted_dict (SDOobjects E)" and "sdo_request E s index sub" and "in_tables (SDOobjects E) index sub"
    and "lookup (SDOobjects E) index sub = Inr d" "READ_ACCESS (od_access d) (al_low s)"
    and "0 < od_bitlength d" "od_bitlength d \<le> 32" "in_app d"
    and "pre_object_upload_hook E = None" "post_object_upload_hook E = None"
    and "mem_get (od_source d) (bits2bytes (od_bitlength d)) s = Some bs"
  shows "\<exists>s' n cmd. SDO_upload E s = Some s' \<and> sdo_reply s' n 3 cmd index sub \<and>
    cmd AND 0xF3 = 0x43 \<and> command_size cmd = length bs \<and> mbx_length n s' = Some 10 \<and>
    mbx_get n 12 (length bs) s' = Some bs \<and> sdo_done s' \<and> omem s' = omem s"
proof -
  let ?cmd = "0x43 OR upload_dss (od_bitlength d)"
  have len: "command_size ?cmd = length bs"
    using assms(11) short_value(4) [OF assms(6,7)] by (auto simp: mem_get_def dest: get_bytes_length)
  have mask: "?cmd AND 0xF3 = 0x43" by (simp add: upload_dss_def)
  have "ok (\<lambda>s'. \<exists>n. sdo_reply s' n 3 ?cmd index sub \<and> mbx_length n s' = Some 10 \<and>
      mbx_get n 12 (length bs) s' = Some bs \<and> sdo_done s' \<and> omem s' = omem s) (SDO_upload E s)"
    unfolding lookup_ok(1) [OF assms(1-5)]
    by (rule wpc_upload_expedited [OF assms(2,6-11)]) blast
  with len mask show ?thesis by (auto simp: ok_ex)
qed

lemma four: "Suc (Suc (Suc (Suc 0))) = 4"
  by simp

lemma sample_source:
  "od_source (entry 0 7 32 0x3F 5 (Some (Obj 5, 0))) = (Obj 5, 0)" "bits2bytes 32 = 4"
  "mem_get (Obj 5, 0) 4 (request_sys m) = Some [0, 0, 0, 0]"
proof -
  have "replicate 4 (0 :: u8) = [0, 0, 0, 0]" by code_simp
  then show "mem_get (Obj 5, 0) 4 (request_sys m) = Some [0, 0, 0, 0]" by (simp add: mem_get_def get_bytes_def)
qed (simp_all add: od_source_def entry_def bits2bytes_def)

theorem sdo_upload_value_witness:
  "\<exists>s' n cmd. SDO_upload sample_env (request_sys (sdo_message 0x40 0x8000 0 [0, 0, 0, 0])) = Some s' \<and>
     sdo_reply s' n 3 cmd 0x8000 0 \<and> mbx_get n 12 4 s' = Some [0, 0, 0, 0]"
  using sdo_upload_value [where E = sample_env and s = "request_sys (sdo_message 0x40 0x8000 0 [0, 0, 0, 0])" and index = "0x8000" and sub = 0
      and d = "entry 0 7 32 0x3F 5 (Some (Obj 5, 0))" and bs = "[0, 0, 0, 0]"]
    sample_in_tables sample_request(1) [of "[0, 0, 0, 0]"]
  by (auto simp: sample_in_tables sample_lookup entry_def READ_ACCESS_def od_access_def in_app_def four sample_source [unfolded entry_def])

lemma reply_done [simp]:
  "mbx_length n (request_done s) = mbx_length n s"
  "sdo_reply (request_done s) n svc cmd index sub = sdo_reply s n svc cmd index sub"
proof -
  have w: "mbx_u8 n off (request_done s) = mbx_u8 n off s" "mbx_u16 n off (request_done s) = mbx_u16 n off s" for off
    by (simp_all add: mbx_u8_def mbx_u16_def mbx_get_def request_done_def set_mbxstate_def)
  show "mbx_length n (request_done s) = mbx_length n s" by (simp add: mbx_length_def w)
  show "sdo_reply (request_done s) n svc cmd index sub = sdo_reply s n svc cmd index sub"
    by (auto simp: sdo_reply_def mbx_type_def w)
qed

lemma download_stores:
  assumes "sorted_dict (SDOobjects E)" and "sdo_request E s index sub" and "in_tables (SDOobjects E) index sub"
    and "lookup (SDOobjects E) index sub = Inr d" "WRITE_ACCESS (od_access d) (al_low s)"
    and "0 < od_bitlength d" "od_bitlength d \<le> 32" "od_data d = Some (Obj b, off)"
    and "pre_object_download_hook E = None" "post_object_download_hook E = None"
    and "plain_index index \<or> sub = 0"
    and "mbx_u8 0 8 s = Some cmd" "cmd AND 0x02 \<noteq> 0" "command_size cmd = bits2bytes (od_bitlength d)"
    and "mbx_get 0 12 (command_size cmd) s = Some bs" "off + command_size cmd \<le> length (omem s b)"
  shows "\<exists>s' n. SDO_download E s = Some s' \<and> sdo_reply s' n 3 0x60 index sub \<and> mbx_length n s' = Some 10 \<and>
    sdo_done s' \<and> mem_get (Obj b, off) (length bs) s' = Some bs \<and>
    (\<forall>c o2 k. c \<noteq> b \<or> o2 + k \<le> off \<or> off + length bs \<le> o2 \<longrightarrow>
       mem_get (Obj c, o2) k s' = mem_get (Obj c, o2) k s)"
proof -
  have len: "length bs = command_size cmd" using assms(15) by (auto simp: mbx_get_def dest: get_bytes_length)
  obtain m where m: "put_bytes off bs (omem s b) = Some m"
    using assms(16) len bs.wr_bounds [of off bs "omem s b"] by auto
  have "ok (\<lambda>s'. \<exists>n. sdo_reply s' n 3 0x60 index sub \<and> mbx_length n s' = Some 10 \<and> sdo_done s' \<and>
      omem s' = (omem s)(b := m)) (SDO_download E s)"
    unfolding lookup_ok(2) [OF assms(1-5)] ok_bind
    by (rule wpc_download_expedited [OF assms(2,6-12,13-15) m]) auto
  then obtain s' n where "SDO_download E s = Some s'" "sdo_reply s' n 3 0x60 index sub" "mbx_length n s' = Some 10"
    "sdo_done s'" "omem s' = (omem s)(b := m)" by (auto simp: ok_ex)
  then show ?thesis
    using get_put_same [OF m] get_put_disjoint [OF m]
    by (intro exI [of _ s'] exI [of _ n]) (auto simp: mem_get_def)
qed

text \<open>
  C30. Writing a short value: an expedited download whose announced size is that of the entry,
  to an entry that is writable in the current state, is confirmed with one download response
  and stores exactly the bytes of the request in the variable: what lies elsewhere in the
  memory of the application is unchanged.
\<close>

theorem sdo_download_value:
  assumes "sorted_dict (SDOobjects E)" and "sdo_request E s index sub" and "in_tables (SDOobjects E) index sub"
    and "lookup (SDOobjects E) index sub = Inr d" "WRITE_ACCESS (od_access d) (al_low s)"
    and "0 < od_bitlength d" "od_bitlength d \<le> 32" "od_data d = Some (Obj b, off)"
    and "pre_object_download_hook E = None" "post_object_download_hook E = None"
    and "plain_index index \<or> sub = 0"
    and "mbx_u8 0 8 s = Some cmd" "cmd AND 0x02 \<noteq> 0" "command_size cmd = bits2bytes (od_bitlength d)"
    and "mbx_get 0 12 (command_size cmd) s = Some bs" "off + command_size cmd \<le> length (omem s b)"
  shows "\<exists>s' n. SDO_download E s = Some s' \<and> sdo_reply s' n 3 0x60 index sub \<and> mbx_length n s' = Some 10 \<and>
    sdo_done s' \<and> mem_get (Obj b, off) (length bs) s' = Some bs \<and>
    (\<forall>c o2 k. c \<noteq> b \<or> o2 + k \<le> off \<or> off + length bs \<le> o2 \<longrightarrow>
       mem_get (Obj c, o2) k s' = mem_get (Obj c, o2) k s)"
  by (rule download_stores [OF assms])

lemma sample_download:
  "sorted_dict (SDOobjects sample_env)" "plain_index 0x8000" "command_size 0x23 = 4" "command_size 0x27 = 3"
  "od_bitlength (entry 0 7 32 0x3F 5 (Some (Obj 5, 0))) = 32"
  "od_data (entry 0 7 32 0x3F 5 (Some (Obj 5, 0))) = Some (Obj 5, 0)"
  "READ_ACCESS (od_access (entry 0 7 32 0x3F 5 (Some (Obj 5, 0)))) 2"
  "WRITE_ACCESS (od_access (entry 0 7 32 0x3F 5 (Some (Obj 5, 0)))) 2"
  by (simp_all add: sample_in_tables plain_index_def IS_RXPDO_def IS_TXPDO_def command_size_def entry_def
      READ_ACCESS_def WRITE_ACCESS_def od_access_def)

lemma sample_written:
  "\<exists>s' n. SDO_download sample_env (request_sys (sdo_message 0x23 0x8000 0 [1, 2, 3, 4])) = Some s' \<and>
     sdo_reply s' n 3 0x60 0x8000 0 \<and> mem_get (Obj 5, 0) 4 s' = Some [1, 2, 3, 4]"
proof -
  have l: "length [1, 2, 3, 4 :: u8] = 4" by simp
  from download_stores [OF sample_download(1) sample_request(1) [OF l], where cmd = "0x23" and index = "0x8000" and
      sub = 0 and d = "entry 0 7 32 0x3F 5 (Some (Obj 5, 0))" and b = 5 and off = 0 and bs = "[1, 2, 3, 4]"]
  show ?thesis
    by (auto simp: sample_in_tables sample_lookup sample_download sample_request [OF l] sample_source four)
qed

theorem sdo_download_value_witness:
  "\<exists>s' n. SDO_download sample_env (request_sys (sdo_message 0x23 0x8000 0 [1, 2, 3, 4])) = Some s' \<and>
     sdo_reply s' n 3 0x60 0x8000 0 \<and> mem_get (Obj 5, 0) 4 s' = Some [1, 2, 3, 4]"
proof -
  have l: "length [1, 2, 3, 4 :: u8] = 4" by simp
  from sdo_download_value [OF sample_download(1) sample_request(1) [OF l], where cmd = "0x23" and index = "0x8000" and
      sub = 0 and d = "entry 0 7 32 0x3F 5 (Some (Obj 5, 0))" and b = 5 and off = 0 and bs = "[1, 2, 3, 4]"]
  show ?thesis
    by (auto simp: sample_in_tables sample_lookup sample_download sample_request [OF l] sample_source four)
qed

text \<open>
  C31. What a client writes it reads back: after such a download, in any later state where the
  application's memory is as the download left it, an upload of the same entry delivers the
  bytes that were written.
\<close>

theorem sdo_write_read:
  assumes "sorted_dict (SDOobjects E)" and "sdo_request E s index sub" and "in_tables (SDOobjects E) index sub"
    and "lookup (SDOobjects E) index sub = Inr d" "WRITE_ACCESS (od_access d) (al_low s)"
    and "0 < od_bitlength d" "od_bitlength d \<le> 32" "od_data d = Some (Obj b, off)"
    and "pre_object_download_hook E = None" "post_object_download_hook E = None"
    and "pre_object_upload_hook E = None" "post_object_upload_hook E = None"
    and "plain_index index \<or> sub = 0"
    and "mbx_u8 0 8 s = Some cmd" "cmd AND 0x02 \<noteq> 0" "command_size cmd = bits2bytes (od_bitlength d)"
    and "mbx_get 0 12 (command_size cmd) s = Some bs" "off + command_size cmd \<le> length (omem s b)"
    and "SDO_download E s = Some t" "omem u = omem t" "sdo_request E u index sub"
    and "READ_ACCESS (od_access d) (al_low u)"
  shows "\<exists>s' n. SDO_upload E u = Some s' \<and> sdo_reply s' n 3 (0x43 OR upload_dss (od_bitlength d)) index sub \<and>
    mbx_get n 12 (length bs) s' = Some bs"
proof -
  have len: "length bs = bits2bytes (od_bitlength d)"
    using assms(16,17) by (auto simp: mbx_get_def dest: get_bytes_length)
  have src: "od_source d = (Obj b, off)" "in_app d" using assms(8) by (simp_all add: od_source_def in_app_def)
  from download_stores [OF assms(1-8) assms(9,10) assms(13-18)] assms(19)
  have "mem_get (Obj b, off) (length bs) t = Some bs" by auto
  then have g: "mem_get (od_source d) (bits2bytes (od_bitlength d)) u = Some bs"
    using assms(20) len src by (simp add: mem_get_def)
  have "ok (\<lambda>s'. \<exists>n. sdo_reply s' n 3 (0x43 OR upload_dss (od_bitlength d)) index sub \<and> mbx_get n 12 (length bs) s' = Some bs)
     (SDO_upload E u)"
    unfolding lookup_ok(1) [OF assms(1) assms(21) assms(3,4) assms(22)]
    by (rule wpc_upload_expedited [OF assms(21) assms(6,7) src(2) assms(11,12) g]) blast
  then show ?thesis by (auto simp: ok_ex)
qed

theorem sdo_write_read_witness:
  "\<exists>t s' n. SDO_download sample_env (request_sys (sdo_message 0x23 0x8000 0 [1, 2, 3, 4])) = Some t \<and>
     SDO_upload sample_env ((request_sys (sdo_message 0x40 0x8000 0 [0, 0, 0, 0]))\<lparr>omem := omem t\<rparr>) = Some s' \<and>
     mbx_get n 12 4 s' = Some [1, 2, 3, 4]"
proof -
  have l: "length [1, 2, 3, 4 :: u8] = 4" "length [0, 0, 0, 0 :: u8] = 4" by simp_all
  obtain t where t: "SDO_download sample_env (request_sys (sdo_message 0x23 0x8000 0 [1, 2, 3, 4])) = Some t"
    using sample_written by blast
  let ?u = "(request_sys (sdo_message 0x40 0x8000 0 [0, 0, 0, 0]))\<lparr>omem := omem t\<rparr>"
  have u: "sdo_request sample_env ?u 0x8000 0" "al_low ?u = 2"
    using sample_request(1) [OF l(2), of "0x40" "0x8000" 0] sample_fields(1) [of "sdo_message 0x40 0x8000 0 [0, 0, 0, 0]"]
    by (simp_all add: sdo_request_def mbx_u8_def mbx_u16_def mbx_get_def al_low_def)
  from sdo_write_read [OF sample_download(1) sample_request(1) [OF l(1)], where cmd = "0x23" and index = "0x8000" and
      sub = 0 and d = "entry 0 7 32 0x3F 5 (Some (Obj 5, 0))" and b = 5 and off = 0 and bs = "[1, 2, 3, 4]" and t = t and u = ?u]
  show ?thesis
    using t u by (auto simp: sample_in_tables sample_lookup sample_download sample_request [OF l(1)] sample_source four)
qed

text \<open>
  A value of the wrong size is refused before it is stored: when the announced size is not
  that of the entry, and the entry is not a string or an array type of flexible length, the
  client gets a type mismatch and no object variable changes.
\<close>

theorem sdo_size_mismatch_refused:
  assumes "sorted_dict (SDOobjects E)" and "sdo_request E s index sub" and "in_tables (SDOobjects E) index sub"
    and "lookup (SDOobjects E) index sub = Inr d" "WRITE_ACCESS (od_access d) (al_low s)"
    and "mbx_u8 0 8 s = Some cmd" "download_data cmd s = Some (len, src)"
    and "len \<noteq> drop_bit 3 (od_bitlength d + 7)"
    and "od_datatype d \<notin> {0x0009, 0x000A, 0x000B, 0x0260, 0x0261, 0x0262, 0x0263}"
  shows "\<exists>s'. SDO_download E s = Some s' \<and> sdo_aborted E s' index sub 0x06070010 \<and> sdo_done s' \<and> omem s' = omem s"
proof -
  have "SDO_download E s = do { s \<leftarrow> SDO_abort E 0 index sub 0x06070010 s; Some (request_done s) }"
    using assms(6-9) unfolding lookup_ok(2) [OF assms(1-5)]
    by (auto simp: download_entry_def download_length_ok_def)
  with ok_abort_done [OF assms(2), of "0x06070010"] show ?thesis by (auto simp: ok_ex)
qed

theorem sdo_size_mismatch_refused_witness:
  "\<exists>s'. SDO_download sample_env (request_sys (sdo_message 0x27 0x8000 0 [1, 2, 3, 4])) = Some s' \<and>
     sdo_aborted sample_env s' 0x8000 0 0x06070010"
proof -
  have l: "length [1, 2, 3, 4 :: u8] = 4" by simp
  have d: "download_data 0x27 (request_sys m) = Some (3, (Mbx, 12))" for m by (simp add: download_data_def)
  from sdo_size_mismatch_refused [OF sample_download(1) sample_request(1) [OF l], where cmd = "0x27" and index = "0x8000" and
      sub = 0 and d = "entry 0 7 32 0x3F 5 (Some (Obj 5, 0))" and len = 3 and src = "(Mbx, 12)"]
  show ?thesis
    by (auto simp: sample_in_tables sample_lookup sample_download sample_request [OF l] d) (auto simp: entry_def)
qed

end
