(* ===== verification/Sdo_Segments.thy ===== *)
theory Sdo_Segments
  imports Sdo_Props
begin

text \<open>
  Segmented uploads: the client that collects the segments, and what every segment carries.
\<close>

section \<open>The client\<close>

text \<open>
  What the client reads out of the segment in buffer \<open>n\<close>: a length of ten stands for up to
  seven bytes, of which the command says how many are missing.
\<close>

definition client_segment :: "nat \<Rightarrow> 'w sys \<Rightarrow> bytes option" where
  "client_segment n s = do {
     len \<leftarrow> mbx_length n s;
     c \<leftarrow> mbx_u8 n 8 s;
     let k = (if unat len = 10 then 7 - unat (drop_bit 1 c AND 7) else unat len - 3);
     mbx_get n 9 k s
   }"

text \<open>
  The client asks for segments until the server ends the transfer. What happens between two
  requests (the reply is posted and read, the next request arrives) is the parameter
  \<open>between\<close>; \<open>k\<close> bounds the number of requests.
\<close>

fun collect :: "'w env \<Rightarrow> ('w sys \<Rightarrow> 'w sys) \<Rightarrow> nat \<Rightarrow> 'w sys \<Rightarrow> bytes option" where
  "collect E between 0 s = (if segmented s = 0 then Some [] else None)"
| "collect E between (Suc k) s =
     (if segmented s = 0 then Some []
      else do {
        let t = between s;
        u \<leftarrow> SDO_uploadsegment E t;
        seg \<leftarrow> client_segment (reply_buffer E t) u;
        rest \<leftarrow> collect E between k u;
        Some (seg @ rest)
      })"

definition same_transfer :: "'w sys \<Rightarrow> 'w sys \<Rightarrow> bool" where
  "same_transfer s t \<longleftrightarrow> segmented t = segmented s \<and> frags t = frags s \<and> fragsleft t = fragsleft s \<and>
     data_v t = data_v s \<and> omem t = omem s \<and> mbxdata t = mbxdata s \<and> activembxsize t = activembxsize s"

definition undisturbed :: "'w env \<Rightarrow> ('w sys \<Rightarrow> 'w sys) \<Rightarrow> bool" where
  "undisturbed E between \<longleftrightarrow> (\<forall>s. mbx_ready E s \<longrightarrow> can_reply E (between s) \<and> same_transfer s (between s))"

section \<open>Sizes\<close>

lemma mbx_size_bound: "mbx_ready E s \<Longrightarrow> activembxsize s < 65536"
  by (auto simp: mbx_ready_def valid_opts_def)

lemma MBXDSIZE_eq:
  assumes "mbx_ready E s"
  shows "unat (ESC_MBXDSIZE s) = activembxsize s - 6"
proof -
  have z: "16 \<le> activembxsize s" "activembxsize s < 65536" using assms mbx_size_bound by (auto simp: mbx_ready_def)
  then have "unat (of_nat (activembxsize s) :: u32) = activembxsize s" by (simp add: unat_of_nat take_bit_nat_eq_self)
  with z show ?thesis by (simp add: ESC_MBXDSIZE_def unat_sub word_le_nat_alt)
qed

section \<open>One segment\<close>

lemma segment_command:
  "drop_bit (Suc 0) (t AND 0x10 OR 0x01) AND 0x07 = (0 :: u8)" "drop_bit (Suc 0) (t AND 0x10) AND 0x07 = (0 :: u8)"
  by (simp_all add: bit.conj_disj_distrib2 and.assoc)

lemma short_command:
  assumes "k < 7"
  shows "unat (drop_bit (Suc 0) (t AND 0x10 OR 0x01 OR to_u8 (push_bit 1 (7 - of_nat k :: u32))) AND 0x07) = 7 - k"
proof -
  have "k = 0 \<or> k = 1 \<or> k = 2 \<or> k = 3 \<or> k = 4 \<or> k = 5 \<or> k = 6" using assms by linarith
  then show ?thesis by (elim disjE) (simp_all add: bit.conj_disj_distrib2 and.assoc)
qed

lemma mem_get_sub:
  assumes "mem_get p f s = Some data" and "l + k \<le> f"
  shows "mem_get (ptr_add p l) k s = Some (take k (drop l data))"
  using assms by (auto simp: mem_get_def get_bytes_def ptr_add_def add.commute drop_take min_absorb1 split: if_splits)

text \<open>The length of the next segment, as 32 bits.\<close>

lemma segment_size:
  assumes r: "mbx_ready E s" and "unat (fragsleft s) \<le> unat (frags s)" "unat (frags s) < 2 ^ 31"
  shows "unat (frags s - fragsleft s) = unat (frags s) - unat (fragsleft s)"
    "ESC_MBXDSIZE s < frags s - fragsleft s + 3 \<longleftrightarrow> activembxsize s - 9 < unat (frags s) - unat (fragsleft s)"
    "unat (ESC_MBXDSIZE s - 3) = activembxsize s - 9"
    "unat (to_u16 (3 + (ESC_MBXDSIZE s - 3))) = activembxsize s - 6"
    "unat (frags s) - unat (fragsleft s) \<le> activembxsize s - 9 \<Longrightarrow>
       unat (to_u16 (3 + (frags s - fragsleft s))) = unat (frags s) - unat (fragsleft s) + 3"
proof -
  have z: "16 \<le> activembxsize s" "activembxsize s < 65536" using r mbx_size_bound by (auto simp: mbx_ready_def)
  note d = MBXDSIZE_eq [OF r]
  show n: "unat (frags s - fragsleft s) = unat (frags s) - unat (fragsleft s)"
    using assms(2) by (simp add: unat_sub word_le_nat_alt)
  then have n3: "unat (frags s - fragsleft s + 3) = unat (frags s) - unat (fragsleft s) + 3"
    using assms(3) by (simp add: unat_word_ariths)
  then show "ESC_MBXDSIZE s < frags s - fragsleft s + 3 \<longleftrightarrow> activembxsize s - 9 < unat (frags s) - unat (fragsleft s)"
    using d z by (auto simp: word_less_nat_alt)
  show m: "unat (ESC_MBXDSIZE s - 3) = activembxsize s - 9"
    using d z by (simp add: unat_sub word_le_nat_alt)
  show "unat (to_u16 (3 + (ESC_MBXDSIZE s - 3))) = activembxsize s - 6"
    using d z by (simp add: take_bit_nat_eq_self)
  show "unat (to_u16 (3 + (frags s - fragsleft s))) = unat (frags s) - unat (fragsleft s) + 3"
    if "unat (frags s) - unat (fragsleft s) \<le> activembxsize s - 9"
    using that n3 z by (simp add: take_bit_nat_eq_self add.commute)
qed

text \<open>The length and the command in a buffer, as the client finds them.\<close>

definition head_is :: "nat \<Rightarrow> bytes \<Rightarrow> nat \<Rightarrow> u16 \<Rightarrow> u8 \<Rightarrow> bool" where
  "head_is z m n len c \<longleftrightarrow> rd16 [cells z m n 0, cells z m n 1] = len \<and> cells z m n 8 = c"

lemma wpc_init_coesdo [wpc]:
  assumes "has_room n s" "16 \<le> activembxsize s"
    and "\<And>m. length m = length (MBX s) \<Longrightarrow> head_is (activembxsize s) m n 10 cmd \<Longrightarrow> Q (s\<lparr>MBX := m\<rparr>)"
  shows "ok Q (init_coesdo n svc cmd index sub s)"
  using assms(1,2)
  by (auto simp: init_coesdo_def intro!: wpc assms(3)) (simp add: head_is_def del: rd16.simps)

lemma wpc_or_command:
  assumes "has_room n s" "16 \<le> activembxsize s" "head_is (activembxsize s) (MBX s) n len c"
    and "\<And>m. length m = length (MBX s) \<Longrightarrow> head_is (activembxsize s) m n len (c OR x) \<Longrightarrow> Q (s\<lparr>MBX := m\<rparr>)"
  shows "ok Q (or_command n x s)"
  using assms(1-3)
  by (auto simp: or_command_def intro!: wpc assms(4)) (simp add: head_is_def del: rd16.simps)

lemma wpc_head_length:
  assumes "has_room n s" "16 \<le> activembxsize s" "head_is (activembxsize s) (MBX s) n len c"
    and "\<And>m. length m = length (MBX s) \<Longrightarrow> head_is (activembxsize s) m n l c \<Longrightarrow> Q (s\<lparr>MBX := m\<rparr>)"
  shows "ok Q (mbx_set_length n l s)"
  using assms(1-3)
  by (auto intro!: wpc assms(4)) (simp add: head_is_def del: rd16.simps)

lemma wpc_segment_last:
  assumes "has_room n s" "16 \<le> activembxsize s" "head_is (activembxsize s) (MBX s) n 10 c"
    and "\<not> len + 3 > ESC_MBXDSIZE s"
    and Q: "\<And>m. length m = length (MBX s) \<Longrightarrow>
      head_is (activembxsize s) m n (if len \<ge> 7 then to_u16 (3 + len) else 10)
        (if len \<ge> 7 then c OR 0x01 else c OR 0x01 OR to_u8 (push_bit 1 (7 - len))) \<Longrightarrow>
      Q (len, s\<lparr>segmented := 0, frags := 0, fragsleft := 0, MBX := m\<rparr>)"
  shows "ok Q (upload_segment_reply n len s)"
proof -
  let ?s = "s\<lparr>segmented := 0, frags := 0, fragsleft := 0\<rparr>"
  have r: "has_room n ?s" "head_is (activembxsize ?s) (MBX ?s) n 10 c" "16 \<le> activembxsize ?s"
    using assms(1-3) by (simp_all add: has_room_def)
  show ?thesis
    unfolding upload_segment_reply_def Let_def
    using assms(4)
    by (auto simp: or.assoc intro!: wpc_or_command [OF r(1,3,2)])
      (auto simp: or.assoc has_room_def r [simplified has_room_def, simplified] intro!: wpc_or_command wpc_head_length Q)
qed

lemma wpc_segment_more:
  assumes "has_room n s" "16 \<le> activembxsize s" "head_is (activembxsize s) (MBX s) n 10 c"
    and "len + 3 > ESC_MBXDSIZE s"
    and Q: "\<And>m. length m = length (MBX s) \<Longrightarrow>
      head_is (activembxsize s) m n (to_u16 (3 + (ESC_MBXDSIZE s - 3))) c \<Longrightarrow>
      Q (ESC_MBXDSIZE s - 3, s\<lparr>fragsleft := fragsleft s + (ESC_MBXDSIZE s - 3), MBX := m\<rparr>)"
  shows "ok Q (upload_segment_reply n len s)"
proof -
  let ?s = "s\<lparr>fragsleft := fragsleft s + (ESC_MBXDSIZE s - 3)\<rparr>"
  have r: "has_room n ?s" "head_is (activembxsize ?s) (MBX ?s) n 10 c" "16 \<le> activembxsize ?s"
    using assms(1-3) by (simp_all add: has_room_def)
  show ?thesis
    unfolding upload_segment_reply_def Let_def
    using assms(4) by (auto intro!: wpc_head_length [OF r(1,3,2)] Q)
qed

lemma client_reads:
  assumes "has_room n s" "16 \<le> activembxsize s" "head_is (activembxsize s) (MBX s) n len c"
    and "mbx_get n 9 k s = Some bs"
    and "k = (if unat len = 10 then 7 - unat (drop_bit 1 c AND 7) else unat len - 3)"
  shows "client_segment n s = Some bs"
  using assms by (simp add: client_segment_def mbx_length_def mbx_words head_is_def del: rd16.simps)

text \<open>After the length and the command, the data: the rest of \<open>SDO_uploadsegment\<close>.\<close>

lemma wpc_segment_data:
  assumes "has_room n s" "16 \<le> activembxsize s" "0 < n" "9 + length bs \<le> activembxsize s"
    and "head_is (activembxsize s) (MBX s) n len c"
    and "length bs = (if unat len = 10 then 7 - unat (drop_bit 1 c AND 7) else unat len - 3)"
    and Q: "\<And>m. length m = length (MBX s) \<Longrightarrow>
      client_segment n (request_done (set_mbxstate n MBXstate_outreq (s\<lparr>MBX := m\<rparr>))) = Some bs \<Longrightarrow> Q (s\<lparr>MBX := m\<rparr>)"
  shows "ok Q (mbx_put n 9 bs s)"
proof (rule wpc_mbx_put [OF assms(1,4)], rule Q)
  fix m
  assume l: "length m = length (MBX s)"
    and e: "cells (activembxsize s) m = put_cells n 9 bs (cells (activembxsize s) (MBX s))"
  let ?t = "request_done (set_mbxstate n MBXstate_outreq (s\<lparr>MBX := m\<rparr>))"
  have room: "has_room n ?t" using assms(1) l by simp
  have h: "head_is (activembxsize ?t) (MBX ?t) n len c"
    using assms(5) e by (simp add: head_is_def del: rd16.simps)
  have "mbx_get n 9 (length bs) ?t = Some bs"
    using assms(4) mbx_get_cells [OF room, of 9 "length bs"] e by (simp add: map_put_cells)
  from client_reads [OF room _ h this assms(6)] assms(2) show "client_segment n ?t = Some bs" by simp
qed

text \<open>The end of \<open>SDO_uploadsegment\<close>: the data, and the reply on its way.\<close>

definition segment_tail :: "'w env \<Rightarrow> nat \<Rightarrow> u16 \<Rightarrow> u8 \<Rightarrow> nat \<Rightarrow> nat \<Rightarrow> 'w sys \<Rightarrow> 'w sys option" where
  "segment_tail E n index subindex offset len s = do {
     p \<leftarrow> data_v s;
     bs \<leftarrow> mem_get (ptr_add p offset) len s;
     s \<leftarrow> mbx_put n 9 bs s;
     let (abort, s) = (if segmented s = 0
       then ESC_upload_post_objecthandler E index subindex (flags_v s) s else (0, s));
     if abort \<noteq> 0 then set_state_idle E n index subindex abort s
     else Some (request_done (set_mbxstate n MBXstate_outreq s))
   }"

lemma wpc_segment_tail:
  fixes s :: "'w sys"
  assumes "has_room n s" "16 \<le> activembxsize s" "0 < n" "9 + k \<le> activembxsize s"
    and "head_is (activembxsize s) (MBX s) n len c"
    and "k = (if unat len = 10 then 7 - unat (drop_bit 1 c AND 7) else unat len - 3)"
    and p: "data_v s = Some p" "mem_get (ptr_add p off) k s = Some bs"
    and h: "post_object_upload_hook E = None"
    and Q: "\<And>m. length m = length (MBX s) \<Longrightarrow>
      client_segment n (request_done (set_mbxstate n MBXstate_outreq (s\<lparr>MBX := m\<rparr>))) = Some bs \<Longrightarrow>
      Q (request_done (set_mbxstate n MBXstate_outreq (s\<lparr>MBX := m\<rparr>)))"
  shows "ok Q (segment_tail E n index sub off k s)"
proof -
  have l: "length bs = k" using p by (auto simp: mem_get_def dest: get_bytes_length split: option.splits)
  note put = wpc_segment_data [OF assms(1-3) _ assms(5), of bs]
  show ?thesis
    unfolding segment_tail_def
    using p l assms(4,6)
    by (auto simp: ESC_upload_post_objecthandler_def h intro!: put Q)
qed

lemma SDO_uploadsegment_tail:
  "SDO_uploadsegment E s = do {
     (MBXout, s) \<leftarrow> ESC_claimbuffer E s;
     if MBXout \<noteq> 0 then do {
       let offset = fragsleft s;
       let len = frags s - fragsleft s;
       cmd \<leftarrow> mbx_u8 0 8 s;
       index \<leftarrow> mbx_u16 0 9 s;
       subindex \<leftarrow> mbx_u8 0 11 s;
       s \<leftarrow> init_coesdo MBXout COE_SDORESPONSE (COE_COMMAND_UPLOADSEGMENT OR (cmd AND COE_TOGGLEBIT)) index subindex s;
       (len, s) \<leftarrow> upload_segment_reply MBXout len s;
       segment_tail E MBXout index subindex (unat offset) (unat len) s
     }
     else Some (request_done s)
   }"
  unfolding SDO_uploadsegment_def segment_tail_def Let_def ..

lemma sent_state:
  "mbx_ready E (request_done s) = mbx_ready E s" "mbx_ready E (set_mbxstate n v s) = mbx_ready E s"
  "omem (request_done s) = omem s" "omem (set_mbxstate n v s) = omem s"
  "mbxdata (request_done s) = mbxdata s" "mbxdata (set_mbxstate n v s) = mbxdata s"
  "data_v (request_done s) = data_v s" "data_v (set_mbxstate n v s) = data_v s"
  "activembxsize (request_done s) = activembxsize s" "activembxsize (set_mbxstate n v s) = activembxsize s"
  "segmented (request_done s) = segmented s" "segmented (set_mbxstate n v s) = segmented s"
  "frags (request_done s) = frags s" "frags (set_mbxstate n v s) = frags s"
  "fragsleft (request_done s) = fragsleft s" "fragsleft (set_mbxstate n v s) = fragsleft s"
  by (simp_all add: request_done_def set_mbxstate_def mbx_ready_def)

lemma mem_get_app [simp]:
  assumes "fst p \<noteq> Mbx"
  shows "mem_get (ptr_add p k) l (s\<lparr>MBX := m\<rparr>) = mem_get (ptr_add p k) l s"
    "mem_get p l (s\<lparr>segmented := v\<rparr>) = mem_get p l s"
    "mem_get p l (s\<lparr>frags := n\<rparr>) = mem_get p l s"
    "mem_get p l (s\<lparr>fragsleft := n\<rparr>) = mem_get p l s"
  using assms by (cases "fst p"; simp add: mem_get_def ptr_add_def)+

lemma ptr_add_block [simp]: "fst (ptr_add p k) = fst p"
  by (simp add: ptr_add_def)

lemma transfer_ready [simp]:
  "mbx_ready E (s\<lparr>MBXcontrol := c\<rparr>) = mbx_ready E s" "mbx_ready E (s\<lparr>mbxcnt := b\<rparr>) = mbx_ready E s"
  "mbx_ready E (s\<lparr>txcue := i\<rparr>) = mbx_ready E s" "mbx_ready E (s\<lparr>segmented := v\<rparr>) = mbx_ready E s"
  "mbx_ready E (s\<lparr>frags := w\<rparr>) = mbx_ready E s" "mbx_ready E (s\<lparr>fragsleft := w\<rparr>) = mbx_ready E s"
  by (simp_all add: mbx_ready_def)

lemma MBXDSIZE_upd [simp]:
  "ESC_MBXDSIZE (s\<lparr>MBX := m\<rparr>) = ESC_MBXDSIZE s" "ESC_MBXDSIZE (s\<lparr>MBXcontrol := c\<rparr>) = ESC_MBXDSIZE s"
  "ESC_MBXDSIZE (s\<lparr>mbxcnt := b\<rparr>) = ESC_MBXDSIZE s" "ESC_MBXDSIZE (s\<lparr>txcue := i\<rparr>) = ESC_MBXDSIZE s"
  by (simp_all add: ESC_MBXDSIZE_def)

lemma last_segment_size:
  fixes x :: u32 and t :: u8
  assumes "unat (to_u16 (3 + x)) = unat x + 3"
  shows "unat x = (if unat (if 7 \<le> x then to_u16 (3 + x) else 10) = 10
    then 7 - unat (drop_bit (Suc 0) (if 7 \<le> x then t AND 0x10 OR 0x01
      else t AND 0x10 OR 0x01 OR to_u8 (push_bit 1 (7 - x))) AND 0x07)
    else unat (if 7 \<le> x then to_u16 (3 + x) else 10) - 3)"
proof (cases "7 \<le> x")
  case True
  then show ?thesis using assms by (simp add: segment_command(1) [of t, simplified])
next
  case False
  then have "unat x < 7" by (simp add: word_le_nat_alt)
  from short_command [OF this, of t] False \<open>unat x < 7\<close> show ?thesis by simp
qed

lemma wpc_uploadsegment:
  fixes s :: "'w sys"
  assumes r: "can_reply E s" and size: "unat (fragsleft s) \<le> unat (frags s)" "unat (frags s) < 2 ^ 31"
    and p: "data_v s = Some p" "fst p \<noteq> Mbx" and mem: "mem_get p (unat (frags s)) s = Some data"
    and h: "post_object_upload_hook E = None"
    and Q: "\<And>s'. client_segment (reply_buffer E s) s' =
          Some (take (activembxsize s - 9) (drop (unat (fragsleft s)) data)) \<Longrightarrow> mbx_ready E s' \<Longrightarrow>
        omem s' = omem s \<Longrightarrow> mbxdata s' = mbxdata s \<Longrightarrow> activembxsize s' = activembxsize s \<Longrightarrow> data_v s' = data_v s \<Longrightarrow>
        (if unat (frags s) - unat (fragsleft s) \<le> activembxsize s - 9 then segmented s' = 0
         else segmented s' = segmented s \<and> frags s' = frags s \<and> unat (fragsleft s') = unat (fragsleft s) + (activembxsize s - 9))
        \<Longrightarrow> Q s'"
  shows "ok Q (SDO_uploadsegment E s)"
proof -
  have inv: "mbx_inv E s" using r by (simp add: can_reply_def)
  note rd = mbx_invD(1) [OF inv]
  have z: "16 \<le> activembxsize s" "has_room 0 s" using mbx_invD(3,4) [OF inv] by auto
  note n = reply_buffer_idle [OF r]
  note size_eq = segment_size [OF rd size]
  let ?rest = "unat (frags s) - unat (fragsleft s)"
  have len: "length data = unat (frags s)" using mem by (auto simp: mem_get_def dest: get_bytes_length)
  note tail = wpc_segment_tail [OF _ _ n(1), where bs = "take (activembxsize s - 9) (drop (unat (fragsleft s)) data)"]
  show ?thesis
  proof (cases "?rest \<le> activembxsize s - 9")
    case True
    have g: "mem_get (ptr_add p (unat (fragsleft s))) ?rest s = Some (take (activembxsize s - 9) (drop (unat (fragsleft s)) data))"
      using True len mem_get_sub [OF mem, of "unat (fragsleft s)" ?rest] size(1) by simp
    note k = last_segment_size [of "frags s - fragsleft s", unfolded size_eq(1), OF size_eq(5) [OF True], folded One_nat_def]
    show ?thesis
      unfolding SDO_uploadsegment_tail Let_def ok_bind
      by (rule wpc_claim_at [OF r])
        (use True z n size_eq(1,2) in \<open>auto intro!: wpc wpc_segment_last\<close>,
         rule tail, simp add: has_room_def, simp, simp, simp, rule k,
         use p g h True in \<open>simp, simp, simp\<close>, rule Q, simp_all add: rd sent_state True)
  next
    case False
    have g: "mem_get (ptr_add p (unat (fragsleft s))) (activembxsize s - 9) s =
        Some (take (activembxsize s - 9) (drop (unat (fragsleft s)) data))"
      using False len mem_get_sub [OF mem, of "unat (fragsleft s)" "activembxsize s - 9"] size(1) by simp
    have left: "unat (fragsleft s + (ESC_MBXDSIZE s - 3)) = unat (fragsleft s) + (activembxsize s - 9)"
      using size_eq(3) size False by (simp add: unat_word_ariths)
    note d = size_eq(3,4) segment_command(2) [of "cells (activembxsize s) (MBX s) 0 8"]
    show ?thesis
      unfolding SDO_uploadsegment_tail Let_def ok_bind
      by (rule wpc_claim_at [OF r])
        (use False z n size_eq(1,2) in \<open>auto intro!: wpc wpc_segment_more\<close>,
         rule tail, simp add: has_room_def, simp, simp add: size_eq(3), simp, use d in auto,
         simp add: p, simp add: size_eq(3) p g, simp add: h, rule Q, simp_all add: rd sent_state left False)
  qed
qed

section \<open>The whole transfer\<close>

lemma take_drop_split: "take z (drop l xs) @ drop (l + z) xs = drop l xs"
  by (metis add.commute append_take_drop_id drop_drop)

lemma collect_all:
  fixes s :: "'w sys"
  assumes u: "undisturbed E between" and h: "post_object_upload_hook E = None"
    and p: "fst p \<noteq> Mbx"
  shows "mbx_ready E s \<Longrightarrow> segmented s \<noteq> 0 \<Longrightarrow> data_v s = Some p \<Longrightarrow>
    unat (fragsleft s) \<le> unat (frags s) \<Longrightarrow> unat (frags s) < 2 ^ 31 \<Longrightarrow>
    mem_get p (unat (frags s)) s = Some data \<Longrightarrow>
    0 < k \<Longrightarrow> unat (frags s) - unat (fragsleft s) \<le> k * (activembxsize s - 9) \<Longrightarrow>
    collect E between k s = Some (drop (unat (fragsleft s)) data)"
proof (induction k arbitrary: s)
  case 0
  then show ?case by simp
next
  case (Suc k)
  let ?t = "between s" and ?z = "activembxsize s - 9"
  have t: "can_reply E ?t" "same_transfer s ?t" using u Suc.prems(1) by (auto simp: undisturbed_def)
  then have eq: "segmented ?t = segmented s" "frags ?t = frags s" "fragsleft ?t = fragsleft s"
    "data_v ?t = data_v s" "omem ?t = omem s" "mbxdata ?t = mbxdata s" "activembxsize ?t = activembxsize s"
    by (simp_all add: same_transfer_def)
  have m: "mem_get p n ?t = mem_get p n s" for n
    using eq p by (cases "fst p") (simp_all add: mem_get_def)
  have len: "length data = unat (frags s)" using Suc.prems(6) by (auto simp: mem_get_def dest: get_bytes_length)
  have "ok (\<lambda>u. client_segment (reply_buffer E ?t) u = Some (take ?z (drop (unat (fragsleft s)) data)) \<and>
      mbx_ready E u \<and> omem u = omem s \<and> mbxdata u = mbxdata s \<and> activembxsize u = activembxsize s \<and> data_v u = data_v s \<and>
      (if unat (frags s) - unat (fragsleft s) \<le> ?z then segmented u = 0
       else segmented u = segmented s \<and> frags u = frags s \<and> unat (fragsleft u) = unat (fragsleft s) + ?z))
    (SDO_uploadsegment E ?t)"
    by (rule wpc_uploadsegment [OF t(1) _ _ _ p _ h, where data = data]) (use Suc.prems eq m in simp_all)
  then obtain v where v: "SDO_uploadsegment E ?t = Some v"
    "client_segment (reply_buffer E ?t) v = Some (take ?z (drop (unat (fragsleft s)) data))"
    "mbx_ready E v" "omem v = omem s" "mbxdata v = mbxdata s" "activembxsize v = activembxsize s" "data_v v = data_v s"
    "if unat (frags s) - unat (fragsleft s) \<le> ?z then segmented v = 0
       else segmented v = segmented s \<and> frags v = frags s \<and> unat (fragsleft v) = unat (fragsleft s) + ?z"
    by (auto simp: ok_ex)
  show ?case
  proof (cases "unat (frags s) - unat (fragsleft s) \<le> ?z")
    case True
    then have "collect E between k v = Some []" using v(8) by (cases k) simp_all
    with v(1,2) Suc.prems(2) True len show ?thesis by simp
  next
    case False
    then have e: "segmented v = segmented s" "frags v = frags s" "unat (fragsleft v) = unat (fragsleft s) + ?z"
      using v(8) by simp_all
    have "mem_get p n v = mem_get p n s" for n
      using v(4,5) p by (cases "fst p") (simp_all add: mem_get_def)
    moreover have "0 < k" using False Suc.prems(8) by (cases k) simp_all
    ultimately have "collect E between k v = Some (drop (unat (fragsleft v)) data)"
      using Suc.prems v(3,6,7) e False by (intro Suc.IH) simp_all
    with v(1,2) Suc.prems(2) e show ?thesis
      by (simp add: take_drop_split)
  qed
qed

text \<open>The first reply to an upload of more than four bytes.\<close>

lemma upload_sizes:
  assumes r: "mbx_ready E s" and len: "len = drop_bit 3 (od_bitlength d + 7)"
  shows "unat len < 2 ^ 29"
    "len + 10 > ESC_MBXDSIZE s \<longleftrightarrow> activembxsize s - 16 < unat len"
    "unat (ESC_MBXDSIZE s - 10) = activembxsize s - 16"
    "to_u16 (ESC_MBXDSIZE s) = 10 + of_nat (activembxsize s - 16)"
    "to_u16 (10 + len) = 10 + to_u16 len" "of_nat (unat len) = len"
proof -
  have z: "16 \<le> activembxsize s" "activembxsize s < 65536" using r mbx_size_bound by (auto simp: mbx_ready_def)
  note d = MBXDSIZE_eq [OF r]
  have "unat (od_bitlength d + 7) < 2 ^ 32" using unsigned_less [of "od_bitlength d + 7"] by simp
  then show l: "unat len < 2 ^ 29" by (simp only: len unat_drop_bit_eq) (simp add: drop_bit_eq_div)
  then have l10: "unat (len + 10) = unat len + 10" by (simp add: unat_word_ariths)
  then show "len + 10 > ESC_MBXDSIZE s \<longleftrightarrow> activembxsize s - 16 < unat len"
    using d z by (auto simp: word_less_nat_alt)
  show "unat (ESC_MBXDSIZE s - 10) = activembxsize s - 16"
    using d z by (simp add: unat_sub word_le_nat_alt)
  have "unat (ESC_MBXDSIZE s) = 10 + (activembxsize s - 16)" using d z by simp
  then have "to_u16 (ESC_MBXDSIZE s) = of_nat (10 + (activembxsize s - 16))" by (metis of_nat_unat)
  then show "to_u16 (ESC_MBXDSIZE s) = 10 + of_nat (activembxsize s - 16)" by simp
  have "to_u16 (10 + len) = of_nat (unat (len + 10))" by (simp add: add.commute)
  also have "\<dots> = of_nat (unat len) + 10" by (simp only: l10 of_nat_add of_nat_numeral)
  finally show "to_u16 (10 + len) = 10 + to_u16 len" by simp
qed simp

lemma MBXDSIZE_transfer [simp]:
  "ESC_MBXDSIZE (s\<lparr>frags := m\<rparr>) = ESC_MBXDSIZE s" "ESC_MBXDSIZE (s\<lparr>segmented := c\<rparr>) = ESC_MBXDSIZE s"
  "ESC_MBXDSIZE (s\<lparr>fragsleft := b\<rparr>) = ESC_MBXDSIZE s" "ESC_MBXDSIZE (s\<lparr>data_v := i\<rparr>) = ESC_MBXDSIZE s"
  "ESC_MBXDSIZE (s\<lparr>flags_v := f\<rparr>) = ESC_MBXDSIZE s"
  by (simp_all add: ESC_MBXDSIZE_def)

lemma transfer_room [simp]:
  "has_room n (s\<lparr>frags := m\<rparr>) = has_room n s" "has_room n (s\<lparr>segmented := c\<rparr>) = has_room n s"
  "has_room n (s\<lparr>fragsleft := b\<rparr>) = has_room n s" "has_room n (s\<lparr>data_v := i\<rparr>) = has_room n s"
  "has_room n (s\<lparr>flags_v := f\<rparr>) = has_room n s"
  by (simp_all add: has_room_def)

lemma transfer_ready2 [simp]:
  "mbx_ready E (s\<lparr>data_v := d\<rparr>) = mbx_ready E s" "mbx_ready E (s\<lparr>flags_v := f\<rparr>) = mbx_ready E s"
  by (simp_all add: mbx_ready_def)

lemma mem_get_same [simp]:
  "mem_get p n (s\<lparr>data_v := d\<rparr>) = mem_get p n s" "mem_get p n (s\<lparr>flags_v := f\<rparr>) = mem_get p n s"
  by (cases "fst p"; simp add: mem_get_def)+

lemma map_put_cells_upto: "off + length bs = k \<Longrightarrow> map (put_cells n off bs c n) [off..<k] = bs"
  using map_put_cells [where n = n and off = off and xs = bs and c = c and k = "length bs"] by auto

lemma wpc_upload_long:
  fixes s :: "'w sys"
  assumes r: "sdo_request E s index sub" and d: "4 < bits2bytes (od_bitlength d)" "od_data d = Some p" "fst p \<noteq> Mbx"
    and h: "pre_object_upload_hook E = None" "post_object_upload_hook E = None"
    and g: "mem_get p (bits2bytes (od_bitlength d)) s = Some data"
    and Q: "\<And>n s'. sdo_reply s' n COE_SDORESPONSE 0x41 index sub \<Longrightarrow>
      (let first = take (activembxsize s - 16) data in
       mbx_length n s' = Some (of_nat (10 + length first)) \<and> mbx_u32 n 12 s' = Some (of_nat (length data)) \<and>
       mbx_get n 16 (length first) s' = Some first) \<Longrightarrow>
      sdo_done s' \<Longrightarrow> omem s' = omem s \<Longrightarrow> mbxdata s' = mbxdata s \<Longrightarrow> mbx_ready E s' \<Longrightarrow> activembxsize s' = activembxsize s \<Longrightarrow>
      (if length data \<le> activembxsize s - 16 then segmented s' = 0
       else segmented s' \<noteq> 0 \<and> unat (frags s') = length data \<and> unat (fragsleft s') = activembxsize s - 16 \<and> data_v s' = Some p) \<Longrightarrow>
      Q s'"
  shows "ok Q (upload_entry E index sub d s)"
proof -
  have inv: "mbx_inv E s" and free: "\<exists>i. 0 < i \<and> i < MBXBUFFERS (opt E) \<and> MBXcontrol s i = MBXstate_idle"
    using r by (simp_all add: sdo_request_def)
  note rd = mbx_invD(1) [OF inv]
  have z: "16 \<le> activembxsize s" using mbx_invD(3) [OF inv] .
  define len where "len = drop_bit 3 (od_bitlength d + 7)"
  have b: "bits2bytes (od_bitlength d) = unat len" by (simp add: bits2bytes_def len_def)
  note sizes = upload_sizes [OF rd len_def]
  have l: "length data = unat len" using g b by (auto simp: mem_get_def dest: get_bytes_length)
  have n4: "\<not> len \<le> 4" using d(1) b by (simp add: word_le_nat_alt)
  note defs = upload_normal_def ESC_upload_pre_objecthandler_def ESC_upload_post_objecthandler_def
  note cells = sdo_reply_def cell_simps mbx_get_cells map_put_cells
  show ?thesis
  proof (cases "length data \<le> activembxsize s - 16")
    case True
    show ?thesis
      unfolding upload_entry_def Let_def ok_bind len_def [symmetric]
      by (rule wpc_ESC_claimbuffer [OF inv free])
        (use z g b l n4 d h True sizes(1,2) in \<open>auto simp: defs  intro!: wpc Q\<close>,
         auto simp: cells sent_state rd sizes(4,5) l simp del: rd16.simps rd32.simps)
  next
    case False
    then have g2: "mem_get p (activembxsize s - 16) s = Some (take (activembxsize s - 16) data)"
      using mem_get_sub [OF g, of 0 "activembxsize s - 16"] l b by (simp add: ptr_add_def)
    show ?thesis
      unfolding upload_entry_def Let_def ok_bind len_def [symmetric]
      by (rule wpc_ESC_claimbuffer [OF inv free])
        (use z g2 b l n4 d h False sizes(1,2) in \<open>auto simp: defs sizes(3) intro!: wpc Q\<close>,
         auto simp: cells map_put_cells_upto sent_state rd sizes(3,4,5) l simp del: rd16.simps rd32.simps)
  qed
qed

text \<open>
  C32. Reading a long value: an upload of more than four bytes is answered with the size of
  the entry and as many bytes as fit; when bytes are left, a client that asks for segments
  until the server says that it was the last one, as long as replies can be sent and nobody
  touches the transfer, gets the rest: the first part and the segments together are
  the value, and the number of requests is bounded by its length.
\<close>

theorem sdo_upload_collected:
  assumes "sorted_dict (SDOobjects E)" and "sdo_request E s index sub" and "in_tables (SDOobjects E) index sub"
    and "lookup (SDOobjects E) index sub = Inr d" "READ_ACCESS (od_access d) (al_low s)"
    and "4 < bits2bytes (od_bitlength d)" "od_data d = Some p" "fst p \<noteq> Mbx"
    and "pre_object_upload_hook E = None" "post_object_upload_hook E = None"
    and "mem_get p (bits2bytes (od_bitlength d)) s = Some data"
    and "undisturbed E between"
    and "length data \<le> (activembxsize s - 16) + k * (activembxsize s - 9)"
  shows "\<exists>s' n first rest. SDO_upload E s = Some s' \<and> sdo_reply s' n 3 0x41 index sub \<and>
    mbx_length n s' = Some (of_nat (10 + length first)) \<and> mbx_u32 n 12 s' = Some (of_nat (length data)) \<and>
    mbx_get n 16 (length first) s' = Some first \<and> sdo_done s' \<and>
    collect E between k s' = Some rest \<and> first @ rest = data"
proof -
  let ?first = "take (activembxsize s - 16) data"
  have inv: "mbx_inv E s" using assms(2) by (rule request_inv)
  have l: "length data = bits2bytes (od_bitlength d)" using assms(11) by (auto simp: mem_get_def dest: get_bytes_length)
  have small: "bits2bytes (od_bitlength d) < 2 ^ 29"
    using upload_sizes(1) [OF mbx_invD(1) [OF inv] refl] by (simp add: bits2bytes_def)
  have "ok (\<lambda>s'. \<exists>n. sdo_reply s' n 3 0x41 index sub \<and> sdo_done s' \<and>
      mbx_length n s' = Some (of_nat (10 + length ?first)) \<and> mbx_u32 n 12 s' = Some (of_nat (length data)) \<and>
      mbx_get n 16 (length ?first) s' = Some ?first \<and> omem s' = omem s \<and> mbxdata s' = mbxdata s \<and>
      mbx_ready E s' \<and> activembxsize s' = activembxsize s \<and>
      (if length data \<le> activembxsize s - 16 then segmented s' = 0
       else segmented s' \<noteq> 0 \<and> unat (frags s') = length data \<and> unat (fragsleft s') = activembxsize s - 16 \<and> data_v s' = Some p))
    (SDO_upload E s)"
    unfolding lookup_ok(1) [OF assms(1-5)]
    by (rule wpc_upload_long [OF assms(2,6-11)]) (auto simp: Let_def)
  then obtain s' n where u: "SDO_upload E s = Some s'" "sdo_reply s' n 3 0x41 index sub" "sdo_done s'"
      "mbx_length n s' = Some (of_nat (10 + length ?first))" "mbx_u32 n 12 s' = Some (of_nat (length data))"
      "mbx_get n 16 (length ?first) s' = Some ?first"
    and v: "omem s' = omem s" "mbxdata s' = mbxdata s" "mbx_ready E s'" "activembxsize s' = activembxsize s"
      "if length data \<le> activembxsize s - 16 then segmented s' = 0
       else segmented s' \<noteq> 0 \<and> unat (frags s') = length data \<and> unat (fragsleft s') = activembxsize s - 16 \<and> data_v s' = Some p"
    by (auto simp: ok_ex)
  have "collect E between k s' = Some (drop (activembxsize s - 16) data)"
  proof (cases "length data \<le> activembxsize s - 16")
    case True
    with v(5) show ?thesis by (cases k) simp_all
  next
    case False
    have m: "mem_get p (unat (frags s')) s' = Some data"
      using v False assms(8,11) l by (cases "fst p") (simp_all add: mem_get_def)
    have "0 < k" using False assms(13) by (cases k) simp_all
    then show ?thesis
      using v False small l assms(13) m collect_all [OF assms(12,10,8), of s' data k] by simp
  qed
  with u show ?thesis
    by (intro exI [of _ s'] exI [of _ n] exI [of _ ?first] exI [of _ "drop (activembxsize s - 16) data"]) simp
qed


text \<open>
  A slave with mailboxes of 16 bytes, which has to send its ten bytes of identity in two segments
  after a first reply without data.
\<close>

definition tiny_mailbox :: "ram sys \<Rightarrow> ram sys" where
  "tiny_mailbox s = s\<lparr>activembxsize := 16,
     activemb0 := Some \<lparr>cfg_sma = 0x1000, cfg_sml = 16, cfg_sme = 0x100F, cfg_smc = 0x26\<rparr>,
     activemb1 := Some \<lparr>cfg_sma = 0x1080, cfg_sml = 16, cfg_sme = 0x108F, cfg_smc = 0x22\<rparr>,
     omem := (omem s)(4 := [83, 79, 69, 83, 45, 115, 108, 97, 118, 101])\<rparr>"

definition long_request :: "ram sys" where
  "long_request = tiny_mailbox (request_sys (sdo_message 0x40 0x1008 0 [0, 0, 0, 0]))"

text \<open>The master fetches the reply and sends the next request.\<close>

definition fetched :: "'w sys \<Rightarrow> 'w sys" where
  "fetched s = s\<lparr>MBXcontrol := (\<lambda>_. MBXstate_idle)(0 := MBXstate_inclaim), mbxoutpost := 0, mbxbackup := 0,
     txcue := 0, xoe := MBXCOE\<rparr>"

lemma fetched_undisturbed: "undisturbed sample_env fetched"
proof -
  have "can_reply sample_env (fetched s)" if "mbx_ready sample_env s" for s
    unfolding can_reply_def
  proof
    show "mbx_inv sample_env (fetched s)"
      using that by (simp add: mbx_inv_def mbx_ready_def pool_inv_def pool_ok_def queued_def fetched_def default_options_def)
    show "\<exists>i. 0 < i \<and> i < MBXBUFFERS (opt sample_env) \<and> MBXcontrol (fetched s) i = MBXstate_idle"
      by (rule exI [of _ 1]) (simp add: fetched_def default_options_def)
  qed
  then show ?thesis by (simp add: undisturbed_def same_transfer_def fetched_def)
qed

lemma long_request: "sdo_request sample_env long_request 0x1008 0"
proof -
  have "mbx_inv sample_env long_request"
    using sample_inv
    by (simp add: mbx_inv_def mbx_ready_def pool_inv_def pool_ok_def queued_def request_sys_def sdo_message_def
        ram_sys_def init_sys_def default_options_def long_request_def tiny_mailbox_def)
  moreover have "mbx_u16 0 9 long_request = Some 0x1008" "mbx_u8 0 11 long_request = Some 0"
    by (simp_all add: mbx_u16_def mbx_u8_def mbx_get_def get_bytes_def request_sys_def sdo_message_def le16_def
        long_request_def tiny_mailbox_def)
  moreover have "MBXcontrol long_request 1 = MBXstate_idle" "1 < MBXBUFFERS (opt sample_env)"
    by (simp_all add: request_sys_def default_options_def long_request_def tiny_mailbox_def)
  ultimately show ?thesis
    unfolding sdo_request_def by (metis zero_less_one)
qed

lemma long_request_fields:
  "lookup sample_objects 0x1008 0 = Inr (entry 0 0x0009 80 0x07 0 (Some (Obj 4, 0)))"
  "al_low long_request = 2" "activembxsize long_request = 16"
  "mem_get (Obj 4, 0) 10 long_request = Some [83, 79, 69, 83, 45, 115, 108, 97, 118, 101]"
  by (simp_all add: lookup_def declared_def sample_objects_def object_def entry_def long_request_def tiny_mailbox_def al_low_def
      request_sys_def ram_sys_def init_sys_def mem_get_def get_bytes_def)

lemma long_entry: "bits2bytes 80 = 10"
  by (simp add: bits2bytes_def)

theorem sdo_upload_collected_witness:
  "\<exists>s' n first rest. SDO_upload sample_env long_request = Some s' \<and> sdo_reply s' n 3 0x41 0x1008 0 \<and>
     mbx_get n 16 (length first) s' = Some first \<and> collect sample_env fetched 2 s' = Some rest \<and>
     first @ rest = [83, 79, 69, 83, 45, 115, 108, 97, 118, 101]"
  using sdo_upload_collected [where E = sample_env and s = long_request and index = "0x1008" and sub = 0
      and d = "entry 0 0x0009 80 0x07 0 (Some (Obj 4, 0))" and p = "(Obj 4, 0)" and between = fetched and k = 2
      and data = "[83, 79, 69, 83, 45, 115, 108, 97, 118, 101]"]
    sample_in_tables long_request fetched_undisturbed
  by (auto simp: long_request_fields [unfolded entry_def] entry_def READ_ACCESS_def od_access_def long_entry)

end
