(* ===== verification/Foe_Props.thy ===== *)
theory Foe_Props
  imports "HOL-Library.Sublist" Foe Sdo_Spec Sample_Slave
begin

text \<open>
  The properties of the file server: what a download delivers to the application, which
  requests are refused, and what the client is told.
\<close>

section \<open>Buffering\<close>

text \<open>
  What the write function of the application is given when bytes arrive one by one and
  \<open>n\<close> of them fill the buffer: the full buffers, and what stays pending.
\<close>

fun feed :: "nat \<Rightarrow> bytes \<Rightarrow> bytes \<Rightarrow> bytes list \<times> bytes" where
  "feed n p [] = ([], p)"
| "feed n p (b # bs) =
     (if n \<le> length p + 1 then let (cs, q) = feed n [] bs in ((p @ [b]) # cs, q) else feed n (p @ [b]) bs)"

lemma feed_concat: "concat (fst (feed n p bs)) @ snd (feed n p bs) = p @ bs"
  by (induction n p bs rule: feed.induct) (auto simp: Let_def split: prod.splits)

lemma feed_full: "length p < n \<Longrightarrow> set (fst (feed n p bs)) \<subseteq> {c. length c = n} \<and> length (snd (feed n p bs)) < n"
proof (induction bs arbitrary: p)
  case (Cons b bs)
  then show ?case
    using Cons.IH [of "[]"] Cons.IH [of "p @ [b]"] by (cases "n \<le> length p + 1") (simp_all add: case_prod_beta)
qed simp

lemma feed_append:
  "feed n p (as @ bs) = (let (cs, q) = feed n p as; (ds, r) = feed n q bs in (cs @ ds, r))"
  by (induction n p as rule: feed.induct) (auto simp: Let_def split: prod.splits)

definition pending :: "'w sys \<Rightarrow> bytes" where
  "pending s = take (unat (fbufposition s)) (foe_fbuffer s)"

text \<open>A file is open and its buffer has room.\<close>

definition foe_open :: "nat \<Rightarrow> 'w sys \<Rightarrow> bool" where
  "foe_open f s \<longleftrightarrow> foe_file s = Some f \<and> f < length (foe_files s) \<and>
     length (foe_fbuffer s) = unat (foe_buffer_size s) \<and> unat (foe_buffer_size s) < 65536 \<and>
     unat (fbufposition s) < unat (foe_buffer_size s)"

text \<open>
  The write function of the application takes what it is given: \<open>log\<close> is what the files
  have received so far.
\<close>

definition records :: "'w env \<Rightarrow> ('w \<Rightarrow> (nat \<times> bytes) list) \<Rightarrow> bool" where
  "records E log \<longleftrightarrow> (\<forall>f fb n s. \<exists>w. foe_write_function E f fb n s = (0, s\<lparr>world := w\<rparr>) \<and>
     log w = log (world s) @ [(f, take n fb)])"

lemma records_call:
  assumes "records E log"
  obtains w where "foe_write_function E f fb n s = (0, s\<lparr>world := w\<rparr>)" "log w = log (world s) @ [(f, take n fb)]"
  using assms unfolding records_def by blast

lemma put_next:
  assumes "n < length m"
  shows "\<exists>m'. put_bytes n [b] m = Some m' \<and> length m' = length m \<and> take (Suc n) m' = take n m @ [b]"
  using assms by (simp add: put_bytes_def)

text \<open>The loop delivers the full buffers and keeps the rest pending; the count is exact.\<close>

lemma fwrite_loop_feed:
  fixes s :: "'w sys"
  assumes rec: "records E log"
  shows "foe_open f s \<Longrightarrow> unat (fposition s) + length bs \<le> unat (fend s) \<Longrightarrow>
    \<exists>fb fp w fs. fwrite_loop E bs k s = Some (k + of_nat (length bs),
        s\<lparr>foe_fbuffer := fb, world := w, fbufposition := fp, foe_files := fs, fposition := fposition s + of_nat (length bs)\<rparr>) \<and>
      length fs = length (foe_files s) \<and> length fb = length (foe_fbuffer s) \<and> unat fp < unat (foe_buffer_size s) \<and>
      take (unat fp) fb = snd (feed (unat (foe_buffer_size s)) (pending s) bs) \<and>
      log w = log (world s) @ map (Pair f) (fst (feed (unat (foe_buffer_size s)) (pending s) bs))"
proof (induction bs arbitrary: k s)
  case Nil
  then show ?case
    by (intro exI [of _ "foe_fbuffer s"] exI [of _ "fbufposition s"] exI [of _ "foe_files s"] exI [of _ "world s"])
      (simp add: pending_def foe_open_def)
next
  case (Cons b bs)
  let ?n = "unat (foe_buffer_size s)" and ?m = "unat (fbufposition s)"
  have o: "foe_file s = Some f" "f < length (foe_files s)" "length (foe_fbuffer s) = ?n" "?n < 65536" "?m < ?n"
    using Cons.prems(1) by (simp_all add: foe_open_def)
  obtain fb where fb: "put_bytes ?m [b] (foe_fbuffer s) = Some fb" "length fb = ?n" "take (Suc ?m) fb = pending s @ [b]"
    using put_next [of ?m "foe_fbuffer s" b] o by (auto simp: pending_def)
  have m: "unat (fbufposition s + 1) = Suc ?m" using o by (simp add: unat_word_ariths)
  have full: "foe_buffer_size s \<le> to_u32 (fbufposition s + 1) \<longleftrightarrow> ?n \<le> Suc ?m"
    using m unsigned_less [of "fbufposition s + 1"] by (simp add: word_le_nat_alt unsigned_ucast_eq take_bit_nat_eq_self)
  have pl: "length (pending s) = ?m" using o by (simp add: pending_def)
  have "unat (fend s) < 2 ^ 32" using unsigned_less [of "fend s"] by simp
  then have left: "fend s - fposition s \<noteq> 0" "unat (fposition s + 1) = Suc (unat (fposition s))"
    using Cons.prems(2) by (auto simp: unat_word_ariths)
  show ?case
  proof (cases "?n \<le> Suc ?m")
    case False
    let ?s = "s\<lparr>foe_fbuffer := fb, fbufposition := fbufposition s + 1, fposition := fposition s + 1\<rparr>"
    have step: "fwrite_loop E (b # bs) k s = fwrite_loop E bs (k + 1) ?s"
      using left(1) fb(1) full False by simp
    have p: "pending ?s = pending s @ [b]" using fb m by (simp add: pending_def)
    have op: "foe_open f ?s" using o fb m False by (simp add: foe_open_def)
    from Cons.IH [of ?s "k + 1", OF op] left(2) Cons.prems(2) show ?thesis
      unfolding step using p pl False fb o by (auto simp: algebra_simps)
  next
    case True
    obtain w where w: "foe_write_function E f fb (Suc ?m) (s\<lparr>foe_fbuffer := fb, fbufposition := fbufposition s + 1\<rparr>) =
        (0, s\<lparr>foe_fbuffer := fb, fbufposition := fbufposition s + 1, world := w\<rparr>)"
      "log w = log (world s) @ [(f, pending s @ [b])]"
      using records_call [OF rec, of f fb "Suc ?m" "s\<lparr>foe_fbuffer := fb, fbufposition := fbufposition s + 1\<rparr>"] fb(3) by auto
    define fs where "fs = (foe_files s)[f := (foe_files s ! f)
      \<lparr>ff_address_offset := ff_address_offset (foe_files s ! f) + foe_buffer_size s\<rparr>]"
    let ?s = "s\<lparr>foe_fbuffer := fb, world := w, fbufposition := 0, foe_files := fs, fposition := fposition s + 1\<rparr>"
    have step: "fwrite_loop E (b # bs) k s = fwrite_loop E bs (k + 1) ?s"
      using left(1) fb(1) full True w o m
      by (simp add: foe_flush_def upd_current_def upd_file_def at_def fs_def)
    have p: "pending ?s = []" by (simp add: pending_def)
    have op: "foe_open f ?s" using o fb m by (simp add: foe_open_def fs_def)
    from Cons.IH [of ?s "k + 1", OF op] left(2) Cons.prems(2) show ?thesis
      unfolding step using p pl True fb o w(2) by (auto simp: algebra_simps fs_def case_prod_beta)
  qed
qed

section \<open>Replies\<close>

text \<open>A FoE message without data in buffer \<open>n\<close>, on its way.\<close>

definition foe_message :: "'w sys \<Rightarrow> nat \<Rightarrow> u8 \<Rightarrow> u32 \<Rightarrow> bool" where
  "foe_message s n opcode v \<longleftrightarrow> 0 < n \<and> MBXcontrol s n = MBXstate_outreq \<and> mbx_type n s = Some MBXFOE \<and>
     mbx_length n s = Some 6 \<and> mbx_u8 n 6 s = Some opcode \<and> mbx_u32 n 8 s = Some v"

lemma wpc_foe_reply [wpc]:
  fixes s :: "'w sys"
  assumes "has_room n s" "16 \<le> activembxsize s" "0 < n"
    and Q: "\<And>m. length m = length (MBX s) \<Longrightarrow>
      (\<forall>t. activembxsize t = activembxsize s \<longrightarrow> MBX t = m \<longrightarrow> MBXcontrol t n = MBXstate_outreq \<longrightarrow> foe_message t n opcode v) \<Longrightarrow>
      Q (s\<lparr>MBX := m\<rparr>)"
  shows "ok Q (foe_reply n opcode v s)"
  using assms(1-3)
  by (auto simp: foe_reply_def intro!: wpc Q)
    (auto simp: foe_message_def cell_simps has_room_def simp del: rd16.simps rd32.simps)


lemma wpc_FOE_send_ack:
  fixes s :: "'w sys"
  assumes r: "can_reply E s"
    and Q: "\<And>n m. length m = length (MBX s) \<Longrightarrow>
      (\<forall>t. activembxsize t = activembxsize s \<longrightarrow> MBX t = m \<longrightarrow> MBXcontrol t n = MBXstate_outreq \<longrightarrow>
        foe_message t n FOE_OP_ACK (foepacket s)) \<Longrightarrow>
      Q (0, s\<lparr>mbxcnt := next_mbxcnt (mbxcnt s), txcue := txcue s + 1, MBX := m,
        foepacket := foepacket s + 1, MBXcontrol := (MBXcontrol s)(n := MBXstate_outreq)\<rparr>)"
  shows "ok Q (FOE_send_ack E s)"
proof -
  have inv: "mbx_inv E s" using r by (simp add: can_reply_def)
  note z = mbx_invD(3) [OF inv]
  note n = reply_buffer_idle [OF r]
  show ?thesis
    unfolding FOE_send_ack_def
    using z n by (auto simp: set_mbxstate_def intro!: wpc_claim_at [OF r] wpc Q)
qed

lemma wpc_FOE_abort:
  fixes s :: "'w sys"
  assumes r: "can_reply E s" and c: "code \<noteq> 0"
    and Q: "\<And>n m. length m = length (MBX s) \<Longrightarrow>
      (\<forall>t. activembxsize t = activembxsize s \<longrightarrow> MBX t = m \<longrightarrow> MBXcontrol t n = MBXstate_outreq \<longrightarrow>
        foe_message t n FOE_OP_ERR code) \<Longrightarrow>
      Q (FOE_init (s\<lparr>mbxcnt := next_mbxcnt (mbxcnt s), txcue := txcue s + 1, MBX := m,
        MBXcontrol := (MBXcontrol s)(n := MBXstate_outreq)\<rparr>))"
  shows "ok Q (FOE_abort E code s)"
proof -
  have inv: "mbx_inv E s" using r by (simp add: can_reply_def)
  note z = mbx_invD(3) [OF inv]
  note n = reply_buffer_idle [OF r]
  show ?thesis
    unfolding FOE_abort_def
    using z n c by (auto simp: set_mbxstate_def intro!: wpc_claim_at [OF r] wpc Q)
qed


section \<open>A packet of data\<close>

lemma can_reply_foe [simp]:
  "can_reply E (s\<lparr>foe_fbuffer := fb\<rparr>) = can_reply E s" "can_reply E (s\<lparr>world := w\<rparr>) = can_reply E s"
  "can_reply E (s\<lparr>fbufposition := fp\<rparr>) = can_reply E s" "can_reply E (s\<lparr>foe_files := fs\<rparr>) = can_reply E s"
  "can_reply E (s\<lparr>fposition := v\<rparr>) = can_reply E s" "can_reply E (s\<lparr>fprevposition := v\<rparr>) = can_reply E s"
  "can_reply E (s\<lparr>foepacket := v\<rparr>) = can_reply E s" "can_reply E (s\<lparr>foestate := b\<rparr>) = can_reply E s"
  by (simp_all add: can_reply_def mbx_inv_def mbx_ready_def pool_inv_def)

lemma mbx_ready_foe [simp]:
  "mbx_ready E (s\<lparr>foe_fbuffer := fb\<rparr>) = mbx_ready E s" "mbx_ready E (s\<lparr>world := w\<rparr>) = mbx_ready E s"
  "mbx_ready E (s\<lparr>fbufposition := fp\<rparr>) = mbx_ready E s" "mbx_ready E (s\<lparr>foe_files := fs\<rparr>) = mbx_ready E s"
  "mbx_ready E (s\<lparr>fposition := v\<rparr>) = mbx_ready E s" "mbx_ready E (s\<lparr>fprevposition := v\<rparr>) = mbx_ready E s"
  "mbx_ready E (s\<lparr>foepacket := v\<rparr>) = mbx_ready E s" "mbx_ready E (s\<lparr>foestate := b\<rparr>) = mbx_ready E s"
  "mbx_ready E (s\<lparr>mbxcnt := b\<rparr>) = mbx_ready E s" "mbx_ready E (s\<lparr>txcue := b\<rparr>) = mbx_ready E s"
  "mbx_ready E (s\<lparr>MBXcontrol := c\<rparr>) = mbx_ready E s"
  "length m = length (MBX s) \<Longrightarrow> mbx_ready E (s\<lparr>MBX := m\<rparr>) = mbx_ready E s"
  by (simp_all add: mbx_ready_def)

lemma wpc_FOE_fwrite:
  fixes s :: "'w sys"
  assumes rec: "records E log" and f: "foe_open f s" and room: "unat (fposition s) + length bs \<le> unat (fend s)"
    and Q: "\<And>fb fp w fs. length fs = length (foe_files s) \<Longrightarrow> length fb = length (foe_fbuffer s) \<Longrightarrow>
      unat fp < unat (foe_buffer_size s) \<Longrightarrow>
      take (unat fp) fb = snd (feed (unat (foe_buffer_size s)) (pending s) bs) \<Longrightarrow>
      log w = log (world s) @ map (Pair f) (fst (feed (unat (foe_buffer_size s)) (pending s) bs)) \<Longrightarrow>
      Q (of_nat (length bs), s\<lparr>fprevposition := fposition s, foe_fbuffer := fb, world := w, fbufposition := fp,
        fposition := fposition s + of_nat (length bs), foe_files := fs\<rparr>)"
  shows "ok Q (FOE_fwrite E bs s)"
proof -
  let ?s = "s\<lparr>fprevposition := fposition s\<rparr>"
  have "foe_open f ?s" "unat (fposition ?s) + length bs \<le> unat (fend ?s)" using f room by (simp_all add: foe_open_def)
  from fwrite_loop_feed [OF rec this, of 0] f
  show ?thesis
    by (auto simp: FOE_fwrite_def foe_open_def pending_def upd_current_def upd_file_def at_def intro!: Q)
qed

text \<open>A packet in buffer 0.\<close>

definition foe_packet :: "'w sys \<Rightarrow> u32 \<Rightarrow> bytes \<Rightarrow> bool" where
  "foe_packet s i bs \<longleftrightarrow> length bs + 12 \<le> activembxsize s \<and> mbx_length 0 s = Some (of_nat (length bs + 6)) \<and>
     mbx_u32 0 8 s = Some i \<and> mbx_get 0 12 (length bs) s = Some bs"

lemma foe_packet_len:
  assumes "foe_packet s i bs" "activembxsize s < 65536"
  shows "foe_data_len s = Some (of_nat (length bs))" "unat (of_nat (length bs) :: u32) = length bs"
proof -
  have l: "length bs + 6 < 65536" using assms by (simp add: foe_packet_def)
  then show n: "unat (of_nat (length bs) :: u32) = length bs" by (simp add: unat_of_nat take_bit_nat_eq_self)
  have "to_u32 (of_nat (length bs + 6) :: u16) = of_nat (length bs + 6)"
    using l by (intro word_unat_eq_iff [THEN iffD2]) (simp add: unsigned_ucast_eq unat_of_nat take_bit_nat_eq_self del: of_nat_add)
  then show "foe_data_len s = Some (of_nat (length bs))"
    using assms(1) by (simp add: foe_data_len_def foe_packet_def)
qed

definition receiving :: "nat \<Rightarrow> 'w sys \<Rightarrow> bool" where
  "receiving f s \<longleftrightarrow> foestate s = FOE_WAIT_FOR_DATA \<and> foe_open f s"

lemma data_size:
  assumes "16 \<le> activembxsize s" "activembxsize s < 65536"
  shows "unat (ESC_FOE_DATA_SIZE s) = activembxsize s - 12"
proof -
  have "unat (of_nat (activembxsize s) :: u32) = activembxsize s"
    using assms by (simp add: unat_of_nat take_bit_nat_eq_self)
  with assms(1) show ?thesis by (simp add: ESC_FOE_DATA_SIZE_def unat_sub word_le_nat_alt)
qed

lemma data_size_foe [simp]:
  "ESC_FOE_DATA_SIZE (s\<lparr>foe_fbuffer := fb\<rparr>) = ESC_FOE_DATA_SIZE s" "ESC_FOE_DATA_SIZE (s\<lparr>world := w\<rparr>) = ESC_FOE_DATA_SIZE s"
  "ESC_FOE_DATA_SIZE (s\<lparr>fbufposition := fp\<rparr>) = ESC_FOE_DATA_SIZE s" "ESC_FOE_DATA_SIZE (s\<lparr>foe_files := fs\<rparr>) = ESC_FOE_DATA_SIZE s"
  "ESC_FOE_DATA_SIZE (s\<lparr>fposition := v\<rparr>) = ESC_FOE_DATA_SIZE s" "ESC_FOE_DATA_SIZE (s\<lparr>fprevposition := v\<rparr>) = ESC_FOE_DATA_SIZE s"
  by (simp_all add: ESC_FOE_DATA_SIZE_def)

lemma acked:
  fixes t :: "'w sys"
  shows "\<forall>t :: 'w sys. activembxsize t = z \<longrightarrow> MBX t = m \<longrightarrow> MBXcontrol t n = MBXstate_outreq \<longrightarrow> foe_message t n opcode v \<Longrightarrow>
   activembxsize t = z \<Longrightarrow> MBX t = m \<Longrightarrow> MBXcontrol t n = MBXstate_outreq \<Longrightarrow> \<exists>n. foe_message t n opcode v"
  by blast

lemma wpc_FOE_data_full:
  fixes s :: "'w sys"
  assumes rec: "records E log" and r: "can_reply E s" and f: "receiving f s"
    and p: "foe_packet s (foepacket s) bs" "length bs = activembxsize s - 12"
    and room: "unat (fposition s) + length bs \<le> unat (fend s)"
    and Q: "\<And>s'. mbx_ready E s' \<Longrightarrow> receiving f s' \<Longrightarrow> foepacket s' = foepacket s + 1 \<Longrightarrow>
      fend s' = fend s \<Longrightarrow> foe_buffer_size s' = foe_buffer_size s \<Longrightarrow> activembxsize s' = activembxsize s \<Longrightarrow>
      unat (fposition s') = unat (fposition s) + length bs \<Longrightarrow>
      pending s' = snd (feed (unat (foe_buffer_size s)) (pending s) bs) \<Longrightarrow>
      log (world s') = log (world s) @ map (Pair f) (fst (feed (unat (foe_buffer_size s)) (pending s) bs)) \<Longrightarrow>
      (\<exists>n. foe_message s' n FOE_OP_ACK (foepacket s)) \<Longrightarrow> Q s'"
  shows "ok Q (FOE_data E s)"
proof -
  have inv: "mbx_inv E s" using r by (simp add: can_reply_def)
  note rd = mbx_invD(1) [OF inv]
  have z: "16 \<le> activembxsize s" "activembxsize s < 65536" using rd by (auto simp: mbx_ready_def valid_opts_def)
  note len = foe_packet_len [OF p(1) z(2)]
  have b: "unat (fend s) < 2 ^ 32" using unsigned_less [of "fend s"] by simp
  have f3: "foestate s = 3" "foe_open f s" using f by (simp_all add: receiving_def)
  have pk: "mbx_u32 0 8 s = Some (foepacket s)" "mbx_get 0 12 (length bs) s = Some bs" using p(1) by (simp_all add: foe_packet_def)
  have sum: "unat (fposition s + of_nat (length bs)) = unat (fposition s) + length bs"
    using room b len(2) by (simp add: unat_word_ariths)
  then have fits: "\<not> fend s < fposition s + of_nat (length bs)" using room by (simp add: word_less_nat_alt)
  have "length bs \<noteq> 0" using p(2) z by simp
  then have nz: "of_nat (length bs) \<noteq> (0 :: u32)" using len(2) by auto
  have full: "ESC_FOE_DATA_SIZE s = of_nat (length bs)"
    using data_size [OF z] len(2) p(2) by (intro word_unat_eq_iff [THEN iffD2]) simp
  show ?thesis
    unfolding FOE_data_def foe_store_def
    using f3 len pk nz fits full
    by (auto simp: r intro!: wpc_FOE_fwrite [OF rec f3(2) room] wpc_FOE_send_ack Q)
     (auto simp: rd receiving_def foe_open_def pending_def sum elim!: acked)
qed


lemma wpc_FOE_fclose:
  fixes s :: "'w sys"
  assumes rec: "records E log" and f: "foe_file s = Some f" "f < length (foe_files s)"
    and Q: "\<And>w fs. log w = log (world s) @ [(f, pending s)] \<Longrightarrow>
      Q (0, s\<lparr>world := w, foe_files := fs, fbufposition := 0\<rparr>)"
  shows "ok Q (FOE_fclose E s)"
proof -
  obtain w where "foe_write_function E f (foe_fbuffer s) (unat (fbufposition s)) s = (0, s\<lparr>world := w\<rparr>)"
    "log w = log (world s) @ [(f, pending s)]"
    using records_call [OF rec] by (metis pending_def)
  with f show ?thesis
    by (auto simp: FOE_fclose_def foe_flush_def upd_current_def upd_file_def at_def intro!: Q)
qed

lemma wpc_FOE_data_last:
  fixes s :: "'w sys"
  assumes rec: "records E log" and r: "can_reply E s" and f: "receiving f s"
    and p: "foe_packet s (foepacket s) bs" "length bs < activembxsize s - 12"
    and room: "unat (fposition s) + length bs \<le> unat (fend s)"
    and Q: "\<And>s'. mbx_ready E s' \<Longrightarrow> foestate s' = FOE_READY \<Longrightarrow>
      (let (cs, q) = feed (unat (foe_buffer_size s)) (pending s) bs
       in log (world s') = log (world s) @ map (Pair f) (cs @ [q])) \<Longrightarrow>
      (\<exists>n. foe_message s' n FOE_OP_ACK (foepacket s)) \<Longrightarrow> Q s'"
  shows "ok Q (FOE_data E s)"
proof -
  have inv: "mbx_inv E s" using r by (simp add: can_reply_def)
  note rd = mbx_invD(1) [OF inv]
  have z: "16 \<le> activembxsize s" "activembxsize s < 65536" using rd by (auto simp: mbx_ready_def valid_opts_def)
  note len = foe_packet_len [OF p(1) z(2)]
  have b: "unat (fend s) < 2 ^ 32" using unsigned_less [of "fend s"] by simp
  have f3: "foestate s = 3" "foe_open f s" "foe_file s = Some f" "f < length (foe_files s)"
    using f by (simp_all add: receiving_def foe_open_def)
  have pk: "mbx_u32 0 8 s = Some (foepacket s)" "mbx_get 0 12 (length bs) s = Some bs" using p(1) by (simp_all add: foe_packet_def)
  have sum: "unat (fposition s + of_nat (length bs)) = unat (fposition s) + length bs"
    using room b len(2) by (simp add: unat_word_ariths)
  then have fits: "\<not> fend s < fposition s + of_nat (length bs)" using room by (simp add: word_less_nat_alt)
  have part: "of_nat (length bs) \<noteq> ESC_FOE_DATA_SIZE s" using data_size [OF z] len(2) p(2) by auto
  show ?thesis
  proof (cases "bs = []")
    case True
    show ?thesis
      unfolding FOE_data_def
      using f3 len pk True
      by (auto simp: r intro!: wpc_FOE_fclose [OF rec f3(3,4)] wpc_FOE_send_ack Q)
        (auto simp: rd FOE_init_def elim!: acked)
  next
    case False
    then have nz: "of_nat (length bs) \<noteq> (0 :: u32)" using len(2) by auto
    show ?thesis
      unfolding FOE_data_def foe_store_def
      using f3 len pk nz fits part
      by (auto simp: r intro!: wpc_FOE_fwrite [OF rec f3(2) room] wpc_FOE_fclose [OF rec] wpc_FOE_send_ack Q)
        (auto simp: rd FOE_init_def pending_def case_prod_beta elim!: acked)
  qed
qed

section \<open>A whole file\<close>

text \<open>
  The client sends the packets with rising numbers; \<open>arrive\<close> is the mailbox in between:
  it fetches the reply and puts the next packet into buffer 0, and leaves the file server and the
  application's files alone.
\<close>

fun send_packets :: "'w env \<Rightarrow> (u32 \<Rightarrow> bytes \<Rightarrow> 'w sys \<Rightarrow> 'w sys) \<Rightarrow> u32 \<Rightarrow> bytes list \<Rightarrow> 'w sys \<Rightarrow> 'w sys option" where
  "send_packets E arrive i [] s = Some s"
| "send_packets E arrive i (p # ps) s = do { s \<leftarrow> FOE_data E (arrive i p s); send_packets E arrive (i + 1) ps s }"

definition same_file :: "'w sys \<Rightarrow> 'w sys \<Rightarrow> bool" where
  "same_file s t \<longleftrightarrow> foestate t = foestate s \<and> foe_file t = foe_file s \<and> foe_files t = foe_files s \<and>
     foe_buffer_size t = foe_buffer_size s \<and> foe_fbuffer t = foe_fbuffer s \<and> fbufposition t = fbufposition s \<and>
     foepacket t = foepacket s \<and> fposition t = fposition s \<and> fend t = fend s \<and> activembxsize t = activembxsize s"

definition packets_arrive :: "'w env \<Rightarrow> ('w \<Rightarrow> (nat \<times> bytes) list) \<Rightarrow> (u32 \<Rightarrow> bytes \<Rightarrow> 'w sys \<Rightarrow> 'w sys) \<Rightarrow> bool" where
  "packets_arrive E log arrive \<longleftrightarrow> (\<forall>s i p. mbx_ready E s \<longrightarrow> length p + 12 \<le> activembxsize s \<longrightarrow>
     (let t = arrive i p s
      in can_reply E t \<and> foe_packet t i p \<and> same_file s t \<and> log (world t) = log (world s)))"

lemma send_all:
  fixes s :: "'w sys"
  assumes rec: "records E log" and arr: "packets_arrive E log arrive"
  shows "mbx_ready E s \<Longrightarrow> receiving f s \<Longrightarrow>
    \<forall>p \<in> set ps. length p = activembxsize s - 12 \<Longrightarrow> length q < activembxsize s - 12 \<Longrightarrow>
    unat (fposition s) + length (concat ps @ q) \<le> unat (fend s) \<Longrightarrow>
    \<exists>s'. send_packets E arrive (foepacket s) (ps @ [q]) s = Some s' \<and> foestate s' = FOE_READY \<and>
      (let (cs, r) = feed (unat (foe_buffer_size s)) (pending s) (concat ps @ q)
       in log (world s') = log (world s) @ map (Pair f) (cs @ [r]))"
proof (induction ps arbitrary: s)
  case Nil
  let ?t = "arrive (foepacket s) q s"
  have t: "can_reply E ?t" "foe_packet ?t (foepacket s) q" "same_file s ?t" "log (world ?t) = log (world s)"
    using arr Nil.prems(1,4) by (auto simp: packets_arrive_def Let_def)
  from t(3) have e: "receiving f ?t" "foepacket ?t = foepacket s" "pending ?t = pending s" "fposition ?t = fposition s"
    "fend ?t = fend s" "foe_buffer_size ?t = foe_buffer_size s" "activembxsize ?t = activembxsize s"
    using Nil.prems(2) by (simp_all add: same_file_def receiving_def foe_open_def pending_def)
  have "ok (\<lambda>s'. foestate s' = FOE_READY \<and>
      (let (cs, r) = feed (unat (foe_buffer_size s)) (pending s) q
       in log (world s') = log (world s) @ map (Pair f) (cs @ [r]))) (FOE_data E ?t)"
    by (rule wpc_FOE_data_last [OF rec t(1) e(1)]) (use t e Nil.prems in auto)
  then show ?case by (auto simp: ok_ex)
next
  case (Cons p ps)
  let ?t = "arrive (foepacket s) p s"
  have t: "can_reply E ?t" "foe_packet ?t (foepacket s) p" "same_file s ?t" "log (world ?t) = log (world s)"
    using arr Cons.prems(1,3,4) by (auto simp: packets_arrive_def Let_def)
  from t(3) have e: "receiving f ?t" "foepacket ?t = foepacket s" "pending ?t = pending s" "fposition ?t = fposition s"
    "fend ?t = fend s" "foe_buffer_size ?t = foe_buffer_size s" "activembxsize ?t = activembxsize s"
    using Cons.prems(2) by (simp_all add: same_file_def receiving_def foe_open_def pending_def)
  let ?f = "feed (unat (foe_buffer_size s)) (pending s) p"
  have "ok (\<lambda>u. mbx_ready E u \<and> receiving f u \<and> foepacket u = foepacket s + 1 \<and> fend u = fend s \<and>
      foe_buffer_size u = foe_buffer_size s \<and> activembxsize u = activembxsize s \<and>
      unat (fposition u) = unat (fposition s) + length p \<and> pending u = snd ?f \<and>
      log (world u) = log (world s) @ map (Pair f) (fst ?f)) (FOE_data E ?t)"
    by (rule wpc_FOE_data_full [OF rec t(1) e(1)]) (use t e Cons.prems in auto)
  then obtain u where u: "FOE_data E ?t = Some u" "mbx_ready E u" "receiving f u" "foepacket u = foepacket s + 1"
    "fend u = fend s" "foe_buffer_size u = foe_buffer_size s" "activembxsize u = activembxsize s"
    "unat (fposition u) = unat (fposition s) + length p" "pending u = snd ?f"
    "log (world u) = log (world s) @ map (Pair f) (fst ?f)"
    by (auto simp: ok_ex)
  from Cons.IH [OF u(2,3)] Cons.prems u show ?case
    by (auto simp: feed_append case_prod_beta)
qed

text \<open>
  C33. A file download delivers the file: full packets with rising numbers and one shorter
  packet at the end, of any total length that the file may have, are all accepted; the
  application's write function is called for the open file with full buffers and one last
  partial (perhaps empty) one, which together are the bytes of the packets in order, and
  the server is ready for the next file.
\<close>

theorem foe_download_delivered:
  assumes "records E log" and "packets_arrive E log arrive"
    and "mbx_ready E s" and "receiving f s"
    and "\<forall>p \<in> set ps. length p = activembxsize s - 12" and "length q < activembxsize s - 12"
    and "unat (fposition s) + length (concat ps @ q) \<le> unat (fend s)"
  shows "\<exists>s' chunks rest. send_packets E arrive (foepacket s) (ps @ [q]) s = Some s' \<and> foestate s' = 0 \<and>
    log (world s') = log (world s) @ map (Pair f) (chunks @ [rest]) \<and>
    concat chunks @ rest = pending s @ concat ps @ q \<and>
    (\<forall>c \<in> set chunks. length c = unat (foe_buffer_size s)) \<and> length rest < unat (foe_buffer_size s)"
proof -
  let ?n = "unat (foe_buffer_size s)"
  obtain cs r where fd: "feed ?n (pending s) (concat ps @ q) = (cs, r)" by (cases "feed ?n (pending s) (concat ps @ q)")
  obtain s' where s': "send_packets E arrive (foepacket s) (ps @ [q]) s = Some s'" "foestate s' = 0"
    "log (world s') = log (world s) @ map (Pair f) (cs @ [r])"
    using send_all [OF assms] fd by auto
  have "length (pending s) < ?n" using assms(4) by (simp add: receiving_def foe_open_def pending_def)
  from feed_full [OF this, of "concat ps @ q"] feed_concat [of ?n "pending s" "concat ps @ q"] fd
  have "concat cs @ r = pending s @ concat ps @ q" "\<forall>c \<in> set cs. length c = ?n" "length r < ?n" by auto
  with s' show ?thesis by (intro exI [of _ s'] exI [of _ cs] exI [of _ r]) simp
qed

section \<open>Opening a file\<close>

text \<open>
  The file that a name opens: the first one whose name starts with it, if the password is
  right and the file may be written in this state.
\<close>

definition foe_lookup :: "foe_file_cfg list \<Rightarrow> bytes \<Rightarrow> u32 \<Rightarrow> bool \<Rightarrow> u32 + nat" where
  "foe_lookup files name pass boot = (case List.find (\<lambda>i. prefix name (ff_name (files ! i))) [0..<length files] of
       None \<Rightarrow> Inl FOE_ERR_NOTFOUND
     | Some i \<Rightarrow> if pass \<noteq> ff_filepass (files ! i) then Inl FOE_ERR_NORIGHTS
         else if ff_write_only_in_boot (files ! i) \<noteq> 0 \<and> \<not> boot then Inl FOE_ERR_NOTINBOOTSTRAP
         else Inr i)"

lemma strncmp_prefix: "0 \<notin> set a \<Longrightarrow> strncmp_eq (a @ c) b (length a) \<longleftrightarrow> prefix a b"
  by (induction a arbitrary: b) (auto simp: Let_def split: list.splits)

lemma foe_find_lookup:
  assumes "0 \<notin> set name" "length name = unat k"
  shows "drop i (foe_files s) = cs \<Longrightarrow> foe_find cs i (name @ [0]) k pass FOE_OP_WRQ s =
    (case List.find (\<lambda>j. prefix name (ff_name (foe_files s ! j))) [i..<length (foe_files s)] of
       None \<Rightarrow> Some (FOE_ERR_NOTFOUND, s)
     | Some j \<Rightarrow> (let c = foe_files s ! j in
         if pass \<noteq> ff_filepass c then Some (FOE_ERR_NORIGHTS, s)
         else if ff_write_only_in_boot c \<noteq> 0 \<and> ALstatus s \<noteq> to_u16 ESCboot then Some (FOE_ERR_NOTINBOOTSTRAP, s)
         else Some (0, s\<lparr>foe_file := Some j, foe_files := (foe_files s)[j := c\<lparr>ff_address_offset := 0, ff_total_size := 0\<rparr>],
           fposition := 0, fend := ff_max_data c\<rparr>)))"
proof (induction cs arbitrary: i)
  case Nil
  then show ?case by simp
next
  case (Cons c cs)
  then have i: "i < length (foe_files s)" by (cases "i < length (foe_files s)") simp_all
  with Cons.prems have c: "foe_files s ! i = c" "drop (Suc i) (foe_files s) = cs"
    by (simp_all add: Cons_nth_drop_Suc [symmetric])
  note m = strncmp_prefix [OF assms(1), of "[0]" "ff_name c", unfolded assms(2)]
  show ?case
    using Cons.IH [of "Suc i"] c i m
    by (auto simp: upt_conv_Cons upd_file_def at_def Let_def)
qed

lemma FOE_fopen_lookup:
  assumes name: "mbx_get 0 12 (length name) s = Some name" "0 \<notin> set name" "length name = unat k" "\<not> 31 < k"
  shows "FOE_fopen k pass FOE_OP_WRQ s = (let s = s\<lparr>foe_file_name := name @ [0]\<rparr> in
    case foe_lookup (foe_files s) name pass (ALstatus s = 3) of
      Inl code \<Rightarrow> Some (code, s)
    | Inr j \<Rightarrow> (let c = foe_files s ! j in
        Some (0, s\<lparr>foe_file := Some j, foe_files := (foe_files s)[j := c\<lparr>ff_address_offset := 0, ff_total_size := 0\<rparr>],
           fposition := 0, fend := ff_max_data c\<rparr>)))"
  using name foe_find_lookup [OF name(2,3), of 0 "s\<lparr>foe_file_name := name @ [0]\<rparr>" "foe_files s" pass]
  by (auto simp: FOE_fopen_def foe_lookup_def Let_def split: option.splits)

lemma foe_lookup_code: "foe_lookup files name pass boot = Inl code \<Longrightarrow> code \<noteq> 0"
  by (auto simp: foe_lookup_def split: option.splits if_splits)

lemma can_reply_open [simp]:
  "can_reply E (s\<lparr>foe_file_name := fb\<rparr>) = can_reply E s" "can_reply E (s\<lparr>foe_file := w\<rparr>) = can_reply E s"
  "can_reply E (s\<lparr>fend := v\<rparr>) = can_reply E s" "can_reply E (FOE_init s) = can_reply E s"
  by (simp_all add: can_reply_def mbx_inv_def mbx_ready_def pool_inv_def FOE_init_def)

text \<open>
  C34. A write request opens the first file whose name starts with the requested name,
  when its password is right and the state allows it: the server acknowledges packet 0,
  waits for packet 1 at the start of an empty buffer, and the room is that of the file. Otherwise
  the client gets the error code, and no file is touched.
\<close>

theorem foe_write_opens:
  assumes "can_reply E s" and "foestate s = 0"
    and "foe_packet s pass name" "length name \<le> 31" "0 \<notin> set name"
  shows "\<exists>s' n. FOE_write E s = Some s' \<and> world s' = world s \<and>
    (case foe_lookup (foe_files s) name pass (ALstatus s = 3) of
       Inl code \<Rightarrow> foe_message s' n 5 code \<and> foestate s' = 0 \<and> foe_files s' = foe_files s
     | Inr f \<Rightarrow> foe_message s' n 4 0 \<and> foestate s' = 3 \<and> foepacket s' = 1 \<and> foe_file s' = Some f \<and>
         fposition s' = 0 \<and> fend s' = ff_max_data (foe_files s ! f) \<and> pending s' = [])"
proof -
  have inv: "mbx_inv E s" using assms(1) by (simp add: can_reply_def)
  have z: "activembxsize s < 65536" using mbx_invD(1) [OF inv] by (auto simp: mbx_ready_def valid_opts_def)
  note len = foe_packet_len [OF assms(3) z]
  have k: "unat (to_u8 (of_nat (length name) :: u32)) = length name" using assms(4) len(2) by simp
  then have k31: "\<not> 31 < to_u8 (of_nat (length name) :: u32)" using assms(4) by (simp add: word_less_nat_alt)
  have g: "mbx_u32 0 8 s = Some pass" "mbx_get 0 12 (length name) s = Some name" using assms(3) by (simp_all add: foe_packet_def)
  let ?look = "foe_lookup (foe_files s) name pass (ALstatus s = 3)"
  have g': "mbx_get 0 12 (length name) (FOE_init s) = Some name" using g(2) by (simp add: FOE_init_def mbx_get_def)
  have same: "foe_files (FOE_init s) = foe_files s" "ALstatus (FOE_init s) = ALstatus s" "world (FOE_init s) = world s"
    "foe_data_len (FOE_init s) = foe_data_len s" "mbx_u32 0 8 (FOE_init s) = mbx_u32 0 8 s" "foepacket (FOE_init s) = 0"
    by (simp_all add: FOE_init_def foe_data_len_def mbx_length_def mbx_u16_def mbx_u32_def mbx_get_def)
  note op = FOE_fopen_lookup [OF g' assms(5) k [symmetric] k31, of pass, unfolded same]
  show ?thesis
  proof (cases ?look)
    case (Inl code)
    have "ok (\<lambda>s'. world s' = world s \<and> (\<exists>n. foe_message s' n 5 code) \<and> foestate s' = 0 \<and> foe_files s' = foe_files s) (FOE_write E s)"
      unfolding FOE_write_def using assms(1,2) len(1) g(1) op Inl foe_lookup_code [OF Inl]
      by (auto simp: same Let_def intro!: wpc_FOE_abort) (auto simp: same FOE_init_def elim!: acked)
    with Inl show ?thesis by (auto simp: ok_ex)
  next
    case (Inr f)
    have "ok (\<lambda>s'. world s' = world s \<and> (\<exists>n. foe_message s' n 4 0) \<and> foestate s' = 3 \<and> foepacket s' = 1 \<and>
        foe_file s' = Some f \<and> fposition s' = 0 \<and> fend s' = ff_max_data (foe_files s ! f) \<and> pending s' = []) (FOE_write E s)"
      unfolding FOE_write_def using assms(1,2) len(1) g(1) op Inr
      by (auto simp: same Let_def intro!: wpc_FOE_send_ack) (auto simp: same FOE_init_def pending_def elim!: acked)
    with Inr show ?thesis by (auto simp: ok_ex)
  qed
qed


text \<open>
  Data that does not belong to the transfer is refused and ends it: without an open
  file, with a packet number that is not the next one, or with more bytes than the file may have,
  the client gets the error code for it; nothing is buffered and the application's
  write function is not called.
\<close>

theorem foe_data_refused:
  assumes "can_reply E s" and "foe_packet s i bs"
    and "if foestate s \<noteq> 3 then code = 0x8004
      else if i \<noteq> foepacket s then code = 0x8005
      else bs \<noteq> [] \<and> unat (fend s) < unat (fposition s) + length bs \<and>
        unat (fposition s) + length bs < 2 ^ 32 \<and> code = 0x8003"
  shows "\<exists>s' n. FOE_data E s = Some s' \<and> foe_message s' n 5 code \<and> foestate s' = 0 \<and>
    world s' = world s \<and> foe_fbuffer s' = foe_fbuffer s \<and> foe_files s' = foe_files s"
proof -
  have inv: "mbx_inv E s" using assms(1) by (simp add: can_reply_def)
  have z: "activembxsize s < 65536" using mbx_invD(1) [OF inv] by (auto simp: mbx_ready_def valid_opts_def)
  note len = foe_packet_len [OF assms(2) z]
  have g: "mbx_u32 0 8 s = Some i" using assms(2) by (simp add: foe_packet_def)
  have over: "fend s < fposition s + of_nat (length bs) \<longleftrightarrow> unat (fend s) < unat (fposition s) + length bs"
    if "unat (fposition s) + length bs < 2 ^ 32"
    using that len(2) by (simp add: word_less_nat_alt unat_word_ariths)
  have nz: "of_nat (length bs) \<noteq> (0 :: u32)" if "bs \<noteq> []"
    using that len(2) by auto
  have "FOE_data E s = FOE_abort E code s"
    using assms(3) len(1) g over nz by (auto simp: FOE_data_def split: if_splits)
  moreover have "code \<noteq> 0" using assms(3) by (auto split: if_splits)
  then have "ok (\<lambda>s'. (\<exists>n. foe_message s' n 5 code) \<and> foestate s' = 0 \<and> world s' = world s \<and>
      foe_fbuffer s' = foe_fbuffer s \<and> foe_files s' = foe_files s) (FOE_abort E code s)"
    by (auto intro!: wpc_FOE_abort [OF assms(1)]) (auto simp: FOE_init_def elim!: acked)
  ultimately show ?thesis by (auto simp: ok_ex)
qed

section \<open>A sample transfer\<close>

text \<open>An application that keeps what it is given in its world, next to the registers.\<close>

type_synonym file_world = "ram \<times> (nat \<times> bytes) list"

definition file_env :: "file_world env" where
  "file_env = (log_env sample_objects)\<lparr>foe_write_function :=
     (\<lambda>f bs n s. (0, s\<lparr>world := (fst (world s), snd (world s) @ [(f, take n bs)])\<rparr>))\<rparr>"

lemma file_env_simps [simp]: "opt file_env = default_options"
  by (simp add: file_env_def log_env_def quiet_env_def)

lemma file_env_records: "records file_env snd"
  unfolding records_def
proof (intro allI)
  fix f fb n and s :: "file_world sys"
  show "\<exists>w. foe_write_function file_env f fb n s = (0, s\<lparr>world := w\<rparr>) \<and> snd w = snd (world s) @ [(f, take n fb)]"
    by (rule exI [of _ "(fst (world s), snd (world s) @ [(f, take n fb)])"]) (simp add: file_env_def)
qed

text \<open>The mailbox between two packets: buffer 0 holds the next one, the reply is gone.\<close>

definition foe_arrival :: "u32 \<Rightarrow> bytes \<Rightarrow> 'w sys \<Rightarrow> 'w sys" where
  "foe_arrival i p s = s\<lparr>
     MBX := le16 (of_nat (length p + 6)) @ [0, 0, 0, 4, 3, 0] @ le32 i @ p @ drop (12 + length p) (MBX s),
     MBXcontrol := (\<lambda>_. MBXstate_idle)(0 := MBXstate_inclaim), mbxoutpost := 0, mbxbackup := 0, txcue := 0\<rparr>"

lemma packets_arrive_file: "packets_arrive file_env snd foe_arrival"
  unfolding packets_arrive_def Let_def
proof (intro allI impI conjI)
  fix s :: "file_world sys" and i :: u32 and p :: bytes
  assume r: "mbx_ready file_env s" and l: "length p + 12 \<le> activembxsize s"
  then have z: "activembxsize s \<le> length (MBX s)" "16 \<le> activembxsize s"
    using mbx_ready_room [OF r, of 0] by (auto simp: has_room_def mbx_ready_def valid_opts_def)
  have len: "length (MBX (foe_arrival i p s)) = length (MBX s)" using z l by (simp add: foe_arrival_def)
  then show "can_reply file_env (foe_arrival i p s)"
    using r unfolding can_reply_def
    by (auto simp: mbx_inv_def mbx_ready_def pool_inv_def pool_ok_def queued_def foe_arrival_def default_options_def
        intro!: exI [of _ 1])
  have i: "rd32 [to_u8 i, to_u8 (drop_bit 8 i), to_u8 (drop_bit 16 i), to_u8 (drop_bit 24 i)] = i"
    using rd32_le32' [of i] by (simp add: le32_def del: rd32.simps rd32_le32')
  have "length p \<le> length (MBX s) - 12" using z l by linarith
  with i show "foe_packet (foe_arrival i p s) i p"
    using z l by (simp add: foe_packet_def mbx_length_def mbx_u16_def mbx_u32_def mbx_get_def get_bytes_def foe_arrival_def
        le16_def le32_def del: rd16.simps rd32.simps)
qed (simp_all add: same_file_def foe_arrival_def)


definition file_sys :: "file_world sys" where
  "file_sys = (init_sys default_options (\<lambda>_. replicate 8 0) (\<lambda>_. 0, []))
     \<lparr>MBXrun := 1, mbxfree := 1, activembxsize := 16,
      activemb0 := Some \<lparr>cfg_sma = 0x1000, cfg_sml = 16, cfg_sme = 0x100F, cfg_smc = 0x26\<rparr>,
      activemb1 := Some \<lparr>cfg_sma = 0x1080, cfg_sml = 16, cfg_sme = 0x108F, cfg_smc = 0x22\<rparr>,
      foe_fbuffer := [0, 0, 0], foe_buffer_size := 3,
      foe_files := [\<lparr>ff_name = [102, 119, 49], ff_max_data = 100, ff_dest_start_address = 0, ff_address_offset = 0,
        ff_total_size = 0, ff_filepass = 7, ff_write_only_in_boot = 0\<rparr>]\<rparr>"

definition open_sys :: "file_world sys" where
  "open_sys = file_sys\<lparr>foestate := 3, foe_file := Some 0, foepacket := 1, fend := 100\<rparr>"

lemma file_sys_ready: "mbx_ready file_env file_sys" "mbx_ready file_env open_sys" "receiving 0 open_sys"
  by (simp_all add: mbx_ready_def valid_opts_def file_sys_def open_sys_def init_sys_def default_options_def
      receiving_def foe_open_def)

theorem foe_download_delivered_witness:
  "\<exists>s' chunks rest. send_packets file_env foe_arrival 1 ([[1, 2, 3, 4]] @ [[5, 6]]) open_sys = Some s' \<and> foestate s' = 0 \<and>
     snd (world s') = map (Pair 0) (chunks @ [rest]) \<and> concat chunks @ rest = [1, 2, 3, 4, 5, 6] \<and>
     (\<forall>c \<in> set chunks. length c = 3) \<and> length rest < 3"
  using foe_download_delivered [where E = file_env and log = snd and arrive = foe_arrival and s = open_sys and f = 0
      and ps = "[[1, 2, 3, 4]]" and q = "[5, 6]"] file_env_records packets_arrive_file file_sys_ready
  by (simp add: open_sys_def file_sys_def init_sys_def pending_def)

text \<open>The write request for that file arrives, and a packet out of order.\<close>

lemma arrived:
  assumes "mbx_ready file_env s" "length p + 12 \<le> activembxsize s"
  shows "can_reply file_env (foe_arrival i p s)" "foe_packet (foe_arrival i p s) i p"
  using packets_arrive_file assms by (simp_all add: packets_arrive_def Let_def)

theorem foe_write_opens_witness:
  "\<exists>s' n. FOE_write file_env (foe_arrival 7 [102, 119, 49] file_sys) = Some s' \<and> foe_message s' n 4 0 \<and>
     foestate s' = 3 \<and> foe_file s' = Some 0"
  using foe_write_opens [where E = file_env and s = "foe_arrival 7 [102, 119, 49] file_sys" and pass = 7 and name = "[102, 119, 49]"]
    arrived [where s = file_sys and i = 7 and p = "[102, 119, 49]"] file_sys_ready
  by (auto simp: foe_lookup_def foe_arrival_def file_sys_def init_sys_def)

theorem foe_data_refused_witness:
  "\<exists>s' n. FOE_data file_env (foe_arrival 9 [1, 2] open_sys) = Some s' \<and> foe_message s' n 5 0x8005 \<and>
     foestate s' = 0 \<and> snd (world s') = []"
  using foe_data_refused [where E = file_env and s = "foe_arrival 9 [1, 2] open_sys" and i = 9 and bs = "[1, 2]" and code = "0x8005"]
    arrived [where s = open_sys and i = 9 and p = "[1, 2]"] file_sys_ready
  by (auto simp: foe_arrival_def open_sys_def file_sys_def init_sys_def)

end
