(* ===== verification/Eoe_Props.thy ===== *)
theory Eoe_Props
  imports Eoe Foe_Props
begin

text \<open>
  The properties of Ethernet over EtherCAT: a frame that one side sends in fragments is put
  together by the other, and the network settings that the master writes are those it reads.
\<close>

section \<open>The header of a fragment\<close>

lemma header_fields:
  fixes a b c :: u16
  defines "x \<equiv> (a AND 0x3F) OR push_bit 6 (b AND 0x3F) OR push_bit 12 (c AND 0xF)"
  shows "x AND 0x3F = a AND 0x3F" "drop_bit 6 x AND 0x3F = b AND 0x3F" "drop_bit 12 x AND 0xF = c AND 0xF"
proof -
  have m: "(0x3F :: u16) = mask 6" "(0xF :: u16) = mask 4" by (simp_all add: mask_eq_exp_minus_1)
  show "x AND 0x3F = a AND 0x3F" "drop_bit 6 x AND 0x3F = b AND 0x3F" "drop_bit 12 x AND 0xF = c AND 0xF"
    unfolding x_def m by (rule bit_word_eqI; auto simp: bit_simps)+
qed

text \<open>Numbers below 64 survive the mask of six bits.\<close>

lemma six_bits:
  fixes x :: u16
  shows "unat (x AND 0x3F) = unat x mod 64"
proof -
  have e: "x AND 0x3F = take_bit 6 x" by (simp add: take_bit_eq_mask mask_eq_exp_minus_1)
  show ?thesis unfolding e unsigned_take_bit_eq by (simp add: take_bit_eq_mod)
qed

text \<open>Offsets and sizes in blocks of 32 bytes, up to 63 of them.\<close>

lemma block_field:
  fixes off :: u32
  assumes "unat off < 2048"
  shows "push_bit 5 (to_u32 (to_u16 (drop_bit 5 off) AND 0x3F)) = of_nat (32 * (unat off div 32))"
proof -
  have d: "unat (drop_bit 5 off) = unat off div 32" by (simp only: unat_drop_bit_eq) (simp add: drop_bit_eq_div)
  then have u: "unat (to_u16 (drop_bit 5 off)) = unat off div 32"
    using assms by (simp add: unsigned_ucast_eq take_bit_nat_eq_self)
  have "unat (to_u32 (to_u16 (drop_bit 5 off) AND 0x3F)) = unat off div 32"
    using six_bits [of "to_u16 (drop_bit 5 off)"] u assms by (simp add: unsigned_ucast_eq take_bit_nat_eq_self)
  then have "to_u32 (to_u16 (drop_bit 5 off) AND 0x3F) = of_nat (unat off div 32)"
    by (metis of_nat_unat ucast_id)
  then show ?thesis by (simp add: push_bit_eq_mult mult.commute)
qed

lemma tx_fields:
  assumes "unat (txfragmentno v) < 64" "unat (txframesize v) \<le> 2016" "unat (txframeoffset v) \<le> 2016"
  shows "frag_no (tx_frameinfo2 v f) = to_u16 (txfragmentno v)"
    "frame_no (tx_frameinfo2 v f) = to_u16 f AND 0xF"
    "frame_offset (tx_frameinfo2 v f) = of_nat (32 * ((if txfragmentno v > 0 then unat (txframeoffset v)
       else unat (txframesize v) + 31) div 32))"
proof -
  have "unat (to_u16 (txfragmentno v) AND 0x3F) = unat (to_u16 (txfragmentno v))"
    using assms(1) by (simp add: six_bits unsigned_ucast_eq take_bit_nat_eq_self)
  then show "frag_no (tx_frameinfo2 v f) = to_u16 (txfragmentno v)"
    unfolding frag_no_def tx_frameinfo2_def header_fields by (simp add: word_unat_eq_iff)
  show "frame_no (tx_frameinfo2 v f) = to_u16 f AND 0xF"
    unfolding frame_no_def tx_frameinfo2_def header_fields ..
  have "unat (txframesize v + 31) = unat (txframesize v) + 31" using assms(2) by (simp add: unat_word_ariths)
  then show "frame_offset (tx_frameinfo2 v f) = of_nat (32 * ((if txfragmentno v > 0 then unat (txframeoffset v)
       else unat (txframesize v) + 31) div 32))"
    unfolding frame_offset_def tx_frameinfo2_def header_fields
    using assms block_field [of "txframeoffset v"] block_field [of "txframesize v + 31"] by simp
qed


section \<open>One fragment out\<close>

text \<open>A frame on its way: \<open>off\<close> bytes of it are out, in \<open>k\<close> fragments.\<close>

definition sending :: "bytes \<Rightarrow> nat \<Rightarrow> nat \<Rightarrow> 'w sys \<Rightarrow> bool" where
  "sending frame off k s \<longleftrightarrow>
     (\<exists>b. pb_payload (txebuf (EOEvar s)) = Some b \<and> length frame \<le> length b \<and> take (length frame) b = frame) \<and>
     unat (txframesize (EOEvar s)) = length frame \<and> unat (txframeoffset (EOEvar s)) = off \<and>
     unat (txfragmentno (EOEvar s)) = k"

definition eoe_fragment :: "nat \<Rightarrow> 'w sys \<Rightarrow> u16 \<Rightarrow> u16 \<Rightarrow> bytes \<Rightarrow> bool" where
  "eoe_fragment n s i1 i2 bs \<longleftrightarrow> mbx_length n s = Some (of_nat (length bs + 4)) \<and>
     mbx_u16 n 6 s = Some i1 \<and> mbx_u16 n 8 s = Some i2 \<and> mbx_get n 10 (length bs) s = Some bs"

text \<open>How much of \<open>left\<close> bytes a mailbox of \<open>z\<close> bytes takes.\<close>

definition portion :: "nat \<Rightarrow> nat \<Rightarrow> nat" where
  "portion z left = (if left \<le> z - 10 then left else 32 * ((z - 10) div 32))"

lemma tx_length_portion:
  assumes "sending frame off k s" "length frame \<le> 2016" "off \<le> length frame"
    and "10 \<le> activembxsize s" "activembxsize s < 65536"
  shows "unat (tx_length s) = portion (activembxsize s) (length frame - off)"
proof -
  let ?z = "activembxsize s" and ?left = "txframesize (EOEvar s) - txframeoffset (EOEvar s)"
  have z: "unat (of_nat ?z :: u32) = ?z" using assms(5) by (simp add: unat_of_nat take_bit_nat_eq_self)
  have l: "unat ?left = length frame - off"
    using assms(1,3) by (simp add: sending_def unat_sub word_le_nat_alt)
  then have l10: "unat (?left + 10) = length frame - off + 10" using assms(2) by (simp add: unat_word_ariths)
  have m: "unat (of_nat ?z - 10 :: u32) = ?z - 10" using z assms(4) by (simp add: unat_sub word_le_nat_alt)
  have "unat (drop_bit 5 (of_nat ?z - 10 :: u32)) = (?z - 10) div 32"
    using m by (simp only: unat_drop_bit_eq) (simp add: drop_bit_eq_div)
  moreover have "(?z - 10) div 32 < 2048" using assms(5) by auto
  ultimately have "unat (push_bit 5 (drop_bit 5 (of_nat ?z - 10 :: u32))) = 32 * ((?z - 10) div 32)"
    by (simp add: push_bit_eq_mult unat_word_ariths)
  with l l10 z assms(4) show ?thesis
    by (auto simp: tx_length_def portion_def Let_def word_less_nat_alt add.assoc)
qed

definition frees :: "'w env \<Rightarrow> bool" where
  "frees E \<longleftrightarrow> (\<forall>h b s. eoe_free_buffer E = Some h \<longrightarrow> (\<exists>w. snd (h b s) = s\<lparr>world := w\<rparr>))"

lemma EOE_init_tx_frees:
  fixes s :: "'w sys"
  assumes "frees E"
  obtains v w where "EOE_init_tx E s = s\<lparr>world := w, EOEvar := v\<rparr>"
proof -
  have same: "s\<lparr>EOEvar := v\<rparr> = s\<lparr>world := world s, EOEvar := v\<rparr>" for v by (cases s) simp
  show thesis
  proof (cases "eoe_free_buffer E = None \<or> pb_payload (txebuf (EOEvar s)) = None")
    case True
    then show thesis by (intro that [OF trans [OF _ same]]) (auto simp: EOE_init_tx_def upd_eoe_def Let_def)
  next
    case False
    then obtain h where h: "eoe_free_buffer E = Some h" "pb_payload (txebuf (EOEvar s)) \<noteq> None" by auto
    let ?v = "(EOEvar s)\<lparr>txfragmentno := 0, txframesize := 0, txframeoffset := 0\<rparr>"
    obtain w where "snd (h (txebuf ?v) (s\<lparr>EOEvar := ?v\<rparr>)) = s\<lparr>EOEvar := ?v, world := w\<rparr>"
      using assms h(1) unfolding frees_def by blast
    with h show thesis by (intro that) (simp add: EOE_init_tx_def upd_eoe_def Let_def case_prod_beta)
  qed
qed

lemma mbx_ready_eoe [simp]:
  "mbx_ready E (s\<lparr>EOEvar := v\<rparr>) = mbx_ready E s" "mbx_ready E (s\<lparr>eoe_frameno := n\<rparr>) = mbx_ready E s"
  by (simp_all add: mbx_ready_def)

lemma has_room_eoe [simp]: "has_room i (s\<lparr>eoe_frameno := n\<rparr>) = has_room i s"
  by (simp add: has_room_def)

lemma tx_length_upd [simp]:
  "tx_length (s\<lparr>MBXcontrol := c\<rparr>) = tx_length s" "tx_length (s\<lparr>mbxcnt := b\<rparr>) = tx_length s"
  "tx_length (s\<lparr>MBX := m\<rparr>) = tx_length s" "tx_length (s\<lparr>txcue := b\<rparr>) = tx_length s"
  by (simp_all add: tx_length_def)

text \<open>The message alone: header, data, length.\<close>

definition fragment_body :: "nat \<Rightarrow> u16 \<Rightarrow> u16 \<Rightarrow> u32 \<Rightarrow> 'w sys \<Rightarrow> 'w sys option" where
  "fragment_body n i1 i2 len s = do {
     s \<leftarrow> mbx_set_length n (to_u16 (len + ESC_EOEHSIZE)) s;
     s \<leftarrow> mbx_set_type n MBXEOE s;
     s \<leftarrow> mbx_put n 6 (le16 i1) s;
     s \<leftarrow> mbx_put n 8 (le16 i2) s;
     payload \<leftarrow> pb_payload (txebuf (EOEvar s));
     data \<leftarrow> get_bytes (unat (txframeoffset (EOEvar s))) (unat len) payload;
     mbx_put n 10 data s
   }"

lemma tx_fragment_body:
  "tx_fragment E n s = (
     let len = tx_length s;
         complete = (len = txframesize (EOEvar s) - txframeoffset (EOEvar s));
         s = (if txfragmentno (EOEvar s) > 0 then s else s\<lparr>eoe_frameno := eoe_frameno s + 1\<rparr>)
     in do {
       s \<leftarrow> fragment_body n (if complete then EOE_HDR_LAST_FRAGMENT else 0) (tx_frameinfo2 (EOEvar s) (eoe_frameno s)) len s;
       let s = set_mbxstate n MBXstate_outreq s;
       let s = (if complete then EOE_init_tx E s
                else upd_eoe (\<lambda>v. v\<lparr>txframeoffset := txframeoffset v + len, txfragmentno := txfragmentno v + 1\<rparr>) s);
       Some (case fragment_sent_event E of None \<Rightarrow> s | Some h \<Rightarrow> h s)
     })"
  by (simp add: tx_fragment_def fragment_body_def Let_def)

lemma wpc_fragment_body:
  fixes s :: "'w sys"
  assumes "has_room n s" "16 \<le> activembxsize s" "0 < n" "10 + unat len \<le> activembxsize s" "activembxsize s < 65536"
    and "pb_payload (txebuf (EOEvar s)) = Some b" "get_bytes (unat (txframeoffset (EOEvar s))) (unat len) b = Some bs"
    and Q: "\<And>m. length m = length (MBX s) \<Longrightarrow>
      (\<forall>t :: 'w sys. activembxsize t = activembxsize s \<longrightarrow> MBX t = m \<longrightarrow> eoe_fragment n t i1 i2 bs) \<Longrightarrow> Q (s\<lparr>MBX := m\<rparr>)"
  shows "ok Q (fragment_body n i1 i2 len s)"
proof -
  have l: "length bs = unat len" using assms(7) by (rule get_bytes_length)
  have "unat (len + 4) = unat len + 4" using assms(4,5) by (simp add: unat_word_ariths)
  then have w: "to_u16 (len + 4) = of_nat (length bs) + 4"
    by (metis l of_nat_add of_nat_numeral of_nat_unat)
  show ?thesis
    using assms(1-6) l assms(7)
    by (auto simp: fragment_body_def intro!: wpc Q)
      (auto simp: eoe_fragment_def cell_simps mbx_get_cells map_put_cells w has_room_def simp del: rd16.simps rd32.simps)
qed

lemma wpc_tx_fragment:
  fixes s :: "'w sys"
  assumes r: "can_reply E s" and tx: "sending frame off k s" and hooks: "frees E" "fragment_sent_event E = None"
    and size: "length frame \<le> 2016" "off \<le> length frame" "42 \<le> activembxsize s" and k: "k < 63"
    and Q: "\<And>s'. let c = portion (activembxsize s) (length frame - off); fin = (c = length frame - off);
        fno = (if k > 0 then eoe_frameno s else eoe_frameno s + 1)
      in eoe_fragment (reply_buffer E s) s' (if fin then 0x0100 else 0) (tx_frameinfo2 (EOEvar s) fno) (take c (drop off frame)) \<and>
        MBXcontrol s' (reply_buffer E s) = MBXstate_outreq \<and> mbx_ready E s' \<and> activembxsize s' = activembxsize s \<and>
        eoe_frameno s' = fno \<and> (fin \<or> sending frame (off + c) (k + 1) s') \<Longrightarrow> Q s'"
  shows "ok Q (EOE_send_fragment E s)"
proof -
  have inv: "mbx_inv E s" using r by (simp add: can_reply_def)
  note rd = mbx_invD(1) [OF inv]
  have z: "16 \<le> activembxsize s" "activembxsize s < 65536" "10 \<le> activembxsize s" using rd by (auto simp: mbx_ready_def valid_opts_def)
  note n = reply_buffer_idle [OF r]
  let ?c = "portion (activembxsize s) (length frame - off)"
  note c = tx_length_portion [OF tx size(1,2) z(3,2)]
  obtain b where b: "pb_payload (txebuf (EOEvar s)) = Some b" "length frame \<le> length b" "take (length frame) b = frame"
    using tx by (auto simp: sending_def)
  have v: "unat (txframesize (EOEvar s)) = length frame" "unat (txframeoffset (EOEvar s)) = off"
    "unat (txfragmentno (EOEvar s)) = k" using tx by (auto simp: sending_def)
  have c_le: "?c \<le> length frame - off" "10 + ?c \<le> activembxsize s" using z by (auto simp: portion_def)
  have data: "get_bytes off ?c b = Some (take ?c (drop off frame))"
  proof -
    have "drop off frame = take (length frame - off) (drop off b)" using b(3) by (metis drop_take)
    then show ?thesis using b(2) c_le size(2) by (simp add: get_bytes_def min_absorb1)
  qed
  have first: "0 < txfragmentno (EOEvar s) \<longleftrightarrow> 0 < k" using v(3) by (simp add: word_less_nat_alt)
  have left: "unat (txframesize (EOEvar s) - txframeoffset (EOEvar s)) = length frame - off"
    using v size by (simp add: unat_sub word_le_nat_alt)
  have nz: "reply_buffer E s \<noteq> 0" using n(1) by simp
  have fin: "tx_length s = txframesize (EOEvar s) - txframeoffset (EOEvar s) \<longleftrightarrow> ?c = length frame - off"
  proof -
    have "unat (txframesize (EOEvar s) - txframeoffset (EOEvar s)) = length frame - off"
      using v size by (simp add: unat_sub word_le_nat_alt)
    with c show ?thesis by (simp add: word_unat_eq_iff)
  qed
  have next_off: "unat (txframeoffset (EOEvar s) + tx_length s) = off + ?c"
    using v(2) c c_le(1) size by (simp add: unat_word_ariths)
  have room: "10 + unat (tx_length s) \<le> activembxsize s" using c c_le by simp
  note body = wpc_fragment_body [where bs = "take ?c (drop off frame)" and b = b]
  have next_k: "unat (txfragmentno (EOEvar s) + 1) = Suc k" using v(3) k by (simp add: unat_word_ariths)
  have "\<exists>w v. EOE_init_tx E t = t\<lparr>world := w, EOEvar := v\<rparr>" for t :: "'w sys"
    by (rule EOE_init_tx_frees [OF hooks(1)]) blast
  then obtain f g where init: "\<And>t :: 'w sys. EOE_init_tx E t = t\<lparr>world := f t, EOEvar := g t\<rparr>" by metis
  have data': "get_bytes (unat (txframeoffset (EOEvar s))) (unat (tx_length s)) b = Some (take ?c (drop off frame))"
    using data v(2) c by simp
  show ?thesis
    unfolding EOE_send_fragment_def tx_fragment_body
    by (simp add: b(1), rule wpc_claim_at [OF r], simp add: nz Let_def first fin)
      (use n(1) room data' b(1) in \<open>auto simp: n(4) z c [symmetric] left hooks(2) init intro!: body Q\<close>,
       simp_all add: z c rd set_mbxstate_def sending_def upd_eoe_def next_off next_k left v b)
qed

section \<open>One fragment in\<close>

text \<open>\<open>off\<close> bytes of the frame are in the buffer, from \<open>k\<close> fragments with frame number \<open>fno\<close>.\<close>

definition rx_at :: "u16 \<Rightarrow> bytes \<Rightarrow> nat \<Rightarrow> nat \<Rightarrow> eoe_var \<Rightarrow> bool" where
  "rx_at fno frame off k v \<longleftrightarrow>
     (\<exists>p. pb_payload (rxebuf v) = Some p \<and> length frame \<le> length p \<and> take off p = take off frame) \<and>
     unat (rxfragmentno v) = k \<and>
     (0 < k \<longrightarrow> unat (rxframeoffset v) = off \<and> unat (rxframesize v) = 32 * ((length frame + 31) div 32) \<and> rxframeno v = fno)"

definition right_header :: "u16 \<Rightarrow> bytes \<Rightarrow> nat \<Rightarrow> nat \<Rightarrow> u16 \<Rightarrow> bool" where
  "right_header fno frame off k i2 \<longleftrightarrow> unat (frag_no i2) = k \<and> frame_no i2 = fno \<and>
     unat (frame_offset i2) = (if k = 0 then 32 * ((length frame + 31) div 32) else off)"

lemma fragment_len:
  assumes "eoe_fragment n s i1 i2 bs" "length bs < 65000"
  shows "\<exists>len. mbx_length n s = Some len \<and> to_u32 len - 4 = of_nat (length bs)"
proof -
  have "to_u32 (of_nat (length bs + 4) :: u16) = of_nat (length bs + 4)"
    using assms(2) by (intro word_unat_eq_iff [THEN iffD2]) (simp add: unsigned_ucast_eq unat_of_nat take_bit_nat_eq_self del: of_nat_add)
  with assms(1) show ?thesis by (simp add: eoe_fragment_def)
qed

lemma rx_accepts:
  fixes s :: "'w sys"
  assumes rx: "rx_at fno frame off k (EOEvar s)" and hd: "right_header fno frame off k i2"
    and k0: "k = 0 \<longrightarrow> off = 0" and small: "k < 63" "off \<le> length frame" "length frame \<le> 2016"
  shows "\<exists>v. rx_accept F i2 s = (True, s\<lparr>EOEvar := v\<rparr>) \<and> rx_at fno frame off k v \<and> unat (rxframeoffset v) = off \<and>
    unat (rxframesize v) = 32 * ((length frame + 31) div 32) \<and> rxframeno v = fno"
proof -
  let ?v = "EOEvar s"
  have frag: "to_u16 (rxfragmentno ?v) = frag_no i2"
    using rx hd by (simp add: rx_at_def right_header_def word_unat_eq_iff unsigned_ucast_eq)
  show ?thesis
  proof (cases "k = 0")
    case True
    then have "rxfragmentno ?v = 0" using rx by (simp add: rx_at_def word_unat_eq_iff)
    with rx hd frag True k0 show ?thesis
      by (auto simp: rx_accept_def upd_eoe_def rx_at_def right_header_def Let_def)
  next
    case False
    then have nz: "rxfragmentno ?v \<noteq> 0" using rx by (auto simp: rx_at_def)
    have "rxframeoffset ?v = frame_offset i2" "rxframeno ?v = frame_no i2"
      using rx hd False by (simp_all add: rx_at_def right_header_def word_unat_eq_iff)
    then have "rx_accept F i2 s = (True, s)" using frag nz by (simp add: rx_accept_def Let_def)
    then show ?thesis using rx False by (intro exI [of _ ?v]) (simp add: rx_at_def)
  qed
qed

lemma rx_stores:
  fixes s :: "'w sys"
  assumes f: "eoe_fragment 0 s i1 i2 bs" and rx: "rx_at fno frame off k (EOEvar s)"
    and hd: "right_header fno frame off k i2" and k0: "k = 0 \<longrightarrow> off = 0" "k < 63"
    and part: "bs = take (length bs) (drop off frame)" "off + length bs \<le> length frame" "length frame \<le> 2016"
  shows "\<exists>v. rx_at fno frame (off + length bs) (k + 1) v \<and> unat (rxframeoffset v) = off + length bs \<and>
    EOE_receive_fragment F s = Some (if last_fragment i1 then rx_last F i1 (s\<lparr>EOEvar := v\<rparr>) else s\<lparr>EOEvar := v\<rparr>)"
proof -
  have bsl: "length bs < 65000" using part(2,3) by simp
  obtain len where len: "mbx_length 0 s = Some len" "to_u32 len - 4 = of_nat (length bs)"
    using fragment_len [OF f bsl] by blast
  have g: "mbx_u16 0 6 s = Some i1" "mbx_u16 0 8 s = Some i2" "mbx_get 0 10 (length bs) s = Some bs"
    using f by (simp_all add: eoe_fragment_def)
  have un: "unat (of_nat (length bs) :: u32) = length bs" using bsl by (simp add: unat_of_nat take_bit_nat_eq_self)
  obtain v where v: "rx_accept F i2 s = (True, s\<lparr>EOEvar := v\<rparr>)" "rx_at fno frame off k v" "unat (rxframeoffset v) = off"
    "unat (rxframesize v) = 32 * ((length frame + 31) div 32)" "rxframeno v = fno"
    using rx_accepts [OF rx hd k0] part(2,3) by (metis add_leD1)
  obtain p where p: "pb_payload (rxebuf v) = Some p" "length frame \<le> length p" "take off p = take off frame"
    using v(2) by (auto simp: rx_at_def)
  have sum: "unat (rxframeoffset v + of_nat (length bs)) = off + length bs"
    using v(3) un part(2,3) by (simp add: unat_word_ariths)
  have fits: "rxframeoffset v + of_nat (length bs) \<le> rxframesize v"
    using sum v(4) part(2) by (simp add: word_le_nat_alt)
  define p' where "p' = take off p @ bs @ drop (off + length bs) p"
  have put: "put_bytes off bs p = Some p'" using p(2) part(2) by (simp add: put_bytes_def p'_def)
  have "take (off + length bs) p' = take off frame @ bs" using p part(2) by (simp add: p'_def)
  also have "\<dots> = take (off + length bs) frame" using part(1) by (simp add: take_add)
  finally have p': "take (off + length bs) p' = take (off + length bs) frame" "length frame \<le> length p'"
    using p(2) put by (simp_all add: put_bytes_length)
  let ?v = "v\<lparr>rxebuf := (rxebuf v)\<lparr>pb_payload := Some p'\<rparr>, rxframeoffset := rxframeoffset v + of_nat (length bs),
    rxfragmentno := rxfragmentno v + 1\<rparr>"
  have "unat (rxfragmentno v + 1) = k + 1" using v(2) k0(2) by (simp add: rx_at_def unat_word_ariths)
  then have "rx_at fno frame (off + length bs) (k + 1) ?v" using v p' sum by (simp add: rx_at_def)
  moreover have "mbx_get 0 10 (length bs) (s\<lparr>EOEvar := v\<rparr>) = Some bs" using g(3) by (simp add: mbx_get_def)
  then have "rx_store F (of_nat (length bs)) (s\<lparr>EOEvar := v\<rparr>) = Some (True, s\<lparr>EOEvar := ?v\<rparr>)"
    using fits un p(1) put v(3) by (simp add: rx_store_def upd_eoe_def)
  then have "EOE_receive_fragment F s = Some (if last_fragment i1 then rx_last F i1 (s\<lparr>EOEvar := ?v\<rparr>) else s\<lparr>EOEvar := ?v\<rparr>)"
    using len g v(1) by (simp add: EOE_receive_fragment_def)
  ultimately show ?thesis using sum by (intro exI [of _ ?v]) simp
qed

section \<open>A whole frame\<close>

text \<open>
  The TCP/IP stack behind the receiving side: \<open>log\<close> is what it has been given, with the port.
\<close>

definition received :: "eoe_pbuf \<Rightarrow> bytes" where
  "received b = (case pb_payload b of None \<Rightarrow> [] | Some p \<Rightarrow> take (unat (pb_len b)) p)"

definition listens :: "'w env \<Rightarrow> ('w \<Rightarrow> (u8 \<times> bytes) list) \<Rightarrow> bool" where
  "listens F log \<longleftrightarrow>
     (\<forall>port b s. \<exists>w. handle_recv_buffer F port b s = s\<lparr>world := w\<rparr> \<and> log w = log (world s) @ [(port, received b)]) \<and>
     (\<forall>h b s. eoe_get_buffer F = Some h \<longrightarrow> (\<exists>c w. h b s = (c, s\<lparr>world := w\<rparr>) \<and> log w = log (world s)))"

lemma EOE_init_rx_log:
  assumes "listens F log"
  shows "log (world (EOE_init_rx F s)) = log (world s)"
proof (cases "eoe_get_buffer F")
  case None
  then show ?thesis by (simp add: EOE_init_rx_def upd_eoe_def Let_def)
next
  case (Some h)
  have "log (world (snd (h b t))) = log (world t)" for b t
  proof -
    obtain c w where "h b t = (c, t\<lparr>world := w\<rparr>)" "log w = log (world t)"
      using assms Some unfolding listens_def by blast
    then show ?thesis by simp
  qed
  with Some show ?thesis by (simp add: EOE_init_rx_def upd_eoe_def Let_def case_prod_beta)
qed

lemma rx_last_delivers:
  fixes v :: eoe_var and s :: "'w sys"
  assumes l: "listens F log" and rx: "rx_at fno frame (length frame) k v" "unat (rxframeoffset v) = length frame"
    and i: "\<not> time_append i1"
  shows "log (world (rx_last F i1 (s\<lparr>EOEvar := v\<rparr>))) = log (world s) @ [(frame_port i1, frame)]"
proof -
  obtain p where p: "pb_payload (rxebuf v) = Some p" "take (length frame) p = frame"
    using rx(1) by (auto simp: rx_at_def)
  let ?b = "(rxebuf v)\<lparr>pb_len := rxframeoffset v\<rparr>"
  have r: "received ?b = frame" using p rx(2) by (simp add: received_def)
  let ?s = "s\<lparr>EOEvar := v\<lparr>rxebuf := ?b\<rparr>\<rparr>"
  obtain w where w: "handle_recv_buffer F (frame_port i1) ?b ?s = ?s\<lparr>world := w\<rparr>"
    "log w = log (world ?s) @ [(frame_port i1, received ?b)]"
    using l unfolding listens_def by blast
  show ?thesis
    using i w r by (simp add: rx_last_def upd_eoe_def Let_def EOE_init_rx_log [OF l])
qed

text \<open>
  The two sides take turns: \<open>free\<close> is what happens at the sender before a fragment (its
  reply is fetched), \<open>carry n s r\<close> brings the message in buffer \<open>n\<close> of \<open>s\<close> to the mailbox of \<open>r\<close>.
\<close>

fun exchange :: "'a env \<Rightarrow> 'b env \<Rightarrow> ('a sys \<Rightarrow> 'a sys) \<Rightarrow> (nat \<Rightarrow> 'a sys \<Rightarrow> 'b sys \<Rightarrow> 'b sys) \<Rightarrow> nat \<Rightarrow>
    'a sys \<times> 'b sys \<Rightarrow> ('a sys \<times> 'b sys) option" where
  "exchange E F free carry 0 sr = Some sr"
| "exchange E F free carry (Suc k) (s, r) = do {
     let s = free s;
     let n = reply_buffer E s;
     s \<leftarrow> EOE_send_fragment E s;
     r \<leftarrow> EOE_receive_fragment F (carry n s r);
     exchange E F free carry k (s, r)
   }"

definition frees_mailbox :: "'w env \<Rightarrow> ('w sys \<Rightarrow> 'w sys) \<Rightarrow> bool" where
  "frees_mailbox E free \<longleftrightarrow> (\<forall>s. mbx_ready E s \<longrightarrow> can_reply E (free s) \<and> EOEvar (free s) = EOEvar s \<and>
     eoe_frameno (free s) = eoe_frameno s \<and> activembxsize (free s) = activembxsize s)"

definition carries :: "('b \<Rightarrow> (u8 \<times> bytes) list) \<Rightarrow> (nat \<Rightarrow> 'a sys \<Rightarrow> 'b sys \<Rightarrow> 'b sys) \<Rightarrow> bool" where
  "carries log carry \<longleftrightarrow> (\<forall>n s r i1 i2 bs. MBXcontrol s n = MBXstate_outreq \<longrightarrow> eoe_fragment n s i1 i2 bs \<longrightarrow>
     eoe_fragment 0 (carry n s r) i1 i2 bs \<and> EOEvar (carry n s r) = EOEvar r \<and> log (world (carry n s r)) = log (world r))"

lemma header_bits [simp]:
  "last_fragment 0x0100" "\<not> last_fragment 0" "\<not> time_append 0x0100" "frame_port 0x0100 = 0"
  by (simp_all add: last_fragment_def time_append_def frame_port_def)

lemma exchange_all:
  fixes s :: "'a sys" and r :: "'b sys"
  assumes hooks: "frees E" "fragment_sent_event E = None" "listens F log"
    and m: "frees_mailbox E free" "carries log carry"
    and size: "length frame \<le> 2016" "42 \<le> z"
  shows "mbx_ready E s \<Longrightarrow> activembxsize s = z \<Longrightarrow> sending frame off k s \<Longrightarrow>
    off < length frame \<Longrightarrow> 32 * k \<le> off \<Longrightarrow> off mod 32 = 0 \<Longrightarrow> (k = 0 \<longleftrightarrow> off = 0) \<Longrightarrow>
    rx_at fno frame off k (EOEvar r) \<Longrightarrow> fno = to_u16 (if k > 0 then eoe_frameno s else eoe_frameno s + 1) AND 0xF \<Longrightarrow>
    \<exists>j s' r'. 32 * j \<le> length frame - off + 31 \<and> exchange E F free carry j (s, r) = Some (s', r') \<and>
      log (world r') = log (world r) @ [(0, frame)]"
proof (induction "length frame - off" arbitrary: off k s r rule: less_induct)
  case less
  let ?t = "free s" and ?c = "portion z (length frame - off)"
  let ?fn = "if k > 0 then eoe_frameno s else eoe_frameno s + 1"
  let ?n = "reply_buffer E ?t" and ?i2 = "tx_frameinfo2 (EOEvar s) ?fn"
  have t: "can_reply E ?t" "EOEvar ?t = EOEvar s" "eoe_frameno ?t = eoe_frameno s" "activembxsize ?t = z"
    using m(1) less.prems(1,2) by (simp_all add: frees_mailbox_def)
  have k63: "k < 63" using less.prems(4,5) size(1) by linarith
  have tx: "sending frame off k ?t" using less.prems(3) t(2) by (simp add: sending_def)
  have v: "unat (txfragmentno (EOEvar s)) = k" "unat (txframesize (EOEvar s)) = length frame" "unat (txframeoffset (EOEvar s)) = off"
    using less.prems(3) by (simp_all add: sending_def)
  have c: "?c \<le> length frame - off" "?c = length frame - off \<or> (32 \<le> ?c \<and> ?c mod 32 = 0 \<and> ?c < length frame - off)"
    using size(2) by (auto simp: portion_def)
  let ?bs = "take ?c (drop off frame)"
  have bs: "length ?bs = ?c" using c(1) by simp
  have pos: "0 < txfragmentno (EOEvar s) \<longleftrightarrow> 0 < k" using v(1) by (simp add: word_less_nat_alt)
  have nat32: "unat (of_nat m :: u32) = m" if "m < 4000" for m
    using that by (simp add: unat_of_nat take_bit_nat_eq_self)
  note fields = tx_fields [of "EOEvar s" ?fn, unfolded v, OF _ size(1)]
  have k64: "k < 64" "off \<le> 2016" using k63 less.prems(4) size(1) by auto
  have "unat (frame_offset ?i2) = 32 * ((if 0 < txfragmentno (EOEvar s) then off else length frame + 31) div 32)"
    unfolding fields(3) [OF k64] using size(1) k64(2) by (intro nat32) auto
  moreover have "32 * (off div 32) = off" using less.prems(6) by auto
  moreover have "unat (frag_no ?i2) = k" unfolding fields(1) [OF k64] using v(1) by (simp add: unsigned_ucast_eq)
  ultimately have hd: "right_header fno frame off k ?i2"
    using fields(2) [OF k64] less.prems(9) pos by (simp add: right_header_def)
  obtain u where u: "EOE_send_fragment E ?t = Some u"
    "eoe_fragment ?n u (if ?c = length frame - off then 0x0100 else 0) ?i2 ?bs"
    "MBXcontrol u ?n = MBXstate_outreq" "mbx_ready E u" "activembxsize u = z" "eoe_frameno u = ?fn"
    "?c = length frame - off \<or> sending frame (off + ?c) (k + 1) u"
  proof -
    have "ok (\<lambda>u. eoe_fragment ?n u (if ?c = length frame - off then 0x0100 else 0) ?i2 ?bs \<and>
      MBXcontrol u ?n = MBXstate_outreq \<and> mbx_ready E u \<and> activembxsize u = z \<and> eoe_frameno u = ?fn \<and>
      (?c = length frame - off \<or> sending frame (off + ?c) (k + 1) u)) (EOE_send_fragment E ?t)"
      by (rule wpc_tx_fragment [OF t(1) tx hooks(1,2) size(1) _ _ k63]) (use less.prems(4) size(2) t in \<open>auto simp: Let_def\<close>)
    then show thesis using that by (auto simp: ok_ex)
  qed
  have oc: "off + ?c \<le> length frame" using c(1) less.prems(4) by linarith
  let ?r = "carry ?n u r"
  have r: "eoe_fragment 0 ?r (if ?c = length frame - off then 0x0100 else 0) ?i2 ?bs" "EOEvar ?r = EOEvar r" "log (world ?r) = log (world r)"
    using m(2) u(2,3) unfolding carries_def by blast+
  obtain w where w: "rx_at fno frame (off + ?c) (k + 1) w" "unat (rxframeoffset w) = off + ?c"
    "EOE_receive_fragment F ?r = Some (if last_fragment (if ?c = length frame - off then 0x0100 else 0)
       then rx_last F (if ?c = length frame - off then 0x0100 else 0) (?r\<lparr>EOEvar := w\<rparr>) else ?r\<lparr>EOEvar := w\<rparr>)"
    using rx_stores [OF r(1) _ hd, of F] less.prems(4,7,8) k63 oc bs size(1) r(2) by auto
  show ?case
  proof (cases "?c = length frame - off")
    case True
    then have "exchange E F free carry 1 (s, r) = Some (u, rx_last F 0x0100 (?r\<lparr>EOEvar := w\<rparr>))"
      using u(1) w(3) by simp
    moreover have "log (world (rx_last F 0x0100 (?r\<lparr>EOEvar := w\<rparr>))) = log (world r) @ [(0, frame)]"
      using rx_last_delivers [OF hooks(3), of fno frame "k + 1" w "0x0100" ?r] w(1,2) True less.prems(4) r(3) by simp
    ultimately show ?thesis using less.prems(4) by (intro exI [of _ 1]) auto
  next
    case False
    then have c': "32 \<le> ?c" "?c mod 32 = 0" "?c < length frame - off" using c(2) by auto
    have fno: "fno = to_u16 (if k + 1 > 0 then eoe_frameno u else eoe_frameno u + 1) AND 0xF"
      using u(6) less.prems(9) by simp
    have dec: "length frame - (off + ?c) < length frame - off" "off + ?c < length frame" using c' less.prems(4) by linarith+
    obtain j s' r' where j: "32 * j \<le> length frame - (off + ?c) + 31"
      "exchange E F free carry j (u, ?r\<lparr>EOEvar := w\<rparr>) = Some (s', r')"
      "log (world r') = log (world (?r\<lparr>EOEvar := w\<rparr>)) @ [(0, frame)]"
      using less.hyps [of "off + ?c" u "k + 1" "?r\<lparr>EOEvar := w\<rparr>", OF _ u(4,5) _ _ _ _ _ _ fno] u(7) w(1) c' less.prems(4-7) False dec
      by auto
    have "exchange E F free carry (Suc j) (s, r) = Some (s', r')" using u(1) w(3) False j(2) by simp
    with j(1,3) r(3) c' show ?thesis by (intro exI [of _ "Suc j"]) auto
  qed
qed


text \<open>
  C35. An Ethernet frame crosses unchanged: when one slave sends a frame of up to 2016 bytes
  and another receives the messages in order, the TCP/IP stack of the receiver is given
  exactly that frame, once, on port 0; at most one fragment per 32 bytes is needed, whatever the
  sizes of the mailboxes (of at least 42 bytes), and neither side fails.
\<close>

theorem eoe_frame_roundtrip:
  fixes s :: "'a sys" and r :: "'b sys"
  assumes "frees E" "fragment_sent_event E = None" and "listens F log"
    and "frees_mailbox E free" "carries log carry"
    and "mbx_ready E s" "42 \<le> activembxsize s"
    and "sending frame 0 0 s" "0 < length frame" "length frame \<le> 2016"
    and "pb_payload (rxebuf (EOEvar r)) = Some p" "length frame \<le> length p" "rxfragmentno (EOEvar r) = 0"
  shows "\<exists>j s' r'. 32 * j \<le> length frame + 31 \<and> exchange E F free carry j (s, r) = Some (s', r') \<and>
    log (world r') = log (world r) @ [(0, frame)]"
proof -
  have "rx_at (to_u16 (eoe_frameno s + 1) AND 0xF) frame 0 0 (EOEvar r)"
    using assms(11-13) by (simp add: rx_at_def)
  from exchange_all [OF assms(1-5,10,7,6) refl assms(8,9) _ _ _ this] show ?thesis by simp
qed

section \<open>A sample exchange\<close>

text \<open>Two slaves with small mailboxes; the receiver's stack keeps what it is given.\<close>

type_synonym net_world = "ram \<times> (u8 \<times> bytes) list"

definition net_env :: "net_world env" where
  "net_env = (log_env sample_objects)\<lparr>
     eoe_get_buffer := Some (\<lambda>b s. (b\<lparr>pb_payload := Some (replicate 1536 0)\<rparr>, s)),
     handle_recv_buffer := (\<lambda>p b s. s\<lparr>world := (fst (world s), snd (world s) @ [(p, received b)])\<rparr>)\<rparr>"

lemma net_env_listens: "listens net_env snd"
  unfolding listens_def
proof (intro conjI allI impI)
  fix port b and s :: "net_world sys"
  show "\<exists>w. handle_recv_buffer net_env port b s = s\<lparr>world := w\<rparr> \<and> snd w = snd (world s) @ [(port, received b)]"
    by (rule exI [of _ "(fst (world s), snd (world s) @ [(port, received b)])"]) (simp add: net_env_def)
next
  fix h b and s :: "net_world sys"
  assume "eoe_get_buffer net_env = Some h"
  then have "h b s = (b\<lparr>pb_payload := Some (replicate 1536 0)\<rparr>, s\<lparr>world := world s\<rparr>)"
    by (auto simp: net_env_def)
  then show "\<exists>c w. h b s = (c, s\<lparr>world := w\<rparr>) \<and> snd w = snd (world s)" by blast
qed

text \<open>The reply was fetched, and the buffer's contents arrive at the other side.\<close>

definition reply_fetched :: "'w sys \<Rightarrow> 'w sys" where
  "reply_fetched s = s\<lparr>MBXcontrol := (\<lambda>_. MBXstate_idle), mbxoutpost := 0, mbxbackup := 0, txcue := 0\<rparr>"

definition link :: "nat \<Rightarrow> 'a sys \<Rightarrow> 'b sys \<Rightarrow> 'b sys" where
  "link n s r = r\<lparr>activembxsize := activembxsize s, MBX := drop (n * activembxsize s) (MBX s)\<rparr>"

lemma net_env_simps [simp]: "opt net_env = default_options" "frees net_env" "fragment_sent_event net_env = None"
  by (simp_all add: net_env_def log_env_def quiet_env_def frees_def)

lemma reply_fetched_frees: "frees_mailbox net_env reply_fetched"
proof -
  have "can_reply net_env (reply_fetched s)" if "mbx_ready net_env s" for s
    using that unfolding can_reply_def
    by (auto simp: mbx_inv_def mbx_ready_def pool_inv_def pool_ok_def queued_def reply_fetched_def default_options_def
        intro!: exI [of _ 1])
  then show ?thesis by (simp add: frees_mailbox_def reply_fetched_def)
qed

lemma link_get: "mbx_get n off len s = Some bs \<Longrightarrow> mbx_get 0 off len (link n s r) = Some bs"
  by (auto simp: mbx_get_def get_bytes_def link_def add.commute split: if_splits)

lemma link_carries: "carries log link"
  by (auto simp: carries_def eoe_fragment_def mbx_length_def mbx_u16_def link_get) (auto simp: link_def)

definition net_sys :: "net_world sys" where
  "net_sys = (init_sys default_options (\<lambda>_. replicate 8 0) (\<lambda>_. 0, []))
     \<lparr>MBXrun := 1, mbxfree := 1, activembxsize := 48,
      activemb0 := Some \<lparr>cfg_sma = 0x1000, cfg_sml = 48, cfg_sme = 0x102F, cfg_smc = 0x26\<rparr>,
      activemb1 := Some \<lparr>cfg_sma = 0x1080, cfg_sml = 48, cfg_sme = 0x10AF, cfg_smc = 0x22\<rparr>,
      EOEvar := (EOEvar (init_sys default_options (\<lambda>_. []) ()))
        \<lparr>rxebuf := \<lparr>pb_pbuf = 1, pb_payload = Some (replicate 1536 0), pb_len = 0\<rparr>,
         txebuf := \<lparr>pb_pbuf = 2, pb_payload = Some (replicate 70 7), pb_len = 70\<rparr>, txframesize := 70\<rparr>\<rparr>"

lemma net_sys_facts:
  "mbx_ready net_env net_sys" "activembxsize net_sys = 48" "sending (replicate 70 7) 0 0 net_sys"
  "pb_payload (rxebuf (EOEvar net_sys)) = Some (replicate 1536 0)" "rxfragmentno (EOEvar net_sys) = 0" "snd (world net_sys) = []"
  by (simp_all add: net_sys_def init_sys_def mbx_ready_def valid_opts_def default_options_def sending_def)

theorem eoe_frame_roundtrip_witness:
  "\<exists>j s' r'. 32 * j \<le> (101 :: nat) \<and> exchange net_env net_env reply_fetched link j (net_sys, net_sys) = Some (s', r') \<and>
     snd (world r') = [(0, replicate 70 7)]"
  using eoe_frame_roundtrip [OF net_env_simps(2,3) net_env_listens reply_fetched_frees link_carries net_sys_facts(1) _
      net_sys_facts(3) _ _ net_sys_facts(4) _ net_sys_facts(5)]
  by (simp add: net_sys_facts)

end
