(* ===== verification/Lan9252.thy ===== *)
theory Lan9252
  imports Esc_State
begin

text \<open>
  The hardware layer for the LAN9252 over Linux spidev (\<open>hal/linux-lan9252-spidev/esc_hw.c\<close>): SPI
  frames, the busy polls with their deadlines and the fault latch, indirect register access
  (CSR), process RAM access through the FIFOs (PRAM), the functions \<open>ESC_read\<close> and \<open>ESC_write\<close> that
  the stack calls, and initialisation. The kernel, and behind it the chip, is a parameter.
\<close>

section \<open>The kernel\<close>

text \<open>
  Times are \<open>struct timespec\<close>. \<open>spi_message\<close> is the ioctl \<open>SPI_IOC_MESSAGE (1)\<close>: the bytes sent, and the
  bytes received in their place, or nothing for a negative result. \<open>os_poll\<close> is \<open>poll\<close> with a
  timeout of 0; \<open>read_events fd n\<close> reads at most \<open>n\<close> line events, of which only the timestamps
  are used.
\<close>

record timespec =
  tv_sec :: int
  tv_nsec :: int

datatype spi_ioc = SPI_IOC_WR_MODE u8 | SPI_IOC_WR_BITS_PER_WORD u8 | SPI_IOC_WR_MAX_SPEED_HZ u32

datatype gpio_request = GPIO_OUTPUT int u8 | GPIO_EDGE_RISING int

record 'c os =
  spi_message :: "int \<Rightarrow> bytes \<Rightarrow> 'c \<Rightarrow> (nat \<Rightarrow> u8) option \<times> 'c"
  clock_gettime :: "'c \<Rightarrow> timespec \<times> 'c"
  os_open :: "bytes \<Rightarrow> 'c \<Rightarrow> int \<times> 'c"
  os_close :: "int \<Rightarrow> 'c \<Rightarrow> 'c"
  spi_ioctl :: "int \<Rightarrow> spi_ioc \<Rightarrow> 'c \<Rightarrow> int \<times> 'c"
  gpio_get_line :: "int \<Rightarrow> gpio_request \<Rightarrow> 'c \<Rightarrow> int option \<times> 'c"
  gpio_set_values :: "int \<Rightarrow> u8 \<Rightarrow> 'c \<Rightarrow> 'c"
  usleep :: "u32 \<Rightarrow> 'c \<Rightarrow> 'c"
  ppoll :: "int \<Rightarrow> timespec \<Rightarrow> 'c \<Rightarrow> int \<times> 'c"
  os_poll :: "int \<Rightarrow> 'c \<Rightarrow> int \<times> 'c"
  read_events :: "int \<Rightarrow> nat \<Rightarrow> 'c \<Rightarrow> u64 list option \<times> 'c"

section \<open>The state of the layer\<close>

record 'c hw =
  spi_fd :: int
  reset_fd :: int
  lan9252_init_al_status :: u16
  lan9252_init_sync_activation :: u8
  lan9252_init_dc_offset_set :: bool
  lan9252_init_core_reset :: bool
  reset_pulse_us :: u32
  timeout_ms :: u32
  hw_fault :: bool
  irq_chip :: "bytes option"
  irq_offset :: int
  sync0_offset :: int
  spi_ns :: u64
  spi_count :: u64
  irq_wait_fd :: int
  sync0_wait_fd :: int
  sync0_last_ns :: u64
  irq_watch_fd :: int
  kernel :: 'c

text \<open>\<open>esc_hw_cfg_t\<close>; \<open>None\<close> is a NULL pointer.\<close>

record esc_hw_cfg =
  cfg_spidev :: "bytes option"
  cfg_spi_speed_hz :: u32
  cfg_spi_mode :: u8
  cfg_gpiochip :: "bytes option"
  cfg_irq_line :: int
  cfg_sync0_line :: int
  cfg_reset_line :: int
  cfg_reset_pulse_us :: u32
  cfg_op_timeout_ms :: u32

abbreviation (input) DEFAULT_TIMEOUT_MS :: u32 where "DEFAULT_TIMEOUT_MS \<equiv> 100"
abbreviation (input) ESC_CMD_SERIAL_WRITE :: u8 where "ESC_CMD_SERIAL_WRITE \<equiv> 0x02"
abbreviation (input) ESC_CMD_SERIAL_READ :: u8 where "ESC_CMD_SERIAL_READ \<equiv> 0x03"
abbreviation (input) ESC_CMD_RESET_CTL :: u16 where "ESC_CMD_RESET_CTL \<equiv> 0x01F8"
abbreviation (input) ESC_CMD_HW_CFG :: u16 where "ESC_CMD_HW_CFG \<equiv> 0x0074"
abbreviation (input) ESC_CMD_BYTE_TEST :: u16 where "ESC_CMD_BYTE_TEST \<equiv> 0x0064"
abbreviation (input) ESC_CMD_ID_REV :: u16 where "ESC_CMD_ID_REV \<equiv> 0x0050"
abbreviation (input) ESC_CMD_IRQ_CFG :: u16 where "ESC_CMD_IRQ_CFG \<equiv> 0x0054"
abbreviation (input) ESC_CMD_INT_EN :: u16 where "ESC_CMD_INT_EN \<equiv> 0x005C"
abbreviation (input) ESC_RESET_CTRL_RST :: u32 where "ESC_RESET_CTRL_RST \<equiv> 0x40"
abbreviation (input) ESC_HW_CFG_READY :: u32 where "ESC_HW_CFG_READY \<equiv> 0x08000000"
abbreviation (input) ESC_BYTE_TEST_OK :: u32 where "ESC_BYTE_TEST_OK \<equiv> 0x87654321"
abbreviation (input) ESC_PRAM_RD_FIFO_REG :: u16 where "ESC_PRAM_RD_FIFO_REG \<equiv> 0x0000"
abbreviation (input) ESC_PRAM_WR_FIFO_REG :: u16 where "ESC_PRAM_WR_FIFO_REG \<equiv> 0x0020"
abbreviation (input) ESC_PRAM_RD_ADDR_LEN_REG :: u16 where "ESC_PRAM_RD_ADDR_LEN_REG \<equiv> 0x0308"
abbreviation (input) ESC_PRAM_RD_CMD_REG :: u16 where "ESC_PRAM_RD_CMD_REG \<equiv> 0x030C"
abbreviation (input) ESC_PRAM_WR_ADDR_LEN_REG :: u16 where "ESC_PRAM_WR_ADDR_LEN_REG \<equiv> 0x0310"
abbreviation (input) ESC_PRAM_WR_CMD_REG :: u16 where "ESC_PRAM_WR_CMD_REG \<equiv> 0x0314"
abbreviation (input) ESC_PRAM_CMD_BUSY :: u32 where "ESC_PRAM_CMD_BUSY \<equiv> 0x80000000"
abbreviation (input) ESC_PRAM_CMD_ABORT :: u32 where "ESC_PRAM_CMD_ABORT \<equiv> 0x40000000"
abbreviation (input) ESC_PRAM_CMD_AVAIL :: u32 where "ESC_PRAM_CMD_AVAIL \<equiv> 0x00000001"
abbreviation (input) ESC_PRAM_FIFO_MAX :: u8 where "ESC_PRAM_FIFO_MAX \<equiv> 32"
abbreviation (input) ESC_CSR_DATA_REG :: u16 where "ESC_CSR_DATA_REG \<equiv> 0x0300"
abbreviation (input) ESC_CSR_CMD_REG :: u16 where "ESC_CSR_CMD_REG \<equiv> 0x0304"
abbreviation (input) ESC_CSR_CMD_BUSY :: u32 where "ESC_CSR_CMD_BUSY \<equiv> 0x80000000"
abbreviation (input) ESC_CSR_CMD_READ :: u32 where "ESC_CSR_CMD_READ \<equiv> 0xC0000000"
abbreviation (input) ESC_CSR_CMD_WRITE :: u32 where "ESC_CSR_CMD_WRITE \<equiv> 0x80000000"

definition PRAM_CMD_CNT :: "u32 \<Rightarrow> u32" where
  "PRAM_CMD_CNT x = drop_bit 8 x AND 0x1F"

definition PRAM_SIZE :: "u16 \<Rightarrow> u32" where
  "PRAM_SIZE x = push_bit 16 (to_u32 x)"

definition CSR_CMD_SIZE :: "u16 \<Rightarrow> u32" where
  "CSR_CMD_SIZE x = push_bit 16 (to_u32 x)"

section \<open>Deadlines\<close>

definition deadline_set :: "'c os \<Rightarrow> u32 \<Rightarrow> 'c hw \<Rightarrow> timespec \<times> 'c hw" where
  "deadline_set os ms h =
     (let (d, k) = clock_gettime os (kernel h);
          d = d\<lparr>tv_nsec := tv_nsec d + int (unat (ms mod 1000)) * 1000000\<rparr>;
          d = d\<lparr>tv_sec := tv_sec d + int (unat (ms div 1000))\<rparr>;
          d = (if tv_nsec d \<ge> 1000000000
               then d\<lparr>tv_nsec := tv_nsec d - 1000000000, tv_sec := tv_sec d + 1\<rparr> else d)
      in (d, h\<lparr>kernel := k\<rparr>))"

definition deadline_passed :: "'c os \<Rightarrow> timespec \<Rightarrow> 'c hw \<Rightarrow> bool \<times> 'c hw" where
  "deadline_passed os d h =
     (let (now, k) = clock_gettime os (kernel h)
      in (if tv_sec now \<noteq> tv_sec d then tv_sec now > tv_sec d else tv_nsec now > tv_nsec d,
          h\<lparr>kernel := k\<rparr>))"

definition hw_timeout :: "'c hw \<Rightarrow> 'c hw" where
  "hw_timeout h = (if \<not> hw_fault h then h\<lparr>hw_fault := True\<rparr> else h)"

section \<open>SPI frames\<close>

text \<open>One transfer in place; \<open>None\<close> is the result -1, after the fault has been latched.\<close>

definition spi_xfer :: "'c os \<Rightarrow> bytes \<Rightarrow> 'c hw \<Rightarrow> bytes option \<times> 'c hw" where
  "spi_xfer os buf h =
     (let (a, k) = clock_gettime os (kernel h);
          (rx, k) = spi_message os (spi_fd h) buf k;
          (b, k) = clock_gettime os k;
          h = h\<lparr>kernel := k,
                spi_ns := spi_ns h + word_of_int (tv_sec b - tv_sec a) * 1000000000
                          + word_of_int (tv_nsec b - tv_nsec a),
                spi_count := spi_count h + 1\<rparr>
      in (case rx of
            None \<Rightarrow> (None, hw_timeout h)
          | Some f \<Rightarrow> (Some (map f [0..<length buf]), h)))"

definition frame_read :: "u16 \<Rightarrow> bytes" where
  "frame_read address = [ESC_CMD_SERIAL_READ, to_u8 (drop_bit 8 address AND 0xFF), to_u8 (address AND 0xFF), 0, 0, 0, 0]"

definition frame_write :: "u16 \<Rightarrow> u32 \<Rightarrow> bytes" where
  "frame_write address val =
     [ESC_CMD_SERIAL_WRITE, to_u8 (drop_bit 8 address AND 0xFF), to_u8 (address AND 0xFF),
      to_u8 (val AND 0xFF), to_u8 (drop_bit 8 val AND 0xFF), to_u8 (drop_bit 16 val AND 0xFF),
      to_u8 (drop_bit 24 val AND 0xFF)]"

definition frame_value :: "bytes \<Rightarrow> u32" where
  "frame_value f = rd32 (drop 3 f)"

definition lan9252_write_32 :: "'c os \<Rightarrow> u16 \<Rightarrow> u32 \<Rightarrow> 'c hw \<Rightarrow> 'c hw" where
  "lan9252_write_32 os address val h = snd (spi_xfer os (frame_write address val) h)"

definition lan9252_read_32 :: "'c os \<Rightarrow> u16 \<Rightarrow> 'c hw \<Rightarrow> u32 \<times> 'c hw" where
  "lan9252_read_32 os address h =
     (case spi_xfer os (frame_read address) h of
        (None, h) \<Rightarrow> (0, h) | (Some f, h) \<Rightarrow> (frame_value f, h))"

definition ESC_hw_sys_read32 :: "'c os \<Rightarrow> u16 \<Rightarrow> 'c hw \<Rightarrow> u32 \<times> 'c hw" where
  "ESC_hw_sys_read32 os address h =
     (if hw_fault h \<or> spi_fd h < 0 then (0, h) else lan9252_read_32 os address h)"

definition ESC_hw_sys_write32 :: "'c os \<Rightarrow> u16 \<Rightarrow> u32 \<Rightarrow> 'c hw \<Rightarrow> 'c hw" where
  "ESC_hw_sys_write32 os address value h =
     (if hw_fault h \<or> spi_fd h < 0 then h else lan9252_write_32 os address value h)"

text \<open>
  The polling loops of \<open>wait_until\<close> and \<open>pram_wait_fifo\<close>: read, stop on a fault, stop when the
  value is as wanted, stop when the deadline has passed. The result says which it was.
\<close>

partial_function (option) poll ::
  "'c os \<Rightarrow> u16 \<Rightarrow> (u32 \<Rightarrow> bool) \<Rightarrow> timespec \<Rightarrow> 'c hw \<Rightarrow> ((bool \<times> u32) \<times> 'c hw) option" where
  "poll os reg wanted d h =
     (let (value, h) = lan9252_read_32 os reg h in
      if hw_fault h then Some ((False, value), h)
      else if wanted value then Some ((True, value), h)
      else (let (late, h) = deadline_passed os d h in
            if late then Some ((False, value), hw_timeout h) else poll os reg wanted d h))"

definition wait_until :: "'c os \<Rightarrow> u16 \<Rightarrow> u32 \<Rightarrow> u32 \<Rightarrow> 'c hw \<Rightarrow> (u32 \<times> 'c hw) option" where
  "wait_until os reg msk want h =
     (let (d, h) = deadline_set os (timeout_ms h) h in do {
        ((found, value), h) \<leftarrow> poll os reg (\<lambda>v. v AND msk = want) d h;
        Some (value, h)
      })"

section \<open>CSR access\<close>

definition ESC_read_csr :: "'c os \<Rightarrow> u16 \<Rightarrow> u16 \<Rightarrow> 'c hw \<Rightarrow> (bytes \<times> 'c hw) option" where
  "ESC_read_csr os address len h =
     (let zeros = replicate (unat len) 0;
          cmd = ESC_CSR_CMD_READ OR CSR_CMD_SIZE len OR to_u32 address
      in case spi_xfer os (frame_write ESC_CSR_CMD_REG cmd) h of
           (None, h) \<Rightarrow> Some (zeros, h)
         | (Some _, h) \<Rightarrow>
           (case spi_xfer os (frame_read ESC_CSR_CMD_REG) h of
              (None, h) \<Rightarrow> Some (zeros, h)
            | (Some f, h) \<Rightarrow>
              (let busy = frame_value f AND ESC_CSR_CMD_BUSY
               in case spi_xfer os (frame_read ESC_CSR_DATA_REG) h of
                    (None, h) \<Rightarrow> Some (zeros, h)
                  | (Some f, h) \<Rightarrow>
                    (if busy \<noteq> 0 then do {
                       (_, h) \<leftarrow> wait_until os ESC_CSR_CMD_REG ESC_CSR_CMD_BUSY 0 h;
                       if hw_fault h then Some (zeros, h)
                       else (let (value, h) = lan9252_read_32 os ESC_CSR_DATA_REG h
                             in Some (take (unat len) (le32 value), h))
                     }
                     else Some (take (unat len) (le32 (frame_value f)), h)))))"

definition ESC_write_csr :: "'c os \<Rightarrow> u16 \<Rightarrow> bytes \<Rightarrow> u16 \<Rightarrow> 'c hw \<Rightarrow> 'c hw option" where
  "ESC_write_csr os address buf len h =
     (let value = rd32 (take (unat len) buf @ replicate (4 - unat len) 0);
          cmd = ESC_CSR_CMD_WRITE OR CSR_CMD_SIZE len OR to_u32 address
      in case spi_xfer os (frame_write ESC_CSR_DATA_REG value) h of
           (None, h) \<Rightarrow> Some h
         | (Some _, h) \<Rightarrow>
           (case spi_xfer os (frame_write ESC_CSR_CMD_REG cmd) h of
              (None, h) \<Rightarrow> Some h
            | (Some _, h) \<Rightarrow>
              (case spi_xfer os (frame_read ESC_CSR_CMD_REG) h of
                 (None, h) \<Rightarrow> Some h
               | (Some f, h) \<Rightarrow>
                 (if frame_value f AND ESC_CSR_CMD_BUSY \<noteq> 0 then do {
                    (_, h) \<leftarrow> wait_until os ESC_CSR_CMD_REG ESC_CSR_CMD_BUSY 0 h;
                    Some h
                  }
                  else Some h))))"

section \<open>PRAM access\<close>

definition pram_wait_fifo :: "'c os \<Rightarrow> u16 \<Rightarrow> u8 \<Rightarrow> 'c hw \<Rightarrow> (u32 \<times> 'c hw) option" where
  "pram_wait_fifo os reg fifo_range h =
     (let (d, h) = deadline_set os (timeout_ms h) h in do {
        ((found, value), h) \<leftarrow> poll os reg
          (\<lambda>v. v AND ESC_PRAM_CMD_AVAIL \<noteq> 0 \<and> PRAM_CMD_CNT v \<ge> to_u32 fifo_range) d h;
        Some (if found then value else 0, h)
      })"

definition pram_fifo_range :: "u16 \<Rightarrow> u16 \<Rightarrow> u8 \<Rightarrow> u8" where
  "pram_fifo_range len byte_offset first_byte_position =
     (let n = (if byte_offset > 0 then unat len else unat len + unat first_byte_position);
          quotient = n div 4;
          remainder = n - quotient * 4;
          quotient = (if remainder \<noteq> 0 then quotient + 1 else quotient)
      in of_nat (min quotient 16))"

text \<open>How many bytes the next FIFO word carries.\<close>

definition pram_temp_len :: "u16 \<Rightarrow> u16 \<Rightarrow> u8 \<Rightarrow> u8" where
  "pram_temp_len len byte_offset first_byte_position =
     (if byte_offset > 0 then (if len > 4 then 4 else to_u8 len)
      else (if unat len > 4 - unat first_byte_position then 4 - first_byte_position else to_u8 len))"

text \<open>
  The inner loop of a read: the words in \<open>fifo\<close> go to the buffer. The result is what is left of
  the length, the offset and the buffer.
\<close>

fun pram_unpack :: "u8 \<Rightarrow> bytes \<Rightarrow> nat \<Rightarrow> u16 \<Rightarrow> u16 \<Rightarrow> bytes \<Rightarrow> (u16 \<times> u16 \<times> bytes) option" where
  "pram_unpack fbp fifo 0 len byte_offset buf = Some (len, byte_offset, buf)"
| "pram_unpack fbp fifo (Suc fifo_cnt) len byte_offset buf =
     (if len = 0 then Some (len, byte_offset, buf)
      else do {
        w \<leftarrow> get_bytes 0 4 fifo;
        let value = le32 (rd32 w);
        let temp_len = pram_temp_len len byte_offset fbp;
        buf \<leftarrow> (if byte_offset > 0 then put_bytes (unat byte_offset) (take (unat temp_len) value) buf
               else put_bytes 0 (take (unat temp_len) (drop (unat fbp) value)) buf);
        pram_unpack fbp (drop 4 fifo) fifo_cnt (len - to_u16 temp_len) (byte_offset + to_u16 temp_len) buf
      })"

definition fifo_words :: "u32 \<Rightarrow> u8" where
  "fifo_words value = (let fifo_size = to_u8 (PRAM_CMD_CNT value)
     in if fifo_size > ESC_PRAM_FIFO_MAX then ESC_PRAM_FIFO_MAX else fifo_size)"

text \<open>The outer loop of a read.\<close>

partial_function (option) pram_read_loop ::
  "'c os \<Rightarrow> u8 \<Rightarrow> u16 \<Rightarrow> u16 \<Rightarrow> bytes \<Rightarrow> 'c hw \<Rightarrow> (bytes \<times> 'c hw) option" where
  "pram_read_loop os fbp len byte_offset buf h =
     (if len > 0 then do {
        (value, h) \<leftarrow> pram_wait_fifo os ESC_PRAM_RD_CMD_REG (pram_fifo_range len byte_offset fbp) h;
        if hw_fault h then Some (buf, h)
        else do {
          let fifo_size = fifo_words value;
          let frame = [ESC_CMD_SERIAL_READ, to_u8 (drop_bit 8 ESC_PRAM_RD_FIFO_REG AND 0xFF),
            to_u8 (ESC_PRAM_RD_FIFO_REG AND 0xFF)] @ replicate (4 * unat fifo_size) 0;
          case spi_xfer os frame h of
            (None, h) \<Rightarrow> Some (buf, h)
          | (Some rx, h) \<Rightarrow> do {
              (len, byte_offset, buf) \<leftarrow> pram_unpack fbp (drop 3 rx) (unat fifo_size) len byte_offset buf;
              pram_read_loop os fbp len byte_offset buf h
            }
        }
      }
      else Some (buf, h))"

text \<open>\<open>buf\<close> is the caller's buffer; a fault leaves the rest of it as it was.\<close>

definition ESC_read_pram :: "'c os \<Rightarrow> u16 \<Rightarrow> bytes \<Rightarrow> u16 \<Rightarrow> 'c hw \<Rightarrow> (bytes \<times> 'c hw) option" where
  "ESC_read_pram os address buf len h = do {
     let h = lan9252_write_32 os ESC_PRAM_RD_CMD_REG ESC_PRAM_CMD_ABORT h;
     (_, h) \<leftarrow> wait_until os ESC_PRAM_RD_CMD_REG ESC_PRAM_CMD_BUSY 0 h;
     if hw_fault h then Some (buf, h)
     else do {
       let h = lan9252_write_32 os ESC_PRAM_RD_ADDR_LEN_REG (PRAM_SIZE len OR to_u32 address) h;
       let h = lan9252_write_32 os ESC_PRAM_RD_CMD_REG ESC_PRAM_CMD_BUSY h;
       pram_read_loop os (to_u8 (address AND 0x03)) len 0 buf h
     }
   }"

text \<open>The inner loop of a write: the words for the FIFO, from the buffer.\<close>

fun pram_pack :: "u8 \<Rightarrow> nat \<Rightarrow> u16 \<Rightarrow> u16 \<Rightarrow> bytes \<Rightarrow> (bytes \<times> u16 \<times> u16) option" where
  "pram_pack fbp 0 len byte_offset buf = Some ([], len, byte_offset)"
| "pram_pack fbp (Suc fifo_cnt) len byte_offset buf =
     (if len = 0 then Some ([], len, byte_offset)
      else do {
        let temp_len = unat (pram_temp_len len byte_offset fbp);
        bs \<leftarrow> get_bytes (unat byte_offset) temp_len buf;
        let at = (if byte_offset > 0 then 0 else unat fbp);
        value \<leftarrow> put_bytes at bs [0, 0, 0, 0];
        (fifo, len, byte_offset) \<leftarrow> pram_pack fbp fifo_cnt (len - of_nat temp_len) (byte_offset + of_nat temp_len) buf;
        Some (le32 (rd32 value) @ fifo, len, byte_offset)
      })"

partial_function (option) pram_write_loop ::
  "'c os \<Rightarrow> u8 \<Rightarrow> u16 \<Rightarrow> u16 \<Rightarrow> bytes \<Rightarrow> 'c hw \<Rightarrow> 'c hw option" where
  "pram_write_loop os fbp len byte_offset buf h =
     (if len > 0 then do {
        (value, h) \<leftarrow> pram_wait_fifo os ESC_PRAM_WR_CMD_REG (pram_fifo_range len byte_offset fbp) h;
        if hw_fault h then Some h
        else do {
          let n = 4 * unat (fifo_words value);
          (fifo, len, byte_offset) \<leftarrow> pram_pack fbp (unat (fifo_words value)) len byte_offset buf;
          let frame = [ESC_CMD_SERIAL_WRITE, to_u8 (drop_bit 8 ESC_PRAM_WR_FIFO_REG AND 0xFF),
            to_u8 (ESC_PRAM_WR_FIFO_REG AND 0xFF)] @ fifo @ replicate (n - length fifo) 0;
          case spi_xfer os frame h of
            (None, h) \<Rightarrow> Some h
          | (Some _, h) \<Rightarrow> pram_write_loop os fbp len byte_offset buf h
        }
      }
      else Some h)"

definition ESC_write_pram :: "'c os \<Rightarrow> u16 \<Rightarrow> bytes \<Rightarrow> u16 \<Rightarrow> 'c hw \<Rightarrow> 'c hw option" where
  "ESC_write_pram os address buf len h = do {
     let h = lan9252_write_32 os ESC_PRAM_WR_CMD_REG ESC_PRAM_CMD_ABORT h;
     (_, h) \<leftarrow> wait_until os ESC_PRAM_WR_CMD_REG ESC_PRAM_CMD_BUSY 0 h;
     if hw_fault h then Some h
     else do {
       let h = lan9252_write_32 os ESC_PRAM_WR_ADDR_LEN_REG (PRAM_SIZE len OR to_u32 address) h;
       let h = lan9252_write_32 os ESC_PRAM_WR_CMD_REG ESC_PRAM_CMD_BUSY h;
       pram_write_loop os (to_u8 (address AND 0x03)) len 0 buf h
     }
   }"

section \<open>What the stack calls\<close>

definition csr_chunk_size :: "u16 \<Rightarrow> u16 \<Rightarrow> u16" where
  "csr_chunk_size address len =
     (let size = (if len > 4 then 4 else len)
      in if address AND 0x1 \<noteq> 0 then 1
         else if address AND 0x2 \<noteq> 0 then (if size AND 0x1 \<noteq> 0 then 1 else 2)
         else if size = 3 then 1 else size)"

definition alevent_tail_needed :: "options \<Rightarrow> u16 \<Rightarrow> bool" where
  "alevent_tail_needed opts address \<longleftrightarrow> \<not> (address = ESCREG_ALEVENT \<or> address = ESCREG_WDSTATUS \<or>
     unat address = SM2_sma opts \<or> unat address = SM3_sma opts)"

partial_function (option) csr_read_loop ::
  "'c os \<Rightarrow> u16 \<Rightarrow> u16 \<Rightarrow> 'c hw \<Rightarrow> (bytes \<times> 'c hw) option" where
  "csr_read_loop os address len h =
     (if len > 0 then do {
        let n = csr_chunk_size address len;
        (bs, h) \<leftarrow> ESC_read_csr os address n h;
        (rest, h) \<leftarrow> csr_read_loop os (address + n) (len - n) h;
        Some (bs @ rest, h)
      }
      else Some ([], h))"

partial_function (option) csr_write_loop ::
  "'c os \<Rightarrow> u16 \<Rightarrow> bytes \<Rightarrow> u16 \<Rightarrow> 'c hw \<Rightarrow> 'c hw option" where
  "csr_write_loop os address buf len h =
     (if len > 0 then do {
        let n = csr_chunk_size address len;
        h \<leftarrow> ESC_write_csr os address buf n h;
        csr_write_loop os (address + n) (drop (unat n) buf) (len - n) h
      }
      else Some h)"

text \<open>The event register, read after an access; its value goes to \<open>ESCvar.ALevent\<close>.\<close>

definition alevent_tail :: "'c os \<Rightarrow> 'c hw \<Rightarrow> (u32 \<times> 'c hw) option" where
  "alevent_tail os h = do {
     (bs, h) \<leftarrow> ESC_read_csr os ESCREG_ALEVENT 4 h;
     Some (rd32 bs, h)
   }"

text \<open>
  The results of \<open>ESC_read\<close>: the buffer, the value published to \<open>ESCvar.ALevent\<close> if one
  is, and the layer. \<open>buf\<close> has \<open>len\<close> bytes.
\<close>

definition hw_ESC_read ::
  "'c os \<Rightarrow> options \<Rightarrow> u16 \<Rightarrow> bytes \<Rightarrow> u16 \<Rightarrow> 'c hw \<Rightarrow> (bytes \<times> u32 option \<times> 'c hw) option" where
  "hw_ESC_read os opts address buf len h =
     (if hw_fault h \<or> spi_fd h < 0 then Some (replicate (unat len) 0, None, h)
      else do {
        (buf, h) \<leftarrow> (if address \<ge> 0x1000 then ESC_read_pram os address buf len h
                     else csr_read_loop os address len h);
        if address = ESCREG_ALEVENT \<and> len \<ge> 4 then Some (buf, Some (rd32 (take 4 buf)), h)
        else if \<not> alevent_tail_needed opts address then Some (buf, None, h)
        else do { (ev, h) \<leftarrow> alevent_tail os h; Some (buf, Some ev, h) }
      })"

definition hw_ESC_write ::
  "'c os \<Rightarrow> options \<Rightarrow> u16 \<Rightarrow> bytes \<Rightarrow> u16 \<Rightarrow> 'c hw \<Rightarrow> (u32 option \<times> 'c hw) option" where
  "hw_ESC_write os opts address buf len h =
     (if hw_fault h \<or> spi_fd h < 0 then Some (None, h)
      else do {
        h \<leftarrow> (if address \<ge> 0x1000 then ESC_write_pram os address buf len h
               else csr_write_loop os address buf len h);
        if \<not> alevent_tail_needed opts address then Some (None, h)
        else do { (ev, h) \<leftarrow> alevent_tail os h; Some (Some ev, h) }
      })"

section \<open>Lines of the GPIO chip\<close>

text \<open>Opening a line for output or for rising edges: open the chip, request, close.\<close>

definition gpio_request_line :: "'c os \<Rightarrow> bytes \<Rightarrow> gpio_request \<Rightarrow> 'c hw \<Rightarrow> int \<times> 'c hw" where
  "gpio_request_line os chip req h =
     (let (chip_fd, k) = os_open os chip (kernel h)
      in if chip_fd < 0 then (-1, h\<lparr>kernel := k\<rparr>)
         else (let (r, k) = gpio_get_line os chip_fd req k;
                   k = os_close os chip_fd k
               in (case r of None \<Rightarrow> -1 | Some fd \<Rightarrow> fd, h\<lparr>kernel := k\<rparr>)))"

definition gpio_request_output :: "'c os \<Rightarrow> bytes \<Rightarrow> int \<Rightarrow> u8 \<Rightarrow> 'c hw \<Rightarrow> int \<times> 'c hw" where
  "gpio_request_output os chip offset value h =
     gpio_request_line os chip (GPIO_OUTPUT offset (if value \<noteq> 0 then 1 else 0)) h"

definition ESC_hw_edge_open :: "'c os \<Rightarrow> bytes option \<Rightarrow> int \<Rightarrow> 'c hw \<Rightarrow> int \<times> 'c hw" where
  "ESC_hw_edge_open os gpiochip line h =
     (case gpiochip of
        None \<Rightarrow> (-1, h)
      | Some chip \<Rightarrow> if line < 0 then (-1, h) else gpio_request_line os chip (GPIO_EDGE_RISING line) h)"

text \<open>The result, the timestamp of the last event and the number of coalesced ones, if any.\<close>

definition ESC_hw_edge_wait :: "'c os \<Rightarrow> int \<Rightarrow> u64 \<Rightarrow> 'c hw \<Rightarrow> (int \<times> (u64 \<times> int) option) \<times> 'c hw" where
  "ESC_hw_edge_wait os fd timeout_ns h =
     (if fd < 0 then ((-1, None), h)
      else (let ts = \<lparr>tv_sec = int (unat (timeout_ns div 1000000000)), tv_nsec = int (unat (timeout_ns mod 1000000000))\<rparr>;
                (rc, k) = ppoll os fd ts (kernel h)
            in if rc < 0 then ((-1, None), h\<lparr>kernel := k\<rparr>)
               else if rc = 0 then ((0, None), h\<lparr>kernel := k\<rparr>)
               else (let (n, k) = read_events os fd 8 k; h = h\<lparr>kernel := k\<rparr>
                     in (case n of
                           None \<Rightarrow> ((-1, None), h)
                         | Some ev \<Rightarrow> if ev = [] then ((-1, None), h)
                             else ((1, Some (ev ! (length ev - 1), int (length ev) - 1)), h)))))"

definition gpio_set :: "'c os \<Rightarrow> int \<Rightarrow> u8 \<Rightarrow> 'c hw \<Rightarrow> 'c hw" where
  "gpio_set os fd value h =
     (if fd < 0 then h else h\<lparr>kernel := gpio_set_values os fd (if value \<noteq> 0 then 1 else 0) (kernel h)\<rparr>)"

definition hw_reset_pulse :: "'c os \<Rightarrow> 'c hw \<Rightarrow> 'c hw" where
  "hw_reset_pulse os h =
     (if reset_fd h < 0 then h
      else (let h = gpio_set os (reset_fd h) 0 h;
                h = h\<lparr>kernel := usleep os (reset_pulse_us h) (kernel h)\<rparr>;
                h = gpio_set os (reset_fd h) 1 h
            in h\<lparr>kernel := usleep os 1000 (kernel h)\<rparr>))"

definition hw_ESC_reset :: "'c os \<Rightarrow> 'c hw \<Rightarrow> 'c hw" where
  "hw_ESC_reset os h = hw_reset_pulse os h"

section \<open>Initialisation\<close>

definition ESC_hw_faulted :: "'c hw \<Rightarrow> int" where
  "ESC_hw_faulted h = (if hw_fault h then 1 else 0)"

definition ESC_hw_spi_ns :: "'c hw \<Rightarrow> u64" where
  "ESC_hw_spi_ns h = spi_ns h"

definition ESC_hw_spi_count :: "'c hw \<Rightarrow> u64" where
  "ESC_hw_spi_count h = spi_count h"

text \<open>The statics as the program starts with them.\<close>

definition hw_start :: "'c \<Rightarrow> 'c hw" where
  "hw_start k = \<lparr>spi_fd = -1, reset_fd = -1, lan9252_init_al_status = 0, lan9252_init_sync_activation = 0,
     lan9252_init_dc_offset_set = False, lan9252_init_core_reset = False, reset_pulse_us = 500,
     timeout_ms = DEFAULT_TIMEOUT_MS, hw_fault = False, irq_chip = None, irq_offset = -1, sync0_offset = -1,
     spi_ns = 0, spi_count = 0, irq_wait_fd = -1, sync0_wait_fd = -1, sync0_last_ns = 0,
     irq_watch_fd = -1, kernel = k\<rparr>"

text \<open>Opening and configuring the SPI device; the result is whether that succeeded.\<close>

definition spi_open :: "'c os \<Rightarrow> bytes \<Rightarrow> u8 \<Rightarrow> u32 \<Rightarrow> 'c hw \<Rightarrow> bool \<times> 'c hw" where
  "spi_open os path mode speed h =
     (let (fd, k) = os_open os path (kernel h); h = h\<lparr>spi_fd := fd, kernel := k\<rparr>
      in if fd < 0 then (False, h\<lparr>hw_fault := True\<rparr>)
         else (let (a, k) = spi_ioctl os fd (SPI_IOC_WR_MODE mode) k;
                   (b, k) = (if a < 0 then (a, k) else spi_ioctl os fd (SPI_IOC_WR_BITS_PER_WORD 8) k);
                   (c, k) = (if b < 0 then (b, k) else spi_ioctl os fd (SPI_IOC_WR_MAX_SPEED_HZ speed) k)
               in if c < 0 then (False, h\<lparr>kernel := os_close os fd k, spi_fd := -1, hw_fault := True\<rparr>)
                  else (True, h\<lparr>kernel := k\<rparr>)))"

definition wait_byte_test :: "'c os \<Rightarrow> 'c hw \<Rightarrow> 'c hw option" where
  "wait_byte_test os h = do {
     (_, h) \<leftarrow> wait_until os ESC_CMD_BYTE_TEST 0xFFFFFFFF ESC_BYTE_TEST_OK h; Some h }"

definition wait_hw_ready :: "'c os \<Rightarrow> 'c hw \<Rightarrow> 'c hw option" where
  "wait_hw_ready os h = do {
     (_, h) \<leftarrow> wait_until os ESC_CMD_HW_CFG ESC_HW_CFG_READY ESC_HW_CFG_READY h; Some h }"

text \<open>The reset of the EtherCAT core, unless a master has configured the chip.\<close>

definition core_reset_unless_configured :: "'c os \<Rightarrow> 'c hw \<Rightarrow> 'c hw option" where
  "core_reset_unless_configured os h = do {
     (al, h) \<leftarrow> ESC_read_csr os ESCREG_ALSTATUS 2 h;
     (act, h) \<leftarrow> ESC_read_csr os 0x0981 1 h;
     (lo, h) \<leftarrow> ESC_read_csr os 0x0920 4 h;
     (hi, h) \<leftarrow> ESC_read_csr os 0x0924 4 h;
     let al_status = rd16 al;
     let sync_act = act ! 0;
     let offset_set = ((rd32 lo OR rd32 hi) \<noteq> 0);
     let core_reset = (al_status AND 0x0F \<le> to_u16 ESCinit \<and> sync_act = 0 \<and> \<not> offset_set);
     let h = h\<lparr>lan9252_init_al_status := al_status, lan9252_init_sync_activation := sync_act,
                lan9252_init_dc_offset_set := offset_set, lan9252_init_core_reset := core_reset\<rparr>;
     if core_reset then do {
       let h = lan9252_write_32 os ESC_CMD_RESET_CTL ESC_RESET_CTRL_RST h;
       (_, h) \<leftarrow> wait_until os ESC_CMD_RESET_CTL ESC_RESET_CTRL_RST 0 h;
       h \<leftarrow> wait_byte_test os h;
       wait_hw_ready os h
     }
     else Some h
   }"

text \<open>
  \<open>ESC_init\<close>, given \<open>config->user_arg\<close>. Beside the result, the value that the write of the
  event mask publishes to \<open>ESCvar.ALevent\<close>, if it comes to that.
\<close>

definition hw_ESC_init ::
  "'c os \<Rightarrow> options \<Rightarrow> esc_hw_cfg option \<Rightarrow> 'c hw \<Rightarrow> (int \<times> u32 option \<times> 'c hw) option" where
  "hw_ESC_init os opts user_arg h =
     (let h = h\<lparr>hw_fault := False\<rparr> in
      case user_arg of None \<Rightarrow> Some (-1, None, h\<lparr>hw_fault := True\<rparr>)
      | Some hw \<Rightarrow>
        (case cfg_spidev hw of None \<Rightarrow> Some (-1, None, h\<lparr>hw_fault := True\<rparr>)
         | Some path \<Rightarrow>
           (let h = h\<lparr>irq_chip := cfg_gpiochip hw, irq_offset := cfg_irq_line hw, sync0_offset := cfg_sync0_line hw,
                      timeout_ms := (if cfg_op_timeout_ms hw \<noteq> 0 then cfg_op_timeout_ms hw else DEFAULT_TIMEOUT_MS),
                      reset_pulse_us := (if cfg_reset_pulse_us hw \<noteq> 0 then cfg_reset_pulse_us hw else 500)\<rparr>;
                (opened, h) = spi_open os path (cfg_spi_mode hw) (cfg_spi_speed_hz hw) h
            in if \<not> opened then Some (-1, None, h)
               else do {
                 let h = (case cfg_gpiochip hw of
                            None \<Rightarrow> h
                          | Some chip \<Rightarrow>
                            if cfg_reset_line hw \<ge> 0 then
                              (let (fd, h) = gpio_request_output os chip (cfg_reset_line hw) 1 h
                               in hw_reset_pulse os (h\<lparr>reset_fd := fd\<rparr>))
                            else h);
                 h \<leftarrow> wait_byte_test os h;
                 h \<leftarrow> wait_hw_ready os h;
                 h \<leftarrow> core_reset_unless_configured os h;
                 if hw_fault h then Some (-1, None, h)
                 else do {
                   let (id_rev, h) = lan9252_read_32 os ESC_CMD_ID_REV h;
                   (ev, h) \<leftarrow> hw_ESC_write os opts ESCREG_ALEVENTMASK
                     (le32 (ESCREG_ALEVENT_CONTROL OR ESCREG_ALEVENT_SMCHANGE OR ESCREG_ALEVENT_SM0 OR ESCREG_ALEVENT_SM1)) 4 h;
                   Some (0, ev, h)
                 }
               })))"

section \<open>Interrupts\<close>

text \<open>
  \<open>hw_wait_on\<close> on the descriptor \<open>fd\<close>: its results are the return value and the timestamp, the
  descriptor afterwards, and the layer. The line is opened by the first wait.
\<close>

definition hw_wait_on ::
  "'c os \<Rightarrow> int \<Rightarrow> int \<Rightarrow> u64 \<Rightarrow> 'c hw \<Rightarrow> (int \<times> (u64 \<times> int) option) \<times> int \<times> 'c hw" where
  "hw_wait_on os fd offset timeout_ns h =
     (if fd < 0 \<and> (offset < 0 \<or> irq_chip h = None) then ((-1, None), fd, h)
      else (let (fd, h) = (if fd < 0 then ESC_hw_edge_open os (irq_chip h) offset h else (fd, h))
            in if fd < 0 then ((-1, None), fd, h)
               else (let (r, h) = ESC_hw_edge_wait os fd timeout_ns h in (r, fd, h))))"

definition ESC_hw_wait :: "'c os \<Rightarrow> u64 \<Rightarrow> 'c hw \<Rightarrow> int \<times> 'c hw" where
  "ESC_hw_wait os timeout_ns h =
     (let ((rc, _), fd, h) = hw_wait_on os (irq_wait_fd h) (irq_offset h) timeout_ns h
      in (rc, h\<lparr>irq_wait_fd := fd\<rparr>))"

definition ESC_hw_wait_sync0 :: "'c os \<Rightarrow> u64 \<Rightarrow> 'c hw \<Rightarrow> int \<times> 'c hw" where
  "ESC_hw_wait_sync0 os timeout_ns h =
     (let ((rc, stamp), fd, h) = hw_wait_on os (sync0_wait_fd h) (sync0_offset h) timeout_ns h;
          h = h\<lparr>sync0_wait_fd := fd\<rparr>
      in (rc, case stamp of None \<Rightarrow> h | Some (t, _) \<Rightarrow> h\<lparr>sync0_last_ns := t\<rparr>))"

definition ESC_hw_sync0_timestamp :: "'c hw \<Rightarrow> u64" where
  "ESC_hw_sync0_timestamp h = sync0_last_ns h"

text \<open>The timestamps of the edges queued since the last call, the first \<open>max\<close> of them stored.\<close>

fun store_stamps :: "int \<Rightarrow> u64 list \<Rightarrow> int \<Rightarrow> u64 list \<Rightarrow> u64 list \<times> int" where
  "store_stamps max_n [] count stamps = (stamps, count)"
| "store_stamps max_n (t # ts) count stamps =
     store_stamps max_n ts (count + 1) (if count < max_n then stamps @ [t] else stamps)"

partial_function (option) irq_edges_loop ::
  "'c os \<Rightarrow> int \<Rightarrow> int \<Rightarrow> u64 list \<Rightarrow> 'c hw \<Rightarrow> ((int \<times> u64 list) \<times> 'c hw) option" where
  "irq_edges_loop os max_n count stamps h =
     (let (rc, k) = os_poll os (irq_watch_fd h) (kernel h); h = h\<lparr>kernel := k\<rparr>
      in if rc \<le> 0 then Some ((count, stamps), h)
         else (let (ev, k) = read_events os (irq_watch_fd h) 16 (kernel h); h = h\<lparr>kernel := k\<rparr>
               in (case ev of
                     None \<Rightarrow> Some ((count, stamps), h)
                   | Some ts \<Rightarrow>
                     if ts = [] then Some ((count, stamps), h)
                     else (let (stamps, count) = store_stamps max_n ts count stamps
                           in irq_edges_loop os max_n count stamps h))))"

definition ESC_hw_irq_edges :: "'c os \<Rightarrow> int \<Rightarrow> 'c hw \<Rightarrow> ((int \<times> u64 list) \<times> 'c hw) option" where
  "ESC_hw_irq_edges os max_n h =
     (if irq_watch_fd h < 0 \<and> (irq_offset h < 0 \<or> irq_chip h = None) then Some ((-1, []), h)
      else (let (fd, h) = (if irq_watch_fd h < 0 then ESC_hw_edge_open os (irq_chip h) (irq_offset h) h
                           else (irq_watch_fd h, h));
                h = h\<lparr>irq_watch_fd := fd\<rparr>
            in if fd < 0 then Some ((-1, []), h) else irq_edges_loop os max_n 0 [] h))"

definition user_int_mask :: u32 where
  "user_int_mask = ESCREG_ALEVENT_DC_SYNC0 OR ESCREG_ALEVENT_SM2 OR ESCREG_ALEVENT_SM3"

text \<open>\<open>ESC_ALeventmaskwrite (f (ESC_ALeventmaskread ()))\<close>, with the event values published.\<close>

definition hw_update_mask ::
  "'c os \<Rightarrow> options \<Rightarrow> (u32 \<Rightarrow> u32) \<Rightarrow> 'c hw \<Rightarrow> (u32 option \<times> 'c hw) option" where
  "hw_update_mask os opts f h = do {
     (bs, ev, h) \<leftarrow> hw_ESC_read os opts ESCREG_ALEVENTMASK (replicate 4 0) 4 h;
     (ev', h) \<leftarrow> hw_ESC_write os opts ESCREG_ALEVENTMASK (le32 (f (rd32 bs))) 4 h;
     Some (case ev' of None \<Rightarrow> ev | Some e \<Rightarrow> Some e, h)
   }"

definition hw_interrupt_enable :: "'c os \<Rightarrow> options \<Rightarrow> u32 \<Rightarrow> 'c hw \<Rightarrow> (u32 option \<times> 'c hw) option" where
  "hw_interrupt_enable os opts msk h = do {
     (ev, h) \<leftarrow> (if msk AND user_int_mask \<noteq> 0
                 then hw_update_mask os opts (\<lambda>m. m OR (msk AND user_int_mask)) h else Some (None, h));
     let h = lan9252_write_32 os ESC_CMD_IRQ_CFG 0x00000111 h;
     let h = lan9252_write_32 os ESC_CMD_INT_EN 0x00000001 h;
     Some (ev, h)
   }"

definition hw_interrupt_disable :: "'c os \<Rightarrow> options \<Rightarrow> u32 \<Rightarrow> 'c hw \<Rightarrow> (u32 option \<times> 'c hw) option" where
  "hw_interrupt_disable os opts msk h = do {
     (ev, h) \<leftarrow> (if msk AND user_int_mask \<noteq> 0
                 then hw_update_mask os opts (\<lambda>m. m AND NOT (msk AND user_int_mask)) h else Some (None, h));
     let h = lan9252_write_32 os ESC_CMD_INT_EN 0x00000000 h;
     Some (ev, h)
   }"

end
