(* ===== verification/Lan_Chip.thy ===== *)
theory Lan_Chip
  imports Lan9252 Ram_Port
begin

text \<open>
  What the LAN9252 layer relies on: how the chip answers the SPI frames that the layer sends
  (\<open>lan_answers\<close>), that time passes, and what a chip is that answers promptly. These are hypotheses
  about the chip and the kernel, stated over a view of the chip's state; the memory is that of
  \<open>Ram_Port\<close>, which nobody else changes during an access. Then the rules for the SPI frames and the
  polling loops under these hypotheses, from which the rules of the accesses follow.
\<close>

section \<open>The chip behind the SPI\<close>

text \<open>
  The memory, the indirect access interface (the command in execution and the data register)
  and the two FIFOs: the address and length register, the transfer in progress as its address,
  its length and the number of words moved, and how many words can be moved now.
\<close>

record lan =
  lan_mem :: ram
  csr_cmd :: "u32 option"
  csr_data :: u32
  rd_addr_len :: u32
  rd_at :: "(nat \<times> nat \<times> nat) option"
  rd_cnt :: nat
  wr_addr_len :: u32
  wr_at :: "(nat \<times> nat \<times> nat) option"
  wr_cnt :: nat

text \<open>
  A command names an access of one, two or four bytes, aligned to its size; the chip takes no
  other. When the command register no longer reads busy, the command has been executed.
\<close>

definition csr_size :: "u32 \<Rightarrow> nat" where "csr_size c = unat (drop_bit 16 c AND 7)"
definition csr_address :: "u32 \<Rightarrow> u16" where "csr_address c = to_u16 c"

definition csr_legal :: "u32 \<Rightarrow> bool" where
  "csr_legal c \<longleftrightarrow> csr_size c \<in> {1, 2, 4} \<and> unat (csr_address c) mod csr_size c = 0"

definition csr_complete :: "lan \<Rightarrow> lan \<Rightarrow> bool" where
  "csr_complete v v' \<longleftrightarrow>
     (case csr_cmd v of
        None \<Rightarrow> v' = v
      | Some c \<Rightarrow>
        (let n = csr_size c; a = csr_address c in
         if \<not> csr_legal c then True
         else if c AND 0x40000000 \<noteq> 0
         then \<exists>d. take n (le32 d) = map (\<lambda>i. lan_mem v (a + of_nat i)) [0..<n] \<and>
                v' = v\<lparr>csr_cmd := None, csr_data := d\<rparr>
         else v' = v\<lparr>csr_cmd := None, lan_mem := ram_store a (take n (le32 (csr_data v))) (lan_mem v)\<rparr>))"

text \<open>
  The words of a transfer lie on word boundaries; the bytes before the address and after the
  last byte are not part of it. \<open>pram_put\<close> stores the words \<open>ws\<close> that come at position \<open>q\<close>.
\<close>

definition pram_put :: "nat \<Rightarrow> nat \<Rightarrow> nat \<Rightarrow> bytes \<Rightarrow> ram \<Rightarrow> ram" where
  "pram_put a l q ws m = (\<lambda>x. let pos = unat x - (a - a mod 4)
     in if a \<le> unat x \<and> unat x < a + l \<and> q \<le> pos \<and> pos < q + length ws then ws ! (pos - q) else m x)"

definition start_transfer :: "u32 \<Rightarrow> (nat \<times> nat \<times> nat) option" where
  "start_transfer x = Some (unat (to_u16 x), unat (to_u16 (drop_bit 16 x)), 0)"

definition burst_read :: "nat \<Rightarrow> bytes" where
  "burst_read n = [ESC_CMD_SERIAL_READ, 0, 0] @ replicate (4 * n) 0"

definition burst_write :: "bytes \<Rightarrow> bytes" where
  "burst_write ws = [ESC_CMD_SERIAL_WRITE, 0, 0x20] @ ws"

definition csr_answers :: "bytes \<Rightarrow> lan \<Rightarrow> bytes \<Rightarrow> lan \<Rightarrow> bool" where
  "csr_answers fr v rx v' \<longleftrightarrow>
     (\<forall>x. fr = frame_write ESC_CSR_DATA_REG x \<and> csr_cmd v = None \<longrightarrow> v' = v\<lparr>csr_data := x\<rparr>) \<and>
     (\<forall>c. fr = frame_write ESC_CSR_CMD_REG c \<and> csr_cmd v = None \<and> csr_legal c \<longrightarrow> v' = v\<lparr>csr_cmd := Some c\<rparr>) \<and>
     (fr = frame_read ESC_CSR_CMD_REG \<longrightarrow>
        (if frame_value rx AND ESC_CSR_CMD_BUSY = 0 then csr_complete v v' else v' = v)) \<and>
     (fr = frame_read ESC_CSR_DATA_REG \<longrightarrow>
        v' = v \<and> (csr_cmd v = None \<longrightarrow> frame_value rx = csr_data v))"

definition rd_answers :: "bytes \<Rightarrow> lan \<Rightarrow> bytes \<Rightarrow> lan \<Rightarrow> bool" where
  "rd_answers fr v rx v' \<longleftrightarrow>
     (fr = frame_write ESC_PRAM_RD_CMD_REG ESC_PRAM_CMD_ABORT \<longrightarrow> v' = v\<lparr>rd_at := None\<rparr>) \<and>
     (\<forall>x. fr = frame_write ESC_PRAM_RD_ADDR_LEN_REG x \<and> rd_at v = None \<longrightarrow> v' = v\<lparr>rd_addr_len := x\<rparr>) \<and>
     (fr = frame_write ESC_PRAM_RD_CMD_REG ESC_PRAM_CMD_BUSY \<and> rd_at v = None \<longrightarrow>
        v' = v\<lparr>rd_at := start_transfer (rd_addr_len v), rd_cnt := 0\<rparr>) \<and>
     (fr = frame_read ESC_PRAM_RD_CMD_REG \<longrightarrow>
        v' = (if frame_value rx AND ESC_PRAM_CMD_AVAIL \<noteq> 0
              then v\<lparr>rd_cnt := unat (PRAM_CMD_CNT (frame_value rx))\<rparr> else v)) \<and>
     (\<forall>n a l p. fr = burst_read n \<and> 0 < n \<and> n \<le> rd_cnt v \<and> rd_at v = Some (a, l, p) \<longrightarrow>
        v' = v\<lparr>rd_at := Some (a, l, p + n), rd_cnt := rd_cnt v - n\<rparr> \<and>
        (\<forall>i < 4 * n. a mod 4 \<le> 4 * p + i \<and> 4 * p + i < a mod 4 + l \<longrightarrow>
           rx ! (3 + i) = lan_mem v (of_nat (a - a mod 4 + (4 * p + i)))))"

definition wr_answers :: "bytes \<Rightarrow> lan \<Rightarrow> bytes \<Rightarrow> lan \<Rightarrow> bool" where
  "wr_answers fr v rx v' \<longleftrightarrow>
     (fr = frame_write ESC_PRAM_WR_CMD_REG ESC_PRAM_CMD_ABORT \<longrightarrow> v' = v\<lparr>wr_at := None\<rparr>) \<and>
     (\<forall>x. fr = frame_write ESC_PRAM_WR_ADDR_LEN_REG x \<and> wr_at v = None \<longrightarrow> v' = v\<lparr>wr_addr_len := x\<rparr>) \<and>
     (fr = frame_write ESC_PRAM_WR_CMD_REG ESC_PRAM_CMD_BUSY \<and> wr_at v = None \<longrightarrow>
        v' = v\<lparr>wr_at := start_transfer (wr_addr_len v), wr_cnt := 0\<rparr>) \<and>
     (fr = frame_read ESC_PRAM_WR_CMD_REG \<longrightarrow>
        v' = (if frame_value rx AND ESC_PRAM_CMD_AVAIL \<noteq> 0
              then v\<lparr>wr_cnt := unat (PRAM_CMD_CNT (frame_value rx))\<rparr> else v)) \<and>
     (\<forall>ws n a l p. fr = burst_write ws \<and> length ws = 4 * n \<and> 0 < n \<and> n \<le> wr_cnt v \<and>
          wr_at v = Some (a, l, p) \<longrightarrow>
        v' = v\<lparr>wr_at := Some (a, l, p + n), wr_cnt := wr_cnt v - n,
               lan_mem := pram_put a l (4 * p) ws (lan_mem v)\<rparr>)"

definition lan_answers :: "bytes \<Rightarrow> lan \<Rightarrow> bytes \<Rightarrow> lan \<Rightarrow> bool" where
  "lan_answers fr v rx v' \<longleftrightarrow> csr_answers fr v rx v' \<and> rd_answers fr v rx v' \<and> wr_answers fr v rx v'"

text \<open>
  A prompt chip is never seen busy, and while a transfer still has words to move, it has in its
  FIFOs what the transfer needs. Of a transfer whose words are all moved, where the chip
  clears the flag, nothing is asked.
\<close>

definition fifo_prompt :: "(nat \<times> nat \<times> nat) option \<Rightarrow> u32 \<Rightarrow> bool" where
  "fifo_prompt at value \<longleftrightarrow>
     (case at of
        None \<Rightarrow> value AND ESC_PRAM_CMD_BUSY = 0
      | Some (a, l, p) \<Rightarrow> 4 * p < a mod 4 + l \<longrightarrow>
          value AND ESC_PRAM_CMD_AVAIL \<noteq> 0 \<and>
          min 16 ((a mod 4 + l + 3) div 4 - p) \<le> unat (PRAM_CMD_CNT value))"

definition prompt_answer :: "bytes \<Rightarrow> lan \<Rightarrow> bytes \<Rightarrow> bool" where
  "prompt_answer fr v rx \<longleftrightarrow>
     (fr = frame_read ESC_CSR_CMD_REG \<longrightarrow> frame_value rx AND ESC_CSR_CMD_BUSY = 0) \<and>
     (fr = frame_read ESC_PRAM_RD_CMD_REG \<longrightarrow> fifo_prompt (rd_at v) (frame_value rx)) \<and>
     (fr = frame_read ESC_PRAM_WR_CMD_REG \<longrightarrow> fifo_prompt (wr_at v) (frame_value rx))"

section \<open>The hypotheses\<close>

definition lan9252 :: "'c os \<Rightarrow> int \<Rightarrow> ('c \<Rightarrow> lan) \<Rightarrow> bool" where
  "lan9252 os fd view \<longleftrightarrow>
     (\<forall>fr k f k'. spi_message os fd fr k = (Some f, k') \<longrightarrow>
        lan_answers fr (view k) (map f [0..<length fr]) (view k')) \<and>
     (\<forall>k. view (snd (clock_gettime os k)) = view k)"

definition lan_prompt :: "'c os \<Rightarrow> int \<Rightarrow> ('c \<Rightarrow> lan) \<Rightarrow> bool" where
  "lan_prompt os fd view \<longleftrightarrow>
     (\<forall>fr k. case spi_message os fd fr k of
        (None, _) \<Rightarrow> False | (Some f, _) \<Rightarrow> prompt_answer fr (view k) (map f [0..<length fr]))"

definition in_ns :: "timespec \<Rightarrow> int" where
  "in_ns t = tv_sec t * 1000000000 + tv_nsec t"

text \<open>The clock is monotonic, its results are normalised, and a transfer takes time.\<close>

definition time_passes :: "'c os \<Rightarrow> ('c \<Rightarrow> int) \<Rightarrow> bool" where
  "time_passes os clk \<longleftrightarrow>
     (\<forall>k. 0 \<le> tv_nsec (fst (clock_gettime os k)) \<and> tv_nsec (fst (clock_gettime os k)) < 1000000000 \<and>
        in_ns (fst (clock_gettime os k)) = clk k \<and> clk k \<le> clk (snd (clock_gettime os k))) \<and>
     (\<forall>fd fr k. clk k < clk (snd (spi_message os fd fr k)))"

text \<open>The three together, with \<open>P\<close> for promptness where it is assumed.\<close>

definition lan_port :: "'c os \<Rightarrow> int \<Rightarrow> ('c \<Rightarrow> lan) \<Rightarrow> ('c \<Rightarrow> int) \<Rightarrow> bool \<Rightarrow> bool" where
  "lan_port os fd view clk P \<longleftrightarrow>
     lan9252 os fd view \<and> time_passes os clk \<and> (P \<longrightarrow> lan_prompt os fd view)"

text \<open>
  The postcondition of an operation of the layer: the fault is latched, which a prompt chip
  rules out, or the chip is in a state with \<open>G\<close>.
\<close>

definition port_post :: "bool \<Rightarrow> int \<Rightarrow> ('c \<Rightarrow> lan) \<Rightarrow> (lan \<Rightarrow> bool) \<Rightarrow> 'c hw \<Rightarrow> bool" where
  "port_post P fd view G h \<longleftrightarrow>
     (if hw_fault h then \<not> P else spi_fd h = fd \<and> G (view (kernel h)))"

section \<open>SPI frames\<close>

lemma length_frames [simp]: "length (frame_read a) = 7" "length (frame_write a x) = 7"
  by (simp_all add: frame_read_def frame_write_def)

lemma spi_xfer_clk:
  assumes "time_passes os clk" and "spi_xfer os buf h = (r, h')"
  shows "clk (kernel h) < clk (kernel h')"
proof -
  let ?k1 = "snd (clock_gettime os (kernel h))"
  let ?k2 = "snd (spi_message os (spi_fd h) buf ?k1)"
  have "clk (kernel h) \<le> clk ?k1" and "clk ?k1 < clk ?k2" and "clk ?k2 \<le> clk (snd (clock_gettime os ?k2))"
    using assms(1) by (auto simp: time_passes_def)
  moreover have "kernel h' = snd (clock_gettime os ?k2)"
    using assms(2) by (auto simp: spi_xfer_def hw_timeout_def split: prod.splits option.splits if_splits)
  ultimately show ?thesis by simp
qed

lemma spi_xfer_fd:
  "spi_xfer os buf h = (r, h') \<Longrightarrow> spi_fd h' = spi_fd h \<and> (hw_fault h \<longrightarrow> hw_fault h') \<and>
     (r = None \<longrightarrow> hw_fault h') \<and> (r \<noteq> None \<longrightarrow> hw_fault h' = hw_fault h)"
  by (auto simp: spi_xfer_def hw_timeout_def split: prod.splits option.splits if_splits)

lemma spi_xfer_length: "spi_xfer os buf h = (Some rx, h') \<Longrightarrow> length rx = length buf"
  by (auto simp: spi_xfer_def split: prod.splits option.splits)

lemma spi_xfer_answers:
  assumes L: "lan_port os (spi_fd h) view clk P" and x: "spi_xfer os buf h = (Some rx, h')"
  shows "lan_answers buf (view (kernel h)) rx (view (kernel h'))"
    and "P \<Longrightarrow> prompt_answer buf (view (kernel h)) rx"
proof -
  obtain f k2 where m: "spi_message os (spi_fd h) buf (snd (clock_gettime os (kernel h))) = (Some f, k2)"
    and rx: "rx = map f [0..<length buf]" and k: "kernel h' = snd (clock_gettime os k2)"
    using x by (auto simp: spi_xfer_def split: prod.splits option.splits)
  have v: "view (snd (clock_gettime os k)) = view k" for k
    using L by (simp add: lan_port_def lan9252_def)
  show "lan_answers buf (view (kernel h)) rx (view (kernel h'))"
    using L m by (simp add: lan_port_def lan9252_def rx k) metis
  show "P \<Longrightarrow> prompt_answer buf (view (kernel h)) rx"
  proof -
    assume P
    with L have "case spi_message os (spi_fd h) buf k of (None, _) \<Rightarrow> False
      | (Some f, _) \<Rightarrow> prompt_answer buf (view k) (map f [0..<length buf])" for k
      by (simp add: lan_port_def lan_prompt_def)
    from this [of "snd (clock_gettime os (kernel h))"] show "prompt_answer buf (view (kernel h)) rx"
      by (simp add: m v rx)
  qed
qed

lemma spi_xfer_prompt: "lan_port os (spi_fd h) view clk True \<Longrightarrow> fst (spi_xfer os buf h) \<noteq> None"
  by (fastforce simp: lan_port_def lan_prompt_def spi_xfer_def split: prod.splits option.splits)

text \<open>The rule for one transfer.\<close>

lemma spi_xfer_rule:
  assumes "lan_port os fd view clk P" and "\<not> hw_fault h" and "spi_fd h = fd"
    and "\<And>h'. hw_fault h' \<Longrightarrow> \<not> P \<Longrightarrow> Q (None, h')"
    and "\<And>rx h'. \<not> hw_fault h' \<Longrightarrow> spi_fd h' = fd \<Longrightarrow>
           lan_answers buf (view (kernel h)) rx (view (kernel h')) \<Longrightarrow>
           (P \<Longrightarrow> prompt_answer buf (view (kernel h)) rx) \<Longrightarrow> length rx = length buf \<Longrightarrow> Q (Some rx, h')"
  shows "Q (spi_xfer os buf h)"
proof (cases "spi_xfer os buf h")
  case (Pair r h')
  show ?thesis
  proof (cases r)
    case None
    with assms(1,3) Pair have "\<not> P" using spi_xfer_prompt [of os h view clk buf] by auto
    with None Pair spi_xfer_fd [OF Pair] assms(4) show ?thesis by simp
  next
    case (Some rx)
    with Pair assms(1,2,3) spi_xfer_fd [OF Pair] show ?thesis
      using spi_xfer_answers [of os h view clk P buf rx h'] spi_xfer_length [of os buf h rx h'] by (auto intro: assms(5))
  qed
qed

section \<open>Reads, writes and polls\<close>

lemma write_32_rule:
  assumes "lan_port os fd view clk P" and "port_post P fd view I h"
    and "\<And>v rx v'. I v \<Longrightarrow> lan_answers (frame_write reg x) v rx v' \<Longrightarrow> G v'"
  shows "port_post P fd view G (lan9252_write_32 os reg x h)"
proof (cases "hw_fault h")
  case True
  obtain r h' where x: "spi_xfer os (frame_write reg x) h = (r, h')" by fastforce
  from spi_xfer_fd [OF x] True assms(2) show ?thesis
    by (simp add: lan9252_write_32_def port_post_def x)
next
  case False
  then have I: "spi_fd h = fd" "I (view (kernel h))"
    using assms(2) by (simp_all add: port_post_def)
  show ?thesis
    unfolding lan9252_write_32_def
    by (rule spi_xfer_rule [OF assms(1) False I(1), where Q = "\<lambda>x. port_post P fd view G (snd x)"])
      (simp_all add: port_post_def assms(3) [OF I(2)])
qed

lemma read_32_rule:
  assumes "lan_port os fd view clk P" and "\<not> hw_fault h" and "spi_fd h = fd"
    and "\<And>h' v. hw_fault h' \<Longrightarrow> \<not> P \<Longrightarrow> Q (v, h')"
    and "\<And>rx h'. \<not> hw_fault h' \<Longrightarrow> spi_fd h' = fd \<Longrightarrow>
           lan_answers (frame_read reg) (view (kernel h)) rx (view (kernel h')) \<Longrightarrow>
           (P \<Longrightarrow> prompt_answer (frame_read reg) (view (kernel h)) rx) \<Longrightarrow> Q (frame_value rx, h')"
  shows "Q (lan9252_read_32 os reg h)"
  unfolding lan9252_read_32_def
  by (rule spi_xfer_rule [OF assms(1,2,3)]) (use assms(4,5) in auto)

lemma read_32_clk:
  "time_passes os clk \<Longrightarrow> lan9252_read_32 os reg h = (v, h') \<Longrightarrow> clk (kernel h) < clk (kernel h')"
  by (auto simp: lan9252_read_32_def split: prod.splits option.splits dest: spi_xfer_clk)

lemma read_32_fault:
  "hw_fault h \<Longrightarrow> lan9252_read_32 os reg h = (v, h') \<Longrightarrow> hw_fault h'"
  by (auto simp: lan9252_read_32_def split: prod.splits option.splits dest: spi_xfer_fd)

text \<open>A deadline is a time in nanoseconds, and the comparison of the fields is that of the times.\<close>

definition normal_ts :: "timespec \<Rightarrow> bool" where
  "normal_ts t \<longleftrightarrow> 0 \<le> tv_nsec t \<and> tv_nsec t < 1000000000"

lemma in_ns_less:
  "normal_ts s \<Longrightarrow> normal_ts t \<Longrightarrow>
     in_ns s < in_ns t \<longleftrightarrow> (if tv_sec t \<noteq> tv_sec s then tv_sec s < tv_sec t else tv_nsec s < tv_nsec t)"
  by (auto simp: in_ns_def normal_ts_def)

lemma deadline_set_time:
  assumes T: "time_passes os clk" and s: "deadline_set os ms h = (d, h')"
  shows "normal_ts d" and "in_ns d = clk (kernel h) + int (unat ms) * 1000000"
    and "h' = h\<lparr>kernel := snd (clock_gettime os (kernel h))\<rparr>"
proof -
  let ?t = "fst (clock_gettime os (kernel h))"
  have t: "0 \<le> tv_nsec ?t" "tv_nsec ?t < 1000000000" "in_ns ?t = clk (kernel h)"
    using T by (auto simp: time_passes_def)
  have "unat ms = unat ms div 1000 * 1000 + unat ms mod 1000" by simp
  then have ms: "int (unat ms) = int (unat ms div 1000) * 1000 + int (unat ms mod 1000)"
    by (metis of_nat_add of_nat_mult of_nat_numeral)
  have "int (unat ms mod 1000) < 1000" by simp
  with t ms s show "normal_ts d" "in_ns d = clk (kernel h) + int (unat ms) * 1000000"
    unfolding deadline_set_def
    by (auto simp: unat_div_distrib unat_mod_distrib normal_ts_def in_ns_def split: prod.splits if_splits)
  show "h' = h\<lparr>kernel := snd (clock_gettime os (kernel h))\<rparr>"
    using s unfolding deadline_set_def by (auto split: prod.splits)
qed

lemma deadline_passed_time:
  assumes T: "time_passes os clk" and d: "normal_ts d" and s: "deadline_passed os d h = (late, h')"
  shows "late \<longleftrightarrow> in_ns d < clk (kernel h)" and "h' = h\<lparr>kernel := snd (clock_gettime os (kernel h))\<rparr>"
proof -
  let ?now = "fst (clock_gettime os (kernel h))"
  have now: "normal_ts ?now" "in_ns ?now = clk (kernel h)"
    using T unfolding normal_ts_def by (auto simp: time_passes_def)
  have "late = (if tv_sec ?now \<noteq> tv_sec d then tv_sec d < tv_sec ?now else tv_nsec d < tv_nsec ?now)"
    using s unfolding deadline_passed_def by (auto split: prod.splits)
  then show "late \<longleftrightarrow> in_ns d < clk (kernel h)"
    using in_ns_less [OF d now(1)] now(2) by metis
  show "h' = h\<lparr>kernel := snd (clock_gettime os (kernel h))\<rparr>"
    using s unfolding deadline_passed_def by (auto split: prod.splits)
qed

lemma clock_monotone: "time_passes os clk \<Longrightarrow> clk k \<le> clk (snd (clock_gettime os k))"
  by (auto simp: time_passes_def)

lemma port_time: "lan_port os fd view clk P \<Longrightarrow> time_passes os clk"
  by (simp add: lan_port_def)

lemma port_clock: "lan_port os fd view clk P \<Longrightarrow> view (snd (clock_gettime os k)) = view k"
  by (simp add: lan_port_def lan9252_def)

text \<open>
  A poll ends: every read takes time. If its reads keep \<open>I\<close> until the value is as wanted and
  then give \<open>G\<close>, it ends with \<open>G\<close>, or the fault is latched; a prompt chip has the value at once.
\<close>

lemma poll_fault: "hw_fault h \<Longrightarrow> ok (\<lambda>(r, h'). hw_fault h') (poll os reg wanted d h)"
  by (subst poll.simps) (auto split: prod.splits dest: read_32_fault)

lemma poll_rule:
  assumes L: "lan_port os fd view clk P" and d: "normal_ts d"
    and step: "\<And>v rx v'. I v \<Longrightarrow> lan_answers (frame_read reg) v rx v' \<Longrightarrow>
      (if wanted (frame_value rx) then G (frame_value rx) v' else I v')"
    and prompt: "\<And>v rx. P \<Longrightarrow> I v \<Longrightarrow> prompt_answer (frame_read reg) v rx \<Longrightarrow> wanted (frame_value rx)"
  shows "\<not> hw_fault h \<Longrightarrow> spi_fd h = fd \<Longrightarrow> I (view (kernel h)) \<Longrightarrow>
    ok (\<lambda>((found, value), h'). if hw_fault h' then \<not> P
         else found \<and> wanted value \<and> spi_fd h' = fd \<and> G value (view (kernel h'))) (poll os reg wanted d h)"
proof (induction "nat (in_ns d + 1 - clk (kernel h))" arbitrary: h rule: less_induct)
  case less
  obtain x h1 where r: "lan9252_read_32 os reg h = (x, h1)" by fastforce
  have clk: "clk (kernel h) < clk (kernel h1)"
    using L r by (auto simp: lan_port_def dest: read_32_clk)
  have r1: "(hw_fault h1 \<longrightarrow> \<not> P) \<and> (\<not> hw_fault h1 \<longrightarrow> spi_fd h1 = fd \<and> (P \<longrightarrow> wanted x) \<and>
      (if wanted x then G x (view (kernel h1)) else I (view (kernel h1))))"
    using r by (rule read_32_rule [OF L less.prems(1,2), where Q = "\<lambda>y. y = (x, h1) \<longrightarrow> _", THEN mp, rotated 2])
      (auto dest: step [OF less.prems(3)] prompt [OF _ less.prems(3)])
  show ?case
  proof (cases "hw_fault h1 \<or> wanted x")
    case True
    then show ?thesis using r1 by (subst poll.simps) (auto simp: r)
  next
    case False
    obtain late h2 where l: "deadline_passed os d h1 = (late, h2)" by fastforce
    have l2: "view (kernel h2) = view (kernel h1) \<and> hw_fault h2 = hw_fault h1 \<and> spi_fd h2 = spi_fd h1 \<and>
        clk (kernel h1) \<le> clk (kernel h2) \<and> (late \<longleftrightarrow> in_ns d < clk (kernel h1))"
      using deadline_passed_time [OF port_time [OF L] d l] clock_monotone [OF port_time [OF L]]
      by (simp add: port_clock [OF L])
    show ?thesis
    proof (cases late)
      case True
      then show ?thesis using False r1 by (subst poll.simps) (auto simp: r l hw_timeout_def)
    next
      case not_late: False
      have "ok (\<lambda>((found, value), h'). if hw_fault h' then \<not> P
         else found \<and> wanted value \<and> spi_fd h' = fd \<and> G value (view (kernel h'))) (poll os reg wanted d h2)"
        by (rule less.hyps) (use False r1 l2 not_late clk in auto)
      then show ?thesis using False not_late by (subst poll.simps) (simp add: r l)
    qed
  qed
qed

lemma wait_until_rule:
  assumes L: "lan_port os fd view clk P" and h: "\<not> hw_fault h" "spi_fd h = fd" "I (view (kernel h))"
    and "\<And>v rx v'. I v \<Longrightarrow> lan_answers (frame_read reg) v rx v' \<Longrightarrow>
      (if frame_value rx AND msk = want then G (frame_value rx) v' else I v')"
    and "\<And>v rx. P \<Longrightarrow> I v \<Longrightarrow> prompt_answer (frame_read reg) v rx \<Longrightarrow> frame_value rx AND msk = want"
  shows "ok (\<lambda>(value, h'). if hw_fault h' then \<not> P else spi_fd h' = fd \<and> G value (view (kernel h')))
    (wait_until os reg msk want h)"
proof -
  obtain d h1 where d: "deadline_set os (timeout_ms h) h = (d, h1)" by fastforce
  have "normal_ts d \<and> view (kernel h1) = view (kernel h) \<and> hw_fault h1 = hw_fault h \<and> spi_fd h1 = spi_fd h"
    using deadline_set_time [OF port_time [OF L] d] by (simp add: port_clock [OF L])
  then have "ok (\<lambda>((found, value), h'). if hw_fault h' then \<not> P
       else found \<and> value AND msk = want \<and> spi_fd h' = fd \<and> G value (view (kernel h')))
     (poll os reg (\<lambda>v. v AND msk = want) d h1)"
    by (intro poll_rule [OF L, where I = I]) (use h assms(5,6) in auto)
  then show ?thesis
    by (auto simp: wait_until_def d elim!: ok_mono split: if_splits)
qed

lemma pram_wait_fifo_rule:
  assumes L: "lan_port os fd view clk P" and h: "\<not> hw_fault h" "spi_fd h = fd" "I (view (kernel h))"
    and "\<And>v rx v'. I v \<Longrightarrow> lan_answers (frame_read reg) v rx v' \<Longrightarrow>
      (if frame_value rx AND ESC_PRAM_CMD_AVAIL \<noteq> 0 \<and> to_u32 need \<le> PRAM_CMD_CNT (frame_value rx)
       then G (frame_value rx) v' else I v')"
    and "\<And>v rx. P \<Longrightarrow> I v \<Longrightarrow> prompt_answer (frame_read reg) v rx \<Longrightarrow>
      frame_value rx AND ESC_PRAM_CMD_AVAIL \<noteq> 0 \<and> to_u32 need \<le> PRAM_CMD_CNT (frame_value rx)"
  shows "ok (\<lambda>(value, h'). if hw_fault h' then \<not> P
      else spi_fd h' = fd \<and> to_u32 need \<le> PRAM_CMD_CNT value \<and> G value (view (kernel h')))
    (pram_wait_fifo os reg need h)"
proof -
  obtain d h1 where d: "deadline_set os (timeout_ms h) h = (d, h1)" by fastforce
  have "normal_ts d \<and> view (kernel h1) = view (kernel h) \<and> hw_fault h1 = hw_fault h \<and> spi_fd h1 = spi_fd h"
    using deadline_set_time [OF port_time [OF L] d] by (simp add: port_clock [OF L])
  then have "ok (\<lambda>((found, value), h'). if hw_fault h' then \<not> P
       else found \<and> (value AND ESC_PRAM_CMD_AVAIL \<noteq> 0 \<and> to_u32 need \<le> PRAM_CMD_CNT value) \<and>
         spi_fd h' = fd \<and> G value (view (kernel h')))
     (poll os reg (\<lambda>v. v AND ESC_PRAM_CMD_AVAIL \<noteq> 0 \<and> to_u32 need \<le> PRAM_CMD_CNT v) d h1)"
    by (intro poll_rule [OF L, where I = I]) (use h assms(5,6) in auto)
  then show ?thesis
    by (auto simp: pram_wait_fifo_def d elim!: ok_mono split: if_splits)
qed

end
