(* ===== verification/Lan_Csr.thy ===== *)
theory Lan_Csr
  imports Lan_Chip
begin

text \<open>
  Register accesses through the CSR interface: over a chip that follows its protocol, the
  chunked accesses read and write the registers as plain memory.
\<close>

section \<open>Commands\<close>

lemma csr_command:
  fixes f :: u32
  assumes n: "n \<in> {0, 1, 2, 3, 4}"
  shows "to_u16 (f OR CSR_CMD_SIZE n OR to_u32 a) = to_u16 f OR a"
    and "drop_bit 16 (f OR CSR_CMD_SIZE n OR to_u32 a) AND 7 = drop_bit 16 f AND 7 OR to_u32 n"
    and "(f OR CSR_CMD_SIZE n OR to_u32 a) AND 0x40000000 = f AND 0x40000000"
proof -
  show "to_u16 (f OR CSR_CMD_SIZE n OR to_u32 a) = to_u16 f OR a"
    unfolding CSR_CMD_SIZE_def by (rule bit_word_eqI) (auto simp: bit_simps)
  have "drop_bit 16 (f OR CSR_CMD_SIZE n OR to_u32 a) = drop_bit 16 f OR (to_u32 n AND 0xFFFF)"
    unfolding CSR_CMD_SIZE_def mask_eq_exp_minus_1 [of 16, where ?'a = "32 word", simplified, symmetric]
    by (rule bit_word_eqI) (auto simp: bit_simps dest: bit_imp_le_length)
  moreover have "(to_u32 n AND 0xFFFF) AND 7 = to_u32 n" using n by auto
  ultimately show "drop_bit 16 (f OR CSR_CMD_SIZE n OR to_u32 a) AND 7 = drop_bit 16 f AND 7 OR to_u32 n"
    by (simp add: bit.conj_disj_distrib2)
  have a16: "to_u32 a AND mask 16 = to_u32 a"
    by (rule bit_word_eqI) (auto simp: bit_simps dest: bit_imp_le_length)
  have "(to_u32 a AND mask 16) AND 0x40000000 = 0"
    by (simp only: and.assoc) (simp add: mask_eq_exp_minus_1)
  then have "to_u32 a AND 0x40000000 = 0" by (simp only: a16)
  moreover have "CSR_CMD_SIZE n AND 0x40000000 = 0"
    using n by (auto simp: CSR_CMD_SIZE_def)
  ultimately have "(CSR_CMD_SIZE n OR to_u32 a) AND 0x40000000 = 0"
    by (simp add: bit.conj_disj_distrib2)
  then show "(f OR CSR_CMD_SIZE n OR to_u32 a) AND 0x40000000 = f AND 0x40000000"
    by (simp add: bit.conj_disj_distrib2 or.assoc)
qed


text \<open>Between accesses the interface is idle, with the memory \<open>m\<close>.\<close>

definition idle :: "ram \<Rightarrow> lan \<Rightarrow> bool" where
  "idle m v \<longleftrightarrow> csr_cmd v = None \<and> lan_mem v = m"

definition ram_bytes :: "ram \<Rightarrow> u16 \<Rightarrow> nat \<Rightarrow> bytes" where
  "ram_bytes m a n = map (\<lambda>i. m (a + of_nat i)) [0..<n]"

lemma length_ram_bytes [simp]: "length (ram_bytes m a n) = n"
  by (simp add: ram_bytes_def)

text \<open>What the answers of the chip mean for a read command \<open>c\<close> and for a write.\<close>

definition reading :: "ram \<Rightarrow> u32 \<Rightarrow> lan \<Rightarrow> bool" where
  "reading m c v \<longleftrightarrow> csr_cmd v = Some c \<and> lan_mem v = m"

definition read_ready :: "ram \<Rightarrow> u16 \<Rightarrow> nat \<Rightarrow> lan \<Rightarrow> bool" where
  "read_ready m a n v \<longleftrightarrow> idle m v \<and> take n (le32 (csr_data v)) = ram_bytes m a n"

lemma answers_csr_command:
  "lan_answers (frame_write ESC_CSR_CMD_REG c) v rx v' \<Longrightarrow> csr_cmd v = None \<Longrightarrow> csr_legal c \<Longrightarrow>
     v' = v\<lparr>csr_cmd := Some c\<rparr>"
  unfolding lan_answers_def csr_answers_def by blast

lemma answers_csr_data:
  "lan_answers (frame_write ESC_CSR_DATA_REG x) v rx v' \<Longrightarrow> csr_cmd v = None \<Longrightarrow> v' = v\<lparr>csr_data := x\<rparr>"
  unfolding lan_answers_def csr_answers_def by blast

lemma answers_csr_status:
  "lan_answers (frame_read ESC_CSR_CMD_REG) v rx v' \<Longrightarrow>
     (if frame_value rx AND ESC_CSR_CMD_BUSY = 0 then csr_complete v v' else v' = v)"
  unfolding lan_answers_def csr_answers_def by blast

lemma answers_csr_value:
  "lan_answers (frame_read ESC_CSR_DATA_REG) v rx v' \<Longrightarrow>
     v' = v \<and> (csr_cmd v = None \<longrightarrow> frame_value rx = csr_data v)"
  unfolding lan_answers_def csr_answers_def by blast

lemma prompt_csr:
  "prompt_answer (frame_read ESC_CSR_CMD_REG) v rx \<Longrightarrow> frame_value rx AND ESC_CSR_CMD_BUSY = 0"
  unfolding prompt_answer_def by blast

abbreviation (input) read_command :: "u16 \<Rightarrow> u16 \<Rightarrow> u32" where
  "read_command a n \<equiv> ESC_CSR_CMD_READ OR CSR_CMD_SIZE n OR to_u32 a"

abbreviation (input) write_command :: "u16 \<Rightarrow> u16 \<Rightarrow> u32" where
  "write_command a n \<equiv> ESC_CSR_CMD_WRITE OR CSR_CMD_SIZE n OR to_u32 a"

lemma csr_decode:
  assumes n: "n \<in> {0, 1, 2, 3, 4}"
  shows "to_u16 (read_command a n) = a" "drop_bit 16 (read_command a n) AND 7 = to_u32 n"
    "read_command a n AND 0x40000000 \<noteq> 0"
    "to_u16 (write_command a n) = a" "drop_bit 16 (write_command a n) AND 7 = to_u32 n"
    "write_command a n AND 0x40000000 = 0"
proof -
  have [simp]: "to_u16 (0xC0000000 :: u32) = 0" "to_u16 (0x80000000 :: u32) = 0" by simp_all
  show "to_u16 (read_command a n) = a" "to_u16 (write_command a n) = a"
    by (simp_all only: csr_command [OF n] \<open>to_u16 (0xC0000000 :: u32) = 0\<close> \<open>to_u16 (0x80000000 :: u32) = 0\<close> or.left_neutral)
qed (simp_all only: csr_command [OF n], simp_all)

text \<open>What the code asks for must be an access that the chip takes.\<close>

definition legal_access :: "u16 \<Rightarrow> u16 \<Rightarrow> bool" where
  "legal_access a n \<longleftrightarrow> n \<in> {1, 2, 4} \<and> unat a mod unat n = 0"

lemma legal_sizes: "legal_access a n \<Longrightarrow> n \<in> {0, 1, 2, 3, 4} \<and> unat n \<in> {1, 2, 4}"
  by (auto simp: legal_access_def)

lemma legal_commands:
  assumes "legal_access a n"
  shows "csr_size (read_command a n) = unat n" "csr_address (read_command a n) = a" "csr_legal (read_command a n)"
    "csr_size (write_command a n) = unat n" "csr_address (write_command a n) = a" "csr_legal (write_command a n)"
proof -
  note n = legal_sizes [OF assms]
  show c: "csr_size (read_command a n) = unat n" "csr_address (read_command a n) = a"
    "csr_size (write_command a n) = unat n" "csr_address (write_command a n) = a"
    unfolding csr_size_def csr_address_def csr_decode [OF n [THEN conjunct1]] by simp_all
  show "csr_legal (read_command a n)" "csr_legal (write_command a n)"
    using n assms unfolding csr_legal_def c legal_access_def by auto
qed

lemma csr_complete_read:
  assumes "csr_complete v v'" and "reading m (read_command a n) v" and n: "legal_access a n"
  shows "read_ready m a (unat n) v'"
  using assms(1,2) csr_decode(3) [OF legal_sizes [OF n, THEN conjunct1], of a]
  unfolding csr_complete_def reading_def
  by (auto simp: legal_commands [OF n] read_ready_def idle_def ram_bytes_def simp del: drop_bit_or)

lemma csr_complete_write:
  assumes "csr_complete v v'" and "reading m (write_command a n) v" and n: "legal_access a n"
  shows "idle (ram_store a (take (unat n) (le32 (csr_data v))) m) v'"
  using assms(1,2) csr_decode(6) [OF legal_sizes [OF n, THEN conjunct1], of a]
  unfolding csr_complete_def reading_def
  by (auto simp: legal_commands [OF n] idle_def simp del: drop_bit_or)

section \<open>One access\<close>

text \<open>The rules for a transfer and for a read in the form in which the code uses them.\<close>

lemma xfer_fault:
  assumes "hw_fault h"
    and "\<And>h'. hw_fault h' \<Longrightarrow> ok Q (f h')" and "\<And>rx h'. hw_fault h' \<Longrightarrow> ok Q (g rx h')"
  shows "ok Q (case spi_xfer os buf h of (None, h') \<Rightarrow> f h' | (Some rx, h') \<Rightarrow> g rx h')"
  using assms spi_xfer_fd [of os buf h] by (auto split: prod.splits option.splits)

lemma xfer_ok:
  assumes "lan_port os fd view clk P" and "\<not> hw_fault h" and "spi_fd h = fd"
    and "\<And>h'. hw_fault h' \<Longrightarrow> \<not> P \<Longrightarrow> ok Q (f h')"
    and "\<And>rx h'. \<not> hw_fault h' \<Longrightarrow> spi_fd h' = fd \<Longrightarrow>
           lan_answers buf (view (kernel h)) rx (view (kernel h')) \<Longrightarrow>
           (P \<Longrightarrow> prompt_answer buf (view (kernel h)) rx) \<Longrightarrow> length rx = length buf \<Longrightarrow> ok Q (g rx h')"
  shows "ok Q (case spi_xfer os buf h of (None, h') \<Rightarrow> f h' | (Some rx, h') \<Rightarrow> g rx h')"
  by (rule spi_xfer_rule [OF assms(1-3), where Q = "\<lambda>x. ok Q (case x of (None, h') \<Rightarrow> f h' | (Some rx, h') \<Rightarrow> g rx h')"])
    (auto intro: assms(4,5))

lemma read_ok:
  assumes "lan_port os fd view clk P" and "\<not> hw_fault h" and "spi_fd h = fd"
    and "\<And>x h'. hw_fault h' \<Longrightarrow> \<not> P \<Longrightarrow> ok Q (f x h')"
    and "\<And>rx h'. \<not> hw_fault h' \<Longrightarrow> spi_fd h' = fd \<Longrightarrow>
           lan_answers (frame_read reg) (view (kernel h)) rx (view (kernel h')) \<Longrightarrow>
           (P \<Longrightarrow> prompt_answer (frame_read reg) (view (kernel h)) rx) \<Longrightarrow> ok Q (f (frame_value rx) h')"
  shows "ok Q (case lan9252_read_32 os reg h of (x, h') \<Rightarrow> f x h')"
  by (rule read_32_rule [OF assms(1-3), where Q = "\<lambda>y. ok Q (case y of (x, h') \<Rightarrow> f x h')"])
    (auto intro: assms(4,5))

lemma wait_until_fault:
  "hw_fault h \<Longrightarrow> ok (\<lambda>(x, h'). hw_fault h') (wait_until os reg msk want h)"
proof -
  assume "hw_fault h"
  obtain d h1 where d: "deadline_set os (timeout_ms h) h = (d, h1)" by fastforce
  with \<open>hw_fault h\<close> have "hw_fault h1"
    by (auto simp: deadline_set_def split: prod.splits)
  then show ?thesis
    unfolding wait_until_def d by (auto intro!: ok_mono [OF poll_fault])
qed

lemma ESC_read_csr_fault:
  assumes "hw_fault h" and n: "n \<in> {0, 1, 2, 3, 4}"
  shows "ok (\<lambda>(bs, h'). length bs = unat n \<and> hw_fault h') (ESC_read_csr os a n h)"
  unfolding ESC_read_csr_def Let_def
  apply (rule xfer_fault [OF assms(1)], simp)
  apply (rule xfer_fault, assumption, simp)
  apply (rule xfer_fault, assumption, simp)
  using n
  apply (auto intro!: wait_until_fault [THEN ok_mono])
  done

lemma ESC_write_csr_fault:
  "hw_fault h \<Longrightarrow> ok hw_fault (ESC_write_csr os a buf n h)"
  unfolding ESC_write_csr_def Let_def
  apply (rule xfer_fault, assumption, simp)
  apply (rule xfer_fault, assumption, simp)
  apply (rule xfer_fault, assumption, simp)
  apply (auto intro!: wait_until_fault [THEN ok_mono])
  done

text \<open>
  A register read returns the bytes of the memory and leaves it as it is; a register write
  stores its bytes.
\<close>

lemma ESC_read_csr_rule:
  fixes os :: "'c os"
  assumes L: "lan_port os fd view clk P" and h: "port_post P fd view (idle m) h"
    and n: "legal_access a n"
  shows "ok (\<lambda>(bs, h'). length bs = unat n \<and> (hw_fault h \<longrightarrow> hw_fault h') \<and> port_post P fd view (idle m) h' \<and>
      (\<not> hw_fault h' \<longrightarrow> bs = ram_bytes m a (unat n))) (ESC_read_csr os a n h)"
proof (cases "hw_fault h")
  case True
  with h have "\<not> P" by (simp add: port_post_def)
  then show ?thesis
    by (auto simp: port_post_def intro!: ok_mono [OF ESC_read_csr_fault [OF True legal_sizes [OF n, THEN conjunct1]]])
next
  case no_fault: False
  with h have fd: "spi_fd h = fd" and I: "idle m (view (kernel h))" by (simp_all add: port_post_def)
  let ?post = "\<lambda>(bs, h'). length bs = unat n \<and> (hw_fault h \<longrightarrow> hw_fault h') \<and> port_post P fd view (idle m) h' \<and>
      (\<not> hw_fault h' \<longrightarrow> bs = ram_bytes m a (unat n))"
  have failed: "hw_fault h' \<Longrightarrow> \<not> P \<Longrightarrow> ok ?post (Some (replicate (unat n) 0, h'))" for h'
    by (simp add: port_post_def)
  have [simp]: "unat n \<le> 4" using legal_sizes [OF n] by auto
  have got: "read_ready m a (unat n) v \<Longrightarrow> take (unat n) (le32 (csr_data v)) = ram_bytes m a (unat n) \<and> idle m v" for v
    by (simp add: read_ready_def)
  show ?thesis
    unfolding ESC_read_csr_def Let_def
  proof (rule xfer_ok [OF L no_fault fd], erule (1) failed, rule xfer_ok [OF L], assumption, assumption,
      erule (1) failed, rule xfer_ok [OF L], assumption, assumption, erule (1) failed, goal_cases)
    case (1 rx1 h1 rx2 h2 rx3 h3)
    from answers_csr_command [OF 1(3) _ legal_commands(3) [OF n]] I have r1: "reading m (read_command a n) (view (kernel h1))"
      by (simp add: reading_def idle_def)
    from answers_csr_status [OF 1(8)] csr_complete_read [OF _ r1 n]
    have r2: "if frame_value rx2 AND ESC_CSR_CMD_BUSY = 0 then read_ready m a (unat n) (view (kernel h2))
        else reading m (read_command a n) (view (kernel h2))"
      using r1 by auto
    from answers_csr_value [OF 1(13)] have v3: "view (kernel h3) = view (kernel h2)" by simp
    show ?case
    proof (cases "frame_value rx2 AND ESC_CSR_CMD_BUSY = 0")
      case True
      with r2 answers_csr_value [OF 1(13)] 1(11,12) no_fault show ?thesis
        by (auto simp: port_post_def read_ready_def idle_def)
    next
      case busy: False
      with r2 v3 have r3: "reading m (read_command a n) (view (kernel h3))" by simp
      have "ok (\<lambda>(x, h'). if hw_fault h' then \<not> P else spi_fd h' = fd \<and> read_ready m a (unat n) (view (kernel h')))
          (wait_until os ESC_CSR_CMD_REG ESC_CSR_CMD_BUSY 0 h3)"
        by (rule wait_until_rule [OF L 1(11,12), where I = "reading m (read_command a n)"])
          (use r3 in \<open>auto dest!: answers_csr_status prompt_csr intro: csr_complete_read [OF _ _ n] split: if_splits\<close>)
      then have "ok (\<lambda>(x, h'). ok ?post (if hw_fault h' then Some (replicate (unat n) 0, h')
          else (case lan9252_read_32 os ESC_CSR_DATA_REG h' of (x, h') \<Rightarrow> Some (take (unat n) (le32 x), h'))))
        (wait_until os ESC_CSR_CMD_REG ESC_CSR_CMD_BUSY 0 h3)"
      proof (rule ok_mono, clarify)
        fix x and h4 :: "'c hw"
        assume w: "if hw_fault h4 then \<not> P else spi_fd h4 = fd \<and> read_ready m a (unat n) (view (kernel h4))"
        have "\<not> hw_fault h4 \<Longrightarrow> ok ?post (case lan9252_read_32 os ESC_CSR_DATA_REG h4 of
            (x, h') \<Rightarrow> Some (take (unat n) (le32 x), h'))"
          by (rule read_ok [OF L])
            (use w no_fault in \<open>auto simp: port_post_def read_ready_def idle_def dest!: answers_csr_value\<close>)
        with w failed show "ok ?post (if hw_fault h4 then Some (replicate (unat n) 0, h4)
          else (case lan9252_read_32 os ESC_CSR_DATA_REG h4 of (x, h') \<Rightarrow> Some (take (unat n) (le32 x), h')))"
          by (simp split: if_splits)
      qed
      with busy show ?thesis by simp
    qed
  qed
qed

lemma le32_rd32: "length xs = 4 \<Longrightarrow> le32 (rd32 xs) = xs"
proof -
  assume "length xs = 4"
  then obtain a b c d where x: "xs = [a, b, c, d]"
    by (auto simp: length_Suc_conv numeral_eq_Suc)
  show ?thesis
    unfolding x le32_def rd32.simps list.inject
    by (intro conjI refl; rule bit_word_eqI; auto simp: bit_simps dest: bit_imp_le_length)
qed

lemma le32_of_bytes:
  assumes "n \<le> 4" and "n \<le> length buf"
  shows "take n (le32 (rd32 (take n buf @ replicate (4 - n) 0))) = take n buf"
proof -
  have "length (take n buf @ replicate (4 - n) 0) = 4" using assms by simp
  then have "le32 (rd32 (take n buf @ replicate (4 - n) 0)) = take n buf @ replicate (4 - n) 0"
    by (rule le32_rd32)
  with assms show ?thesis by simp
qed

lemma ESC_write_csr_rule:
  fixes os :: "'c os"
  assumes L: "lan_port os fd view clk P" and h: "port_post P fd view (idle m) h"
    and n: "legal_access a n" and len: "unat n \<le> length buf"
  shows "ok (\<lambda>h'. (hw_fault h \<longrightarrow> hw_fault h') \<and>
      port_post P fd view (idle (ram_store a (take (unat n) buf) m)) h') (ESC_write_csr os a buf n h)"
proof (cases "hw_fault h")
  case True
  with h have "\<not> P" by (simp add: port_post_def)
  then show ?thesis
    by (auto simp: port_post_def intro!: ok_mono [OF ESC_write_csr_fault [OF True]])
next
  case no_fault: False
  with h have fd: "spi_fd h = fd" and I: "idle m (view (kernel h))" by (simp_all add: port_post_def)
  let ?post = "\<lambda>h'. (hw_fault h \<longrightarrow> hw_fault h') \<and>
      port_post P fd view (idle (ram_store a (take (unat n) buf) m)) h'"
  let ?word = "rd32 (take (unat n) buf @ replicate (4 - unat n) 0)"
  define J where "J v \<longleftrightarrow> reading m (write_command a n) v \<and> csr_data v = ?word" for v
  have failed: "hw_fault h' \<Longrightarrow> \<not> P \<Longrightarrow> ok ?post (Some h')" for h'
    by (simp add: port_post_def)
  have "unat n \<le> 4" using legal_sizes [OF n] by auto
  with len have stored: "csr_complete v v' \<Longrightarrow> J v \<Longrightarrow> idle (ram_store a (take (unat n) buf) m) v'" for v v'
    using csr_complete_write [OF _ _ n, of v v' m] le32_of_bytes [of "unat n" buf]
    by (simp add: J_def)
  show ?thesis
    unfolding ESC_write_csr_def Let_def
  proof (rule xfer_ok [OF L no_fault fd], erule (1) failed, rule xfer_ok [OF L], assumption, assumption,
      erule (1) failed, rule xfer_ok [OF L], assumption, assumption, erule (1) failed, goal_cases)
    case (1 rx1 h1 rx2 h2 rx3 h3)
    from answers_csr_data [OF 1(3)] I have "csr_cmd (view (kernel h1)) = None" "lan_mem (view (kernel h1)) = m"
      "csr_data (view (kernel h1)) = ?word"
      by (simp_all add: idle_def)
    with answers_csr_command [OF 1(8) _ legal_commands(6) [OF n]] have r2: "J (view (kernel h2))"
      by (simp add: J_def reading_def)
    show ?case
    proof (cases "frame_value rx3 AND ESC_CSR_CMD_BUSY = 0")
      case True
      with answers_csr_status [OF 1(13)] stored [OF _ r2] 1(11,12) no_fault show ?thesis
        by (auto simp: port_post_def)
    next
      case busy: False
      with answers_csr_status [OF 1(13)] r2 have r3: "J (view (kernel h3))" by simp
      have "ok (\<lambda>(x, h'). if hw_fault h' then \<not> P
            else spi_fd h' = fd \<and> idle (ram_store a (take (unat n) buf) m) (view (kernel h')))
          (wait_until os ESC_CSR_CMD_REG ESC_CSR_CMD_BUSY 0 h3)"
        by (rule wait_until_rule [OF L 1(11,12), where I = J])
          (use r3 in \<open>auto dest!: answers_csr_status prompt_csr intro: stored split: if_splits\<close>)
      with busy no_fault show ?thesis
        by (auto simp: port_post_def elim!: ok_mono split: if_splits)
    qed
  qed
qed

section \<open>Whole accesses\<close>

text \<open>Alignment of addresses, in numbers.\<close>

lemma even_and_one: "a AND 1 = (0 :: u16) \<longleftrightarrow> unat a mod 2 = 0"
  by (simp add: and_one_eq word_unat_eq_iff unat_mod_distrib)

lemma and_three: "unat (a AND (3 :: u16)) = unat a mod 4"
proof -
  have "a AND 3 = a mod 4"
    using take_bit_eq_mask [of 2 a] by (simp add: mask_eq_exp_minus_1 take_bit_eq_mod)
  then show ?thesis by (simp add: unat_mod_distrib)
qed

lemma word_alignment: "a AND 1 = (0 :: u16) \<Longrightarrow> a AND 2 = 0 \<Longrightarrow> unat a mod 4 = 0"
proof -
  assume "a AND 1 = 0" and "a AND 2 = 0"
  then have "a AND (1 OR 2) = 0"
    by (simp only: bit.conj_disj_distrib) simp
  then show ?thesis using and_three [of a] by simp
qed

text \<open>
  The chunks that \<open>csr_chunk_size\<close> chooses: one, two or four bytes, aligned to their size,
  not more than what is left, and at least one byte, so that the loops end.
\<close>

lemma csr_chunk_cases:
  assumes "0 < len"
  shows "csr_chunk_size a len \<in> {1, 2, 4} \<and> csr_chunk_size a len \<le> len \<and>
     (csr_chunk_size a len = 2 \<longrightarrow> a AND 1 = 0) \<and> (csr_chunk_size a len = 4 \<longrightarrow> a AND 1 = 0 \<and> a AND 2 = 0)"
proof -
  have "unat len = 1 \<or> unat len = 2 \<or> unat len = 3 \<or> 4 < unat len \<or> unat len = 4"
    using assms by (auto simp: word_less_nat_alt)
  then have "len = 1 \<or> len = 2 \<or> len = 3 \<or> 4 < len \<or> len = 4"
    by (auto simp: word_less_nat_alt word_unat_eq_iff)
  then show ?thesis
    by (elim disjE) (auto simp: csr_chunk_size_def word_le_nat_alt word_less_nat_alt)
qed

lemma csr_chunk_legal:
  assumes "0 < len"
  shows "csr_chunk_size a len \<in> {1, 2, 4}" and "unat a mod unat (csr_chunk_size a len) = 0"
    and "csr_chunk_size a len \<le> len"
  using csr_chunk_cases [OF assms, of a] word_alignment [of a] even_and_one [of a] by auto

lemma chunk_unat:
  assumes "0 < len"
  shows "legal_access a (csr_chunk_size a len)" and "0 < unat (csr_chunk_size a len)"
    and "unat (csr_chunk_size a len) \<le> unat len"
    and "unat (len - csr_chunk_size a len) = unat len - unat (csr_chunk_size a len)"
  using csr_chunk_legal [OF assms, of a] by (auto simp: legal_access_def word_le_nat_alt unat_sub)

lemma ram_bytes_append: "ram_bytes m a (n + k) = ram_bytes m a n @ ram_bytes m (a + of_nat n) k"
proof -
  have "[0..<n + k] = [0..<n] @ map (\<lambda>i. i + n) [0..<k]"
    using upt_add_eq_append [of 0 n k] map_add_upt [of n k] by (simp add: add.commute)
  then show ?thesis by (simp add: ram_bytes_def ac_simps)
qed

lemma ram_store_append: "ram_store a (xs @ ys) w = ram_store (a + of_nat (length xs)) ys (ram_store a xs w)"
  by (induction xs arbitrary: a w) (simp_all add: add.assoc)

lemma csr_read_loop_rule:
  assumes L: "lan_port os fd view clk P"
  shows "port_post P fd view (idle m) h \<Longrightarrow>
    ok (\<lambda>(bs, h'). length bs = unat len \<and> (hw_fault h \<longrightarrow> hw_fault h') \<and> port_post P fd view (idle m) h' \<and>
      (\<not> hw_fault h' \<longrightarrow> bs = ram_bytes m a (unat len))) (csr_read_loop os a len h)"
proof (induction "unat len" arbitrary: a len h rule: less_induct)
  case less
  show ?case
  proof (cases "len = 0")
    case True
    with less.prems show ?thesis by (subst csr_read_loop.simps) (simp add: ram_bytes_def)
  next
    case False
    then have "0 < len" by (simp add: word_gt_0)
    note n = chunk_unat [OF this, of a]
    let ?n = "csr_chunk_size a len"
    have split: "ram_bytes m a (unat len) = ram_bytes m a (unat ?n) @ ram_bytes m (a + ?n) (unat len - unat ?n)"
      using n(3) ram_bytes_append [of m a "unat ?n" "unat len - unat ?n"] by simp
    have "ok (\<lambda>(bs, h1). ok (\<lambda>(bs', h'). length bs' = unat len - unat ?n \<and> (hw_fault h1 \<longrightarrow> hw_fault h') \<and>
          port_post P fd view (idle m) h' \<and> (\<not> hw_fault h' \<longrightarrow> bs' = ram_bytes m (a + ?n) (unat len - unat ?n)))
        (csr_read_loop os (a + ?n) (len - ?n) h1) \<and>
        length bs = unat ?n \<and> (hw_fault h \<longrightarrow> hw_fault h1) \<and> (\<not> hw_fault h1 \<longrightarrow> bs = ram_bytes m a (unat ?n)))
      (ESC_read_csr os a ?n h)"
      by (rule ok_mono [OF ESC_read_csr_rule [OF L less.prems n(1)]])
        (use less.hyps [of "len - ?n" _ "a + ?n"] n in auto)
    with \<open>0 < len\<close> n(3) show ?thesis
      by (subst csr_read_loop.simps) (auto simp: split elim!: ok_mono)
  qed
qed

lemma csr_write_loop_rule:
  assumes L: "lan_port os fd view clk P"
  shows "port_post P fd view (idle m) h \<Longrightarrow> unat len \<le> length buf \<Longrightarrow>
    ok (\<lambda>h'. (hw_fault h \<longrightarrow> hw_fault h') \<and>
      port_post P fd view (idle (ram_store a (take (unat len) buf) m)) h') (csr_write_loop os a buf len h)"
proof (induction "unat len" arbitrary: a len buf m h rule: less_induct)
  case less
  show ?case
  proof (cases "len = 0")
    case True
    with less.prems show ?thesis by (subst csr_write_loop.simps) simp
  next
    case False
    then have "0 < len" by (simp add: word_gt_0)
    note n = chunk_unat [OF this, of a]
    let ?n = "csr_chunk_size a len"
    let ?m = "ram_store a (take (unat ?n) buf) m"
    have "unat len = unat ?n + (unat len - unat ?n)" using n(3) by simp
    then have "take (unat len) buf = take (unat ?n) buf @ take (unat len - unat ?n) (drop (unat ?n) buf)"
      by (metis take_add)
    then have split: "ram_store a (take (unat len) buf) m =
        ram_store (a + ?n) (take (unat len - unat ?n) (drop (unat ?n) buf)) ?m"
      using n(3) less.prems(2) by (simp add: ram_store_append min_def)
    have "ok (\<lambda>h1. (hw_fault h \<longrightarrow> hw_fault h1) \<and> port_post P fd view (idle ?m) h1) (ESC_write_csr os a buf ?n h)"
      by (rule ESC_write_csr_rule [OF L less.prems(1) n(1)]) (use n(3) less.prems(2) in simp)
    then have "ok (\<lambda>h1. ok (\<lambda>h'. (hw_fault h \<longrightarrow> hw_fault h') \<and>
        port_post P fd view (idle (ram_store a (take (unat len) buf) m)) h')
        (csr_write_loop os (a + ?n) (drop (unat ?n) buf) (len - ?n) h1)) (ESC_write_csr os a buf ?n h)"
    proof (rule ok_mono)
      fix h1 assume h1: "(hw_fault h \<longrightarrow> hw_fault h1) \<and> port_post P fd view (idle ?m) h1"
      show "ok (\<lambda>h'. (hw_fault h \<longrightarrow> hw_fault h') \<and>
          port_post P fd view (idle (ram_store a (take (unat len) buf) m)) h')
          (csr_write_loop os (a + ?n) (drop (unat ?n) buf) (len - ?n) h1)"
        by (rule ok_mono [OF less.hyps [of "len - ?n" ?m h1 "drop (unat ?n) buf" "a + ?n"]])
          (use h1 n less.prems(2) in \<open>auto simp: split\<close>)
    qed
    with \<open>0 < len\<close> show ?thesis
      by (subst csr_write_loop.simps) simp
  qed
qed

end
