(* ===== verification/Lan_Pram.thy ===== *)
theory Lan_Pram
  imports Lan_Csr
begin

text \<open>
  Process RAM accesses through the FIFOs: over a chip that follows its protocol, the loops over
  the bursts read and write the memory, whatever the alignment of the address, the length and
  the sizes of the bursts.
\<close>

section \<open>How far a transfer is\<close>

text \<open>
  The bytes moved when \<open>p\<close> words have been, in a transfer of \<open>l\<close> bytes that begins at byte \<open>f\<close> of a
  word. The variables \<open>len\<close> and \<open>byte_offset\<close> of the loops are functions of it.
\<close>

definition moved :: "nat \<Rightarrow> nat \<Rightarrow> nat \<Rightarrow> nat" where
  "moved f l p = min l (4 * p - f)"

abbreviation (input) left_of :: "nat \<Rightarrow> nat \<Rightarrow> nat \<Rightarrow> u16" where "left_of f l p \<equiv> of_nat (l - moved f l p)"
abbreviation (input) offset_of :: "nat \<Rightarrow> nat \<Rightarrow> nat \<Rightarrow> u16" where "offset_of f l p \<equiv> of_nat (moved f l p)"

lemma moved_0 [simp]: "moved f l 0 = 0"
  by (simp add: moved_def)

lemma moved_le: "moved f l p \<le> l"
  by (simp add: moved_def)

lemma moved_pos: "f < 4 \<Longrightarrow> moved f l p < l \<Longrightarrow> 0 < moved f l p \<longleftrightarrow> 0 < p"
  by (auto simp: moved_def)

lemma moved_units:
  assumes "l < 65536"
  shows "unat (left_of f l p) = l - moved f l p" and "unat (offset_of f l p) = moved f l p"
  using assms le_less_trans [OF moved_le assms, of f p]
  by (auto simp: unat_of_nat simp del: of_nat_diff)

lemma unat_temp_len:
  assumes "unat fbp < 4"
  shows "unat (pram_temp_len len byte_offset fbp) =
    (if 0 < unat byte_offset then min 4 (unat len) else min (4 - unat fbp) (unat len))"
proof -
  have "unat (4 - fbp) = 4 - unat fbp"
    using assms by (simp add: unat_sub word_le_nat_alt)
  with assms show ?thesis
    by (auto simp: pram_temp_len_def word_less_nat_alt)
qed

lemma unat_fifo_range:
  "unat (pram_fifo_range len byte_offset fbp) =
    min 16 ((unat len + (if 0 < unat byte_offset then 0 else unat fbp) + 3) div 4)"
proof -
  have "(if n - n div 4 * 4 \<noteq> 0 then n div 4 + 1 else n div 4) = (n + 3) div (4 :: nat)" for n
    by presburger
  then have "pram_fifo_range len byte_offset fbp =
      of_nat (min (((if 0 < unat byte_offset then unat len else unat len + unat fbp) + 3) div 4) 16)"
    by (simp only: pram_fifo_range_def Let_def word_less_nat_alt unat_0)
  then show ?thesis
    by (simp add: unat_of_nat min.commute)
qed

lemma moved_mono: "moved f l p \<le> moved f l (Suc p)"
  by (auto simp: moved_def)

lemma to_u16_unat: "to_u16 (x :: u8) = of_nat (unat x)"
  by simp

lemma moved_step:
  assumes "unat x = moved f l (Suc p) - moved f l p"
  shows "left_of f l p - to_u16 (x :: u8) = left_of f l (Suc p)"
    and "offset_of f l p + to_u16 x = offset_of f l (Suc p)"
proof -
  have "l - moved f l (Suc p) = l - moved f l p - (moved f l (Suc p) - moved f l p)"
    and "moved f l (Suc p) = moved f l p + (moved f l (Suc p) - moved f l p)"
    and "moved f l (Suc p) - moved f l p \<le> l - moved f l p"
    using moved_mono [of f l p] moved_le [of f l "Suc p"] by linarith+
  then show "left_of f l p - to_u16 x = left_of f l (Suc p)"
    and "offset_of f l p + to_u16 x = offset_of f l (Suc p)"
    unfolding to_u16_unat assms by (metis of_nat_diff, metis of_nat_add)
qed

text \<open>At word \<open>p\<close>, the next word carries the bytes up to what \<open>p + 1\<close> words move.\<close>

lemma temp_len_moved:
  assumes "unat fbp < 4" and "l < 65536" and "moved (unat fbp) l p < l"
  shows "unat (pram_temp_len (left_of (unat fbp) l p) (offset_of (unat fbp) l p) fbp) =
    moved (unat fbp) l (Suc p) - moved (unat fbp) l p"
  unfolding unat_temp_len [OF assms(1)] moved_units [OF assms(2)] moved_pos [OF assms(1,3)]
  using assms by (auto simp: moved_def)

lemma fifo_range_moved:
  assumes "unat fbp < 4" and "l < 65536" and "moved (unat fbp) l p < l"
  shows "unat (pram_fifo_range (left_of (unat fbp) l p) (offset_of (unat fbp) l p) fbp) =
    min 16 ((unat fbp + l + 3) div 4 - p)"
proof -
  have "0 < p \<Longrightarrow> moved (unat fbp) l p = 4 * p - unat fbp \<and> 4 * p \<le> unat fbp + l \<and> unat fbp \<le> 4 * p"
    using assms(1,3) by (auto simp: moved_def)
  then have "l - moved (unat fbp) l p + (if 0 < p then 0 else unat fbp) + 4 * p = unat fbp + l"
    by auto
  then have "(l - moved (unat fbp) l p + (if 0 < p then 0 else unat fbp) + 3) div 4 = (unat fbp + l + 3) div 4 - p"
    by linarith
  then show ?thesis
    unfolding unat_fifo_range moved_units [OF assms(2)] moved_pos [OF assms(1,3)] by simp
qed

section \<open>The words of a burst\<close>

text \<open>\<open>F\<close> are the bytes of the memory from the word boundary at or before the address.\<close>

lemma pram_unpack_rule:
  assumes f: "unat fbp < 4" and l: "l < 65536"
  shows "4 * n \<le> length fifo \<Longrightarrow> l \<le> length buf \<Longrightarrow>
    (\<And>i. i < 4 * n \<Longrightarrow> unat fbp \<le> 4 * p + i \<Longrightarrow> 4 * p + i < unat fbp + l \<Longrightarrow> fifo ! i = F (4 * p + i)) \<Longrightarrow>
    (\<And>k. k < moved (unat fbp) l p \<Longrightarrow> buf ! k = F (unat fbp + k)) \<Longrightarrow>
    ok (\<lambda>(len, byte_offset, buf'). len = left_of (unat fbp) l (p + n) \<and> byte_offset = offset_of (unat fbp) l (p + n) \<and>
        length buf' = length buf \<and> (\<forall>k < moved (unat fbp) l (p + n). buf' ! k = F (unat fbp + k)))
      (pram_unpack fbp fifo n (left_of (unat fbp) l p) (offset_of (unat fbp) l p) buf)"
proof (induction n arbitrary: fifo p buf)
  case 0
  then show ?case by (simp del: of_nat_diff)
next
  case (Suc n)
  let ?f = "unat fbp"
  show ?case
  proof (cases "moved ?f l p < l")
    case False
    then have m: "moved ?f l p = l" "moved ?f l (Suc (p + n)) = l"
      using moved_le [of ?f l p] by (auto simp: moved_def)
    with Suc.prems show ?thesis by simp
  next
    case True
    let ?t = "moved ?f l (Suc p) - moved ?f l p"
    have t: "unat (pram_temp_len (left_of ?f l p) (offset_of ?f l p) fbp) = ?t"
      by (rule temp_len_moved [OF f l True])
    let ?s = "if 0 < p then 0 else ?f"
    let ?bs = "take ?t (drop ?s (take 4 fifo))"
    have w: "get_bytes 0 4 fifo = Some (take 4 fifo)" "le32 (rd32 (take 4 fifo)) = take 4 fifo"
      using Suc.prems(1) by (auto simp: get_bytes_def intro: le32_rd32)
    have pos: "?s + (moved ?f l p + ?f - ?f) = ?s + moved ?f l p" and t4: "?s + ?t \<le> 4"
      and at: "4 * p + ?s = ?f + moved ?f l p"
      using True f by (auto simp: moved_def)
    have len: "length ?bs = ?t" "moved ?f l p + ?t \<le> length buf"
      using t4 Suc.prems(1,2) moved_le [of ?f l "Suc p"] moved_mono [of ?f l p] by simp_all
    then obtain buf1 where b1: "put_bytes (moved ?f l p) ?bs buf = Some buf1"
      by (metis bs.wr_bounds option.exhaust)
    have new: "buf1 ! k = F (?f + k)" if "k < moved ?f l (Suc p)" for k
    proof (cases "k < moved ?f l p")
      case True
      then show ?thesis
        using put_bytes_nth [OF b1, of k] len(2) Suc.prems(4) by simp
    next
      case False
      with that have k: "k - moved ?f l p < ?t" by simp
      have "k < length buf" and "moved ?f l p \<le> k \<and> k < moved ?f l p + ?t"
        using False k that len(2) moved_mono [of ?f l p] by linarith+
      then have "buf1 ! k = ?bs ! (k - moved ?f l p)"
        using put_bytes_nth [OF b1] len(1) by presburger
      also have "\<dots> = drop ?s (take 4 fifo) ! (k - moved ?f l p)"
        using k by (rule nth_take)
      also have "\<dots> = take 4 fifo ! (?s + (k - moved ?f l p))"
        by (rule nth_drop) (use t4 Suc.prems(1) in simp)
      also have "\<dots> = fifo ! (?s + (k - moved ?f l p))"
        using k t4 by (intro nth_take) linarith
      also have "\<dots> = F (4 * p + (?s + (k - moved ?f l p)))"
      proof (rule Suc.prems(3))
        have "?s + (k - moved ?f l p) < 4" using k t4 by linarith
        also have "4 \<le> 4 * Suc n" by simp
        finally show "?s + (k - moved ?f l p) < 4 * Suc n" .
        show "?f \<le> 4 * p + (?s + (k - moved ?f l p))" using at by linarith
        show "4 * p + (?s + (k - moved ?f l p)) < ?f + l"
          using at False that moved_le [of ?f l "Suc p"] by linarith
      qed
      also have "4 * p + (?s + (k - moved ?f l p)) = ?f + k"
        using at False by linarith
      finally show ?thesis .
    qed
    have IH: "ok (\<lambda>(len, byte_offset, buf'). len = left_of ?f l (Suc p + n) \<and> byte_offset = offset_of ?f l (Suc p + n) \<and>
        length buf' = length buf1 \<and> (\<forall>k < moved ?f l (Suc p + n). buf' ! k = F (?f + k)))
      (pram_unpack fbp (drop 4 fifo) n (left_of ?f l (Suc p)) (offset_of ?f l (Suc p)) buf1)"
    proof (rule Suc.IH)
      fix i assume "i < 4 * n" "?f \<le> 4 * Suc p + i" "4 * Suc p + i < ?f + l"
      then show "drop 4 fifo ! i = F (4 * Suc p + i)"
        using Suc.prems(1) Suc.prems(3) [of "4 + i"] by (simp add: ac_simps)
    qed (use Suc.prems(1,2) new put_bytes_length [OF b1] in auto)
    have nz: "left_of ?f l p \<noteq> 0" and off: "0 < offset_of ?f l p \<longleftrightarrow> 0 < p"
      using moved_units [OF l, of ?f p] True moved_pos [OF f True] by (auto simp: word_gt_0 unat_eq_0)
    have "pram_unpack fbp fifo (Suc n) (left_of ?f l p) (offset_of ?f l p) buf =
        pram_unpack fbp (drop 4 fifo) n (left_of ?f l (Suc p)) (offset_of ?f l (Suc p)) buf1"
    proof (cases "0 < p")
      case True
      with b1 have "put_bytes (moved ?f l p) (take ?t (take 4 fifo)) buf = Some buf1" by simp
      with True show ?thesis
        using nz off by (simp add: w t moved_step [OF t] moved_units [OF l] del: of_nat_diff take_take)
    next
      case False
      then have p0: "p = 0" by simp
      from b1 have "put_bytes 0 (take (moved ?f l (Suc 0) - moved ?f l 0) (drop ?f (take 4 fifo))) buf = Some buf1"
        by (simp add: p0)
      with nz off show ?thesis
        unfolding p0 by (simp add: w t [unfolded p0] moved_step [OF t [unfolded p0]]
            del: of_nat_diff take_take drop_take moved_0)
    qed
    then show ?thesis
      using IH put_bytes_length [OF b1] by simp
  qed
qed

section \<open>Reads\<close>

text \<open>The bytes of the memory from the word boundary at or before \<open>a\<close>.\<close>

definition aligned :: "ram \<Rightarrow> nat \<Rightarrow> nat \<Rightarrow> u8" where
  "aligned m a i = m (of_nat (a - a mod 4 + i))"

definition sending :: "nat \<Rightarrow> nat \<Rightarrow> nat \<Rightarrow> ram \<Rightarrow> lan \<Rightarrow> bool" where
  "sending a l p m v \<longleftrightarrow> idle m v \<and> rd_at v = Some (a, l, p)"

lemma answers_rd_status:
  "lan_answers (frame_read ESC_PRAM_RD_CMD_REG) v rx v' \<Longrightarrow>
     v' = (if frame_value rx AND ESC_PRAM_CMD_AVAIL \<noteq> 0
           then v\<lparr>rd_cnt := unat (PRAM_CMD_CNT (frame_value rx))\<rparr> else v)"
  unfolding lan_answers_def rd_answers_def by blast

lemma answers_rd_burst:
  "lan_answers (burst_read n) v rx v' \<Longrightarrow> 0 < n \<Longrightarrow> n \<le> rd_cnt v \<Longrightarrow> rd_at v = Some (a, l, p) \<Longrightarrow>
     v' = v\<lparr>rd_at := Some (a, l, p + n), rd_cnt := rd_cnt v - n\<rparr> \<and>
     (\<forall>i < 4 * n. a mod 4 \<le> 4 * p + i \<and> 4 * p + i < a mod 4 + l \<longrightarrow>
        rx ! (3 + i) = lan_mem v (of_nat (a - a mod 4 + (4 * p + i))))"
  unfolding lan_answers_def rd_answers_def by blast

lemma prompt_rd:
  "prompt_answer (frame_read ESC_PRAM_RD_CMD_REG) v rx \<Longrightarrow> fifo_prompt (rd_at v) (frame_value rx)"
  unfolding prompt_answer_def by blast

lemma fifo_words_unat: "unat (fifo_words x) = unat (PRAM_CMD_CNT x)"
proof -
  have "PRAM_CMD_CNT x \<le> 0x1F" unfolding PRAM_CMD_CNT_def by (rule word_and_le1)
  then have "unat (PRAM_CMD_CNT x) \<le> 31" by (simp add: word_le_nat_alt)
  then show ?thesis by (simp add: fifo_words_def word_less_nat_alt)
qed

lemma burst_read_frame:
  "[ESC_CMD_SERIAL_READ, to_u8 (drop_bit 8 ESC_PRAM_RD_FIFO_REG AND 0xFF),
    to_u8 (ESC_PRAM_RD_FIFO_REG AND 0xFF)] @ replicate (4 * n) 0 = burst_read n"
  by (simp add: burst_read_def)

lemma pram_read_loop_rule:
  fixes os :: "'c os"
  assumes L: "lan_port os fd view clk P" and f: "unat fbp = a mod 4" and l: "l < 65536"
  shows "\<not> hw_fault h \<Longrightarrow> spi_fd h = fd \<Longrightarrow> sending a l p m (view (kernel h)) \<Longrightarrow> l \<le> length buf \<Longrightarrow>
    (\<And>k. k < moved (unat fbp) l p \<Longrightarrow> buf ! k = aligned m a (unat fbp + k)) \<Longrightarrow>
    ok (\<lambda>(buf', h'). length buf' = length buf \<and> (if hw_fault h' then \<not> P
        else spi_fd h' = fd \<and> idle m (view (kernel h')) \<and> (\<forall>k < l. buf' ! k = aligned m a (unat fbp + k))))
      (pram_read_loop os fbp (left_of (unat fbp) l p) (offset_of (unat fbp) l p) buf h)"
proof (induction "l - moved (unat fbp) l p" arbitrary: p buf h rule: less_induct)
  case less
  let ?f = "unat fbp"
  have f4: "?f < 4" using f by simp
  show ?case
  proof (cases "moved ?f l p < l")
    case False
    then have "moved ?f l p = l" using moved_le [of ?f l p] by simp
    with less.prems show ?thesis
      by (subst pram_read_loop.simps) (simp add: sending_def del: of_nat_diff)
  next
    case True
    let ?need = "pram_fifo_range (left_of ?f l p) (offset_of ?f l p) fbp"
    have need: "unat ?need = min 16 ((?f + l + 3) div 4 - p)" "0 < unat ?need"
      using fifo_range_moved [OF f4 l True] True f4 by (auto simp: moved_def)
    have words_left: "4 * p < ?f + l" using True by (auto simp: moved_def split: if_splits)
    have step: "if frame_value rx AND ESC_PRAM_CMD_AVAIL \<noteq> 0 \<and> to_u32 ?need \<le> PRAM_CMD_CNT (frame_value rx)
        then sending a l p m v' \<and> rd_cnt v' = unat (PRAM_CMD_CNT (frame_value rx)) else sending a l p m v'"
      if "sending a l p m v" and "lan_answers (frame_read ESC_PRAM_RD_CMD_REG) v rx v'" for v rx v'
      using that(1) answers_rd_status [OF that(2)] by (simp add: sending_def idle_def)
    have prompt: "frame_value rx AND ESC_PRAM_CMD_AVAIL \<noteq> 0 \<and> to_u32 ?need \<le> PRAM_CMD_CNT (frame_value rx)"
      if P and "sending a l p m v" and "prompt_answer (frame_read ESC_PRAM_RD_CMD_REG) v rx" for v rx
    proof -
      have "frame_value rx AND ESC_PRAM_CMD_AVAIL \<noteq> 0 \<and>
          min 16 ((?f + l + 3) div 4 - p) \<le> unat (PRAM_CMD_CNT (frame_value rx))"
        using that(2) prompt_rd [OF that(3)] words_left by (simp add: sending_def fifo_prompt_def f)
      then show ?thesis unfolding word_le_nat_alt unat_widen need(1) .
    qed
    have W: "ok (\<lambda>(x, h'). if hw_fault h' then \<not> P else spi_fd h' = fd \<and> to_u32 ?need \<le> PRAM_CMD_CNT x \<and>
        (sending a l p m (view (kernel h')) \<and> rd_cnt (view (kernel h')) = unat (PRAM_CMD_CNT x)))
      (pram_wait_fifo os ESC_PRAM_RD_CMD_REG ?need h)"
      by (rule pram_wait_fifo_rule [OF L less.prems(1,2), where I = "sending a l p m"
              and G = "\<lambda>x v. sending a l p m v \<and> rd_cnt v = unat (PRAM_CMD_CNT x)"])
        (fact less.prems(3) step prompt)+
    have nz: "0 < left_of ?f l p"
      using True unfolding word_less_nat_alt moved_units(1) [OF l] by simp
    let ?post = "\<lambda>(buf', h'). length buf' = length buf \<and> (if hw_fault h' then \<not> P
        else spi_fd h' = fd \<and> idle m (view (kernel h')) \<and> (\<forall>k < l. buf' ! k = aligned m a (?f + k)))"
    have failed: "ok ?post (Some (buf, h'))" if "hw_fault h'" "\<not> P" for h' :: "'c hw"
      using that by simp
    have W': "ok (\<lambda>(x, h1). ok ?post (if hw_fault h1 then Some (buf, h1)
        else (case spi_xfer os (burst_read (unat (fifo_words x))) h1 of
            (None, h2) \<Rightarrow> Some (buf, h2)
          | (Some rx, h2) \<Rightarrow> do {
              (len, byte_offset, buf) \<leftarrow> pram_unpack fbp (drop 3 rx) (unat (fifo_words x)) (left_of ?f l p) (offset_of ?f l p) buf;
              pram_read_loop os fbp len byte_offset buf h2
            }))) (pram_wait_fifo os ESC_PRAM_RD_CMD_REG ?need h)"
    proof (rule ok_mono [OF W], clarify)
      fix x and h1 :: "'c hw"
      assume w: "if hw_fault h1 then \<not> P else spi_fd h1 = fd \<and> to_u32 ?need \<le> PRAM_CMD_CNT x \<and>
        (sending a l p m (view (kernel h1)) \<and> rd_cnt (view (kernel h1)) = unat (PRAM_CMD_CNT x))"
      show "ok ?post (if hw_fault h1 then Some (buf, h1)
        else (case spi_xfer os (burst_read (unat (fifo_words x))) h1 of
            (None, h2) \<Rightarrow> Some (buf, h2)
          | (Some rx, h2) \<Rightarrow> do {
              (len, byte_offset, buf) \<leftarrow> pram_unpack fbp (drop 3 rx) (unat (fifo_words x)) (left_of ?f l p) (offset_of ?f l p) buf;
              pram_read_loop os fbp len byte_offset buf h2
            }))"
      proof (cases "hw_fault h1")
        case True
        with w failed show ?thesis by simp
      next
        case no_fault: False
        let ?n = "unat (fifo_words x)"
        from no_fault w have fd: "spi_fd h1 = fd" and S: "sending a l p m (view (kernel h1))"
          and cnt: "?n \<le> rd_cnt (view (kernel h1))" and n: "0 < ?n"
          using need(2) by (auto simp: fifo_words_unat word_le_nat_alt)
        have "ok ?post (case spi_xfer os (burst_read ?n) h1 of
            (None, h2) \<Rightarrow> Some (buf, h2)
          | (Some rx, h2) \<Rightarrow> do {
              (len, byte_offset, buf) \<leftarrow> pram_unpack fbp (drop 3 rx) ?n (left_of ?f l p) (offset_of ?f l p) buf;
              pram_read_loop os fbp len byte_offset buf h2
            })"
        proof (rule xfer_ok [OF L no_fault fd], erule (1) failed, goal_cases)
          case (1 rx h2)
          note h2 = 1(1,2)
          have "rd_at (view (kernel h1)) = Some (a, l, p)" using S by (simp add: sending_def)
          note b = answers_rd_burst [OF 1(3) n cnt this]
          have S2: "sending a l (p + ?n) m (view (kernel h2))"
            using b S by (simp add: sending_def idle_def)
          have fifo: "drop 3 rx ! i = aligned m a (4 * p + i)"
            if "i < 4 * ?n" "?f \<le> 4 * p + i" "4 * p + i < ?f + l" for i
            using b S that 1(5) by (simp add: sending_def idle_def aligned_def f burst_read_def)
          have U: "ok (\<lambda>(len, byte_offset, buf'). len = left_of ?f l (p + ?n) \<and> byte_offset = offset_of ?f l (p + ?n) \<and>
              length buf' = length buf \<and> (\<forall>k < moved ?f l (p + ?n). buf' ! k = aligned m a (?f + k)))
            (pram_unpack fbp (drop 3 rx) ?n (left_of ?f l p) (offset_of ?f l p) buf)"
            by (rule pram_unpack_rule [OF f4 l _ less.prems(4) fifo less.prems(5)])
              (use 1(5) in \<open>auto simp: burst_read_def\<close>)
          have less_left: "l - moved ?f l (p + ?n) < l - moved ?f l p"
            using True n f4 by (auto simp: moved_def)
          show ?case
            unfolding ok_bind
          proof (rule ok_mono [OF U], elim case_prodE conjE, goal_cases)
            case (1 r len r' byte_offset buf')
            have "ok ?post (pram_read_loop os fbp (left_of ?f l (p + ?n)) (offset_of ?f l (p + ?n)) buf' h2)"
              by (rule ok_mono [OF less.hyps [OF less_left h2 S2]]) (use 1 less.prems(4) in auto)
            with 1 show ?case by simp
          qed
        qed
        with no_fault show ?thesis by simp
      qed
    qed
    show ?thesis
      using W' nz
      by (subst pram_read_loop.simps) (simp only: burst_read_frame if_True Let_def ok_bind ok_prod)
  qed
qed

text \<open>The beginning of a transfer.\<close>

lemma pram_wait_fifo_fault:
  "hw_fault h \<Longrightarrow> ok (\<lambda>(x, h'). hw_fault h') (pram_wait_fifo os reg need h)"
proof -
  assume "hw_fault h"
  obtain d h1 where d: "deadline_set os (timeout_ms h) h = (d, h1)" by fastforce
  with \<open>hw_fault h\<close> have "hw_fault h1"
    by (auto simp: deadline_set_def split: prod.splits)
  then show ?thesis
    unfolding pram_wait_fifo_def d by (auto intro!: ok_mono [OF poll_fault])
qed

lemma wait_until_post:
  assumes L: "lan_port os fd view clk P" and h: "port_post P fd view I h"
    and step: "\<And>v rx v'. I v \<Longrightarrow> lan_answers (frame_read reg) v rx v' \<Longrightarrow> I v'"
    and prompt: "\<And>v rx. P \<Longrightarrow> I v \<Longrightarrow> prompt_answer (frame_read reg) v rx \<Longrightarrow> frame_value rx AND msk = want"
  shows "ok (\<lambda>(x, h'). port_post P fd view I h') (wait_until os reg msk want h)"
proof (cases "hw_fault h")
  case True
  with h show ?thesis
    by (auto simp: port_post_def intro!: ok_mono [OF wait_until_fault])
next
  case False
  with h have fd: "spi_fd h = fd" and I: "I (view (kernel h))" by (simp_all add: port_post_def)
  have "ok (\<lambda>(x, h'). if hw_fault h' then \<not> P else spi_fd h' = fd \<and> I (view (kernel h')))
      (wait_until os reg msk want h)"
    by (rule wait_until_rule [OF L False fd, where I = I and G = "\<lambda>x v. I v"])
      (use I step prompt in auto)
  then show ?thesis by (simp add: port_post_def)
qed

lemma pram_addr_len:
  "to_u16 (PRAM_SIZE len OR to_u32 a) = a" "to_u16 (drop_bit 16 (PRAM_SIZE len OR to_u32 a)) = len"
  unfolding PRAM_SIZE_def by (rule bit_word_eqI; auto simp: bit_simps dest: bit_imp_le_length)+

lemma start_addr_len: "start_transfer (PRAM_SIZE len OR to_u32 (a :: u16)) = Some (unat a, unat len, 0)"
  by (simp only: start_transfer_def pram_addr_len)

lemma answers_rd_abort:
  "lan_answers (frame_write ESC_PRAM_RD_CMD_REG ESC_PRAM_CMD_ABORT) v rx v' \<Longrightarrow> v' = v\<lparr>rd_at := None\<rparr>"
  unfolding lan_answers_def rd_answers_def by blast

lemma answers_rd_addr_len:
  "lan_answers (frame_write ESC_PRAM_RD_ADDR_LEN_REG x) v rx v' \<Longrightarrow> rd_at v = None \<Longrightarrow> v' = v\<lparr>rd_addr_len := x\<rparr>"
  unfolding lan_answers_def rd_answers_def by blast

lemma answers_rd_start:
  "lan_answers (frame_write ESC_PRAM_RD_CMD_REG ESC_PRAM_CMD_BUSY) v rx v' \<Longrightarrow> rd_at v = None \<Longrightarrow>
     v' = v\<lparr>rd_at := start_transfer (rd_addr_len v), rd_cnt := 0\<rparr>"
  unfolding lan_answers_def rd_answers_def by blast

lemma first_byte: "unat (to_u8 (a AND (0x03 :: u16))) = unat a mod 4"
  using and_three [of a] by simp

lemma pram_read_loop_fault:
  "hw_fault h \<Longrightarrow> ok (\<lambda>(bs, h'). bs = buf \<and> hw_fault h') (pram_read_loop os fbp len byte_offset buf h)"
  by (subst pram_read_loop.simps) (auto intro!: ok_mono [OF pram_wait_fifo_fault])

lemma aligned_ram_bytes:
  assumes "l \<le> length bs" and "\<forall>k < l. bs ! k = aligned m (unat a) (unat a mod 4 + k)"
  shows "take l bs = ram_bytes m a l"
proof (rule nth_equalityI)
  fix k assume "k < length (take l bs)"
  moreover have "aligned m (unat a) (unat a mod 4 + k) = m (a + of_nat k)"
    by (simp add: aligned_def)
  ultimately show "take l bs ! k = ram_bytes m a l ! k"
    using assms by (simp add: ram_bytes_def)
qed (use assms in simp)

lemma ESC_read_pram_rule:
  assumes L: "lan_port os fd view clk P" and h: "port_post P fd view (idle m) h" and len: "unat len \<le> length buf"
  shows "ok (\<lambda>(bs, h'). length bs = length buf \<and> port_post P fd view (idle m) h' \<and>
      (\<not> hw_fault h' \<longrightarrow> take (unat len) bs = ram_bytes m a (unat len))) (ESC_read_pram os a buf len h)"
proof -
  let ?I = "\<lambda>v. idle m v \<and> rd_at v = None"
  let ?post = "\<lambda>(bs, h'). length bs = length buf \<and> port_post P fd view (idle m) h' \<and>
      (\<not> hw_fault h' \<longrightarrow> take (unat len) bs = ram_bytes m a (unat len))"
  have "port_post P fd view ?I (lan9252_write_32 os ESC_PRAM_RD_CMD_REG ESC_PRAM_CMD_ABORT h)"
    by (rule write_32_rule [OF L h]) (auto dest!: answers_rd_abort simp: idle_def)
  then have "ok (\<lambda>(x, h'). port_post P fd view ?I h')
     (wait_until os ESC_PRAM_RD_CMD_REG ESC_PRAM_CMD_BUSY 0 (lan9252_write_32 os ESC_PRAM_RD_CMD_REG ESC_PRAM_CMD_ABORT h))"
    by (rule wait_until_post [OF L]) (auto dest!: answers_rd_status prompt_rd simp: idle_def fifo_prompt_def)
  then show ?thesis
    unfolding ESC_read_pram_def Let_def ok_bind
  proof (rule ok_mono, clarify)
    fix x h1 assume h1: "port_post P fd view ?I h1"
    let ?h2 = "lan9252_write_32 os ESC_PRAM_RD_ADDR_LEN_REG (PRAM_SIZE len OR to_u32 a) h1"
    let ?h3 = "lan9252_write_32 os ESC_PRAM_RD_CMD_REG ESC_PRAM_CMD_BUSY ?h2"
    have "port_post P fd view (\<lambda>v. ?I v \<and> rd_addr_len v = PRAM_SIZE len OR to_u32 a) ?h2"
      by (rule write_32_rule [OF L h1]) (auto dest!: answers_rd_addr_len simp: idle_def)
    then have h3: "port_post P fd view (sending (unat a) (unat len) 0 m) ?h3"
      by (rule write_32_rule [OF L])
        (auto dest!: answers_rd_start simp: idle_def sending_def start_addr_len)
    have "ok ?post (pram_read_loop os (to_u8 (a AND 0x03)) len 0 buf ?h3)"
    proof (cases "hw_fault ?h3")
      case True
      with h3 show ?thesis by (auto simp: port_post_def intro!: ok_mono [OF pram_read_loop_fault])
    next
      case False
      with h3 have s: "spi_fd ?h3 = fd" "sending (unat a) (unat len) 0 m (view (kernel ?h3))"
        by (simp_all add: port_post_def)
      have "unat len < 65536" using unat_bound [of len] by simp
      from pram_read_loop_rule [OF L first_byte this False s len]
      have "ok (\<lambda>(bs, h'). length bs = length buf \<and> (if hw_fault h' then \<not> P else spi_fd h' = fd \<and>
          idle m (view (kernel h')) \<and> (\<forall>k < unat len. bs ! k = aligned m (unat a) (unat a mod 4 + k))))
        (pram_read_loop os (to_u8 (a AND 0x03)) len 0 buf ?h3)"
        unfolding first_byte by simp
      then show ?thesis
        by (auto simp: port_post_def aligned_ram_bytes len elim!: ok_mono split: if_splits)
    qed
    with h1 show "ok ?post (if hw_fault h1 then Some (buf, h1) else pram_read_loop os (to_u8 (a AND 0x03)) len 0 buf ?h3)"
      by (simp add: port_post_def)
  qed
qed

end
