(* ===== verification/Lan_Store.thy ===== *)
theory Lan_Store
  imports Lan_Pram
begin

text \<open>
  Process RAM writes: the loop over the bursts stores the buffer in the memory, byte for byte.
\<close>

section \<open>The words of a burst\<close>

text \<open>The bytes of the buffer are at their places in the words; the last burst is filled up with zeros.\<close>

lemma pram_pack_rule:
  assumes f: "unat fbp < 4" and l: "l < 65536" "l \<le> length buf"
  shows "ok (\<lambda>(fifo, len, byte_offset). len = left_of (unat fbp) l (p + n) \<and> byte_offset = offset_of (unat fbp) l (p + n) \<and>
        length fifo \<le> 4 * n \<and>
        (\<forall>i < 4 * n. unat fbp \<le> 4 * p + i \<and> 4 * p + i < unat fbp + l \<longrightarrow>
           i < length fifo \<and> fifo ! i = buf ! (4 * p + i - unat fbp)))
      (pram_pack fbp n (left_of (unat fbp) l p) (offset_of (unat fbp) l p) buf)"
proof (induction n arbitrary: p)
  case 0
  then show ?case by (simp del: of_nat_diff)
next
  case (Suc n)
  let ?f = "unat fbp"
  show ?case
  proof (cases "moved ?f l p < l")
    case False
    then have m: "moved ?f l p = l" "moved ?f l (Suc (p + n)) = l" and past: "\<And>i. \<not> (?f \<le> 4 * p + i \<and> 4 * p + i < ?f + l)"
      using moved_le [of ?f l p] f by (auto simp: moved_def)
    then show ?thesis by simp
  next
    case True
    let ?t = "moved ?f l (Suc p) - moved ?f l p"
    have t: "unat (pram_temp_len (left_of ?f l p) (offset_of ?f l p) fbp) = ?t"
      by (rule temp_len_moved [OF f l(1) True])
    define at where "at = (if 0 < p then 0 else ?f)"
    let ?bs = "take ?t (drop (moved ?f l p) buf)"
    have t4: "at + ?t \<le> 4" and pos: "4 * p + at = ?f + moved ?f l p"
      using True f by (auto simp: moved_def at_def)
    have len: "moved ?f l p + ?t \<le> length buf"
      using l(2) moved_le [of ?f l "Suc p"] moved_mono [of ?f l p] by simp
    then have g: "get_bytes (moved ?f l p) ?t buf = Some ?bs" "length ?bs = ?t"
      by (simp_all add: get_bytes_def)
    obtain w where w: "put_bytes at ?bs [0, 0, 0, 0] = Some w"
      using bs.wr_bounds [of at ?bs "[0, 0, 0, 0]"] t4 g(2) by auto
    have w4: "length w = 4" using put_bytes_length [OF w] by simp
    have nz: "left_of ?f l p \<noteq> 0" and off: "0 < offset_of ?f l p \<longleftrightarrow> 0 < p"
      using moved_units [OF l(1), of ?f p] True moved_pos [OF f True] by (auto simp: word_gt_0 unat_eq_0)
    have step: "pram_pack fbp (Suc n) (left_of ?f l p) (offset_of ?f l p) buf = do {
        (fifo, len, byte_offset) \<leftarrow> pram_pack fbp n (left_of ?f l (Suc p)) (offset_of ?f l (Suc p)) buf;
        Some (w @ fifo, len, byte_offset)
      }"
      using nz off w g(1) w4
      by (simp add: at_def t [symmetric] moved_step [OF t] moved_units [OF l(1)] le32_rd32 del: of_nat_diff)
    show ?thesis
      unfolding step ok_bind
    proof (rule ok_mono [OF Suc.IH [of "Suc p"]], elim case_prodE conjE, goal_cases)
      case (1 r fifo r' len byte_offset)
      have word: "w ! i = buf ! (4 * p + i - ?f)"
        if "i < 4" "?f \<le> 4 * p + i" "4 * p + i < ?f + l" for i
      proof -
        have i: "at \<le> i" "i < at + ?t"
          using that f True by (auto simp: moved_def at_def)
        have "i < length [0, 0, 0, 0 :: u8]" using that(1) by simp
        from put_bytes_nth [OF w this, unfolded g(2)] have "w ! i = ?bs ! (i - at)"
          by (simp only: i if_True simp_thms)
        also have "\<dots> = buf ! (moved ?f l p + (i - at))"
        proof -
          have "i - at < ?t" using i by linarith
          with len show ?thesis by simp
        qed
        also have "moved ?f l p + (i - at) = 4 * p + i - ?f"
          using i(1) pos by linarith
        finally show ?thesis .
      qed
      have rest: "i < length (w @ fifo) \<and> (w @ fifo) ! i = buf ! (4 * p + i - ?f)"
        if i: "i < 4 * Suc n" "?f \<le> 4 * p + i" "4 * p + i < ?f + l" for i
      proof (cases "i < 4")
        case True
        with word i w4 show ?thesis by (simp add: nth_append)
      next
        case False
        then have "4 * Suc p + (i - 4) = 4 * p + i" and "i - 4 < 4 * n" using i by simp_all
        with 1(6) i have "i - 4 < length fifo \<and> fifo ! (i - 4) = buf ! (4 * p + i - ?f)" by metis
        with False w4 show ?thesis by (auto simp: nth_append)
      qed
      with 1 w4 show ?case by simp
    qed
  qed
qed

section \<open>The memory\<close>

lemma ram_store_nth:
  "unat a + length bs \<le> 65536 \<Longrightarrow>
     ram_store a bs m x = (if unat a \<le> unat x \<and> unat x < unat a + length bs then bs ! (unat x - unat a) else m x)"
proof (induction bs arbitrary: a m)
  case (Cons b bs)
  show ?case
  proof (cases "bs = []")
    case True
    then show ?thesis by (auto simp: word_unat_eq_iff)
  next
    case False
    then have "unat a + 1 < 65536" using Cons.prems by (cases bs) auto
    then have a: "unat (a + 1) = unat a + 1" by (simp add: unat_add_one)
    have xa: "x = a \<longleftrightarrow> unat x = unat a" by (simp add: word_unat_eq_iff)
    define m1 where "m1 = m(a := b)"
    then have "m1 x = (if unat x = unat a then b else m x)" by (simp add: xa)
    with a Cons.prems Cons.IH [of "a + 1" m1] show ?thesis
      by (auto simp: nth_Cons' diff_diff_left simp flip: m1_def)
  qed
qed auto

text \<open>The words of a burst, stored after what has been stored before.\<close>

lemma pram_put_store:
  assumes a: "unat a + l \<le> 65536" and buf: "l \<le> length buf"
    and ws: "length ws = 4 * n"
      "\<And>i. i < 4 * n \<Longrightarrow> unat a mod 4 \<le> 4 * p + i \<Longrightarrow> 4 * p + i < unat a mod 4 + l \<Longrightarrow>
         ws ! i = buf ! (4 * p + i - unat a mod 4)"
  shows "pram_put (unat a) l (4 * p) ws (ram_store a (take (moved (unat a mod 4) l p) buf) m) =
    ram_store a (take (moved (unat a mod 4) l (p + n)) buf) m"
proof (rule ext)
  fix x :: u16
  let ?f = "unat a mod 4"
  let ?pos = "unat x - (unat a - ?f)"
  have st: "ram_store a (take (moved ?f l q) buf) m x =
      (if unat a \<le> unat x \<and> unat x < unat a + moved ?f l q then buf ! (unat x - unat a) else m x)" for q
    using a buf moved_le [of ?f l q] by (subst ram_store_nth) auto
  show "pram_put (unat a) l (4 * p) ws (ram_store a (take (moved ?f l p) buf) m) x =
      ram_store a (take (moved ?f l (p + n)) buf) m x"
  proof (cases "unat a \<le> unat x \<and> unat x < unat a + l")
    case False
    then show ?thesis
      using moved_le [of ?f l p] moved_le [of ?f l "p + n"] unfolding pram_put_def st by auto
  next
    case True
    have fa: "?f \<le> unat a" by simp
    then have pos: "?pos = unat x - unat a + ?f" using True by linarith
    show ?thesis
    proof (cases "4 * p \<le> ?pos \<and> ?pos < 4 * p + length ws")
      case in_burst: True
      then have "ws ! (?pos - 4 * p) = buf ! (unat x - unat a)"
        using ws(2) [of "?pos - 4 * p"] ws(1) pos True by auto
      moreover have "unat x < unat a + moved ?f l (p + n)"
        using in_burst ws(1) pos True by (auto simp: moved_def)
      ultimately show ?thesis
        using True in_burst unfolding pram_put_def st by simp
    next
      case False
      then have "unat x < unat a + moved ?f l p \<longleftrightarrow> unat x < unat a + moved ?f l (p + n)"
        using ws(1) pos True by (auto simp: moved_def)
      with False show ?thesis
        unfolding pram_put_def st by auto
    qed
  qed
qed

section \<open>Writes\<close>

definition storing :: "nat \<Rightarrow> nat \<Rightarrow> nat \<Rightarrow> ram \<Rightarrow> lan \<Rightarrow> bool" where
  "storing a l p m v \<longleftrightarrow> idle m v \<and> wr_at v = Some (a, l, p)"

lemma answers_wr_status:
  "lan_answers (frame_read ESC_PRAM_WR_CMD_REG) v rx v' \<Longrightarrow>
     v' = (if frame_value rx AND ESC_PRAM_CMD_AVAIL \<noteq> 0
           then v\<lparr>wr_cnt := unat (PRAM_CMD_CNT (frame_value rx))\<rparr> else v)"
  unfolding lan_answers_def wr_answers_def by blast

lemma answers_wr_burst:
  "lan_answers (burst_write ws) v rx v' \<Longrightarrow> length ws = 4 * n \<Longrightarrow> 0 < n \<Longrightarrow> n \<le> wr_cnt v \<Longrightarrow>
     wr_at v = Some (a, l, p) \<Longrightarrow>
     v' = v\<lparr>wr_at := Some (a, l, p + n), wr_cnt := wr_cnt v - n, lan_mem := pram_put a l (4 * p) ws (lan_mem v)\<rparr>"
  unfolding lan_answers_def wr_answers_def by blast

lemma prompt_wr:
  "prompt_answer (frame_read ESC_PRAM_WR_CMD_REG) v rx \<Longrightarrow> fifo_prompt (wr_at v) (frame_value rx)"
  unfolding prompt_answer_def by blast

lemma answers_wr_abort:
  "lan_answers (frame_write ESC_PRAM_WR_CMD_REG ESC_PRAM_CMD_ABORT) v rx v' \<Longrightarrow> v' = v\<lparr>wr_at := None\<rparr>"
  unfolding lan_answers_def wr_answers_def by blast

lemma answers_wr_addr_len:
  "lan_answers (frame_write ESC_PRAM_WR_ADDR_LEN_REG x) v rx v' \<Longrightarrow> wr_at v = None \<Longrightarrow> v' = v\<lparr>wr_addr_len := x\<rparr>"
  unfolding lan_answers_def wr_answers_def by blast

lemma answers_wr_start:
  "lan_answers (frame_write ESC_PRAM_WR_CMD_REG ESC_PRAM_CMD_BUSY) v rx v' \<Longrightarrow> wr_at v = None \<Longrightarrow>
     v' = v\<lparr>wr_at := start_transfer (wr_addr_len v), wr_cnt := 0\<rparr>"
  unfolding lan_answers_def wr_answers_def by blast

lemma burst_write_frame:
  "[ESC_CMD_SERIAL_WRITE, to_u8 (drop_bit 8 ESC_PRAM_WR_FIFO_REG AND 0xFF),
    to_u8 (ESC_PRAM_WR_FIFO_REG AND 0xFF)] @ ws = burst_write ws"
  by (simp add: burst_write_def)

lemma pram_write_loop_fault:
  "hw_fault h \<Longrightarrow> ok hw_fault (pram_write_loop os fbp len byte_offset buf h)"
  by (subst pram_write_loop.simps) (auto intro!: ok_mono [OF pram_wait_fifo_fault])

lemma pram_write_loop_rule:
  fixes os :: "'c os"
  assumes L: "lan_port os fd view clk P" and f: "unat fbp = unat a mod 4" and l: "l < 65536" "l \<le> length buf"
    and al: "unat a + l \<le> 65536"
  shows "\<not> hw_fault h \<Longrightarrow> spi_fd h = fd \<Longrightarrow>
    storing (unat a) l p (ram_store a (take (moved (unat fbp) l p) buf) m) (view (kernel h)) \<Longrightarrow>
    ok (port_post P fd view (idle (ram_store a (take l buf) m)))
      (pram_write_loop os fbp (left_of (unat fbp) l p) (offset_of (unat fbp) l p) buf h)"
proof (induction "l - moved (unat fbp) l p" arbitrary: p h rule: less_induct)
  case less
  let ?f = "unat fbp"
  let ?m = "\<lambda>q. ram_store a (take (moved ?f l q) buf) m"
  let ?post = "port_post P fd view (idle (ram_store a (take l buf) m))"
  have f4: "?f < 4" using f by simp
  show ?case
  proof (cases "moved ?f l p < l")
    case False
    then have "moved ?f l p = l" using moved_le [of ?f l p] by simp
    with less.prems show ?thesis
      by (subst pram_write_loop.simps) (simp add: storing_def port_post_def del: of_nat_diff)
  next
    case True
    let ?need = "pram_fifo_range (left_of ?f l p) (offset_of ?f l p) fbp"
    have need: "unat ?need = min 16 ((?f + l + 3) div 4 - p)" "0 < unat ?need"
      using fifo_range_moved [OF f4 l(1) True] True f4 by (auto simp: moved_def)
    have words_left: "4 * p < ?f + l" using True by (auto simp: moved_def split: if_splits)
    have step: "if frame_value rx AND ESC_PRAM_CMD_AVAIL \<noteq> 0 \<and> to_u32 ?need \<le> PRAM_CMD_CNT (frame_value rx)
        then storing (unat a) l p (?m p) v' \<and> wr_cnt v' = unat (PRAM_CMD_CNT (frame_value rx))
        else storing (unat a) l p (?m p) v'"
      if "storing (unat a) l p (?m p) v" and "lan_answers (frame_read ESC_PRAM_WR_CMD_REG) v rx v'" for v rx v'
      using that(1) answers_wr_status [OF that(2)] by (simp add: storing_def idle_def)
    have prompt: "frame_value rx AND ESC_PRAM_CMD_AVAIL \<noteq> 0 \<and> to_u32 ?need \<le> PRAM_CMD_CNT (frame_value rx)"
      if P and "storing (unat a) l p (?m p) v" and "prompt_answer (frame_read ESC_PRAM_WR_CMD_REG) v rx" for v rx
    proof -
      have "frame_value rx AND ESC_PRAM_CMD_AVAIL \<noteq> 0 \<and>
          min 16 ((?f + l + 3) div 4 - p) \<le> unat (PRAM_CMD_CNT (frame_value rx))"
        using that(2) prompt_wr [OF that(3)] words_left by (simp add: storing_def fifo_prompt_def f)
      then show ?thesis unfolding word_le_nat_alt unat_widen need(1) .
    qed
    have W: "ok (\<lambda>(x, h'). if hw_fault h' then \<not> P else spi_fd h' = fd \<and> to_u32 ?need \<le> PRAM_CMD_CNT x \<and>
        (storing (unat a) l p (?m p) (view (kernel h')) \<and> wr_cnt (view (kernel h')) = unat (PRAM_CMD_CNT x)))
      (pram_wait_fifo os ESC_PRAM_WR_CMD_REG ?need h)"
      by (rule pram_wait_fifo_rule [OF L less.prems(1,2), where I = "storing (unat a) l p (?m p)"
              and G = "\<lambda>x v. storing (unat a) l p (?m p) v \<and> wr_cnt v = unat (PRAM_CMD_CNT x)"])
        (fact less.prems(3) step prompt)+
    have nz: "0 < left_of ?f l p"
      using True unfolding word_less_nat_alt moved_units(1) [OF l(1)] by simp
    have failed: "ok ?post (Some h')" if "hw_fault h'" "\<not> P" for h' :: "'c hw"
      using that by (simp add: port_post_def)
    have W': "ok (\<lambda>(x, h1). ok ?post (if hw_fault h1 then Some h1
        else do {
          (fifo, len, byte_offset) \<leftarrow> pram_pack fbp (unat (fifo_words x)) (left_of ?f l p) (offset_of ?f l p) buf;
          case spi_xfer os (burst_write (fifo @ replicate (4 * unat (fifo_words x) - length fifo) 0)) h1 of
            (None, h2) \<Rightarrow> Some h2
          | (Some rx, h2) \<Rightarrow> pram_write_loop os fbp len byte_offset buf h2
        })) (pram_wait_fifo os ESC_PRAM_WR_CMD_REG ?need h)"
    proof (rule ok_mono [OF W], clarify)
      fix x and h1 :: "'c hw"
      assume w: "if hw_fault h1 then \<not> P else spi_fd h1 = fd \<and> to_u32 ?need \<le> PRAM_CMD_CNT x \<and>
        (storing (unat a) l p (?m p) (view (kernel h1)) \<and> wr_cnt (view (kernel h1)) = unat (PRAM_CMD_CNT x))"
      let ?n = "unat (fifo_words x)"
      have burst: "ok ?post (case spi_xfer os (burst_write (fifo @ replicate (4 * ?n - length fifo) 0)) h1 of
            (None, h2) \<Rightarrow> Some h2
          | (Some rx, h2) \<Rightarrow> pram_write_loop os fbp (left_of ?f l (p + ?n)) (offset_of ?f l (p + ?n)) buf h2)"
        if no_fault: "\<not> hw_fault h1" and pl: "length fifo \<le> 4 * ?n"
          and pc: "\<forall>i < 4 * ?n. ?f \<le> 4 * p + i \<and> 4 * p + i < ?f + l \<longrightarrow>
             i < length fifo \<and> fifo ! i = buf ! (4 * p + i - ?f)" for fifo
      proof -
        from no_fault w have fd: "spi_fd h1 = fd" and S: "storing (unat a) l p (?m p) (view (kernel h1))"
          and cnt: "?n \<le> wr_cnt (view (kernel h1))" and n: "0 < ?n"
          using need(2) by (auto simp: fifo_words_unat word_le_nat_alt)
        let ?ws = "fifo @ replicate (4 * ?n - length fifo) 0"
        have ws: "length ?ws = 4 * ?n" using pl by simp
        have put: "pram_put (unat a) l (4 * p) ?ws (?m p) = ?m (p + ?n)"
          unfolding f by (rule pram_put_store [OF al l(2) ws]) (use pc f in \<open>auto simp: nth_append\<close>)
        have less_left: "l - moved ?f l (p + ?n) < l - moved ?f l p"
          using True n f4 by (auto simp: moved_def)
        show ?thesis
        proof (rule xfer_ok [OF L no_fault fd], erule (1) failed, goal_cases)
          case (1 rx h2)
          have at: "wr_at (view (kernel h1)) = Some (unat a, l, p)" using S by (simp add: storing_def)
          have "storing (unat a) l (p + ?n) (?m (p + ?n)) (view (kernel h2))"
            using answers_wr_burst [OF 1(3) ws n cnt at] S put by (simp add: storing_def idle_def)
          with 1(1,2) show ?case by (rule less.hyps [OF less_left])
        qed
      qed
      show "ok ?post (if hw_fault h1 then Some h1
        else do {
          (fifo, len, byte_offset) \<leftarrow> pram_pack fbp ?n (left_of ?f l p) (offset_of ?f l p) buf;
          case spi_xfer os (burst_write (fifo @ replicate (4 * ?n - length fifo) 0)) h1 of
            (None, h2) \<Rightarrow> Some h2
          | (Some rx, h2) \<Rightarrow> pram_write_loop os fbp len byte_offset buf h2
        })"
      proof (cases "hw_fault h1")
        case True
        with w failed show ?thesis by simp
      next
        case no_fault: False
        have "ok (\<lambda>(fifo, len, byte_offset). ok ?post
          (case spi_xfer os (burst_write (fifo @ replicate (4 * ?n - length fifo) 0)) h1 of
            (None, h2) \<Rightarrow> Some h2
          | (Some rx, h2) \<Rightarrow> pram_write_loop os fbp len byte_offset buf h2))
          (pram_pack fbp ?n (left_of ?f l p) (offset_of ?f l p) buf)"
          by (rule ok_mono [OF pram_pack_rule [OF f4 l]], elim case_prodE conjE, simp only: prod.case,
              rule burst [OF no_fault], assumption+)
        with no_fault show ?thesis by simp
      qed
    qed
    show ?thesis
      using W' nz
      by (subst pram_write_loop.simps) (simp only: burst_write_frame if_True Let_def ok_bind ok_prod)
  qed
qed

lemma ESC_write_pram_rule:
  assumes L: "lan_port os fd view clk P" and h: "port_post P fd view (idle m) h"
    and len: "unat len \<le> length buf" and al: "unat a + unat len \<le> 65536"
  shows "ok (port_post P fd view (idle (ram_store a (take (unat len) buf) m))) (ESC_write_pram os a buf len h)"
proof -
  let ?I = "\<lambda>v. idle m v \<and> wr_at v = None"
  let ?post = "port_post P fd view (idle (ram_store a (take (unat len) buf) m))"
  have "port_post P fd view ?I (lan9252_write_32 os ESC_PRAM_WR_CMD_REG ESC_PRAM_CMD_ABORT h)"
    by (rule write_32_rule [OF L h]) (auto dest!: answers_wr_abort simp: idle_def)
  then have "ok (\<lambda>(x, h'). port_post P fd view ?I h')
     (wait_until os ESC_PRAM_WR_CMD_REG ESC_PRAM_CMD_BUSY 0 (lan9252_write_32 os ESC_PRAM_WR_CMD_REG ESC_PRAM_CMD_ABORT h))"
    by (rule wait_until_post [OF L]) (auto dest!: answers_wr_status prompt_wr simp: idle_def fifo_prompt_def)
  then show ?thesis
    unfolding ESC_write_pram_def Let_def ok_bind
  proof (rule ok_mono, clarify)
    fix x h1 assume h1: "port_post P fd view ?I h1"
    let ?h2 = "lan9252_write_32 os ESC_PRAM_WR_ADDR_LEN_REG (PRAM_SIZE len OR to_u32 a) h1"
    let ?h3 = "lan9252_write_32 os ESC_PRAM_WR_CMD_REG ESC_PRAM_CMD_BUSY ?h2"
    have "port_post P fd view (\<lambda>v. ?I v \<and> wr_addr_len v = PRAM_SIZE len OR to_u32 a) ?h2"
      by (rule write_32_rule [OF L h1]) (auto dest!: answers_wr_addr_len simp: idle_def)
    then have h3: "port_post P fd view (storing (unat a) (unat len) 0 m) ?h3"
      by (rule write_32_rule [OF L])
        (auto dest!: answers_wr_start simp: idle_def storing_def start_addr_len)
    have "ok ?post (pram_write_loop os (to_u8 (a AND 0x03)) len 0 buf ?h3)"
    proof (cases "hw_fault ?h3")
      case True
      with h3 show ?thesis by (auto simp: port_post_def intro!: ok_mono [OF pram_write_loop_fault])
    next
      case False
      with h3 have s: "spi_fd ?h3 = fd" "storing (unat a) (unat len) 0 m (view (kernel ?h3))"
        by (simp_all add: port_post_def)
      have l: "unat len < 65536" using unat_bound [of len] by simp
      from pram_write_loop_rule [OF L first_byte l len al False s(1), of 0 m] s(2)
      show ?thesis by simp
    qed
    with h1 show "ok ?post (if hw_fault h1 then Some h1 else pram_write_loop os (to_u8 (a AND 0x03)) len 0 buf ?h3)"
      by (simp add: port_post_def)
  qed
qed

end
