(* ===== verification/Lan_Sim.thy ===== *)
theory Lan_Sim
  imports Lan_Store
begin

text \<open>
  A chip that follows the protocol, as a program: it shows that the hypotheses about the chip
  can hold, and the witnesses run on it. Every SPI transfer takes a nanosecond.
\<close>

definition sim_complete :: "lan \<Rightarrow> lan" where
  "sim_complete v =
     (case csr_cmd v of
        None \<Rightarrow> v
      | Some c \<Rightarrow>
        (let n = csr_size c; a = csr_address c in
         if \<not> csr_legal c then v
         else if c AND 0x40000000 \<noteq> 0
         then v\<lparr>csr_cmd := None, csr_data := rd32 (ram_bytes (lan_mem v) a n @ replicate (4 - n) 0)\<rparr>
         else v\<lparr>csr_cmd := None, lan_mem := ram_store a (take n (le32 (csr_data v))) (lan_mem v)\<rparr>))"

abbreviation (input) fifo_full :: bytes where "fifo_full \<equiv> [0, 0, 0] @ le32 0x1F01"

definition sim_transfer :: "bytes \<Rightarrow> lan \<Rightarrow> bytes \<times> lan" where
  "sim_transfer fr v =
     (let x = frame_value fr; words = (length fr - 3) div 4 in
      if fr = frame_write ESC_CSR_DATA_REG x then (fr, v\<lparr>csr_data := x\<rparr>)
      else if fr = frame_write ESC_CSR_CMD_REG x then (fr, v\<lparr>csr_cmd := Some x\<rparr>)
      else if fr = frame_read ESC_CSR_CMD_REG then (fr, sim_complete v)
      else if fr = frame_read ESC_CSR_DATA_REG then ([0, 0, 0] @ le32 (csr_data v), v)
      else if fr = frame_write ESC_PRAM_RD_CMD_REG ESC_PRAM_CMD_ABORT then (fr, v\<lparr>rd_at := None\<rparr>)
      else if fr = frame_write ESC_PRAM_RD_ADDR_LEN_REG x then (fr, v\<lparr>rd_addr_len := x\<rparr>)
      else if fr = frame_write ESC_PRAM_RD_CMD_REG ESC_PRAM_CMD_BUSY
      then (fr, v\<lparr>rd_at := start_transfer (rd_addr_len v), rd_cnt := 0\<rparr>)
      else if fr = frame_read ESC_PRAM_RD_CMD_REG then (fifo_full, v\<lparr>rd_cnt := 31\<rparr>)
      else if fr = burst_read words
      then (case rd_at v of
              None \<Rightarrow> (fr, v)
            | Some (a, l, p) \<Rightarrow>
              ([0, 0, 0] @ map (\<lambda>i. aligned (lan_mem v) a (4 * p + i)) [0..<4 * words],
               v\<lparr>rd_at := Some (a, l, p + words), rd_cnt := rd_cnt v - words\<rparr>))
      else if fr = frame_write ESC_PRAM_WR_CMD_REG ESC_PRAM_CMD_ABORT then (fr, v\<lparr>wr_at := None\<rparr>)
      else if fr = frame_write ESC_PRAM_WR_ADDR_LEN_REG x then (fr, v\<lparr>wr_addr_len := x\<rparr>)
      else if fr = frame_write ESC_PRAM_WR_CMD_REG ESC_PRAM_CMD_BUSY
      then (fr, v\<lparr>wr_at := start_transfer (wr_addr_len v), wr_cnt := 0\<rparr>)
      else if fr = frame_read ESC_PRAM_WR_CMD_REG then (fifo_full, v\<lparr>wr_cnt := 31\<rparr>)
      else if fr = burst_write (drop 3 fr)
      then (case wr_at v of
              None \<Rightarrow> (fr, v)
            | Some (a, l, p) \<Rightarrow>
              (fr, v\<lparr>wr_at := Some (a, l, p + words), wr_cnt := wr_cnt v - words,
                     lan_mem := pram_put a l (4 * p) (drop 3 fr) (lan_mem v)\<rparr>))
      else (fr, v))"

definition sim_os :: "(lan \<times> int) os" where
  "sim_os = \<lparr>
     spi_message = (\<lambda>fd fr (v, t). let (rx, v) = sim_transfer fr v in (Some (\<lambda>i. rx ! i), (v, t + 1))),
     clock_gettime = (\<lambda>(v, t). (\<lparr>tv_sec = t div 1000000000, tv_nsec = t mod 1000000000\<rparr>, (v, t))),
     os_open = (\<lambda>path k. (3, k)), os_close = (\<lambda>fd k. k), spi_ioctl = (\<lambda>fd c k. (0, k)),
     gpio_get_line = (\<lambda>fd r k. (None, k)), gpio_set_values = (\<lambda>fd b k. k), usleep = (\<lambda>us k. k),
     ppoll = (\<lambda>fd t k. (0, k)), os_poll = (\<lambda>fd k. (0, k)), read_events = (\<lambda>fd n k. (None, k)) \<rparr>"

lemma sim_time: "time_passes sim_os snd"
  by (auto simp: time_passes_def sim_os_def in_ns_def split: prod.splits)

text \<open>Frames are told apart by their command and address, and carry their value.\<close>

definition frame_address :: "bytes \<Rightarrow> u16" where
  "frame_address fr = rd16 [fr ! 2, fr ! 1]"

lemma address_bytes: "rd16 [to_u8 (a AND (0xFF :: u16)), to_u8 (drop_bit 8 a AND 0xFF)] = a"
proof -
  have m: "(0xFF :: u16) = mask 8" by (simp add: mask_eq_exp_minus_1)
  have "8 \<le> n \<Longrightarrow> 8 + (n - 8) = n" for n :: nat by simp
  then show ?thesis
    unfolding rd16.simps m by (intro bit_word_eqI) (auto simp: bit_simps)
qed

lemma value_bytes:
  "[to_u8 (x AND (0xFF :: u32)), to_u8 (drop_bit 8 x AND 0xFF), to_u8 (drop_bit 16 x AND 0xFF),
    to_u8 (drop_bit 24 x AND 0xFF)] = le32 x"
proof -
  have m: "(0xFF :: u32) = mask 8" by (simp add: mask_eq_exp_minus_1)
  show ?thesis
    unfolding le32_def m list.inject
    by (intro conjI refl; rule bit_word_eqI; auto simp: bit_simps)
qed

lemma frame_fields [simp]:
  "frame_address (frame_write a x) = a" "frame_value (frame_write a x) = x"
  "frame_address (frame_read a) = a" "frame_value ([c, d, e] @ le32 x) = x"
  "frame_address (burst_read n) = 0" "frame_address (burst_write ws) = 0x20"
  by (simp_all add: frame_address_def frame_value_def frame_write_def frame_read_def burst_read_def
      burst_write_def value_bytes address_bytes del: rd16.simps rd32.simps) simp_all

lemma frame_value_le32 [simp]: "frame_value (c # d # e # le32 x) = x"
  using frame_fields(4) [of c d e x] by simp

lemma frame_commands [simp]:
  "frame_write a x ! 0 = 2" "frame_read a ! 0 = 3" "burst_read n ! 0 = 3" "burst_write ws ! 0 = 2"
  by (simp_all add: frame_write_def frame_read_def burst_read_def burst_write_def)

lemma frame_eqs [simp]:
  "frame_write a x = frame_write b y \<longleftrightarrow> a = b \<and> x = y" "frame_read a = frame_read b \<longleftrightarrow> a = b"
  "frame_write a x \<noteq> frame_read b" "frame_write a x \<noteq> burst_read n" "frame_read a \<noteq> burst_write ws"
  "burst_read n \<noteq> burst_write ws" "burst_read n \<noteq> frame_write a x" "burst_write ws \<noteq> frame_read a"
  "frame_read a \<noteq> frame_write b x" "burst_write ws \<noteq> burst_read n"
proof -
  show "frame_write a x = frame_write b y \<longleftrightarrow> a = b \<and> x = y"
    using frame_fields(1,2) by metis
  show "frame_read a = frame_read b \<longleftrightarrow> a = b"
    using frame_fields(3) by metis
qed (auto dest: arg_cong [where f = "\<lambda>f. f ! 0"])

lemma frame_single_word:
  "frame_read a = burst_read n \<longleftrightarrow> a = 0 \<and> n = 1" "frame_write a x = burst_write ws \<longleftrightarrow> a = 0x20 \<and> ws = le32 x"
  "burst_write ws = frame_write a x \<longleftrightarrow> a = 0x20 \<and> ws = le32 x"
proof -
  have r: "burst_read 1 = frame_read 0"
    by (simp add: burst_read_def frame_read_def eval_nat_numeral)
  have "a = 0 \<and> n = 1" if e: "frame_read a = burst_read n"
  proof -
    have "length (burst_read n) = 3 + 4 * n" by (simp add: burst_read_def)
    with arg_cong [OF e, of frame_address] arg_cong [OF e, of length] show ?thesis by simp
  qed
  with r show "frame_read a = burst_read n \<longleftrightarrow> a = 0 \<and> n = 1" by auto
  have w: "burst_write (le32 x) = frame_write 0x20 x"
    using value_bytes [of x] by (simp add: burst_write_def frame_write_def)
  have "a = 0x20 \<and> ws = le32 x" if e: "frame_write a x = burst_write ws"
  proof -
    have a: "a = 0x20" using arg_cong [OF e, of frame_address] by simp
    with e w have "burst_write ws = burst_write (le32 x)" by simp
    with a show ?thesis by (simp add: burst_write_def)
  qed
  with w show "frame_write a x = burst_write ws \<longleftrightarrow> a = 0x20 \<and> ws = le32 x" by auto
  then show "burst_write ws = frame_write a x \<longleftrightarrow> a = 0x20 \<and> ws = le32 x" by metis
qed

lemma sim_transfers:
  "sim_transfer (frame_write ESC_CSR_DATA_REG x) v = (frame_write ESC_CSR_DATA_REG x, v\<lparr>csr_data := x\<rparr>)"
  "sim_transfer (frame_write ESC_CSR_CMD_REG x) v = (frame_write ESC_CSR_CMD_REG x, v\<lparr>csr_cmd := Some x\<rparr>)"
  "sim_transfer (frame_read ESC_CSR_CMD_REG) v = (frame_read ESC_CSR_CMD_REG, sim_complete v)"
  "sim_transfer (frame_read ESC_CSR_DATA_REG) v = ([0, 0, 0] @ le32 (csr_data v), v)"
  "sim_transfer (frame_write ESC_PRAM_RD_CMD_REG ESC_PRAM_CMD_ABORT) v =
     (frame_write ESC_PRAM_RD_CMD_REG ESC_PRAM_CMD_ABORT, v\<lparr>rd_at := None\<rparr>)"
  "sim_transfer (frame_write ESC_PRAM_RD_ADDR_LEN_REG x) v = (frame_write ESC_PRAM_RD_ADDR_LEN_REG x, v\<lparr>rd_addr_len := x\<rparr>)"
  "sim_transfer (frame_write ESC_PRAM_RD_CMD_REG ESC_PRAM_CMD_BUSY) v =
     (frame_write ESC_PRAM_RD_CMD_REG ESC_PRAM_CMD_BUSY, v\<lparr>rd_at := start_transfer (rd_addr_len v), rd_cnt := 0\<rparr>)"
  "sim_transfer (frame_read ESC_PRAM_RD_CMD_REG) v = (fifo_full, v\<lparr>rd_cnt := 31\<rparr>)"
  "sim_transfer (frame_write ESC_PRAM_WR_CMD_REG ESC_PRAM_CMD_ABORT) v =
     (frame_write ESC_PRAM_WR_CMD_REG ESC_PRAM_CMD_ABORT, v\<lparr>wr_at := None\<rparr>)"
  "sim_transfer (frame_write ESC_PRAM_WR_ADDR_LEN_REG x) v = (frame_write ESC_PRAM_WR_ADDR_LEN_REG x, v\<lparr>wr_addr_len := x\<rparr>)"
  "sim_transfer (frame_write ESC_PRAM_WR_CMD_REG ESC_PRAM_CMD_BUSY) v =
     (frame_write ESC_PRAM_WR_CMD_REG ESC_PRAM_CMD_BUSY, v\<lparr>wr_at := start_transfer (wr_addr_len v), wr_cnt := 0\<rparr>)"
  "sim_transfer (frame_read ESC_PRAM_WR_CMD_REG) v = (fifo_full, v\<lparr>wr_cnt := 31\<rparr>)"
  by (simp_all add: sim_transfer_def frame_single_word)

lemma sim_bursts:
  "rd_at v = Some (a, l, p) \<Longrightarrow> 0 < n \<Longrightarrow> sim_transfer (burst_read n) v =
     ([0, 0, 0] @ map (\<lambda>i. aligned (lan_mem v) a (4 * p + i)) [0..<4 * n],
      v\<lparr>rd_at := Some (a, l, p + n), rd_cnt := rd_cnt v - n\<rparr>)"
  "wr_at v = Some (a, l, p) \<Longrightarrow> length ws = 4 * n \<Longrightarrow> sim_transfer (burst_write ws) v =
     (burst_write ws, v\<lparr>wr_at := Some (a, l, p + n), wr_cnt := wr_cnt v - n,
        lan_mem := pram_put a l (4 * p) ws (lan_mem v)\<rparr>)"
proof -
  assume "rd_at v = Some (a, l, p)" and "0 < n"
  moreover have "(length (burst_read n) - 3) div 4 = n" by (simp add: burst_read_def)
  moreover have "frame_read r = burst_read n \<longleftrightarrow> r = 0 \<and> n = 1" "burst_read n = frame_read r \<longleftrightarrow> r = 0 \<and> n = 1" for r
    using frame_single_word(1) [of r n] by auto
  ultimately show "sim_transfer (burst_read n) v =
     ([0, 0, 0] @ map (\<lambda>i. aligned (lan_mem v) a (4 * p + i)) [0..<4 * n],
      v\<lparr>rd_at := Some (a, l, p + n), rd_cnt := rd_cnt v - n\<rparr>)"
    by (simp add: sim_transfer_def)
next
  assume "wr_at v = Some (a, l, p)" and "length ws = 4 * n"
  moreover have "(length (burst_write ws) - 3) div 4 = length ws div 4" "drop 3 (burst_write ws) = ws"
    by (simp_all add: burst_write_def)
  ultimately show "sim_transfer (burst_write ws) v =
     (burst_write ws, v\<lparr>wr_at := Some (a, l, p + n), wr_cnt := wr_cnt v - n,
        lan_mem := pram_put a l (4 * p) ws (lan_mem v)\<rparr>)"
    by (simp add: sim_transfer_def frame_single_word)
qed

lemma frame_value_status: "frame_value (frame_read r) = 0"
  by (simp add: frame_value_def frame_read_def)

lemma fifo_full_value: "PRAM_CMD_CNT 0x1F01 = 31" "(0x1F01 :: u32) AND 1 = 1" "(0x1F01 :: u32) AND 0x80000000 = 0"
  by (simp_all add: PRAM_CMD_CNT_def)

lemma sim_complete: "csr_complete v (sim_complete v)"
proof (cases "csr_cmd v")
  case (Some c)
  show ?thesis
  proof (cases "csr_legal c \<and> c AND 0x40000000 \<noteq> 0")
    case True
    let ?bs = "ram_bytes (lan_mem v) (csr_address c) (csr_size c)"
    have n: "csr_size c \<le> 4" using True by (auto simp: csr_legal_def)
    then have "le32 (rd32 (?bs @ replicate (4 - csr_size c) 0)) = ?bs @ replicate (4 - csr_size c) 0"
      by (intro le32_rd32) simp
    then have "take (csr_size c) (le32 (rd32 (?bs @ replicate (4 - csr_size c) 0))) = ?bs" by simp
    with Some True show ?thesis
      unfolding csr_complete_def sim_complete_def ram_bytes_def by auto
  next
    case False
    with Some show ?thesis by (auto simp: csr_complete_def sim_complete_def)
  qed
qed (simp add: csr_complete_def sim_complete_def)

lemma sim_answers: "sim_transfer fr v = (rx, v') \<Longrightarrow> lan_answers fr v rx v'"
  unfolding lan_answers_def csr_answers_def rd_answers_def wr_answers_def
  by (intro conjI allI impI; (elim conjE)?; hypsubst?;
      auto simp: sim_transfers frame_value_status fifo_full_value sim_complete sim_bursts aligned_def)

lemma sim_prompt_answer: "sim_transfer fr v = (rx, v') \<Longrightarrow> prompt_answer fr v rx"
  unfolding prompt_answer_def
  by (intro conjI impI; hypsubst?;
      auto simp: sim_transfers frame_value_status fifo_full_value fifo_prompt_def split: option.splits)

lemma sim_length: "length (fst (sim_transfer fr v)) = length fr"
proof -
  have "length (burst_read n) = 3 + 4 * n" for n by (simp add: burst_read_def)
  then have "fr = burst_read ((length fr - 3) div 4) \<Longrightarrow> 3 + 4 * ((length fr - 3) div 4) = length fr" by metis
  moreover have "fr = frame_read r \<Longrightarrow> length fr = 7" for r by simp
  ultimately show ?thesis
    unfolding sim_transfer_def Let_def by (auto simp: frame_single_word split: option.splits)
qed

lemma sim_message:
  assumes "spi_message sim_os fd fr k = (r, k')"
  obtains rx f where "r = Some f" and "sim_transfer fr (fst k) = (rx, fst k')" and "map f [0..<length fr] = rx"
proof -
  obtain v t where k: "k = (v, t)" by fastforce
  obtain rx v' where tr: "sim_transfer fr v = (rx, v')" by fastforce
  with sim_length [of fr v] have len: "length rx = length fr" by simp
  have "r = Some (\<lambda>i. rx ! i)" and "k' = (v', t + 1)"
    using assms by (auto simp: sim_os_def k tr)
  with that [of "\<lambda>i. rx ! i" rx] tr len map_nth [of rx] show thesis by (simp add: k)
qed

lemma sim_lan9252: "lan9252 sim_os fd fst"
  unfolding lan9252_def
  by (auto elim!: sim_message simp: sim_answers) (simp add: sim_os_def split: prod.splits)

lemma sim_prompt: "lan_prompt sim_os fd fst"
  unfolding lan_prompt_def
  by (auto split: prod.splits option.splits elim!: sim_message simp: sim_prompt_answer)

text \<open>The layer on it, with the registers and the process RAM \<open>m\<close>.\<close>

definition sim_hw :: "ram \<Rightarrow> (lan \<times> int) hw" where
  "sim_hw m = (hw_start (\<lparr>lan_mem = m, csr_cmd = None, csr_data = 0, rd_addr_len = 0, rd_at = None, rd_cnt = 0,
     wr_addr_len = 0, wr_at = None, wr_cnt = 0\<rparr>, 0)) \<lparr>spi_fd := 3\<rparr>"

end
