(* ===== verification/Lan_Total.thy ===== *)
theory Lan_Total
  imports Lan_Store
begin

text \<open>
  The layer on any chip: whatever is on the other end of the SPI, every access returns, because
  waits end when their deadline passes and every burst moves at least one word; and no access
  leaves the caller's buffer.
\<close>

lemma wp_poll_any:
  assumes T: "time_passes os clk" and d: "normal_ts d"
    and Q: "\<And>found x h'. (\<not> hw_fault h' \<Longrightarrow> found \<and> wanted x) \<Longrightarrow> Q ((found, x), h')"
  shows "ok Q (poll os reg wanted d h)"
proof (induction "nat (in_ns d + 1 - clk (kernel h))" arbitrary: h rule: less_induct)
  case less
  obtain x h1 where r: "lan9252_read_32 os reg h = (x, h1)" by fastforce
  obtain late h2 where l: "deadline_passed os d h1 = (late, h2)" by fastforce
  note late = deadline_passed_time [OF T d l]
  have clk: "clk (kernel h) < clk (kernel h1)" "clk (kernel h1) \<le> clk (kernel h2)"
    using read_32_clk [OF T r] clock_monotone [OF T] late(2) by simp_all
  show ?case
  proof (cases "hw_fault h1 \<or> wanted x \<or> late")
    case True
    then show ?thesis
      by (subst poll.simps) (auto simp: r l hw_timeout_def intro!: Q)
  next
    case False
    then have "ok Q (poll os reg wanted d h2)"
      using late(1) clk by (intro less.hyps) auto
    then show ?thesis using False by (subst poll.simps) (simp add: r l)
  qed
qed

lemma wp_wait_any:
  assumes T: "time_passes os clk" and Q: "\<And>x h'. Q (x, h')"
  shows "ok Q (wait_until os reg msk want h)"
proof -
  obtain d h1 where d: "deadline_set os (timeout_ms h) h = (d, h1)" by fastforce
  show ?thesis
    unfolding wait_until_def d
    by (auto intro!: wp_poll_any [OF T deadline_set_time(1) [OF T d]] Q)
qed

lemma wp_fifo_any:
  assumes T: "time_passes os clk"
    and Q: "\<And>x h'. (\<not> hw_fault h' \<Longrightarrow> to_u32 need \<le> PRAM_CMD_CNT x) \<Longrightarrow> Q (x, h')"
  shows "ok Q (pram_wait_fifo os reg need h)"
proof -
  obtain d h1 where d: "deadline_set os (timeout_ms h) h = (d, h1)" by fastforce
  show ?thesis
    unfolding pram_wait_fifo_def d
    by (auto intro!: wp_poll_any [OF T deadline_set_time(1) [OF T d]] Q)
qed

lemma xfer_any:
  assumes "\<And>h'. ok Q (f h')" and "\<And>rx h'. length rx = length buf \<Longrightarrow> ok Q (g rx h')"
  shows "ok Q (case spi_xfer os buf h of (None, h') \<Rightarrow> f h' | (Some rx, h') \<Rightarrow> g rx h')"
  using assms spi_xfer_length [of os buf h] by (auto split: prod.splits option.splits)

section \<open>Register accesses\<close>

lemma wp_read_csr_any:
  assumes T: "time_passes os clk" and n: "unat n \<le> 4"
    and Q: "\<And>bs h'. length bs = unat n \<Longrightarrow> Q (bs, h')"
  shows "ok Q (ESC_read_csr os a n h)"
  unfolding ESC_read_csr_def Let_def
  by (intro xfer_any) (use n in \<open>auto intro!: Q wp_wait_any [OF T] split: prod.splits\<close>)

lemma wp_write_csr_any:
  assumes T: "time_passes os clk" and Q: "\<And>h'. Q h'"
  shows "ok Q (ESC_write_csr os a buf n h)"
  unfolding ESC_write_csr_def Let_def
  by (intro xfer_any) (auto intro!: Q wp_wait_any [OF T])

lemma csr_read_loop_any:
  assumes T: "time_passes os clk"
  shows "ok (\<lambda>(bs, h'). length bs = unat len) (csr_read_loop os a len h)"
proof (induction "unat len" arbitrary: a len h rule: less_induct)
  case less
  show ?case
  proof (cases "len = 0")
    case False
    then have "0 < len" by (simp add: word_gt_0)
    note n = chunk_unat [OF this, of a]
    have "unat (csr_chunk_size a len) \<le> 4" using n(1) by (auto simp: legal_access_def)
    moreover have rest: "ok (\<lambda>(bs, h'). length bs = unat (len - csr_chunk_size a len))
        (csr_read_loop os (a + csr_chunk_size a len) (len - csr_chunk_size a len) h1)" for h1
      using n by (intro less.hyps) simp
    ultimately show ?thesis
      using \<open>0 < len\<close> n(3,4)
      by (subst csr_read_loop.simps) (auto intro!: wp_read_csr_any [OF T] ok_mono [OF rest])
  qed (subst csr_read_loop.simps, simp)
qed

lemma csr_write_loop_any:
  assumes T: "time_passes os clk"
  shows "ok (\<lambda>_. True) (csr_write_loop os a buf len h)"
proof (induction "unat len" arbitrary: a buf len h rule: less_induct)
  case less
  show ?case
  proof (cases "len = 0")
    case False
    then have "0 < len" by (simp add: word_gt_0)
    note n = chunk_unat [OF this, of a]
    have "ok (\<lambda>_. True) (csr_write_loop os (a + csr_chunk_size a len) buf' (len - csr_chunk_size a len) h1)" for buf' h1
      using n by (intro less.hyps) simp
    with \<open>0 < len\<close> show ?thesis
      by (subst csr_write_loop.simps) (auto intro!: wp_write_csr_any [OF T])
  qed (subst csr_write_loop.simps, simp)
qed

section \<open>Process RAM accesses\<close>

lemma pram_unpack_any:
  assumes f: "unat fbp < 4" and l: "l < 65536" and n: "4 * n \<le> length fifo" and len: "l \<le> length buf"
  shows "ok (\<lambda>(len, byte_offset, buf'). len = left_of (unat fbp) l (p + n) \<and> byte_offset = offset_of (unat fbp) l (p + n) \<and>
      length buf' = length buf) (pram_unpack fbp fifo n (left_of (unat fbp) l p) (offset_of (unat fbp) l p) buf)"
proof -
  let ?F = "\<lambda>j. if j < unat fbp + moved (unat fbp) l p then buf ! (j - unat fbp) else fifo ! (j - 4 * p)"
  have low: "unat fbp \<le> 4 * p + i \<Longrightarrow> \<not> 4 * p + i < unat fbp + moved (unat fbp) l p" for i
    using f by (cases p) (auto simp: moved_def)
  show ?thesis
    by (rule ok_mono [OF pram_unpack_rule [OF f l n len, where F = ?F]]) (use low in auto)
qed

lemma pram_read_loop_any:
  assumes T: "time_passes os clk" and f: "unat fbp < 4" and l: "l < 65536"
  shows "l \<le> length buf \<Longrightarrow> ok (\<lambda>(bs, h'). length bs = length buf)
    (pram_read_loop os fbp (left_of (unat fbp) l p) (offset_of (unat fbp) l p) buf h)"
proof (induction "l - moved (unat fbp) l p" arbitrary: p buf h rule: less_induct)
  case less
  let ?f = "unat fbp"
  show ?case
  proof (cases "moved ?f l p < l")
    case False
    then have "moved ?f l p = l" using moved_le [of ?f l p] by simp
    then show ?thesis by (subst pram_read_loop.simps) (simp del: of_nat_diff)
  next
    case True
    let ?need = "pram_fifo_range (left_of ?f l p) (offset_of ?f l p) fbp"
    have need: "0 < unat ?need"
      using fifo_range_moved [OF f l True] True f by (auto simp: moved_def)
    have nz: "0 < left_of ?f l p"
      using True unfolding word_less_nat_alt moved_units(1) [OF l] by simp
    have burst: "ok (\<lambda>(bs, h'). length bs = length buf) (case spi_xfer os (burst_read (unat (fifo_words x))) h1 of
            (None, h2) \<Rightarrow> Some (buf, h2)
          | (Some rx, h2) \<Rightarrow> do {
              (len, byte_offset, buf) \<leftarrow> pram_unpack fbp (drop 3 rx) (unat (fifo_words x)) (left_of ?f l p) (offset_of ?f l p) buf;
              pram_read_loop os fbp len byte_offset buf h2
            })"
      if "to_u32 ?need \<le> PRAM_CMD_CNT x" for x h1
    proof (rule xfer_any)
      fix rx :: bytes and h2 assume rx: "length rx = length (burst_read (unat (fifo_words x)))"
      let ?n = "unat (fifo_words x)"
      have n: "0 < ?n" using need that by (auto simp: fifo_words_unat word_le_nat_alt)
      have left: "l - moved ?f l (p + ?n) < l - moved ?f l p"
        using True n f by (auto simp: moved_def)
      have "4 * ?n \<le> length (drop 3 rx)" using rx by (simp add: burst_read_def)
      from pram_unpack_any [OF f l this less.prems, of p]
      show "ok (\<lambda>(bs, h'). length bs = length buf) (do {
          (len, byte_offset, buf) \<leftarrow> pram_unpack fbp (drop 3 rx) ?n (left_of ?f l p) (offset_of ?f l p) buf;
          pram_read_loop os fbp len byte_offset buf h2 })"
        unfolding ok_bind
      proof (rule ok_mono, elim case_prodE conjE, goal_cases)
        case (1 r len r' byte_offset buf')
        have "ok (\<lambda>(bs, h'). length bs = length buf')
            (pram_read_loop os fbp (left_of ?f l (p + ?n)) (offset_of ?f l (p + ?n)) buf' h2)"
          by (rule less.hyps [OF left]) (use 1 less.prems in simp)
        with 1 show ?case by simp
      qed
    qed simp
    show ?thesis
      using nz by (subst pram_read_loop.simps, simp only: burst_read_frame if_True Let_def ok_bind)
        (rule wp_fifo_any [OF T], simp only: prod.case, rule ok_ifI, simp, rule burst, simp)
  qed
qed

lemma pram_pack_any:
  assumes f: "unat fbp < 4" and l: "l < 65536" "l \<le> length buf"
  shows "ok (\<lambda>(fifo, len, byte_offset). len = left_of (unat fbp) l (p + n) \<and> byte_offset = offset_of (unat fbp) l (p + n))
    (pram_pack fbp n (left_of (unat fbp) l p) (offset_of (unat fbp) l p) buf)"
  by (rule ok_mono [OF pram_pack_rule [OF f l]]) auto

lemma pram_write_loop_any:
  assumes T: "time_passes os clk" and f: "unat fbp < 4" and l: "l < 65536" "l \<le> length buf"
  shows "ok (\<lambda>_. True) (pram_write_loop os fbp (left_of (unat fbp) l p) (offset_of (unat fbp) l p) buf h)"
proof (induction "l - moved (unat fbp) l p" arbitrary: p h rule: less_induct)
  case less
  let ?f = "unat fbp"
  show ?case
  proof (cases "moved ?f l p < l")
    case False
    then have "moved ?f l p = l" using moved_le [of ?f l p] by simp
    then show ?thesis by (subst pram_write_loop.simps) (simp del: of_nat_diff)
  next
    case True
    let ?need = "pram_fifo_range (left_of ?f l p) (offset_of ?f l p) fbp"
    have need: "0 < unat ?need"
      using fifo_range_moved [OF f l(1) True] True f by (auto simp: moved_def)
    have nz: "0 < left_of ?f l p"
      using True unfolding word_less_nat_alt moved_units(1) [OF l(1)] by simp
    have burst: "ok (\<lambda>_. True) (do {
          (fifo, len, byte_offset) \<leftarrow> pram_pack fbp (unat (fifo_words x)) (left_of ?f l p) (offset_of ?f l p) buf;
          case spi_xfer os (burst_write (fifo @ replicate (4 * unat (fifo_words x) - length fifo) 0)) h1 of
            (None, h2) \<Rightarrow> Some h2
          | (Some rx, h2) \<Rightarrow> pram_write_loop os fbp len byte_offset buf h2
        })" if "to_u32 ?need \<le> PRAM_CMD_CNT x" for x h1
      unfolding ok_bind
    proof (rule ok_mono [OF pram_pack_any [OF f l]], elim case_prodE conjE, goal_cases)
      case (1 r fifo r' len byte_offset)
      let ?n = "unat (fifo_words x)"
      have n: "0 < ?n" using need that by (auto simp: fifo_words_unat word_le_nat_alt)
      have left: "l - moved ?f l (p + ?n) < l - moved ?f l p"
        using True n f by (auto simp: moved_def)
      from 1 show ?case
        by (simp only: prod.case, intro xfer_any) (simp_all add: less.hyps [OF left] del: of_nat_diff)
    qed
    show ?thesis
      using nz by (subst pram_write_loop.simps, simp only: burst_write_frame if_True Let_def ok_bind)
        (rule wp_fifo_any [OF T], simp only: prod.case, rule ok_ifI, simp, rule burst, simp)
  qed
qed

section \<open>Whole accesses\<close>

lemma read_pram_any:
  assumes T: "time_passes os clk" and len: "unat len \<le> length buf"
  shows "ok (\<lambda>(bs, h'). length bs = length buf) (ESC_read_pram os a buf len h)"
proof -
  have f: "unat (to_u8 (a AND (0x03 :: u16))) < 4" using first_byte [of a] by simp
  have l: "unat len < 65536" using unat_bound [of len] by simp
  from pram_read_loop_any [OF T f l len, of 0] show ?thesis
    unfolding ESC_read_pram_def Let_def ok_bind
    by (intro wp_wait_any [OF T]) simp
qed

lemma write_pram_any:
  assumes T: "time_passes os clk" and len: "unat len \<le> length buf"
  shows "ok (\<lambda>_. True) (ESC_write_pram os a buf len h)"
proof -
  have f: "unat (to_u8 (a AND (0x03 :: u16))) < 4" using first_byte [of a] by simp
  have l: "unat len < 65536" using unat_bound [of len] by simp
  from pram_write_loop_any [OF T f l len, of 0] show ?thesis
    unfolding ESC_write_pram_def Let_def ok_bind
    by (intro wp_wait_any [OF T]) simp
qed

lemma alevent_tail_any:
  assumes T: "time_passes os clk" and Q: "\<And>ev h'. Q (ev, h')"
  shows "ok Q (alevent_tail os h)"
  unfolding alevent_tail_def by (auto intro!: wp_read_csr_any [OF T] Q)

lemma hw_read_any:
  assumes T: "time_passes os clk" and len: "length buf = unat len"
  shows "ok (\<lambda>(bs, ev, h'). length bs = unat len) (hw_ESC_read os opts a buf len h)"
proof -
  have "ok (\<lambda>(bs, h'). length bs = unat len)
      (if a \<ge> 0x1000 then ESC_read_pram os a buf len h else csr_read_loop os a len h)"
    using read_pram_any [OF T, of len buf a h] csr_read_loop_any [OF T, of len a h] len by simp
  then show ?thesis
    unfolding hw_ESC_read_def ok_if ok_Some ok_bind
    by (auto intro!: alevent_tail_any [OF T] elim!: ok_mono simp: len)
qed

lemma hw_write_any:
  assumes T: "time_passes os clk" and len: "length buf = unat len"
  shows "ok (\<lambda>_. True) (hw_ESC_write os opts a buf len h)"
proof -
  have "ok (\<lambda>_. True) (if a \<ge> 0x1000 then ESC_write_pram os a buf len h else csr_write_loop os a buf len h)"
    using write_pram_any [OF T, of len buf a h] csr_write_loop_any [OF T, of a buf len h] len by simp
  then show ?thesis
    unfolding hw_ESC_write_def ok_if ok_Some ok_bind
    by (auto intro!: alevent_tail_any [OF T] elim!: ok_mono)
qed

section \<open>Initialisation\<close>

lemma core_reset_any:
  assumes T: "time_passes os clk" and Q: "\<And>h'. Q h'"
  shows "ok Q (core_reset_unless_configured os h)"
  unfolding core_reset_unless_configured_def wait_byte_test_def wait_hw_ready_def
  by (auto intro!: wp_read_csr_any [OF T] wp_wait_any [OF T] Q)

lemma spi_open_fault: "spi_open os path mode speed h = (False, h') \<Longrightarrow> hw_fault h'"
  by (auto simp: spi_open_def split: prod.splits if_splits)

lemma hw_init_any:
  assumes T: "time_passes os clk"
  shows "ok (\<lambda>(rc, ev, h'). rc = 0 \<or> rc = -1 \<and> hw_fault h') (hw_ESC_init os opts cfg h)"
  unfolding hw_ESC_init_def wait_byte_test_def wait_hw_ready_def Let_def
  by (auto split: option.splits prod.splits dest: spi_open_fault
      intro!: wp_wait_any [OF T] core_reset_any [OF T] ok_mono [OF hw_write_any [OF T]])

end
