(* ===== verification/Lan_Log.thy ===== *)
theory Lan_Log
  imports Lan_Sim Lan_Total
begin

text \<open>
  What goes over the SPI, recorded: a kernel whose state keeps a log of the transfers
  (\<open>spi_logged\<close>), the entries that the functions of the layer append to it, and the recording
  kernel over any other one, on which the witnesses run.
\<close>

section \<open>The log\<close>

text \<open>A transfer: the bytes sent, and the bytes that came back if it succeeded.\<close>

type_synonym exchange = "bytes \<times> bytes option"

definition exchange_of :: "bytes \<Rightarrow> (nat \<Rightarrow> u8) option \<Rightarrow> exchange" where
  "exchange_of fr r = (fr, map_option (\<lambda>f. map f [0..<length fr]) r)"

definition spi_logged :: "'c os \<Rightarrow> ('c \<Rightarrow> exchange list) \<Rightarrow> bool" where
  "spi_logged os log \<longleftrightarrow>
     (\<forall>fd fr k r k'. spi_message os fd fr k = (r, k') \<longrightarrow> log k' = log k @ [exchange_of fr r]) \<and>
     (\<forall>k. log (snd (clock_gettime os k)) = log k)"

text \<open>Reads of \<open>reg\<close> only, of which the last one had the wanted value.\<close>

definition awaited :: "u16 \<Rightarrow> u32 \<Rightarrow> u32 \<Rightarrow> exchange list \<Rightarrow> bool" where
  "awaited reg msk want es \<longleftrightarrow> es \<noteq> [] \<and> (\<forall>e \<in> set es. fst e = frame_read reg) \<and>
     (case snd (last es) of None \<Rightarrow> False | Some rx \<Rightarrow> frame_value rx AND msk = want)"

text \<open>The command that resets the EtherCAT core.\<close>

definition reset_command :: bytes where
  "reset_command = frame_write ESC_CMD_RESET_CTL ESC_RESET_CTRL_RST"

section \<open>What the layer appends\<close>

lemma xfer_logged:
  assumes "spi_logged os log" and "spi_xfer os buf h = (r, h')"
  shows "log (kernel h') = log (kernel h) @ [(buf, r)]"
proof -
  obtain f k where m: "spi_message os (spi_fd h) buf (snd (clock_gettime os (kernel h))) = (f, k)" by fastforce
  have c: "log (snd (clock_gettime os k)) = log k" for k
    using assms(1) by (simp add: spi_logged_def)
  have "log k = log (snd (clock_gettime os (kernel h))) @ [exchange_of buf f]"
    using assms(1) m by (simp add: spi_logged_def)
  moreover have "kernel h' = snd (clock_gettime os k)" "r = map_option (\<lambda>f. map f [0..<length buf]) f"
    using assms(2) m
    by (auto simp: spi_xfer_def hw_timeout_def split: prod.splits option.splits)
  ultimately show ?thesis by (simp add: c exchange_of_def)
qed

lemma read_32_logged:
  assumes "spi_logged os log" and "lan9252_read_32 os reg h = (x, h')"
  obtains r where "log (kernel h') = log (kernel h) @ [(frame_read reg, r)]"
    and "\<not> hw_fault h' \<Longrightarrow> \<exists>rx. r = Some rx \<and> x = frame_value rx"
proof -
  obtain r h1 where x: "spi_xfer os (frame_read reg) h = (r, h1)" by fastforce
  have "h1 = h'" "r \<noteq> None \<Longrightarrow> x = frame_value (the r)"
    using assms(2) x by (auto simp: lan9252_read_32_def split: option.splits)
  with xfer_logged [OF assms(1) x] spi_xfer_fd [OF x] show ?thesis
    by (intro that [of r]) auto
qed

lemma write_32_logged:
  assumes "spi_logged os log"
  obtains r where "log (kernel (lan9252_write_32 os reg x h)) = log (kernel h) @ [(frame_write reg x, r)]"
proof -
  obtain r h1 where x: "spi_xfer os (frame_write reg x) h = (r, h1)" by fastforce
  from xfer_logged [OF assms x] that [of r] show ?thesis by (simp add: lan9252_write_32_def x)
qed

lemma poll_logged:
  assumes T: "time_passes os clk" and S: "spi_logged os log" and d: "normal_ts d"
  shows "ok (\<lambda>((found, x), h'). \<exists>es. log (kernel h') = log (kernel h) @ es \<and> (\<forall>e \<in> set es. fst e = frame_read reg) \<and>
      (\<not> hw_fault h' \<longrightarrow> awaited reg msk want es)) (poll os reg (\<lambda>v. v AND msk = want) d h)"
proof (induction "nat (in_ns d + 1 - clk (kernel h))" arbitrary: h rule: less_induct)
  case less
  obtain x h1 where r: "lan9252_read_32 os reg h = (x, h1)" by fastforce
  from read_32_logged [OF S r] obtain e where e: "log (kernel h1) = log (kernel h) @ [(frame_read reg, e)]"
    "\<not> hw_fault h1 \<Longrightarrow> \<exists>rx. e = Some rx \<and> x = frame_value rx" by metis
  obtain late h2 where l: "deadline_passed os d h1 = (late, h2)" by fastforce
  note late = deadline_passed_time [OF T d l]
  have k2: "log (kernel h2) = log (kernel h1)" using late(2) S by (simp add: spi_logged_def)
  have clk: "clk (kernel h) < clk (kernel h1)" "clk (kernel h1) \<le> clk (kernel h2)"
    using read_32_clk [OF T r] clock_monotone [OF T] late(2) by simp_all
  show ?case
  proof (cases "hw_fault h1 \<or> x AND msk = want \<or> late")
    case True
    then show ?thesis
      using e k2 by (subst poll.simps) (auto simp: r l hw_timeout_def awaited_def)
  next
    case False
    then have "ok (\<lambda>((found, x), h'). \<exists>es. log (kernel h') = log (kernel h2) @ es \<and> (\<forall>e \<in> set es. fst e = frame_read reg) \<and>
      (\<not> hw_fault h' \<longrightarrow> awaited reg msk want es)) (poll os reg (\<lambda>v. v AND msk = want) d h2)"
      using late(1) clk by (intro less.hyps) auto
    then have "ok (\<lambda>((found, x), h'). \<exists>es. log (kernel h') = log (kernel h) @ es \<and> (\<forall>e \<in> set es. fst e = frame_read reg) \<and>
      (\<not> hw_fault h' \<longrightarrow> awaited reg msk want es)) (poll os reg (\<lambda>v. v AND msk = want) d h2)"
    proof (rule ok_mono, clarify)
      fix found x h' es
      assume "log (kernel h') = log (kernel h2) @ es" "\<forall>e \<in> set es. fst e = frame_read reg"
        "\<not> hw_fault h' \<longrightarrow> awaited reg msk want es"
      then show "\<exists>es. log (kernel h') = log (kernel h) @ es \<and> (\<forall>e \<in> set es. fst e = frame_read reg) \<and>
          (\<not> hw_fault h' \<longrightarrow> awaited reg msk want es)"
        by (intro exI [of _ "(frame_read reg, e) # es"]) (auto simp: e(1) k2 awaited_def)
    qed
    then show ?thesis using False by (subst poll.simps) (simp add: r l)
  qed
qed

lemma wait_until_logged:
  assumes T: "time_passes os clk" and S: "spi_logged os log"
    and Q: "\<And>x h' es. log (kernel h') = log (kernel h) @ es \<Longrightarrow> \<forall>e \<in> set es. fst e = frame_read reg \<Longrightarrow>
      (\<not> hw_fault h' \<Longrightarrow> awaited reg msk want es) \<Longrightarrow> (hw_fault h \<Longrightarrow> hw_fault h') \<Longrightarrow> Q (x, h')"
  shows "ok Q (wait_until os reg msk want h)"
proof -
  obtain d h1 where d: "deadline_set os (timeout_ms h) h = (d, h1)" by fastforce
  note s = deadline_set_time [OF T d]
  have k: "log (kernel h1) = log (kernel h)" using s(3) S by (simp add: spi_logged_def)
  have f: "ok (\<lambda>(x, h'). hw_fault h \<longrightarrow> hw_fault h') (wait_until os reg msk want h)"
  proof (cases "hw_fault h")
    case True
    with wait_until_fault [OF True, of os reg msk want] show ?thesis by simp
  qed (auto intro!: wp_wait_any [OF T])
  have "ok (\<lambda>(x, h'). \<exists>es. log (kernel h') = log (kernel h) @ es \<and> (\<forall>e \<in> set es. fst e = frame_read reg) \<and>
      (\<not> hw_fault h' \<longrightarrow> awaited reg msk want es)) (wait_until os reg msk want h)"
    unfolding wait_until_def d k [symmetric]
    by (auto intro!: ok_mono [OF poll_logged [OF T S s(1), where reg = reg and msk = msk and want = want]])
  from ok_conj [OF this f] show ?thesis
    by (rule ok_mono) (auto intro: Q)
qed

text \<open>A stretch of the run in which the core is not reset.\<close>

definition no_reset :: "('c \<Rightarrow> exchange list) \<Rightarrow> 'c hw \<Rightarrow> 'c hw \<Rightarrow> bool" where
  "no_reset log h h' \<longleftrightarrow> (\<exists>es. log (kernel h') = log (kernel h) @ es \<and> reset_command \<notin> fst ` set es)"

lemma no_reset_trans: "no_reset log h h1 \<Longrightarrow> no_reset log h1 h2 \<Longrightarrow> no_reset log h h2"
  unfolding no_reset_def
proof (elim exE conjE)
  fix es es'
  assume "log (kernel h1) = log (kernel h) @ es" "reset_command \<notin> fst ` set es"
    "log (kernel h2) = log (kernel h1) @ es'" "reset_command \<notin> fst ` set es'"
  then show "\<exists>es. log (kernel h2) = log (kernel h) @ es \<and> reset_command \<notin> fst ` set es"
    by (intro exI [of _ "es @ es'"]) auto
qed

lemma no_reset_append:
  "log (kernel h') = log (kernel h) @ es \<Longrightarrow> reset_command \<notin> fst ` set es \<Longrightarrow> no_reset log h h'"
  unfolding no_reset_def by blast

lemma not_reset [simp]:
  "frame_read reg \<noteq> reset_command" "reset_command \<noteq> frame_read reg"
  "frame_write ESC_CSR_CMD_REG x \<noteq> reset_command"
  by (simp_all add: reset_command_def)

lemma no_reset_xfer:
  "spi_logged os log \<Longrightarrow> spi_xfer os buf h = (r, h') \<Longrightarrow> buf \<noteq> reset_command \<Longrightarrow> no_reset log h h'"
  by (rule no_reset_append [OF xfer_logged]) auto

lemma no_reset_read_32:
  assumes "spi_logged os log" "lan9252_read_32 os reg h = (x, h')"
  shows "no_reset log h h'"
  by (rule read_32_logged [OF assms], rule no_reset_append) auto

lemma no_reset_wait:
  assumes "time_passes os clk" "spi_logged os log"
  shows "ok (\<lambda>(x, h'). no_reset log h h') (wait_until os reg msk want h)"
  by (rule wait_until_logged [OF assms]) (auto intro!: no_reset_append)

lemma ESC_read_csr_logged:
  assumes T: "time_passes os clk" and S: "spi_logged os log"
  shows "ok (\<lambda>(bs, h'). no_reset log h h') (ESC_read_csr os a n h)"
proof -
  note x = no_reset_xfer [OF S]
  show ?thesis
    unfolding ESC_read_csr_def Let_def
    by (auto split: prod.splits option.splits dest!: x no_reset_read_32 [OF S]
        intro!: ok_mono [OF no_reset_wait [OF T S]]) (meson no_reset_trans)+
qed

section \<open>A recording kernel\<close>

text \<open>The kernel \<open>os\<close> with the log beside its state.\<close>

definition recording :: "'c os \<Rightarrow> ('c \<times> exchange list) os" where
  "recording os = \<lparr>
     spi_message = (\<lambda>fd fr (k, es). let (r, k) = spi_message os fd fr k in (r, (k, es @ [exchange_of fr r]))),
     clock_gettime = (\<lambda>(k, es). let (t, k) = clock_gettime os k in (t, (k, es))),
     os_open = (\<lambda>path (k, es). let (r, k) = os_open os path k in (r, (k, es))),
     os_close = (\<lambda>fd (k, es). (os_close os fd k, es)),
     spi_ioctl = (\<lambda>fd c (k, es). let (r, k) = spi_ioctl os fd c k in (r, (k, es))),
     gpio_get_line = (\<lambda>fd q (k, es). let (r, k) = gpio_get_line os fd q k in (r, (k, es))),
     gpio_set_values = (\<lambda>fd b (k, es). (gpio_set_values os fd b k, es)),
     usleep = (\<lambda>us (k, es). (usleep os us k, es)),
     ppoll = (\<lambda>fd t (k, es). let (r, k) = ppoll os fd t k in (r, (k, es))),
     os_poll = (\<lambda>fd (k, es). let (r, k) = os_poll os fd k in (r, (k, es))),
     read_events = (\<lambda>fd n (k, es). let (r, k) = read_events os fd n k in (r, (k, es))) \<rparr>"

lemma recording_steps:
  "spi_message (recording os) fd fr (k, es) =
     (fst (spi_message os fd fr k), (snd (spi_message os fd fr k), es @ [exchange_of fr (fst (spi_message os fd fr k))]))"
  "clock_gettime (recording os) (k, es) = (fst (clock_gettime os k), (snd (clock_gettime os k), es))"
  by (simp_all add: recording_def case_prod_beta)

lemma recording_logged: "spi_logged (recording os) snd"
  by (auto simp: spi_logged_def recording_steps)

lemma recording_lan9252: "lan9252 os fd view \<Longrightarrow> lan9252 (recording os) fd (view \<circ> fst)"
  unfolding lan9252_def
  by (auto simp: recording_steps) (metis prod.collapse)

lemma recording_prompt: "lan_prompt os fd view \<Longrightarrow> lan_prompt (recording os) fd (view \<circ> fst)"
  unfolding lan_prompt_def by (simp add: recording_steps case_prod_beta split: option.splits)

lemma recording_time: "time_passes os clk \<Longrightarrow> time_passes (recording os) (clk \<circ> fst)"
  by (simp add: time_passes_def recording_steps)

end
