(* ===== verification/Lan_Props.thy ===== *)
theory Lan_Props
  imports Lan_Log
begin

text \<open>
  The properties of the LAN9252 layer: \<open>ESC_read\<close> and \<open>ESC_write\<close> over a chip that follows its
  protocol are reads and writes of memory, busy waits end in time, and the core is reset at
  start-up only when no master has configured it.
\<close>

section \<open>Accesses as the stack makes them\<close>

abbreviation (input) event_of :: "ram \<Rightarrow> u32" where
  "event_of m \<equiv> rd32 (ram_bytes m ESCREG_ALEVENT 4)"

lemma take_ram_bytes: "take k (ram_bytes m a n) = ram_bytes m a (min k n)"
  by (simp add: ram_bytes_def take_map take_upt min_def)

lemma alevent_tail_rule:
  assumes L: "lan_port os fd view clk P" and h: "port_post P fd view (idle m) h"
  shows "ok (\<lambda>(ev, h'). (hw_fault h \<longrightarrow> hw_fault h') \<and> port_post P fd view (idle m) h' \<and>
      (\<not> hw_fault h' \<longrightarrow> ev = event_of m)) (alevent_tail os h)"
proof -
  have "legal_access ESCREG_ALEVENT 4" by (simp add: legal_access_def)
  from ESC_read_csr_rule [OF L h this] show ?thesis
    unfolding alevent_tail_def ok_bind by (rule ok_mono) auto
qed

lemma hw_ESC_read_rule:
  assumes L: "lan_port os fd view clk P" and h: "\<not> hw_fault h" "spi_fd h = fd" "0 \<le> fd" "idle m (view (kernel h))"
    and len: "length buf = unat len"
  shows "ok (\<lambda>(bs, ev, h'). port_post P fd view (idle m) h' \<and> length bs = unat len \<and>
      (\<not> hw_fault h' \<longrightarrow> bs = ram_bytes m a (unat len) \<and>
        ev = (if alevent_tail_needed opts a \<or> (a = ESCREG_ALEVENT \<and> 4 \<le> len) then Some (event_of m) else None)))
    (hw_ESC_read os opts a buf len h)"
proof -
  have I: "port_post P fd view (idle m) h" using h by (simp add: port_post_def)
  let ?access = "if a \<ge> 0x1000 then ESC_read_pram os a buf len h else csr_read_loop os a len h"
  have A: "ok (\<lambda>(bs, h'). length bs = unat len \<and> port_post P fd view (idle m) h' \<and>
      (\<not> hw_fault h' \<longrightarrow> bs = ram_bytes m a (unat len))) ?access"
  proof (cases "a \<ge> 0x1000")
    case True
    with ESC_read_pram_rule [OF L I, of len buf a] len show ?thesis by (auto elim!: ok_mono)
  next
    case False
    with csr_read_loop_rule [OF L I, where a = a and len = len] show ?thesis by (auto elim!: ok_mono)
  qed
  have ev: "4 \<le> len \<Longrightarrow> rd32 (take 4 (ram_bytes m a (unat len))) = rd32 (ram_bytes m a 4)"
    by (simp add: take_ram_bytes word_le_nat_alt)
  have not_twice: "\<not> alevent_tail_needed opts ESCREG_ALEVENT" by (simp add: alevent_tail_needed_def)
  have "hw_ESC_read os opts a buf len h = do {
      (bs, h1) \<leftarrow> ?access;
      if a = ESCREG_ALEVENT \<and> len \<ge> 4 then Some (bs, Some (rd32 (take 4 bs)), h1)
      else if \<not> alevent_tail_needed opts a then Some (bs, None, h1)
      else do { (ev, h2) \<leftarrow> alevent_tail os h1; Some (bs, Some ev, h2) }
    }"
    using h by (simp add: hw_ESC_read_def)
  then show ?thesis
  proof (simp only: ok_bind, intro ok_mono [OF A], elim case_prodE conjE, goal_cases)
    case (1 x bs h1)
    then have x: "x = (bs, h1)" and h1: "length bs = unat len" "port_post P fd view (idle m) h1"
      "\<not> hw_fault h1 \<Longrightarrow> bs = ram_bytes m a (unat len)"
      by simp_all
    show ?case
    proof (cases "alevent_tail_needed opts a")
      case True
      with not_twice have "a \<noteq> ESCREG_ALEVENT" by auto
      with True x h1 show ?thesis
        by (auto intro!: ok_mono [OF alevent_tail_rule [OF L h1(2)]])
    next
      case False
      with x h1 ev show ?thesis by auto
    qed
  qed
qed

lemma hw_ESC_write_rule:
  assumes L: "lan_port os fd view clk P" and h: "\<not> hw_fault h" "spi_fd h = fd" "0 \<le> fd" "idle m (view (kernel h))"
    and len: "length buf = unat len" and al: "unat a + unat len \<le> 65536"
  shows "ok (\<lambda>(ev, h'). port_post P fd view (idle (ram_store a buf m)) h' \<and>
      (\<not> hw_fault h' \<longrightarrow>
        ev = (if alevent_tail_needed opts a then Some (event_of (ram_store a buf m)) else None)))
    (hw_ESC_write os opts a buf len h)"
proof -
  have I: "port_post P fd view (idle m) h" using h by (simp add: port_post_def)
  let ?access = "if a \<ge> 0x1000 then ESC_write_pram os a buf len h else csr_write_loop os a buf len h"
  have A: "ok (port_post P fd view (idle (ram_store a buf m))) ?access"
  proof (cases "a \<ge> 0x1000")
    case True
    with ESC_write_pram_rule [OF L I _ al, of buf] len show ?thesis by simp
  next
    case False
    with csr_write_loop_rule [OF L I, of len buf a] len show ?thesis by (auto elim!: ok_mono)
  qed
  have "hw_ESC_write os opts a buf len h = do {
      h1 \<leftarrow> ?access;
      if \<not> alevent_tail_needed opts a then Some (None, h1)
      else do { (ev, h2) \<leftarrow> alevent_tail os h1; Some (Some ev, h2) }
    }"
    using h by (simp add: hw_ESC_write_def)
  then show ?thesis
  proof (simp only: ok_bind, intro ok_mono [OF A], goal_cases)
    case (1 h1)
    then have "port_post P fd view (idle (ram_store a buf m)) h1" by simp
    from alevent_tail_rule [OF L this] this show ?case
      by (auto elim!: ok_mono)
  qed
qed

section \<open>Busy waits\<close>

definition takes_at_most :: "'c os \<Rightarrow> ('c \<Rightarrow> int) \<Rightarrow> int \<Rightarrow> bool" where
  "takes_at_most os clk \<delta> \<longleftrightarrow>
     (\<forall>k. clk (snd (clock_gettime os k)) \<le> clk k + \<delta> \<and>
        (\<forall>fd fr. clk (snd (spi_message os fd fr k)) \<le> clk k + \<delta>))"

lemma read_32_time:
  assumes "takes_at_most os clk \<delta>" and "lan9252_read_32 os reg h = (x, h')"
  shows "clk (kernel h') \<le> clk (kernel h) + 3 * \<delta>"
proof -
  let ?k1 = "snd (clock_gettime os (kernel h))"
  let ?k2 = "snd (spi_message os (spi_fd h) (frame_read reg) ?k1)"
  have "clk ?k1 \<le> clk (kernel h) + \<delta>" "clk ?k2 \<le> clk ?k1 + \<delta>" "clk (snd (clock_gettime os ?k2)) \<le> clk ?k2 + \<delta>"
    using assms(1) by (auto simp: takes_at_most_def)
  moreover have "kernel h' = snd (clock_gettime os ?k2)"
    using assms(2) by (auto simp: lan9252_read_32_def spi_xfer_def hw_timeout_def split: prod.splits option.splits if_splits)
  ultimately show ?thesis by simp
qed

abbreviation (input) decided :: "'c hw \<Rightarrow> bool" where "decided \<equiv> lan9252_init_core_reset"

lemma spi_xfer_decided: "spi_xfer os buf h = (r, h') \<Longrightarrow> decided h' = decided h"
  by (auto simp: spi_xfer_def hw_timeout_def split: prod.splits option.splits if_splits)

lemma read_32_decided: "lan9252_read_32 os reg h = (x, h') \<Longrightarrow> decided h' = decided h"
  by (auto simp: lan9252_read_32_def split: prod.splits option.splits dest: spi_xfer_decided)

lemma write_32_decided: "decided (lan9252_write_32 os reg x h) = decided h"
  unfolding lan9252_write_32_def by (metis prod.collapse spi_xfer_decided)

lemma write_32_fault: "hw_fault h \<Longrightarrow> hw_fault (lan9252_write_32 os reg x h)"
  unfolding lan9252_write_32_def by (metis prod.collapse spi_xfer_fd)

lemma poll_in_time:
  assumes T: "time_passes os clk" and d: "normal_ts d"
  shows "ok (\<lambda>((found, x), h'). (hw_fault h' \<or> wanted x) \<and> decided h' = decided h \<and>
      (takes_at_most os clk \<delta> \<and> clk (kernel h) \<le> in_ns d + \<delta> \<longrightarrow> clk (kernel h') \<le> in_ns d + 5 * \<delta>))
    (poll os reg wanted d h)"
proof (induction "nat (in_ns d + 1 - clk (kernel h))" arbitrary: h rule: less_induct)
  case less
  obtain x h1 where r: "lan9252_read_32 os reg h = (x, h1)" by fastforce
  obtain late h2 where l: "deadline_passed os d h1 = (late, h2)" by fastforce
  note late = deadline_passed_time [OF T d l]
  have clk: "clk (kernel h) < clk (kernel h1)" "clk (kernel h1) \<le> clk (kernel h2)"
    using read_32_clk [OF T r] clock_monotone [OF T] late(2) by simp_all
  have slow: "clk (kernel h1) \<le> clk (kernel h) + 3 * \<delta> \<and> clk (kernel h2) \<le> clk (kernel h1) + \<delta>"
    if "takes_at_most os clk \<delta>"
    using read_32_time [OF that r] that late(2) by (simp add: takes_at_most_def)
  have same: "decided h1 = decided h" "decided h2 = decided h1"
    using read_32_decided [OF r] late(2) by simp_all
  show ?case
  proof (cases "hw_fault h1 \<or> wanted x \<or> late")
    case True
    then show ?thesis
      using slow clk same by (subst poll.simps) (auto simp: r l hw_timeout_def)
  next
    case False
    then have "ok (\<lambda>((found, x), h'). (hw_fault h' \<or> wanted x) \<and> decided h' = decided h2 \<and>
        (takes_at_most os clk \<delta> \<and> clk (kernel h2) \<le> in_ns d + \<delta> \<longrightarrow> clk (kernel h') \<le> in_ns d + 5 * \<delta>))
        (poll os reg wanted d h2)"
      using late(1) clk by (intro less.hyps) auto
    then have "ok (\<lambda>((found, x), h'). (hw_fault h' \<or> wanted x) \<and> decided h' = decided h \<and>
        (takes_at_most os clk \<delta> \<and> clk (kernel h) \<le> in_ns d + \<delta> \<longrightarrow> clk (kernel h') \<le> in_ns d + 5 * \<delta>))
        (poll os reg wanted d h2)"
      by (rule ok_mono) (use False late(1) slow same in auto)
    then show ?thesis using False by (subst poll.simps) (simp add: r l)
  qed
qed

lemma wait_until_time:
  assumes T: "time_passes os clk"
  shows "ok (\<lambda>(x, h'). (hw_fault h' \<or> x AND msk = want) \<and> decided h' = decided h \<and> (takes_at_most os clk \<delta> \<longrightarrow>
      clk (kernel h') \<le> clk (kernel h) + int (unat (timeout_ms h)) * 1000000 + 5 * \<delta>)) (wait_until os reg msk want h)"
proof -
  obtain d h1 where d: "deadline_set os (timeout_ms h) h = (d, h1)" by fastforce
  note s = deadline_set_time [OF T d]
  have "clk (kernel h1) \<le> in_ns d + \<delta>" if "takes_at_most os clk \<delta>"
  proof -
    have "clk (kernel h1) \<le> clk (kernel h) + \<delta>" using s(3) that by (simp add: takes_at_most_def)
    moreover have "0 \<le> int (unat (timeout_ms h)) * 1000000" by simp
    ultimately show ?thesis unfolding s(2) by linarith
  qed
  then show ?thesis
    unfolding wait_until_def d using s(2,3)
    by (auto intro!: ok_mono [OF poll_in_time [OF T s(1), where \<delta> = \<delta>]])
qed

text \<open>
  Every busy wait of the layer ends in time, whatever the chip answers: with the wanted value
  or with the fault latched, no later than the configured timeout and one more poll.
\<close>

theorem busy_wait_ends:
  assumes "time_passes os clk" and "takes_at_most os clk \<delta>"
  shows "\<exists>x h'. wait_until os reg msk want h = Some (x, h') \<and> (hw_fault h' \<or> x AND msk = want) \<and>
    clk (kernel h') \<le> clk (kernel h) + int (unat (timeout_ms h)) * 1000000 + 5 * \<delta>"
  using wait_until_time [OF assms(1), where msk = msk and want = want and \<delta> = \<delta> and h = h and reg = reg] assms(2) by (auto simp: ok_ex)

theorem busy_wait_ends_witness:
  "\<exists>x h'. wait_until sim_os ESC_CMD_BYTE_TEST 0xFFFFFFFF ESC_BYTE_TEST_OK (sim_hw (\<lambda>_. 0)) = Some (x, h') \<and>
    (hw_fault h' \<or> x AND 0xFFFFFFFF = ESC_BYTE_TEST_OK) \<and>
    snd (kernel h') \<le> snd (kernel (sim_hw (\<lambda>_. 0))) + int (unat (timeout_ms (sim_hw (\<lambda>_. 0)))) * 1000000 + 5 * 1"
proof (rule busy_wait_ends [OF sim_time])
  show "takes_at_most sim_os snd 1"
    by (auto simp: takes_at_most_def sim_os_def split: prod.splits)
qed

section \<open>The accesses\<close>

text \<open>
  C36. Over a chip that follows its protocol, \<open>ESC_read\<close> is a read of its memory: it returns, the
  buffer has the bytes at the address, the memory is unchanged, and the event register has been
  published where the stack needs it; or the fault is latched, which does not happen on a chip
  that answers promptly.
\<close>

theorem hw_read_is_memory:
  assumes "lan9252 os fd view" and "time_passes os clk"
    and "\<not> hw_fault h" and "spi_fd h = fd" and "0 \<le> fd" and "csr_cmd (view (kernel h)) = None"
    and "length buf = unat len"
  shows "\<exists>bs ev h'. hw_ESC_read os opts a buf len h = Some (bs, ev, h') \<and>
    (lan_prompt os fd view \<longrightarrow> \<not> hw_fault h') \<and>
    (\<not> hw_fault h' \<longrightarrow>
       bs = map (fst (ram_read a (unat len) (lan_mem (view (kernel h))))) [0..<unat len] \<and>
       lan_mem (view (kernel h')) = lan_mem (view (kernel h)) \<and> csr_cmd (view (kernel h')) = None \<and>
       ev = (if alevent_tail_needed opts a \<or> (a = ESCREG_ALEVENT \<and> 4 \<le> len)
             then Some (event_of (lan_mem (view (kernel h)))) else None))"
proof -
  let ?P = "lan_prompt os fd view"
  have L: "lan_port os fd view clk ?P" using assms(1,2) by (simp add: lan_port_def)
  have I: "idle (lan_mem (view (kernel h))) (view (kernel h))" using assms(6) by (simp add: idle_def)
  from hw_ESC_read_rule [OF L assms(3,4,5) I assms(7), of a opts] show ?thesis
    by (auto simp: ok_ex port_post_def idle_def ram_read_def ram_bytes_def split: if_splits)
qed

theorem hw_read_is_memory_witness:
  "\<exists>ev h'. hw_ESC_read sim_os default_options 0x1001 (replicate 6 0) 6 (sim_hw ucast) =
     Some ([1, 2, 3, 4, 5, 6], ev, h') \<and> \<not> hw_fault h'"
proof -
  have "csr_cmd (fst (kernel (sim_hw ucast))) = None" "\<not> hw_fault (sim_hw ucast)" "spi_fd (sim_hw ucast) = 3"
    "lan_mem (fst (kernel (sim_hw ucast))) = ucast"
    by (simp_all add: sim_hw_def hw_start_def)
  moreover have "map (fst (ram_read 0x1001 6 ucast)) [0..<6] = [1, 2, 3, 4, 5, 6]"
    by (simp add: ram_read_def upt_rec)
  ultimately show ?thesis
    using hw_read_is_memory [OF sim_lan9252 sim_time, where h = "sim_hw ucast" and fd = 3 and buf = "replicate 6 0"
        and len = 6 and opts = default_options and a = "0x1001"] sim_prompt
    by auto
qed

text \<open>
  C37. Over a chip that follows its protocol, \<open>ESC_write\<close> stores the buffer in its memory, byte for
  byte, whatever the alignment and the length; or the fault is latched, which does not happen on a
  chip that answers promptly.
\<close>

theorem hw_write_is_store:
  assumes "lan9252 os fd view" and "time_passes os clk"
    and "\<not> hw_fault h" and "spi_fd h = fd" and "0 \<le> fd" and "csr_cmd (view (kernel h)) = None"
    and "length buf = unat len" and "unat a + unat len \<le> 65536"
  shows "\<exists>ev h'. hw_ESC_write os opts a buf len h = Some (ev, h') \<and>
    (lan_prompt os fd view \<longrightarrow> \<not> hw_fault h') \<and>
    (\<not> hw_fault h' \<longrightarrow>
       lan_mem (view (kernel h')) = snd (ram_write a buf (lan_mem (view (kernel h)))) \<and>
       csr_cmd (view (kernel h')) = None \<and>
       ev = (if alevent_tail_needed opts a
             then Some (event_of (snd (ram_write a buf (lan_mem (view (kernel h)))))) else None))"
proof -
  let ?P = "lan_prompt os fd view"
  have L: "lan_port os fd view clk ?P" using assms(1,2) by (simp add: lan_port_def)
  have I: "idle (lan_mem (view (kernel h))) (view (kernel h))" using assms(6) by (simp add: idle_def)
  from hw_ESC_write_rule [OF L assms(3,4,5) I assms(7,8), of opts] show ?thesis
    by (auto simp: ok_ex port_post_def idle_def ram_write_def split: if_splits)
qed

theorem hw_write_is_store_witness:
  "\<exists>ev h'. hw_ESC_write sim_os default_options 0x0911 [7, 8, 9] 3 (sim_hw (\<lambda>_. 0)) = Some (ev, h') \<and> \<not> hw_fault h' \<and>
     lan_mem (fst (kernel h')) 0x0912 = 8"
proof -
  have "csr_cmd (fst (kernel (sim_hw (\<lambda>_. 0)))) = None" "\<not> hw_fault (sim_hw (\<lambda>_. 0))" "spi_fd (sim_hw (\<lambda>_. 0)) = 3"
    by (simp_all add: sim_hw_def hw_start_def)
  moreover have "snd (ram_write 0x0911 [7, 8, 9] m) 0x0912 = 8" for m
    by (simp add: ram_write_def)
  ultimately show ?thesis
    using hw_write_is_store [OF sim_lan9252 sim_time, where h = "sim_hw (\<lambda>_. 0)" and fd = 3 and buf = "[7, 8, 9]"
        and len = 3 and a = "0x0911" and opts = default_options] sim_prompt
    by auto
qed

text \<open>
  C39. Whatever is on the other end of the SPI, reads, writes and the initialisation return; a read
  gives as many bytes as asked for, and an initialisation that fails leaves the fault latched.
\<close>

theorem hw_accesses_return:
  assumes "time_passes os clk" and "length buf = unat len"
  shows "(\<exists>bs ev h'. hw_ESC_read os opts a buf len h = Some (bs, ev, h') \<and> length bs = unat len) \<and>
    (\<exists>ev h'. hw_ESC_write os opts a buf len h = Some (ev, h')) \<and>
    (\<exists>rc ev h'. hw_ESC_init os opts cfg h = Some (rc, ev, h') \<and> (rc = 0 \<or> rc = -1 \<and> hw_fault h'))"
  using hw_read_any [OF assms, of opts a h] hw_write_any [OF assms, of opts a h] hw_init_any [OF assms(1), of opts cfg h]
  by (auto simp: ok_ex)

theorem hw_accesses_return_witness:
  "(\<exists>bs ev h'. hw_ESC_read sim_os default_options 0x1000 [0] 1 (sim_hw (\<lambda>_. 0)) = Some (bs, ev, h') \<and> length bs = 1) \<and>
    (\<exists>rc ev h'. hw_ESC_init sim_os default_options None (sim_hw (\<lambda>_. 0)) = Some (rc, ev, h') \<and>
       (rc = 0 \<or> rc = -1 \<and> hw_fault h'))"
  using hw_accesses_return [OF sim_time, where buf = "[0]" and len = 1 and opts = default_options and a = "0x1000"
      and cfg = None and h = "sim_hw (\<lambda>_. 0)"]
  by auto

section \<open>Start-up\<close>

text \<open>The memory of a chip that no master has configured: AL status INIT, SYNC0 off, no clock offset.\<close>

definition unconfigured :: "ram \<Rightarrow> bool" where
  "unconfigured m \<longleftrightarrow> rd16 (ram_bytes m ESCREG_ALSTATUS 2) AND 0x0F \<le> to_u16 ESCinit \<and>
     m 0x0981 = 0 \<and> ram_bytes m 0x0920 8 = replicate 8 0"

lemma rd32_zero: "length bs = 4 \<Longrightarrow> rd32 bs = 0 \<longleftrightarrow> bs = replicate 4 0"
proof -
  assume l: "length bs = 4"
  have "le32 0 = replicate 4 0" by (simp add: le32_def eval_nat_numeral)
  with le32_rd32 [OF l] show ?thesis by (metis rd32_le32')
qed

lemma offset_zero:
  "(rd32 (ram_bytes m 0x0920 4) OR rd32 (ram_bytes m 0x0924 4)) = 0 \<longleftrightarrow> ram_bytes m 0x0920 8 = replicate 8 0"
proof -
  have "ram_bytes m 0x0920 8 = ram_bytes m 0x0920 4 @ ram_bytes m 0x0924 4"
    using ram_bytes_append [of m "0x0920" 4 4] by simp
  moreover have "replicate 8 (0 :: u8) = replicate 4 0 @ replicate 4 0"
    by (simp add: eval_nat_numeral)
  ultimately show ?thesis
    by (simp add: rd32_zero or_eq_0_iff)
qed

text \<open>The command, and then the three waits, each on its own register, in this order.\<close>

definition reset_awaited :: "exchange list \<Rightarrow> bool" where
  "reset_awaited polls \<longleftrightarrow> (\<exists>p1 p2 p3. polls = p1 @ p2 @ p3 \<and>
     awaited ESC_CMD_RESET_CTL ESC_RESET_CTRL_RST 0 p1 \<and>
     awaited ESC_CMD_BYTE_TEST 0xFFFFFFFF ESC_BYTE_TEST_OK p2 \<and>
     awaited ESC_CMD_HW_CFG ESC_HW_CFG_READY ESC_HW_CFG_READY p3)"

definition core_reset_sequence :: "'c os \<Rightarrow> 'c hw \<Rightarrow> 'c hw option" where
  "core_reset_sequence os h = do {
     let h = lan9252_write_32 os ESC_CMD_RESET_CTL ESC_RESET_CTRL_RST h;
     (_, h) \<leftarrow> wait_until os ESC_CMD_RESET_CTL ESC_RESET_CTRL_RST 0 h;
     h \<leftarrow> wait_byte_test os h;
     wait_hw_ready os h
   }"

lemma wait_keeps:
  assumes T: "time_passes os clk" and S: "spi_logged os log"
    and Q: "\<And>x h' es. decided h' = decided h \<Longrightarrow> (hw_fault h \<Longrightarrow> hw_fault h') \<Longrightarrow>
      log (kernel h') = log (kernel h) @ es \<Longrightarrow> \<forall>e \<in> set es. fst e = frame_read reg \<Longrightarrow>
      (\<not> hw_fault h' \<Longrightarrow> awaited reg msk want es) \<Longrightarrow> Q (x, h')"
  shows "ok Q (wait_until os reg msk want h)"
proof -
  have "ok (\<lambda>(x, h'). decided h' = decided h) (wait_until os reg msk want h)"
    by (rule ok_mono [OF wait_until_time [OF T]]) auto
  moreover have "ok (\<lambda>(x, h'). (hw_fault h \<longrightarrow> hw_fault h') \<and> (\<exists>es. log (kernel h') = log (kernel h) @ es \<and>
      (\<forall>e \<in> set es. fst e = frame_read reg) \<and> (\<not> hw_fault h' \<longrightarrow> awaited reg msk want es)))
    (wait_until os reg msk want h)"
    by (rule wait_until_logged [OF T S]) auto
  ultimately show ?thesis
    by (rule ok_mono [OF ok_conj]) (auto intro: Q)
qed

text \<open>The reset itself: it returns, does not lose a fault and does not touch the decision.\<close>

definition reset_log :: "'c hw \<Rightarrow> exchange list \<Rightarrow> bool" where
  "reset_log h' es \<longleftrightarrow> (\<exists>rx polls. es = (reset_command, rx) # polls \<and> reset_command \<notin> fst ` set polls \<and>
     (hw_fault h' \<or> reset_awaited polls))"

lemma reset_logI:
  assumes "es = (reset_command, rx) # p1 @ p2 @ p3"
    and "\<forall>e \<in> set p1. fst e = frame_read ESC_CMD_RESET_CTL" "\<forall>e \<in> set p2. fst e = frame_read ESC_CMD_BYTE_TEST"
      "\<forall>e \<in> set p3. fst e = frame_read ESC_CMD_HW_CFG"
    and "\<not> hw_fault h' \<Longrightarrow> awaited ESC_CMD_RESET_CTL ESC_RESET_CTRL_RST 0 p1"
      "\<not> hw_fault h' \<Longrightarrow> awaited ESC_CMD_BYTE_TEST 0xFFFFFFFF ESC_BYTE_TEST_OK p2"
      "\<not> hw_fault h' \<Longrightarrow> awaited ESC_CMD_HW_CFG ESC_HW_CFG_READY ESC_HW_CFG_READY p3"
  shows "reset_log h' es"
proof -
  have "fst e \<noteq> reset_command" if "e \<in> set (p1 @ p2 @ p3)" for e
    using that assms(2-4) by auto
  then have "reset_command \<notin> fst ` set (p1 @ p2 @ p3)" by force
  with assms(1,5-7) show ?thesis unfolding reset_log_def reset_awaited_def by blast
qed

lemma core_reset_keeps:
  assumes T: "time_passes os clk" and S: "spi_logged os log"
  shows "ok (\<lambda>h'. decided h' = decided h \<and> (hw_fault h \<longrightarrow> hw_fault h') \<and>
      (\<exists>es. log (kernel h') = log (kernel h) @ es \<and> reset_log h' es)) (core_reset_sequence os h)"
proof -
  obtain rx where w: "log (kernel (lan9252_write_32 os ESC_CMD_RESET_CTL ESC_RESET_CTRL_RST h)) =
      log (kernel h) @ [(reset_command, rx)]"
    using write_32_logged [OF S] unfolding reset_command_def by metis
  show ?thesis
    unfolding core_reset_sequence_def wait_byte_test_def wait_hw_ready_def Let_def ok_bind
  proof (rule wait_keeps [OF T S], unfold prod.case ok_bind, rule wait_keeps [OF T S], unfold prod.case ok_bind ok_Some,
      rule wait_keeps [OF T S], unfold prod.case ok_Some, goal_cases)
    case (1 x1 h1 p1 x2 h2 p2 x3 h3 p3)
    then have "log (kernel h3) = log (kernel h) @ (reset_command, rx) # p1 @ p2 @ p3" using w by simp
    moreover have "reset_log h3 ((reset_command, rx) # p1 @ p2 @ p3)"
      using 1 by (intro reset_logI) auto
    ultimately show ?case using 1 write_32_decided write_32_fault by metis
  qed
qed

lemma csr_read_ok:
  assumes L: "lan_port os fd view clk P" and "spi_logged os log"
    and "port_post P fd view (idle m) h" and "legal_access a n"
    and "\<And>bs h'. (hw_fault h \<Longrightarrow> hw_fault h') \<Longrightarrow> port_post P fd view (idle m) h' \<Longrightarrow>
      (\<not> hw_fault h' \<Longrightarrow> bs = ram_bytes m a (unat n)) \<Longrightarrow> no_reset log h h' \<Longrightarrow> Q (bs, h')"
  shows "ok Q (ESC_read_csr os a n h)"
  by (rule ok_mono [OF ok_conj [OF ESC_read_csr_rule [OF L assms(3,4)] ESC_read_csr_logged [OF port_time [OF L] assms(2)]]])
    (auto intro: assms(5))

text \<open>
  What the reset decision leaves behind: up to the decision no reset command in the log; then the
  reset, or nothing at all. The decision is the right one unless an access failed.
\<close>

definition reset_post :: "bool \<Rightarrow> int \<Rightarrow> ('c \<Rightarrow> lan) \<Rightarrow> ram \<Rightarrow> ('c \<Rightarrow> exchange list) \<Rightarrow> 'c hw \<Rightarrow> 'c hw \<Rightarrow> bool" where
  "reset_post P fd view m log h h' \<longleftrightarrow>
     (\<exists>pre post. log (kernel h') = log (kernel h) @ pre @ post \<and> reset_command \<notin> fst ` set pre \<and>
        (if decided h' then reset_log h' post else post = [] \<and> port_post P fd view (idle m) h')) \<and>
     (hw_fault h' \<and> \<not> P \<or> (decided h' \<longleftrightarrow> unconfigured m))"

lemma core_reset_rule:
  assumes L: "lan_port os fd view clk P" and S: "spi_logged os log" and h: "port_post P fd view (idle m) h"
  shows "ok (reset_post P fd view m log h) (core_reset_unless_configured os h)"
proof -
  define finish where "finish al act lo hi h4 = (let al_status = rd16 al; sync_act = act ! 0;
       offset_set = ((rd32 lo OR rd32 hi) \<noteq> 0);
       core_reset = (al_status AND 0x0F \<le> to_u16 ESCinit \<and> sync_act = 0 \<and> \<not> offset_set);
       h5 = h4\<lparr>lan9252_init_al_status := al_status, lan9252_init_sync_activation := sync_act,
                lan9252_init_dc_offset_set := offset_set, lan9252_init_core_reset := core_reset\<rparr>
     in if core_reset then core_reset_sequence os h5 else Some h5)" for al act lo hi and h4 :: "'a hw"
  have fin: "ok (reset_post P fd view m log h) (finish al act lo hi h4)"
    if f: "hw_fault h3 \<Longrightarrow> hw_fault h4" "hw_fault h2 \<Longrightarrow> hw_fault h3" "hw_fault h1 \<Longrightarrow> hw_fault h2"
      and al: "\<not> hw_fault h1 \<Longrightarrow> al = ram_bytes m ESCREG_ALSTATUS 2" and act: "\<not> hw_fault h2 \<Longrightarrow> act = ram_bytes m 0x0981 1"
      and lo: "\<not> hw_fault h3 \<Longrightarrow> lo = ram_bytes m 0x0920 4" and hi: "\<not> hw_fault h4 \<Longrightarrow> hi = ram_bytes m 0x0924 4"
      and I: "port_post P fd view (idle m) h4" and quiet: "no_reset log h h4" for al act lo hi and h1 h2 h3 h4 :: "'a hw"
  proof -
    let ?c = "rd16 al AND 0x0F \<le> to_u16 ESCinit \<and> act ! 0 = 0 \<and> \<not> (rd32 lo OR rd32 hi) \<noteq> 0"
    let ?h5 = "h4\<lparr>lan9252_init_al_status := rd16 al, lan9252_init_sync_activation := act ! 0,
                lan9252_init_dc_offset_set := ((rd32 lo OR rd32 hi) \<noteq> 0), lan9252_init_core_reset := ?c\<rparr>"
    obtain pre where pre: "log (kernel h4) = log (kernel h) @ pre" "reset_command \<notin> fst ` set pre"
      using quiet by (auto simp: no_reset_def)
    have P: "hw_fault h4 \<Longrightarrow> \<not> P" using I by (simp add: port_post_def)
    have c: "\<not> hw_fault h4 \<Longrightarrow> ?c \<longleftrightarrow> unconfigured m"
    proof -
      assume "\<not> hw_fault h4"
      moreover from this f have "\<not> hw_fault h3 \<and> \<not> hw_fault h2 \<and> \<not> hw_fault h1" by blast
      ultimately have "al = ram_bytes m ESCREG_ALSTATUS 2" "act ! 0 = m 0x0981"
        "lo = ram_bytes m 0x0920 4" "hi = ram_bytes m 0x0924 4"
        using al act lo hi by (simp_all add: ram_bytes_def)
      then show ?thesis using offset_zero [of m] by (simp add: unconfigured_def del: or_eq_0_iff)
    qed
    show ?thesis
    proof (cases ?c)
      case True
      have "ok (reset_post P fd view m log h) (core_reset_sequence os ?h5)"
      proof (rule ok_mono [OF core_reset_keeps [OF port_time [OF L] S]], elim conjE exE)
        fix h' es assume d: "decided h' = decided ?h5" "hw_fault ?h5 \<longrightarrow> hw_fault h'"
          and es: "log (kernel h') = log (kernel ?h5) @ es" "reset_log h' es"
        from d have "decided h'" "hw_fault h4 \<longrightarrow> hw_fault h'" using True by simp_all
        with c P True have "hw_fault h' \<and> \<not> P \<or> (decided h' \<longleftrightarrow> unconfigured m)" by blast
        with \<open>decided h'\<close> es pre show "reset_post P fd view m log h h'"
          unfolding reset_post_def by auto
      qed
      with True show ?thesis unfolding finish_def Let_def by simp
    next
      case False
      have "reset_post P fd view m log h ?h5"
        unfolding reset_post_def
      proof (intro conjI, rule exI [of _ pre], rule exI [of _ "[]"])
        show "hw_fault ?h5 \<and> \<not> P \<or> (decided ?h5 \<longleftrightarrow> unconfigured m)" using False c P by auto
      qed (use pre I False in \<open>auto simp: port_post_def\<close>)
      with False show ?thesis unfolding finish_def Let_def by auto
    qed
  qed
  have legal: "legal_access ESCREG_ALSTATUS 2" "legal_access 0x0981 1" "legal_access 0x0920 4" "legal_access 0x0924 4"
    by (simp_all add: legal_access_def)
  have eq: "core_reset_unless_configured os h = do {
      (al, h1) \<leftarrow> ESC_read_csr os ESCREG_ALSTATUS 2 h;
      (act, h2) \<leftarrow> ESC_read_csr os 0x0981 1 h1;
      (lo, h3) \<leftarrow> ESC_read_csr os 0x0920 4 h2;
      (hi, h4) \<leftarrow> ESC_read_csr os 0x0924 4 h3;
      finish al act lo hi h4
    }"
    unfolding core_reset_unless_configured_def finish_def core_reset_sequence_def Let_def ..
  show ?thesis
    unfolding eq ok_bind
  proof (rule csr_read_ok [OF L S h legal(1)], unfold prod.case ok_bind,
      rule csr_read_ok [OF L S _ legal(2)], assumption, unfold prod.case ok_bind,
      rule csr_read_ok [OF L S _ legal(3)], assumption, unfold prod.case ok_bind,
      rule csr_read_ok [OF L S _ legal(4)], assumption, unfold prod.case, goal_cases)
    case (1 al h1 act h2 lo h3 hi h4)
    then have "no_reset log h h4" by (meson no_reset_trans)
    with 1 show ?case by (intro fin [of h3 h4 h2 h1]) simp_all
  qed
qed

text \<open>
  C38. Start-up resets the EtherCAT core exactly when no master has configured the chip: AL status
  INIT, SYNC0 not activated and the clock offset unset. With everything that goes over the
  SPI in a log: when the decision is for the reset, the log has the reset command once, then, unless
  the fault is latched, the reads that wait for the end of the reset, for the byte test and for the
  chip to be ready, each up to the wanted value; when it is against the reset, the command is
  not sent and the memory of the chip is left as it is. The decision is the right one on
  every chip whose accesses succeed, and on a prompt one. After an access that failed, the fault is
  latched and start-up fails, but the values not read count as 0 and the decision is then for the
  reset, also on a configured chip.
\<close>

theorem core_reset_if_unconfigured:
  assumes "lan9252 os fd view" and "time_passes os clk" and "spi_logged os log"
    and "\<not> hw_fault h" and "spi_fd h = fd" and "csr_cmd (view (kernel h)) = None"
  shows "\<exists>h' pre post. core_reset_unless_configured os h = Some h' \<and>
    log (kernel h') = log (kernel h) @ pre @ post \<and> reset_command \<notin> fst ` set pre \<and>
    (if lan9252_init_core_reset h'
     then \<exists>rx polls. post = (reset_command, rx) # polls \<and> reset_command \<notin> fst ` set polls \<and>
       (hw_fault h' \<or> reset_awaited polls)
     else post = [] \<and> (hw_fault h' \<or> lan_mem (view (kernel h')) = lan_mem (view (kernel h)))) \<and>
    (hw_fault h' \<and> \<not> lan_prompt os fd view \<or>
      (lan9252_init_core_reset h' \<longleftrightarrow> unconfigured (lan_mem (view (kernel h))))) \<and>
    (lan_prompt os fd view \<and> \<not> unconfigured (lan_mem (view (kernel h))) \<longrightarrow> \<not> hw_fault h')"
proof -
  let ?P = "lan_prompt os fd view" let ?m = "lan_mem (view (kernel h))"
  have L: "lan_port os fd view clk ?P" using assms(1,2) by (simp add: lan_port_def)
  have "port_post ?P fd view (idle ?m) h" using assms(4-6) by (simp add: port_post_def idle_def)
  from core_reset_rule [OF L assms(3) this] obtain h' where
    "core_reset_unless_configured os h = Some h'" and r: "reset_post ?P fd view ?m log h h'" by (auto simp: ok_ex)
  moreover obtain pre post where p: "log (kernel h') = log (kernel h) @ pre @ post" "reset_command \<notin> fst ` set pre"
    "if decided h' then reset_log h' post else post = [] \<and> port_post ?P fd view (idle ?m) h'"
    "hw_fault h' \<and> \<not> ?P \<or> (decided h' \<longleftrightarrow> unconfigured ?m)"
    using r unfolding reset_post_def by blast
  moreover have "if decided h'
     then \<exists>rx polls. post = (reset_command, rx) # polls \<and> reset_command \<notin> fst ` set polls \<and> (hw_fault h' \<or> reset_awaited polls)
     else post = [] \<and> (hw_fault h' \<or> lan_mem (view (kernel h')) = ?m)"
    using p(3) by (auto simp: reset_log_def port_post_def idle_def)
  moreover have "\<not> hw_fault h'" if "?P \<and> \<not> unconfigured ?m"
    using p(3,4) that by (auto simp: port_post_def split: if_splits)
  ultimately show ?thesis by blast
qed

text \<open>
  On the recording kernel over the simulated chip: one in OP keeps its registers and is not sent
  the command; one as it powers up is sent it.
\<close>

definition recorded_hw :: "ram \<Rightarrow> ((lan \<times> int) \<times> exchange list) hw" where
  "recorded_hw m = (hw_start (kernel (sim_hw m), []))\<lparr>spi_fd := 3\<rparr>"

theorem core_reset_if_unconfigured_witness:
  "(\<exists>h'. core_reset_unless_configured (recording sim_os) (recorded_hw (\<lambda>a. if a = ESCREG_ALSTATUS then 8 else 0)) = Some h' \<and>
     \<not> hw_fault h' \<and> reset_command \<notin> fst ` set (snd (kernel h')) \<and> lan_mem (fst (fst (kernel h'))) ESCREG_ALSTATUS = 8) \<and>
   (\<exists>h'. core_reset_unless_configured (recording sim_os) (recorded_hw (\<lambda>_. 0)) = Some h' \<and>
     reset_command \<in> fst ` set (snd (kernel h')))"
proof -
  let ?m = "\<lambda>a. if a = ESCREG_ALSTATUS then 8 else (0 :: u8)"
  have m: "\<not> unconfigured ?m" "unconfigured (\<lambda>_. 0)"
    by (simp_all add: unconfigured_def ram_bytes_def upt_rec word_le_nat_alt) (simp add: eval_nat_numeral)
  have h: "csr_cmd ((fst \<circ> fst) (kernel (recorded_hw m))) = None" "\<not> hw_fault (recorded_hw m)" "spi_fd (recorded_hw m) = 3"
    "lan_mem (fst (fst (kernel (recorded_hw m)))) = m" "snd (kernel (recorded_hw m)) = []" for m
    by (simp_all add: recorded_hw_def sim_hw_def hw_start_def)
  note run = core_reset_if_unconfigured [OF recording_lan9252 [OF sim_lan9252] recording_time [OF sim_time] recording_logged
      h(2,3,1), unfolded comp_def h(4,5)]
  note prompt = recording_prompt [OF sim_prompt, of 3, unfolded comp_def]
  show ?thesis
    using run [of ?m] run [of "\<lambda>_. 0"] prompt m by (auto split: if_splits)
qed

end
