(* ===== verification/Lan_Stack.thy ===== *)
theory Lan_Stack
  imports Lan_Props Esc_SM
begin

text \<open>
  The stack on the LAN9252 layer: the environment whose hardware layer is \<open>Lan9252\<close>, and what the
  fault latch of the layer means for the state machine above it.
\<close>

text \<open>
  The functions of \<open>Lan9252\<close> as the hardware layer of an environment. The accesses return
  (\<open>hw_accesses_return\<close>), so the cases \<open>None\<close> do not occur. The environment's reads do not show
  what the buffer of the caller held before.
\<close>

definition lan_read :: "'c os \<Rightarrow> options \<Rightarrow> u16 \<Rightarrow> nat \<Rightarrow> 'c hw \<Rightarrow> (nat \<Rightarrow> u8) \<times> u32 option \<times> 'c hw" where
  "lan_read os opts a n h =
     (case hw_ESC_read os opts a (replicate n 0) (of_nat n) h of
        None \<Rightarrow> (\<lambda>i. 0, None, h)
      | Some (bs, ev, h') \<Rightarrow> (\<lambda>i. bs ! i, ev, h'))"

definition lan_write :: "'c os \<Rightarrow> options \<Rightarrow> u16 \<Rightarrow> bytes \<Rightarrow> 'c hw \<Rightarrow> u32 option \<times> 'c hw" where
  "lan_write os opts a bs h =
     (case hw_ESC_write os opts a bs (of_nat (length bs)) h of
        None \<Rightarrow> (None, h)
      | Some (ev, h') \<Rightarrow> (ev, h'))"

definition on_lan9252 :: "'c os \<Rightarrow> 'c hw env \<Rightarrow> bool" where
  "on_lan9252 os E \<longleftrightarrow> hal_read E = lan_read os (opt E) \<and> hal_write E = lan_write os (opt E)"

section \<open>A latched fault\<close>

lemma lan_read_fault: "hw_fault h \<Longrightarrow> lan_read os opts a 1 h = (\<lambda>i. [0] ! i, None, h)"
  by (simp add: lan_read_def hw_ESC_read_def)

lemma lan_write_fault: "hw_fault h \<Longrightarrow> lan_write os opts a bs h = (None, h)"
  by (simp add: lan_write_def hw_ESC_write_def)

lemma SM_wait_fault:
  "SM_wait E busy n s = Some t \<Longrightarrow> on_lan9252 os E \<Longrightarrow> busy = 0 \<Longrightarrow> hw_fault (world s) \<Longrightarrow> False"
proof (induction E busy n s t rule: SM_wait.raw_induct [rotated 1, consumes 1, case_names step])
  case (step w E busy n s t)
  have "ESC_SMreadpdi E n s = Some (s\<lparr>world := world s, ALevent := published None s, SM := (SM s)(n := (SM s n)\<lparr>ActPDI := 0\<rparr>)\<rparr>)"
    using step.prems by (simp add: ESC_SMreadpdi_eq on_lan9252_def lan_read_fault [simplified])
  with step show ?case by (fastforce split: if_splits)
qed

lemma stopoutput_fault:
  assumes E: "on_lan9252 os E" and f: "hw_fault (world s)"
  shows "ESC_stopoutput E s = None"
proof -
  have "SM_wait E 0 n s' = None" if "world s' = world s" for n s'
    using SM_wait_fault [OF _ E refl, of n s'] f that by (cases "SM_wait E 0 n s'") auto
  moreover have "ESC_SMwritepdi E n s' = Some (s'\<lparr>world := world s', ALevent := published None s'\<rparr>)" if "world s' = world s" for n s'
    using f E that by (simp add: ESC_SMwritepdi_def ESC_write_def on_lan9252_def lan_write_fault)
  ultimately show ?thesis
    by (simp add: ESC_stopoutput_def ESC_SMdisable_def)
qed

section \<open>A working chip\<close>

lemma lan_write_prompt:
  assumes L: "lan_port os fd view clk True" and h: "\<not> hw_fault h" "spi_fd h = fd" "0 \<le> fd" "idle m (view (kernel h))"
    and ev: "lan_write os opts a [v] h = (ev, h')"
  shows "\<not> hw_fault h' \<and> spi_fd h' = fd \<and> idle (m(a := v)) (view (kernel h'))"
proof -
  have "unat a + unat (1 :: u16) \<le> 65536" using unat_bound [of a] by simp
  from hw_ESC_write_rule [OF L h _ this, of "[v]" opts] ev show ?thesis
    by (auto simp: ok_ex lan_write_def port_post_def split: if_splits)
qed

lemma lan_read_prompt:
  assumes L: "lan_port os fd view clk True" and h: "\<not> hw_fault h" "spi_fd h = fd" "0 \<le> fd" "idle m (view (kernel h))"
    and r: "lan_read os opts a 1 h = (f, ev, h')"
  shows "f 0 = m a"
proof -
  from hw_ESC_read_rule [OF L h, of "[0]" 1 a opts] r show ?thesis
    by (auto simp: ok_ex lan_read_def port_post_def ram_bytes_def split: if_splits)
qed

lemma stopoutput_prompt:
  assumes L: "lan_port os fd view clk True" and E: "on_lan9252 os E"
    and h: "\<not> hw_fault (world s)" "spi_fd (world s) = fd" "0 \<le> fd" "idle m (view (kernel (world s)))"
  shows "ok (\<lambda>u. \<exists>t. u = APP_safe_state E t \<and> App_state t AND APPSTATE_OUTPUT = 0) (ESC_stopoutput E s)"
proof -
  let ?a = "sm_reg ESCREG_SM0PDI 2"
  let ?v = "ActPDI (SM s 2) OR ESCREG_SMENABLE_BIT"
  obtain ev w where w: "hal_write E ?a [?v] (world s) = (ev, w)" by fastforce
  then have "\<not> hw_fault w \<and> spi_fd w = fd \<and> idle (m(?a := ?v)) (view (kernel w))"
    using lan_write_prompt [OF L h] E by (simp add: on_lan9252_def)
  then have "fst (hal_read E ?a 1 w) 0 = ?v"
    using lan_read_prompt [OF L _ _ h(3), of w "m(?a := ?v)" "opt E" ?a] E
    by (cases "lan_read os (opt E) ?a 1 w") (auto simp: on_lan9252_def)
  moreover have "?v AND ESCREG_SMENABLE_BIT = 1"
    by (rule bit_word_eqI) (auto simp: bit_simps)
  ultimately have set: "fst (hal_read E ?a 1 (pdi_polls E ?a 0 w)) 0 AND ESCREG_SMENABLE_BIT \<noteq> 0" by simp
  have off: "(x AND APPSTATE_INPUT) AND APPSTATE_OUTPUT = 0" for x :: u8
    by (simp add: and.assoc)
  show ?thesis
    unfolding ESC_stopoutput_def ESC_SMdisable_def
    by (simp add: ESC_SMwritepdi_def ESC_write_def w, rule SM_wait_terminates [where k = 0])
      (use set off in \<open>auto simp: w\<close>)
qed

text \<open>
  C40. What the fault latch of the LAN9252 layer means for leaving OP. Over a chip that follows its
  protocol and answers promptly throughout (\<open>lan9252\<close>, \<open>lan_prompt\<close>), while time passes: when the
  fault is not latched, stopping the outputs returns, with the output flag cleared and the safe
  state of the application called; when it is, stopping the outputs never returns, because every
  read is 0 and the wait for the SyncManager to be disabled never ends, and the safe state is not
  called. Nothing is said of a chip that turns slow during the wait: it latches the fault there.
\<close>

theorem stop_outputs_on_lan9252:
  assumes "on_lan9252 os E" and "lan9252 os fd view" and "time_passes os clk" and "lan_prompt os fd view"
    and "spi_fd (world s) = fd" and "0 \<le> fd" and "csr_cmd (view (kernel (world s))) = None"
  shows "if hw_fault (world s) then ESC_stopoutput E s = None
    else \<exists>t. ESC_stopoutput E s = Some (APP_safe_state E t) \<and> App_state t AND APPSTATE_OUTPUT = 0"
proof -
  have L: "lan_port os fd view clk True" using assms(2-4) by (simp add: lan_port_def)
  have I: "idle (lan_mem (view (kernel (world s)))) (view (kernel (world s)))"
    using assms(7) by (simp add: idle_def)
  show ?thesis
    using stopoutput_fault [OF assms(1), of s] stopoutput_prompt [OF L assms(1) _ assms(5,6) I]
    by (auto simp: ok_ex)
qed

definition sim_env :: "(lan \<times> int) hw env" where
  "sim_env = quiet_env (lan_read sim_os default_options) (lan_write sim_os default_options) []"

definition sim_sys :: "bool \<Rightarrow> (lan \<times> int) hw sys" where
  "sim_sys fault = init_sys default_options (\<lambda>_. []) ((sim_hw (\<lambda>_. 0))\<lparr>hw_fault := fault\<rparr>)"

theorem stop_outputs_on_lan9252_witness:
  "ESC_stopoutput sim_env (sim_sys True) = None \<and>
   (\<exists>t. ESC_stopoutput sim_env (sim_sys False) = Some (APP_safe_state sim_env t) \<and> App_state t AND APPSTATE_OUTPUT = 0)"
proof -
  have E: "on_lan9252 sim_os sim_env" by (simp add: on_lan9252_def sim_env_def quiet_env_def)
  have s: "spi_fd (world (sim_sys f)) = 3" "csr_cmd (fst (kernel (world (sim_sys f)))) = None"
    "hw_fault (world (sim_sys f)) = f" for f
    by (simp_all add: sim_sys_def init_sys_def sim_hw_def hw_start_def)
  show ?thesis
    using stop_outputs_on_lan9252 [OF E sim_lan9252 sim_time sim_prompt s(1) _ s(2), of True]
      stop_outputs_on_lan9252 [OF E sim_lan9252 sim_time sim_prompt s(1) _ s(2), of False]
    by (simp add: s)
qed

end
