(* ===== verification/Drive_Obj.thy ===== *)
theory Drive_Obj
  imports Coe_Info
begin

text \<open>
  The variables of the drive application, \<open>Obj\<close> of the generated \<open>utypes.h\<close> (two axes): every
  scalar member and every array is a variable of its own, numbered in the order of the
  declaration, and the sizes are those of its type. The string constants of the dictionary
  follow the members outside the axes.
\<close>

section \<open>Members outside the axes\<close>

abbreviation (input) Obj_ErrorRegister :: nat where "Obj_ErrorRegister \<equiv> 0"
abbreviation (input) Obj_RecChannel1 :: nat where "Obj_RecChannel1 \<equiv> 1"
abbreviation (input) Obj_RecChannel2 :: nat where "Obj_RecChannel2 \<equiv> 2"
abbreviation (input) Obj_RecChannel3 :: nat where "Obj_RecChannel3 \<equiv> 3"
abbreviation (input) Obj_RecChannel4 :: nat where "Obj_RecChannel4 \<equiv> 4"
abbreviation (input) Obj_RecChannel5 :: nat where "Obj_RecChannel5 \<equiv> 5"
abbreviation (input) Obj_RecChannel6 :: nat where "Obj_RecChannel6 \<equiv> 6"
abbreviation (input) Obj_RecChannel7 :: nat where "Obj_RecChannel7 \<equiv> 7"
abbreviation (input) Obj_RecChannel8 :: nat where "Obj_RecChannel8 \<equiv> 8"
abbreviation (input) Obj_RecChannels :: nat where "Obj_RecChannels \<equiv> 9"
abbreviation (input) Obj_RecCommand :: nat where "Obj_RecCommand \<equiv> 10"
abbreviation (input) Obj_RecDivider :: nat where "Obj_RecDivider \<equiv> 11"
abbreviation (input) Obj_RecPreTrigger :: nat where "Obj_RecPreTrigger \<equiv> 12"
abbreviation (input) Obj_RecRecorded :: nat where "Obj_RecRecorded \<equiv> 13"
abbreviation (input) Obj_RecSamples :: nat where "Obj_RecSamples \<equiv> 14"
abbreviation (input) Obj_RecState :: nat where "Obj_RecState \<equiv> 15"
abbreviation (input) Obj_RecTriggerChannel :: nat where "Obj_RecTriggerChannel \<equiv> 16"
abbreviation (input) Obj_RecTriggerEdge :: nat where "Obj_RecTriggerEdge \<equiv> 17"
abbreviation (input) Obj_RecTriggerLevel :: nat where "Obj_RecTriggerLevel \<equiv> 18"
abbreviation (input) Obj_RecorderData :: nat where "Obj_RecorderData \<equiv> 19"
abbreviation (input) Obj_RecorderDataLength :: nat where "Obj_RecorderDataLength \<equiv> 20"
abbreviation (input) Obj_RestoreParameters :: nat where "Obj_RestoreParameters \<equiv> 21"
abbreviation (input) Obj_StoreParameters :: nat where "Obj_StoreParameters \<equiv> 22"
abbreviation (input) Obj_SvcAllow :: nat where "Obj_SvcAllow \<equiv> 23"
abbreviation (input) Obj_SvcContention :: nat where "Obj_SvcContention \<equiv> 24"
abbreviation (input) Obj_SvcHeartbeat :: nat where "Obj_SvcHeartbeat \<equiv> 25"
abbreviation (input) Obj_SvcOwner :: nat where "Obj_SvcOwner \<equiv> 26"
abbreviation (input) Obj_SvcRequest :: nat where "Obj_SvcRequest \<equiv> 27"
abbreviation (input) Obj_SvcTimeoutMs :: nat where "Obj_SvcTimeoutMs \<equiv> 28"
abbreviation (input) Obj_serial :: nat where "Obj_serial \<equiv> 29"
abbreviation (input) Obj_ErrorSettings_LocalErrorReaction :: nat where "Obj_ErrorSettings_LocalErrorReaction \<equiv> 30"
abbreviation (input) Obj_ErrorSettings_SyncErrorCounterLimit :: nat where "Obj_ErrorSettings_SyncErrorCounterLimit \<equiv> 31"
abbreviation (input) Obj_SM2Sync_CycleTime :: nat where "Obj_SM2Sync_CycleTime \<equiv> 32"
abbreviation (input) Obj_SM2Sync_SMEventMissed :: nat where "Obj_SM2Sync_SMEventMissed \<equiv> 33"
abbreviation (input) Obj_SM2Sync_SyncError :: nat where "Obj_SM2Sync_SyncError \<equiv> 34"
abbreviation (input) Obj_SM2Sync_SyncMode :: nat where "Obj_SM2Sync_SyncMode \<equiv> 35"
abbreviation (input) Obj_SM3Sync_CycleTime :: nat where "Obj_SM3Sync_CycleTime \<equiv> 36"
abbreviation (input) Obj_SM3Sync_SMEventMissed :: nat where "Obj_SM3Sync_SMEventMissed \<equiv> 37"
abbreviation (input) Obj_SM3Sync_SyncError :: nat where "Obj_SM3Sync_SyncError \<equiv> 38"
abbreviation (input) Obj_SM3Sync_SyncMode :: nat where "Obj_SM3Sync_SyncMode \<equiv> 39"

abbreviation (input) Str_1008 :: nat where "Str_1008 \<equiv> 40"
abbreviation (input) Str_1009 :: nat where "Str_1009 \<equiv> 41"
abbreviation (input) Str_100A :: nat where "Str_100A \<equiv> 42"

section \<open>Members of an axis\<close>

abbreviation (input) Axis_AdcCalAgpiA25 :: nat where "Axis_AdcCalAgpiA25 \<equiv> 0"
abbreviation (input) Axis_AdcCalAgpiA50 :: nat where "Axis_AdcCalAgpiA50 \<equiv> 1"
abbreviation (input) Axis_AdcCalAgpiA75 :: nat where "Axis_AdcCalAgpiA75 \<equiv> 2"
abbreviation (input) Axis_AdcCalAgpiAPin :: nat where "Axis_AdcCalAgpiAPin \<equiv> 3"
abbreviation (input) Axis_AdcCalAgpiB25 :: nat where "Axis_AdcCalAgpiB25 \<equiv> 4"
abbreviation (input) Axis_AdcCalAgpiB50 :: nat where "Axis_AdcCalAgpiB50 \<equiv> 5"
abbreviation (input) Axis_AdcCalAgpiB75 :: nat where "Axis_AdcCalAgpiB75 \<equiv> 6"
abbreviation (input) Axis_AdcCalAgpiBPin :: nat where "Axis_AdcCalAgpiBPin \<equiv> 7"
abbreviation (input) Axis_AdcCalI0Zero :: nat where "Axis_AdcCalI0Zero \<equiv> 8"
abbreviation (input) Axis_AdcCalI1Zero :: nat where "Axis_AdcCalI1Zero \<equiv> 9"
abbreviation (input) Axis_AdcCalVm25 :: nat where "Axis_AdcCalVm25 \<equiv> 10"
abbreviation (input) Axis_AdcCalVm50 :: nat where "Axis_AdcCalVm50 \<equiv> 11"
abbreviation (input) Axis_AdcCalVm75 :: nat where "Axis_AdcCalVm75 \<equiv> 12"
abbreviation (input) Axis_AdcCalVmPin :: nat where "Axis_AdcCalVmPin \<equiv> 13"
abbreviation (input) Axis_AdvFluxI :: nat where "Axis_AdvFluxI \<equiv> 14"
abbreviation (input) Axis_AdvFluxP :: nat where "Axis_AdvFluxP \<equiv> 15"
abbreviation (input) Axis_AdvPositionI :: nat where "Axis_AdvPositionI \<equiv> 16"
abbreviation (input) Axis_AdvPositionP :: nat where "Axis_AdvPositionP \<equiv> 17"
abbreviation (input) Axis_AdvTorqueI :: nat where "Axis_AdvTorqueI \<equiv> 18"
abbreviation (input) Axis_AdvTorqueP :: nat where "Axis_AdvTorqueP \<equiv> 19"
abbreviation (input) Axis_AdvVelocityFilterHz :: nat where "Axis_AdvVelocityFilterHz \<equiv> 20"
abbreviation (input) Axis_AdvVelocityI :: nat where "Axis_AdvVelocityI \<equiv> 21"
abbreviation (input) Axis_AdvVelocityP :: nat where "Axis_AdvVelocityP \<equiv> 22"
abbreviation (input) Axis_BoardTelemetryPeriod :: nat where "Axis_BoardTelemetryPeriod \<equiv> 23"
abbreviation (input) Axis_CheckFinalError :: nat where "Axis_CheckFinalError \<equiv> 24"
abbreviation (input) Axis_CheckOvershoot :: nat where "Axis_CheckOvershoot \<equiv> 25"
abbreviation (input) Axis_CheckSettling :: nat where "Axis_CheckSettling \<equiv> 26"
abbreviation (input) Axis_CheckStep :: nat where "Axis_CheckStep \<equiv> 27"
abbreviation (input) Axis_CheckSteps :: nat where "Axis_CheckSteps \<equiv> 28"
abbreviation (input) Axis_CheckT63 :: nat where "Axis_CheckT63 \<equiv> 29"
abbreviation (input) Axis_CheckT90 :: nat where "Axis_CheckT90 \<equiv> 30"
abbreviation (input) Axis_CogApply :: nat where "Axis_CogApply \<equiv> 31"
abbreviation (input) Axis_CogDirectionP2p :: nat where "Axis_CogDirectionP2p \<equiv> 32"
abbreviation (input) Axis_CogFriction :: nat where "Axis_CogFriction \<equiv> 33"
abbreviation (input) Axis_CogP2p :: nat where "Axis_CogP2p \<equiv> 34"
abbreviation (input) Axis_CogRevolutions :: nat where "Axis_CogRevolutions \<equiv> 35"
abbreviation (input) Axis_CogRevolutionsMeasured :: nat where "Axis_CogRevolutionsMeasured \<equiv> 36"
abbreviation (input) Axis_CogRms :: nat where "Axis_CogRms \<equiv> 37"
abbreviation (input) Axis_CogSpeed :: nat where "Axis_CogSpeed \<equiv> 38"
abbreviation (input) Axis_CoggingBlendRpm :: nat where "Axis_CoggingBlendRpm \<equiv> 39"
abbreviation (input) Axis_CoggingEnable :: nat where "Axis_CoggingEnable \<equiv> 40"
abbreviation (input) Axis_CoggingFadeRpm :: nat where "Axis_CoggingFadeRpm \<equiv> 41"
abbreviation (input) Axis_CoggingGain :: nat where "Axis_CoggingGain \<equiv> 42"
abbreviation (input) Axis_CoggingStatus :: nat where "Axis_CoggingStatus \<equiv> 43"
abbreviation (input) Axis_Controlword :: nat where "Axis_Controlword \<equiv> 44"
abbreviation (input) Axis_CurrentU :: nat where "Axis_CurrentU \<equiv> 45"
abbreviation (input) Axis_CurrentV :: nat where "Axis_CurrentV \<equiv> 46"
abbreviation (input) Axis_CurrentW :: nat where "Axis_CurrentW \<equiv> 47"
abbreviation (input) Axis_DisableOperationOptionCode :: nat where "Axis_DisableOperationOptionCode \<equiv> 48"
abbreviation (input) Axis_DriveStatusFlags :: nat where "Axis_DriveStatusFlags \<equiv> 49"
abbreviation (input) Axis_EncoderIncrements :: nat where "Axis_EncoderIncrements \<equiv> 50"
abbreviation (input) Axis_ErrorCode :: nat where "Axis_ErrorCode \<equiv> 51"
abbreviation (input) Axis_FaultReactionOptionCode :: nat where "Axis_FaultReactionOptionCode \<equiv> 52"
abbreviation (input) Axis_FbCommutationOffset :: nat where "Axis_FbCommutationOffset \<equiv> 53"
abbreviation (input) Axis_FbEncoderCounts :: nat where "Axis_FbEncoderCounts \<equiv> 54"
abbreviation (input) Axis_FbEncoderDirection :: nat where "Axis_FbEncoderDirection \<equiv> 55"
abbreviation (input) Axis_FbHallDirection :: nat where "Axis_FbHallDirection \<equiv> 56"
abbreviation (input) Axis_FbHallOffset :: nat where "Axis_FbHallOffset \<equiv> 57"
abbreviation (input) Axis_FbHallPolarity :: nat where "Axis_FbHallPolarity \<equiv> 58"
abbreviation (input) Axis_FbPolePairs :: nat where "Axis_FbPolePairs \<equiv> 59"
abbreviation (input) Axis_FbcCountsPerRev :: nat where "Axis_FbcCountsPerRev \<equiv> 60"
abbreviation (input) Axis_FbcCountsPerTurn :: nat where "Axis_FbcCountsPerTurn \<equiv> 61"
abbreviation (input) Axis_FbcEncoderResidual :: nat where "Axis_FbcEncoderResidual \<equiv> 62"
abbreviation (input) Axis_FbcFindings :: nat where "Axis_FbcFindings \<equiv> 63"
abbreviation (input) Axis_FbcHallDirection :: nat where "Axis_FbcHallDirection \<equiv> 64"
abbreviation (input) Axis_FbcHallOffset :: nat where "Axis_FbcHallOffset \<equiv> 65"
abbreviation (input) Axis_FbcPolePairs :: nat where "Axis_FbcPolePairs \<equiv> 66"
abbreviation (input) Axis_FbcTurns :: nat where "Axis_FbcTurns \<equiv> 67"
abbreviation (input) Axis_Feed :: nat where "Axis_Feed \<equiv> 68"
abbreviation (input) Axis_FeedShaftRevolutions :: nat where "Axis_FeedShaftRevolutions \<equiv> 69"
abbreviation (input) Axis_FfAccelerationGain :: nat where "Axis_FfAccelerationGain \<equiv> 70"
abbreviation (input) Axis_FfInertia :: nat where "Axis_FfInertia \<equiv> 71"
abbreviation (input) Axis_FluxI :: nat where "Axis_FluxI \<equiv> 72"
abbreviation (input) Axis_FluxP :: nat where "Axis_FluxP \<equiv> 73"
abbreviation (input) Axis_FollowingErrorActual :: nat where "Axis_FollowingErrorActual \<equiv> 74"
abbreviation (input) Axis_FollowingErrorTimeout :: nat where "Axis_FollowingErrorTimeout \<equiv> 75"
abbreviation (input) Axis_FollowingErrorWindow :: nat where "Axis_FollowingErrorWindow \<equiv> 76"
abbreviation (input) Axis_GateDriverFaults :: nat where "Axis_GateDriverFaults \<equiv> 77"
abbreviation (input) Axis_GearMotorRevolutions :: nat where "Axis_GearMotorRevolutions \<equiv> 78"
abbreviation (input) Axis_GearShaftRevolutions :: nat where "Axis_GearShaftRevolutions \<equiv> 79"
abbreviation (input) Axis_HaltOptionCode :: nat where "Axis_HaltOptionCode \<equiv> 80"
abbreviation (input) Axis_IdentBandwidth :: nat where "Axis_IdentBandwidth \<equiv> 81"
abbreviation (input) Axis_IdentBridgeResistance :: nat where "Axis_IdentBridgeResistance \<equiv> 82"
abbreviation (input) Axis_IdentCurrentIAdvanced :: nat where "Axis_IdentCurrentIAdvanced \<equiv> 83"
abbreviation (input) Axis_IdentCurrentIClassic :: nat where "Axis_IdentCurrentIClassic \<equiv> 84"
abbreviation (input) Axis_IdentCurrentP :: nat where "Axis_IdentCurrentP \<equiv> 85"
abbreviation (input) Axis_IdentError :: nat where "Axis_IdentError \<equiv> 86"
abbreviation (input) Axis_IdentFitQuality :: nat where "Axis_IdentFitQuality \<equiv> 87"
abbreviation (input) Axis_IdentInductance :: nat where "Axis_IdentInductance \<equiv> 88"
abbreviation (input) Axis_IdentMotorResistance :: nat where "Axis_IdentMotorResistance \<equiv> 89"
abbreviation (input) Axis_IdentResistance :: nat where "Axis_IdentResistance \<equiv> 90"
abbreviation (input) Axis_IdentRoutine :: nat where "Axis_IdentRoutine \<equiv> 91"
abbreviation (input) Axis_IdentState :: nat where "Axis_IdentState \<equiv> 92"
abbreviation (input) Axis_IdentStepOvershoot :: nat where "Axis_IdentStepOvershoot \<equiv> 93"
abbreviation (input) Axis_IdentStepRise :: nat where "Axis_IdentStepRise \<equiv> 94"
abbreviation (input) Axis_IdentStepSettling :: nat where "Axis_IdentStepSettling \<equiv> 95"
abbreviation (input) Axis_IdentSupply :: nat where "Axis_IdentSupply \<equiv> 96"
abbreviation (input) Axis_IdentTestCurrent :: nat where "Axis_IdentTestCurrent \<equiv> 97"
abbreviation (input) Axis_IdentTimeConstant :: nat where "Axis_IdentTimeConstant \<equiv> 98"
abbreviation (input) Axis_LoopStructure :: nat where "Axis_LoopStructure \<equiv> 99"
abbreviation (input) Axis_MaxMotorSpeed :: nat where "Axis_MaxMotorSpeed \<equiv> 100"
abbreviation (input) Axis_MaxTorque :: nat where "Axis_MaxTorque \<equiv> 101"
abbreviation (input) Axis_MechBreakaway :: nat where "Axis_MechBreakaway \<equiv> 102"
abbreviation (input) Axis_MechCoulomb :: nat where "Axis_MechCoulomb \<equiv> 103"
abbreviation (input) Axis_MechInertia :: nat where "Axis_MechInertia \<equiv> 104"
abbreviation (input) Axis_MechInertiaKgm2 :: nat where "Axis_MechInertiaKgm2 \<equiv> 105"
abbreviation (input) Axis_MechLoad :: nat where "Axis_MechLoad \<equiv> 106"
abbreviation (input) Axis_MechMaxSpeed :: nat where "Axis_MechMaxSpeed \<equiv> 107"
abbreviation (input) Axis_MechMaxTorque :: nat where "Axis_MechMaxTorque \<equiv> 108"
abbreviation (input) Axis_MechPeakSpeed :: nat where "Axis_MechPeakSpeed \<equiv> 109"
abbreviation (input) Axis_MechPositionPAdvanced :: nat where "Axis_MechPositionPAdvanced \<equiv> 110"
abbreviation (input) Axis_MechPositionPClassic :: nat where "Axis_MechPositionPClassic \<equiv> 111"
abbreviation (input) Axis_MechQuality :: nat where "Axis_MechQuality \<equiv> 112"
abbreviation (input) Axis_MechUncertainty :: nat where "Axis_MechUncertainty \<equiv> 113"
abbreviation (input) Axis_MechVelocityBandwidth :: nat where "Axis_MechVelocityBandwidth \<equiv> 114"
abbreviation (input) Axis_MechVelocityFilter :: nat where "Axis_MechVelocityFilter \<equiv> 115"
abbreviation (input) Axis_MechVelocityIAdvanced :: nat where "Axis_MechVelocityIAdvanced \<equiv> 116"
abbreviation (input) Axis_MechVelocityIClassic :: nat where "Axis_MechVelocityIClassic \<equiv> 117"
abbreviation (input) Axis_MechVelocityP :: nat where "Axis_MechVelocityP \<equiv> 118"
abbreviation (input) Axis_MechViscous :: nat where "Axis_MechViscous \<equiv> 119"
abbreviation (input) Axis_MechWindowEnd :: nat where "Axis_MechWindowEnd \<equiv> 120"
abbreviation (input) Axis_MechWindowStart :: nat where "Axis_MechWindowStart \<equiv> 121"
abbreviation (input) Axis_ModesOfOperation :: nat where "Axis_ModesOfOperation \<equiv> 122"
abbreviation (input) Axis_ModesOfOperationDisplay :: nat where "Axis_ModesOfOperationDisplay \<equiv> 123"
abbreviation (input) Axis_MonitorDataRegister :: nat where "Axis_MonitorDataRegister \<equiv> 124"
abbreviation (input) Axis_MonitorSelectRegister :: nat where "Axis_MonitorSelectRegister \<equiv> 125"
abbreviation (input) Axis_MonitorSelectValue :: nat where "Axis_MonitorSelectValue \<equiv> 126"
abbreviation (input) Axis_MonitorValue :: nat where "Axis_MonitorValue \<equiv> 127"
abbreviation (input) Axis_MosfetTemp_mC :: nat where "Axis_MosfetTemp_mC \<equiv> 128"
abbreviation (input) Axis_MotionProfileType :: nat where "Axis_MotionProfileType \<equiv> 129"
abbreviation (input) Axis_MotorRatedCurrent :: nat where "Axis_MotorRatedCurrent \<equiv> 130"
abbreviation (input) Axis_MotorRatedTorque :: nat where "Axis_MotorRatedTorque \<equiv> 131"
abbreviation (input) Axis_MotorRevolutions :: nat where "Axis_MotorRevolutions \<equiv> 132"
abbreviation (input) Axis_MotorTemp_mC :: nat where "Axis_MotorTemp_mC \<equiv> 133"
abbreviation (input) Axis_PositionActual :: nat where "Axis_PositionActual \<equiv> 134"
abbreviation (input) Axis_PositionI :: nat where "Axis_PositionI \<equiv> 135"
abbreviation (input) Axis_PositionLimitMax :: nat where "Axis_PositionLimitMax \<equiv> 136"
abbreviation (input) Axis_PositionLimitMin :: nat where "Axis_PositionLimitMin \<equiv> 137"
abbreviation (input) Axis_PositionP :: nat where "Axis_PositionP \<equiv> 138"
abbreviation (input) Axis_PositionWindow :: nat where "Axis_PositionWindow \<equiv> 139"
abbreviation (input) Axis_PositionWindowTime :: nat where "Axis_PositionWindowTime \<equiv> 140"
abbreviation (input) Axis_ProfileAcceleration :: nat where "Axis_ProfileAcceleration \<equiv> 141"
abbreviation (input) Axis_ProfileDeceleration :: nat where "Axis_ProfileDeceleration \<equiv> 142"
abbreviation (input) Axis_ProfileJerk :: nat where "Axis_ProfileJerk \<equiv> 143"
abbreviation (input) Axis_ProfileVelocity :: nat where "Axis_ProfileVelocity \<equiv> 144"
abbreviation (input) Axis_QuickStopDeceleration :: nat where "Axis_QuickStopDeceleration \<equiv> 145"
abbreviation (input) Axis_QuickStopOptionCode :: nat where "Axis_QuickStopOptionCode \<equiv> 146"
abbreviation (input) Axis_ShaftAngle :: nat where "Axis_ShaftAngle \<equiv> 147"
abbreviation (input) Axis_ShutdownOptionCode :: nat where "Axis_ShutdownOptionCode \<equiv> 148"
abbreviation (input) Axis_SiUnitAcceleration :: nat where "Axis_SiUnitAcceleration \<equiv> 149"
abbreviation (input) Axis_SiUnitPosition :: nat where "Axis_SiUnitPosition \<equiv> 150"
abbreviation (input) Axis_SiUnitVelocity :: nat where "Axis_SiUnitVelocity \<equiv> 151"
abbreviation (input) Axis_SigAccelerationFeedForward :: nat where "Axis_SigAccelerationFeedForward \<equiv> 152"
abbreviation (input) Axis_SigCoggingTorque :: nat where "Axis_SigCoggingTorque \<equiv> 153"
abbreviation (input) Axis_SigReadToWrite :: nat where "Axis_SigReadToWrite \<equiv> 154"
abbreviation (input) Axis_SigVelocityFeedForward :: nat where "Axis_SigVelocityFeedForward \<equiv> 155"
abbreviation (input) Axis_Statusword :: nat where "Axis_Statusword \<equiv> 156"
abbreviation (input) Axis_SupplyVoltage_mV :: nat where "Axis_SupplyVoltage_mV \<equiv> 157"
abbreviation (input) Axis_SvcControlword :: nat where "Axis_SvcControlword \<equiv> 158"
abbreviation (input) Axis_SvcMaxTorque :: nat where "Axis_SvcMaxTorque \<equiv> 159"
abbreviation (input) Axis_SvcMode :: nat where "Axis_SvcMode \<equiv> 160"
abbreviation (input) Axis_SvcTargetPosition :: nat where "Axis_SvcTargetPosition \<equiv> 161"
abbreviation (input) Axis_SvcTargetTorque :: nat where "Axis_SvcTargetTorque \<equiv> 162"
abbreviation (input) Axis_SvcTargetVelocity :: nat where "Axis_SvcTargetVelocity \<equiv> 163"
abbreviation (input) Axis_TargetPosition :: nat where "Axis_TargetPosition \<equiv> 164"
abbreviation (input) Axis_TargetTorque :: nat where "Axis_TargetTorque \<equiv> 165"
abbreviation (input) Axis_TargetVelocity :: nat where "Axis_TargetVelocity \<equiv> 166"
abbreviation (input) Axis_TorqueActual :: nat where "Axis_TorqueActual \<equiv> 167"
abbreviation (input) Axis_TorqueI :: nat where "Axis_TorqueI \<equiv> 168"
abbreviation (input) Axis_TorqueP :: nat where "Axis_TorqueP \<equiv> 169"
abbreviation (input) Axis_VelocityActual :: nat where "Axis_VelocityActual \<equiv> 170"
abbreviation (input) Axis_VelocityFeedForward :: nat where "Axis_VelocityFeedForward \<equiv> 171"
abbreviation (input) Axis_VelocityI :: nat where "Axis_VelocityI \<equiv> 172"
abbreviation (input) Axis_VelocityLimit :: nat where "Axis_VelocityLimit \<equiv> 173"
abbreviation (input) Axis_VelocityP :: nat where "Axis_VelocityP \<equiv> 174"
abbreviation (input) Axis_CheckCurve :: nat where "Axis_CheckCurve \<equiv> 175"
abbreviation (input) Axis_CogResult :: nat where "Axis_CogResult \<equiv> 176"
abbreviation (input) Axis_CogResultNeg :: nat where "Axis_CogResultNeg \<equiv> 177"
abbreviation (input) Axis_CoggingTable :: nat where "Axis_CoggingTable \<equiv> 178"
abbreviation (input) Axis_CoggingTableNeg :: nat where "Axis_CoggingTableNeg \<equiv> 179"

section \<open>Numbers and sizes\<close>

text \<open>\<open>&Obj.axis[n]\<close> and its member number \<open>k\<close>.\<close>

definition axis_var :: "nat \<Rightarrow> nat \<Rightarrow> nat" where
  "axis_var n k = 256 * (n + 1) + k"

text \<open>\<open>sizeof\<close> of the members of \<open>_Objects\<close> outside the axes and of the strings, and of \<open>_Axis\<close>.\<close>

definition Objects_sizes :: "nat list" where
  "Objects_sizes = [
    1, 4, 4, 4, 4, 4, 4, 4, 4, 1, 1, 2, 2, 2, 2, 1, 1, 1, 4, 131072, 4, 4, 4, 1, 4, 4, 1, 1, 2, 4,
    4, 2, 4, 2, 1, 2, 4, 2, 1, 2, 10, 4, 4]"

definition Axis_sizes :: "nat list" where
  "Axis_sizes = [
    2, 2, 2, 2, 2, 2, 2, 2, 2, 2, 2, 2, 2, 2, 2, 2, 2, 2, 2, 2, 2, 2, 2, 2, 4, 2, 4, 4, 1, 4, 4, 1,
    2, 2, 2, 2, 2, 2, 2, 2, 1, 2, 2, 1, 2, 2, 2, 2, 2, 2, 4, 2, 2, 2, 4, 1, 1, 2, 1, 2, 4, 4, 2, 2,
    1, 2, 2, 2, 4, 4, 2, 4, 2, 2, 4, 2, 4, 2, 4, 4, 2, 2, 4, 2, 2, 2, 1, 2, 4, 4, 4, 1, 1, 2, 4, 4,
    4, 2, 4, 1, 4, 2, 4, 4, 4, 4, 4, 2, 2, 2, 2, 2, 2, 2, 2, 2, 2, 2, 2, 4, 4, 4, 1, 1, 1, 1, 1, 4,
    4, 2, 4, 4, 4, 4, 4, 2, 4, 4, 2, 4, 2, 4, 4, 4, 4, 4, 2, 2, 2, 4, 4, 4, 4, 4, 2, 4, 2, 4, 2, 2,
    1, 4, 2, 4, 4, 2, 4, 2, 2, 2, 4, 2, 2, 4, 2, 400, 256, 256, 256, 256]"

definition var_size :: "nat \<Rightarrow> nat" where
  "var_size b =
     (if b < 256 then (if b < length Objects_sizes then Objects_sizes ! b else 0)
      else (if b mod 256 < length Axis_sizes then Axis_sizes ! (b mod 256) else 0))"

lemma axis_var_div_mod: "k < 256 \<Longrightarrow> axis_var n k div 256 = Suc n" "k < 256 \<Longrightarrow> axis_var n k mod 256 = k"
  using mod_mult_self4 [of 256 "n + 1" k] div_mult_self4 [of 256 "n + 1" k] by (simp_all add: axis_var_def)

lemma axis_var_inject [simp]:
  "k < 256 \<Longrightarrow> l < 256 \<Longrightarrow> axis_var n k = axis_var m l \<longleftrightarrow> n = m \<and> k = l"
  by (metis axis_var_div_mod nat.inject)

lemma axis_var_ge: "256 \<le> axis_var n k"
  by (simp add: axis_var_def)

lemma var_size_axis: "k < length Axis_sizes \<Longrightarrow> var_size (axis_var n k) = Axis_sizes ! k"
  using axis_var_ge [of n k] by (simp add: var_size_def axis_var_div_mod Axis_sizes_def)

abbreviation (input) CMC_MIN_CYCLE_NS :: u32 where "CMC_MIN_CYCLE_NS \<equiv> 250000"
abbreviation (input) CMC_AXIS_COUNT :: nat where "CMC_AXIS_COUNT \<equiv> 2"

section \<open>Entries of the dictionary\<close>

abbreviation (input) ATYPE_RW :: u16 where "ATYPE_RW \<equiv> 0x3F"
abbreviation (input) OTYPE_RECORD :: u16 where "OTYPE_RECORD \<equiv> 0x0009"
abbreviation (input) DTYPE_BOOLEAN :: u16 where "DTYPE_BOOLEAN \<equiv> 0x0001"
abbreviation (input) DTYPE_INTEGER8 :: u16 where "DTYPE_INTEGER8 \<equiv> 0x0002"
abbreviation (input) DTYPE_INTEGER16 :: u16 where "DTYPE_INTEGER16 \<equiv> 0x0003"
abbreviation (input) DTYPE_INTEGER32 :: u16 where "DTYPE_INTEGER32 \<equiv> 0x0004"
abbreviation (input) DTYPE_UNSIGNED8 :: u16 where "DTYPE_UNSIGNED8 \<equiv> 0x0005"
abbreviation (input) DTYPE_UNSIGNED16 :: u16 where "DTYPE_UNSIGNED16 \<equiv> 0x0006"
abbreviation (input) DTYPE_UNSIGNED32 :: u16 where "DTYPE_UNSIGNED32 \<equiv> 0x0007"
abbreviation (input) DTYPE_REAL32 :: u16 where "DTYPE_REAL32 \<equiv> 0x0008"

text \<open>
  The initialisers \<open>{subindex, datatype, bitlength, flags, name, value, data}\<close> of \<open>_objd\<close> and
  \<open>{index, objtype, maxsub, pad1, name, objdesc}\<close> of \<open>_objectlist\<close>. A name is a constant string;
  the terminating NUL is not kept.
\<close>

definition ascii :: "string \<Rightarrow> bytes" where
  "ascii = map of_char"

definition obj_entry :: "u16 \<Rightarrow> u16 \<Rightarrow> u32 \<Rightarrow> u16 \<Rightarrow> string \<Rightarrow> u32 \<Rightarrow> ptr option \<Rightarrow> objd" where
  "obj_entry subindex datatype bitlength flags name val data = \<lparr>od_subindex = subindex,
     od_datatype = datatype, od_bitlength = bitlength, od_flags = flags, od_name = ascii name,
     od_value = val, od_data = data\<rparr>"

definition obj_item :: "u16 \<Rightarrow> u16 \<Rightarrow> u8 \<Rightarrow> string \<Rightarrow> objd list \<Rightarrow> objectlist" where
  "obj_item index objtype maxsub name objdesc = \<lparr>ol_index = index, ol_objtype = objtype,
     ol_maxsub = maxsub, ol_name = ascii name, ol_objdesc = objdesc\<rparr>"

lemma obj_entry_sel [simp]:
  "od_subindex (obj_entry i t n f nm v p) = i" "od_datatype (obj_entry i t n f nm v p) = t"
  "od_bitlength (obj_entry i t n f nm v p) = n" "od_flags (obj_entry i t n f nm v p) = f"
  "od_value (obj_entry i t n f nm v p) = v" "od_data (obj_entry i t n f nm v p) = p"
  by (simp_all add: obj_entry_def)

lemma obj_item_sel [simp]:
  "ol_index (obj_item i t m nm ds) = i" "ol_objtype (obj_item i t m nm ds) = t"
  "ol_maxsub (obj_item i t m nm ds) = m" "ol_objdesc (obj_item i t m nm ds) = ds"
  by (simp_all add: obj_item_def)

text \<open>The names need not be looked at to compute with an entry or an object.\<close>

lemma obj_entry_cong: "obj_entry i t n f nm v p = obj_entry i t n f nm v p"
  by simp

lemma obj_item_cong: "obj_item i t m nm ds = obj_item i t m nm ds"
  by simp

end
