(* ===== verification/Dict_Common.thy ===== *)
theory Dict_Common
  imports Drive_Obj
begin

text \<open>
  The device part of the two-axis dictionary (objects \<open>0x1000\<close> to \<open>0x1FFF\<close>: identity, error settings,
  PDO mappings, SyncManager parameters) and the manufacturer objects that belong to no axis.
  Entry for entry the arrays of \<open>generated/cmc_drive_2ax/slave_objectlist.c\<close>.
\<close>

definition SDO1000 :: "objd list" where
  "SDO1000 = [
     obj_entry 0x0 DTYPE_UNSIGNED32 32 ATYPE_RO ''Device Type'' 131474 None]"

definition SDO1001 :: "objd list" where
  "SDO1001 = [
     obj_entry 0x0 DTYPE_UNSIGNED8 8 ATYPE_RO ''Error Register'' 0 (Some (Obj Obj_ErrorRegister, 0))]"

definition SDO1008 :: "objd list" where
  "SDO1008 = [
     obj_entry 0x0 DTYPE_VISIBLE_STRING 72 ATYPE_RO ''Device Name'' 0 (Some (Obj Str_1008, 0))]"

definition SDO1009 :: "objd list" where
  "SDO1009 = [
     obj_entry 0x0 DTYPE_VISIBLE_STRING 24 ATYPE_RO ''Hardware Version'' 0 (Some (Obj Str_1009, 0))]"

definition SDO100A :: "objd list" where
  "SDO100A = [
     obj_entry 0x0 DTYPE_VISIBLE_STRING 24 ATYPE_RO ''Software Version'' 0 (Some (Obj Str_100A, 0))]"

definition SDO1010 :: "objd list" where
  "SDO1010 = [
     obj_entry 0x0 DTYPE_UNSIGNED8 8 ATYPE_RO ''Store Parameters'' 1 None,
     obj_entry 0x1 DTYPE_UNSIGNED32 32 ATYPE_RW ''Save All Parameters'' 1 (Some (Obj Obj_StoreParameters, 0))]"

definition SDO1011 :: "objd list" where
  "SDO1011 = [
     obj_entry 0x0 DTYPE_UNSIGNED8 8 ATYPE_RO ''Restore Default Parameters'' 1 None,
     obj_entry 0x1 DTYPE_UNSIGNED32 32 ATYPE_RW ''Restore All Defaults'' 1 (Some (Obj Obj_RestoreParameters, 0))]"

definition SDO1018 :: "objd list" where
  "SDO1018 = [
     obj_entry 0x0 DTYPE_UNSIGNED8 8 ATYPE_RO ''Identity Object'' 4 None,
     obj_entry 0x1 DTYPE_UNSIGNED32 32 ATYPE_RO ''Vendor ID'' 4919 None,
     obj_entry 0x2 DTYPE_UNSIGNED32 32 ATYPE_RO ''Product Code'' 4098 None,
     obj_entry 0x3 DTYPE_UNSIGNED32 32 ATYPE_RO ''Revision'' 1 None,
     obj_entry 0x4 DTYPE_UNSIGNED32 32 ATYPE_RO ''Serial Number'' 0 (Some (Obj Obj_serial, 0))]"

definition SDO10F1 :: "objd list" where
  "SDO10F1 = [
     obj_entry 0x0 DTYPE_UNSIGNED8 8 ATYPE_RO ''Error Settings'' 2 None,
     obj_entry 0x1 DTYPE_UNSIGNED32 32 ATYPE_RW ''Local Error Reaction'' 0 (Some (Obj Obj_ErrorSettings_LocalErrorReaction, 0)),
     obj_entry 0x2 DTYPE_UNSIGNED16 16 ATYPE_RW ''Sync Error Counter Limit'' 24 (Some (Obj Obj_ErrorSettings_SyncErrorCounterLimit, 0))]"

definition SDO1600 :: "objd list" where
  "SDO1600 = [
     obj_entry 0x0 DTYPE_UNSIGNED8 8 ATYPE_RO ''RxPDO Drive Axis 0'' 7 None,
     obj_entry 0x1 DTYPE_UNSIGNED32 32 ATYPE_RO ''Target position'' 0x607A0020 None,
     obj_entry 0x2 DTYPE_UNSIGNED32 32 ATYPE_RO ''Target velocity'' 0x60FF0020 None,
     obj_entry 0x3 DTYPE_UNSIGNED32 32 ATYPE_RO ''Controlword'' 0x60400010 None,
     obj_entry 0x4 DTYPE_UNSIGNED32 32 ATYPE_RO ''Target torque'' 0x60710010 None,
     obj_entry 0x5 DTYPE_UNSIGNED32 32 ATYPE_RO ''Max torque'' 0x60720010 None,
     obj_entry 0x6 DTYPE_UNSIGNED32 32 ATYPE_RO ''Modes of operation'' 0x60600008 None,
     obj_entry 0x7 DTYPE_UNSIGNED32 32 ATYPE_RO ''padding'' 0x8 None]"

definition SDO1601 :: "objd list" where
  "SDO1601 = [
     obj_entry 0x0 DTYPE_UNSIGNED8 8 ATYPE_RO ''RxPDO Drive Axis 1'' 7 None,
     obj_entry 0x1 DTYPE_UNSIGNED32 32 ATYPE_RO ''Target position'' 0x687A0020 None,
     obj_entry 0x2 DTYPE_UNSIGNED32 32 ATYPE_RO ''Target velocity'' 0x68FF0020 None,
     obj_entry 0x3 DTYPE_UNSIGNED32 32 ATYPE_RO ''Controlword'' 0x68400010 None,
     obj_entry 0x4 DTYPE_UNSIGNED32 32 ATYPE_RO ''Target torque'' 0x68710010 None,
     obj_entry 0x5 DTYPE_UNSIGNED32 32 ATYPE_RO ''Max torque'' 0x68720010 None,
     obj_entry 0x6 DTYPE_UNSIGNED32 32 ATYPE_RO ''Modes of operation'' 0x68600008 None,
     obj_entry 0x7 DTYPE_UNSIGNED32 32 ATYPE_RO ''padding'' 0x8 None]"

definition SDO1A00 :: "objd list" where
  "SDO1A00 = [
     obj_entry 0x0 DTYPE_UNSIGNED8 8 ATYPE_RO ''TxPDO Drive Axis 0'' 10 None,
     obj_entry 0x1 DTYPE_UNSIGNED32 32 ATYPE_RO ''Position actual value'' 0x60640020 None,
     obj_entry 0x2 DTYPE_UNSIGNED32 32 ATYPE_RO ''Velocity actual value'' 0x606C0020 None,
     obj_entry 0x3 DTYPE_UNSIGNED32 32 ATYPE_RO ''Following error actual value'' 0x60F40020 None,
     obj_entry 0x4 DTYPE_UNSIGNED32 32 ATYPE_RO ''GateDriverFaults'' 0x20000110 None,
     obj_entry 0x5 DTYPE_UNSIGNED32 32 ATYPE_RO ''DriveStatusFlags'' 0x20000210 None,
     obj_entry 0x6 DTYPE_UNSIGNED32 32 ATYPE_RO ''Statusword'' 0x60410010 None,
     obj_entry 0x7 DTYPE_UNSIGNED32 32 ATYPE_RO ''Torque actual value'' 0x60770010 None,
     obj_entry 0x8 DTYPE_UNSIGNED32 32 ATYPE_RO ''Error code'' 0x603F0010 None,
     obj_entry 0x9 DTYPE_UNSIGNED32 32 ATYPE_RO ''Modes of operation display'' 0x60610008 None,
     obj_entry 0xA DTYPE_UNSIGNED32 32 ATYPE_RO ''padding'' 0x8 None]"

definition SDO1A01 :: "objd list" where
  "SDO1A01 = [
     obj_entry 0x0 DTYPE_UNSIGNED8 8 ATYPE_RO ''TxPDO Drive Axis 1'' 10 None,
     obj_entry 0x1 DTYPE_UNSIGNED32 32 ATYPE_RO ''Position actual value'' 0x68640020 None,
     obj_entry 0x2 DTYPE_UNSIGNED32 32 ATYPE_RO ''Velocity actual value'' 0x686C0020 None,
     obj_entry 0x3 DTYPE_UNSIGNED32 32 ATYPE_RO ''Following error actual value'' 0x68F40020 None,
     obj_entry 0x4 DTYPE_UNSIGNED32 32 ATYPE_RO ''GateDriverFaults'' 0x28000110 None,
     obj_entry 0x5 DTYPE_UNSIGNED32 32 ATYPE_RO ''DriveStatusFlags'' 0x28000210 None,
     obj_entry 0x6 DTYPE_UNSIGNED32 32 ATYPE_RO ''Statusword'' 0x68410010 None,
     obj_entry 0x7 DTYPE_UNSIGNED32 32 ATYPE_RO ''Torque actual value'' 0x68770010 None,
     obj_entry 0x8 DTYPE_UNSIGNED32 32 ATYPE_RO ''Error code'' 0x683F0010 None,
     obj_entry 0x9 DTYPE_UNSIGNED32 32 ATYPE_RO ''Modes of operation display'' 0x68610008 None,
     obj_entry 0xA DTYPE_UNSIGNED32 32 ATYPE_RO ''padding'' 0x8 None]"

definition SDO1C00 :: "objd list" where
  "SDO1C00 = [
     obj_entry 0x0 DTYPE_UNSIGNED8 8 ATYPE_RO ''SM Communication Type'' 4 None,
     obj_entry 0x1 DTYPE_UNSIGNED8 8 ATYPE_RO ''Mailbox Receive'' 1 None,
     obj_entry 0x2 DTYPE_UNSIGNED8 8 ATYPE_RO ''Mailbox Send'' 2 None,
     obj_entry 0x3 DTYPE_UNSIGNED8 8 ATYPE_RO ''Process Data Output'' 3 None,
     obj_entry 0x4 DTYPE_UNSIGNED8 8 ATYPE_RO ''Process Data Input'' 4 None]"

definition SDO1C12 :: "objd list" where
  "SDO1C12 = [
     obj_entry 0x0 DTYPE_UNSIGNED8 8 ATYPE_RO ''RxPDO Assignment'' 2 None,
     obj_entry 0x1 DTYPE_UNSIGNED16 16 ATYPE_RO ''Assigned PDO 1600'' 0x1600 None,
     obj_entry 0x2 DTYPE_UNSIGNED16 16 ATYPE_RO ''Assigned PDO 1601'' 0x1601 None]"

definition SDO1C13 :: "objd list" where
  "SDO1C13 = [
     obj_entry 0x0 DTYPE_UNSIGNED8 8 ATYPE_RO ''TxPDO Assignment'' 2 None,
     obj_entry 0x1 DTYPE_UNSIGNED16 16 ATYPE_RO ''Assigned PDO 1A00'' 0x1A00 None,
     obj_entry 0x2 DTYPE_UNSIGNED16 16 ATYPE_RO ''Assigned PDO 1A01'' 0x1A01 None]"

definition SDO1C32 :: "objd list" where
  "SDO1C32 = [
     obj_entry 0x0 DTYPE_UNSIGNED8 8 ATYPE_RO ''SM2 Sync Parameters'' 32 None,
     obj_entry 0x1 DTYPE_UNSIGNED16 16 ATYPE_RW ''Sync Mode'' 0 (Some (Obj Obj_SM2Sync_SyncMode, 0)),
     obj_entry 0x2 DTYPE_UNSIGNED32 32 ATYPE_RW ''Cycle Time'' 0 (Some (Obj Obj_SM2Sync_CycleTime, 0)),
     obj_entry 0x5 DTYPE_UNSIGNED32 32 ATYPE_RO ''Minimum Cycle Time'' 250000 None,
     obj_entry 0xB DTYPE_UNSIGNED16 16 ATYPE_RO ''SM Event Missed Count'' 0 (Some (Obj Obj_SM2Sync_SMEventMissed, 0)),
     obj_entry 0x20 DTYPE_BOOLEAN 1 ATYPE_RO ''Sync Error'' 0 (Some (Obj Obj_SM2Sync_SyncError, 0))]"

definition SDO1C33 :: "objd list" where
  "SDO1C33 = [
     obj_entry 0x0 DTYPE_UNSIGNED8 8 ATYPE_RO ''SM3 Sync Parameters'' 32 None,
     obj_entry 0x1 DTYPE_UNSIGNED16 16 ATYPE_RW ''Sync Mode'' 0 (Some (Obj Obj_SM3Sync_SyncMode, 0)),
     obj_entry 0x2 DTYPE_UNSIGNED32 32 ATYPE_RW ''Cycle Time'' 0 (Some (Obj Obj_SM3Sync_CycleTime, 0)),
     obj_entry 0x5 DTYPE_UNSIGNED32 32 ATYPE_RO ''Minimum Cycle Time'' 250000 None,
     obj_entry 0xB DTYPE_UNSIGNED16 16 ATYPE_RO ''SM Event Missed Count'' 0 (Some (Obj Obj_SM3Sync_SMEventMissed, 0)),
     obj_entry 0x20 DTYPE_BOOLEAN 1 ATYPE_RO ''Sync Error'' 0 (Some (Obj Obj_SM3Sync_SyncError, 0))]"

end
