(* ===== verification/Dict_Axis0.thy ===== *)
theory Dict_Axis0
  imports Drive_Obj
begin

text \<open>
  The manufacturer and profile objects of the first axis.
  Entry for entry the arrays of \<open>generated/cmc_drive_2ax/slave_objectlist.c\<close>.
\<close>

definition SDO2000 :: "objd list" where
  "SDO2000 = [
     obj_entry 0x0 DTYPE_UNSIGNED8 8 ATYPE_RO ''Drive Faults and Status'' 2 None,
     obj_entry 0x1 DTYPE_UNSIGNED16 16 ATYPE_RO ''Gate Driver Faults'' 0 (Some (Obj (axis_var 0 Axis_GateDriverFaults), 0)),
     obj_entry 0x2 DTYPE_UNSIGNED16 16 ATYPE_RO ''Drive Status Flags'' 0 (Some (Obj (axis_var 0 Axis_DriveStatusFlags), 0))]"

definition SDO2001 :: "objd list" where
  "SDO2001 = [
     obj_entry 0x0 DTYPE_UNSIGNED8 8 ATYPE_RO ''Board Telemetry'' 4 None,
     obj_entry 0x1 DTYPE_UNSIGNED32 32 ATYPE_RO ''Supply Voltage mV'' 0 (Some (Obj (axis_var 0 Axis_SupplyVoltage_mV), 0)),
     obj_entry 0x2 DTYPE_INTEGER32 32 ATYPE_RO ''Motor Temp mC'' 0 (Some (Obj (axis_var 0 Axis_MotorTemp_mC), 0)),
     obj_entry 0x3 DTYPE_INTEGER32 32 ATYPE_RO ''MOSFET Temp mC'' 0 (Some (Obj (axis_var 0 Axis_MosfetTemp_mC), 0)),
     obj_entry 0x4 DTYPE_UNSIGNED16 16 ATYPE_RW ''Sample Period'' 50 (Some (Obj (axis_var 0 Axis_BoardTelemetryPeriod), 0))]"

definition SDO2002 :: "objd list" where
  "SDO2002 = [
     obj_entry 0x0 DTYPE_UNSIGNED8 8 ATYPE_RO ''Phase Currents'' 3 None,
     obj_entry 0x1 DTYPE_INTEGER16 16 ATYPE_RO ''Current U'' 0 (Some (Obj (axis_var 0 Axis_CurrentU), 0)),
     obj_entry 0x2 DTYPE_INTEGER16 16 ATYPE_RO ''Current V'' 0 (Some (Obj (axis_var 0 Axis_CurrentV), 0)),
     obj_entry 0x3 DTYPE_INTEGER16 16 ATYPE_RO ''Current W'' 0 (Some (Obj (axis_var 0 Axis_CurrentW), 0))]"

definition SDO2003 :: "objd list" where
  "SDO2003 = [
     obj_entry 0x0 DTYPE_UNSIGNED8 8 ATYPE_RO ''ADC Self-Calibration'' 14 None,
     obj_entry 0x1 DTYPE_UNSIGNED16 16 ATYPE_RO ''VM at 25% ref'' 0 (Some (Obj (axis_var 0 Axis_AdcCalVm25), 0)),
     obj_entry 0x2 DTYPE_UNSIGNED16 16 ATYPE_RO ''VM at 50% ref'' 0 (Some (Obj (axis_var 0 Axis_AdcCalVm50), 0)),
     obj_entry 0x3 DTYPE_UNSIGNED16 16 ATYPE_RO ''VM at 75% ref'' 0 (Some (Obj (axis_var 0 Axis_AdcCalVm75), 0)),
     obj_entry 0x4 DTYPE_UNSIGNED16 16 ATYPE_RO ''AGPI_A at 25% ref'' 0 (Some (Obj (axis_var 0 Axis_AdcCalAgpiA25), 0)),
     obj_entry 0x5 DTYPE_UNSIGNED16 16 ATYPE_RO ''AGPI_A at 50% ref'' 0 (Some (Obj (axis_var 0 Axis_AdcCalAgpiA50), 0)),
     obj_entry 0x6 DTYPE_UNSIGNED16 16 ATYPE_RO ''AGPI_A at 75% ref'' 0 (Some (Obj (axis_var 0 Axis_AdcCalAgpiA75), 0)),
     obj_entry 0x7 DTYPE_UNSIGNED16 16 ATYPE_RO ''AGPI_B at 25% ref'' 0 (Some (Obj (axis_var 0 Axis_AdcCalAgpiB25), 0)),
     obj_entry 0x8 DTYPE_UNSIGNED16 16 ATYPE_RO ''AGPI_B at 50% ref'' 0 (Some (Obj (axis_var 0 Axis_AdcCalAgpiB50), 0)),
     obj_entry 0x9 DTYPE_UNSIGNED16 16 ATYPE_RO ''AGPI_B at 75% ref'' 0 (Some (Obj (axis_var 0 Axis_AdcCalAgpiB75), 0)),
     obj_entry 0xA DTYPE_UNSIGNED16 16 ATYPE_RO ''I0 at zero current'' 0 (Some (Obj (axis_var 0 Axis_AdcCalI0Zero), 0)),
     obj_entry 0xB DTYPE_UNSIGNED16 16 ATYPE_RO ''I1 at zero current'' 0 (Some (Obj (axis_var 0 Axis_AdcCalI1Zero), 0)),
     obj_entry 0xC DTYPE_UNSIGNED16 16 ATYPE_RO ''VM pin'' 0 (Some (Obj (axis_var 0 Axis_AdcCalVmPin), 0)),
     obj_entry 0xD DTYPE_UNSIGNED16 16 ATYPE_RO ''AGPI_A pin'' 0 (Some (Obj (axis_var 0 Axis_AdcCalAgpiAPin), 0)),
     obj_entry 0xE DTYPE_UNSIGNED16 16 ATYPE_RO ''AGPI_B pin'' 0 (Some (Obj (axis_var 0 Axis_AdcCalAgpiBPin), 0))]"

definition SDO2005 :: "objd list" where
  "SDO2005 = [
     obj_entry 0x0 DTYPE_UNSIGNED8 8 ATYPE_RO ''Register Monitor'' 4 None,
     obj_entry 0x1 DTYPE_UNSIGNED8 8 ATYPE_RW ''Data Register'' 0 (Some (Obj (axis_var 0 Axis_MonitorDataRegister), 0)),
     obj_entry 0x2 DTYPE_UNSIGNED8 8 ATYPE_RW ''Select Register'' 0 (Some (Obj (axis_var 0 Axis_MonitorSelectRegister), 0)),
     obj_entry 0x3 DTYPE_UNSIGNED8 8 ATYPE_RW ''Select Value'' 0 (Some (Obj (axis_var 0 Axis_MonitorSelectValue), 0)),
     obj_entry 0x4 DTYPE_INTEGER32 32 ATYPE_RO ''Value'' 0 (Some (Obj (axis_var 0 Axis_MonitorValue), 0))]"

definition SDO2010 :: "objd list" where
  "SDO2010 = [
     obj_entry 0x0 DTYPE_UNSIGNED8 8 ATYPE_RO ''Control Loop Tuning'' 10 None,
     obj_entry 0x1 DTYPE_UNSIGNED16 16 ATYPE_RW ''Torque P'' 0 (Some (Obj (axis_var 0 Axis_TorqueP), 0)),
     obj_entry 0x2 DTYPE_UNSIGNED16 16 ATYPE_RW ''Torque I'' 0 (Some (Obj (axis_var 0 Axis_TorqueI), 0)),
     obj_entry 0x3 DTYPE_UNSIGNED16 16 ATYPE_RW ''Flux P'' 0 (Some (Obj (axis_var 0 Axis_FluxP), 0)),
     obj_entry 0x4 DTYPE_UNSIGNED16 16 ATYPE_RW ''Flux I'' 0 (Some (Obj (axis_var 0 Axis_FluxI), 0)),
     obj_entry 0x5 DTYPE_UNSIGNED16 16 ATYPE_RW ''Velocity P'' 0 (Some (Obj (axis_var 0 Axis_VelocityP), 0)),
     obj_entry 0x6 DTYPE_UNSIGNED16 16 ATYPE_RW ''Velocity I'' 0 (Some (Obj (axis_var 0 Axis_VelocityI), 0)),
     obj_entry 0x7 DTYPE_UNSIGNED16 16 ATYPE_RW ''Position P'' 0 (Some (Obj (axis_var 0 Axis_PositionP), 0)),
     obj_entry 0x8 DTYPE_UNSIGNED16 16 ATYPE_RW ''Position I'' 0 (Some (Obj (axis_var 0 Axis_PositionI), 0)),
     obj_entry 0x9 DTYPE_UNSIGNED32 32 ATYPE_RW ''Velocity Limit'' 0 (Some (Obj (axis_var 0 Axis_VelocityLimit), 0)),
     obj_entry 0xA DTYPE_UNSIGNED16 16 ATYPE_RW ''Velocity Feed-Forward'' 1000 (Some (Obj (axis_var 0 Axis_VelocityFeedForward), 0))]"

definition SDO2011 :: "objd list" where
  "SDO2011 = [
     obj_entry 0x0 DTYPE_UNSIGNED8 8 ATYPE_RO ''Advanced Loop Tuning'' 9 None,
     obj_entry 0x1 DTYPE_UNSIGNED16 16 ATYPE_RW ''Torque P'' 0 (Some (Obj (axis_var 0 Axis_AdvTorqueP), 0)),
     obj_entry 0x2 DTYPE_UNSIGNED16 16 ATYPE_RW ''Torque I'' 0 (Some (Obj (axis_var 0 Axis_AdvTorqueI), 0)),
     obj_entry 0x3 DTYPE_UNSIGNED16 16 ATYPE_RW ''Flux P'' 0 (Some (Obj (axis_var 0 Axis_AdvFluxP), 0)),
     obj_entry 0x4 DTYPE_UNSIGNED16 16 ATYPE_RW ''Flux I'' 0 (Some (Obj (axis_var 0 Axis_AdvFluxI), 0)),
     obj_entry 0x5 DTYPE_UNSIGNED16 16 ATYPE_RW ''Velocity P'' 0 (Some (Obj (axis_var 0 Axis_AdvVelocityP), 0)),
     obj_entry 0x6 DTYPE_UNSIGNED16 16 ATYPE_RW ''Velocity I'' 0 (Some (Obj (axis_var 0 Axis_AdvVelocityI), 0)),
     obj_entry 0x7 DTYPE_UNSIGNED16 16 ATYPE_RW ''Position P'' 0 (Some (Obj (axis_var 0 Axis_AdvPositionP), 0)),
     obj_entry 0x8 DTYPE_UNSIGNED16 16 ATYPE_RW ''Position I'' 0 (Some (Obj (axis_var 0 Axis_AdvPositionI), 0)),
     obj_entry 0x9 DTYPE_UNSIGNED16 16 ATYPE_RW ''Velocity Filter'' 0 (Some (Obj (axis_var 0 Axis_AdvVelocityFilterHz), 0))]"

definition SDO2012 :: "objd list" where
  "SDO2012 = [
     obj_entry 0x0 DTYPE_UNSIGNED8 8 ATYPE_RW ''Loop Structure'' 0 (Some (Obj (axis_var 0 Axis_LoopStructure), 0))]"

definition SDO2013 :: "objd list" where
  "SDO2013 = [
     obj_entry 0x0 DTYPE_UNSIGNED8 8 ATYPE_RO ''Anti-Cogging'' 6 None,
     obj_entry 0x1 DTYPE_UNSIGNED8 8 ATYPE_RW ''Enable'' 0 (Some (Obj (axis_var 0 Axis_CoggingEnable), 0)),
     obj_entry 0x2 DTYPE_UNSIGNED16 16 ATYPE_RW ''Gain'' 1000 (Some (Obj (axis_var 0 Axis_CoggingGain), 0)),
     obj_entry 0x3 DTYPE_UNSIGNED16 16 ATYPE_RW ''Fade Speed'' 300 (Some (Obj (axis_var 0 Axis_CoggingFadeRpm), 0)),
     obj_entry 0x4 DTYPE_UNSIGNED8 8 ATYPE_RO ''Status'' 0 (Some (Obj (axis_var 0 Axis_CoggingStatus), 0)),
     obj_entry 0x5 DTYPE_UNSIGNED16 16 ATYPE_RO ''Shaft Angle'' 0 (Some (Obj (axis_var 0 Axis_ShaftAngle), 0)),
     obj_entry 0x6 DTYPE_UNSIGNED16 16 ATYPE_RW ''Blend Speed'' 10 (Some (Obj (axis_var 0 Axis_CoggingBlendRpm), 0))]"

definition SDO2014 :: "objd list" where
  "SDO2014 = [
     obj_entry 0x0 DTYPE_UNSIGNED8 8 ATYPE_RO ''Anti-Cogging Table'' 128 None,
     obj_entry 0x1 DTYPE_INTEGER16 16 ATYPE_RW ''Point 0'' 0 (Some (Obj (axis_var 0 Axis_CoggingTable), 0)),
     obj_entry 0x2 DTYPE_INTEGER16 16 ATYPE_RW ''Point 1'' 0 (Some (Obj (axis_var 0 Axis_CoggingTable), 2)),
     obj_entry 0x3 DTYPE_INTEGER16 16 ATYPE_RW ''Point 2'' 0 (Some (Obj (axis_var 0 Axis_CoggingTable), 4)),
     obj_entry 0x4 DTYPE_INTEGER16 16 ATYPE_RW ''Point 3'' 0 (Some (Obj (axis_var 0 Axis_CoggingTable), 6)),
     obj_entry 0x5 DTYPE_INTEGER16 16 ATYPE_RW ''Point 4'' 0 (Some (Obj (axis_var 0 Axis_CoggingTable), 8)),
     obj_entry 0x6 DTYPE_INTEGER16 16 ATYPE_RW ''Point 5'' 0 (Some (Obj (axis_var 0 Axis_CoggingTable), 10)),
     obj_entry 0x7 DTYPE_INTEGER16 16 ATYPE_RW ''Point 6'' 0 (Some (Obj (axis_var 0 Axis_CoggingTable), 12)),
     obj_entry 0x8 DTYPE_INTEGER16 16 ATYPE_RW ''Point 7'' 0 (Some (Obj (axis_var 0 Axis_CoggingTable), 14)),
     obj_entry 0x9 DTYPE_INTEGER16 16 ATYPE_RW ''Point 8'' 0 (Some (Obj (axis_var 0 Axis_CoggingTable), 16)),
     obj_entry 0xA DTYPE_INTEGER16 16 ATYPE_RW ''Point 9'' 0 (Some (Obj (axis_var 0 Axis_CoggingTable), 18)),
     obj_entry 0xB DTYPE_INTEGER16 16 ATYPE_RW ''Point 10'' 0 (Some (Obj (axis_var 0 Axis_CoggingTable), 20)),
     obj_entry 0xC DTYPE_INTEGER16 16 ATYPE_RW ''Point 11'' 0 (Some (Obj (axis_var 0 Axis_CoggingTable), 22)),
     obj_entry 0xD DTYPE_INTEGER16 16 ATYPE_RW ''Point 12'' 0 (Some (Obj (axis_var 0 Axis_CoggingTable), 24)),
     obj_entry 0xE DTYPE_INTEGER16 16 ATYPE_RW ''Point 13'' 0 (Some (Obj (axis_var 0 Axis_CoggingTable), 26)),
     obj_entry 0xF DTYPE_INTEGER16 16 ATYPE_RW ''Point 14'' 0 (Some (Obj (axis_var 0 Axis_CoggingTable), 28)),
     obj_entry 0x10 DTYPE_INTEGER16 16 ATYPE_RW ''Point 15'' 0 (Some (Obj (axis_var 0 Axis_CoggingTable), 30)),
     obj_entry 0x11 DTYPE_INTEGER16 16 ATYPE_RW ''Point 16'' 0 (Some (Obj (axis_var 0 Axis_CoggingTable), 32)),
     obj_entry 0x12 DTYPE_INTEGER16 16 ATYPE_RW ''Point 17'' 0 (Some (Obj (axis_var 0 Axis_CoggingTable), 34)),
     obj_entry 0x13 DTYPE_INTEGER16 16 ATYPE_RW ''Point 18'' 0 (Some (Obj (axis_var 0 Axis_CoggingTable), 36)),
     obj_entry 0x14 DTYPE_INTEGER16 16 ATYPE_RW ''Point 19'' 0 (Some (Obj (axis_var 0 Axis_CoggingTable), 38)),
     obj_entry 0x15 DTYPE_INTEGER16 16 ATYPE_RW ''Point 20'' 0 (Some (Obj (axis_var 0 Axis_CoggingTable), 40)),
     obj_entry 0x16 DTYPE_INTEGER16 16 ATYPE_RW ''Point 21'' 0 (Some (Obj (axis_var 0 Axis_CoggingTable), 42)),
     obj_entry 0x17 DTYPE_INTEGER16 16 ATYPE_RW ''Point 22'' 0 (Some (Obj (axis_var 0 Axis_CoggingTable), 44)),
     obj_entry 0x18 DTYPE_INTEGER16 16 ATYPE_RW ''Point 23'' 0 (Some (Obj (axis_var 0 Axis_CoggingTable), 46)),
     obj_entry 0x19 DTYPE_INTEGER16 16 ATYPE_RW ''Point 24'' 0 (Some (Obj (axis_var 0 Axis_CoggingTable), 48)),
     obj_entry 0x1A DTYPE_INTEGER16 16 ATYPE_RW ''Point 25'' 0 (Some (Obj (axis_var 0 Axis_CoggingTable), 50)),
     obj_entry 0x1B DTYPE_INTEGER16 16 ATYPE_RW ''Point 26'' 0 (Some (Obj (axis_var 0 Axis_CoggingTable), 52)),
     obj_entry 0x1C DTYPE_INTEGER16 16 ATYPE_RW ''Point 27'' 0 (Some (Obj (axis_var 0 Axis_CoggingTable), 54)),
     obj_entry 0x1D DTYPE_INTEGER16 16 ATYPE_RW ''Point 28'' 0 (Some (Obj (axis_var 0 Axis_CoggingTable), 56)),
     obj_entry 0x1E DTYPE_INTEGER16 16 ATYPE_RW ''Point 29'' 0 (Some (Obj (axis_var 0 Axis_CoggingTable), 58)),
     obj_entry 0x1F DTYPE_INTEGER16 16 ATYPE_RW ''Point 30'' 0 (Some (Obj (axis_var 0 Axis_CoggingTable), 60)),
     obj_entry 0x20 DTYPE_INTEGER16 16 ATYPE_RW ''Point 31'' 0 (Some (Obj (axis_var 0 Axis_CoggingTable), 62)),
     obj_entry 0x21 DTYPE_INTEGER16 16 ATYPE_RW ''Point 32'' 0 (Some (Obj (axis_var 0 Axis_CoggingTable), 64)),
     obj_entry 0x22 DTYPE_INTEGER16 16 ATYPE_RW ''Point 33'' 0 (Some (Obj (axis_var 0 Axis_CoggingTable), 66)),
     obj_entry 0x23 DTYPE_INTEGER16 16 ATYPE_RW ''Point 34'' 0 (Some (Obj (axis_var 0 Axis_CoggingTable), 68)),
     obj_entry 0x24 DTYPE_INTEGER16 16 ATYPE_RW ''Point 35'' 0 (Some (Obj (axis_var 0 Axis_CoggingTable), 70)),
     obj_entry 0x25 DTYPE_INTEGER16 16 ATYPE_RW ''Point 36'' 0 (Some (Obj (axis_var 0 Axis_CoggingTable), 72)),
     obj_entry 0x26 DTYPE_INTEGER16 16 ATYPE_RW ''Point 37'' 0 (Some (Obj (axis_var 0 Axis_CoggingTable), 74)),
     obj_entry 0x27 DTYPE_INTEGER16 16 ATYPE_RW ''Point 38'' 0 (Some (Obj (axis_var 0 Axis_CoggingTable), 76)),
     obj_entry 0x28 DTYPE_INTEGER16 16 ATYPE_RW ''Point 39'' 0 (Some (Obj (axis_var 0 Axis_CoggingTable), 78)),
     obj_entry 0x29 DTYPE_INTEGER16 16 ATYPE_RW ''Point 40'' 0 (Some (Obj (axis_var 0 Axis_CoggingTable), 80)),
     obj_entry 0x2A DTYPE_INTEGER16 16 ATYPE_RW ''Point 41'' 0 (Some (Obj (axis_var 0 Axis_CoggingTable), 82)),
     obj_entry 0x2B DTYPE_INTEGER16 16 ATYPE_RW ''Point 42'' 0 (Some (Obj (axis_var 0 Axis_CoggingTable), 84)),
     obj_entry 0x2C DTYPE_INTEGER16 16 ATYPE_RW ''Point 43'' 0 (Some (Obj (axis_var 0 Axis_CoggingTable), 86)),
     obj_entry 0x2D DTYPE_INTEGER16 16 ATYPE_RW ''Point 44'' 0 (Some (Obj (axis_var 0 Axis_CoggingTable), 88)),
     obj_entry 0x2E DTYPE_INTEGER16 16 ATYPE_RW ''Point 45'' 0 (Some (Obj (axis_var 0 Axis_CoggingTable), 90)),
     obj_entry 0x2F DTYPE_INTEGER16 16 ATYPE_RW ''Point 46'' 0 (Some (Obj (axis_var 0 Axis_CoggingTable), 92)),
     obj_entry 0x30 DTYPE_INTEGER16 16 ATYPE_RW ''Point 47'' 0 (Some (Obj (axis_var 0 Axis_CoggingTable), 94)),
     obj_entry 0x31 DTYPE_INTEGER16 16 ATYPE_RW ''Point 48'' 0 (Some (Obj (axis_var 0 Axis_CoggingTable), 96)),
     obj_entry 0x32 DTYPE_INTEGER16 16 ATYPE_RW ''Point 49'' 0 (Some (Obj (axis_var 0 Axis_CoggingTable), 98)),
     obj_entry 0x33 DTYPE_INTEGER16 16 ATYPE_RW ''Point 50'' 0 (Some (Obj (axis_var 0 Axis_CoggingTable), 100)),
     obj_entry 0x34 DTYPE_INTEGER16 16 ATYPE_RW ''Point 51'' 0 (Some (Obj (axis_var 0 Axis_CoggingTable), 102)),
     obj_entry 0x35 DTYPE_INTEGER16 16 ATYPE_RW ''Point 52'' 0 (Some (Obj (axis_var 0 Axis_CoggingTable), 104)),
     obj_entry 0x36 DTYPE_INTEGER16 16 ATYPE_RW ''Point 53'' 0 (Some (Obj (axis_var 0 Axis_CoggingTable), 106)),
     obj_entry 0x37 DTYPE_INTEGER16 16 ATYPE_RW ''Point 54'' 0 (Some (Obj (axis_var 0 Axis_CoggingTable), 108)),
     obj_entry 0x38 DTYPE_INTEGER16 16 ATYPE_RW ''Point 55'' 0 (Some (Obj (axis_var 0 Axis_CoggingTable), 110)),
     obj_entry 0x39 DTYPE_INTEGER16 16 ATYPE_RW ''Point 56'' 0 (Some (Obj (axis_var 0 Axis_CoggingTable), 112)),
     obj_entry 0x3A DTYPE_INTEGER16 16 ATYPE_RW ''Point 57'' 0 (Some (Obj (axis_var 0 Axis_CoggingTable), 114)),
     obj_entry 0x3B DTYPE_INTEGER16 16 ATYPE_RW ''Point 58'' 0 (Some (Obj (axis_var 0 Axis_CoggingTable), 116)),
     obj_entry 0x3C DTYPE_INTEGER16 16 ATYPE_RW ''Point 59'' 0 (Some (Obj (axis_var 0 Axis_CoggingTable), 118)),
     obj_entry 0x3D DTYPE_INTEGER16 16 ATYPE_RW ''Point 60'' 0 (Some (Obj (axis_var 0 Axis_CoggingTable), 120)),
     obj_entry 0x3E DTYPE_INTEGER16 16 ATYPE_RW ''Point 61'' 0 (Some (Obj (axis_var 0 Axis_CoggingTable), 122)),
     obj_entry 0x3F DTYPE_INTEGER16 16 ATYPE_RW ''Point 62'' 0 (Some (Obj (axis_var 0 Axis_CoggingTable), 124)),
     obj_entry 0x40 DTYPE_INTEGER16 16 ATYPE_RW ''Point 63'' 0 (Some (Obj (axis_var 0 Axis_CoggingTable), 126)),
     obj_entry 0x41 DTYPE_INTEGER16 16 ATYPE_RW ''Point 64'' 0 (Some (Obj (axis_var 0 Axis_CoggingTable), 128)),
     obj_entry 0x42 DTYPE_INTEGER16 16 ATYPE_RW ''Point 65'' 0 (Some (Obj (axis_var 0 Axis_CoggingTable), 130)),
     obj_entry 0x43 DTYPE_INTEGER16 16 ATYPE_RW ''Point 66'' 0 (Some (Obj (axis_var 0 Axis_CoggingTable), 132)),
     obj_entry 0x44 DTYPE_INTEGER16 16 ATYPE_RW ''Point 67'' 0 (Some (Obj (axis_var 0 Axis_CoggingTable), 134)),
     obj_entry 0x45 DTYPE_INTEGER16 16 ATYPE_RW ''Point 68'' 0 (Some (Obj (axis_var 0 Axis_CoggingTable), 136)),
     obj_entry 0x46 DTYPE_INTEGER16 16 ATYPE_RW ''Point 69'' 0 (Some (Obj (axis_var 0 Axis_CoggingTable), 138)),
     obj_entry 0x47 DTYPE_INTEGER16 16 ATYPE_RW ''Point 70'' 0 (Some (Obj (axis_var 0 Axis_CoggingTable), 140)),
     obj_entry 0x48 DTYPE_INTEGER16 16 ATYPE_RW ''Point 71'' 0 (Some (Obj (axis_var 0 Axis_CoggingTable), 142)),
     obj_entry 0x49 DTYPE_INTEGER16 16 ATYPE_RW ''Point 72'' 0 (Some (Obj (axis_var 0 Axis_CoggingTable), 144)),
     obj_entry 0x4A DTYPE_INTEGER16 16 ATYPE_RW ''Point 73'' 0 (Some (Obj (axis_var 0 Axis_CoggingTable), 146)),
     obj_entry 0x4B DTYPE_INTEGER16 16 ATYPE_RW ''Point 74'' 0 (Some (Obj (axis_var 0 Axis_CoggingTable), 148)),
     obj_entry 0x4C DTYPE_INTEGER16 16 ATYPE_RW ''Point 75'' 0 (Some (Obj (axis_var 0 Axis_CoggingTable), 150)),
     obj_entry 0x4D DTYPE_INTEGER16 16 ATYPE_RW ''Point 76'' 0 (Some (Obj (axis_var 0 Axis_CoggingTable), 152)),
     obj_entry 0x4E DTYPE_INTEGER16 16 ATYPE_RW ''Point 77'' 0 (Some (Obj (axis_var 0 Axis_CoggingTable), 154)),
     obj_entry 0x4F DTYPE_INTEGER16 16 ATYPE_RW ''Point 78'' 0 (Some (Obj (axis_var 0 Axis_CoggingTable), 156)),
     obj_entry 0x50 DTYPE_INTEGER16 16 ATYPE_RW ''Point 79'' 0 (Some (Obj (axis_var 0 Axis_CoggingTable), 158)),
     obj_entry 0x51 DTYPE_INTEGER16 16 ATYPE_RW ''Point 80'' 0 (Some (Obj (axis_var 0 Axis_CoggingTable), 160)),
     obj_entry 0x52 DTYPE_INTEGER16 16 ATYPE_RW ''Point 81'' 0 (Some (Obj (axis_var 0 Axis_CoggingTable), 162)),
     obj_entry 0x53 DTYPE_INTEGER16 16 ATYPE_RW ''Point 82'' 0 (Some (Obj (axis_var 0 Axis_CoggingTable), 164)),
     obj_entry 0x54 DTYPE_INTEGER16 16 ATYPE_RW ''Point 83'' 0 (Some (Obj (axis_var 0 Axis_CoggingTable), 166)),
     obj_entry 0x55 DTYPE_INTEGER16 16 ATYPE_RW ''Point 84'' 0 (Some (Obj (axis_var 0 Axis_CoggingTable), 168)),
     obj_entry 0x56 DTYPE_INTEGER16 16 ATYPE_RW ''Point 85'' 0 (Some (Obj (axis_var 0 Axis_CoggingTable), 170)),
     obj_entry 0x57 DTYPE_INTEGER16 16 ATYPE_RW ''Point 86'' 0 (Some (Obj (axis_var 0 Axis_CoggingTable), 172)),
     obj_entry 0x58 DTYPE_INTEGER16 16 ATYPE_RW ''Point 87'' 0 (Some (Obj (axis_var 0 Axis_CoggingTable), 174)),
     obj_entry 0x59 DTYPE_INTEGER16 16 ATYPE_RW ''Point 88'' 0 (Some (Obj (axis_var 0 Axis_CoggingTable), 176)),
     obj_entry 0x5A DTYPE_INTEGER16 16 ATYPE_RW ''Point 89'' 0 (Some (Obj (axis_var 0 Axis_CoggingTable), 178)),
     obj_entry 0x5B DTYPE_INTEGER16 16 ATYPE_RW ''Point 90'' 0 (Some (Obj (axis_var 0 Axis_CoggingTable), 180)),
     obj_entry 0x5C DTYPE_INTEGER16 16 ATYPE_RW ''Point 91'' 0 (Some (Obj (axis_var 0 Axis_CoggingTable), 182)),
     obj_entry 0x5D DTYPE_INTEGER16 16 ATYPE_RW ''Point 92'' 0 (Some (Obj (axis_var 0 Axis_CoggingTable), 184)),
     obj_entry 0x5E DTYPE_INTEGER16 16 ATYPE_RW ''Point 93'' 0 (Some (Obj (axis_var 0 Axis_CoggingTable), 186)),
     obj_entry 0x5F DTYPE_INTEGER16 16 ATYPE_RW ''Point 94'' 0 (Some (Obj (axis_var 0 Axis_CoggingTable), 188)),
     obj_entry 0x60 DTYPE_INTEGER16 16 ATYPE_RW ''Point 95'' 0 (Some (Obj (axis_var 0 Axis_CoggingTable), 190)),
     obj_entry 0x61 DTYPE_INTEGER16 16 ATYPE_RW ''Point 96'' 0 (Some (Obj (axis_var 0 Axis_CoggingTable), 192)),
     obj_entry 0x62 DTYPE_INTEGER16 16 ATYPE_RW ''Point 97'' 0 (Some (Obj (axis_var 0 Axis_CoggingTable), 194)),
     obj_entry 0x63 DTYPE_INTEGER16 16 ATYPE_RW ''Point 98'' 0 (Some (Obj (axis_var 0 Axis_CoggingTable), 196)),
     obj_entry 0x64 DTYPE_INTEGER16 16 ATYPE_RW ''Point 99'' 0 (Some (Obj (axis_var 0 Axis_CoggingTable), 198)),
     obj_entry 0x65 DTYPE_INTEGER16 16 ATYPE_RW ''Point 100'' 0 (Some (Obj (axis_var 0 Axis_CoggingTable), 200)),
     obj_entry 0x66 DTYPE_INTEGER16 16 ATYPE_RW ''Point 101'' 0 (Some (Obj (axis_var 0 Axis_CoggingTable), 202)),
     obj_entry 0x67 DTYPE_INTEGER16 16 ATYPE_RW ''Point 102'' 0 (Some (Obj (axis_var 0 Axis_CoggingTable), 204)),
     obj_entry 0x68 DTYPE_INTEGER16 16 ATYPE_RW ''Point 103'' 0 (Some (Obj (axis_var 0 Axis_CoggingTable), 206)),
     obj_entry 0x69 DTYPE_INTEGER16 16 ATYPE_RW ''Point 104'' 0 (Some (Obj (axis_var 0 Axis_CoggingTable), 208)),
     obj_entry 0x6A DTYPE_INTEGER16 16 ATYPE_RW ''Point 105'' 0 (Some (Obj (axis_var 0 Axis_CoggingTable), 210)),
     obj_entry 0x6B DTYPE_INTEGER16 16 ATYPE_RW ''Point 106'' 0 (Some (Obj (axis_var 0 Axis_CoggingTable), 212)),
     obj_entry 0x6C DTYPE_INTEGER16 16 ATYPE_RW ''Point 107'' 0 (Some (Obj (axis_var 0 Axis_CoggingTable), 214)),
     obj_entry 0x6D DTYPE_INTEGER16 16 ATYPE_RW ''Point 108'' 0 (Some (Obj (axis_var 0 Axis_CoggingTable), 216)),
     obj_entry 0x6E DTYPE_INTEGER16 16 ATYPE_RW ''Point 109'' 0 (Some (Obj (axis_var 0 Axis_CoggingTable), 218)),
     obj_entry 0x6F DTYPE_INTEGER16 16 ATYPE_RW ''Point 110'' 0 (Some (Obj (axis_var 0 Axis_CoggingTable), 220)),
     obj_entry 0x70 DTYPE_INTEGER16 16 ATYPE_RW ''Point 111'' 0 (Some (Obj (axis_var 0 Axis_CoggingTable), 222)),
     obj_entry 0x71 DTYPE_INTEGER16 16 ATYPE_RW ''Point 112'' 0 (Some (Obj (axis_var 0 Axis_CoggingTable), 224)),
     obj_entry 0x72 DTYPE_INTEGER16 16 ATYPE_RW ''Point 113'' 0 (Some (Obj (axis_var 0 Axis_CoggingTable), 226)),
     obj_entry 0x73 DTYPE_INTEGER16 16 ATYPE_RW ''Point 114'' 0 (Some (Obj (axis_var 0 Axis_CoggingTable), 228)),
     obj_entry 0x74 DTYPE_INTEGER16 16 ATYPE_RW ''Point 115'' 0 (Some (Obj (axis_var 0 Axis_CoggingTable), 230)),
     obj_entry 0x75 DTYPE_INTEGER16 16 ATYPE_RW ''Point 116'' 0 (Some (Obj (axis_var 0 Axis_CoggingTable), 232)),
     obj_entry 0x76 DTYPE_INTEGER16 16 ATYPE_RW ''Point 117'' 0 (Some (Obj (axis_var 0 Axis_CoggingTable), 234)),
     obj_entry 0x77 DTYPE_INTEGER16 16 ATYPE_RW ''Point 118'' 0 (Some (Obj (axis_var 0 Axis_CoggingTable), 236)),
     obj_entry 0x78 DTYPE_INTEGER16 16 ATYPE_RW ''Point 119'' 0 (Some (Obj (axis_var 0 Axis_CoggingTable), 238)),
     obj_entry 0x79 DTYPE_INTEGER16 16 ATYPE_RW ''Point 120'' 0 (Some (Obj (axis_var 0 Axis_CoggingTable), 240)),
     obj_entry 0x7A DTYPE_INTEGER16 16 ATYPE_RW ''Point 121'' 0 (Some (Obj (axis_var 0 Axis_CoggingTable), 242)),
     obj_entry 0x7B DTYPE_INTEGER16 16 ATYPE_RW ''Point 122'' 0 (Some (Obj (axis_var 0 Axis_CoggingTable), 244)),
     obj_entry 0x7C DTYPE_INTEGER16 16 ATYPE_RW ''Point 123'' 0 (Some (Obj (axis_var 0 Axis_CoggingTable), 246)),
     obj_entry 0x7D DTYPE_INTEGER16 16 ATYPE_RW ''Point 124'' 0 (Some (Obj (axis_var 0 Axis_CoggingTable), 248)),
     obj_entry 0x7E DTYPE_INTEGER16 16 ATYPE_RW ''Point 125'' 0 (Some (Obj (axis_var 0 Axis_CoggingTable), 250)),
     obj_entry 0x7F DTYPE_INTEGER16 16 ATYPE_RW ''Point 126'' 0 (Some (Obj (axis_var 0 Axis_CoggingTable), 252)),
     obj_entry 0x80 DTYPE_INTEGER16 16 ATYPE_RW ''Point 127'' 0 (Some (Obj (axis_var 0 Axis_CoggingTable), 254))]"

definition SDO2015 :: "objd list" where
  "SDO2015 = [
     obj_entry 0x0 DTYPE_UNSIGNED8 8 ATYPE_RO ''Anti-Cogging Table Negative'' 128 None,
     obj_entry 0x1 DTYPE_INTEGER16 16 ATYPE_RW ''Point 0'' 0 (Some (Obj (axis_var 0 Axis_CoggingTableNeg), 0)),
     obj_entry 0x2 DTYPE_INTEGER16 16 ATYPE_RW ''Point 1'' 0 (Some (Obj (axis_var 0 Axis_CoggingTableNeg), 2)),
     obj_entry 0x3 DTYPE_INTEGER16 16 ATYPE_RW ''Point 2'' 0 (Some (Obj (axis_var 0 Axis_CoggingTableNeg), 4)),
     obj_entry 0x4 DTYPE_INTEGER16 16 ATYPE_RW ''Point 3'' 0 (Some (Obj (axis_var 0 Axis_CoggingTableNeg), 6)),
     obj_entry 0x5 DTYPE_INTEGER16 16 ATYPE_RW ''Point 4'' 0 (Some (Obj (axis_var 0 Axis_CoggingTableNeg), 8)),
     obj_entry 0x6 DTYPE_INTEGER16 16 ATYPE_RW ''Point 5'' 0 (Some (Obj (axis_var 0 Axis_CoggingTableNeg), 10)),
     obj_entry 0x7 DTYPE_INTEGER16 16 ATYPE_RW ''Point 6'' 0 (Some (Obj (axis_var 0 Axis_CoggingTableNeg), 12)),
     obj_entry 0x8 DTYPE_INTEGER16 16 ATYPE_RW ''Point 7'' 0 (Some (Obj (axis_var 0 Axis_CoggingTableNeg), 14)),
     obj_entry 0x9 DTYPE_INTEGER16 16 ATYPE_RW ''Point 8'' 0 (Some (Obj (axis_var 0 Axis_CoggingTableNeg), 16)),
     obj_entry 0xA DTYPE_INTEGER16 16 ATYPE_RW ''Point 9'' 0 (Some (Obj (axis_var 0 Axis_CoggingTableNeg), 18)),
     obj_entry 0xB DTYPE_INTEGER16 16 ATYPE_RW ''Point 10'' 0 (Some (Obj (axis_var 0 Axis_CoggingTableNeg), 20)),
     obj_entry 0xC DTYPE_INTEGER16 16 ATYPE_RW ''Point 11'' 0 (Some (Obj (axis_var 0 Axis_CoggingTableNeg), 22)),
     obj_entry 0xD DTYPE_INTEGER16 16 ATYPE_RW ''Point 12'' 0 (Some (Obj (axis_var 0 Axis_CoggingTableNeg), 24)),
     obj_entry 0xE DTYPE_INTEGER16 16 ATYPE_RW ''Point 13'' 0 (Some (Obj (axis_var 0 Axis_CoggingTableNeg), 26)),
     obj_entry 0xF DTYPE_INTEGER16 16 ATYPE_RW ''Point 14'' 0 (Some (Obj (axis_var 0 Axis_CoggingTableNeg), 28)),
     obj_entry 0x10 DTYPE_INTEGER16 16 ATYPE_RW ''Point 15'' 0 (Some (Obj (axis_var 0 Axis_CoggingTableNeg), 30)),
     obj_entry 0x11 DTYPE_INTEGER16 16 ATYPE_RW ''Point 16'' 0 (Some (Obj (axis_var 0 Axis_CoggingTableNeg), 32)),
     obj_entry 0x12 DTYPE_INTEGER16 16 ATYPE_RW ''Point 17'' 0 (Some (Obj (axis_var 0 Axis_CoggingTableNeg), 34)),
     obj_entry 0x13 DTYPE_INTEGER16 16 ATYPE_RW ''Point 18'' 0 (Some (Obj (axis_var 0 Axis_CoggingTableNeg), 36)),
     obj_entry 0x14 DTYPE_INTEGER16 16 ATYPE_RW ''Point 19'' 0 (Some (Obj (axis_var 0 Axis_CoggingTableNeg), 38)),
     obj_entry 0x15 DTYPE_INTEGER16 16 ATYPE_RW ''Point 20'' 0 (Some (Obj (axis_var 0 Axis_CoggingTableNeg), 40)),
     obj_entry 0x16 DTYPE_INTEGER16 16 ATYPE_RW ''Point 21'' 0 (Some (Obj (axis_var 0 Axis_CoggingTableNeg), 42)),
     obj_entry 0x17 DTYPE_INTEGER16 16 ATYPE_RW ''Point 22'' 0 (Some (Obj (axis_var 0 Axis_CoggingTableNeg), 44)),
     obj_entry 0x18 DTYPE_INTEGER16 16 ATYPE_RW ''Point 23'' 0 (Some (Obj (axis_var 0 Axis_CoggingTableNeg), 46)),
     obj_entry 0x19 DTYPE_INTEGER16 16 ATYPE_RW ''Point 24'' 0 (Some (Obj (axis_var 0 Axis_CoggingTableNeg), 48)),
     obj_entry 0x1A DTYPE_INTEGER16 16 ATYPE_RW ''Point 25'' 0 (Some (Obj (axis_var 0 Axis_CoggingTableNeg), 50)),
     obj_entry 0x1B DTYPE_INTEGER16 16 ATYPE_RW ''Point 26'' 0 (Some (Obj (axis_var 0 Axis_CoggingTableNeg), 52)),
     obj_entry 0x1C DTYPE_INTEGER16 16 ATYPE_RW ''Point 27'' 0 (Some (Obj (axis_var 0 Axis_CoggingTableNeg), 54)),
     obj_entry 0x1D DTYPE_INTEGER16 16 ATYPE_RW ''Point 28'' 0 (Some (Obj (axis_var 0 Axis_CoggingTableNeg), 56)),
     obj_entry 0x1E DTYPE_INTEGER16 16 ATYPE_RW ''Point 29'' 0 (Some (Obj (axis_var 0 Axis_CoggingTableNeg), 58)),
     obj_entry 0x1F DTYPE_INTEGER16 16 ATYPE_RW ''Point 30'' 0 (Some (Obj (axis_var 0 Axis_CoggingTableNeg), 60)),
     obj_entry 0x20 DTYPE_INTEGER16 16 ATYPE_RW ''Point 31'' 0 (Some (Obj (axis_var 0 Axis_CoggingTableNeg), 62)),
     obj_entry 0x21 DTYPE_INTEGER16 16 ATYPE_RW ''Point 32'' 0 (Some (Obj (axis_var 0 Axis_CoggingTableNeg), 64)),
     obj_entry 0x22 DTYPE_INTEGER16 16 ATYPE_RW ''Point 33'' 0 (Some (Obj (axis_var 0 Axis_CoggingTableNeg), 66)),
     obj_entry 0x23 DTYPE_INTEGER16 16 ATYPE_RW ''Point 34'' 0 (Some (Obj (axis_var 0 Axis_CoggingTableNeg), 68)),
     obj_entry 0x24 DTYPE_INTEGER16 16 ATYPE_RW ''Point 35'' 0 (Some (Obj (axis_var 0 Axis_CoggingTableNeg), 70)),
     obj_entry 0x25 DTYPE_INTEGER16 16 ATYPE_RW ''Point 36'' 0 (Some (Obj (axis_var 0 Axis_CoggingTableNeg), 72)),
     obj_entry 0x26 DTYPE_INTEGER16 16 ATYPE_RW ''Point 37'' 0 (Some (Obj (axis_var 0 Axis_CoggingTableNeg), 74)),
     obj_entry 0x27 DTYPE_INTEGER16 16 ATYPE_RW ''Point 38'' 0 (Some (Obj (axis_var 0 Axis_CoggingTableNeg), 76)),
     obj_entry 0x28 DTYPE_INTEGER16 16 ATYPE_RW ''Point 39'' 0 (Some (Obj (axis_var 0 Axis_CoggingTableNeg), 78)),
     obj_entry 0x29 DTYPE_INTEGER16 16 ATYPE_RW ''Point 40'' 0 (Some (Obj (axis_var 0 Axis_CoggingTableNeg), 80)),
     obj_entry 0x2A DTYPE_INTEGER16 16 ATYPE_RW ''Point 41'' 0 (Some (Obj (axis_var 0 Axis_CoggingTableNeg), 82)),
     obj_entry 0x2B DTYPE_INTEGER16 16 ATYPE_RW ''Point 42'' 0 (Some (Obj (axis_var 0 Axis_CoggingTableNeg), 84)),
     obj_entry 0x2C DTYPE_INTEGER16 16 ATYPE_RW ''Point 43'' 0 (Some (Obj (axis_var 0 Axis_CoggingTableNeg), 86)),
     obj_entry 0x2D DTYPE_INTEGER16 16 ATYPE_RW ''Point 44'' 0 (Some (Obj (axis_var 0 Axis_CoggingTableNeg), 88)),
     obj_entry 0x2E DTYPE_INTEGER16 16 ATYPE_RW ''Point 45'' 0 (Some (Obj (axis_var 0 Axis_CoggingTableNeg), 90)),
     obj_entry 0x2F DTYPE_INTEGER16 16 ATYPE_RW ''Point 46'' 0 (Some (Obj (axis_var 0 Axis_CoggingTableNeg), 92)),
     obj_entry 0x30 DTYPE_INTEGER16 16 ATYPE_RW ''Point 47'' 0 (Some (Obj (axis_var 0 Axis_CoggingTableNeg), 94)),
     obj_entry 0x31 DTYPE_INTEGER16 16 ATYPE_RW ''Point 48'' 0 (Some (Obj (axis_var 0 Axis_CoggingTableNeg), 96)),
     obj_entry 0x32 DTYPE_INTEGER16 16 ATYPE_RW ''Point 49'' 0 (Some (Obj (axis_var 0 Axis_CoggingTableNeg), 98)),
     obj_entry 0x33 DTYPE_INTEGER16 16 ATYPE_RW ''Point 50'' 0 (Some (Obj (axis_var 0 Axis_CoggingTableNeg), 100)),
     obj_entry 0x34 DTYPE_INTEGER16 16 ATYPE_RW ''Point 51'' 0 (Some (Obj (axis_var 0 Axis_CoggingTableNeg), 102)),
     obj_entry 0x35 DTYPE_INTEGER16 16 ATYPE_RW ''Point 52'' 0 (Some (Obj (axis_var 0 Axis_CoggingTableNeg), 104)),
     obj_entry 0x36 DTYPE_INTEGER16 16 ATYPE_RW ''Point 53'' 0 (Some (Obj (axis_var 0 Axis_CoggingTableNeg), 106)),
     obj_entry 0x37 DTYPE_INTEGER16 16 ATYPE_RW ''Point 54'' 0 (Some (Obj (axis_var 0 Axis_CoggingTableNeg), 108)),
     obj_entry 0x38 DTYPE_INTEGER16 16 ATYPE_RW ''Point 55'' 0 (Some (Obj (axis_var 0 Axis_CoggingTableNeg), 110)),
     obj_entry 0x39 DTYPE_INTEGER16 16 ATYPE_RW ''Point 56'' 0 (Some (Obj (axis_var 0 Axis_CoggingTableNeg), 112)),
     obj_entry 0x3A DTYPE_INTEGER16 16 ATYPE_RW ''Point 57'' 0 (Some (Obj (axis_var 0 Axis_CoggingTableNeg), 114)),
     obj_entry 0x3B DTYPE_INTEGER16 16 ATYPE_RW ''Point 58'' 0 (Some (Obj (axis_var 0 Axis_CoggingTableNeg), 116)),
     obj_entry 0x3C DTYPE_INTEGER16 16 ATYPE_RW ''Point 59'' 0 (Some (Obj (axis_var 0 Axis_CoggingTableNeg), 118)),
     obj_entry 0x3D DTYPE_INTEGER16 16 ATYPE_RW ''Point 60'' 0 (Some (Obj (axis_var 0 Axis_CoggingTableNeg), 120)),
     obj_entry 0x3E DTYPE_INTEGER16 16 ATYPE_RW ''Point 61'' 0 (Some (Obj (axis_var 0 Axis_CoggingTableNeg), 122)),
     obj_entry 0x3F DTYPE_INTEGER16 16 ATYPE_RW ''Point 62'' 0 (Some (Obj (axis_var 0 Axis_CoggingTableNeg), 124)),
     obj_entry 0x40 DTYPE_INTEGER16 16 ATYPE_RW ''Point 63'' 0 (Some (Obj (axis_var 0 Axis_CoggingTableNeg), 126)),
     obj_entry 0x41 DTYPE_INTEGER16 16 ATYPE_RW ''Point 64'' 0 (Some (Obj (axis_var 0 Axis_CoggingTableNeg), 128)),
     obj_entry 0x42 DTYPE_INTEGER16 16 ATYPE_RW ''Point 65'' 0 (Some (Obj (axis_var 0 Axis_CoggingTableNeg), 130)),
     obj_entry 0x43 DTYPE_INTEGER16 16 ATYPE_RW ''Point 66'' 0 (Some (Obj (axis_var 0 Axis_CoggingTableNeg), 132)),
     obj_entry 0x44 DTYPE_INTEGER16 16 ATYPE_RW ''Point 67'' 0 (Some (Obj (axis_var 0 Axis_CoggingTableNeg), 134)),
     obj_entry 0x45 DTYPE_INTEGER16 16 ATYPE_RW ''Point 68'' 0 (Some (Obj (axis_var 0 Axis_CoggingTableNeg), 136)),
     obj_entry 0x46 DTYPE_INTEGER16 16 ATYPE_RW ''Point 69'' 0 (Some (Obj (axis_var 0 Axis_CoggingTableNeg), 138)),
     obj_entry 0x47 DTYPE_INTEGER16 16 ATYPE_RW ''Point 70'' 0 (Some (Obj (axis_var 0 Axis_CoggingTableNeg), 140)),
     obj_entry 0x48 DTYPE_INTEGER16 16 ATYPE_RW ''Point 71'' 0 (Some (Obj (axis_var 0 Axis_CoggingTableNeg), 142)),
     obj_entry 0x49 DTYPE_INTEGER16 16 ATYPE_RW ''Point 72'' 0 (Some (Obj (axis_var 0 Axis_CoggingTableNeg), 144)),
     obj_entry 0x4A DTYPE_INTEGER16 16 ATYPE_RW ''Point 73'' 0 (Some (Obj (axis_var 0 Axis_CoggingTableNeg), 146)),
     obj_entry 0x4B DTYPE_INTEGER16 16 ATYPE_RW ''Point 74'' 0 (Some (Obj (axis_var 0 Axis_CoggingTableNeg), 148)),
     obj_entry 0x4C DTYPE_INTEGER16 16 ATYPE_RW ''Point 75'' 0 (Some (Obj (axis_var 0 Axis_CoggingTableNeg), 150)),
     obj_entry 0x4D DTYPE_INTEGER16 16 ATYPE_RW ''Point 76'' 0 (Some (Obj (axis_var 0 Axis_CoggingTableNeg), 152)),
     obj_entry 0x4E DTYPE_INTEGER16 16 ATYPE_RW ''Point 77'' 0 (Some (Obj (axis_var 0 Axis_CoggingTableNeg), 154)),
     obj_entry 0x4F DTYPE_INTEGER16 16 ATYPE_RW ''Point 78'' 0 (Some (Obj (axis_var 0 Axis_CoggingTableNeg), 156)),
     obj_entry 0x50 DTYPE_INTEGER16 16 ATYPE_RW ''Point 79'' 0 (Some (Obj (axis_var 0 Axis_CoggingTableNeg), 158)),
     obj_entry 0x51 DTYPE_INTEGER16 16 ATYPE_RW ''Point 80'' 0 (Some (Obj (axis_var 0 Axis_CoggingTableNeg), 160)),
     obj_entry 0x52 DTYPE_INTEGER16 16 ATYPE_RW ''Point 81'' 0 (Some (Obj (axis_var 0 Axis_CoggingTableNeg), 162)),
     obj_entry 0x53 DTYPE_INTEGER16 16 ATYPE_RW ''Point 82'' 0 (Some (Obj (axis_var 0 Axis_CoggingTableNeg), 164)),
     obj_entry 0x54 DTYPE_INTEGER16 16 ATYPE_RW ''Point 83'' 0 (Some (Obj (axis_var 0 Axis_CoggingTableNeg), 166)),
     obj_entry 0x55 DTYPE_INTEGER16 16 ATYPE_RW ''Point 84'' 0 (Some (Obj (axis_var 0 Axis_CoggingTableNeg), 168)),
     obj_entry 0x56 DTYPE_INTEGER16 16 ATYPE_RW ''Point 85'' 0 (Some (Obj (axis_var 0 Axis_CoggingTableNeg), 170)),
     obj_entry 0x57 DTYPE_INTEGER16 16 ATYPE_RW ''Point 86'' 0 (Some (Obj (axis_var 0 Axis_CoggingTableNeg), 172)),
     obj_entry 0x58 DTYPE_INTEGER16 16 ATYPE_RW ''Point 87'' 0 (Some (Obj (axis_var 0 Axis_CoggingTableNeg), 174)),
     obj_entry 0x59 DTYPE_INTEGER16 16 ATYPE_RW ''Point 88'' 0 (Some (Obj (axis_var 0 Axis_CoggingTableNeg), 176)),
     obj_entry 0x5A DTYPE_INTEGER16 16 ATYPE_RW ''Point 89'' 0 (Some (Obj (axis_var 0 Axis_CoggingTableNeg), 178)),
     obj_entry 0x5B DTYPE_INTEGER16 16 ATYPE_RW ''Point 90'' 0 (Some (Obj (axis_var 0 Axis_CoggingTableNeg), 180)),
     obj_entry 0x5C DTYPE_INTEGER16 16 ATYPE_RW ''Point 91'' 0 (Some (Obj (axis_var 0 Axis_CoggingTableNeg), 182)),
     obj_entry 0x5D DTYPE_INTEGER16 16 ATYPE_RW ''Point 92'' 0 (Some (Obj (axis_var 0 Axis_CoggingTableNeg), 184)),
     obj_entry 0x5E DTYPE_INTEGER16 16 ATYPE_RW ''Point 93'' 0 (Some (Obj (axis_var 0 Axis_CoggingTableNeg), 186)),
     obj_entry 0x5F DTYPE_INTEGER16 16 ATYPE_RW ''Point 94'' 0 (Some (Obj (axis_var 0 Axis_CoggingTableNeg), 188)),
     obj_entry 0x60 DTYPE_INTEGER16 16 ATYPE_RW ''Point 95'' 0 (Some (Obj (axis_var 0 Axis_CoggingTableNeg), 190)),
     obj_entry 0x61 DTYPE_INTEGER16 16 ATYPE_RW ''Point 96'' 0 (Some (Obj (axis_var 0 Axis_CoggingTableNeg), 192)),
     obj_entry 0x62 DTYPE_INTEGER16 16 ATYPE_RW ''Point 97'' 0 (Some (Obj (axis_var 0 Axis_CoggingTableNeg), 194)),
     obj_entry 0x63 DTYPE_INTEGER16 16 ATYPE_RW ''Point 98'' 0 (Some (Obj (axis_var 0 Axis_CoggingTableNeg), 196)),
     obj_entry 0x64 DTYPE_INTEGER16 16 ATYPE_RW ''Point 99'' 0 (Some (Obj (axis_var 0 Axis_CoggingTableNeg), 198)),
     obj_entry 0x65 DTYPE_INTEGER16 16 ATYPE_RW ''Point 100'' 0 (Some (Obj (axis_var 0 Axis_CoggingTableNeg), 200)),
     obj_entry 0x66 DTYPE_INTEGER16 16 ATYPE_RW ''Point 101'' 0 (Some (Obj (axis_var 0 Axis_CoggingTableNeg), 202)),
     obj_entry 0x67 DTYPE_INTEGER16 16 ATYPE_RW ''Point 102'' 0 (Some (Obj (axis_var 0 Axis_CoggingTableNeg), 204)),
     obj_entry 0x68 DTYPE_INTEGER16 16 ATYPE_RW ''Point 103'' 0 (Some (Obj (axis_var 0 Axis_CoggingTableNeg), 206)),
     obj_entry 0x69 DTYPE_INTEGER16 16 ATYPE_RW ''Point 104'' 0 (Some (Obj (axis_var 0 Axis_CoggingTableNeg), 208)),
     obj_entry 0x6A DTYPE_INTEGER16 16 ATYPE_RW ''Point 105'' 0 (Some (Obj (axis_var 0 Axis_CoggingTableNeg), 210)),
     obj_entry 0x6B DTYPE_INTEGER16 16 ATYPE_RW ''Point 106'' 0 (Some (Obj (axis_var 0 Axis_CoggingTableNeg), 212)),
     obj_entry 0x6C DTYPE_INTEGER16 16 ATYPE_RW ''Point 107'' 0 (Some (Obj (axis_var 0 Axis_CoggingTableNeg), 214)),
     obj_entry 0x6D DTYPE_INTEGER16 16 ATYPE_RW ''Point 108'' 0 (Some (Obj (axis_var 0 Axis_CoggingTableNeg), 216)),
     obj_entry 0x6E DTYPE_INTEGER16 16 ATYPE_RW ''Point 109'' 0 (Some (Obj (axis_var 0 Axis_CoggingTableNeg), 218)),
     obj_entry 0x6F DTYPE_INTEGER16 16 ATYPE_RW ''Point 110'' 0 (Some (Obj (axis_var 0 Axis_CoggingTableNeg), 220)),
     obj_entry 0x70 DTYPE_INTEGER16 16 ATYPE_RW ''Point 111'' 0 (Some (Obj (axis_var 0 Axis_CoggingTableNeg), 222)),
     obj_entry 0x71 DTYPE_INTEGER16 16 ATYPE_RW ''Point 112'' 0 (Some (Obj (axis_var 0 Axis_CoggingTableNeg), 224)),
     obj_entry 0x72 DTYPE_INTEGER16 16 ATYPE_RW ''Point 113'' 0 (Some (Obj (axis_var 0 Axis_CoggingTableNeg), 226)),
     obj_entry 0x73 DTYPE_INTEGER16 16 ATYPE_RW ''Point 114'' 0 (Some (Obj (axis_var 0 Axis_CoggingTableNeg), 228)),
     obj_entry 0x74 DTYPE_INTEGER16 16 ATYPE_RW ''Point 115'' 0 (Some (Obj (axis_var 0 Axis_CoggingTableNeg), 230)),
     obj_entry 0x75 DTYPE_INTEGER16 16 ATYPE_RW ''Point 116'' 0 (Some (Obj (axis_var 0 Axis_CoggingTableNeg), 232)),
     obj_entry 0x76 DTYPE_INTEGER16 16 ATYPE_RW ''Point 117'' 0 (Some (Obj (axis_var 0 Axis_CoggingTableNeg), 234)),
     obj_entry 0x77 DTYPE_INTEGER16 16 ATYPE_RW ''Point 118'' 0 (Some (Obj (axis_var 0 Axis_CoggingTableNeg), 236)),
     obj_entry 0x78 DTYPE_INTEGER16 16 ATYPE_RW ''Point 119'' 0 (Some (Obj (axis_var 0 Axis_CoggingTableNeg), 238)),
     obj_entry 0x79 DTYPE_INTEGER16 16 ATYPE_RW ''Point 120'' 0 (Some (Obj (axis_var 0 Axis_CoggingTableNeg), 240)),
     obj_entry 0x7A DTYPE_INTEGER16 16 ATYPE_RW ''Point 121'' 0 (Some (Obj (axis_var 0 Axis_CoggingTableNeg), 242)),
     obj_entry 0x7B DTYPE_INTEGER16 16 ATYPE_RW ''Point 122'' 0 (Some (Obj (axis_var 0 Axis_CoggingTableNeg), 244)),
     obj_entry 0x7C DTYPE_INTEGER16 16 ATYPE_RW ''Point 123'' 0 (Some (Obj (axis_var 0 Axis_CoggingTableNeg), 246)),
     obj_entry 0x7D DTYPE_INTEGER16 16 ATYPE_RW ''Point 124'' 0 (Some (Obj (axis_var 0 Axis_CoggingTableNeg), 248)),
     obj_entry 0x7E DTYPE_INTEGER16 16 ATYPE_RW ''Point 125'' 0 (Some (Obj (axis_var 0 Axis_CoggingTableNeg), 250)),
     obj_entry 0x7F DTYPE_INTEGER16 16 ATYPE_RW ''Point 126'' 0 (Some (Obj (axis_var 0 Axis_CoggingTableNeg), 252)),
     obj_entry 0x80 DTYPE_INTEGER16 16 ATYPE_RW ''Point 127'' 0 (Some (Obj (axis_var 0 Axis_CoggingTableNeg), 254))]"

definition SDO2016 :: "objd list" where
  "SDO2016 = [
     obj_entry 0x0 DTYPE_UNSIGNED8 8 ATYPE_RO ''Loop Signals'' 4 None,
     obj_entry 0x1 DTYPE_INTEGER32 32 ATYPE_RO ''Velocity Feed-Forward'' 0 (Some (Obj (axis_var 0 Axis_SigVelocityFeedForward), 0)),
     obj_entry 0x2 DTYPE_INTEGER32 32 ATYPE_RO ''Cogging Torque mA'' 0 (Some (Obj (axis_var 0 Axis_SigCoggingTorque), 0)),
     obj_entry 0x3 DTYPE_INTEGER32 32 ATYPE_RO ''Acceleration Feed-Forward mA'' 0 (Some (Obj (axis_var 0 Axis_SigAccelerationFeedForward), 0)),
     obj_entry 0x4 DTYPE_UNSIGNED16 16 ATYPE_RO ''Read to Write us'' 0 (Some (Obj (axis_var 0 Axis_SigReadToWrite), 0))]"

definition SDO2017 :: "objd list" where
  "SDO2017 = [
     obj_entry 0x0 DTYPE_UNSIGNED8 8 ATYPE_RO ''Feedback Settings'' 7 None,
     obj_entry 0x1 DTYPE_UNSIGNED8 8 ATYPE_RW ''Encoder Direction'' 0 (Some (Obj (axis_var 0 Axis_FbEncoderDirection), 0)),
     obj_entry 0x2 DTYPE_UNSIGNED32 32 ATYPE_RW ''Encoder Counts per Revolution'' 0 (Some (Obj (axis_var 0 Axis_FbEncoderCounts), 0)),
     obj_entry 0x3 DTYPE_UNSIGNED16 16 ATYPE_RW ''Pole Pairs'' 0 (Some (Obj (axis_var 0 Axis_FbPolePairs), 0)),
     obj_entry 0x4 DTYPE_UNSIGNED8 8 ATYPE_RW ''Hall Direction'' 0 (Some (Obj (axis_var 0 Axis_FbHallDirection), 0)),
     obj_entry 0x5 DTYPE_UNSIGNED8 8 ATYPE_RW ''Hall Polarity'' 0 (Some (Obj (axis_var 0 Axis_FbHallPolarity), 0)),
     obj_entry 0x6 DTYPE_UNSIGNED16 16 ATYPE_RW ''Hall Offset'' 0 (Some (Obj (axis_var 0 Axis_FbHallOffset), 0)),
     obj_entry 0x7 DTYPE_INTEGER16 16 ATYPE_RO ''Commutation Offset'' 0 (Some (Obj (axis_var 0 Axis_FbCommutationOffset), 0))]"

definition SDO2018 :: "objd list" where
  "SDO2018 = [
     obj_entry 0x0 DTYPE_UNSIGNED8 8 ATYPE_RO ''Feed-Forward'' 2 None,
     obj_entry 0x1 DTYPE_REAL32 32 ATYPE_RW ''Inertia A per rad/s2'' 0 (Some (Obj (axis_var 0 Axis_FfInertia), 0)),
     obj_entry 0x2 DTYPE_UNSIGNED16 16 ATYPE_RW ''Acceleration Gain'' 1000 (Some (Obj (axis_var 0 Axis_FfAccelerationGain), 0))]"

definition SDO2020 :: "objd list" where
  "SDO2020 = [
     obj_entry 0x0 DTYPE_UNSIGNED8 8 ATYPE_RO ''Recorder'' 19 None,
     obj_entry 0x1 DTYPE_UNSIGNED8 8 ATYPE_RW ''Command'' 0 (Some (Obj Obj_RecCommand, 0)),
     obj_entry 0x2 DTYPE_UNSIGNED8 8 ATYPE_RO ''State'' 0 (Some (Obj Obj_RecState, 0)),
     obj_entry 0x3 DTYPE_UNSIGNED16 16 ATYPE_RW ''Divider'' 1 (Some (Obj Obj_RecDivider, 0)),
     obj_entry 0x4 DTYPE_UNSIGNED16 16 ATYPE_RW ''Samples'' 2000 (Some (Obj Obj_RecSamples, 0)),
     obj_entry 0x5 DTYPE_UNSIGNED16 16 ATYPE_RW ''Pre-Trigger'' 0 (Some (Obj Obj_RecPreTrigger, 0)),
     obj_entry 0x6 DTYPE_UNSIGNED8 8 ATYPE_RW ''Trigger Channel'' 0 (Some (Obj Obj_RecTriggerChannel, 0)),
     obj_entry 0x7 DTYPE_UNSIGNED8 8 ATYPE_RW ''Trigger Edge'' 1 (Some (Obj Obj_RecTriggerEdge, 0)),
     obj_entry 0x8 DTYPE_INTEGER32 32 ATYPE_RW ''Trigger Level'' 0 (Some (Obj Obj_RecTriggerLevel, 0)),
     obj_entry 0x9 DTYPE_UNSIGNED8 8 ATYPE_RO ''Channels Recorded'' 0 (Some (Obj Obj_RecChannels, 0)),
     obj_entry 0xA DTYPE_UNSIGNED16 16 ATYPE_RO ''Samples Recorded'' 0 (Some (Obj Obj_RecRecorded, 0)),
     obj_entry 0xB DTYPE_UNSIGNED32 32 ATYPE_RO ''Data Length'' 0 (Some (Obj Obj_RecorderDataLength, 0)),
     obj_entry 0xC DTYPE_UNSIGNED32 32 ATYPE_RW ''Channel 1'' 0 (Some (Obj Obj_RecChannel1, 0)),
     obj_entry 0xD DTYPE_UNSIGNED32 32 ATYPE_RW ''Channel 2'' 0 (Some (Obj Obj_RecChannel2, 0)),
     obj_entry 0xE DTYPE_UNSIGNED32 32 ATYPE_RW ''Channel 3'' 0 (Some (Obj Obj_RecChannel3, 0)),
     obj_entry 0xF DTYPE_UNSIGNED32 32 ATYPE_RW ''Channel 4'' 0 (Some (Obj Obj_RecChannel4, 0)),
     obj_entry 0x10 DTYPE_UNSIGNED32 32 ATYPE_RW ''Channel 5'' 0 (Some (Obj Obj_RecChannel5, 0)),
     obj_entry 0x11 DTYPE_UNSIGNED32 32 ATYPE_RW ''Channel 6'' 0 (Some (Obj Obj_RecChannel6, 0)),
     obj_entry 0x12 DTYPE_UNSIGNED32 32 ATYPE_RW ''Channel 7'' 0 (Some (Obj Obj_RecChannel7, 0)),
     obj_entry 0x13 DTYPE_UNSIGNED32 32 ATYPE_RW ''Channel 8'' 0 (Some (Obj Obj_RecChannel8, 0))]"

definition SDO2021 :: "objd list" where
  "SDO2021 = [
     obj_entry 0x0 DTYPE_DOMAIN 1048576 ATYPE_RO ''Recorder Data'' 0 (Some (Obj Obj_RecorderData, 0))]"

definition SDO2030 :: "objd list" where
  "SDO2030 = [
     obj_entry 0x0 DTYPE_UNSIGNED8 8 ATYPE_RO ''Identification'' 18 None,
     obj_entry 0x1 DTYPE_UNSIGNED8 8 ATYPE_RW ''Routine'' 1 (Some (Obj (axis_var 0 Axis_IdentRoutine), 0)),
     obj_entry 0x2 DTYPE_UNSIGNED16 16 ATYPE_RW ''Test Current'' 800 (Some (Obj (axis_var 0 Axis_IdentTestCurrent), 0)),
     obj_entry 0x3 DTYPE_UNSIGNED8 8 ATYPE_RO ''State'' 0 (Some (Obj (axis_var 0 Axis_IdentState), 0)),
     obj_entry 0x4 DTYPE_UNSIGNED8 8 ATYPE_RO ''Error'' 0 (Some (Obj (axis_var 0 Axis_IdentError), 0)),
     obj_entry 0x5 DTYPE_UNSIGNED32 32 ATYPE_RO ''Resistance mOhm'' 0 (Some (Obj (axis_var 0 Axis_IdentResistance), 0)),
     obj_entry 0x6 DTYPE_UNSIGNED32 32 ATYPE_RO ''Inductance uH'' 0 (Some (Obj (axis_var 0 Axis_IdentInductance), 0)),
     obj_entry 0x7 DTYPE_UNSIGNED32 32 ATYPE_RO ''Time Constant us'' 0 (Some (Obj (axis_var 0 Axis_IdentTimeConstant), 0)),
     obj_entry 0x8 DTYPE_UNSIGNED32 32 ATYPE_RO ''Supply Voltage mV'' 0 (Some (Obj (axis_var 0 Axis_IdentSupply), 0)),
     obj_entry 0x9 DTYPE_UNSIGNED16 16 ATYPE_RO ''Fit Quality'' 0 (Some (Obj (axis_var 0 Axis_IdentFitQuality), 0)),
     obj_entry 0xA DTYPE_UNSIGNED16 16 ATYPE_RW ''Current Loop Bandwidth Hz'' 1000 (Some (Obj (axis_var 0 Axis_IdentBandwidth), 0)),
     obj_entry 0xB DTYPE_UNSIGNED16 16 ATYPE_RO ''Current P'' 0 (Some (Obj (axis_var 0 Axis_IdentCurrentP), 0)),
     obj_entry 0xC DTYPE_UNSIGNED16 16 ATYPE_RO ''Current I Classic'' 0 (Some (Obj (axis_var 0 Axis_IdentCurrentIClassic), 0)),
     obj_entry 0xD DTYPE_UNSIGNED16 16 ATYPE_RO ''Current I Advanced'' 0 (Some (Obj (axis_var 0 Axis_IdentCurrentIAdvanced), 0)),
     obj_entry 0xE DTYPE_UNSIGNED32 32 ATYPE_RO ''Step Rise Time us'' 0 (Some (Obj (axis_var 0 Axis_IdentStepRise), 0)),
     obj_entry 0xF DTYPE_UNSIGNED16 16 ATYPE_RO ''Step Overshoot'' 0 (Some (Obj (axis_var 0 Axis_IdentStepOvershoot), 0)),
     obj_entry 0x10 DTYPE_UNSIGNED32 32 ATYPE_RO ''Step Settling Time us'' 0 (Some (Obj (axis_var 0 Axis_IdentStepSettling), 0)),
     obj_entry 0x11 DTYPE_UNSIGNED32 32 ATYPE_RO ''Motor Resistance mOhm'' 0 (Some (Obj (axis_var 0 Axis_IdentMotorResistance), 0)),
     obj_entry 0x12 DTYPE_UNSIGNED32 32 ATYPE_RO ''Bridge Resistance mOhm'' 0 (Some (Obj (axis_var 0 Axis_IdentBridgeResistance), 0))]"

definition SDO2031 :: "objd list" where
  "SDO2031 = [
     obj_entry 0x0 DTYPE_UNSIGNED8 8 ATYPE_RO ''Mechanical Identification'' 20 None,
     obj_entry 0x1 DTYPE_INTEGER32 32 ATYPE_RW ''Window Start'' 0 (Some (Obj (axis_var 0 Axis_MechWindowStart), 0)),
     obj_entry 0x2 DTYPE_INTEGER32 32 ATYPE_RW ''Window End'' 0 (Some (Obj (axis_var 0 Axis_MechWindowEnd), 0)),
     obj_entry 0x3 DTYPE_UNSIGNED16 16 ATYPE_RW ''Max Torque'' 300 (Some (Obj (axis_var 0 Axis_MechMaxTorque), 0)),
     obj_entry 0x4 DTYPE_UNSIGNED16 16 ATYPE_RW ''Max Speed rpm'' 300 (Some (Obj (axis_var 0 Axis_MechMaxSpeed), 0)),
     obj_entry 0x5 DTYPE_REAL32 32 ATYPE_RO ''Inertia kgm2'' 0 (Some (Obj (axis_var 0 Axis_MechInertiaKgm2), 0)),
     obj_entry 0x6 DTYPE_REAL32 32 ATYPE_RO ''Inertia A per rad/s2'' 0 (Some (Obj (axis_var 0 Axis_MechInertia), 0)),
     obj_entry 0x7 DTYPE_REAL32 32 ATYPE_RO ''Viscous Friction A per rad/s'' 0 (Some (Obj (axis_var 0 Axis_MechViscous), 0)),
     obj_entry 0x8 DTYPE_REAL32 32 ATYPE_RO ''Coulomb Friction A'' 0 (Some (Obj (axis_var 0 Axis_MechCoulomb), 0)),
     obj_entry 0x9 DTYPE_REAL32 32 ATYPE_RO ''Constant Load A'' 0 (Some (Obj (axis_var 0 Axis_MechLoad), 0)),
     obj_entry 0xA DTYPE_UNSIGNED16 16 ATYPE_RO ''Fit Quality'' 0 (Some (Obj (axis_var 0 Axis_MechQuality), 0)),
     obj_entry 0xB DTYPE_UNSIGNED16 16 ATYPE_RO ''Peak Speed rpm'' 0 (Some (Obj (axis_var 0 Axis_MechPeakSpeed), 0)),
     obj_entry 0xC DTYPE_REAL32 32 ATYPE_RO ''Breakaway A'' 0 (Some (Obj (axis_var 0 Axis_MechBreakaway), 0)),
     obj_entry 0xD DTYPE_UNSIGNED16 16 ATYPE_RO ''Inertia Uncertainty'' 0 (Some (Obj (axis_var 0 Axis_MechUncertainty), 0)),
     obj_entry 0xE DTYPE_UNSIGNED16 16 ATYPE_RW ''Velocity Loop Bandwidth Hz'' 100 (Some (Obj (axis_var 0 Axis_MechVelocityBandwidth), 0)),
     obj_entry 0xF DTYPE_UNSIGNED16 16 ATYPE_RO ''Velocity P'' 0 (Some (Obj (axis_var 0 Axis_MechVelocityP), 0)),
     obj_entry 0x10 DTYPE_UNSIGNED16 16 ATYPE_RO ''Velocity I Classic'' 0 (Some (Obj (axis_var 0 Axis_MechVelocityIClassic), 0)),
     obj_entry 0x11 DTYPE_UNSIGNED16 16 ATYPE_RO ''Velocity I Advanced'' 0 (Some (Obj (axis_var 0 Axis_MechVelocityIAdvanced), 0)),
     obj_entry 0x12 DTYPE_UNSIGNED16 16 ATYPE_RO ''Velocity Filter Hz'' 0 (Some (Obj (axis_var 0 Axis_MechVelocityFilter), 0)),
     obj_entry 0x13 DTYPE_UNSIGNED16 16 ATYPE_RO ''Position P Classic'' 0 (Some (Obj (axis_var 0 Axis_MechPositionPClassic), 0)),
     obj_entry 0x14 DTYPE_UNSIGNED16 16 ATYPE_RO ''Position P Advanced'' 0 (Some (Obj (axis_var 0 Axis_MechPositionPAdvanced), 0))]"

definition SDO2032 :: "objd list" where
  "SDO2032 = [
     obj_entry 0x0 DTYPE_UNSIGNED8 8 ATYPE_RO ''Cogging Identification'' 8 None,
     obj_entry 0x1 DTYPE_UNSIGNED16 16 ATYPE_RW ''Speed rpm'' 20 (Some (Obj (axis_var 0 Axis_CogSpeed), 0)),
     obj_entry 0x2 DTYPE_UNSIGNED16 16 ATYPE_RW ''Revolutions'' 4 (Some (Obj (axis_var 0 Axis_CogRevolutions), 0)),
     obj_entry 0x3 DTYPE_UNSIGNED16 16 ATYPE_RO ''Cogging Peak to Peak'' 0 (Some (Obj (axis_var 0 Axis_CogP2p), 0)),
     obj_entry 0x4 DTYPE_UNSIGNED16 16 ATYPE_RO ''Cogging RMS'' 0 (Some (Obj (axis_var 0 Axis_CogRms), 0)),
     obj_entry 0x5 DTYPE_INTEGER16 16 ATYPE_RO ''Friction'' 0 (Some (Obj (axis_var 0 Axis_CogFriction), 0)),
     obj_entry 0x6 DTYPE_UNSIGNED16 16 ATYPE_RO ''Direction Dependence'' 0 (Some (Obj (axis_var 0 Axis_CogDirectionP2p), 0)),
     obj_entry 0x7 DTYPE_UNSIGNED16 16 ATYPE_RO ''Revolutions Measured'' 0 (Some (Obj (axis_var 0 Axis_CogRevolutionsMeasured), 0)),
     obj_entry 0x8 DTYPE_UNSIGNED8 8 ATYPE_RW ''Apply'' 0 (Some (Obj (axis_var 0 Axis_CogApply), 0))]"

definition SDO2033 :: "objd list" where
  "SDO2033 = [
     obj_entry 0x0 DTYPE_UNSIGNED8 8 ATYPE_RO ''Cogging Result'' 128 None,
     obj_entry 0x1 DTYPE_INTEGER16 16 ATYPE_RO ''Point 0'' 0 (Some (Obj (axis_var 0 Axis_CogResult), 0)),
     obj_entry 0x2 DTYPE_INTEGER16 16 ATYPE_RO ''Point 1'' 0 (Some (Obj (axis_var 0 Axis_CogResult), 2)),
     obj_entry 0x3 DTYPE_INTEGER16 16 ATYPE_RO ''Point 2'' 0 (Some (Obj (axis_var 0 Axis_CogResult), 4)),
     obj_entry 0x4 DTYPE_INTEGER16 16 ATYPE_RO ''Point 3'' 0 (Some (Obj (axis_var 0 Axis_CogResult), 6)),
     obj_entry 0x5 DTYPE_INTEGER16 16 ATYPE_RO ''Point 4'' 0 (Some (Obj (axis_var 0 Axis_CogResult), 8)),
     obj_entry 0x6 DTYPE_INTEGER16 16 ATYPE_RO ''Point 5'' 0 (Some (Obj (axis_var 0 Axis_CogResult), 10)),
     obj_entry 0x7 DTYPE_INTEGER16 16 ATYPE_RO ''Point 6'' 0 (Some (Obj (axis_var 0 Axis_CogResult), 12)),
     obj_entry 0x8 DTYPE_INTEGER16 16 ATYPE_RO ''Point 7'' 0 (Some (Obj (axis_var 0 Axis_CogResult), 14)),
     obj_entry 0x9 DTYPE_INTEGER16 16 ATYPE_RO ''Point 8'' 0 (Some (Obj (axis_var 0 Axis_CogResult), 16)),
     obj_entry 0xA DTYPE_INTEGER16 16 ATYPE_RO ''Point 9'' 0 (Some (Obj (axis_var 0 Axis_CogResult), 18)),
     obj_entry 0xB DTYPE_INTEGER16 16 ATYPE_RO ''Point 10'' 0 (Some (Obj (axis_var 0 Axis_CogResult), 20)),
     obj_entry 0xC DTYPE_INTEGER16 16 ATYPE_RO ''Point 11'' 0 (Some (Obj (axis_var 0 Axis_CogResult), 22)),
     obj_entry 0xD DTYPE_INTEGER16 16 ATYPE_RO ''Point 12'' 0 (Some (Obj (axis_var 0 Axis_CogResult), 24)),
     obj_entry 0xE DTYPE_INTEGER16 16 ATYPE_RO ''Point 13'' 0 (Some (Obj (axis_var 0 Axis_CogResult), 26)),
     obj_entry 0xF DTYPE_INTEGER16 16 ATYPE_RO ''Point 14'' 0 (Some (Obj (axis_var 0 Axis_CogResult), 28)),
     obj_entry 0x10 DTYPE_INTEGER16 16 ATYPE_RO ''Point 15'' 0 (Some (Obj (axis_var 0 Axis_CogResult), 30)),
     obj_entry 0x11 DTYPE_INTEGER16 16 ATYPE_RO ''Point 16'' 0 (Some (Obj (axis_var 0 Axis_CogResult), 32)),
     obj_entry 0x12 DTYPE_INTEGER16 16 ATYPE_RO ''Point 17'' 0 (Some (Obj (axis_var 0 Axis_CogResult), 34)),
     obj_entry 0x13 DTYPE_INTEGER16 16 ATYPE_RO ''Point 18'' 0 (Some (Obj (axis_var 0 Axis_CogResult), 36)),
     obj_entry 0x14 DTYPE_INTEGER16 16 ATYPE_RO ''Point 19'' 0 (Some (Obj (axis_var 0 Axis_CogResult), 38)),
     obj_entry 0x15 DTYPE_INTEGER16 16 ATYPE_RO ''Point 20'' 0 (Some (Obj (axis_var 0 Axis_CogResult), 40)),
     obj_entry 0x16 DTYPE_INTEGER16 16 ATYPE_RO ''Point 21'' 0 (Some (Obj (axis_var 0 Axis_CogResult), 42)),
     obj_entry 0x17 DTYPE_INTEGER16 16 ATYPE_RO ''Point 22'' 0 (Some (Obj (axis_var 0 Axis_CogResult), 44)),
     obj_entry 0x18 DTYPE_INTEGER16 16 ATYPE_RO ''Point 23'' 0 (Some (Obj (axis_var 0 Axis_CogResult), 46)),
     obj_entry 0x19 DTYPE_INTEGER16 16 ATYPE_RO ''Point 24'' 0 (Some (Obj (axis_var 0 Axis_CogResult), 48)),
     obj_entry 0x1A DTYPE_INTEGER16 16 ATYPE_RO ''Point 25'' 0 (Some (Obj (axis_var 0 Axis_CogResult), 50)),
     obj_entry 0x1B DTYPE_INTEGER16 16 ATYPE_RO ''Point 26'' 0 (Some (Obj (axis_var 0 Axis_CogResult), 52)),
     obj_entry 0x1C DTYPE_INTEGER16 16 ATYPE_RO ''Point 27'' 0 (Some (Obj (axis_var 0 Axis_CogResult), 54)),
     obj_entry 0x1D DTYPE_INTEGER16 16 ATYPE_RO ''Point 28'' 0 (Some (Obj (axis_var 0 Axis_CogResult), 56)),
     obj_entry 0x1E DTYPE_INTEGER16 16 ATYPE_RO ''Point 29'' 0 (Some (Obj (axis_var 0 Axis_CogResult), 58)),
     obj_entry 0x1F DTYPE_INTEGER16 16 ATYPE_RO ''Point 30'' 0 (Some (Obj (axis_var 0 Axis_CogResult), 60)),
     obj_entry 0x20 DTYPE_INTEGER16 16 ATYPE_RO ''Point 31'' 0 (Some (Obj (axis_var 0 Axis_CogResult), 62)),
     obj_entry 0x21 DTYPE_INTEGER16 16 ATYPE_RO ''Point 32'' 0 (Some (Obj (axis_var 0 Axis_CogResult), 64)),
     obj_entry 0x22 DTYPE_INTEGER16 16 ATYPE_RO ''Point 33'' 0 (Some (Obj (axis_var 0 Axis_CogResult), 66)),
     obj_entry 0x23 DTYPE_INTEGER16 16 ATYPE_RO ''Point 34'' 0 (Some (Obj (axis_var 0 Axis_CogResult), 68)),
     obj_entry 0x24 DTYPE_INTEGER16 16 ATYPE_RO ''Point 35'' 0 (Some (Obj (axis_var 0 Axis_CogResult), 70)),
     obj_entry 0x25 DTYPE_INTEGER16 16 ATYPE_RO ''Point 36'' 0 (Some (Obj (axis_var 0 Axis_CogResult), 72)),
     obj_entry 0x26 DTYPE_INTEGER16 16 ATYPE_RO ''Point 37'' 0 (Some (Obj (axis_var 0 Axis_CogResult), 74)),
     obj_entry 0x27 DTYPE_INTEGER16 16 ATYPE_RO ''Point 38'' 0 (Some (Obj (axis_var 0 Axis_CogResult), 76)),
     obj_entry 0x28 DTYPE_INTEGER16 16 ATYPE_RO ''Point 39'' 0 (Some (Obj (axis_var 0 Axis_CogResult), 78)),
     obj_entry 0x29 DTYPE_INTEGER16 16 ATYPE_RO ''Point 40'' 0 (Some (Obj (axis_var 0 Axis_CogResult), 80)),
     obj_entry 0x2A DTYPE_INTEGER16 16 ATYPE_RO ''Point 41'' 0 (Some (Obj (axis_var 0 Axis_CogResult), 82)),
     obj_entry 0x2B DTYPE_INTEGER16 16 ATYPE_RO ''Point 42'' 0 (Some (Obj (axis_var 0 Axis_CogResult), 84)),
     obj_entry 0x2C DTYPE_INTEGER16 16 ATYPE_RO ''Point 43'' 0 (Some (Obj (axis_var 0 Axis_CogResult), 86)),
     obj_entry 0x2D DTYPE_INTEGER16 16 ATYPE_RO ''Point 44'' 0 (Some (Obj (axis_var 0 Axis_CogResult), 88)),
     obj_entry 0x2E DTYPE_INTEGER16 16 ATYPE_RO ''Point 45'' 0 (Some (Obj (axis_var 0 Axis_CogResult), 90)),
     obj_entry 0x2F DTYPE_INTEGER16 16 ATYPE_RO ''Point 46'' 0 (Some (Obj (axis_var 0 Axis_CogResult), 92)),
     obj_entry 0x30 DTYPE_INTEGER16 16 ATYPE_RO ''Point 47'' 0 (Some (Obj (axis_var 0 Axis_CogResult), 94)),
     obj_entry 0x31 DTYPE_INTEGER16 16 ATYPE_RO ''Point 48'' 0 (Some (Obj (axis_var 0 Axis_CogResult), 96)),
     obj_entry 0x32 DTYPE_INTEGER16 16 ATYPE_RO ''Point 49'' 0 (Some (Obj (axis_var 0 Axis_CogResult), 98)),
     obj_entry 0x33 DTYPE_INTEGER16 16 ATYPE_RO ''Point 50'' 0 (Some (Obj (axis_var 0 Axis_CogResult), 100)),
     obj_entry 0x34 DTYPE_INTEGER16 16 ATYPE_RO ''Point 51'' 0 (Some (Obj (axis_var 0 Axis_CogResult), 102)),
     obj_entry 0x35 DTYPE_INTEGER16 16 ATYPE_RO ''Point 52'' 0 (Some (Obj (axis_var 0 Axis_CogResult), 104)),
     obj_entry 0x36 DTYPE_INTEGER16 16 ATYPE_RO ''Point 53'' 0 (Some (Obj (axis_var 0 Axis_CogResult), 106)),
     obj_entry 0x37 DTYPE_INTEGER16 16 ATYPE_RO ''Point 54'' 0 (Some (Obj (axis_var 0 Axis_CogResult), 108)),
     obj_entry 0x38 DTYPE_INTEGER16 16 ATYPE_RO ''Point 55'' 0 (Some (Obj (axis_var 0 Axis_CogResult), 110)),
     obj_entry 0x39 DTYPE_INTEGER16 16 ATYPE_RO ''Point 56'' 0 (Some (Obj (axis_var 0 Axis_CogResult), 112)),
     obj_entry 0x3A DTYPE_INTEGER16 16 ATYPE_RO ''Point 57'' 0 (Some (Obj (axis_var 0 Axis_CogResult), 114)),
     obj_entry 0x3B DTYPE_INTEGER16 16 ATYPE_RO ''Point 58'' 0 (Some (Obj (axis_var 0 Axis_CogResult), 116)),
     obj_entry 0x3C DTYPE_INTEGER16 16 ATYPE_RO ''Point 59'' 0 (Some (Obj (axis_var 0 Axis_CogResult), 118)),
     obj_entry 0x3D DTYPE_INTEGER16 16 ATYPE_RO ''Point 60'' 0 (Some (Obj (axis_var 0 Axis_CogResult), 120)),
     obj_entry 0x3E DTYPE_INTEGER16 16 ATYPE_RO ''Point 61'' 0 (Some (Obj (axis_var 0 Axis_CogResult), 122)),
     obj_entry 0x3F DTYPE_INTEGER16 16 ATYPE_RO ''Point 62'' 0 (Some (Obj (axis_var 0 Axis_CogResult), 124)),
     obj_entry 0x40 DTYPE_INTEGER16 16 ATYPE_RO ''Point 63'' 0 (Some (Obj (axis_var 0 Axis_CogResult), 126)),
     obj_entry 0x41 DTYPE_INTEGER16 16 ATYPE_RO ''Point 64'' 0 (Some (Obj (axis_var 0 Axis_CogResult), 128)),
     obj_entry 0x42 DTYPE_INTEGER16 16 ATYPE_RO ''Point 65'' 0 (Some (Obj (axis_var 0 Axis_CogResult), 130)),
     obj_entry 0x43 DTYPE_INTEGER16 16 ATYPE_RO ''Point 66'' 0 (Some (Obj (axis_var 0 Axis_CogResult), 132)),
     obj_entry 0x44 DTYPE_INTEGER16 16 ATYPE_RO ''Point 67'' 0 (Some (Obj (axis_var 0 Axis_CogResult), 134)),
     obj_entry 0x45 DTYPE_INTEGER16 16 ATYPE_RO ''Point 68'' 0 (Some (Obj (axis_var 0 Axis_CogResult), 136)),
     obj_entry 0x46 DTYPE_INTEGER16 16 ATYPE_RO ''Point 69'' 0 (Some (Obj (axis_var 0 Axis_CogResult), 138)),
     obj_entry 0x47 DTYPE_INTEGER16 16 ATYPE_RO ''Point 70'' 0 (Some (Obj (axis_var 0 Axis_CogResult), 140)),
     obj_entry 0x48 DTYPE_INTEGER16 16 ATYPE_RO ''Point 71'' 0 (Some (Obj (axis_var 0 Axis_CogResult), 142)),
     obj_entry 0x49 DTYPE_INTEGER16 16 ATYPE_RO ''Point 72'' 0 (Some (Obj (axis_var 0 Axis_CogResult), 144)),
     obj_entry 0x4A DTYPE_INTEGER16 16 ATYPE_RO ''Point 73'' 0 (Some (Obj (axis_var 0 Axis_CogResult), 146)),
     obj_entry 0x4B DTYPE_INTEGER16 16 ATYPE_RO ''Point 74'' 0 (Some (Obj (axis_var 0 Axis_CogResult), 148)),
     obj_entry 0x4C DTYPE_INTEGER16 16 ATYPE_RO ''Point 75'' 0 (Some (Obj (axis_var 0 Axis_CogResult), 150)),
     obj_entry 0x4D DTYPE_INTEGER16 16 ATYPE_RO ''Point 76'' 0 (Some (Obj (axis_var 0 Axis_CogResult), 152)),
     obj_entry 0x4E DTYPE_INTEGER16 16 ATYPE_RO ''Point 77'' 0 (Some (Obj (axis_var 0 Axis_CogResult), 154)),
     obj_entry 0x4F DTYPE_INTEGER16 16 ATYPE_RO ''Point 78'' 0 (Some (Obj (axis_var 0 Axis_CogResult), 156)),
     obj_entry 0x50 DTYPE_INTEGER16 16 ATYPE_RO ''Point 79'' 0 (Some (Obj (axis_var 0 Axis_CogResult), 158)),
     obj_entry 0x51 DTYPE_INTEGER16 16 ATYPE_RO ''Point 80'' 0 (Some (Obj (axis_var 0 Axis_CogResult), 160)),
     obj_entry 0x52 DTYPE_INTEGER16 16 ATYPE_RO ''Point 81'' 0 (Some (Obj (axis_var 0 Axis_CogResult), 162)),
     obj_entry 0x53 DTYPE_INTEGER16 16 ATYPE_RO ''Point 82'' 0 (Some (Obj (axis_var 0 Axis_CogResult), 164)),
     obj_entry 0x54 DTYPE_INTEGER16 16 ATYPE_RO ''Point 83'' 0 (Some (Obj (axis_var 0 Axis_CogResult), 166)),
     obj_entry 0x55 DTYPE_INTEGER16 16 ATYPE_RO ''Point 84'' 0 (Some (Obj (axis_var 0 Axis_CogResult), 168)),
     obj_entry 0x56 DTYPE_INTEGER16 16 ATYPE_RO ''Point 85'' 0 (Some (Obj (axis_var 0 Axis_CogResult), 170)),
     obj_entry 0x57 DTYPE_INTEGER16 16 ATYPE_RO ''Point 86'' 0 (Some (Obj (axis_var 0 Axis_CogResult), 172)),
     obj_entry 0x58 DTYPE_INTEGER16 16 ATYPE_RO ''Point 87'' 0 (Some (Obj (axis_var 0 Axis_CogResult), 174)),
     obj_entry 0x59 DTYPE_INTEGER16 16 ATYPE_RO ''Point 88'' 0 (Some (Obj (axis_var 0 Axis_CogResult), 176)),
     obj_entry 0x5A DTYPE_INTEGER16 16 ATYPE_RO ''Point 89'' 0 (Some (Obj (axis_var 0 Axis_CogResult), 178)),
     obj_entry 0x5B DTYPE_INTEGER16 16 ATYPE_RO ''Point 90'' 0 (Some (Obj (axis_var 0 Axis_CogResult), 180)),
     obj_entry 0x5C DTYPE_INTEGER16 16 ATYPE_RO ''Point 91'' 0 (Some (Obj (axis_var 0 Axis_CogResult), 182)),
     obj_entry 0x5D DTYPE_INTEGER16 16 ATYPE_RO ''Point 92'' 0 (Some (Obj (axis_var 0 Axis_CogResult), 184)),
     obj_entry 0x5E DTYPE_INTEGER16 16 ATYPE_RO ''Point 93'' 0 (Some (Obj (axis_var 0 Axis_CogResult), 186)),
     obj_entry 0x5F DTYPE_INTEGER16 16 ATYPE_RO ''Point 94'' 0 (Some (Obj (axis_var 0 Axis_CogResult), 188)),
     obj_entry 0x60 DTYPE_INTEGER16 16 ATYPE_RO ''Point 95'' 0 (Some (Obj (axis_var 0 Axis_CogResult), 190)),
     obj_entry 0x61 DTYPE_INTEGER16 16 ATYPE_RO ''Point 96'' 0 (Some (Obj (axis_var 0 Axis_CogResult), 192)),
     obj_entry 0x62 DTYPE_INTEGER16 16 ATYPE_RO ''Point 97'' 0 (Some (Obj (axis_var 0 Axis_CogResult), 194)),
     obj_entry 0x63 DTYPE_INTEGER16 16 ATYPE_RO ''Point 98'' 0 (Some (Obj (axis_var 0 Axis_CogResult), 196)),
     obj_entry 0x64 DTYPE_INTEGER16 16 ATYPE_RO ''Point 99'' 0 (Some (Obj (axis_var 0 Axis_CogResult), 198)),
     obj_entry 0x65 DTYPE_INTEGER16 16 ATYPE_RO ''Point 100'' 0 (Some (Obj (axis_var 0 Axis_CogResult), 200)),
     obj_entry 0x66 DTYPE_INTEGER16 16 ATYPE_RO ''Point 101'' 0 (Some (Obj (axis_var 0 Axis_CogResult), 202)),
     obj_entry 0x67 DTYPE_INTEGER16 16 ATYPE_RO ''Point 102'' 0 (Some (Obj (axis_var 0 Axis_CogResult), 204)),
     obj_entry 0x68 DTYPE_INTEGER16 16 ATYPE_RO ''Point 103'' 0 (Some (Obj (axis_var 0 Axis_CogResult), 206)),
     obj_entry 0x69 DTYPE_INTEGER16 16 ATYPE_RO ''Point 104'' 0 (Some (Obj (axis_var 0 Axis_CogResult), 208)),
     obj_entry 0x6A DTYPE_INTEGER16 16 ATYPE_RO ''Point 105'' 0 (Some (Obj (axis_var 0 Axis_CogResult), 210)),
     obj_entry 0x6B DTYPE_INTEGER16 16 ATYPE_RO ''Point 106'' 0 (Some (Obj (axis_var 0 Axis_CogResult), 212)),
     obj_entry 0x6C DTYPE_INTEGER16 16 ATYPE_RO ''Point 107'' 0 (Some (Obj (axis_var 0 Axis_CogResult), 214)),
     obj_entry 0x6D DTYPE_INTEGER16 16 ATYPE_RO ''Point 108'' 0 (Some (Obj (axis_var 0 Axis_CogResult), 216)),
     obj_entry 0x6E DTYPE_INTEGER16 16 ATYPE_RO ''Point 109'' 0 (Some (Obj (axis_var 0 Axis_CogResult), 218)),
     obj_entry 0x6F DTYPE_INTEGER16 16 ATYPE_RO ''Point 110'' 0 (Some (Obj (axis_var 0 Axis_CogResult), 220)),
     obj_entry 0x70 DTYPE_INTEGER16 16 ATYPE_RO ''Point 111'' 0 (Some (Obj (axis_var 0 Axis_CogResult), 222)),
     obj_entry 0x71 DTYPE_INTEGER16 16 ATYPE_RO ''Point 112'' 0 (Some (Obj (axis_var 0 Axis_CogResult), 224)),
     obj_entry 0x72 DTYPE_INTEGER16 16 ATYPE_RO ''Point 113'' 0 (Some (Obj (axis_var 0 Axis_CogResult), 226)),
     obj_entry 0x73 DTYPE_INTEGER16 16 ATYPE_RO ''Point 114'' 0 (Some (Obj (axis_var 0 Axis_CogResult), 228)),
     obj_entry 0x74 DTYPE_INTEGER16 16 ATYPE_RO ''Point 115'' 0 (Some (Obj (axis_var 0 Axis_CogResult), 230)),
     obj_entry 0x75 DTYPE_INTEGER16 16 ATYPE_RO ''Point 116'' 0 (Some (Obj (axis_var 0 Axis_CogResult), 232)),
     obj_entry 0x76 DTYPE_INTEGER16 16 ATYPE_RO ''Point 117'' 0 (Some (Obj (axis_var 0 Axis_CogResult), 234)),
     obj_entry 0x77 DTYPE_INTEGER16 16 ATYPE_RO ''Point 118'' 0 (Some (Obj (axis_var 0 Axis_CogResult), 236)),
     obj_entry 0x78 DTYPE_INTEGER16 16 ATYPE_RO ''Point 119'' 0 (Some (Obj (axis_var 0 Axis_CogResult), 238)),
     obj_entry 0x79 DTYPE_INTEGER16 16 ATYPE_RO ''Point 120'' 0 (Some (Obj (axis_var 0 Axis_CogResult), 240)),
     obj_entry 0x7A DTYPE_INTEGER16 16 ATYPE_RO ''Point 121'' 0 (Some (Obj (axis_var 0 Axis_CogResult), 242)),
     obj_entry 0x7B DTYPE_INTEGER16 16 ATYPE_RO ''Point 122'' 0 (Some (Obj (axis_var 0 Axis_CogResult), 244)),
     obj_entry 0x7C DTYPE_INTEGER16 16 ATYPE_RO ''Point 123'' 0 (Some (Obj (axis_var 0 Axis_CogResult), 246)),
     obj_entry 0x7D DTYPE_INTEGER16 16 ATYPE_RO ''Point 124'' 0 (Some (Obj (axis_var 0 Axis_CogResult), 248)),
     obj_entry 0x7E DTYPE_INTEGER16 16 ATYPE_RO ''Point 125'' 0 (Some (Obj (axis_var 0 Axis_CogResult), 250)),
     obj_entry 0x7F DTYPE_INTEGER16 16 ATYPE_RO ''Point 126'' 0 (Some (Obj (axis_var 0 Axis_CogResult), 252)),
     obj_entry 0x80 DTYPE_INTEGER16 16 ATYPE_RO ''Point 127'' 0 (Some (Obj (axis_var 0 Axis_CogResult), 254))]"

definition SDO2034 :: "objd list" where
  "SDO2034 = [
     obj_entry 0x0 DTYPE_UNSIGNED8 8 ATYPE_RO ''Cogging Result Negative'' 128 None,
     obj_entry 0x1 DTYPE_INTEGER16 16 ATYPE_RO ''Point 0'' 0 (Some (Obj (axis_var 0 Axis_CogResultNeg), 0)),
     obj_entry 0x2 DTYPE_INTEGER16 16 ATYPE_RO ''Point 1'' 0 (Some (Obj (axis_var 0 Axis_CogResultNeg), 2)),
     obj_entry 0x3 DTYPE_INTEGER16 16 ATYPE_RO ''Point 2'' 0 (Some (Obj (axis_var 0 Axis_CogResultNeg), 4)),
     obj_entry 0x4 DTYPE_INTEGER16 16 ATYPE_RO ''Point 3'' 0 (Some (Obj (axis_var 0 Axis_CogResultNeg), 6)),
     obj_entry 0x5 DTYPE_INTEGER16 16 ATYPE_RO ''Point 4'' 0 (Some (Obj (axis_var 0 Axis_CogResultNeg), 8)),
     obj_entry 0x6 DTYPE_INTEGER16 16 ATYPE_RO ''Point 5'' 0 (Some (Obj (axis_var 0 Axis_CogResultNeg), 10)),
     obj_entry 0x7 DTYPE_INTEGER16 16 ATYPE_RO ''Point 6'' 0 (Some (Obj (axis_var 0 Axis_CogResultNeg), 12)),
     obj_entry 0x8 DTYPE_INTEGER16 16 ATYPE_RO ''Point 7'' 0 (Some (Obj (axis_var 0 Axis_CogResultNeg), 14)),
     obj_entry 0x9 DTYPE_INTEGER16 16 ATYPE_RO ''Point 8'' 0 (Some (Obj (axis_var 0 Axis_CogResultNeg), 16)),
     obj_entry 0xA DTYPE_INTEGER16 16 ATYPE_RO ''Point 9'' 0 (Some (Obj (axis_var 0 Axis_CogResultNeg), 18)),
     obj_entry 0xB DTYPE_INTEGER16 16 ATYPE_RO ''Point 10'' 0 (Some (Obj (axis_var 0 Axis_CogResultNeg), 20)),
     obj_entry 0xC DTYPE_INTEGER16 16 ATYPE_RO ''Point 11'' 0 (Some (Obj (axis_var 0 Axis_CogResultNeg), 22)),
     obj_entry 0xD DTYPE_INTEGER16 16 ATYPE_RO ''Point 12'' 0 (Some (Obj (axis_var 0 Axis_CogResultNeg), 24)),
     obj_entry 0xE DTYPE_INTEGER16 16 ATYPE_RO ''Point 13'' 0 (Some (Obj (axis_var 0 Axis_CogResultNeg), 26)),
     obj_entry 0xF DTYPE_INTEGER16 16 ATYPE_RO ''Point 14'' 0 (Some (Obj (axis_var 0 Axis_CogResultNeg), 28)),
     obj_entry 0x10 DTYPE_INTEGER16 16 ATYPE_RO ''Point 15'' 0 (Some (Obj (axis_var 0 Axis_CogResultNeg), 30)),
     obj_entry 0x11 DTYPE_INTEGER16 16 ATYPE_RO ''Point 16'' 0 (Some (Obj (axis_var 0 Axis_CogResultNeg), 32)),
     obj_entry 0x12 DTYPE_INTEGER16 16 ATYPE_RO ''Point 17'' 0 (Some (Obj (axis_var 0 Axis_CogResultNeg), 34)),
     obj_entry 0x13 DTYPE_INTEGER16 16 ATYPE_RO ''Point 18'' 0 (Some (Obj (axis_var 0 Axis_CogResultNeg), 36)),
     obj_entry 0x14 DTYPE_INTEGER16 16 ATYPE_RO ''Point 19'' 0 (Some (Obj (axis_var 0 Axis_CogResultNeg), 38)),
     obj_entry 0x15 DTYPE_INTEGER16 16 ATYPE_RO ''Point 20'' 0 (Some (Obj (axis_var 0 Axis_CogResultNeg), 40)),
     obj_entry 0x16 DTYPE_INTEGER16 16 ATYPE_RO ''Point 21'' 0 (Some (Obj (axis_var 0 Axis_CogResultNeg), 42)),
     obj_entry 0x17 DTYPE_INTEGER16 16 ATYPE_RO ''Point 22'' 0 (Some (Obj (axis_var 0 Axis_CogResultNeg), 44)),
     obj_entry 0x18 DTYPE_INTEGER16 16 ATYPE_RO ''Point 23'' 0 (Some (Obj (axis_var 0 Axis_CogResultNeg), 46)),
     obj_entry 0x19 DTYPE_INTEGER16 16 ATYPE_RO ''Point 24'' 0 (Some (Obj (axis_var 0 Axis_CogResultNeg), 48)),
     obj_entry 0x1A DTYPE_INTEGER16 16 ATYPE_RO ''Point 25'' 0 (Some (Obj (axis_var 0 Axis_CogResultNeg), 50)),
     obj_entry 0x1B DTYPE_INTEGER16 16 ATYPE_RO ''Point 26'' 0 (Some (Obj (axis_var 0 Axis_CogResultNeg), 52)),
     obj_entry 0x1C DTYPE_INTEGER16 16 ATYPE_RO ''Point 27'' 0 (Some (Obj (axis_var 0 Axis_CogResultNeg), 54)),
     obj_entry 0x1D DTYPE_INTEGER16 16 ATYPE_RO ''Point 28'' 0 (Some (Obj (axis_var 0 Axis_CogResultNeg), 56)),
     obj_entry 0x1E DTYPE_INTEGER16 16 ATYPE_RO ''Point 29'' 0 (Some (Obj (axis_var 0 Axis_CogResultNeg), 58)),
     obj_entry 0x1F DTYPE_INTEGER16 16 ATYPE_RO ''Point 30'' 0 (Some (Obj (axis_var 0 Axis_CogResultNeg), 60)),
     obj_entry 0x20 DTYPE_INTEGER16 16 ATYPE_RO ''Point 31'' 0 (Some (Obj (axis_var 0 Axis_CogResultNeg), 62)),
     obj_entry 0x21 DTYPE_INTEGER16 16 ATYPE_RO ''Point 32'' 0 (Some (Obj (axis_var 0 Axis_CogResultNeg), 64)),
     obj_entry 0x22 DTYPE_INTEGER16 16 ATYPE_RO ''Point 33'' 0 (Some (Obj (axis_var 0 Axis_CogResultNeg), 66)),
     obj_entry 0x23 DTYPE_INTEGER16 16 ATYPE_RO ''Point 34'' 0 (Some (Obj (axis_var 0 Axis_CogResultNeg), 68)),
     obj_entry 0x24 DTYPE_INTEGER16 16 ATYPE_RO ''Point 35'' 0 (Some (Obj (axis_var 0 Axis_CogResultNeg), 70)),
     obj_entry 0x25 DTYPE_INTEGER16 16 ATYPE_RO ''Point 36'' 0 (Some (Obj (axis_var 0 Axis_CogResultNeg), 72)),
     obj_entry 0x26 DTYPE_INTEGER16 16 ATYPE_RO ''Point 37'' 0 (Some (Obj (axis_var 0 Axis_CogResultNeg), 74)),
     obj_entry 0x27 DTYPE_INTEGER16 16 ATYPE_RO ''Point 38'' 0 (Some (Obj (axis_var 0 Axis_CogResultNeg), 76)),
     obj_entry 0x28 DTYPE_INTEGER16 16 ATYPE_RO ''Point 39'' 0 (Some (Obj (axis_var 0 Axis_CogResultNeg), 78)),
     obj_entry 0x29 DTYPE_INTEGER16 16 ATYPE_RO ''Point 40'' 0 (Some (Obj (axis_var 0 Axis_CogResultNeg), 80)),
     obj_entry 0x2A DTYPE_INTEGER16 16 ATYPE_RO ''Point 41'' 0 (Some (Obj (axis_var 0 Axis_CogResultNeg), 82)),
     obj_entry 0x2B DTYPE_INTEGER16 16 ATYPE_RO ''Point 42'' 0 (Some (Obj (axis_var 0 Axis_CogResultNeg), 84)),
     obj_entry 0x2C DTYPE_INTEGER16 16 ATYPE_RO ''Point 43'' 0 (Some (Obj (axis_var 0 Axis_CogResultNeg), 86)),
     obj_entry 0x2D DTYPE_INTEGER16 16 ATYPE_RO ''Point 44'' 0 (Some (Obj (axis_var 0 Axis_CogResultNeg), 88)),
     obj_entry 0x2E DTYPE_INTEGER16 16 ATYPE_RO ''Point 45'' 0 (Some (Obj (axis_var 0 Axis_CogResultNeg), 90)),
     obj_entry 0x2F DTYPE_INTEGER16 16 ATYPE_RO ''Point 46'' 0 (Some (Obj (axis_var 0 Axis_CogResultNeg), 92)),
     obj_entry 0x30 DTYPE_INTEGER16 16 ATYPE_RO ''Point 47'' 0 (Some (Obj (axis_var 0 Axis_CogResultNeg), 94)),
     obj_entry 0x31 DTYPE_INTEGER16 16 ATYPE_RO ''Point 48'' 0 (Some (Obj (axis_var 0 Axis_CogResultNeg), 96)),
     obj_entry 0x32 DTYPE_INTEGER16 16 ATYPE_RO ''Point 49'' 0 (Some (Obj (axis_var 0 Axis_CogResultNeg), 98)),
     obj_entry 0x33 DTYPE_INTEGER16 16 ATYPE_RO ''Point 50'' 0 (Some (Obj (axis_var 0 Axis_CogResultNeg), 100)),
     obj_entry 0x34 DTYPE_INTEGER16 16 ATYPE_RO ''Point 51'' 0 (Some (Obj (axis_var 0 Axis_CogResultNeg), 102)),
     obj_entry 0x35 DTYPE_INTEGER16 16 ATYPE_RO ''Point 52'' 0 (Some (Obj (axis_var 0 Axis_CogResultNeg), 104)),
     obj_entry 0x36 DTYPE_INTEGER16 16 ATYPE_RO ''Point 53'' 0 (Some (Obj (axis_var 0 Axis_CogResultNeg), 106)),
     obj_entry 0x37 DTYPE_INTEGER16 16 ATYPE_RO ''Point 54'' 0 (Some (Obj (axis_var 0 Axis_CogResultNeg), 108)),
     obj_entry 0x38 DTYPE_INTEGER16 16 ATYPE_RO ''Point 55'' 0 (Some (Obj (axis_var 0 Axis_CogResultNeg), 110)),
     obj_entry 0x39 DTYPE_INTEGER16 16 ATYPE_RO ''Point 56'' 0 (Some (Obj (axis_var 0 Axis_CogResultNeg), 112)),
     obj_entry 0x3A DTYPE_INTEGER16 16 ATYPE_RO ''Point 57'' 0 (Some (Obj (axis_var 0 Axis_CogResultNeg), 114)),
     obj_entry 0x3B DTYPE_INTEGER16 16 ATYPE_RO ''Point 58'' 0 (Some (Obj (axis_var 0 Axis_CogResultNeg), 116)),
     obj_entry 0x3C DTYPE_INTEGER16 16 ATYPE_RO ''Point 59'' 0 (Some (Obj (axis_var 0 Axis_CogResultNeg), 118)),
     obj_entry 0x3D DTYPE_INTEGER16 16 ATYPE_RO ''Point 60'' 0 (Some (Obj (axis_var 0 Axis_CogResultNeg), 120)),
     obj_entry 0x3E DTYPE_INTEGER16 16 ATYPE_RO ''Point 61'' 0 (Some (Obj (axis_var 0 Axis_CogResultNeg), 122)),
     obj_entry 0x3F DTYPE_INTEGER16 16 ATYPE_RO ''Point 62'' 0 (Some (Obj (axis_var 0 Axis_CogResultNeg), 124)),
     obj_entry 0x40 DTYPE_INTEGER16 16 ATYPE_RO ''Point 63'' 0 (Some (Obj (axis_var 0 Axis_CogResultNeg), 126)),
     obj_entry 0x41 DTYPE_INTEGER16 16 ATYPE_RO ''Point 64'' 0 (Some (Obj (axis_var 0 Axis_CogResultNeg), 128)),
     obj_entry 0x42 DTYPE_INTEGER16 16 ATYPE_RO ''Point 65'' 0 (Some (Obj (axis_var 0 Axis_CogResultNeg), 130)),
     obj_entry 0x43 DTYPE_INTEGER16 16 ATYPE_RO ''Point 66'' 0 (Some (Obj (axis_var 0 Axis_CogResultNeg), 132)),
     obj_entry 0x44 DTYPE_INTEGER16 16 ATYPE_RO ''Point 67'' 0 (Some (Obj (axis_var 0 Axis_CogResultNeg), 134)),
     obj_entry 0x45 DTYPE_INTEGER16 16 ATYPE_RO ''Point 68'' 0 (Some (Obj (axis_var 0 Axis_CogResultNeg), 136)),
     obj_entry 0x46 DTYPE_INTEGER16 16 ATYPE_RO ''Point 69'' 0 (Some (Obj (axis_var 0 Axis_CogResultNeg), 138)),
     obj_entry 0x47 DTYPE_INTEGER16 16 ATYPE_RO ''Point 70'' 0 (Some (Obj (axis_var 0 Axis_CogResultNeg), 140)),
     obj_entry 0x48 DTYPE_INTEGER16 16 ATYPE_RO ''Point 71'' 0 (Some (Obj (axis_var 0 Axis_CogResultNeg), 142)),
     obj_entry 0x49 DTYPE_INTEGER16 16 ATYPE_RO ''Point 72'' 0 (Some (Obj (axis_var 0 Axis_CogResultNeg), 144)),
     obj_entry 0x4A DTYPE_INTEGER16 16 ATYPE_RO ''Point 73'' 0 (Some (Obj (axis_var 0 Axis_CogResultNeg), 146)),
     obj_entry 0x4B DTYPE_INTEGER16 16 ATYPE_RO ''Point 74'' 0 (Some (Obj (axis_var 0 Axis_CogResultNeg), 148)),
     obj_entry 0x4C DTYPE_INTEGER16 16 ATYPE_RO ''Point 75'' 0 (Some (Obj (axis_var 0 Axis_CogResultNeg), 150)),
     obj_entry 0x4D DTYPE_INTEGER16 16 ATYPE_RO ''Point 76'' 0 (Some (Obj (axis_var 0 Axis_CogResultNeg), 152)),
     obj_entry 0x4E DTYPE_INTEGER16 16 ATYPE_RO ''Point 77'' 0 (Some (Obj (axis_var 0 Axis_CogResultNeg), 154)),
     obj_entry 0x4F DTYPE_INTEGER16 16 ATYPE_RO ''Point 78'' 0 (Some (Obj (axis_var 0 Axis_CogResultNeg), 156)),
     obj_entry 0x50 DTYPE_INTEGER16 16 ATYPE_RO ''Point 79'' 0 (Some (Obj (axis_var 0 Axis_CogResultNeg), 158)),
     obj_entry 0x51 DTYPE_INTEGER16 16 ATYPE_RO ''Point 80'' 0 (Some (Obj (axis_var 0 Axis_CogResultNeg), 160)),
     obj_entry 0x52 DTYPE_INTEGER16 16 ATYPE_RO ''Point 81'' 0 (Some (Obj (axis_var 0 Axis_CogResultNeg), 162)),
     obj_entry 0x53 DTYPE_INTEGER16 16 ATYPE_RO ''Point 82'' 0 (Some (Obj (axis_var 0 Axis_CogResultNeg), 164)),
     obj_entry 0x54 DTYPE_INTEGER16 16 ATYPE_RO ''Point 83'' 0 (Some (Obj (axis_var 0 Axis_CogResultNeg), 166)),
     obj_entry 0x55 DTYPE_INTEGER16 16 ATYPE_RO ''Point 84'' 0 (Some (Obj (axis_var 0 Axis_CogResultNeg), 168)),
     obj_entry 0x56 DTYPE_INTEGER16 16 ATYPE_RO ''Point 85'' 0 (Some (Obj (axis_var 0 Axis_CogResultNeg), 170)),
     obj_entry 0x57 DTYPE_INTEGER16 16 ATYPE_RO ''Point 86'' 0 (Some (Obj (axis_var 0 Axis_CogResultNeg), 172)),
     obj_entry 0x58 DTYPE_INTEGER16 16 ATYPE_RO ''Point 87'' 0 (Some (Obj (axis_var 0 Axis_CogResultNeg), 174)),
     obj_entry 0x59 DTYPE_INTEGER16 16 ATYPE_RO ''Point 88'' 0 (Some (Obj (axis_var 0 Axis_CogResultNeg), 176)),
     obj_entry 0x5A DTYPE_INTEGER16 16 ATYPE_RO ''Point 89'' 0 (Some (Obj (axis_var 0 Axis_CogResultNeg), 178)),
     obj_entry 0x5B DTYPE_INTEGER16 16 ATYPE_RO ''Point 90'' 0 (Some (Obj (axis_var 0 Axis_CogResultNeg), 180)),
     obj_entry 0x5C DTYPE_INTEGER16 16 ATYPE_RO ''Point 91'' 0 (Some (Obj (axis_var 0 Axis_CogResultNeg), 182)),
     obj_entry 0x5D DTYPE_INTEGER16 16 ATYPE_RO ''Point 92'' 0 (Some (Obj (axis_var 0 Axis_CogResultNeg), 184)),
     obj_entry 0x5E DTYPE_INTEGER16 16 ATYPE_RO ''Point 93'' 0 (Some (Obj (axis_var 0 Axis_CogResultNeg), 186)),
     obj_entry 0x5F DTYPE_INTEGER16 16 ATYPE_RO ''Point 94'' 0 (Some (Obj (axis_var 0 Axis_CogResultNeg), 188)),
     obj_entry 0x60 DTYPE_INTEGER16 16 ATYPE_RO ''Point 95'' 0 (Some (Obj (axis_var 0 Axis_CogResultNeg), 190)),
     obj_entry 0x61 DTYPE_INTEGER16 16 ATYPE_RO ''Point 96'' 0 (Some (Obj (axis_var 0 Axis_CogResultNeg), 192)),
     obj_entry 0x62 DTYPE_INTEGER16 16 ATYPE_RO ''Point 97'' 0 (Some (Obj (axis_var 0 Axis_CogResultNeg), 194)),
     obj_entry 0x63 DTYPE_INTEGER16 16 ATYPE_RO ''Point 98'' 0 (Some (Obj (axis_var 0 Axis_CogResultNeg), 196)),
     obj_entry 0x64 DTYPE_INTEGER16 16 ATYPE_RO ''Point 99'' 0 (Some (Obj (axis_var 0 Axis_CogResultNeg), 198)),
     obj_entry 0x65 DTYPE_INTEGER16 16 ATYPE_RO ''Point 100'' 0 (Some (Obj (axis_var 0 Axis_CogResultNeg), 200)),
     obj_entry 0x66 DTYPE_INTEGER16 16 ATYPE_RO ''Point 101'' 0 (Some (Obj (axis_var 0 Axis_CogResultNeg), 202)),
     obj_entry 0x67 DTYPE_INTEGER16 16 ATYPE_RO ''Point 102'' 0 (Some (Obj (axis_var 0 Axis_CogResultNeg), 204)),
     obj_entry 0x68 DTYPE_INTEGER16 16 ATYPE_RO ''Point 103'' 0 (Some (Obj (axis_var 0 Axis_CogResultNeg), 206)),
     obj_entry 0x69 DTYPE_INTEGER16 16 ATYPE_RO ''Point 104'' 0 (Some (Obj (axis_var 0 Axis_CogResultNeg), 208)),
     obj_entry 0x6A DTYPE_INTEGER16 16 ATYPE_RO ''Point 105'' 0 (Some (Obj (axis_var 0 Axis_CogResultNeg), 210)),
     obj_entry 0x6B DTYPE_INTEGER16 16 ATYPE_RO ''Point 106'' 0 (Some (Obj (axis_var 0 Axis_CogResultNeg), 212)),
     obj_entry 0x6C DTYPE_INTEGER16 16 ATYPE_RO ''Point 107'' 0 (Some (Obj (axis_var 0 Axis_CogResultNeg), 214)),
     obj_entry 0x6D DTYPE_INTEGER16 16 ATYPE_RO ''Point 108'' 0 (Some (Obj (axis_var 0 Axis_CogResultNeg), 216)),
     obj_entry 0x6E DTYPE_INTEGER16 16 ATYPE_RO ''Point 109'' 0 (Some (Obj (axis_var 0 Axis_CogResultNeg), 218)),
     obj_entry 0x6F DTYPE_INTEGER16 16 ATYPE_RO ''Point 110'' 0 (Some (Obj (axis_var 0 Axis_CogResultNeg), 220)),
     obj_entry 0x70 DTYPE_INTEGER16 16 ATYPE_RO ''Point 111'' 0 (Some (Obj (axis_var 0 Axis_CogResultNeg), 222)),
     obj_entry 0x71 DTYPE_INTEGER16 16 ATYPE_RO ''Point 112'' 0 (Some (Obj (axis_var 0 Axis_CogResultNeg), 224)),
     obj_entry 0x72 DTYPE_INTEGER16 16 ATYPE_RO ''Point 113'' 0 (Some (Obj (axis_var 0 Axis_CogResultNeg), 226)),
     obj_entry 0x73 DTYPE_INTEGER16 16 ATYPE_RO ''Point 114'' 0 (Some (Obj (axis_var 0 Axis_CogResultNeg), 228)),
     obj_entry 0x74 DTYPE_INTEGER16 16 ATYPE_RO ''Point 115'' 0 (Some (Obj (axis_var 0 Axis_CogResultNeg), 230)),
     obj_entry 0x75 DTYPE_INTEGER16 16 ATYPE_RO ''Point 116'' 0 (Some (Obj (axis_var 0 Axis_CogResultNeg), 232)),
     obj_entry 0x76 DTYPE_INTEGER16 16 ATYPE_RO ''Point 117'' 0 (Some (Obj (axis_var 0 Axis_CogResultNeg), 234)),
     obj_entry 0x77 DTYPE_INTEGER16 16 ATYPE_RO ''Point 118'' 0 (Some (Obj (axis_var 0 Axis_CogResultNeg), 236)),
     obj_entry 0x78 DTYPE_INTEGER16 16 ATYPE_RO ''Point 119'' 0 (Some (Obj (axis_var 0 Axis_CogResultNeg), 238)),
     obj_entry 0x79 DTYPE_INTEGER16 16 ATYPE_RO ''Point 120'' 0 (Some (Obj (axis_var 0 Axis_CogResultNeg), 240)),
     obj_entry 0x7A DTYPE_INTEGER16 16 ATYPE_RO ''Point 121'' 0 (Some (Obj (axis_var 0 Axis_CogResultNeg), 242)),
     obj_entry 0x7B DTYPE_INTEGER16 16 ATYPE_RO ''Point 122'' 0 (Some (Obj (axis_var 0 Axis_CogResultNeg), 244)),
     obj_entry 0x7C DTYPE_INTEGER16 16 ATYPE_RO ''Point 123'' 0 (Some (Obj (axis_var 0 Axis_CogResultNeg), 246)),
     obj_entry 0x7D DTYPE_INTEGER16 16 ATYPE_RO ''Point 124'' 0 (Some (Obj (axis_var 0 Axis_CogResultNeg), 248)),
     obj_entry 0x7E DTYPE_INTEGER16 16 ATYPE_RO ''Point 125'' 0 (Some (Obj (axis_var 0 Axis_CogResultNeg), 250)),
     obj_entry 0x7F DTYPE_INTEGER16 16 ATYPE_RO ''Point 126'' 0 (Some (Obj (axis_var 0 Axis_CogResultNeg), 252)),
     obj_entry 0x80 DTYPE_INTEGER16 16 ATYPE_RO ''Point 127'' 0 (Some (Obj (axis_var 0 Axis_CogResultNeg), 254))]"

definition SDO2035 :: "objd list" where
  "SDO2035 = [
     obj_entry 0x0 DTYPE_UNSIGNED8 8 ATYPE_RO ''Step Check'' 7 None,
     obj_entry 0x1 DTYPE_INTEGER32 32 ATYPE_RW ''Step Size'' 2048 (Some (Obj (axis_var 0 Axis_CheckStep), 0)),
     obj_entry 0x2 DTYPE_UNSIGNED8 8 ATYPE_RW ''Steps'' 8 (Some (Obj (axis_var 0 Axis_CheckSteps), 0)),
     obj_entry 0x3 DTYPE_UNSIGNED32 32 ATYPE_RO ''Time to 63 % us'' 0 (Some (Obj (axis_var 0 Axis_CheckT63), 0)),
     obj_entry 0x4 DTYPE_UNSIGNED32 32 ATYPE_RO ''Time to 90 % us'' 0 (Some (Obj (axis_var 0 Axis_CheckT90), 0)),
     obj_entry 0x5 DTYPE_UNSIGNED16 16 ATYPE_RO ''Overshoot'' 0 (Some (Obj (axis_var 0 Axis_CheckOvershoot), 0)),
     obj_entry 0x6 DTYPE_UNSIGNED32 32 ATYPE_RO ''Settling Time us'' 0 (Some (Obj (axis_var 0 Axis_CheckSettling), 0)),
     obj_entry 0x7 DTYPE_INTEGER32 32 ATYPE_RO ''Final Error'' 0 (Some (Obj (axis_var 0 Axis_CheckFinalError), 0))]"

definition SDO2036 :: "objd list" where
  "SDO2036 = [
     obj_entry 0x0 DTYPE_UNSIGNED8 8 ATYPE_RO ''Step Check Response'' 200 None,
     obj_entry 0x1 DTYPE_INTEGER16 16 ATYPE_RO ''Point 0'' 0 (Some (Obj (axis_var 0 Axis_CheckCurve), 0)),
     obj_entry 0x2 DTYPE_INTEGER16 16 ATYPE_RO ''Point 1'' 0 (Some (Obj (axis_var 0 Axis_CheckCurve), 2)),
     obj_entry 0x3 DTYPE_INTEGER16 16 ATYPE_RO ''Point 2'' 0 (Some (Obj (axis_var 0 Axis_CheckCurve), 4)),
     obj_entry 0x4 DTYPE_INTEGER16 16 ATYPE_RO ''Point 3'' 0 (Some (Obj (axis_var 0 Axis_CheckCurve), 6)),
     obj_entry 0x5 DTYPE_INTEGER16 16 ATYPE_RO ''Point 4'' 0 (Some (Obj (axis_var 0 Axis_CheckCurve), 8)),
     obj_entry 0x6 DTYPE_INTEGER16 16 ATYPE_RO ''Point 5'' 0 (Some (Obj (axis_var 0 Axis_CheckCurve), 10)),
     obj_entry 0x7 DTYPE_INTEGER16 16 ATYPE_RO ''Point 6'' 0 (Some (Obj (axis_var 0 Axis_CheckCurve), 12)),
     obj_entry 0x8 DTYPE_INTEGER16 16 ATYPE_RO ''Point 7'' 0 (Some (Obj (axis_var 0 Axis_CheckCurve), 14)),
     obj_entry 0x9 DTYPE_INTEGER16 16 ATYPE_RO ''Point 8'' 0 (Some (Obj (axis_var 0 Axis_CheckCurve), 16)),
     obj_entry 0xA DTYPE_INTEGER16 16 ATYPE_RO ''Point 9'' 0 (Some (Obj (axis_var 0 Axis_CheckCurve), 18)),
     obj_entry 0xB DTYPE_INTEGER16 16 ATYPE_RO ''Point 10'' 0 (Some (Obj (axis_var 0 Axis_CheckCurve), 20)),
     obj_entry 0xC DTYPE_INTEGER16 16 ATYPE_RO ''Point 11'' 0 (Some (Obj (axis_var 0 Axis_CheckCurve), 22)),
     obj_entry 0xD DTYPE_INTEGER16 16 ATYPE_RO ''Point 12'' 0 (Some (Obj (axis_var 0 Axis_CheckCurve), 24)),
     obj_entry 0xE DTYPE_INTEGER16 16 ATYPE_RO ''Point 13'' 0 (Some (Obj (axis_var 0 Axis_CheckCurve), 26)),
     obj_entry 0xF DTYPE_INTEGER16 16 ATYPE_RO ''Point 14'' 0 (Some (Obj (axis_var 0 Axis_CheckCurve), 28)),
     obj_entry 0x10 DTYPE_INTEGER16 16 ATYPE_RO ''Point 15'' 0 (Some (Obj (axis_var 0 Axis_CheckCurve), 30)),
     obj_entry 0x11 DTYPE_INTEGER16 16 ATYPE_RO ''Point 16'' 0 (Some (Obj (axis_var 0 Axis_CheckCurve), 32)),
     obj_entry 0x12 DTYPE_INTEGER16 16 ATYPE_RO ''Point 17'' 0 (Some (Obj (axis_var 0 Axis_CheckCurve), 34)),
     obj_entry 0x13 DTYPE_INTEGER16 16 ATYPE_RO ''Point 18'' 0 (Some (Obj (axis_var 0 Axis_CheckCurve), 36)),
     obj_entry 0x14 DTYPE_INTEGER16 16 ATYPE_RO ''Point 19'' 0 (Some (Obj (axis_var 0 Axis_CheckCurve), 38)),
     obj_entry 0x15 DTYPE_INTEGER16 16 ATYPE_RO ''Point 20'' 0 (Some (Obj (axis_var 0 Axis_CheckCurve), 40)),
     obj_entry 0x16 DTYPE_INTEGER16 16 ATYPE_RO ''Point 21'' 0 (Some (Obj (axis_var 0 Axis_CheckCurve), 42)),
     obj_entry 0x17 DTYPE_INTEGER16 16 ATYPE_RO ''Point 22'' 0 (Some (Obj (axis_var 0 Axis_CheckCurve), 44)),
     obj_entry 0x18 DTYPE_INTEGER16 16 ATYPE_RO ''Point 23'' 0 (Some (Obj (axis_var 0 Axis_CheckCurve), 46)),
     obj_entry 0x19 DTYPE_INTEGER16 16 ATYPE_RO ''Point 24'' 0 (Some (Obj (axis_var 0 Axis_CheckCurve), 48)),
     obj_entry 0x1A DTYPE_INTEGER16 16 ATYPE_RO ''Point 25'' 0 (Some (Obj (axis_var 0 Axis_CheckCurve), 50)),
     obj_entry 0x1B DTYPE_INTEGER16 16 ATYPE_RO ''Point 26'' 0 (Some (Obj (axis_var 0 Axis_CheckCurve), 52)),
     obj_entry 0x1C DTYPE_INTEGER16 16 ATYPE_RO ''Point 27'' 0 (Some (Obj (axis_var 0 Axis_CheckCurve), 54)),
     obj_entry 0x1D DTYPE_INTEGER16 16 ATYPE_RO ''Point 28'' 0 (Some (Obj (axis_var 0 Axis_CheckCurve), 56)),
     obj_entry 0x1E DTYPE_INTEGER16 16 ATYPE_RO ''Point 29'' 0 (Some (Obj (axis_var 0 Axis_CheckCurve), 58)),
     obj_entry 0x1F DTYPE_INTEGER16 16 ATYPE_RO ''Point 30'' 0 (Some (Obj (axis_var 0 Axis_CheckCurve), 60)),
     obj_entry 0x20 DTYPE_INTEGER16 16 ATYPE_RO ''Point 31'' 0 (Some (Obj (axis_var 0 Axis_CheckCurve), 62)),
     obj_entry 0x21 DTYPE_INTEGER16 16 ATYPE_RO ''Point 32'' 0 (Some (Obj (axis_var 0 Axis_CheckCurve), 64)),
     obj_entry 0x22 DTYPE_INTEGER16 16 ATYPE_RO ''Point 33'' 0 (Some (Obj (axis_var 0 Axis_CheckCurve), 66)),
     obj_entry 0x23 DTYPE_INTEGER16 16 ATYPE_RO ''Point 34'' 0 (Some (Obj (axis_var 0 Axis_CheckCurve), 68)),
     obj_entry 0x24 DTYPE_INTEGER16 16 ATYPE_RO ''Point 35'' 0 (Some (Obj (axis_var 0 Axis_CheckCurve), 70)),
     obj_entry 0x25 DTYPE_INTEGER16 16 ATYPE_RO ''Point 36'' 0 (Some (Obj (axis_var 0 Axis_CheckCurve), 72)),
     obj_entry 0x26 DTYPE_INTEGER16 16 ATYPE_RO ''Point 37'' 0 (Some (Obj (axis_var 0 Axis_CheckCurve), 74)),
     obj_entry 0x27 DTYPE_INTEGER16 16 ATYPE_RO ''Point 38'' 0 (Some (Obj (axis_var 0 Axis_CheckCurve), 76)),
     obj_entry 0x28 DTYPE_INTEGER16 16 ATYPE_RO ''Point 39'' 0 (Some (Obj (axis_var 0 Axis_CheckCurve), 78)),
     obj_entry 0x29 DTYPE_INTEGER16 16 ATYPE_RO ''Point 40'' 0 (Some (Obj (axis_var 0 Axis_CheckCurve), 80)),
     obj_entry 0x2A DTYPE_INTEGER16 16 ATYPE_RO ''Point 41'' 0 (Some (Obj (axis_var 0 Axis_CheckCurve), 82)),
     obj_entry 0x2B DTYPE_INTEGER16 16 ATYPE_RO ''Point 42'' 0 (Some (Obj (axis_var 0 Axis_CheckCurve), 84)),
     obj_entry 0x2C DTYPE_INTEGER16 16 ATYPE_RO ''Point 43'' 0 (Some (Obj (axis_var 0 Axis_CheckCurve), 86)),
     obj_entry 0x2D DTYPE_INTEGER16 16 ATYPE_RO ''Point 44'' 0 (Some (Obj (axis_var 0 Axis_CheckCurve), 88)),
     obj_entry 0x2E DTYPE_INTEGER16 16 ATYPE_RO ''Point 45'' 0 (Some (Obj (axis_var 0 Axis_CheckCurve), 90)),
     obj_entry 0x2F DTYPE_INTEGER16 16 ATYPE_RO ''Point 46'' 0 (Some (Obj (axis_var 0 Axis_CheckCurve), 92)),
     obj_entry 0x30 DTYPE_INTEGER16 16 ATYPE_RO ''Point 47'' 0 (Some (Obj (axis_var 0 Axis_CheckCurve), 94)),
     obj_entry 0x31 DTYPE_INTEGER16 16 ATYPE_RO ''Point 48'' 0 (Some (Obj (axis_var 0 Axis_CheckCurve), 96)),
     obj_entry 0x32 DTYPE_INTEGER16 16 ATYPE_RO ''Point 49'' 0 (Some (Obj (axis_var 0 Axis_CheckCurve), 98)),
     obj_entry 0x33 DTYPE_INTEGER16 16 ATYPE_RO ''Point 50'' 0 (Some (Obj (axis_var 0 Axis_CheckCurve), 100)),
     obj_entry 0x34 DTYPE_INTEGER16 16 ATYPE_RO ''Point 51'' 0 (Some (Obj (axis_var 0 Axis_CheckCurve), 102)),
     obj_entry 0x35 DTYPE_INTEGER16 16 ATYPE_RO ''Point 52'' 0 (Some (Obj (axis_var 0 Axis_CheckCurve), 104)),
     obj_entry 0x36 DTYPE_INTEGER16 16 ATYPE_RO ''Point 53'' 0 (Some (Obj (axis_var 0 Axis_CheckCurve), 106)),
     obj_entry 0x37 DTYPE_INTEGER16 16 ATYPE_RO ''Point 54'' 0 (Some (Obj (axis_var 0 Axis_CheckCurve), 108)),
     obj_entry 0x38 DTYPE_INTEGER16 16 ATYPE_RO ''Point 55'' 0 (Some (Obj (axis_var 0 Axis_CheckCurve), 110)),
     obj_entry 0x39 DTYPE_INTEGER16 16 ATYPE_RO ''Point 56'' 0 (Some (Obj (axis_var 0 Axis_CheckCurve), 112)),
     obj_entry 0x3A DTYPE_INTEGER16 16 ATYPE_RO ''Point 57'' 0 (Some (Obj (axis_var 0 Axis_CheckCurve), 114)),
     obj_entry 0x3B DTYPE_INTEGER16 16 ATYPE_RO ''Point 58'' 0 (Some (Obj (axis_var 0 Axis_CheckCurve), 116)),
     obj_entry 0x3C DTYPE_INTEGER16 16 ATYPE_RO ''Point 59'' 0 (Some (Obj (axis_var 0 Axis_CheckCurve), 118)),
     obj_entry 0x3D DTYPE_INTEGER16 16 ATYPE_RO ''Point 60'' 0 (Some (Obj (axis_var 0 Axis_CheckCurve), 120)),
     obj_entry 0x3E DTYPE_INTEGER16 16 ATYPE_RO ''Point 61'' 0 (Some (Obj (axis_var 0 Axis_CheckCurve), 122)),
     obj_entry 0x3F DTYPE_INTEGER16 16 ATYPE_RO ''Point 62'' 0 (Some (Obj (axis_var 0 Axis_CheckCurve), 124)),
     obj_entry 0x40 DTYPE_INTEGER16 16 ATYPE_RO ''Point 63'' 0 (Some (Obj (axis_var 0 Axis_CheckCurve), 126)),
     obj_entry 0x41 DTYPE_INTEGER16 16 ATYPE_RO ''Point 64'' 0 (Some (Obj (axis_var 0 Axis_CheckCurve), 128)),
     obj_entry 0x42 DTYPE_INTEGER16 16 ATYPE_RO ''Point 65'' 0 (Some (Obj (axis_var 0 Axis_CheckCurve), 130)),
     obj_entry 0x43 DTYPE_INTEGER16 16 ATYPE_RO ''Point 66'' 0 (Some (Obj (axis_var 0 Axis_CheckCurve), 132)),
     obj_entry 0x44 DTYPE_INTEGER16 16 ATYPE_RO ''Point 67'' 0 (Some (Obj (axis_var 0 Axis_CheckCurve), 134)),
     obj_entry 0x45 DTYPE_INTEGER16 16 ATYPE_RO ''Point 68'' 0 (Some (Obj (axis_var 0 Axis_CheckCurve), 136)),
     obj_entry 0x46 DTYPE_INTEGER16 16 ATYPE_RO ''Point 69'' 0 (Some (Obj (axis_var 0 Axis_CheckCurve), 138)),
     obj_entry 0x47 DTYPE_INTEGER16 16 ATYPE_RO ''Point 70'' 0 (Some (Obj (axis_var 0 Axis_CheckCurve), 140)),
     obj_entry 0x48 DTYPE_INTEGER16 16 ATYPE_RO ''Point 71'' 0 (Some (Obj (axis_var 0 Axis_CheckCurve), 142)),
     obj_entry 0x49 DTYPE_INTEGER16 16 ATYPE_RO ''Point 72'' 0 (Some (Obj (axis_var 0 Axis_CheckCurve), 144)),
     obj_entry 0x4A DTYPE_INTEGER16 16 ATYPE_RO ''Point 73'' 0 (Some (Obj (axis_var 0 Axis_CheckCurve), 146)),
     obj_entry 0x4B DTYPE_INTEGER16 16 ATYPE_RO ''Point 74'' 0 (Some (Obj (axis_var 0 Axis_CheckCurve), 148)),
     obj_entry 0x4C DTYPE_INTEGER16 16 ATYPE_RO ''Point 75'' 0 (Some (Obj (axis_var 0 Axis_CheckCurve), 150)),
     obj_entry 0x4D DTYPE_INTEGER16 16 ATYPE_RO ''Point 76'' 0 (Some (Obj (axis_var 0 Axis_CheckCurve), 152)),
     obj_entry 0x4E DTYPE_INTEGER16 16 ATYPE_RO ''Point 77'' 0 (Some (Obj (axis_var 0 Axis_CheckCurve), 154)),
     obj_entry 0x4F DTYPE_INTEGER16 16 ATYPE_RO ''Point 78'' 0 (Some (Obj (axis_var 0 Axis_CheckCurve), 156)),
     obj_entry 0x50 DTYPE_INTEGER16 16 ATYPE_RO ''Point 79'' 0 (Some (Obj (axis_var 0 Axis_CheckCurve), 158)),
     obj_entry 0x51 DTYPE_INTEGER16 16 ATYPE_RO ''Point 80'' 0 (Some (Obj (axis_var 0 Axis_CheckCurve), 160)),
     obj_entry 0x52 DTYPE_INTEGER16 16 ATYPE_RO ''Point 81'' 0 (Some (Obj (axis_var 0 Axis_CheckCurve), 162)),
     obj_entry 0x53 DTYPE_INTEGER16 16 ATYPE_RO ''Point 82'' 0 (Some (Obj (axis_var 0 Axis_CheckCurve), 164)),
     obj_entry 0x54 DTYPE_INTEGER16 16 ATYPE_RO ''Point 83'' 0 (Some (Obj (axis_var 0 Axis_CheckCurve), 166)),
     obj_entry 0x55 DTYPE_INTEGER16 16 ATYPE_RO ''Point 84'' 0 (Some (Obj (axis_var 0 Axis_CheckCurve), 168)),
     obj_entry 0x56 DTYPE_INTEGER16 16 ATYPE_RO ''Point 85'' 0 (Some (Obj (axis_var 0 Axis_CheckCurve), 170)),
     obj_entry 0x57 DTYPE_INTEGER16 16 ATYPE_RO ''Point 86'' 0 (Some (Obj (axis_var 0 Axis_CheckCurve), 172)),
     obj_entry 0x58 DTYPE_INTEGER16 16 ATYPE_RO ''Point 87'' 0 (Some (Obj (axis_var 0 Axis_CheckCurve), 174)),
     obj_entry 0x59 DTYPE_INTEGER16 16 ATYPE_RO ''Point 88'' 0 (Some (Obj (axis_var 0 Axis_CheckCurve), 176)),
     obj_entry 0x5A DTYPE_INTEGER16 16 ATYPE_RO ''Point 89'' 0 (Some (Obj (axis_var 0 Axis_CheckCurve), 178)),
     obj_entry 0x5B DTYPE_INTEGER16 16 ATYPE_RO ''Point 90'' 0 (Some (Obj (axis_var 0 Axis_CheckCurve), 180)),
     obj_entry 0x5C DTYPE_INTEGER16 16 ATYPE_RO ''Point 91'' 0 (Some (Obj (axis_var 0 Axis_CheckCurve), 182)),
     obj_entry 0x5D DTYPE_INTEGER16 16 ATYPE_RO ''Point 92'' 0 (Some (Obj (axis_var 0 Axis_CheckCurve), 184)),
     obj_entry 0x5E DTYPE_INTEGER16 16 ATYPE_RO ''Point 93'' 0 (Some (Obj (axis_var 0 Axis_CheckCurve), 186)),
     obj_entry 0x5F DTYPE_INTEGER16 16 ATYPE_RO ''Point 94'' 0 (Some (Obj (axis_var 0 Axis_CheckCurve), 188)),
     obj_entry 0x60 DTYPE_INTEGER16 16 ATYPE_RO ''Point 95'' 0 (Some (Obj (axis_var 0 Axis_CheckCurve), 190)),
     obj_entry 0x61 DTYPE_INTEGER16 16 ATYPE_RO ''Point 96'' 0 (Some (Obj (axis_var 0 Axis_CheckCurve), 192)),
     obj_entry 0x62 DTYPE_INTEGER16 16 ATYPE_RO ''Point 97'' 0 (Some (Obj (axis_var 0 Axis_CheckCurve), 194)),
     obj_entry 0x63 DTYPE_INTEGER16 16 ATYPE_RO ''Point 98'' 0 (Some (Obj (axis_var 0 Axis_CheckCurve), 196)),
     obj_entry 0x64 DTYPE_INTEGER16 16 ATYPE_RO ''Point 99'' 0 (Some (Obj (axis_var 0 Axis_CheckCurve), 198)),
     obj_entry 0x65 DTYPE_INTEGER16 16 ATYPE_RO ''Point 100'' 0 (Some (Obj (axis_var 0 Axis_CheckCurve), 200)),
     obj_entry 0x66 DTYPE_INTEGER16 16 ATYPE_RO ''Point 101'' 0 (Some (Obj (axis_var 0 Axis_CheckCurve), 202)),
     obj_entry 0x67 DTYPE_INTEGER16 16 ATYPE_RO ''Point 102'' 0 (Some (Obj (axis_var 0 Axis_CheckCurve), 204)),
     obj_entry 0x68 DTYPE_INTEGER16 16 ATYPE_RO ''Point 103'' 0 (Some (Obj (axis_var 0 Axis_CheckCurve), 206)),
     obj_entry 0x69 DTYPE_INTEGER16 16 ATYPE_RO ''Point 104'' 0 (Some (Obj (axis_var 0 Axis_CheckCurve), 208)),
     obj_entry 0x6A DTYPE_INTEGER16 16 ATYPE_RO ''Point 105'' 0 (Some (Obj (axis_var 0 Axis_CheckCurve), 210)),
     obj_entry 0x6B DTYPE_INTEGER16 16 ATYPE_RO ''Point 106'' 0 (Some (Obj (axis_var 0 Axis_CheckCurve), 212)),
     obj_entry 0x6C DTYPE_INTEGER16 16 ATYPE_RO ''Point 107'' 0 (Some (Obj (axis_var 0 Axis_CheckCurve), 214)),
     obj_entry 0x6D DTYPE_INTEGER16 16 ATYPE_RO ''Point 108'' 0 (Some (Obj (axis_var 0 Axis_CheckCurve), 216)),
     obj_entry 0x6E DTYPE_INTEGER16 16 ATYPE_RO ''Point 109'' 0 (Some (Obj (axis_var 0 Axis_CheckCurve), 218)),
     obj_entry 0x6F DTYPE_INTEGER16 16 ATYPE_RO ''Point 110'' 0 (Some (Obj (axis_var 0 Axis_CheckCurve), 220)),
     obj_entry 0x70 DTYPE_INTEGER16 16 ATYPE_RO ''Point 111'' 0 (Some (Obj (axis_var 0 Axis_CheckCurve), 222)),
     obj_entry 0x71 DTYPE_INTEGER16 16 ATYPE_RO ''Point 112'' 0 (Some (Obj (axis_var 0 Axis_CheckCurve), 224)),
     obj_entry 0x72 DTYPE_INTEGER16 16 ATYPE_RO ''Point 113'' 0 (Some (Obj (axis_var 0 Axis_CheckCurve), 226)),
     obj_entry 0x73 DTYPE_INTEGER16 16 ATYPE_RO ''Point 114'' 0 (Some (Obj (axis_var 0 Axis_CheckCurve), 228)),
     obj_entry 0x74 DTYPE_INTEGER16 16 ATYPE_RO ''Point 115'' 0 (Some (Obj (axis_var 0 Axis_CheckCurve), 230)),
     obj_entry 0x75 DTYPE_INTEGER16 16 ATYPE_RO ''Point 116'' 0 (Some (Obj (axis_var 0 Axis_CheckCurve), 232)),
     obj_entry 0x76 DTYPE_INTEGER16 16 ATYPE_RO ''Point 117'' 0 (Some (Obj (axis_var 0 Axis_CheckCurve), 234)),
     obj_entry 0x77 DTYPE_INTEGER16 16 ATYPE_RO ''Point 118'' 0 (Some (Obj (axis_var 0 Axis_CheckCurve), 236)),
     obj_entry 0x78 DTYPE_INTEGER16 16 ATYPE_RO ''Point 119'' 0 (Some (Obj (axis_var 0 Axis_CheckCurve), 238)),
     obj_entry 0x79 DTYPE_INTEGER16 16 ATYPE_RO ''Point 120'' 0 (Some (Obj (axis_var 0 Axis_CheckCurve), 240)),
     obj_entry 0x7A DTYPE_INTEGER16 16 ATYPE_RO ''Point 121'' 0 (Some (Obj (axis_var 0 Axis_CheckCurve), 242)),
     obj_entry 0x7B DTYPE_INTEGER16 16 ATYPE_RO ''Point 122'' 0 (Some (Obj (axis_var 0 Axis_CheckCurve), 244)),
     obj_entry 0x7C DTYPE_INTEGER16 16 ATYPE_RO ''Point 123'' 0 (Some (Obj (axis_var 0 Axis_CheckCurve), 246)),
     obj_entry 0x7D DTYPE_INTEGER16 16 ATYPE_RO ''Point 124'' 0 (Some (Obj (axis_var 0 Axis_CheckCurve), 248)),
     obj_entry 0x7E DTYPE_INTEGER16 16 ATYPE_RO ''Point 125'' 0 (Some (Obj (axis_var 0 Axis_CheckCurve), 250)),
     obj_entry 0x7F DTYPE_INTEGER16 16 ATYPE_RO ''Point 126'' 0 (Some (Obj (axis_var 0 Axis_CheckCurve), 252)),
     obj_entry 0x80 DTYPE_INTEGER16 16 ATYPE_RO ''Point 127'' 0 (Some (Obj (axis_var 0 Axis_CheckCurve), 254)),
     obj_entry 0x81 DTYPE_INTEGER16 16 ATYPE_RO ''Point 128'' 0 (Some (Obj (axis_var 0 Axis_CheckCurve), 256)),
     obj_entry 0x82 DTYPE_INTEGER16 16 ATYPE_RO ''Point 129'' 0 (Some (Obj (axis_var 0 Axis_CheckCurve), 258)),
     obj_entry 0x83 DTYPE_INTEGER16 16 ATYPE_RO ''Point 130'' 0 (Some (Obj (axis_var 0 Axis_CheckCurve), 260)),
     obj_entry 0x84 DTYPE_INTEGER16 16 ATYPE_RO ''Point 131'' 0 (Some (Obj (axis_var 0 Axis_CheckCurve), 262)),
     obj_entry 0x85 DTYPE_INTEGER16 16 ATYPE_RO ''Point 132'' 0 (Some (Obj (axis_var 0 Axis_CheckCurve), 264)),
     obj_entry 0x86 DTYPE_INTEGER16 16 ATYPE_RO ''Point 133'' 0 (Some (Obj (axis_var 0 Axis_CheckCurve), 266)),
     obj_entry 0x87 DTYPE_INTEGER16 16 ATYPE_RO ''Point 134'' 0 (Some (Obj (axis_var 0 Axis_CheckCurve), 268)),
     obj_entry 0x88 DTYPE_INTEGER16 16 ATYPE_RO ''Point 135'' 0 (Some (Obj (axis_var 0 Axis_CheckCurve), 270)),
     obj_entry 0x89 DTYPE_INTEGER16 16 ATYPE_RO ''Point 136'' 0 (Some (Obj (axis_var 0 Axis_CheckCurve), 272)),
     obj_entry 0x8A DTYPE_INTEGER16 16 ATYPE_RO ''Point 137'' 0 (Some (Obj (axis_var 0 Axis_CheckCurve), 274)),
     obj_entry 0x8B DTYPE_INTEGER16 16 ATYPE_RO ''Point 138'' 0 (Some (Obj (axis_var 0 Axis_CheckCurve), 276)),
     obj_entry 0x8C DTYPE_INTEGER16 16 ATYPE_RO ''Point 139'' 0 (Some (Obj (axis_var 0 Axis_CheckCurve), 278)),
     obj_entry 0x8D DTYPE_INTEGER16 16 ATYPE_RO ''Point 140'' 0 (Some (Obj (axis_var 0 Axis_CheckCurve), 280)),
     obj_entry 0x8E DTYPE_INTEGER16 16 ATYPE_RO ''Point 141'' 0 (Some (Obj (axis_var 0 Axis_CheckCurve), 282)),
     obj_entry 0x8F DTYPE_INTEGER16 16 ATYPE_RO ''Point 142'' 0 (Some (Obj (axis_var 0 Axis_CheckCurve), 284)),
     obj_entry 0x90 DTYPE_INTEGER16 16 ATYPE_RO ''Point 143'' 0 (Some (Obj (axis_var 0 Axis_CheckCurve), 286)),
     obj_entry 0x91 DTYPE_INTEGER16 16 ATYPE_RO ''Point 144'' 0 (Some (Obj (axis_var 0 Axis_CheckCurve), 288)),
     obj_entry 0x92 DTYPE_INTEGER16 16 ATYPE_RO ''Point 145'' 0 (Some (Obj (axis_var 0 Axis_CheckCurve), 290)),
     obj_entry 0x93 DTYPE_INTEGER16 16 ATYPE_RO ''Point 146'' 0 (Some (Obj (axis_var 0 Axis_CheckCurve), 292)),
     obj_entry 0x94 DTYPE_INTEGER16 16 ATYPE_RO ''Point 147'' 0 (Some (Obj (axis_var 0 Axis_CheckCurve), 294)),
     obj_entry 0x95 DTYPE_INTEGER16 16 ATYPE_RO ''Point 148'' 0 (Some (Obj (axis_var 0 Axis_CheckCurve), 296)),
     obj_entry 0x96 DTYPE_INTEGER16 16 ATYPE_RO ''Point 149'' 0 (Some (Obj (axis_var 0 Axis_CheckCurve), 298)),
     obj_entry 0x97 DTYPE_INTEGER16 16 ATYPE_RO ''Point 150'' 0 (Some (Obj (axis_var 0 Axis_CheckCurve), 300)),
     obj_entry 0x98 DTYPE_INTEGER16 16 ATYPE_RO ''Point 151'' 0 (Some (Obj (axis_var 0 Axis_CheckCurve), 302)),
     obj_entry 0x99 DTYPE_INTEGER16 16 ATYPE_RO ''Point 152'' 0 (Some (Obj (axis_var 0 Axis_CheckCurve), 304)),
     obj_entry 0x9A DTYPE_INTEGER16 16 ATYPE_RO ''Point 153'' 0 (Some (Obj (axis_var 0 Axis_CheckCurve), 306)),
     obj_entry 0x9B DTYPE_INTEGER16 16 ATYPE_RO ''Point 154'' 0 (Some (Obj (axis_var 0 Axis_CheckCurve), 308)),
     obj_entry 0x9C DTYPE_INTEGER16 16 ATYPE_RO ''Point 155'' 0 (Some (Obj (axis_var 0 Axis_CheckCurve), 310)),
     obj_entry 0x9D DTYPE_INTEGER16 16 ATYPE_RO ''Point 156'' 0 (Some (Obj (axis_var 0 Axis_CheckCurve), 312)),
     obj_entry 0x9E DTYPE_INTEGER16 16 ATYPE_RO ''Point 157'' 0 (Some (Obj (axis_var 0 Axis_CheckCurve), 314)),
     obj_entry 0x9F DTYPE_INTEGER16 16 ATYPE_RO ''Point 158'' 0 (Some (Obj (axis_var 0 Axis_CheckCurve), 316)),
     obj_entry 0xA0 DTYPE_INTEGER16 16 ATYPE_RO ''Point 159'' 0 (Some (Obj (axis_var 0 Axis_CheckCurve), 318)),
     obj_entry 0xA1 DTYPE_INTEGER16 16 ATYPE_RO ''Point 160'' 0 (Some (Obj (axis_var 0 Axis_CheckCurve), 320)),
     obj_entry 0xA2 DTYPE_INTEGER16 16 ATYPE_RO ''Point 161'' 0 (Some (Obj (axis_var 0 Axis_CheckCurve), 322)),
     obj_entry 0xA3 DTYPE_INTEGER16 16 ATYPE_RO ''Point 162'' 0 (Some (Obj (axis_var 0 Axis_CheckCurve), 324)),
     obj_entry 0xA4 DTYPE_INTEGER16 16 ATYPE_RO ''Point 163'' 0 (Some (Obj (axis_var 0 Axis_CheckCurve), 326)),
     obj_entry 0xA5 DTYPE_INTEGER16 16 ATYPE_RO ''Point 164'' 0 (Some (Obj (axis_var 0 Axis_CheckCurve), 328)),
     obj_entry 0xA6 DTYPE_INTEGER16 16 ATYPE_RO ''Point 165'' 0 (Some (Obj (axis_var 0 Axis_CheckCurve), 330)),
     obj_entry 0xA7 DTYPE_INTEGER16 16 ATYPE_RO ''Point 166'' 0 (Some (Obj (axis_var 0 Axis_CheckCurve), 332)),
     obj_entry 0xA8 DTYPE_INTEGER16 16 ATYPE_RO ''Point 167'' 0 (Some (Obj (axis_var 0 Axis_CheckCurve), 334)),
     obj_entry 0xA9 DTYPE_INTEGER16 16 ATYPE_RO ''Point 168'' 0 (Some (Obj (axis_var 0 Axis_CheckCurve), 336)),
     obj_entry 0xAA DTYPE_INTEGER16 16 ATYPE_RO ''Point 169'' 0 (Some (Obj (axis_var 0 Axis_CheckCurve), 338)),
     obj_entry 0xAB DTYPE_INTEGER16 16 ATYPE_RO ''Point 170'' 0 (Some (Obj (axis_var 0 Axis_CheckCurve), 340)),
     obj_entry 0xAC DTYPE_INTEGER16 16 ATYPE_RO ''Point 171'' 0 (Some (Obj (axis_var 0 Axis_CheckCurve), 342)),
     obj_entry 0xAD DTYPE_INTEGER16 16 ATYPE_RO ''Point 172'' 0 (Some (Obj (axis_var 0 Axis_CheckCurve), 344)),
     obj_entry 0xAE DTYPE_INTEGER16 16 ATYPE_RO ''Point 173'' 0 (Some (Obj (axis_var 0 Axis_CheckCurve), 346)),
     obj_entry 0xAF DTYPE_INTEGER16 16 ATYPE_RO ''Point 174'' 0 (Some (Obj (axis_var 0 Axis_CheckCurve), 348)),
     obj_entry 0xB0 DTYPE_INTEGER16 16 ATYPE_RO ''Point 175'' 0 (Some (Obj (axis_var 0 Axis_CheckCurve), 350)),
     obj_entry 0xB1 DTYPE_INTEGER16 16 ATYPE_RO ''Point 176'' 0 (Some (Obj (axis_var 0 Axis_CheckCurve), 352)),
     obj_entry 0xB2 DTYPE_INTEGER16 16 ATYPE_RO ''Point 177'' 0 (Some (Obj (axis_var 0 Axis_CheckCurve), 354)),
     obj_entry 0xB3 DTYPE_INTEGER16 16 ATYPE_RO ''Point 178'' 0 (Some (Obj (axis_var 0 Axis_CheckCurve), 356)),
     obj_entry 0xB4 DTYPE_INTEGER16 16 ATYPE_RO ''Point 179'' 0 (Some (Obj (axis_var 0 Axis_CheckCurve), 358)),
     obj_entry 0xB5 DTYPE_INTEGER16 16 ATYPE_RO ''Point 180'' 0 (Some (Obj (axis_var 0 Axis_CheckCurve), 360)),
     obj_entry 0xB6 DTYPE_INTEGER16 16 ATYPE_RO ''Point 181'' 0 (Some (Obj (axis_var 0 Axis_CheckCurve), 362)),
     obj_entry 0xB7 DTYPE_INTEGER16 16 ATYPE_RO ''Point 182'' 0 (Some (Obj (axis_var 0 Axis_CheckCurve), 364)),
     obj_entry 0xB8 DTYPE_INTEGER16 16 ATYPE_RO ''Point 183'' 0 (Some (Obj (axis_var 0 Axis_CheckCurve), 366)),
     obj_entry 0xB9 DTYPE_INTEGER16 16 ATYPE_RO ''Point 184'' 0 (Some (Obj (axis_var 0 Axis_CheckCurve), 368)),
     obj_entry 0xBA DTYPE_INTEGER16 16 ATYPE_RO ''Point 185'' 0 (Some (Obj (axis_var 0 Axis_CheckCurve), 370)),
     obj_entry 0xBB DTYPE_INTEGER16 16 ATYPE_RO ''Point 186'' 0 (Some (Obj (axis_var 0 Axis_CheckCurve), 372)),
     obj_entry 0xBC DTYPE_INTEGER16 16 ATYPE_RO ''Point 187'' 0 (Some (Obj (axis_var 0 Axis_CheckCurve), 374)),
     obj_entry 0xBD DTYPE_INTEGER16 16 ATYPE_RO ''Point 188'' 0 (Some (Obj (axis_var 0 Axis_CheckCurve), 376)),
     obj_entry 0xBE DTYPE_INTEGER16 16 ATYPE_RO ''Point 189'' 0 (Some (Obj (axis_var 0 Axis_CheckCurve), 378)),
     obj_entry 0xBF DTYPE_INTEGER16 16 ATYPE_RO ''Point 190'' 0 (Some (Obj (axis_var 0 Axis_CheckCurve), 380)),
     obj_entry 0xC0 DTYPE_INTEGER16 16 ATYPE_RO ''Point 191'' 0 (Some (Obj (axis_var 0 Axis_CheckCurve), 382)),
     obj_entry 0xC1 DTYPE_INTEGER16 16 ATYPE_RO ''Point 192'' 0 (Some (Obj (axis_var 0 Axis_CheckCurve), 384)),
     obj_entry 0xC2 DTYPE_INTEGER16 16 ATYPE_RO ''Point 193'' 0 (Some (Obj (axis_var 0 Axis_CheckCurve), 386)),
     obj_entry 0xC3 DTYPE_INTEGER16 16 ATYPE_RO ''Point 194'' 0 (Some (Obj (axis_var 0 Axis_CheckCurve), 388)),
     obj_entry 0xC4 DTYPE_INTEGER16 16 ATYPE_RO ''Point 195'' 0 (Some (Obj (axis_var 0 Axis_CheckCurve), 390)),
     obj_entry 0xC5 DTYPE_INTEGER16 16 ATYPE_RO ''Point 196'' 0 (Some (Obj (axis_var 0 Axis_CheckCurve), 392)),
     obj_entry 0xC6 DTYPE_INTEGER16 16 ATYPE_RO ''Point 197'' 0 (Some (Obj (axis_var 0 Axis_CheckCurve), 394)),
     obj_entry 0xC7 DTYPE_INTEGER16 16 ATYPE_RO ''Point 198'' 0 (Some (Obj (axis_var 0 Axis_CheckCurve), 396)),
     obj_entry 0xC8 DTYPE_INTEGER16 16 ATYPE_RO ''Point 199'' 0 (Some (Obj (axis_var 0 Axis_CheckCurve), 398))]"

definition SDO2037 :: "objd list" where
  "SDO2037 = [
     obj_entry 0x0 DTYPE_UNSIGNED8 8 ATYPE_RO ''Feedback Check'' 8 None,
     obj_entry 0x1 DTYPE_UNSIGNED16 16 ATYPE_RW ''Electrical Turns'' 0 (Some (Obj (axis_var 0 Axis_FbcTurns), 0)),
     obj_entry 0x2 DTYPE_UNSIGNED16 16 ATYPE_RO ''Findings'' 0 (Some (Obj (axis_var 0 Axis_FbcFindings), 0)),
     obj_entry 0x3 DTYPE_REAL32 32 ATYPE_RO ''Counts per Electrical Turn'' 0 (Some (Obj (axis_var 0 Axis_FbcCountsPerTurn), 0)),
     obj_entry 0x4 DTYPE_UNSIGNED32 32 ATYPE_RO ''Counts per Revolution'' 0 (Some (Obj (axis_var 0 Axis_FbcCountsPerRev), 0)),
     obj_entry 0x5 DTYPE_UNSIGNED16 16 ATYPE_RO ''Pole Pairs'' 0 (Some (Obj (axis_var 0 Axis_FbcPolePairs), 0)),
     obj_entry 0x6 DTYPE_INTEGER8 8 ATYPE_RO ''Hall Direction'' 0 (Some (Obj (axis_var 0 Axis_FbcHallDirection), 0)),
     obj_entry 0x7 DTYPE_UNSIGNED16 16 ATYPE_RO ''Hall Offset'' 0 (Some (Obj (axis_var 0 Axis_FbcHallOffset), 0)),
     obj_entry 0x8 DTYPE_INTEGER16 16 ATYPE_RO ''Encoder Residual'' 0 (Some (Obj (axis_var 0 Axis_FbcEncoderResidual), 0))]"

definition SDO2040 :: "objd list" where
  "SDO2040 = [
     obj_entry 0x0 DTYPE_UNSIGNED8 8 ATYPE_RO ''Service Control'' 6 None,
     obj_entry 0x1 DTYPE_UNSIGNED8 8 ATYPE_RW ''Allow'' 0 (Some (Obj Obj_SvcAllow, 0)),
     obj_entry 0x2 DTYPE_UNSIGNED8 8 ATYPE_RO ''Owner'' 0 (Some (Obj Obj_SvcOwner, 0)),
     obj_entry 0x3 DTYPE_UNSIGNED16 16 ATYPE_RW ''Heartbeat Timeout'' 500 (Some (Obj Obj_SvcTimeoutMs, 0)),
     obj_entry 0x4 DTYPE_UNSIGNED32 32 ATYPE_RO ''Contention'' 0 (Some (Obj Obj_SvcContention, 0)),
     obj_entry 0x5 DTYPE_UNSIGNED8 8 ATYPE_RW ''Tool Request'' 0 (Some (Obj Obj_SvcRequest, 0)),
     obj_entry 0x6 DTYPE_UNSIGNED32 32 ATYPE_RW ''Tool Heartbeat'' 0 (Some (Obj Obj_SvcHeartbeat, 0))]"

definition SDO2041 :: "objd list" where
  "SDO2041 = [
     obj_entry 0x0 DTYPE_UNSIGNED8 8 ATYPE_RO ''Service Command'' 6 None,
     obj_entry 0x1 DTYPE_UNSIGNED16 16 ATYPE_RW ''Controlword'' 0 (Some (Obj (axis_var 0 Axis_SvcControlword), 0)),
     obj_entry 0x2 DTYPE_INTEGER8 8 ATYPE_RW ''Modes of Operation'' 0 (Some (Obj (axis_var 0 Axis_SvcMode), 0)),
     obj_entry 0x3 DTYPE_INTEGER32 32 ATYPE_RW ''Target Position'' 0 (Some (Obj (axis_var 0 Axis_SvcTargetPosition), 0)),
     obj_entry 0x4 DTYPE_INTEGER32 32 ATYPE_RW ''Target Velocity'' 0 (Some (Obj (axis_var 0 Axis_SvcTargetVelocity), 0)),
     obj_entry 0x5 DTYPE_INTEGER16 16 ATYPE_RW ''Target Torque'' 0 (Some (Obj (axis_var 0 Axis_SvcTargetTorque), 0)),
     obj_entry 0x6 DTYPE_UNSIGNED16 16 ATYPE_RW ''Max Torque'' 1000 (Some (Obj (axis_var 0 Axis_SvcMaxTorque), 0))]"

definition SDO603F :: "objd list" where
  "SDO603F = [
     obj_entry 0x0 DTYPE_UNSIGNED16 16 ATYPE_RO ''Error Code'' 0 (Some (Obj (axis_var 0 Axis_ErrorCode), 0))]"

definition SDO6040 :: "objd list" where
  "SDO6040 = [
     obj_entry 0x0 DTYPE_UNSIGNED16 16 ATYPE_RW ''Controlword'' 0 (Some (Obj (axis_var 0 Axis_Controlword), 0))]"

definition SDO6041 :: "objd list" where
  "SDO6041 = [
     obj_entry 0x0 DTYPE_UNSIGNED16 16 ATYPE_RO ''Statusword'' 0 (Some (Obj (axis_var 0 Axis_Statusword), 0))]"

definition SDO605A :: "objd list" where
  "SDO605A = [
     obj_entry 0x0 DTYPE_INTEGER16 16 ATYPE_RO ''Quick Stop Option Code'' 2 (Some (Obj (axis_var 0 Axis_QuickStopOptionCode), 0))]"

definition SDO605B :: "objd list" where
  "SDO605B = [
     obj_entry 0x0 DTYPE_INTEGER16 16 ATYPE_RO ''Shutdown Option Code'' 0 (Some (Obj (axis_var 0 Axis_ShutdownOptionCode), 0))]"

definition SDO605C :: "objd list" where
  "SDO605C = [
     obj_entry 0x0 DTYPE_INTEGER16 16 ATYPE_RO ''Disable Operation Option Code'' 0 (Some (Obj (axis_var 0 Axis_DisableOperationOptionCode), 0))]"

definition SDO605D :: "objd list" where
  "SDO605D = [
     obj_entry 0x0 DTYPE_INTEGER16 16 ATYPE_RO ''Halt Option Code'' 1 (Some (Obj (axis_var 0 Axis_HaltOptionCode), 0))]"

definition SDO605E :: "objd list" where
  "SDO605E = [
     obj_entry 0x0 DTYPE_INTEGER16 16 ATYPE_RO ''Fault Reaction Option Code'' 0 (Some (Obj (axis_var 0 Axis_FaultReactionOptionCode), 0))]"

definition SDO6060 :: "objd list" where
  "SDO6060 = [
     obj_entry 0x0 DTYPE_INTEGER8 8 ATYPE_RW ''Modes of Operation'' 0 (Some (Obj (axis_var 0 Axis_ModesOfOperation), 0))]"

definition SDO6061 :: "objd list" where
  "SDO6061 = [
     obj_entry 0x0 DTYPE_INTEGER8 8 ATYPE_RO ''Modes of Operation Display'' 0 (Some (Obj (axis_var 0 Axis_ModesOfOperationDisplay), 0))]"

definition SDO6064 :: "objd list" where
  "SDO6064 = [
     obj_entry 0x0 DTYPE_INTEGER32 32 ATYPE_RO ''Position Actual Value'' 0 (Some (Obj (axis_var 0 Axis_PositionActual), 0))]"

definition SDO6065 :: "objd list" where
  "SDO6065 = [
     obj_entry 0x0 DTYPE_UNSIGNED32 32 ATYPE_RW ''Following Error Window'' 8192 (Some (Obj (axis_var 0 Axis_FollowingErrorWindow), 0))]"

definition SDO6066 :: "objd list" where
  "SDO6066 = [
     obj_entry 0x0 DTYPE_UNSIGNED16 16 ATYPE_RW ''Following Error Time Out'' 50 (Some (Obj (axis_var 0 Axis_FollowingErrorTimeout), 0))]"

definition SDO6067 :: "objd list" where
  "SDO6067 = [
     obj_entry 0x0 DTYPE_UNSIGNED32 32 ATYPE_RW ''Position Window'' 100 (Some (Obj (axis_var 0 Axis_PositionWindow), 0))]"

definition SDO6068 :: "objd list" where
  "SDO6068 = [
     obj_entry 0x0 DTYPE_UNSIGNED16 16 ATYPE_RW ''Position Window Time'' 10 (Some (Obj (axis_var 0 Axis_PositionWindowTime), 0))]"

definition SDO606C :: "objd list" where
  "SDO606C = [
     obj_entry 0x0 DTYPE_INTEGER32 32 ATYPE_RO ''Velocity Actual Value'' 0 (Some (Obj (axis_var 0 Axis_VelocityActual), 0))]"

definition SDO6071 :: "objd list" where
  "SDO6071 = [
     obj_entry 0x0 DTYPE_INTEGER16 16 ATYPE_RW ''Target Torque'' 0 (Some (Obj (axis_var 0 Axis_TargetTorque), 0))]"

definition SDO6072 :: "objd list" where
  "SDO6072 = [
     obj_entry 0x0 DTYPE_UNSIGNED16 16 ATYPE_RW ''Max Torque'' 1000 (Some (Obj (axis_var 0 Axis_MaxTorque), 0))]"

definition SDO6075 :: "objd list" where
  "SDO6075 = [
     obj_entry 0x0 DTYPE_UNSIGNED32 32 ATYPE_RW ''Motor Rated Current'' 0 (Some (Obj (axis_var 0 Axis_MotorRatedCurrent), 0))]"

definition SDO6076 :: "objd list" where
  "SDO6076 = [
     obj_entry 0x0 DTYPE_UNSIGNED32 32 ATYPE_RW ''Motor Rated Torque'' 0 (Some (Obj (axis_var 0 Axis_MotorRatedTorque), 0))]"

definition SDO6077 :: "objd list" where
  "SDO6077 = [
     obj_entry 0x0 DTYPE_INTEGER16 16 ATYPE_RO ''Torque Actual Value'' 0 (Some (Obj (axis_var 0 Axis_TorqueActual), 0))]"

definition SDO607A :: "objd list" where
  "SDO607A = [
     obj_entry 0x0 DTYPE_INTEGER32 32 ATYPE_RW ''Target Position'' 0 (Some (Obj (axis_var 0 Axis_TargetPosition), 0))]"

definition SDO607D :: "objd list" where
  "SDO607D = [
     obj_entry 0x0 DTYPE_UNSIGNED8 8 ATYPE_RO ''Software Position Limit'' 2 None,
     obj_entry 0x1 DTYPE_INTEGER32 32 ATYPE_RW ''Min Position Limit'' 2147483648 (Some (Obj (axis_var 0 Axis_PositionLimitMin), 0)),
     obj_entry 0x2 DTYPE_INTEGER32 32 ATYPE_RW ''Max Position Limit'' 2147483647 (Some (Obj (axis_var 0 Axis_PositionLimitMax), 0))]"

definition SDO6080 :: "objd list" where
  "SDO6080 = [
     obj_entry 0x0 DTYPE_UNSIGNED32 32 ATYPE_RW ''Max Motor Speed'' 7840 (Some (Obj (axis_var 0 Axis_MaxMotorSpeed), 0))]"

definition SDO6081 :: "objd list" where
  "SDO6081 = [
     obj_entry 0x0 DTYPE_UNSIGNED32 32 ATYPE_RW ''Profile Velocity'' 1000 (Some (Obj (axis_var 0 Axis_ProfileVelocity), 0))]"

definition SDO6083 :: "objd list" where
  "SDO6083 = [
     obj_entry 0x0 DTYPE_UNSIGNED32 32 ATYPE_RW ''Profile Acceleration'' 10000 (Some (Obj (axis_var 0 Axis_ProfileAcceleration), 0))]"

definition SDO6084 :: "objd list" where
  "SDO6084 = [
     obj_entry 0x0 DTYPE_UNSIGNED32 32 ATYPE_RW ''Profile Deceleration'' 10000 (Some (Obj (axis_var 0 Axis_ProfileDeceleration), 0))]"

definition SDO6085 :: "objd list" where
  "SDO6085 = [
     obj_entry 0x0 DTYPE_UNSIGNED32 32 ATYPE_RW ''Quick Stop Deceleration'' 10000 (Some (Obj (axis_var 0 Axis_QuickStopDeceleration), 0))]"

definition SDO6086 :: "objd list" where
  "SDO6086 = [
     obj_entry 0x0 DTYPE_INTEGER16 16 ATYPE_RW ''Motion Profile Type'' 0 (Some (Obj (axis_var 0 Axis_MotionProfileType), 0))]"

definition SDO608F :: "objd list" where
  "SDO608F = [
     obj_entry 0x0 DTYPE_UNSIGNED8 8 ATYPE_RO ''Position Encoder Resolution'' 2 None,
     obj_entry 0x1 DTYPE_UNSIGNED32 32 ATYPE_RO ''Encoder Increments'' 65536 (Some (Obj (axis_var 0 Axis_EncoderIncrements), 0)),
     obj_entry 0x2 DTYPE_UNSIGNED32 32 ATYPE_RO ''Motor Revolutions'' 1 (Some (Obj (axis_var 0 Axis_MotorRevolutions), 0))]"

definition SDO6091 :: "objd list" where
  "SDO6091 = [
     obj_entry 0x0 DTYPE_UNSIGNED8 8 ATYPE_RO ''Gear Ratio'' 2 None,
     obj_entry 0x1 DTYPE_UNSIGNED32 32 ATYPE_RO ''Motor Revolutions'' 1 (Some (Obj (axis_var 0 Axis_GearMotorRevolutions), 0)),
     obj_entry 0x2 DTYPE_UNSIGNED32 32 ATYPE_RO ''Shaft Revolutions'' 1 (Some (Obj (axis_var 0 Axis_GearShaftRevolutions), 0))]"

definition SDO6092 :: "objd list" where
  "SDO6092 = [
     obj_entry 0x0 DTYPE_UNSIGNED8 8 ATYPE_RO ''Feed Constant'' 2 None,
     obj_entry 0x1 DTYPE_UNSIGNED32 32 ATYPE_RO ''Feed'' 65536 (Some (Obj (axis_var 0 Axis_Feed), 0)),
     obj_entry 0x2 DTYPE_UNSIGNED32 32 ATYPE_RO ''Shaft Revolutions'' 1 (Some (Obj (axis_var 0 Axis_FeedShaftRevolutions), 0))]"

definition SDO60A4 :: "objd list" where
  "SDO60A4 = [
     obj_entry 0x0 DTYPE_UNSIGNED8 8 ATYPE_RO ''Profile Jerk'' 1 None,
     obj_entry 0x1 DTYPE_UNSIGNED32 32 ATYPE_RW ''Profile Jerk 1'' 1000000 (Some (Obj (axis_var 0 Axis_ProfileJerk), 0))]"

definition SDO60A8 :: "objd list" where
  "SDO60A8 = [
     obj_entry 0x0 DTYPE_UNSIGNED32 32 ATYPE_RO ''SI Unit Position'' 11862016 (Some (Obj (axis_var 0 Axis_SiUnitPosition), 0))]"

definition SDO60A9 :: "objd list" where
  "SDO60A9 = [
     obj_entry 0x0 DTYPE_UNSIGNED32 32 ATYPE_RO ''SI Unit Velocity'' 11814656 (Some (Obj (axis_var 0 Axis_SiUnitVelocity), 0))]"

definition SDO60AA :: "objd list" where
  "SDO60AA = [
     obj_entry 0x0 DTYPE_UNSIGNED32 32 ATYPE_RO ''SI Unit Acceleration'' 12583680 (Some (Obj (axis_var 0 Axis_SiUnitAcceleration), 0))]"

definition SDO60F4 :: "objd list" where
  "SDO60F4 = [
     obj_entry 0x0 DTYPE_INTEGER32 32 ATYPE_RO ''Following Error Actual'' 0 (Some (Obj (axis_var 0 Axis_FollowingErrorActual), 0))]"

definition SDO60FF :: "objd list" where
  "SDO60FF = [
     obj_entry 0x0 DTYPE_INTEGER32 32 ATYPE_RW ''Target Velocity'' 0 (Some (Obj (axis_var 0 Axis_TargetVelocity), 0))]"

definition SDO6502 :: "objd list" where
  "SDO6502 = [
     obj_entry 0x0 DTYPE_UNSIGNED32 32 ATYPE_RO ''Supported Drive Modes'' 66433 None]"

end
