(* ===== verification/Drive_Dict.thy ===== *)
theory Drive_Dict
  imports Dict_Common Dict_Axis0 Dict_Axis1
begin

text \<open>
  The object list of the two-axis drive (\<open>SDOobjects\<close> of \<open>generated/cmc_drive_2ax\<close>), its
  compile-time options, and what its tables satisfy: the order of the indices and of the
  subindices, and entries that stay within the variable they point to.
\<close>

section \<open>The object list\<close>

definition drive_objects :: "objectlist list" where
  "drive_objects = [
     obj_item 0x1000 OTYPE_VAR 0 ''Device Type'' SDO1000,
     obj_item 0x1001 OTYPE_VAR 0 ''Error Register'' SDO1001,
     obj_item 0x1008 OTYPE_VAR 0 ''Device Name'' SDO1008,
     obj_item 0x1009 OTYPE_VAR 0 ''Hardware Version'' SDO1009,
     obj_item 0x100A OTYPE_VAR 0 ''Software Version'' SDO100A,
     obj_item 0x1010 OTYPE_ARRAY 1 ''Store Parameters'' SDO1010,
     obj_item 0x1011 OTYPE_ARRAY 1 ''Restore Default Parameters'' SDO1011,
     obj_item 0x1018 OTYPE_RECORD 4 ''Identity Object'' SDO1018,
     obj_item 0x10F1 OTYPE_RECORD 2 ''Error Settings'' SDO10F1,
     obj_item 0x1600 OTYPE_RECORD 7 ''RxPDO Drive Axis 0'' SDO1600,
     obj_item 0x1601 OTYPE_RECORD 7 ''RxPDO Drive Axis 1'' SDO1601,
     obj_item 0x1A00 OTYPE_RECORD 10 ''TxPDO Drive Axis 0'' SDO1A00,
     obj_item 0x1A01 OTYPE_RECORD 10 ''TxPDO Drive Axis 1'' SDO1A01,
     obj_item 0x1C00 OTYPE_ARRAY 4 ''SM Communication Type'' SDO1C00,
     obj_item 0x1C12 OTYPE_ARRAY 1 ''RxPDO Assignment'' SDO1C12,
     obj_item 0x1C13 OTYPE_ARRAY 1 ''TxPDO Assignment'' SDO1C13,
     obj_item 0x1C32 OTYPE_RECORD 32 ''SM2 Sync Parameters'' SDO1C32,
     obj_item 0x1C33 OTYPE_RECORD 32 ''SM3 Sync Parameters'' SDO1C33,
     obj_item 0x2000 OTYPE_RECORD 2 ''Drive Faults and Status'' SDO2000,
     obj_item 0x2001 OTYPE_RECORD 4 ''Board Telemetry'' SDO2001,
     obj_item 0x2002 OTYPE_RECORD 3 ''Phase Currents'' SDO2002,
     obj_item 0x2003 OTYPE_RECORD 14 ''ADC Self-Calibration'' SDO2003,
     obj_item 0x2005 OTYPE_RECORD 4 ''Register Monitor'' SDO2005,
     obj_item 0x2010 OTYPE_RECORD 10 ''Control Loop Tuning'' SDO2010,
     obj_item 0x2011 OTYPE_RECORD 9 ''Advanced Loop Tuning'' SDO2011,
     obj_item 0x2012 OTYPE_VAR 0 ''Loop Structure'' SDO2012,
     obj_item 0x2013 OTYPE_RECORD 6 ''Anti-Cogging'' SDO2013,
     obj_item 0x2014 OTYPE_ARRAY 128 ''Anti-Cogging Table'' SDO2014,
     obj_item 0x2015 OTYPE_ARRAY 128 ''Anti-Cogging Table Negative'' SDO2015,
     obj_item 0x2016 OTYPE_RECORD 4 ''Loop Signals'' SDO2016,
     obj_item 0x2017 OTYPE_RECORD 7 ''Feedback Settings'' SDO2017,
     obj_item 0x2018 OTYPE_RECORD 2 ''Feed-Forward'' SDO2018,
     obj_item 0x2020 OTYPE_RECORD 19 ''Recorder'' SDO2020,
     obj_item 0x2021 OTYPE_VAR 0 ''Recorder Data'' SDO2021,
     obj_item 0x2030 OTYPE_RECORD 18 ''Identification'' SDO2030,
     obj_item 0x2031 OTYPE_RECORD 20 ''Mechanical Identification'' SDO2031,
     obj_item 0x2032 OTYPE_RECORD 8 ''Cogging Identification'' SDO2032,
     obj_item 0x2033 OTYPE_ARRAY 128 ''Cogging Result'' SDO2033,
     obj_item 0x2034 OTYPE_ARRAY 128 ''Cogging Result Negative'' SDO2034,
     obj_item 0x2035 OTYPE_RECORD 7 ''Step Check'' SDO2035,
     obj_item 0x2036 OTYPE_ARRAY 200 ''Step Check Response'' SDO2036,
     obj_item 0x2037 OTYPE_RECORD 8 ''Feedback Check'' SDO2037,
     obj_item 0x2040 OTYPE_RECORD 6 ''Service Control'' SDO2040,
     obj_item 0x2041 OTYPE_RECORD 6 ''Service Command'' SDO2041,
     obj_item 0x2800 OTYPE_RECORD 2 ''Drive Faults and Status'' SDO2800,
     obj_item 0x2801 OTYPE_RECORD 4 ''Board Telemetry'' SDO2801,
     obj_item 0x2802 OTYPE_RECORD 3 ''Phase Currents'' SDO2802,
     obj_item 0x2803 OTYPE_RECORD 14 ''ADC Self-Calibration'' SDO2803,
     obj_item 0x2805 OTYPE_RECORD 4 ''Register Monitor'' SDO2805,
     obj_item 0x2810 OTYPE_RECORD 10 ''Control Loop Tuning'' SDO2810,
     obj_item 0x2811 OTYPE_RECORD 9 ''Advanced Loop Tuning'' SDO2811,
     obj_item 0x2812 OTYPE_VAR 0 ''Loop Structure'' SDO2812,
     obj_item 0x2813 OTYPE_RECORD 6 ''Anti-Cogging'' SDO2813,
     obj_item 0x2814 OTYPE_ARRAY 128 ''Anti-Cogging Table'' SDO2814,
     obj_item 0x2815 OTYPE_ARRAY 128 ''Anti-Cogging Table Negative'' SDO2815,
     obj_item 0x2816 OTYPE_RECORD 4 ''Loop Signals'' SDO2816,
     obj_item 0x2817 OTYPE_RECORD 7 ''Feedback Settings'' SDO2817,
     obj_item 0x2818 OTYPE_RECORD 2 ''Feed-Forward'' SDO2818,
     obj_item 0x2830 OTYPE_RECORD 18 ''Identification'' SDO2830,
     obj_item 0x2831 OTYPE_RECORD 20 ''Mechanical Identification'' SDO2831,
     obj_item 0x2832 OTYPE_RECORD 8 ''Cogging Identification'' SDO2832,
     obj_item 0x2833 OTYPE_ARRAY 128 ''Cogging Result'' SDO2833,
     obj_item 0x2834 OTYPE_ARRAY 128 ''Cogging Result Negative'' SDO2834,
     obj_item 0x2835 OTYPE_RECORD 7 ''Step Check'' SDO2835,
     obj_item 0x2836 OTYPE_ARRAY 200 ''Step Check Response'' SDO2836,
     obj_item 0x2837 OTYPE_RECORD 8 ''Feedback Check'' SDO2837,
     obj_item 0x2841 OTYPE_RECORD 6 ''Service Command'' SDO2841,
     obj_item 0x603F OTYPE_VAR 0 ''Error Code'' SDO603F,
     obj_item 0x6040 OTYPE_VAR 0 ''Controlword'' SDO6040,
     obj_item 0x6041 OTYPE_VAR 0 ''Statusword'' SDO6041,
     obj_item 0x605A OTYPE_VAR 0 ''Quick Stop Option Code'' SDO605A,
     obj_item 0x605B OTYPE_VAR 0 ''Shutdown Option Code'' SDO605B,
     obj_item 0x605C OTYPE_VAR 0 ''Disable Operation Option Code'' SDO605C,
     obj_item 0x605D OTYPE_VAR 0 ''Halt Option Code'' SDO605D,
     obj_item 0x605E OTYPE_VAR 0 ''Fault Reaction Option Code'' SDO605E,
     obj_item 0x6060 OTYPE_VAR 0 ''Modes of Operation'' SDO6060,
     obj_item 0x6061 OTYPE_VAR 0 ''Modes of Operation Display'' SDO6061,
     obj_item 0x6064 OTYPE_VAR 0 ''Position Actual Value'' SDO6064,
     obj_item 0x6065 OTYPE_VAR 0 ''Following Error Window'' SDO6065,
     obj_item 0x6066 OTYPE_VAR 0 ''Following Error Time Out'' SDO6066,
     obj_item 0x6067 OTYPE_VAR 0 ''Position Window'' SDO6067,
     obj_item 0x6068 OTYPE_VAR 0 ''Position Window Time'' SDO6068,
     obj_item 0x606C OTYPE_VAR 0 ''Velocity Actual Value'' SDO606C,
     obj_item 0x6071 OTYPE_VAR 0 ''Target Torque'' SDO6071,
     obj_item 0x6072 OTYPE_VAR 0 ''Max Torque'' SDO6072,
     obj_item 0x6075 OTYPE_VAR 0 ''Motor Rated Current'' SDO6075,
     obj_item 0x6076 OTYPE_VAR 0 ''Motor Rated Torque'' SDO6076,
     obj_item 0x6077 OTYPE_VAR 0 ''Torque Actual Value'' SDO6077,
     obj_item 0x607A OTYPE_VAR 0 ''Target Position'' SDO607A,
     obj_item 0x607D OTYPE_RECORD 2 ''Software Position Limit'' SDO607D,
     obj_item 0x6080 OTYPE_VAR 0 ''Max Motor Speed'' SDO6080,
     obj_item 0x6081 OTYPE_VAR 0 ''Profile Velocity'' SDO6081,
     obj_item 0x6083 OTYPE_VAR 0 ''Profile Acceleration'' SDO6083,
     obj_item 0x6084 OTYPE_VAR 0 ''Profile Deceleration'' SDO6084,
     obj_item 0x6085 OTYPE_VAR 0 ''Quick Stop Deceleration'' SDO6085,
     obj_item 0x6086 OTYPE_VAR 0 ''Motion Profile Type'' SDO6086,
     obj_item 0x608F OTYPE_RECORD 2 ''Position Encoder Resolution'' SDO608F,
     obj_item 0x6091 OTYPE_RECORD 2 ''Gear Ratio'' SDO6091,
     obj_item 0x6092 OTYPE_RECORD 2 ''Feed Constant'' SDO6092,
     obj_item 0x60A4 OTYPE_ARRAY 1 ''Profile Jerk'' SDO60A4,
     obj_item 0x60A8 OTYPE_VAR 0 ''SI Unit Position'' SDO60A8,
     obj_item 0x60A9 OTYPE_VAR 0 ''SI Unit Velocity'' SDO60A9,
     obj_item 0x60AA OTYPE_VAR 0 ''SI Unit Acceleration'' SDO60AA,
     obj_item 0x60F4 OTYPE_VAR 0 ''Following Error Actual'' SDO60F4,
     obj_item 0x60FF OTYPE_VAR 0 ''Target Velocity'' SDO60FF,
     obj_item 0x6502 OTYPE_VAR 0 ''Supported Drive Modes'' SDO6502,
     obj_item 0x683F OTYPE_VAR 0 ''Error Code'' SDO683F,
     obj_item 0x6840 OTYPE_VAR 0 ''Controlword'' SDO6840,
     obj_item 0x6841 OTYPE_VAR 0 ''Statusword'' SDO6841,
     obj_item 0x685A OTYPE_VAR 0 ''Quick Stop Option Code'' SDO685A,
     obj_item 0x685B OTYPE_VAR 0 ''Shutdown Option Code'' SDO685B,
     obj_item 0x685C OTYPE_VAR 0 ''Disable Operation Option Code'' SDO685C,
     obj_item 0x685D OTYPE_VAR 0 ''Halt Option Code'' SDO685D,
     obj_item 0x685E OTYPE_VAR 0 ''Fault Reaction Option Code'' SDO685E,
     obj_item 0x6860 OTYPE_VAR 0 ''Modes of Operation'' SDO6860,
     obj_item 0x6861 OTYPE_VAR 0 ''Modes of Operation Display'' SDO6861,
     obj_item 0x6864 OTYPE_VAR 0 ''Position Actual Value'' SDO6864,
     obj_item 0x6865 OTYPE_VAR 0 ''Following Error Window'' SDO6865,
     obj_item 0x6866 OTYPE_VAR 0 ''Following Error Time Out'' SDO6866,
     obj_item 0x6867 OTYPE_VAR 0 ''Position Window'' SDO6867,
     obj_item 0x6868 OTYPE_VAR 0 ''Position Window Time'' SDO6868,
     obj_item 0x686C OTYPE_VAR 0 ''Velocity Actual Value'' SDO686C,
     obj_item 0x6871 OTYPE_VAR 0 ''Target Torque'' SDO6871,
     obj_item 0x6872 OTYPE_VAR 0 ''Max Torque'' SDO6872,
     obj_item 0x6875 OTYPE_VAR 0 ''Motor Rated Current'' SDO6875,
     obj_item 0x6876 OTYPE_VAR 0 ''Motor Rated Torque'' SDO6876,
     obj_item 0x6877 OTYPE_VAR 0 ''Torque Actual Value'' SDO6877,
     obj_item 0x687A OTYPE_VAR 0 ''Target Position'' SDO687A,
     obj_item 0x687D OTYPE_RECORD 2 ''Software Position Limit'' SDO687D,
     obj_item 0x6880 OTYPE_VAR 0 ''Max Motor Speed'' SDO6880,
     obj_item 0x6881 OTYPE_VAR 0 ''Profile Velocity'' SDO6881,
     obj_item 0x6883 OTYPE_VAR 0 ''Profile Acceleration'' SDO6883,
     obj_item 0x6884 OTYPE_VAR 0 ''Profile Deceleration'' SDO6884,
     obj_item 0x6885 OTYPE_VAR 0 ''Quick Stop Deceleration'' SDO6885,
     obj_item 0x6886 OTYPE_VAR 0 ''Motion Profile Type'' SDO6886,
     obj_item 0x688F OTYPE_RECORD 2 ''Position Encoder Resolution'' SDO688F,
     obj_item 0x6891 OTYPE_RECORD 2 ''Gear Ratio'' SDO6891,
     obj_item 0x6892 OTYPE_RECORD 2 ''Feed Constant'' SDO6892,
     obj_item 0x68A4 OTYPE_ARRAY 1 ''Profile Jerk'' SDO68A4,
     obj_item 0x68A8 OTYPE_VAR 0 ''SI Unit Position'' SDO68A8,
     obj_item 0x68A9 OTYPE_VAR 0 ''SI Unit Velocity'' SDO68A9,
     obj_item 0x68AA OTYPE_VAR 0 ''SI Unit Acceleration'' SDO68AA,
     obj_item 0x68F4 OTYPE_VAR 0 ''Following Error Actual'' SDO68F4,
     obj_item 0x68FF OTYPE_VAR 0 ''Target Velocity'' SDO68FF,
     obj_item 0x6D02 OTYPE_VAR 0 ''Supported Drive Modes'' SDO6D02,
     obj_item 0xFFFF 0xFF 0xFF [] []]"

text \<open>\<open>ecat_options.h\<close> of the build over the defaults of \<open>options.h\<close>.\<close>

definition drive_options :: options where
  "drive_options = default_options\<lparr>
     USE_FOE := False, USE_EOE := False, MBXSIZE := 256, MBXSIZEBOOT := 256, MBXBUFFERS := 3,
     MBX0_sma := 0x1000, MBX0_sml := 256, MBX0_sme := 0x1000 + 256 - 1, MBX0_smc := 0x26,
     MBX1_sma := 0x1100, MBX1_sml := 256, MBX1_sme := 0x1100 + 256 - 1, MBX1_smc := 0x22,
     MBX0_sma_b := 0x1000, MBX0_sml_b := 256, MBX0_sme_b := 0x1000 + 256 - 1, MBX0_smc_b := 0x26,
     MBX1_sma_b := 0x1100, MBX1_sml_b := 256, MBX1_sme_b := 0x1100 + 256 - 1, MBX1_smc_b := 0x22,
     SM2_sma := 0x1200, SM2_smc := 0x64, SM2_act := 1,
     SM3_sma := 0x1300, SM3_smc := 0x20, SM3_act := 1,
     MAX_MAPPINGS_SM2 := 14, MAX_MAPPINGS_SM3 := 20, MAX_RXPDO_SIZE := 32, MAX_TXPDO_SIZE := 48\<rparr>"

section \<open>Well-typed tables\<close>

text \<open>
  An entry is well typed when its bits fit the C type that its data type is accessed with,
  and its data pointer leaves room for that type (for strings and domains: for its bits) in
  the variable it points into.
\<close>

definition room_at :: "ptr option \<Rightarrow> nat \<Rightarrow> bool" where
  "room_at p k \<longleftrightarrow> (case p of
       None \<Rightarrow> True
     | Some (Obj b, off) \<Rightarrow> off + k \<le> var_size b
     | Some _ \<Rightarrow> False)"

definition entry_typed :: "objd \<Rightarrow> bool" where
  "entry_typed d \<longleftrightarrow>
     (case value_size (od_datatype d) of
        None \<Rightarrow> room_at (od_data d) ((unat (od_bitlength d) + 7) div 8)
      | Some n \<Rightarrow> unat (od_bitlength d) \<le> 8 * n \<and> room_at (od_data d) n)"

text \<open>The entries of an object are well typed, and their subindices ascend.\<close>

definition table_typed :: "objd list \<Rightarrow> bool" where
  "table_typed od \<longleftrightarrow> list_all entry_typed od \<and> successively (<) (map od_subindex od)"

lemma room_at_simps [simp]: "room_at None k" "room_at (Some (Obj b, off)) k \<longleftrightarrow> off + k \<le> var_size b"
  by (simp_all add: room_at_def)

lemma entry_typed_entry:
  "entry_typed (obj_entry i t n f nm v p) \<longleftrightarrow>
     (case value_size t of None \<Rightarrow> room_at p ((unat n + 7) div 8) | Some k \<Rightarrow> unat n \<le> 8 * k \<and> room_at p k)"
  by (cases "value_size t") (simp_all add: entry_typed_def)

lemma value_sizes:
  "value_size 1 = Some 1" "value_size 2 = Some 1" "value_size 3 = Some 2" "value_size 4 = Some 4"
  "value_size 5 = Some 1" "value_size 6 = Some 2" "value_size 7 = Some 4" "value_size 8 = Some 4"
  "value_size 9 = None" "value_size 15 = None"
  by (simp_all add: value_size_def)

text \<open>The sizes of all variables, as rewrite rules.\<close>

lemma global_sizes:
  "var_size 0 = 1" "var_size (Suc 0) = 4" "var_size 2 = 4" "var_size 3 = 4" "var_size 4 = 4" "var_size 5 = 4"
  "var_size 6 = 4" "var_size 7 = 4" "var_size 8 = 4" "var_size 9 = 1" "var_size 10 = 1" "var_size 11 = 2"
  "var_size 12 = 2" "var_size 13 = 2" "var_size 14 = 2" "var_size 15 = 1" "var_size 16 = 1"
  "var_size 17 = 1" "var_size 18 = 4" "var_size 19 = 131072" "var_size 20 = 4" "var_size 21 = 4"
  "var_size 22 = 4" "var_size 23 = 1" "var_size 24 = 4" "var_size 25 = 4" "var_size 26 = 1"
  "var_size 27 = 1" "var_size 28 = 2" "var_size 29 = 4" "var_size 30 = 4" "var_size 31 = 2"
  "var_size 32 = 4" "var_size 33 = 2" "var_size 34 = 1" "var_size 35 = 2" "var_size 36 = 4"
  "var_size 37 = 2" "var_size 38 = 1" "var_size 39 = 2" "var_size 40 = 10" "var_size 41 = 4"
  "var_size 42 = 4"
  by (simp_all add: var_size_def Objects_sizes_def)

lemma axis_sizes:
  "var_size (axis_var n 0) = 2" "var_size (axis_var n (Suc 0)) = 2" "var_size (axis_var n 2) = 2"
  "var_size (axis_var n 3) = 2" "var_size (axis_var n 4) = 2" "var_size (axis_var n 5) = 2"
  "var_size (axis_var n 6) = 2" "var_size (axis_var n 7) = 2" "var_size (axis_var n 8) = 2"
  "var_size (axis_var n 9) = 2" "var_size (axis_var n 10) = 2" "var_size (axis_var n 11) = 2"
  "var_size (axis_var n 12) = 2" "var_size (axis_var n 13) = 2" "var_size (axis_var n 14) = 2"
  "var_size (axis_var n 15) = 2" "var_size (axis_var n 16) = 2" "var_size (axis_var n 17) = 2"
  "var_size (axis_var n 18) = 2" "var_size (axis_var n 19) = 2" "var_size (axis_var n 20) = 2"
  "var_size (axis_var n 21) = 2" "var_size (axis_var n 22) = 2" "var_size (axis_var n 23) = 2"
  "var_size (axis_var n 24) = 4" "var_size (axis_var n 25) = 2" "var_size (axis_var n 26) = 4"
  "var_size (axis_var n 27) = 4" "var_size (axis_var n 28) = 1" "var_size (axis_var n 29) = 4"
  "var_size (axis_var n 30) = 4" "var_size (axis_var n 31) = 1" "var_size (axis_var n 32) = 2"
  "var_size (axis_var n 33) = 2" "var_size (axis_var n 34) = 2" "var_size (axis_var n 35) = 2"
  "var_size (axis_var n 36) = 2" "var_size (axis_var n 37) = 2" "var_size (axis_var n 38) = 2"
  "var_size (axis_var n 39) = 2" "var_size (axis_var n 40) = 1" "var_size (axis_var n 41) = 2"
  "var_size (axis_var n 42) = 2" "var_size (axis_var n 43) = 1" "var_size (axis_var n 44) = 2"
  "var_size (axis_var n 45) = 2" "var_size (axis_var n 46) = 2" "var_size (axis_var n 47) = 2"
  "var_size (axis_var n 48) = 2" "var_size (axis_var n 49) = 2" "var_size (axis_var n 50) = 4"
  "var_size (axis_var n 51) = 2" "var_size (axis_var n 52) = 2" "var_size (axis_var n 53) = 2"
  "var_size (axis_var n 54) = 4" "var_size (axis_var n 55) = 1" "var_size (axis_var n 56) = 1"
  "var_size (axis_var n 57) = 2" "var_size (axis_var n 58) = 1" "var_size (axis_var n 59) = 2"
  "var_size (axis_var n 60) = 4" "var_size (axis_var n 61) = 4" "var_size (axis_var n 62) = 2"
  "var_size (axis_var n 63) = 2" "var_size (axis_var n 64) = 1" "var_size (axis_var n 65) = 2"
  "var_size (axis_var n 66) = 2" "var_size (axis_var n 67) = 2" "var_size (axis_var n 68) = 4"
  "var_size (axis_var n 69) = 4" "var_size (axis_var n 70) = 2" "var_size (axis_var n 71) = 4"
  "var_size (axis_var n 72) = 2" "var_size (axis_var n 73) = 2" "var_size (axis_var n 74) = 4"
  "var_size (axis_var n 75) = 2" "var_size (axis_var n 76) = 4" "var_size (axis_var n 77) = 2"
  "var_size (axis_var n 78) = 4" "var_size (axis_var n 79) = 4" "var_size (axis_var n 80) = 2"
  "var_size (axis_var n 81) = 2" "var_size (axis_var n 82) = 4" "var_size (axis_var n 83) = 2"
  "var_size (axis_var n 84) = 2" "var_size (axis_var n 85) = 2" "var_size (axis_var n 86) = 1"
  "var_size (axis_var n 87) = 2" "var_size (axis_var n 88) = 4" "var_size (axis_var n 89) = 4"
  "var_size (axis_var n 90) = 4" "var_size (axis_var n 91) = 1" "var_size (axis_var n 92) = 1"
  "var_size (axis_var n 93) = 2" "var_size (axis_var n 94) = 4" "var_size (axis_var n 95) = 4"
  "var_size (axis_var n 96) = 4" "var_size (axis_var n 97) = 2" "var_size (axis_var n 98) = 4"
  "var_size (axis_var n 99) = 1" "var_size (axis_var n 100) = 4" "var_size (axis_var n 101) = 2"
  "var_size (axis_var n 102) = 4" "var_size (axis_var n 103) = 4" "var_size (axis_var n 104) = 4"
  "var_size (axis_var n 105) = 4" "var_size (axis_var n 106) = 4" "var_size (axis_var n 107) = 2"
  "var_size (axis_var n 108) = 2" "var_size (axis_var n 109) = 2" "var_size (axis_var n 110) = 2"
  "var_size (axis_var n 111) = 2" "var_size (axis_var n 112) = 2" "var_size (axis_var n 113) = 2"
  "var_size (axis_var n 114) = 2" "var_size (axis_var n 115) = 2" "var_size (axis_var n 116) = 2"
  "var_size (axis_var n 117) = 2" "var_size (axis_var n 118) = 2" "var_size (axis_var n 119) = 4"
  "var_size (axis_var n 120) = 4" "var_size (axis_var n 121) = 4" "var_size (axis_var n 122) = 1"
  "var_size (axis_var n 123) = 1" "var_size (axis_var n 124) = 1" "var_size (axis_var n 125) = 1"
  "var_size (axis_var n 126) = 1" "var_size (axis_var n 127) = 4" "var_size (axis_var n 128) = 4"
  "var_size (axis_var n 129) = 2" "var_size (axis_var n 130) = 4" "var_size (axis_var n 131) = 4"
  "var_size (axis_var n 132) = 4" "var_size (axis_var n 133) = 4" "var_size (axis_var n 134) = 4"
  "var_size (axis_var n 135) = 2" "var_size (axis_var n 136) = 4" "var_size (axis_var n 137) = 4"
  "var_size (axis_var n 138) = 2" "var_size (axis_var n 139) = 4" "var_size (axis_var n 140) = 2"
  "var_size (axis_var n 141) = 4" "var_size (axis_var n 142) = 4" "var_size (axis_var n 143) = 4"
  "var_size (axis_var n 144) = 4" "var_size (axis_var n 145) = 4" "var_size (axis_var n 146) = 2"
  "var_size (axis_var n 147) = 2" "var_size (axis_var n 148) = 2" "var_size (axis_var n 149) = 4"
  "var_size (axis_var n 150) = 4" "var_size (axis_var n 151) = 4" "var_size (axis_var n 152) = 4"
  "var_size (axis_var n 153) = 4" "var_size (axis_var n 154) = 2" "var_size (axis_var n 155) = 4"
  "var_size (axis_var n 156) = 2" "var_size (axis_var n 157) = 4" "var_size (axis_var n 158) = 2"
  "var_size (axis_var n 159) = 2" "var_size (axis_var n 160) = 1" "var_size (axis_var n 161) = 4"
  "var_size (axis_var n 162) = 2" "var_size (axis_var n 163) = 4" "var_size (axis_var n 164) = 4"
  "var_size (axis_var n 165) = 2" "var_size (axis_var n 166) = 4" "var_size (axis_var n 167) = 2"
  "var_size (axis_var n 168) = 2" "var_size (axis_var n 169) = 2" "var_size (axis_var n 170) = 4"
  "var_size (axis_var n 171) = 2" "var_size (axis_var n 172) = 2" "var_size (axis_var n 173) = 4"
  "var_size (axis_var n 174) = 2" "var_size (axis_var n 175) = 400" "var_size (axis_var n 176) = 256"
  "var_size (axis_var n 177) = 256" "var_size (axis_var n 178) = 256" "var_size (axis_var n 179) = 256"
  by (simp_all add: var_size_axis Axis_sizes_def)

lemmas common_tables =
  SDO1000_def SDO1001_def SDO1008_def SDO1009_def SDO100A_def SDO1010_def SDO1011_def SDO1018_def
  SDO10F1_def SDO1600_def SDO1601_def SDO1A00_def SDO1A01_def SDO1C00_def SDO1C12_def SDO1C13_def
  SDO1C32_def SDO1C33_def

lemma common_typed: "list_all table_typed
  [SDO1000, SDO1001, SDO1008, SDO1009, SDO100A, SDO1010, SDO1011, SDO1018, SDO10F1, SDO1600, SDO1601,
   SDO1A00, SDO1A01, SDO1C00, SDO1C12, SDO1C13, SDO1C32, SDO1C33]"
  by (simp add: table_typed_def common_tables entry_typed_entry value_sizes
      global_sizes axis_sizes cong: obj_entry_cong)

lemmas axis0_tables =
  SDO2000_def SDO2001_def SDO2002_def SDO2003_def SDO2005_def SDO2010_def SDO2011_def SDO2012_def
  SDO2013_def SDO2014_def SDO2015_def SDO2016_def SDO2017_def SDO2018_def SDO2020_def SDO2021_def
  SDO2030_def SDO2031_def SDO2032_def SDO2033_def SDO2034_def SDO2035_def SDO2036_def SDO2037_def
  SDO2040_def SDO2041_def SDO603F_def SDO6040_def SDO6041_def SDO605A_def SDO605B_def SDO605C_def
  SDO605D_def SDO605E_def SDO6060_def SDO6061_def SDO6064_def SDO6065_def SDO6066_def SDO6067_def
  SDO6068_def SDO606C_def SDO6071_def SDO6072_def SDO6075_def SDO6076_def SDO6077_def SDO607A_def
  SDO607D_def SDO6080_def SDO6081_def SDO6083_def SDO6084_def SDO6085_def SDO6086_def SDO608F_def
  SDO6091_def SDO6092_def SDO60A4_def SDO60A8_def SDO60A9_def SDO60AA_def SDO60F4_def SDO60FF_def
  SDO6502_def

lemma axis0_typed: "list_all table_typed
  [SDO2000, SDO2001, SDO2002, SDO2003, SDO2005, SDO2010, SDO2011, SDO2012, SDO2013, SDO2014, SDO2015,
   SDO2016, SDO2017, SDO2018, SDO2020, SDO2021, SDO2030, SDO2031, SDO2032, SDO2033, SDO2034, SDO2035,
   SDO2036, SDO2037, SDO2040, SDO2041, SDO603F, SDO6040, SDO6041, SDO605A, SDO605B, SDO605C, SDO605D,
   SDO605E, SDO6060, SDO6061, SDO6064, SDO6065, SDO6066, SDO6067, SDO6068, SDO606C, SDO6071, SDO6072,
   SDO6075, SDO6076, SDO6077, SDO607A, SDO607D, SDO6080, SDO6081, SDO6083, SDO6084, SDO6085, SDO6086,
   SDO608F, SDO6091, SDO6092, SDO60A4, SDO60A8, SDO60A9, SDO60AA, SDO60F4, SDO60FF, SDO6502]"
  by (simp add: table_typed_def axis0_tables entry_typed_entry value_sizes
      global_sizes axis_sizes cong: obj_entry_cong)

lemmas axis1_tables =
  SDO2800_def SDO2801_def SDO2802_def SDO2803_def SDO2805_def SDO2810_def SDO2811_def SDO2812_def
  SDO2813_def SDO2814_def SDO2815_def SDO2816_def SDO2817_def SDO2818_def SDO2830_def SDO2831_def
  SDO2832_def SDO2833_def SDO2834_def SDO2835_def SDO2836_def SDO2837_def SDO2841_def SDO683F_def
  SDO6840_def SDO6841_def SDO685A_def SDO685B_def SDO685C_def SDO685D_def SDO685E_def SDO6860_def
  SDO6861_def SDO6864_def SDO6865_def SDO6866_def SDO6867_def SDO6868_def SDO686C_def SDO6871_def
  SDO6872_def SDO6875_def SDO6876_def SDO6877_def SDO687A_def SDO687D_def SDO6880_def SDO6881_def
  SDO6883_def SDO6884_def SDO6885_def SDO6886_def SDO688F_def SDO6891_def SDO6892_def SDO68A4_def
  SDO68A8_def SDO68A9_def SDO68AA_def SDO68F4_def SDO68FF_def SDO6D02_def

lemma axis1_typed: "list_all table_typed
  [SDO2800, SDO2801, SDO2802, SDO2803, SDO2805, SDO2810, SDO2811, SDO2812, SDO2813, SDO2814, SDO2815,
   SDO2816, SDO2817, SDO2818, SDO2830, SDO2831, SDO2832, SDO2833, SDO2834, SDO2835, SDO2836, SDO2837,
   SDO2841, SDO683F, SDO6840, SDO6841, SDO685A, SDO685B, SDO685C, SDO685D, SDO685E, SDO6860, SDO6861,
   SDO6864, SDO6865, SDO6866, SDO6867, SDO6868, SDO686C, SDO6871, SDO6872, SDO6875, SDO6876, SDO6877,
   SDO687A, SDO687D, SDO6880, SDO6881, SDO6883, SDO6884, SDO6885, SDO6886, SDO688F, SDO6891, SDO6892,
   SDO68A4, SDO68A8, SDO68A9, SDO68AA, SDO68F4, SDO68FF, SDO6D02]"
  by (simp add: table_typed_def axis1_tables entry_typed_entry value_sizes
      global_sizes axis_sizes cong: obj_entry_cong)

end
