(* ===== verification/Drive.thy ===== *)
theory Drive
  imports Drive_Dict Slv Lan_Stack
begin

text \<open>
  The drive application (\<open>applications/cia402_drive/main.c\<close>): its callbacks, the configuration
  it hands to the stack, and the loop of \<open>main\<close>. The functions of the hardware layer that it
  links with are a parameter, \<open>esc_port\<close>; \<open>lan9252_port\<close> is the layer of the repository.
\<close>

section \<open>The hardware layer\<close>

text \<open>
  What \<open>esc_hw.h\<close> offers. An access also gives the value it publishes to \<open>ESCvar.ALevent\<close>,
  if it does.
\<close>

record 'c esc_port =
  port_init :: "'c \<Rightarrow> int \<times> u32 option \<times> 'c"
  port_read :: "u16 \<Rightarrow> nat \<Rightarrow> 'c \<Rightarrow> (nat \<Rightarrow> u8) \<times> u32 option \<times> 'c"
  port_write :: "u16 \<Rightarrow> bytes \<Rightarrow> 'c \<Rightarrow> u32 option \<times> 'c"
  port_interrupt_enable :: "u32 \<Rightarrow> 'c \<Rightarrow> u32 option \<times> 'c"
  port_interrupt_disable :: "u32 \<Rightarrow> 'c \<Rightarrow> u32 option \<times> 'c"
  port_wait_sync0 :: "u64 \<Rightarrow> 'c \<Rightarrow> int \<times> 'c"

definition hw_cfg :: esc_hw_cfg where
  "hw_cfg = \<lparr>cfg_spidev = Some (ascii ''/dev/spidev1.0''), cfg_spi_speed_hz = 25000000, cfg_spi_mode = 0,
     cfg_gpiochip = Some (ascii ''/dev/gpiochip0''), cfg_irq_line = 17, cfg_sync0_line = 18,
     cfg_reset_line = 25, cfg_reset_pulse_us = 500, cfg_op_timeout_ms = 100\<rparr>"

text \<open>
  The functions of \<open>Lan9252\<close>; they return on every chip (\<open>Lan_Total\<close>), so the cases \<open>None\<close> do
  not occur.
\<close>

definition lan9252_port :: "'c os \<Rightarrow> esc_hw_cfg \<Rightarrow> 'c hw esc_port" where
  "lan9252_port os cfg = \<lparr>
     port_init = (\<lambda>h. case hw_ESC_init os drive_options (Some cfg) h of None \<Rightarrow> (-1, None, h) | Some r \<Rightarrow> r),
     port_read = lan_read os drive_options, port_write = lan_write os drive_options,
     port_interrupt_enable = (\<lambda>m h. case hw_interrupt_enable os drive_options m h of None \<Rightarrow> (None, h) | Some r \<Rightarrow> r),
     port_interrupt_disable = (\<lambda>m h. case hw_interrupt_disable os drive_options m h of None \<Rightarrow> (None, h) | Some r \<Rightarrow> r),
     port_wait_sync0 = ESC_hw_wait_sync0 os\<rparr>"

section \<open>The state of the application\<close>

text \<open>
  The variables of \<open>main.c\<close> and the chip below. \<open>force_freerun\<close> and \<open>limit_override\<close> are set
  from the command line; \<open>backup_prev\<close> is the static variable of the loop.
\<close>

record 'c drive =
  force_freerun :: bool
  limit_override :: u32
  sync0_period_ns :: u32
  rx_calls :: u64
  tx_calls :: u64
  mbx_responses :: u64
  backup_prev :: u8
  chip :: 'c

definition set_chip :: "'c \<Rightarrow> u32 option \<Rightarrow> 'c drive sys \<Rightarrow> 'c drive sys" where
  "set_chip c ev s = s\<lparr>world := (world s)\<lparr>chip := c\<rparr>, ALevent := published ev s\<rparr>"

text \<open>Assignments to the members of \<open>Obj\<close>.\<close>

definition set_var :: "nat \<Rightarrow> bytes \<Rightarrow> 'w sys \<Rightarrow> 'w sys" where
  "set_var b bs s = s\<lparr>omem := (omem s)(b := bs)\<rparr>"

definition copy_var :: "nat \<Rightarrow> nat \<Rightarrow> 'w sys \<Rightarrow> 'w sys" where
  "copy_var to from s = set_var to (omem s from) s"

section \<open>The callbacks\<close>

text \<open>\<open>ESC_read\<close>, which always returns.\<close>

definition reg_read :: "'w env \<Rightarrow> u16 \<Rightarrow> nat \<Rightarrow> 'w sys \<Rightarrow> (nat \<Rightarrow> u8) \<times> 'w sys" where
  "reg_read E a n s =
     (case hal_read E a n (world s) of (f, ev, w) \<Rightarrow> (f, s\<lparr>world := w, ALevent := published ev s\<rparr>))"

lemma ESC_read_reg: "ESC_read E a n s = Some (reg_read E a n s)"
  by (simp add: ESC_read_def reg_read_def split: prod.splits)

definition dc_accept :: "u32 \<Rightarrow> 'c drive sys \<Rightarrow> 'c drive sys" where
  "dc_accept sync0_cycle s =
     (let s = s\<lparr>dcsync := 1, synccounterlimit :=
                  (if limit_override (world s) \<noteq> 0 then to_u16 (limit_override (world s))
                   else rd16 (omem s Obj_ErrorSettings_SyncErrorCounterLimit))\<rparr>;
          s = set_var Obj_SM2Sync_CycleTime (le32 sync0_cycle) s;
          s = set_var Obj_SM3Sync_CycleTime (le32 sync0_cycle) s
      in s\<lparr>world := (world s)\<lparr>sync0_period_ns := sync0_cycle\<rparr>\<rparr>)"

definition dc_checker :: "'c drive env \<Rightarrow> 'c drive sys \<Rightarrow> u16 \<times> 'c drive sys" where
  "dc_checker E s =
     (let (f, s) = reg_read E ESCREG_SYNC_ACT 1 s;
          activation = f 0;
          (f, s) = reg_read E ESCREG_SYNC0_CYCLE_TIME 4 s;
          sync0_cycle = rd32 [f 0, f 1, f 2, f 3]
      in if activation AND ESCREG_SYNC_ACT_ACTIVATED = 0 then (ALERR_DCINVALIDSYNCCFG, s)
         else if sync0_cycle = 0 then (ALERR_DCSYNC0CYCLETIME, s)
         else if sync0_cycle < CMC_MIN_CYCLE_NS then (ALERR_DCSYNC0CYCLETIME, s)
         else (0, dc_accept sync0_cycle s))"

definition mirror_axis :: "nat \<Rightarrow> 'w sys \<Rightarrow> 'w sys" where
  "mirror_axis n s =
     (let s = copy_var (axis_var n Axis_PositionActual) (axis_var n Axis_TargetPosition) s;
          s = copy_var (axis_var n Axis_VelocityActual) (axis_var n Axis_TargetVelocity) s;
          s = copy_var (axis_var n Axis_TorqueActual) (axis_var n Axis_TargetTorque) s;
          s = copy_var (axis_var n Axis_ModesOfOperationDisplay) (axis_var n Axis_ModesOfOperation) s
      in set_var (axis_var n Axis_FollowingErrorActual)
           (le32 (rd32 (omem s (axis_var n Axis_TargetPosition)) -
                  rd32 (omem s (axis_var n Axis_PositionActual)))) s)"

text \<open>The loops \<open>for (n = 0; n < CMC_AXIS_COUNT; n++)\<close>.\<close>

definition each_axis :: "(nat \<Rightarrow> 'w sys \<Rightarrow> 'w sys) \<Rightarrow> 'w sys \<Rightarrow> 'w sys" where
  "each_axis f = fold f [0..<CMC_AXIS_COUNT]"

definition drive_apply_rxpdo :: "'c drive sys \<Rightarrow> 'c drive sys" where
  "drive_apply_rxpdo s =
     (let s = each_axis mirror_axis s
      in s\<lparr>world := (world s)\<lparr>rx_calls := rx_calls (world s) + 1\<rparr>\<rparr>)"

definition status_axis :: "nat \<Rightarrow> 'w sys \<Rightarrow> 'w sys" where
  "status_axis n s =
     (let s = set_var (axis_var n Axis_Statusword) (le16 0x0040) s;
          s = set_var (axis_var n Axis_ErrorCode) (le16 0) s;
          s = set_var (axis_var n Axis_GateDriverFaults) (le16 0) s
      in set_var (axis_var n Axis_DriveStatusFlags) (le16 0) s)"

definition drive_update_txpdo :: "'c drive sys \<Rightarrow> 'c drive sys" where
  "drive_update_txpdo s =
     (let s = each_axis status_axis s;
          s = set_var Obj_SM2Sync_SMEventMissed (le16 (smeventmissed s)) s;
          s = set_var Obj_SM3Sync_SMEventMissed (le16 (smeventmissed s)) s;
          s = set_var Obj_SM2Sync_SyncError [syncerror s] s;
          s = set_var Obj_SM3Sync_SyncError [syncerror s] s
      in s\<lparr>world := (world s)\<lparr>tx_calls := tx_calls (world s) + 1\<rparr>\<rparr>)"

definition clear_axis :: "nat \<Rightarrow> 'w sys \<Rightarrow> 'w sys" where
  "clear_axis n s =
     (let s = set_var (axis_var n Axis_TargetPosition) (le32 0) s;
          s = set_var (axis_var n Axis_TargetVelocity) (le32 0) s;
          s = set_var (axis_var n Axis_TargetTorque) (le16 0) s;
          s = set_var (axis_var n Axis_PositionActual) (le32 0) s;
          s = set_var (axis_var n Axis_VelocityActual) (le32 0) s
      in set_var (axis_var n Axis_TorqueActual) (le16 0) s)"

definition app_safe_state :: "'w sys \<Rightarrow> 'w sys" where
  "app_safe_state = each_axis clear_axis"

text \<open>\<open>cb_state_change\<close> only prints the transition.\<close>

definition al_name :: "u8 \<Rightarrow> string" where
  "al_name st =
     (let st = st AND 0x0F
      in if st = ESCinit then ''INIT'' else if st = ESCpreop then ''PREOP'' else if st = ESCboot then ''BOOT''
         else if st = ESCsafeop then ''SAFEOP'' else if st = ESCop then ''OP'' else ''?'')"

definition cb_state_change :: "u8 \<times> u8 \<Rightarrow> 'w sys \<Rightarrow> (u8 \<times> u8) \<times> 'w sys" where
  "cb_state_change p s = (p, s)"

section \<open>The configuration\<close>

definition drive_cfg :: esc_cfg where
  "drive_cfg = \<lparr>cfg_use_interrupt = 1, cfg_watchdog_cnt = 150, cfg_use_hw_watchdog = 1,
     cfg_skip_default_initialization = False\<rparr>"

text \<open>
  The environment of the stack before the DC handler is registered, which only reads through
  the hardware layer, and with it. The build has neither FoE nor EoE nor a handler for the
  EEPROM, so the callbacks of those parts are never called.
\<close>

definition drive_base :: "'c esc_port \<Rightarrow> 'c drive env" where
  "drive_base P = \<lparr> opt = drive_options, SDOobjects = drive_objects,
     hal_read = (\<lambda>a n w. case port_read P a n (chip w) of (f, ev, c) \<Rightarrow> (f, ev, w\<lparr>chip := c\<rparr>)),
     hal_write = (\<lambda>a bs w. case port_write P a bs (chip w) of (ev, c) \<Rightarrow> (ev, w\<lparr>chip := c\<rparr>)),
     hal_init = (\<lambda>s. case port_init P (chip (world s)) of (r, ev, c) \<Rightarrow> (r, set_chip c ev s)),
     set_defaults_hook = None, pre_state_change_hook = None,
     post_state_change_hook = Some cb_state_change,
     application_hook = None, safe_state_override = Some app_safe_state,
     pre_object_download_hook = None, post_object_download_hook = None,
     pre_object_upload_hook = None, post_object_upload_hook = None,
     rxpdo_override = None, txpdo_override = None,
     esc_hw_interrupt_enable =
       Some (\<lambda>m s. case port_interrupt_enable P m (chip (world s)) of (ev, c) \<Rightarrow> set_chip c ev s),
     esc_hw_interrupt_disable =
       Some (\<lambda>m s. case port_interrupt_disable P m (chip (world s)) of (ev, c) \<Rightarrow> set_chip c ev s),
     esc_hw_eep_handler = None, esc_check_dc_handler = None, get_device_id = None,
     esc_hw_wait =
       Some (\<lambda>t s. case port_wait_sync0 P t (chip (world s)) of (r, c) \<Rightarrow> (r, set_chip c None s)),
     cb_update_txpdo = drive_update_txpdo, cb_apply_rxpdo = drive_apply_rxpdo,
     EEP_read = (\<lambda>a n s. (-1, [], s)), EEP_write = (\<lambda>a bs s. (-1, s)), eep_reload_ptr = None,
     eoe_get_buffer = None, eoe_free_buffer = None, load_eth_settings = None,
     store_ethernet_settings = None, handle_recv_buffer = (\<lambda>p b s. s),
     fetch_send_buffer = (\<lambda>p b s. (0, b, s)), fragment_sent_event = None,
     foe_write_function = (\<lambda>f bs n s. (0, s)) \<rparr>"

definition drive_env :: "'c esc_port \<Rightarrow> 'c drive env" where
  "drive_env P = (drive_base P)\<lparr>esc_check_dc_handler := Some (dc_checker (drive_base P))\<rparr>"

section \<open>The loop of \<open>main\<close>\<close>

text \<open>Mailbox responses, counted from the changes of \<open>ESCvar.mbxbackup\<close>.\<close>

definition count_responses :: "'c drive sys \<Rightarrow> 'c drive sys" where
  "count_responses s =
     (if mbxbackup s \<noteq> backup_prev (world s)
      then s\<lparr>world := (world s)
        \<lparr>mbx_responses := (if mbxbackup s \<noteq> 0 then mbx_responses (world s) + 1 else mbx_responses (world s)),
         backup_prev := mbxbackup s\<rparr>\<rparr>
      else s)"

text \<open>
  The report, every five seconds: it prints counters and the registers below, and reading
  them acts on the chip.
\<close>

definition report_registers :: "(u16 \<times> nat) list" where
  "report_registers = [(ESCREG_ALCONTROL, 2), (ESCREG_ALSTATUS, 2), (ESCREG_ALERROR, 2), (ESCREG_SM2 + 4, 1),
     (ESCREG_WDSTATUS, 2), (ESCREG_ALEVENTMASK, 4), (0x0151, 1), (ESCREG_SYNC_ACT, 1), (ESCREG_SYNC0_STATUS, 1),
     (ESCREG_DLSTATUS, 2), (ESCREG_EECONTSTAT, 2), (0x0140, 1),
     (ESCREG_SM0, 2), (ESCREG_SM0 + 2, 2), (ESCREG_SM0 + 4, 1), (ESCREG_SM0 + 6, 1),
     (ESCREG_SM1, 2), (ESCREG_SM1 + 2, 2), (ESCREG_SM1 + 4, 1), (ESCREG_SM1 + 6, 1)]"

definition report :: "'w env \<Rightarrow> 'w sys \<Rightarrow> 'w sys" where
  "report E = fold (\<lambda>(a, n) s. snd (reg_read E a n s)) report_registers"

text \<open>One pass; \<open>due\<close> says whether five seconds have passed since the last report.\<close>

definition cyclic_call :: "'c drive env \<Rightarrow> 'c drive sys \<Rightarrow> 'c drive sys option" where
  "cyclic_call E s =
     (if dcsync s > 0 \<and> sync0_period_ns (world s) > 0 \<and> \<not> force_freerun (world s)
      then ecat_slv_run_dc E (to_u64 (sync0_period_ns (world s)) * 2) s
      else ecat_slv E s)"

definition drive_pass :: "'c drive env \<Rightarrow> bool \<Rightarrow> 'c drive sys \<Rightarrow> 'c drive sys option" where
  "drive_pass E due s = do {
     s \<leftarrow> cyclic_call E s;
     let s = count_responses s;
     Some (if due then report E s else s)
   }"

fun drive_passes :: "'c drive env \<Rightarrow> bool list \<Rightarrow> 'c drive sys \<Rightarrow> 'c drive sys option" where
  "drive_passes E [] s = Some s"
| "drive_passes E (due # dues) s = do { s \<leftarrow> drive_pass E due s; drive_passes E dues s }"

text \<open>\<open>main\<close> up to any number of passes of its endless loop; 1 is the exit code of a failed start.\<close>

definition drive_main :: "'c drive env \<Rightarrow> bool list \<Rightarrow> 'c drive sys \<Rightarrow> (int \<times> 'c drive sys) option" where
  "drive_main E dues s = do {
     (r, s) \<leftarrow> ecat_slv_init E drive_cfg s;
     if r \<noteq> 0 then Some (1, s)
     else do { s \<leftarrow> drive_passes E dues s; Some (0, s) }
   }"

end
