(* ===== verification/Drive_Pdo.thy ===== *)
theory Drive_Pdo
  imports Drive_Dict Sub_Search Pdo_Props
begin

text \<open>
  What the stack finds in the dictionary of the two-axis drive: the order of its tables, the
  searches, and the process data mapping of both directions with the variable behind every
  entry.
\<close>

section \<open>Searching the object list\<close>

text \<open>The search by index looks at the indices only.\<close>

fun find_key :: "u16 list \<Rightarrow> u16 \<Rightarrow> int \<Rightarrow> int option" where
  "find_key [] index n = None"
| "find_key (k # ks) index n =
     (if k < index then find_key ks index (n + 1) else if k \<noteq> index then Some (-1) else Some n)"

lemma find_index_keys: "find_index obs index n = find_key (map ol_index obs) index n"
  by (induction obs arbitrary: n) auto

definition drive_indices :: "u16 list" where
  "drive_indices = [
    0x1000, 0x1001, 0x1008, 0x1009, 0x100A, 0x1010, 0x1011, 0x1018, 0x10F1, 0x1600, 0x1601, 0x1A00,
    0x1A01, 0x1C00, 0x1C12, 0x1C13, 0x1C32, 0x1C33, 0x2000, 0x2001, 0x2002, 0x2003, 0x2005, 0x2010,
    0x2011, 0x2012, 0x2013, 0x2014, 0x2015, 0x2016, 0x2017, 0x2018, 0x2020, 0x2021, 0x2030, 0x2031,
    0x2032, 0x2033, 0x2034, 0x2035, 0x2036, 0x2037, 0x2040, 0x2041, 0x2800, 0x2801, 0x2802, 0x2803,
    0x2805, 0x2810, 0x2811, 0x2812, 0x2813, 0x2814, 0x2815, 0x2816, 0x2817, 0x2818, 0x2830, 0x2831,
    0x2832, 0x2833, 0x2834, 0x2835, 0x2836, 0x2837, 0x2841, 0x603F, 0x6040, 0x6041, 0x605A, 0x605B,
    0x605C, 0x605D, 0x605E, 0x6060, 0x6061, 0x6064, 0x6065, 0x6066, 0x6067, 0x6068, 0x606C, 0x6071,
    0x6072, 0x6075, 0x6076, 0x6077, 0x607A, 0x607D, 0x6080, 0x6081, 0x6083, 0x6084, 0x6085, 0x6086,
    0x608F, 0x6091, 0x6092, 0x60A4, 0x60A8, 0x60A9, 0x60AA, 0x60F4, 0x60FF, 0x6502, 0x683F, 0x6840,
    0x6841, 0x685A, 0x685B, 0x685C, 0x685D, 0x685E, 0x6860, 0x6861, 0x6864, 0x6865, 0x6866, 0x6867,
    0x6868, 0x686C, 0x6871, 0x6872, 0x6875, 0x6876, 0x6877, 0x687A, 0x687D, 0x6880, 0x6881, 0x6883,
    0x6884, 0x6885, 0x6886, 0x688F, 0x6891, 0x6892, 0x68A4, 0x68A8, 0x68A9, 0x68AA, 0x68F4, 0x68FF,
    0x6D02, 0xFFFF]"

lemma drive_indices: "map ol_index drive_objects = drive_indices"
  by (simp add: drive_objects_def drive_indices_def cong: obj_item_cong)

lemma drive_keys:
  "find_key drive_indices 0x1600 0 = Some 9" "find_key drive_indices 0x1601 0 = Some 10" "find_key drive_indices 0x1A00 0 = Some 11"
  "find_key drive_indices 0x1A01 0 = Some 12" "find_key drive_indices 0x1C12 0 = Some 14" "find_key drive_indices 0x1C13 0 = Some 15"
  "find_key drive_indices 0x1C32 0 = Some 16" "find_key drive_indices 0x2000 0 = Some 18" "find_key drive_indices 0x2800 0 = Some 44"
  "find_key drive_indices 0x603F 0 = Some 67" "find_key drive_indices 0x6040 0 = Some 68" "find_key drive_indices 0x6041 0 = Some 69"
  "find_key drive_indices 0x6060 0 = Some 75" "find_key drive_indices 0x6061 0 = Some 76" "find_key drive_indices 0x6064 0 = Some 77"
  "find_key drive_indices 0x606C 0 = Some 82" "find_key drive_indices 0x6071 0 = Some 83" "find_key drive_indices 0x6072 0 = Some 84"
  "find_key drive_indices 0x6077 0 = Some 87" "find_key drive_indices 0x607A 0 = Some 88" "find_key drive_indices 0x60F4 0 = Some 103"
  "find_key drive_indices 0x60FF 0 = Some 104" "find_key drive_indices 0x683F 0 = Some 106" "find_key drive_indices 0x6840 0 = Some 107"
  "find_key drive_indices 0x6841 0 = Some 108" "find_key drive_indices 0x6860 0 = Some 114" "find_key drive_indices 0x6861 0 = Some 115"
  "find_key drive_indices 0x6864 0 = Some 116" "find_key drive_indices 0x686C 0 = Some 121" "find_key drive_indices 0x6871 0 = Some 122"
  "find_key drive_indices 0x6872 0 = Some 123" "find_key drive_indices 0x6877 0 = Some 126" "find_key drive_indices 0x687A 0 = Some 127"
  "find_key drive_indices 0x68F4 0 = Some 142" "find_key drive_indices 0x68FF 0 = Some 143"
  by (simp_all add: drive_indices_def)

lemma drive_find: "SDOobjects E = drive_objects \<Longrightarrow> SDO_findobject E index = find_key drive_indices index 0"
  by (simp add: SDO_findobject_def find_index_keys drive_indices)

lemma drive_items:
  "drive_objects ! 9 = obj_item 0x1600 OTYPE_RECORD 7 ''RxPDO Drive Axis 0'' SDO1600"
  "drive_objects ! 10 = obj_item 0x1601 OTYPE_RECORD 7 ''RxPDO Drive Axis 1'' SDO1601"
  "drive_objects ! 11 = obj_item 0x1A00 OTYPE_RECORD 10 ''TxPDO Drive Axis 0'' SDO1A00"
  "drive_objects ! 12 = obj_item 0x1A01 OTYPE_RECORD 10 ''TxPDO Drive Axis 1'' SDO1A01"
  "drive_objects ! 14 = obj_item 0x1C12 OTYPE_ARRAY 1 ''RxPDO Assignment'' SDO1C12"
  "drive_objects ! 15 = obj_item 0x1C13 OTYPE_ARRAY 1 ''TxPDO Assignment'' SDO1C13"
  "drive_objects ! 16 = obj_item 0x1C32 OTYPE_RECORD 32 ''SM2 Sync Parameters'' SDO1C32"
  "drive_objects ! 18 = obj_item 0x2000 OTYPE_RECORD 2 ''Drive Faults and Status'' SDO2000"
  "drive_objects ! 44 = obj_item 0x2800 OTYPE_RECORD 2 ''Drive Faults and Status'' SDO2800"
  "drive_objects ! 67 = obj_item 0x603F OTYPE_VAR 0 ''Error Code'' SDO603F"
  "drive_objects ! 68 = obj_item 0x6040 OTYPE_VAR 0 ''Controlword'' SDO6040"
  "drive_objects ! 69 = obj_item 0x6041 OTYPE_VAR 0 ''Statusword'' SDO6041"
  "drive_objects ! 75 = obj_item 0x6060 OTYPE_VAR 0 ''Modes of Operation'' SDO6060"
  "drive_objects ! 76 = obj_item 0x6061 OTYPE_VAR 0 ''Modes of Operation Display'' SDO6061"
  "drive_objects ! 77 = obj_item 0x6064 OTYPE_VAR 0 ''Position Actual Value'' SDO6064"
  "drive_objects ! 82 = obj_item 0x606C OTYPE_VAR 0 ''Velocity Actual Value'' SDO606C"
  "drive_objects ! 83 = obj_item 0x6071 OTYPE_VAR 0 ''Target Torque'' SDO6071"
  "drive_objects ! 84 = obj_item 0x6072 OTYPE_VAR 0 ''Max Torque'' SDO6072"
  "drive_objects ! 87 = obj_item 0x6077 OTYPE_VAR 0 ''Torque Actual Value'' SDO6077"
  "drive_objects ! 88 = obj_item 0x607A OTYPE_VAR 0 ''Target Position'' SDO607A"
  "drive_objects ! 103 = obj_item 0x60F4 OTYPE_VAR 0 ''Following Error Actual'' SDO60F4"
  "drive_objects ! 104 = obj_item 0x60FF OTYPE_VAR 0 ''Target Velocity'' SDO60FF"
  "drive_objects ! 106 = obj_item 0x683F OTYPE_VAR 0 ''Error Code'' SDO683F"
  "drive_objects ! 107 = obj_item 0x6840 OTYPE_VAR 0 ''Controlword'' SDO6840"
  "drive_objects ! 108 = obj_item 0x6841 OTYPE_VAR 0 ''Statusword'' SDO6841"
  "drive_objects ! 114 = obj_item 0x6860 OTYPE_VAR 0 ''Modes of Operation'' SDO6860"
  "drive_objects ! 115 = obj_item 0x6861 OTYPE_VAR 0 ''Modes of Operation Display'' SDO6861"
  "drive_objects ! 116 = obj_item 0x6864 OTYPE_VAR 0 ''Position Actual Value'' SDO6864"
  "drive_objects ! 121 = obj_item 0x686C OTYPE_VAR 0 ''Velocity Actual Value'' SDO686C"
  "drive_objects ! 122 = obj_item 0x6871 OTYPE_VAR 0 ''Target Torque'' SDO6871"
  "drive_objects ! 123 = obj_item 0x6872 OTYPE_VAR 0 ''Max Torque'' SDO6872"
  "drive_objects ! 126 = obj_item 0x6877 OTYPE_VAR 0 ''Torque Actual Value'' SDO6877"
  "drive_objects ! 127 = obj_item 0x687A OTYPE_VAR 0 ''Target Position'' SDO687A"
  "drive_objects ! 142 = obj_item 0x68F4 OTYPE_VAR 0 ''Following Error Actual'' SDO68F4"
  "drive_objects ! 143 = obj_item 0x68FF OTYPE_VAR 0 ''Target Velocity'' SDO68FF"
  by (simp_all add: drive_objects_def cong: obj_item_cong)

lemma drive_length: "length drive_objects = 146"
  by (simp add: drive_objects_def cong: obj_item_cong)

lemma drive_at:
  "SDOobjects E = drive_objects \<Longrightarrow> k < 146 \<Longrightarrow> obj_at E (int k) = Some (drive_objects ! k)"
  by (simp add: obj_at_def at_def drive_length)

section \<open>Well-formed tables\<close>

text \<open>
  Every object but the four named below has \<open>maxsub + 1\<close> entries. The assignments
  \<open>0x1C12\<close> and \<open>0x1C13\<close> have one more, the synchronisation parameters \<open>0x1C32\<close> and \<open>0x1C33\<close>
  have gaps.
\<close>

lemma drive_dense:
  "list_all (\<lambda>ob. ol_index ob \<in> {0x1C12, 0x1C13, 0x1C32, 0x1C33} \<or>
      length (ol_objdesc ob) = unat (ol_maxsub ob) + 1) (butlast drive_objects)"
  by (simp add: drive_objects_def common_tables axis0_tables axis1_tables cong: obj_item_cong obj_entry_cong)

lemma transp_word: "transp ((<) :: 'a::len word \<Rightarrow> 'a word \<Rightarrow> bool)"
  by (rule transpI) simp

lemma table_typed_sorted: "table_typed od \<Longrightarrow> sorted_wrt (<) (map od_subindex od)"
  by (simp add: table_typed_def successively_conv_sorted_wrt [OF transp_word])

lemma drive_tables: "list_all (\<lambda>ob. table_typed (ol_objdesc ob)) (butlast drive_objects)"
  using common_typed axis0_typed axis1_typed
  by (simp add: drive_objects_def cong: obj_item_cong)

section \<open>The process data mapping\<close>

definition rx_values :: "u32 list" where
  "rx_values = [
    0x607A0020, 0x60FF0020, 0x60400010, 0x60710010, 0x60720010, 0x60600008, 8, 0x687A0020, 0x68FF0020,
    0x68400010, 0x68710010, 0x68720010, 0x68600008, 8]"

definition tx_values :: "u32 list" where
  "tx_values = [
    0x60640020, 0x606C0020, 0x60F40020, 0x20000110, 0x20000210, 0x60410010, 0x60770010, 0x603F0010,
    0x60610008, 8, 0x68640020, 0x686C0020, 0x68F40020, 0x28000110, 0x28000210, 0x68410010, 0x68770010,
    0x683F0010, 0x68610008, 8]"

lemmas pdo_tables = SDO1C12_def SDO1C13_def SDO1600_def SDO1601_def SDO1A00_def SDO1A01_def

lemmas drive_variables =
  SDO2000_def SDO2800_def SDO603F_def SDO6040_def SDO6041_def SDO6060_def SDO6061_def SDO6064_def
  SDO606C_def SDO6071_def SDO6072_def SDO6077_def SDO607A_def SDO60F4_def SDO60FF_def SDO683F_def
  SDO6840_def SDO6841_def SDO6860_def SDO6861_def SDO6864_def SDO686C_def SDO6871_def SDO6872_def
  SDO6877_def SDO687A_def SDO68F4_def SDO68FF_def

text \<open>\<open>E\<close> is any environment with the dictionary of the drive.\<close>

lemma rx_pdo_values: "SDOobjects E = drive_objects \<Longrightarrow> pdo_values E s 0x1C12 = Some rx_values"
  by (simp add: pdo_values_def object_values_def drive_find drive_keys drive_at [where k = 14, simplified]
      drive_at [where k = 9, simplified] drive_at [where k = 10, simplified] drive_items at_def pdo_tables
      obj_u8_def obj_u16_def obj_u32_def upt_rec rx_values_def cong: obj_entry_cong)

lemma tx_pdo_values: "SDOobjects E = drive_objects \<Longrightarrow> pdo_values E s 0x1C13 = Some tx_values"
  by (simp add: pdo_values_def object_values_def drive_find drive_keys drive_at [where k = 15, simplified]
      drive_at [where k = 11, simplified] drive_at [where k = 12, simplified] drive_items at_def pdo_tables
      obj_u8_def obj_u16_def obj_u32_def upt_rec tx_values_def cong: obj_entry_cong)

lemma drive_targets:
  assumes "SDOobjects E = drive_objects"
  shows
  "map_target E 0x607A0020 = Some (Some (Some (88, 0)))"
  "map_target E 0x60FF0020 = Some (Some (Some (104, 0)))"
  "map_target E 0x60400010 = Some (Some (Some (68, 0)))"
  "map_target E 0x60710010 = Some (Some (Some (83, 0)))"
  "map_target E 0x60720010 = Some (Some (Some (84, 0)))"
  "map_target E 0x60600008 = Some (Some (Some (75, 0)))" "map_target E 8 = Some (Some None)"
  "map_target E 0x687A0020 = Some (Some (Some (127, 0)))"
  "map_target E 0x68FF0020 = Some (Some (Some (143, 0)))"
  "map_target E 0x68400010 = Some (Some (Some (107, 0)))"
  "map_target E 0x68710010 = Some (Some (Some (122, 0)))"
  "map_target E 0x68720010 = Some (Some (Some (123, 0)))"
  "map_target E 0x68600008 = Some (Some (Some (114, 0)))"
  "map_target E 0x60640020 = Some (Some (Some (77, 0)))"
  "map_target E 0x606C0020 = Some (Some (Some (82, 0)))"
  "map_target E 0x60F40020 = Some (Some (Some (103, 0)))"
  "map_target E 0x20000110 = Some (Some (Some (18, 1)))"
  "map_target E 0x20000210 = Some (Some (Some (18, 2)))"
  "map_target E 0x60410010 = Some (Some (Some (69, 0)))"
  "map_target E 0x60770010 = Some (Some (Some (87, 0)))"
  "map_target E 0x603F0010 = Some (Some (Some (67, 0)))"
  "map_target E 0x60610008 = Some (Some (Some (76, 0)))"
  "map_target E 0x68640020 = Some (Some (Some (116, 0)))"
  "map_target E 0x686C0020 = Some (Some (Some (121, 0)))"
  "map_target E 0x68F40020 = Some (Some (Some (142, 0)))"
  "map_target E 0x28000110 = Some (Some (Some (44, 1)))"
  "map_target E 0x28000210 = Some (Some (Some (44, 2)))"
  "map_target E 0x68410010 = Some (Some (Some (108, 0)))"
  "map_target E 0x68770010 = Some (Some (Some (126, 0)))"
  "map_target E 0x683F0010 = Some (Some (Some (106, 0)))"
  "map_target E 0x68610008 = Some (Some (Some (115, 0)))"
  using assms
  by (simp_all add: map_target_def drive_find drive_keys SDO_findsubindex_def obj_at_def at_def drive_length
      drive_items search_sub_def drive_variables cong: obj_entry_cong)

lemma drive_mapped:
  assumes "SDOobjects E = drive_objects"
  shows
  "mapped_objd E 0x607A0020 =
     Some (obj_entry 0 DTYPE_INTEGER32 32 ATYPE_RW ''Target Position'' 0 (Some (Obj (axis_var 0 Axis_TargetPosition), 0)))"
  "mapped_objd E 0x60FF0020 =
     Some (obj_entry 0 DTYPE_INTEGER32 32 ATYPE_RW ''Target Velocity'' 0 (Some (Obj (axis_var 0 Axis_TargetVelocity), 0)))"
  "mapped_objd E 0x60400010 =
     Some (obj_entry 0 DTYPE_UNSIGNED16 16 ATYPE_RW ''Controlword'' 0 (Some (Obj (axis_var 0 Axis_Controlword), 0)))"
  "mapped_objd E 0x60710010 =
     Some (obj_entry 0 DTYPE_INTEGER16 16 ATYPE_RW ''Target Torque'' 0 (Some (Obj (axis_var 0 Axis_TargetTorque), 0)))"
  "mapped_objd E 0x60720010 =
     Some (obj_entry 0 DTYPE_UNSIGNED16 16 ATYPE_RW ''Max Torque'' 1000 (Some (Obj (axis_var 0 Axis_MaxTorque), 0)))"
  "mapped_objd E 0x60600008 =
     Some (obj_entry 0 DTYPE_INTEGER8 8 ATYPE_RW ''Modes of Operation'' 0 (Some (Obj (axis_var 0 Axis_ModesOfOperation), 0)))"
  "mapped_objd E 0x687A0020 =
     Some (obj_entry 0 DTYPE_INTEGER32 32 ATYPE_RW ''Target Position'' 0 (Some (Obj (axis_var 1 Axis_TargetPosition), 0)))"
  "mapped_objd E 0x68FF0020 =
     Some (obj_entry 0 DTYPE_INTEGER32 32 ATYPE_RW ''Target Velocity'' 0 (Some (Obj (axis_var 1 Axis_TargetVelocity), 0)))"
  "mapped_objd E 0x68400010 =
     Some (obj_entry 0 DTYPE_UNSIGNED16 16 ATYPE_RW ''Controlword'' 0 (Some (Obj (axis_var 1 Axis_Controlword), 0)))"
  "mapped_objd E 0x68710010 =
     Some (obj_entry 0 DTYPE_INTEGER16 16 ATYPE_RW ''Target Torque'' 0 (Some (Obj (axis_var 1 Axis_TargetTorque), 0)))"
  "mapped_objd E 0x68720010 =
     Some (obj_entry 0 DTYPE_UNSIGNED16 16 ATYPE_RW ''Max Torque'' 1000 (Some (Obj (axis_var 1 Axis_MaxTorque), 0)))"
  "mapped_objd E 0x68600008 =
     Some (obj_entry 0 DTYPE_INTEGER8 8 ATYPE_RW ''Modes of Operation'' 0 (Some (Obj (axis_var 1 Axis_ModesOfOperation), 0)))"
  "mapped_objd E 0x60640020 =
     Some (obj_entry 0 DTYPE_INTEGER32 32 ATYPE_RO ''Position Actual Value'' 0 (Some (Obj (axis_var 0 Axis_PositionActual), 0)))"
  "mapped_objd E 0x606C0020 =
     Some (obj_entry 0 DTYPE_INTEGER32 32 ATYPE_RO ''Velocity Actual Value'' 0 (Some (Obj (axis_var 0 Axis_VelocityActual), 0)))"
  "mapped_objd E 0x60F40020 =
     Some (obj_entry 0 DTYPE_INTEGER32 32 ATYPE_RO ''Following Error Actual'' 0 (Some (Obj (axis_var 0 Axis_FollowingErrorActual), 0)))"
  "mapped_objd E 0x20000110 =
     Some (obj_entry 1 DTYPE_UNSIGNED16 16 ATYPE_RO ''Gate Driver Faults'' 0 (Some (Obj (axis_var 0 Axis_GateDriverFaults), 0)))"
  "mapped_objd E 0x20000210 =
     Some (obj_entry 2 DTYPE_UNSIGNED16 16 ATYPE_RO ''Drive Status Flags'' 0 (Some (Obj (axis_var 0 Axis_DriveStatusFlags), 0)))"
  "mapped_objd E 0x60410010 =
     Some (obj_entry 0 DTYPE_UNSIGNED16 16 ATYPE_RO ''Statusword'' 0 (Some (Obj (axis_var 0 Axis_Statusword), 0)))"
  "mapped_objd E 0x60770010 =
     Some (obj_entry 0 DTYPE_INTEGER16 16 ATYPE_RO ''Torque Actual Value'' 0 (Some (Obj (axis_var 0 Axis_TorqueActual), 0)))"
  "mapped_objd E 0x603F0010 =
     Some (obj_entry 0 DTYPE_UNSIGNED16 16 ATYPE_RO ''Error Code'' 0 (Some (Obj (axis_var 0 Axis_ErrorCode), 0)))"
  "mapped_objd E 0x60610008 =
     Some (obj_entry 0 DTYPE_INTEGER8 8 ATYPE_RO ''Modes of Operation Display'' 0 (Some (Obj (axis_var 0 Axis_ModesOfOperationDisplay), 0)))"
  "mapped_objd E 0x68640020 =
     Some (obj_entry 0 DTYPE_INTEGER32 32 ATYPE_RO ''Position Actual Value'' 0 (Some (Obj (axis_var 1 Axis_PositionActual), 0)))"
  "mapped_objd E 0x686C0020 =
     Some (obj_entry 0 DTYPE_INTEGER32 32 ATYPE_RO ''Velocity Actual Value'' 0 (Some (Obj (axis_var 1 Axis_VelocityActual), 0)))"
  "mapped_objd E 0x68F40020 =
     Some (obj_entry 0 DTYPE_INTEGER32 32 ATYPE_RO ''Following Error Actual'' 0 (Some (Obj (axis_var 1 Axis_FollowingErrorActual), 0)))"
  "mapped_objd E 0x28000110 =
     Some (obj_entry 1 DTYPE_UNSIGNED16 16 ATYPE_RO ''Gate Driver Faults'' 0 (Some (Obj (axis_var 1 Axis_GateDriverFaults), 0)))"
  "mapped_objd E 0x28000210 =
     Some (obj_entry 2 DTYPE_UNSIGNED16 16 ATYPE_RO ''Drive Status Flags'' 0 (Some (Obj (axis_var 1 Axis_DriveStatusFlags), 0)))"
  "mapped_objd E 0x68410010 =
     Some (obj_entry 0 DTYPE_UNSIGNED16 16 ATYPE_RO ''Statusword'' 0 (Some (Obj (axis_var 1 Axis_Statusword), 0)))"
  "mapped_objd E 0x68770010 =
     Some (obj_entry 0 DTYPE_INTEGER16 16 ATYPE_RO ''Torque Actual Value'' 0 (Some (Obj (axis_var 1 Axis_TorqueActual), 0)))"
  "mapped_objd E 0x683F0010 =
     Some (obj_entry 0 DTYPE_UNSIGNED16 16 ATYPE_RO ''Error Code'' 0 (Some (Obj (axis_var 1 Axis_ErrorCode), 0)))"
  "mapped_objd E 0x68610008 =
     Some (obj_entry 0 DTYPE_INTEGER8 8 ATYPE_RO ''Modes of Operation Display'' 0 (Some (Obj (axis_var 1 Axis_ModesOfOperationDisplay), 0)))"
  using assms
  by (simp_all add: mapped_objd_def drive_targets map_objd_def at_def drive_length drive_items drive_variables
      cong: obj_entry_cong)

end
