(* ===== verification/Drive_Dict_Props.thy ===== *)
theory Drive_Dict_Props
  imports Drive_Pdo Sdo_Props
begin

text \<open>
  The properties of the dictionary of the two-axis drive: its tables are ordered and well
  typed, its process data fill the images exactly, and the two places where the number of
  entries that the object list declares is not the number there is.
\<close>

section \<open>The tables\<close>

text \<open>
  C13. The generated dictionary is well typed. The indices ascend up to the sentinel; the
  subindices of every object ascend; the bits of every entry fit the C type that its data
  type is accessed with, and the variable that its data pointer leads to has room for that type.
\<close>

theorem drive_dictionary_typed:
  "sorted_wrt (<) (map ol_index drive_objects) \<and> ol_index (last drive_objects) = 0xFFFF \<and>
   list_all (\<lambda>ob. sorted_wrt (<) (map od_subindex (ol_objdesc ob)) \<and> list_all entry_typed (ol_objdesc ob))
     (butlast drive_objects)"
proof (intro conjI)
  have "successively (<) drive_indices" by (simp add: drive_indices_def)
  then show "sorted_wrt (<) (map ol_index drive_objects)"
    by (simp add: drive_indices successively_conv_sorted_wrt [OF transp_word])
  show "ol_index (last drive_objects) = 0xFFFF"
    by (simp add: drive_objects_def cong: obj_item_cong)
  show "list_all (\<lambda>ob. sorted_wrt (<) (map od_subindex (ol_objdesc ob)) \<and> list_all entry_typed (ol_objdesc ob))
      (butlast drive_objects)"
    using drive_tables by (rule list.pred_mono_strong) (use table_typed_sorted in \<open>auto simp: table_typed_def\<close>)
qed

section \<open>The searches\<close>

text \<open>
  The dictionary meets what the searches need: it is sorted, and but for \<open>0x1C32\<close> and \<open>0x1C33\<close>,
  which have six entries, every object has at least the entries that the object list declares.
\<close>

lemma drive_sorted: "sorted_dict drive_objects"
proof -
  have "successively (<) drive_indices" by (simp add: drive_indices_def)
  then have "sorted_wrt (<) (map ol_index drive_objects)"
    by (simp add: drive_indices successively_conv_sorted_wrt [OF transp_word])
  then have "sorted_wrt (\<lambda>x y. ol_index x < ol_index y) drive_objects"
    by (simp add: sorted_wrt_map)
  moreover have "drive_objects \<noteq> [] \<and> ol_index (last drive_objects) = 0xFFFF"
    by (simp add: drive_objects_def cong: obj_item_cong)
  ultimately show ?thesis by (simp add: sorted_dict_def)
qed

definition enough_entries :: "objectlist \<Rightarrow> bool" where
  "enough_entries ob \<longleftrightarrow> unat (ol_maxsub ob) < length (ol_objdesc ob) \<or>
     (ol_index ob = 0x1C32 \<or> ol_index ob = 0x1C33) \<and> length (ol_objdesc ob) = 6"

lemma drive_entries: "list_all enough_entries (butlast drive_objects)"
  by (simp add: drive_objects_def enough_entries_def common_tables axis0_tables axis1_tables cong: obj_item_cong obj_entry_cong)

lemma drive_in_tables:
  assumes "index \<noteq> 0xFFFF" and "index \<noteq> 0x1C32 \<and> index \<noteq> 0x1C33 \<or> sub < 6"
  shows "in_tables drive_objects index sub"
  unfolding in_tables_def
proof (intro conjI ballI impI)
  fix ob assume ob: "ob \<in> set drive_objects" "ol_index ob = index"
  have "set drive_objects = insert (last drive_objects) (set (butlast drive_objects))"
    using drive_sorted set_append [of "butlast drive_objects" "[last drive_objects]"] by (simp add: sorted_dict_def)
  with ob assms(1) drive_sorted have "ob \<in> set (butlast drive_objects)"
    by (auto simp: sorted_dict_def)
  then have t: "table_typed (ol_objdesc ob)" "enough_entries ob"
    using drive_tables drive_entries by (simp_all add: list_all_iff)
  from t(1) have "sorted_wrt (\<lambda>x y. od_subindex x < od_subindex y) (ol_objdesc ob)"
    using table_typed_sorted by (simp add: sorted_wrt_map)
  moreover have "unat (ol_maxsub ob) < length (ol_objdesc ob) \<or> unat sub < length (ol_objdesc ob)"
    using t(2) assms(2) ob(2) by (auto simp: enough_entries_def word_less_nat_alt)
  ultimately show "in_table ob sub" by (simp add: in_table_def)
qed (rule assms(1))

definition drive_ram :: "ram env" where
  "drive_ram = (ram_env drive_objects)\<lparr>opt := drive_options\<rparr>"

lemma drive_ram_simps [simp]: "SDOobjects drive_ram = drive_objects" "opt drive_ram = drive_options"
  by (simp_all add: drive_ram_def)

theorem findobject_exact_witness:
  "\<exists>n. SDO_findobject drive_ram 0x607A = Some n \<and> 0 \<le> n \<and> nat n < length drive_objects \<and>
     ol_index (drive_objects ! nat n) = 0x607A"
proof -
  have "0x607A \<in> set (map ol_index drive_objects)" by (simp add: drive_indices) (simp add: drive_indices_def)
  with findobject_exact [of drive_ram "0x607A"] drive_sorted show ?thesis by auto
qed

section \<open>The process data\<close>

lemma drive_rx_mapping:
  assumes "SDOobjects E = drive_objects" and "length maps = 14"
  shows "sizeOfPDO E RX_PDO_OBJIDX nm maps 14 s = Some (32, 14, layout E 0 rx_values)"
proof -
  have "\<forall>v \<in> set rx_values. \<exists>m. map_target E v = Some (Some m)"
    by (simp add: rx_values_def drive_targets [OF assms(1)])
  from sizeOfPDO_layout [OF rx_pdo_values [OF assms(1)] _ this, of 14 maps nm s] assms(2) show ?thesis
    by (simp add: rx_values_def entry_bits_def del: layout.simps)
qed

lemma drive_tx_mapping:
  assumes "SDOobjects E = drive_objects" and "length maps = 20"
  shows "sizeOfPDO E TX_PDO_OBJIDX nm maps 20 s = Some (48, 20, layout E 0 tx_values)"
proof -
  have "\<forall>v \<in> set tx_values. \<exists>m. map_target E v = Some (Some m)"
    by (simp add: tx_values_def drive_targets [OF assms(1)])
  from sizeOfPDO_layout [OF tx_pdo_values [OF assms(1)] _ this, of 20 maps nm s] assms(2) show ?thesis
    by (simp add: tx_values_def entry_bits_def del: layout.simps)
qed

text \<open>
  C14. The process data of the drive fit its build exactly: whatever the variables hold, the
  mapping of the outputs takes the 14 entries and the 32 bytes, and that of the inputs the 20
  entries and the 48 bytes, that \<open>ecat_options.h\<close> reserves, and every entry finds its variable.
\<close>

theorem drive_mapping_fits:
  assumes "SDOobjects E = drive_objects" "opt E = drive_options"
    and "length maps2 = MAX_MAPPINGS_SM2 (opt E)" "length maps3 = MAX_MAPPINGS_SM3 (opt E)"
  shows "sizeOfPDO E RX_PDO_OBJIDX nm maps2 (MAX_MAPPINGS_SM2 (opt E)) s =
      Some (of_nat (MAX_RXPDO_SIZE (opt E)), int (MAX_MAPPINGS_SM2 (opt E)), layout E 0 rx_values) \<and>
    sizeOfPDO E TX_PDO_OBJIDX nm maps3 (MAX_MAPPINGS_SM3 (opt E)) s =
      Some (of_nat (MAX_TXPDO_SIZE (opt E)), int (MAX_MAPPINGS_SM3 (opt E)), layout E 0 tx_values)"
  using drive_rx_mapping [OF assms(1), of maps2 nm s] drive_tx_mapping [OF assms(1), of maps3 nm s] assms(2-4)
  by (simp add: drive_options_def del: layout.simps)

theorem drive_mapping_fits_witness:
  "sizeOfPDO drive_ram 0x1C12 0 (replicate 14 smmap_zero) 14 ram_sys = Some (32, 14, layout drive_ram 0 rx_values)"
  using drive_mapping_fits [of drive_ram "replicate 14 smmap_zero" "replicate 20 smmap_zero" 0 ram_sys]
  by (simp add: drive_options_def del: layout.simps)

section \<open>Objects with gaps and objects with too many entries\<close>


lemma sync_parameters:
  "SDOobjects E = drive_objects \<Longrightarrow> obj_at E 16 = Some (obj_item 0x1C32 OTYPE_RECORD 32 ''SM2 Sync Parameters'' SDO1C32)"
  "ascending SDO1C32" "length SDO1C32 = 6" "\<forall>d \<in> set SDO1C32. od_subindex d \<le> 32"
  using drive_at [where k = 16]
  by (simp_all add: drive_items SDO1C32_def cong: obj_entry_cong)

text \<open>The searches of \<open>findsubindex_exact\<close>: beyond \<open>maxsub\<close>, in a gap, at an entry, and behind the table.\<close>

lemma output_assignment:
  "SDOobjects E = drive_objects \<Longrightarrow> obj_at E 14 = Some (obj_item 0x1C12 OTYPE_ARRAY 1 ''RxPDO Assignment'' SDO1C12)"
  "ascending SDO1C12" "length SDO1C12 = 3"
  using drive_at [where k = 14]
  by (simp_all add: drive_items SDO1C12_def cong: obj_entry_cong)

theorem findsubindex_exact_witness:
  "SDO_findsubindex drive_ram 14 2 = Some (-1) \<and> SDO_findsubindex drive_ram 16 3 = Some (-1) \<and>
   (\<exists>k. SDO_findsubindex drive_ram 16 2 = Some k \<and> od_subindex (SDO1C32 ! nat k) = 2) \<and>
   SDO_findsubindex drive_ram 16 0x20 = None"
proof -
  note out = output_assignment(1) [OF drive_ram_simps(1)] output_assignment(2,3)
    and sync = sync_parameters(1) [OF drive_ram_simps(1)] sync_parameters(2-4)
  have "SDO_findsubindex drive_ram 14 2 = Some (-1)"
    using findsubindex_exact [OF out(1), of 2] out(2,3)
    by (auto simp: declared_def SDO1C12_def cong: obj_entry_cong)
  moreover have "SDO_findsubindex drive_ram 16 3 = Some (-1)" "\<exists>k. SDO_findsubindex drive_ram 16 2 = Some k \<and> od_subindex (SDO1C32 ! nat k) = 2"
    using findsubindex_exact [OF sync(1), of 3] findsubindex_exact [OF sync(1), of 2] sync(2,3)
    by (auto simp: declared_def SDO1C32_def cong: obj_entry_cong)
  moreover have "SDO_findsubindex drive_ram 16 0x20 = None"
    using findsubindex_exact [OF sync(1), of "0x20"] sync(2-4) by simp
  ultimately show ?thesis by blast
qed


text \<open>
  The second entry of the output assignment of the two-axis drive cannot be read. Subindex
  0 of \<open>0x1C12\<close> says that there are two entries, the second one names the mapping of the second
  axis, and the stack itself maps both; but the object list declares one, so an SDO upload of
  \<open>0x1C12:02\<close> is refused as a missing subindex.
\<close>

theorem second_assignment_refused:
  assumes "SDOobjects E = drive_objects" and "sdo_request E s 0x1C12 2"
  shows "obj_u8 (SDO1C12 ! 0) s = Some 2 \<and> od_subindex (SDO1C12 ! 2) = 2 \<and> obj_u16 (SDO1C12 ! 2) s = Some 0x1601 \<and>
    pdo_values E s 0x1C12 = Some rx_values \<and>
    (\<exists>s'. SDO_upload E s = Some s' \<and> sdo_aborted E s' 0x1C12 2 0x06090011 \<and> sdo_done s' \<and> omem s' = omem s)"
proof -
  have f: "mbx_u16 0 9 s = Some 0x1C12" "mbx_u8 0 11 s = Some 2" using assms(2) by (simp_all add: sdo_request_def)
  have "ascending SDO1C12" by (simp add: SDO1C12_def cong: obj_entry_cong)
  from search_sub_beyond [OF this, of 1 2] have n: "SDO_findsubindex E 14 2 = Some (-1)"
    using drive_at [OF assms(1), of 14]
    by (simp add: SDO_findsubindex_def drive_items SDO1C12_def cong: obj_entry_cong)
  have "SDO_upload E s = (do { s \<leftarrow> SDO_abort E 0 0x1C12 2 0x06090011 s; Some (request_done s) })"
    using f n by (simp add: SDO_upload_def drive_find [OF assms(1)] drive_keys)
  with ok_abort_done [OF assms(2), of "0x06090011"] rx_pdo_values [OF assms(1)] show ?thesis
    by (auto simp: ok_ex obj_u8_def obj_u16_def SDO1C12_def cong: obj_entry_cong)
qed

theorem second_assignment_refused_witness:
  "\<exists>s'. SDO_upload (ram_env drive_objects) (request_sys (sdo_message 0x40 0x1C12 2 [0, 0, 0, 0])) = Some s' \<and>
     sdo_aborted (ram_env drive_objects) s' 0x1C12 2 0x06090011"
proof -
  have "sdo_request (ram_env drive_objects) (request_sys (sdo_message 0x40 0x1C12 2 [0, 0, 0, 0])) 0x1C12 2"
    using sample_request(1) [of "[0, 0, 0, 0]" "0x40" "0x1C12" 2]
    by (simp add: sdo_request_def mbx_inv_def mbx_ready_def pool_inv_def)
  with second_assignment_refused [of "ram_env drive_objects"] show ?thesis by auto
qed

end
