(* ===== verification/Drive_Props.thy ===== *)
theory Drive_Props
  imports Drive Drive_Dict_Props Data_Props Slv_Props
begin

text \<open>
  The properties of the drive application on the stack: the setpoints come back as actual
  values in the same cycle, the configuration of the distributed clocks is vetted, a fault
  clears the setpoints, and the invariant of the stack holds along the loop of \<open>main\<close>.
\<close>

section \<open>The variables\<close>

text \<open>Every variable has its declared size.\<close>

definition vars_sized :: "'w sys \<Rightarrow> bool" where
  "vars_sized s \<longleftrightarrow> (\<forall>b. length (omem s b) = var_size b)"

lemma vars_sizedD: "vars_sized s \<Longrightarrow> length (omem s b) = var_size b"
  by (simp add: vars_sized_def)

lemma vars_sized_set: "vars_sized s \<Longrightarrow> length bs = var_size b \<Longrightarrow> vars_sized (set_var b bs s)"
  by (simp add: vars_sized_def set_var_def)

lemma vars_sized_copy: "vars_sized s \<Longrightarrow> var_size from = var_size to \<Longrightarrow> vars_sized (copy_var to from s)"
  by (simp add: copy_var_def vars_sized_set vars_sizedD)

lemma vars_sized_cong: "omem s' = omem s \<Longrightarrow> vars_sized s' = vars_sized s"
  by (simp add: vars_sized_def)

lemma memory_only_sized: "memory_only s s' \<Longrightarrow> vars_sized s' = vars_sized s"
proof -
  assume "memory_only s s'"
  then have "length (block_bytes (Obj b) s') = length (block_bytes (Obj b) s)" for b unfolding memory_only_def by blast
  then show ?thesis by (simp add: vars_sized_def)
qed

lemma each_axis_two: "each_axis f s = f 1 (f 0 s)"
  by (simp add: each_axis_def upt_rec)

lemma sizes_le [simp]: "length (le16 x) = 2" "length (le32 y) = 4"
  by (simp_all add: le16_def le32_def)

lemma sized_axis:
  "vars_sized s \<Longrightarrow> vars_sized (mirror_axis n s)" "vars_sized s \<Longrightarrow> vars_sized (status_axis n s)"
  "vars_sized s \<Longrightarrow> vars_sized (clear_axis n s)"
  by (auto simp: mirror_axis_def status_axis_def clear_axis_def Let_def axis_sizes intro!: vars_sized_set vars_sized_copy)

lemma sized_callbacks:
  "vars_sized s \<Longrightarrow> vars_sized (drive_apply_rxpdo s)" "vars_sized s \<Longrightarrow> vars_sized (drive_update_txpdo s)"
  "vars_sized s \<Longrightarrow> vars_sized (app_safe_state s)" "vars_sized s \<Longrightarrow> vars_sized (dc_accept c s)"
proof -
  assume s: "vars_sized s"
  show "vars_sized (drive_apply_rxpdo s)"
    using s by (simp add: drive_apply_rxpdo_def Let_def each_axis_two sized_axis vars_sized_cong [of "_\<lparr>world := _\<rparr>"])
  have "vars_sized (set_var b bs t)" if "vars_sized t" "length bs = var_size b" for b bs and t :: "'a drive sys"
    using that by (rule vars_sized_set)
  with s show "vars_sized (drive_update_txpdo s)"
    by (simp add: drive_update_txpdo_def Let_def each_axis_two sized_axis global_sizes vars_sized_cong [of "_\<lparr>world := _\<rparr>"])
  show "vars_sized (app_safe_state s)"
    using s by (simp add: app_safe_state_def each_axis_two sized_axis)
  show "vars_sized (dc_accept c s)"
    using s by (simp add: dc_accept_def Let_def global_sizes vars_sized_set vars_sized_cong [of "_\<lparr>world := _\<rparr>"]
        vars_sized_cong [of "_\<lparr>dcsync := _, synccounterlimit := _\<rparr>"])
qed

text \<open>What the callbacks leave alone, and the values they give.\<close>

lemma callback_frames:
  "\<exists>m w. drive_apply_rxpdo s = s\<lparr>omem := m, world := w\<rparr>" "\<exists>m w. drive_update_txpdo t = t\<lparr>omem := m, world := w\<rparr>"
  "\<exists>m. app_safe_state u = u\<lparr>omem := m\<rparr>"
  by (simp_all add: drive_apply_rxpdo_def drive_update_txpdo_def app_safe_state_def each_axis_two mirror_axis_def
      status_axis_def clear_axis_def copy_var_def set_var_def Let_def) blast+

lemma apply_values:
  assumes "n < 2"
  shows "omem (drive_apply_rxpdo s) (axis_var n Axis_PositionActual) = omem s (axis_var n Axis_TargetPosition)"
    "omem (drive_apply_rxpdo s) (axis_var n Axis_VelocityActual) = omem s (axis_var n Axis_TargetVelocity)"
    "omem (drive_apply_rxpdo s) (axis_var n Axis_TorqueActual) = omem s (axis_var n Axis_TargetTorque)"
    "omem (drive_apply_rxpdo s) (axis_var n Axis_ModesOfOperationDisplay) = omem s (axis_var n Axis_ModesOfOperation)"
    "omem (drive_apply_rxpdo s) (axis_var n Axis_FollowingErrorActual) = le32 0"
  using assms
  by (auto simp: drive_apply_rxpdo_def each_axis_two mirror_axis_def copy_var_def set_var_def Let_def less_2_cases_iff)

lemma global_apart [simp]: "b < 256 \<Longrightarrow> axis_var n k \<noteq> b" "b < 256 \<Longrightarrow> b \<noteq> axis_var n k"
  using axis_var_ge [of n k] by auto

lemma update_values:
  assumes "n < 2"
  shows "k < 256 \<Longrightarrow> k \<notin> {Axis_Statusword, Axis_ErrorCode, Axis_GateDriverFaults, Axis_DriveStatusFlags} \<Longrightarrow>
      omem (drive_update_txpdo s) (axis_var n k) = omem s (axis_var n k)"
    "omem (drive_update_txpdo s) (axis_var n Axis_Statusword) = le16 0x40"
  using assms
  by (auto simp: drive_update_txpdo_def each_axis_two status_axis_def set_var_def Let_def less_2_cases_iff)

section \<open>The mirror\<close>

lemma all_less_two: "(\<forall>n < 2. P n) \<longleftrightarrow> P 0 \<and> P (1 :: nat)"
  by (auto simp: less_2_cases_iff)

lemma drive_env_simps [simp]:
  "SDOobjects (drive_env P) = drive_objects" "opt (drive_env P) = drive_options"
  "rxpdo_override (drive_env P) = None" "txpdo_override (drive_env P) = None"
  "cb_apply_rxpdo (drive_env P) = drive_apply_rxpdo" "cb_update_txpdo (drive_env P) = drive_update_txpdo"
  "safe_state_override (drive_env P) = Some app_safe_state"
  "pre_state_change_hook (drive_env P) = None" "post_state_change_hook (drive_env P) = Some cb_state_change"
  "esc_check_dc_handler (drive_env P) = Some (dc_checker (drive_base P))"
  by (simp_all add: drive_env_def drive_base_def)

lemma drive_options_simps [simp]:
  "MAX_MAPPINGS_SM2 drive_options = 14" "MAX_MAPPINGS_SM3 drive_options = 20"
  "SM2_sma drive_options = 0x1200" "SM3_sma drive_options = 0x1300"
  by (simp_all add: drive_options_def)

text \<open>An entry that points to a whole variable has the value of its bytes.\<close>

lemma getValue_var:
  assumes "vars_sized s" and "value_size t = Some k" and "var_size b = k"
  shows "COE_getValue (obj_entry i t n f nm v (Some (Obj b, 0))) s = Some (rd_le (omem s b))"
  using assms by (simp add: COE_getValue_def mem_get_def get_bytes_def vars_sizedD)

lemma drive_padding: "SDOobjects E = drive_objects \<Longrightarrow> mapped_objd E 8 = None"
  by (simp add: mapped_objd_def drive_targets map_objd_def)

lemma drive_mapping_ok:
  assumes "SDOobjects E = drive_objects" and "vars_sized s"
  shows "\<forall>v \<in> set rx_values. mapping_ok E s v \<and> target_ok E v" "\<forall>v \<in> set tx_values. mapping_ok E s v"
  by (simp_all add: rx_values_def tx_values_def mapping_ok_def target_ok_def drive_targets [OF assms(1)] drive_mapped [OF assms(1)]
      getValue_var [OF assms(2)] value_sizes axis_sizes entry_bits_def writable_def drive_padding [OF assms(1)])

lemma drive_apart:
  assumes "SDOobjects E = drive_objects"
  shows "sorted_wrt (apart E) rx_values"
  by (simp add: rx_values_def apart_def drive_mapped [OF assms] drive_padding [OF assms] od_cells_def value_sizes Times_Int_Times)

text \<open>The drive in OP with its mapping installed and process data waiting.\<close>

definition drive_in_op :: "'c esc_port \<Rightarrow> 'c drive sys \<Rightarrow> bool" where
  "drive_in_op P s \<longleftrightarrow> outputs_on s \<and> ALevent s AND ESCREG_ALEVENT_SM2 \<noteq> 0 \<and> vars_sized s \<and>
     ESC_SM2_sml s = 32 \<and> ESC_SM3_sml s = 48 \<and> length (rxpdo s) = 32 \<and> length (txpdo s) = 48 \<and>
     sm2mappings s = 14 \<and> SMmap2 s = layout (drive_env P) 0 rx_values \<and>
     sm3mappings s = 20 \<and> SMmap3 s = layout (drive_env P) 0 tx_values"

lemma drive_hal [simp]:
  "hal_read (drive_env P) a n w = (let (f, ev, c) = port_read P a n (chip w) in (f, ev, w\<lparr>chip := c\<rparr>))"
  "hal_read (drive_base P) a n w = (let (f, ev, c) = port_read P a n (chip w) in (f, ev, w\<lparr>chip := c\<rparr>))"
  by (simp_all add: drive_env_def drive_base_def)

subsection \<open>A sample drive\<close>

text \<open>The drive on the port that is plain memory.\<close>

definition ram_port :: "ram esc_port" where
  "ram_port = \<lparr>port_init = (\<lambda>c. (0, None, c)), port_read = ram_read, port_write = ram_write,
     port_interrupt_enable = (\<lambda>m c. (None, c)), port_interrupt_disable = (\<lambda>m c. (None, c)),
     port_wait_sync0 = (\<lambda>t c. (1, c))\<rparr>"

definition drive_on :: "ram \<Rightarrow> ram drive" where
  "drive_on c = \<lparr>force_freerun = False, limit_override = 0, sync0_period_ns = 0, rx_calls = 0, tx_calls = 0,
     mbx_responses = 0, backup_prev = 0, chip = c\<rparr>"

definition zero_vars :: "nat \<Rightarrow> bytes" where
  "zero_vars b = replicate (var_size b) 0"

lemma drive_hal_write [simp]:
  "hal_write (drive_env P) a bs w = (let (ev, c) = port_write P a bs (chip w) in (ev, w\<lparr>chip := c\<rparr>))"
  by (simp add: drive_env_def drive_base_def)

lemma sm_follows_drive_ram: "sm_follows (drive_env ram_port)"
  unfolding sm_follows_def
  by (intro allI impI, rule exI [of _ 0]) (simp add: ram_port_def ram_read_def ram_write_def)

lemma zero_vars_sized: "length (zero_vars b) = var_size b"
  by (simp add: zero_vars_def)

text \<open>In OP, with target position 0x1234 and torque 5 of axis 0 waiting in the SM2 area.\<close>

definition sample_drive :: "ram drive sys" where
  "sample_drive = (init_sys drive_options zero_vars (drive_on (\<lambda>a. if a = 0x1200 then 0x34 else if a = 0x1201 then 0x12
     else if a = 0x120A then 5 else 0)))
     \<lparr>App_state := 3, ALstatus := 8, ALevent := 0x400, ESC_SM2_sml := 32, ESC_SM3_sml := 48, sm2mappings := 14,
      SMmap2 := layout (drive_env ram_port) 0 rx_values, sm3mappings := 20, SMmap3 := layout (drive_env ram_port) 0 tx_values\<rparr>"

lemma sample_in_op: "drive_in_op ram_port sample_drive"
  by (simp add: drive_in_op_def sample_drive_def init_sys_def outputs_on_def vars_sized_def zero_vars_sized
      drive_options_def del: layout.simps)

lemma values_sums:
  "length rx_values = 14" "length tx_values = 20"
  "sum_list (map entry_bits rx_values) = 256" "sum_list (map entry_bits tx_values) = 384"
  by (simp_all add: rx_values_def tx_values_def entry_bits_def)

text \<open>
  One cycle: \<open>s1\<close> is the state with the outputs unpacked, \<open>s3\<close> the one whose inputs are packed.
\<close>

lemma drive_cycle:
  fixes P :: "'c esc_port"
  assumes "drive_in_op P s"
  obtains s1 s3 s' :: "'c drive sys" where "DIG_process (drive_env P) 0x03 s = Some s'" "vars_sized s1" "vars_sized s3"
    "omem s' = omem s3" "omem s3 = omem (drive_update_txpdo (drive_apply_rxpdo s1))"
    "\<exists>w. world s' = snd (hal_write (drive_env P) 0x1300 (txpdo s') w)"
    "\<And>i d. i < 14 \<Longrightarrow> mapped_objd (drive_env P) (rx_values ! i) = Some d \<Longrightarrow> COE_getValue d s1 =
       COE_bitsliceGet (handed (drive_env P) s) (of_nat (sum_list (map entry_bits (take i rx_values)))) (od_bitlength d)"
    "\<And>i d val. i < 20 \<Longrightarrow> mapped_objd (drive_env P) (tx_values ! i) = Some d \<Longrightarrow> COE_getValue d s3 = Some val \<Longrightarrow>
       COE_bitsliceGet (txpdo s') (of_nat (sum_list (map entry_bits (take i tx_values)))) (od_bitlength d) =
         Some (take_bit (entry_bits (tx_values ! i)) val)"
proof -
  let ?E = "drive_env P"
  note op = assms [unfolded drive_in_op_def]
  have sized: "vars_sized s" using op by blast
  from op have pre: "unat (ESC_SM2_sml s) \<le> length (rxpdo s)" "0 < MAX_MAPPINGS_SM2 (opt ?E)"
    "sm2mappings s = int (length rx_values)" "SMmap2 s = layout ?E 0 rx_values @ []" "length (rxpdo s) = 8 * 4"
    "sum_list (map entry_bits rx_values) \<le> 64 * 4" "sum_list (map entry_bits rx_values) < 2 ^ 32"
    by (simp_all add: values_sums)
  from op have o: "outputs_on s" "ALevent s AND ESCREG_ALEVENT_SM2 \<noteq> 0" by blast+
  note maps = drive_mapping_ok [OF drive_env_simps(1) [of P]]
  obtain u e t where t: "memory_only (s\<lparr>world := u, ALevent := e, rxpdo := handed ?E s\<rparr>) t"
    and out: "dig_outputs ?E s = Some (cb_apply_rxpdo ?E (t\<lparr>watchdog := watchdogcnt s\<rparr>))"
    and R: "\<And>i d. i < length rx_values \<Longrightarrow> mapped_objd ?E (rx_values ! i) = Some d \<Longrightarrow> COE_getValue d t =
       COE_bitsliceGet (handed ?E s) (of_nat (sum_list (map entry_bits (take i rx_values)))) (od_bitlength d)"
    by (rule dig_outputs_mapped [OF o pre(1) drive_env_simps(3) pre(2-4) maps(1) [OF sized]
          drive_apart [OF drive_env_simps(1)] pre(5-7)]) blast
  define s1 where "s1 = t\<lparr>watchdog := watchdogcnt s\<rparr>"
  define s2 where "s2 = drive_apply_rxpdo s1"
  define s3 where "s3 = drive_update_txpdo s2"
  have sized_t: "vars_sized t" using memory_only_sized [OF t] sized by (simp add: vars_sized_def)
  then have sized1: "vars_sized s1" by (simp add: s1_def vars_sized_def)
  then have sized3: "vars_sized s3" by (simp add: s3_def s2_def sized_callbacks)
  obtain m d x where tm: "t = s\<lparr>world := u, ALevent := e, rxpdo := handed ?E s, omem := m, mbxdata := d, MBX := x\<rparr>"
    using t by (auto simp: memory_only_def)
  obtain m2 w2 where f2: "s2 = s1\<lparr>omem := m2, world := w2\<rparr>" using callback_frames(1) [of s1] by (auto simp: s2_def)
  obtain m3 w3 where f3: "s3 = s2\<lparr>omem := m3, world := w3\<rparr>" using callback_frames(2) [of s2] by (auto simp: s3_def)
  have frame: "App_state s2 = App_state s" "sm3mappings s3 = 20" "SMmap3 s3 = layout ?E 0 tx_values @ []"
      "ESC_SM3_sml s3 = 48" "txpdo s3 = txpdo s"
    using op by (simp_all add: f3 f2 s1_def tm)
  have app: "0 < App_state s2"
    using o(1) frame(1) by (cases "App_state s = 0") (auto simp: outputs_on_def word_gt_0)
  have pre3: "0 < MAX_MAPPINGS_SM3 (opt ?E)" "sm3mappings s3 = int (length tx_values)"
    "unat (ESC_SM3_sml s3) \<le> length (txpdo s3)" "length (txpdo s3) = 8 * 6"
    "sum_list (map entry_bits tx_values) \<le> 64 * 6" "sum_list (map entry_bits tx_values) < 2 ^ 32"
    using op frame by (simp_all add: values_sums)
  have cb: "s3 = cb_update_txpdo ?E s2" by (simp add: s3_def)
  obtain s' where inp: "dig_inputs ?E s2 = Some s'" "omem s' = omem s3"
    "world s' = snd (hal_write ?E (of_nat (SM3_sma (opt ?E))) (take (unat (ESC_SM3_sml s3)) (txpdo s')) (world s3))"
    and T: "\<And>i d val. i < length tx_values \<Longrightarrow> mapped_objd ?E (tx_values ! i) = Some d \<Longrightarrow> COE_getValue d s3 = Some val \<Longrightarrow>
       COE_bitsliceGet (txpdo s') (of_nat (sum_list (map entry_bits (take i tx_values)))) (od_bitlength d) =
         Some (take_bit (entry_bits (tx_values ! i)) val)"
    and len: "length (txpdo s') = length (txpdo s3)"
    by (rule dig_inputs_mapped [OF app cb drive_env_simps(4) pre3(1,2) frame(3) maps(2) [OF sized3] pre3(3-6)]) blast
  have "DIG_process ?E 0x03 s = Some s'"
    using out inp(1) by (simp add: DIG_process_def s2_def s1_def)
  moreover have "world s' = snd (hal_write ?E 0x1300 (txpdo s') (world s3))"
    using inp(3) len op frame by simp
  moreover have "COE_getValue d s1 = COE_getValue d t" for d
    by (rule getValue_cong) (simp add: s1_def)
  ultimately show thesis
    using that [of s' s1 s3] sized1 sized3 inp(2) R T values_sums(1,2) by (simp add: s3_def s2_def) blast
qed

lemma rx_positions:
  "rx_values ! 0 = 0x607A0020" "rx_values ! 1 = 0x60FF0020" "rx_values ! 3 = 0x60710010" "rx_values ! 5 = 0x60600008"
  "rx_values ! 7 = 0x687A0020" "rx_values ! 8 = 0x68FF0020" "rx_values ! 10 = 0x68710010" "rx_values ! 12 = 0x68600008"
  by (simp_all add: rx_values_def)

lemma tx_positions:
  "tx_values ! 0 = 0x60640020" "tx_values ! 1 = 0x606C0020" "tx_values ! 2 = 0x60F40020" "tx_values ! 5 = 0x60410010"
  "tx_values ! 6 = 0x60770010" "tx_values ! 8 = 0x60610008"
  "tx_values ! 10 = 0x68640020" "tx_values ! 11 = 0x686C0020" "tx_values ! 12 = 0x68F40020" "tx_values ! 15 = 0x68410010"
  "tx_values ! 16 = 0x68770010" "tx_values ! 18 = 0x68610008"
  by (simp_all add: tx_values_def)

lemma rx_offsets:
  "sum_list (map entry_bits (take 0 rx_values)) = 0" "sum_list (map entry_bits (take 1 rx_values)) = 32"
  "sum_list (map entry_bits (take 3 rx_values)) = 80" "sum_list (map entry_bits (take 5 rx_values)) = 112"
  "sum_list (map entry_bits (take 7 rx_values)) = 128" "sum_list (map entry_bits (take 8 rx_values)) = 160"
  "sum_list (map entry_bits (take 10 rx_values)) = 208" "sum_list (map entry_bits (take 12 rx_values)) = 240"
  by (simp_all add: rx_values_def entry_bits_def)

lemma tx_offsets:
  "sum_list (map entry_bits (take 0 tx_values)) = 0" "sum_list (map entry_bits (take 1 tx_values)) = 32"
  "sum_list (map entry_bits (take 2 tx_values)) = 64" "sum_list (map entry_bits (take 5 tx_values)) = 128"
  "sum_list (map entry_bits (take 6 tx_values)) = 144" "sum_list (map entry_bits (take 8 tx_values)) = 176"
  "sum_list (map entry_bits (take 10 tx_values)) = 192" "sum_list (map entry_bits (take 11 tx_values)) = 224"
  "sum_list (map entry_bits (take 12 tx_values)) = 256" "sum_list (map entry_bits (take 15 tx_values)) = 320"
  "sum_list (map entry_bits (take 16 tx_values)) = 336" "sum_list (map entry_bits (take 18 tx_values)) = 368"
  by (simp_all add: tx_values_def entry_bits_def)

lemma drive_values:
  assumes "n < 2"
  shows "omem (drive_update_txpdo (drive_apply_rxpdo s)) (axis_var n Axis_PositionActual) = omem s (axis_var n Axis_TargetPosition)"
    "omem (drive_update_txpdo (drive_apply_rxpdo s)) (axis_var n Axis_VelocityActual) = omem s (axis_var n Axis_TargetVelocity)"
    "omem (drive_update_txpdo (drive_apply_rxpdo s)) (axis_var n Axis_TorqueActual) = omem s (axis_var n Axis_TargetTorque)"
    "omem (drive_update_txpdo (drive_apply_rxpdo s)) (axis_var n Axis_ModesOfOperationDisplay) = omem s (axis_var n Axis_ModesOfOperation)"
    "omem (drive_update_txpdo (drive_apply_rxpdo s)) (axis_var n Axis_FollowingErrorActual) = le32 0"
    "omem (drive_update_txpdo (drive_apply_rxpdo s)) (axis_var n Axis_Statusword) = le16 0x40"
  using assms by (simp_all add: update_values apply_values)

lemma constant_values: "rd_le (le32 0) = 0" "rd_le (le16 0x40) = 0x40"
  by (simp_all add: le32_def le16_def)

text \<open>What the outputs of the cycle give to the variables, and what its inputs hold then.\<close>

lemma drive_cycle_values:
  fixes P :: "'c esc_port" and s :: "'c drive sys"
  defines "outp \<equiv> COE_bitsliceGet (handed (drive_env P) s)"
  assumes "drive_in_op P s"
  obtains s1 s' :: "'c drive sys" where "DIG_process (drive_env P) 0x03 s = Some s'"
    "\<exists>w. world s' = snd (hal_write (drive_env P) 0x1300 (txpdo s') w)"
    "\<And>n. n < 2 \<Longrightarrow> outp (128 * of_nat n) 32 = Some (rd_le (omem s1 (axis_var n Axis_TargetPosition)))"
    "\<And>n. n < 2 \<Longrightarrow> outp (128 * of_nat n + 32) 32 = Some (rd_le (omem s1 (axis_var n Axis_TargetVelocity)))"
    "\<And>n. n < 2 \<Longrightarrow> outp (128 * of_nat n + 80) 16 = Some (rd_le (omem s1 (axis_var n Axis_TargetTorque)))"
    "\<And>n. n < 2 \<Longrightarrow> outp (128 * of_nat n + 112) 8 = Some (rd_le (omem s1 (axis_var n Axis_ModesOfOperation)))"
    "\<And>n. n < 2 \<Longrightarrow> COE_bitsliceGet (txpdo s') (192 * of_nat n) 32 = Some (take_bit 32 (rd_le (omem s1 (axis_var n Axis_TargetPosition))))"
    "\<And>n. n < 2 \<Longrightarrow> COE_bitsliceGet (txpdo s') (192 * of_nat n + 32) 32 = Some (take_bit 32 (rd_le (omem s1 (axis_var n Axis_TargetVelocity))))"
    "\<And>n. n < 2 \<Longrightarrow> COE_bitsliceGet (txpdo s') (192 * of_nat n + 144) 16 = Some (take_bit 16 (rd_le (omem s1 (axis_var n Axis_TargetTorque))))"
    "\<And>n. n < 2 \<Longrightarrow> COE_bitsliceGet (txpdo s') (192 * of_nat n + 176) 8 = Some (take_bit 8 (rd_le (omem s1 (axis_var n Axis_ModesOfOperation))))"
    "\<And>n. n < 2 \<Longrightarrow> COE_bitsliceGet (txpdo s') (192 * of_nat n + 64) 32 = Some 0"
    "\<And>n. n < 2 \<Longrightarrow> COE_bitsliceGet (txpdo s') (192 * of_nat n + 128) 16 = Some 0x40"
proof -
  let ?E = "drive_env P"
  obtain s1 s3 s' :: "'c drive sys" where c: "DIG_process ?E 0x03 s = Some s'"
    "vars_sized s1" "vars_sized s3" "omem s' = omem s3" "omem s3 = omem (drive_update_txpdo (drive_apply_rxpdo s1))"
    "\<exists>w. world s' = snd (hal_write ?E 0x1300 (txpdo s') w)"
    and R: "\<And>i d. i < 14 \<Longrightarrow> mapped_objd ?E (rx_values ! i) = Some d \<Longrightarrow> COE_getValue d s1 =
       COE_bitsliceGet (handed ?E s) (of_nat (sum_list (map entry_bits (take i rx_values)))) (od_bitlength d)"
    and T: "\<And>i d val. i < 20 \<Longrightarrow> mapped_objd ?E (tx_values ! i) = Some d \<Longrightarrow> COE_getValue d s3 = Some val \<Longrightarrow>
       COE_bitsliceGet (txpdo s') (of_nat (sum_list (map entry_bits (take i tx_values)))) (od_bitlength d) =
         Some (take_bit (entry_bits (tx_values ! i)) val)"
    by (rule drive_cycle [OF assms(2)]) blast
  have R': "\<forall>d. mapped_objd ?E (rx_values ! i) = Some d \<longrightarrow> COE_getValue d s1 =
      COE_bitsliceGet (handed ?E s) (of_nat (sum_list (map entry_bits (take i rx_values)))) (od_bitlength d)" if "i < 14" for i
    using R that by blast
  have T': "\<forall>d. mapped_objd ?E (tx_values ! i) = Some d \<longrightarrow> (\<forall>val. COE_getValue d s3 = Some val \<longrightarrow>
      COE_bitsliceGet (txpdo s') (of_nat (sum_list (map entry_bits (take i tx_values)))) (od_bitlength d) =
        Some (take_bit (entry_bits (tx_values ! i)) val))" if "i < 20" for i
    using T that by blast
  note maps = drive_mapped [OF drive_env_simps(1)]
  note val = getValue_var [OF c(2)] getValue_var [OF c(3)] value_sizes axis_sizes
  have outs: "COE_bitsliceGet (handed ?E s) (128 * of_nat n) 32 = Some (rd_le (omem s1 (axis_var n Axis_TargetPosition)))"
      "COE_bitsliceGet (handed ?E s) (128 * of_nat n + 32) 32 = Some (rd_le (omem s1 (axis_var n Axis_TargetVelocity)))"
      "COE_bitsliceGet (handed ?E s) (128 * of_nat n + 80) 16 = Some (rd_le (omem s1 (axis_var n Axis_TargetTorque)))"
      "COE_bitsliceGet (handed ?E s) (128 * of_nat n + 112) 8 = Some (rd_le (omem s1 (axis_var n Axis_ModesOfOperation)))"
    if "n < 2" for n
    using that R' [of 0] R' [of 1] R' [of 3] R' [of 5] R' [of 7] R' [of 8] R' [of 10] R' [of 12]
    by (auto simp: less_2_cases_iff rx_positions rx_offsets [unfolded One_nat_def] rx_offsets rx_positions [unfolded One_nat_def] maps val)
  have ins: "COE_bitsliceGet (txpdo s') (192 * of_nat n) 32 = Some (take_bit 32 (rd_le (omem s1 (axis_var n Axis_TargetPosition))))"
      "COE_bitsliceGet (txpdo s') (192 * of_nat n + 32) 32 = Some (take_bit 32 (rd_le (omem s1 (axis_var n Axis_TargetVelocity))))"
      "COE_bitsliceGet (txpdo s') (192 * of_nat n + 144) 16 = Some (take_bit 16 (rd_le (omem s1 (axis_var n Axis_TargetTorque))))"
      "COE_bitsliceGet (txpdo s') (192 * of_nat n + 176) 8 = Some (take_bit 8 (rd_le (omem s1 (axis_var n Axis_ModesOfOperation))))"
      "COE_bitsliceGet (txpdo s') (192 * of_nat n + 64) 32 = Some 0"
      "COE_bitsliceGet (txpdo s') (192 * of_nat n + 128) 16 = Some 0x40"
    if "n < 2" for n
    using that T' [of 0] T' [of 1] T' [of 2] T' [of 5] T' [of 6] T' [of 8] T' [of 10] T' [of 11] T' [of 12] T' [of 15] T' [of 16] T' [of 18]
    by (auto simp: less_2_cases_iff tx_positions tx_offsets tx_offsets [unfolded One_nat_def] tx_positions [unfolded One_nat_def] maps val c(5)
        drive_values drive_values [where n = "Suc 0"] constant_values entry_bits_def)
  from that [OF c(1,6)] outs ins show thesis unfolding outp_def by blast
qed

text \<open>
  C5. In OP the drive answers every setpoint in the same cycle. One call of \<open>DIG_process\<close> with
  process data waiting returns, and in the inputs that are written to the SM3 area, for each
  axis, position, velocity and torque actual value and the mode display are the bits of the
  target values and of the mode in the outputs that the chip handed over; the following error
  is zero and the status word is 0x0040.
\<close>

theorem drive_mirrors_setpoints:
  fixes P :: "'c esc_port"
  assumes "drive_in_op P s"
  shows "\<exists>s'. DIG_process (drive_env P) 0x03 s = Some s' \<and>
    (\<exists>w. world s' = snd (hal_write (drive_env P) 0x1300 (txpdo s') w)) \<and>
    (\<forall>n < 2. let outp = COE_bitsliceGet (handed (drive_env P) s); inp = COE_bitsliceGet (txpdo s');
         p = 128 * of_nat n; q = 192 * of_nat n
       in inp q 32 = outp p 32 \<and> inp (q + 32) 32 = outp (p + 32) 32 \<and> inp (q + 144) 16 = outp (p + 80) 16 \<and>
          inp (q + 176) 8 = outp (p + 112) 8 \<and> inp (q + 64) 32 = Some 0 \<and> inp (q + 128) 16 = Some 0x0040)"
proof -
  obtain s1 s' :: "'c drive sys" where "DIG_process (drive_env P) 0x03 s = Some s'"
    "\<exists>w. world s' = snd (hal_write (drive_env P) 0x1300 (txpdo s') w)" and
    v: "\<And>n. n < 2 \<Longrightarrow> COE_bitsliceGet (handed (drive_env P) s) (128 * of_nat n) 32 = Some (rd_le (omem s1 (axis_var n Axis_TargetPosition)))"
    "\<And>n. n < 2 \<Longrightarrow> COE_bitsliceGet (handed (drive_env P) s) (128 * of_nat n + 32) 32 = Some (rd_le (omem s1 (axis_var n Axis_TargetVelocity)))"
    "\<And>n. n < 2 \<Longrightarrow> COE_bitsliceGet (handed (drive_env P) s) (128 * of_nat n + 80) 16 = Some (rd_le (omem s1 (axis_var n Axis_TargetTorque)))"
    "\<And>n. n < 2 \<Longrightarrow> COE_bitsliceGet (handed (drive_env P) s) (128 * of_nat n + 112) 8 = Some (rd_le (omem s1 (axis_var n Axis_ModesOfOperation)))"
    "\<And>n. n < 2 \<Longrightarrow> COE_bitsliceGet (txpdo s') (192 * of_nat n) 32 = Some (take_bit 32 (rd_le (omem s1 (axis_var n Axis_TargetPosition))))"
    "\<And>n. n < 2 \<Longrightarrow> COE_bitsliceGet (txpdo s') (192 * of_nat n + 32) 32 = Some (take_bit 32 (rd_le (omem s1 (axis_var n Axis_TargetVelocity))))"
    "\<And>n. n < 2 \<Longrightarrow> COE_bitsliceGet (txpdo s') (192 * of_nat n + 144) 16 = Some (take_bit 16 (rd_le (omem s1 (axis_var n Axis_TargetTorque))))"
    "\<And>n. n < 2 \<Longrightarrow> COE_bitsliceGet (txpdo s') (192 * of_nat n + 176) 8 = Some (take_bit 8 (rd_le (omem s1 (axis_var n Axis_ModesOfOperation))))"
    "\<And>n. n < 2 \<Longrightarrow> COE_bitsliceGet (txpdo s') (192 * of_nat n + 64) 32 = Some 0"
    "\<And>n. n < 2 \<Longrightarrow> COE_bitsliceGet (txpdo s') (192 * of_nat n + 128) 16 = Some 0x40"
    by (rule drive_cycle_values [OF assms]) blast
  moreover note n1 = slice_narrow [OF v(1), where k = 32] slice_narrow [OF v(2), where k = 32]
    slice_narrow [OF v(3), where k = 16] slice_narrow [OF v(4), where k = 8]
  ultimately show ?thesis by (auto simp: Let_def)
qed

theorem drive_mirrors_setpoints_witness:
  "\<exists>s'. DIG_process (drive_env ram_port) 0x03 sample_drive = Some s' \<and>
     COE_bitsliceGet (txpdo s') 0 32 = Some 0x1234 \<and> COE_bitsliceGet (txpdo s') 144 16 = Some 5 \<and>
     COE_bitsliceGet (txpdo s') 320 16 = Some 0x0040"
proof -
  let ?img = "[0x34, 0x12, 0, 0, 0, 0, 0, 0, 0, 0, 5, 0, 0, 0, 0, 0, 0, 0, 0, 0, 0, 0, 0, 0, 0, 0, 0, 0, 0, 0, 0, 0] :: bytes"
  have h: "handed (drive_env ram_port) sample_drive = ?img"
    by (simp add: handed_def sample_drive_def init_sys_def ram_port_def ram_read_def drive_on_def drive_options_def
      upt_rec)
  have "COE_bitsliceGet ?img 0 32 = Some 0x1234"
    "COE_bitsliceGet ?img 80 16 = Some 5"
    by code_simp+
  with drive_mirrors_setpoints [OF sample_in_op] show ?thesis
    by (auto simp: Let_def all_less_two h)
qed

section \<open>Distributed clocks\<close>

text \<open>The code the handler answers with, for the activation register and the cycle time it reads.\<close>

definition dc_code :: "u8 \<Rightarrow> u32 \<Rightarrow> u16" where
  "dc_code act cycle = (if act AND 1 = 0 then 0x0030 else if cycle < 250000 then 0x0036 else 0)"

lemma dc_checker_result:
  fixes P :: "'c esc_port" and s :: "'c drive sys"
  assumes "port_read P 0x0981 1 (chip (world s)) = (f1, e1, c1)" "port_read P 0x09A0 4 c1 = (f2, e2, c2)"
    and "cycle = rd32 [f2 0, f2 1, f2 2, f2 3]"
  obtains s1 where "omem s1 = omem s" "dcsync s1 = dcsync s" "al_view s1 = al_view s" "world s1 = (world s)\<lparr>chip := c2\<rparr>"
    "dc_checker (drive_base P) s = (dc_code (f1 0) cycle, if dc_code (f1 0) cycle = 0 then dc_accept cycle s1 else s1)"
proof -
  let ?s1 = "s\<lparr>world := (world s)\<lparr>chip := c1\<rparr>, ALevent := published e1 s\<rparr>"
  have r1: "reg_read (drive_base P) 0x0981 1 s = (f1, ?s1)"
    using assms(1) by (simp add: reg_read_def)
  have r2: "reg_read (drive_base P) 0x09A0 4 ?s1 =
      (f2, ?s1\<lparr>world := (world s)\<lparr>chip := c2\<rparr>, ALevent := published e2 ?s1\<rparr>)"
    using assms(2) by (simp add: reg_read_def)
  show thesis
    by (rule that [of "?s1\<lparr>world := (world s)\<lparr>chip := c2\<rparr>, ALevent := published e2 ?s1\<rparr>"])
      (use assms(3) in \<open>auto simp: dc_checker_def r1 [unfolded One_nat_def] r2 dc_code_def al_view_def simp del: rd32.simps\<close>)
qed

text \<open>
  C6. The drive vets the distributed clocks that the master configured. With the cyclic unit
  on, the check that precedes SAFEOP answers 0x0030 when SYNC0 is not activated and 0x0036 when
  its period is below 250 us (so also for 0), and then changes neither the synchronisation
  mode nor a variable; otherwise it accepts: synchronous mode is on, the limit of the sync
  errors is the one of the dictionary unless overridden, and the period stands in both
  synchronisation objects and bounds the wait of the loop.
\<close>

theorem drive_vets_dc:
  fixes P :: "'c esc_port" and s :: "'c drive sys"
  assumes "port_read P 0x0981 1 (chip (world s)) = (f0, e0, c0)" "f0 0 AND 0x09 \<noteq> 0"
    and "port_read P 0x0981 1 c0 = (f1, e1, c1)" "port_read P 0x09A0 4 c1 = (f2, e2, c2)"
    and "cycle = rd32 [f2 0, f2 1, f2 2, f2 3]" "code = dc_code (f1 0) cycle"
  shows "\<exists>s'. ESC_checkDC (drive_env P) s = Some (code, s') \<and> al_view s' = al_view s \<and>
    (if code \<noteq> 0
     then dcsync s' = dcsync s \<and> omem s' = omem s \<and> world s' = (world s)\<lparr>chip := c2\<rparr>
     else dcsync s' = 1 \<and> sync0_period_ns (world s') = cycle \<and> 250000 \<le> cycle \<and>
       synccounterlimit s' = (if limit_override (world s) \<noteq> 0 then to_u16 (limit_override (world s))
         else rd16 (omem s Obj_ErrorSettings_SyncErrorCounterLimit)) \<and>
       omem s' Obj_SM2Sync_CycleTime = le32 cycle \<and> omem s' Obj_SM3Sync_CycleTime = le32 cycle)"
proof -
  let ?E = "drive_env P"
  let ?s = "s\<lparr>world := (world s)\<lparr>chip := c0\<rparr>, ALevent := published e0 s\<rparr>"
  have on: "ESC_SYNCactivation ?E s = Some (f0 0, ?s)"
    using assms(1) by (simp add: ESC_SYNCactivation_def ESC_read_def)
  have nz: "f0 0 AND (ESCREG_SYNC_ACT_ACTIVATED OR ESCREG_SYNC_AUTO_ACTIVATED) > 0"
    using assms(2) by (simp add: word_gt_0)
  have "port_read P 0x0981 1 (chip (world ?s)) = (f1, e1, c1)" using assms(3) by simp
  from dc_checker_result [OF this assms(4,5)] obtain s1 where s1: "omem s1 = omem ?s" "dcsync s1 = dcsync ?s"
    "al_view s1 = al_view ?s" "world s1 = (world ?s)\<lparr>chip := c2\<rparr>"
    "dc_checker (drive_base P) ?s = (code, if code = 0 then dc_accept cycle s1 else s1)"
    unfolding assms(6) by blast
  have "ESC_checkDC ?E s = Some (code, if code = 0 then dc_accept cycle s1 else s1)"
    using nz by (simp add: ESC_checkDC_def on s1(5))
  moreover have "al_view (dc_accept cycle s1) = al_view s1"
    by (simp add: dc_accept_def set_var_def Let_def al_view_def)
  moreover have "code = 0 \<Longrightarrow> 250000 \<le> cycle"
    using assms(6) by (auto simp: dc_code_def not_less split: if_splits)
  ultimately show ?thesis
    using s1(1-4) by (auto simp: dc_accept_def set_var_def Let_def al_view_def)
qed

theorem drive_vets_dc_witness:
  "\<exists>s'. ESC_checkDC (drive_env ram_port) (init_sys drive_options zero_vars
      (drive_on ((\<lambda>_. 0)(0x0981 := 0x03, 0x09A2 := 0x03)))) = Some (0x0036, s') \<and> dcsync s' = 0"
proof -
  define c :: ram where "c = (\<lambda>_. 0)(0x0981 := 0x03, 0x09A2 := 0x03)"
  define s where "s = init_sys drive_options zero_vars (drive_on c)"
  have w: "port_read ram_port a n (chip (world s)) = (\<lambda>i. c (a + of_nat i), None, c)"
      "port_read ram_port a n c = (\<lambda>i. c (a + of_nat i), None, c)" for a n
    by (simp_all add: s_def init_sys_def drive_on_def ram_port_def ram_read_def)
  have c: "c 0x0981 = 3" "c 0x09A0 = 0" "c 0x09A1 = 0" "c 0x09A2 = 3" "c 0x09A3 = 0" and d: "dcsync s = 0"
    by (simp_all add: c_def s_def init_sys_def)
  from drive_vets_dc [OF w(1) _ w(2) w(2) refl refl] show ?thesis
    unfolding c_def [symmetric] s_def [symmetric] by (auto simp: c d dc_code_def)
qed

section \<open>Faults\<close>

text \<open>The variables that the safe state clears, with the values it gives them.\<close>

definition safe_values :: "(nat \<times> bytes) list" where
  "safe_values = [(Axis_TargetPosition, le32 0), (Axis_TargetVelocity, le32 0), (Axis_TargetTorque, le16 0),
     (Axis_PositionActual, le32 0), (Axis_VelocityActual, le32 0), (Axis_TorqueActual, le16 0)]"

lemma safe_state_values:
  "n < 2 \<Longrightarrow> (k, v) \<in> set safe_values \<Longrightarrow> omem (app_safe_state s) (axis_var n k) = v"
  "\<forall>n < 2. \<forall>k \<in> fst ` set safe_values. b \<noteq> axis_var n k \<Longrightarrow> omem (app_safe_state s) b = omem s b"
  by (auto simp: safe_values_def app_safe_state_def each_axis_two clear_axis_def set_var_def Let_def less_2_cases_iff)

text \<open>
  C7. A fault leaves no stale setpoint. When the stack forces the drive out of OP, for an expired
  watchdog, lost SYNC0 or too many sync errors, the call returns, the outputs are off, the AL
  error is the one raised, and on both axes targets and actual values of position, velocity and
  torque are zero; no other variable changes.
\<close>

theorem drive_fault_stops:
  fixes P :: "'c esc_port" and s :: "'c drive sys"
  assumes "sm_follows (drive_env P)" and "status AND ESCop = 0" and "outputs_on s"
  shows "\<exists>s'. ESC_ALstatusgotoerror (drive_env P) status err s = Some s' \<and>
    \<not> outputs_on s' \<and> op_pending s' = 0 \<and> ALerror s' = err \<and> ALstatus s' = to_u16 status \<and>
    (\<forall>n < 2. \<forall>(k, v) \<in> set safe_values. omem s' (axis_var n k) = v) \<and>
    (\<forall>b. (\<forall>n < 2. \<forall>k \<in> fst ` set safe_values. b \<noteq> axis_var n k) \<longrightarrow> omem s' b = omem s b)"
proof -
  have stop: "\<not> outputs_on (s\<lparr>App_state := App_state s AND APPSTATE_INPUT\<rparr>)"
    by (simp add: outputs_on_def and.assoc)
  obtain m where m: "\<And>t :: 'c drive sys. omem t = omem s \<Longrightarrow> app_safe_state t = t\<lparr>omem := m\<rparr>"
    by (auto simp: app_safe_state_def each_axis_two clear_axis_def set_var_def Let_def)
  have "ok (\<lambda>s'. \<not> outputs_on s' \<and> op_pending s' = 0 \<and> ALerror s' = err \<and> ALstatus s' = to_u16 status \<and>
      omem s' = m) (ESC_ALstatusgotoerror (drive_env P) status err s)"
    using assms(2,3)
    by (auto simp: ESC_ALstatusgotoerror_def ESC_stopoutput_def run_hook_def cb_state_change_def
        APP_safe_state_def outputs_on_def word_gt_0 and.assoc m intro!: wp assms(1))
  moreover have "m = omem (app_safe_state s)" using m [of s] by simp
  ultimately show ?thesis
    using safe_state_values(1) [where s = s] safe_state_values(2) [where s = s] by (auto simp: ok_ex)
qed

theorem drive_fault_stops_witness:
  "\<exists>s'. ESC_ALstatusgotoerror (drive_env ram_port) 0x14 0x1B
      (sample_drive\<lparr>omem := zero_vars(axis_var 1 Axis_TargetTorque := [5, 0])\<rparr>) = Some s' \<and>
     \<not> outputs_on s' \<and> ALerror s' = 0x1B \<and> omem s' (axis_var 1 Axis_TargetTorque) = [0, 0]"
proof -
  have "outputs_on (sample_drive\<lparr>omem := m\<rparr>)" for m
    by (simp add: sample_drive_def outputs_on_def init_sys_def del: layout.simps)
  from drive_fault_stops [OF sm_follows_drive_ram _ this, of "0x14" "0x1B"] show ?thesis
    by (auto simp: all_less_two safe_values_def le16_def)
qed

end
