(* ===== verification/Drive_Start.thy ===== *)
theory Drive_Start
  imports Drive_Props
begin

text \<open>
  The drive from power-on: its callbacks keep what the invariant of the stack asks of an
  application, so the invariant holds along the loop of \<open>main\<close>; and the start returns, because
  every table of the dictionary ends where the initialisation of the variables stops.
\<close>

section \<open>The callbacks and the invariant\<close>

lemma lawful_kview: "(\<And>s. kview (h s) = kview s) \<Longrightarrow> lawful E h"
proof -
  assume k: "\<And>s. kview (h s) = kview s"
  have "cview (h s) = cview s" for s using k [of s] by (simp add: kview_def)
  from cview_eqs [OF this] pool_inv_kview [OF k] show ?thesis
    by (simp add: lawful_def stack_ok_def mb_configured_def mbx_ready_def)
qed

lemma polite_kview: "(\<And>s. kview (h s) = kview s) \<Longrightarrow> polite E h"
  using pool_inv_kview [of "h _" _ E] by (auto simp: polite_def kview_def)

lemma kview_dc [simp]: "kview (s\<lparr>dcsync := v, synccounterlimit := l\<rparr>) = kview s"
  by (simp add: kview_def cview_def al_view_def)

lemma kview_callbacks [simp]:
  "kview (drive_apply_rxpdo r) = kview r" "kview (drive_update_txpdo r) = kview r"
  "kview (app_safe_state s) = kview s" "kview (set_chip c ev r) = kview r" "kview (dc_accept cyc r) = kview r"
  using callback_frames(1) [of r] callback_frames(2) [of r] callback_frames(3) [of s] by (auto simp: set_chip_def dc_accept_def set_var_def Let_def)

lemma kview_reg_read [simp]: "kview (snd (reg_read E a n s)) = kview s"
  by (simp add: reg_read_def split: prod.split)

lemma kview_dc_checker [simp]: "kview (snd (dc_checker E s)) = kview s"
  using kview_reg_read [of E ESCREG_SYNC_ACT 1 s]
    kview_reg_read [of E ESCREG_SYNC0_CYCLE_TIME 4 "snd (reg_read E ESCREG_SYNC_ACT 1 s)"]
  by (auto simp: dc_checker_def Let_def case_prod_beta simp del: kview_reg_read)

lemma kview_al_view: "kview s' = kview s \<Longrightarrow> al_view s' = al_view s"
  by (simp add: kview_def cview_def)

lemma drive_hooks [simp]:
  "esc_hw_interrupt_enable (drive_env P) = Some (\<lambda>m s. case port_interrupt_enable P m (chip (world s)) of (ev, c) \<Rightarrow> set_chip c ev s)"
  "esc_hw_interrupt_disable (drive_env P) = Some (\<lambda>m s. case port_interrupt_disable P m (chip (world s)) of (ev, c) \<Rightarrow> set_chip c ev s)"
  "esc_hw_wait (drive_env P) = Some (\<lambda>t s. case port_wait_sync0 P t (chip (world s)) of (r, c) \<Rightarrow> (r, set_chip c None s))"
  "hal_init (drive_env P) = (\<lambda>s. case port_init P (chip (world s)) of (r, ev, c) \<Rightarrow> (r, set_chip c ev s))"
  "set_defaults_hook (drive_env P) = None" "application_hook (drive_env P) = None" "get_device_id (drive_env P) = None"
  by (simp_all add: drive_env_def drive_base_def)

lemma kview_al_dc: "al_view (snd (dc_checker E s)) = al_view (s\<lparr>op_pending := op_pending (snd (dc_checker E s))\<rparr>)"
  using kview_al_view [OF kview_dc_checker [of E s]] by (simp add: al_view_def)

lemma drive_pdo_total: "pdo_total (drive_env P)"
  by (simp add: pdo_total_def drive_rx_mapping drive_tx_mapping length_layout del: layout.simps) (simp add: values_sums)

lemma drive_al_env: "sm_follows (drive_env P) \<Longrightarrow> al_env (drive_env P)"
  using drive_pdo_total [of P]
  by (auto simp: al_env_def observes_def keeps_opt_def keeps_view_def cb_state_change_def case_prod_beta kview_al_dc
      kview_al_view [OF kview_callbacks(3)] kview_al_view [OF kview_callbacks(4)])

lemma drive_boot: "sm_follows (drive_env P) \<Longrightarrow> boot_env (drive_env P)"
proof -
  assume "sm_follows (drive_env P)"
  then have "al_env (drive_env P)" by (rule drive_al_env)
  moreover have "valid_opts drive_options" by (simp add: valid_opts_def drive_options_def)
  moreover have "fsm_hooks (drive_env P)"
    by (simp add: fsm_hooks_def lawful_kview cb_state_change_def case_prod_beta)
  moreover have "calm_hooks (drive_env P)"
    by (simp add: calm_hooks_def gentle_def polite_kview case_prod_beta) (simp add: drive_env_def drive_base_def)
  ultimately show ?thesis by (simp add: boot_env_def gentle_def case_prod_beta)
qed

section \<open>The loop\<close>

lemma kview_count [simp]: "kview (count_responses s) = kview s"
  by (simp add: count_responses_def)

lemma kview_report [simp]: "kview (report E s) = kview s"
proof -
  have "kview (fold (\<lambda>(a, n) s. snd (reg_read E a n s)) rs s) = kview s" for rs s
    by (induction rs arbitrary: s) (auto simp: case_prod_beta)
  then show ?thesis by (simp add: report_def)
qed

lemma drive_pass_steps: "drive_pass E due s = Some s' \<Longrightarrow> (slave_step E)\<^sup>*\<^sup>* s s'"
proof -
  assume "drive_pass E due s = Some s'"
  then obtain s1 where c: "cyclic_call E s = Some s1" and k: "kview s' = kview s1"
    by (auto simp: drive_pass_def bind_eq_Some_conv)
  have "slave_step E s s1"
    using c by (auto simp: cyclic_call_def intro: slave_step.intros split: if_splits)
  then show ?thesis using slave_step.outside [OF k] by (auto intro: rtranclp.intros)
qed

lemma drive_passes_steps: "drive_passes E dues s = Some s' \<Longrightarrow> (slave_step E)\<^sup>*\<^sup>* s s'"
  by (induction dues arbitrary: s) (auto simp: bind_eq_Some_conv dest: drive_pass_steps intro: rtranclp_trans)

section \<open>The initialisation of the variables\<close>

text \<open>The loop over the entries of an object stops at an entry of its table.\<close>

definition stops_inside :: "objectlist \<Rightarrow> bool" where
  "stops_inside ob \<longleftrightarrow> ol_index ob \<noteq> 0xffff \<and>
     list_ex (\<lambda>d. \<not> od_subindex d < to_u16 (ol_maxsub ob)) (ol_objdesc ob)"

lemma drive_stops: "list_all stops_inside (butlast drive_objects)"
  by (simp add: drive_objects_def stops_inside_def common_tables axis0_tables axis1_tables cong: obj_item_cong obj_entry_cong)

text \<open>A store of typed data: every variable keeps its size, and the AL state is the same.\<close>

definition stored :: "'w sys \<Rightarrow> 'w sys \<Rightarrow> bool" where
  "stored s s' \<longleftrightarrow> vars_sized s' \<and> al_view s' = al_view s"

lemma stored_refl: "vars_sized s \<Longrightarrow> stored s s"
  by (simp add: stored_def)

lemma stored_trans: "stored s s1 \<Longrightarrow> stored s1 s2 \<Longrightarrow> stored s s2"
  by (simp add: stored_def)

lemma setValue_typed:
  assumes "entry_typed d" and "od_data d \<noteq> None" and "vars_sized s"
  shows "ok (stored s) (COE_setValue d v s)"
proof (cases "value_size (od_datatype d)")
  case None
  then show ?thesis using assms(3) by (simp add: COE_setValue_def stored_refl)
next
  case (Some n)
  obtain p off where "od_data d = Some (p, off)" using assms(2) by auto
  moreover from this assms(1) Some obtain b where "p = Obj b" "off + n \<le> var_size b"
    by (cases p) (auto simp: entry_typed_def room_at_def)
  ultimately have p: "od_data d = Some (Obj b, off)" "off + n \<le> var_size b" by simp_all
  obtain m where "put_bytes off (le_bytes n v) (omem s b) = Some m" "length m = var_size b"
    using p(2) vars_sizedD [OF assms(3)] by (simp add: put_bytes_def)
  with assms(3) show ?thesis
    by (simp add: COE_setValue_def Some mem_put_def p vars_sized_def stored_def al_view_def)
qed

lemma init_entries_typed:
  assumes "list_all entry_typed ds" "list_ex (\<lambda>d. \<not> od_subindex d < to_u16 m) ds" "vars_sized s"
  shows "ok (stored s) (init_entries ds m s)"
  using assms
proof (induction ds arbitrary: s)
  case Nil
  then show ?case by simp
next
  case (Cons d ds)
  have set: "ok (stored s) (if od_data d \<noteq> None then COE_setValue d (to_u64 (od_value d)) s else Some s)"
    using Cons.prems setValue_typed [of d s] by (simp add: stored_refl)
  show ?case
    unfolding init_entries.simps
  proof (rule ok_bindI [OF set])
    fix s1
    assume s1: "stored s s1"
    then have "vars_sized s1" by (simp add: stored_def)
    with Cons have "ok (stored s1) (init_entries ds m s1)" if "od_subindex d < to_u16 m"
      using that by simp
    then show "ok (stored s) (if od_subindex d < to_u16 m then init_entries ds m s1 else Some s1)"
      using s1 by (auto intro: ok_mono stored_trans)
  qed
qed

lemma init_objects_typed:
  assumes "list_all (\<lambda>ob. table_typed (ol_objdesc ob)) obs" "list_all stops_inside obs" "vars_sized s" "ol_index z = 0xffff"
  shows "ok (stored s) (init_objects (obs @ [z]) s)"
  using assms(1-3)
proof (induction obs arbitrary: s)
  case Nil
  then show ?case using assms(4) by (simp add: stored_refl)
next
  case (Cons ob obs)
  have e: "ok (stored s) (init_entries (ol_objdesc ob) (ol_maxsub ob) s)"
    using Cons.prems by (intro init_entries_typed) (simp_all add: table_typed_def stops_inside_def)
  have "ok (stored s) (Option.bind (init_entries (ol_objdesc ob) (ol_maxsub ob) s) (init_objects (obs @ [z])))"
  proof (rule ok_bindI [OF e])
    fix s1
    assume s1: "stored s s1"
    then have "vars_sized s1" by (simp add: stored_def)
    with Cons have "ok (stored s1) (init_objects (obs @ [z]) s1)" by simp
    with s1 show "ok (stored s) (init_objects (obs @ [z]) s1)" by (auto intro: ok_mono stored_trans)
  qed
  with Cons.prems show ?case by (simp add: stops_inside_def)
qed

lemma drive_defaults:
  assumes "vars_sized s" and "\<And>s'. vars_sized s' \<Longrightarrow> al_view s' = al_view s \<Longrightarrow> Q s'"
  shows "ok Q (COE_initDefaultValues (drive_env P) s)"
proof -
  have z: "butlast drive_objects @ [last drive_objects] = drive_objects" "ol_index (last drive_objects) = 0xffff"
    by (simp_all add: drive_objects_def cong: obj_item_cong)
  have "ok (stored s) (init_objects drive_objects s)"
    using init_objects_typed [OF drive_tables drive_stops assms(1) z(2)] unfolding z(1) .
  then have "ok Q (init_objects drive_objects s)"
    by (rule ok_mono) (simp add: stored_def assms(2))
  with assms show ?thesis by (simp add: COE_initDefaultValues_def bind_eq_Some_conv)
qed

section \<open>Starting\<close>

lemma sized_stop:
  assumes "sm_follows (drive_env P)" and "vars_sized s"
  shows "(\<And>s'. vars_sized s' \<Longrightarrow> al_view s' = al_view (s\<lparr>MBXrun := 0\<rparr>) \<Longrightarrow> Q s') \<Longrightarrow> ok Q (ESC_stopmbx (drive_env P) s)"
    "(\<And>s'. vars_sized s' \<Longrightarrow> al_view s' = al_view (s\<lparr>App_state := APPSTATE_IDLE\<rparr>) \<Longrightarrow> Q s') \<Longrightarrow> ok Q (ESC_stopinput (drive_env P) s)"
    "(\<And>s'. vars_sized s' \<Longrightarrow> al_view s' = al_view (s\<lparr>App_state := App_state s AND APPSTATE_INPUT\<rparr>) \<Longrightarrow> Q s') \<Longrightarrow> ok Q (ESC_stopoutput (drive_env P) s)"
proof -
  have o: "vars_sized (t :: 'a drive sys)" if "omem t = omem s" for t
    using vars_sized_cong [OF that] assms(2) by simp
  show "ok Q (ESC_stopmbx (drive_env P) s)" if "\<And>s'. vars_sized s' \<Longrightarrow> al_view s' = al_view (s\<lparr>MBXrun := 0\<rparr>) \<Longrightarrow> Q s'"
    by (simp add: ESC_stopmbx_def ESC_SDO_cancel_def, intro wp assms(1)) (simp, simp, rule that, rule o, simp_all add: al_view_def)
  show "ok Q (ESC_stopinput (drive_env P) s)" if "\<And>s'. vars_sized s' \<Longrightarrow> al_view s' = al_view (s\<lparr>App_state := APPSTATE_IDLE\<rparr>) \<Longrightarrow> Q s'"
    by (simp add: ESC_stopinput_def case_prod_beta set_chip_def, intro wp assms(1))
      (simp, simp, auto simp: al_view_def intro!: that o)
  show "ok Q (ESC_stopoutput (drive_env P) s)"
    if "\<And>s'. vars_sized s' \<Longrightarrow> al_view s' = al_view (s\<lparr>App_state := App_state s AND APPSTATE_INPUT\<rparr>) \<Longrightarrow> Q s'"
    by (simp add: ESC_stopoutput_def APP_safe_state_def, intro wp assms(1))
      (simp, rule that, rule sized_callbacks(3), rule o, simp, unfold kview_al_view [OF kview_callbacks(3)], simp add: al_view_def)
qed

lemma sized_wait:
  "vars_sized s \<Longrightarrow> (\<And>b s'. vars_sized s' \<Longrightarrow> Q (b, s')) \<Longrightarrow> ok Q (wait_link E n s)"
  by (induction n arbitrary: s) (subst wait_link.simps, auto simp: ESC_read_def case_prod_beta vars_sized_def)+

text \<open>The start of the drive returns, whatever the chip answers.\<close>

lemma sized_init:
  fixes P :: "'c esc_port"
  assumes sm: "sm_follows (drive_env P)" and "vars_sized s"
  shows "ok (\<lambda>(r, s'). vars_sized s' \<and> (fst (port_init P (chip (world s))) \<noteq> 0 \<longrightarrow> r \<noteq> 0) \<and>
    (r = 0 \<longrightarrow> to_u8 (ALstatus s') = ESCinit \<and> MBXrun s' = 0 \<and> App_state s' = 0)) (ecat_slv_init (drive_env P) cfg s)"
    (is "ok ?good _")
proof -
  have o: "vars_sized (t :: 'c drive sys)" if "vars_sized t'" "omem t = omem t'" for t t'
    using vars_sized_cong [OF that(2)] that(1) by simp
  have reset: "ok (\<lambda>s'. vars_sized s' \<and> to_u8 (ALstatus s') = ESCinit \<and> MBXrun s' = 0 \<and> App_state s' = 0)
      (slv_reset (drive_env P) t)" if "vars_sized t" for t :: "'c drive sys"
    unfolding slv_reset_def using that
    by (auto simp: drive_options_def ESC_ALstatus_def al_view_def intro!: wp sm sized_stop [OF sm] drive_defaults o)
  obtain r ev c where p: "port_init P (chip (world s)) = (r, ev, c)" by (metis prod_cases3)
  define s0 where "s0 = ESC_config (drive_env P) cfg (s\<lparr>watchdog := cfg_watchdog_cnt cfg\<rparr>)"
  define t where "t = set_chip c ev s0"
  have w: "world s0 = world s" by (simp add: s0_def ESC_config_def Let_def)
  have t: "vars_sized t" by (rule o [OF assms(2)]) (simp add: t_def s0_def set_chip_def ESC_config_def Let_def)
  have e: "ecat_slv_init (drive_env P) cfg s = (if r \<noteq> 0 then Some (-1, t)
      else do {
        (up, s) \<leftarrow> wait_link (drive_env P) (DLSTATUS_WAIT_RETRIES drive_options) t;
        if \<not> up then Some (-1, s) else do { s \<leftarrow> slv_reset (drive_env P) s; Some (0, s) }
      })"
    by (simp add: ecat_slv_init_def Let_def s0_def [symmetric] w p t_def)
  show ?thesis
    unfolding e using t by (auto simp: p intro!: sized_wait ok_mono [OF reset])
qed

section \<open>Properties\<close>

text \<open>
  C8. The drive starts on every chip. From memory in which every variable has its size, \<open>main\<close>
  reaches its loop or ends with exit code 1, no handshake with the chip hangs, and the
  initialisation of the variables stays within every table of the dictionary; in the loop the
  state is INIT, mailboxes and process data are off and the variables have their sizes.
\<close>

theorem drive_starts:
  fixes P :: "'c esc_port"
  assumes "sm_follows (drive_env P)" and "\<forall>b. length (m b) = var_size b"
  shows "\<exists>r s. drive_main (drive_env P) [] (init_sys drive_options m w) = Some (r, s) \<and> r \<in> {0, 1} \<and>
    (\<forall>b. length (omem s b) = var_size b) \<and>
    (fst (port_init P (chip w)) \<noteq> 0 \<longrightarrow> r = 1) \<and>
    (r = 0 \<longrightarrow> to_u8 (ALstatus s) = ESCinit \<and> MBXrun s = 0 \<and> \<not> outputs_on s)"
proof -
  have "vars_sized (init_sys drive_options m w)" using assms(2) by (simp add: vars_sized_def init_sys_def)
  from sized_init [OF assms(1) this, of drive_cfg] obtain r s where i:
    "ecat_slv_init (drive_env P) drive_cfg (init_sys drive_options m w) = Some (r, s)" "vars_sized s"
    "fst (port_init P (chip w)) \<noteq> 0 \<longrightarrow> r \<noteq> 0"
    "r = 0 \<longrightarrow> to_u8 (ALstatus s) = ESCinit \<and> MBXrun s = 0 \<and> App_state s = 0"
    by (auto simp: ok_ex init_sys_def)
  then show ?thesis
    by (cases "r = 0") (auto simp: drive_main_def vars_sized_def outputs_on_def)
qed

theorem drive_starts_witness:
  "\<exists>r s. drive_main (drive_env ram_port) [] (init_sys drive_options zero_vars (drive_on (\<lambda>_. 0))) = Some (r, s) \<and> r \<in> {0, 1}"
  using drive_starts [OF sm_follows_drive_ram, of zero_vars "drive_on (\<lambda>_. 0)"] zero_vars_sized by blast



end
