(* ===== verification/Dyn_Dict.thy ===== *)
theory Dyn_Dict
  imports Drive_Obj Coe_Pdo
begin

text \<open>
  The object dictionary of the example with dynamic process data
  (\<open>applications/rtl_xmc4_dynpdo\<close>): the variables \<open>Obj\<close> of \<open>utypes.h\<close>, numbered, with their
  sizes, the arrays and the object list of \<open>slave_objectlist.c\<close> (with the suffix \<open>_dyn\<close>), and the
  options of \<open>ecat_options.h\<close>. The master may write the mappings \<open>0x1602\<close>, \<open>0x1A01\<close> and the
  assignments \<open>0x1C12\<close>, \<open>0x1C13\<close> in PREOP. An array member of \<open>Obj\<close> is one variable; the strings
  that entries point to are variables too.
\<close>

abbreviation (input) Dyn_serial :: nat where "Dyn_serial \<equiv> 0"
abbreviation (input) Dyn_Buttons_Button1 :: nat where "Dyn_Buttons_Button1 \<equiv> 1"
abbreviation (input) Dyn_LEDgroup0_LED0 :: nat where "Dyn_LEDgroup0_LED0 \<equiv> 2"
abbreviation (input) Dyn_LEDgroup1_LED1 :: nat where "Dyn_LEDgroup1_LED1 \<equiv> 3"
abbreviation (input) Dyn_Parameters_Multiplier :: nat where "Dyn_Parameters_Multiplier \<equiv> 4"
abbreviation (input) Dyn_variableRW :: nat where "Dyn_variableRW \<equiv> 5"
abbreviation (input) Dyn_ErrorSettings_Local_Error_Reaction :: nat where "Dyn_ErrorSettings_Local_Error_Reaction \<equiv> 6"
abbreviation (input) Dyn_ErrorSettings_SyncErrorCounterLimit :: nat where "Dyn_ErrorSettings_SyncErrorCounterLimit \<equiv> 7"
abbreviation (input) Dyn_SyncMgrParam_Sync_mode :: nat where "Dyn_SyncMgrParam_Sync_mode \<equiv> 8"
abbreviation (input) Dyn_SyncMgrParam_CycleTime :: nat where "Dyn_SyncMgrParam_CycleTime \<equiv> 9"
abbreviation (input) Dyn_SyncMgrParam_ShiftTime :: nat where "Dyn_SyncMgrParam_ShiftTime \<equiv> 10"
abbreviation (input) Dyn_SyncMgrParam_Sync_modes_supported :: nat where "Dyn_SyncMgrParam_Sync_modes_supported \<equiv> 11"
abbreviation (input) Dyn_SyncMgrParam_Minimum_Cycle_Time :: nat where "Dyn_SyncMgrParam_Minimum_Cycle_Time \<equiv> 12"
abbreviation (input) Dyn_SyncMgrParam_Calc_and_Copy_Time :: nat where "Dyn_SyncMgrParam_Calc_and_Copy_Time \<equiv> 13"
abbreviation (input) Dyn_SyncMgrParam_Minimum_Delay_Time :: nat where "Dyn_SyncMgrParam_Minimum_Delay_Time \<equiv> 14"
abbreviation (input) Dyn_SyncMgrParam_GetCycleTime :: nat where "Dyn_SyncMgrParam_GetCycleTime \<equiv> 15"
abbreviation (input) Dyn_SyncMgrParam_DelayTime :: nat where "Dyn_SyncMgrParam_DelayTime \<equiv> 16"
abbreviation (input) Dyn_SyncMgrParam_Sync0CycleTime :: nat where "Dyn_SyncMgrParam_Sync0CycleTime \<equiv> 17"
abbreviation (input) Dyn_SyncMgrParam_SMEventMissedCnt :: nat where "Dyn_SyncMgrParam_SMEventMissedCnt \<equiv> 18"
abbreviation (input) Dyn_SyncMgrParam_CycleTimeTooSmallCnt :: nat where "Dyn_SyncMgrParam_CycleTimeTooSmallCnt \<equiv> 19"
abbreviation (input) Dyn_SyncMgrParam_Shift_too_short_counter :: nat where "Dyn_SyncMgrParam_Shift_too_short_counter \<equiv> 20"
abbreviation (input) Dyn_SyncMgrParam_RxPDOToggleFailed :: nat where "Dyn_SyncMgrParam_RxPDOToggleFailed \<equiv> 21"
abbreviation (input) Dyn_SyncMgrParam_Minimum_Cycle_Distance :: nat where "Dyn_SyncMgrParam_Minimum_Cycle_Distance \<equiv> 22"
abbreviation (input) Dyn_SyncMgrParam_Maximum_Cycle_Distance :: nat where "Dyn_SyncMgrParam_Maximum_Cycle_Distance \<equiv> 23"
abbreviation (input) Dyn_SyncMgrParam_Minimum_SM_Sync_Distance :: nat where "Dyn_SyncMgrParam_Minimum_SM_Sync_Distance \<equiv> 24"
abbreviation (input) Dyn_SyncMgrParam_Maximum_SM_Sync_Distance :: nat where "Dyn_SyncMgrParam_Maximum_SM_Sync_Distance \<equiv> 25"
abbreviation (input) Dyn_SyncMgrParam_SyncError :: nat where "Dyn_SyncMgrParam_SyncError \<equiv> 26"
abbreviation (input) Dyn_PDO1A01_maxsub :: nat where "Dyn_PDO1A01_maxsub \<equiv> 27"
abbreviation (input) Dyn_PDO1A01_value :: nat where "Dyn_PDO1A01_value \<equiv> 28"
abbreviation (input) Dyn_PDO1602_maxsub :: nat where "Dyn_PDO1602_maxsub \<equiv> 29"
abbreviation (input) Dyn_PDO1602_value :: nat where "Dyn_PDO1602_value \<equiv> 30"
abbreviation (input) Dyn_SM1C12_maxsub :: nat where "Dyn_SM1C12_maxsub \<equiv> 31"
abbreviation (input) Dyn_SM1C12_value :: nat where "Dyn_SM1C12_value \<equiv> 32"
abbreviation (input) Dyn_SM1C13_maxsub :: nat where "Dyn_SM1C13_maxsub \<equiv> 33"
abbreviation (input) Dyn_SM1C13_value :: nat where "Dyn_SM1C13_value \<equiv> 34"
abbreviation (input) Dyn_Str_1008 :: nat where "Dyn_Str_1008 \<equiv> 35"
abbreviation (input) Dyn_Str_1009 :: nat where "Dyn_Str_1009 \<equiv> 36"
abbreviation (input) Dyn_Str_100A :: nat where "Dyn_Str_100A \<equiv> 37"

definition Dyn_sizes :: "nat list" where
  "Dyn_sizes = [4, 1, 1, 1, 4, 4, 4, 2, 2, 4, 4, 2, 4, 4, 4, 2, 4, 4, 2, 2, 2, 2, 4, 4, 4, 4, 1, 1, 32, 1, 32, 1, 32, 1, 32, 11, 4, 4]"

abbreviation (input) ATYPE_RWpre :: u16 where "ATYPE_RWpre \<equiv> 0x0F"
abbreviation (input) ATYPE_RXPDO :: u16 where "ATYPE_RXPDO \<equiv> 0x40"
abbreviation (input) ATYPE_TXPDO :: u16 where "ATYPE_TXPDO \<equiv> 0x80"

definition SDO1000_dyn :: "objd list" where
  "SDO1000_dyn = [
     obj_entry 0x0 DTYPE_UNSIGNED32 32 ATYPE_RO ''Device Type'' 0x00001389 None]"

definition SDO1008_dyn :: "objd list" where
  "SDO1008_dyn = [
     obj_entry 0x0 DTYPE_VISIBLE_STRING 80 ATYPE_RO ''Device Name'' 0 (Some (Obj Dyn_Str_1008, 0))]"

definition SDO1009_dyn :: "objd list" where
  "SDO1009_dyn = [
     obj_entry 0x0 DTYPE_VISIBLE_STRING 24 ATYPE_RO ''Hardware Version'' 0 (Some (Obj Dyn_Str_1009, 0))]"

definition SDO100A_dyn :: "objd list" where
  "SDO100A_dyn = [
     obj_entry 0x0 DTYPE_VISIBLE_STRING 24 ATYPE_RO ''Software Version'' 0 (Some (Obj Dyn_Str_100A, 0))]"

definition SDO1018_dyn :: "objd list" where
  "SDO1018_dyn = [
     obj_entry 0x00 DTYPE_UNSIGNED8 8 ATYPE_RO ''Max SubIndex'' 4 None,
     obj_entry 0x01 DTYPE_UNSIGNED32 32 ATYPE_RO ''Vendor ID'' 0x1337 None,
     obj_entry 0x02 DTYPE_UNSIGNED32 32 ATYPE_RO ''Product Code'' 0x4800 None,
     obj_entry 0x03 DTYPE_UNSIGNED32 32 ATYPE_RO ''Revision Number'' 0 None,
     obj_entry 0x04 DTYPE_UNSIGNED32 32 ATYPE_RO ''Serial Number'' 0x00000000 (Some (Obj Dyn_serial, 0))]"

definition SDO10F1_dyn :: "objd list" where
  "SDO10F1_dyn = [
     obj_entry 0x00 DTYPE_UNSIGNED8 8 ATYPE_RO ''Max SubIndex'' 2 None,
     obj_entry 0x01 DTYPE_UNSIGNED32 32 ATYPE_RW ''Local Error Reaction'' 0 (Some (Obj Dyn_ErrorSettings_Local_Error_Reaction, 0)),
     obj_entry 0x02 DTYPE_UNSIGNED16 16 ATYPE_RW ''SyncErrorCounterLimit'' 2 (Some (Obj Dyn_ErrorSettings_SyncErrorCounterLimit, 0))]"

definition SDO1600_dyn :: "objd list" where
  "SDO1600_dyn = [
     obj_entry 0x00 DTYPE_UNSIGNED8 8 ATYPE_RO ''Max SubIndex'' 1 None,
     obj_entry 0x01 DTYPE_UNSIGNED32 32 ATYPE_RO ''LED0'' 0x70000108 None]"

definition SDO1601_dyn :: "objd list" where
  "SDO1601_dyn = [
     obj_entry 0x00 DTYPE_UNSIGNED8 8 ATYPE_RO ''Max SubIndex'' 1 None,
     obj_entry 0x01 DTYPE_UNSIGNED32 32 ATYPE_RO ''LED1'' 0x70010108 None]"

definition SDO1602_dyn :: "objd list" where
  "SDO1602_dyn = [
     obj_entry 0x00 DTYPE_UNSIGNED8 8 ATYPE_RWpre ''Max SubIndex'' 8 (Some (Obj Dyn_PDO1602_maxsub, 0)),
     obj_entry 0x01 DTYPE_UNSIGNED32 32 ATYPE_RWpre ''PDO Entry 1602:01'' 0x00000000 (Some (Obj Dyn_PDO1602_value, 0)),
     obj_entry 0x02 DTYPE_UNSIGNED32 32 ATYPE_RWpre ''PDO Entry 1602:02'' 0x00000000 (Some (Obj Dyn_PDO1602_value, 4)),
     obj_entry 0x03 DTYPE_UNSIGNED32 32 ATYPE_RWpre ''PDO Entry 1602:03'' 0x00000000 (Some (Obj Dyn_PDO1602_value, 8)),
     obj_entry 0x04 DTYPE_UNSIGNED32 32 ATYPE_RWpre ''PDO Entry 1602:04'' 0x00000000 (Some (Obj Dyn_PDO1602_value, 12)),
     obj_entry 0x05 DTYPE_UNSIGNED32 32 ATYPE_RWpre ''PDO Entry 1602:05'' 0x00000000 (Some (Obj Dyn_PDO1602_value, 16)),
     obj_entry 0x06 DTYPE_UNSIGNED32 32 ATYPE_RWpre ''PDO Entry 1602:06'' 0x00000000 (Some (Obj Dyn_PDO1602_value, 20)),
     obj_entry 0x07 DTYPE_UNSIGNED32 32 ATYPE_RWpre ''PDO Entry 1602:07'' 0x00000000 (Some (Obj Dyn_PDO1602_value, 24)),
     obj_entry 0x08 DTYPE_UNSIGNED32 32 ATYPE_RWpre ''PDO Entry 1602:08'' 0x00000000 (Some (Obj Dyn_PDO1602_value, 28))]"

definition SDO1A00_dyn :: "objd list" where
  "SDO1A00_dyn = [
     obj_entry 0x00 DTYPE_UNSIGNED8 8 ATYPE_RO ''Max SubIndex'' 1 None,
     obj_entry 0x01 DTYPE_UNSIGNED32 32 ATYPE_RO ''Button1'' 0x60000108 None]"

definition SDO1A01_dyn :: "objd list" where
  "SDO1A01_dyn = [
     obj_entry 0x00 DTYPE_UNSIGNED8 8 ATYPE_RWpre ''Max SubIndex'' 8 (Some (Obj Dyn_PDO1A01_maxsub, 0)),
     obj_entry 0x01 DTYPE_UNSIGNED32 32 ATYPE_RWpre ''PDO Entry 1A01:01'' 0x00000000 (Some (Obj Dyn_PDO1A01_value, 0)),
     obj_entry 0x02 DTYPE_UNSIGNED32 32 ATYPE_RWpre ''PDO Entry 1A01:02'' 0x00000000 (Some (Obj Dyn_PDO1A01_value, 4)),
     obj_entry 0x03 DTYPE_UNSIGNED32 32 ATYPE_RWpre ''PDO Entry 1A01:03'' 0x00000000 (Some (Obj Dyn_PDO1A01_value, 8)),
     obj_entry 0x04 DTYPE_UNSIGNED32 32 ATYPE_RWpre ''PDO Entry 1A01:04'' 0x00000000 (Some (Obj Dyn_PDO1A01_value, 12)),
     obj_entry 0x05 DTYPE_UNSIGNED32 32 ATYPE_RWpre ''PDO Entry 1A01:05'' 0x00000000 (Some (Obj Dyn_PDO1A01_value, 16)),
     obj_entry 0x06 DTYPE_UNSIGNED32 32 ATYPE_RWpre ''PDO Entry 1A01:06'' 0x00000000 (Some (Obj Dyn_PDO1A01_value, 20)),
     obj_entry 0x07 DTYPE_UNSIGNED32 32 ATYPE_RWpre ''PDO Entry 1A01:07'' 0x00000000 (Some (Obj Dyn_PDO1A01_value, 24)),
     obj_entry 0x08 DTYPE_UNSIGNED32 32 ATYPE_RWpre ''PDO Entry 1A01:08'' 0x00000000 (Some (Obj Dyn_PDO1A01_value, 28))]"

definition SDO1C00_dyn :: "objd list" where
  "SDO1C00_dyn = [
     obj_entry 0x00 DTYPE_UNSIGNED8 8 ATYPE_RO ''Max SubIndex'' 4 None,
     obj_entry 0x01 DTYPE_UNSIGNED8 8 ATYPE_RO ''Communications Type SM0'' 1 None,
     obj_entry 0x02 DTYPE_UNSIGNED8 8 ATYPE_RO ''Communications Type SM1'' 2 None,
     obj_entry 0x03 DTYPE_UNSIGNED8 8 ATYPE_RO ''Communications Type SM2'' 3 None,
     obj_entry 0x04 DTYPE_UNSIGNED8 8 ATYPE_RO ''Communications Type SM3'' 4 None]"

definition SDO1C12_dyn :: "objd list" where
  "SDO1C12_dyn = [
     obj_entry 0x00 DTYPE_UNSIGNED8 8 ATYPE_RWpre ''Max SubIndex'' 8 (Some (Obj Dyn_SM1C12_maxsub, 0)),
     obj_entry 0x01 DTYPE_UNSIGNED16 16 ATYPE_RWpre ''PDO Mapping'' 0x1600 (Some (Obj Dyn_SM1C12_value, 0)),
     obj_entry 0x02 DTYPE_UNSIGNED16 16 ATYPE_RWpre ''PDO Mapping'' 0x1601 (Some (Obj Dyn_SM1C12_value, 4)),
     obj_entry 0x03 DTYPE_UNSIGNED16 16 ATYPE_RWpre ''SM Entry 1C12:03'' 0x0000 (Some (Obj Dyn_SM1C12_value, 8)),
     obj_entry 0x04 DTYPE_UNSIGNED16 16 ATYPE_RWpre ''SM Entry 1C12:04'' 0x0000 (Some (Obj Dyn_SM1C12_value, 12)),
     obj_entry 0x05 DTYPE_UNSIGNED16 16 ATYPE_RWpre ''SM Entry 1C12:05'' 0x0000 (Some (Obj Dyn_SM1C12_value, 16)),
     obj_entry 0x06 DTYPE_UNSIGNED16 16 ATYPE_RWpre ''SM Entry 1C12:06'' 0x0000 (Some (Obj Dyn_SM1C12_value, 20)),
     obj_entry 0x07 DTYPE_UNSIGNED16 16 ATYPE_RWpre ''SM Entry 1C12:07'' 0x0000 (Some (Obj Dyn_SM1C12_value, 24)),
     obj_entry 0x08 DTYPE_UNSIGNED16 16 ATYPE_RWpre ''SM Entry 1C12:08'' 0x0000 (Some (Obj Dyn_SM1C12_value, 28))]"

definition SDO1C13_dyn :: "objd list" where
  "SDO1C13_dyn = [
     obj_entry 0x00 DTYPE_UNSIGNED8 8 ATYPE_RWpre ''Max SubIndex'' 8 (Some (Obj Dyn_SM1C13_maxsub, 0)),
     obj_entry 0x01 DTYPE_UNSIGNED16 16 ATYPE_RWpre ''PDO Mapping'' 0x1A00 (Some (Obj Dyn_SM1C13_value, 0)),
     obj_entry 0x02 DTYPE_UNSIGNED16 16 ATYPE_RWpre ''SM Entry 1C13:02'' 0x0000 (Some (Obj Dyn_SM1C13_value, 4)),
     obj_entry 0x03 DTYPE_UNSIGNED16 16 ATYPE_RWpre ''SM Entry 1C13:03'' 0x0000 (Some (Obj Dyn_SM1C13_value, 8)),
     obj_entry 0x04 DTYPE_UNSIGNED16 16 ATYPE_RWpre ''SM Entry 1C13:04'' 0x0000 (Some (Obj Dyn_SM1C13_value, 12)),
     obj_entry 0x05 DTYPE_UNSIGNED16 16 ATYPE_RWpre ''SM Entry 1C13:05'' 0x0000 (Some (Obj Dyn_SM1C13_value, 16)),
     obj_entry 0x06 DTYPE_UNSIGNED16 16 ATYPE_RWpre ''SM Entry 1C13:06'' 0x0000 (Some (Obj Dyn_SM1C13_value, 20)),
     obj_entry 0x07 DTYPE_UNSIGNED16 16 ATYPE_RWpre ''SM Entry 1C13:07'' 0x0000 (Some (Obj Dyn_SM1C13_value, 24)),
     obj_entry 0x08 DTYPE_UNSIGNED16 16 ATYPE_RWpre ''SM Entry 1C13:08'' 0x0000 (Some (Obj Dyn_SM1C13_value, 28))]"

definition SDO1C32_dyn :: "objd list" where
  "SDO1C32_dyn = [
     obj_entry 0x00 DTYPE_UNSIGNED8 8 ATYPE_RO ''Max SubIndex'' 32 None,
     obj_entry 0x01 DTYPE_UNSIGNED16 16 ATYPE_RW ''Sync mode'' 0 (Some (Obj Dyn_SyncMgrParam_Sync_mode, 0)),
     obj_entry 0x02 DTYPE_UNSIGNED32 32 ATYPE_RO ''CycleTime'' 0 (Some (Obj Dyn_SyncMgrParam_CycleTime, 0)),
     obj_entry 0x03 DTYPE_UNSIGNED32 32 ATYPE_RO ''ShiftTime'' 0 (Some (Obj Dyn_SyncMgrParam_ShiftTime, 0)),
     obj_entry 0x04 DTYPE_UNSIGNED16 16 ATYPE_RO ''Sync modes supported'' 0 (Some (Obj Dyn_SyncMgrParam_Sync_modes_supported, 0)),
     obj_entry 0x05 DTYPE_UNSIGNED32 32 ATYPE_RO ''Minimum Cycle Time'' 125000 (Some (Obj Dyn_SyncMgrParam_Minimum_Cycle_Time, 0)),
     obj_entry 0x06 DTYPE_UNSIGNED32 32 ATYPE_RO ''Calc and Copy Time'' 0 (Some (Obj Dyn_SyncMgrParam_Calc_and_Copy_Time, 0)),
     obj_entry 0x07 DTYPE_UNSIGNED32 32 ATYPE_RO ''Minimum Delay Time'' 0 (Some (Obj Dyn_SyncMgrParam_Minimum_Delay_Time, 0)),
     obj_entry 0x08 DTYPE_UNSIGNED16 16 ATYPE_RO ''GetCycleTime'' 0 (Some (Obj Dyn_SyncMgrParam_GetCycleTime, 0)),
     obj_entry 0x09 DTYPE_UNSIGNED32 32 ATYPE_RO ''DelayTime'' 0 (Some (Obj Dyn_SyncMgrParam_DelayTime, 0)),
     obj_entry 0x0A DTYPE_UNSIGNED32 32 ATYPE_RO ''Sync0CycleTime'' 0 (Some (Obj Dyn_SyncMgrParam_Sync0CycleTime, 0)),
     obj_entry 0x0B DTYPE_UNSIGNED16 16 ATYPE_RO ''SMEventMissedCnt'' 0 (Some (Obj Dyn_SyncMgrParam_SMEventMissedCnt, 0)),
     obj_entry 0x0C DTYPE_UNSIGNED16 16 ATYPE_RO ''CycleTimeTooSmallCnt'' 0 (Some (Obj Dyn_SyncMgrParam_CycleTimeTooSmallCnt, 0)),
     obj_entry 0x0D DTYPE_UNSIGNED16 16 ATYPE_RO ''Shift too short counter'' 0 (Some (Obj Dyn_SyncMgrParam_Shift_too_short_counter, 0)),
     obj_entry 0x0E DTYPE_UNSIGNED16 16 ATYPE_RO ''RxPDOToggleFailed'' 0 (Some (Obj Dyn_SyncMgrParam_RxPDOToggleFailed, 0)),
     obj_entry 0x0F DTYPE_UNSIGNED32 32 ATYPE_RO ''Minimum Cycle Distance'' 0 (Some (Obj Dyn_SyncMgrParam_Minimum_Cycle_Distance, 0)),
     obj_entry 0x10 DTYPE_UNSIGNED32 32 ATYPE_RO ''Maximum Cycle Distance'' 0 (Some (Obj Dyn_SyncMgrParam_Maximum_Cycle_Distance, 0)),
     obj_entry 0x11 DTYPE_UNSIGNED32 32 ATYPE_RO ''Minimum SM Sync Distance'' 0 (Some (Obj Dyn_SyncMgrParam_Minimum_SM_Sync_Distance, 0)),
     obj_entry 0x12 DTYPE_UNSIGNED32 32 ATYPE_RO ''Maximum SM Sync Distance'' 0 (Some (Obj Dyn_SyncMgrParam_Maximum_SM_Sync_Distance, 0)),
     obj_entry 0x20 DTYPE_BOOLEAN 1 ATYPE_RO ''SyncError'' 0 (Some (Obj Dyn_SyncMgrParam_SyncError, 0))]"

definition SDO6000_dyn :: "objd list" where
  "SDO6000_dyn = [
     obj_entry 0x00 DTYPE_UNSIGNED8 8 ATYPE_RO ''Max SubIndex'' 1 None,
     obj_entry 0x01 DTYPE_UNSIGNED8 8 (ATYPE_RO OR ATYPE_TXPDO) ''Button1'' 0 (Some (Obj Dyn_Buttons_Button1, 0))]"

definition SDO7000_dyn :: "objd list" where
  "SDO7000_dyn = [
     obj_entry 0x00 DTYPE_UNSIGNED8 8 ATYPE_RO ''Max SubIndex'' 1 None,
     obj_entry 0x01 DTYPE_UNSIGNED8 8 (ATYPE_RO OR ATYPE_RXPDO) ''LED0'' 0 (Some (Obj Dyn_LEDgroup0_LED0, 0))]"

definition SDO7001_dyn :: "objd list" where
  "SDO7001_dyn = [
     obj_entry 0x00 DTYPE_UNSIGNED8 8 ATYPE_RO ''Max SubIndex'' 1 None,
     obj_entry 0x01 DTYPE_UNSIGNED8 8 (ATYPE_RO OR ATYPE_RXPDO) ''LED1'' 0 (Some (Obj Dyn_LEDgroup1_LED1, 0))]"

definition SDO8000_dyn :: "objd list" where
  "SDO8000_dyn = [
     obj_entry 0x00 DTYPE_UNSIGNED8 8 ATYPE_RO ''Max SubIndex'' 1 None,
     obj_entry 0x01 DTYPE_UNSIGNED32 32 ATYPE_RO ''Multiplier'' 0 (Some (Obj Dyn_Parameters_Multiplier, 0))]"

definition SDO8001_dyn :: "objd list" where
  "SDO8001_dyn = [
     obj_entry 0x0 DTYPE_UNSIGNED32 32 ATYPE_RW ''variableRW'' 0 (Some (Obj Dyn_variableRW, 0))]"

definition dyn_objects :: "objectlist list" where
  "dyn_objects = [
     obj_item 0x1000 OTYPE_VAR 0 ''Device Type'' SDO1000_dyn,
     obj_item 0x1008 OTYPE_VAR 0 ''Device Name'' SDO1008_dyn,
     obj_item 0x1009 OTYPE_VAR 0 ''Hardware Version'' SDO1009_dyn,
     obj_item 0x100A OTYPE_VAR 0 ''Software Version'' SDO100A_dyn,
     obj_item 0x1018 OTYPE_RECORD 4 ''Identity Object'' SDO1018_dyn,
     obj_item 0x10F1 OTYPE_RECORD 2 ''ErrorSettings'' SDO10F1_dyn,
     obj_item 0x1600 OTYPE_RECORD 1 ''RXPDO 1'' SDO1600_dyn,
     obj_item 0x1601 OTYPE_RECORD 1 ''RXPDO 2'' SDO1601_dyn,
     obj_item 0x1602 OTYPE_RECORD 8 ''RXPDO 3'' SDO1602_dyn,
     obj_item 0x1A00 OTYPE_RECORD 1 ''TXPDO 1'' SDO1A00_dyn,
     obj_item 0x1A01 OTYPE_RECORD 8 ''TXPDO 2'' SDO1A01_dyn,
     obj_item 0x1C00 OTYPE_ARRAY 4 ''Sync Manager Communication Type'' SDO1C00_dyn,
     obj_item 0x1C12 OTYPE_ARRAY 8 ''Sync Manager 2 PDO Assignment'' SDO1C12_dyn,
     obj_item 0x1C13 OTYPE_ARRAY 8 ''Sync Manager 3 PDO Assignment'' SDO1C13_dyn,
     obj_item 0x1C32 OTYPE_RECORD 19 ''SyncMgrParam'' SDO1C32_dyn,
     obj_item 0x6000 OTYPE_RECORD 1 ''Buttons'' SDO6000_dyn,
     obj_item 0x7000 OTYPE_RECORD 1 ''LEDgroup0'' SDO7000_dyn,
     obj_item 0x7001 OTYPE_RECORD 1 ''LEDgroup1'' SDO7001_dyn,
     obj_item 0x8000 OTYPE_RECORD 1 ''Parameters'' SDO8000_dyn,
     obj_item 0x8001 OTYPE_VAR 0 ''variableRW'' SDO8001_dyn,
     obj_item 0xFFFF 0xFF 0xFF [] []]"

text \<open>\<open>ecat_options.h\<close> over the defaults of \<open>options.h\<close>.\<close>

definition dyn_options :: options where
  "dyn_options = default_options\<lparr>
     USE_FOE := False, USE_EOE := False, MBXSIZE := 512, MBXSIZEBOOT := 512, MBXBUFFERS := 3,
     MBX0_sma := 0x1000, MBX0_sml := 512, MBX0_sme := 0x1000 + 512 - 1, MBX0_smc := 0x26,
     MBX1_sma := 0x1000 + 512, MBX1_sml := 512, MBX1_sme := 0x1000 + 512 + 512 - 1, MBX1_smc := 0x22,
     MBX0_sma_b := 0x1000, MBX0_sml_b := 512, MBX0_sme_b := 0x1000 + 512 - 1, MBX0_smc_b := 0x26,
     MBX1_sma_b := 0x1000 + 512, MBX1_sml_b := 512, MBX1_sme_b := 0x1000 + 512 + 512 - 1, MBX1_smc_b := 0x22,
     SM2_sma := 0x1400, SM2_smc := 0x64, SM2_act := 1,
     SM3_sma := 0x1A00, SM3_smc := 0x20, SM3_act := 1,
     MAX_MAPPINGS_SM2 := 10, MAX_MAPPINGS_SM3 := 9, MAX_RXPDO_SIZE := 512, MAX_TXPDO_SIZE := 512\<rparr>"

lemmas dyn_tables =
  SDO1000_dyn_def SDO1008_dyn_def SDO1009_dyn_def SDO100A_dyn_def SDO1018_dyn_def SDO10F1_dyn_def SDO1600_dyn_def SDO1601_dyn_def SDO1602_dyn_def SDO1A00_dyn_def SDO1A01_dyn_def SDO1C00_dyn_def SDO1C12_dyn_def SDO1C13_dyn_def SDO1C32_dyn_def SDO6000_dyn_def SDO7000_dyn_def SDO7001_dyn_def SDO8000_dyn_def SDO8001_dyn_def

end
