(* ===== verification/Dyn_App.thy ===== *)
theory Dyn_App
  imports Dyn_Dict Drive
begin

text \<open>
  The example with dynamic process data (\<open>applications/rtl_xmc4_dynpdo/main.c\<close>): callbacks,
  configuration and start. The board (\<open>bsp.h\<close>, the hardware layer and the EEPROM handler of
  its port) is not part of the repository and enters as a parameter.
\<close>

record 'c board = "'c esc_port" +
  gpio_button1 :: "'c \<Rightarrow> int \<times> 'c"
  gpio_led1 :: "u8 \<Rightarrow> 'c \<Rightarrow> 'c"
  gpio_led2 :: "u8 \<Rightarrow> 'c \<Rightarrow> 'c"
  board_eep_handler :: "'c sys \<Rightarrow> 'c sys option"

abbreviation (input) ESCREG_ALEVENT_WD :: u32 where "ESCREG_ALEVENT_WD \<equiv> 0x0040"

section \<open>Callbacks\<close>

definition dyn_update_txpdo :: "'c board \<Rightarrow> 'c sys \<Rightarrow> 'c sys" where
  "dyn_update_txpdo B s =
     (case gpio_button1 B (world s) of (v, c) \<Rightarrow> set_var Dyn_Buttons_Button1 [word_of_int v] (s\<lparr>world := c\<rparr>))"

definition dyn_apply_rxpdo :: "'c board \<Rightarrow> 'c sys \<Rightarrow> 'c sys" where
  "dyn_apply_rxpdo B s =
     (let c = gpio_led1 B (hd (omem s Dyn_LEDgroup0_LED0)) (world s);
          c = gpio_led2 B (hd (omem s Dyn_LEDgroup1_LED1)) c
      in s\<lparr>world := c\<rparr>)"

definition dyn_state_change :: "'w env \<Rightarrow> u8 \<times> u8 \<Rightarrow> 'w sys \<Rightarrow> 'w sys option" where
  "dyn_state_change E p s =
     (if fst p = SAFEOP_TO_OP then do {
        (m, s) \<leftarrow> ESC_ALeventmaskread E s;
        ESC_ALeventmaskwrite E (m OR ESCREG_ALEVENT_WD) s
      }
      else if fst p = PREOP_TO_SAFEOP then DIG_process E DIG_PROCESS_TXPDO_FLAG s
      else Some s)"

definition dyn_dc_checker :: "'w sys \<Rightarrow> u16 \<times> 'w sys" where
  "dyn_dc_checker s =
     (0, s\<lparr>dcsync := 1, synccounterlimit := rd16 (omem s Dyn_ErrorSettings_SyncErrorCounterLimit)\<rparr>)"

section \<open>Configuration\<close>

definition dyn_cfg :: esc_cfg where
  "dyn_cfg = \<lparr>cfg_use_interrupt = 1, cfg_watchdog_cnt = 2147483647, cfg_use_hw_watchdog = 0,
     cfg_skip_default_initialization = False\<rparr>"

text \<open>
  The environment without the hook for state changes, in which the hook runs, and with it. A hook
  of the environment always has a result: where \<open>dyn_state_change\<close> has none, the state is kept.
\<close>

definition dyn_base :: "'c board \<Rightarrow> 'c env" where
  "dyn_base B = \<lparr> opt = dyn_options, SDOobjects = dyn_objects,
     hal_read = port_read B, hal_write = port_write B,
     hal_init = (\<lambda>s. case port_init B (world s) of (r, ev, c) \<Rightarrow> (r, s\<lparr>world := c, ALevent := published ev s\<rparr>)),
     set_defaults_hook = None, pre_state_change_hook = None, post_state_change_hook = None,
     application_hook = None, safe_state_override = None,
     pre_object_download_hook = None, post_object_download_hook = None,
     pre_object_upload_hook = None, post_object_upload_hook = None,
     rxpdo_override = None, txpdo_override = None,
     esc_hw_interrupt_enable = Some (\<lambda>m s. case port_interrupt_enable B m (world s) of
       (ev, c) \<Rightarrow> s\<lparr>world := c, ALevent := published ev s\<rparr>),
     esc_hw_interrupt_disable = Some (\<lambda>m s. case port_interrupt_disable B m (world s) of
       (ev, c) \<Rightarrow> s\<lparr>world := c, ALevent := published ev s\<rparr>),
     esc_hw_eep_handler = Some (board_eep_handler B), esc_check_dc_handler = Some dyn_dc_checker,
     get_device_id = None, esc_hw_wait = None,
     cb_update_txpdo = dyn_update_txpdo B, cb_apply_rxpdo = dyn_apply_rxpdo B,
     EEP_read = (\<lambda>a n s. (-1, [], s)), EEP_write = (\<lambda>a bs s. (-1, s)), eep_reload_ptr = None,
     eoe_get_buffer = None, eoe_free_buffer = None, load_eth_settings = None,
     store_ethernet_settings = None, handle_recv_buffer = (\<lambda>p b s. s),
     fetch_send_buffer = (\<lambda>p b s. (0, b, s)), fragment_sent_event = None,
     foe_write_function = (\<lambda>f bs n s. (0, s)) \<rparr>"

definition dyn_env :: "'c board \<Rightarrow> 'c env" where
  "dyn_env B = (dyn_base B)\<lparr>post_state_change_hook := Some (\<lambda>p s.
     (p, case dyn_state_change (dyn_base B) p s of None \<Rightarrow> s | Some s \<Rightarrow> s))\<rparr>"

text \<open>\<open>main\<close> only starts the stack; tasks of the port run it from then on.\<close>

definition dyn_main :: "'c board \<Rightarrow> 'c sys \<Rightarrow> (int \<times> 'c sys) option" where
  "dyn_main B s = do { (r, s) \<leftarrow> ecat_slv_init (dyn_env B) dyn_cfg s; Some (0, s) }"

end
