(* ===== verification/Dyn_Props.thy ===== *)
theory Dyn_Props
  imports Dyn_App Data_Props
begin

text \<open>
  Process data that the master maps at run time: an assignment it wrote is laid out as it says,
  and the one thing that the stack does not check, an entry that has no variable.
\<close>

section \<open>The dictionary\<close>

definition dyn_indices :: "u16 list" where
  "dyn_indices = [0x1000, 0x1008, 0x1009, 0x100A, 0x1018, 0x10F1, 0x1600, 0x1601, 0x1602, 0x1A00, 0x1A01, 0x1C00,
    0x1C12, 0x1C13, 0x1C32, 0x6000, 0x7000, 0x7001, 0x8000, 0x8001, 0xFFFF]"

lemma dyn_length: "length dyn_objects = 21"
  by (simp add: dyn_objects_def cong: obj_item_cong)

lemma dyn_items:
  "dyn_objects ! 0 = obj_item 0x1000 OTYPE_VAR 0 ''Device Type'' SDO1000_dyn"
  "dyn_objects ! 8 = obj_item 0x1602 OTYPE_RECORD 8 ''RXPDO 3'' SDO1602_dyn"
  "dyn_objects ! 10 = obj_item 0x1A01 OTYPE_RECORD 8 ''TXPDO 2'' SDO1A01_dyn"
  "dyn_objects ! 12 = obj_item 0x1C12 OTYPE_ARRAY 8 ''Sync Manager 2 PDO Assignment'' SDO1C12_dyn"
  "dyn_objects ! 13 = obj_item 0x1C13 OTYPE_ARRAY 8 ''Sync Manager 3 PDO Assignment'' SDO1C13_dyn"
  "dyn_objects ! 15 = obj_item 0x6000 OTYPE_RECORD 1 ''Buttons'' SDO6000_dyn"
  "dyn_objects ! 16 = obj_item 0x7000 OTYPE_RECORD 1 ''LEDgroup0'' SDO7000_dyn"
  by (simp_all add: dyn_objects_def cong: obj_item_cong)

lemma dyn_at: "SDOobjects E = dyn_objects \<Longrightarrow> k < 21 \<Longrightarrow> obj_at E (int k) = Some (dyn_objects ! k)"
  by (simp add: obj_at_def at_def dyn_length)

lemma dyn_find:
  assumes "SDOobjects E = dyn_objects"
  shows "SDO_findobject E 0x1000 = Some 0" "SDO_findobject E 0x1602 = Some 8" "SDO_findobject E 0x1A01 = Some 10"
    "SDO_findobject E 0x1C12 = Some 12" "SDO_findobject E 0x1C13 = Some 13" "SDO_findobject E 0x6000 = Some 15"
    "SDO_findobject E 0x7000 = Some 16"
  using assms by (simp_all add: SDO_findobject_def dyn_objects_def cong: obj_item_cong)

section \<open>A mapping that the master wrote\<close>

text \<open>
  The master wrote the entries \<open>vs\<close> to the mapping object whose count and array are the
  variables \<open>cnt\<close> and \<open>arr\<close>, and made \<open>pdo\<close> the only object of the assignment with the variables
  \<open>smcnt\<close> and \<open>smarr\<close>.
\<close>

definition written :: "nat \<Rightarrow> nat \<Rightarrow> nat \<Rightarrow> nat \<Rightarrow> u16 \<Rightarrow> u32 list \<Rightarrow> 'w sys \<Rightarrow> bool" where
  "written cnt arr smcnt smarr pdo vs s \<longleftrightarrow>
     length vs \<le> 8 \<and> omem s cnt = [of_nat (length vs)] \<and>
     length (omem s arr) = 32 \<and> take (4 * length vs) (omem s arr) = concat (map le32 vs) \<and>
     omem s smcnt = [1] \<and> length (omem s smarr) = 32 \<and> take 2 (omem s smarr) = le16 pdo"

lemma words_at:
  assumes "take (4 * length vs) bs = concat (map le32 vs)" and "i < length vs"
  shows "take 4 (drop (4 * i) bs) = le32 (vs ! i)"
proof -
  have l: "length (le32 v) = 4" for v by (simp add: le32_def)
  have c: "take 4 (drop (4 * i) (concat (map le32 us))) = le32 (us ! i)" if "i < length us" for us i
    using that by (induction us arbitrary: i) (auto simp: l nth_Cons split: nat.split)
  have "take 4 (drop (4 * i) (take (4 * length vs) bs)) = take 4 (drop (4 * i) bs)"
    using assms(2) by (simp add: drop_take min_def)
  with c [OF assms(2)] assms(1) show ?thesis by simp
qed

text \<open>Reading the entries of such a table.\<close>

lemma written_values:
  assumes "length vs \<le> 8" "length bs = 32" "take (4 * length vs) bs = concat (map le32 vs)" "omem s arr = bs"
    and "\<forall>c < 8. map_option od_data (at ds (Suc c)) = Some (Some (Obj arr, 4 * c))"
  shows "those (map (\<lambda>c. do { d \<leftarrow> at ds c; obj_u32 d s }) [1..<length vs + 1]) = Some vs"
proof -
  have e: "(do { d \<leftarrow> at ds (Suc c); obj_u32 d s }) = Some (vs ! c)" if "c < length vs" for c
    using that assms(1,2) assms(5) [rule_format, of c] words_at [OF assms(3) that]
    by (auto simp: obj_u32_def mem_get_def get_bytes_def assms(4) simp del: rd32.simps)
  have "map (\<lambda>c. do { d \<leftarrow> at ds c; obj_u32 d s }) [1..<length vs + 1] = map Some vs"
    by (rule nth_equalityI) (simp_all add: e del: upt_Suc)
  moreover have "those (map Some us) = Some us" for us :: "u32 list"
    by (induction us) auto
  ultimately show ?thesis by simp
qed

lemma count_byte: "n \<le> 8 \<Longrightarrow> unat (of_nat n :: u8) = n \<and> (of_nat n :: u8) \<noteq> 255"
proof
  assume n: "n \<le> 8"
  then show e: "unat (of_nat n :: u8) = n" by (simp add: unat_of_nat take_bit_nat_eq_self)
  show "(of_nat n :: u8) \<noteq> 255"
  proof
    assume "(of_nat n :: u8) = 255"
    with e n show False by simp
  qed
qed

lemma all_less_eight: "(\<forall>c < 8. Q c) \<longleftrightarrow> Q 0 \<and> Q 1 \<and> Q 2 \<and> Q 3 \<and> Q 4 \<and> Q 5 \<and> Q 6 \<and> Q (7 :: nat)"
proof -
  have "c < 8 \<longleftrightarrow> c = 0 \<or> c = 1 \<or> c = 2 \<or> c = 3 \<or> c = 4 \<or> c = 5 \<or> c = 6 \<or> c = 7" for c :: nat by arith
  then show ?thesis by auto
qed

lemma dyn_lengths [simp]:
  "length SDO1602_dyn = 9" "length SDO1A01_dyn = 9" "length SDO1C12_dyn = 9" "length SDO1C13_dyn = 9"
  "SDO1602_dyn \<noteq> []" "SDO1A01_dyn \<noteq> []" "SDO1C12_dyn \<noteq> []" "SDO1C13_dyn \<noteq> []"
  by (simp_all add: SDO1602_dyn_def SDO1A01_dyn_def SDO1C12_dyn_def SDO1C13_dyn_def)

lemma dyn_rx_values:
  assumes E: "SDOobjects E = dyn_objects"
    and w: "written Dyn_PDO1602_maxsub Dyn_PDO1602_value Dyn_SM1C12_maxsub Dyn_SM1C12_value 0x1602 vs s"
  shows "pdo_values E s 0x1C12 = Some vs"
proof -
  note w' = w [unfolded written_def]
  have n: "unat (of_nat (length vs) :: u8) = length vs" "(of_nat (length vs) :: u8) \<noteq> 255"
    using w' count_byte by blast+
  have "those (map (\<lambda>c. do { d \<leftarrow> at SDO1602_dyn c; obj_u32 d s }) [1..<length vs + 1]) = Some vs"
    using w' by (intro written_values [where arr = Dyn_PDO1602_value and bs = "omem s Dyn_PDO1602_value"])
      (simp_all add: all_less_eight SDO1602_dyn_def at_def)
  moreover have "obj_u8 (SDO1602_dyn ! 0) s = Some (of_nat (length vs))" "obj_u8 (SDO1C12_dyn ! 0) s = Some 1"
    "obj_u16 (SDO1C12_dyn ! 1) s = Some 0x1602"
    using w' rd16_le16' [of "0x1602"]
    by (simp_all add: SDO1602_dyn_def SDO1C12_dyn_def obj_u8_def obj_u16_def mem_get_def get_bytes_def del: rd16_le16' rd16.simps)
  ultimately show ?thesis
    using n dyn_at [OF E, of 8] dyn_at [OF E, of 12]
    by (simp add: pdo_values_def object_values_def dyn_find [OF E] dyn_items at_def upt_rec)
qed

lemma dyn_tx_values:
  assumes E: "SDOobjects E = dyn_objects"
    and w: "written Dyn_PDO1A01_maxsub Dyn_PDO1A01_value Dyn_SM1C13_maxsub Dyn_SM1C13_value 0x1A01 vs s"
  shows "pdo_values E s 0x1C13 = Some vs"
proof -
  note w' = w [unfolded written_def]
  have n: "unat (of_nat (length vs) :: u8) = length vs" "(of_nat (length vs) :: u8) \<noteq> 255"
    using w' count_byte by blast+
  have "those (map (\<lambda>c. do { d \<leftarrow> at SDO1A01_dyn c; obj_u32 d s }) [1..<length vs + 1]) = Some vs"
    using w' by (intro written_values [where arr = Dyn_PDO1A01_value and bs = "omem s Dyn_PDO1A01_value"])
      (simp_all add: all_less_eight SDO1A01_dyn_def at_def)
  moreover have "obj_u8 (SDO1A01_dyn ! 0) s = Some (of_nat (length vs))" "obj_u8 (SDO1C13_dyn ! 0) s = Some 1"
    "obj_u16 (SDO1C13_dyn ! 1) s = Some 0x1A01"
    using w' rd16_le16' [of "0x1A01"]
    by (simp_all add: SDO1A01_dyn_def SDO1C13_dyn_def obj_u8_def obj_u16_def mem_get_def get_bytes_def del: rd16_le16' rd16.simps)
  ultimately show ?thesis
    using n dyn_at [OF E, of 10] dyn_at [OF E, of 13]
    by (simp add: pdo_values_def object_values_def dyn_find [OF E] dyn_items at_def upt_rec)
qed

lemma dyn_wf: "wf_dict dyn_objects"
  unfolding wf_dict_def
  by (rule exI [of _ "butlast dyn_objects"], rule exI [of _ "last dyn_objects"])
    (simp add: dyn_objects_def wf_object_def dyn_tables cong: obj_item_cong)

text \<open>On such a dictionary the search behind a mapping entry ends, for any index but that of the sentinel.\<close>

lemma map_target_total:
  assumes "wf_dict (SDOobjects E)" and "drop_bit 16 v \<noteq> 0xFFFF"
  shows "map_target E v \<noteq> None"
proof -
  have k: "to_u16 (drop_bit 16 v) \<noteq> 0xFFFF"
  proof
    assume "to_u16 (drop_bit 16 v) = 0xFFFF"
    then have "ucast (to_u16 (drop_bit 16 v)) = (0xFFFF :: u32)" by simp
    moreover have "ucast (to_u16 (drop_bit 16 v)) = drop_bit 16 v"
      by (rule bit_word_eqI) (auto simp: bit_simps dest: bit_imp_le_length)
    ultimately show False using assms(2) by simp
  qed
  let ?sub = "to_u8 (drop_bit 8 v) AND 0xFF"
  show ?thesis
    using wf_dict_sorted [OF assms(1)]
  proof (cases rule: SDO_findobject_result [where index = "to_u16 (drop_bit 16 v)"])
    case (found n)
    with wf_dict_in_tables [OF assms(1) k, of ?sub]
    have inside: "in_table (SDOobjects E ! n) ?sub" by (auto simp: in_tables_def)
    have "obj_at E (int n) = Some (SDOobjects E ! n)" using found(2) by (simp add: obj_at_def at_def)
    from this inside show ?thesis
      by (cases rule: SDO_findsubindex_result) (simp_all add: map_target_def found(1))
  next
    case missing
    then show ?thesis by (simp add: map_target_def)
  qed
qed

lemma entries_small:
  assumes "length vs \<le> 8" shows "sum_list (map entry_bits vs) \<le> 524272"
proof -
  have "entry_bits v \<le> 255" for v
    using word_and_le1 [of v "0xFF :: u32"] by (simp add: entry_bits_def word_le_nat_alt)
  then have "sum_list (map entry_bits vs) \<le> 255 * length vs"
    by (induction vs) (auto simp: add_mono)
  with assms show ?thesis by simp
qed

section \<open>A sample board\<close>

definition ram_board :: "ram board" where
  "ram_board = \<lparr>port_init = (\<lambda>c. (0, None, c)), port_read = ram_read, port_write = ram_write,
     port_interrupt_enable = (\<lambda>m c. (None, c)), port_interrupt_disable = (\<lambda>m c. (None, c)),
     port_wait_sync0 = (\<lambda>t c. (1, c)), gpio_button1 = (\<lambda>c. (1, c)), gpio_led1 = (\<lambda>v c. c),
     gpio_led2 = (\<lambda>v c. c), board_eep_handler = Some\<rparr>"

text \<open>The first LED mapped to the outputs, the device type to the inputs.\<close>

definition dyn_sample :: "ram sys" where
  "dyn_sample = init_sys dyn_options ((\<lambda>b. replicate (Dyn_sizes ! b) 0)
     (Dyn_PDO1602_maxsub := [1], Dyn_PDO1602_value := le32 0x70000108 @ replicate 28 0,
      Dyn_SM1C12_maxsub := [1], Dyn_SM1C12_value := le16 0x1602 @ replicate 30 0,
      Dyn_PDO1A01_maxsub := [1], Dyn_PDO1A01_value := le32 0x10000020 @ replicate 28 0,
      Dyn_SM1C13_maxsub := [1], Dyn_SM1C13_value := le16 0x1A01 @ replicate 30 0)) (\<lambda>_. 0)"

lemma board_written:
  "written Dyn_PDO1602_maxsub Dyn_PDO1602_value Dyn_SM1C12_maxsub Dyn_SM1C12_value 0x1602 [0x70000108] dyn_sample"
  "written Dyn_PDO1A01_maxsub Dyn_PDO1A01_value Dyn_SM1C13_maxsub Dyn_SM1C13_value 0x1A01 [0x10000020] dyn_sample"
  by (simp_all add: written_def dyn_sample_def init_sys_def le32_def le16_def)

lemma dyn_base_objects [simp]: "SDOobjects (dyn_base B) = dyn_objects"
  by (simp add: dyn_base_def)

lemma sample_map_targets:
  "map_target (dyn_base B) 0x70000108 = Some (Some (Some (16, 1)))" "map_target (dyn_base B) 0x10000020 = Some (Some (Some (0, 0)))"
  using dyn_at [OF dyn_base_objects [of B], of 16] dyn_at [OF dyn_base_objects [of B], of 0]
  by (simp_all add: map_target_def dyn_find SDO_findsubindex_def dyn_items search_sub_def at_def SDO7000_dyn_def SDO1000_dyn_def
      cong: obj_entry_cong)

lemma sample_constant:
  "mapped_objd (dyn_base B) 0x10000020 = Some (obj_entry 0 DTYPE_UNSIGNED32 32 ATYPE_RO ''Device Type'' 0x1389 None)"
  by (simp add: mapped_objd_def sample_map_targets map_objd_def at_def dyn_length dyn_items SDO1000_dyn_def cong: obj_entry_cong)

section \<open>Properties\<close>

text \<open>An entry with the index of the sentinel is searched for in the NULL table.\<close>

lemma sentinel_target:
  assumes "SDOobjects E = dyn_objects" and "drop_bit 16 v = 0xFFFF"
  shows "map_target E v = None"
proof -
  have "SDO_findobject E 0xFFFF = Some 20" "dyn_objects ! 20 = obj_item 0xFFFF 0xFF 0xFF [] []"
    using assms(1) by (simp_all add: SDO_findobject_def dyn_objects_def cong: obj_item_cong)
  moreover have "sub \<le> 0xFF" for sub :: u8
    using unat_bound [of sub] by (simp add: word_le_nat_alt)
  ultimately show ?thesis
    using dyn_at [OF assms(1), of 20]
    by (simp add: map_target_def assms(2) SDO_findsubindex_def search_sub_def)
qed

text \<open>
  C16. The master maps the outputs at run time. When it has written up to eight entries \<open>vs\<close> to
  \<open>0x1602\<close> and assigned that object: if every entry exists in the dictionary, the size of the outputs
  is the sum of their bits in bytes and the mapping takes them in order without gaps. Otherwise
  the first one that does not exist decides: with any index but \<open>0xFFFF\<close>, the assignment is refused
  with size 0 and -1 mappings; with the index \<open>0xFFFF\<close>, which is that of the sentinel, the search
  by subindex follows the NULL table of the sentinel and there is no result.
\<close>

theorem dynamic_mapping:
  assumes "SDOobjects E = dyn_objects" "length maps = 10"
    and "written Dyn_PDO1602_maxsub Dyn_PDO1602_value Dyn_SM1C12_maxsub Dyn_SM1C12_value 0x1602 vs s"
  shows "case dropWhile (\<lambda>v. \<exists>m. map_target E v = Some (Some m)) vs of
      [] \<Rightarrow> sizeOfPDO E 0x1C12 nm maps 10 s =
        Some (of_nat ((sum_list (map entry_bits vs) + 7) div 8), int (length vs), layout E 0 vs @ drop (length vs) maps)
    | v # _ \<Rightarrow> if drop_bit 16 v = 0xFFFF then sizeOfPDO E 0x1C12 nm maps 10 s = None
        else \<exists>maps'. sizeOfPDO E 0x1C12 nm maps 10 s = Some (0, -1, maps')"
proof -
  let ?ok = "\<lambda>v. \<exists>m. map_target E v = Some (Some m)"
  note vals = dyn_rx_values [OF assms(1,3)]
  have n: "length vs \<le> 8" using assms(3) by (simp add: written_def)
  note small = entries_small [OF n]
  show ?thesis
  proof (cases "dropWhile ?ok vs")
    case Nil
    then have "\<forall>v \<in> set vs. ?ok v" by (simp add: dropWhile_eq_Nil_conv)
    from sizeOfPDO_layout [OF vals _ this _ _ _ small, of 10 maps nm] n assms(2)
    have "sizeOfPDO E 0x1C12 nm maps 10 s =
        Some (of_nat ((sum_list (map entry_bits vs) + 7) div 8), int (length vs), layout E 0 vs @ drop (length vs) maps)"
      by simp
    then show ?thesis unfolding Nil by simp
  next
    case (Cons v rest)
    let ?good = "takeWhile ?ok vs"
    have vs: "vs = ?good @ v # rest" using takeWhile_dropWhile_id [of ?ok vs] Cons by simp
    have good: "\<forall>u \<in> set ?good. ?ok u" by (auto dest: set_takeWhileD)
    have bad: "\<not> ?ok v" using hd_dropWhile [of ?ok vs] Cons by simp
    have len: "length ?good < 10" "10 \<le> length maps"
      using arg_cong [OF vs, of length] n assms(2) by simp_all
    have "pdo_values E s 0x1C12 = Some (?good @ v # rest)" by (subst vs [symmetric]) (rule vals)
    note first = sizeOfPDO_first_bad [OF this _ good len, where nm = nm]
    show ?thesis
    proof (cases "drop_bit 16 v = 0xFFFF")
      case True
      with first(2) sentinel_target [OF assms(1) True] Cons show ?thesis by simp
    next
      case False
      have "map_target E v \<noteq> None"
        using map_target_total [of E v] dyn_wf False unfolding assms(1) by blast
      with bad have "map_target E v = Some None" by (metis option.exhaust)
      with first(1) False Cons show ?thesis by simp
    qed
  qed
qed

theorem dynamic_mapping_witness:
  "sizeOfPDO (dyn_base ram_board) 0x1C12 0 (replicate 10 smmap_zero) 10 dyn_sample =
    Some (1, 1, \<lparr>map_obj = Some (16, 1), map_offset = 0\<rparr> # drop 1 (replicate 10 smmap_zero))"
  using dynamic_mapping [OF dyn_base_objects _ board_written(1), of "replicate 10 smmap_zero" ram_board 0]
  by (simp add: sample_map_targets entry_bits_def)

text \<open>An entry without a variable cannot be packed.\<close>

lemma pack_constant:
  assumes "mapped_objd E v = Some d" "od_data d = None" "v \<in> set vs"
  shows "pack_entries E (layout E off vs) s buf = None"
  using assms(3)
proof (induction vs arbitrary: off buf)
  case (Cons u us)
  have "pack_entry E \<lparr>map_obj = the (the (map_target E v)), map_offset = o'\<rparr> s b = None" for o' b
    using assms(1,2)
    by (auto simp: mapped_objd_def map_objd_def pack_entry_def COE_getValue_def bind_eq_None_conv
        split: option.splits Option.bind_splits)
  with Cons show ?case
    by (cases "pack_entry E \<lparr>map_obj = the (the (map_target E u)), map_offset = of_nat off\<rparr> s buf") auto
qed simp

text \<open>
  C17. The stack does not ask whether a mapped entry has a variable. The master writes to
  \<open>0x1A01\<close> an entry that exists in the dictionary but is a constant without a data pointer (such
  as the device type, \<open>0x10000020\<close>): the assignment is accepted, and the callback that
  sends the first inputs on the way to SAFEOP follows the NULL pointer.
\<close>

theorem constant_mapping_accepted:
  assumes "length maps = 9" "v \<in> set vs" "mapped_objd (dyn_base B) v = Some d" "od_data d = None"
    and "\<forall>v \<in> set vs. \<exists>m. map_target (dyn_base B) v = Some (Some m)"
    and "written Dyn_PDO1A01_maxsub Dyn_PDO1A01_value Dyn_SM1C13_maxsub Dyn_SM1C13_value 0x1A01 vs s"
  shows "\<exists>size maps'. sizeOfPDO (dyn_base B) 0x1C13 nm maps 9 s = Some (size, int (length vs), maps') \<and>
    (\<forall>t. sm3mappings t = int (length vs) \<and> SMmap3 t = maps' \<and> App_state t > 0 \<longrightarrow>
       dyn_state_change (dyn_base B) (PREOP_TO_SAFEOP, an) t = None)"
proof -
  let ?E = "dyn_base B"
  have E: "SDOobjects ?E = dyn_objects" "opt ?E = dyn_options" "txpdo_override ?E = None" "cb_update_txpdo ?E = dyn_update_txpdo B"
    by (simp_all add: dyn_base_def)
  have n: "length vs \<le> 8" using assms(6) by (simp add: written_def)
  have fit: "sizeOfPDO ?E 0x1C13 nm maps 9 s =
      Some (of_nat ((sum_list (map entry_bits vs) + 7) div 8), int (length vs), layout ?E 0 vs @ drop (length vs) maps)"
    using n assms(1) by (intro sizeOfPDO_layout [OF dyn_tx_values [OF E(1) assms(6)] _ assms(5)] entries_small) simp_all
  have "dyn_state_change ?E (PREOP_TO_SAFEOP, an) t = None"
    if t: "sm3mappings t = int (length vs)" "SMmap3 t = layout ?E 0 vs @ drop (length vs) maps" "App_state t > 0" for t
  proof -
    obtain c m where u: "dyn_update_txpdo B t = t\<lparr>world := c, omem := m\<rparr>"
      by (cases "gpio_button1 B (world t)") (auto simp: dyn_update_txpdo_def set_var_def)
    have "COE_pdoPack ?E (txpdo t) (int (length vs)) (layout ?E 0 vs @ drop (length vs) maps) (t\<lparr>world := c, omem := m\<rparr>) = None"
      using pack_constant [OF assms(3,4,2)] by (simp add: COE_pdoPack_def)
    then show ?thesis
      using t by (simp add: dyn_state_change_def DIG_process_def dig_inputs_def txpdo_write_sm3_def E u dyn_options_def)
  qed
  with fit show ?thesis by blast
qed

theorem constant_mapping_accepted_witness:
  "\<exists>size maps'. sizeOfPDO (dyn_base ram_board) 0x1C13 0 (replicate 9 smmap_zero) 9 dyn_sample = Some (size, 1, maps') \<and>
    dyn_state_change (dyn_base ram_board) (PREOP_TO_SAFEOP, 4) (dyn_sample\<lparr>sm3mappings := 1, SMmap3 := maps', App_state := 1\<rparr>) = None"
proof -
  obtain size maps' where "sizeOfPDO (dyn_base ram_board) 0x1C13 0 (replicate 9 smmap_zero) 9 dyn_sample = Some (size, 1, maps')"
    and crash: "\<forall>t. sm3mappings t = int (length [0x10000020 :: u32]) \<and> SMmap3 t = maps' \<and> App_state t > 0 \<longrightarrow>
      dyn_state_change (dyn_base ram_board) (PREOP_TO_SAFEOP, 4) t = None"
    using constant_mapping_accepted [OF _ _ sample_constant _ _ board_written(2), of "replicate 9 smmap_zero" ram_board 0 4]
    by (auto simp: sample_map_targets)
  moreover have "dyn_state_change (dyn_base ram_board) (PREOP_TO_SAFEOP, 4)
      (dyn_sample\<lparr>sm3mappings := 1, SMmap3 := maps', App_state := 1\<rparr>) = None"
    by (rule crash [rule_format]) simp
  ultimately show ?thesis by blast
qed

end
